(* ===== verification/Prelude.thy ===== *)
theory Prelude
  imports Main
begin

text \<open>
  Shared vocabulary of the development: identifiers and instants, the error values every
  operation can return, tables of rows as PostgreSQL keeps them (with primary keys), the
  machine integers of Go and the column types of the database, and the lemma collections
  the component theories extend.

  \<^item> \<open>uuid\<close> stands for \<^verbatim>\<open>uuid.UUID\<close>. The program compares identifiers for equality and,
    in \<^verbatim>\<open>ORDER BY id\<close>, for order; \<open>uuid_Nil\<close> is \<^verbatim>\<open>uuid.Nil\<close>.
  \<^item> \<open>time\<close> stands for \<^verbatim>\<open>time.Time\<close>, an instant counted from Go's zero time, so that
    \<^verbatim>\<open>t.IsZero()\<close> is \<open>t = 0\<close>.
  \<^item> \<open>env\<close> holds what a call reads from outside: the clock and the identifiers that
    successive calls of \<^verbatim>\<open>uuid.New()\<close> return while the operation runs.
\<close>

named_theorems table_simps
named_theorems guard_elims

section \<open>Identifiers, instants and errors\<close>

type_synonym uuid = nat
type_synonym time = int

definition uuid_Nil :: uuid where
  "uuid_Nil = 0"

abbreviation day_micros :: int where "day_micros \<equiv> 86400000000"

record env =
  now :: time
  fresh :: "nat \<Rightarrow> uuid"

text \<open>
  The sentinels of \<^verbatim>\<open>internal/domain/errors.go\<close>. A \<^verbatim>\<open>BizError\<close> is a sentinel with a message
  for the reader; only the sentinel decides the HTTP status and the branch a caller takes,
  so the message is left out. Errors of the database driver carry the SQLSTATE class that
  raised them.
\<close>

datatype sentinel =
    ErrNotFound
  | ErrConflict
  | ErrInvalidInput
  | ErrInsufficientStock
  | ErrInvalidTransition
  | ErrAreaConservation
  | ErrAlreadyFinalized
  | ErrPreconditionFailed

datatype sqlstate =
    UniqueViolation
  | ForeignKeyViolation
  | CheckViolation
  | NumericOutOfRange
  | StringTruncation
  | InvalidTextRepresentation
  | UndefinedColumn
  | FeatureNotSupported

datatype error = Biz sentinel | Pg sqlstate | ErrInvalidCursor

type_synonym 'a result = "error + 'a"

text \<open>
  An operation on a database \<open>'s\<close> returns its result and the database it leaves: several
  statements run outside a transaction in places, so an error can leave earlier writes
  behind, and the model must say so.
\<close>

type_synonym ('s, 'a) op = "'s \<Rightarrow> 'a result \<times> 's"

definition ok :: "('a result \<times> 's) \<Rightarrow> bool" where
  "ok r \<longleftrightarrow> (\<exists>a. fst r = Inr a)"

lemma ok_simps [simp]:
  "ok (Inr a, s)"
  "\<not> ok (Inl e, s)"
  by (simp_all add: ok_def)

lemma map_sum_id_iff [simp]:
  "map_sum id f x = Inr y \<longleftrightarrow> (\<exists>z. x = Inr z \<and> y = f z)"
  "map_sum id f x = Inl e \<longleftrightarrow> x = Inl e"
  by (cases x; auto)+

text \<open>Reading a concrete run off its result.\<close>

lemma run_pair: "s' = snd p \<Longrightarrow> p = (fst p, s')"
  by simp

lemma run_eq: "db' = fst (snd p) \<Longrightarrow> p = (fst p, db', snd (snd p))"
  by simp

lemma run_ok: "\<not> isl (fst p) \<Longrightarrow> \<exists>a db x. p = (Inr a, (db, x))"
  by (metis prod.collapse sum.collapse(2))

section \<open>Text\<close>

text \<open>
  Texts are ASCII, where \<^verbatim>\<open>strings.TrimSpace\<close> and \<^verbatim>\<open>strings.ToUpper\<close> are the functions below and
  \<^verbatim>\<open>utf8.RuneCountInString\<close> is the length.
\<close>

definition is_space :: "char \<Rightarrow> bool" where
  "is_space c \<longleftrightarrow> of_char c \<in> {9, 10, 11, 12, 13, 32 :: nat}"

definition TrimSpace :: "string \<Rightarrow> string" where
  "TrimSpace s = rev (dropWhile is_space (rev (dropWhile is_space s)))"

definition upper :: "char \<Rightarrow> char" where
  "upper c = (if 97 \<le> (of_char c :: nat) \<and> of_char c \<le> (122 :: nat) then char_of (of_char c - 32 :: nat) else c)"

definition ToUpper :: "string \<Rightarrow> string" where
  "ToUpper s = map upper s"

section \<open>Machine integers and column types\<close>

text \<open>
  Go's \<^verbatim>\<open>int\<close> and \<^verbatim>\<open>int64\<close> are 64-bit two's complement and wrap around. An \<^verbatim>\<open>INT\<close> column
  holds 32 bits and a \<^verbatim>\<open>BIGINT\<close> column 64; the database refuses a value outside the range.
\<close>

definition i64 :: "int \<Rightarrow> int" where
  "i64 x = (x + 2 ^ 63) mod 2 ^ 64 - 2 ^ 63"

definition in_i64 :: "int \<Rightarrow> bool" where
  "in_i64 x \<longleftrightarrow> - (2 ^ 63) \<le> x \<and> x < 2 ^ 63"

definition in_int4 :: "int \<Rightarrow> bool" where
  "in_int4 x \<longleftrightarrow> - (2 ^ 31) \<le> x \<and> x < 2 ^ 31"

lemma i64_in_range [simp]: "in_i64 x \<Longrightarrow> i64 x = x"
  unfolding i64_def in_i64_def by (subst mod_pos_pos_trivial) auto

lemma i64_bounds: "in_i64 (i64 x)"
  unfolding i64_def in_i64_def using pos_mod_bound [of "2 ^ 64" "x + 2 ^ 63"]
    pos_mod_sign [of "2 ^ 64" "x + 2 ^ 63"] by simp

lemma i64_add_left: "i64 (i64 a + b) = i64 (a + b)"
proof -
  have "((a + 2 ^ 63) mod 2 ^ 64 - 2 ^ 63 + b + 2 ^ 63) mod 2 ^ 64 = ((a + 2 ^ 63) mod 2 ^ 64 + b) mod 2 ^ 64"
    by (rule arg_cong [where f = "\<lambda>x. x mod 2 ^ 64"]) simp
  also have "\<dots> = (a + b + 2 ^ 63) mod 2 ^ 64"
    by (subst mod_add_left_eq) (simp add: algebra_simps)
  finally show ?thesis by (simp add: i64_def)
qed

lemma i64_add_right: "i64 (a + i64 b) = i64 (a + b)"
  using i64_add_left [of b a] by (simp add: add.commute)

lemma i64_idem: "i64 (i64 a) = i64 a"
  using i64_add_left [of a 0] by simp

lemmas i64_arith = i64_add_left i64_add_right i64_idem

lemma in_int4_mult:
  assumes "in_int4 a" and "in_int4 b" and "0 < a" and "0 < b"
  shows "0 < a * b" and "a * b < 2 ^ 62"
proof -
  show "0 < a * b" using assms by simp
  have "a * b \<le> (2 ^ 31 - 1) * (2 ^ 31 - 1)"
    using assms by (intro mult_mono) (auto simp: in_int4_def)
  then show "a * b < 2 ^ 62" by simp
qed

text \<open>Go's \<open>/\<close> on integers truncates towards zero; Isabelle's \<open>div\<close> rounds down.\<close>

definition quot :: "int \<Rightarrow> int \<Rightarrow> int" where
  "quot a b = sgn a * sgn b * (\<bar>a\<bar> div \<bar>b\<bar>)"

lemma quot_nonneg: "0 \<le> a \<Longrightarrow> 0 < b \<Longrightarrow> quot a b = a div b"
  by (cases "a = 0") (auto simp: quot_def)

section \<open>Tables\<close>

text \<open>
  A table is the list of its rows in insertion order. Each has a primary key column, read by
  \<open>k\<close>: an \<^verbatim>\<open>INSERT\<close> of a key that exists is refused with SQLSTATE 23505.
\<close>

definition row_by :: "('r \<Rightarrow> uuid) \<Rightarrow> uuid \<Rightarrow> 'r list \<Rightarrow> 'r option" where
  "row_by k i t = find (\<lambda>r. k r = i) t"

definition select_where :: "('r \<Rightarrow> bool) \<Rightarrow> 'r list \<Rightarrow> 'r list" where
  "select_where P t = filter P t"

definition count_where :: "('r \<Rightarrow> bool) \<Rightarrow> 'r list \<Rightarrow> nat" where
  "count_where P t = length (filter P t)"

definition sum_where :: "('r \<Rightarrow> int) \<Rightarrow> ('r \<Rightarrow> bool) \<Rightarrow> 'r list \<Rightarrow> int" where
  "sum_where f P t = sum_list (map f (filter P t))"

definition update_where :: "('r \<Rightarrow> bool) \<Rightarrow> ('r \<Rightarrow> 'r) \<Rightarrow> 'r list \<Rightarrow> 'r list" where
  "update_where P f t = map (\<lambda>r. if P r then f r else r) t"

definition delete_where :: "('r \<Rightarrow> bool) \<Rightarrow> 'r list \<Rightarrow> 'r list" where
  "delete_where P t = filter (\<lambda>r. \<not> P r) t"

definition insert_row :: "('r \<Rightarrow> uuid) \<Rightarrow> 'r \<Rightarrow> 'r list \<Rightarrow> 'r list result" where
  "insert_row k r t = (if k r \<in> set (map k t) then Inl (Pg UniqueViolation) else Inr (t @ [r]))"

text \<open>
  A statement fails when a column's type or a constraint refuses the row; \<open>chk\<close> names the
  first such failure. A batch of \<^verbatim>\<open>INSERT\<close>s runs in one implicit transaction: all rows or
  none.
\<close>

definition insert_checked ::
  "('r \<Rightarrow> error option) \<Rightarrow> ('r \<Rightarrow> uuid) \<Rightarrow> 'r \<Rightarrow> 'r list \<Rightarrow> 'r list result" where
  "insert_checked chk k r t = (case chk r of Some e \<Rightarrow> Inl e | None \<Rightarrow> insert_row k r t)"

fun insert_batch ::
  "('r \<Rightarrow> error option) \<Rightarrow> ('r \<Rightarrow> uuid) \<Rightarrow> 'r list \<Rightarrow> 'r list \<Rightarrow> 'r list result" where
  "insert_batch chk k [] t = Inr t"
| "insert_batch chk k (r # rs) t =
     (case insert_checked chk k r t of Inl e \<Rightarrow> Inl e | Inr t' \<Rightarrow> insert_batch chk k rs t')"

text \<open>A nullable foreign key holds when it is \<^verbatim>\<open>NULL\<close> or names a key.\<close>

definition opt_ref :: "uuid option \<Rightarrow> uuid list \<Rightarrow> bool" where
  "opt_ref v ks \<longleftrightarrow> (case v of None \<Rightarrow> True | Some i \<Rightarrow> i \<in> set ks)"

abbreviation keys_distinct :: "('r \<Rightarrow> uuid) \<Rightarrow> 'r list \<Rightarrow> bool" where
  "keys_distinct k t \<equiv> distinct (map k t)"

subsection \<open>Lookup\<close>

lemma row_by_Nil [simp]: "row_by k i [] = None"
  by (simp add: row_by_def)

lemma row_by_Cons [simp]: "row_by k i (r # t) = (if k r = i then Some r else row_by k i t)"
  by (simp add: row_by_def)

lemma row_by_SomeD: "row_by k i t = Some r \<Longrightarrow> r \<in> set t \<and> k r = i"
  by (auto simp: row_by_def find_Some_iff)

lemma row_by_None_iff: "row_by k i t = None \<longleftrightarrow> i \<notin> k ` set t"
  by (auto simp: row_by_def find_None_iff)

lemma row_by_append [simp]:
  "row_by k i (t @ u) = (case row_by k i t of None \<Rightarrow> row_by k i u | Some r \<Rightarrow> Some r)"
  by (induction t) auto

lemma row_by_eq_SomeI:
  "keys_distinct k t \<Longrightarrow> r \<in> set t \<Longrightarrow> row_by k (k r) t = Some r"
  by (induction t) (auto simp: rev_image_eqI)

lemma row_by_Some_iff:
  "keys_distinct k t \<Longrightarrow> row_by k i t = Some r \<longleftrightarrow> r \<in> set t \<and> k r = i"
  by (metis row_by_SomeD row_by_eq_SomeI)

lemma row_by_only: "keys_distinct k t \<Longrightarrow> row_by k i t = Some r \<Longrightarrow> x \<in> set t \<Longrightarrow> k x = i \<longleftrightarrow> x = r"
  by (metis option.inject row_by_SomeD row_by_eq_SomeI)

subsection \<open>Update\<close>

lemma update_where_Nil [simp]: "update_where P f [] = []"
  by (simp add: update_where_def)

lemma update_where_Cons [simp]:
  "update_where P f (r # t) = (if P r then f r else r) # update_where P f t"
  by (simp add: update_where_def)

lemma length_update_where [simp]: "length (update_where P f t) = length t"
  by (simp add: update_where_def)

lemma set_update_where: "set (update_where P f t) = (\<lambda>r. if P r then f r else r) ` set t"
  by (simp add: update_where_def)

lemma in_update_whereE:
  assumes "r' \<in> set (update_where P f t)"
  obtains r where "r \<in> set t" and "r' = (if P r then f r else r)"
  using assms by (auto simp: set_update_where)

lemma in_update_whereI: "r \<in> set t \<Longrightarrow> P r \<Longrightarrow> f r \<in> set (update_where P f t)"
  by (force simp: set_update_where)

lemma map_update_where:
  "(\<And>r. g (f r) = g r) \<Longrightarrow> map g (update_where P f t) = map g t"
  by (simp add: update_where_def)

lemma row_by_update_where:
  "(\<And>r. k (f r) = k r) \<Longrightarrow>
   row_by k i (update_where P f t) = map_option (\<lambda>r. if P r then f r else r) (row_by k i t)"
  by (induction t) auto

lemma update_where_id_other: "(\<And>r. r \<in> set t \<Longrightarrow> \<not> P r) \<Longrightarrow> update_where P f t = t"
  by (induction t) auto

subsection \<open>Insert\<close>

lemma insert_row_Inr_iff [simp]:
  "insert_row k r t = Inr t' \<longleftrightarrow> k r \<notin> k ` set t \<and> t' = t @ [r]"
  by (auto simp: insert_row_def)

lemma insert_row_Inl_iff [simp]:
  "insert_row k r t = Inl e \<longleftrightarrow> k r \<in> k ` set t \<and> e = Pg UniqueViolation"
  by (auto simp: insert_row_def)

lemma insert_row_keys: "keys_distinct k t \<Longrightarrow> insert_row k r t = Inr t' \<Longrightarrow> keys_distinct k t'"
  by auto

lemma insert_checked_Inr_iff [simp]:
  "insert_checked chk k r t = Inr t' \<longleftrightarrow> chk r = None \<and> k r \<notin> k ` set t \<and> t' = t @ [r]"
  by (auto simp: insert_checked_def split: option.splits)

lemma insert_batch_Inr:
  "insert_batch chk k rs t = Inr t' \<Longrightarrow>
     t' = t @ rs \<and> (\<forall>r \<in> set rs. chk r = None) \<and> (keys_distinct k t \<longrightarrow> keys_distinct k t')"
  by (induction rs arbitrary: t) (fastforce split: sum.splits)+

lemma insert_batch_ok:
  "(\<And>r. r \<in> set rs \<Longrightarrow> chk r = None) \<Longrightarrow> distinct (map k rs) \<Longrightarrow> k ` set rs \<inter> k ` set t = {} \<Longrightarrow>
   insert_batch chk k rs t = Inr (t @ rs)"
proof (induction rs arbitrary: t)
  case Nil
  then show ?case by simp
next
  case (Cons r rs)
  then have "insert_checked chk k r t = Inr (t @ [r])" by (auto simp: insert_checked_def)
  moreover have "insert_batch chk k rs (t @ [r]) = Inr ((t @ [r]) @ rs)"
    using Cons.prems by (intro Cons.IH) auto
  ultimately show ?case by (simp del: insert_checked_Inr_iff)
qed

subsection \<open>Aggregates\<close>

lemma count_where_simps [simp]:
  "count_where P [] = 0"
  "count_where P (r # t) = (if P r then Suc (count_where P t) else count_where P t)"
  "count_where P (t @ u) = count_where P t + count_where P u"
  by (simp_all add: count_where_def)

lemma sum_where_simps [simp]:
  "sum_where f P [] = 0"
  "sum_where f P (r # t) = (if P r then f r + sum_where f P t else sum_where f P t)"
  "sum_where f P (t @ u) = sum_where f P t + sum_where f P u"
  by (simp_all add: sum_where_def)

lemma sum_where_nonneg: "(\<And>r. r \<in> set t \<Longrightarrow> 0 \<le> f r) \<Longrightarrow> 0 \<le> sum_where f P t"
  by (induction t) auto

lemma sum_where_cong:
  "(\<And>r. r \<in> set t \<Longrightarrow> P r = Q r) \<Longrightarrow> (\<And>r. r \<in> set t \<Longrightarrow> Q r \<Longrightarrow> f r = g r) \<Longrightarrow>
   sum_where f P t = sum_where g Q t"
  by (induction t) auto

lemma sum_where_none: "(\<And>r. r \<in> set t \<Longrightarrow> \<not> P r) \<Longrightarrow> sum_where f P t = 0"
  by (induction t) auto

lemma count_where_zero_iff: "count_where P t = 0 \<longleftrightarrow> (\<forall>r \<in> set t. \<not> P r)"
  by (induction t) auto

lemma count_where_update:
  "count_where Q (update_where P f t) = count_where (\<lambda>r. Q (if P r then f r else r)) t"
  by (induction t) auto

lemma sum_where_key:
  "keys_distinct k t \<Longrightarrow> row_by k i t = Some r \<Longrightarrow> sum_where f (\<lambda>x. k x = i) t = f r"
proof (induction t)
  case (Cons a t)
  have "sum_where f (\<lambda>x. k x = i) t = 0" if "k a = i"
    using Cons.prems(1) that by (intro sum_where_none) (metis distinct.simps(2) image_eqI list.set_map list.simps(9))
  with Cons show ?case by (auto split: if_splits)
qed simp

text \<open>Updating the one row that has a key changes a sum by that row's contribution.\<close>

lemma sum_where_update_key:
  assumes "keys_distinct k t" and "row_by k i t = Some r" and "\<And>x. k (u x) = k x"
  shows "sum_where f P (update_where (\<lambda>x. k x = i) u t) =
    sum_where f P t - (if P r then f r else 0) + (if P (u r) then f (u r) else 0)"
  using assms
proof (induction t)
  case Nil
  then show ?case by simp
next
  case (Cons a t)
  show ?case
  proof (cases "k a = i")
    case True
    then have "update_where (\<lambda>x. k x = i) u t = t"
      using Cons.prems(1) by (intro update_where_id_other) (auto simp: image_iff)
    with True Cons.prems(2) show ?thesis by simp
  next
    case False
    with Cons show ?thesis by simp
  qed
qed

text \<open>Rewriting every row of a table.\<close>

lemma count_where_map: "count_where P (map g t) = count_where (P \<circ> g) t"
  by (induction t) auto

lemma sum_where_map: "sum_where f P (map g t) = sum_where (f \<circ> g) (P \<circ> g) t"
  by (induction t) auto

lemma count_where_cong: "(\<And>r. r \<in> set t \<Longrightarrow> P r = Q r) \<Longrightarrow> count_where P t = count_where Q t"
  by (induction t) auto

lemma row_by_map: "(\<And>r. r \<in> set t \<Longrightarrow> k (g r) = k r) \<Longrightarrow> row_by k i (map g t) = map_option g (row_by k i t)"
  by (induction t) auto

section \<open>Reachable states\<close>

text \<open>
  The states a step relation can reach, and the interface of an invariant: a predicate that
  holds initially and survives every step holds in every reachable state.
\<close>

inductive reach :: "('s \<Rightarrow> bool) \<Rightarrow> ('s \<Rightarrow> 's \<Rightarrow> bool) \<Rightarrow> 's \<Rightarrow> bool"
  for init :: "'s \<Rightarrow> bool" and step :: "'s \<Rightarrow> 's \<Rightarrow> bool" where
  reach_init: "init s \<Longrightarrow> reach init step s"
| reach_step: "reach init step s \<Longrightarrow> step s s' \<Longrightarrow> reach init step s'"

lemma reach_star: "reach init step s \<Longrightarrow> step\<^sup>*\<^sup>* s s' \<Longrightarrow> reach init step s'"
  by (rotate_tac, induction rule: rtranclp_induct) (auto intro: reach_step)

locale invariant =
  fixes init :: "'s \<Rightarrow> bool"
    and step :: "'s \<Rightarrow> 's \<Rightarrow> bool"
    and inv :: "'s \<Rightarrow> bool"
  assumes init_inv: "init s \<Longrightarrow> inv s"
    and step_inv: "inv s \<Longrightarrow> step s s' \<Longrightarrow> inv s'"
begin

lemma reach_inv: "reach init step s \<Longrightarrow> inv s"
  by (induction rule: reach.induct) (auto intro: init_inv step_inv)

lemma star_inv: "inv s \<Longrightarrow> step\<^sup>*\<^sup>* s s' \<Longrightarrow> inv s'"
  by (rotate_tac, induction rule: rtranclp_induct) (auto intro: step_inv)

end

end
