(* ===== verification/Domain.thy ===== *)
theory Domain
  imports Prelude
begin

text \<open>
  The shared value objects of \<^verbatim>\<open>internal/domain\<close>: dimensions in millimetres, money in the
  smallest currency unit, the status enumerations with the work-order transition table, and
  the mapping of errors to HTTP statuses in \<^verbatim>\<open>internal/platform/httpkit\<close>. The lemmas give the
  arithmetic facts the inventory proofs use (areas of 32-bit dimensions never wrap) and the
  shape of the work-order life cycle: every edge climbs, and three states are final.
\<close>

section \<open>Dimensions\<close>

record Dimension =
  LengthMM :: int
  WidthMM :: int

definition AreaSqMM :: "Dimension \<Rightarrow> int" where
  "AreaSqMM d = i64 (LengthMM d * WidthMM d)"

definition FitsInside :: "Dimension \<Rightarrow> Dimension \<Rightarrow> bool" where
  "FitsInside d outer \<longleftrightarrow> LengthMM d \<le> LengthMM outer \<and> WidthMM d \<le> WidthMM outer"

definition Valid :: "Dimension \<Rightarrow> bool" where
  "Valid d \<longleftrightarrow> LengthMM d > 0 \<and> WidthMM d > 0"

text \<open>The area of a rectangle, and the range two \<^verbatim>\<open>INT\<close> columns can hold.\<close>

definition area :: "Dimension \<Rightarrow> int" where
  "area d = LengthMM d * WidthMM d"

definition dim_int4 :: "Dimension \<Rightarrow> bool" where
  "dim_int4 d \<longleftrightarrow> in_int4 (LengthMM d) \<and> in_int4 (WidthMM d)"

lemma area_pos: "Valid d \<Longrightarrow> 0 < area d"
  by (simp add: Valid_def area_def)

lemma area_lt: "Valid d \<Longrightarrow> dim_int4 d \<Longrightarrow> area d < 2 ^ 62"
  unfolding area_def Valid_def dim_int4_def by (intro in_int4_mult) auto

lemma AreaSqMM_exact: "Valid d \<Longrightarrow> dim_int4 d \<Longrightarrow> AreaSqMM d = area d"
  using area_pos [of d] area_lt [of d]
  by (simp add: AreaSqMM_def area_def in_i64_def)

lemma FitsInside_int4:
  "Valid d \<Longrightarrow> FitsInside d s \<Longrightarrow> dim_int4 s \<Longrightarrow> dim_int4 d"
  by (auto simp: FitsInside_def dim_int4_def in_int4_def Valid_def)

lemma FitsInside_trans: "FitsInside a b \<Longrightarrow> FitsInside b c \<Longrightarrow> FitsInside a c"
  by (simp add: FitsInside_def)

lemma FitsInside_area: "Valid d \<Longrightarrow> FitsInside d s \<Longrightarrow> area d \<le> area s"
  by (auto simp: FitsInside_def area_def Valid_def intro: mult_mono)

section \<open>Money\<close>

record Money =
  Amount :: int
  Currency :: string

definition VND :: "int \<Rightarrow> Money" where
  "VND amount = \<lparr>Amount = amount, Currency = ''VND''\<rparr>"

definition Add :: "Money \<Rightarrow> Money \<Rightarrow> Money" where
  "Add m other = \<lparr>Amount = i64 (Amount m + Amount other), Currency = Currency m\<rparr>"

definition Scale :: "Money \<Rightarrow> int \<Rightarrow> int \<Rightarrow> Money" where
  "Scale m numerator denominator =
     (if denominator = 0 then m
      else \<lparr>Amount = i64 (quot (i64 (Amount m * numerator)) denominator), Currency = Currency m\<rparr>)"

text \<open>
  Scaling a non-negative amount by a proper fraction stays between zero and the amount, as
  long as the intermediate product fits in 64 bits.
\<close>

lemma Scale_bounds:
  assumes "0 \<le> Amount m" and "0 \<le> n" and "n \<le> d" and "0 < d" and "Amount m * n < 2 ^ 63"
    and "Amount m < 2 ^ 63"
  shows "0 \<le> Amount (Scale m n d)" and "Amount (Scale m n d) \<le> Amount m"
proof -
  have prod: "in_i64 (Amount m * n)"
    using assms by (auto simp: in_i64_def intro: order_trans [of _ 0])
  have q: "quot (Amount m * n) d = Amount m * n div d"
    using assms by (intro quot_nonneg) auto
  have "Amount m * n \<le> Amount m * d"
    using assms by (intro mult_left_mono) auto
  then have hi: "Amount m * n div d \<le> Amount m"
    using assms(4) by (metis nonzero_mult_div_cancel_right order_less_irrefl zdiv_mono1)
  have lo: "0 \<le> Amount m * n div d"
    using assms by (intro pos_imp_zdiv_nonneg_iff [THEN iffD2]) auto
  have "Amount (Scale m n d) = Amount m * n div d"
    using assms prod q hi lo by (simp add: Scale_def in_i64_def)
  with hi lo show "0 \<le> Amount (Scale m n d)" and "Amount (Scale m n d) \<le> Amount m" by simp_all
qed

section \<open>Statuses\<close>

datatype WorkOrderStatus =
    WOPlanned
  | WOInCutting
  | WOInProcessing
  | WOCompleted
  | WOPartialComplete
  | WOCosted
  | WOCanceled

text \<open>
  The transition table; a status without an entry has no successor. The first successor is
  the happy path.
\<close>

fun woTransitions :: "WorkOrderStatus \<Rightarrow> WorkOrderStatus list" where
  "woTransitions WOPlanned = [WOInCutting]"
| "woTransitions WOInCutting = [WOInProcessing]"
| "woTransitions WOInProcessing = [WOCompleted, WOPartialComplete]"
| "woTransitions WOCompleted = [WOCosted]"
| "woTransitions WOPartialComplete = [WOCosted]"
| "woTransitions WOCosted = []"
| "woTransitions WOCanceled = []"

definition Next :: "WorkOrderStatus \<Rightarrow> WorkOrderStatus option" where
  "Next s = (case woTransitions s of [] \<Rightarrow> None | n # _ \<Rightarrow> Some n)"

definition CanTransitionTo :: "WorkOrderStatus \<Rightarrow> WorkOrderStatus \<Rightarrow> bool" where
  "CanTransitionTo s to \<longleftrightarrow> to \<in> set (woTransitions s)"

datatype RemnantStatus =
    RemnantAvailable
  | RemnantAllocated
  | RemnantConsumed
  | RemnantWaste
  | RemnantExpired

datatype PlanStatus = PlanDraft | PlanApproved | PlanCanceled

datatype LaborStage = LaborStageCNC | LaborStageGrinding | LaborStageAssembly | LaborStagePolishing

text \<open>Position of a status in the life cycle; every edge of the table climbs.\<close>

fun wo_rank :: "WorkOrderStatus \<Rightarrow> nat" where
  "wo_rank WOPlanned = 0"
| "wo_rank WOInCutting = 1"
| "wo_rank WOInProcessing = 2"
| "wo_rank WOCompleted = 3"
| "wo_rank WOPartialComplete = 3"
| "wo_rank WOCosted = 4"
| "wo_rank WOCanceled = 5"

lemma CanTransitionTo_iff:
  "CanTransitionTo s t \<longleftrightarrow>
     (s, t) \<in> {(WOPlanned, WOInCutting), (WOInCutting, WOInProcessing),
       (WOInProcessing, WOCompleted), (WOInProcessing, WOPartialComplete),
       (WOCompleted, WOCosted), (WOPartialComplete, WOCosted)}"
  by (cases s; cases t) (simp_all add: CanTransitionTo_def)

lemma CanTransitionTo_rank: "CanTransitionTo s t \<Longrightarrow> wo_rank t = Suc (wo_rank s)"
  by (auto simp: CanTransitionTo_iff)

lemma CanTransitionTo_final [simp]:
  "\<not> CanTransitionTo WOCosted t" "\<not> CanTransitionTo WOCanceled t" "\<not> CanTransitionTo s WOCanceled"
  "\<not> CanTransitionTo s WOPlanned"
  by (auto simp: CanTransitionTo_iff)

lemma CanTransitionTo_target [simp]:
  "CanTransitionTo s WOInCutting \<longleftrightarrow> s = WOPlanned"
  "CanTransitionTo s WOInProcessing \<longleftrightarrow> s = WOInCutting"
  "CanTransitionTo s WOCompleted \<longleftrightarrow> s = WOInProcessing"
  "CanTransitionTo s WOPartialComplete \<longleftrightarrow> s = WOInProcessing"
  by (auto simp: CanTransitionTo_iff)

lemma Next_CanTransitionTo: "Next s = Some t \<Longrightarrow> CanTransitionTo s t"
  by (cases s) (simp_all add: Next_def CanTransitionTo_def)

section \<open>HTTP statuses of errors\<close>

fun http_status :: "error \<Rightarrow> nat" where
  "http_status (Biz ErrNotFound) = 404"
| "http_status (Biz ErrInvalidInput) = 400"
| "http_status ErrInvalidCursor = 400"
| "http_status (Biz ErrInsufficientStock) = 422"
| "http_status (Biz ErrInvalidTransition) = 409"
| "http_status (Biz ErrAreaConservation) = 422"
| "http_status (Biz ErrAlreadyFinalized) = 409"
| "http_status (Biz ErrPreconditionFailed) = 412"
| "http_status (Biz ErrConflict) = 409"
| "http_status (Pg s) = 500"

lemma http_status_client_error: "400 \<le> http_status e \<and> http_status e < 500 \<longleftrightarrow> (\<nexists>s. e = Pg s)"
  by (cases e rule: http_status.cases) auto

end
