(* ===== verification/Paging.thy ===== *)
theory Paging
  imports Domain "HOL-Library.Product_Lexorder"
begin

text \<open>
  Pagination of \<^verbatim>\<open>internal/platform/httpkit\<close>: the offset envelope (\<^verbatim>\<open>PageParams\<close>,
  \<^verbatim>\<open>newPagedResult\<close>) and the keyset envelope (\<^verbatim>\<open>cursor.go\<close>). A store answers a keyset query with
  up to \<^verbatim>\<open>limit+1\<close> rows strictly before the cursor, newest first; \<^verbatim>\<open>NewCursorResult\<close> cuts the
  extra row off and turns the last kept row into the next cursor. The locale
  \<open>keyset_listing\<close> is what a listing must promise (it answers a decodable cursor with the
  keyset page of its rows, and rows have distinct, non-zero cursors);
  inside it, following the cursors page by page is proved to return every matching row
  exactly once, in order, and to stop.

  The token a client holds is base64url over JSON; here it is the opaque envelope itself,
  with the strings that do not decode as a separate case.
\<close>

section \<open>Offset pages\<close>

abbreviation defaultPageLimit :: int where "defaultPageLimit \<equiv> 10"
abbreviation maxPageLimit :: int where "maxPageLimit \<equiv> 100"
abbreviation MaxOffset :: int where "MaxOffset \<equiv> 10000"

record PageParams =
  Page :: int
  Limit :: int
  Search :: string
  SortBy :: string
  Order :: string

record 'a PagedResult =
  PItems :: "'a list"
  TotalItems :: int
  TotalPages :: int
  CurrentPage :: int
  PLimit :: int
  PTotalIsEstimate :: bool

definition newPagedResult :: "'a list \<Rightarrow> int \<Rightarrow> PageParams \<Rightarrow> bool \<Rightarrow> 'a PagedResult" where
  "newPagedResult items totalItems params isEstimate =
     (let limit = (if Limit params \<le> 0 then defaultPageLimit else Limit params);
          totalPages = quot (i64 (totalItems + limit - 1)) limit;
          totalPages = (if totalPages = 0 then 1 else totalPages)
      in \<lparr>PItems = items, TotalItems = totalItems, TotalPages = totalPages,
          CurrentPage = Page params, PLimit = limit, PTotalIsEstimate = isEstimate\<rparr>)"

definition NewPagedResult :: "'a list \<Rightarrow> int \<Rightarrow> PageParams \<Rightarrow> 'a PagedResult" where
  "NewPagedResult items totalItems params = newPagedResult items totalItems params False"

definition Offset :: "PageParams \<Rightarrow> int" where
  "Offset p = i64 (i64 (Page p - 1) * Limit p)"

text \<open>
  The clamping of \<^verbatim>\<open>BindPageParams\<close>, on the integers that \<^verbatim>\<open>strconv.Atoi\<close> returned for the
  query parameters (0 when the text is not a number).
\<close>

definition BindPageParams :: "int \<Rightarrow> int \<Rightarrow> string \<Rightarrow> string \<Rightarrow> string \<Rightarrow> PageParams" where
  "BindPageParams page limit search sortBy order =
     \<lparr>Page = (if page < 1 then 1 else page),
      Limit = (let limit = (if limit < 1 then defaultPageLimit else limit)
               in if limit > maxPageLimit then maxPageLimit else limit),
      Search = search, SortBy = sortBy,
      Order = (if order \<noteq> ''asc'' \<and> order \<noteq> ''desc'' then ''asc'' else order)\<rparr>"

definition ValidateOffset :: "PageParams \<Rightarrow> unit result" where
  "ValidateOffset p = (if Offset p > MaxOffset then Inl (Biz ErrInvalidInput) else Inr ())"

lemma BindPageParams_bounds:
  "1 \<le> Page (BindPageParams p l s b d)"
  "1 \<le> Limit (BindPageParams p l s b d)" "Limit (BindPageParams p l s b d) \<le> maxPageLimit"
  by (auto simp: BindPageParams_def Let_def)

lemma newPagedResult_TotalPages:
  assumes "0 \<le> n" and "n < 2 ^ 62" and "0 < Limit p" and "Limit p \<le> maxPageLimit"
  shows "n \<le> TotalPages (newPagedResult xs n p e) * Limit p"
    and "n \<noteq> 0 \<Longrightarrow> (TotalPages (newPagedResult xs n p e) - 1) * Limit p < n"
proof -
  let ?l = "Limit p"
  have range: "i64 (n + ?l - 1) = n + ?l - 1"
    using assms by (intro i64_in_range) (auto simp: in_i64_def)
  have q: "quot (n + ?l - 1) ?l = (n + ?l - 1) div ?l"
    using assms by (intro quot_nonneg) auto
  have pages: "TotalPages (newPagedResult xs n p e) =
      (if (n + ?l - 1) div ?l = 0 then 1 else (n + ?l - 1) div ?l)"
    using assms range q by (simp add: newPagedResult_def Let_def)
  obtain q r where qr: "n + ?l - 1 = q * ?l + r" "0 \<le> r" "r < ?l" "(n + ?l - 1) div ?l = q"
    using assms(3) div_mult_mod_eq [of "n + ?l - 1" ?l] pos_mod_bound pos_mod_sign by metis
  have q0: "q = 0 \<longleftrightarrow> n = 0"
  proof
    assume "q = 0"
    with qr assms(1) show "n = 0" by simp
  next
    assume "n = 0"
    with qr(4) assms(3) show "q = 0" by (simp add: div_pos_pos_trivial)
  qed
  show "n \<le> TotalPages (newPagedResult xs n p e) * ?l"
    using qr q0 assms(1,3) pages by auto
  show "(TotalPages (newPagedResult xs n p e) - 1) * ?l < n" if "n \<noteq> 0"
    using qr q0 pages that by (simp add: left_diff_distrib)
qed

section \<open>Keyset pages\<close>

record Cursor =
  Ts :: time
  CID :: uuid

definition zero_cursor :: Cursor where
  "zero_cursor = \<lparr>Ts = 0, CID = uuid_Nil\<rparr>"

definition IsZero :: "Cursor \<Rightarrow> bool" where
  "IsZero c \<longleftrightarrow> Ts c = 0 \<and> CID c = uuid_Nil"

datatype token = EmptyToken | BadToken | Envelope Cursor

definition Encode :: "Cursor \<Rightarrow> token" where
  "Encode c = (if IsZero c then EmptyToken else Envelope c)"

fun DecodeCursor :: "token \<Rightarrow> Cursor result" where
  "DecodeCursor EmptyToken = Inr zero_cursor"
| "DecodeCursor BadToken = Inl ErrInvalidCursor"
| "DecodeCursor (Envelope c) = (if IsZero c then Inl ErrInvalidCursor else Inr c)"

record CursorParams =
  CursorTok :: token
  CLimit :: int

text \<open>\<^verbatim>\<open>BindCursorParams\<close> clamps the limit the way \<^verbatim>\<open>BindPageParams\<close> does.\<close>

definition BindCursorParams :: "token \<Rightarrow> int \<Rightarrow> CursorParams" where
  "BindCursorParams tok limit =
     \<lparr>CursorTok = tok,
      CLimit = (let limit = (if limit < 1 then defaultPageLimit else limit)
                in if limit > maxPageLimit then maxPageLimit else limit)\<rparr>"

definition Decoded :: "CursorParams \<Rightarrow> Cursor result" where
  "Decoded p = DecodeCursor (CursorTok p)"

record 'a CursorResult =
  Items :: "'a list"
  NextCursor :: token
  HasMore :: bool
  Total :: int
  TotalIsEstimate :: bool

definition NewCursorResultWithCount ::
  "'a list \<Rightarrow> int \<Rightarrow> ('a \<Rightarrow> Cursor) \<Rightarrow> int \<Rightarrow> bool \<Rightarrow> 'a CursorResult" where
  "NewCursorResultWithCount items limit getCursor cnt isEstimate =
     (let limit = (if limit < 1 then defaultPageLimit else limit)
      in if int (length items) \<le> limit
         then \<lparr>Items = items, NextCursor = EmptyToken, HasMore = False,
               Total = cnt, TotalIsEstimate = isEstimate\<rparr>
         else let kept = take (nat limit) items
              in \<lparr>Items = kept, NextCursor = Encode (getCursor (last kept)), HasMore = True,
                  Total = cnt, TotalIsEstimate = isEstimate\<rparr>)"

definition NewCursorResult :: "'a list \<Rightarrow> int \<Rightarrow> ('a \<Rightarrow> Cursor) \<Rightarrow> 'a CursorResult" where
  "NewCursorResult items limit getCursor = NewCursorResultWithCount items limit getCursor 0 False"

text \<open>
  The query shape all keyset listings share: rows that match, strictly before the cursor in
  \<^verbatim>\<open>(ts, id)\<close> unless the cursor is zero, ordered by \<^verbatim>\<open>ts DESC, id DESC\<close>, at most
  \<^verbatim>\<open>limit\<close> of them.
\<close>

definition cursor_key :: "('r \<Rightarrow> Cursor) \<Rightarrow> 'r \<Rightarrow> time \<times> uuid" where
  "cursor_key getCursor r = (Ts (getCursor r), CID (getCursor r))"

definition order_desc :: "('r \<Rightarrow> Cursor) \<Rightarrow> 'r list \<Rightarrow> 'r list" where
  "order_desc getCursor rows = rev (sort_key (cursor_key getCursor) rows)"

definition keyset_page ::
  "('r \<Rightarrow> Cursor) \<Rightarrow> 'r list \<Rightarrow> Cursor \<Rightarrow> int \<Rightarrow> 'r list" where
  "keyset_page getCursor rows cur limit =
     take (nat limit) (order_desc getCursor
       (filter (\<lambda>r. IsZero cur \<or> cursor_key getCursor r < (Ts cur, CID cur)) rows))"

definition list_keyset ::
  "('r \<Rightarrow> Cursor) \<Rightarrow> 'r list \<Rightarrow> CursorParams \<Rightarrow> 'r CursorResult result" where
  "list_keyset getCursor rows p =
     (case Decoded p of
        Inl e \<Rightarrow> Inl e
      | Inr cur \<Rightarrow> Inr (NewCursorResult (keyset_page getCursor rows cur (CLimit p + 1))
                        (CLimit p) getCursor))"

text \<open>
  A client that follows the cursors: it asks for a page, keeps the items and goes on with
  the next cursor while the page says there is more. The fuel bounds the number of requests;
  \<open>None\<close> means that it ran out.
\<close>

fun follow_cursors ::
  "nat \<Rightarrow> (CursorParams \<Rightarrow> 'r CursorResult result) \<Rightarrow> int \<Rightarrow> token \<Rightarrow> 'r list result option" where
  "follow_cursors 0 list_page limit tok = None"
| "follow_cursors (Suc n) list_page limit tok =
     (case list_page \<lparr>CursorTok = tok, CLimit = limit\<rparr> of
        Inl e \<Rightarrow> Some (Inl e)
      | Inr res \<Rightarrow>
          if HasMore res
          then map_option (map_sum id (\<lambda>rest. Items res @ rest))
                 (follow_cursors n list_page limit (NextCursor res))
          else Some (Inr (Items res)))"

lemma DecodeCursor_Encode [simp]: "DecodeCursor (Encode c) = Inr (if IsZero c then zero_cursor else c)"
  by (simp add: Encode_def)

lemma IsZero_zero_cursor [simp]: "IsZero zero_cursor"
  by (simp add: IsZero_def zero_cursor_def)

lemma set_order_desc [simp]: "set (order_desc g rows) = set rows"
  by (simp add: order_desc_def)

lemma length_order_desc [simp]: "length (order_desc g rows) = length rows"
  by (simp add: order_desc_def)

lemma order_desc_filter: "order_desc g (filter P rows) = filter P (order_desc g rows)"
  by (simp add: order_desc_def filter_sort flip: rev_filter)

lemma distinct_keyed_filter:
  assumes "keys_distinct k t" and "\<And>r. CID (g r) = k r"
  shows "distinct (map (cursor_key g) (select_where P t))"
proof -
  have "inj_on (cursor_key g) (set t)"
    using assms by (auto simp: distinct_map inj_on_def cursor_key_def)
  moreover have "distinct t" using assms(1) by (simp add: distinct_map)
  ultimately show ?thesis
    by (auto simp: distinct_map select_where_def intro: inj_on_subset)
qed

text \<open>
  In a list sorted strictly downwards, the rows below the last row of a prefix are exactly
  the rows after the prefix.
\<close>

lemma sorted_desc_filter_below:
  assumes "sorted_wrt (\<lambda>a b. (k b :: 'k :: linorder) < k a) (xs @ x # ys)"
  shows "filter (\<lambda>r. k r < k x) (xs @ x # ys) = ys"
proof -
  have "\<forall>r \<in> set xs. \<not> k r < k x"
    using assms by (auto simp: sorted_wrt_append)
  moreover have "\<forall>r \<in> set ys. k r < k x"
    using assms by (auto simp: sorted_wrt_append)
  ultimately show ?thesis by (simp add: filter_empty_conv)
qed

section \<open>What a listing must promise, and what its client gets\<close>

locale keyset_listing =
  fixes rows :: "'s \<Rightarrow> 'r list"
    and getCursor :: "'r \<Rightarrow> Cursor"
    and list_page :: "'s \<Rightarrow> CursorParams \<Rightarrow> 'r CursorResult result"
    and inv :: "'s \<Rightarrow> bool"
  assumes list_page_keyset: "inv s \<Longrightarrow> Decoded p = Inr cur \<Longrightarrow> list_page s p = list_keyset getCursor (rows s) p"
    and cursors_distinct: "inv s \<Longrightarrow> distinct (map (cursor_key getCursor) (rows s))"
    and cursors_nonzero: "inv s \<Longrightarrow> r \<in> set (rows s) \<Longrightarrow> \<not> IsZero (getCursor r)"
begin

lemma order_desc_strict:
  assumes "inv s"
  shows "sorted_wrt (\<lambda>a b. cursor_key getCursor b < cursor_key getCursor a)
    (order_desc getCursor (rows s))"
proof -
  let ?k = "cursor_key getCursor"
  have "sorted (map ?k (sort_key ?k (rows s)))"
    by simp
  moreover have "distinct (map ?k (sort_key ?k (rows s)))"
    using cursors_distinct [OF assms] by (simp add: distinct_map)
  ultimately have "sorted_wrt (<) (map ?k (sort_key ?k (rows s)))"
    by (simp add: strict_sorted_iff)
  then show ?thesis
    by (simp add: order_desc_def sorted_wrt_rev sorted_wrt_map)
qed

text \<open>After the prefix that ends in \<open>x\<close>, the page query sees exactly the remaining rows.\<close>

lemma page_after:
  assumes "inv s" and "order_desc getCursor (rows s) = xs @ x # ys"
  shows "keyset_page getCursor (rows s) (getCursor x) n = take (nat n) ys"
proof -
  have x: "x \<in> set (rows s)"
    using assms(2) by (metis in_set_conv_decomp set_order_desc)
  have "order_desc getCursor (filter (\<lambda>r. cursor_key getCursor r < cursor_key getCursor x) (rows s)) = ys"
    using order_desc_strict [OF assms(1)] sorted_desc_filter_below [of "cursor_key getCursor" xs x ys]
    by (simp add: order_desc_filter assms(2))
  moreover have "(\<lambda>r. IsZero (getCursor x) \<or> cursor_key getCursor r < (Ts (getCursor x), CID (getCursor x))) =
      (\<lambda>r. cursor_key getCursor r < cursor_key getCursor x)"
    using cursors_nonzero [OF assms(1) x] by (simp add: cursor_key_def)
  ultimately show ?thesis
    by (simp add: keyset_page_def)
qed

lemma page_first: "keyset_page getCursor (rows s) zero_cursor n = take (nat n) (order_desc getCursor (rows s))"
  by (simp add: keyset_page_def)

lemma follow_from:
  assumes "inv s" and "1 \<le> limit" and "length ys < n"
    and "\<And>m. DecodeCursor tok = Inr cur \<and> keyset_page getCursor (rows s) cur m = take (nat m) ys"
    and "order_desc getCursor (rows s) = xs @ ys"
  shows "follow_cursors n (list_page s) limit tok = Some (Inr ys)"
  using assms(3-5)
proof (induction n arbitrary: tok cur xs ys)
  case 0
  then show ?case by simp
next
  case (Suc n)
  let ?fetched = "take (nat (limit + 1)) ys"
  have page: "list_page s \<lparr>CursorTok = tok, CLimit = limit\<rparr> =
      Inr (NewCursorResult ?fetched limit getCursor)"
    using Suc.prems(2) list_page_keyset [OF assms(1), of "\<lparr>CursorTok = tok, CLimit = limit\<rparr>" cur]
    by (simp add: list_keyset_def Decoded_def)
  show ?case
  proof (cases "int (length ys) \<le> limit")
    case True
    then show ?thesis
      using page assms(2) by (simp add: NewCursorResult_def NewCursorResultWithCount_def Let_def)
  next
    case False
    define kept where "kept = take (nat limit) ys"
    define rest where "rest = drop (nat limit) ys"
    have kept_ne: "kept \<noteq> []" and ys: "ys = kept @ rest"
      using False assms(2) by (auto simp: kept_def rest_def)
    let ?x = "last kept"
    have dec: "order_desc getCursor (rows s) = (xs @ butlast kept) @ ?x # rest"
      using Suc.prems(3) kept_ne ys by simp
    have x: "?x \<in> set (rows s)"
      using dec by (metis in_set_conv_decomp set_order_desc)
    have more: "follow_cursors n (list_page s) limit (Encode (getCursor ?x)) =
        Some (Inr rest)"
    proof (rule Suc.IH)
      show "length rest < n"
        using Suc.prems(1) False assms(2) by (simp add: rest_def)
      show "DecodeCursor (Encode (getCursor ?x)) = Inr (getCursor ?x) \<and>
          keyset_page getCursor (rows s) (getCursor ?x) m = take (nat m) rest" for m
        using cursors_nonzero [OF assms(1) x] page_after [OF assms(1) dec] by simp
      show "order_desc getCursor (rows s) = (xs @ kept) @ rest"
        using dec kept_ne by simp
    qed
    have "take (nat limit) ?fetched = kept" and "\<not> int (length ?fetched) \<le> limit"
      using False assms(2) by (auto simp: kept_def min_def)
    then have "NewCursorResult ?fetched limit getCursor =
        \<lparr>Items = kept, NextCursor = Encode (getCursor ?x), HasMore = True,
         Total = 0, TotalIsEstimate = False\<rparr>"
      using assms(2) by (simp add: NewCursorResult_def NewCursorResultWithCount_def Let_def)
    with page more show ?thesis
      using ys by simp
  qed
qed

theorem follow_cursors_complete:
  assumes "inv s" and "1 \<le> limit" and "length (rows s) < n"
  shows "follow_cursors n (list_page s) limit EmptyToken =
    Some (Inr (order_desc getCursor (rows s)))"
proof (rule follow_from [where cur = zero_cursor and xs = "[]"])
  show "length (order_desc getCursor (rows s)) < n"
    using assms(3) by simp
  show "DecodeCursor EmptyToken = Inr zero_cursor \<and>
      keyset_page getCursor (rows s) zero_cursor m = take (nat m) (order_desc getCursor (rows s))" for m
    by (simp add: page_first)
qed (use assms in simp_all)

end

end
