(* ===== verification/Float64.thy ===== *)
theory Float64
  imports Complex_Main "HOL-Library.Log_Nat"
begin

text \<open>
  Go's \<^verbatim>\<open>float64\<close> as the exact rational it denotes. \<open>fl\<close> rounds a rational to the nearest
  number with a 53-bit significand, ties to even, as IEEE 754 prescribes for every
  operation; a Go expression on floats is the rational operation followed by \<open>fl\<close>. The
  exponent range (infinities, subnormals) is left out: the quantities here are percentages
  and hours. The lemmas say that \<open>fl\<close> is monotone and exact on integers below \<open>2^53\<close>,
  which is what comparisons against a threshold need.
\<close>

section \<open>Rounding to the nearest integer\<close>

definition round_half_even :: "rat \<Rightarrow> int" where
  "round_half_even x =
     (let f = \<lfloor>x\<rfloor>; d = x - of_int f
      in if d < 1 / 2 then f else if d > 1 / 2 then f + 1 else if even f then f else f + 1)"

lemma round_half_even_bounds: "\<lfloor>x\<rfloor> \<le> round_half_even x \<and> round_half_even x \<le> \<lfloor>x\<rfloor> + 1"
  by (simp add: round_half_even_def Let_def)

lemma round_half_even_of_int [simp]: "round_half_even (of_int n) = n"
  by (simp add: round_half_even_def)

lemma round_half_even_mono: "x \<le> y \<Longrightarrow> round_half_even x \<le> round_half_even y"
proof -
  assume le: "x \<le> y"
  show ?thesis
  proof (cases "\<lfloor>x\<rfloor> = \<lfloor>y\<rfloor>")
    case True
    with le show ?thesis by (auto simp: round_half_even_def Let_def)
  next
    case False
    with le have "\<lfloor>x\<rfloor> + 1 \<le> \<lfloor>y\<rfloor>" by (meson floor_mono order_le_less zle_add1_eq_le not_le_imp_less add1_zle_eq)
    with round_half_even_bounds [of x] round_half_even_bounds [of y] show ?thesis by linarith
  qed
qed

lemma round_half_even_le: "x \<le> of_int n \<Longrightarrow> round_half_even x \<le> n"
  using round_half_even_mono [of x "of_int n"] by simp

lemma round_half_even_ge: "of_int n \<le> x \<Longrightarrow> n \<le> round_half_even x"
  using round_half_even_mono [of "of_int n" x] by simp

section \<open>Binary exponent\<close>

definition ilog2 :: "rat \<Rightarrow> int" where
  "ilog2 x =
     (let (p, q) = quotient_of x; k = bitlen p - bitlen q
      in if 2 powi k \<le> x then k else k - 1)"

lemma ilog2_bounds:
  assumes "0 < x"
  shows "2 powi (ilog2 x) \<le> x" and "x < 2 powi (ilog2 x + 1)"
proof -
  obtain p q where pq: "quotient_of x = (p, q)" by force
  have q: "0 < q" and x: "x = of_int p / of_int q"
    using pq quotient_of_denom_pos quotient_of_div by auto
  have p: "0 < p" using assms q x by (simp add: zero_less_divide_iff)
  have pb: "(2::rat) powi (bitlen p - 1) \<le> of_int p" "of_int p < (2::rat) powi (bitlen p)"
    and qb: "(2::rat) powi (bitlen q - 1) \<le> of_int q" "of_int q < (2::rat) powi (bitlen q)"
  proof -
    have conv: "(2::rat) powi n = of_int (2 ^ nat n)" if "0 \<le> n" for n
      using that by (simp add: power_int_def)
    have len: "0 < bitlen p" "0 < bitlen q"
      using p q by (simp_all add: bitlen_eq_zero_iff bitlen_nonneg less_le)
    show "(2::rat) powi (bitlen p - 1) \<le> of_int p" "of_int p < (2::rat) powi (bitlen p)"
      using bitlen_bounds [OF p] len by (simp_all only: conv of_int_le_iff of_int_less_iff)
    show "(2::rat) powi (bitlen q - 1) \<le> of_int q" "of_int q < (2::rat) powi (bitlen q)"
      using bitlen_bounds [OF q] len by (simp_all only: conv of_int_le_iff of_int_less_iff)
  qed
  let ?k = "bitlen p - bitlen q"
  have up: "x < 2 powi (?k + 1)"
  proof -
    have "x < 2 powi (bitlen p) / of_int q"
      using pb(2) q x by (simp add: divide_strict_right_mono)
    also have "\<dots> \<le> 2 powi (bitlen p) / 2 powi (bitlen q - 1)"
      using qb(1) by (intro divide_left_mono) (auto simp: q)
    also have "\<dots> = 2 powi (?k + 1)"
      by (simp add: power_int_diff power_int_add)
    finally show ?thesis .
  qed
  have lo: "2 powi (?k - 1) \<le> x"
  proof -
    have "(2::rat) powi (?k - 1) = 2 powi (bitlen p - 1) / 2 powi (bitlen q)"
      by (simp add: power_int_diff)
    also have "\<dots> \<le> 2 powi (bitlen p - 1) / of_int q"
      using qb(2) q by (intro divide_left_mono) auto
    also have "\<dots> \<le> x"
      using pb(1) q x by (simp add: divide_right_mono)
    finally show ?thesis .
  qed
  show "2 powi (ilog2 x) \<le> x" and "x < 2 powi (ilog2 x + 1)"
    using up lo by (auto simp: ilog2_def pq Let_def)
qed

lemma two_powi_less: "(2::rat) powi a < 2 powi b \<Longrightarrow> a < b"
  by (rule ccontr) (use power_int_increasing [of b a "2::rat"] in linarith)

lemma ilog2_unique:
  assumes "2 powi e \<le> x" and "x < 2 powi (e + 1)"
  shows "ilog2 x = e"
proof -
  have "0 < x" using assms(1) by (meson less_le_trans zero_less_power_int zero_less_numeral)
  note b = ilog2_bounds [OF this]
  have "(2::rat) powi e < 2 powi (ilog2 x + 1)" "(2::rat) powi (ilog2 x) < 2 powi (e + 1)"
    using assms b by linarith+
  then have "e < ilog2 x + 1" "ilog2 x < e + 1"
    by (blast dest: two_powi_less)+
  then show ?thesis by simp
qed

lemma ilog2_mono: "0 < x \<Longrightarrow> x \<le> y \<Longrightarrow> ilog2 x \<le> ilog2 y"
proof (rule ccontr)
  assume *: "0 < x" "x \<le> y" "\<not> ilog2 x \<le> ilog2 y"
  then have "(2::rat) powi (ilog2 y + 1) \<le> 2 powi (ilog2 x)"
    by (intro power_int_increasing) auto
  with ilog2_bounds [of x] ilog2_bounds [of y] * show False by linarith
qed

section \<open>Rounding to a float\<close>

definition fl :: "rat \<Rightarrow> rat" where
  "fl x =
     (if x = 0 then 0
      else let e = ilog2 \<bar>x\<bar> - 52
           in sgn x * of_int (round_half_even (\<bar>x\<bar> / 2 powi e)) * 2 powi e)"

definition is_float :: "rat \<Rightarrow> bool" where
  "is_float x \<longleftrightarrow> fl x = x"

lemma fl_0 [simp]: "fl 0 = 0"
  by (simp add: fl_def)

lemma fl_pos:
  "0 < x \<Longrightarrow> fl x = of_int (round_half_even (x / 2 powi (ilog2 x - 52))) * 2 powi (ilog2 x - 52)"
  by (simp add: fl_def Let_def)

text \<open>A positive number and its rounding lie in the same closed binade.\<close>

lemma fl_binade:
  assumes "0 < x"
  shows "2 powi (ilog2 x) \<le> fl x" and "fl x \<le> 2 powi (ilog2 x + 1)"
proof -
  let ?e = "ilog2 x - 52"
  let ?m = "round_half_even (x / 2 powi ?e)"
  have lo: "(2::rat) powi (ilog2 x) = of_int (2 ^ 52) * 2 powi ?e"
    and hi: "(2::rat) powi (ilog2 x + 1) = of_int (2 ^ 53) * 2 powi ?e"
    by (simp_all add: power_int_diff power_int_add)
  have "of_int (2 ^ 52) \<le> x / 2 powi ?e"
    using ilog2_bounds(1) [OF assms] unfolding lo by (simp add: pos_le_divide_eq)
  then have "2 ^ 52 \<le> ?m" by (rule round_half_even_ge)
  then have "(of_int (2 ^ 52) :: rat) \<le> of_int ?m" by (simp only: of_int_le_iff)
  then show "2 powi (ilog2 x) \<le> fl x"
    unfolding fl_pos [OF assms] lo by (intro mult_right_mono) auto
  have "x / 2 powi ?e \<le> of_int (2 ^ 53)"
    using ilog2_bounds(2) [OF assms] unfolding hi by (simp add: pos_divide_le_eq)
  then have "?m \<le> 2 ^ 53" by (rule round_half_even_le)
  then have "(of_int ?m :: rat) \<le> of_int (2 ^ 53)" by (simp only: of_int_le_iff)
  then show "fl x \<le> 2 powi (ilog2 x + 1)"
    unfolding fl_pos [OF assms] hi by (intro mult_right_mono) auto
qed

lemma fl_nonneg: "0 \<le> x \<Longrightarrow> 0 \<le> fl x"
proof (cases "x = 0")
  case False
  assume "0 \<le> x"
  with False have "0 < x" by simp
  from fl_binade(1) [OF this] show ?thesis
    by (meson order_trans zero_le_numeral zero_le_power_int)
qed simp

lemma fl_mono: "0 \<le> x \<Longrightarrow> x \<le> y \<Longrightarrow> fl x \<le> fl y"
proof -
  assume *: "0 \<le> x" "x \<le> y"
  consider "x = 0" | "0 < x" "ilog2 x = ilog2 y" | "0 < x" "ilog2 x < ilog2 y"
    using * ilog2_mono [of x y] by fastforce
  then show ?thesis
  proof cases
    case 1
    with * show ?thesis by (simp add: fl_nonneg)
  next
    case 2
    have "round_half_even (x / 2 powi (ilog2 x - 52)) \<le> round_half_even (y / 2 powi (ilog2 x - 52))"
      using * by (intro round_half_even_mono divide_right_mono) auto
    then have "(of_int (round_half_even (x / 2 powi (ilog2 x - 52))) :: rat) \<le>
        of_int (round_half_even (y / 2 powi (ilog2 x - 52)))"
      by (simp only: of_int_le_iff)
    with 2 * show ?thesis
      by (simp add: fl_pos mult_right_mono)
  next
    case 3
    have "fl x \<le> 2 powi (ilog2 x + 1)" using 3 by (intro fl_binade)
    also have "\<dots> \<le> 2 powi (ilog2 y)" using 3 by (intro power_int_increasing) auto
    also have "\<dots> \<le> fl y" using 3 * by (intro fl_binade) auto
    finally show ?thesis .
  qed
qed

lemma fl_of_int: "0 \<le> n \<Longrightarrow> n < 2 ^ 53 \<Longrightarrow> fl (of_int n) = of_int n"
proof (cases "n = 0")
  case False
  assume *: "0 \<le> n" "n < 2 ^ 53"
  let ?x = "of_int n :: rat"
  have pos: "0 < ?x" using False * by simp
  have "(2::rat) powi (ilog2 ?x) < 2 powi 53"
  proof -
    have "?x < of_int (2 ^ 53)" using * by (simp only: of_int_less_iff)
    then show ?thesis using ilog2_bounds(1) [OF pos] by (simp add: power_int_def)
  qed
  then have "ilog2 ?x < 53" by (rule two_powi_less)
  then have "\<exists>j :: nat. ilog2 ?x - 52 = - int j"
    by (intro exI [of _ "nat (52 - ilog2 ?x)"]) simp
  then obtain j :: nat where j: "ilog2 ?x - 52 = - int j" ..
  have "?x / 2 powi (- int j) = of_int (n * 2 ^ j)"
    by (simp add: power_int_minus power_int_def field_simps)
  then have "fl ?x = of_int (n * 2 ^ j) * 2 powi (- int j)"
    using pos by (simp only: fl_pos j round_half_even_of_int)
  also have "\<dots> = ?x"
    by (simp add: power_int_minus)
  finally show ?thesis .
qed simp

text \<open>Exceeding a representable threshold after rounding means exceeding it before.\<close>

lemma fl_gt_threshold: "0 \<le> x \<Longrightarrow> is_float t \<Longrightarrow> t < fl x \<Longrightarrow> t < x"
proof (rule ccontr)
  assume *: "0 \<le> x" "is_float t" "t < fl x" "\<not> t < x"
  then have "fl x \<le> fl t" by (intro fl_mono) auto
  with * show False by (simp add: is_float_def)
qed

section \<open>Rounding error\<close>

lemma round_half_even_error: "\<bar>of_int (round_half_even x) - x\<bar> \<le> 1 / 2"
proof -
  have "of_int \<lfloor>x\<rfloor> \<le> x" "x < of_int \<lfloor>x\<rfloor> + 1" by linarith+
  then show ?thesis by (auto simp: round_half_even_def Let_def abs_le_iff)
qed

lemma fl_minus: "fl (- x) = - fl x"
  by (simp add: fl_def Let_def)

text \<open>A rounded number is off by at most one part in \<open>2^53\<close>.\<close>

lemma fl_error: "\<bar>fl x - x\<bar> \<le> \<bar>x\<bar> / 2 ^ 53"
proof -
  have pos: "\<bar>fl y - y\<bar> \<le> y / 2 ^ 53" if "0 < y" for y
  proof -
    let ?e = "(2::rat) powi (ilog2 y - 52)"
    let ?r = "of_int (round_half_even (y / ?e)) :: rat"
    have e: "0 < ?e" by simp
    have "fl y - y = (?r - y / ?e) * ?e" using fl_pos [OF that] e by (simp add: left_diff_distrib)
    then have "\<bar>fl y - y\<bar> = \<bar>?r - y / ?e\<bar> * ?e" by (simp add: abs_mult)
    also have "\<dots> \<le> 1 / 2 * ?e"
      using round_half_even_error [of "y / ?e"] by (intro mult_right_mono) simp_all
    also have "\<dots> = 2 powi (ilog2 y) / 2 ^ 53" by (simp add: power_int_diff)
    also have "\<dots> \<le> y / 2 ^ 53" using ilog2_bounds(1) [OF that] by (intro divide_right_mono) simp_all
    finally show ?thesis .
  qed
  consider "x = 0" | "0 < x" | "x < 0" by linarith
  then show ?thesis
  proof cases
    case 3
    then show ?thesis using pos [of "- x"] by (simp add: fl_minus)
  qed (use pos in auto)
qed

section \<open>Decimal columns\<close>

text \<open>Half away from zero, as \<^verbatim>\<open>NUMERIC\<close> rounds.\<close>

definition round_half_away :: "rat \<Rightarrow> int" where
  "round_half_away x = (if 0 \<le> x then \<lfloor>x + 1 / 2\<rfloor> else - \<lfloor>- x + 1 / 2\<rfloor>)"

text \<open>
  The driver sends a float as the shortest decimal that reads back as the same float, and the column
  rounds it to its scale. The search over the number of decimals is bounded; a number that needs more than sixty
  is far below the scale of every column here.
\<close>

definition to_decimals :: "nat \<Rightarrow> rat \<Rightarrow> rat" where
  "to_decimals k x = of_int (round_half_even (x * 10 ^ k)) / 10 ^ k"

definition shortest :: "rat \<Rightarrow> rat" where
  "shortest x = (case find (\<lambda>k. fl (to_decimals k x) = x) [0..<60] of None \<Rightarrow> x | Some k \<Rightarrow> to_decimals k x)"

lemma shortest_fl: "fl x = x \<Longrightarrow> fl (shortest x) = x"
  by (auto simp: shortest_def find_Some_iff split: option.splits)

lemma round_half_away_error: "\<bar>of_int (round_half_away x) - x\<bar> \<le> 1 / 2"
proof -
  have near: "\<bar>of_int \<lfloor>y + 1 / 2\<rfloor> - y\<bar> \<le> 1 / 2" for y :: rat
    using of_int_floor_le [of "y + 1 / 2"] floor_correct [of "y + 1 / 2"] by (intro abs_leI) linarith+
  show ?thesis using near [of x] near [of "- x"] by (auto simp: round_half_away_def abs_minus_commute add.commute)
qed

end
