(* ===== verification/Inventory_Store.thy ===== *)
theory Inventory_Store
  imports Domain Paging Float64
begin

text \<open>
  The inventory tables and the statements of \<^verbatim>\<open>internal/module/inventory/pgstore.go\<close>: lots and
  board sheets, remnants, cutting records, storage locations, the audit log, cycle counts and
  material rejections. One definition per store method. A method that runs in a transaction
  (\<^verbatim>\<open>...Atomically\<close>, with \<^verbatim>\<open>SELECT ... FOR UPDATE\<close>) is one step on the database: it either
  commits all its writes or returns the database unchanged.

  Constraints the statements can run into are part of the model: primary keys, the foreign
  keys between these tables, the unique key of count lines, the 32-bit \<^verbatim>\<open>INT\<close> columns and the
  three-letter currency column.
  Foreign keys to \<^verbatim>\<open>users\<close> (the authenticated caller) are not. Two behaviours belong to the
  database and its schema rather than to the Go code and are parameters, the fields of
  \<open>schema\<close>: whether \<^verbatim>\<open>cutting_records.produced_remnant_id\<close> is checked when the statement ends,
  and whether \<^verbatim>\<open>board_sheets\<close> has a \<^verbatim>\<open>material_id\<close> column.

  \<^verbatim>\<open>ORDER BY\<close> on a column with ties leaves their order open; the model keeps insertion order.
\<close>

section \<open>Rows\<close>

datatype SheetStatus = SheetPendingQC | SheetAvailable | SheetRejected | SheetIssued

datatype ClaimStatus = ClaimOpen | ClaimApproved | ClaimRejected | ClaimPaid

datatype SessionStatus = SessOpen | SessPosted | SessCancelled

datatype EntityType = EntRemnant | EntBoardSheet | EntWorkOrder | EntLot

datatype AuditAction =
    ActTransfer
  | ActAdjust
  | ActOverflowBypassed
  | ActRemnantBypassed
  | ActLotQCPass
  | ActLotReject
  | ActClaimTransition

datatype RemnantStrategy = BestFit | FIFO

record InventoryLot =
  lot_ID :: uuid
  lot_MaterialID :: uuid
  lot_Quantity :: int
  lot_CostPerSheet :: Money
  lot_SupplierRef :: string
  lot_IsActive :: bool
  lot_ReceivedAt :: time

record BoardSheet =
  sh_ID :: uuid
  sh_LotID :: uuid
  sh_Dimensions :: Dimension
  sh_CostPerSheet :: Money
  sh_Status :: SheetStatus
  sh_IssuedToWO :: "uuid option"
  sh_SupplierCode :: "string option"
  sh_LotBatch :: "string option"
  sh_GrainPattern :: "string option"
  sh_QualityGrade :: "string option"
  sh_BinLocationID :: "uuid option"

record Remnant =
  rem_ID :: uuid
  rem_ParentBoardID :: uuid
  rem_ParentRemnantID :: "uuid option"
  rem_Dimensions :: Dimension
  rem_Status :: RemnantStatus
  rem_ShapeType :: string
  rem_AllocatedToWO :: "uuid option"
  rem_AllocatedAt :: "time option"
  rem_SupplierCode :: "string option"
  rem_LotBatch :: "string option"
  rem_GrainPattern :: "string option"
  rem_QualityGrade :: "string option"
  rem_BBLengthMM :: "int option"
  rem_BBWidthMM :: "int option"
  rem_BinLocationID :: "uuid option"
  rem_CreatedAt :: time

record CuttingRecord =
  cr_ID :: uuid
  cr_SheetID :: "uuid option"
  cr_RemnantSourceID :: "uuid option"
  cr_WorkOrderID :: uuid
  cr_SKUID :: uuid
  cr_Used :: Dimension
  cr_ProducedRemnantID :: "uuid option"
  cr_CreatedAt :: time

record StorageLocation =
  loc_ID :: uuid
  loc_Zone :: string
  loc_Rack :: string
  loc_Shelf :: string
  loc_Label :: string
  loc_Barcode :: string
  loc_IsActive :: bool

text \<open>The columns of \<^verbatim>\<open>materials\<close> that inventory reads; the catalog module owns the table.\<close>

record MaterialRow =
  mat_ID :: uuid
  mat_MinRemnantLengthMM :: int
  mat_MinRemnantWidthMM :: int
  mat_Strategy :: RemnantStrategy

record AuditLogEntry =
  al_ID :: uuid
  al_EntityType :: EntityType
  al_EntityID :: uuid
  al_Action :: AuditAction
  al_ActorID :: uuid
  al_FromLocation :: "uuid option"
  al_ToLocation :: "uuid option"
  al_FromStatus :: "string option"
  al_ToStatus :: "string option"
  al_Reason :: "string option"
  al_SessionID :: "uuid option"
  al_Metadata :: "uuid list"
  al_CreatedAt :: time

record CycleCountSession =
  cs_ID :: uuid
  cs_Zone :: string
  cs_Status :: SessionStatus
  cs_CreatedBy :: uuid
  cs_PostedBy :: "uuid option"
  cs_CreatedAt :: time
  cs_PostedAt :: "time option"

record CycleCountLine =
  cl_ID :: uuid
  cl_SessionID :: uuid
  cl_EntityType :: EntityType
  cl_EntityID :: uuid
  cl_CountedStatus :: string
  cl_CountedLocationID :: "uuid option"
  cl_Reason :: string
  cl_CreatedAt :: time

record MaterialRejection =
  rj_ID :: uuid
  rj_LotID :: uuid
  rj_ReasonCode :: string
  rj_ReasonDetail :: string
  rj_RejectedQtySheets :: int
  rj_PhotoURLs :: "string list"
  rj_ClaimAmount :: "int option"
  rj_ClaimCurrency :: string
  rj_ClaimStatus :: ClaimStatus
  rj_ResolutionNotes :: string
  rj_ReportedBy :: uuid
  rj_ReportedAt :: time
  rj_ResolvedBy :: "uuid option"
  rj_ResolvedAt :: "time option"

record inv_db =
  lots :: "InventoryLot list"
  sheets :: "BoardSheet list"
  remnants :: "Remnant list"
  cuts :: "CuttingRecord list"
  locations :: "StorageLocation list"
  materials :: "MaterialRow list"
  audit :: "AuditLogEntry list"
  sessions :: "CycleCountSession list"
  count_lines :: "CycleCountLine list"
  rejections :: "MaterialRejection list"

record schema =
  produced_fk_immediate :: bool
  board_material_column :: bool

text \<open>Migration 00037 declares the key without \<^verbatim>\<open>DEFERRABLE\<close>; no migration adds the column.\<close>

definition migrated_schema :: schema where
  "migrated_schema = \<lparr>produced_fk_immediate = True, board_material_column = False\<rparr>"

section \<open>Status texts\<close>

text \<open>The \<^verbatim>\<open>TEXT\<close> values of the status columns, which count lines and audit rows carry.\<close>

fun sheet_status_text :: "SheetStatus \<Rightarrow> string" where
  "sheet_status_text SheetPendingQC = ''PENDING_QC''"
| "sheet_status_text SheetAvailable = ''AVAILABLE''"
| "sheet_status_text SheetRejected = ''REJECTED''"
| "sheet_status_text SheetIssued = ''ISSUED''"

fun remnant_status_text :: "RemnantStatus \<Rightarrow> string" where
  "remnant_status_text RemnantAvailable = ''AVAILABLE''"
| "remnant_status_text RemnantAllocated = ''ALLOCATED''"
| "remnant_status_text RemnantConsumed = ''CONSUMED''"
| "remnant_status_text RemnantWaste = ''WASTE''"
| "remnant_status_text RemnantExpired = ''EXPIRED''"

fun claim_status_text :: "ClaimStatus \<Rightarrow> string" where
  "claim_status_text ClaimOpen = ''OPEN''"
| "claim_status_text ClaimApproved = ''APPROVED''"
| "claim_status_text ClaimRejected = ''REJECTED''"
| "claim_status_text ClaimPaid = ''PAID''"

definition sheet_status_of :: "string \<Rightarrow> SheetStatus option" where
  "sheet_status_of t =
     find (\<lambda>s. sheet_status_text s = t) [SheetPendingQC, SheetAvailable, SheetRejected, SheetIssued]"

definition remnant_status_of :: "string \<Rightarrow> RemnantStatus option" where
  "remnant_status_of t =
     find (\<lambda>s. remnant_status_text s = t)
       [RemnantAvailable, RemnantAllocated, RemnantConsumed, RemnantWaste, RemnantExpired]"

lemma sheet_status_of_text [simp]: "sheet_status_of (sheet_status_text s) = Some s"
  by (cases s) (simp_all add: sheet_status_of_def)

lemma remnant_status_of_text [simp]: "remnant_status_of (remnant_status_text s) = Some s"
  by (cases s) (simp_all add: remnant_status_of_def)

lemma sheet_status_text_inj [simp]: "sheet_status_text s = sheet_status_text t \<longleftrightarrow> s = t"
  by (metis option.inject sheet_status_of_text)

lemma remnant_status_text_inj [simp]: "remnant_status_text s = remnant_status_text t \<longleftrightarrow> s = t"
  by (metis option.inject remnant_status_of_text)

section \<open>Lots and sheets\<close>

definition insertLot :: "InventoryLot \<Rightarrow> (inv_db, unit) op" where
  "insertLot lot db =
     (case insert_checked
             (\<lambda>l. if in_int4 (lot_Quantity l) then None else Some (Pg NumericOutOfRange))
             lot_ID lot (lots db) of
        Inl e \<Rightarrow> (Inl e, db)
      | Inr t \<Rightarrow> (Inr (), db\<lparr>lots := t\<rparr>))"

definition selectLotByID :: "uuid \<Rightarrow> inv_db \<Rightarrow> InventoryLot result" where
  "selectLotByID i db =
     (case row_by lot_ID i (lots db) of None \<Rightarrow> Inl (Biz ErrNotFound) | Some l \<Rightarrow> Inr l)"

definition deactivateLot :: "uuid \<Rightarrow> (inv_db, unit) op" where
  "deactivateLot i db =
     (if count_where (\<lambda>l. lot_ID l = i) (lots db) = 0 then (Inl (Biz ErrNotFound), db)
      else (Inr (), db\<lparr>lots := update_where (\<lambda>l. lot_ID l = i) (\<lambda>l. l\<lparr>lot_IsActive := False\<rparr>) (lots db)\<rparr>))"

definition check_sheet :: "inv_db \<Rightarrow> BoardSheet \<Rightarrow> error option" where
  "check_sheet db sh =
     (if \<not> dim_int4 (sh_Dimensions sh) then Some (Pg NumericOutOfRange)
      else if row_by lot_ID (sh_LotID sh) (lots db) = None then Some (Pg ForeignKeyViolation)
      else None)"

definition insertSheets :: "BoardSheet list \<Rightarrow> (inv_db, unit) op" where
  "insertSheets shs db =
     (case insert_batch (check_sheet db) sh_ID shs (sheets db) of
        Inl e \<Rightarrow> (Inl e, db)
      | Inr t \<Rightarrow> (Inr (), db\<lparr>sheets := t\<rparr>))"

definition selectSheetByID :: "uuid \<Rightarrow> inv_db \<Rightarrow> BoardSheet result" where
  "selectSheetByID i db =
     (case row_by sh_ID i (sheets db) of None \<Rightarrow> Inl (Biz ErrNotFound) | Some s \<Rightarrow> Inr s)"

text \<open>The join \<^verbatim>\<open>board_sheets \<rightarrow> inventory_lots\<close> that gives a sheet its material.\<close>

definition sheet_material :: "inv_db \<Rightarrow> BoardSheet \<Rightarrow> uuid option" where
  "sheet_material db sh = map_option lot_MaterialID (row_by lot_ID (sh_LotID sh) (lots db))"

definition countAvailableSheetsByMaterial :: "uuid \<Rightarrow> inv_db \<Rightarrow> int result" where
  "countAvailableSheetsByMaterial m db =
     Inr (int (count_where (\<lambda>s. sh_Status s = SheetAvailable \<and> sheet_material db s = Some m) (sheets db)))"

definition selectMinRemnantPolicyByParentBoard :: "uuid \<Rightarrow> inv_db \<Rightarrow> (int \<times> int) result" where
  "selectMinRemnantPolicyByParentBoard b db =
     (case row_by sh_ID b (sheets db) of
        None \<Rightarrow> Inl (Biz ErrNotFound)
      | Some sh \<Rightarrow>
          (case sheet_material db sh of
             None \<Rightarrow> Inl (Biz ErrNotFound)
           | Some m \<Rightarrow>
               (case row_by mat_ID m (materials db) of
                  None \<Rightarrow> Inl (Biz ErrNotFound)
                | Some mr \<Rightarrow> Inr (mat_MinRemnantLengthMM mr, mat_MinRemnantWidthMM mr))))"

definition selectMaterialStrategy :: "uuid \<Rightarrow> inv_db \<Rightarrow> RemnantStrategy result" where
  "selectMaterialStrategy m db =
     (case row_by mat_ID m (materials db) of
        None \<Rightarrow> Inl (Biz ErrNotFound) | Some mr \<Rightarrow> Inr (mat_Strategy mr))"

text \<open>Both sums are computed by the database and scanned into \<^verbatim>\<open>int64\<close>.\<close>

definition selectOverflowAreas :: "inv_db \<Rightarrow> (int \<times> int) result" where
  "selectOverflowAreas db =
     (let r = sum_where (area \<circ> rem_Dimensions)
                (\<lambda>r. rem_Status r \<in> {RemnantAvailable, RemnantAllocated}) (remnants db);
          s = sum_where (area \<circ> sh_Dimensions) (\<lambda>s. sh_Status s = SheetAvailable) (sheets db)
      in if in_i64 r \<and> in_i64 s then Inr (r, s) else Inl (Pg NumericOutOfRange))"

definition preAssignSheet :: "uuid \<Rightarrow> uuid \<Rightarrow> (inv_db, unit) op" where
  "preAssignSheet sheetID workOrderID db =
     (case row_by sh_ID sheetID (sheets db) of
        None \<Rightarrow> (Inl (Biz ErrNotFound), db)
      | Some sh \<Rightarrow>
          if sh_Status sh \<noteq> SheetAvailable then (Inl (Biz ErrPreconditionFailed), db)
          else (Inr (), db\<lparr>sheets := update_where (\<lambda>s. sh_ID s = sheetID)
                  (\<lambda>s. s\<lparr>sh_IssuedToWO := Some workOrderID\<rparr>) (sheets db)\<rparr>))"

definition updateSheetBinLocation :: "uuid \<Rightarrow> uuid \<Rightarrow> (inv_db, unit) op" where
  "updateSheetBinLocation sheetID locationID db =
     (if count_where (\<lambda>s. sh_ID s = sheetID) (sheets db) = 0 then (Inl (Biz ErrNotFound), db)
      else (Inr (), db\<lparr>sheets := update_where (\<lambda>s. sh_ID s = sheetID)
              (\<lambda>s. s\<lparr>sh_BinLocationID := Some locationID\<rparr>) (sheets db)\<rparr>))"

section \<open>Cuts and remnants\<close>

record sheetStatusUpdate =
  su_ID :: uuid
  su_Status :: SheetStatus
  su_IssuedToWO :: "uuid option"

record remnantStatusUpdate =
  ru_ID :: uuid
  ru_Status :: RemnantStatus

record cutWriteOp =
  op_Record :: CuttingRecord
  op_SheetUpdate :: "sheetStatusUpdate option"
  op_RemnantUpdate :: "remnantStatusUpdate option"
  op_NewRemnant :: "Remnant option"

definition selectRemnantByID :: "uuid \<Rightarrow> inv_db \<Rightarrow> Remnant result" where
  "selectRemnantByID i db =
     (case row_by rem_ID i (remnants db) of None \<Rightarrow> Inl (Biz ErrNotFound) | Some r \<Rightarrow> Inr r)"

definition int4_opt :: "int option \<Rightarrow> bool" where
  "int4_opt x = (case x of None \<Rightarrow> True | Some v \<Rightarrow> in_int4 v)"

definition check_cut :: "schema \<Rightarrow> inv_db \<Rightarrow> CuttingRecord \<Rightarrow> error option" where
  "check_cut sch db cr =
     (if \<not> dim_int4 (cr_Used cr) then Some (Pg NumericOutOfRange)
      else if produced_fk_immediate sch \<and>
              (\<exists>i. cr_ProducedRemnantID cr = Some i \<and> row_by rem_ID i (remnants db) = None)
           then Some (Pg ForeignKeyViolation)
      else if (\<exists>i. cr_SheetID cr = Some i \<and> row_by sh_ID i (sheets db) = None)
           then Some (Pg ForeignKeyViolation)
      else None)"

lemma check_cut_code [code]:
  "check_cut sch db cr =
     (if \<not> dim_int4 (cr_Used cr) then Some (Pg NumericOutOfRange)
      else if produced_fk_immediate sch \<and>
              (case cr_ProducedRemnantID cr of None \<Rightarrow> False
               | Some i \<Rightarrow> Option.is_none (row_by rem_ID i (remnants db)))
           then Some (Pg ForeignKeyViolation)
      else if (case cr_SheetID cr of None \<Rightarrow> False
               | Some i \<Rightarrow> Option.is_none (row_by sh_ID i (sheets db)))
           then Some (Pg ForeignKeyViolation)
      else None)"
  by (auto simp: check_cut_def Option.is_none_def split: option.splits)

definition check_remnant :: "inv_db \<Rightarrow> Remnant \<Rightarrow> error option" where
  "check_remnant db r =
     (if \<not> dim_int4 (rem_Dimensions r) \<or> \<not> int4_opt (rem_BBLengthMM r) \<or> \<not> int4_opt (rem_BBWidthMM r)
      then Some (Pg NumericOutOfRange)
      else if row_by sh_ID (rem_ParentBoardID r) (sheets db) = None then Some (Pg ForeignKeyViolation)
      else None)"

text \<open>
  \<^verbatim>\<open>recordCutAtomically\<close>: lock the source row, check its status again, mark it used, insert the
  cutting record and then the new remnant. Each step returns the database it would leave;
  the whole is committed only if all succeed.
\<close>

definition cut_lock_source :: "cutWriteOp \<Rightarrow> inv_db \<Rightarrow> inv_db result" where
  "cut_lock_source p db =
     (case op_SheetUpdate p of
        Some su \<Rightarrow>
          (case row_by sh_ID (su_ID su) (sheets db) of
             None \<Rightarrow> Inl (Biz ErrNotFound)
           | Some sh \<Rightarrow>
               if sh_Status sh \<noteq> SheetAvailable then Inl (Biz ErrPreconditionFailed)
               else Inr (db\<lparr>sheets := update_where (\<lambda>s. sh_ID s = su_ID su)
                      (\<lambda>s. s\<lparr>sh_Status := su_Status su, sh_IssuedToWO := su_IssuedToWO su\<rparr>) (sheets db)\<rparr>))
      | None \<Rightarrow>
          (case op_RemnantUpdate p of
             None \<Rightarrow> Inr db
           | Some ru \<Rightarrow>
               (case row_by rem_ID (ru_ID ru) (remnants db) of
                  None \<Rightarrow> Inl (Biz ErrNotFound)
                | Some r \<Rightarrow>
                    if rem_Status r \<noteq> RemnantAvailable \<and> rem_Status r \<noteq> RemnantAllocated
                    then Inl (Biz ErrPreconditionFailed)
                    else Inr (db\<lparr>remnants := update_where (\<lambda>r. rem_ID r = ru_ID ru)
                           (\<lambda>r. r\<lparr>rem_Status := ru_Status ru, rem_AllocatedToWO := None\<rparr>) (remnants db)\<rparr>))))"

definition cut_insert_record :: "schema \<Rightarrow> cutWriteOp \<Rightarrow> inv_db \<Rightarrow> inv_db result" where
  "cut_insert_record sch p db =
     map_sum id (\<lambda>t. db\<lparr>cuts := t\<rparr>) (insert_checked (check_cut sch db) cr_ID (op_Record p) (cuts db))"

definition cut_insert_remnant :: "cutWriteOp \<Rightarrow> inv_db \<Rightarrow> inv_db result" where
  "cut_insert_remnant p db =
     (case op_NewRemnant p of
        None \<Rightarrow> Inr db
      | Some r \<Rightarrow>
          map_sum id (\<lambda>t. db\<lparr>remnants := t\<rparr>) (insert_checked (check_remnant db) rem_ID r (remnants db)))"

definition recordCutAtomically :: "schema \<Rightarrow> cutWriteOp \<Rightarrow> (inv_db, unit) op" where
  "recordCutAtomically sch p db =
     (case cut_lock_source p db of
        Inl e \<Rightarrow> (Inl e, db)
      | Inr db1 \<Rightarrow>
          (case cut_insert_record sch p db1 of
             Inl e \<Rightarrow> (Inl e, db)
           | Inr db2 \<Rightarrow>
               (case cut_insert_remnant p db2 of
                  Inl e \<Rightarrow> (Inl e, db)
                | Inr db3 \<Rightarrow> (Inr (), db3))))"

definition allocateRemnantAtomically :: "time \<Rightarrow> uuid \<Rightarrow> uuid \<Rightarrow> (inv_db, unit) op" where
  "allocateRemnantAtomically t remnantID workOrderID db =
     (case row_by rem_ID remnantID (remnants db) of
        None \<Rightarrow> (Inl (Biz ErrNotFound), db)
      | Some r \<Rightarrow>
          if rem_Status r \<noteq> RemnantAvailable then (Inl (Biz ErrPreconditionFailed), db)
          else (Inr (), db\<lparr>remnants := update_where (\<lambda>r. rem_ID r = remnantID)
                  (\<lambda>r. r\<lparr>rem_Status := RemnantAllocated, rem_AllocatedToWO := Some workOrderID,
                         rem_AllocatedAt := Some t\<rparr>) (remnants db)\<rparr>))"

definition markRemnantWasteAtomically :: "uuid \<Rightarrow> (inv_db, unit) op" where
  "markRemnantWasteAtomically remnantID db =
     (case row_by rem_ID remnantID (remnants db) of
        None \<Rightarrow> (Inl (Biz ErrNotFound), db)
      | Some r \<Rightarrow>
          if rem_Status r \<noteq> RemnantAvailable \<and> rem_Status r \<noteq> RemnantAllocated
          then (Inl (Biz ErrPreconditionFailed), db)
          else (Inr (), db\<lparr>remnants := update_where (\<lambda>r. rem_ID r = remnantID)
                  (\<lambda>r. r\<lparr>rem_Status := RemnantWaste, rem_AllocatedToWO := None\<rparr>) (remnants db)\<rparr>))"

definition allocation_expired :: "time \<Rightarrow> Remnant \<Rightarrow> bool" where
  "allocation_expired before r \<longleftrightarrow> rem_Status r = RemnantAllocated \<and>
     (case rem_AllocatedAt r of None \<Rightarrow> False | Some a \<Rightarrow> a < before)"

definition releaseExpiredAllocations :: "time \<Rightarrow> (inv_db, int) op" where
  "releaseExpiredAllocations before db =
     (Inr (int (count_where (allocation_expired before) (remnants db))),
      db\<lparr>remnants := update_where (allocation_expired before)
           (\<lambda>r. r\<lparr>rem_Status := RemnantAvailable, rem_AllocatedToWO := None, rem_AllocatedAt := None\<rparr>)
           (remnants db)\<rparr>)"

text \<open>Instants are counted in microseconds, the resolution of \<^verbatim>\<open>timestamptz\<close>.\<close>

definition day_us :: int where
  "day_us = 86400000000"

definition age_days :: "time \<Rightarrow> Remnant \<Rightarrow> int" where
  "age_days t r = quot (t - rem_CreatedAt r) day_us"

definition selectRemnantAging :: "time \<Rightarrow> inv_db \<Rightarrow> (Remnant \<times> int) list result" where
  "selectRemnantAging t db =
     Inr (map (\<lambda>r. (r, age_days t r))
       (sort_key rem_CreatedAt (select_where (\<lambda>r. rem_Status r = RemnantAvailable) (remnants db))))"

definition stale :: "time \<Rightarrow> int \<Rightarrow> Remnant \<Rightarrow> bool" where
  "stale t ageDays r \<longleftrightarrow> rem_Status r = RemnantAvailable \<and> rem_CreatedAt r < t - ageDays * day_us"

definition expireStaleRemnants :: "time \<Rightarrow> int \<Rightarrow> (inv_db, int) op" where
  "expireStaleRemnants t ageDays db =
     (Inr (int (count_where (stale t ageDays) (remnants db))),
      db\<lparr>remnants := update_where (stale t ageDays) (\<lambda>r. r\<lparr>rem_Status := RemnantExpired\<rparr>) (remnants db)\<rparr>)"

definition updateRemnantBinLocation :: "uuid \<Rightarrow> uuid \<Rightarrow> (inv_db, unit) op" where
  "updateRemnantBinLocation remnantID locationID db =
     (if count_where (\<lambda>r. rem_ID r = remnantID) (remnants db) = 0 then (Inl (Biz ErrNotFound), db)
      else (Inr (), db\<lparr>remnants := update_where (\<lambda>r. rem_ID r = remnantID)
              (\<lambda>r. r\<lparr>rem_BinLocationID := Some locationID\<rparr>) (remnants db)\<rparr>))"

text \<open>The usable rectangle of a remnant: its bounding box, or its dimension without one.\<close>

definition usable :: "Remnant \<Rightarrow> Dimension" where
  "usable r = \<lparr>LengthMM = (case rem_BBLengthMM r of None \<Rightarrow> LengthMM (rem_Dimensions r) | Some l \<Rightarrow> l),
               WidthMM = (case rem_BBWidthMM r of None \<Rightarrow> WidthMM (rem_Dimensions r) | Some w \<Rightarrow> w)\<rparr>"

lemma usable_update [simp]:
  "usable (r\<lparr>rem_Status := st\<rparr>) = usable r" "usable (r\<lparr>rem_AllocatedToWO := wo\<rparr>) = usable r"
  "usable (r\<lparr>rem_AllocatedAt := t\<rparr>) = usable r" "usable (r\<lparr>rem_BinLocationID := l\<rparr>) = usable r"
  by (simp_all add: usable_def cong: option.case_cong)

definition fits_request :: "Dimension \<Rightarrow> Remnant \<Rightarrow> bool" where
  "fits_request minDim r \<longleftrightarrow> rem_Status r = RemnantAvailable \<and>
     LengthMM (usable r) \<ge> LengthMM minDim \<and> WidthMM (usable r) \<ge> WidthMM minDim"

definition selectAvailableRemnantsByMinDimension :: "Dimension \<Rightarrow> inv_db \<Rightarrow> Remnant list result" where
  "selectAvailableRemnantsByMinDimension minDim db =
     Inr (sort_key (\<lambda>r. (area (usable r), rem_CreatedAt r)) (select_where (fits_request minDim) (remnants db)))"

record RemnantSuggestion =
  sg_Remnant :: Remnant
  sg_Location :: "StorageLocation option"
  sg_Rank :: int
  sg_AgeDays :: int
  sg_Score :: rat

definition strategy_key :: "RemnantStrategy \<Rightarrow> Remnant \<Rightarrow> int \<times> int" where
  "strategy_key s r = (case s of FIFO \<Rightarrow> (rem_CreatedAt r, area (usable r))
                              | BestFit \<Rightarrow> (area (usable r), rem_CreatedAt r))"

definition active_location :: "inv_db \<Rightarrow> uuid option \<Rightarrow> StorageLocation option" where
  "active_location db l =
     (case l of None \<Rightarrow> None
      | Some i \<Rightarrow> (case row_by loc_ID i (locations db) of
                     None \<Rightarrow> None | Some sl \<Rightarrow> if loc_IsActive sl then Some sl else None))"

text \<open>
  The query names \<^verbatim>\<open>bs.material_id\<close> whether or not a material is given, so a schema without
  that column refuses it. The column, where there is one, is read as the sheet's material.
\<close>

definition selectTopRemnantSuggestions ::
  "schema \<Rightarrow> time \<Rightarrow> Dimension \<Rightarrow> nat \<Rightarrow> RemnantStrategy \<Rightarrow> uuid option \<Rightarrow> inv_db \<Rightarrow> RemnantSuggestion list result" where
  "selectTopRemnantSuggestions sch t minDim limit strategy materialID db =
     (if \<not> board_material_column sch then Inl (Pg UndefinedColumn)
      else let matching = select_where (\<lambda>r. fits_request minDim r \<and>
                 (materialID = None \<or>
                  (case row_by sh_ID (rem_ParentBoardID r) (sheets db) of
                     None \<Rightarrow> False | Some sh \<Rightarrow> sheet_material db sh = materialID))) (remnants db);
               top = take limit (sort_key (strategy_key strategy) matching)
           in Inr (map (\<lambda>(i, r). \<lparr>sg_Remnant = r, sg_Location = active_location db (rem_BinLocationID r),
                                   sg_Rank = int i + 1, sg_AgeDays = age_days t r, sg_Score = 0\<rparr>)
                (zip [0..<length top] top)))"

record RemnantFilter =
  rf_MinLengthMM :: int
  rf_MinWidthMM :: int
  rf_Status :: "RemnantStatus option"

definition remnant_matches :: "RemnantFilter \<Rightarrow> RemnantStatus \<Rightarrow> Remnant \<Rightarrow> bool" where
  "remnant_matches f st r \<longleftrightarrow> rem_Status r = st \<and>
     (rf_MinLengthMM f = 0 \<or> LengthMM (usable r) \<ge> rf_MinLengthMM f) \<and>
     (rf_MinWidthMM f = 0 \<or> WidthMM (usable r) \<ge> rf_MinWidthMM f)"

definition selectRemnantsByFilter ::
  "RemnantFilter \<Rightarrow> PageParams \<Rightarrow> inv_db \<Rightarrow> (Remnant list \<times> int) result" where
  "selectRemnantsByFilter f p db =
     (let st = (case rf_Status f of None \<Rightarrow> RemnantAvailable | Some s \<Rightarrow> s);
          rows = select_where (remnant_matches f st) (remnants db);
          sgn = (if Order p = ''desc'' then -1 else 1);
          sorted_rows = sort_key (\<lambda>r. (sgn * rem_CreatedAt r, area (usable r))) rows
      in Inr (take (nat (Limit p)) (drop (nat (Offset p)) sorted_rows), int (length rows)))"

definition selectRemnantsByBoardSheet :: "uuid \<Rightarrow> inv_db \<Rightarrow> Remnant list result" where
  "selectRemnantsByBoardSheet b db =
     Inr (sort_key rem_CreatedAt (select_where (\<lambda>r. rem_ParentBoardID r = b) (remnants db)))"

definition selectStorageLocationByBarcode :: "string \<Rightarrow> inv_db \<Rightarrow> StorageLocation result" where
  "selectStorageLocationByBarcode bc db =
     (case find (\<lambda>l. loc_Barcode l = bc \<and> loc_IsActive l) (locations db) of
        None \<Rightarrow> Inl (Biz ErrNotFound) | Some l \<Rightarrow> Inr l)"

section \<open>Audit log\<close>

definition insertAuditLog :: "AuditLogEntry \<Rightarrow> (inv_db, unit) op" where
  "insertAuditLog e db =
     (case insert_row al_ID e (audit db) of
        Inl err \<Rightarrow> (Inl err, db) | Inr t \<Rightarrow> (Inr (), db\<lparr>audit := t\<rparr>))"

section \<open>Cycle counts\<close>

definition insertCycleCountSession :: "CycleCountSession \<Rightarrow> (inv_db, unit) op" where
  "insertCycleCountSession s db =
     (case insert_row cs_ID s (sessions db) of
        Inl e \<Rightarrow> (Inl e, db) | Inr t \<Rightarrow> (Inr (), db\<lparr>sessions := t\<rparr>))"

definition selectCycleCountSessionByID :: "uuid \<Rightarrow> inv_db \<Rightarrow> CycleCountSession result" where
  "selectCycleCountSessionByID i db =
     (case row_by cs_ID i (sessions db) of None \<Rightarrow> Inl (Biz ErrNotFound) | Some s \<Rightarrow> Inr s)"

definition updateCycleCountSessionStatus ::
  "time \<Rightarrow> uuid \<Rightarrow> SessionStatus \<Rightarrow> uuid option \<Rightarrow> (inv_db, unit) op" where
  "updateCycleCountSessionStatus t i st postedBy db =
     (if count_where (\<lambda>s. cs_ID s = i) (sessions db) = 0 then (Inl (Biz ErrNotFound), db)
      else (Inr (), db\<lparr>sessions := update_where (\<lambda>s. cs_ID s = i)
              (\<lambda>s. s\<lparr>cs_Status := st, cs_PostedBy := postedBy,
                     cs_PostedAt := (if st = SessPosted then Some t else None)\<rparr>) (sessions db)\<rparr>))"

definition line_key :: "CycleCountLine \<Rightarrow> uuid \<times> EntityType \<times> uuid" where
  "line_key l = (cl_SessionID l, cl_EntityType l, cl_EntityID l)"

definition insertCycleCountLine :: "CycleCountLine \<Rightarrow> (inv_db, unit) op" where
  "insertCycleCountLine l db =
     (if row_by cs_ID (cl_SessionID l) (sessions db) = None then (Inl (Pg ForeignKeyViolation), db)
      else if (case cl_CountedLocationID l of None \<Rightarrow> False
               | Some i \<Rightarrow> Option.is_none (row_by loc_ID i (locations db)))
           then (Inl (Pg ForeignKeyViolation), db)
      else if line_key l \<in> line_key ` set (count_lines db) \<or> cl_ID l \<in> cl_ID ` set (count_lines db)
           then (Inl (Biz ErrPreconditionFailed), db)
      else (Inr (), db\<lparr>count_lines := count_lines db @ [l]\<rparr>))"

definition selectCycleCountLinesBySession :: "uuid \<Rightarrow> inv_db \<Rightarrow> CycleCountLine list result" where
  "selectCycleCountLinesBySession i db =
     Inr (sort_key cl_CreatedAt (select_where (\<lambda>l. cl_SessionID l = i) (count_lines db)))"

record cycleCountAdjustment =
  aj_EntityType :: EntityType
  aj_EntityID :: uuid
  aj_OldLocationID :: "uuid option"
  aj_NewLocationID :: "uuid option"
  aj_OldStatus :: string
  aj_NewStatus :: string
  aj_AuditEntry :: AuditLogEntry

text \<open>
  The adjusting \<^verbatim>\<open>UPDATE\<close>s write the counted text into the status column. The model's columns
  hold the statuses the code defines; \<^verbatim>\<open>AddCycleCountLine\<close> admits no other text.
\<close>

definition adjust_remnant :: "cycleCountAdjustment \<Rightarrow> Remnant \<Rightarrow> Remnant" where
  "adjust_remnant a r =
     r\<lparr>rem_Status := (case remnant_status_of (aj_NewStatus a) of None \<Rightarrow> rem_Status r | Some s \<Rightarrow> s),
       rem_BinLocationID := aj_NewLocationID a\<rparr>"

definition adjust_sheet :: "cycleCountAdjustment \<Rightarrow> BoardSheet \<Rightarrow> BoardSheet" where
  "adjust_sheet a s =
     s\<lparr>sh_Status := (case sheet_status_of (aj_NewStatus a) of None \<Rightarrow> sh_Status s | Some st \<Rightarrow> st),
       sh_BinLocationID := aj_NewLocationID a\<rparr>"

definition apply_adjustment :: "cycleCountAdjustment \<Rightarrow> inv_db \<Rightarrow> inv_db result" where
  "apply_adjustment a db =
     (let db1 = (if aj_EntityType a = EntRemnant
                 then db\<lparr>remnants := update_where (\<lambda>r. rem_ID r = aj_EntityID a) (adjust_remnant a) (remnants db)\<rparr>
                 else db\<lparr>sheets := update_where (\<lambda>s. sh_ID s = aj_EntityID a) (adjust_sheet a) (sheets db)\<rparr>)
      in map_sum id (\<lambda>t. db1\<lparr>audit := t\<rparr>) (insert_row al_ID (aj_AuditEntry a) (audit db1)))"

fun apply_adjustments :: "cycleCountAdjustment list \<Rightarrow> inv_db \<Rightarrow> inv_db result" where
  "apply_adjustments [] db = Inr db"
| "apply_adjustments (a # as) db =
     (case apply_adjustment a db of Inl e \<Rightarrow> Inl e | Inr db' \<Rightarrow> apply_adjustments as db')"

definition postCycleCountAtomically ::
  "time \<Rightarrow> uuid \<Rightarrow> uuid \<Rightarrow> cycleCountAdjustment list \<Rightarrow> (inv_db, unit) op" where
  "postCycleCountAtomically t sessionID postedBy adjs db =
     (case row_by cs_ID sessionID (sessions db) of
        None \<Rightarrow> (Inl (Biz ErrNotFound), db)
      | Some s \<Rightarrow>
          if cs_Status s \<noteq> SessOpen then (Inl (Biz ErrInvalidTransition), db)
          else (case apply_adjustments adjs db of
                  Inl e \<Rightarrow> (Inl e, db)
                | Inr db' \<Rightarrow>
                    (Inr (), db'\<lparr>sessions := update_where (\<lambda>s. cs_ID s = sessionID)
                       (\<lambda>s. s\<lparr>cs_Status := SessPosted, cs_PostedBy := Some postedBy, cs_PostedAt := Some t\<rparr>)
                       (sessions db')\<rparr>)))"

section \<open>Quality control and rejections\<close>

definition pending_of :: "uuid \<Rightarrow> BoardSheet \<Rightarrow> bool" where
  "pending_of lotID s \<longleftrightarrow> sh_LotID s = lotID \<and> sh_Status s = SheetPendingQC"

definition qcPassLotAtomically :: "uuid \<Rightarrow> (inv_db, int) op" where
  "qcPassLotAtomically lotID db =
     (Inr (int (count_where (pending_of lotID) (sheets db))),
      db\<lparr>sheets := update_where (pending_of lotID) (\<lambda>s. s\<lparr>sh_Status := SheetAvailable\<rparr>) (sheets db)\<rparr>)"

definition check_rejection :: "inv_db \<Rightarrow> MaterialRejection \<Rightarrow> error option" where
  "check_rejection db r =
     (if \<not> in_int4 (rj_RejectedQtySheets r) then Some (Pg NumericOutOfRange)
      else if rj_RejectedQtySheets r \<le> 0 then Some (Pg CheckViolation)
      else if row_by lot_ID (rj_LotID r) (lots db) = None then Some (Pg ForeignKeyViolation)
      else None)"

definition rejectLotAtomically :: "uuid \<Rightarrow> int \<Rightarrow> MaterialRejection \<Rightarrow> (inv_db, uuid list) op" where
  "rejectLotAtomically lotID qty rej db =
     (let ids = take (nat qty) (sort (map sh_ID (select_where (pending_of lotID) (sheets db))))
      in if int (length ids) < qty then (Inl (Biz ErrPreconditionFailed), db)
         else let db1 = db\<lparr>sheets := update_where (\<lambda>s. sh_ID s \<in> set ids)
                     (\<lambda>s. s\<lparr>sh_Status := SheetRejected\<rparr>) (sheets db)\<rparr>
              in (case insert_checked (check_rejection db1) rj_ID rej (rejections db1) of
                    Inl e \<Rightarrow> (Inl e, db)
                  | Inr t \<Rightarrow> (Inr ids, db1\<lparr>rejections := t\<rparr>)))"

definition selectRejectionByID :: "uuid \<Rightarrow> inv_db \<Rightarrow> MaterialRejection result" where
  "selectRejectionByID i db =
     (case row_by rj_ID i (rejections db) of None \<Rightarrow> Inl (Biz ErrNotFound) | Some r \<Rightarrow> Inr r)"

record updateClaimRow =
  uc_RejectionID :: uuid
  uc_ClaimStatus :: ClaimStatus
  uc_ClaimAmount :: "int option"
  uc_ClaimCurrency :: string
  uc_ResolutionNotes :: string
  uc_ResolvedBy :: "uuid option"
  uc_ResolvedAt :: "time option"

text \<open>\<^verbatim>\<open>COALESCE($n, col)\<close> and \<^verbatim>\<open>COALESCE(NULLIF($n, ''), col)\<close>.\<close>

definition coalesce :: "'a option \<Rightarrow> 'a option \<Rightarrow> 'a option" where
  "coalesce new old = (case new of None \<Rightarrow> old | Some v \<Rightarrow> Some v)"

definition coalesce_text :: "string \<Rightarrow> string \<Rightarrow> string" where
  "coalesce_text new old = (if new = [] then old else new)"

definition claim_update :: "updateClaimRow \<Rightarrow> MaterialRejection \<Rightarrow> MaterialRejection" where
  "claim_update u r =
     r\<lparr>rj_ClaimStatus := uc_ClaimStatus u,
       rj_ClaimAmount := coalesce (uc_ClaimAmount u) (rj_ClaimAmount r),
       rj_ClaimCurrency := coalesce_text (uc_ClaimCurrency u) (rj_ClaimCurrency r),
       rj_ResolutionNotes := coalesce_text (uc_ResolutionNotes u) (rj_ResolutionNotes r),
       rj_ResolvedBy := coalesce (uc_ResolvedBy u) (rj_ResolvedBy r),
       rj_ResolvedAt := coalesce (uc_ResolvedAt u) (rj_ResolvedAt r)\<rparr>"

definition updateRejectionClaim :: "updateClaimRow \<Rightarrow> (inv_db, MaterialRejection) op" where
  "updateRejectionClaim u db =
     (if count_where (\<lambda>r. rj_ID r = uc_RejectionID u) (rejections db) = 0 then (Inl (Biz ErrNotFound), db)
      else if length (uc_ClaimCurrency u) > 3 then (Inl (Pg StringTruncation), db)
      else let db' = db\<lparr>rejections := update_where (\<lambda>r. rj_ID r = uc_RejectionID u)
                  (claim_update u) (rejections db)\<rparr>
           in (selectRejectionByID (uc_RejectionID u) db', db'))"

end
