(* ===== verification/Inventory_Service.thy ===== *)
theory Inventory_Service
  imports Inventory_Store
begin

text \<open>
  The operations of \<^verbatim>\<open>internal/module/inventory/service.go\<close> over the store of
  \<open>Inventory_Store\<close>: receiving stock, quality control, pre-assigning sheets, cutting, the
  life of a remnant, transfers, cycle counts and supplier claims. An operation returns its
  result and the database it leaves; \<open>env\<close> supplies the clock and the identifiers.

  The neighbours of the module (\<^verbatim>\<open>deps.go\<close>) are the functions in \<open>inv_deps\<close>, which act on a state
  \<open>'x\<close> of their own. They run after the cut is stored and their errors are only logged, so
  an operation returns the neighbours' state beside the database and drops their errors.

  \<open>cut_plan\<close> is everything \<^verbatim>\<open>RecordCut\<close> does before its transaction: validation, the unlocked
  read of the source, the area check and the decision about the leftover.
\<close>

section \<open>Interfaces to the other modules\<close>

record BarcodeForCutInput =
  bi_WorkOrderID :: uuid
  bi_UsedDimension :: Dimension
  bi_RemnantDimension :: "Dimension option"
  bi_ProducedDate :: time

record BarcodeForCutOutput =
  bo_WIPBarcodeID :: "uuid option"
  bo_RemnantBarcodeID :: "uuid option"

record PRFromRejectionInput =
  pr_RejectionID :: uuid
  pr_LotID :: uuid
  pr_MaterialID :: uuid
  pr_Supplier :: string
  pr_QtySheets :: int
  pr_ActorID :: uuid

record 'x inv_deps =
  woa :: "(uuid \<Rightarrow> WorkOrderStatus \<Rightarrow> ('x, unit) op) option"
  bcg :: "(BarcodeForCutInput \<Rightarrow> 'x \<Rightarrow> BarcodeForCutOutput \<times> 'x) option"
  notifier :: "(uuid \<Rightarrow> uuid \<Rightarrow> ('x, unit) op) option"
  prCreate :: "(PRFromRejectionInput \<Rightarrow> ('x, unit) op) option"
  prCancel :: "(uuid \<Rightarrow> ('x, unit) op) option"

definition no_deps :: "'x inv_deps" where
  "no_deps = \<lparr>woa = None, bcg = None, notifier = None, prCreate = None, prCancel = None\<rparr>"

text \<open>Call an optional neighbour and keep only the state it leaves.\<close>

definition best_effort :: "('a \<Rightarrow> ('x, 'b) op) option \<Rightarrow> 'a \<Rightarrow> 'x \<Rightarrow> 'x" where
  "best_effort f a x = (case f of None \<Rightarrow> x | Some g \<Rightarrow> snd (g a x))"

section \<open>Receiving stock\<close>

record ReceiveStockInput =
  rs_MaterialID :: uuid
  rs_Dimensions :: Dimension
  rs_CostPerSheet :: Money
  rs_Quantity :: int
  rs_SupplierRef :: string

definition new_sheet :: "ReceiveStockInput \<Rightarrow> uuid \<Rightarrow> uuid \<Rightarrow> BoardSheet" where
  "new_sheet inp lotID i =
     \<lparr>sh_ID = i, sh_LotID = lotID, sh_Dimensions = rs_Dimensions inp,
      sh_CostPerSheet = rs_CostPerSheet inp, sh_Status = SheetPendingQC, sh_IssuedToWO = None,
      sh_SupplierCode = None, sh_LotBatch = Some (rs_SupplierRef inp), sh_GrainPattern = None,
      sh_QualityGrade = None, sh_BinLocationID = None\<rparr>"

definition ReceiveStock :: "env \<Rightarrow> ReceiveStockInput \<Rightarrow> (inv_db, InventoryLot) op" where
  "ReceiveStock env inp db =
     (if rs_Quantity inp \<le> 0 then (Inl (Biz ErrInvalidInput), db)
      else if \<not> Valid (rs_Dimensions inp) then (Inl (Biz ErrInvalidInput), db)
      else let lot = \<lparr>lot_ID = fresh env 0, lot_MaterialID = rs_MaterialID inp,
                      lot_Quantity = rs_Quantity inp, lot_CostPerSheet = rs_CostPerSheet inp,
                      lot_SupplierRef = rs_SupplierRef inp, lot_IsActive = True,
                      lot_ReceivedAt = now env\<rparr>
           in (case insertLot lot db of
                 (Inl e, db1) \<Rightarrow> (Inl e, db1)
               | (Inr _, db1) \<Rightarrow>
                   (case insertSheets (map (\<lambda>i. new_sheet inp (lot_ID lot) (fresh env (Suc i)))
                                         [0..<nat (rs_Quantity inp)]) db1 of
                      (Inl e, db2) \<Rightarrow> (Inl e, db2)
                    | (Inr _, db2) \<Rightarrow> (Inr lot, db2))))"

section \<open>The remnant overflow gate\<close>

record OverflowStatus =
  ov_Red :: bool
  ov_OverflowPct :: rat
  ov_ThresholdPct :: rat
  ov_BlockNewSheetIssue :: bool
  ov_TotalRemnantAreaMM2 :: int
  ov_TotalSheetAreaMM2 :: int

text \<open>The constructors replace a threshold outside \<open>(0, 100]\<close> by the default.\<close>

definition overflow_threshold :: "rat \<Rightarrow> rat" where
  "overflow_threshold pct = (if pct \<le> 0 \<or> pct > 100 then 15 else pct)"

definition overflow_pct :: "int \<Rightarrow> int \<Rightarrow> rat" where
  "overflow_pct remnantArea sheetArea =
     (if sheetArea > 0 then fl (fl (fl (of_int remnantArea) * 100) / fl (of_int sheetArea))
      else if remnantArea > 0 then 100 else 0)"

definition GetOverflowStatus :: "rat \<Rightarrow> inv_db \<Rightarrow> OverflowStatus result" where
  "GetOverflowStatus threshold db =
     (case selectOverflowAreas db of
        Inl e \<Rightarrow> Inl e
      | Inr (r, s) \<Rightarrow>
          let pct = overflow_pct r s; red = pct > threshold
          in Inr \<lparr>ov_Red = red, ov_OverflowPct = pct, ov_ThresholdPct = threshold,
                  ov_BlockNewSheetIssue = red, ov_TotalRemnantAreaMM2 = r, ov_TotalSheetAreaMM2 = s\<rparr>)"

record PreAssignSheetInput =
  pa_SheetID :: uuid
  pa_WorkOrderID :: uuid
  pa_BypassOverflow :: bool
  pa_ActorID :: uuid
  pa_Reason :: string

definition blank_audit :: "uuid \<Rightarrow> EntityType \<Rightarrow> uuid \<Rightarrow> AuditAction \<Rightarrow> uuid \<Rightarrow> time \<Rightarrow> AuditLogEntry" where
  "blank_audit i et eid act actor t =
     \<lparr>al_ID = i, al_EntityType = et, al_EntityID = eid, al_Action = act, al_ActorID = actor,
      al_FromLocation = None, al_ToLocation = None, al_FromStatus = None, al_ToStatus = None,
      al_Reason = None, al_SessionID = None, al_Metadata = [], al_CreatedAt = t\<rparr>"

definition PreAssignSheet :: "rat \<Rightarrow> env \<Rightarrow> PreAssignSheetInput \<Rightarrow> (inv_db, unit) op" where
  "PreAssignSheet threshold env inp db =
     (case GetOverflowStatus threshold db of
        Inl e \<Rightarrow> (Inl e, db)
      | Inr ov \<Rightarrow>
          if \<not> ov_BlockNewSheetIssue ov then preAssignSheet (pa_SheetID inp) (pa_WorkOrderID inp) db
          else if \<not> pa_BypassOverflow inp then (Inl (Biz ErrPreconditionFailed), db)
          else if pa_ActorID inp = uuid_Nil \<or> pa_Reason inp = [] then (Inl (Biz ErrInvalidInput), db)
          else (case insertAuditLog
                       ((blank_audit (fresh env 0) EntBoardSheet (pa_SheetID inp) ActOverflowBypassed
                           (pa_ActorID inp) (now env))\<lparr>al_Reason := Some (pa_Reason inp)\<rparr>) db of
                  (Inl e, db1) \<Rightarrow> (Inl e, db1)
                | (Inr _, db1) \<Rightarrow> preAssignSheet (pa_SheetID inp) (pa_WorkOrderID inp) db1))"

section \<open>Cutting\<close>

record RecordCutInput =
  ci_SheetID :: "uuid option"
  ci_RemnantID :: "uuid option"
  ci_WorkOrderID :: uuid
  ci_SKUID :: uuid
  ci_UsedDimension :: Dimension
  ci_RemnantDimension :: "Dimension option"
  ci_IsWaste :: bool
  ci_BBLengthMM :: "int option"
  ci_BBWidthMM :: "int option"
  ci_ShapeType :: string

record CutResult =
  res_CuttingRecordID :: uuid
  res_RemnantID :: "uuid option"
  res_BarcodeIDs :: "uuid list"
  res_DroppedRemnantCount :: int

definition cut_shape :: "RecordCutInput \<Rightarrow> string" where
  "cut_shape inp = (if ci_ShapeType inp = [] then ''rectangle'' else ci_ShapeType inp)"

definition cut_validate :: "RecordCutInput \<Rightarrow> unit result" where
  "cut_validate inp =
     (if (ci_SheetID inp = None) = (ci_RemnantID inp = None) then Inl (Biz ErrInvalidInput)
      else if \<not> Valid (ci_UsedDimension inp) then Inl (Biz ErrInvalidInput)
      else if (case ci_RemnantDimension inp of None \<Rightarrow> False | Some d \<Rightarrow> \<not> Valid d)
           then Inl (Biz ErrInvalidInput)
      else if (ci_RemnantDimension inp \<noteq> None) = ci_IsWaste inp then Inl (Biz ErrInvalidInput)
      else if cut_shape inp \<noteq> ''rectangle'' \<and> cut_shape inp \<noteq> ''irregular''
           then Inl (Biz ErrInvalidInput)
      else Inr ())"

record cut_source =
  src_Dim :: Dimension
  src_ParentBoardID :: uuid
  src_ParentRemnantID :: "uuid option"
  src_SupplierCode :: "string option"
  src_LotBatch :: "string option"
  src_GrainPattern :: "string option"
  src_QualityGrade :: "string option"

definition sheet_source :: "rat \<Rightarrow> uuid \<Rightarrow> inv_db \<Rightarrow> cut_source result" where
  "sheet_source threshold i db =
     (case GetOverflowStatus threshold db of
        Inl e \<Rightarrow> Inl e
      | Inr ov \<Rightarrow>
          if ov_BlockNewSheetIssue ov then Inl (Biz ErrPreconditionFailed)
          else (case selectSheetByID i db of
                  Inl e \<Rightarrow> Inl e
                | Inr sh \<Rightarrow>
                    if sh_Status sh \<noteq> SheetAvailable then Inl (Biz ErrInvalidInput)
                    else Inr \<lparr>src_Dim = sh_Dimensions sh, src_ParentBoardID = sh_ID sh,
                              src_ParentRemnantID = None, src_SupplierCode = sh_SupplierCode sh,
                              src_LotBatch = sh_LotBatch sh, src_GrainPattern = sh_GrainPattern sh,
                              src_QualityGrade = sh_QualityGrade sh\<rparr>))"

definition remnant_source :: "uuid \<Rightarrow> inv_db \<Rightarrow> cut_source result" where
  "remnant_source i db =
     (case selectRemnantByID i db of
        Inl e \<Rightarrow> Inl e
      | Inr r \<Rightarrow>
          if rem_Status r \<noteq> RemnantAvailable \<and> rem_Status r \<noteq> RemnantAllocated
          then Inl (Biz ErrInvalidInput)
          else Inr \<lparr>src_Dim = rem_Dimensions r, src_ParentBoardID = rem_ParentBoardID r,
                    src_ParentRemnantID = Some (rem_ID r), src_SupplierCode = rem_SupplierCode r,
                    src_LotBatch = rem_LotBatch r, src_GrainPattern = rem_GrainPattern r,
                    src_QualityGrade = rem_QualityGrade r\<rparr>)"

definition cut_area_check :: "RecordCutInput \<Rightarrow> Dimension \<Rightarrow> unit result" where
  "cut_area_check inp sourceDim =
     (let usedArea = AreaSqMM (ci_UsedDimension inp);
          remnantArea = (case ci_RemnantDimension inp of None \<Rightarrow> 0 | Some d \<Rightarrow> AreaSqMM d)
      in if (case ci_RemnantDimension inp of None \<Rightarrow> False | Some d \<Rightarrow> \<not> FitsInside d sourceDim)
         then Inl (Biz ErrInvalidInput)
         else if i64 (usedArea + remnantArea) > AreaSqMM sourceDim then Inl (Biz ErrAreaConservation)
         else Inr ())"

definition base_cut_op :: "env \<Rightarrow> RecordCutInput \<Rightarrow> cutWriteOp" where
  "base_cut_op env inp =
     (let cr = \<lparr>cr_ID = fresh env 0, cr_SheetID = None, cr_RemnantSourceID = None,
                cr_WorkOrderID = ci_WorkOrderID inp, cr_SKUID = ci_SKUID inp,
                cr_Used = ci_UsedDimension inp, cr_ProducedRemnantID = None, cr_CreatedAt = now env\<rparr>
      in case ci_SheetID inp of
           Some i \<Rightarrow>
             \<lparr>op_Record = cr\<lparr>cr_SheetID := Some i\<rparr>,
              op_SheetUpdate = Some \<lparr>su_ID = i, su_Status = SheetIssued, su_IssuedToWO = Some (ci_WorkOrderID inp)\<rparr>,
              op_RemnantUpdate = None, op_NewRemnant = None\<rparr>
         | None \<Rightarrow>
             \<lparr>op_Record = cr\<lparr>cr_RemnantSourceID := ci_RemnantID inp\<rparr>,
              op_SheetUpdate = None,
              op_RemnantUpdate = map_option (\<lambda>i. \<lparr>ru_ID = i, ru_Status = RemnantConsumed\<rparr>) (ci_RemnantID inp),
              op_NewRemnant = None\<rparr>)"

definition new_remnant :: "env \<Rightarrow> RecordCutInput \<Rightarrow> cut_source \<Rightarrow> Dimension \<Rightarrow> Remnant" where
  "new_remnant env inp src d =
     \<lparr>rem_ID = fresh env 1, rem_ParentBoardID = src_ParentBoardID src,
      rem_ParentRemnantID = src_ParentRemnantID src, rem_Dimensions = d,
      rem_Status = RemnantAvailable, rem_ShapeType = cut_shape inp, rem_AllocatedToWO = None,
      rem_AllocatedAt = None, rem_SupplierCode = src_SupplierCode src,
      rem_LotBatch = src_LotBatch src, rem_GrainPattern = src_GrainPattern src,
      rem_QualityGrade = src_QualityGrade src,
      rem_BBLengthMM = Some (case ci_BBLengthMM inp of None \<Rightarrow> LengthMM d | Some l \<Rightarrow> l),
      rem_BBWidthMM = Some (case ci_BBWidthMM inp of None \<Rightarrow> WidthMM d | Some w \<Rightarrow> w),
      rem_BinLocationID = None, rem_CreatedAt = now env\<rparr>"

text \<open>The leftover falls below the material's policy and is dropped into waste.\<close>

definition below_policy :: "int \<times> int \<Rightarrow> Dimension \<Rightarrow> bool" where
  "below_policy pol d \<longleftrightarrow>
     (fst pol > 0 \<and> LengthMM d < fst pol) \<or> (snd pol > 0 \<and> WidthMM d < snd pol)"

text \<open>The planned write and whether the leftover was dropped by the policy.\<close>

definition cut_leftover :: "env \<Rightarrow> RecordCutInput \<Rightarrow> cut_source \<Rightarrow> inv_db \<Rightarrow> (cutWriteOp \<times> bool) result" where
  "cut_leftover env inp src db =
     (case ci_RemnantDimension inp of
        None \<Rightarrow> Inr (base_cut_op env inp, False)
      | Some d \<Rightarrow>
          if (ci_BBLengthMM inp = None) \<noteq> (ci_BBWidthMM inp = None) then Inl (Biz ErrInvalidInput)
          else if (case (ci_BBLengthMM inp, ci_BBWidthMM inp) of
                     (Some l, Some w) \<Rightarrow> l > LengthMM d \<or> w > WidthMM d | _ \<Rightarrow> False)
               then Inl (Biz ErrInvalidInput)
          else (case selectMinRemnantPolicyByParentBoard (src_ParentBoardID src) db of
                  Inl e \<Rightarrow> Inl e
                | Inr pol \<Rightarrow>
                    if below_policy pol d then Inr (base_cut_op env inp, True)
                    else let r = new_remnant env inp src d; b = base_cut_op env inp
                         in Inr (b\<lparr>op_NewRemnant := Some r,
                                   op_Record := (op_Record b)\<lparr>cr_ProducedRemnantID := Some (rem_ID r)\<rparr>\<rparr>, False)))"

definition read_source :: "rat \<Rightarrow> RecordCutInput \<Rightarrow> inv_db \<Rightarrow> cut_source result" where
  "read_source threshold inp db =
     (case ci_SheetID inp of
        Some i \<Rightarrow> sheet_source threshold i db
      | None \<Rightarrow> (case ci_RemnantID inp of
                   None \<Rightarrow> Inl (Biz ErrInvalidInput) | Some i \<Rightarrow> remnant_source i db))"

definition cut_plan :: "rat \<Rightarrow> env \<Rightarrow> RecordCutInput \<Rightarrow> inv_db \<Rightarrow> (cutWriteOp \<times> bool) result" where
  "cut_plan threshold env inp db =
     (case cut_validate inp of
        Inl e \<Rightarrow> Inl e
      | Inr _ \<Rightarrow>
          (case read_source threshold inp db of
             Inl e \<Rightarrow> Inl e
           | Inr src \<Rightarrow>
               (case cut_area_check inp (src_Dim src) of
                  Inl e \<Rightarrow> Inl e
                | Inr _ \<Rightarrow> cut_leftover env inp src db)))"

definition afterCut :: "'x inv_deps \<Rightarrow> RecordCutInput \<Rightarrow> CuttingRecord \<Rightarrow> 'x \<Rightarrow> 'x" where
  "afterCut deps inp cr x =
     (let x1 = (case woa deps of None \<Rightarrow> x | Some adv \<Rightarrow> snd (adv (ci_WorkOrderID inp) WOInProcessing x))
      in case notifier deps of None \<Rightarrow> x1 | Some ntf \<Rightarrow> snd (ntf (ci_WorkOrderID inp) (cr_ID cr) x1))"

definition cut_barcodes :: "'x inv_deps \<Rightarrow> RecordCutInput \<Rightarrow> CuttingRecord \<Rightarrow> 'x \<Rightarrow> uuid list \<times> 'x" where
  "cut_barcodes deps inp cr x =
     (case bcg deps of
        None \<Rightarrow> ([], x)
      | Some gen \<Rightarrow>
          (case gen \<lparr>bi_WorkOrderID = ci_WorkOrderID inp, bi_UsedDimension = ci_UsedDimension inp,
                     bi_RemnantDimension = ci_RemnantDimension inp, bi_ProducedDate = cr_CreatedAt cr\<rparr> x of
             (out, x') \<Rightarrow> (List.map_filter id [bo_WIPBarcodeID out, bo_RemnantBarcodeID out], x')))"

definition RecordCut ::
  "'x inv_deps \<Rightarrow> schema \<Rightarrow> rat \<Rightarrow> env \<Rightarrow> RecordCutInput \<Rightarrow> (inv_db \<times> 'x, CutResult) op" where
  "RecordCut deps sch threshold env inp st =
     (case st of (db, x) \<Rightarrow>
        (case cut_plan threshold env inp db of
           Inl e \<Rightarrow> (Inl e, (db, x))
         | Inr (p, dropped) \<Rightarrow>
             (case recordCutAtomically sch p db of
                (Inl e, db') \<Rightarrow> (Inl e, (db', x))
              | (Inr _, db') \<Rightarrow>
                  if dropped
                  then (Inr \<lparr>res_CuttingRecordID = cr_ID (op_Record p), res_RemnantID = None,
                             res_BarcodeIDs = [], res_DroppedRemnantCount = 1\<rparr>,
                        (db', afterCut deps inp (op_Record p) x))
                  else (case cut_barcodes deps inp (op_Record p) x of
                          (bcs, x1) \<Rightarrow>
                            (Inr \<lparr>res_CuttingRecordID = cr_ID (op_Record p),
                                  res_RemnantID = map_option rem_ID (op_NewRemnant p),
                                  res_BarcodeIDs = bcs, res_DroppedRemnantCount = 0\<rparr>,
                             (db', afterCut deps inp (op_Record p) x1))))))"

section \<open>Remnants\<close>

record SuggestRemnantsInput =
  si_RequiredDimension :: Dimension
  si_Limit :: int
  si_Strategy :: string
  si_MaterialID :: "uuid option"

definition suggestion_limit :: "int \<Rightarrow> int" where
  "suggestion_limit l = (let l = (if l \<le> 0 then 3 else l) in if l > 10 then 10 else l)"

definition suggestion_strategy :: "SuggestRemnantsInput \<Rightarrow> inv_db \<Rightarrow> RemnantStrategy result" where
  "suggestion_strategy inp db =
     (if si_Strategy inp = []
      then (case si_MaterialID inp of
              None \<Rightarrow> Inr BestFit
            | Some m \<Rightarrow> (case selectMaterialStrategy m db of Inl _ \<Rightarrow> Inr BestFit | Inr s \<Rightarrow> Inr s))
      else if si_Strategy inp = ''best_fit'' then Inr BestFit
      else if si_Strategy inp = ''fifo'' then Inr FIFO
      else Inl (Biz ErrInvalidInput))"

definition suggestion_score :: "Dimension \<Rightarrow> RemnantSuggestion \<Rightarrow> RemnantSuggestion" where
  "suggestion_score req sg =
     (let reqArea = i64 (LengthMM req * WidthMM req);
          u = usable (sg_Remnant sg);
          remnantArea = i64 (LengthMM u * WidthMM u);
          wasteArea = i64 (remnantArea - reqArea)
      in if remnantArea > 0
         then sg\<lparr>sg_Score := fl (1 - fl (fl (of_int wasteArea) / fl (of_int remnantArea)))\<rparr> else sg)"

definition SuggestRemnants ::
  "schema \<Rightarrow> env \<Rightarrow> SuggestRemnantsInput \<Rightarrow> inv_db \<Rightarrow> RemnantSuggestion list result" where
  "SuggestRemnants sch env inp db =
     (if \<not> Valid (si_RequiredDimension inp) then Inl (Biz ErrInvalidInput)
      else (case suggestion_strategy inp db of
              Inl e \<Rightarrow> Inl e
            | Inr strategy \<Rightarrow>
                map_sum id (map (suggestion_score (si_RequiredDimension inp)))
                  (selectTopRemnantSuggestions sch (now env) (si_RequiredDimension inp)
                     (nat (suggestion_limit (si_Limit inp))) strategy (si_MaterialID inp) db)))"

definition AllocateRemnant :: "env \<Rightarrow> uuid \<Rightarrow> uuid \<Rightarrow> (inv_db, unit) op" where
  "AllocateRemnant env remnantID workOrderID db =
     (case selectRemnantByID remnantID db of
        Inl e \<Rightarrow> (Inl e, db)
      | Inr r \<Rightarrow>
          if rem_Status r \<noteq> RemnantAvailable then (Inl (Biz ErrInvalidInput), db)
          else allocateRemnantAtomically (now env) remnantID workOrderID db)"

definition MarkRemnantWaste :: "uuid \<Rightarrow> (inv_db, unit) op" where
  "MarkRemnantWaste remnantID db =
     (case selectRemnantByID remnantID db of
        Inl e \<Rightarrow> (Inl e, db)
      | Inr r \<Rightarrow>
          if rem_Status r \<noteq> RemnantAvailable \<and> rem_Status r \<noteq> RemnantAllocated
          then (Inl (Biz ErrInvalidInput), db)
          else markRemnantWasteAtomically remnantID db)"

definition ListRemnants :: "RemnantFilter \<Rightarrow> PageParams \<Rightarrow> inv_db \<Rightarrow> Remnant PagedResult result" where
  "ListRemnants f p db =
     (let f = (if rf_Status f = None then f\<lparr>rf_Status := Some RemnantAvailable\<rparr> else f)
      in map_sum id (\<lambda>(items, cnt). NewPagedResult items cnt p) (selectRemnantsByFilter f p db))"

definition GetRemnantLineageByRemnant :: "uuid \<Rightarrow> inv_db \<Rightarrow> Remnant list result" where
  "GetRemnantLineageByRemnant remnantID db =
     (case selectRemnantByID remnantID db of
        Inl e \<Rightarrow> Inl e | Inr r \<Rightarrow> selectRemnantsByBoardSheet (rem_ParentBoardID r) db)"

definition StockRemnant :: "uuid \<Rightarrow> string \<Rightarrow> (inv_db, unit) op" where
  "StockRemnant remnantID locationBarcode db =
     (case selectStorageLocationByBarcode locationBarcode db of
        Inl e \<Rightarrow> (Inl e, db)
      | Inr loc \<Rightarrow> updateRemnantBinLocation remnantID (loc_ID loc) db)"

datatype RemnantAgingLevel = AgingOK | AgingAtRisk | AgingExpired

record RemnantAgingSummary =
  ag_WarnDays :: int
  ag_ExpireDays :: int
  ag_Rows :: "(Remnant \<times> int \<times> RemnantAgingLevel) list"
  ag_TotalOK :: int
  ag_TotalAtRisk :: int
  ag_TotalExpired :: int

definition aging_level :: "int \<Rightarrow> int \<Rightarrow> int \<Rightarrow> RemnantAgingLevel" where
  "aging_level warnDays expireDays age =
     (if age \<ge> expireDays then AgingExpired else if age \<ge> warnDays then AgingAtRisk else AgingOK)"

definition aging_step ::
  "int \<Rightarrow> int \<Rightarrow> Remnant \<times> int \<Rightarrow> RemnantAgingSummary \<Rightarrow> RemnantAgingSummary" where
  "aging_step warnDays expireDays ra sm =
     (let level = aging_level warnDays expireDays (snd ra);
          sm = (case level of
                  AgingExpired \<Rightarrow> sm\<lparr>ag_TotalExpired := ag_TotalExpired sm + 1\<rparr>
                | AgingAtRisk \<Rightarrow> sm\<lparr>ag_TotalAtRisk := ag_TotalAtRisk sm + 1\<rparr>
                | AgingOK \<Rightarrow> sm\<lparr>ag_TotalOK := ag_TotalOK sm + 1\<rparr>)
      in sm\<lparr>ag_Rows := ag_Rows sm @ [(fst ra, snd ra, level)]\<rparr>)"

definition GetRemnantAging :: "env \<Rightarrow> int \<Rightarrow> int \<Rightarrow> inv_db \<Rightarrow> RemnantAgingSummary result" where
  "GetRemnantAging env warnDays expireDays db =
     (let warnDays = (if warnDays \<le> 0 then 60 else warnDays);
          expireDays = (if expireDays \<le> 0 then 90 else expireDays)
      in if warnDays \<ge> expireDays then Inl (Biz ErrInvalidInput)
         else map_sum id
                (\<lambda>raw. fold (aging_step warnDays expireDays) raw
                   \<lparr>ag_WarnDays = warnDays, ag_ExpireDays = expireDays, ag_Rows = [],
                    ag_TotalOK = 0, ag_TotalAtRisk = 0, ag_TotalExpired = 0\<rparr>)
                (selectRemnantAging (now env) db))"

definition ExpireStaleRemnants :: "env \<Rightarrow> int \<Rightarrow> (inv_db, int) op" where
  "ExpireStaleRemnants env ageDays db =
     expireStaleRemnants (now env) (if ageDays \<le> 0 then 90 else ageDays) db"

section \<open>Transfers and bypass audit\<close>

record TransferInput =
  ti_EntityType :: EntityType
  ti_EntityID :: uuid
  ti_TargetBarcode :: string
  ti_ActorID :: uuid

record TransferResult =
  tr_EntityType :: EntityType
  tr_EntityID :: uuid
  tr_FromLocation :: "uuid option"
  tr_ToLocation :: uuid
  tr_AuditLogID :: uuid

text \<open>The move itself: check the entity's status, write its bin, return where it was.\<close>

definition transfer_move :: "EntityType \<Rightarrow> uuid \<Rightarrow> uuid \<Rightarrow> (inv_db, uuid option) op" where
  "transfer_move et i loc db =
     (if et = EntRemnant
      then (case selectRemnantByID i db of
              Inl e \<Rightarrow> (Inl e, db)
            | Inr r \<Rightarrow>
                if rem_Status r \<noteq> RemnantAvailable \<and> rem_Status r \<noteq> RemnantAllocated
                then (Inl (Biz ErrInvalidInput), db)
                else (case updateRemnantBinLocation i loc db of
                        (Inl e, db') \<Rightarrow> (Inl e, db') | (Inr _, db') \<Rightarrow> (Inr (rem_BinLocationID r), db')))
      else (case selectSheetByID i db of
              Inl e \<Rightarrow> (Inl e, db)
            | Inr sh \<Rightarrow>
                if sh_Status sh \<noteq> SheetAvailable then (Inl (Biz ErrInvalidInput), db)
                else (case updateSheetBinLocation i loc db of
                        (Inl e, db') \<Rightarrow> (Inl e, db') | (Inr _, db') \<Rightarrow> (Inr (sh_BinLocationID sh), db'))))"

definition Transfer :: "env \<Rightarrow> TransferInput \<Rightarrow> (inv_db, TransferResult) op" where
  "Transfer env inp db =
     (if ti_EntityType inp \<noteq> EntRemnant \<and> ti_EntityType inp \<noteq> EntBoardSheet
      then (Inl (Biz ErrInvalidInput), db)
      else (case selectStorageLocationByBarcode (ti_TargetBarcode inp) db of
              Inl e \<Rightarrow> (Inl e, db)
            | Inr loc \<Rightarrow>
                if \<not> loc_IsActive loc then (Inl (Biz ErrInvalidInput), db)
                else (case transfer_move (ti_EntityType inp) (ti_EntityID inp) (loc_ID loc) db of
                        (Inl e, db1) \<Rightarrow> (Inl e, db1)
                      | (Inr from, db1) \<Rightarrow>
                          (Inr \<lparr>tr_EntityType = ti_EntityType inp, tr_EntityID = ti_EntityID inp,
                                tr_FromLocation = from, tr_ToLocation = loc_ID loc,
                                tr_AuditLogID = fresh env 0\<rparr>,
                           snd (insertAuditLog
                                  ((blank_audit (fresh env 0) (ti_EntityType inp) (ti_EntityID inp)
                                      ActTransfer (ti_ActorID inp) (now env))
                                   \<lparr>al_FromLocation := from, al_ToLocation := Some (loc_ID loc)\<rparr>) db1)))))"

record LogRemnantBypassInput =
  lb_WorkOrderID :: uuid
  lb_ActorID :: uuid
  lb_SuggestedRemnantIDs :: "uuid list"
  lb_Reason :: string

definition LogRemnantBypass :: "env \<Rightarrow> LogRemnantBypassInput \<Rightarrow> (inv_db, unit) op" where
  "LogRemnantBypass env inp db =
     (if lb_WorkOrderID inp = uuid_Nil then (Inl (Biz ErrInvalidInput), db)
      else if lb_ActorID inp = uuid_Nil then (Inl (Biz ErrInvalidInput), db)
      else if lb_SuggestedRemnantIDs inp = [] then (Inl (Biz ErrInvalidInput), db)
      else insertAuditLog
             ((blank_audit (fresh env 0) EntWorkOrder (lb_WorkOrderID inp) ActRemnantBypassed
                 (lb_ActorID inp) (now env))
              \<lparr>al_Metadata := lb_SuggestedRemnantIDs inp,
               al_Reason := (if lb_Reason inp = [] then None else Some (lb_Reason inp))\<rparr>) db)"

section \<open>Cycle counts\<close>

definition CreateCycleCountSession :: "env \<Rightarrow> string \<Rightarrow> uuid \<Rightarrow> (inv_db, CycleCountSession) op" where
  "CreateCycleCountSession env zone actorID db =
     (let sess = \<lparr>cs_ID = fresh env 0, cs_Zone = zone, cs_Status = SessOpen, cs_CreatedBy = actorID,
                  cs_PostedBy = None, cs_CreatedAt = now env, cs_PostedAt = None\<rparr>
      in case insertCycleCountSession sess db of
           (Inl e, db') \<Rightarrow> (Inl e, db') | (Inr _, db') \<Rightarrow> (Inr sess, db'))"

record AddCountLineInput =
  an_SessionID :: uuid
  an_EntityType :: EntityType
  an_EntityID :: uuid
  an_CountedStatus :: string
  an_CountedLocationID :: "uuid option"
  an_Reason :: string

text \<open>The statuses a count may record and the check that the counted entity exists.\<close>

definition count_entity_check :: "AddCountLineInput \<Rightarrow> inv_db \<Rightarrow> unit result" where
  "count_entity_check inp db =
     (if an_EntityType inp = EntRemnant
      then if an_CountedStatus inp \<notin> {''AVAILABLE'', ''ALLOCATED'', ''CONSUMED'', ''WASTE''}
           then Inl (Biz ErrInvalidInput)
           else map_sum id (\<lambda>_. ()) (selectRemnantByID (an_EntityID inp) db)
      else if an_CountedStatus inp \<noteq> ''AVAILABLE'' \<and> an_CountedStatus inp \<noteq> ''ISSUED''
           then Inl (Biz ErrInvalidInput)
           else map_sum id (\<lambda>_. ()) (selectSheetByID (an_EntityID inp) db))"

definition AddCycleCountLine :: "env \<Rightarrow> AddCountLineInput \<Rightarrow> (inv_db, CycleCountLine) op" where
  "AddCycleCountLine env inp db =
     (case selectCycleCountSessionByID (an_SessionID inp) db of
        Inl e \<Rightarrow> (Inl e, db)
      | Inr sess \<Rightarrow>
          if cs_Status sess \<noteq> SessOpen then (Inl (Biz ErrInvalidTransition), db)
          else if an_EntityType inp \<noteq> EntRemnant \<and> an_EntityType inp \<noteq> EntBoardSheet
               then (Inl (Biz ErrInvalidInput), db)
          else if an_Reason inp = [] then (Inl (Biz ErrInvalidInput), db)
          else if length (an_Reason inp) > 255 then (Inl (Biz ErrInvalidInput), db)
          else (case count_entity_check inp db of
                  Inl e \<Rightarrow> (Inl e, db)
                | Inr _ \<Rightarrow>
                    let line = \<lparr>cl_ID = fresh env 0, cl_SessionID = an_SessionID inp,
                                cl_EntityType = an_EntityType inp, cl_EntityID = an_EntityID inp,
                                cl_CountedStatus = an_CountedStatus inp,
                                cl_CountedLocationID = an_CountedLocationID inp,
                                cl_Reason = an_Reason inp, cl_CreatedAt = now env\<rparr>
                    in (case insertCycleCountLine line db of
                          (Inl e, db') \<Rightarrow> (Inl e, db') | (Inr _, db') \<Rightarrow> (Inr line, db'))))"

text \<open>What the database says of a counted entity now.\<close>

definition current_state :: "CycleCountLine \<Rightarrow> inv_db \<Rightarrow> (string \<times> uuid option) result" where
  "current_state l db =
     (if cl_EntityType l = EntRemnant
      then map_sum id (\<lambda>r. (remnant_status_text (rem_Status r), rem_BinLocationID r))
             (selectRemnantByID (cl_EntityID l) db)
      else map_sum id (\<lambda>s. (sheet_status_text (sh_Status s), sh_BinLocationID s))
             (selectSheetByID (cl_EntityID l) db))"

definition adjustment_of ::
  "env \<Rightarrow> nat \<Rightarrow> uuid \<Rightarrow> uuid \<Rightarrow> CycleCountLine \<Rightarrow> string \<times> uuid option \<Rightarrow> cycleCountAdjustment" where
  "adjustment_of env n sessionID actorID l cur =
     \<lparr>aj_EntityType = cl_EntityType l, aj_EntityID = cl_EntityID l, aj_OldLocationID = snd cur,
      aj_NewLocationID = cl_CountedLocationID l, aj_OldStatus = fst cur,
      aj_NewStatus = cl_CountedStatus l,
      aj_AuditEntry = (blank_audit (fresh env n) (cl_EntityType l) (cl_EntityID l) ActAdjust actorID (now env))
        \<lparr>al_FromLocation := snd cur, al_ToLocation := cl_CountedLocationID l,
         al_FromStatus := Some (fst cur), al_ToStatus := Some (cl_CountedStatus l),
         al_Reason := Some (cl_Reason l), al_SessionID := Some sessionID\<rparr>\<rparr>"

text \<open>
  The loop over the count lines: a line that agrees with the database is skipped; each other
  line becomes one adjustment. \<open>n\<close> counts the identifiers drawn so far.
\<close>

fun plan_adjustments ::
  "env \<Rightarrow> nat \<Rightarrow> uuid \<Rightarrow> uuid \<Rightarrow> CycleCountLine list \<Rightarrow> inv_db \<Rightarrow> cycleCountAdjustment list result" where
  "plan_adjustments env n sessionID actorID [] db = Inr []"
| "plan_adjustments env n sessionID actorID (l # ls) db =
     (case current_state l db of
        Inl e \<Rightarrow> Inl e
      | Inr cur \<Rightarrow>
          if fst cur = cl_CountedStatus l \<and> snd cur = cl_CountedLocationID l
          then plan_adjustments env n sessionID actorID ls db
          else map_sum id (\<lambda>as. adjustment_of env n sessionID actorID l cur # as)
                 (plan_adjustments env (Suc n) sessionID actorID ls db))"

definition PostCycleCount :: "env \<Rightarrow> uuid \<Rightarrow> uuid \<Rightarrow> (inv_db, unit) op" where
  "PostCycleCount env sessionID actorID db =
     (case selectCycleCountSessionByID sessionID db of
        Inl e \<Rightarrow> (Inl e, db)
      | Inr sess \<Rightarrow>
          if cs_Status sess \<noteq> SessOpen then (Inl (Biz ErrInvalidTransition), db)
          else (case selectCycleCountLinesBySession sessionID db of
                  Inl e \<Rightarrow> (Inl e, db)
                | Inr ls \<Rightarrow>
                    (case plan_adjustments env 0 sessionID actorID ls db of
                       Inl e \<Rightarrow> (Inl e, db)
                     | Inr adjs \<Rightarrow> postCycleCountAtomically (now env) sessionID actorID adjs db)))"

definition CancelCycleCountSession :: "env \<Rightarrow> uuid \<Rightarrow> (inv_db, unit) op" where
  "CancelCycleCountSession env sessionID db =
     (case selectCycleCountSessionByID sessionID db of
        Inl e \<Rightarrow> (Inl e, db)
      | Inr sess \<Rightarrow>
          if cs_Status sess \<noteq> SessOpen then (Inl (Biz ErrInvalidTransition), db)
          else updateCycleCountSessionStatus (now env) sessionID SessCancelled None db)"

section \<open>Quality control and supplier claims\<close>

definition QCPassLot :: "env \<Rightarrow> uuid \<Rightarrow> uuid \<Rightarrow> (inv_db, unit) op" where
  "QCPassLot env lotID actorID db =
     (if lotID = uuid_Nil then (Inl (Biz ErrInvalidInput), db)
      else if actorID = uuid_Nil then (Inl (Biz ErrInvalidInput), db)
      else (case qcPassLotAtomically lotID db of
              (Inl e, db1) \<Rightarrow> (Inl e, db1)
            | (Inr updated, db1) \<Rightarrow>
                if updated = 0 then (Inl (Biz ErrPreconditionFailed), db1)
                else (Inr (), snd (insertAuditLog
                        ((blank_audit (fresh env 0) EntLot lotID ActLotQCPass actorID (now env))
                         \<lparr>al_FromStatus := Some ''PENDING_QC'', al_ToStatus := Some ''AVAILABLE''\<rparr>) db1))))"

definition validRejectionReasons :: "string list" where
  "validRejectionReasons =
     [''CRACK'', ''COLOR_MISMATCH'', ''LATE_DELIVERY'', ''DAMAGE'', ''WRONG_SPEC'', ''OTHER'']"

record RejectLotInput =
  rl_LotID :: uuid
  rl_ReasonCode :: string
  rl_ReasonDetail :: string
  rl_RejectedQtySheets :: int
  rl_PhotoURLs :: "string list"
  rl_ActorID :: uuid

definition reject_validate :: "RejectLotInput \<Rightarrow> unit result" where
  "reject_validate inp =
     (if rl_LotID inp = uuid_Nil then Inl (Biz ErrInvalidInput)
      else if rl_ActorID inp = uuid_Nil then Inl (Biz ErrInvalidInput)
      else if rl_ReasonCode inp \<notin> set validRejectionReasons then Inl (Biz ErrInvalidInput)
      else if rl_RejectedQtySheets inp \<le> 0 then Inl (Biz ErrInvalidInput)
      else Inr ())"

definition new_rejection :: "env \<Rightarrow> RejectLotInput \<Rightarrow> MaterialRejection" where
  "new_rejection env inp =
     \<lparr>rj_ID = fresh env 0, rj_LotID = rl_LotID inp, rj_ReasonCode = rl_ReasonCode inp,
      rj_ReasonDetail = rl_ReasonDetail inp, rj_RejectedQtySheets = rl_RejectedQtySheets inp,
      rj_PhotoURLs = rl_PhotoURLs inp, rj_ClaimAmount = None, rj_ClaimCurrency = [],
      rj_ClaimStatus = ClaimOpen, rj_ResolutionNotes = [], rj_ReportedBy = rl_ActorID inp,
      rj_ReportedAt = now env, rj_ResolvedBy = None, rj_ResolvedAt = None\<rparr>"

definition replenish :: "'x inv_deps \<Rightarrow> RejectLotInput \<Rightarrow> MaterialRejection \<Rightarrow> inv_db \<Rightarrow> 'x \<Rightarrow> 'x" where
  "replenish deps inp rej db x =
     (if prCreate deps = None then x
      else (case selectLotByID (rl_LotID inp) db of
              Inl _ \<Rightarrow> x
            | Inr lot \<Rightarrow>
                best_effort (prCreate deps)
                  \<lparr>pr_RejectionID = rj_ID rej, pr_LotID = rl_LotID inp,
                   pr_MaterialID = lot_MaterialID lot, pr_Supplier = lot_SupplierRef lot,
                   pr_QtySheets = rl_RejectedQtySheets inp, pr_ActorID = rl_ActorID inp\<rparr> x))"

definition RejectLot ::
  "'x inv_deps \<Rightarrow> env \<Rightarrow> RejectLotInput \<Rightarrow> (inv_db \<times> 'x, MaterialRejection \<times> uuid list) op" where
  "RejectLot deps env inp st =
     (case st of (db, x) \<Rightarrow>
        (case reject_validate inp of
           Inl e \<Rightarrow> (Inl e, (db, x))
         | Inr _ \<Rightarrow>
             let rej = new_rejection env inp
             in (case rejectLotAtomically (rl_LotID inp) (rl_RejectedQtySheets inp) rej db of
                   (Inl e, db1) \<Rightarrow> (Inl e, (db1, x))
                 | (Inr ids, db1) \<Rightarrow>
                     let db2 = snd (insertAuditLog
                           ((blank_audit (fresh env 1) EntLot (rl_LotID inp) ActLotReject (rl_ActorID inp) (now env))
                            \<lparr>al_FromStatus := Some ''PENDING_QC'', al_ToStatus := Some ''REJECTED'',
                             al_Reason := Some (rl_ReasonCode inp)\<rparr>) db1)
                     in (Inr (rej, ids), (db2, replenish deps inp rej db2 x)))))"

fun isAllowedClaimTransition :: "ClaimStatus \<Rightarrow> ClaimStatus \<Rightarrow> bool" where
  "isAllowedClaimTransition ClaimOpen to \<longleftrightarrow> to = ClaimApproved \<or> to = ClaimRejected"
| "isAllowedClaimTransition ClaimApproved to \<longleftrightarrow> to = ClaimPaid"
| "isAllowedClaimTransition ClaimRejected to \<longleftrightarrow> False"
| "isAllowedClaimTransition ClaimPaid to \<longleftrightarrow> False"

record UpdateClaimInput =
  ui_RejectionID :: uuid
  ui_ClaimStatus :: "ClaimStatus option"
  ui_ClaimAmount :: "int option"
  ui_ClaimCurrency :: string
  ui_ResolutionNotes :: string
  ui_ActorID :: uuid

text \<open>
  \<^verbatim>\<open>in.ClaimStatus\<close> is a string; \<open>None\<close> is one that \<^verbatim>\<open>isValidClaimStatus\<close> refuses. The approved
  and paid states need a positive amount and a currency.
\<close>

definition claim_payable :: "UpdateClaimInput \<Rightarrow> bool" where
  "claim_payable inp \<longleftrightarrow>
     (case ui_ClaimAmount inp of None \<Rightarrow> False | Some a \<Rightarrow> a > 0) \<and> ui_ClaimCurrency inp \<noteq> []"

definition UpdateRejectionClaim ::
  "'x inv_deps \<Rightarrow> env \<Rightarrow> UpdateClaimInput \<Rightarrow> (inv_db \<times> 'x, MaterialRejection) op" where
  "UpdateRejectionClaim deps env inp st =
     (case st of (db, x) \<Rightarrow>
        if ui_RejectionID inp = uuid_Nil \<or> ui_ActorID inp = uuid_Nil
        then (Inl (Biz ErrInvalidInput), (db, x))
        else (case ui_ClaimStatus inp of
          None \<Rightarrow> (Inl (Biz ErrInvalidInput), (db, x))
        | Some to \<Rightarrow>
            (case selectRejectionByID (ui_RejectionID inp) db of
               Inl e \<Rightarrow> (Inl e, (db, x))
             | Inr current \<Rightarrow>
                 if \<not> isAllowedClaimTransition (rj_ClaimStatus current) to
                 then (Inl (Biz ErrInvalidTransition), (db, x))
                 else if (to = ClaimApproved \<or> to = ClaimPaid) \<and> \<not> claim_payable inp
                 then (Inl (Biz ErrInvalidInput), (db, x))
                 else (case updateRejectionClaim
                              \<lparr>uc_RejectionID = ui_RejectionID inp, uc_ClaimStatus = to,
                               uc_ClaimAmount = ui_ClaimAmount inp, uc_ClaimCurrency = ui_ClaimCurrency inp,
                               uc_ResolutionNotes = ui_ResolutionNotes inp,
                               uc_ResolvedBy = (if to \<noteq> ClaimOpen then Some (ui_ActorID inp) else None),
                               uc_ResolvedAt = (if to \<noteq> ClaimOpen then Some (now env) else None)\<rparr> db of
                         (Inl e, db1) \<Rightarrow> (Inl e, (db1, x))
                       | (Inr updated, db1) \<Rightarrow>
                           let db2 = snd (insertAuditLog
                                 ((blank_audit (fresh env 0) EntLot (rj_LotID current) ActClaimTransition
                                     (ui_ActorID inp) (now env))
                                  \<lparr>al_FromStatus := Some (claim_status_text (rj_ClaimStatus current)),
                                   al_ToStatus := Some (claim_status_text to)\<rparr>) db1);
                               x' = (if to = ClaimApproved
                                     then best_effort (prCancel deps) (ui_RejectionID inp) x else x)
                           in (Inr updated, (db2, x'))))))"

end
