(* ===== verification/Inventory_Invariant.thy ===== *)
theory Inventory_Invariant
  imports Inventory_Service
begin

text \<open>
  The inventory database under interleaved transactions. \<open>txn\<close> is one transaction or single
  statement that some service call runs; a cut is two of them, the unlocked planning read and
  the later commit, so that any number of planned cuts may be pending while other calls run.
  Posting a cycle count writes what was counted over any status, and so can declare a cut
  board available again. Its first parameter says which postings a run of \<open>txn\<close> admits: all
  of them (\<open>any_count\<close>), none (\<open>no_count\<close>), or those that agree with the tables on which sheets
  are issued and which remnants are consumed (\<open>spares_used\<close>).

  \<open>base_ok\<close> holds under any postings: keys, valid 32-bit dimensions, and what a pending cut
  was planned against. \<open>inv_ok\<close> holds under postings that spare used material: every source
  cut exactly once when its status says so, lineage, and conservation of material: what was
  cut from a board plus what still stands of it never exceeds its area.
\<close>

section \<open>Transactions\<close>

type_synonym inv_state = "inv_db \<times> cutWriteOp list"

type_synonym count_rule = "inv_db \<Rightarrow> cycleCountAdjustment list \<Rightarrow> bool"

inductive txn :: "count_rule \<Rightarrow> schema \<Rightarrow> rat \<Rightarrow> inv_state \<Rightarrow> inv_state \<Rightarrow> bool"
  for cf :: count_rule and sch :: schema and threshold :: rat where
  t_lot: "txn cf sch threshold (db, ps) (snd (insertLot lot db), ps)"
| t_deactivate: "txn cf sch threshold (db, ps) (snd (deactivateLot i db), ps)"
| t_sheets: "Valid (rs_Dimensions inp) \<Longrightarrow>
    txn cf sch threshold (db, ps) (snd (insertSheets (map (new_sheet inp lotID) ids) db), ps)"
| t_preassign: "txn cf sch threshold (db, ps) (snd (preAssignSheet i wo db), ps)"
| t_sheet_bin: "txn cf sch threshold (db, ps) (snd (updateSheetBinLocation i loc db), ps)"
| t_plan: "cut_plan threshold env inp db = Inr (p, dropped) \<Longrightarrow> txn cf sch threshold (db, ps) (db, p # ps)"
| t_commit: "p \<in> set ps \<Longrightarrow>
    txn cf sch threshold (db, ps) (snd (recordCutAtomically sch p db), remove1 p ps)"
| t_allocate: "txn cf sch threshold (db, ps) (snd (allocateRemnantAtomically t i wo db), ps)"
| t_waste: "txn cf sch threshold (db, ps) (snd (markRemnantWasteAtomically i db), ps)"
| t_release: "txn cf sch threshold (db, ps) (snd (releaseExpiredAllocations before db), ps)"
| t_expire: "txn cf sch threshold (db, ps) (snd (expireStaleRemnants t ageDays db), ps)"
| t_remnant_bin: "txn cf sch threshold (db, ps) (snd (updateRemnantBinLocation i loc db), ps)"
| t_audit: "txn cf sch threshold (db, ps) (snd (insertAuditLog e db), ps)"
| t_qc: "txn cf sch threshold (db, ps) (snd (qcPassLotAtomically lotID db), ps)"
| t_reject: "txn cf sch threshold (db, ps) (snd (rejectLotAtomically lotID qty rej db), ps)"
| t_claim: "txn cf sch threshold (db, ps) (snd (updateRejectionClaim u db), ps)"
| t_session: "txn cf sch threshold (db, ps) (snd (insertCycleCountSession s db), ps)"
| t_session_status:
    "txn cf sch threshold (db, ps) (snd (updateCycleCountSessionStatus t i st by db), ps)"
| t_count_line: "txn cf sch threshold (db, ps) (snd (insertCycleCountLine l db), ps)"
| t_post: "cf db adjs \<Longrightarrow> txn cf sch threshold (db, ps) (snd (postCycleCountAtomically t sid by adjs db), ps)"
| t_master_data: "txn cf sch threshold (db, ps) (db\<lparr>materials := ms, locations := ls\<rparr>, ps)"

text \<open>
  Which postings are admitted. A count spares used material when none of its adjustments
  makes an issued sheet or a consumed remnant anything else, or anything else one of these.
\<close>

definition any_count :: count_rule where
  "any_count = (\<lambda>_ _. True)"

definition no_count :: count_rule where
  "no_count = (\<lambda>_ _. False)"

definition spares_sheet :: "cycleCountAdjustment \<Rightarrow> BoardSheet \<Rightarrow> bool" where
  "spares_sheet a s \<longleftrightarrow> (sh_ID s = aj_EntityID a \<longrightarrow>
     (sh_Status (adjust_sheet a s) = SheetIssued \<longleftrightarrow> sh_Status s = SheetIssued))"

definition spares_remnant :: "cycleCountAdjustment \<Rightarrow> Remnant \<Rightarrow> bool" where
  "spares_remnant a r \<longleftrightarrow> (rem_ID r = aj_EntityID a \<longrightarrow>
     (rem_Status (adjust_remnant a r) = RemnantConsumed \<longleftrightarrow> rem_Status r = RemnantConsumed))"

definition spares_used :: count_rule where
  "spares_used db adjs \<longleftrightarrow> (\<forall>a \<in> set adjs.
     if aj_EntityType a = EntRemnant then \<forall>r \<in> set (remnants db). spares_remnant a r
     else \<forall>s \<in> set (sheets db). spares_sheet a s)"

lemma txn_mono:
  assumes "txn cf sch th st st'" and "\<And>db adjs. cf db adjs \<Longrightarrow> cf' db adjs"
  shows "txn cf' sch th st st'"
  using assms by (cases rule: txn.cases) (auto intro: txn.intros)

lemma any_count_txn: "txn cf sch th st st' \<Longrightarrow> txn any_count sch th st st'"
  by (erule txn_mono) (simp add: any_count_def)

text \<open>The database starts without stock, cuts or remnants, and with no cut in flight.\<close>

definition inv_init :: "inv_state \<Rightarrow> bool" where
  "inv_init st \<longleftrightarrow> sheets (fst st) = [] \<and> remnants (fst st) = [] \<and> cuts (fst st) = [] \<and> snd st = []"

section \<open>The invariant\<close>

text \<open>The board a cut consumed material of, directly or through a remnant.\<close>

definition cut_board :: "inv_db \<Rightarrow> CuttingRecord \<Rightarrow> uuid option" where
  "cut_board db c =
     (case cr_SheetID c of
        Some i \<Rightarrow> Some i
      | None \<Rightarrow> (case cr_RemnantSourceID c of
                   None \<Rightarrow> None
                 | Some i \<Rightarrow> map_option rem_ParentBoardID (row_by rem_ID i (remnants db))))"

definition used_area :: "inv_db \<Rightarrow> uuid \<Rightarrow> int" where
  "used_area db b = sum_where (area \<circ> cr_Used) (\<lambda>c. cut_board db c = Some b) (cuts db)"

definition standing_area :: "inv_db \<Rightarrow> uuid \<Rightarrow> int" where
  "standing_area db b =
     sum_where (area \<circ> rem_Dimensions)
       (\<lambda>r. rem_ParentBoardID r = b \<and> rem_Status r \<noteq> RemnantConsumed) (remnants db)"

definition cuts_of_sheet :: "inv_db \<Rightarrow> uuid \<Rightarrow> nat" where
  "cuts_of_sheet db i = count_where (\<lambda>c. cr_SheetID c = Some i) (cuts db)"

definition cuts_of_remnant :: "inv_db \<Rightarrow> uuid \<Rightarrow> nat" where
  "cuts_of_remnant db i = count_where (\<lambda>c. cr_RemnantSourceID c = Some i) (cuts db)"

definition keys_ok :: "inv_db \<Rightarrow> bool" where
  "keys_ok db \<longleftrightarrow> keys_distinct sh_ID (sheets db) \<and> keys_distinct rem_ID (remnants db) \<and>
     keys_distinct cr_ID (cuts db)"

definition dims_ok :: "Dimension \<Rightarrow> bool" where
  "dims_ok d \<longleftrightarrow> Valid d \<and> dim_int4 d"

definition sheet_ok :: "inv_db \<Rightarrow> BoardSheet \<Rightarrow> bool" where
  "sheet_ok db s \<longleftrightarrow> dims_ok (sh_Dimensions s) \<and>
     cuts_of_sheet db (sh_ID s) = (if sh_Status s = SheetIssued then 1 else 0) \<and>
     used_area db (sh_ID s) + standing_area db (sh_ID s) \<le> area (sh_Dimensions s)"

text \<open>A remnant fits inside the issued board it comes from, and inside the consumed remnant it
  was cut from when it was not cut from the board itself.\<close>

definition lineage_ok :: "inv_db \<Rightarrow> Remnant \<Rightarrow> bool" where
  "lineage_ok db r \<longleftrightarrow>
     (\<exists>s \<in> set (sheets db). sh_ID s = rem_ParentBoardID r \<and> sh_Status s = SheetIssued \<and>
        FitsInside (rem_Dimensions r) (sh_Dimensions s)) \<and>
     (\<forall>q. rem_ParentRemnantID r = Some q \<longrightarrow>
        (\<exists>p \<in> set (remnants db). rem_ID p = q \<and> rem_Status p = RemnantConsumed \<and>
           rem_ParentBoardID p = rem_ParentBoardID r \<and>
           FitsInside (rem_Dimensions r) (rem_Dimensions p)))"

definition remnant_ok :: "inv_db \<Rightarrow> Remnant \<Rightarrow> bool" where
  "remnant_ok db r \<longleftrightarrow> dims_ok (rem_Dimensions r) \<and> FitsInside (usable r) (rem_Dimensions r) \<and>
     cuts_of_remnant db (rem_ID r) = (if rem_Status r = RemnantConsumed then 1 else 0) \<and>
     lineage_ok db r"

definition cut_ok :: "inv_db \<Rightarrow> CuttingRecord \<Rightarrow> bool" where
  "cut_ok db c \<longleftrightarrow> dims_ok (cr_Used c) \<and>
     (case (cr_SheetID c, cr_RemnantSourceID c) of
        (Some i, None) \<Rightarrow> i \<in> sh_ID ` set (sheets db)
      | (None, Some i) \<Rightarrow> i \<in> rem_ID ` set (remnants db)
      | _ \<Rightarrow> False)"

definition db_ok :: "inv_db \<Rightarrow> bool" where
  "db_ok db \<longleftrightarrow> keys_ok db \<and> (\<forall>s \<in> set (sheets db). sheet_ok db s) \<and>
     (\<forall>r \<in> set (remnants db). remnant_ok db r) \<and> (\<forall>c \<in> set (cuts db). cut_ok db c)"

text \<open>
  What a pending write promises, whatever happened since it was planned: its source row still
  exists with the dimensions that were read, and used plus leftover area fit in it once the
  used dimension fits its columns.
\<close>

definition leftover_area :: "cutWriteOp \<Rightarrow> int" where
  "leftover_area p = (case op_NewRemnant p of None \<Rightarrow> 0 | Some r \<Rightarrow> area (rem_Dimensions r))"

definition leftover_ok :: "cutWriteOp \<Rightarrow> uuid \<Rightarrow> uuid option \<Rightarrow> Dimension \<Rightarrow> bool" where
  "leftover_ok p board parent src \<longleftrightarrow>
     Valid (cr_Used (op_Record p)) \<and>
     (dim_int4 (cr_Used (op_Record p)) \<longrightarrow> area (cr_Used (op_Record p)) + leftover_area p \<le> area src) \<and>
     (\<forall>r. op_NewRemnant p = Some r \<longrightarrow>
        rem_ParentBoardID r = board \<and> rem_ParentRemnantID r = parent \<and>
        dims_ok (rem_Dimensions r) \<and> FitsInside (rem_Dimensions r) src \<and>
        FitsInside (usable r) (rem_Dimensions r) \<and> rem_Status r = RemnantAvailable \<and>
        rem_AllocatedToWO r = None)"

definition sheet_op_ok :: "inv_db \<Rightarrow> cutWriteOp \<Rightarrow> bool" where
  "sheet_op_ok db p \<longleftrightarrow>
     (\<exists>su. op_SheetUpdate p = Some su \<and> su_Status su = SheetIssued \<and> op_RemnantUpdate p = None \<and>
        cr_SheetID (op_Record p) = Some (su_ID su) \<and> cr_RemnantSourceID (op_Record p) = None \<and>
        (\<exists>s \<in> set (sheets db). sh_ID s = su_ID su \<and>
           leftover_ok p (su_ID su) None (sh_Dimensions s)))"

definition remnant_op_ok :: "inv_db \<Rightarrow> cutWriteOp \<Rightarrow> bool" where
  "remnant_op_ok db p \<longleftrightarrow>
     (\<exists>ru. op_RemnantUpdate p = Some ru \<and> ru_Status ru = RemnantConsumed \<and> op_SheetUpdate p = None \<and>
        cr_SheetID (op_Record p) = None \<and> cr_RemnantSourceID (op_Record p) = Some (ru_ID ru) \<and>
        (\<exists>r \<in> set (remnants db). rem_ID r = ru_ID ru \<and>
           leftover_ok p (rem_ParentBoardID r) (Some (ru_ID ru)) (rem_Dimensions r)))"

text \<open>What survives any posting of a cycle count.\<close>

definition rows_ok :: "inv_db \<Rightarrow> bool" where
  "rows_ok db \<longleftrightarrow> keys_ok db \<and> (\<forall>s \<in> set (sheets db). dims_ok (sh_Dimensions s)) \<and>
     (\<forall>r \<in> set (remnants db). dims_ok (rem_Dimensions r))"

definition base_ok :: "inv_state \<Rightarrow> bool" where
  "base_ok st \<longleftrightarrow> rows_ok (fst st) \<and>
     (\<forall>p \<in> set (snd st). sheet_op_ok (fst st) p \<or> remnant_op_ok (fst st) p)"

lemma db_ok_rows: "db_ok db \<Longrightarrow> rows_ok db"
  by (simp add: db_ok_def rows_ok_def sheet_ok_def remnant_ok_def)

definition inv_ok :: "inv_state \<Rightarrow> bool" where
  "inv_ok st \<longleftrightarrow> db_ok (fst st) \<and>
     (\<forall>p \<in> set (snd st). sheet_op_ok (fst st) p \<or> remnant_op_ok (fst st) p)"

section \<open>Rewriting rows without touching material\<close>

text \<open>
  Most statements rewrite rows in place. One that keeps identity, dimensions, lineage and
  the issued/consumed statuses keeps the whole invariant.
\<close>

definition keeps_sheet :: "BoardSheet \<Rightarrow> BoardSheet \<Rightarrow> bool" where
  "keeps_sheet s s' \<longleftrightarrow> sh_ID s' = sh_ID s \<and> sh_Dimensions s' = sh_Dimensions s \<and>
     (sh_Status s' = SheetIssued \<longleftrightarrow> sh_Status s = SheetIssued)"

definition keeps_remnant :: "Remnant \<Rightarrow> Remnant \<Rightarrow> bool" where
  "keeps_remnant r r' \<longleftrightarrow> rem_ID r' = rem_ID r \<and> rem_Dimensions r' = rem_Dimensions r \<and>
     rem_ParentBoardID r' = rem_ParentBoardID r \<and> rem_ParentRemnantID r' = rem_ParentRemnantID r \<and>
     usable r' = usable r \<and> (rem_Status r' = RemnantConsumed \<longleftrightarrow> rem_Status r = RemnantConsumed)"

definition framed ::
  "(BoardSheet \<Rightarrow> BoardSheet \<Rightarrow> bool) \<Rightarrow> (Remnant \<Rightarrow> Remnant \<Rightarrow> bool) \<Rightarrow> inv_db \<Rightarrow> inv_db \<Rightarrow> bool" where
  "framed S R db db' \<longleftrightarrow> cuts db' = cuts db \<and>
     (\<exists>f. sheets db' = map f (sheets db) \<and> (\<forall>s \<in> set (sheets db). S s (f s))) \<and>
     (\<exists>g. remnants db' = map g (remnants db) \<and> (\<forall>r \<in> set (remnants db). R r (g r)))"

abbreviation frame :: "inv_db \<Rightarrow> inv_db \<Rightarrow> bool" where
  "frame db db' \<equiv> framed keeps_sheet keeps_remnant db db'"

text \<open>A cycle count may keep no more than identity, lineage and dimensions.\<close>

definition same_sheet :: "BoardSheet \<Rightarrow> BoardSheet \<Rightarrow> bool" where
  "same_sheet s s' \<longleftrightarrow> sh_ID s' = sh_ID s \<and> sh_Dimensions s' = sh_Dimensions s"

definition same_remnant :: "Remnant \<Rightarrow> Remnant \<Rightarrow> bool" where
  "same_remnant r r' \<longleftrightarrow> rem_ID r' = rem_ID r \<and> rem_Dimensions r' = rem_Dimensions r \<and>
     rem_ParentBoardID r' = rem_ParentBoardID r"

abbreviation same_rows :: "inv_db \<Rightarrow> inv_db \<Rightarrow> bool" where
  "same_rows db db' \<equiv> framed same_sheet same_remnant db db'"

lemma framed_mono:
  "framed S R db db' \<Longrightarrow> (\<And>s s'. S s s' \<Longrightarrow> S' s s') \<Longrightarrow> (\<And>r r'. R r r' \<Longrightarrow> R' r r') \<Longrightarrow> framed S' R' db db'"
  unfolding framed_def by blast

lemma frame_same_rows: "frame db db' \<Longrightarrow> same_rows db db'"
  by (erule framed_mono) (simp_all add: keeps_sheet_def same_sheet_def keeps_remnant_def same_remnant_def)

lemma framed_trans:
  assumes "framed S R db db1" and "framed S R db1 db2"
    and "\<And>s s' s''. S s s' \<Longrightarrow> S s' s'' \<Longrightarrow> S s s''" and "\<And>r r' r''. R r r' \<Longrightarrow> R r' r'' \<Longrightarrow> R r r''"
  shows "framed S R db db2"
proof -
  from assms(1) obtain f g where fg: "cuts db1 = cuts db" "sheets db1 = map f (sheets db)" "remnants db1 = map g (remnants db)"
    "\<forall>s \<in> set (sheets db). S s (f s)" "\<forall>r \<in> set (remnants db). R r (g r)" by (auto simp: framed_def)
  from assms(2) obtain f' g' where fg': "cuts db2 = cuts db1" "sheets db2 = map f' (sheets db1)" "remnants db2 = map g' (remnants db1)"
    "\<forall>s \<in> set (sheets db1). S s (f' s)" "\<forall>r \<in> set (remnants db1). R r (g' r)" by (auto simp: framed_def)
  have "sheets db2 = map (f' \<circ> f) (sheets db)" "remnants db2 = map (g' \<circ> g) (remnants db)"
    using fg(2,3) fg'(2,3) by simp_all
  moreover have "\<forall>s \<in> set (sheets db). S s ((f' \<circ> f) s)" "\<forall>r \<in> set (remnants db). R r ((g' \<circ> g) r)"
    using fg(2-5) fg'(4,5) assms(3,4) by fastforce+
  ultimately show ?thesis using fg(1) fg'(1) unfolding framed_def by metis
qed

lemma keeps_refl [simp]: "keeps_sheet s s" "keeps_remnant r r"
  by (simp_all add: keeps_sheet_def keeps_remnant_def)

lemma frame_same: "cuts db' = cuts db \<Longrightarrow> sheets db' = sheets db \<Longrightarrow> remnants db' = remnants db \<Longrightarrow> frame db db'"
  unfolding framed_def by (auto intro!: exI [where x = id])

lemma frame_refl [simp]: "frame db db"
  by (rule frame_same) simp_all

lemma frame_sheets:
  assumes "cuts db' = cuts db" and "remnants db' = remnants db"
    and "sheets db' = update_where P u (sheets db)"
    and "\<And>s. s \<in> set (sheets db) \<Longrightarrow> P s \<Longrightarrow> keeps_sheet s (u s)"
  shows "frame db db'"
  unfolding framed_def using assms
  by (auto simp: update_where_def intro!: exI [where x = id] exI [where x = "\<lambda>s. if P s then u s else s"])

lemma frame_remnants:
  assumes "cuts db' = cuts db" and "sheets db' = sheets db"
    and "remnants db' = update_where P u (remnants db)"
    and "\<And>r. r \<in> set (remnants db) \<Longrightarrow> P r \<Longrightarrow> keeps_remnant r (u r)"
  shows "frame db db'"
  unfolding framed_def using assms
  by (auto simp: update_where_def intro!: exI [where x = id] exI [where x = "\<lambda>r. if P r then u r else r"])

lemma frame_upd_sheets:
  "(\<And>s. s \<in> set (sheets db) \<Longrightarrow> P s \<Longrightarrow> keeps_sheet s (u s)) \<Longrightarrow>
   frame db (db\<lparr>sheets := update_where P u (sheets db)\<rparr>)"
  by (rule frame_sheets [where P = P and u = u]) simp_all

lemma frame_upd_remnants:
  "(\<And>r. r \<in> set (remnants db) \<Longrightarrow> P r \<Longrightarrow> keeps_remnant r (u r)) \<Longrightarrow>
   frame db (db\<lparr>remnants := update_where P u (remnants db)\<rparr>)"
  by (rule frame_remnants [where P = P and u = u]) simp_all

lemma cut_ok_iff:
  "cut_ok db c \<longleftrightarrow> dims_ok (cr_Used c) \<and>
     ((\<exists>s \<in> set (sheets db). cr_SheetID c = Some (sh_ID s) \<and> cr_RemnantSourceID c = None) \<or>
      (\<exists>r \<in> set (remnants db). cr_SheetID c = None \<and> cr_RemnantSourceID c = Some (rem_ID r)))"
  by (cases "cr_SheetID c"; cases "cr_RemnantSourceID c") (auto simp: cut_ok_def)

lemma cut_ok_mono:
  "cut_ok db c \<Longrightarrow> sh_ID ` set (sheets db) \<subseteq> sh_ID ` set (sheets db') \<Longrightarrow>
   rem_ID ` set (remnants db) \<subseteq> rem_ID ` set (remnants db') \<Longrightarrow> cut_ok db' c"
  by (auto simp: cut_ok_def split: option.splits)

lemma keys_update_where: "(\<And>r. k (u r) = k r) \<Longrightarrow> k ` set (update_where P u t) = k ` set t"
  by (induction t) auto

lemma frame_aggregates:
  assumes "frame db db'"
  shows "used_area db' b = used_area db b" and "standing_area db' b = standing_area db b"
    and "cuts_of_sheet db' i = cuts_of_sheet db i" and "cuts_of_remnant db' i = cuts_of_remnant db i"
proof -
  from assms obtain g where cuts: "cuts db' = cuts db"
    and g: "remnants db' = map g (remnants db)" "\<And>r. r \<in> set (remnants db) \<Longrightarrow> keeps_remnant r (g r)"
    by (auto simp: framed_def)
  have "map_option rem_ParentBoardID (row_by rem_ID i (remnants db')) =
      map_option rem_ParentBoardID (row_by rem_ID i (remnants db))" for i
  proof -
    have "row_by rem_ID i (remnants db') = map_option g (row_by rem_ID i (remnants db))"
      unfolding g(1) by (rule row_by_map) (use g(2) in \<open>simp add: keeps_remnant_def\<close>)
    moreover have "row_by rem_ID i (remnants db) = Some r \<Longrightarrow> rem_ParentBoardID (g r) = rem_ParentBoardID r" for r
      using g(2) row_by_SomeD by (fastforce simp: keeps_remnant_def)
    ultimately show ?thesis by (cases "row_by rem_ID i (remnants db)") simp_all
  qed
  then have "cut_board db' c = cut_board db c" for c
    by (simp add: cut_board_def split: option.splits)
  with cuts show "used_area db' b = used_area db b"
    by (simp add: used_area_def)
  show "standing_area db' b = standing_area db b"
    unfolding standing_area_def g(1) sum_where_map
    by (rule sum_where_cong) (use g(2) in \<open>auto simp: keeps_remnant_def\<close>)
  show "cuts_of_sheet db' i = cuts_of_sheet db i" "cuts_of_remnant db' i = cuts_of_remnant db i"
    using cuts by (simp_all add: cuts_of_sheet_def cuts_of_remnant_def)
qed

text \<open>Lineage survives as long as issued sheets and consumed remnants stay what they are.\<close>

lemma lineage_mono:
  assumes "\<And>s. s \<in> set (sheets db) \<Longrightarrow> sh_Status s = SheetIssued \<Longrightarrow>
      \<exists>s' \<in> set (sheets db'). sh_ID s' = sh_ID s \<and> sh_Dimensions s' = sh_Dimensions s \<and> sh_Status s' = SheetIssued"
    and "\<And>p. p \<in> set (remnants db) \<Longrightarrow> rem_Status p = RemnantConsumed \<Longrightarrow>
      \<exists>p' \<in> set (remnants db'). rem_ID p' = rem_ID p \<and> rem_Dimensions p' = rem_Dimensions p \<and>
        rem_ParentBoardID p' = rem_ParentBoardID p \<and> rem_Status p' = RemnantConsumed"
    and "lineage_ok db r"
  shows "lineage_ok db' r"
proof -
  note lin = assms(3) [unfolded lineage_ok_def]
  from lin [THEN conjunct1] obtain s
    where s: "s \<in> set (sheets db)" "sh_ID s = rem_ParentBoardID r" "sh_Status s = SheetIssued"
      "FitsInside (rem_Dimensions r) (sh_Dimensions s)"
    by (elim bexE conjE) (rule that)
  from assms(1) [OF s(1,3)] s have board: "\<exists>s' \<in> set (sheets db'). sh_ID s' = rem_ParentBoardID r \<and> sh_Status s' = SheetIssued \<and>
      FitsInside (rem_Dimensions r) (sh_Dimensions s')" by auto
  have "\<exists>p' \<in> set (remnants db'). rem_ID p' = q \<and> rem_Status p' = RemnantConsumed \<and>
      rem_ParentBoardID p' = rem_ParentBoardID r \<and> FitsInside (rem_Dimensions r) (rem_Dimensions p')"
    if "rem_ParentRemnantID r = Some q" for q
  proof -
    from lin [THEN conjunct2, rule_format, OF that] obtain p
      where p: "p \<in> set (remnants db)" "rem_ID p = q" "rem_Status p = RemnantConsumed"
        "rem_ParentBoardID p = rem_ParentBoardID r" "FitsInside (rem_Dimensions r) (rem_Dimensions p)"
      by (elim bexE conjE) (rule that)
    from assms(2) [OF p(1,3)] p show ?thesis by auto
  qed
  with board show ?thesis by (simp add: lineage_ok_def)
qed

lemma lineage_of_sheet:
  "s \<in> set (sheets db) \<Longrightarrow> sh_Status s = SheetIssued \<Longrightarrow> rem_ParentBoardID r = sh_ID s \<Longrightarrow>
   rem_ParentRemnantID r = None \<Longrightarrow> FitsInside (rem_Dimensions r) (sh_Dimensions s) \<Longrightarrow> lineage_ok db r"
  by (auto simp: lineage_ok_def)

lemma lineage_of_remnant:
  "q \<in> set (remnants db) \<Longrightarrow> rem_Status q = RemnantConsumed \<Longrightarrow> lineage_ok db q \<Longrightarrow>
   rem_ParentBoardID r = rem_ParentBoardID q \<Longrightarrow> rem_ParentRemnantID r = Some (rem_ID q) \<Longrightarrow>
   FitsInside (rem_Dimensions r) (rem_Dimensions q) \<Longrightarrow> lineage_ok db r"
  by (auto simp: lineage_ok_def dest: FitsInside_trans)

lemma frame_lineage:
  assumes "frame db db'" and "keeps_remnant r r'" and "lineage_ok db r"
  shows "lineage_ok db' r'"
proof -
  from assms(1) obtain f g where f: "sheets db' = map f (sheets db)"
      "\<And>s. s \<in> set (sheets db) \<Longrightarrow> keeps_sheet s (f s)"
    and g: "remnants db' = map g (remnants db)" "\<And>r. r \<in> set (remnants db) \<Longrightarrow> keeps_remnant r (g r)"
    unfolding framed_def by blast
  have "lineage_ok db' r"
  proof (rule lineage_mono [OF _ _ assms(3)], goal_cases)
    case (1 s)
    with f(2) [of s] show ?case by (intro bexI [of _ "f s"]) (auto simp: f(1) keeps_sheet_def)
  next
    case (2 p)
    with g(2) [of p] show ?case by (intro bexI [of _ "g p"]) (auto simp: g(1) keeps_remnant_def)
  qed
  with assms(2) show ?thesis by (simp add: lineage_ok_def keeps_remnant_def)
qed

lemma map_keys_eq: "(\<And>r. r \<in> set t \<Longrightarrow> k (g r) = k r) \<Longrightarrow> map k (map g t) = map k t"
  by simp

lemma frame_keys: "same_rows db db' \<Longrightarrow> sh_ID ` set (sheets db') = sh_ID ` set (sheets db) \<and>
    rem_ID ` set (remnants db') = rem_ID ` set (remnants db) \<and> (keys_ok db \<longrightarrow> keys_ok db')"
  unfolding framed_def keys_ok_def same_sheet_def same_remnant_def
  by (elim conjE exE) (simp add: map_keys_eq image_image cong: map_cong)

lemma frame_db_ok:
  assumes "frame db db'" and "db_ok db"
  shows "db_ok db'"
proof -
  note agg = frame_aggregates [OF assms(1)]
  have "sheet_ok db' s'" if s': "s' \<in> set (sheets db')" for s'
  proof -
    from s' assms(1) obtain s where "s \<in> set (sheets db)" "keeps_sheet s s'"
      by (auto simp: framed_def)
    with assms(2) show ?thesis
      by (auto simp: db_ok_def sheet_ok_def keeps_sheet_def agg)
  qed
  moreover have "remnant_ok db' r'" if r': "r' \<in> set (remnants db')" for r'
  proof -
    from r' assms(1) obtain r where r: "r \<in> set (remnants db)" "keeps_remnant r r'"
      by (auto simp: framed_def)
    with assms have "lineage_ok db' r'" by (auto simp: db_ok_def remnant_ok_def intro: frame_lineage)
    with r assms(2) show ?thesis
      by (auto simp: db_ok_def remnant_ok_def keeps_remnant_def agg)
  qed
  moreover have "cut_ok db' c" if "c \<in> set (cuts db')" for c
  proof -
    have "cuts db' = cuts db" using assms(1) by (simp add: framed_def)
    moreover have "cut_ok db' c = cut_ok db c" for c
      using frame_keys [OF frame_same_rows [OF assms(1)]] by (simp add: cut_ok_def cong: option.case_cong)
    ultimately show ?thesis using that assms(2) by (simp add: db_ok_def)
  qed
  ultimately show ?thesis
    using assms(2) frame_keys [OF frame_same_rows [OF assms(1)]] by (simp add: db_ok_def)
qed

text \<open>Pending writes only need their source row to keep its identity, board and dimensions.\<close>

definition sources_kept :: "inv_db \<Rightarrow> inv_db \<Rightarrow> bool" where
  "sources_kept db db' \<longleftrightarrow>
     (\<forall>s \<in> set (sheets db). \<exists>s' \<in> set (sheets db'). sh_ID s' = sh_ID s \<and> sh_Dimensions s' = sh_Dimensions s) \<and>
     (\<forall>r \<in> set (remnants db). \<exists>r' \<in> set (remnants db'). rem_ID r' = rem_ID r \<and>
        rem_Dimensions r' = rem_Dimensions r \<and> rem_ParentBoardID r' = rem_ParentBoardID r)"

lemma sources_kept_ops:
  "sources_kept db db' \<Longrightarrow> sheet_op_ok db p \<or> remnant_op_ok db p \<Longrightarrow> sheet_op_ok db' p \<or> remnant_op_ok db' p"
proof (elim disjE)
  assume kept: "sources_kept db db'" and "sheet_op_ok db p"
  then obtain su s where su: "op_SheetUpdate p = Some su" "su_Status su = SheetIssued"
      "op_RemnantUpdate p = None" "cr_SheetID (op_Record p) = Some (su_ID su)"
      "cr_RemnantSourceID (op_Record p) = None"
    and s: "s \<in> set (sheets db)" "sh_ID s = su_ID su" "leftover_ok p (su_ID su) None (sh_Dimensions s)"
    by (auto simp: sheet_op_ok_def)
  from kept s obtain s' where "s' \<in> set (sheets db')" "sh_ID s' = su_ID su" "sh_Dimensions s' = sh_Dimensions s"
    by (fastforce simp: sources_kept_def)
  with su s have "sheet_op_ok db' p" by (auto simp: sheet_op_ok_def)
  then show ?thesis ..
next
  assume kept: "sources_kept db db'" and "remnant_op_ok db p"
  then obtain ru r where ru: "op_RemnantUpdate p = Some ru" "ru_Status ru = RemnantConsumed"
      "op_SheetUpdate p = None" "cr_SheetID (op_Record p) = None"
      "cr_RemnantSourceID (op_Record p) = Some (ru_ID ru)"
    and r: "r \<in> set (remnants db)" "rem_ID r = ru_ID ru"
      "leftover_ok p (rem_ParentBoardID r) (Some (ru_ID ru)) (rem_Dimensions r)"
    by (auto simp: remnant_op_ok_def)
  from kept r obtain r' where r': "r' \<in> set (remnants db')" "rem_ID r' = ru_ID ru"
      "rem_Dimensions r' = rem_Dimensions r" "rem_ParentBoardID r' = rem_ParentBoardID r"
    by (fastforce simp: sources_kept_def)
  have "leftover_ok p (rem_ParentBoardID r') (Some (ru_ID ru)) (rem_Dimensions r')"
    using r(3) r'(3,4) by simp
  with ru r' have "remnant_op_ok db' p" unfolding remnant_op_ok_def by blast
  then show ?thesis ..
qed

lemma frame_sources_kept: "same_rows db db' \<Longrightarrow> sources_kept db db'"
  by (auto simp: framed_def sources_kept_def same_sheet_def same_remnant_def)

lemma frame_inv_ok: "frame db db' \<Longrightarrow> inv_ok (db, ps) \<Longrightarrow> inv_ok (db', ps)"
  unfolding inv_ok_def using frame_db_ok sources_kept_ops [OF frame_sources_kept [OF frame_same_rows]] by auto

lemma keys_ok_sheetD:
  "keys_ok db \<Longrightarrow> row_by sh_ID i (sheets db) = Some s \<Longrightarrow> s' \<in> set (sheets db) \<Longrightarrow> sh_ID s' = i \<Longrightarrow> s' = s"
  by (simp add: keys_ok_def row_by_Some_iff) (metis distinct_map inj_onD)

lemma keys_ok_remnantD:
  "keys_ok db \<Longrightarrow> row_by rem_ID i (remnants db) = Some r \<Longrightarrow> r' \<in> set (remnants db) \<Longrightarrow> rem_ID r' = i \<Longrightarrow> r' = r"
  by (simp add: keys_ok_def row_by_Some_iff) (metis distinct_map inj_onD)

lemma frame_untouched:
  "frame db (snd (insertLot lot db))" "frame db (snd (deactivateLot i db))"
  "frame db (snd (insertAuditLog e db))" "frame db (snd (insertCycleCountSession cs db))"
  "frame db (snd (updateCycleCountSessionStatus t i st by db))" "frame db (snd (insertCycleCountLine l db))"
  "frame db (snd (updateRejectionClaim u db))" "frame db (db\<lparr>materials := ms, locations := ls\<rparr>)"
  by (auto intro!: frame_same split: sum.splits option.splits
      simp: insertLot_def deactivateLot_def insertAuditLog_def insertCycleCountSession_def
        updateCycleCountSessionStatus_def insertCycleCountLine_def updateRejectionClaim_def Let_def)

lemma frame_sheet_ops:
  "frame db (snd (preAssignSheet i wo db))" "frame db (snd (updateSheetBinLocation i loc db))"
  "frame db (snd (qcPassLotAtomically lotID db))"
  by (auto simp: preAssignSheet_def updateSheetBinLocation_def qcPassLotAtomically_def pending_of_def
      keeps_sheet_def split: option.splits intro!: frame_upd_sheets)

lemma rejected_ids_pending:
  assumes "keys_ok db" and "i \<in> set (take n (sort (map sh_ID (select_where (pending_of lotID) (sheets db)))))"
    and "s \<in> set (sheets db)" and "sh_ID s = i"
  shows "pending_of lotID s"
proof -
  from assms(2) obtain s' where "s' \<in> set (sheets db)" "pending_of lotID s'" "sh_ID s' = i"
    by (auto simp: select_where_def dest!: in_set_takeD)
  with assms show ?thesis by (auto simp: keys_ok_def distinct_map dest: inj_onD)
qed

lemma frame_reject:
  assumes "keys_ok db"
  shows "frame db (snd (rejectLotAtomically lotID qty rej db))"
proof -
  let ?ids = "take (nat qty) (sort (map sh_ID (select_where (pending_of lotID) (sheets db))))"
  let ?db1 = "db\<lparr>sheets := update_where (\<lambda>s. sh_ID s \<in> set ?ids) (\<lambda>s. s\<lparr>sh_Status := SheetRejected\<rparr>) (sheets db)\<rparr>"
  have "frame db (?db1\<lparr>rejections := t\<rparr>)" for t
    by (rule frame_sheets [where P = "\<lambda>s. sh_ID s \<in> set ?ids" and u = "\<lambda>s. s\<lparr>sh_Status := SheetRejected\<rparr>"])
      (auto simp: keeps_sheet_def pending_of_def dest!: rejected_ids_pending [OF assms])
  then show ?thesis
    by (auto simp: rejectLotAtomically_def Let_def split: sum.splits)
qed

lemma frame_remnant_ops:
  assumes "keys_ok db"
  shows "frame db (snd (allocateRemnantAtomically t i wo db))"
    and "frame db (snd (markRemnantWasteAtomically i db))"
    and "frame db (snd (releaseExpiredAllocations before db))"
    and "frame db (snd (expireStaleRemnants t ageDays db))"
    and "frame db (snd (updateRemnantBinLocation i loc db))"
  by (auto simp: allocateRemnantAtomically_def markRemnantWasteAtomically_def releaseExpiredAllocations_def
      expireStaleRemnants_def updateRemnantBinLocation_def keeps_remnant_def
      allocation_expired_def stale_def
      split: option.splits intro!: frame_upd_remnants dest!: keys_ok_remnantD [OF assms])

section \<open>Posting a cycle count\<close>

lemma post_cases:
  "snd (postCycleCountAtomically t sid by adjs db) = db \<or>
   (\<exists>db' ss. apply_adjustments adjs db = Inr db' \<and> snd (postCycleCountAtomically t sid by adjs db) = db'\<lparr>sessions := ss\<rparr>)"
  unfolding postCycleCountAtomically_def
  by (cases "apply_adjustments adjs db") (auto split: option.splits intro: exI)

lemma post_InrE:
  obtains "snd (postCycleCountAtomically t sid by adjs db) = db"
  | db' ss where "apply_adjustments adjs db = Inr db'"
    and "snd (postCycleCountAtomically t sid by adjs db) = db'\<lparr>sessions := ss\<rparr>"
  using post_cases by blast

lemma framed_sessions [simp]: "framed S R db (db'\<lparr>sessions := ss\<rparr>) = framed S R db db'"
  by (simp add: framed_def)

lemma framed_refl: "(\<And>s. S s s) \<Longrightarrow> (\<And>r. R r r) \<Longrightarrow> framed S R db db"
  unfolding framed_def by (auto intro!: exI [where x = id])

text \<open>One adjustment rewrites the rows of its entity only.\<close>

lemma apply_adjustment_framed:
  assumes "apply_adjustment a db = Inr db'" and "\<And>s. S s s" and "\<And>r. R r r"
    and "\<And>s. aj_EntityType a \<noteq> EntRemnant \<Longrightarrow> s \<in> set (sheets db) \<Longrightarrow> sh_ID s = aj_EntityID a \<Longrightarrow> S s (adjust_sheet a s)"
    and "\<And>r. aj_EntityType a = EntRemnant \<Longrightarrow> r \<in> set (remnants db) \<Longrightarrow> rem_ID r = aj_EntityID a \<Longrightarrow> R r (adjust_remnant a r)"
  shows "framed S R db db'"
proof -
  have tabs: "cuts db' = cuts db"
    "sheets db' = map (\<lambda>s. if aj_EntityType a \<noteq> EntRemnant \<and> sh_ID s = aj_EntityID a then adjust_sheet a s else s) (sheets db)"
    "remnants db' = map (\<lambda>r. if aj_EntityType a = EntRemnant \<and> rem_ID r = aj_EntityID a then adjust_remnant a r else r) (remnants db)"
    using assms(1) by (auto simp: apply_adjustment_def Let_def update_where_def split: if_splits)
  show ?thesis
    unfolding framed_def using assms(2-5)
    by (intro conjI exI) (rule tabs(1), rule tabs(2), simp, rule tabs(3), simp)
qed

lemma apply_adjustments_framed:
  assumes "apply_adjustments as db = Inr db'" and "\<And>s. S s s" and "\<And>r. R r r"
    and "\<And>s s' s''. S s s' \<Longrightarrow> S s' s'' \<Longrightarrow> S s s''" and "\<And>r r' r''. R r r' \<Longrightarrow> R r' r'' \<Longrightarrow> R r r''"
    and "\<And>a s. a \<in> set as \<Longrightarrow> aj_EntityType a \<noteq> EntRemnant \<Longrightarrow> sh_ID s = aj_EntityID a \<Longrightarrow> S s (adjust_sheet a s)"
    and "\<And>a r. a \<in> set as \<Longrightarrow> aj_EntityType a = EntRemnant \<Longrightarrow> rem_ID r = aj_EntityID a \<Longrightarrow> R r (adjust_remnant a r)"
  shows "framed S R db db'"
  using assms(1,6,7)
proof (induction as arbitrary: db)
  case Nil
  with assms(2,3) show ?case by (simp add: framed_refl)
next
  case (Cons a as)
  from Cons.prems(1) obtain db1 where db1: "apply_adjustment a db = Inr db1" "apply_adjustments as db1 = Inr db'"
    by (auto split: sum.splits)
  have "framed S R db db1"
    by (rule apply_adjustment_framed [OF db1(1) assms(2,3)]) (use Cons.prems(2,3) in auto)
  moreover have "framed S R db1 db'"
    by (rule Cons.IH [OF db1(2)]) (use Cons.prems(2,3) in auto)
  ultimately show ?case using framed_trans assms(4,5) by blast
qed

text \<open>A count that spares used material stays within \<open>frame\<close>; any count keeps the rows' identity.\<close>

lemma keeps_spares:
  "keeps_sheet s s' \<Longrightarrow> spares_sheet a s \<Longrightarrow> spares_sheet a s'"
  "keeps_remnant r r' \<Longrightarrow> spares_remnant a r \<Longrightarrow> spares_remnant a r'"
  by (auto simp: keeps_sheet_def spares_sheet_def adjust_sheet_def keeps_remnant_def spares_remnant_def
      adjust_remnant_def split: option.splits)

lemma spares_used_frame:
  "spares_used db as \<Longrightarrow> apply_adjustments as db = Inr db' \<Longrightarrow> frame db db'"
proof (induction as arbitrary: db)
  case (Cons a as)
  from Cons.prems(2) obtain db1 where db1: "apply_adjustment a db = Inr db1" "apply_adjustments as db1 = Inr db'"
    by (auto split: sum.splits)
  have fr: "frame db db1"
    by (rule apply_adjustment_framed [OF db1(1)])
      (use Cons.prems(1) in \<open>auto simp: spares_used_def spares_sheet_def spares_remnant_def keeps_sheet_def
        keeps_remnant_def adjust_sheet_def adjust_remnant_def\<close>)
  then have "spares_used db1 as"
    using Cons.prems(1) by (fastforce simp: spares_used_def framed_def dest: keeps_spares)
  then have "frame db1 db'" using Cons.IH db1(2) by blast
  with fr show ?case
    by (rule framed_trans) (auto simp: keeps_sheet_def keeps_remnant_def)
qed simp

lemma post_frame: "spares_used db adjs \<Longrightarrow> frame db (snd (postCycleCountAtomically t sid by adjs db))"
  by (rule post_InrE [of t sid "by" adjs db]) (auto intro: spares_used_frame)

lemma post_same_rows: "same_rows db (snd (postCycleCountAtomically t sid by adjs db))"
proof (rule post_InrE [of t sid "by" adjs db])
  fix db' ss
  assume app: "apply_adjustments adjs db = Inr db'"
    and res: "snd (postCycleCountAtomically t sid by adjs db) = db'\<lparr>sessions := ss\<rparr>"
  show ?thesis
    unfolding res framed_sessions
    by (rule apply_adjustments_framed [OF app])
      (auto simp: same_sheet_def same_remnant_def adjust_sheet_def adjust_remnant_def)
qed (simp add: frame_same_rows)

section \<open>New sheets\<close>

text \<open>A board that was never issued has no cut and no remnant.\<close>

lemma cut_board_issued:
  assumes "db_ok db" and "c \<in> set (cuts db)" and "cut_board db c = Some b"
  shows "\<exists>s \<in> set (sheets db). sh_ID s = b \<and> sh_Status s = SheetIssued"
proof (cases "cr_SheetID c")
  case (Some i)
  with assms obtain s where s: "s \<in> set (sheets db)" "sh_ID s = b"
    by (auto simp: db_ok_def cut_ok_iff cut_board_def)
  have "cuts_of_sheet db b \<noteq> 0"
    using assms Some by (auto simp: cuts_of_sheet_def count_where_zero_iff cut_board_def)
  with s assms(1) show ?thesis by (auto simp: db_ok_def sheet_ok_def split: if_splits)
next
  case None
  with assms obtain r where "r \<in> set (remnants db)" "rem_ParentBoardID r = b"
    by (auto simp: cut_board_def split: option.splits dest!: row_by_SomeD)
  with assms(1) show ?thesis by (auto simp: db_ok_def remnant_ok_def lineage_ok_def)
qed

lemma unissued_untouched:
  assumes "db_ok db" and "\<And>s. s \<in> set (sheets db) \<Longrightarrow> sh_ID s = b \<Longrightarrow> sh_Status s \<noteq> SheetIssued"
  shows "used_area db b = 0" and "standing_area db b = 0" and "cuts_of_sheet db b = 0"
proof -
  have none: "cut_board db c \<noteq> Some b" if "c \<in> set (cuts db)" for c
    using cut_board_issued [OF assms(1) that] assms(2) by auto
  then show "used_area db b = 0"
    unfolding used_area_def by (rule sum_where_none)
  show "cuts_of_sheet db b = 0"
    using none by (fastforce simp: cuts_of_sheet_def count_where_zero_iff cut_board_def)
  have "rem_ParentBoardID r \<noteq> b" if "r \<in> set (remnants db)" for r
    using assms that by (fastforce simp: db_ok_def remnant_ok_def lineage_ok_def)
  then show "standing_area db b = 0"
    unfolding standing_area_def by (intro sum_where_none) simp
qed

lemma aggregates_cong:
  assumes "cuts db' = cuts db" and "remnants db' = remnants db"
  shows "used_area db' b = used_area db b" and "standing_area db' b = standing_area db b"
    and "cuts_of_sheet db' i = cuts_of_sheet db i" and "cuts_of_remnant db' i = cuts_of_remnant db i"
  using assms unfolding used_area_def standing_area_def cuts_of_sheet_def cuts_of_remnant_def cut_board_def
  by (simp_all only:)

lemma insertSheets_db_ok:
  assumes "db_ok db" and "Valid (rs_Dimensions inp)"
    and "insertSheets (map (new_sheet inp lotID) ids) db = (Inr (), db')"
  shows "db_ok db'"
proof -
  let ?shs = "map (new_sheet inp lotID) ids"
  from assms(3) obtain t where t: "insert_batch (check_sheet db) sh_ID ?shs (sheets db) = Inr t"
    and db': "db' = db\<lparr>sheets := t\<rparr>"
    by (auto simp: insertSheets_def split: sum.splits)
  have "keys_distinct sh_ID (sheets db)" using assms(1) by (simp add: db_ok_def keys_ok_def)
  with insert_batch_Inr [OF t] have ts: "t = sheets db @ ?shs"
    and chk: "\<And>s. s \<in> set ?shs \<Longrightarrow> check_sheet db s = None" and keys: "keys_distinct sh_ID t"
    by blast+
  have agg: "used_area db' b = used_area db b" "standing_area db' b = standing_area db b"
    "cuts_of_sheet db' i = cuts_of_sheet db i" "cuts_of_remnant db' i = cuts_of_remnant db i" for b i
    by (rule aggregates_cong; simp add: db')+
  have "sheet_ok db' s" if "s \<in> set ?shs" for s
  proof -
    have dims: "dims_ok (sh_Dimensions s)" and st: "sh_Status s = SheetPendingQC"
      using that chk [OF that] assms(2)
      by (auto simp: new_sheet_def dims_ok_def check_sheet_def split: if_splits)
    have "s' \<in> set (sheets db) \<Longrightarrow> sh_ID s' \<noteq> sh_ID s" for s'
      using keys that unfolding ts by (auto simp: disjoint_iff image_iff)
    then have "used_area db (sh_ID s) = 0" "standing_area db (sh_ID s) = 0" "cuts_of_sheet db (sh_ID s) = 0"
      by (intro unissued_untouched [OF assms(1)]; auto)+
    with dims st show ?thesis
      using area_pos [of "sh_Dimensions s"] by (simp add: sheet_ok_def agg dims_ok_def)
  qed
  moreover have "sheet_ok db' s" if "s \<in> set (sheets db)" for s
    using that assms(1) by (simp add: db_ok_def sheet_ok_def agg)
  moreover have "lineage_ok db' r" if "lineage_ok db r" for r
    by (rule lineage_mono [OF _ _ that]) (auto simp: db' ts)
  then have "remnant_ok db' r" if "r \<in> set (remnants db)" for r
    using that assms(1) by (auto simp: db_ok_def remnant_ok_def agg)
  moreover have "cut_ok db' c" if "c \<in> set (cuts db)" for c
    using that assms(1) by (auto simp: db_ok_def cut_ok_iff db' ts)
  ultimately show ?thesis
    using assms(1) keys unfolding db_ok_def by (auto simp: db' ts keys_ok_def)
qed

section \<open>Committing a cut\<close>

text \<open>The committed transaction, taken apart: source marked, record stored, leftover stored.\<close>

lemma recordCutAtomically_InrE:
  assumes "recordCutAtomically sch p db = (Inr u, db')"
  obtains db1 db2 where "cut_lock_source p db = Inr db1" and "cut_insert_record sch p db1 = Inr db2"
    and "cut_insert_remnant p db2 = Inr db'"
  using assms by (auto simp: recordCutAtomically_def split: sum.splits)

lemma recordCutAtomically_Inl: "recordCutAtomically sch p db = (Inl e, db') \<Longrightarrow> db' = db"
  by (auto simp: recordCutAtomically_def split: sum.splits)

lemma cut_insert_record_InrD:
  "cut_insert_record sch p db = Inr db' \<Longrightarrow>
     db' = db\<lparr>cuts := cuts db @ [op_Record p]\<rparr> \<and> dim_int4 (cr_Used (op_Record p)) \<and>
     cr_ID (op_Record p) \<notin> cr_ID ` set (cuts db)"
  by (auto simp: cut_insert_record_def check_cut_def split: if_splits)

text \<open>Recording one more cut of a board.\<close>

lemma record_aggregates:
  assumes "cuts db' = cuts db @ [c]"
    and "\<And>i. map_option rem_ParentBoardID (row_by rem_ID i (remnants db')) =
      map_option rem_ParentBoardID (row_by rem_ID i (remnants db))"
  shows "used_area db' b = used_area db b + (if cut_board db c = Some b then area (cr_Used c) else 0)"
    and "cuts_of_sheet db' i = cuts_of_sheet db i + (if cr_SheetID c = Some i then 1 else 0)"
    and "cuts_of_remnant db' i = cuts_of_remnant db i + (if cr_RemnantSourceID c = Some i then 1 else 0)"
proof -
  have "cut_board db' = cut_board db"
    using assms(2) by (intro ext) (simp add: cut_board_def split: option.splits)
  then show "used_area db' b = used_area db b + (if cut_board db c = Some b then area (cr_Used c) else 0)"
    by (simp add: used_area_def assms(1))
  show "cuts_of_sheet db' i = cuts_of_sheet db i + (if cr_SheetID c = Some i then 1 else 0)"
    "cuts_of_remnant db' i = cuts_of_remnant db i + (if cr_RemnantSourceID c = Some i then 1 else 0)"
    by (simp_all add: cuts_of_sheet_def cuts_of_remnant_def assms(1))
qed

definition issue_sheet :: "uuid \<Rightarrow> uuid option \<Rightarrow> CuttingRecord \<Rightarrow> inv_db \<Rightarrow> inv_db" where
  "issue_sheet i wo c db =
     db\<lparr>sheets := update_where (\<lambda>s. sh_ID s = i) (\<lambda>s. s\<lparr>sh_Status := SheetIssued, sh_IssuedToWO := wo\<rparr>) (sheets db),
        cuts := cuts db @ [c]\<rparr>"

definition consume_remnant :: "uuid \<Rightarrow> CuttingRecord \<Rightarrow> inv_db \<Rightarrow> inv_db" where
  "consume_remnant i c db =
     db\<lparr>remnants := update_where (\<lambda>r. rem_ID r = i) (\<lambda>r. r\<lparr>rem_Status := RemnantConsumed, rem_AllocatedToWO := None\<rparr>) (remnants db),
        cuts := cuts db @ [c]\<rparr>"

lemma issue_consume_simps [simp]:
  "cuts (issue_sheet i wo c db) = cuts db @ [c]" "remnants (issue_sheet i wo c db) = remnants db"
  "cuts (consume_remnant i c db) = cuts db @ [c]" "sheets (consume_remnant i c db) = sheets db"
  by (simp_all add: issue_sheet_def consume_remnant_def)

lemma issue_sheet_db_ok:
  assumes ok: "db_ok db" and row: "row_by sh_ID i (sheets db) = Some s0" and av: "sh_Status s0 = SheetAvailable"
    and c: "cr_SheetID c = Some i" "cr_RemnantSourceID c = None" "dims_ok (cr_Used c)"
      "cr_ID c \<notin> cr_ID ` set (cuts db)" "area (cr_Used c) \<le> area (sh_Dimensions s0)"
  shows "db_ok (issue_sheet i wo c db)"
    and "used_area (issue_sheet i wo c db) i + standing_area (issue_sheet i wo c db) i = area (cr_Used c)"
proof -
  let ?db = "issue_sheet i wo c db"
  note s0 = row_by_SomeD [OF row]
  have keys: "keys_ok db" using ok by (simp add: db_ok_def)
  have only: "s \<in> set (sheets db) \<Longrightarrow> sh_ID s = i \<Longrightarrow> s = s0" for s
    using keys_ok_sheetD [OF keys row] by blast
  have "s \<in> set (sheets db) \<Longrightarrow> sh_ID s = i \<Longrightarrow> sh_Status s \<noteq> SheetIssued" for s
    using only [of s] av by auto
  note zero = unissued_untouched [OF ok, of i, OF this]
  have rec: "used_area ?db b = used_area db b + (if b = i then area (cr_Used c) else 0)"
    "cuts_of_sheet ?db j = cuts_of_sheet db j + (if j = i then 1 else 0)"
    "cuts_of_remnant ?db j = cuts_of_remnant db j" for b j
    using c by (simp_all add: record_aggregates [of ?db db c] cut_board_def)
  have standing: "standing_area ?db b = standing_area db b" for b
    by (simp add: standing_area_def issue_sheet_def)
  show "used_area ?db i + standing_area ?db i = area (cr_Used c)"
    using zero by (simp add: rec standing)
  have "sheet_ok ?db s'" if s': "s' \<in> set (sheets ?db)" for s'
  proof -
    from s' obtain s where s: "s \<in> set (sheets db)"
      "s' = (if sh_ID s = i then s\<lparr>sh_Status := SheetIssued, sh_IssuedToWO := wo\<rparr> else s)"
      by (auto simp: issue_sheet_def elim!: in_update_whereE)
    have sok: "sheet_ok db s" using s(1) ok by (simp add: db_ok_def)
    show ?thesis
    proof (cases "sh_ID s = i")
      case True
      then have "s = s0" using only s(1) by simp
      with sok True s(2) zero c(5) show ?thesis by (simp add: sheet_ok_def rec standing)
    next
      case False
      with sok s(2) show ?thesis by (simp add: sheet_ok_def rec standing)
    qed
  qed
  moreover have "lineage_ok ?db r" if "lineage_ok db r" for r
  proof (rule lineage_mono [OF _ _ that], goal_cases)
    case (1 s)
    then show ?case
      by (intro bexI [of _ "if sh_ID s = i then s\<lparr>sh_Status := SheetIssued, sh_IssuedToWO := wo\<rparr> else s"])
        (auto simp: issue_sheet_def set_update_where)
  qed auto
  then have "remnant_ok ?db r" if "r \<in> set (remnants ?db)" for r
    using that ok by (auto simp: db_ok_def remnant_ok_def rec)
  moreover have ids: "sh_ID ` set (sheets ?db) = sh_ID ` set (sheets db)"
    by (simp add: issue_sheet_def keys_update_where)
  have "cut_ok ?db c"
    using c ids s0 by (auto simp: cut_ok_def)
  then have "cut_ok ?db x" if "x \<in> set (cuts ?db)" for x
    using that ok ids by (auto simp: db_ok_def intro: cut_ok_mono [of db])
  moreover have "keys_ok ?db"
    using keys c(4) by (simp add: keys_ok_def issue_sheet_def map_update_where)
  ultimately show "db_ok ?db" by (simp add: db_ok_def)
qed

lemma consume_remnant_db_ok:
  assumes ok: "db_ok db" and row: "row_by rem_ID i (remnants db) = Some r0"
    and st: "rem_Status r0 \<in> {RemnantAvailable, RemnantAllocated}"
    and c: "cr_SheetID c = None" "cr_RemnantSourceID c = Some i" "dims_ok (cr_Used c)"
      "cr_ID c \<notin> cr_ID ` set (cuts db)" "area (cr_Used c) \<le> area (rem_Dimensions r0)"
  shows "db_ok (consume_remnant i c db)"
    and "used_area (consume_remnant i c db) (rem_ParentBoardID r0) +
      standing_area (consume_remnant i c db) (rem_ParentBoardID r0) + area (rem_Dimensions r0) =
      used_area db (rem_ParentBoardID r0) + standing_area db (rem_ParentBoardID r0) + area (cr_Used c)"
proof -
  let ?db = "consume_remnant i c db" and ?b = "rem_ParentBoardID r0"
  let ?u = "\<lambda>r. r\<lparr>rem_Status := RemnantConsumed, rem_AllocatedToWO := None\<rparr>"
  note r0 = row_by_SomeD [OF row]
  have keys: "keys_ok db" using ok by (simp add: db_ok_def)
  have rems: "remnants ?db = update_where (\<lambda>r. rem_ID r = i) ?u (remnants db)"
    by (simp add: consume_remnant_def)
  have only: "r \<in> set (remnants db) \<Longrightarrow> rem_ID r = i \<Longrightarrow> r = r0" for r
    using keys_ok_remnantD [OF keys row] by blast
  have parents: "map_option rem_ParentBoardID (row_by rem_ID j (remnants ?db)) =
      map_option rem_ParentBoardID (row_by rem_ID j (remnants db))" for j
    by (simp add: rems row_by_update_where option.map_comp comp_def) (auto intro!: option.map_cong0)
  have rec: "used_area ?db b = used_area db b + (if b = ?b then area (cr_Used c) else 0)"
    "cuts_of_sheet ?db j = cuts_of_sheet db j"
    "cuts_of_remnant ?db j = cuts_of_remnant db j + (if j = i then 1 else 0)" for b j
    using c row by (simp_all add: record_aggregates [of ?db db c, OF _ parents] cut_board_def)
  have standing: "standing_area ?db b = standing_area db b - (if b = ?b then area (rem_Dimensions r0) else 0)" for b
    using keys st unfolding standing_area_def rems keys_ok_def
    by (subst sum_where_update_key [OF _ row]) auto
  show "used_area ?db ?b + standing_area ?db ?b + area (rem_Dimensions r0) =
      used_area db ?b + standing_area db ?b + area (cr_Used c)"
    by (simp add: rec standing)
  have "sheet_ok ?db s" if "s \<in> set (sheets ?db)" for s
    using that ok c(5) by (auto simp: db_ok_def sheet_ok_def rec standing)
  moreover have lin: "lineage_ok ?db r" if "lineage_ok db r" for r
  proof (rule lineage_mono [OF _ _ that], goal_cases)
    case (2 p)
    then show ?case
      by (intro bexI [of _ "if rem_ID p = i then ?u p else p"]) (auto simp: rems set_update_where)
  qed auto
  have "remnant_ok ?db r'" if r': "r' \<in> set (remnants ?db)" for r'
  proof -
    from r' obtain r where r: "r \<in> set (remnants db)" "r' = (if rem_ID r = i then ?u r else r)"
      unfolding rems by (auto elim!: in_update_whereE)
    have rok: "remnant_ok db r" using r(1) ok by (simp add: db_ok_def)
    show ?thesis
    proof (cases "rem_ID r = i")
      case True
      then have "r = r0" using only r(1) by simp
      moreover have "lineage_ok ?db r'" using rok lin [of r] r(2) True by (simp add: remnant_ok_def lineage_ok_def)
      ultimately show ?thesis using rok True r(2) st by (auto simp: remnant_ok_def rec)
    next
      case False
      with rok r(2) lin show ?thesis by (simp add: remnant_ok_def rec)
    qed
  qed
  moreover have ids: "rem_ID ` set (remnants ?db) = rem_ID ` set (remnants db)"
    by (simp add: rems keys_update_where)
  have "cut_ok ?db c"
    using c ids r0 by (auto simp: cut_ok_def)
  then have "cut_ok ?db x" if "x \<in> set (cuts ?db)" for x
    using that ok ids by (auto simp: db_ok_def intro: cut_ok_mono [of db])
  moreover have "keys_ok ?db"
    using keys c(4) by (simp add: keys_ok_def rems map_update_where)
  ultimately show "db_ok ?db" by (simp add: db_ok_def)
qed

text \<open>Storing the leftover of a cut whose board has room for it.\<close>

lemma insert_remnant_db_ok:
  assumes ok: "db_ok db" and new: "rem_ID r \<notin> rem_ID ` set (remnants db)"
    and r: "dims_ok (rem_Dimensions r)" "FitsInside (usable r) (rem_Dimensions r)"
      "rem_Status r = RemnantAvailable" "rem_AllocatedToWO r = None" "lineage_ok db r"
    and room: "\<And>s. s \<in> set (sheets db) \<Longrightarrow> sh_ID s = rem_ParentBoardID r \<Longrightarrow>
      used_area db (sh_ID s) + standing_area db (sh_ID s) + area (rem_Dimensions r) \<le> area (sh_Dimensions s)"
  shows "db_ok (db\<lparr>remnants := remnants db @ [r]\<rparr>)"
proof -
  let ?db = "db\<lparr>remnants := remnants db @ [r]\<rparr>"
  have known: "cut_board ?db c = cut_board db c" if "c \<in> set (cuts db)" for c
  proof -
    from that ok have "cut_ok db c" by (simp add: db_ok_def)
    then show ?thesis
      using new by (cases "cr_SheetID c") (auto simp: cut_ok_iff cut_board_def split: option.splits)
  qed
  have used: "used_area ?db b = used_area db b" for b
    using known by (auto simp: used_area_def intro!: sum_where_cong)
  have standing: "standing_area ?db b =
      standing_area db b + (if b = rem_ParentBoardID r then area (rem_Dimensions r) else 0)" for b
    using r(3) by (simp add: standing_area_def)
  have counts: "cuts_of_sheet ?db j = cuts_of_sheet db j" "cuts_of_remnant ?db j = cuts_of_remnant db j" for j
    by (simp_all add: cuts_of_sheet_def cuts_of_remnant_def)
  have "cr_RemnantSourceID c \<noteq> Some (rem_ID r)" if "c \<in> set (cuts db)" for c
  proof -
    from that ok have "cut_ok db c" by (simp add: db_ok_def)
    with new show ?thesis by (auto simp: cut_ok_iff image_iff)
  qed
  then have "cuts_of_remnant db (rem_ID r) = 0"
    by (simp add: cuts_of_remnant_def count_where_zero_iff)
  moreover have lin: "lineage_ok ?db q" if "lineage_ok db q" for q
    by (rule lineage_mono [OF _ _ that]) auto
  ultimately have "remnant_ok ?db q" if "q \<in> set (remnants ?db)" for q
    using that ok r by (auto simp: db_ok_def remnant_ok_def counts)
  moreover have "sheet_ok ?db s" if "s \<in> set (sheets ?db)" for s
    using that ok room [of s] by (auto simp: db_ok_def sheet_ok_def used standing counts)
  moreover have "cut_ok ?db c" if "c \<in> set (cuts ?db)" for c
    using that ok by (auto simp: db_ok_def intro: cut_ok_mono [of db])
  moreover have "keys_ok ?db"
    using ok new by (simp add: db_ok_def keys_ok_def)
  ultimately show ?thesis by (simp add: db_ok_def)
qed

text \<open>The leftover finds its lineage in the database the first two statements left.\<close>

lemma commit_leftover:
  assumes "db_ok db2" and "cut_insert_remnant p db2 = Inr db'"
    and "leftover_ok p board parent src"
    and "\<And>r. op_NewRemnant p = Some r \<Longrightarrow> lineage_ok db2 r"
    and "\<And>s r. s \<in> set (sheets db2) \<Longrightarrow> sh_ID s = board \<Longrightarrow>
      used_area db2 board + standing_area db2 board + leftover_area p \<le> area (sh_Dimensions s)"
  shows "db_ok db'"
proof (cases "op_NewRemnant p")
  case None
  with assms show ?thesis by (simp add: cut_insert_remnant_def)
next
  case (Some r)
  with assms(2) have "rem_ID r \<notin> rem_ID ` set (remnants db2)" and "db' = db2\<lparr>remnants := remnants db2 @ [r]\<rparr>"
    by (auto simp: cut_insert_remnant_def)
  with Some assms(1,3,4,5) show ?thesis
    by (auto simp: leftover_ok_def leftover_area_def intro!: insert_remnant_db_ok)
qed

lemma leftover_area_nonneg: "leftover_ok p b q src \<Longrightarrow> 0 \<le> leftover_area p"
  by (auto simp: leftover_area_def leftover_ok_def dims_ok_def split: option.splits dest!: area_pos)

lemma commit_sheet_db_ok:
  assumes ok: "db_ok db" and pok: "sheet_op_ok db p" and com: "recordCutAtomically sch p db = (Inr u, db')"
  shows "db_ok db'"
proof -
  from pok obtain su s where su: "op_SheetUpdate p = Some su" "su_Status su = SheetIssued"
      "cr_SheetID (op_Record p) = Some (su_ID su)" "cr_RemnantSourceID (op_Record p) = None"
    and s: "s \<in> set (sheets db)" "sh_ID s = su_ID su"
    and left: "leftover_ok p (su_ID su) None (sh_Dimensions s)"
    by (auto simp: sheet_op_ok_def)
  from com obtain db1 db2 where steps: "cut_lock_source p db = Inr db1" "cut_insert_record sch p db1 = Inr db2"
      "cut_insert_remnant p db2 = Inr db'"
    by (rule recordCutAtomically_InrE)
  have row: "row_by sh_ID (su_ID su) (sheets db) = Some s"
    using ok s by (auto simp: db_ok_def keys_ok_def row_by_Some_iff)
  let ?w = "su_IssuedToWO su" and ?c = "op_Record p"
  from steps(1) su row have av: "sh_Status s = SheetAvailable"
    and db1: "db1 = db\<lparr>sheets := update_where (\<lambda>x. sh_ID x = su_ID su)
      (\<lambda>x. x\<lparr>sh_Status := SheetIssued, sh_IssuedToWO := ?w\<rparr>) (sheets db)\<rparr>"
    by (auto simp: cut_lock_source_def split: if_splits)
  note rec = cut_insert_record_InrD [OF steps(2)]
  have db2: "db2 = issue_sheet (su_ID su) ?w ?c db" and fresh_c: "cr_ID ?c \<notin> cr_ID ` set (cuts db)"
    using rec by (simp_all add: db1 issue_sheet_def)
  have fit: "area (cr_Used ?c) + leftover_area p \<le> area (sh_Dimensions s)" and dims: "dims_ok (cr_Used ?c)"
    using left rec by (simp_all add: leftover_ok_def dims_ok_def)
  have fit0: "area (cr_Used ?c) \<le> area (sh_Dimensions s)"
    using fit leftover_area_nonneg [OF left] by simp
  note iss = issue_sheet_db_ok [OF ok row av su(3,4) dims fresh_c fit0, of ?w, folded db2]
  have issued: "s\<lparr>sh_Status := SheetIssued, sh_IssuedToWO := ?w\<rparr> \<in> set (sheets db2)"
    using in_update_whereI [of s "sheets db" "\<lambda>x. sh_ID x = su_ID su"
        "\<lambda>x. x\<lparr>sh_Status := SheetIssued, sh_IssuedToWO := ?w\<rparr>"] s
    by (simp add: db2 issue_sheet_def)
  show ?thesis
  proof (rule commit_leftover [OF iss(1) steps(3) left])
    show "lineage_ok db2 r" if "op_NewRemnant p = Some r" for r
      by (rule lineage_of_sheet [OF issued]) (use that left s in \<open>auto simp: leftover_ok_def\<close>)
    show "used_area db2 (su_ID su) + standing_area db2 (su_ID su) + leftover_area p \<le> area (sh_Dimensions x)"
      if "x \<in> set (sheets db2)" "sh_ID x = su_ID su" for x
    proof -
      have "x = s\<lparr>sh_Status := SheetIssued, sh_IssuedToWO := ?w\<rparr>"
      proof (rule inj_onD [of sh_ID "set (sheets db2)"])
        show "inj_on sh_ID (set (sheets db2))"
          using iss(1) by (simp add: db_ok_def keys_ok_def distinct_map)
      qed (use that issued s in simp_all)
      with iss(2) fit show ?thesis by simp
    qed
  qed
qed

lemma commit_remnant_db_ok:
  assumes ok: "db_ok db" and pok: "remnant_op_ok db p" and com: "recordCutAtomically sch p db = (Inr u, db')"
  shows "db_ok db'"
proof -
  from pok obtain ru r where ru: "op_RemnantUpdate p = Some ru" "ru_Status ru = RemnantConsumed"
      "op_SheetUpdate p = None" "cr_SheetID (op_Record p) = None"
      "cr_RemnantSourceID (op_Record p) = Some (ru_ID ru)"
    and r: "r \<in> set (remnants db)" "rem_ID r = ru_ID ru"
    and left: "leftover_ok p (rem_ParentBoardID r) (Some (ru_ID ru)) (rem_Dimensions r)"
    by (auto simp: remnant_op_ok_def)
  from com obtain db1 db2 where steps: "cut_lock_source p db = Inr db1" "cut_insert_record sch p db1 = Inr db2"
      "cut_insert_remnant p db2 = Inr db'"
    by (rule recordCutAtomically_InrE)
  have row: "row_by rem_ID (ru_ID ru) (remnants db) = Some r"
    using ok r by (auto simp: db_ok_def keys_ok_def row_by_Some_iff)
  let ?c = "op_Record p" and ?b = "rem_ParentBoardID r"
  from steps(1) ru row have st: "rem_Status r \<in> {RemnantAvailable, RemnantAllocated}"
    and db1: "db1 = db\<lparr>remnants := update_where (\<lambda>x. rem_ID x = ru_ID ru)
      (\<lambda>x. x\<lparr>rem_Status := RemnantConsumed, rem_AllocatedToWO := None\<rparr>) (remnants db)\<rparr>"
    by (auto simp: cut_lock_source_def split: if_splits)
  note rec = cut_insert_record_InrD [OF steps(2)]
  have db2: "db2 = consume_remnant (ru_ID ru) ?c db" and fresh_c: "cr_ID ?c \<notin> cr_ID ` set (cuts db)"
    using rec by (simp_all add: db1 consume_remnant_def)
  have fit: "area (cr_Used ?c) + leftover_area p \<le> area (rem_Dimensions r)" and dims: "dims_ok (cr_Used ?c)"
    using left rec by (simp_all add: leftover_ok_def dims_ok_def)
  have fit0: "area (cr_Used ?c) \<le> area (rem_Dimensions r)"
    using fit leftover_area_nonneg [OF left] by simp
  note con = consume_remnant_db_ok [OF ok row st ru(4,5) dims fresh_c fit0, folded db2]
  have consumed: "r\<lparr>rem_Status := RemnantConsumed, rem_AllocatedToWO := None\<rparr> \<in> set (remnants db2)"
    using in_update_whereI [of r "remnants db" "\<lambda>x. rem_ID x = ru_ID ru"
        "\<lambda>x. x\<lparr>rem_Status := RemnantConsumed, rem_AllocatedToWO := None\<rparr>"] r
    by (simp add: db2 consume_remnant_def)
  have lin: "lineage_ok db2 (r\<lparr>rem_Status := RemnantConsumed, rem_AllocatedToWO := None\<rparr>)"
    using con(1) consumed unfolding db_ok_def remnant_ok_def by blast
  show ?thesis
  proof (rule commit_leftover [OF con(1) steps(3) left])
    show "lineage_ok db2 q" if "op_NewRemnant p = Some q" for q
      by (rule lineage_of_remnant [OF consumed _ lin]) (use that left r(2) in \<open>auto simp: leftover_ok_def\<close>)
    show "used_area db2 ?b + standing_area db2 ?b + leftover_area p \<le> area (sh_Dimensions x)"
      if "x \<in> set (sheets db2)" "sh_ID x = ?b" for x
    proof -
      have "x \<in> set (sheets db)" using that by (simp add: db2)
      with that ok have "used_area db ?b + standing_area db ?b \<le> area (sh_Dimensions x)"
        by (auto simp: db_ok_def sheet_ok_def)
      with con(2) fit show ?thesis by simp
    qed
  qed
qed

lemma commit_db_ok:
  assumes "db_ok db" and "sheet_op_ok db p \<or> remnant_op_ok db p"
  shows "db_ok (snd (recordCutAtomically sch p db))"
proof (cases "recordCutAtomically sch p db")
  case (Pair r db')
  show ?thesis
  proof (cases r)
    case (Inl e)
    with Pair recordCutAtomically_Inl assms(1) show ?thesis by fastforce
  next
    case (Inr u)
    with Pair have com: "recordCutAtomically sch p db = (Inr u, db')" by simp
    show ?thesis
      using assms(2) commit_sheet_db_ok [OF assms(1) _ com] commit_remnant_db_ok [OF assms(1) _ com]
      by (auto simp: Pair)
  qed
qed

lemma sources_kept_refl [simp]: "sources_kept db db"
  by (auto simp: sources_kept_def)

lemma sources_kept_sheets:
  assumes "\<And>s. sh_ID (u s) = sh_ID s \<and> sh_Dimensions (u s) = sh_Dimensions s"
  shows "sources_kept db (db\<lparr>sheets := update_where P u (sheets db)\<rparr>)"
  unfolding sources_kept_def
proof (intro conjI ballI)
  fix s assume "s \<in> set (sheets db)"
  then show "\<exists>s' \<in> set (sheets (db\<lparr>sheets := update_where P u (sheets db)\<rparr>)).
      sh_ID s' = sh_ID s \<and> sh_Dimensions s' = sh_Dimensions s"
    using assms by (intro bexI [of _ "if P s then u s else s"]) (auto simp: set_update_where)
qed auto

lemma sources_kept_remnants:
  assumes "\<And>r. rem_ID (u r) = rem_ID r \<and> rem_Dimensions (u r) = rem_Dimensions r \<and>
    rem_ParentBoardID (u r) = rem_ParentBoardID r"
  shows "sources_kept db (db\<lparr>remnants := update_where P u (remnants db)\<rparr>)"
  unfolding sources_kept_def
proof (intro conjI ballI)
  fix r assume "r \<in> set (remnants db)"
  then show "\<exists>r' \<in> set (remnants (db\<lparr>remnants := update_where P u (remnants db)\<rparr>)). rem_ID r' = rem_ID r \<and>
      rem_Dimensions r' = rem_Dimensions r \<and> rem_ParentBoardID r' = rem_ParentBoardID r"
    using assms by (intro bexI [of _ "if P r then u r else r"]) (auto simp: set_update_where)
qed auto

lemma commit_sources_kept: "sources_kept db (snd (recordCutAtomically sch p db))"
proof (cases "recordCutAtomically sch p db")
  case (Pair r db')
  show ?thesis
  proof (cases r)
    case (Inl e)
    with Pair recordCutAtomically_Inl show ?thesis by (fastforce simp: sources_kept_def)
  next
    case (Inr u)
    with Pair obtain db1 db2 where steps: "cut_lock_source p db = Inr db1"
        "cut_insert_record sch p db1 = Inr db2" "cut_insert_remnant p db2 = Inr db'"
      by (auto elim: recordCutAtomically_InrE)
    have "sources_kept db db1"
      using steps(1) by (auto simp: cut_lock_source_def split: option.splits if_splits
          intro!: sources_kept_sheets sources_kept_remnants)
    moreover have "sheets db' = sheets db1" "set (remnants db1) \<subseteq> set (remnants db')"
      using steps(2,3) by (auto dest!: cut_insert_record_InrD simp: cut_insert_remnant_def split: option.splits)
    ultimately show ?thesis
      unfolding Pair sources_kept_def by fastforce
  qed
qed

section \<open>Planning a cut\<close>

text \<open>
  The area check runs on 64-bit integers. When the used dimension fits its \<^verbatim>\<open>INT\<close> columns and
  the leftover fits inside the source, no product and no sum wraps around, so the check is
  the comparison of the true areas.
\<close>

lemma cut_area_check_exact:
  assumes "cut_area_check inp src = Inr u" and "dims_ok src" and "dims_ok (ci_UsedDimension inp)"
    and "\<And>d. ci_RemnantDimension inp = Some d \<Longrightarrow> Valid d"
  shows "area (ci_UsedDimension inp) + (case ci_RemnantDimension inp of None \<Rightarrow> 0 | Some d \<Rightarrow> area d) \<le> area src"
proof -
  let ?left = "case ci_RemnantDimension inp of None \<Rightarrow> 0 | Some d \<Rightarrow> area d"
  have fits: "ci_RemnantDimension inp = Some d \<Longrightarrow> FitsInside d src" for d
    using assms(1) by (auto simp: cut_area_check_def Let_def split: if_splits)
  have exact: "AreaSqMM src = area src" "AreaSqMM (ci_UsedDimension inp) = area (ci_UsedDimension inp)"
    using assms(2,3) by (simp_all add: dims_ok_def AreaSqMM_exact)
  have left: "(case ci_RemnantDimension inp of None \<Rightarrow> 0 | Some d \<Rightarrow> AreaSqMM d) = ?left"
    and bound: "0 \<le> ?left" "?left < 2 ^ 62"
    using assms(2,4) fits FitsInside_int4 [of _ src] AreaSqMM_exact area_lt area_pos
    by (auto simp: dims_ok_def split: option.splits intro: less_imp_le)
  have "0 < area (ci_UsedDimension inp)" "area (ci_UsedDimension inp) < 2 ^ 62"
    using assms(3) area_pos area_lt unfolding dims_ok_def by blast+
  with bound have "i64 (area (ci_UsedDimension inp) + ?left) = area (ci_UsedDimension inp) + ?left"
    by (intro i64_in_range) (simp add: in_i64_def)
  with assms(1) exact left show ?thesis
    by (auto simp: cut_area_check_def Let_def split: if_splits)
qed

lemma cut_planE:
  assumes "cut_plan threshold env inp db = Inr (p, dropped)"
  obtains src where "cut_validate inp = Inr ()" and "read_source threshold inp db = Inr src"
    and "cut_area_check inp (src_Dim src) = Inr ()" and "cut_leftover env inp src db = Inr (p, dropped)"
  using assms by (auto simp: cut_plan_def split: sum.splits)

lemma cut_validateD:
  assumes "cut_validate inp = Inr u"
  shows "Valid (ci_UsedDimension inp)" and "ci_RemnantDimension inp = Some d \<Longrightarrow> Valid d"
    and "ci_SheetID inp = None \<longleftrightarrow> ci_RemnantID inp \<noteq> None"
  using assms by (auto simp: cut_validate_def split: if_splits option.splits)

lemma base_cut_op_used [simp]: "cr_Used (op_Record (base_cut_op env inp)) = ci_UsedDimension inp"
  by (simp add: base_cut_op_def Let_def split: option.splits)

lemma base_cut_op_new [simp]: "op_NewRemnant (base_cut_op env inp) = None"
  by (simp add: base_cut_op_def Let_def split: option.splits)

text \<open>What the plan writes is the base operation, plus the leftover when there is one.\<close>

lemma cut_leftoverD:
  assumes "cut_leftover env inp src db = Inr (p, dropped)"
  shows "op_SheetUpdate p = op_SheetUpdate (base_cut_op env inp)"
    and "op_RemnantUpdate p = op_RemnantUpdate (base_cut_op env inp)"
    and "cr_SheetID (op_Record p) = cr_SheetID (op_Record (base_cut_op env inp))"
    and "cr_RemnantSourceID (op_Record p) = cr_RemnantSourceID (op_Record (base_cut_op env inp))"
    and "cr_Used (op_Record p) = ci_UsedDimension inp"
    and "op_NewRemnant p = None \<or> (\<exists>d. ci_RemnantDimension inp = Some d \<and>
      op_NewRemnant p = Some (new_remnant env inp src d) \<and> FitsInside (usable (new_remnant env inp src d)) d)"
  using assms
  by (auto simp: cut_leftover_def Let_def new_remnant_def usable_def FitsInside_def
      split: option.splits if_splits sum.splits)

lemma cut_plan_leftover_ok:
  assumes "cut_validate inp = Inr ()" and "cut_area_check inp (src_Dim src) = Inr ()"
    and "cut_leftover env inp src db = Inr (p, dropped)" and "dims_ok (src_Dim src)"
  shows "leftover_ok p (src_ParentBoardID src) (src_ParentRemnantID src) (src_Dim src)"
proof -
  note valid = cut_validateD [OF assms(1)] and left = cut_leftoverD [OF assms(3)]
  have fits: "ci_RemnantDimension inp = Some d \<Longrightarrow> FitsInside d (src_Dim src)" for d
    using assms(2) by (auto simp: cut_area_check_def Let_def split: if_splits)
  have la: "0 \<le> leftover_area p \<and> leftover_area p \<le> (case ci_RemnantDimension inp of None \<Rightarrow> 0 | Some d \<Rightarrow> area d)"
    using left(6) valid(2) area_pos
    by (auto simp: leftover_area_def new_remnant_def split: option.splits intro: less_imp_le)
  have "area (cr_Used (op_Record p)) + leftover_area p \<le> area (src_Dim src)" if "dim_int4 (cr_Used (op_Record p))"
    using cut_area_check_exact [OF assms(2,4)] that valid(1,2) left(5) la by (simp add: dims_ok_def)
  then show ?thesis
    using left(5,6) valid(1,2) fits assms(4) FitsInside_int4
    by (auto simp: leftover_ok_def new_remnant_def dims_ok_def)
qed

lemma sheet_sourceD:
  "sheet_source threshold i db = Inr src \<Longrightarrow> \<exists>s \<in> set (sheets db). sh_ID s = i \<and>
     src_Dim src = sh_Dimensions s \<and> src_ParentBoardID src = i \<and> src_ParentRemnantID src = None \<and>
     sh_Status s = SheetAvailable"
  by (auto simp: sheet_source_def selectSheetByID_def split: sum.splits if_splits option.splits dest!: row_by_SomeD)

lemma remnant_sourceD:
  "remnant_source i db = Inr src \<Longrightarrow> \<exists>r \<in> set (remnants db). rem_ID r = i \<and>
     src_Dim src = rem_Dimensions r \<and> src_ParentBoardID src = rem_ParentBoardID r \<and>
     src_ParentRemnantID src = Some i"
  by (auto simp: remnant_source_def selectRemnantByID_def split: sum.splits if_splits option.splits dest!: row_by_SomeD)

lemma cut_plan_op_ok:
  assumes ok: "rows_ok db" and plan: "cut_plan threshold env inp db = Inr (p, dropped)"
  shows "sheet_op_ok db p \<or> remnant_op_ok db p"
proof -
  from plan obtain src where val: "cut_validate inp = Inr ()" and rd: "read_source threshold inp db = Inr src"
    and chk: "cut_area_check inp (src_Dim src) = Inr ()" and left: "cut_leftover env inp src db = Inr (p, dropped)"
    by (rule cut_planE)
  note lo = cut_plan_leftover_ok [OF val chk left] and base = cut_leftoverD [OF left]
  show ?thesis
  proof (cases "ci_SheetID inp")
    case (Some i)
    with rd obtain s where s: "s \<in> set (sheets db)" "sh_ID s = i" "src_Dim src = sh_Dimensions s"
      "src_ParentBoardID src = i" "src_ParentRemnantID src = None"
      by (auto simp: read_source_def dest!: sheet_sourceD)
    then have "dims_ok (src_Dim src)" using ok by (auto simp: rows_ok_def)
    with lo s base Some have "sheet_op_ok db p"
      by (auto simp: sheet_op_ok_def base_cut_op_def Let_def)
    then show ?thesis ..
  next
    case None
    with cut_validateD(3) [OF val] obtain i where i: "ci_RemnantID inp = Some i" by auto
    with None rd obtain r where r: "r \<in> set (remnants db)" "rem_ID r = i" "src_Dim src = rem_Dimensions r"
      "src_ParentBoardID src = rem_ParentBoardID r" "src_ParentRemnantID src = Some i"
      by (auto simp: read_source_def dest!: remnant_sourceD)
    then have "dims_ok (src_Dim src)" using ok by (auto simp: rows_ok_def)
    with lo r base None i have "remnant_op_ok db p"
      by (auto simp: remnant_op_ok_def base_cut_op_def Let_def)
    then show ?thesis ..
  qed
qed

section \<open>Every transaction keeps the invariant\<close>

lemma insertSheets_inv_ok:
  assumes "inv_ok (db, ps)" and "Valid (rs_Dimensions inp)"
  shows "inv_ok (snd (insertSheets (map (new_sheet inp lotID) ids) db), ps)"
proof (cases "fst (insertSheets (map (new_sheet inp lotID) ids) db)")
  case (Inl e)
  then show ?thesis using assms(1) by (auto simp: insertSheets_def split: sum.splits)
next
  case (Inr u)
  then obtain db' where db': "insertSheets (map (new_sheet inp lotID) ids) db = (Inr (), db')"
    by (cases "insertSheets (map (new_sheet inp lotID) ids) db") auto
  have "sources_kept db db'"
    using db' by (auto simp: insertSheets_def sources_kept_def split: sum.splits dest!: insert_batch_Inr)
  with assms db' show ?thesis
    using insertSheets_db_ok [OF _ assms(2) db'] sources_kept_ops by (auto simp: inv_ok_def)
qed

text \<open>The cuts still pending when one commits keep their sources.\<close>

lemma commit_ops:
  assumes "\<forall>p \<in> set ps. sheet_op_ok db p \<or> remnant_op_ok db p" and "q \<in> set (remove1 p ps)"
  shows "sheet_op_ok (snd (recordCutAtomically sch p db)) q \<or> remnant_op_ok (snd (recordCutAtomically sch p db)) q"
  by (rule sources_kept_ops [OF commit_sources_kept]) (use assms set_remove1_subset [of p ps] in auto)

lemma txn_inv_ok:
  assumes "inv_ok st" and "txn spares_used sch threshold st st'"
  shows "inv_ok st'"
proof -
  have keys: "keys_ok (fst st)" using assms(1) by (simp add: inv_ok_def db_ok_def)
  have by_frame: "inv_ok (db', ps)" if "st = (db, ps)" "frame db db'" for db db' ps
    using that assms(1) frame_inv_ok by blast
  note frames = frame_untouched frame_sheet_ops frame_remnant_ops frame_reject post_frame
  show ?thesis
    using assms(2)
  proof (cases rule: txn.cases)
    case (t_sheets inp db ps lotID ids)
    with assms(1) show ?thesis by (auto intro: insertSheets_inv_ok)
  next
    case (t_plan env inp db p dropped ps)
    with assms(1) cut_plan_op_ok [of db threshold env inp p dropped] show ?thesis
      by (auto simp: inv_ok_def db_ok_rows)
  next
    case (t_commit p ps db)
    let ?db = "snd (recordCutAtomically sch p db)"
    have "db_ok ?db"
      using assms(1) t_commit by (intro commit_db_ok) (auto simp: inv_ok_def)
    with t_commit assms(1) show ?thesis by (auto simp: inv_ok_def dest: commit_ops)
  qed (use keys in \<open>auto intro: by_frame frames\<close>)
qed

lemma inv_init_ok: "inv_init st \<Longrightarrow> inv_ok st"
  by (cases st) (simp add: inv_init_def inv_ok_def db_ok_def keys_ok_def)

interpretation stock: invariant inv_init "txn spares_used sch threshold" inv_ok
  by unfold_locales (auto intro: inv_init_ok txn_inv_ok)

text \<open>Under any postings the rows keep their keys and dimensions, and a pending cut its source.\<close>

lemma framed_rows_ok:
  assumes "same_rows db db'" and "rows_ok db"
  shows "rows_ok db'"
proof -
  have "\<forall>s \<in> set (sheets db'). dims_ok (sh_Dimensions s)" "\<forall>r \<in> set (remnants db'). dims_ok (rem_Dimensions r)"
    using assms unfolding framed_def rows_ok_def same_sheet_def same_remnant_def by auto
  with frame_keys [OF assms(1)] assms(2) show ?thesis by (simp add: rows_ok_def)
qed

lemma framed_base_ok:
  assumes "same_rows db db'" and "base_ok (db, ps)"
  shows "base_ok (db', ps)"
  using assms(2) framed_rows_ok [OF assms(1)] sources_kept_ops [OF frame_sources_kept [OF assms(1)]]
  unfolding base_ok_def by simp

lemma insertSheets_base_ok:
  assumes "base_ok (db, ps)" and "Valid (rs_Dimensions inp)"
  shows "base_ok (snd (insertSheets (map (new_sheet inp lotID) ids) db), ps)"
proof (cases "insert_batch (check_sheet db) sh_ID (map (new_sheet inp lotID) ids) (sheets db)")
  case (Inl e)
  with assms(1) show ?thesis by (simp add: insertSheets_def)
next
  case (Inr t)
  let ?db = "snd (insertSheets (map (new_sheet inp lotID) ids) db)"
  have db': "?db = db\<lparr>sheets := t\<rparr>" using Inr by (simp add: insertSheets_def)
  have "keys_distinct sh_ID (sheets db)" using assms(1) by (simp add: base_ok_def rows_ok_def keys_ok_def)
  with insert_batch_Inr [OF Inr] have t: "t = sheets db @ map (new_sheet inp lotID) ids" "keys_distinct sh_ID t"
    and chk: "\<And>s. s \<in> set (map (new_sheet inp lotID) ids) \<Longrightarrow> check_sheet db s = None" by blast+
  have dims: "dims_ok (sh_Dimensions s)" if "s \<in> set (map (new_sheet inp lotID) ids)" for s
    using chk [OF that] that assms(2) by (auto simp: new_sheet_def dims_ok_def check_sheet_def split: if_splits)
  have "rows_ok ?db"
    using assms(1) dims t by (auto simp: base_ok_def rows_ok_def keys_ok_def db')
  moreover have "sources_kept db ?db" by (auto simp: db' t(1) sources_kept_def)
  ultimately show ?thesis using assms(1) sources_kept_ops by (auto simp: base_ok_def)
qed

lemma commit_rows_ok:
  assumes "rows_ok db" and "sheet_op_ok db p \<or> remnant_op_ok db p"
  shows "rows_ok (snd (recordCutAtomically sch p db))"
proof (cases "fst (recordCutAtomically sch p db)")
  case (Inl e)
  with assms(1) show ?thesis using recordCutAtomically_Inl [of sch p db e] by (metis prod.collapse)
next
  case (Inr u)
  then obtain db' where db': "recordCutAtomically sch p db = (Inr u, db')" by (metis prod.collapse)
  then obtain db1 db2 where steps: "cut_lock_source p db = Inr db1" "cut_insert_record sch p db1 = Inr db2"
      "cut_insert_remnant p db2 = Inr db'"
    by (rule recordCutAtomically_InrE)
  have rows1: "rows_ok db1 \<and> cuts db1 = cuts db"
    using steps(1) assms(1)
    by (auto simp: cut_lock_source_def rows_ok_def keys_ok_def map_update_where split: option.splits if_splits
        elim!: in_update_whereE)
  with cut_insert_record_InrD [OF steps(2)] have rows2: "rows_ok db2"
    by (auto simp: rows_ok_def keys_ok_def)
  have "dims_ok (rem_Dimensions r)" if "op_NewRemnant p = Some r" for r
    using assms(2) that by (auto simp: sheet_op_ok_def remnant_op_ok_def leftover_ok_def)
  with rows2 steps(3) show ?thesis
    by (auto simp: db' cut_insert_remnant_def rows_ok_def keys_ok_def split: option.splits)
qed

lemma txn_base_ok:
  assumes "base_ok st" and "txn any_count sch threshold st st'"
  shows "base_ok st'"
proof -
  have keys: "keys_ok (fst st)" using assms(1) by (simp add: base_ok_def rows_ok_def)
  have by_frame: "base_ok (db', ps)" if "st = (db, ps)" "same_rows db db'" for db db' ps
    using that assms(1) framed_base_ok by blast
  note frames = frame_untouched frame_sheet_ops frame_remnant_ops frame_reject
  show ?thesis
    using assms(2)
  proof (cases rule: txn.cases)
    case (t_sheets inp db ps lotID ids)
    with assms(1) show ?thesis by (auto intro: insertSheets_base_ok)
  next
    case (t_plan env inp db p dropped ps)
    with assms(1) cut_plan_op_ok [of db threshold env inp p dropped] show ?thesis by (auto simp: base_ok_def)
  next
    case (t_commit p ps db)
    have "rows_ok (snd (recordCutAtomically sch p db))"
      using assms(1) t_commit by (intro commit_rows_ok) (auto simp: base_ok_def)
    with t_commit assms(1) show ?thesis by (auto simp: base_ok_def dest: commit_ops)
  qed (use keys in \<open>auto intro: by_frame frames [THEN frame_same_rows] post_same_rows\<close>)
qed

lemma base_init_ok: "inv_init st \<Longrightarrow> base_ok st"
  by (cases st) (simp add: inv_init_def base_ok_def rows_ok_def keys_ok_def)

interpretation stock_rows: invariant inv_init "txn any_count sch threshold" base_ok
  by unfold_locales (auto intro: base_init_ok txn_base_ok)

abbreviation stock_reach :: "count_rule \<Rightarrow> schema \<Rightarrow> rat \<Rightarrow> inv_state \<Rightarrow> bool" where
  "stock_reach cf sch threshold \<equiv> reach inv_init (txn cf sch threshold)"

section \<open>Service calls as sequences of transactions\<close>

text \<open>
  Each call of the service, run without interleaving, is a run of \<open>txn\<close>; \<^verbatim>\<open>RecordCut\<close> plans
  and then commits. So whatever holds in every reachable state holds after every call; for
  \<^verbatim>\<open>PostCycleCount\<close> under the rule \<open>cf\<close>, when the adjustments it plans satisfy it.
\<close>

lemma txn_two: "txn cf sch th a b \<Longrightarrow> txn cf sch th b c \<Longrightarrow> (txn cf sch th)\<^sup>*\<^sup>* a c"
  by auto

lemma map_new_sheet: "map (\<lambda>i. new_sheet inp l (f i)) xs = map (new_sheet inp l) (map f xs)"
  by simp

lemma ReceiveStock_txns: "(txn cf sch th)\<^sup>*\<^sup>* (db, ps) (snd (ReceiveStock env inp db), ps)"
proof (cases "0 < rs_Quantity inp \<and> Valid (rs_Dimensions inp)")
  case False
  then show ?thesis by (auto simp: ReceiveStock_def)
next
  case True
  define lot where "lot = \<lparr>lot_ID = fresh env 0, lot_MaterialID = rs_MaterialID inp,
      lot_Quantity = rs_Quantity inp, lot_CostPerSheet = rs_CostPerSheet inp,
      lot_SupplierRef = rs_SupplierRef inp, lot_IsActive = True, lot_ReceivedAt = now env\<rparr>"
  let ?ids = "map (fresh env \<circ> Suc) [0..<nat (rs_Quantity inp)]"
  let ?db1 = "snd (insertLot lot db)"
  let ?db2 = "snd (insertSheets (map (new_sheet inp (lot_ID lot)) ?ids) ?db1)"
  have "snd (ReceiveStock env inp db) = (if isl (fst (insertLot lot db)) then ?db1 else ?db2)"
    using True by (auto simp: ReceiveStock_def lot_def [symmetric] Let_def comp_def split: prod.splits sum.splits)
  moreover have "txn cf sch th (db, ps) (?db1, ps)" by (rule t_lot)
  moreover have "txn cf sch th (?db1, ps) (?db2, ps)" using True by (intro t_sheets) simp
  ultimately show ?thesis by (auto intro: txn_two)
qed

lemma PreAssignSheet_txns: "(txn cf sch th)\<^sup>*\<^sup>* (db, ps) (snd (PreAssignSheet th env inp db), ps)"
  by (auto simp: PreAssignSheet_def split: sum.splits prod.splits
      intro: txn_two t_preassign t_audit)
    (metis snd_conv t_audit t_preassign txn_two r_into_rtranclp)+

lemma RecordCut_db:
  "fst (snd (RecordCut deps sch th env inp (db, x))) =
     (case cut_plan th env inp db of Inl e \<Rightarrow> db | Inr (p, dropped) \<Rightarrow> snd (recordCutAtomically sch p db))"
  by (auto simp: RecordCut_def split: sum.splits prod.splits)

lemma RecordCut_txns:
  "(txn cf sch th)\<^sup>*\<^sup>* (db, ps) (fst (snd (RecordCut deps sch th env inp (db, x))), ps)"
proof (cases "cut_plan th env inp db")
  case (Inl e)
  then show ?thesis by (simp add: RecordCut_db)
next
  case (Inr pd)
  then obtain p dropped where p: "cut_plan th env inp db = Inr (p, dropped)" by (cases pd) auto
  have "txn cf sch th (db, p # ps) (snd (recordCutAtomically sch p db), remove1 p (p # ps))"
    by (rule t_commit) simp
  with t_plan [OF p, of cf sch ps] show ?thesis by (auto simp: RecordCut_db p intro: txn_two)
qed

lemma remnant_service_txns:
  "(txn cf sch th)\<^sup>*\<^sup>* (db, ps) (snd (AllocateRemnant env i wo db), ps)"
  "(txn cf sch th)\<^sup>*\<^sup>* (db, ps) (snd (MarkRemnantWaste i db), ps)"
  "(txn cf sch th)\<^sup>*\<^sup>* (db, ps) (snd (ExpireStaleRemnants env ageDays db), ps)"
  "(txn cf sch th)\<^sup>*\<^sup>* (db, ps) (snd (StockRemnant i barcode db), ps)"
  by (auto simp: AllocateRemnant_def MarkRemnantWaste_def ExpireStaleRemnants_def StockRemnant_def
      split: sum.splits intro: t_allocate t_waste t_expire t_remnant_bin)

text \<open>The calls around a cycle count; posting runs under the rules that admit its adjustments.\<close>

lemma count_session_txns:
  "(txn cf sch th)\<^sup>*\<^sup>* (db, ps) (snd (CreateCycleCountSession env zone actor db), ps)"
  "(txn cf sch th)\<^sup>*\<^sup>* (db, ps) (snd (AddCycleCountLine env inp db), ps)"
  "(txn cf sch th)\<^sup>*\<^sup>* (db, ps) (snd (CancelCycleCountSession env sid db), ps)"
  by (auto simp: CreateCycleCountSession_def AddCycleCountLine_def CancelCycleCountSession_def Let_def
      prod.case_eq_if sum.case_eq_if intro: t_session t_count_line t_session_status)

lemma PostCycleCount_txns:
  assumes "\<And>ls adjs. selectCycleCountLinesBySession sid db = Inr ls \<Longrightarrow>
    plan_adjustments env 0 sid actor ls db = Inr adjs \<Longrightarrow> cf db adjs"
  shows "(txn cf sch th)\<^sup>*\<^sup>* (db, ps) (snd (PostCycleCount env sid actor db), ps)"
  using assms by (auto simp: PostCycleCount_def split: sum.splits intro: t_post)

lemma txn_star:
  "(txn cf sch th)\<^sup>*\<^sup>* (db, ps) (snd (qcPassLotAtomically lotID db), ps)"
  "(txn cf sch th)\<^sup>*\<^sup>* (db, ps) (snd (rejectLotAtomically lotID qty rej db), ps)"
  "(txn cf sch th)\<^sup>*\<^sup>* (db, ps) (snd (updateRejectionClaim u db), ps)"
  "(txn cf sch th)\<^sup>*\<^sup>* (db, ps) (snd (updateRemnantBinLocation i loc db), ps)"
  "(txn cf sch th)\<^sup>*\<^sup>* (db, ps) (snd (updateSheetBinLocation i loc db), ps)"
  by (rule r_into_rtranclp, rule t_qc t_reject t_claim t_remnant_bin t_sheet_bin)+

lemma transfer_move_txns: "(txn cf sch th)\<^sup>*\<^sup>* (db, ps) (snd (transfer_move et i loc db), ps)"
proof -
  have "snd (transfer_move et i loc db) \<in>
      {db, snd (updateRemnantBinLocation i loc db), snd (updateSheetBinLocation i loc db)}"
    by (auto simp: transfer_move_def split: sum.splits prod.splits)
  then show ?thesis by (auto simp: txn_star)
qed

lemma with_audit: "(txn cf sch th)\<^sup>*\<^sup>* s (db, ps) \<Longrightarrow> (txn cf sch th)\<^sup>*\<^sup>* s (snd (insertAuditLog e db), ps)"
  by (erule rtranclp.rtrancl_into_rtrancl) (rule t_audit)

lemma Transfer_txns: "(txn cf sch th)\<^sup>*\<^sup>* (db, ps) (snd (Transfer env inp db), ps)"
  by (auto simp: Transfer_def prod.case_eq_if sum.case_eq_if intro!: with_audit transfer_move_txns)

lemma QCPassLot_txns: "(txn cf sch th)\<^sup>*\<^sup>* (db, ps) (snd (QCPassLot env lotID actorID db), ps)"
  by (auto simp: QCPassLot_def prod.case_eq_if sum.case_eq_if intro!: with_audit txn_star)

lemma RejectLot_txns: "(txn cf sch th)\<^sup>*\<^sup>* (db, ps) (fst (snd (RejectLot deps env inp (db, x))), ps)"
  by (auto simp: RejectLot_def Let_def prod.case_eq_if sum.case_eq_if intro!: with_audit txn_star)

lemma UpdateRejectionClaim_txns:
  "(txn cf sch th)\<^sup>*\<^sup>* (db, ps) (fst (snd (UpdateRejectionClaim deps env inp (db, x))), ps)"
  by (auto simp: UpdateRejectionClaim_def Let_def prod.case_eq_if sum.case_eq_if split: option.splits
      intro!: with_audit txn_star)

lemmas inventory_service_txns =
  ReceiveStock_txns PreAssignSheet_txns RecordCut_txns remnant_service_txns Transfer_txns QCPassLot_txns
  RejectLot_txns UpdateRejectionClaim_txns count_session_txns PostCycleCount_txns

end
