(* ===== verification/Inventory_Lifecycle.thy ===== *)
theory Inventory_Lifecycle
  imports Inventory_Invariant
begin

text \<open>
  The life cycles of sheets and remnants. The code never writes the transition tables down:
  they follow from the guards of the single statements, and are stated here as the edges
  every transaction but the posting of a cycle count respects; a posting writes the statuses
  its lines name. From them: issued sheets and consumed remnants stay so unless a count says
  otherwise, so of several cuts planned on one source at most one can commit, whatever runs in
  between and spares used material.
\<close>

section \<open>Edges\<close>

fun sheet_edge :: "SheetStatus \<Rightarrow> SheetStatus \<Rightarrow> bool" where
  "sheet_edge SheetPendingQC t \<longleftrightarrow> t \<in> {SheetPendingQC, SheetAvailable, SheetRejected}"
| "sheet_edge SheetAvailable t \<longleftrightarrow> t \<in> {SheetAvailable, SheetIssued}"
| "sheet_edge SheetRejected t \<longleftrightarrow> t = SheetRejected"
| "sheet_edge SheetIssued t \<longleftrightarrow> t = SheetIssued"

fun remnant_edge :: "RemnantStatus \<Rightarrow> RemnantStatus \<Rightarrow> bool" where
  "remnant_edge RemnantAvailable t \<longleftrightarrow> True"
| "remnant_edge RemnantAllocated t \<longleftrightarrow> t \<noteq> RemnantExpired"
| "remnant_edge RemnantConsumed t \<longleftrightarrow> t = RemnantConsumed"
| "remnant_edge RemnantWaste t \<longleftrightarrow> t = RemnantWaste"
| "remnant_edge RemnantExpired t \<longleftrightarrow> t = RemnantExpired"

lemma edges_refl [simp]: "sheet_edge s s" "remnant_edge r r"
  by (cases s; simp) (cases r; simp)

definition sheet_evolves :: "BoardSheet \<Rightarrow> BoardSheet \<Rightarrow> bool" where
  "sheet_evolves s s' \<longleftrightarrow> sh_ID s' = sh_ID s \<and> sh_LotID s' = sh_LotID s \<and>
     sh_Dimensions s' = sh_Dimensions s \<and> sheet_edge (sh_Status s) (sh_Status s')"

definition remnant_evolves :: "Remnant \<Rightarrow> Remnant \<Rightarrow> bool" where
  "remnant_evolves r r' \<longleftrightarrow> rem_ID r' = rem_ID r \<and> rem_ParentBoardID r' = rem_ParentBoardID r \<and>
     rem_ParentRemnantID r' = rem_ParentRemnantID r \<and> rem_Dimensions r' = rem_Dimensions r \<and>
     usable r' = usable r \<and> remnant_edge (rem_Status r) (rem_Status r')"

definition evolves :: "inv_db \<Rightarrow> inv_db \<Rightarrow> bool" where
  "evolves db db' \<longleftrightarrow> (\<forall>s \<in> set (sheets db). \<exists>s' \<in> set (sheets db'). sheet_evolves s s') \<and>
     (\<forall>r \<in> set (remnants db). \<exists>r' \<in> set (remnants db'). remnant_evolves r r')"

lemma evolves_refl1 [simp]: "sheet_evolves s s" "remnant_evolves r r"
  by (simp_all add: sheet_evolves_def remnant_evolves_def)

lemma evolves_same: "set (sheets db) \<subseteq> set (sheets db') \<Longrightarrow> set (remnants db) \<subseteq> set (remnants db') \<Longrightarrow> evolves db db'"
  unfolding evolves_def using evolves_refl1 by blast

lemma evolves_refl [simp]: "evolves db db"
  by (rule evolves_same) simp_all

lemma update_evolves:
  assumes "\<And>r. r \<in> set t \<Longrightarrow> P r \<Longrightarrow> E r (u r)" and "\<And>r. E r r" and "r \<in> set t"
  shows "\<exists>r' \<in> set (update_where P u t). E r r'"
  using assms by (intro bexI [of _ "if P r then u r else r"]) (auto simp: set_update_where)

lemma evolves_sheets:
  assumes "\<And>s. s \<in> set (sheets db) \<Longrightarrow> P s \<Longrightarrow> sheet_evolves s (u s)"
    and "sheets db' = update_where P u (sheets db)" and "set (remnants db) \<subseteq> set (remnants db')"
  shows "evolves db db'"
  unfolding evolves_def assms(2)
  using assms(1,3) evolves_refl1 update_evolves [of "sheets db" P sheet_evolves u] by blast

lemma evolves_remnants:
  assumes "\<And>r. r \<in> set (remnants db) \<Longrightarrow> P r \<Longrightarrow> remnant_evolves r (u r)"
    and "set (update_where P u (remnants db)) \<subseteq> set (remnants db')" and "sheets db' = sheets db"
  shows "evolves db db'"
  unfolding evolves_def assms(3)
  using assms(1,2) evolves_refl1 update_evolves [of "remnants db" P remnant_evolves u] by blast

lemma evolves_sheet_ops:
  assumes "keys_ok db"
  shows "evolves db (snd (insertSheets shs db))"
    and "evolves db (snd (preAssignSheet i wo db))" and "evolves db (snd (updateSheetBinLocation i loc db))"
    and "evolves db (snd (qcPassLotAtomically lotID db))"
    and "evolves db (snd (rejectLotAtomically lotID qty rej db))"
proof -
  show "evolves db (snd (insertSheets shs db))"
    by (auto simp: insertSheets_def split: sum.splits dest!: insert_batch_Inr intro!: evolves_same)
  show "evolves db (snd (preAssignSheet i wo db))"
    by (auto simp: preAssignSheet_def sheet_evolves_def split: option.splits
        intro!: evolves_sheets [where P = "\<lambda>s. sh_ID s = i" and u = "\<lambda>s. s\<lparr>sh_IssuedToWO := Some wo\<rparr>"])
  show "evolves db (snd (updateSheetBinLocation i loc db))"
    by (auto simp: updateSheetBinLocation_def sheet_evolves_def
        intro!: evolves_sheets [where P = "\<lambda>s. sh_ID s = i" and u = "\<lambda>s. s\<lparr>sh_BinLocationID := Some loc\<rparr>"])
  show "evolves db (snd (qcPassLotAtomically lotID db))"
    unfolding qcPassLotAtomically_def
    by (rule evolves_sheets [where P = "pending_of lotID" and u = "\<lambda>s. s\<lparr>sh_Status := SheetAvailable\<rparr>"])
      (auto simp: pending_of_def sheet_evolves_def)
  let ?ids = "take (nat qty) (sort (map sh_ID (select_where (pending_of lotID) (sheets db))))"
  have "evolves db (db\<lparr>sheets := update_where (\<lambda>s. sh_ID s \<in> set ?ids)
      (\<lambda>s. s\<lparr>sh_Status := SheetRejected\<rparr>) (sheets db), rejections := t\<rparr>)" for t
    by (rule evolves_sheets [where P = "\<lambda>s. sh_ID s \<in> set ?ids" and u = "\<lambda>s. s\<lparr>sh_Status := SheetRejected\<rparr>"])
      (auto simp: pending_of_def sheet_evolves_def dest!: rejected_ids_pending [OF assms])
  then show "evolves db (snd (rejectLotAtomically lotID qty rej db))"
    by (auto simp: rejectLotAtomically_def Let_def split: sum.splits)
qed

lemma evolves_upd_remnants:
  "(\<And>r. r \<in> set (remnants db) \<Longrightarrow> P r \<Longrightarrow> remnant_evolves r (u r)) \<Longrightarrow>
   evolves db (db\<lparr>remnants := update_where P u (remnants db)\<rparr>)"
  by (rule evolves_remnants [where P = P and u = u]) simp_all

lemma evolves_remnant_ops:
  assumes "keys_ok db"
  shows "evolves db (snd (allocateRemnantAtomically t i wo db))"
    and "evolves db (snd (markRemnantWasteAtomically i db))"
    and "evolves db (snd (releaseExpiredAllocations before db))"
    and "evolves db (snd (expireStaleRemnants t ageDays db))"
    and "evolves db (snd (updateRemnantBinLocation i loc db))"
  by (auto simp: allocateRemnantAtomically_def markRemnantWasteAtomically_def releaseExpiredAllocations_def
      expireStaleRemnants_def updateRemnantBinLocation_def remnant_evolves_def
      allocation_expired_def stale_def
      split: option.splits intro!: evolves_upd_remnants dest!: keys_ok_remnantD [OF assms])

lemma evolves_untouched:
  "evolves db (snd (insertLot lot db))" "evolves db (snd (deactivateLot i db))"
  "evolves db (snd (insertAuditLog e db))" "evolves db (snd (insertCycleCountSession cs db))"
  "evolves db (snd (updateCycleCountSessionStatus t i st by db))" "evolves db (snd (insertCycleCountLine l db))"
  "evolves db (snd (updateRejectionClaim u db))" "evolves db (db\<lparr>materials := ms, locations := ls\<rparr>)"
  by (auto intro!: evolves_same split: sum.splits option.splits
      simp: insertLot_def deactivateLot_def insertAuditLog_def insertCycleCountSession_def
        updateCycleCountSessionStatus_def insertCycleCountLine_def updateRejectionClaim_def Let_def)

lemma evolves_commit:
  assumes "keys_ok db" and "sheet_op_ok db p \<or> remnant_op_ok db p"
  shows "evolves db (snd (recordCutAtomically sch p db))"
proof (cases "fst (recordCutAtomically sch p db)")
  case (Inl e)
  then show ?thesis using recordCutAtomically_Inl [of sch p db e] by (metis evolves_refl prod.collapse)
next
  case (Inr u)
  then obtain db' where db': "recordCutAtomically sch p db = (Inr u, db')" by (metis prod.collapse)
  then obtain db1 db2 where steps: "cut_lock_source p db = Inr db1" "cut_insert_record sch p db1 = Inr db2"
      "cut_insert_remnant p db2 = Inr db'"
    by (rule recordCutAtomically_InrE)
  have app: "sheets db' = sheets db1" "set (remnants db1) \<subseteq> set (remnants db')"
    using steps(2,3) by (auto dest!: cut_insert_record_InrD simp: cut_insert_remnant_def split: option.splits)
  from assms(2) show ?thesis
  proof
    assume "sheet_op_ok db p"
    then obtain su where "op_SheetUpdate p = Some su" "su_Status su = SheetIssued"
      by (auto simp: sheet_op_ok_def)
    with steps(1) app show ?thesis
      by (auto simp: cut_lock_source_def db' sheet_evolves_def split: option.splits if_splits
          dest: keys_ok_sheetD [OF assms(1)] intro!: evolves_sheets [where P = "\<lambda>s. sh_ID s = su_ID su"
            and u = "\<lambda>s. s\<lparr>sh_Status := SheetIssued, sh_IssuedToWO := su_IssuedToWO su\<rparr>"])
  next
    assume "remnant_op_ok db p"
    then obtain ru where "op_RemnantUpdate p = Some ru" "ru_Status ru = RemnantConsumed" "op_SheetUpdate p = None"
      by (auto simp: remnant_op_ok_def)
    with steps(1) app show ?thesis
      by (auto simp: cut_lock_source_def db' remnant_evolves_def split: option.splits if_splits
          dest!: keys_ok_remnantD [OF assms(1)] intro!: evolves_remnants [where P = "\<lambda>r. rem_ID r = ru_ID ru"
            and u = "\<lambda>r. r\<lparr>rem_Status := RemnantConsumed, rem_AllocatedToWO := None\<rparr>"])
  qed
qed

lemma txn_evolves:
  assumes "base_ok st" and "txn no_count sch th st st'"
  shows "evolves (fst st) (fst st')"
proof -
  have keys: "keys_ok (fst st)" using assms(1) by (simp add: base_ok_def rows_ok_def)
  show ?thesis
    using assms(2)
  proof (cases rule: txn.cases)
    case (t_commit p ps db)
    with keys assms(1) show ?thesis by (auto simp: base_ok_def intro!: evolves_commit)
  qed (use keys in \<open>auto simp: no_count_def intro: evolves_untouched evolves_sheet_ops evolves_remnant_ops\<close>)
qed

text \<open>
  A recount: rows keep identity, lineage and dimensions, and a status is what it was or what
  an adjustment of the same entity names.
\<close>

definition sheet_recounted :: "cycleCountAdjustment list \<Rightarrow> BoardSheet \<Rightarrow> BoardSheet \<Rightarrow> bool" where
  "sheet_recounted adjs s s' \<longleftrightarrow> sh_ID s' = sh_ID s \<and> sh_LotID s' = sh_LotID s \<and>
     sh_Dimensions s' = sh_Dimensions s \<and>
     (sh_Status s' = sh_Status s \<or> (\<exists>a \<in> set adjs. aj_EntityType a \<noteq> EntRemnant \<and> aj_EntityID a = sh_ID s \<and>
        sheet_status_of (aj_NewStatus a) = Some (sh_Status s')))"

definition remnant_recounted :: "cycleCountAdjustment list \<Rightarrow> Remnant \<Rightarrow> Remnant \<Rightarrow> bool" where
  "remnant_recounted adjs r r' \<longleftrightarrow> rem_ID r' = rem_ID r \<and> rem_ParentBoardID r' = rem_ParentBoardID r \<and>
     rem_ParentRemnantID r' = rem_ParentRemnantID r \<and> rem_Dimensions r' = rem_Dimensions r \<and>
     usable r' = usable r \<and>
     (rem_Status r' = rem_Status r \<or> (\<exists>a \<in> set adjs. aj_EntityType a = EntRemnant \<and> aj_EntityID a = rem_ID r \<and>
        remnant_status_of (aj_NewStatus a) = Some (rem_Status r')))"

definition recounted :: "cycleCountAdjustment list \<Rightarrow> inv_db \<Rightarrow> inv_db \<Rightarrow> bool" where
  "recounted adjs db db' \<longleftrightarrow> cuts db' = cuts db \<and>
     (\<forall>s \<in> set (sheets db). \<exists>s' \<in> set (sheets db'). sheet_recounted adjs s s') \<and>
     (\<forall>r \<in> set (remnants db). \<exists>r' \<in> set (remnants db'). remnant_recounted adjs r r')"

lemma framed_recounted:
  "framed (sheet_recounted adjs) (remnant_recounted adjs) db db' \<Longrightarrow> recounted adjs db db'"
  by (auto simp: framed_def recounted_def)

lemma post_recounts: "recounted adjs db (snd (postCycleCountAtomically t sid by adjs db))"
proof (rule post_InrE [of t sid "by" adjs db])
  fix db' ss
  assume app: "apply_adjustments adjs db = Inr db'"
    and res: "snd (postCycleCountAtomically t sid by adjs db) = db'\<lparr>sessions := ss\<rparr>"
  have "framed (sheet_recounted adjs) (remnant_recounted adjs) db db'"
    by (rule apply_adjustments_framed [OF app])
      (auto simp: sheet_recounted_def remnant_recounted_def adjust_sheet_def adjust_remnant_def split: option.splits)
  then show ?thesis unfolding res by (intro framed_recounted) simp
qed (auto intro!: framed_recounted framed_refl simp: sheet_recounted_def remnant_recounted_def)

section \<open>Final states\<close>

text \<open>Once a source is used up it stays so, along every run whose counts spare used material.\<close>

definition sheet_spent :: "inv_db \<Rightarrow> uuid \<Rightarrow> bool" where
  "sheet_spent db i \<longleftrightarrow> (\<exists>s \<in> set (sheets db). sh_ID s = i \<and> sh_Status s = SheetIssued)"

definition remnant_spent :: "inv_db \<Rightarrow> uuid \<Rightarrow> bool" where
  "remnant_spent db i \<longleftrightarrow> (\<exists>r \<in> set (remnants db). rem_ID r = i \<and> rem_Status r = RemnantConsumed)"

lemma evolves_spent:
  assumes "evolves db db'"
  shows "sheet_spent db i \<Longrightarrow> sheet_spent db' i" and "remnant_spent db i \<Longrightarrow> remnant_spent db' i"
  using assms unfolding evolves_def sheet_spent_def remnant_spent_def sheet_evolves_def remnant_evolves_def
  by (elim bexE conjE, fastforce)+

lemma frame_spent:
  assumes "frame db db'"
  shows "sheet_spent db i \<Longrightarrow> sheet_spent db' i" and "remnant_spent db i \<Longrightarrow> remnant_spent db' i"
  using assms unfolding framed_def sheet_spent_def remnant_spent_def keeps_sheet_def keeps_remnant_def
  by fastforce+

lemma txn_split:
  assumes "txn cf sch th st st'"
  obtains "txn no_count sch th st st'"
  | t sid "by" adjs where "cf (fst st) adjs" and "st' = (snd (postCycleCountAtomically t sid by adjs (fst st)), snd st)"
  using assms by (cases rule: txn.cases) (auto intro: txn.intros)

lemma star_spent:
  assumes "(txn spares_used sch th)\<^sup>*\<^sup>* st st'" and "base_ok st"
  shows "base_ok st' \<and> (sheet_spent (fst st) i \<longrightarrow> sheet_spent (fst st') i) \<and>
    (remnant_spent (fst st) j \<longrightarrow> remnant_spent (fst st') j)"
  using assms
proof (induction rule: rtranclp_induct)
  case base
  then show ?case by simp
next
  case (step y z)
  then have y: "base_ok y" by blast
  then have z: "base_ok z" using txn_base_ok any_count_txn step(2) by blast
  from step(2) have "(sheet_spent (fst y) i \<longrightarrow> sheet_spent (fst z) i) \<and> (remnant_spent (fst y) j \<longrightarrow> remnant_spent (fst z) j)"
  proof (rule txn_split)
    assume "txn no_count sch th y z"
    with txn_evolves [OF y] evolves_spent show ?thesis by blast
  next
    fix t sid "by" adjs
    assume "spares_used (fst y) adjs" and z: "z = (snd (postCycleCountAtomically t sid by adjs (fst y)), snd y)"
    then have "frame (fst y) (fst z)" by (simp add: post_frame)
    with frame_spent show ?thesis by blast
  qed
  with step z show ?case by blast
qed

lemma spent_rows:
  assumes "keys_ok db"
  shows "sheet_spent db i \<Longrightarrow> \<exists>s. row_by sh_ID i (sheets db) = Some s \<and> sh_Status s = SheetIssued"
    and "remnant_spent db i \<Longrightarrow> \<exists>r. row_by rem_ID i (remnants db) = Some r \<and> rem_Status r = RemnantConsumed"
  using assms unfolding keys_ok_def sheet_spent_def remnant_spent_def by (metis row_by_eq_SomeI)+

lemma spent_not_cuttable:
  assumes "keys_ok db"
  shows "sheet_spent db i \<Longrightarrow> op_SheetUpdate p = Some su \<Longrightarrow> su_ID su = i \<Longrightarrow>
      recordCutAtomically sch p db = (Inl (Biz ErrPreconditionFailed), db)"
    and "remnant_spent db i \<Longrightarrow> op_SheetUpdate p = None \<Longrightarrow> op_RemnantUpdate p = Some ru \<Longrightarrow> ru_ID ru = i \<Longrightarrow>
      recordCutAtomically sch p db = (Inl (Biz ErrPreconditionFailed), db)"
  using spent_rows [OF assms] by (fastforce simp: recordCutAtomically_def cut_lock_source_def)+

lemma commit_spends:
  assumes "recordCutAtomically sch p db = (Inr u, db')"
  shows "op_SheetUpdate p = Some su \<Longrightarrow> su_Status su = SheetIssued \<Longrightarrow> sheet_spent db' (su_ID su)"
    and "op_SheetUpdate p = None \<Longrightarrow> op_RemnantUpdate p = Some ru \<Longrightarrow> ru_Status ru = RemnantConsumed \<Longrightarrow>
      remnant_spent db' (ru_ID ru)"
proof -
  from assms obtain db1 db2 where steps: "cut_lock_source p db = Inr db1" "cut_insert_record sch p db1 = Inr db2"
      "cut_insert_remnant p db2 = Inr db'"
    by (rule recordCutAtomically_InrE)
  have app: "sheets db' = sheets db1" "set (remnants db1) \<subseteq> set (remnants db')"
    using steps(2,3) by (auto dest!: cut_insert_record_InrD simp: cut_insert_remnant_def split: option.splits)
  show "sheet_spent db' (su_ID su)" if "op_SheetUpdate p = Some su" "su_Status su = SheetIssued"
  proof -
    let ?u = "\<lambda>x. x\<lparr>sh_Status := SheetIssued, sh_IssuedToWO := su_IssuedToWO su\<rparr>"
    from that steps(1) obtain s where s: "row_by sh_ID (su_ID su) (sheets db) = Some s"
      and upd: "sheets db1 = update_where (\<lambda>x. sh_ID x = su_ID su) ?u (sheets db)"
      by (auto simp: cut_lock_source_def split: option.splits if_splits)
    from row_by_SomeD [OF s] have "?u s \<in> set (sheets db')"
      unfolding app(1) upd by (intro in_update_whereI) auto
    then show ?thesis
      unfolding sheet_spent_def using row_by_SomeD [OF s] by (intro bexI [of _ "?u s"]) auto
  qed
  show "remnant_spent db' (ru_ID ru)"
    if "op_SheetUpdate p = None" "op_RemnantUpdate p = Some ru" "ru_Status ru = RemnantConsumed"
  proof -
    let ?u = "\<lambda>x. x\<lparr>rem_Status := RemnantConsumed, rem_AllocatedToWO := None\<rparr>"
    from that steps(1) obtain r where r: "row_by rem_ID (ru_ID ru) (remnants db) = Some r"
      and upd: "remnants db1 = update_where (\<lambda>x. rem_ID x = ru_ID ru) ?u (remnants db)"
      by (auto simp: cut_lock_source_def split: option.splits if_splits)
    from row_by_SomeD [OF r] have "?u r \<in> set (remnants db1)"
      unfolding upd by (intro in_update_whereI) auto
    with app(2) show ?thesis
      unfolding remnant_spent_def using row_by_SomeD [OF r] by (intro bexI [of _ "?u r"]) auto
  qed
qed

lemma cut_plan_target:
  assumes "cut_plan th env inp db = Inr (p, dropped)"
  shows "ci_SheetID inp = Some i \<Longrightarrow> \<exists>su. op_SheetUpdate p = Some su \<and> su_ID su = i \<and> su_Status su = SheetIssued"
    and "ci_RemnantID inp = Some i \<Longrightarrow> op_SheetUpdate p = None \<and>
      (\<exists>ru. op_RemnantUpdate p = Some ru \<and> ru_ID ru = i \<and> ru_Status ru = RemnantConsumed)"
proof -
  from assms obtain src where val: "cut_validate inp = Inr ()" and left: "cut_leftover env inp src db = Inr (p, dropped)"
    by (rule cut_planE)
  note base = cut_leftoverD [OF left] and v = cut_validateD(3) [OF val]
  show "ci_SheetID inp = Some i \<Longrightarrow> \<exists>su. op_SheetUpdate p = Some su \<and> su_ID su = i \<and> su_Status su = SheetIssued"
    using base by (simp add: base_cut_op_def Let_def)
  show "ci_RemnantID inp = Some i \<Longrightarrow> op_SheetUpdate p = None \<and>
      (\<exists>ru. op_RemnantUpdate p = Some ru \<and> ru_ID ru = i \<and> ru_Status ru = RemnantConsumed)"
    using base v by (simp add: base_cut_op_def Let_def)
qed

end
