(* ===== verification/Inventory_Props.thy ===== *)
theory Inventory_Props
  imports Inventory_Lifecycle
begin

text \<open>
  What the inventory module guarantees, stated on its operations: conservation of board
  material and single use of every source in all reachable states, exclusion between
  concurrent cuts, the effects of cutting, receiving, quality control, allocation, cycle
  counts and claims, and two statements the migrated schema refuses. The concrete shop of
  the first section serves as the witness of the properties that have hypotheses.
\<close>

section \<open>A concrete shop\<close>

text \<open>
  One material that keeps leftovers of at least 300 x 300, one rack. Two boards of
  2800 x 2070 are received and pass quality control; the first is cut for work order 70.
\<close>

definition shop_env :: "nat \<Rightarrow> env" where
  "shop_env k = \<lparr>now = 1000 + int k, fresh = (\<lambda>n. 100 * k + n)\<rparr>"

definition shop_empty :: inv_db where
  "shop_empty =
     \<lparr>lots = [], sheets = [], remnants = [], cuts = [],
      locations = [\<lparr>loc_ID = 5, loc_Zone = ''A'', loc_Rack = ''R1'', loc_Shelf = ''S1'', loc_Label = ''A-R1-S1'',
                    loc_Barcode = ''BIN-5'', loc_IsActive = True\<rparr>],
      materials = [\<lparr>mat_ID = 1, mat_MinRemnantLengthMM = 300, mat_MinRemnantWidthMM = 300, mat_Strategy = BestFit\<rparr>],
      audit = [], sessions = [], count_lines = [], rejections = []\<rparr>"

definition board_dim :: Dimension where
  "board_dim = \<lparr>LengthMM = 2800, WidthMM = 2070\<rparr>"

definition shop_receive :: ReceiveStockInput where
  "shop_receive = \<lparr>rs_MaterialID = 1, rs_Dimensions = board_dim, rs_CostPerSheet = VND 500000,
     rs_Quantity = 2, rs_SupplierRef = ''LOT-7''\<rparr>"

definition shop_stocked :: inv_db where
  "shop_stocked = snd (ReceiveStock (shop_env 1) shop_receive shop_empty)"

definition shop_passed :: inv_db where
  "shop_passed = snd (QCPassLot (shop_env 2) 100 9 shop_stocked)"

definition cut_of_board :: "uuid \<Rightarrow> RecordCutInput" where
  "cut_of_board wo =
     \<lparr>ci_SheetID = Some 101, ci_RemnantID = None, ci_WorkOrderID = wo, ci_SKUID = 8,
      ci_UsedDimension = \<lparr>LengthMM = 2000, WidthMM = 2070\<rparr>,
      ci_RemnantDimension = Some \<lparr>LengthMM = 800, WidthMM = 2000\<rparr>,
      ci_IsWaste = False, ci_BBLengthMM = None, ci_BBWidthMM = None, ci_ShapeType = []\<rparr>"

text \<open>A schema in which both statements of the cut are accepted.\<close>

definition deferred_schema :: schema where
  "deferred_schema = \<lparr>produced_fk_immediate = False, board_material_column = True\<rparr>"

definition shop_cut :: inv_db where
  "shop_cut = fst (snd (RecordCut no_deps deferred_schema 15 (shop_env 3) (cut_of_board 70) (shop_passed, ())))"

lemma shop_reach: "stock_reach cf sch 15 (shop_empty, [])" "stock_reach cf sch 15 (shop_stocked, [])"
  "stock_reach cf sch 15 (shop_passed, [])" "stock_reach cf deferred_schema 15 (shop_cut, [])"
proof -
  show empty: "stock_reach cf sch 15 (shop_empty, [])" for cf sch
    by (rule reach_init) (simp add: inv_init_def shop_empty_def)
  show stocked: "stock_reach cf sch 15 (shop_stocked, [])" for cf sch
    unfolding shop_stocked_def by (rule reach_star [OF empty ReceiveStock_txns])
  show passed: "stock_reach cf sch 15 (shop_passed, [])" for cf sch
    unfolding shop_passed_def by (rule reach_star [OF stocked QCPassLot_txns])
  show "stock_reach cf deferred_schema 15 (shop_cut, [])"
    unfolding shop_cut_def by (rule reach_star [OF passed RecordCut_txns])
qed

text \<open>Two cuts of board 101 planned at the same time, for work orders 70 and 71.\<close>

definition shop_plan :: "nat \<Rightarrow> uuid \<Rightarrow> cutWriteOp" where
  "shop_plan k wo = fst (projr (cut_plan 15 (shop_env k) (cut_of_board wo) shop_passed))"

definition shop_pending :: inv_state where
  "shop_pending = (shop_passed, [shop_plan 4 71, shop_plan 3 70])"

lemma shop_plan_ok:
  "cut_plan 15 (shop_env 3) (cut_of_board 70) shop_passed = Inr (shop_plan 3 70, False)"
  "cut_plan 15 (shop_env 4) (cut_of_board 71) shop_passed = Inr (shop_plan 4 71, False)"
  by code_simp+

lemma shop_pending_reach: "stock_reach cf sch 15 shop_pending"
  unfolding shop_pending_def
  by (rule reach_step [OF reach_step [OF shop_reach(3)]])
    (rule t_plan [OF shop_plan_ok(1)], rule t_plan [OF shop_plan_ok(2)])

section \<open>Material\<close>

text \<open>
  C1: as long as no posted cycle count revives used material, the area of a board is conserved.
  In every state the transactions of the inventory can reach, with any number of cuts in flight
  and with cycle counts posted whose adjustments leave issued sheets issued, consumed remnants
  consumed and no other row either of these, for every board sheet: the area of all pieces cut
  from it (directly or from its remnants) plus the area of its remnants that are not consumed is
  at most the area of the sheet. The restriction on counts is needed: the code does not check it
  (\<open>cycle_count_breaks_conservation\<close>).
\<close>

theorem board_area_conserved:
  assumes "stock_reach spares_used sch th (db, ps)" and "s \<in> set (sheets db)"
  shows "used_area db (sh_ID s) + standing_area db (sh_ID s) \<le> area (sh_Dimensions s)"
  using stock.reach_inv [OF assms(1)] assms(2) by (auto simp: inv_ok_def db_ok_def sheet_ok_def)

theorem board_area_conserved_witness:
  "used_area shop_cut 101 + standing_area shop_cut 101 = 2000 * 2070 + 800 * 2000 \<and>
   used_area shop_cut 101 + standing_area shop_cut 101 \<le> 2800 * 2070"
proof -
  let ?s = "hd (sheets shop_cut)"
  have s: "?s \<in> set (sheets shop_cut)" "sh_ID ?s = 101" "area (sh_Dimensions ?s) = 2800 * 2070" by code_simp+
  have "used_area shop_cut 101 + standing_area shop_cut 101 = 2000 * 2070 + 800 * 2000" by code_simp
  with board_area_conserved [OF shop_reach(4) s(1)] show ?thesis unfolding s by blast
qed

text \<open>
  C2: as long as no posted cycle count revives used material or declares unused material used,
  in every reachable state a sheet was cut exactly once if it is issued and never otherwise, and
  a remnant was cut exactly once if it is consumed and never otherwise.
\<close>

theorem source_cut_once:
  assumes "stock_reach spares_used sch th (db, ps)"
  shows "(\<forall>s \<in> set (sheets db). cuts_of_sheet db (sh_ID s) = (if sh_Status s = SheetIssued then 1 else 0)) \<and>
    (\<forall>r \<in> set (remnants db). cuts_of_remnant db (rem_ID r) = (if rem_Status r = RemnantConsumed then 1 else 0))"
  using stock.reach_inv [OF assms] by (auto simp: inv_ok_def db_ok_def sheet_ok_def remnant_ok_def)

theorem source_cut_once_witness:
  "cuts_of_sheet shop_cut 101 = 1 \<and> cuts_of_sheet shop_cut 102 = 0 \<and> cuts_of_remnant shop_cut 301 = 0"
proof -
  have s: "hd (sheets shop_cut) \<in> set (sheets shop_cut)" "last (sheets shop_cut) \<in> set (sheets shop_cut)"
    "hd (remnants shop_cut) \<in> set (remnants shop_cut)"
    "sh_ID (hd (sheets shop_cut)) = 101" "sh_ID (last (sheets shop_cut)) = 102"
    "rem_ID (hd (remnants shop_cut)) = 301" "sh_Status (hd (sheets shop_cut)) = SheetIssued"
    "sh_Status (last (sheets shop_cut)) = SheetAvailable" "rem_Status (hd (remnants shop_cut)) = RemnantAvailable"
    by code_simp+
  with source_cut_once [OF shop_reach(4)] show ?thesis by fastforce
qed

definition op_source :: "cutWriteOp \<Rightarrow> uuid option \<times> uuid option" where
  "op_source p = (map_option su_ID (op_SheetUpdate p), map_option ru_ID (op_RemnantUpdate p))"

text \<open>
  C3: exclusion between concurrent cuts. In a state that any transactions led to, two cuts of the
  same source are pending, and one commits. Then, whatever transactions run in between, except a
  posted cycle count that revives used material (or declares unused material used), the other is
  refused and changes nothing.
\<close>

theorem concurrent_cuts_exclusive:
  assumes reach: "stock_reach any_count sch th (db, ps)" and pending: "p \<in> set ps" "q \<in> set ps"
    and same: "op_source q = op_source p" and com: "recordCutAtomically sch p db = (Inr (), db1)"
    and later: "(txn spares_used sch th)\<^sup>*\<^sup>* (db1, remove1 p ps) (db2, ps2)"
  shows "recordCutAtomically sch q db2 = (Inl (Biz ErrPreconditionFailed), db2)"
proof -
  have pok: "sheet_op_ok db p \<or> remnant_op_ok db p"
    using stock_rows.reach_inv [OF reach] pending by (simp add: base_ok_def)
  have step: "txn any_count sch th (db, ps) (db1, remove1 p ps)"
    using t_commit [OF pending(1), of any_count sch th db] com by simp
  have base1: "base_ok (db1, remove1 p ps)" using stock_rows.reach_inv [OF reach] step txn_base_ok by blast
  note spent = star_spent [OF later base1, unfolded fst_conv]
  have keys: "keys_ok db2" using spent by (simp add: base_ok_def rows_ok_def)
  from pok show ?thesis
  proof
    assume "sheet_op_ok db p"
    then obtain su su' where "op_SheetUpdate p = Some su" "su_Status su = SheetIssued"
        "op_SheetUpdate q = Some su'" "su_ID su' = su_ID su"
      using same by (auto simp: sheet_op_ok_def op_source_def)
    then show ?thesis using spent_not_cuttable(1) [OF keys] commit_spends(1) [OF com] spent by metis
  next
    assume "remnant_op_ok db p"
    then obtain ru ru' where "op_RemnantUpdate p = Some ru" "ru_Status ru = RemnantConsumed"
        "op_SheetUpdate p = None" "op_RemnantUpdate q = Some ru'" "ru_ID ru' = ru_ID ru" "op_SheetUpdate q = None"
      using same by (auto simp: remnant_op_ok_def op_source_def)
    then show ?thesis using spent_not_cuttable(2) [OF keys] commit_spends(2) [OF com] spent by metis
  qed
qed

theorem concurrent_cuts_exclusive_witness:
  "recordCutAtomically deferred_schema (shop_plan 4 71) shop_cut = (Inl (Biz ErrPreconditionFailed), shop_cut)"
proof (rule concurrent_cuts_exclusive)
  show "stock_reach any_count deferred_schema 15 (shop_passed, [shop_plan 4 71, shop_plan 3 70])"
    using shop_pending_reach by (simp add: shop_pending_def)
  show "recordCutAtomically deferred_schema (shop_plan 3 70) shop_passed = (Inr (), shop_cut)"
    "op_source (shop_plan 4 71) = op_source (shop_plan 3 70)"
    by code_simp+
  show "(txn spares_used deferred_schema 15)\<^sup>*\<^sup>* (shop_cut, remove1 (shop_plan 3 70) [shop_plan 4 71, shop_plan 3 70])
      (shop_cut, remove1 (shop_plan 3 70) [shop_plan 4 71, shop_plan 3 70])" by simp
qed simp_all

section \<open>Life cycles and lineage\<close>

text \<open>
  C4: life cycles, in every state that any transactions led to. A transaction other than the
  posting of a cycle count never loses a sheet or a remnant, never changes its identity, lineage
  or dimensions, and moves its status only along the edges of \<open>sheet_edge\<close> and
  \<open>remnant_edge\<close>: only quality control makes a sheet available, issued and rejected sheets are
  final, and so are consumed, wasted and expired remnants. Posting a cycle count (every other
  transaction is one of these) loses no row and changes no identity, lineage, dimension or cut
  either; a status is what it was, or what one of its adjustments names for that very row.
\<close>

theorem inventory_life_cycles:
  assumes "stock_reach any_count sch th st" and "txn any_count sch th st st'"
  shows "txn no_count sch th st st' \<and> evolves (fst st) (fst st') \<or>
    (\<exists>t sid by adjs. st' = (snd (postCycleCountAtomically t sid by adjs (fst st)), snd st) \<and>
       recounted adjs (fst st) (fst st'))"
  using assms(2)
proof (rule txn_split)
  assume "txn no_count sch th st st'"
  with stock_rows.reach_inv [OF assms(1)] show ?thesis by (blast intro: txn_evolves)
next
  fix t sid "by" adjs
  assume "st' = (snd (postCycleCountAtomically t sid by adjs (fst st)), snd st)"
  with post_recounts show ?thesis by (metis fst_conv)
qed

theorem inventory_life_cycles_witness:
  "evolves shop_passed shop_cut \<and> map sh_Status (sheets shop_cut) = [SheetIssued, SheetAvailable]"
proof
  have "txn any_count deferred_schema 15 (shop_passed, [shop_plan 3 70]) (shop_cut, [])"
    using t_commit [of "shop_plan 3 70" "[shop_plan 3 70]" any_count deferred_schema 15 shop_passed]
    by (subgoal_tac "snd (recordCutAtomically deferred_schema (shop_plan 3 70) shop_passed) = shop_cut",
        simp, code_simp)
  moreover have "stock_reach any_count deferred_schema 15 (shop_passed, [shop_plan 3 70])"
    by (rule reach_step [OF shop_reach(3)]) (rule t_plan [OF shop_plan_ok(1)])
  moreover have "length (cuts shop_cut) \<noteq> length (cuts shop_passed)" by code_simp
  ultimately show "evolves shop_passed shop_cut"
    using inventory_life_cycles by (fastforce simp: recounted_def)
  show "map sh_Status (sheets shop_cut) = [SheetIssued, SheetAvailable]" by code_simp
qed

text \<open>
  Lineage. As long as cycle counts spare used material, in every reachable state a remnant belongs to an issued board, its usable
  rectangle fits inside its dimension and its dimension inside the board; a remnant cut from
  a remnant fits inside that one, which is consumed and belongs to the same board.
\<close>

theorem remnant_lineage:
  assumes "stock_reach spares_used sch th (db, ps)" and "r \<in> set (remnants db)"
  shows "FitsInside (usable r) (rem_Dimensions r) \<and>
    (\<exists>s \<in> set (sheets db). sh_ID s = rem_ParentBoardID r \<and> sh_Status s = SheetIssued \<and>
       FitsInside (rem_Dimensions r) (sh_Dimensions s)) \<and>
    (\<forall>q. rem_ParentRemnantID r = Some q \<longrightarrow>
       (\<exists>p \<in> set (remnants db). rem_ID p = q \<and> rem_Status p = RemnantConsumed \<and>
          rem_ParentBoardID p = rem_ParentBoardID r \<and> FitsInside (rem_Dimensions r) (rem_Dimensions p)))"
  using stock.reach_inv [OF assms(1)] assms(2)
  by (simp add: inv_ok_def db_ok_def remnant_ok_def lineage_ok_def)

theorem remnant_lineage_witness:
  "\<exists>s \<in> set (sheets shop_cut). sh_ID s = 101 \<and> sh_Status s = SheetIssued \<and>
     FitsInside \<lparr>LengthMM = 800, WidthMM = 2000\<rparr> (sh_Dimensions s)"
proof -
  let ?r = "hd (remnants shop_cut)"
  have r: "?r \<in> set (remnants shop_cut)" "rem_ParentBoardID ?r = 101"
    "rem_Dimensions ?r = \<lparr>LengthMM = 800, WidthMM = 2000\<rparr>"
    by code_simp+
  from remnant_lineage [OF shop_reach(4) r(1)] show ?thesis unfolding r by blast
qed

definition alloc_ok :: "Remnant \<Rightarrow> bool" where
  "alloc_ok r \<longleftrightarrow> (rem_Status r = RemnantAllocated \<longleftrightarrow> rem_AllocatedToWO r \<noteq> None) \<and>
     (rem_Status r = RemnantAllocated \<longrightarrow> rem_AllocatedAt r \<noteq> None)"

definition allocs_ok :: "inv_state \<Rightarrow> bool" where
  "allocs_ok st \<longleftrightarrow> base_ok st \<and> list_all alloc_ok (remnants (fst st))"

lemma list_all_update_where:
  "list_all Q t \<Longrightarrow> (\<And>r. r \<in> set t \<Longrightarrow> P r \<Longrightarrow> Q (u r)) \<Longrightarrow> list_all Q (update_where P u t)"
  by (auto simp: list_all_iff elim!: in_update_whereE)

lemma remnants_untouched:
  "remnants (snd (insertLot lot db)) = remnants db" "remnants (snd (deactivateLot i db)) = remnants db"
  "remnants (snd (insertAuditLog e db)) = remnants db" "remnants (snd (insertCycleCountSession cs db)) = remnants db"
  "remnants (snd (updateCycleCountSessionStatus t i st by db)) = remnants db"
  "remnants (snd (insertCycleCountLine l db)) = remnants db" "remnants (snd (updateRejectionClaim u db)) = remnants db"
  "remnants (snd (insertSheets shs db)) = remnants db" "remnants (snd (preAssignSheet i wo db)) = remnants db"
  "remnants (snd (updateSheetBinLocation i loc db)) = remnants db" "remnants (snd (qcPassLotAtomically lotID db)) = remnants db"
  "remnants (snd (rejectLotAtomically lotID qty rej db)) = remnants db"
  by (auto split: sum.splits option.splits
      simp: insertLot_def deactivateLot_def insertAuditLog_def insertCycleCountSession_def insertSheets_def
        updateCycleCountSessionStatus_def insertCycleCountLine_def updateRejectionClaim_def Let_def
        preAssignSheet_def updateSheetBinLocation_def qcPassLotAtomically_def rejectLotAtomically_def)

lemma alloc_ops:
  assumes "keys_ok db" and "list_all alloc_ok (remnants db)"
  shows "list_all alloc_ok (remnants (snd (allocateRemnantAtomically t i wo db)))"
    and "list_all alloc_ok (remnants (snd (markRemnantWasteAtomically i db)))"
    and "list_all alloc_ok (remnants (snd (releaseExpiredAllocations before db)))"
    and "list_all alloc_ok (remnants (snd (expireStaleRemnants t ageDays db)))"
    and "list_all alloc_ok (remnants (snd (updateRemnantBinLocation i loc db)))"
proof -
  have all: "\<And>r. r \<in> set (remnants db) \<Longrightarrow> alloc_ok r" using assms(2) by (simp add: list_all_iff)
  show "list_all alloc_ok (remnants (snd (allocateRemnantAtomically t i wo db)))"
    using assms by (auto simp: allocateRemnantAtomically_def alloc_ok_def split: option.splits intro!: list_all_update_where)
  show "list_all alloc_ok (remnants (snd (markRemnantWasteAtomically i db)))"
    using assms all by (auto simp: markRemnantWasteAtomically_def alloc_ok_def split: option.splits
        intro!: list_all_update_where dest!: keys_ok_remnantD [OF assms(1)])
  show "list_all alloc_ok (remnants (snd (releaseExpiredAllocations before db)))"
    "list_all alloc_ok (remnants (snd (expireStaleRemnants t ageDays db)))"
    "list_all alloc_ok (remnants (snd (updateRemnantBinLocation i loc db)))"
    using assms(2) all by (fastforce simp: releaseExpiredAllocations_def expireStaleRemnants_def updateRemnantBinLocation_def
        alloc_ok_def stale_def allocation_expired_def intro!: list_all_update_where)+
qed

lemma commit_allocs:
  assumes "list_all alloc_ok (remnants db)" and "sheet_op_ok db p \<or> remnant_op_ok db p"
  shows "list_all alloc_ok (remnants (snd (recordCutAtomically sch p db)))"
proof (cases "fst (recordCutAtomically sch p db)")
  case (Inl e)
  with assms(1) show ?thesis using recordCutAtomically_Inl [of sch p db e] by (metis prod.collapse)
next
  case (Inr u)
  then obtain db' where db': "recordCutAtomically sch p db = (Inr u, db')" by (metis prod.collapse)
  then obtain db1 db2 where steps: "cut_lock_source p db = Inr db1" "cut_insert_record sch p db1 = Inr db2"
      "cut_insert_remnant p db2 = Inr db'"
    by (rule recordCutAtomically_InrE)
  have "list_all alloc_ok (remnants db1)"
    using steps(1) assms
    by (auto simp: cut_lock_source_def alloc_ok_def remnant_op_ok_def sheet_op_ok_def
        split: option.splits if_splits intro!: list_all_update_where)
  moreover have "alloc_ok r" if "op_NewRemnant p = Some r" for r
    using assms(2) that by (auto simp: sheet_op_ok_def remnant_op_ok_def leftover_ok_def alloc_ok_def)
  ultimately show ?thesis
    using steps(2,3) by (auto simp: db' cut_insert_remnant_def split: option.splits dest!: cut_insert_record_InrD)
qed

lemma txn_allocs_ok:
  assumes "allocs_ok st" and "txn no_count sch threshold st st'"
  shows "allocs_ok st'"
proof -
  have keys: "keys_ok (fst st)" using assms(1) by (simp add: allocs_ok_def base_ok_def rows_ok_def)
  have all: "list_all alloc_ok (remnants (fst st))" using assms(1) by (simp add: allocs_ok_def)
  have "base_ok st'"
    using assms(1) txn_base_ok [OF _ any_count_txn [OF assms(2)]] by (simp add: allocs_ok_def)
  moreover have "list_all alloc_ok (remnants (fst st'))"
    using assms(2)
  proof (cases rule: txn.cases)
    case (t_commit p ps db)
    with assms(1) show ?thesis by (auto simp: allocs_ok_def base_ok_def intro: commit_allocs)
  qed (use all alloc_ops [OF keys all] in \<open>auto simp: no_count_def remnants_untouched\<close>)
  ultimately show ?thesis by (simp add: allocs_ok_def)
qed

lemma allocs_init_ok: "inv_init st \<Longrightarrow> allocs_ok st"
  by (cases st) (simp add: inv_init_def allocs_ok_def base_ok_def rows_ok_def keys_ok_def)

interpretation allocs: invariant inv_init "txn no_count sch threshold" allocs_ok
  by unfold_locales (auto intro: allocs_init_ok txn_allocs_ok)

text \<open>
  Without cycle counts, in every reachable state a remnant is allocated exactly when it names
  the work order it is allocated to, and it then carries the instant of the allocation that the
  release job compares. (A count writes the status alone.)
\<close>

theorem allocation_consistent:
  assumes "stock_reach no_count sch th (db, ps)" and "r \<in> set (remnants db)"
  shows "(rem_Status r = RemnantAllocated \<longleftrightarrow> (\<exists>wo. rem_AllocatedToWO r = Some wo)) \<and>
    (rem_Status r = RemnantAllocated \<longrightarrow> (\<exists>t. rem_AllocatedAt r = Some t))"
  using allocs.reach_inv [OF assms(1)] assms(2)
  by (auto simp: allocs_ok_def list_all_iff alloc_ok_def)

definition shop_allocated :: inv_db where
  "shop_allocated = snd (AllocateRemnant (shop_env 5) 301 72 shop_cut)"

theorem allocation_consistent_witness:
  "\<exists>r \<in> set (remnants shop_allocated). rem_Status r = RemnantAllocated \<and> (\<exists>wo. rem_AllocatedToWO r = Some wo)"
proof -
  let ?r = "hd (remnants shop_allocated)"
  have r: "?r \<in> set (remnants shop_allocated)" "rem_Status ?r = RemnantAllocated" by code_simp+
  have "stock_reach no_count deferred_schema 15 (shop_allocated, [])"
    unfolding shop_allocated_def by (rule reach_star [OF shop_reach(4) remnant_service_txns(1)])
  from allocation_consistent [OF this r(1)] r show ?thesis by blast
qed

section \<open>Receiving\<close>

lemma ReceiveStock_InrD:
  assumes "ReceiveStock env inp db = (Inr lot, db')"
  shows "0 < rs_Quantity inp" "Valid (rs_Dimensions inp)" "lot_IsActive lot"
    and "db' = db\<lparr>lots := lots db @ [lot],
      sheets := sheets db @ map (\<lambda>i. new_sheet inp (lot_ID lot) (fresh env (Suc i))) [0..<nat (rs_Quantity inp)]\<rparr>"
  using assms
  by (auto simp: ReceiveStock_def insertLot_def insertSheets_def Let_def split: if_splits sum.splits
      dest!: insert_batch_Inr)

lemma ReceiveStock_Inl_sheets: "ReceiveStock env inp db = (Inl e, db') \<Longrightarrow> sheets db' = sheets db"
  by (auto simp: ReceiveStock_def insertLot_def insertSheets_def Let_def split: if_splits sum.splits)

section \<open>Cutting\<close>

lemma cut_leftover_cases:
  assumes "cut_leftover env inp src db = Inr (p, dropped)"
  obtains (none) "ci_RemnantDimension inp = None" "p = base_cut_op env inp" "\<not> dropped"
  | (drop) d pol where "ci_RemnantDimension inp = Some d"
      "selectMinRemnantPolicyByParentBoard (src_ParentBoardID src) db = Inr pol" "below_policy pol d"
      "p = base_cut_op env inp" "dropped"
  | (keep) d pol where "ci_RemnantDimension inp = Some d"
      "selectMinRemnantPolicyByParentBoard (src_ParentBoardID src) db = Inr pol" "\<not> below_policy pol d" "\<not> dropped"
      "p = (base_cut_op env inp)\<lparr>op_NewRemnant := Some (new_remnant env inp src d),
        op_Record := (op_Record (base_cut_op env inp))\<lparr>cr_ProducedRemnantID := Some (fresh env 1)\<rparr>\<rparr>"
  using assms
  by (auto simp: cut_leftover_def Let_def new_remnant_def split: option.splits if_splits sum.splits)

lemma RecordCut_InrE:
  assumes "RecordCut deps sch th env inp (db, x) = (Inr res, (db', x'))"
  obtains p dropped where "cut_plan th env inp db = Inr (p, dropped)"
    and "recordCutAtomically sch p db = (Inr (), db')"
    and "res_CuttingRecordID res = cr_ID (op_Record p)"
    and "res_RemnantID res = (if dropped then None else map_option rem_ID (op_NewRemnant p))"
    and "res_DroppedRemnantCount res = (if dropped then 1 else 0)"
  using assms by (auto simp: RecordCut_def split: sum.splits prod.splits if_splits)

lemma recordCut_tables:
  assumes "recordCutAtomically sch p db = (Inr u, db')"
  shows "cuts db' = cuts db @ [op_Record p]"
    and "op_SheetUpdate p = Some su \<Longrightarrow>
      (\<exists>s. row_by sh_ID (su_ID su) (sheets db) = Some s \<and> sh_Status s = SheetAvailable) \<and>
      sheets db' = update_where (\<lambda>s. sh_ID s = su_ID su)
        (\<lambda>s. s\<lparr>sh_Status := su_Status su, sh_IssuedToWO := su_IssuedToWO su\<rparr>) (sheets db) \<and>
      remnants db' = remnants db @ case_option [] (\<lambda>r. [r]) (op_NewRemnant p)"
    and "op_SheetUpdate p = None \<Longrightarrow> op_RemnantUpdate p = Some ru \<Longrightarrow>
      (\<exists>r. row_by rem_ID (ru_ID ru) (remnants db) = Some r \<and> rem_Status r \<in> {RemnantAvailable, RemnantAllocated}) \<and>
      sheets db' = sheets db \<and>
      remnants db' = update_where (\<lambda>r. rem_ID r = ru_ID ru)
        (\<lambda>r. r\<lparr>rem_Status := ru_Status ru, rem_AllocatedToWO := None\<rparr>) (remnants db) @
        case_option [] (\<lambda>r. [r]) (op_NewRemnant p)"
proof -
  from assms obtain db1 db2 where steps: "cut_lock_source p db = Inr db1" "cut_insert_record sch p db1 = Inr db2"
      "cut_insert_remnant p db2 = Inr db'"
    by (rule recordCutAtomically_InrE)
  have app: "sheets db' = sheets db1" "remnants db' = remnants db1 @ case_option [] (\<lambda>r. [r]) (op_NewRemnant p)"
    "cuts db' = cuts db1 @ [op_Record p]"
    using steps(2,3) by (auto dest!: cut_insert_record_InrD simp: cut_insert_remnant_def split: option.splits)
  have "cuts db1 = cuts db"
    using steps(1) by (auto simp: cut_lock_source_def split: option.splits if_splits)
  with app show "cuts db' = cuts db @ [op_Record p]" by simp
  show "(\<exists>s. row_by sh_ID (su_ID su) (sheets db) = Some s \<and> sh_Status s = SheetAvailable) \<and>
      sheets db' = update_where (\<lambda>s. sh_ID s = su_ID su)
        (\<lambda>s. s\<lparr>sh_Status := su_Status su, sh_IssuedToWO := su_IssuedToWO su\<rparr>) (sheets db) \<and>
      remnants db' = remnants db @ case_option [] (\<lambda>r. [r]) (op_NewRemnant p)"
    if "op_SheetUpdate p = Some su"
    using steps(1) that unfolding app
    by (auto simp: cut_lock_source_def split: option.splits if_splits)
  show "(\<exists>r. row_by rem_ID (ru_ID ru) (remnants db) = Some r \<and> rem_Status r \<in> {RemnantAvailable, RemnantAllocated}) \<and>
      sheets db' = sheets db \<and>
      remnants db' = update_where (\<lambda>r. rem_ID r = ru_ID ru)
        (\<lambda>r. r\<lparr>rem_Status := ru_Status ru, rem_AllocatedToWO := None\<rparr>) (remnants db) @
        case_option [] (\<lambda>r. [r]) (op_NewRemnant p)"
    if "op_SheetUpdate p = None" "op_RemnantUpdate p = Some ru"
    using steps(1) that unfolding app
    by (auto simp: cut_lock_source_def split: option.splits if_splits)
qed

text \<open>
  C7: a successful \<^verbatim>\<open>RecordCut\<close> on a sheet found it available, issues exactly that sheet to the
  work order, appends one cutting record for the used dimension, and stores at most one new
  remnant: available, of the reported dimension, with the sheet as parent and the sheet's
  supplier attributes; the record, the remnant and the result name each other.
\<close>

theorem RecordCut_sheet_effect:
  assumes "RecordCut deps sch th env inp (db, x) = (Inr res, (db', x'))" and "ci_SheetID inp = Some i"
  shows "\<exists>s c. row_by sh_ID i (sheets db) = Some s \<and> sh_Status s = SheetAvailable \<and>
    sheets db' = update_where (\<lambda>t. sh_ID t = i)
      (\<lambda>t. t\<lparr>sh_Status := SheetIssued, sh_IssuedToWO := Some (ci_WorkOrderID inp)\<rparr>) (sheets db) \<and>
    cuts db' = cuts db @ [c] \<and> cr_ID c = res_CuttingRecordID res \<and> cr_SheetID c = Some i \<and>
    cr_RemnantSourceID c = None \<and> cr_WorkOrderID c = ci_WorkOrderID inp \<and> cr_Used c = ci_UsedDimension inp \<and>
    cr_ProducedRemnantID c = res_RemnantID res \<and>
    (case res_RemnantID res of
       None \<Rightarrow> remnants db' = remnants db
     | Some k \<Rightarrow> (\<exists>r. remnants db' = remnants db @ [r] \<and> rem_ID r = k \<and> rem_Status r = RemnantAvailable \<and>
         Some (rem_Dimensions r) = ci_RemnantDimension inp \<and> rem_ParentBoardID r = i \<and>
         rem_ParentRemnantID r = None \<and> rem_SupplierCode r = sh_SupplierCode s \<and>
         rem_LotBatch r = sh_LotBatch s \<and> rem_GrainPattern r = sh_GrainPattern s \<and>
         rem_QualityGrade r = sh_QualityGrade s))"
proof -
  from assms(1) obtain p dropped where plan: "cut_plan th env inp db = Inr (p, dropped)"
    and com: "recordCutAtomically sch p db = (Inr (), db')"
    and res: "res_CuttingRecordID res = cr_ID (op_Record p)"
      "res_RemnantID res = (if dropped then None else map_option rem_ID (op_NewRemnant p))"
    by (rule RecordCut_InrE)
  from plan obtain src where rd: "read_source th inp db = Inr src" and left: "cut_leftover env inp src db = Inr (p, dropped)"
    by (rule cut_planE)
  from rd assms(2) obtain s where s: "row_by sh_ID i (sheets db) = Some s"
    and src: "src = \<lparr>src_Dim = sh_Dimensions s, src_ParentBoardID = i, src_ParentRemnantID = None,
      src_SupplierCode = sh_SupplierCode s, src_LotBatch = sh_LotBatch s,
      src_GrainPattern = sh_GrainPattern s, src_QualityGrade = sh_QualityGrade s\<rparr>"
    by (auto simp: read_source_def sheet_source_def selectSheetByID_def split: sum.splits if_splits option.splits
        dest: row_by_SomeD)
  have upd: "op_SheetUpdate p = Some \<lparr>su_ID = i, su_Status = SheetIssued, su_IssuedToWO = Some (ci_WorkOrderID inp)\<rparr>"
    using cut_leftoverD(1) [OF left] assms(2) by (simp add: base_cut_op_def Let_def)
  note tabs = recordCut_tables(1) [OF com] recordCut_tables(2) [OF com upd]
  from left show ?thesis
    by (cases rule: cut_leftover_cases)
      (use tabs s src res assms(2) in \<open>auto simp: base_cut_op_def new_remnant_def Let_def\<close>)
qed

definition shop_cut_result :: CutResult where
  "shop_cut_result = \<lparr>res_CuttingRecordID = 300, res_RemnantID = Some 301, res_BarcodeIDs = [], res_DroppedRemnantCount = 0\<rparr>"

lemma shop_cut_run:
  "RecordCut no_deps deferred_schema 15 (shop_env 3) (cut_of_board 70) (shop_passed, ()) =
     (Inr shop_cut_result, (shop_cut, ()))"
  by code_simp

theorem RecordCut_sheet_effect_witness:
  "\<exists>s c r. row_by sh_ID 101 (sheets shop_passed) = Some s \<and> sh_Status s = SheetAvailable \<and>
     cuts shop_cut = cuts shop_passed @ [c] \<and> cr_ProducedRemnantID c = Some 301 \<and>
     remnants shop_cut = remnants shop_passed @ [r] \<and> rem_LotBatch r = sh_LotBatch s"
  using RecordCut_sheet_effect [OF shop_cut_run, of 101]
  by (auto simp: cut_of_board_def shop_cut_result_def)

text \<open>
  A successful \<^verbatim>\<open>RecordCut\<close> on a remnant found it available or allocated, marks exactly
  that remnant consumed and drops its allocation, leaves the sheets alone, appends one
  cutting record, and stores at most one new remnant, a child of the consumed one on the same
  board with the same supplier attributes.
\<close>

theorem RecordCut_remnant_effect:
  assumes "RecordCut deps sch th env inp (db, x) = (Inr res, (db', x'))" and "ci_SheetID inp = None"
  shows "\<exists>i q c. ci_RemnantID inp = Some i \<and> row_by rem_ID i (remnants db) = Some q \<and>
    rem_Status q \<in> {RemnantAvailable, RemnantAllocated} \<and> sheets db' = sheets db \<and>
    cuts db' = cuts db @ [c] \<and> cr_ID c = res_CuttingRecordID res \<and> cr_SheetID c = None \<and>
    cr_RemnantSourceID c = Some i \<and> cr_WorkOrderID c = ci_WorkOrderID inp \<and> cr_Used c = ci_UsedDimension inp \<and>
    cr_ProducedRemnantID c = res_RemnantID res \<and>
    (\<exists>new. remnants db' = update_where (\<lambda>r. rem_ID r = i)
       (\<lambda>r. r\<lparr>rem_Status := RemnantConsumed, rem_AllocatedToWO := None\<rparr>) (remnants db) @ new \<and>
     (case res_RemnantID res of
        None \<Rightarrow> new = []
      | Some k \<Rightarrow> (\<exists>r. new = [r] \<and> rem_ID r = k \<and> rem_Status r = RemnantAvailable \<and>
          Some (rem_Dimensions r) = ci_RemnantDimension inp \<and> rem_ParentBoardID r = rem_ParentBoardID q \<and>
          rem_ParentRemnantID r = Some i \<and> rem_SupplierCode r = rem_SupplierCode q \<and>
          rem_LotBatch r = rem_LotBatch q \<and> rem_GrainPattern r = rem_GrainPattern q \<and>
          rem_QualityGrade r = rem_QualityGrade q)))"
proof -
  from assms(1) obtain p dropped where plan: "cut_plan th env inp db = Inr (p, dropped)"
    and com: "recordCutAtomically sch p db = (Inr (), db')"
    and res: "res_CuttingRecordID res = cr_ID (op_Record p)"
      "res_RemnantID res = (if dropped then None else map_option rem_ID (op_NewRemnant p))"
    by (rule RecordCut_InrE)
  from plan obtain src where val: "cut_validate inp = Inr ()" and rd: "read_source th inp db = Inr src"
    and left: "cut_leftover env inp src db = Inr (p, dropped)"
    by (rule cut_planE)
  from cut_validateD(3) [OF val] assms(2) obtain i where i: "ci_RemnantID inp = Some i" by auto
  from rd assms(2) i obtain q where q: "row_by rem_ID i (remnants db) = Some q"
    and src: "src = \<lparr>src_Dim = rem_Dimensions q, src_ParentBoardID = rem_ParentBoardID q,
      src_ParentRemnantID = Some i, src_SupplierCode = rem_SupplierCode q, src_LotBatch = rem_LotBatch q,
      src_GrainPattern = rem_GrainPattern q, src_QualityGrade = rem_QualityGrade q\<rparr>"
    by (auto simp: read_source_def remnant_source_def selectRemnantByID_def split: sum.splits if_splits option.splits
        dest: row_by_SomeD)
  have upd: "op_SheetUpdate p = None" "op_RemnantUpdate p = Some \<lparr>ru_ID = i, ru_Status = RemnantConsumed\<rparr>"
    using cut_leftoverD(1,2) [OF left] assms(2) i by (simp_all add: base_cut_op_def Let_def)
  note tabs = recordCut_tables(1) [OF com] recordCut_tables(3) [OF com upd]
  from left show ?thesis
    by (cases rule: cut_leftover_cases)
      (use tabs q src res assms(2) i in \<open>auto simp: base_cut_op_def new_remnant_def Let_def\<close>)
qed

definition cut_of_remnant :: RecordCutInput where
  "cut_of_remnant =
     \<lparr>ci_SheetID = None, ci_RemnantID = Some 301, ci_WorkOrderID = 72, ci_SKUID = 8,
      ci_UsedDimension = \<lparr>LengthMM = 800, WidthMM = 1000\<rparr>,
      ci_RemnantDimension = Some \<lparr>LengthMM = 800, WidthMM = 290\<rparr>,
      ci_IsWaste = False, ci_BBLengthMM = None, ci_BBWidthMM = None, ci_ShapeType = []\<rparr>"

definition shop_cut2 :: inv_db where
  "shop_cut2 = fst (snd (RecordCut no_deps deferred_schema 15 (shop_env 6) cut_of_remnant (shop_allocated, ())))"

lemma shop_cut2_run:
  "RecordCut no_deps deferred_schema 15 (shop_env 6) cut_of_remnant (shop_allocated, ()) =
     (Inr \<lparr>res_CuttingRecordID = 600, res_RemnantID = None, res_BarcodeIDs = [], res_DroppedRemnantCount = 1\<rparr>,
      (shop_cut2, ()))"
  by code_simp

theorem RecordCut_remnant_effect_witness:
  "\<exists>q c. row_by rem_ID 301 (remnants shop_allocated) = Some q \<and> cuts shop_cut2 = cuts shop_allocated @ [c] \<and>
     cr_RemnantSourceID c = Some 301 \<and> sheets shop_cut2 = sheets shop_allocated"
  using RecordCut_remnant_effect [OF shop_cut2_run] by (auto simp: cut_of_remnant_def)

text \<open>
  The minimum-size policy decides the leftover. When a successful cut reports a leftover
  of dimension \<open>d\<close>, it becomes a remnant exactly when \<open>d\<close> meets the policy of the material of the
  source's board; otherwise it is dropped, and the result counts it as dropped.
\<close>

theorem leftover_policy:
  assumes "RecordCut deps sch th env inp (db, x) = (Inr res, (db', x'))"
    and "read_source th inp db = Inr src" and "ci_RemnantDimension inp = Some d"
  shows "\<exists>pol. selectMinRemnantPolicyByParentBoard (src_ParentBoardID src) db = Inr pol \<and>
    (res_RemnantID res = None \<longleftrightarrow> below_policy pol d) \<and>
    res_DroppedRemnantCount res = (if below_policy pol d then 1 else 0)"
proof -
  from assms(1) obtain p dropped where plan: "cut_plan th env inp db = Inr (p, dropped)"
    and res: "res_RemnantID res = (if dropped then None else map_option rem_ID (op_NewRemnant p))"
      "res_DroppedRemnantCount res = (if dropped then 1 else 0)"
    by (rule RecordCut_InrE)
  from plan assms(2) have "cut_leftover env inp src db = Inr (p, dropped)"
    by (auto elim: cut_planE)
  then show ?thesis
    by (cases rule: cut_leftover_cases) (use res assms(3) in auto)
qed

theorem leftover_policy_witness:
  "\<exists>pol. selectMinRemnantPolicyByParentBoard 101 shop_allocated = Inr pol \<and>
     below_policy pol \<lparr>LengthMM = 800, WidthMM = 290\<rparr>"
proof -
  have rd: "read_source 15 cut_of_remnant shop_allocated = Inr (projr (read_source 15 cut_of_remnant shop_allocated))"
    and b: "src_ParentBoardID (projr (read_source 15 cut_of_remnant shop_allocated)) = 101" by code_simp+
  from leftover_policy [OF shop_cut2_run rd] show ?thesis unfolding b by (auto simp: cut_of_remnant_def)
qed

text \<open>
  A \<^verbatim>\<open>RecordCut\<close> that returns an error, from validation, from the overflow gate, from the
  area check or from any statement of the transaction, leaves the database unchanged and
  calls none of the neighbours.
\<close>

theorem RecordCut_error_unchanged:
  assumes "RecordCut deps sch th env inp st = (Inl e, st')"
  shows "st' = st"
proof -
  obtain db x where st: "st = (db, x)" by (cases st)
  show ?thesis
    using assms recordCutAtomically_Inl [of sch _ db]
    by (fastforce simp: RecordCut_def st split: sum.splits prod.splits if_splits)
qed

theorem RecordCut_error_unchanged_witness:
  "snd (RecordCut no_deps deferred_schema 15 (shop_env 4) (cut_of_board 71) (shop_cut, ())) = (shop_cut, ())"
proof -
  have "fst (RecordCut no_deps deferred_schema 15 (shop_env 4) (cut_of_board 71) (shop_cut, ())) =
      Inl (Biz ErrPreconditionFailed)" by code_simp
  then show ?thesis using RecordCut_error_unchanged by (metis prod.collapse)
qed

text \<open>
  C11: on the schema the migrations build, a cut that keeps a leftover cannot be stored. The
  cutting record names the new remnant before its row exists, and the foreign key is checked
  when that statement ends: the transaction fails and nothing is written.
\<close>

theorem produced_remnant_refused:
  assumes "cut_plan th env inp db = Inr (p, dropped)" and "op_NewRemnant p = Some r"
    and "dim_int4 (ci_UsedDimension inp)" and "rem_ID r \<notin> rem_ID ` set (remnants db)"
    and "produced_fk_immediate sch"
  shows "RecordCut deps sch th env inp (db, x) = (Inl (Pg ForeignKeyViolation), (db, x))"
proof -
  from assms(1) obtain src where val: "cut_validate inp = Inr ()" and rd: "read_source th inp db = Inr src"
    and left: "cut_leftover env inp src db = Inr (p, dropped)"
    by (rule cut_planE)
  have new: "cr_ProducedRemnantID (op_Record p) = Some (rem_ID r)" "cr_Used (op_Record p) = ci_UsedDimension inp"
    using left assms(2) by (cases rule: cut_leftover_cases; auto simp: new_remnant_def)+
  have "\<exists>db1. cut_lock_source p db = Inr db1 \<and> rem_ID ` set (remnants db1) = rem_ID ` set (remnants db)"
  proof (cases "ci_SheetID inp")
    case (Some i)
    with cut_leftoverD(1) [OF left] rd show ?thesis
      by (auto simp: base_cut_op_def Let_def read_source_def sheet_source_def selectSheetByID_def
          cut_lock_source_def split: sum.splits option.splits if_splits)
  next
    case None
    with cut_validateD(3) [OF val] obtain i where "ci_RemnantID inp = Some i" by auto
    with None cut_leftoverD(1,2) [OF left] rd show ?thesis
      by (auto simp: base_cut_op_def Let_def read_source_def remnant_source_def selectRemnantByID_def
          cut_lock_source_def keys_update_where split: sum.splits option.splits if_splits)
  qed
  then obtain db1 where db1: "cut_lock_source p db = Inr db1" "rem_ID ` set (remnants db1) = rem_ID ` set (remnants db)"
    by blast
  have "check_cut sch db1 (op_Record p) = Some (Pg ForeignKeyViolation)"
    using assms(3-5) new db1(2) by (simp add: check_cut_def row_by_None_iff)
  then have "recordCutAtomically sch p db = (Inl (Pg ForeignKeyViolation), db)"
    using db1(1) by (simp add: recordCutAtomically_def cut_insert_record_def insert_checked_def)
  with assms(1) show ?thesis by (simp add: RecordCut_def)
qed

theorem produced_remnant_refused_witness:
  "RecordCut no_deps migrated_schema 15 (shop_env 3) (cut_of_board 70) (shop_passed, ()) =
     (Inl (Pg ForeignKeyViolation), (shop_passed, ()))"
proof (rule produced_remnant_refused [OF shop_plan_ok(1)])
  show "op_NewRemnant (shop_plan 3 70) = Some (the (op_NewRemnant (shop_plan 3 70)))"
    "rem_ID (the (op_NewRemnant (shop_plan 3 70))) \<notin> rem_ID ` set (remnants shop_passed)"
    "dim_int4 (ci_UsedDimension (cut_of_board 70))"
    by code_simp+
qed (simp add: migrated_schema_def)

lemma overflow_pct_sound:
  assumes "0 \<le> r" "100 * r < 2 ^ 53" "0 \<le> s" "s < 2 ^ 53" "is_float th" "0 \<le> th" "th < overflow_pct r s"
  shows "th * of_int s < 100 * of_int r"
proof (cases "s = 0")
  case True
  then show ?thesis using assms(1,6,7) by (auto simp: overflow_pct_def split: if_splits)
next
  case False
  with assms(3) have s: "0 < s" by simp
  have r1: "fl (of_int r) = of_int r" using assms(1,2) by (intro fl_of_int) auto
  have r2: "fl (of_int r * 100) = of_int r * 100"
    using fl_of_int [of "100 * r"] assms(1,2) by (simp add: mult.commute)
  have s1: "fl (of_int s) = of_int s" using assms(3,4) by (intro fl_of_int) auto
  have "overflow_pct r s = fl (of_int r * 100 / of_int s)"
    using s by (simp add: overflow_pct_def r1 r2 s1)
  with assms(5,7) fl_gt_threshold have "th < of_int r * 100 / of_int s"
    using assms(1) s by (metis divide_nonneg_nonneg mult_nonneg_nonneg of_int_0_le_iff less_imp_le zero_le_numeral)
  with s show ?thesis by (simp add: field_simps)
qed

text \<open>
  The overflow gate. While the overflow status blocks, a well-formed cut of a sheet is
  refused and nothing changes; and the gate never blocks wrongly: although the ratio is
  computed in floating point, blocking means that the standing remnant area really exceeds
  the threshold percentage of the available sheet area.
\<close>

theorem overflow_gate:
  assumes "stock_reach any_count sch th (db, ps)" and "GetOverflowStatus th db = Inr ov" and "ov_BlockNewSheetIssue ov"
    and "100 * ov_TotalRemnantAreaMM2 ov < 2 ^ 53" and "ov_TotalSheetAreaMM2 ov < 2 ^ 53"
    and "is_float th" and "0 \<le> th" and "cut_validate inp = Inr ()" and "ci_SheetID inp = Some i"
  shows "RecordCut deps sch th env inp (db, x) = (Inl (Biz ErrPreconditionFailed), (db, x)) \<and>
    th * of_int (ov_TotalSheetAreaMM2 ov) < 100 * of_int (ov_TotalRemnantAreaMM2 ov)"
proof
  show "RecordCut deps sch th env inp (db, x) = (Inl (Biz ErrPreconditionFailed), (db, x))"
    using assms(2,3,8,9) by (simp add: RecordCut_def cut_plan_def read_source_def sheet_source_def)
  have ok: "rows_ok db" using stock_rows.reach_inv [OF assms(1)] by (simp add: base_ok_def)
  let ?r = "ov_TotalRemnantAreaMM2 ov" and ?s = "ov_TotalSheetAreaMM2 ov"
  have areas: "?r = sum_where (area \<circ> rem_Dimensions) (\<lambda>r. rem_Status r \<in> {RemnantAvailable, RemnantAllocated}) (remnants db)"
    "?s = sum_where (area \<circ> sh_Dimensions) (\<lambda>s. sh_Status s = SheetAvailable) (sheets db)"
    and pct: "th < overflow_pct ?r ?s"
    using assms(2,3) by (auto simp: GetOverflowStatus_def selectOverflowAreas_def Let_def split: if_splits)
  have "0 \<le> ?r" unfolding areas
    by (rule sum_where_nonneg) (use ok in \<open>auto simp: rows_ok_def dims_ok_def dest!: area_pos bspec\<close>)
  moreover have "0 \<le> ?s" unfolding areas
    by (rule sum_where_nonneg) (use ok in \<open>auto simp: rows_ok_def dims_ok_def dest!: area_pos bspec\<close>)
  ultimately show "th * of_int ?s < 100 * of_int ?r"
    using overflow_pct_sound assms(4-7) pct by blast
qed

theorem overflow_gate_witness:
  "RecordCut no_deps deferred_schema 15 (shop_env 4) (cut_of_board 71) (shop_cut, ()) =
     (Inl (Biz ErrPreconditionFailed), (shop_cut, ())) \<and> (15 :: rat) * of_int 5796000 < 100 * of_int 1600000"
proof -
  let ?ov = "\<lparr>ov_Red = True, ov_OverflowPct = overflow_pct 1600000 5796000, ov_ThresholdPct = 15,
    ov_BlockNewSheetIssue = True, ov_TotalRemnantAreaMM2 = 1600000, ov_TotalSheetAreaMM2 = 5796000\<rparr>"
  have areas: "selectOverflowAreas shop_cut = Inr (1600000, 5796000)" by code_simp
  have pct: "15 < overflow_pct 1600000 5796000" by code_simp
  have ov: "GetOverflowStatus 15 shop_cut = Inr ?ov" "ov_BlockNewSheetIssue ?ov"
    "ov_TotalRemnantAreaMM2 ?ov = 1600000" "ov_TotalSheetAreaMM2 ?ov = 5796000"
    using pct by (simp_all add: GetOverflowStatus_def areas)
  have inp: "cut_validate (cut_of_board 71) = Inr ()" "ci_SheetID (cut_of_board 71) = Some 101"
    by code_simp+
  have float: "is_float 15" using fl_of_int [of 15] by (simp add: is_float_def)
  have b: "100 * ov_TotalRemnantAreaMM2 ?ov < 2 ^ 53" "ov_TotalSheetAreaMM2 ?ov < 2 ^ 53"
    by simp_all
  have "(0 :: rat) \<le> 15" by simp
  from overflow_gate [OF shop_reach(4) ov(1,2) b float this inp, of no_deps "shop_env 4" "()"]
  show ?thesis unfolding ov(3,4) .
qed

end
