(* ===== verification/Inventory_Listings.thy ===== *)
theory Inventory_Listings
  imports Inventory_Service
begin

text \<open>
  The keyset listings of the inventory module: lots, cutting records, the audit log by entity
  and by action, and rejections. Each store query is \<open>keyset_page\<close> over the rows its
  \<^verbatim>\<open>WHERE\<close> clause keeps; each service call is an interpretation of \<open>keyset_listing\<close>.
\<close>

section \<open>Pattern match of a search box\<close>

text \<open>
  \<^verbatim>\<open>supplier_ref ILIKE '%' || search || '%'\<close>: the search text is not escaped, so \<^verbatim>\<open>%\<close>, \<^verbatim>\<open>_\<close>
  and a backslash in it keep their meaning as a pattern. Case is folded for the letters of
  ASCII.
\<close>

definition lower :: "char \<Rightarrow> char" where
  "lower c = (let n = (of_char c :: nat) in if 65 \<le> n \<and> n \<le> 90 then char_of (n + 32) else c)"

fun like :: "string \<Rightarrow> string \<Rightarrow> bool" where
  "like [] s \<longleftrightarrow> s = []"
| "like (p # ps) [] \<longleftrightarrow> p = CHR ''%'' \<and> like ps []"
| "like (p # ps) (c # cs) \<longleftrightarrow>
     (if p = CHR ''%'' then like ps (c # cs) \<or> like (p # ps) cs
      else if p = CHR ''_'' then like ps cs
      else if p = CHR 0x5C then (case ps of [] \<Rightarrow> False | q # qs \<Rightarrow> q = c \<and> like qs cs)
      else p = c \<and> like ps cs)"

definition ilike :: "string \<Rightarrow> string \<Rightarrow> bool" where
  "ilike s pat \<longleftrightarrow> like (map lower pat) (map lower s)"

section \<open>Queries\<close>

definition lot_cursor :: "InventoryLot \<Rightarrow> Cursor" where
  "lot_cursor l = \<lparr>Ts = lot_ReceivedAt l, CID = lot_ID l\<rparr>"

definition matching_lots :: "string \<Rightarrow> inv_db \<Rightarrow> InventoryLot list" where
  "matching_lots search db =
     select_where (\<lambda>l. lot_IsActive l \<and> ilike (lot_SupplierRef l) (''%'' @ search @ ''%'')) (lots db)"

definition selectLotsKeyset :: "string \<Rightarrow> Cursor \<Rightarrow> int \<Rightarrow> inv_db \<Rightarrow> InventoryLot list result" where
  "selectLotsKeyset search cur limit db = Inr (keyset_page lot_cursor (matching_lots search db) cur limit)"

definition ListLots :: "CursorParams \<Rightarrow> string \<Rightarrow> inv_db \<Rightarrow> InventoryLot CursorResult result" where
  "ListLots p search db =
     (case Decoded p of
        Inl _ \<Rightarrow> Inl (Biz ErrInvalidInput)
      | Inr cur \<Rightarrow>
          (case selectLotsKeyset search cur (CLimit p + 1) db of
             Inl e \<Rightarrow> Inl e
           | Inr rows \<Rightarrow> Inr (NewCursorResult rows (CLimit p) lot_cursor)))"

definition audit_cursor :: "AuditLogEntry \<Rightarrow> Cursor" where
  "audit_cursor e = \<lparr>Ts = al_CreatedAt e, CID = al_ID e\<rparr>"

definition selectAuditLogByEntityKeyset ::
  "uuid \<Rightarrow> EntityType \<Rightarrow> Cursor \<Rightarrow> int \<Rightarrow> inv_db \<Rightarrow> AuditLogEntry list result" where
  "selectAuditLogByEntityKeyset entityID entityType cur limit db =
     Inr (keyset_page audit_cursor
       (select_where (\<lambda>e. al_EntityID e = entityID \<and> al_EntityType e = entityType) (audit db)) cur limit)"

definition ListAuditLog ::
  "uuid \<Rightarrow> EntityType \<Rightarrow> CursorParams \<Rightarrow> inv_db \<Rightarrow> AuditLogEntry CursorResult result" where
  "ListAuditLog entityID entityType p db =
     (if entityType \<noteq> EntRemnant \<and> entityType \<noteq> EntBoardSheet \<and> entityType \<noteq> EntWorkOrder
      then Inl (Biz ErrInvalidInput)
      else (case Decoded p of
              Inl e \<Rightarrow> Inl e
            | Inr cur \<Rightarrow>
                (case selectAuditLogByEntityKeyset entityID entityType cur (CLimit p + 1) db of
                   Inl e \<Rightarrow> Inl e
                 | Inr rows \<Rightarrow> Inr (NewCursorResult rows (CLimit p) audit_cursor))))"

definition selectAuditLogByActionKeyset ::
  "AuditAction \<Rightarrow> Cursor \<Rightarrow> int \<Rightarrow> inv_db \<Rightarrow> AuditLogEntry list result" where
  "selectAuditLogByActionKeyset act cur limit db =
     Inr (keyset_page audit_cursor (select_where (\<lambda>e. al_Action e = act) (audit db)) cur limit)"

text \<open>\<open>None\<close> is the empty action text.\<close>

definition ListAuditLogByAction ::
  "AuditAction option \<Rightarrow> CursorParams \<Rightarrow> inv_db \<Rightarrow> AuditLogEntry CursorResult result" where
  "ListAuditLogByAction act p db =
     (case act of
        None \<Rightarrow> Inl (Biz ErrInvalidInput)
      | Some a \<Rightarrow>
          (case Decoded p of
             Inl e \<Rightarrow> Inl e
           | Inr cur \<Rightarrow>
               (case selectAuditLogByActionKeyset a cur (CLimit p + 1) db of
                  Inl e \<Rightarrow> Inl e
                | Inr rows \<Rightarrow> Inr (NewCursorResult rows (CLimit p) audit_cursor))))"

record RejectionFilter =
  jf_ClaimStatus :: "ClaimStatus option"
  jf_LotID :: "uuid option"
  jf_From :: "time option"
  jf_To :: "time option"

definition rejection_matches :: "RejectionFilter \<Rightarrow> MaterialRejection \<Rightarrow> bool" where
  "rejection_matches f r \<longleftrightarrow>
     (case jf_ClaimStatus f of None \<Rightarrow> True | Some s \<Rightarrow> rj_ClaimStatus r = s) \<and>
     (case jf_LotID f of None \<Rightarrow> True | Some l \<Rightarrow> rj_LotID r = l) \<and>
     (case jf_From f of None \<Rightarrow> True | Some t \<Rightarrow> rj_ReportedAt r \<ge> t) \<and>
     (case jf_To f of None \<Rightarrow> True | Some t \<Rightarrow> rj_ReportedAt r < t)"

definition rejection_cursor :: "MaterialRejection \<Rightarrow> Cursor" where
  "rejection_cursor r = \<lparr>Ts = rj_ReportedAt r, CID = rj_ID r\<rparr>"

definition selectRejectionsKeyset ::
  "RejectionFilter \<Rightarrow> Cursor \<Rightarrow> int \<Rightarrow> inv_db \<Rightarrow> MaterialRejection list result" where
  "selectRejectionsKeyset f cur limit db =
     Inr (keyset_page rejection_cursor (select_where (rejection_matches f) (rejections db)) cur limit)"

text \<open>A filter status outside the four claim statuses is refused before the query; here it cannot be built.\<close>

definition ListRejections ::
  "RejectionFilter \<Rightarrow> CursorParams \<Rightarrow> inv_db \<Rightarrow> MaterialRejection CursorResult result" where
  "ListRejections f p db =
     (case Decoded p of
        Inl e \<Rightarrow> Inl e
      | Inr cur \<Rightarrow>
          (case selectRejectionsKeyset f cur (CLimit p + 1) db of
             Inl e \<Rightarrow> Inl e
           | Inr rows \<Rightarrow> Inr (NewCursorResult rows (CLimit p) rejection_cursor)))"

record CuttingRecordFilter =
  cf_UserID :: "uuid option"
  cf_WorkOrderID :: "uuid option"
  cf_From :: time
  cf_To :: time

text \<open>\<open>assigned\<close> is the join on \<^verbatim>\<open>work_orders.assigned_to\<close>, which the production module owns.\<close>

definition cut_matches :: "(uuid \<Rightarrow> uuid option) \<Rightarrow> CuttingRecordFilter \<Rightarrow> CuttingRecord \<Rightarrow> bool" where
  "cut_matches assigned f c \<longleftrightarrow>
     (case cf_UserID f of None \<Rightarrow> True | Some u \<Rightarrow> assigned (cr_WorkOrderID c) = Some u) \<and>
     (case cf_WorkOrderID f of None \<Rightarrow> True | Some w \<Rightarrow> cr_WorkOrderID c = w) \<and>
     (cf_From f = 0 \<or> cr_CreatedAt c \<ge> cf_From f) \<and> (cf_To f = 0 \<or> cr_CreatedAt c \<le> cf_To f)"

definition cut_cursor :: "CuttingRecord \<Rightarrow> Cursor" where
  "cut_cursor c = \<lparr>Ts = cr_CreatedAt c, CID = cr_ID c\<rparr>"

definition selectCuttingRecordsReportKeyset ::
  "(uuid \<Rightarrow> uuid option) \<Rightarrow> CuttingRecordFilter \<Rightarrow> Cursor \<Rightarrow> int \<Rightarrow> inv_db \<Rightarrow> CuttingRecord list result" where
  "selectCuttingRecordsReportKeyset assigned f cur limit db =
     Inr (keyset_page cut_cursor (select_where (cut_matches assigned f) (cuts db)) cur limit)"

definition ListCuttingRecords ::
  "(uuid \<Rightarrow> uuid option) \<Rightarrow> CuttingRecordFilter \<Rightarrow> CursorParams \<Rightarrow> inv_db \<Rightarrow> CuttingRecord CursorResult result" where
  "ListCuttingRecords assigned f p db =
     (if cf_From f \<noteq> 0 \<and> cf_To f \<noteq> 0 \<and> cf_To f < cf_From f then Inl (Biz ErrInvalidInput)
      else (case Decoded p of
              Inl e \<Rightarrow> Inl e
            | Inr cur \<Rightarrow>
                (case selectCuttingRecordsReportKeyset assigned f cur (CLimit p + 1) db of
                   Inl e \<Rightarrow> Inl e
                 | Inr rows \<Rightarrow> Inr (NewCursorResult rows (CLimit p) cut_cursor))))"

section \<open>The listings as interpretations\<close>

text \<open>
  Primary keys, none of them \<^verbatim>\<open>uuid.Nil\<close> (which \<^verbatim>\<open>uuid.New()\<close> never returns), are all a keyset
  listing needs.
\<close>

definition listable :: "inv_db \<Rightarrow> bool" where
  "listable db \<longleftrightarrow>
     keys_distinct lot_ID (lots db) \<and> (\<forall>l \<in> set (lots db). lot_ID l \<noteq> uuid_Nil) \<and>
     keys_distinct al_ID (audit db) \<and> (\<forall>e \<in> set (audit db). al_ID e \<noteq> uuid_Nil) \<and>
     keys_distinct rj_ID (rejections db) \<and> (\<forall>r \<in> set (rejections db). rj_ID r \<noteq> uuid_Nil) \<and>
     keys_distinct cr_ID (cuts db) \<and> (\<forall>c \<in> set (cuts db). cr_ID c \<noteq> uuid_Nil)"

lemmas listing_defs = listable_def list_keyset_def select_where_def IsZero_def

interpretation lots: keyset_listing "matching_lots search" lot_cursor "\<lambda>db p. ListLots p search db" listable
proof (unfold_locales, goal_cases)
  case (2 s)
  then show ?case
    unfolding matching_lots_def by (intro distinct_keyed_filter [of lot_ID]) (auto simp: listable_def lot_cursor_def)
qed (auto simp: listing_defs ListLots_def selectLotsKeyset_def matching_lots_def lot_cursor_def)

text \<open>The entity types the audit listing accepts, and the intervals the cut report accepts.\<close>

definition auditable :: "EntityType \<Rightarrow> bool" where
  "auditable t \<longleftrightarrow> t \<in> {EntRemnant, EntBoardSheet, EntWorkOrder}"

definition interval_ok :: "CuttingRecordFilter \<Rightarrow> bool" where
  "interval_ok f \<longleftrightarrow> cf_From f = 0 \<or> cf_To f = 0 \<or> cf_From f \<le> cf_To f"

interpretation entity_audit: keyset_listing
  "\<lambda>db. select_where (\<lambda>e. al_EntityID e = i \<and> al_EntityType e = t) (audit db)" audit_cursor
  "\<lambda>db p. ListAuditLog i t p db" "\<lambda>db. listable db \<and> auditable t"
proof (unfold_locales, goal_cases)
  case (2 s)
  then show ?case by (intro distinct_keyed_filter [of al_ID]) (auto simp: listable_def audit_cursor_def)
qed (auto simp: listing_defs ListAuditLog_def selectAuditLogByEntityKeyset_def audit_cursor_def auditable_def)

interpretation action_audit: keyset_listing
  "\<lambda>db. select_where (\<lambda>e. al_Action e = act) (audit db)" audit_cursor
  "\<lambda>db p. ListAuditLogByAction (Some act) p db" listable
proof (unfold_locales, goal_cases)
  case (2 s)
  then show ?case by (intro distinct_keyed_filter [of al_ID]) (auto simp: listable_def audit_cursor_def)
qed (auto simp: listing_defs ListAuditLogByAction_def selectAuditLogByActionKeyset_def audit_cursor_def)

interpretation rejections: keyset_listing
  "\<lambda>db. select_where (rejection_matches f) (rejections db)" rejection_cursor
  "\<lambda>db p. ListRejections f p db" listable
proof (unfold_locales, goal_cases)
  case (2 s)
  then show ?case by (intro distinct_keyed_filter [of rj_ID]) (auto simp: listable_def rejection_cursor_def)
qed (auto simp: listing_defs ListRejections_def selectRejectionsKeyset_def rejection_cursor_def)

interpretation cuts: keyset_listing
  "\<lambda>db. select_where (cut_matches assigned f) (cuts db)" cut_cursor
  "\<lambda>db p. ListCuttingRecords assigned f p db" "\<lambda>db. listable db \<and> interval_ok f"
proof (unfold_locales, goal_cases)
  case (2 s)
  then show ?case by (intro distinct_keyed_filter [of cr_ID]) (auto simp: listable_def cut_cursor_def)
qed (auto simp: listing_defs ListCuttingRecords_def selectCuttingRecordsReportKeyset_def cut_cursor_def interval_ok_def)

end
