(* ===== verification/Inventory_Stock_Props.thy ===== *)
theory Inventory_Stock_Props
  imports Inventory_Props Inventory_Listings
begin

text \<open>
  The rest of what the inventory module guarantees: complete listings, receiving and quality
  control, rejection and supplier claims, cycle counts, remnant suggestions; and three places
  where the code does less than it means to (pre-assignment, cycle counts of used material,
  suggestions on the migrated schema).
\<close>

section \<open>Listings\<close>

text \<open>
  C13: complete listings. A client that follows the cursors of the lot list, the audit log by
  entity or by action, the rejections or the cutting records, with any positive page size,
  gets every matching row exactly once, newest first, after at most one request more than
  there are rows.
\<close>

theorem listings_complete:
  assumes "listable db" and "1 \<le> limit"
  shows
    "(length (matching_lots search db) < n \<longrightarrow>
        follow_cursors n (\<lambda>p. ListLots p search db) limit EmptyToken =
          Some (Inr (order_desc lot_cursor (matching_lots search db)))) \<and>
     (auditable t \<longrightarrow> length (audit db) < n \<longrightarrow>
        follow_cursors n (\<lambda>p. ListAuditLog i t p db) limit EmptyToken =
          Some (Inr (order_desc audit_cursor (filter (\<lambda>e. al_EntityID e = i \<and> al_EntityType e = t) (audit db))))) \<and>
     (length (audit db) < n \<longrightarrow>
        follow_cursors n (\<lambda>p. ListAuditLogByAction (Some act) p db) limit EmptyToken =
          Some (Inr (order_desc audit_cursor (filter (\<lambda>e. al_Action e = act) (audit db))))) \<and>
     (length (rejections db) < n \<longrightarrow>
        follow_cursors n (\<lambda>p. ListRejections f p db) limit EmptyToken =
          Some (Inr (order_desc rejection_cursor (filter (rejection_matches f) (rejections db))))) \<and>
     (interval_ok g \<longrightarrow> length (cuts db) < n \<longrightarrow>
        follow_cursors n (\<lambda>p. ListCuttingRecords assigned g p db) limit EmptyToken =
          Some (Inr (order_desc cut_cursor (filter (cut_matches assigned g) (cuts db)))))"
proof (intro conjI impI, goal_cases)
  case 1
  then show ?case using assms by (intro lots.follow_cursors_complete)
next
  case 2
  then show ?case using assms
    by (intro entity_audit.follow_cursors_complete [unfolded select_where_def])
      (auto intro: le_less_trans [OF length_filter_le])
next
  case 3
  then show ?case using assms
    by (intro action_audit.follow_cursors_complete [unfolded select_where_def])
      (auto intro: le_less_trans [OF length_filter_le])
next
  case 4
  then show ?case using assms
    by (intro rejections.follow_cursors_complete [unfolded select_where_def])
      (auto intro: le_less_trans [OF length_filter_le])
next
  case 5
  then show ?case using assms
    by (intro cuts.follow_cursors_complete [unfolded select_where_def])
      (auto intro: le_less_trans [OF length_filter_le])
qed

theorem listings_complete_witness:
  "listable shop_cut \<and> matching_lots ''lot'' shop_cut \<noteq> [] \<and>
   follow_cursors 2 (\<lambda>p. ListLots p ''lot'' shop_cut) 1 EmptyToken =
     Some (Inr (order_desc lot_cursor (matching_lots ''lot'' shop_cut)))"
proof (intro conjI)
  show l: "listable shop_cut" and "matching_lots ''lot'' shop_cut \<noteq> []" by code_simp+
  have "length (matching_lots ''lot'' shop_cut) < 2" by code_simp
  then show "follow_cursors 2 (\<lambda>p. ListLots p ''lot'' shop_cut) 1 EmptyToken =
      Some (Inr (order_desc lot_cursor (matching_lots ''lot'' shop_cut)))"
    using listings_complete [OF l, of 1 "''lot''" 2] by simp
qed

section \<open>Receiving and quality control\<close>

text \<open>
  Receiving. A successful \<^verbatim>\<open>ReceiveStock\<close> appends one active lot and exactly the ordered
  number of sheets, each of that lot, with the ordered valid dimension and cost, and waiting
  for quality control; no stock becomes available by it, and nothing else changes.
\<close>

theorem ReceiveStock_effect:
  assumes "ReceiveStock env inp db = (Inr lot, db')"
  shows "0 < rs_Quantity inp \<and> Valid (rs_Dimensions inp) \<and> lot_IsActive lot \<and>
    (\<exists>new. db' = db\<lparr>lots := lots db @ [lot], sheets := sheets db @ new\<rparr> \<and>
       int (length new) = rs_Quantity inp \<and>
       (\<forall>s \<in> set new. sh_LotID s = lot_ID lot \<and> sh_Dimensions s = rs_Dimensions inp \<and>
          sh_CostPerSheet s = rs_CostPerSheet inp \<and> sh_Status s = SheetPendingQC \<and> sh_IssuedToWO s = None)) \<and>
    filter (\<lambda>s. sh_Status s = SheetAvailable) (sheets db') = filter (\<lambda>s. sh_Status s = SheetAvailable) (sheets db)"
proof -
  let ?new = "map (\<lambda>i. new_sheet inp (lot_ID lot) (fresh env (Suc i))) [0..<nat (rs_Quantity inp)]"
  note guards = ReceiveStock_InrD(1,2,3) [OF assms] and db' = ReceiveStock_InrD(4) [OF assms]
  have "\<exists>new. db' = db\<lparr>lots := lots db @ [lot], sheets := sheets db @ new\<rparr> \<and>
       int (length new) = rs_Quantity inp \<and>
       (\<forall>s \<in> set new. sh_LotID s = lot_ID lot \<and> sh_Dimensions s = rs_Dimensions inp \<and>
          sh_CostPerSheet s = rs_CostPerSheet inp \<and> sh_Status s = SheetPendingQC \<and> sh_IssuedToWO s = None)"
    using guards(1) by (intro exI [of _ ?new]) (auto simp: db' new_sheet_def)
  moreover have "filter (\<lambda>s. sh_Status s = SheetAvailable) ?new = []"
    by (auto simp: filter_empty_conv new_sheet_def)
  ultimately show ?thesis using guards by (simp add: db')
qed

theorem ReceiveStock_effect_witness:
  "\<exists>new. sheets shop_stocked = sheets shop_empty @ new \<and> int (length new) = rs_Quantity shop_receive \<and>
     (\<forall>s \<in> set new. sh_Status s = SheetPendingQC \<and> sh_Dimensions s = rs_Dimensions shop_receive)"
proof -
  define lot where "lot = hd (lots shop_stocked)"
  have "ReceiveStock (shop_env 1) shop_receive shop_empty = (Inr lot, shop_stocked)"
    unfolding lot_def by code_simp
  from ReceiveStock_effect [OF this] obtain new
    where eq: "shop_stocked = shop_empty\<lparr>lots := lots shop_empty @ [lot], sheets := sheets shop_empty @ new\<rparr>"
      and "int (length new) = rs_Quantity shop_receive"
      and "\<forall>s \<in> set new. sh_LotID s = lot_ID lot \<and> sh_Dimensions s = rs_Dimensions shop_receive \<and>
          sh_CostPerSheet s = rs_CostPerSheet shop_receive \<and> sh_Status s = SheetPendingQC \<and> sh_IssuedToWO s = None"
    by (elim conjE exE)
  moreover have "sheets shop_stocked = sheets shop_empty @ new" unfolding eq by simp
  ultimately show ?thesis by blast
qed

text \<open>
  The quality gate. \<^verbatim>\<open>QCPassLot\<close> releases exactly the sheets of the lot that wait for
  quality control, touches no other sheet, and succeeds exactly when there is at least one;
  otherwise it reports a failed precondition.
\<close>

theorem QCPassLot_effect:
  assumes "lotID \<noteq> uuid_Nil" and "actorID \<noteq> uuid_Nil"
  shows "sheets (snd (QCPassLot env lotID actorID db)) =
      map (\<lambda>s. if sh_LotID s = lotID \<and> sh_Status s = SheetPendingQC then s\<lparr>sh_Status := SheetAvailable\<rparr> else s) (sheets db) \<and>
    fst (QCPassLot env lotID actorID db) =
      (if \<exists>s \<in> set (sheets db). sh_LotID s = lotID \<and> sh_Status s = SheetPendingQC
       then Inr () else Inl (Biz ErrPreconditionFailed))"
proof -
  have cnt: "int (count_where (pending_of lotID) (sheets db)) = 0 \<longleftrightarrow>
      \<not> (\<exists>s \<in> set (sheets db). sh_LotID s = lotID \<and> sh_Status s = SheetPendingQC)"
    by (simp add: count_where_zero_iff pending_of_def)
  have aud: "sheets (snd (insertAuditLog e d)) = sheets d" for e d
    by (simp add: insertAuditLog_def split: sum.splits)
  show ?thesis
    using assms cnt by (simp add: QCPassLot_def qcPassLotAtomically_def aud update_where_def pending_of_def)
qed

theorem QCPassLot_effect_witness:
  "map sh_Status (sheets (snd (QCPassLot (shop_env 2) 100 9 shop_stocked))) = [SheetAvailable, SheetAvailable]"
proof -
  have "map sh_Status (map (\<lambda>s. if sh_LotID s = 100 \<and> sh_Status s = SheetPendingQC
      then s\<lparr>sh_Status := SheetAvailable\<rparr> else s) (sheets shop_stocked)) = [SheetAvailable, SheetAvailable]"
    by code_simp
  then show ?thesis
    using QCPassLot_effect [of 100 9 "shop_env 2" shop_stocked] by (simp add: uuid_Nil_def)
qed

lemma sorted_take_drop_le:
  "sorted xs \<Longrightarrow> i \<in> set (take n xs) \<Longrightarrow> j \<in> set xs \<Longrightarrow> j \<notin> set (take n xs) \<Longrightarrow> i \<le> (j :: uuid)"
  by (metis UnE append_take_drop_id set_append sorted_append)

text \<open>
  Rejection. \<^verbatim>\<open>RejectLot\<close> either fails and changes nothing, or rejects exactly the
  requested number of sheets: those of the lot waiting for quality control with the lowest
  identifiers; it stores one open rejection of that quantity, changes no other sheet and
  returns the rejected identifiers in order.
\<close>

theorem RejectLot_effect:
  assumes "keys_distinct sh_ID (sheets db)"
  shows "case RejectLot deps env inp (db, x) of
      (Inl e, st) \<Rightarrow> st = (db, x)
    | (Inr (rej, ids), (db', x')) \<Rightarrow>
        int (length ids) = rl_RejectedQtySheets inp \<and> sorted ids \<and> distinct ids \<and>
        set ids \<subseteq> sh_ID ` {s \<in> set (sheets db). pending_of (rl_LotID inp) s} \<and>
        (\<forall>s \<in> set (sheets db). pending_of (rl_LotID inp) s \<longrightarrow> sh_ID s \<notin> set ids \<longrightarrow> (\<forall>i \<in> set ids. i \<le> sh_ID s)) \<and>
        sheets db' = map (\<lambda>s. if sh_ID s \<in> set ids then s\<lparr>sh_Status := SheetRejected\<rparr> else s) (sheets db) \<and>
        rejections db' = rejections db @ [rej] \<and> rj_ClaimStatus rej = ClaimOpen \<and>
        rj_RejectedQtySheets rej = rl_RejectedQtySheets inp"
proof (cases "reject_validate inp")
  case (Inl e)
  then show ?thesis by (simp add: RejectLot_def)
next
  case (Inr u)
  let ?pend = "sort (map sh_ID (select_where (pending_of (rl_LotID inp)) (sheets db)))"
  define ids where "ids = take (nat (rl_RejectedQtySheets inp)) ?pend"
  have qty: "0 < rl_RejectedQtySheets inp"
    using Inr by (auto simp: reject_validate_def split: if_splits)
  have pend: "set ?pend = sh_ID ` {s \<in> set (sheets db). pending_of (rl_LotID inp) s}"
    by (auto simp: select_where_def)
  have "distinct ?pend"
    using assms by (simp add: select_where_def distinct_map_filter)
  then have ids: "sorted ids" "distinct ids" "set ids \<subseteq> set ?pend"
    "\<And>i j. i \<in> set ids \<Longrightarrow> j \<in> set ?pend \<Longrightarrow> j \<notin> set ids \<Longrightarrow> i \<le> j"
    using sorted_take_drop_le [of ?pend] unfolding ids_def
    by (auto dest: in_set_takeD intro: sorted_wrt_take)
  have lowest: "s \<in> set (sheets db) \<Longrightarrow> pending_of (rl_LotID inp) s \<Longrightarrow> sh_ID s \<notin> set ids \<Longrightarrow> i \<in> set ids \<Longrightarrow> i \<le> sh_ID s"
    and sub: "set ids \<subseteq> sh_ID ` {s \<in> set (sheets db). pending_of (rl_LotID inp) s}" for s i
    using ids(3,4) [unfolded pend] by blast+
  have aud: "sheets (snd (insertAuditLog a d)) = sheets d" "rejections (snd (insertAuditLog a d)) = rejections d" for a d
    by (simp_all add: insertAuditLog_def split: sum.splits)
  show ?thesis
  proof (cases "rejectLotAtomically (rl_LotID inp) (rl_RejectedQtySheets inp) (new_rejection env inp) db")
    case (Pair r db1)
    note run = this [unfolded rejectLotAtomically_def Let_def, folded ids_def]
    consider (error) e where "r = Inl e" "db1 = db"
      | (ok) "r = Inr ids" "rl_RejectedQtySheets inp \<le> int (length ids)"
        "sheets db1 = update_where (\<lambda>s. sh_ID s \<in> set ids) (\<lambda>s. s\<lparr>sh_Status := SheetRejected\<rparr>) (sheets db)"
        "rejections db1 = rejections db @ [new_rejection env inp]"
      using run by (cases r) (simp_all split: if_splits sum.splits, auto)
    then show ?thesis
    proof cases
      case error
      with Inr Pair show ?thesis by (simp add: RejectLot_def Let_def)
    next
      case ok
      have "int (length ids) = rl_RejectedQtySheets inp"
        using ok(2) qty by (simp add: ids_def)
      moreover have "RejectLot deps env inp (db, x) =
          (Inr (new_rejection env inp, ids), (snd (insertAuditLog a db1), y)) \<longrightarrow> ?thesis" for a y
        using ok ids(1,2) lowest sub calculation by (simp add: aud update_where_def new_rejection_def)
      ultimately show ?thesis
        using Inr Pair ok(1) by (simp add: RejectLot_def Let_def)
    qed
  qed
qed

definition shop_reject :: RejectLotInput where
  "shop_reject = \<lparr>rl_LotID = 100, rl_ReasonCode = ''CRACK'', rl_ReasonDetail = [], rl_RejectedQtySheets = 1,
     rl_PhotoURLs = [], rl_ActorID = 9\<rparr>"

theorem RejectLot_effect_witness:
  "\<exists>rej db' x'. RejectLot no_deps (shop_env 7) shop_reject (shop_stocked, ()) = (Inr (rej, [101]), (db', x')) \<and>
     rejections db' = rejections shop_stocked @ [rej]"
proof -
  have k: "keys_distinct sh_ID (sheets shop_stocked)" by code_simp
  have "map_sum id snd (fst (RejectLot no_deps (shop_env 7) shop_reject (shop_stocked, ()))) = Inr [101]"
    by code_simp
  then obtain rej db' x' where "RejectLot no_deps (shop_env 7) shop_reject (shop_stocked, ()) = (Inr (rej, [101]), (db', x'))"
    by (cases "RejectLot no_deps (shop_env 7) shop_reject (shop_stocked, ())") auto
  with RejectLot_effect [OF k, where deps = no_deps and env = "shop_env 7" and inp = shop_reject and x = "()"] show ?thesis by auto
qed

section \<open>Pre-assignment\<close>

text \<open>
  Pre-assignment does not reserve. Whenever no overflow blocks, pre-assigning an
  available sheet to one work order and then to another succeeds both times; the sheet stays
  available and ends up with the second work order only.
\<close>

theorem PreAssignSheet_overwrites:
  assumes "GetOverflowStatus th db = Inr ov" and "\<not> ov_BlockNewSheetIssue ov"
    and "row_by sh_ID (pa_SheetID a) (sheets db) = Some s" and "sh_Status s = SheetAvailable"
    and "pa_SheetID b = pa_SheetID a"
  shows "\<exists>db1 db2. PreAssignSheet th env a db = (Inr (), db1) \<and> PreAssignSheet th env' b db1 = (Inr (), db2) \<and>
    row_by sh_ID (pa_SheetID a) (sheets db2) = Some (s\<lparr>sh_IssuedToWO := Some (pa_WorkOrderID b)\<rparr>)"
proof -
  let ?asg = "\<lambda>wo t. update_where (\<lambda>s. sh_ID s = pa_SheetID a) (\<lambda>s. s\<lparr>sh_IssuedToWO := Some wo\<rparr>) t"
  let ?db1 = "db\<lparr>sheets := ?asg (pa_WorkOrderID a) (sheets db)\<rparr>"
  have sum: "sum_where (area \<circ> sh_Dimensions) (\<lambda>s. sh_Status s = SheetAvailable) (?asg wo t) =
      sum_where (area \<circ> sh_Dimensions) (\<lambda>s. sh_Status s = SheetAvailable) t" for wo t
    by (induction t) auto
  have "GetOverflowStatus th ?db1 = Inr ov"
    using assms(1) by (simp add: GetOverflowStatus_def selectOverflowAreas_def sum Let_def)
  with assms show ?thesis
    by (auto simp: PreAssignSheet_def preAssignSheet_def row_by_update_where dest: row_by_SomeD)
qed

theorem PreAssignSheet_overwrites_witness:
  "\<exists>db1 db2 s.
     PreAssignSheet 15 (shop_env 8) \<lparr>pa_SheetID = 102, pa_WorkOrderID = 70, pa_BypassOverflow = False, pa_ActorID = 9, pa_Reason = []\<rparr>
       shop_passed = (Inr (), db1) \<and>
     PreAssignSheet 15 (shop_env 9) \<lparr>pa_SheetID = 102, pa_WorkOrderID = 71, pa_BypassOverflow = False, pa_ActorID = 9, pa_Reason = []\<rparr>
       db1 = (Inr (), db2) \<and>
     row_by sh_ID 102 (sheets db2) = Some s \<and> sh_IssuedToWO s = Some 71"
proof -
  let ?ov = "projr (GetOverflowStatus 15 shop_passed)" and ?s = "the (row_by sh_ID 102 (sheets shop_passed))"
  have "GetOverflowStatus 15 shop_passed = Inr ?ov" "\<not> ov_BlockNewSheetIssue ?ov"
    "row_by sh_ID 102 (sheets shop_passed) = Some ?s" "sh_Status ?s = SheetAvailable"
    by code_simp+
  from PreAssignSheet_overwrites [OF this(1,2), of
      "\<lparr>pa_SheetID = 102, pa_WorkOrderID = 70, pa_BypassOverflow = False, pa_ActorID = 9, pa_Reason = []\<rparr>" ?s
      "\<lparr>pa_SheetID = 102, pa_WorkOrderID = 71, pa_BypassOverflow = False, pa_ActorID = 9, pa_Reason = []\<rparr>"
      "shop_env 8" "shop_env 9"] this
  show ?thesis by fastforce
qed

section \<open>Cycle counts\<close>

text \<open>What \<^verbatim>\<open>AddCycleCountLine\<close> admits: an entity of a countable type with a status text of that type.\<close>

definition line_ok :: "CycleCountLine \<Rightarrow> bool" where
  "line_ok l \<longleftrightarrow>
     (cl_EntityType l = EntRemnant \<and> remnant_status_of (cl_CountedStatus l) \<noteq> None) \<or>
     (cl_EntityType l = EntBoardSheet \<and> sheet_status_of (cl_CountedStatus l) \<noteq> None)"

definition same_entity :: "CycleCountLine \<Rightarrow> cycleCountAdjustment \<Rightarrow> bool" where
  "same_entity l a \<longleftrightarrow> cl_EntityType l = aj_EntityType a \<and> cl_EntityID l = aj_EntityID a"

lemma status_text_of: "remnant_status_of t = Some s \<Longrightarrow> remnant_status_text s = t"
  "sheet_status_of t = Some u \<Longrightarrow> sheet_status_text u = t"
  by (auto simp: remnant_status_of_def sheet_status_of_def find_Some_iff split: if_splits)

text \<open>One adjustment sets the state of its own entity and no other.\<close>

lemma apply_adjustment_state:
  assumes "apply_adjustment a db = Inr db'" and "line_ok l" and "aj_EntityType a \<in> {EntRemnant, EntBoardSheet}"
    and "same_entity l a \<Longrightarrow> aj_NewStatus a = cl_CountedStatus l \<and> aj_NewLocationID a = cl_CountedLocationID l"
  shows "current_state l db' =
    (if same_entity l a then map_sum id (\<lambda>_. (cl_CountedStatus l, cl_CountedLocationID l)) (current_state l db)
     else current_state l db)"
proof -
  let ?rems = "update_where (\<lambda>r. rem_ID r = aj_EntityID a) (adjust_remnant a) (remnants db)"
  let ?shs = "update_where (\<lambda>s. sh_ID s = aj_EntityID a) (adjust_sheet a) (sheets db)"
  have tabs: "remnants db' = (if aj_EntityType a = EntRemnant then ?rems else remnants db)"
    "sheets db' = (if aj_EntityType a = EntRemnant then sheets db else ?shs)"
    using assms(1) by (auto simp: apply_adjustment_def Let_def split: if_splits)
  have rem: "row_by rem_ID i ?rems = map_option (\<lambda>r. if rem_ID r = aj_EntityID a then adjust_remnant a r else r)
      (row_by rem_ID i (remnants db))" for i
    by (rule row_by_update_where) (simp add: adjust_remnant_def)
  have sh: "row_by sh_ID i ?shs = map_option (\<lambda>s. if sh_ID s = aj_EntityID a then adjust_sheet a s else s)
      (row_by sh_ID i (sheets db))" for i
    by (rule row_by_update_where) (simp add: adjust_sheet_def)
  show ?thesis
  proof (cases "cl_EntityType l = EntRemnant")
    case True
    with assms(2) obtain st where st: "remnant_status_of (cl_CountedStatus l) = Some st" "remnant_status_text st = cl_CountedStatus l"
      using status_text_of(1) by (auto simp: line_ok_def)
    show ?thesis
      by (cases "row_by rem_ID (cl_EntityID l) (remnants db)")
        (use True st assms(4) in \<open>auto simp: current_state_def selectRemnantByID_def tabs(1) rem same_entity_def
          adjust_remnant_def dest: row_by_SomeD\<close>)
  next
    case False
    with assms(2) obtain st where ty: "cl_EntityType l = EntBoardSheet"
      and st: "sheet_status_of (cl_CountedStatus l) = Some st" "sheet_status_text st = cl_CountedStatus l"
      using status_text_of(2) by (auto simp: line_ok_def)
    show ?thesis
      by (cases "row_by sh_ID (cl_EntityID l) (sheets db)")
        (use ty st assms(3,4) in \<open>auto simp: current_state_def selectSheetByID_def tabs(2) sh same_entity_def
          adjust_sheet_def dest: row_by_SomeD\<close>)
  qed
qed

lemma apply_adjustments_state:
  assumes "apply_adjustments as db = Inr db'" and "line_ok l"
    and "\<And>a. a \<in> set as \<Longrightarrow> aj_EntityType a \<in> {EntRemnant, EntBoardSheet}"
    and "\<And>a. a \<in> set as \<Longrightarrow> same_entity l a \<Longrightarrow>
      aj_NewStatus a = cl_CountedStatus l \<and> aj_NewLocationID a = cl_CountedLocationID l"
  shows "current_state l db' =
    (if \<exists>a \<in> set as. same_entity l a then map_sum id (\<lambda>_. (cl_CountedStatus l, cl_CountedLocationID l)) (current_state l db)
     else current_state l db)"
  using assms
proof (induction as arbitrary: db)
  case Nil
  then show ?case by simp
next
  case (Cons a as)
  from Cons.prems(1) obtain db1 where db1: "apply_adjustment a db = Inr db1" "apply_adjustments as db1 = Inr db'"
    by (auto split: sum.splits)
  have step: "current_state l db1 =
      (if same_entity l a then map_sum id (\<lambda>_. (cl_CountedStatus l, cl_CountedLocationID l)) (current_state l db)
       else current_state l db)"
    using Cons.prems by (intro apply_adjustment_state [OF db1(1)]) auto
  have "current_state l db' =
      (if \<exists>a \<in> set as. same_entity l a then map_sum id (\<lambda>_. (cl_CountedStatus l, cl_CountedLocationID l)) (current_state l db1)
       else current_state l db1)"
    using Cons.prems(2-4) by (intro Cons.IH [OF db1(2)]) auto
  with step show ?case by (cases "current_state l db") simp_all
qed

lemma apply_adjustments_audit:
  "apply_adjustments as db = Inr db' \<Longrightarrow>
     audit db' = audit db @ map aj_AuditEntry as \<and> sessions db' = sessions db \<and> count_lines db' = count_lines db"
  by (induction as arbitrary: db) (auto simp: apply_adjustment_def Let_def split: sum.splits if_splits)

lemma plan_adjustments_ConsE:
  assumes "plan_adjustments env n sid actor (l # ls) db = Inr as"
  obtains (agree) "current_state l db = Inr (cl_CountedStatus l, cl_CountedLocationID l)"
      "plan_adjustments env n sid actor ls db = Inr as"
  | (differ) cur as' where "current_state l db = Inr cur" "cur \<noteq> (cl_CountedStatus l, cl_CountedLocationID l)"
      "plan_adjustments env (Suc n) sid actor ls db = Inr as'"
      "as = adjustment_of env n sid actor l cur # as'"
  using assms by (auto split: sum.splits if_splits)

lemma plan_adjustments_sound:
  "plan_adjustments env n sid actor ls db = Inr as \<Longrightarrow> a \<in> set as \<Longrightarrow>
   \<exists>l \<in> set ls. same_entity l a \<and> aj_NewStatus a = cl_CountedStatus l \<and> aj_NewLocationID a = cl_CountedLocationID l"
proof (induction ls arbitrary: n as)
  case (Cons l ls)
  from Cons.prems(1) show ?case
    by (cases rule: plan_adjustments_ConsE)
      (use Cons.IH Cons.prems(2) in \<open>fastforce simp: adjustment_of_def same_entity_def\<close>)+
qed simp

lemma plan_adjustments_complete:
  "plan_adjustments env n sid actor ls db = Inr as \<Longrightarrow> l \<in> set ls \<Longrightarrow>
   (\<exists>cur. current_state l db = Inr cur) \<and>
   (current_state l db \<noteq> Inr (cl_CountedStatus l, cl_CountedLocationID l) \<longrightarrow> (\<exists>a \<in> set as. same_entity l a))"
proof (induction ls arbitrary: n as)
  case (Cons l' ls)
  from Cons.prems(1) show ?case
    by (cases rule: plan_adjustments_ConsE)
      (use Cons.IH Cons.prems(2) in \<open>fastforce simp: adjustment_of_def same_entity_def\<close>)+
qed simp

lemma plan_adjustments_length:
  "plan_adjustments env n sid actor ls db = Inr as \<Longrightarrow>
   length as = length (filter (\<lambda>l. current_state l db \<noteq> Inr (cl_CountedStatus l, cl_CountedLocationID l)) ls)"
proof (induction ls arbitrary: n as)
  case (Cons l ls)
  from Cons.prems(1) show ?case
    by (cases rule: plan_adjustments_ConsE) (use Cons.IH in auto)
qed simp

text \<open>
  Posting a count. After a successful \<^verbatim>\<open>PostCycleCount\<close> every counted entity has the counted
  status and location, the audit log has grown by one entry for each line that disagreed with
  the database and no other, the session is posted, and posting it again is refused.
\<close>

theorem PostCycleCount_effect:
  assumes "PostCycleCount env sid actor db = (Inr (), db')"
    and "distinct (map line_key (count_lines db))" and "\<forall>l \<in> set (count_lines db). line_ok l"
  shows "(\<forall>l \<in> set (count_lines db). cl_SessionID l = sid \<longrightarrow>
      current_state l db' = Inr (cl_CountedStatus l, cl_CountedLocationID l)) \<and>
    (\<exists>new. audit db' = audit db @ new \<and> length new =
       length (filter (\<lambda>l. cl_SessionID l = sid \<and>
         current_state l db \<noteq> Inr (cl_CountedStatus l, cl_CountedLocationID l)) (count_lines db))) \<and>
    PostCycleCount env' sid actor' db' = (Inl (Biz ErrInvalidTransition), db')"
proof -
  let ?ls = "sort_key cl_CreatedAt (filter (\<lambda>l. cl_SessionID l = sid) (count_lines db))"
  from assms(1) obtain sess as db1 where sess: "row_by cs_ID sid (sessions db) = Some sess"
    and plan: "plan_adjustments env 0 sid actor ?ls db = Inr as"
    and app: "apply_adjustments as db = Inr db1"
    and db': "db' = db1\<lparr>sessions := update_where (\<lambda>s. cs_ID s = sid)
       (\<lambda>s. s\<lparr>cs_Status := SessPosted, cs_PostedBy := Some actor, cs_PostedAt := Some (now env)\<rparr>) (sessions db1)\<rparr>"
    by (auto simp: PostCycleCount_def selectCycleCountSessionByID_def selectCycleCountLinesBySession_def
        select_where_def postCycleCountAtomically_def split: option.splits if_splits sum.splits)
  have "current_state l db' = Inr (cl_CountedStatus l, cl_CountedLocationID l)"
    if l: "l \<in> set (count_lines db)" "cl_SessionID l = sid" for l
  proof -
    have mem: "l \<in> set ?ls" using l by simp
    have uniq: "aj_NewStatus a = cl_CountedStatus l \<and> aj_NewLocationID a = cl_CountedLocationID l"
      if "a \<in> set as" "same_entity l a" for a
    proof -
      from plan_adjustments_sound [OF plan that(1)] obtain m where m: "m \<in> set ?ls" "same_entity m a"
        "aj_NewStatus a = cl_CountedStatus m \<and> aj_NewLocationID a = cl_CountedLocationID m" by blast
      have "line_key m = line_key l" using m(1,2) l that(2) by (simp add: line_key_def same_entity_def)
      then have "m = l" using m(1) l(1) assms(2) by (auto simp: distinct_map dest: inj_onD)
      with m(3) show ?thesis by simp
    qed
    have types: "aj_EntityType a \<in> {EntRemnant, EntBoardSheet}" if "a \<in> set as" for a
      using plan_adjustments_sound [OF plan that] assms(3) by (fastforce simp: same_entity_def line_ok_def)
    have "line_ok l" using assms(3) l by blast
    note st = apply_adjustments_state [OF app this types uniq]
    have "current_state l db' = current_state l db1"
      by (simp add: db' current_state_def selectRemnantByID_def selectSheetByID_def)
    with st plan_adjustments_complete [OF plan mem] show ?thesis by (auto split: if_splits)
  qed
  moreover have "length as = length (filter (\<lambda>l. cl_SessionID l = sid \<and>
         current_state l db \<noteq> Inr (cl_CountedStatus l, cl_CountedLocationID l)) (count_lines db))"
    using plan_adjustments_length [OF plan] by (simp add: filter_sort conj_commute)
  moreover have "audit db' = audit db @ map aj_AuditEntry as" "sessions db1 = sessions db"
    using apply_adjustments_audit [OF app] by (simp_all add: db')
  moreover from this(2) sess have "PostCycleCount env' sid actor' db' = (Inl (Biz ErrInvalidTransition), db')"
    by (simp add: PostCycleCount_def selectCycleCountSessionByID_def db' row_by_update_where row_by_SomeD)
  ultimately show ?thesis by (metis length_map)
qed

text \<open>A session that counts the cut board 101 as available in the rack.\<close>

definition shop_session :: inv_db where
  "shop_session = snd (AddCycleCountLine (shop_env 11)
     \<lparr>an_SessionID = 1000, an_EntityType = EntBoardSheet, an_EntityID = 101, an_CountedStatus = ''AVAILABLE'',
      an_CountedLocationID = Some 5, an_Reason = ''found in rack''\<rparr>
     (snd (CreateCycleCountSession (shop_env 10) ''A'' 9 shop_cut)))"

definition shop_counted :: inv_db where
  "shop_counted = snd (PostCycleCount (shop_env 12) 1000 9 shop_session)"

theorem PostCycleCount_effect_witness:
  "current_state (hd (count_lines shop_session)) shop_counted = Inr (''AVAILABLE'', Some 5) \<and>
   PostCycleCount (shop_env 13) 1000 9 shop_counted = (Inl (Biz ErrInvalidTransition), shop_counted)"
proof -
  have run: "PostCycleCount (shop_env 12) 1000 9 shop_session = (Inr (), shop_counted)"
    "distinct (map line_key (count_lines shop_session))" "\<forall>l \<in> set (count_lines shop_session). line_ok l"
    by code_simp+
  have line: "hd (count_lines shop_session) \<in> set (count_lines shop_session)"
    "cl_SessionID (hd (count_lines shop_session)) = 1000"
    "cl_CountedStatus (hd (count_lines shop_session)) = ''AVAILABLE''"
    "cl_CountedLocationID (hd (count_lines shop_session)) = Some 5" by code_simp+
  from PostCycleCount_effect [OF run, of "shop_env 13" 9] line show ?thesis by metis
qed

definition shop_recut :: inv_db where
  "shop_recut = fst (snd (RecordCut no_deps deferred_schema 15 (shop_env 14) (cut_of_board 71) (shop_counted, ())))"

text \<open>
  A cycle count can bring used material back. Board 101 was cut and issued; a count that
  finds it available posts without complaint, a second cut of it then succeeds, and the
  pieces recorded as cut from the board exceed its area. The state is one that the inventory's
  transactions reach when any count may be posted.
\<close>

theorem cycle_count_breaks_conservation:
  "stock_reach any_count deferred_schema 15 (shop_recut, []) \<and>
   fst (PostCycleCount (shop_env 12) 1000 9 shop_session) = Inr () \<and>
   ok (RecordCut no_deps deferred_schema 15 (shop_env 14) (cut_of_board 71) (shop_counted, ())) \<and>
   used_area shop_recut 101 > area board_dim"
proof (intro conjI)
  have "(txn any_count deferred_schema 15)\<^sup>*\<^sup>* (shop_cut, []) (shop_session, [])"
    unfolding shop_session_def by (rule rtranclp_trans [OF count_session_txns(1) count_session_txns(2)])
  also have "(txn any_count deferred_schema 15)\<^sup>*\<^sup>* \<dots> (shop_counted, [])"
    unfolding shop_counted_def by (rule PostCycleCount_txns) (simp add: any_count_def)
  also have "(txn any_count deferred_schema 15)\<^sup>*\<^sup>* \<dots> (shop_recut, [])"
    unfolding shop_recut_def by (rule RecordCut_txns)
  finally show "stock_reach any_count deferred_schema 15 (shop_recut, [])"
    by (rule reach_star [OF shop_reach(4)])
  show "fst (PostCycleCount (shop_env 12) 1000 9 shop_session) = Inr ()" by code_simp
  have "\<not> isl (fst (RecordCut no_deps deferred_schema 15 (shop_env 14) (cut_of_board 71) (shop_counted, ())))"
    by code_simp
  then show "ok (RecordCut no_deps deferred_schema 15 (shop_env 14) (cut_of_board 71) (shop_counted, ()))"
    unfolding ok_def by (metis sum.collapse(2))
  show "used_area shop_recut 101 > area board_dim" by code_simp
qed

text \<open>
  In terms of the lines: when every line of the session says of its entity that it is used up
  exactly when the database does, the adjustments \<^verbatim>\<open>PostCycleCount\<close> plans spare used material.
\<close>

definition agrees_on_use :: "CycleCountLine \<Rightarrow> inv_db \<Rightarrow> bool" where
  "agrees_on_use l db \<longleftrightarrow> (case current_state l db of
       Inl _ \<Rightarrow> True
     | Inr cur \<Rightarrow> if cl_EntityType l = EntRemnant
         then cl_CountedStatus l = ''CONSUMED'' \<longleftrightarrow> fst cur = ''CONSUMED''
         else cl_CountedStatus l = ''ISSUED'' \<longleftrightarrow> fst cur = ''ISSUED'')"

lemma used_texts: "remnant_status_text st = ''CONSUMED'' \<longleftrightarrow> st = RemnantConsumed"
  "sheet_status_text u = ''ISSUED'' \<longleftrightarrow> u = SheetIssued"
  by (cases st; simp) (cases u; simp)

lemma honest_count_spares:
  assumes "keys_ok db" and "plan_adjustments env n sid actor ls db = Inr as"
    and "\<forall>l \<in> set ls. line_ok l \<and> agrees_on_use l db"
  shows "spares_used db as"
proof -
  have "if aj_EntityType a = EntRemnant then \<forall>r \<in> set (remnants db). spares_remnant a r
     else \<forall>s \<in> set (sheets db). spares_sheet a s" if "a \<in> set as" for a
  proof -
    from plan_adjustments_sound [OF assms(2) that] obtain l where l: "l \<in> set ls" "cl_EntityType l = aj_EntityType a"
      "cl_EntityID l = aj_EntityID a" "aj_NewStatus a = cl_CountedStatus l" by (auto simp: same_entity_def)
    with assms(3) have l': "line_ok l" "agrees_on_use l db" by blast+
    have "spares_remnant a r" if r: "aj_EntityType a = EntRemnant" "r \<in> set (remnants db)" for r
    proof (cases "rem_ID r = aj_EntityID a")
      case True
      with r(2) assms(1) have "row_by rem_ID (aj_EntityID a) (remnants db) = Some r"
        by (auto simp: keys_ok_def row_by_Some_iff)
      with l l' r(1) show ?thesis
        by (auto simp: agrees_on_use_def current_state_def selectRemnantByID_def spares_remnant_def
            adjust_remnant_def used_texts dest!: status_text_of split: option.splits)
    qed (simp add: spares_remnant_def)
    moreover have "spares_sheet a s" if s: "aj_EntityType a \<noteq> EntRemnant" "s \<in> set (sheets db)" for s
    proof (cases "sh_ID s = aj_EntityID a")
      case True
      with s(2) assms(1) have "row_by sh_ID (aj_EntityID a) (sheets db) = Some s"
        by (auto simp: keys_ok_def row_by_Some_iff)
      with l l' s(1) show ?thesis
        by (auto simp: agrees_on_use_def current_state_def selectSheetByID_def spares_sheet_def
            adjust_sheet_def used_texts dest!: status_text_of split: option.splits)
    qed (simp add: spares_sheet_def)
    ultimately show ?thesis by simp
  qed
  then show ?thesis by (simp add: spares_used_def)
qed

section \<open>Supplier claims\<close>

text \<open>
  Claims. A successful \<^verbatim>\<open>UpdateRejectionClaim\<close> moves the claim along an edge of the table
  (open to approved or rejected, approved to paid), and only with a positive amount and a
  currency when it is approved or paid; it records who resolved it and when, changes that
  rejection only, and returns it. A failed call changes no rejection.
\<close>

theorem UpdateRejectionClaim_effect:
  shows "case UpdateRejectionClaim deps env inp (db, x) of
      (Inl e, (db', x')) \<Rightarrow> rejections db' = rejections db \<and> x' = x
    | (Inr upd, (db', x')) \<Rightarrow> (\<exists>cur to.
        row_by rj_ID (ui_RejectionID inp) (rejections db) = Some cur \<and> ui_ClaimStatus inp = Some to \<and>
        (rj_ClaimStatus cur, to) \<in> {(ClaimOpen, ClaimApproved), (ClaimOpen, ClaimRejected), (ClaimApproved, ClaimPaid)} \<and>
        (to \<noteq> ClaimRejected \<longrightarrow> (\<exists>a. ui_ClaimAmount inp = Some a \<and> 0 < a \<and> rj_ClaimAmount upd = Some a) \<and>
           ui_ClaimCurrency inp \<noteq> []) \<and>
        rj_ClaimStatus upd = to \<and> rj_ResolvedBy upd = Some (ui_ActorID inp) \<and> rj_ResolvedAt upd = Some (now env) \<and>
        row_by rj_ID (ui_RejectionID inp) (rejections db') = Some upd \<and>
        (\<forall>i. i \<noteq> ui_RejectionID inp \<longrightarrow> row_by rj_ID i (rejections db') = row_by rj_ID i (rejections db)))"
proof -
  have aud: "rejections (snd (insertAuditLog a d)) = rejections d" for a d
    by (simp add: insertAuditLog_def split: sum.splits)
  have key: "rj_ID (claim_update u r) = rj_ID r" for u r by (simp add: claim_update_def)
  have row: "row_by rj_ID i (update_where (\<lambda>r. rj_ID r = j) (claim_update u) t) =
      map_option (\<lambda>r. if rj_ID r = j then claim_update u r else r) (row_by rj_ID i t)" for i j u t
    by (rule row_by_update_where) (rule key)
  have cnt: "row_by rj_ID i t = Some r \<Longrightarrow> count_where (\<lambda>r. rj_ID r = i) t \<noteq> 0" for i t r
    by (auto simp: count_where_zero_iff dest: row_by_SomeD)
  have other: "i \<noteq> j \<Longrightarrow> map_option (\<lambda>r. if rj_ID r = j then claim_update u r else r) (row_by rj_ID i t) = row_by rj_ID i t" for i j u t
    by (cases "row_by rj_ID i t") (auto dest: row_by_SomeD)
  show ?thesis
  proof (cases "ui_RejectionID inp = uuid_Nil \<or> ui_ActorID inp = uuid_Nil \<or> ui_ClaimStatus inp = None \<or>
      row_by rj_ID (ui_RejectionID inp) (rejections db) = None")
    case True
    then show ?thesis by (auto simp: UpdateRejectionClaim_def selectRejectionByID_def split: option.splits)
  next
    case False
    then obtain cur to where cur: "row_by rj_ID (ui_RejectionID inp) (rejections db) = Some cur" "ui_ClaimStatus inp = Some to"
      and ids: "ui_RejectionID inp \<noteq> uuid_Nil" "ui_ActorID inp \<noteq> uuid_Nil" by auto
    have self: "rj_ID cur = ui_RejectionID inp" using cur(1) row_by_SomeD by metis
    show ?thesis
      using cur(2) ids
      by (cases "rj_ClaimStatus cur"; cases to)
        (auto simp: UpdateRejectionClaim_def selectRejectionByID_def updateRejectionClaim_def Let_def cur(1) cnt [OF cur(1)]
          row other self aud claim_payable_def claim_update_def coalesce_def split: option.splits)
  qed
qed

text \<open>The rejection of the whole lot 100, approved for 500.\<close>

definition shop_rejected :: inv_db where
  "shop_rejected = fst (snd (RejectLot no_deps (shop_env 7) shop_reject (shop_stocked, ())))"

definition shop_claim :: UpdateClaimInput where
  "shop_claim = \<lparr>ui_RejectionID = rj_ID (hd (rejections shop_rejected)), ui_ClaimStatus = Some ClaimApproved,
     ui_ClaimAmount = Some 500, ui_ClaimCurrency = ''VND'', ui_ResolutionNotes = [], ui_ActorID = 9\<rparr>"

theorem UpdateRejectionClaim_effect_witness:
  "\<exists>upd db' x'. UpdateRejectionClaim no_deps (shop_env 8) shop_claim (shop_rejected, ()) = (Inr upd, (db', x')) \<and>
     rj_ClaimAmount upd = Some 500 \<and> rj_ClaimStatus upd = ClaimApproved"
proof -
  have "\<not> isl (fst (UpdateRejectionClaim no_deps (shop_env 8) shop_claim (shop_rejected, ())))" by code_simp
  then obtain upd db' x' where run: "UpdateRejectionClaim no_deps (shop_env 8) shop_claim (shop_rejected, ()) = (Inr upd, (db', x'))"
    by (metis prod.collapse sum.collapse(2))
  with UpdateRejectionClaim_effect [where deps = no_deps and env = "shop_env 8" and inp = shop_claim and db = shop_rejected and x = "()"]
  have "rj_ClaimAmount upd = Some 500 \<and> rj_ClaimStatus upd = ClaimApproved" by (auto simp: shop_claim_def)
  with run show ?thesis by blast
qed

section \<open>Remnant suggestions\<close>

text \<open>
  Suggestions. When the request succeeds, at most ten remnants are suggested; each is available
  and large enough, they are ordered by the chosen strategy and ranked from one. But the query
  names a column of the sheets that no migration adds, so it can succeed only on another
  schema than the one the migrations build: there, suggesting remnants always fails.
\<close>

theorem SuggestRemnants_sound:
  assumes "SuggestRemnants sch env inp db = Inr sugs"
  shows "sch \<noteq> migrated_schema \<and> Valid (si_RequiredDimension inp) \<and> length sugs \<le> 10 \<and>
    (\<forall>sg \<in> set sugs. sg_Remnant sg \<in> set (remnants db) \<and> rem_Status (sg_Remnant sg) = RemnantAvailable \<and>
       FitsInside (si_RequiredDimension inp) (usable (sg_Remnant sg))) \<and>
    map sg_Rank sugs = map (\<lambda>i. int i + 1) [0..<length sugs] \<and>
    (\<exists>st. suggestion_strategy inp db = Inr st \<and> sorted (map (strategy_key st \<circ> sg_Remnant) sugs))"
proof -
  from assms obtain st where v: "Valid (si_RequiredDimension inp)" and st: "suggestion_strategy inp db = Inr st"
    and col: "board_material_column sch"
    by (auto simp: SuggestRemnants_def selectTopRemnantSuggestions_def split: if_splits sum.splits)
  define ms where "ms = select_where (\<lambda>r. fits_request (si_RequiredDimension inp) r \<and>
      (si_MaterialID inp = None \<or> (case row_by sh_ID (rem_ParentBoardID r) (sheets db) of
         None \<Rightarrow> False | Some sh \<Rightarrow> sheet_material db sh = si_MaterialID inp))) (remnants db)"
  define top where "top = take (nat (suggestion_limit (si_Limit inp))) (sort_key (strategy_key st) ms)"
  define row where "row = (\<lambda>(i, r). suggestion_score (si_RequiredDimension inp)
    \<lparr>sg_Remnant = r, sg_Location = active_location db (rem_BinLocationID r),
     sg_Rank = int i + 1, sg_AgeDays = age_days (now env) r, sg_Score = 0\<rparr>)"
  have sugs: "sugs = map row (zip [0..<length top] top)"
    using assms v st col
    by (auto simp: SuggestRemnants_def selectTopRemnantSuggestions_def Let_def top_def ms_def row_def comp_def)
  have row: "sg_Remnant (row (i, r)) = r" "sg_Rank (row (i, r)) = int i + 1" for i r
    by (simp_all add: row_def suggestion_score_def Let_def)
  have rems: "map sg_Remnant sugs = top"
    unfolding sugs by (rule nth_equalityI) (simp_all add: row)
  have "length sugs \<le> 10" unfolding sugs by (auto simp: top_def suggestion_limit_def Let_def)
  moreover have "sg_Remnant sg \<in> set (remnants db) \<and> rem_Status (sg_Remnant sg) = RemnantAvailable \<and>
       FitsInside (si_RequiredDimension inp) (usable (sg_Remnant sg))" if "sg \<in> set sugs" for sg
  proof -
    from that have "sg_Remnant sg \<in> set top" unfolding rems [symmetric] by simp
    then have "sg_Remnant sg \<in> set ms" unfolding top_def by (auto dest: in_set_takeD)
    then show ?thesis by (auto simp: ms_def select_where_def fits_request_def FitsInside_def)
  qed
  moreover have "map sg_Rank sugs = map (\<lambda>i. int i + 1) [0..<length sugs]"
    unfolding sugs by (rule nth_equalityI) (simp_all add: row)
  moreover have "sorted (map (strategy_key st \<circ> sg_Remnant) sugs)"
    using sorted_wrt_take [of "(\<le>)" "map (strategy_key st) (sort_key (strategy_key st) ms)"]
    by (simp add: rems top_def take_map flip: map_map)
  moreover have "sch \<noteq> migrated_schema" using col by (auto simp: migrated_schema_def)
  ultimately show ?thesis using v st by blast
qed

definition shop_ask :: SuggestRemnantsInput where
  "shop_ask = \<lparr>si_RequiredDimension = \<lparr>LengthMM = 400, WidthMM = 400\<rparr>, si_Limit = 0, si_Strategy = [], si_MaterialID = Some 1\<rparr>"

theorem SuggestRemnants_sound_witness:
  "\<exists>sugs. SuggestRemnants deferred_schema (shop_env 15) shop_ask shop_cut = Inr sugs \<and> length sugs = 1 \<and> length sugs \<le> 10"
proof -
  let ?s = "projr (SuggestRemnants deferred_schema (shop_env 15) shop_ask shop_cut)"
  have r: "\<not> isl (SuggestRemnants deferred_schema (shop_env 15) shop_ask shop_cut)" "length ?s = 1" by code_simp+
  from r(1) have eq: "SuggestRemnants deferred_schema (shop_env 15) shop_ask shop_cut = Inr ?s" by simp
  from SuggestRemnants_sound [OF eq] r(2) eq show ?thesis by blast
qed

lemma suggestions_refused: "\<exists>e. SuggestRemnants migrated_schema env inp db = Inl e"
  by (auto simp: SuggestRemnants_def selectTopRemnantSuggestions_def migrated_schema_def split: sum.splits)

end
