(* ===== verification/Production_Store.thy ===== *)
theory Production_Store
  imports Domain Paging Float64 "HOL-Library.List_Lexorder"
begin

text \<open>
  The tables of \<^verbatim>\<open>internal/module/production\<close> and the statements of its \<^verbatim>\<open>pgstore.go\<close>: work
  orders, consumption records, CNC machines and their shift slots, labor entries, blockers
  and the three logs. A \<open>NUMERIC(6,2)\<close> column of hours is kept as the number of hundredths;
  Go reads it as the nearest \<^verbatim>\<open>float64\<close>, \<open>hours_float\<close>.

  \<open>prod_refs\<close> is what the statements read of the tables other modules own: users, SKUs, plans,
  bill-of-material rows, sales order lines and materials, for foreign keys and joins. The SKU
  code, name and size that the projection joins to a work order for display are left out.

  Two facts belong to PostgreSQL and the migrations rather than to the Go code, and are the
  fields of \<open>prod_schema\<close>: whether \<^verbatim>\<open>FOR UPDATE\<close> is accepted on the nullable side of an outer
  join, and whether \<^verbatim>\<open>sales_order_lines\<close> has a column \<^verbatim>\<open>code\<close>.
\<close>

section \<open>Hours\<close>

text \<open>
  A request's hours are the decimal number of its JSON text; the driver sends the shortest
  decimal of the \<^verbatim>\<open>float64\<close>, which is that number again, and the column rounds it to two
  places, half away from zero.
\<close>

definition numeric_6_2 :: "rat \<Rightarrow> int result" where
  "numeric_6_2 x = (let c = round_half_away (x * 100)
     in if \<bar>c\<bar> < 10 ^ 6 then Inr c else Inl (Pg NumericOutOfRange))"

definition hours_float :: "int \<Rightarrow> rat" where
  "hours_float c = fl (of_int c / 100)"

section \<open>Rows\<close>

record WorkOrder =
  wo_ID :: uuid
  wo_PlanID :: uuid
  wo_SKUID :: uuid
  wo_Quantity :: int
  wo_Status :: WorkOrderStatus
  wo_AssignedTo :: "uuid option"
  wo_AssignedAt :: "time option"
  wo_EstimatedHours :: "int option"
  wo_MachineSlotID :: "uuid option"
  wo_SalesOrderLineID :: "uuid option"
  wo_ActualQty :: "int option"
  wo_ParentWOID :: "uuid option"
  wo_ShortfallReason :: "string option"
  wo_PriorityBoost :: bool
  wo_QCStatus :: "string option"
  wo_CreatedAt :: time

record ConsumptionRecord =
  cn_ID :: uuid
  cn_WorkOrderID :: uuid
  cn_MaterialID :: uuid
  cn_MaterialType :: string
  cn_Quantity :: rat
  cn_Unit :: string
  cn_CreatedAt :: time

record Machine =
  ma_ID :: uuid
  ma_Code :: string
  ma_Name :: string
  ma_CapacityHoursPerShift :: int
  ma_IsActive :: bool
  ma_CreatedAt :: time

record MachineShiftSlot =
  sl_ID :: uuid
  sl_MachineID :: uuid
  sl_ShiftDate :: time
  sl_ShiftName :: string
  sl_CapacityHours :: int
  sl_CreatedAt :: time

record LaborEntry =
  le_ID :: uuid
  le_WorkOrderID :: uuid
  le_Stage :: LaborStage
  le_Minutes :: int
  le_RatePerHour :: int
  le_WorkerID :: uuid
  le_ActorID :: uuid
  le_CreatedAt :: time

datatype BlockerReason =
    BlockerMaterialDelayed
  | BlockerMaterialRejected
  | BlockerMachineDown
  | BlockerOther

record WOBlocker =
  bk_ID :: uuid
  bk_WorkOrderID :: uuid
  bk_Reason :: BlockerReason
  bk_Detail :: string
  bk_CreatedBy :: uuid
  bk_CreatedAt :: time
  bk_ResolvedBy :: "uuid option"
  bk_ResolvedAt :: "time option"

record ReassignLog =
  rg_ID :: uuid
  rg_WorkOrderID :: uuid
  rg_FromUserID :: "uuid option"
  rg_ToUserID :: uuid
  rg_Reason :: string
  rg_ActorID :: uuid
  rg_CreatedAt :: time

record BoostLog =
  bl_ID :: uuid
  bl_WOID :: uuid
  bl_Reason :: string
  bl_ActorID :: uuid
  bl_CreatedAt :: time

record PreemptionLog =
  pl_ID :: uuid
  pl_FromWOID :: uuid
  pl_ToWOID :: uuid
  pl_MaterialID :: uuid
  pl_FreedQty :: int
  pl_Reason :: string
  pl_ActorID :: uuid
  pl_CreatedAt :: time

record prod_db =
  work_orders :: "WorkOrder list"
  consumptions :: "ConsumptionRecord list"
  machines :: "Machine list"
  slots :: "MachineShiftSlot list"
  labor :: "LaborEntry list"
  blockers :: "WOBlocker list"
  reassign_log :: "ReassignLog list"
  boost_log :: "BoostLog list"
  preemption_log :: "PreemptionLog list"

record bom_row =
  bom_SKUID :: uuid
  bom_MaterialID :: uuid
  bom_MaterialType :: string

record prod_refs =
  ref_users :: "(uuid \<times> string) list"
  ref_skus :: "uuid list"
  ref_plans :: "(uuid \<times> time option) list"
  ref_boms :: "bom_row list"
  ref_so_lines :: "uuid list"
  ref_materials :: "uuid list"

record prod_schema =
  nullable_side_lockable :: bool
  sol_code_column :: bool

definition migrated_prod_schema :: prod_schema where
  "migrated_prod_schema = \<lparr>nullable_side_lockable = False, sol_code_column = False\<rparr>"

definition user_known :: "prod_refs \<Rightarrow> uuid \<Rightarrow> bool" where
  "user_known refs u \<longleftrightarrow> u \<in> set (map fst (ref_users refs))"

definition plan_deadline :: "prod_refs \<Rightarrow> uuid \<Rightarrow> time option" where
  "plan_deadline refs p = (case find (\<lambda>q. fst q = p) (ref_plans refs) of None \<Rightarrow> None | Some q \<Rightarrow> snd q)"

definition ref_ok :: "'a list \<Rightarrow> 'a option \<Rightarrow> bool" where
  "ref_ok t r \<longleftrightarrow> (case r of None \<Rightarrow> True | Some i \<Rightarrow> i \<in> set t)"

section \<open>Work orders\<close>

abbreviation wo_row :: "uuid \<Rightarrow> prod_db \<Rightarrow> WorkOrder option" where
  "wo_row i db \<equiv> row_by wo_ID i (work_orders db)"

definition update_wo :: "uuid \<Rightarrow> (WorkOrder \<Rightarrow> WorkOrder) \<Rightarrow> prod_db \<Rightarrow> prod_db" where
  "update_wo i f db = db\<lparr>work_orders := update_where (\<lambda>w. wo_ID w = i) f (work_orders db)\<rparr>"

definition check_wo :: "prod_refs \<Rightarrow> prod_db \<Rightarrow> WorkOrder \<Rightarrow> error option" where
  "check_wo refs db w =
     (if \<not> in_int4 (wo_Quantity w) then Some (Pg NumericOutOfRange)
      else if wo_PlanID w \<notin> set (map fst (ref_plans refs)) \<or> wo_SKUID w \<notin> set (ref_skus refs)
              \<or> \<not> ref_ok (ref_so_lines refs) (wo_SalesOrderLineID w)
              \<or> \<not> ref_ok (map wo_ID (work_orders db)) (wo_ParentWOID w)
           then Some (Pg ForeignKeyViolation)
      else None)"

text \<open>The columns the statement does not name get their defaults.\<close>

definition wo_columns :: "WorkOrder \<Rightarrow> WorkOrder" where
  "wo_columns w = w\<lparr>wo_AssignedTo := None, wo_AssignedAt := None, wo_EstimatedHours := None,
     wo_MachineSlotID := None, wo_ActualQty := None, wo_ShortfallReason := None,
     wo_PriorityBoost := False, wo_QCStatus := None\<rparr>"

definition insertWorkOrder :: "prod_refs \<Rightarrow> WorkOrder \<Rightarrow> (prod_db, unit) op" where
  "insertWorkOrder refs w db =
     (case insert_checked (check_wo refs db) wo_ID (wo_columns w) (work_orders db) of
        Inl e \<Rightarrow> (Inl e, db)
      | Inr t \<Rightarrow> (Inr (), db\<lparr>work_orders := t\<rparr>))"

definition selectWorkOrderByID :: "uuid \<Rightarrow> prod_db \<Rightarrow> WorkOrder result" where
  "selectWorkOrderByID i db = (case wo_row i db of None \<Rightarrow> Inl (Biz ErrNotFound) | Some w \<Rightarrow> Inr w)"

definition selectWorkOrdersByPlan :: "uuid \<Rightarrow> prod_db \<Rightarrow> WorkOrder list result" where
  "selectWorkOrdersByPlan p db =
     Inr (sort_key wo_CreatedAt (select_where (\<lambda>w. wo_PlanID w = p) (work_orders db)))"

definition selectWorkOrdersByAssignee :: "uuid \<Rightarrow> prod_db \<Rightarrow> WorkOrder list result" where
  "selectWorkOrdersByAssignee u db =
     Inr (sort_key (\<lambda>w. - wo_CreatedAt w) (select_where (\<lambda>w. wo_AssignedTo w = Some u) (work_orders db)))"

definition updateWorkOrderStatus :: "uuid \<Rightarrow> WorkOrderStatus \<Rightarrow> (prod_db, unit) op" where
  "updateWorkOrderStatus i st db = (Inr (), update_wo i (\<lambda>w. w\<lparr>wo_Status := st\<rparr>) db)"

definition updateWorkOrderAssignment :: "prod_refs \<Rightarrow> uuid \<Rightarrow> uuid \<Rightarrow> time \<Rightarrow> (prod_db, unit) op" where
  "updateWorkOrderAssignment refs i user assignedAt db =
     (if count_where (\<lambda>w. wo_ID w = i \<and> wo_Status w = WOPlanned) (work_orders db) = 0
      then (Inl (Biz ErrPreconditionFailed), db)
      else if \<not> user_known refs user then (Inl (Pg ForeignKeyViolation), db)
      else (Inr (), db\<lparr>work_orders :=
              update_where (\<lambda>w. wo_ID w = i \<and> wo_Status w = WOPlanned)
                (\<lambda>w. w\<lparr>wo_AssignedTo := Some user, wo_AssignedAt := Some assignedAt\<rparr>) (work_orders db)\<rparr>))"

definition updateWorkOrderQCStatus :: "uuid \<Rightarrow> string \<Rightarrow> (prod_db, unit) op" where
  "updateWorkOrderQCStatus i st db =
     (if wo_row i db \<noteq> None \<and> st \<notin> {''QC_PASSED'', ''QC_FAILED''} then (Inl (Pg CheckViolation), db)
      else (Inr (), update_wo i (\<lambda>w. w\<lparr>wo_QCStatus := Some st\<rparr>) db))"

text \<open>
  \<^verbatim>\<open>SELECT ... LEFT JOIN skus ... FOR UPDATE\<close> is refused before any row is read when the database
  does not lock the nullable side of an outer join.
\<close>

definition lockWorkOrderByID :: "prod_schema \<Rightarrow> uuid \<Rightarrow> prod_db \<Rightarrow> WorkOrder result" where
  "lockWorkOrderByID sch i db =
     (if \<not> nullable_side_lockable sch then Inl (Pg FeatureNotSupported) else selectWorkOrderByID i db)"

record reassignOp =
  ro_WorkOrderID :: uuid
  ro_NewUserID :: uuid
  ro_Reason :: string
  ro_ActorID :: uuid
  ro_LogID :: uuid
  ro_AssignedAt :: time

definition reassignWorkOrderAtomically ::
  "prod_schema \<Rightarrow> prod_refs \<Rightarrow> reassignOp \<Rightarrow> (prod_db, WorkOrder) op" where
  "reassignWorkOrderAtomically sch refs rop db =
     (case lockWorkOrderByID sch (ro_WorkOrderID rop) db of
        Inl e \<Rightarrow> (Inl e, db)
      | Inr w \<Rightarrow>
          if wo_Status w \<noteq> WOInCutting \<and> wo_Status w \<noteq> WOInProcessing then (Inl (Biz ErrPreconditionFailed), db)
          else if \<not> user_known refs (ro_NewUserID rop) then (Inl (Pg ForeignKeyViolation), db)
          else (let assign = (\<lambda>w. w\<lparr>wo_AssignedTo := Some (ro_NewUserID rop), wo_AssignedAt := Some (ro_AssignedAt rop)\<rparr>);
                    entry = \<lparr>rg_ID = ro_LogID rop, rg_WorkOrderID = ro_WorkOrderID rop,
                             rg_FromUserID = wo_AssignedTo w, rg_ToUserID = ro_NewUserID rop,
                             rg_Reason = ro_Reason rop, rg_ActorID = ro_ActorID rop,
                             rg_CreatedAt = ro_AssignedAt rop\<rparr>
                in (case insert_row rg_ID entry (reassign_log db) of
                      Inl e \<Rightarrow> (Inl e, db)
                    | Inr t \<Rightarrow> (Inr (assign w), (update_wo (ro_WorkOrderID rop) assign db)\<lparr>reassign_log := t\<rparr>))))"

definition claimWorkOrderAtomically ::
  "prod_schema \<Rightarrow> prod_refs \<Rightarrow> uuid \<Rightarrow> uuid \<Rightarrow> time \<Rightarrow> (prod_db, WorkOrder) op" where
  "claimWorkOrderAtomically sch refs i user assignedAt db =
     (case lockWorkOrderByID sch i db of
        Inl e \<Rightarrow> (Inl e, db)
      | Inr w \<Rightarrow>
          if wo_Status w \<noteq> WOPlanned then (Inl (Biz ErrPreconditionFailed), db)
          else if wo_AssignedTo w \<noteq> None then (Inl (Biz ErrPreconditionFailed), db)
          else if \<not> user_known refs user then (Inl (Pg ForeignKeyViolation), db)
          else (let assign = (\<lambda>w. w\<lparr>wo_AssignedTo := Some user, wo_AssignedAt := Some assignedAt\<rparr>)
                in (Inr (assign w), update_wo i assign db)))"

section \<open>Consumption and assignment load\<close>

definition insertConsumption :: "prod_refs \<Rightarrow> ConsumptionRecord \<Rightarrow> (prod_db, unit) op" where
  "insertConsumption refs cr db =
     (case insert_checked (\<lambda>c. if wo_row (cn_WorkOrderID c) db = None \<or> cn_MaterialID c \<notin> set (ref_materials refs)
                               then Some (Pg ForeignKeyViolation) else None)
             cn_ID cr (consumptions db) of
        Inl e \<Rightarrow> (Inl e, db)
      | Inr t \<Rightarrow> (Inr (), db\<lparr>consumptions := t\<rparr>))"

definition selectConsumptionsByWO :: "uuid \<Rightarrow> prod_db \<Rightarrow> ConsumptionRecord list result" where
  "selectConsumptionsByWO i db =
     Inr (sort_key cn_CreatedAt (select_where (\<lambda>c. cn_WorkOrderID c = i) (consumptions db)))"

definition hasMetalConsumption :: "uuid \<Rightarrow> prod_db \<Rightarrow> bool result" where
  "hasMetalConsumption i db =
     Inr (list_ex (\<lambda>c. cn_WorkOrderID c = i \<and> cn_MaterialType c = ''METAL'') (consumptions db))"

text \<open>The Go map has no entry for a user with no order in cutting; its lookup returns 0.\<close>

definition selectInCuttingCountByUser :: "prod_db \<Rightarrow> (uuid \<Rightarrow> int) result" where
  "selectInCuttingCountByUser db =
     Inr (\<lambda>u. int (count_where (\<lambda>w. wo_Status w = WOInCutting \<and> wo_AssignedTo w = Some u) (work_orders db)))"

definition selectCNCUserIDs :: "prod_refs \<Rightarrow> uuid list result" where
  "selectCNCUserIDs refs = Inr (sort (map fst (filter (\<lambda>u. snd u = ''cnc'') (ref_users refs))))"

section \<open>Machines and slots\<close>

definition insertMachine :: "Machine \<Rightarrow> (prod_db, unit) op" where
  "insertMachine m db =
     (case insert_checked (\<lambda>m. if ma_IsActive m \<and> list_ex (\<lambda>n. ma_IsActive n \<and> ma_Code n = ma_Code m) (machines db)
                              then Some (Pg UniqueViolation) else None) ma_ID m (machines db) of
        Inl e \<Rightarrow> (Inl e, db)
      | Inr t \<Rightarrow> (Inr (), db\<lparr>machines := t\<rparr>))"

text \<open>Text is ordered by its bytes.\<close>

definition text_key :: "string \<Rightarrow> nat list" where
  "text_key s = map of_char s"

definition selectMachines :: "prod_db \<Rightarrow> Machine list result" where
  "selectMachines db = Inr (sort_key (\<lambda>m. text_key (ma_Code m)) (machines db))"

definition selectMachineByID :: "uuid \<Rightarrow> prod_db \<Rightarrow> Machine result" where
  "selectMachineByID i db =
     (case row_by ma_ID i (machines db) of None \<Rightarrow> Inl (Biz ErrNotFound) | Some m \<Rightarrow> Inr m)"

definition deactivateMachine :: "uuid \<Rightarrow> (prod_db, unit) op" where
  "deactivateMachine i db =
     (if row_by ma_ID i (machines db) = None then (Inl (Biz ErrNotFound), db)
      else (Inr (), db\<lparr>machines := update_where (\<lambda>m. ma_ID m = i) (\<lambda>m. m\<lparr>ma_IsActive := False\<rparr>) (machines db)\<rparr>))"

definition slot_key :: "MachineShiftSlot \<Rightarrow> uuid \<times> time \<times> string" where
  "slot_key s = (sl_MachineID s, sl_ShiftDate s, sl_ShiftName s)"

definition insertSlot :: "MachineShiftSlot \<Rightarrow> (prod_db, unit) op" where
  "insertSlot s db =
     (case insert_checked (\<lambda>s. if slot_key s \<in> set (map slot_key (slots db)) then Some (Pg UniqueViolation)
                              else if row_by ma_ID (sl_MachineID s) (machines db) = None
                                   then Some (Pg ForeignKeyViolation) else None) sl_ID s (slots db) of
        Inl e \<Rightarrow> (Inl e, db)
      | Inr t \<Rightarrow> (Inr (), db\<lparr>slots := t\<rparr>))"

text \<open>\<^verbatim>\<open>COALESCE(SUM(estimated_hours), 0)\<close> over the orders of a slot: exact, in hundredths.\<close>

definition assigned_hours :: "prod_db \<Rightarrow> uuid \<Rightarrow> int" where
  "assigned_hours db i =
     sum_where (\<lambda>w. case wo_EstimatedHours w of None \<Rightarrow> 0 | Some h \<Rightarrow> h)
       (\<lambda>w. wo_MachineSlotID w = Some i) (work_orders db)"

text \<open>A slot is read together with its assigned hours.\<close>

definition slot_view :: "prod_db \<Rightarrow> MachineShiftSlot \<Rightarrow> MachineShiftSlot \<times> int" where
  "slot_view db s = (s, assigned_hours db (sl_ID s))"

definition selectSlotByID :: "uuid \<Rightarrow> prod_db \<Rightarrow> (MachineShiftSlot \<times> int) result" where
  "selectSlotByID i db =
     (case row_by sl_ID i (slots db) of None \<Rightarrow> Inl (Biz ErrNotFound) | Some s \<Rightarrow> Inr (slot_view db s))"

definition available_hours :: "MachineShiftSlot \<times> int \<Rightarrow> int" where
  "available_hours v = sl_CapacityHours (fst v) - snd v"

text \<open>
  The parameter is sent as a decimal number and compared as \<^verbatim>\<open>NUMERIC\<close>, so this query does exact
  arithmetic. \<open>today\<close> is \<^verbatim>\<open>CURRENT_DATE\<close>. The sort key lists later dates after earlier ones and,
  on one date, more available hours first.
\<close>

definition selectFutureSlotsWithCapacity ::
  "time \<Rightarrow> int \<Rightarrow> prod_db \<Rightarrow> (MachineShiftSlot \<times> int) list result" where
  "selectFutureSlotsWithCapacity today minAvailable db =
     Inr (sort_key (\<lambda>v. sl_ShiftDate (fst v)) (sort_key (\<lambda>v. - available_hours v)
       (filter (\<lambda>v. sl_ShiftDate (fst v) \<ge> today \<and> available_hours v \<ge> minAvailable \<and>
            (case row_by ma_ID (sl_MachineID (fst v)) (machines db) of None \<Rightarrow> False | Some m \<Rightarrow> ma_IsActive m))
         (map (slot_view db) (slots db)))))"

definition selectSlotsByMachine ::
  "uuid \<Rightarrow> time \<Rightarrow> time \<Rightarrow> prod_db \<Rightarrow> (MachineShiftSlot \<times> int) list result" where
  "selectSlotsByMachine m from to db =
     Inr (map (slot_view db) (sort_key sl_ShiftDate (sort_key (\<lambda>s. text_key (sl_ShiftName s))
       (select_where (\<lambda>s. sl_MachineID s = m \<and> from \<le> sl_ShiftDate s \<and> sl_ShiftDate s \<le> to) (slots db)))))"

text \<open>Deleting a slot clears the reference its orders hold (\<^verbatim>\<open>ON DELETE SET NULL\<close>).\<close>

definition deleteSlot :: "uuid \<Rightarrow> (prod_db, unit) op" where
  "deleteSlot i db =
     (if row_by sl_ID i (slots db) = None then (Inl (Biz ErrNotFound), db)
      else (Inr (), db\<lparr>slots := delete_where (\<lambda>s. sl_ID s = i) (slots db),
              work_orders := update_where (\<lambda>w. wo_MachineSlotID w = Some i)
                (\<lambda>w. w\<lparr>wo_MachineSlotID := None\<rparr>) (work_orders db)\<rparr>))"

definition updateEstimatedHours :: "uuid \<Rightarrow> rat \<Rightarrow> (prod_db, unit) op" where
  "updateEstimatedHours i hours db =
     (if wo_row i db = None then (Inl (Biz ErrNotFound), db)
      else (case numeric_6_2 hours of
              Inl e \<Rightarrow> (Inl e, db)
            | Inr c \<Rightarrow> (Inr (), update_wo i (\<lambda>w. w\<lparr>wo_EstimatedHours := Some c\<rparr>) db)))"

definition unassignWOFromSlot :: "uuid \<Rightarrow> (prod_db, unit) op" where
  "unassignWOFromSlot i db =
     (if wo_row i db = None then (Inl (Biz ErrNotFound), db)
      else (Inr (), update_wo i (\<lambda>w. w\<lparr>wo_MachineSlotID := None\<rparr>) db))"

text \<open>
  The capacity and the sum are read into \<^verbatim>\<open>float64\<close> variables and subtracted there.
\<close>

definition assignSlotAtomically :: "uuid \<Rightarrow> uuid \<Rightarrow> rat \<Rightarrow> (prod_db, unit) op" where
  "assignSlotAtomically woID slotID estimatedHours db =
     (case row_by sl_ID slotID (slots db) of
        None \<Rightarrow> (Inl (Biz ErrNotFound), db)
      | Some s \<Rightarrow>
          let available = fl (hours_float (sl_CapacityHours s) - hours_float (assigned_hours db slotID))
          in if estimatedHours > available then (Inl (Biz ErrPreconditionFailed), db)
             else if wo_row woID db = None then (Inl (Biz ErrNotFound), db)
             else (Inr (), update_wo woID (\<lambda>w. w\<lparr>wo_MachineSlotID := Some slotID\<rparr>) db))"

section \<open>Labor, plan cascade, partial completion\<close>

definition check_labor :: "prod_refs \<Rightarrow> prod_db \<Rightarrow> LaborEntry \<Rightarrow> error option" where
  "check_labor refs db e =
     (if \<not> in_int4 (le_Minutes e) then Some (Pg NumericOutOfRange)
      else if le_Minutes e \<le> 0 \<or> le_RatePerHour e < 0 then Some (Pg CheckViolation)
      else if wo_row (le_WorkOrderID e) db = None \<or> \<not> user_known refs (le_WorkerID e) \<or> \<not> user_known refs (le_ActorID e)
           then Some (Pg ForeignKeyViolation)
      else None)"

definition insertLaborEntry :: "prod_refs \<Rightarrow> LaborEntry \<Rightarrow> (prod_db, unit) op" where
  "insertLaborEntry refs e db =
     (case insert_checked (check_labor refs db) le_ID e (labor db) of
        Inl err \<Rightarrow> (Inl err, db)
      | Inr t \<Rightarrow> (Inr (), db\<lparr>labor := t\<rparr>))"

definition selectLaborEntriesByWO :: "uuid \<Rightarrow> prod_db \<Rightarrow> LaborEntry list result" where
  "selectLaborEntriesByWO i db =
     Inr (sort_key le_CreatedAt (sort_key le_ID (select_where (\<lambda>e. le_WorkOrderID e = i) (labor db))))"

text \<open>
  Each product is a \<^verbatim>\<open>bigint\<close> and fails on overflow; their sum is a \<^verbatim>\<open>numeric\<close> that must fit the
  \<^verbatim>\<open>int64\<close> it is scanned into.
\<close>

definition sumLaborMinuteRateByWO :: "uuid \<Rightarrow> prod_db \<Rightarrow> int result" where
  "sumLaborMinuteRateByWO i db =
     (let es = select_where (\<lambda>e. le_WorkOrderID e = i) (labor db);
          total = sum_list (map (\<lambda>e. le_Minutes e * le_RatePerHour e) es)
      in if list_all (\<lambda>e. in_i64 (le_Minutes e * le_RatePerHour e)) es \<and> in_i64 total then Inr total
         else Inl (Pg NumericOutOfRange))"

definition listStatusesByPlan :: "uuid \<Rightarrow> prod_db \<Rightarrow> WorkOrderStatus list result" where
  "listStatusesByPlan p db = Inr (map wo_Status (select_where (\<lambda>w. wo_PlanID w = p) (work_orders db)))"

definition cancelPlannedByPlan :: "uuid \<Rightarrow> (prod_db, int) op" where
  "cancelPlannedByPlan p db =
     (Inr (int (count_where (\<lambda>w. wo_PlanID w = p \<and> wo_Status w = WOPlanned) (work_orders db))),
      db\<lparr>work_orders := update_where (\<lambda>w. wo_PlanID w = p \<and> wo_Status w = WOPlanned)
           (\<lambda>w. w\<lparr>wo_Status := WOCanceled\<rparr>) (work_orders db)\<rparr>)"

record partialCompleteOp =
  po_WorkOrderID :: uuid
  po_ActualQty :: int
  po_ShortfallReason :: string
  po_CarryOverWO :: "WorkOrder option"

definition validShortfallReason :: "string \<Rightarrow> bool" where
  "validShortfallReason r \<longleftrightarrow> r \<in> {''MATERIAL_SHORTAGE'', ''DEFECT'', ''TIME_SHORTAGE'', ''OTHER''}"

text \<open>
  \<open>po_CarryOverWO\<close> is \<open>None\<close> when \<^verbatim>\<open>CarryOver\<close> is false. The parent and the carry-over are read back
  after the commit.
\<close>

definition partialCompleteAtomically ::
  "prod_refs \<Rightarrow> partialCompleteOp \<Rightarrow> (prod_db, WorkOrder \<times> WorkOrder option) op" where
  "partialCompleteAtomically refs pop db =
     (case wo_row (po_WorkOrderID pop) db of
        None \<Rightarrow> (Inl (Biz ErrNotFound), db)
      | Some w \<Rightarrow>
          if wo_Status w \<noteq> WOInProcessing then (Inl (Biz ErrInvalidTransition), db)
          else if \<not> in_int4 (po_ActualQty pop) then (Inl (Pg NumericOutOfRange), db)
          else if \<not> (0 \<le> po_ActualQty pop \<and> po_ActualQty pop \<le> wo_Quantity w) \<or> \<not> validShortfallReason (po_ShortfallReason pop)
               then (Inl (Pg CheckViolation), db)
          else (let closed = (\<lambda>w. w\<lparr>wo_Status := WOPartialComplete, wo_ActualQty := Some (po_ActualQty pop),
                                    wo_ShortfallReason := Some (po_ShortfallReason pop)\<rparr>);
                    db1 = update_wo (po_WorkOrderID pop) closed db
                in (case po_CarryOverWO pop of
                      None \<Rightarrow> (Inr (closed w, None), db1)
                    | Some c \<Rightarrow>
                        (case insertWorkOrder refs c db1 of
                           (Inl e, _) \<Rightarrow> (Inl e, db)
                         | (Inr _, db2) \<Rightarrow> (Inr (closed w, Some (wo_columns c)), db2)))))"

section \<open>Re-allocation\<close>

record woFeasibilityData =
  fd_Quantity :: int
  fd_Deadline :: "time option"
  fd_MaterialID :: uuid

definition plywood :: "prod_refs \<Rightarrow> uuid \<Rightarrow> bom_row list" where
  "plywood refs sku = filter (\<lambda>b. bom_SKUID b = sku \<and> bom_MaterialType b = ''PLYWOOD'') (ref_boms refs)"

text \<open>
  \<^verbatim>\<open>LIMIT 1\<close> without an order: the first joined row stands for the one the database picks.
\<close>

definition selectWOWithPlanDeadline :: "prod_schema \<Rightarrow> prod_refs \<Rightarrow> uuid \<Rightarrow> prod_db \<Rightarrow> woFeasibilityData result" where
  "selectWOWithPlanDeadline sch refs i db =
     (if \<not> sol_code_column sch then Inl (Pg UndefinedColumn)
      else (case wo_row i db of
              None \<Rightarrow> Inl (Biz ErrNotFound)
            | Some w \<Rightarrow> Inr \<lparr>fd_Quantity = wo_Quantity w, fd_Deadline = plan_deadline refs (wo_PlanID w),
                fd_MaterialID = (case plywood refs (wo_SKUID w) of [] \<Rightarrow> uuid_Nil | b # _ \<Rightarrow> bom_MaterialID b)\<rparr>))"

text \<open>
  Rows of a join with \<^verbatim>\<open>bom_components\<close>: an order appears once per bill row that matches. Deadlines
  ascend, missing ones last.
\<close>

definition deadline_order :: "prod_refs \<Rightarrow> WorkOrder \<Rightarrow> bool \<times> time" where
  "deadline_order refs w = (case plan_deadline refs (wo_PlanID w) of None \<Rightarrow> (True, 0) | Some t \<Rightarrow> (False, t))"

definition by_deadline :: "prod_refs \<Rightarrow> WorkOrder list \<Rightarrow> WorkOrder list" where
  "by_deadline refs ws =
     sort_key (\<lambda>w. fst (deadline_order refs w)) (sort_key (\<lambda>w. snd (deadline_order refs w)) ws)"

definition selectFeasibilitySuggestions :: "prod_refs \<Rightarrow> uuid \<Rightarrow> uuid \<Rightarrow> int \<Rightarrow> prod_db \<Rightarrow> WorkOrder list result" where
  "selectFeasibilitySuggestions refs material exclude limit db =
     Inr (take (nat limit) (by_deadline refs (concat (map
       (\<lambda>w. map (\<lambda>_. w) (filter (\<lambda>b. bom_MaterialID b = material) (plywood refs (wo_SKUID w))))
       (select_where (\<lambda>w. wo_Status w = WOPlanned \<and> wo_ID w \<noteq> exclude) (work_orders db))))))"

definition selectPreemptCandidates :: "prod_schema \<Rightarrow> prod_refs \<Rightarrow> uuid \<Rightarrow> prod_db \<Rightarrow> WorkOrder list result" where
  "selectPreemptCandidates sch refs i db =
     (if \<not> sol_code_column sch then Inl (Pg UndefinedColumn)
      else let mine = (case wo_row i db of None \<Rightarrow> [] | Some w \<Rightarrow> plywood refs (wo_SKUID w))
           in Inr (take 20 (by_deadline refs (concat (map
                (\<lambda>w. concat (map (\<lambda>b. map (\<lambda>_. w) (filter (\<lambda>m. bom_MaterialID m = bom_MaterialID b) mine))
                         (plywood refs (wo_SKUID w))))
                (select_where (\<lambda>w. wo_Status w \<in> {WOPlanned, WOInCutting} \<and> wo_ID w \<noteq> i) (work_orders db)))))))"

definition setPriorityBoostAtomically ::
  "prod_refs \<Rightarrow> env \<Rightarrow> uuid \<Rightarrow> string \<Rightarrow> uuid \<Rightarrow> (prod_db, uuid \<times> time) op" where
  "setPriorityBoostAtomically refs env i reason actor db =
     (case insert_checked (\<lambda>b. if wo_row (bl_WOID b) db = None \<or> \<not> user_known refs (bl_ActorID b)
                               then Some (Pg ForeignKeyViolation) else None) bl_ID
             \<lparr>bl_ID = fresh env 0, bl_WOID = i, bl_Reason = reason, bl_ActorID = actor, bl_CreatedAt = now env\<rparr>
             (boost_log db) of
        Inl e \<Rightarrow> (Inl e, db)
      | Inr t \<Rightarrow> (Inr (fresh env 0, now env), (update_wo i (\<lambda>w. w\<lparr>wo_PriorityBoost := True\<rparr>) db)\<lparr>boost_log := t\<rparr>))"

record preemptOp =
  pp_FromWOID :: uuid
  pp_ToWOID :: uuid
  pp_MaterialID :: uuid
  pp_Reason :: string
  pp_ActorID :: uuid

definition check_preemption :: "prod_refs \<Rightarrow> prod_db \<Rightarrow> PreemptionLog \<Rightarrow> error option" where
  "check_preemption refs db l =
     (if pl_FreedQty l \<ge> 10 ^ 9 then Some (Pg NumericOutOfRange)
      else if pl_FreedQty l \<le> 0 then Some (Pg CheckViolation)
      else if wo_row (pl_FromWOID l) db = None \<or> wo_row (pl_ToWOID l) db = None \<or>
              pl_MaterialID l \<notin> set (ref_materials refs) \<or> \<not> user_known refs (pl_ActorID l)
           then Some (Pg ForeignKeyViolation)
      else None)"

definition preemptAtomically :: "prod_refs \<Rightarrow> env \<Rightarrow> preemptOp \<Rightarrow> (prod_db, uuid \<times> time \<times> int) op" where
  "preemptAtomically refs env pop db =
     (case wo_row (pp_FromWOID pop) db of
        None \<Rightarrow> (Inl (Biz ErrNotFound), db)
      | Some w \<Rightarrow>
          if wo_Status w \<noteq> WOPlanned \<and> wo_Status w \<noteq> WOInCutting then (Inl (Biz ErrPreconditionFailed), db)
          else (case insert_checked (check_preemption refs db) pl_ID
                       \<lparr>pl_ID = fresh env 0, pl_FromWOID = pp_FromWOID pop, pl_ToWOID = pp_ToWOID pop,
                        pl_MaterialID = pp_MaterialID pop, pl_FreedQty = wo_Quantity w, pl_Reason = pp_Reason pop,
                        pl_ActorID = pp_ActorID pop, pl_CreatedAt = now env\<rparr> (preemption_log db) of
                  Inl e \<Rightarrow> (Inl e, db)
                | Inr t \<Rightarrow> (Inr (fresh env 0, now env, wo_Quantity w),
                     (update_wo (pp_FromWOID pop) (\<lambda>w. w\<lparr>wo_Status := WOPlanned\<rparr>) db)\<lparr>preemption_log := t\<rparr>)))"

section \<open>Blockers\<close>

definition insertBlocker :: "WOBlocker \<Rightarrow> (prod_db, unit) op" where
  "insertBlocker b db =
     (case insert_checked (\<lambda>b. if wo_row (bk_WorkOrderID b) db = None then Some (Pg ForeignKeyViolation) else None)
             bk_ID (b\<lparr>bk_ResolvedBy := None, bk_ResolvedAt := None\<rparr>) (blockers db) of
        Inl e \<Rightarrow> (Inl e, db)
      | Inr t \<Rightarrow> (Inr (), db\<lparr>blockers := t\<rparr>))"

definition getBlocker :: "uuid \<Rightarrow> prod_db \<Rightarrow> WOBlocker result" where
  "getBlocker i db = (case row_by bk_ID i (blockers db) of None \<Rightarrow> Inl (Biz ErrNotFound) | Some b \<Rightarrow> Inr b)"

definition resolveBlocker :: "uuid \<Rightarrow> uuid \<Rightarrow> time \<Rightarrow> (prod_db, WOBlocker) op" where
  "resolveBlocker i user t db =
     (case row_by bk_ID i (blockers db) of
        None \<Rightarrow> (Inl (Biz ErrPreconditionFailed), db)
      | Some b \<Rightarrow>
          if bk_ResolvedAt b \<noteq> None then (Inl (Biz ErrPreconditionFailed), db)
          else (let resolve = (\<lambda>b. b\<lparr>bk_ResolvedBy := Some user, bk_ResolvedAt := Some t\<rparr>)
                in (Inr (resolve b), db\<lparr>blockers := update_where (\<lambda>b. bk_ID b = i) resolve (blockers db)\<rparr>)))"

definition listBlockers :: "uuid \<Rightarrow> prod_db \<Rightarrow> WOBlocker list result" where
  "listBlockers i db = Inr (sort_key bk_CreatedAt (select_where (\<lambda>b. bk_WorkOrderID b = i) (blockers db)))"

definition countOpenBlockers :: "uuid \<Rightarrow> prod_db \<Rightarrow> int result" where
  "countOpenBlockers i db =
     Inr (int (count_where (\<lambda>b. bk_WorkOrderID b = i \<and> bk_ResolvedAt b = None) (blockers db)))"

end
