(* ===== verification/Production_Service.thy ===== *)
theory Production_Service
  imports Production_Store
begin

text \<open>
  The operations of \<^verbatim>\<open>internal/module/production/service.go\<close> over the store of \<open>Production_Store\<close>:
  creating, advancing, assigning and splitting work orders, machine slots, labor, blockers and
  the re-allocation of material between orders.

  The neighbours of the module (\<^verbatim>\<open>deps.go\<close>) are the fields of \<open>prod_deps\<close>. They read or change a state
  \<open>'x\<close> of their own; an operation runs on the pair of the module's tables and that state. \<open>refs\<close>
  is the neighbours' tables as the module's own SQL sees them. An optional neighbour is an
  \<open>option\<close>, as the service tests it for \<^verbatim>\<open>nil\<close>; the plan, SKU and user readers are always wired.
  Logging is left out.

  \<open>AdvanceStatus\<close> reads and checks first and writes later without holding a lock in between, so it
  is composed of \<open>advance_checks\<close> and \<open>advance_commit\<close>.
\<close>

section \<open>Interfaces to the other modules\<close>

record PlanInfo =
  pi_ID :: uuid
  pi_Status :: PlanStatus
  pi_SKUIDs :: "uuid list"

record SKUInfo =
  ki_ID :: uuid
  ki_RequiresMetal :: bool
  ki_Dimensions :: Dimension

record UserInfo =
  us_ID :: uuid
  us_Role :: string
  us_IsActive :: bool

record PreAssignSheetRequest =
  pq_SheetID :: uuid
  pq_WorkOrderID :: uuid
  pq_BypassOverflow :: bool
  pq_ActorID :: uuid
  pq_Reason :: string

record LogRemnantBypassRequest =
  lb_WorkOrderID :: uuid
  lb_ActorID :: uuid
  lb_SuggestedRemnantIDs :: "uuid list"
  lb_Reason :: string

record WOCompletedEvent =
  we_WorkOrderID :: uuid
  we_SKUID :: uuid
  we_Quantity :: int
  we_SalesOrderLineID :: "uuid option"
  we_ProductionPlanID :: uuid
  we_QCPassedBy :: uuid

record 'x CostingChecker =
  HasCostingRecord_dep :: "uuid \<Rightarrow> 'x \<Rightarrow> bool result"
  IsCostingFinalized_dep :: "uuid \<Rightarrow> 'x \<Rightarrow> bool result"

record 'x RemnantAdvisor =
  SuggestRemnants_dep :: "Dimension \<Rightarrow> 'x \<Rightarrow> uuid list result"
  LogRemnantBypass_dep :: "LogRemnantBypassRequest \<Rightarrow> ('x, unit) op"

record 'x WorkOrderNotifier =
  NotifyAssignment_dep :: "uuid \<Rightarrow> uuid \<Rightarrow> ('x, unit) op"
  NotifyWOStatusChanged_dep :: "uuid \<Rightarrow> WorkOrderStatus \<Rightarrow> ('x, unit) op"

record 'x prod_deps =
  refs :: "'x \<Rightarrow> prod_refs"
  pc :: "uuid \<Rightarrow> 'x \<Rightarrow> PlanInfo result"
  sc :: "uuid \<Rightarrow> 'x \<Rightarrow> SKUInfo result"
  uc :: "uuid \<Rightarrow> 'x \<Rightarrow> UserInfo result"
  sa :: "(PreAssignSheetRequest \<Rightarrow> ('x, unit) op) option"
  cc :: "'x CostingChecker option"
  ra :: "'x RemnantAdvisor option"
  stk :: "(uuid \<Rightarrow> 'x \<Rightarrow> int result) option"
  br :: "(uuid \<Rightarrow> 'x \<Rightarrow> uuid list result) option"
  wo_notifier :: "'x WorkOrderNotifier option"
  fgHook :: "(WOCompletedEvent \<Rightarrow> ('x, unit) op) option"

text \<open>Run an operation of the module's own tables beside the neighbours' state.\<close>

definition local_op :: "('s, 'a) op \<Rightarrow> ('s \<times> 'x, 'a) op" where
  "local_op f st = (case f (fst st) of (r, s) \<Rightarrow> (r, (s, snd st)))"

section \<open>Creating a work order\<close>

record CreateWOInput =
  cw_PlanID :: uuid
  cw_SKUID :: uuid
  cw_Quantity :: int
  cw_BypassReason :: string
  cw_CallerID :: "uuid option"
  cw_SalesOrderLineID :: "uuid option"

definition planContainsSKU :: "PlanInfo \<Rightarrow> uuid \<Rightarrow> bool" where
  "planContainsSKU plan sku \<longleftrightarrow> list_ex (\<lambda>i. i = sku) (pi_SKUIDs plan)"

fun check_stock :: "(uuid \<Rightarrow> int result) \<Rightarrow> int \<Rightarrow> uuid list \<Rightarrow> unit result" where
  "check_stock count qty [] = Inr ()"
| "check_stock count qty (m # ms) =
     (case count m of
        Inl e \<Rightarrow> Inl e
      | Inr n \<Rightarrow> if n < qty then Inl (Biz ErrInsufficientStock) else check_stock count qty ms)"

definition stock_check :: "'x prod_deps \<Rightarrow> uuid \<Rightarrow> int \<Rightarrow> 'x \<Rightarrow> unit result" where
  "stock_check deps sku qty x =
     (case (stk deps, br deps) of
        (Some count, Some bom) \<Rightarrow>
          (case bom sku x of Inl e \<Rightarrow> Inl e | Inr reqs \<Rightarrow> check_stock (\<lambda>m. count m x) qty reqs)
      | _ \<Rightarrow> Inr ())"

definition remnant_advice :: "'x prod_deps \<Rightarrow> uuid \<Rightarrow> SKUInfo \<Rightarrow> CreateWOInput \<Rightarrow> 'x \<Rightarrow> 'x" where
  "remnant_advice deps woID sku inp x =
     (case (ra deps, cw_CallerID inp) of
        (Some adv, Some caller) \<Rightarrow>
          if \<not> Valid (ki_Dimensions sku) then x
          else (case SuggestRemnants_dep adv (ki_Dimensions sku) x of
                  Inl _ \<Rightarrow> x
                | Inr ids \<Rightarrow>
                    if ids = [] then x
                    else snd (LogRemnantBypass_dep adv
                           \<lparr>lb_WorkOrderID = woID, lb_ActorID = caller, lb_SuggestedRemnantIDs = ids,
                            lb_Reason = cw_BypassReason inp\<rparr> x))
      | _ \<Rightarrow> x)"

definition new_work_order :: "uuid \<Rightarrow> uuid \<Rightarrow> uuid \<Rightarrow> int \<Rightarrow> uuid option \<Rightarrow> uuid option \<Rightarrow> time \<Rightarrow> WorkOrder" where
  "new_work_order i plan sku qty soLine parent t =
     \<lparr>wo_ID = i, wo_PlanID = plan, wo_SKUID = sku, wo_Quantity = qty, wo_Status = WOPlanned,
      wo_AssignedTo = None, wo_AssignedAt = None, wo_EstimatedHours = None, wo_MachineSlotID = None,
      wo_SalesOrderLineID = soLine, wo_ActualQty = None, wo_ParentWOID = parent,
      wo_ShortfallReason = None, wo_PriorityBoost = False, wo_QCStatus = None, wo_CreatedAt = t\<rparr>"

definition CreateWorkOrder :: "'x prod_deps \<Rightarrow> env \<Rightarrow> CreateWOInput \<Rightarrow> (prod_db \<times> 'x, WorkOrder) op" where
  "CreateWorkOrder deps env inp st =
     (let x = snd st in
      case pc deps (cw_PlanID inp) x of
        Inl e \<Rightarrow> (Inl e, st)
      | Inr plan \<Rightarrow>
          if pi_Status plan \<noteq> PlanApproved then (Inl (Biz ErrPreconditionFailed), st)
          else if \<not> planContainsSKU plan (cw_SKUID inp) then (Inl (Biz ErrPreconditionFailed), st)
          else if cw_Quantity inp \<le> 0 then (Inl (Biz ErrInvalidInput), st)
          else (case sc deps (cw_SKUID inp) x of
                  Inl e \<Rightarrow> (Inl e, st)
                | Inr sku \<Rightarrow>
                    (case stock_check deps (cw_SKUID inp) (cw_Quantity inp) x of
                       Inl e \<Rightarrow> (Inl e, st)
                     | Inr _ \<Rightarrow>
                         let w = new_work_order (fresh env 0) (cw_PlanID inp) (cw_SKUID inp) (cw_Quantity inp)
                               (cw_SalesOrderLineID inp) None (now env)
                         in (case insertWorkOrder (refs deps x) w (fst st) of
                               (Inl e, db) \<Rightarrow> (Inl e, (db, x))
                             | (Inr _, db) \<Rightarrow> (Inr w, (db, remnant_advice deps (wo_ID w) sku inp x))))))"

section \<open>Advancing a work order\<close>

record AdvanceStatusInput =
  as_To :: WorkOrderStatus
  as_SheetID :: "uuid option"
  as_CallerID :: "uuid option"
  as_CallerRole :: string
  as_BypassOverflow :: bool
  as_BypassReason :: string

abbreviation RoleAdmin :: string where "RoleAdmin \<equiv> ''admin''"
abbreviation RoleCNC :: string where "RoleCNC \<equiv> ''cnc''"

definition assignment_guard :: "WorkOrder \<Rightarrow> AdvanceStatusInput \<Rightarrow> unit result" where
  "assignment_guard wo inp =
     (if as_To inp = WOInCutting \<and> as_CallerRole inp \<noteq> RoleAdmin
      then (case wo_AssignedTo wo of
              None \<Rightarrow> Inl (Biz ErrPreconditionFailed)
            | Some a \<Rightarrow> (case as_CallerID inp of
                           None \<Rightarrow> Inr ()
                         | Some c \<Rightarrow> if c \<noteq> a then Inl (Biz ErrPreconditionFailed) else Inr ()))
      else Inr ())"

definition costing_guard :: "'x prod_deps \<Rightarrow> uuid \<Rightarrow> AdvanceStatusInput \<Rightarrow> 'x \<Rightarrow> unit result" where
  "costing_guard deps woID inp x =
     (case cc deps of
        None \<Rightarrow> Inr ()
      | Some c \<Rightarrow>
          if as_To inp \<noteq> WOInCutting then Inr ()
          else (case HasCostingRecord_dep c woID x of
                  Inl e \<Rightarrow> Inl e
                | Inr has \<Rightarrow> if has then Inr () else Inl (Biz ErrPreconditionFailed)))"

definition metal_guard :: "'x prod_deps \<Rightarrow> WorkOrder \<Rightarrow> AdvanceStatusInput \<Rightarrow> prod_db \<times> 'x \<Rightarrow> unit result" where
  "metal_guard deps wo inp st =
     (if as_To inp \<noteq> WOCompleted then Inr ()
      else (case sc deps (wo_SKUID wo) (snd st) of
              Inl e \<Rightarrow> Inl e
            | Inr sku \<Rightarrow>
                if \<not> ki_RequiresMetal sku then Inr ()
                else (case hasMetalConsumption (wo_ID wo) (fst st) of
                        Inl e \<Rightarrow> Inl e
                      | Inr has \<Rightarrow> if has then Inr () else Inl (Biz ErrPreconditionFailed))))"

definition advance_guards :: "'x prod_deps \<Rightarrow> uuid \<Rightarrow> AdvanceStatusInput \<Rightarrow> prod_db \<times> 'x \<Rightarrow> WorkOrder result" where
  "advance_guards deps woID inp st =
     (case selectWorkOrderByID woID (fst st) of
        Inl e \<Rightarrow> Inl e
      | Inr wo \<Rightarrow>
          if \<not> CanTransitionTo (wo_Status wo) (as_To inp) then Inl (Biz ErrInvalidTransition)
          else (case countOpenBlockers woID (fst st) of
                  Inl e \<Rightarrow> Inl e
                | Inr openCount \<Rightarrow>
                    if openCount > 0 then Inl (Biz ErrPreconditionFailed)
                    else (case assignment_guard wo inp of
                            Inl e \<Rightarrow> Inl e
                          | Inr _ \<Rightarrow>
                              (case costing_guard deps woID inp (snd st) of
                                 Inl e \<Rightarrow> Inl e
                               | Inr _ \<Rightarrow>
                                   (case metal_guard deps wo inp st of
                                      Inl e \<Rightarrow> Inl e
                                    | Inr _ \<Rightarrow> Inr wo)))))"

definition preassign :: "'x prod_deps \<Rightarrow> uuid \<Rightarrow> AdvanceStatusInput \<Rightarrow> ('x, unit) op" where
  "preassign deps woID inp x =
     (case (as_SheetID inp, sa deps) of
        (Some sheet, Some assign) \<Rightarrow>
          if as_To inp \<noteq> WOInCutting then (Inr (), x)
          else if as_BypassOverflow inp \<and> as_CallerRole inp \<noteq> RoleAdmin then (Inl (Biz ErrPreconditionFailed), x)
          else if as_BypassOverflow inp \<and> as_BypassReason inp = [] then (Inl (Biz ErrInvalidInput), x)
          else assign \<lparr>pq_SheetID = sheet, pq_WorkOrderID = woID, pq_BypassOverflow = as_BypassOverflow inp,
                 pq_ActorID = (if as_BypassOverflow inp then (case as_CallerID inp of None \<Rightarrow> uuid_Nil | Some c \<Rightarrow> c)
                               else uuid_Nil),
                 pq_Reason = (if as_BypassOverflow inp then as_BypassReason inp else [])\<rparr> x
      | _ \<Rightarrow> (Inr (), x))"

text \<open>Everything before the status is written: the checks, and the sheet given to the order.\<close>

definition advance_checks :: "'x prod_deps \<Rightarrow> uuid \<Rightarrow> AdvanceStatusInput \<Rightarrow> (prod_db \<times> 'x, WorkOrder) op" where
  "advance_checks deps woID inp st =
     (case advance_guards deps woID inp st of
        Inl e \<Rightarrow> (Inl e, st)
      | Inr wo \<Rightarrow>
          (case preassign deps woID inp (snd st) of
             (Inl e, x) \<Rightarrow> (Inl e, (fst st, x))
           | (Inr _, x) \<Rightarrow> (Inr wo, (fst st, x))))"

definition notify_status :: "'x prod_deps \<Rightarrow> uuid \<Rightarrow> WorkOrderStatus \<Rightarrow> 'x \<Rightarrow> 'x" where
  "notify_status deps woID st x =
     (case wo_notifier deps of None \<Rightarrow> x | Some n \<Rightarrow> snd (NotifyWOStatusChanged_dep n woID st x))"

definition fire_fg_hook :: "'x prod_deps \<Rightarrow> WorkOrder \<Rightarrow> int \<Rightarrow> uuid \<Rightarrow> 'x \<Rightarrow> 'x" where
  "fire_fg_hook deps wo qty actor x =
     (case fgHook deps of
        None \<Rightarrow> x
      | Some h \<Rightarrow> snd (h \<lparr>we_WorkOrderID = wo_ID wo, we_SKUID = wo_SKUID wo, we_Quantity = qty,
          we_SalesOrderLineID = wo_SalesOrderLineID wo, we_ProductionPlanID = wo_PlanID wo,
          we_QCPassedBy = actor\<rparr> x))"

definition acting_user :: "uuid option \<Rightarrow> WorkOrder \<Rightarrow> uuid" where
  "acting_user caller wo =
     (case caller of Some c \<Rightarrow> c | None \<Rightarrow> (case wo_AssignedTo wo of Some a \<Rightarrow> a | None \<Rightarrow> uuid_Nil))"

text \<open>From the write on: \<open>wo\<close> is the row as it was read by the checks.\<close>

definition advance_commit :: "'x prod_deps \<Rightarrow> WorkOrder \<Rightarrow> AdvanceStatusInput \<Rightarrow> (prod_db \<times> 'x, unit) op" where
  "advance_commit deps wo inp st =
     (case updateWorkOrderStatus (wo_ID wo) (as_To inp) (fst st) of
        (Inl e, db) \<Rightarrow> (Inl e, (db, snd st))
      | (Inr _, db) \<Rightarrow>
          let x = notify_status deps (wo_ID wo) (as_To inp) (snd st);
              x = (if as_To inp = WOCompleted
                   then fire_fg_hook deps wo (wo_Quantity wo) (acting_user (as_CallerID inp) wo) x else x)
          in (Inr (), (db, x)))"

definition AdvanceStatus :: "'x prod_deps \<Rightarrow> uuid \<Rightarrow> AdvanceStatusInput \<Rightarrow> (prod_db \<times> 'x, unit) op" where
  "AdvanceStatus deps woID inp st =
     (case advance_checks deps woID inp st of
        (Inl e, st1) \<Rightarrow> (Inl e, st1)
      | (Inr wo, st1) \<Rightarrow> advance_commit deps wo inp st1)"

section \<open>Consumption and assignment\<close>

record RecordConsumptionInput =
  rc_WorkOrderID :: uuid
  rc_MaterialID :: uuid
  rc_MaterialType :: string
  rc_Quantity :: rat
  rc_Unit :: string

definition RecordConsumption :: "'x prod_deps \<Rightarrow> env \<Rightarrow> RecordConsumptionInput \<Rightarrow> (prod_db \<times> 'x, ConsumptionRecord) op" where
  "RecordConsumption deps env inp st =
     (case selectWorkOrderByID (rc_WorkOrderID inp) (fst st) of
        Inl e \<Rightarrow> (Inl e, st)
      | Inr wo \<Rightarrow>
          if wo_Status wo \<noteq> WOInProcessing \<and> wo_Status wo \<noteq> WOCompleted then (Inl (Biz ErrPreconditionFailed), st)
          else if rc_Quantity inp \<le> 0 then (Inl (Biz ErrInvalidInput), st)
          else (let cr = \<lparr>cn_ID = fresh env 0, cn_WorkOrderID = rc_WorkOrderID inp, cn_MaterialID = rc_MaterialID inp,
                          cn_MaterialType = rc_MaterialType inp, cn_Quantity = rc_Quantity inp,
                          cn_Unit = rc_Unit inp, cn_CreatedAt = now env\<rparr>
                in (case insertConsumption (refs deps (snd st)) cr (fst st) of
                      (Inl e, db) \<Rightarrow> (Inl e, (db, snd st))
                    | (Inr _, db) \<Rightarrow> (Inr cr, (db, snd st)))))"

definition ListConsumptions :: "uuid \<Rightarrow> prod_db \<Rightarrow> ConsumptionRecord list result" where
  "ListConsumptions woID db =
     (case selectWorkOrderByID woID db of Inl e \<Rightarrow> Inl e | Inr _ \<Rightarrow> selectConsumptionsByWO woID db)"

definition AssignWorkOrder :: "'x prod_deps \<Rightarrow> env \<Rightarrow> uuid \<Rightarrow> uuid \<Rightarrow> (prod_db \<times> 'x, WorkOrder) op" where
  "AssignWorkOrder deps env woID userID st =
     (case selectWorkOrderByID woID (fst st) of
        Inl e \<Rightarrow> (Inl e, st)
      | Inr wo \<Rightarrow>
          if wo_Status wo \<noteq> WOPlanned then (Inl (Biz ErrPreconditionFailed), st)
          else (case uc deps userID (snd st) of
                  Inl e \<Rightarrow> (Inl e, st)
                | Inr u \<Rightarrow>
                    if us_Role u \<noteq> RoleCNC then (Inl (Biz ErrInvalidInput), st)
                    else (case updateWorkOrderAssignment (refs deps (snd st)) woID userID (now env) (fst st) of
                            (Inl e, db) \<Rightarrow> (Inl e, (db, snd st))
                          | (Inr _, db) \<Rightarrow>
                              (Inr (wo\<lparr>wo_AssignedTo := Some userID, wo_AssignedAt := Some (now env)\<rparr>),
                               (db, case wo_notifier deps of None \<Rightarrow> snd st
                                    | Some n \<Rightarrow> snd (NotifyAssignment_dep n userID woID (snd st)))))))"

record SuggestAssignmentResult =
  sar_UserID :: uuid
  sar_InCuttingCount :: int

text \<open>The loop keeps the first user with the lowest count.\<close>

fun least_busy :: "(uuid \<Rightarrow> int) \<Rightarrow> uuid \<Rightarrow> uuid list \<Rightarrow> uuid" where
  "least_busy load best [] = best"
| "least_busy load best (u # us) = least_busy load (if load u < load best then u else best) us"

definition SuggestAssignment :: "'x prod_deps \<Rightarrow> uuid \<Rightarrow> prod_db \<times> 'x \<Rightarrow> SuggestAssignmentResult result" where
  "SuggestAssignment deps woID st =
     (case selectWorkOrderByID woID (fst st) of
        Inl e \<Rightarrow> Inl e
      | Inr _ \<Rightarrow>
          (case selectCNCUserIDs (refs deps (snd st)) of
             Inl e \<Rightarrow> Inl e
           | Inr [] \<Rightarrow> Inl (Biz ErrNotFound)
           | Inr (u # us) \<Rightarrow>
               (case selectInCuttingCountByUser (fst st) of
                  Inl e \<Rightarrow> Inl e
                | Inr load \<Rightarrow> let best = least_busy load u us
                              in Inr \<lparr>sar_UserID = best, sar_InCuttingCount = load best\<rparr>)))"

section \<open>Machines and slots\<close>

record CreateMachineInput =
  cm_Code :: string
  cm_Name :: string
  cm_CapacityHoursPerShift :: rat

text \<open>The row is returned; the Go value echoes the requested capacity before its rounding.\<close>

definition CreateMachine :: "env \<Rightarrow> CreateMachineInput \<Rightarrow> (prod_db, Machine) op" where
  "CreateMachine env inp db =
     (if cm_Code inp = [] then (Inl (Biz ErrInvalidInput), db)
      else if cm_Name inp = [] then (Inl (Biz ErrInvalidInput), db)
      else if cm_CapacityHoursPerShift inp \<le> 0 then (Inl (Biz ErrInvalidInput), db)
      else (case numeric_6_2 (cm_CapacityHoursPerShift inp) of
              Inl e \<Rightarrow> (Inl e, db)
            | Inr c \<Rightarrow>
                let m = \<lparr>ma_ID = fresh env 0, ma_Code = cm_Code inp, ma_Name = cm_Name inp,
                         ma_CapacityHoursPerShift = c, ma_IsActive = True, ma_CreatedAt = now env\<rparr>
                in (case insertMachine m db of (Inl e, db1) \<Rightarrow> (Inl e, db1) | (Inr _, db1) \<Rightarrow> (Inr m, db1))))"

definition DeactivateMachine :: "uuid \<Rightarrow> (prod_db, unit) op" where
  "DeactivateMachine i = deactivateMachine i"

record CreateSlotInput =
  ct_MachineID :: uuid
  ct_ShiftDate :: time
  ct_ShiftName :: string
  ct_CapacityHours :: "rat option"

text \<open>
  Without a capacity of its own a slot gets the machine's, which reaches the column again as the
  same two decimals.
\<close>

definition CreateSlot :: "env \<Rightarrow> CreateSlotInput \<Rightarrow> (prod_db, MachineShiftSlot) op" where
  "CreateSlot env inp db =
     (if ct_ShiftName inp = [] then (Inl (Biz ErrInvalidInput), db)
      else if ct_ShiftDate inp = 0 then (Inl (Biz ErrInvalidInput), db)
      else (case selectMachineByID (ct_MachineID inp) db of
              Inl e \<Rightarrow> (Inl e, db)
            | Inr m \<Rightarrow>
                if \<not> ma_IsActive m then (Inl (Biz ErrInvalidInput), db)
                else if (case ct_CapacityHours inp of None \<Rightarrow> False | Some h \<Rightarrow> h \<le> 0) then (Inl (Biz ErrInvalidInput), db)
                else (case (case ct_CapacityHours inp of None \<Rightarrow> Inr (ma_CapacityHoursPerShift m) | Some h \<Rightarrow> numeric_6_2 h) of
                        Inl e \<Rightarrow> (Inl e, db)
                      | Inr c \<Rightarrow>
                          let s = \<lparr>sl_ID = fresh env 0, sl_MachineID = ct_MachineID inp, sl_ShiftDate = ct_ShiftDate inp,
                                   sl_ShiftName = ct_ShiftName inp, sl_CapacityHours = c, sl_CreatedAt = now env\<rparr>
                          in (case insertSlot s db of (Inl e, db1) \<Rightarrow> (Inl e, db1) | (Inr _, db1) \<Rightarrow> (Inr s, db1)))))"

definition ListSlots :: "uuid \<Rightarrow> time \<Rightarrow> time \<Rightarrow> prod_db \<Rightarrow> (MachineShiftSlot \<times> int) list result" where
  "ListSlots m from to db =
     (if from > to then Inl (Biz ErrInvalidInput) else selectSlotsByMachine m from to db)"

definition DeleteSlot :: "uuid \<Rightarrow> (prod_db, unit) op" where
  "DeleteSlot i = deleteSlot i"

definition SetEstimatedHours :: "uuid \<Rightarrow> rat \<Rightarrow> (prod_db, WorkOrder) op" where
  "SetEstimatedHours woID hours db =
     (if hours \<le> 0 then (Inl (Biz ErrInvalidInput), db)
      else (case updateEstimatedHours woID hours db of
              (Inl e, db1) \<Rightarrow> (Inl e, db1)
            | (Inr _, db1) \<Rightarrow> (selectWorkOrderByID woID db1, db1)))"

definition AssignSlot :: "uuid \<Rightarrow> uuid \<Rightarrow> (prod_db, WorkOrder) op" where
  "AssignSlot woID slotID db =
     (case selectWorkOrderByID woID db of
        Inl e \<Rightarrow> (Inl e, db)
      | Inr wo \<Rightarrow>
          if wo_Status wo \<noteq> WOPlanned \<and> wo_Status wo \<noteq> WOInCutting then (Inl (Biz ErrPreconditionFailed), db)
          else (case wo_EstimatedHours wo of
                  None \<Rightarrow> (Inl (Biz ErrPreconditionFailed), db)
                | Some h \<Rightarrow>
                    (case assignSlotAtomically woID slotID (hours_float h) db of
                       (Inl e, db1) \<Rightarrow> (Inl e, db1)
                     | (Inr _, db1) \<Rightarrow> (selectWorkOrderByID woID db1, db1))))"

definition UnassignSlot :: "uuid \<Rightarrow> (prod_db, WorkOrder) op" where
  "UnassignSlot woID db =
     (case unassignWOFromSlot woID db of
        (Inl e, db1) \<Rightarrow> (Inl e, db1)
      | (Inr _, db1) \<Rightarrow> (selectWorkOrderByID woID db1, db1))"

record ScheduleSuggestion =
  ss_Slot :: "MachineShiftSlot \<times> int"
  ss_AvailableHours :: rat
  ss_Rank :: int

definition SuggestSchedule :: "time \<Rightarrow> uuid \<Rightarrow> prod_db \<Rightarrow> ScheduleSuggestion list result" where
  "SuggestSchedule today woID db =
     (case selectWorkOrderByID woID db of
        Inl e \<Rightarrow> Inl e
      | Inr wo \<Rightarrow>
          (case wo_EstimatedHours wo of
             None \<Rightarrow> Inl (Biz ErrPreconditionFailed)
           | Some h \<Rightarrow>
               (case selectFutureSlotsWithCapacity today h db of
                  Inl e \<Rightarrow> Inl e
                | Inr vs \<Rightarrow>
                    let vs = take 5 vs
                    in Inr (map (\<lambda>(i, v). \<lparr>ss_Slot = v,
                              ss_AvailableHours = fl (hours_float (sl_CapacityHours (fst v)) - hours_float (snd v)),
                              ss_Rank = int i + 1\<rparr>) (zip [0..<length vs] vs)))))"

section \<open>Labor\<close>

text \<open>The stage is a string; \<open>None\<close> is one that \<^verbatim>\<open>Stage.Valid\<close> refuses.\<close>

record RecordLaborEntryInput =
  lbi_WorkOrderID :: uuid
  lbi_Stage :: "LaborStage option"
  lbi_Minutes :: int
  lbi_RatePerHour :: int
  lbi_WorkerID :: "uuid option"
  lbi_ActorID :: uuid

definition labor_worker :: "'x prod_deps \<Rightarrow> RecordLaborEntryInput \<Rightarrow> 'x \<Rightarrow> uuid result" where
  "labor_worker deps inp x =
     (case lbi_WorkerID inp of
        None \<Rightarrow> Inr (lbi_ActorID inp)
      | Some w \<Rightarrow>
          if w = uuid_Nil then Inl (Biz ErrInvalidInput)
          else (case uc deps w x of
                  Inl _ \<Rightarrow> Inl (Biz ErrInvalidInput)
                | Inr u \<Rightarrow> if us_IsActive u then Inr w else Inl (Biz ErrInvalidInput)))"

definition finalized_guard :: "'x prod_deps \<Rightarrow> uuid \<Rightarrow> 'x \<Rightarrow> unit result" where
  "finalized_guard deps woID x =
     (case cc deps of
        None \<Rightarrow> Inr ()
      | Some c \<Rightarrow> (case IsCostingFinalized_dep c woID x of
                     Inl e \<Rightarrow> Inl e
                   | Inr f \<Rightarrow> if f then Inl (Biz ErrAlreadyFinalized) else Inr ()))"

definition RecordLaborEntry :: "'x prod_deps \<Rightarrow> env \<Rightarrow> RecordLaborEntryInput \<Rightarrow> (prod_db \<times> 'x, LaborEntry) op" where
  "RecordLaborEntry deps env inp st =
     (let x = snd st in
      if lbi_WorkOrderID inp = uuid_Nil then (Inl (Biz ErrInvalidInput), st)
      else (case lbi_Stage inp of
        None \<Rightarrow> (Inl (Biz ErrInvalidInput), st)
      | Some stage \<Rightarrow>
          if lbi_Minutes inp \<le> 0 then (Inl (Biz ErrInvalidInput), st)
          else if lbi_RatePerHour inp < 0 then (Inl (Biz ErrInvalidInput), st)
          else if lbi_ActorID inp = uuid_Nil then (Inl (Biz ErrInvalidInput), st)
          else (case labor_worker deps inp x of
                  Inl e \<Rightarrow> (Inl e, st)
                | Inr worker \<Rightarrow>
                    (case selectWorkOrderByID (lbi_WorkOrderID inp) (fst st) of
                       Inl e \<Rightarrow> (Inl e, st)
                     | Inr _ \<Rightarrow>
                         (case finalized_guard deps (lbi_WorkOrderID inp) x of
                            Inl e \<Rightarrow> (Inl e, st)
                          | Inr _ \<Rightarrow>
                              let entry = \<lparr>le_ID = fresh env 0, le_WorkOrderID = lbi_WorkOrderID inp, le_Stage = stage,
                                           le_Minutes = lbi_Minutes inp, le_RatePerHour = lbi_RatePerHour inp,
                                           le_WorkerID = worker, le_ActorID = lbi_ActorID inp, le_CreatedAt = now env\<rparr>
                              in (case insertLaborEntry (refs deps x) entry (fst st) of
                                    (Inl e, db) \<Rightarrow> (Inl e, (db, x))
                                  | (Inr _, db) \<Rightarrow> (Inr entry, (db, x))))))))"

definition ListLaborEntries :: "uuid \<Rightarrow> prod_db \<Rightarrow> LaborEntry list result" where
  "ListLaborEntries woID db =
     (if woID = uuid_Nil then Inl (Biz ErrInvalidInput) else selectLaborEntriesByWO woID db)"

definition SumLaborCost :: "uuid \<Rightarrow> prod_db \<Rightarrow> Money result" where
  "SumLaborCost woID db =
     (if woID = uuid_Nil then Inl (Biz ErrInvalidInput)
      else (case sumLaborMinuteRateByWO woID db of
              Inl e \<Rightarrow> Inl e
            | Inr dongMinutes \<Rightarrow> Inr (VND (quot dongMinutes 60))))"

section \<open>The plan cascade\<close>

definition ListStatusesByPlan :: "uuid \<Rightarrow> prod_db \<Rightarrow> WorkOrderStatus list result" where
  "ListStatusesByPlan planID db =
     (if planID = uuid_Nil then Inl (Biz ErrInvalidInput) else listStatusesByPlan planID db)"

definition CancelPlannedByPlan :: "uuid \<Rightarrow> (prod_db, int) op" where
  "CancelPlannedByPlan planID db =
     (if planID = uuid_Nil then (Inl (Biz ErrInvalidInput), db) else cancelPlannedByPlan planID db)"

section \<open>Partial completion\<close>

record PartialCompleteInput =
  pci_WorkOrderID :: uuid
  pci_ActualQty :: int
  pci_ShortfallReason :: string
  pci_CarryOver :: bool
  pci_CarryOverPlanID :: "uuid option"
  pci_CallerID :: "uuid option"

record PartialCompleteResult =
  pcr_WOUpdated :: WorkOrder
  pcr_CarryOverWO :: "WorkOrder option"

definition carry_over_of :: "env \<Rightarrow> PartialCompleteInput \<Rightarrow> WorkOrder \<Rightarrow> WorkOrder option" where
  "carry_over_of env inp wo =
     (if pci_CarryOver inp
      then Some (new_work_order (fresh env 0) (case pci_CarryOverPlanID inp of None \<Rightarrow> wo_PlanID wo | Some p \<Rightarrow> p)
             (wo_SKUID wo) (i64 (wo_Quantity wo - pci_ActualQty inp)) (wo_SalesOrderLineID wo) (Some (wo_ID wo)) (now env))
      else None)"

definition PartialComplete ::
  "'x prod_deps \<Rightarrow> env \<Rightarrow> PartialCompleteInput \<Rightarrow> (prod_db \<times> 'x, PartialCompleteResult) op" where
  "PartialComplete deps env inp st =
     (if pci_WorkOrderID inp = uuid_Nil then (Inl (Biz ErrInvalidInput), st)
      else if \<not> validShortfallReason (pci_ShortfallReason inp) then (Inl (Biz ErrInvalidInput), st)
      else (case selectWorkOrderByID (pci_WorkOrderID inp) (fst st) of
              Inl e \<Rightarrow> (Inl e, st)
            | Inr wo \<Rightarrow>
                if wo_Status wo \<noteq> WOInProcessing then (Inl (Biz ErrInvalidTransition), st)
                else if pci_ActualQty inp < 1 \<or> pci_ActualQty inp \<ge> wo_Quantity wo then (Inl (Biz ErrInvalidInput), st)
                else (case partialCompleteAtomically (refs deps (snd st))
                             \<lparr>po_WorkOrderID = wo_ID wo, po_ActualQty = pci_ActualQty inp,
                              po_ShortfallReason = pci_ShortfallReason inp, po_CarryOverWO = carry_over_of env inp wo\<rparr>
                             (fst st) of
                        (Inl e, db) \<Rightarrow> (Inl e, (db, snd st))
                      | (Inr (parent, carry), db) \<Rightarrow>
                          let x = notify_status deps (wo_ID parent) WOPartialComplete (snd st);
                              x = fire_fg_hook deps parent (pci_ActualQty inp) (acting_user (pci_CallerID inp) parent) x
                          in (Inr \<lparr>pcr_WOUpdated = parent, pcr_CarryOverWO = carry\<rparr>, (db, x)))))"

section \<open>Feasibility, boost and preemption\<close>

record WOFeasibilitySuggestion =
  fs_WOID :: uuid
  fs_Score :: rat
  fs_DaysToDue :: int
  fs_FreedQty :: int

record WOFeasibilityResult =
  fr_Feasible :: bool
  fr_Reason :: string
  fr_Suggestions :: "WOFeasibilitySuggestion list"

definition feasibility_suggestion :: "prod_refs \<Rightarrow> time \<Rightarrow> WorkOrder \<Rightarrow> WOFeasibilitySuggestion" where
  "feasibility_suggestion rf t w =
     (case plan_deadline rf (wo_PlanID w) of
        None \<Rightarrow> \<lparr>fs_WOID = wo_ID w, fs_Score = 0, fs_DaysToDue = 0, fs_FreedQty = wo_Quantity w\<rparr>
      | Some dl \<Rightarrow>
          let d = max 0 (quot (dl - t) day_micros)
          in \<lparr>fs_WOID = wo_ID w, fs_Score = (if d > 0 then fl (1 / of_int d) else 999),
              fs_DaysToDue = d, fs_FreedQty = wo_Quantity w\<rparr>)"

fun short_material :: "(uuid \<Rightarrow> int result) \<Rightarrow> int \<Rightarrow> uuid list \<Rightarrow> bool result" where
  "short_material count qty [] = Inr False"
| "short_material count qty (m # ms) =
     (case count m of
        Inl e \<Rightarrow> Inl e
      | Inr n \<Rightarrow> if n < qty then Inr True else short_material count qty ms)"

definition CheckFeasibility :: "prod_schema \<Rightarrow> 'x prod_deps \<Rightarrow> env \<Rightarrow> uuid \<Rightarrow> prod_db \<times> 'x \<Rightarrow> WOFeasibilityResult result" where
  "CheckFeasibility sch deps env woID st =
     (let x = snd st; rf = refs deps x; feasible = \<lparr>fr_Feasible = True, fr_Reason = [], fr_Suggestions = []\<rparr> in
      case selectWOWithPlanDeadline sch rf woID (fst st) of
        Inl e \<Rightarrow> Inl e
      | Inr d \<Rightarrow>
          (case (br deps, stk deps) of
             (Some bom, Some count) \<Rightarrow>
               (case bom (fd_MaterialID d) x of
                  Inl e \<Rightarrow> Inl e
                | Inr ms \<Rightarrow>
                    (case short_material (\<lambda>m. count m x) (fd_Quantity d) ms of
                       Inl e \<Rightarrow> Inl e
                     | Inr short \<Rightarrow>
                         if short
                         then (case selectFeasibilitySuggestions rf (fd_MaterialID d) woID 5 (fst st) of
                                 Inl e \<Rightarrow> Inl e
                               | Inr ws \<Rightarrow> Inr \<lparr>fr_Feasible = False, fr_Reason = ''INSUFFICIENT_MATERIAL'',
                                            fr_Suggestions = map (feasibility_suggestion rf (now env)) ws\<rparr>)
                         else Inr feasible))
           | _ \<Rightarrow> Inr feasible))"

definition BoostWOPriority :: "'x prod_deps \<Rightarrow> env \<Rightarrow> uuid \<Rightarrow> string \<Rightarrow> uuid \<Rightarrow> (prod_db \<times> 'x, uuid \<times> time) op" where
  "BoostWOPriority deps env woID reason actor st =
     (case selectWorkOrderByID woID (fst st) of
        Inl e \<Rightarrow> (Inl e, st)
      | Inr _ \<Rightarrow> local_op (setPriorityBoostAtomically (refs deps (snd st)) env woID reason actor) st)"

record WOPreemptCandidate =
  pk_WOID :: uuid
  pk_Status :: WorkOrderStatus
  pk_SlackDays :: int
  pk_FreedQty :: int

definition preempt_candidate :: "prod_refs \<Rightarrow> time \<Rightarrow> WorkOrder \<Rightarrow> WOPreemptCandidate" where
  "preempt_candidate rf t w =
     \<lparr>pk_WOID = wo_ID w, pk_Status = wo_Status w,
      pk_SlackDays = (case plan_deadline rf (wo_PlanID w) of None \<Rightarrow> 0 | Some dl \<Rightarrow> max 0 (quot (dl - t) day_micros)),
      pk_FreedQty = wo_Quantity w\<rparr>"

definition ListWOPreemptCandidates ::
  "prod_schema \<Rightarrow> 'x prod_deps \<Rightarrow> env \<Rightarrow> uuid \<Rightarrow> prod_db \<times> 'x \<Rightarrow> WOPreemptCandidate list result" where
  "ListWOPreemptCandidates sch deps env woID st =
     (case selectWorkOrderByID woID (fst st) of
        Inl e \<Rightarrow> Inl e
      | Inr _ \<Rightarrow>
          (case selectPreemptCandidates sch (refs deps (snd st)) woID (fst st) of
             Inl e \<Rightarrow> Inl e
           | Inr ws \<Rightarrow> Inr (map (preempt_candidate (refs deps (snd st)) (now env)) ws)))"

definition PreemptWO :: "'x prod_deps \<Rightarrow> env \<Rightarrow> preemptOp \<Rightarrow> (prod_db \<times> 'x, uuid \<times> time \<times> int) op" where
  "PreemptWO deps env pop st =
     (case selectWorkOrderByID (pp_ToWOID pop) (fst st) of
        Inl e \<Rightarrow> (Inl e, st)
      | Inr _ \<Rightarrow> local_op (preemptAtomically (refs deps (snd st)) env pop) st)"

record ReassignWorkOrderInput =
  rw_WorkOrderID :: uuid
  rw_NewUserID :: uuid
  rw_Reason :: string
  rw_ActorID :: uuid

definition ReassignWorkOrder ::
  "prod_schema \<Rightarrow> 'x prod_deps \<Rightarrow> env \<Rightarrow> ReassignWorkOrderInput \<Rightarrow> (prod_db \<times> 'x, WorkOrder) op" where
  "ReassignWorkOrder sch deps env inp st =
     (if rw_Reason inp = [] then (Inl (Biz ErrInvalidInput), st)
      else if rw_NewUserID inp = uuid_Nil then (Inl (Biz ErrInvalidInput), st)
      else local_op (reassignWorkOrderAtomically sch (refs deps (snd st))
             \<lparr>ro_WorkOrderID = rw_WorkOrderID inp, ro_NewUserID = rw_NewUserID inp, ro_Reason = rw_Reason inp,
              ro_ActorID = rw_ActorID inp, ro_LogID = fresh env 0, ro_AssignedAt = now env\<rparr>) st)"

definition ClaimWorkOrder ::
  "prod_schema \<Rightarrow> 'x prod_deps \<Rightarrow> env \<Rightarrow> uuid \<Rightarrow> uuid \<Rightarrow> (prod_db \<times> 'x, WorkOrder) op" where
  "ClaimWorkOrder sch deps env woID userID st =
     (if userID = uuid_Nil then (Inl (Biz ErrInvalidInput), st)
      else local_op (claimWorkOrderAtomically sch (refs deps (snd st)) woID userID (now env)) st)"

definition UpdateQCStatus :: "uuid \<Rightarrow> string \<Rightarrow> (prod_db, unit) op" where
  "UpdateQCStatus woID status = updateWorkOrderQCStatus woID status"

section \<open>Blockers\<close>

text \<open>The reason is a string; \<open>None\<close> is one that \<^verbatim>\<open>Reason.Valid\<close> refuses.\<close>

record CreateBlockerInput =
  cb_WorkOrderID :: uuid
  cb_Reason :: "BlockerReason option"
  cb_Detail :: string
  cb_CreatedBy :: uuid

definition CreateBlocker :: "env \<Rightarrow> CreateBlockerInput \<Rightarrow> (prod_db, WOBlocker) op" where
  "CreateBlocker env inp db =
     (case cb_Reason inp of
        None \<Rightarrow> (Inl (Biz ErrInvalidInput), db)
      | Some reason \<Rightarrow>
          (case selectWorkOrderByID (cb_WorkOrderID inp) db of
             Inl e \<Rightarrow> (Inl e, db)
           | Inr wo \<Rightarrow>
               if wo_Status wo = WOCompleted \<or> wo_Status wo = WOCosted then (Inl (Biz ErrPreconditionFailed), db)
               else (let b = \<lparr>bk_ID = fresh env 0, bk_WorkOrderID = cb_WorkOrderID inp, bk_Reason = reason,
                              bk_Detail = cb_Detail inp, bk_CreatedBy = cb_CreatedBy inp, bk_CreatedAt = now env,
                              bk_ResolvedBy = None, bk_ResolvedAt = None\<rparr>
                     in (case insertBlocker b db of (Inl e, db1) \<Rightarrow> (Inl e, db1) | (Inr _, db1) \<Rightarrow> (Inr b, db1)))))"

definition ResolveBlocker :: "env \<Rightarrow> uuid \<Rightarrow> uuid \<Rightarrow> (prod_db, WOBlocker) op" where
  "ResolveBlocker env blockerID resolvedBy db =
     (case getBlocker blockerID db of
        Inl e \<Rightarrow> (Inl e, db)
      | Inr existing \<Rightarrow>
          if bk_ResolvedAt existing \<noteq> None then (Inl (Biz ErrPreconditionFailed), db)
          else resolveBlocker blockerID resolvedBy (now env) db)"

definition ListBlockers :: "uuid \<Rightarrow> prod_db \<Rightarrow> WOBlocker list result" where
  "ListBlockers woID db =
     (case selectWorkOrderByID woID db of Inl e \<Rightarrow> Inl e | Inr _ \<Rightarrow> listBlockers woID db)"

end
