(* ===== verification/Production_Invariant.thy ===== *)
theory Production_Invariant
  imports Production_Service
begin

text \<open>
  The whole production module as a transition system on its tables, and what every execution
  keeps. A step is one service call with any input, any clock and any answer of the
  neighbours: their state \<open>x\<close> is arbitrary in every step, so the results hold whatever the
  other modules do in between. The calls themselves do not interleave here; the interleaving
  of \<open>AdvanceStatus\<close> with other calls is the subject of a property of its own.

  Every call changes the work orders in one of four ways (\<open>wo_change\<close>): not at all, by
  rewriting rows along an edge of the life cycle, by inserting a planned order, or by closing
  an order and inserting its carry-over. The invariant \<open>prod_ok\<close> follows from these four.
\<close>

section \<open>Steps\<close>

inductive prod_step :: "prod_schema \<Rightarrow> 'x prod_deps \<Rightarrow> prod_db \<Rightarrow> prod_db \<Rightarrow> bool"
  for sch :: prod_schema and deps :: "'x prod_deps" where
  "CreateWorkOrder deps env cwo (db, x) = (r1, (db', x')) \<Longrightarrow> prod_step sch deps db db'"
| "AdvanceStatus deps i adv (db, x) = (r2, (db', x')) \<Longrightarrow> prod_step sch deps db db'"
| "RecordConsumption deps env con (db, x) = (r3, (db', x')) \<Longrightarrow> prod_step sch deps db db'"
| "AssignWorkOrder deps env i u (db, x) = (r4, (db', x')) \<Longrightarrow> prod_step sch deps db db'"
| "CreateMachine env mac db = (r5, db') \<Longrightarrow> prod_step sch deps db db'"
| "DeactivateMachine i db = (r6, db') \<Longrightarrow> prod_step sch deps db db'"
| "CreateSlot env slt db = (r7, db') \<Longrightarrow> prod_step sch deps db db'"
| "DeleteSlot i db = (r8, db') \<Longrightarrow> prod_step sch deps db db'"
| "SetEstimatedHours i h db = (r9, db') \<Longrightarrow> prod_step sch deps db db'"
| "AssignSlot i j db = (r10, db') \<Longrightarrow> prod_step sch deps db db'"
| "UnassignSlot i db = (r11, db') \<Longrightarrow> prod_step sch deps db db'"
| "RecordLaborEntry deps env lab (db, x) = (r12, (db', x')) \<Longrightarrow> prod_step sch deps db db'"
| "CancelPlannedByPlan p db = (r13, db') \<Longrightarrow> prod_step sch deps db db'"
| "PartialComplete deps env par (db, x) = (r14, (db', x')) \<Longrightarrow> prod_step sch deps db db'"
| "BoostWOPriority deps env i txt a (db, x) = (r15, (db', x')) \<Longrightarrow> prod_step sch deps db db'"
| "PreemptWO deps env pre (db, x) = (r16, (db', x')) \<Longrightarrow> prod_step sch deps db db'"
| "ReassignWorkOrder sch deps env rea (db, x) = (r17, (db', x')) \<Longrightarrow> prod_step sch deps db db'"
| "ClaimWorkOrder sch deps env i u (db, x) = (r18, (db', x')) \<Longrightarrow> prod_step sch deps db db'"
| "UpdateQCStatus i txt db = (r19, db') \<Longrightarrow> prod_step sch deps db db'"
| "CreateBlocker env blk db = (r20, db') \<Longrightarrow> prod_step sch deps db db'"
| "ResolveBlocker env i u db = (r21, db') \<Longrightarrow> prod_step sch deps db db'"

definition empty_prod :: prod_db where
  "empty_prod = \<lparr>work_orders = [], consumptions = [], machines = [], slots = [], labor = [], blockers = [],
     reassign_log = [], boost_log = [], preemption_log = []\<rparr>"

section \<open>The life cycle of one order\<close>

text \<open>Edges of the table, and the two writes that bypass it: preemption and the plan cascade.\<close>

definition status_edge :: "WorkOrderStatus \<Rightarrow> WorkOrderStatus \<Rightarrow> bool" where
  "status_edge s t \<longleftrightarrow> s = t \<or> CanTransitionTo s t \<or> (s, t) = (WOInCutting, WOPlanned) \<or> (s, t) = (WOPlanned, WOCanceled)"

definition same_order :: "WorkOrder \<Rightarrow> WorkOrder \<Rightarrow> bool" where
  "same_order w w' \<longleftrightarrow> wo_ID w' = wo_ID w \<and> wo_PlanID w' = wo_PlanID w \<and> wo_SKUID w' = wo_SKUID w \<and>
     wo_Quantity w' = wo_Quantity w \<and> wo_SalesOrderLineID w' = wo_SalesOrderLineID w \<and>
     wo_ParentWOID w' = wo_ParentWOID w \<and> wo_CreatedAt w' = wo_CreatedAt w"

definition closes :: "WorkOrder \<Rightarrow> WorkOrder \<Rightarrow> bool" where
  "closes w w' \<longleftrightarrow> wo_Status w = WOInProcessing \<and> wo_Status w' = WOPartialComplete \<and>
     (\<exists>a. wo_ActualQty w' = Some a \<and> 1 \<le> a \<and> a < wo_Quantity w)"

text \<open>Hours that the service and the column \<^verbatim>\<open>NUMERIC(6,2)\<close> admit.\<close>

definition hours_ok :: "int \<Rightarrow> bool" where
  "hours_ok h \<longleftrightarrow> 0 \<le> h \<and> h < 10 ^ 6"

definition wo_edge :: "WorkOrder \<Rightarrow> WorkOrder \<Rightarrow> bool" where
  "wo_edge w w' \<longleftrightarrow> same_order w w' \<and> status_edge (wo_Status w) (wo_Status w') \<and>
     (wo_ActualQty w' = wo_ActualQty w \<or> closes w w') \<and>
     (wo_EstimatedHours w' = wo_EstimatedHours w \<or> (\<exists>h. wo_EstimatedHours w' = Some h \<and> hours_ok h))"

lemma status_edge_refl [simp]: "status_edge s s"
  by (simp add: status_edge_def)

lemma wo_edge_refl [simp]: "wo_edge w w"
  by (simp add: wo_edge_def same_order_def)

text \<open>The statuses an order can still have later on.\<close>

fun wo_future :: "WorkOrderStatus \<Rightarrow> WorkOrderStatus set" where
  "wo_future WOPlanned = UNIV"
| "wo_future WOInCutting = UNIV"
| "wo_future WOInProcessing = {WOInProcessing, WOCompleted, WOPartialComplete, WOCosted}"
| "wo_future WOCompleted = {WOCompleted, WOCosted}"
| "wo_future WOPartialComplete = {WOPartialComplete, WOCosted}"
| "wo_future WOCosted = {WOCosted}"
| "wo_future WOCanceled = {WOCanceled}"

lemma wo_future_refl [simp]: "s \<in> wo_future s"
  by (cases s) auto

lemma wo_future_step: "t \<in> wo_future s \<Longrightarrow> status_edge t u \<Longrightarrow> u \<in> wo_future s"
  by (cases s) (auto simp: status_edge_def CanTransitionTo_iff)

section \<open>What a call does to the work orders\<close>

inductive wo_change :: "prod_db \<Rightarrow> prod_db \<Rightarrow> bool" where
  wo_same: "work_orders db' = work_orders db \<Longrightarrow> wo_change db db'"
| wo_update: "work_orders db' = update_where P f (work_orders db) \<Longrightarrow>
    (\<And>w. w \<in> set (work_orders db) \<Longrightarrow> P w \<Longrightarrow> wo_edge w (f w)) \<Longrightarrow> wo_change db db'"
| wo_insert: "work_orders db' = work_orders db @ [w] \<Longrightarrow> wo_row (wo_ID w) db = None \<Longrightarrow> wo_Status w = WOPlanned \<Longrightarrow>
    wo_ParentWOID w = None \<Longrightarrow> 0 < wo_Quantity w \<Longrightarrow> in_int4 (wo_Quantity w) \<Longrightarrow> wo_EstimatedHours w = None \<Longrightarrow> wo_change db db'"
| wo_split: "work_orders db' = update_where (\<lambda>w. wo_ID w = i) f (work_orders db) @ [c] \<Longrightarrow>
    wo_row i db = Some w \<Longrightarrow> (\<And>w. w \<in> set (work_orders db) \<Longrightarrow> wo_ID w = i \<Longrightarrow> wo_edge w (f w)) \<Longrightarrow>
    closes w (f w) \<Longrightarrow> wo_row (wo_ID c) db = None \<Longrightarrow> wo_Status c = WOPlanned \<Longrightarrow> wo_ParentWOID c = Some i \<Longrightarrow>
    wo_SKUID c = wo_SKUID w \<Longrightarrow> wo_SalesOrderLineID c = wo_SalesOrderLineID w \<Longrightarrow>
    wo_ActualQty (f w) = Some (wo_Quantity w - wo_Quantity c) \<Longrightarrow> wo_EstimatedHours c = None \<Longrightarrow> wo_change db db'"

lemma update_wo_simps [simp]:
  "work_orders (update_wo i f db) = update_where (\<lambda>w. wo_ID w = i) f (work_orders db)"
  "consumptions (update_wo i f db) = consumptions db" "labor (update_wo i f db) = labor db"
  "slots (update_wo i f db) = slots db" "blockers (update_wo i f db) = blockers db"
  "machines (update_wo i f db) = machines db"
  by (simp_all add: update_wo_def)

text \<open>A rewrite that keeps identity, status and quantities is an edge.\<close>

lemma wo_edge_fields [simp]:
  "wo_edge w (w\<lparr>wo_AssignedTo := a, wo_AssignedAt := t\<rparr>)"
  "hours_ok h \<Longrightarrow> wo_edge w (w\<lparr>wo_EstimatedHours := Some h\<rparr>)" "wo_edge w (w\<lparr>wo_MachineSlotID := m\<rparr>)"
  "wo_edge w (w\<lparr>wo_PriorityBoost := b\<rparr>)" "wo_edge w (w\<lparr>wo_QCStatus := q\<rparr>)"
  by (simp_all add: wo_edge_def same_order_def)

lemma wo_edge_status: "wo_edge w (w\<lparr>wo_Status := t\<rparr>) \<longleftrightarrow> status_edge (wo_Status w) t"
  by (auto simp: wo_edge_def same_order_def)

lemma wo_update_all: "(\<And>w. wo_edge w (f w)) \<Longrightarrow> wo_change db (update_wo i f db)"
  by (rule wo_update [where P = "\<lambda>w. wo_ID w = i" and f = f]) auto

lemma wo_update_row:
  assumes "keys_distinct wo_ID (work_orders db)" and "wo_row i db = Some w" and "wo_edge w (f w)"
    and "work_orders db' = update_where (\<lambda>w. wo_ID w = i) f (work_orders db)"
  shows "wo_change db db'"
  by (rule wo_update [OF assms(4)]) (metis assms(1-3) row_by_Some_iff option.inject)

lemma wo_change_trivial [simp]: "wo_change db db"
  by (rule wo_same) simp

section \<open>Every call is such a change\<close>

lemma selectWorkOrderByID_simps [simp]:
  "selectWorkOrderByID i db = Inr w \<longleftrightarrow> wo_row i db = Some w"
  "selectWorkOrderByID i db = Inl e \<longleftrightarrow> wo_row i db = None \<and> e = Biz ErrNotFound"
  by (auto simp: selectWorkOrderByID_def split: option.splits)

lemma insertWorkOrder_cases:
  assumes "insertWorkOrder rf w db = (r, db')"
  obtains e where "r = Inl e" and "db' = db"
  | "r = Inr ()" and "db' = db\<lparr>work_orders := work_orders db @ [wo_columns w]\<rparr>" and "wo_row (wo_ID w) db = None"
    and "in_int4 (wo_Quantity w)"
  using assms
  by (auto simp: insertWorkOrder_def check_wo_def wo_columns_def row_by_None_iff split: sum.splits if_splits)

lemma CreateWorkOrder_change:
  assumes "CreateWorkOrder deps env inp (db, x) = (r, (db', x'))"
  shows "wo_change db db'"
proof -
  let ?w = "new_work_order (fresh env 0) (cw_PlanID inp) (cw_SKUID inp) (cw_Quantity inp) (cw_SalesOrderLineID inp) None (now env)"
  consider "db' = db" | r' where "insertWorkOrder (refs deps x) ?w db = (r', db')" and "0 < cw_Quantity inp"
    using assms by (auto simp: CreateWorkOrder_def Let_def split: sum.splits if_splits prod.splits)
  then show ?thesis
  proof cases
    case 2
    show ?thesis
      using 2(1)
    proof (cases rule: insertWorkOrder_cases)
      case 2
      then show ?thesis
        using \<open>0 < cw_Quantity inp\<close> by (intro wo_insert [of _ _ "wo_columns ?w"]) (auto simp: wo_columns_def new_work_order_def)
    qed simp
  qed simp
qed

lemma advance_guards_Inr:
  assumes "advance_guards deps i inp st = Inr wo"
  shows "wo_row i (fst st) = Some wo" and "CanTransitionTo (wo_Status wo) (as_To inp)"
    and "countOpenBlockers i (fst st) = Inr 0" and "assignment_guard wo inp = Inr ()"
    and "costing_guard deps i inp (snd st) = Inr ()" and "metal_guard deps wo inp st = Inr ()"
  using assms by (auto simp: advance_guards_def countOpenBlockers_def split: sum.splits if_splits)

lemma AdvanceStatus_cases:
  assumes "AdvanceStatus deps i inp (db, x) = (r, (db', x'))"
  obtains e where "r = Inl e" and "db' = db"
  | wo x1 where "r = Inr ()" and "advance_guards deps i inp (db, x) = Inr wo" and "wo_ID wo = i"
    and "preassign deps i inp x = (Inr (), x1)"
    and "db' = update_wo i (\<lambda>w. w\<lparr>wo_Status := as_To inp\<rparr>) db"
    and "x' = (let y = notify_status deps i (as_To inp) x1 in
      if as_To inp = WOCompleted then fire_fg_hook deps wo (wo_Quantity wo) (acting_user (as_CallerID inp) wo) y else y)"
proof (cases "advance_guards deps i inp (db, x)")
  case (Inl e)
  then show ?thesis using assms that(1) by (auto simp: AdvanceStatus_def advance_checks_def)
next
  case (Inr wo)
  have id: "wo_ID wo = i" using advance_guards_Inr(1) [OF Inr] row_by_SomeD by fastforce
  obtain q x1 where pre: "preassign deps i inp x = (q, x1)" by force
  show ?thesis
  proof (cases q)
    case (Inl e)
    show ?thesis by (rule that(1) [of e]) (use assms \<open>advance_guards _ _ _ _ = Inr wo\<close> pre Inl in
      \<open>simp_all add: AdvanceStatus_def advance_checks_def\<close>)
  next
    case (Inr u)
    show ?thesis by (rule that(2) [of wo x1]) (use assms \<open>advance_guards _ _ _ _ = Inr wo\<close> pre Inr id in
      \<open>auto simp: AdvanceStatus_def advance_checks_def advance_commit_def updateWorkOrderStatus_def Let_def\<close>)
  qed
qed

lemma AdvanceStatus_change:
  assumes "keys_distinct wo_ID (work_orders db)" and "AdvanceStatus deps i inp (db, x) = (r, (db', x'))"
  shows "wo_change db db'"
  using assms(2)
proof (cases rule: AdvanceStatus_cases)
  case (2 wo x1)
  show ?thesis
    by (rule wo_update_row [OF assms(1) advance_guards_Inr(1) [OF 2(2), simplified]])
      (use advance_guards_Inr(2) [OF 2(2)] 2(5) in \<open>auto simp: wo_edge_status status_edge_def\<close>)
qed simp

lemma AssignWorkOrder_change:
  assumes "AssignWorkOrder deps env i u (db, x) = (r, (db', x'))"
  shows "wo_change db db'"
proof -
  have "db' = db \<or> work_orders db' = update_where (\<lambda>w. wo_ID w = i \<and> wo_Status w = WOPlanned)
      (\<lambda>w. w\<lparr>wo_AssignedTo := Some u, wo_AssignedAt := Some (now env)\<rparr>) (work_orders db)"
    using assms by (auto simp: AssignWorkOrder_def updateWorkOrderAssignment_def split: sum.splits if_splits)
  then show ?thesis by (elim disjE) (simp, erule wo_update, simp)
qed

lemma RecordConsumption_same: "RecordConsumption deps env inp (db, x) = (r, (db', x')) \<Longrightarrow> work_orders db' = work_orders db"
  by (auto simp: RecordConsumption_def insertConsumption_def Let_def split: sum.splits if_splits prod.splits)

lemma machine_ops_same:
  "CreateMachine env mac db = (r1, db') \<Longrightarrow> work_orders db' = work_orders db"
  "DeactivateMachine i db = (r2, db') \<Longrightarrow> work_orders db' = work_orders db"
  "CreateSlot env slt db = (r3, db') \<Longrightarrow> work_orders db' = work_orders db"
  by (auto simp: CreateMachine_def insertMachine_def DeactivateMachine_def deactivateMachine_def CreateSlot_def insertSlot_def
      Let_def split: sum.splits if_splits prod.splits option.splits)

lemma DeleteSlot_change: "DeleteSlot i db = (r, db') \<Longrightarrow> wo_change db db'"
  by (auto simp: DeleteSlot_def deleteSlot_def split: if_splits
      intro: wo_update [where P = "\<lambda>w. wo_MachineSlotID w = Some i" and f = "\<lambda>w. w\<lparr>wo_MachineSlotID := None\<rparr>"])

lemma numeric_6_2_ok: "numeric_6_2 x = Inr c \<Longrightarrow> 0 < x \<Longrightarrow> hours_ok c"
  by (auto simp: numeric_6_2_def Let_def hours_ok_def round_half_away_def le_floor_iff split: if_splits)

lemma scheduling_change:
  "SetEstimatedHours i h db = (r1, db') \<Longrightarrow> wo_change db db'"
  "AssignSlot i j db = (r2, db') \<Longrightarrow> wo_change db db'"
  "UnassignSlot i db = (r3, db') \<Longrightarrow> wo_change db db'"
  by (auto simp: SetEstimatedHours_def updateEstimatedHours_def AssignSlot_def assignSlotAtomically_def UnassignSlot_def
      unassignWOFromSlot_def Let_def split: sum.splits if_splits option.splits intro!: wo_update_all dest: numeric_6_2_ok)

lemma labor_blockers_same:
  "RecordLaborEntry deps env lab (db, x) = (r1, (db', x')) \<Longrightarrow> work_orders db' = work_orders db"
  "CreateBlocker env blk db = (r2, db') \<Longrightarrow> work_orders db' = work_orders db"
  "ResolveBlocker env i u db = (r3, db') \<Longrightarrow> work_orders db' = work_orders db"
  by (auto simp: RecordLaborEntry_def insertLaborEntry_def CreateBlocker_def insertBlocker_def ResolveBlocker_def getBlocker_def
      resolveBlocker_def Let_def split: sum.splits if_splits prod.splits option.splits)

lemma CancelPlannedByPlan_change: "CancelPlannedByPlan p db = (r, db') \<Longrightarrow> wo_change db db'"
  by (auto simp: CancelPlannedByPlan_def cancelPlannedByPlan_def wo_edge_status status_edge_def split: if_splits
      intro: wo_update [where P = "\<lambda>w. wo_PlanID w = p \<and> wo_Status w = WOPlanned" and f = "\<lambda>w. w\<lparr>wo_Status := WOCanceled\<rparr>"])

lemma BoostWOPriority_change:
  assumes "BoostWOPriority deps env i txt a (db, x) = (r, (db', x'))"
  shows "wo_change db db'"
proof -
  have "db' = db \<or> work_orders db' = update_where (\<lambda>w. wo_ID w = i) (\<lambda>w. w\<lparr>wo_PriorityBoost := True\<rparr>) (work_orders db)"
    using assms by (auto simp: BoostWOPriority_def local_op_def setPriorityBoostAtomically_def split: sum.splits)
  then show ?thesis by (elim disjE) (simp, erule wo_update, simp)
qed

lemma UpdateQCStatus_change: "UpdateQCStatus i txt db = (r, db') \<Longrightarrow> wo_change db db'"
  by (auto simp: UpdateQCStatus_def updateWorkOrderQCStatus_def split: if_splits intro!: wo_update_all)

lemma PreemptWO_cases:
  assumes "PreemptWO deps env pop (db, x) = (r, (db', x'))"
  obtains e where "r = Inl e" and "db' = db" and "x' = x"
  | w l where "wo_row (pp_FromWOID pop) db = Some w" and "wo_Status w = WOPlanned \<or> wo_Status w = WOInCutting"
    and "r = Inr (fresh env 0, now env, wo_Quantity w)" and "check_preemption (refs deps x) db l = None"
    and "pl_MaterialID l = pp_MaterialID pop" and "x' = x"
    and "db' = (update_wo (pp_FromWOID pop) (\<lambda>w. w\<lparr>wo_Status := WOPlanned\<rparr>) db)\<lparr>preemption_log := preemption_log db @ [l]\<rparr>"
proof (cases r)
  case (Inl e)
  show ?thesis
    by (rule that(1) [of e]) (use assms Inl in \<open>auto simp: PreemptWO_def local_op_def preemptAtomically_def
      split: sum.splits option.splits if_splits\<close>)
next
  case (Inr v)
  then obtain w where w: "wo_row (pp_FromWOID pop) db = Some w"
    using assms by (auto simp: PreemptWO_def local_op_def preemptAtomically_def split: sum.splits option.splits)
  let ?l = "\<lparr>pl_ID = fresh env 0, pl_FromWOID = pp_FromWOID pop, pl_ToWOID = pp_ToWOID pop,
    pl_MaterialID = pp_MaterialID pop, pl_FreedQty = wo_Quantity w, pl_Reason = pp_Reason pop,
    pl_ActorID = pp_ActorID pop, pl_CreatedAt = now env\<rparr>"
  show ?thesis
    by (rule that(2) [OF w, of ?l]) (use assms Inr w in \<open>auto simp: PreemptWO_def local_op_def preemptAtomically_def
      split: sum.splits if_splits\<close>)
qed

lemma PreemptWO_change:
  assumes "keys_distinct wo_ID (work_orders db)" and "PreemptWO deps env pop (db, x) = (r, (db', x'))"
  shows "wo_change db db'"
  using assms(2)
proof (cases rule: PreemptWO_cases)
  case (2 w l)
  then show ?thesis
    by (intro wo_update_row [OF assms(1) 2(1), where f = "\<lambda>w. w\<lparr>wo_Status := WOPlanned\<rparr>"])
      (auto simp: wo_edge_status status_edge_def)
qed simp

lemma reassign_claim_change:
  "ReassignWorkOrder sch deps env rea (db, x) = (r1, (db', x')) \<Longrightarrow> wo_change db db'"
  "ClaimWorkOrder sch deps env i u (db, x) = (r2, (db', x')) \<Longrightarrow> wo_change db db'"
proof -
  have assign: "wo_change db db'" if "db' = db \<or> work_orders db' = update_where (\<lambda>w. wo_ID w = j)
      (\<lambda>w. w\<lparr>wo_AssignedTo := Some v, wo_AssignedAt := Some t\<rparr>) (work_orders db)" for j v t
    using that by (elim disjE) (simp, erule wo_update, simp)
  {
    assume "ReassignWorkOrder sch deps env rea (db, x) = (r1, (db', x'))"
    then show "wo_change db db'"
      by (intro assign [where j = "rw_WorkOrderID rea" and v = "rw_NewUserID rea" and t = "now env"])
        (auto simp: ReassignWorkOrder_def local_op_def reassignWorkOrderAtomically_def Let_def split: sum.splits if_splits)
  next
    assume "ClaimWorkOrder sch deps env i u (db, x) = (r2, (db', x'))"
    then show "wo_change db db'"
      by (intro assign [where j = i and v = u and t = "now env"])
        (auto simp: ClaimWorkOrder_def local_op_def claimWorkOrderAtomically_def Let_def split: sum.splits if_splits)
  }
qed

text \<open>The row a partial completion writes.\<close>

definition closed_row :: "int \<Rightarrow> string \<Rightarrow> WorkOrder \<Rightarrow> WorkOrder" where
  "closed_row qty reason w =
     w\<lparr>wo_Status := WOPartialComplete, wo_ActualQty := Some qty, wo_ShortfallReason := Some reason\<rparr>"

lemma PartialComplete_cases:
  assumes "PartialComplete deps env inp (db, x) = (r, (db', x'))"
  obtains e where "r = Inl e" and "db' = db" and "x' = x"
  | w where "wo_row (pci_WorkOrderID inp) db = Some w" and "wo_ID w = pci_WorkOrderID inp"
    and "wo_Status w = WOInProcessing" and "1 \<le> pci_ActualQty inp" and "pci_ActualQty inp < wo_Quantity w"
    and "r = Inr \<lparr>pcr_WOUpdated = closed_row (pci_ActualQty inp) (pci_ShortfallReason inp) w,
      pcr_CarryOverWO = map_option wo_columns (carry_over_of env inp w)\<rparr>"
    and "work_orders db' = update_where (\<lambda>v. wo_ID v = pci_WorkOrderID inp)
        (closed_row (pci_ActualQty inp) (pci_ShortfallReason inp)) (work_orders db) @
      (case carry_over_of env inp w of None \<Rightarrow> [] | Some c \<Rightarrow> [wo_columns c])"
    and "pci_CarryOver inp \<longrightarrow> wo_row (fresh env 0) db = None \<and> in_int4 (i64 (wo_Quantity w - pci_ActualQty inp))"
    and "x' = fire_fg_hook deps (closed_row (pci_ActualQty inp) (pci_ShortfallReason inp) w) (pci_ActualQty inp)
      (acting_user (pci_CallerID inp) w) (notify_status deps (wo_ID w) WOPartialComplete x)"
proof (cases r)
  case (Inl e)
  show ?thesis
    by (rule that(1) [of e]) (use assms Inl in \<open>auto simp: PartialComplete_def partialCompleteAtomically_def Let_def
      split: sum.splits option.splits if_splits prod.splits\<close>)
next
  case (Inr v)
  then obtain w where w: "wo_row (pci_WorkOrderID inp) db = Some w" "wo_Status w = WOInProcessing"
      "1 \<le> pci_ActualQty inp" "pci_ActualQty inp < wo_Quantity w"
    using assms by (auto simp: PartialComplete_def split: sum.splits if_splits)
  have id: "wo_ID w = pci_WorkOrderID inp" using row_by_SomeD [OF w(1)] by simp
  let ?f = "\<lambda>w. w\<lparr>wo_Status := WOPartialComplete, wo_ActualQty := Some (pci_ActualQty inp),
    wo_ShortfallReason := Some (pci_ShortfallReason inp)\<rparr>"
  let ?db1 = "update_wo (wo_ID w) ?f db"
  have f: "closed_row (pci_ActualQty inp) (pci_ShortfallReason inp) = ?f" by (simp add: closed_row_def fun_eq_iff)
  have act: "acting_user c (?f w) = acting_user c w" for c by (simp add: acting_user_def split: option.split)
  note run = assms [unfolded PartialComplete_def partialCompleteAtomically_def Let_def Inr]
  show ?thesis
  proof (cases "carry_over_of env inp w")
    case None
    then have "\<not> pci_CarryOver inp" by (auto simp: carry_over_of_def split: if_splits)
    then show ?thesis
      by (intro that(2) [OF w(1) id w(2-4)])
        (use run w id None Inr in \<open>auto simp: act f split: sum.splits if_splits\<close>)
  next
    case (Some c)
    obtain q db2 where ins: "insertWorkOrder (refs deps x) c ?db1 = (q, db2)" by force
    have c: "pci_CarryOver inp" "wo_ID c = fresh env 0" "wo_Quantity c = i64 (wo_Quantity w - pci_ActualQty inp)"
      using Some by (auto simp: carry_over_of_def new_work_order_def split: if_splits)
    have fresh: "wo_row j ?db1 = None \<longleftrightarrow> wo_row j db = None" for j
      by (simp add: row_by_update_where)
    from ins show ?thesis
    proof (cases rule: insertWorkOrder_cases)
      case (1 e)
      then show ?thesis using run w id Some ins by (auto split: sum.splits if_splits)
    next
      case 2
      then show ?thesis
        by (intro that(2) [OF w(1) id w(2-4)])
          (use run w id Some ins c fresh Inr in \<open>auto simp: act f split: sum.splits if_splits\<close>)
    qed
  qed
qed

lemma PartialComplete_change:
  assumes "keys_distinct wo_ID (work_orders db)" and "\<forall>w \<in> set (work_orders db). in_int4 (wo_Quantity w)"
    and "PartialComplete deps env inp (db, x) = (r, (db', x'))"
  shows "wo_change db db'"
  using assms(3)
proof (cases rule: PartialComplete_cases)
  case (2 w)
  let ?f = "closed_row (pci_ActualQty inp) (pci_ShortfallReason inp)"
  have cl: "closes w (?f w)" using 2 by (simp add: closes_def closed_row_def)
  then have edge: "wo_edge w (?f w)"
    using 2 by (simp add: wo_edge_def same_order_def closed_row_def status_edge_def)
  show ?thesis
  proof (cases "carry_over_of env inp w")
    case None
    with 2 edge show ?thesis by (intro wo_update_row [OF assms(1) 2(1)]) auto
  next
    case (Some c)
    have "in_int4 (wo_Quantity w)" using assms(2) 2(1) row_by_SomeD by fast
    then have "i64 (wo_Quantity w - pci_ActualQty inp) = wo_Quantity w - pci_ActualQty inp"
      using 2 by (intro i64_in_range) (auto simp: in_i64_def in_int4_def)
    then have c: "wo_ID c = fresh env 0" "wo_Status c = WOPlanned" "wo_ParentWOID c = Some (pci_WorkOrderID inp)"
      "wo_SKUID c = wo_SKUID w" "wo_SalesOrderLineID c = wo_SalesOrderLineID w"
      "wo_Quantity c = wo_Quantity w - pci_ActualQty inp" "pci_CarryOver inp"
      using Some 2(2) by (auto simp: carry_over_of_def new_work_order_def split: if_splits)
    show ?thesis
    proof (rule wo_split [where c = "wo_columns c" and f = ?f])
      show "wo_edge v (?f v)" if "v \<in> set (work_orders db)" "wo_ID v = pci_WorkOrderID inp" for v
        using that edge 2(1) assms(1) row_by_Some_iff by (metis option.inject)
    qed (use 2 c Some cl in \<open>auto simp: wo_columns_def closed_row_def\<close>)
  qed
qed simp

section \<open>The invariant\<close>

text \<open>
  Quantities are positive and fit their column; a carry-over continues an order that was closed
  short, makes the same SKU for the same customer line and has exactly the missing quantity;
  an order has at most one carry-over.
\<close>

definition carry_link :: "WorkOrder \<Rightarrow> WorkOrder \<Rightarrow> bool" where
  "carry_link w c \<longleftrightarrow> wo_Status w \<in> {WOPartialComplete, WOCosted} \<and> wo_SKUID c = wo_SKUID w \<and>
     wo_SalesOrderLineID c = wo_SalesOrderLineID w \<and>
     (\<exists>a. wo_ActualQty w = Some a \<and> 1 \<le> a \<and> a + wo_Quantity c = wo_Quantity w)"

definition prod_ok :: "prod_db \<Rightarrow> bool" where
  "prod_ok db \<longleftrightarrow> keys_distinct wo_ID (work_orders db) \<and>
     (\<forall>w \<in> set (work_orders db). 0 < wo_Quantity w \<and> in_int4 (wo_Quantity w) \<and>
        (\<forall>h. wo_EstimatedHours w = Some h \<longrightarrow> hours_ok h)) \<and>
     (\<forall>c \<in> set (work_orders db). \<forall>p. wo_ParentWOID c = Some p \<longrightarrow>
        (\<exists>w \<in> set (work_orders db). wo_ID w = p \<and> carry_link w c)) \<and>
     (\<forall>c \<in> set (work_orders db). \<forall>d \<in> set (work_orders db).
        wo_ParentWOID c \<noteq> None \<longrightarrow> wo_ParentWOID d = wo_ParentWOID c \<longrightarrow> d = c)"

lemma prod_okD:
  assumes "prod_ok db"
  shows "keys_distinct wo_ID (work_orders db)"
    and "w \<in> set (work_orders db) \<Longrightarrow> 0 < wo_Quantity w \<and> in_int4 (wo_Quantity w) \<and>
      (\<forall>h. wo_EstimatedHours w = Some h \<longrightarrow> hours_ok h)"
    and "c \<in> set (work_orders db) \<Longrightarrow> wo_ParentWOID c = Some p \<Longrightarrow> \<exists>w \<in> set (work_orders db). wo_ID w = p \<and> carry_link w c"
    and "c \<in> set (work_orders db) \<Longrightarrow> d \<in> set (work_orders db) \<Longrightarrow> wo_ParentWOID c \<noteq> None \<Longrightarrow>
      wo_ParentWOID d = wo_ParentWOID c \<Longrightarrow> d = c"
  using assms unfolding prod_ok_def by blast+

lemma prod_okI:
  assumes "keys_distinct wo_ID (work_orders db)"
    and "\<And>w. w \<in> set (work_orders db) \<Longrightarrow> 0 < wo_Quantity w \<and> in_int4 (wo_Quantity w) \<and>
      (\<forall>h. wo_EstimatedHours w = Some h \<longrightarrow> hours_ok h)"
    and "\<And>c p. c \<in> set (work_orders db) \<Longrightarrow> wo_ParentWOID c = Some p \<Longrightarrow> \<exists>w \<in> set (work_orders db). wo_ID w = p \<and> carry_link w c"
    and "\<And>c d. c \<in> set (work_orders db) \<Longrightarrow> d \<in> set (work_orders db) \<Longrightarrow> wo_ParentWOID c \<noteq> None \<Longrightarrow>
      wo_ParentWOID d = wo_ParentWOID c \<Longrightarrow> d = c"
  shows "prod_ok db"
  using assms unfolding prod_ok_def by blast

lemma wo_edgeD:
  assumes "wo_edge w w'"
  shows "wo_ID w' = wo_ID w" and "wo_Quantity w' = wo_Quantity w" and "wo_ParentWOID w' = wo_ParentWOID w"
    and "status_edge (wo_Status w) (wo_Status w')"
  using assms by (simp_all add: wo_edge_def same_order_def)

lemma carry_link_edge:
  assumes "carry_link w c" and "wo_edge w w'" and "wo_edge c c'"
  shows "carry_link w' c'"
proof -
  have st: "wo_Status w \<in> {WOPartialComplete, WOCosted}" using assms(1) by (simp add: carry_link_def)
  then have "wo_Status w' \<in> {WOPartialComplete, WOCosted}"
    using wo_edgeD(4) [OF assms(2)] by (auto simp: status_edge_def CanTransitionTo_iff)
  moreover have "wo_ActualQty w' = wo_ActualQty w" using assms(2) st by (auto simp: wo_edge_def closes_def)
  moreover have "same_order w w'" "same_order c c'" using assms(2,3) by (simp_all add: wo_edge_def)
  ultimately show ?thesis using assms(1) unfolding carry_link_def same_order_def by simp
qed

lemma prod_ok_map:
  assumes "prod_ok db" and "work_orders db' = map g (work_orders db)"
    and edge: "\<And>w. w \<in> set (work_orders db) \<Longrightarrow> wo_edge w (g w)"
  shows "prod_ok db'"
proof (rule prod_okI)
  have "map (wo_ID \<circ> g) (work_orders db) = map wo_ID (work_orders db)"
    using wo_edgeD(1) [OF edge] by simp
  then show "keys_distinct wo_ID (work_orders db')" using prod_okD(1) [OF assms(1)] by (simp only: assms(2) map_map)
  show "0 < wo_Quantity w \<and> in_int4 (wo_Quantity w) \<and> (\<forall>h. wo_EstimatedHours w = Some h \<longrightarrow> hours_ok h)"
    if "w \<in> set (work_orders db')" for w
  proof -
    from that obtain w0 where "w0 \<in> set (work_orders db)" "w = g w0" by (auto simp: assms(2))
    then show ?thesis using prod_okD(2) [OF assms(1), of w0] edge [of w0] by (auto simp: wo_edge_def same_order_def)
  qed
  show "\<exists>w \<in> set (work_orders db'). wo_ID w = p \<and> carry_link w c"
    if "c \<in> set (work_orders db')" "wo_ParentWOID c = Some p" for c p
  proof -
    from that obtain c0 where c0: "c0 \<in> set (work_orders db)" "c = g c0" by (auto simp: assms(2))
    then have "wo_ParentWOID c0 = Some p" using that(2) wo_edgeD(3) [OF edge [OF c0(1)]] by simp
    from prod_okD(3) [OF assms(1) c0(1) this] obtain w where w: "w \<in> set (work_orders db)" "wo_ID w = p" "carry_link w c0"
      by blast
    have "carry_link (g w) c" unfolding c0(2) by (rule carry_link_edge [OF w(3) edge [OF w(1)] edge [OF c0(1)]])
    then show ?thesis using w wo_edgeD(1) [OF edge [OF w(1)]] by (intro bexI [of _ "g w"]) (auto simp: assms(2))
  qed
  show "d = c" if "c \<in> set (work_orders db')" "d \<in> set (work_orders db')" "wo_ParentWOID c \<noteq> None"
      "wo_ParentWOID d = wo_ParentWOID c" for c d
  proof -
    from that obtain c0 d0 where "c0 \<in> set (work_orders db)" "c = g c0" "d0 \<in> set (work_orders db)" "d = g d0"
      by (auto simp: assms(2))
    then show ?thesis using that(3,4) prod_okD(4) [OF assms(1), of c0 d0] wo_edgeD(3) [OF edge] by simp
  qed
qed

lemma prod_ok_insert:
  assumes "prod_ok db" and "work_orders db' = work_orders db @ [c]" and "wo_row (wo_ID c) db = None"
    and "0 < wo_Quantity c \<and> in_int4 (wo_Quantity c)" and "wo_EstimatedHours c = None"
    and "\<And>p. wo_ParentWOID c = Some p \<Longrightarrow> (\<exists>w \<in> set (work_orders db). wo_ID w = p \<and> carry_link w c) \<and>
      (\<forall>d \<in> set (work_orders db). wo_ParentWOID d \<noteq> Some p)"
  shows "prod_ok db'"
proof (rule prod_okI)
  show "keys_distinct wo_ID (work_orders db')" using prod_okD(1) [OF assms(1)] assms(2,3) by (simp add: row_by_None_iff)
  show "0 < wo_Quantity w \<and> in_int4 (wo_Quantity w) \<and> (\<forall>h. wo_EstimatedHours w = Some h \<longrightarrow> hours_ok h)"
    if "w \<in> set (work_orders db')" for w
    using that prod_okD(2) [OF assms(1)] assms(2,4,5) by auto
  show "\<exists>w \<in> set (work_orders db'). wo_ID w = p \<and> carry_link w e"
    if "e \<in> set (work_orders db')" "wo_ParentWOID e = Some p" for e p
  proof (cases "e = c")
    case True
    then show ?thesis using assms(6) that(2) by (auto simp: assms(2))
  next
    case False
    then have "e \<in> set (work_orders db)" using that(1) by (auto simp: assms(2))
    then show ?thesis using prod_okD(3) [OF assms(1) _ that(2)] by (auto simp: assms(2))
  qed
  show "e = d" if "d \<in> set (work_orders db')" "e \<in> set (work_orders db')" "wo_ParentWOID d \<noteq> None"
      "wo_ParentWOID e = wo_ParentWOID d" for d e
    using that prod_okD(4) [OF assms(1)] assms(6) by (auto simp: assms(2))
qed

lemma wo_change_ok:
  assumes "wo_change db db'" and "prod_ok db"
  shows "prod_ok db'"
  using assms(1)
proof cases
  case wo_same
  with assms(2) show ?thesis by (simp add: prod_ok_def)
next
  case (wo_update P f)
  then show ?thesis
    by (intro prod_ok_map [OF assms(2), where g = "\<lambda>w. if P w then f w else w"]) (auto simp: update_where_def)
next
  case (wo_insert w)
  then show ?thesis by (intro prod_ok_insert [OF assms(2)]) auto
next
  case (wo_split i f c w)
  let ?g = "\<lambda>w. if wo_ID w = i then f w else w"
  let ?db1 = "update_wo i f db"
  have edge: "wo_edge v (?g v)" if "v \<in> set (work_orders db)" for v
    using wo_split(3) that by simp
  have ok1: "prod_ok ?db1"
    by (rule prod_ok_map [OF assms(2), where g = ?g]) (use edge in \<open>auto simp: update_where_def\<close>)
  have w: "w \<in> set (work_orders db)" "wo_ID w = i" using row_by_SomeD [OF wo_split(2)] by auto
  have child: "wo_ParentWOID d \<noteq> Some i" if "d \<in> set (work_orders db)" for d
  proof
    assume "wo_ParentWOID d = Some i"
    from prod_okD(3) [OF assms(2) that this] obtain v where v: "v \<in> set (work_orders db)" "wo_ID v = i" "carry_link v d"
      by blast
    have "v = w" using v w wo_split(2) row_by_Some_iff [OF prod_okD(1) [OF assms(2)]] by (metis option.inject)
    then show False using v(3) wo_split(4) by (simp add: carry_link_def closes_def)
  qed
  show ?thesis
  proof (rule prod_ok_insert [OF ok1])
    show "work_orders db' = work_orders ?db1 @ [c]" using wo_split by simp
    have "map wo_ID (work_orders ?db1) = map wo_ID (work_orders db)"
      using wo_edgeD(1) [OF edge] by (simp add: update_where_def)
    then show "wo_row (wo_ID c) ?db1 = None"
      using wo_split(5) by (metis list.set_map row_by_None_iff)
    from wo_split(4,10) have q: "0 < wo_Quantity c" "wo_Quantity c < wo_Quantity w" by (auto simp: closes_def)
    with prod_okD(2) [OF assms(2) w(1)] show "0 < wo_Quantity c \<and> in_int4 (wo_Quantity c)" by (simp add: in_int4_def)
    show "wo_EstimatedHours c = None" by (rule wo_split(11))
    fix p assume "wo_ParentWOID c = Some p"
    then have p: "p = i" using wo_split by simp
    have e: "wo_edge w (f w)" using edge [OF w(1)] w(2) by simp
    have "carry_link (f w) c"
      using wo_split q e by (auto simp: carry_link_def closes_def wo_edge_def same_order_def)
    moreover have "f w \<in> set (work_orders ?db1)" using w by (auto intro: in_update_whereI)
    ultimately have "\<exists>v \<in> set (work_orders ?db1). wo_ID v = p \<and> carry_link v c"
      using p w e by (intro bexI [of _ "f w"]) (auto dest: wo_edgeD(1))
    moreover have "wo_ParentWOID d \<noteq> Some p" if "d \<in> set (work_orders ?db1)" for d
    proof -
      from that obtain d0 where d0: "d0 \<in> set (work_orders db)" "d = ?g d0" by (auto simp: update_where_def)
      have "wo_ParentWOID d = wo_ParentWOID d0" using wo_edgeD(3) [OF edge [OF d0(1)]] d0(2) by argo
      then show ?thesis using child [OF d0(1)] p by simp
    qed
    ultimately show "(\<exists>v \<in> set (work_orders ?db1). wo_ID v = p \<and> carry_link v c) \<and>
        (\<forall>d \<in> set (work_orders ?db1). wo_ParentWOID d \<noteq> Some p)" by blast
  qed
qed

lemma prod_step_change:
  assumes "prod_ok db" and "prod_step sch deps db db'"
  shows "wo_change db db'"
proof -
  note keys = prod_okD(1) [OF assms(1)]
  have int4: "\<forall>w \<in> set (work_orders db). in_int4 (wo_Quantity w)" using prod_okD(2) [OF assms(1)] by blast
  from assms(2) show ?thesis
  proof cases
    case 1 then show ?thesis by (rule CreateWorkOrder_change)
  next case 2 then show ?thesis by (rule AdvanceStatus_change [OF keys])
  next case 3 then show ?thesis by (rule wo_same [OF RecordConsumption_same])
  next case 4 then show ?thesis by (rule AssignWorkOrder_change)
  next case 5 then show ?thesis by (rule wo_same [OF machine_ops_same(1)])
  next case 6 then show ?thesis by (rule wo_same [OF machine_ops_same(2)])
  next case 7 then show ?thesis by (rule wo_same [OF machine_ops_same(3)])
  next case 8 then show ?thesis by (rule DeleteSlot_change)
  next case 9 then show ?thesis by (rule scheduling_change(1))
  next case 10 then show ?thesis by (rule scheduling_change(2))
  next case 11 then show ?thesis by (rule scheduling_change(3))
  next case 12 then show ?thesis by (rule wo_same [OF labor_blockers_same(1)])
  next case 13 then show ?thesis by (rule CancelPlannedByPlan_change)
  next case 14 then show ?thesis by (rule PartialComplete_change [OF keys int4])
  next case 15 then show ?thesis by (rule BoostWOPriority_change)
  next case 16 then show ?thesis by (rule PreemptWO_change [OF keys])
  next case 17 then show ?thesis by (rule reassign_claim_change(1))
  next case 18 then show ?thesis by (rule reassign_claim_change(2))
  next case 19 then show ?thesis by (rule UpdateQCStatus_change)
  next case 20 then show ?thesis by (rule wo_same [OF labor_blockers_same(2)])
  next case 21 then show ?thesis by (rule wo_same [OF labor_blockers_same(3)])
  qed
qed

interpretation production: invariant "\<lambda>db. db = empty_prod" "prod_step sch deps" prod_ok
proof unfold_locales
  show "prod_ok db" if "db = empty_prod" for db
    using that by (simp add: prod_ok_def empty_prod_def)
  show "prod_ok db'" if "prod_ok db" "prod_step sch deps db db'" for db db'
    by (rule wo_change_ok [OF prod_step_change [OF that] that(1)])
qed

section \<open>Executions\<close>

text \<open>Where every order of one state has gone in a later one.\<close>

definition orders_evolve :: "prod_db \<Rightarrow> prod_db \<Rightarrow> bool" where
  "orders_evolve db db' \<longleftrightarrow> (\<forall>w \<in> set (work_orders db). \<exists>w' \<in> set (work_orders db').
     same_order w w' \<and> wo_Status w' \<in> wo_future (wo_Status w))"

lemma wo_change_edge:
  assumes "wo_change db db'" and "w \<in> set (work_orders db)"
  shows "\<exists>w' \<in> set (work_orders db'). wo_edge w w'"
  using assms(1)
proof cases
  case (wo_update P f)
  then show ?thesis
    using assms(2) by (intro bexI [of _ "if P w then f w else w"]) (auto simp: set_update_where)
next
  case (wo_split i f c v)
  then show ?thesis
    using assms(2) by (intro bexI [of _ "if wo_ID w = i then f w else w"]) (auto simp: set_update_where)
qed (use assms(2) in \<open>auto intro!: bexI [of _ w]\<close>)

lemma orders_evolve_star:
  assumes "prod_ok db" and "(prod_step sch deps)\<^sup>*\<^sup>* db db'"
  shows "orders_evolve db db'"
  using assms(2)
proof (induction rule: rtranclp_induct)
  case base
  show ?case by (auto simp: orders_evolve_def same_order_def intro: bexI)
next
  case (step db1 db2)
  have ok: "prod_ok db1" by (rule production.star_inv [OF assms(1) step(1)])
  show ?case
    unfolding orders_evolve_def
  proof
    fix w assume "w \<in> set (work_orders db)"
    with step(3) obtain w1 where w1: "w1 \<in> set (work_orders db1)" "same_order w w1" "wo_Status w1 \<in> wo_future (wo_Status w)"
      unfolding orders_evolve_def by blast
    from wo_change_edge [OF prod_step_change [OF ok step(2)] w1(1)] obtain w2
      where w2: "w2 \<in> set (work_orders db2)" "wo_edge w1 w2" by blast
    have "same_order w w2" using w1(2) w2(2) by (simp add: wo_edge_def same_order_def)
    moreover have "wo_Status w2 \<in> wo_future (wo_Status w)" using w1(3) wo_edgeD(4) [OF w2(2)] by (rule wo_future_step)
    ultimately show "\<exists>w' \<in> set (work_orders db2). same_order w w' \<and> wo_Status w' \<in> wo_future (wo_Status w)"
      using w2(1) by blast
  qed
qed

end
