(* ===== verification/Production_Props.thy ===== *)
theory Production_Props
  imports Production_Invariant
begin

text \<open>
  The properties of the production module: the life cycle of a work order over every execution,
  the carry-over chain, what advancing and closing an order do, the capacity of a machine
  slot in spite of floating point, the assignment suggestion and the labor cost; and what goes
  wrong when \<open>AdvanceStatus\<close> interleaves with a partial completion.
\<close>

section \<open>A concrete plant\<close>

text \<open>
  The neighbours' state is the list of events the finished-goods hook has received, newest
  last. Plan 1 is approved and makes SKU 2, which needs metal; user 5 is a CNC operator.
\<close>

definition plant_refs :: prod_refs where
  "plant_refs = \<lparr>ref_users = [(5, ''cnc''), (6, ''cnc''), (9, ''admin'')], ref_skus = [2], ref_plans = [(1, Some 1000)],
     ref_boms = [\<lparr>bom_SKUID = 2, bom_MaterialID = 3, bom_MaterialType = ''PLYWOOD''\<rparr>], ref_so_lines = [], ref_materials = [3]\<rparr>"

definition plant :: "WOCompletedEvent list prod_deps" where
  "plant = \<lparr>refs = (\<lambda>_. plant_refs), pc = (\<lambda>i _. Inr \<lparr>pi_ID = i, pi_Status = PlanApproved, pi_SKUIDs = [2]\<rparr>),
     sc = (\<lambda>i _. Inr \<lparr>ki_ID = i, ki_RequiresMetal = True, ki_Dimensions = \<lparr>LengthMM = 100, WidthMM = 50\<rparr>\<rparr>),
     uc = (\<lambda>i _. Inr \<lparr>us_ID = i, us_Role = ''cnc'', us_IsActive = True\<rparr>),
     sa = None, cc = Some \<lparr>HasCostingRecord_dep = (\<lambda>_ _. Inr True), IsCostingFinalized_dep = (\<lambda>_ _. Inr False)\<rparr>,
     ra = None, stk = Some (\<lambda>_ _. Inr 40), br = Some (\<lambda>_ _. Inr [3]), wo_notifier = None,
     fgHook = Some (\<lambda>e log. (Inr (), log @ [e]))\<rparr>"

definition plant_env :: "int \<Rightarrow> env" where
  "plant_env t = \<lparr>now = t, fresh = (\<lambda>n. nat t * 10 + n)\<rparr>"

definition order10 :: CreateWOInput where
  "order10 = \<lparr>cw_PlanID = 1, cw_SKUID = 2, cw_Quantity = 10, cw_BypassReason = [], cw_CallerID = Some 9, cw_SalesOrderLineID = None\<rparr>"

definition move_to :: "WorkOrderStatus \<Rightarrow> AdvanceStatusInput" where
  "move_to s = \<lparr>as_To = s, as_SheetID = None, as_CallerID = Some 5, as_CallerRole = ''cnc'', as_BypassOverflow = False,
     as_BypassReason = []\<rparr>"

text \<open>Order 10 of ten units: created, assigned to operator 5, cut, in processing with its metal booked.\<close>

definition plant_created :: prod_db where
  "plant_created = fst (snd (CreateWorkOrder plant (plant_env 1) order10 (empty_prod, [])))"

definition plant_assigned :: prod_db where
  "plant_assigned = fst (snd (AssignWorkOrder plant (plant_env 2) 10 5 (plant_created, [])))"

definition plant_cutting :: prod_db where
  "plant_cutting = fst (snd (AdvanceStatus plant 10 (move_to WOInCutting) (plant_assigned, [])))"

definition plant_processing :: prod_db where
  "plant_processing = fst (snd (AdvanceStatus plant 10 (move_to WOInProcessing) (plant_cutting, [])))"

definition plant_metal :: prod_db where
  "plant_metal = fst (snd (RecordConsumption plant (plant_env 3)
     \<lparr>rc_WorkOrderID = 10, rc_MaterialID = 3, rc_MaterialType = ''METAL'', rc_Quantity = 2, rc_Unit = ''kg''\<rparr> (plant_processing, [])))"

definition short4 :: PartialCompleteInput where
  "short4 = \<lparr>pci_WorkOrderID = 10, pci_ActualQty = 4, pci_ShortfallReason = ''DEFECT'', pci_CarryOver = True,
     pci_CarryOverPlanID = None, pci_CallerID = Some 5\<rparr>"

definition plant_short :: prod_db where
  "plant_short = fst (snd (PartialComplete plant (plant_env 4) short4 (plant_metal, [])))"

lemma plant_steps:
  "prod_step migrated_prod_schema plant empty_prod plant_created"
  "prod_step migrated_prod_schema plant plant_created plant_assigned"
  "prod_step migrated_prod_schema plant plant_assigned plant_cutting"
  "prod_step migrated_prod_schema plant plant_cutting plant_processing"
  "prod_step migrated_prod_schema plant plant_processing plant_metal"
  "prod_step migrated_prod_schema plant plant_metal plant_short"
  by (rule prod_step.intros(1) [OF run_eq [OF plant_created_def]] prod_step.intros(4) [OF run_eq [OF plant_assigned_def]]
      prod_step.intros(2) [OF run_eq [OF plant_cutting_def]] prod_step.intros(2) [OF run_eq [OF plant_processing_def]]
      prod_step.intros(3) [OF run_eq [OF plant_metal_def]] prod_step.intros(14) [OF run_eq [OF plant_short_def]])+

lemma plant_run:
  "(prod_step migrated_prod_schema plant)\<^sup>*\<^sup>* empty_prod plant_created"
  "(prod_step migrated_prod_schema plant)\<^sup>*\<^sup>* plant_created plant_metal"
  "(prod_step migrated_prod_schema plant)\<^sup>*\<^sup>* plant_created plant_short"
  using plant_steps by (meson converse_rtranclp_into_rtranclp r_into_rtranclp)+

lemma plant_created_ok: "prod_ok plant_created"
  by (rule production.star_inv [OF _ plant_run(1)]) (simp add: prod_ok_def empty_prod_def)

lemma plant_metal_ok: "prod_ok plant_metal"
  by (rule production.star_inv [OF plant_created_ok plant_run(2)])

lemma plant_rows:
  "map (\<lambda>w. (wo_ID w, wo_Status w, wo_Quantity w)) (work_orders plant_created) = [(10, WOPlanned, 10)]"
  "map (\<lambda>w. (wo_ID w, wo_Status w, wo_Quantity w)) (work_orders plant_short) = [(10, WOPartialComplete, 10), (40, WOPlanned, 6)]"
  by code_simp+

section \<open>Executions\<close>

text \<open>
  C23: the life of a work order. Whatever calls of the service follow one another and whatever the
  other modules answer, an order never disappears; its plan, SKU, quantity, customer line,
  parent and creation time never change; and its status stays within what the transition
  table, preemption and the plan cascade allow: an order in processing can only be completed,
  fully or in part, and then costed, and costed and canceled orders stay as they are.
\<close>

theorem work_order_life_cycle:
  assumes "prod_ok db" and "(prod_step sch deps)\<^sup>*\<^sup>* db db'" and "w \<in> set (work_orders db)"
  shows "\<exists>w' \<in> set (work_orders db'). wo_ID w' = wo_ID w \<and> same_order w w' \<and> wo_Status w' \<in> wo_future (wo_Status w)"
  using orders_evolve_star [OF assms(1,2)] assms(3) unfolding orders_evolve_def same_order_def by fast

theorem work_order_life_cycle_witness:
  "\<exists>w' \<in> set (work_orders plant_short). wo_ID w' = 10 \<and> wo_Quantity w' = 10"
proof -
  obtain w where w: "w \<in> set (work_orders plant_created)" "wo_ID w = 10" "wo_Quantity w = 10"
    using plant_rows(1) by auto
  from work_order_life_cycle [OF plant_created_ok plant_run(3) w(1)] w show ?thesis by (auto simp: same_order_def)
qed

text \<open>
  C24: nothing is lost or doubled by closing an order short. In every reachable state, a carry-over
  order continues exactly one order; that order was closed with a recorded quantity of at
  least one, the carry-over makes the same SKU for the same customer line, and what was
  made plus what is carried over is what was ordered. No order has two carry-overs.
\<close>

theorem carry_over_conserves:
  assumes "reach (\<lambda>db. db = empty_prod) (prod_step sch deps) db"
    and "c \<in> set (work_orders db)" and "wo_ParentWOID c = Some p"
  shows "(\<exists>w a. wo_row p db = Some w \<and> wo_Status w \<in> {WOPartialComplete, WOCosted} \<and> wo_ActualQty w = Some a \<and>
      1 \<le> a \<and> 0 < wo_Quantity c \<and> a + wo_Quantity c = wo_Quantity w \<and> wo_SKUID c = wo_SKUID w \<and>
      wo_SalesOrderLineID c = wo_SalesOrderLineID w) \<and>
    (\<forall>d \<in> set (work_orders db). wo_ParentWOID d = Some p \<longrightarrow> d = c)"
proof -
  have ok: "prod_ok db" by (rule production.reach_inv [OF assms(1)])
  from prod_okD(3) [OF ok assms(2,3)] obtain w where w: "w \<in> set (work_orders db)" "wo_ID w = p" "carry_link w c" by blast
  have "wo_row p db = Some w" using row_by_Some_iff [OF prod_okD(1) [OF ok]] w by blast
  moreover have "0 < wo_Quantity c" using prod_okD(2) [OF ok assms(2)] by simp
  moreover have "d = c" if "d \<in> set (work_orders db)" "wo_ParentWOID d = Some p" for d
    using prod_okD(4) [OF ok assms(2) that(1)] that(2) assms(3) by simp
  ultimately show ?thesis using w(3) unfolding carry_link_def by blast
qed

theorem carry_over_conserves_witness:
  "\<exists>w a. wo_row 10 plant_short = Some w \<and> wo_ActualQty w = Some a \<and> a + 6 = wo_Quantity w"
proof -
  have r: "reach (\<lambda>db. db = empty_prod) (prod_step migrated_prod_schema plant) plant_short"
    by (rule reach_star [OF _ rtranclp_trans [OF plant_run(1,3)]]) (rule reach_init, simp)
  let ?c = "the (wo_row 40 plant_short)"
  have c: "?c \<in> set (work_orders plant_short)" "wo_ParentWOID ?c = Some 10" "wo_Quantity ?c = 6" by code_simp+
  from carry_over_conserves [OF r c(1,2)] c(3) show ?thesis by auto
qed

section \<open>Advancing and closing an order\<close>

lemma fst_AdvanceStatus_Inl: "AdvanceStatus deps i inp (db, x) = (Inl e, (db', x')) \<Longrightarrow> db' = db"
  by (erule AdvanceStatus_cases) auto

text \<open>
  Advancing. A call that succeeds found the order with no open blocker and a status from which
  the table allows the move; a move into cutting found an estimated cost and, unless an admin
  asked, an assigned operator who is the caller; a completion found metal booked where the SKU
  needs it. It rewrites the status of that order and nothing else, and tells the
  finished-goods hook of the full quantity exactly when the order is completed. A call that
  fails leaves the module's tables as they were.
\<close>

theorem AdvanceStatus_effect:
  assumes "AdvanceStatus deps i inp (db, x) = (r, (db', x'))"
  shows "case r of
      Inl e \<Rightarrow> db' = db
    | Inr _ \<Rightarrow> (\<exists>w x1. wo_row i db = Some w \<and> CanTransitionTo (wo_Status w) (as_To inp) \<and>
        (\<forall>b \<in> set (blockers db). bk_WorkOrderID b = i \<longrightarrow> bk_ResolvedAt b \<noteq> None) \<and>
        (as_To inp = WOInCutting \<longrightarrow>
           (as_CallerRole inp \<noteq> RoleAdmin \<longrightarrow> wo_AssignedTo w \<noteq> None \<and> as_CallerID inp \<in> {None, wo_AssignedTo w}) \<and>
           (\<forall>c. cc deps = Some c \<longrightarrow> HasCostingRecord_dep c i x = Inr True)) \<and>
        (as_To inp = WOCompleted \<longrightarrow> (\<exists>sku. sc deps (wo_SKUID w) x = Inr sku \<and> (ki_RequiresMetal sku \<longrightarrow>
           (\<exists>c \<in> set (consumptions db). cn_WorkOrderID c = i \<and> cn_MaterialType c = ''METAL'')))) \<and>
        db' = update_wo i (\<lambda>w. w\<lparr>wo_Status := as_To inp\<rparr>) db \<and>
        preassign deps i inp x = (Inr (), x1) \<and>
        x' = (let y = notify_status deps i (as_To inp) x1 in if as_To inp = WOCompleted
              then fire_fg_hook deps w (wo_Quantity w) (acting_user (as_CallerID inp) w) y else y))"
  using assms
proof (cases rule: AdvanceStatus_cases)
  case (2 w x1)
  note g = advance_guards_Inr [OF 2(2), simplified]
  have blk: "\<forall>b \<in> set (blockers db). bk_WorkOrderID b = i \<longrightarrow> bk_ResolvedAt b \<noteq> None"
    using g(3) by (auto simp: countOpenBlockers_def count_where_zero_iff)
  have asg: "as_To inp = WOInCutting \<longrightarrow> as_CallerRole inp \<noteq> RoleAdmin \<longrightarrow>
      wo_AssignedTo w \<noteq> None \<and> as_CallerID inp \<in> {None, wo_AssignedTo w}"
    using g(4) by (auto simp: assignment_guard_def split: option.splits if_splits)
  have cost: "as_To inp = WOInCutting \<longrightarrow> (\<forall>c. cc deps = Some c \<longrightarrow> HasCostingRecord_dep c i x = Inr True)"
    using g(5) by (auto simp: costing_guard_def split: sum.splits if_splits)
  have metal: "as_To inp = WOCompleted \<longrightarrow> (\<exists>sku. sc deps (wo_SKUID w) x = Inr sku \<and> (ki_RequiresMetal sku \<longrightarrow>
      (\<exists>c \<in> set (consumptions db). cn_WorkOrderID c = i \<and> cn_MaterialType c = ''METAL'')))"
    using g(6) 2(3) by (auto simp: metal_guard_def hasMetalConsumption_def list_ex_iff split: sum.splits if_splits)
  show ?thesis using 2 g blk asg cost metal by auto
qed simp

theorem AdvanceStatus_effect_witness:
  "\<exists>w db' x'. AdvanceStatus plant 10 (move_to WOCompleted) (plant_metal, []) = (Inr (), (db', x')) \<and>
     wo_row 10 plant_metal = Some w \<and> db' = update_wo 10 (\<lambda>w. w\<lparr>wo_Status := WOCompleted\<rparr>) plant_metal \<and> map we_Quantity x' = [10]"
proof -
  let ?run = "AdvanceStatus plant 10 (move_to WOCompleted) (plant_metal, [])"
  have to: "as_To (move_to WOCompleted) = WOCompleted" by (simp add: move_to_def)
  have r: "\<not> isl (fst ?run)" "map we_Quantity (snd (snd ?run)) = [10]" by code_simp+
  from run_ok [OF r(1)] obtain u db' x' where eq: "?run = (Inr u, (db', x'))" by blast
  from AdvanceStatus_effect [OF eq] r(2) eq show ?thesis by (auto simp: to)
qed

text \<open>The carry-over of a successful partial completion.\<close>

lemma PartialComplete_carry:
  assumes "prod_ok db" and "PartialComplete deps env inp (db, x) = (Inr res, (db', x'))" and "pci_CarryOver inp"
    and "wo_row (pci_WorkOrderID inp) db = Some w"
  obtains c where "work_orders db' = update_where (\<lambda>v. wo_ID v = pci_WorkOrderID inp)
      (closed_row (pci_ActualQty inp) (pci_ShortfallReason inp)) (work_orders db) @ [c]"
    and "wo_Status c = WOPlanned" and "wo_Quantity c = wo_Quantity w - pci_ActualQty inp"
    and "wo_ParentWOID c = Some (pci_WorkOrderID inp)" and "pci_ActualQty inp < wo_Quantity w"
    and "pcr_CarryOverWO res = Some c" and "wo_AssignedTo c = None" and "wo_SKUID c = wo_SKUID w"
    and "wo_SalesOrderLineID c = wo_SalesOrderLineID w" and "wo_row (wo_ID c) db = None"
  using assms(2)
proof (cases rule: PartialComplete_cases)
  case (2 v)
  have v: "v = w" using 2(1) assms(4) by simp
  have "w \<in> set (work_orders db)" using row_by_SomeD [OF assms(4)] by simp
  then have "in_int4 (wo_Quantity w)" using prod_okD(2) [OF assms(1)] by simp
  then have q: "i64 (wo_Quantity w - pci_ActualQty inp) = wo_Quantity w - pci_ActualQty inp"
    using 2 v by (intro i64_in_range) (auto simp: in_i64_def in_int4_def)
  show ?thesis
    by (rule that [of "wo_columns (the (carry_over_of env inp w))"])
      (use 2 v q assms(3) in \<open>auto simp: carry_over_of_def new_work_order_def wo_columns_def\<close>)
qed simp

text \<open>
  Closing short. A \<^verbatim>\<open>PartialComplete\<close> that succeeds found the order in processing and a quantity
  between one and one less than ordered; it records quantity and reason, opens at most one
  carry-over, planned and unassigned, for exactly the missing units, and reports to the
  finished-goods hook the units made and not the units ordered. Every other order is
  unchanged. A call that fails changes nothing, and closing the same order again is refused.
\<close>

theorem PartialComplete_effect:
  assumes "prod_ok db" and "PartialComplete deps env inp (db, x) = (r, (db', x'))"
  shows "case r of
      Inl e \<Rightarrow> db' = db \<and> x' = x
    | Inr res \<Rightarrow> (\<exists>w carry. wo_row (pci_WorkOrderID inp) db = Some w \<and> wo_Status w = WOInProcessing \<and>
        1 \<le> pci_ActualQty inp \<and> pci_ActualQty inp < wo_Quantity w \<and>
        work_orders db' = update_where (\<lambda>v. wo_ID v = wo_ID w) (closed_row (pci_ActualQty inp) (pci_ShortfallReason inp))
          (work_orders db) @ carry \<and>
        (if pci_CarryOver inp then (\<exists>c. carry = [c] \<and> pcr_CarryOverWO res = Some c \<and> wo_Status c = WOPlanned \<and>
             wo_Quantity c = wo_Quantity w - pci_ActualQty inp \<and> wo_ParentWOID c = Some (wo_ID w) \<and> wo_AssignedTo c = None \<and>
             wo_SKUID c = wo_SKUID w \<and> wo_SalesOrderLineID c = wo_SalesOrderLineID w)
         else carry = [] \<and> pcr_CarryOverWO res = None) \<and>
        x' = fire_fg_hook deps (pcr_WOUpdated res) (pci_ActualQty inp) (acting_user (pci_CallerID inp) w)
          (notify_status deps (wo_ID w) WOPartialComplete x) \<and>
        fst (PartialComplete deps env' inp (db', y)) = Inl (Biz ErrInvalidTransition))"
  using assms(2)
proof (cases rule: PartialComplete_cases)
  case (2 w)
  have row: "wo_row (pci_WorkOrderID inp) db' = Some (closed_row (pci_ActualQty inp) (pci_ShortfallReason inp) w)"
    using 2(1,2,7) by (simp add: row_by_update_where closed_row_def)
  have pre: "pci_WorkOrderID inp \<noteq> uuid_Nil" "validShortfallReason (pci_ShortfallReason inp)"
    using assms(2) 2(6) by (auto simp: PartialComplete_def split: if_splits)
  have again: "fst (PartialComplete deps env' inp (db', y)) = Inl (Biz ErrInvalidTransition)"
    using row pre by (simp add: PartialComplete_def selectWorkOrderByID_def closed_row_def)
  show ?thesis
  proof (cases "pci_CarryOver inp")
    case True
    note run = assms(2) [unfolded 2(6)]
    show ?thesis by (rule PartialComplete_carry [OF assms(1) run True 2(1)]) (use 2 again True in auto)
  next
    case False
    then show ?thesis using 2 again by (auto simp: carry_over_of_def)
  qed
qed simp

theorem PartialComplete_effect_witness:
  "\<exists>res db' x'. PartialComplete plant (plant_env 4) short4 (plant_metal, []) = (Inr res, (db', x')) \<and>
     map we_Quantity x' = [4] \<and> fst (PartialComplete plant (plant_env 5) short4 (db', x')) = Inl (Biz ErrInvalidTransition)"
proof -
  let ?run = "PartialComplete plant (plant_env 4) short4 (plant_metal, [])"
  have r: "\<not> isl (fst ?run)" "map we_Quantity (snd (snd ?run)) = [4]" by code_simp+
  from run_ok [OF r(1)] obtain res db' x' where eq: "?run = (Inr res, (db', x'))" by blast
  from PartialComplete_effect [OF plant_metal_ok eq, where env' = "plant_env 5" and y = x'] r(2) eq show ?thesis by auto
qed

text \<open>
  C27: the check and the write of \<^verbatim>\<open>AdvanceStatus\<close> are not one transaction. When a partial completion
  commits between them, the completion still goes through: the order ends up completed while it
  keeps the smaller quantity it was closed with, its carry-over stays open, and the
  finished-goods hook has been told of the units made and then of all the units ordered.
\<close>

theorem completion_races_partial:
  assumes "prod_ok db" and "as_To inp = WOCompleted" and "advance_checks deps i inp (db, x) = (Inr w, (db, x1))"
    and "pci_WorkOrderID pin = i" and "pci_CarryOver pin"
    and "PartialComplete deps env pin (db, x1) = (Inr res, (db2, x2))"
  shows "\<exists>db3 c. advance_commit deps w inp (db2, x2) =
      (Inr (), (db3, fire_fg_hook deps w (wo_Quantity w) (acting_user (as_CallerID inp) w) (notify_status deps i WOCompleted x2))) \<and>
    wo_row i db3 = Some ((closed_row (pci_ActualQty pin) (pci_ShortfallReason pin) w)\<lparr>wo_Status := WOCompleted\<rparr>) \<and>
    c \<in> set (work_orders db3) \<and> wo_ParentWOID c = Some i \<and> wo_Status c = WOPlanned \<and>
    0 < wo_Quantity c \<and> wo_Quantity w + pci_ActualQty pin + wo_Quantity c = 2 * wo_Quantity w"
proof -
  have g: "advance_guards deps i inp (db, x) = Inr w"
    using assms(3) by (auto simp: advance_checks_def split: sum.splits prod.splits)
  note w = advance_guards_Inr(1) [OF g, simplified]
  have id: "wo_ID w = i" using row_by_SomeD [OF w] by simp
  from PartialComplete_carry [OF assms(1,6,5), unfolded assms(4), OF w] obtain c where c:
    "work_orders db2 = update_where (\<lambda>v. wo_ID v = i) (closed_row (pci_ActualQty pin) (pci_ShortfallReason pin)) (work_orders db) @ [c]"
    "wo_Status c = WOPlanned" "wo_Quantity c = wo_Quantity w - pci_ActualQty pin" "wo_ParentWOID c = Some i"
    "pci_ActualQty pin < wo_Quantity w" "wo_row (wo_ID c) db = None"
    by metis
  let ?db3 = "update_wo i (\<lambda>w. w\<lparr>wo_Status := WOCompleted\<rparr>) db2"
  have row2: "wo_row i db2 = Some (closed_row (pci_ActualQty pin) (pci_ShortfallReason pin) w)"
    using w id c(1) by (simp add: row_by_update_where closed_row_def)
  have row3: "wo_row i ?db3 = Some ((closed_row (pci_ActualQty pin) (pci_ShortfallReason pin) w)\<lparr>wo_Status := WOCompleted\<rparr>)"
    using row2 id by (simp add: row_by_update_where closed_row_def)
  have "wo_ID c \<noteq> i" using c(6) w by auto
  then have "c \<in> set (work_orders ?db3)" using c(1) by (auto simp: set_update_where)
  moreover have "advance_commit deps w inp (db2, x2) = (Inr (), (?db3,
      fire_fg_hook deps w (wo_Quantity w) (acting_user (as_CallerID inp) w) (notify_status deps i WOCompleted x2)))"
    using assms(2) id by (simp add: advance_commit_def updateWorkOrderStatus_def)
  ultimately show ?thesis using row3 c by fastforce
qed

theorem completion_races_partial_witness:
  "\<exists>w db3 evs. advance_checks plant 10 (move_to WOCompleted) (plant_metal, []) = (Inr w, (plant_metal, [])) \<and>
     advance_commit plant w (move_to WOCompleted) (snd (PartialComplete plant (plant_env 4) short4 (plant_metal, []))) = (Inr (), (db3, evs)) \<and>
     map we_Quantity evs = [4, 10]"
proof -
  let ?chk = "advance_checks plant 10 (move_to WOCompleted) (plant_metal, [])"
  let ?run = "PartialComplete plant (plant_env 4) short4 (plant_metal, [])"
  let ?w = "projr (fst ?chk)"
  have r: "\<not> isl (fst ?chk)" "snd ?chk = (plant_metal, [])" "\<not> isl (fst ?run)"
    "map we_Quantity (fire_fg_hook plant ?w (wo_Quantity ?w) (acting_user (Some 5) ?w)
       (notify_status plant 10 WOCompleted (snd (snd ?run)))) = [4, 10]" by code_simp+
  have chk: "?chk = (Inr ?w, (plant_metal, []))" using r(1,2) by (metis prod.collapse sum.collapse(2))
  from run_ok [OF r(3)] obtain res db' x' where run: "?run = (Inr res, (db', x'))" by blast
  from completion_races_partial [OF plant_metal_ok _ chk _ _ run] r(4) chk run show ?thesis
    by (auto simp: move_to_def short4_def)
qed

end
