(* ===== verification/Production_Schedule_Props.thy ===== *)
theory Production_Schedule_Props
  imports Production_Props
begin

text \<open>
  Properties of scheduling and assignment: a machine slot is never overfilled by assigning an
  order to it although the check subtracts floats, and the ways around that check; the least busy
  operator; the creation of an order; and the endpoints that the database refuses.
\<close>

section \<open>Slot capacity\<close>

lemma hours_float_error: "0 \<le> c \<Longrightarrow> \<bar>hours_float c - of_int c / 100\<bar> \<le> of_int c / 100 / 2 ^ 53"
  using fl_error [of "of_int c / 100"] by (simp add: hours_float_def)

lemma hours_float_nonneg: "0 \<le> c \<Longrightarrow> 0 \<le> hours_float c"
  by (simp add: hours_float_def fl_nonneg)

text \<open>
  The float comparison that admits an order implies the exact one: two hundredths of an hour that
  differ, differ by more than all the rounding errors of the comparison.
\<close>

lemma float_fit_exact:
  assumes "0 \<le> e" and "e < 10 ^ 6" and "0 \<le> c" and "c < 10 ^ 6" and "0 \<le> a"
    and "hours_float e \<le> fl (hours_float c - hours_float a)"
  shows "a + e \<le> c"
proof (rule ccontr)
  assume "\<not> a + e \<le> c"
  then have "c + 1 \<le> a + e" by simp
  then have "(of_int (c + 1) :: rat) \<le> of_int (a + e)" by (simp only: of_int_le_iff)
  then have gap: "of_int c + 1 \<le> (of_int a + of_int e :: rat)" by simp
  let ?E = "of_int e :: rat" and ?C = "of_int c :: rat" and ?A = "of_int a :: rat"
  let ?D = "hours_float c - hours_float a"
  have "?E < of_int (10 ^ 6)" "?C < of_int (10 ^ 6)" using assms(2,4) by (simp_all only: of_int_less_iff)
  then have bnd: "?E < 1000000" "?C < 1000000" "0 \<le> ?E" "0 \<le> ?C" "0 \<le> ?A" using assms(1,3,5) by simp_all
  have err: "\<bar>hours_float e - ?E / 100\<bar> \<le> ?E / 100 / 2 ^ 53" "\<bar>hours_float c - ?C / 100\<bar> \<le> ?C / 100 / 2 ^ 53"
    "\<bar>hours_float a - ?A / 100\<bar> \<le> ?A / 100 / 2 ^ 53" "\<bar>fl ?D - ?D\<bar> \<le> \<bar>?D\<bar> / 2 ^ 53"
    using hours_float_error [OF assms(1)] hours_float_error [OF assms(3)] hours_float_error [OF assms(5)] fl_error by blast+
  have pos: "0 \<le> hours_float e" by (rule hours_float_nonneg) (rule assms(1))
  show False
  proof (cases "?A \<le> 2000000")
    case True
    have small: "\<bar>z - y\<bar> \<le> 1 / 1000000" if "\<bar>z - y\<bar> \<le> k / 2 ^ 53" "k \<le> 40000" for z y k :: rat
    proof -
      have "k / 2 ^ 53 \<le> 40000 / 2 ^ 53" using that(2) by (intro divide_right_mono) simp_all
      also have "\<dots> \<le> 1 / 1000000" by simp
      finally show ?thesis using that(1) by linarith
    qed
    have near: "\<bar>hours_float e - ?E / 100\<bar> \<le> 1 / 1000000" "\<bar>hours_float c - ?C / 100\<bar> \<le> 1 / 1000000"
      "\<bar>hours_float a - ?A / 100\<bar> \<le> 1 / 1000000"
      by (rule small [OF err(1)] small [OF err(2)] small [OF err(3)]; use bnd True in linarith)+
    then have "\<bar>?D\<bar> \<le> 40000" using bnd True by linarith
    then have "\<bar>fl ?D - ?D\<bar> \<le> 1 / 1000000" by (rule small [OF err(4)])
    with near gap assms(6) show False by linarith
  next
    case False
    have half: "?C / 100 / 2 ^ 53 \<le> 1" "?A / 100 / 2 ^ 53 \<le> ?A / 400" using bnd by (simp_all add: field_simps)
    with err(2,3) bnd False have neg: "?D < 0" by linarith
    then have "\<bar>?D\<bar> / 2 ^ 53 < \<bar>?D\<bar>" by simp
    with err(4) neg have "fl ?D < 0" by linarith
    with pos assms(6) show False by linarith
  qed
qed

subsection \<open>Capacities are valid hours in every reachable state\<close>

definition caps_ok :: "prod_db \<Rightarrow> bool" where
  "caps_ok db \<longleftrightarrow> (\<forall>m \<in> set (machines db). hours_ok (ma_CapacityHoursPerShift m)) \<and>
     (\<forall>s \<in> set (slots db). hours_ok (sl_CapacityHours s))"

definition same_caps :: "prod_db \<Rightarrow> prod_db \<Rightarrow> bool" where
  "same_caps db db' \<longleftrightarrow> slots db' = slots db \<and> machines db' = machines db"

lemma same_caps_ok: "same_caps db db' \<Longrightarrow> caps_ok db \<Longrightarrow> caps_ok db'"
  by (simp add: same_caps_def caps_ok_def)

lemma same_caps_orders:
  "CreateWorkOrder deps env cwo (db, x) = (r1, (db', x')) \<Longrightarrow> same_caps db db'"
  "AdvanceStatus deps i adv (db, x) = (r2, (db', x')) \<Longrightarrow> same_caps db db'"
  "RecordConsumption deps env con (db, x) = (r3, (db', x')) \<Longrightarrow> same_caps db db'"
  "AssignWorkOrder deps env i u (db, x) = (r4, (db', x')) \<Longrightarrow> same_caps db db'"
  by (auto simp: same_caps_def CreateWorkOrder_def insertWorkOrder_def RecordConsumption_def insertConsumption_def
      AssignWorkOrder_def updateWorkOrderAssignment_def Let_def elim: AdvanceStatus_cases split: sum.splits if_splits prod.splits)

lemma same_caps_schedule:
  "SetEstimatedHours i h db = (r1, db') \<Longrightarrow> same_caps db db'"
  "AssignSlot i j db = (r2, db') \<Longrightarrow> same_caps db db'"
  "UnassignSlot i db = (r3, db') \<Longrightarrow> same_caps db db'"
  "RecordLaborEntry deps env lab (db, x) = (r4, (db', x')) \<Longrightarrow> same_caps db db'"
  "CancelPlannedByPlan p db = (r5, db') \<Longrightarrow> same_caps db db'"
  by (auto simp: same_caps_def SetEstimatedHours_def updateEstimatedHours_def AssignSlot_def assignSlotAtomically_def UnassignSlot_def
      unassignWOFromSlot_def RecordLaborEntry_def insertLaborEntry_def CancelPlannedByPlan_def cancelPlannedByPlan_def Let_def
      split: sum.splits if_splits option.splits)

lemma same_caps_rest:
  "PartialComplete deps env par (db, x) = (r1, (db', x')) \<Longrightarrow> same_caps db db'"
  "BoostWOPriority deps env i txt a (db, x) = (r2, (db', x')) \<Longrightarrow> same_caps db db'"
  "PreemptWO deps env pre (db, x) = (r3, (db', x')) \<Longrightarrow> same_caps db db'"
  "ReassignWorkOrder sch deps env rea (db, x) = (r4, (db', x')) \<Longrightarrow> same_caps db db'"
  "ClaimWorkOrder sch deps env i u (db, x) = (r5, (db', x')) \<Longrightarrow> same_caps db db'"
  "UpdateQCStatus i txt db = (r6, db') \<Longrightarrow> same_caps db db'"
  "CreateBlocker env blk db = (r7, db') \<Longrightarrow> same_caps db db'"
  "ResolveBlocker env i u db = (r8, db') \<Longrightarrow> same_caps db db'"
  by (auto simp: same_caps_def PartialComplete_def partialCompleteAtomically_def insertWorkOrder_def BoostWOPriority_def
      setPriorityBoostAtomically_def ReassignWorkOrder_def reassignWorkOrderAtomically_def ClaimWorkOrder_def
      claimWorkOrderAtomically_def UpdateQCStatus_def updateWorkOrderQCStatus_def CreateBlocker_def insertBlocker_def
      ResolveBlocker_def getBlocker_def resolveBlocker_def local_op_def Let_def elim: PreemptWO_cases
      split: sum.splits if_splits option.splits prod.splits)

lemma caps_ok_machines:
  "caps_ok db \<Longrightarrow> DeactivateMachine i db = (r1, db') \<Longrightarrow> caps_ok db'"
  "caps_ok db \<Longrightarrow> DeleteSlot i db = (r2, db') \<Longrightarrow> caps_ok db'"
  by (auto simp: caps_ok_def DeactivateMachine_def deactivateMachine_def DeleteSlot_def deleteSlot_def delete_where_def
      elim!: in_update_whereE split: if_splits)

lemma caps_ok_CreateMachine:
  assumes "caps_ok db" and "CreateMachine env mac db = (r, db')"
  shows "caps_ok db'"
proof (cases "db' = db")
  case False
  then obtain c where c: "numeric_6_2 (cm_CapacityHoursPerShift mac) = Inr c" "0 < cm_CapacityHoursPerShift mac"
    and db': "slots db' = slots db" "\<forall>m \<in> set (machines db'). m \<in> set (machines db) \<or> ma_CapacityHoursPerShift m = c"
    using assms(2) by (auto simp: CreateMachine_def insertMachine_def Let_def not_le split: sum.splits if_splits)
  have "hours_ok c" by (rule numeric_6_2_ok [OF c])
  then show ?thesis using assms(1) db' by (auto simp: caps_ok_def)
qed (use assms(1) in simp)

lemma caps_ok_CreateSlot:
  assumes "caps_ok db" and "CreateSlot env slt db = (r, db')"
  shows "caps_ok db'"
proof (cases "db' = db")
  case False
  then obtain m c where m: "row_by ma_ID (ct_MachineID slt) (machines db) = Some m"
    and c: "(case ct_CapacityHours slt of None \<Rightarrow> Inr (ma_CapacityHoursPerShift m) | Some h \<Rightarrow> numeric_6_2 h) = Inr c"
      "case ct_CapacityHours slt of None \<Rightarrow> True | Some h \<Rightarrow> 0 < h"
    and db': "machines db' = machines db" "\<forall>s \<in> set (slots db'). s \<in> set (slots db) \<or> sl_CapacityHours s = c"
    using assms(2)
    by (auto simp: CreateSlot_def selectMachineByID_def insertSlot_def Let_def not_le split: option.splits sum.splits if_splits)
  have "m \<in> set (machines db)" using row_by_SomeD [OF m] by simp
  then have "hours_ok c" using c assms(1) by (auto simp: caps_ok_def dest: numeric_6_2_ok split: option.splits)
  then show ?thesis using assms(1) db' by (auto simp: caps_ok_def)
qed (use assms(1) in simp)

interpretation capacities: invariant "\<lambda>db. db = empty_prod" "prod_step sch deps" caps_ok
proof unfold_locales
  show "caps_ok db" if "db = empty_prod" for db
    using that by (simp add: caps_ok_def empty_prod_def)
  show "caps_ok db'" if ok: "caps_ok db" and step: "prod_step sch deps db db'" for db db'
    using step
  proof cases
    case 5 then show ?thesis by (rule caps_ok_CreateMachine [OF ok])
  next case 6 then show ?thesis by (rule caps_ok_machines(1) [OF ok])
  next case 7 then show ?thesis by (rule caps_ok_CreateSlot [OF ok])
  next case 8 then show ?thesis by (rule caps_ok_machines(2) [OF ok])
  qed (blast intro: same_caps_ok [OF _ ok] same_caps_orders same_caps_schedule same_caps_rest)+
qed

subsection \<open>Assigning an order to a slot\<close>

abbreviation wo_hours :: "WorkOrder \<Rightarrow> int" where
  "wo_hours w \<equiv> (case wo_EstimatedHours w of None \<Rightarrow> 0 | Some h \<Rightarrow> h)"

lemma assigned_hours_update:
  assumes "keys_distinct wo_ID (work_orders db)" and "wo_row i db = Some w" and "\<And>v. wo_ID (f v) = wo_ID v"
  shows "assigned_hours (update_wo i f db) j = assigned_hours db j
    - (if wo_MachineSlotID w = Some j then wo_hours w else 0) + (if wo_MachineSlotID (f w) = Some j then wo_hours (f w) else 0)"
  unfolding assigned_hours_def update_wo_simps by (rule sum_where_update_key [OF assms])

lemma assigned_hours_nonneg: "prod_ok db \<Longrightarrow> 0 \<le> assigned_hours db j"
  unfolding assigned_hours_def
  by (rule sum_where_nonneg) (use prod_okD(2) in \<open>fastforce simp: hours_ok_def split: option.splits\<close>)

text \<open>
  C28: a slot is not overfilled. In every reachable state, an \<^verbatim>\<open>AssignSlot\<close> that succeeds leaves the exact
  sum of the estimated hours in the slot within the slot's capacity, although the check is
  made on floats; no other slot gets more hours than it had, and the order changes in nothing
  but its slot.
\<close>

theorem AssignSlot_capacity:
  assumes "reach (\<lambda>db. db = empty_prod) (prod_step sch deps) db" and "AssignSlot woID slotID db = (Inr w', db')"
  shows "(\<exists>s. row_by sl_ID slotID (slots db') = Some s \<and> assigned_hours db' slotID \<le> sl_CapacityHours s) \<and>
    (\<exists>w. wo_row woID db = Some w \<and> w' = w\<lparr>wo_MachineSlotID := Some slotID\<rparr> \<and> wo_row woID db' = Some w') \<and>
    (\<forall>j. j \<noteq> slotID \<longrightarrow> assigned_hours db' j \<le> assigned_hours db j)"
proof -
  have ok: "prod_ok db" by (rule production.reach_inv [OF assms(1)])
  have caps: "caps_ok db" by (rule capacities.reach_inv [OF assms(1)])
  from assms(2) obtain w h s where w: "wo_row woID db = Some w" and h: "wo_EstimatedHours w = Some h"
    and s: "row_by sl_ID slotID (slots db) = Some s"
    and fit: "hours_float h \<le> fl (hours_float (sl_CapacityHours s) - hours_float (assigned_hours db slotID))"
    and db': "db' = update_wo woID (\<lambda>w. w\<lparr>wo_MachineSlotID := Some slotID\<rparr>) db" and w': "wo_row woID db' = Some w'"
    by (auto simp: AssignSlot_def assignSlotAtomically_def Let_def not_less split: sum.splits option.splits if_splits)
  have id: "wo_ID w = woID" and mem: "w \<in> set (work_orders db)" using row_by_SomeD [OF w] by auto
  have "hours_ok h" using prod_okD(2) [OF ok mem] h by blast
  moreover have "hours_ok (sl_CapacityHours s)" using caps row_by_SomeD [OF s] by (auto simp: caps_ok_def)
  ultimately have le: "assigned_hours db slotID + h \<le> sl_CapacityHours s"
    using fit assigned_hours_nonneg [OF ok] by (intro float_fit_exact) (auto simp: hours_ok_def)
  have upd: "assigned_hours db' j = assigned_hours db j - (if wo_MachineSlotID w = Some j then h else 0) + (if slotID = j then h else 0)" for j
    unfolding db' using assigned_hours_update [OF prod_okD(1) [OF ok] w, of "\<lambda>w. w\<lparr>wo_MachineSlotID := Some slotID\<rparr>"] h by simp
  have "0 \<le> h" using \<open>hours_ok h\<close> by (simp add: hours_ok_def)
  have "assigned_hours db' slotID \<le> sl_CapacityHours s" using upd [of slotID] le \<open>0 \<le> h\<close> by (simp split: if_splits)
  moreover have "assigned_hours db' j \<le> assigned_hours db j" if "j \<noteq> slotID" for j
    using upd [of j] that \<open>0 \<le> h\<close> by (simp split: if_splits)
  moreover have "w' = w\<lparr>wo_MachineSlotID := Some slotID\<rparr>"
    using w' w id by (simp add: db' row_by_update_where)
  ultimately show ?thesis using s w w' by (auto simp: db')
qed

text \<open>Order 10 with 2.5 hours in a slot of eight hours.\<close>

definition plant_machine :: prod_db where
  "plant_machine = snd (CreateMachine (plant_env 6) \<lparr>cm_Code = ''CNC1'', cm_Name = ''router'', cm_CapacityHoursPerShift = 8\<rparr> plant_created)"

definition plant_slot :: prod_db where
  "plant_slot = snd (CreateSlot (plant_env 7) \<lparr>ct_MachineID = 60, ct_ShiftDate = 86400000000, ct_ShiftName = ''A'', ct_CapacityHours = None\<rparr> plant_machine)"

definition plant_timed :: prod_db where
  "plant_timed = snd (SetEstimatedHours 10 (5 / 2) plant_slot)"

lemma plant_timed_reach: "reach (\<lambda>db. db = empty_prod) (prod_step migrated_prod_schema plant) plant_timed"
proof -
  have run: "(prod_step migrated_prod_schema plant)\<^sup>*\<^sup>* plant_created plant_timed"
    using prod_step.intros(5) [OF run_pair [OF plant_machine_def]] prod_step.intros(7) [OF run_pair [OF plant_slot_def]]
      prod_step.intros(9) [OF run_pair [OF plant_timed_def]]
    by (meson converse_rtranclp_into_rtranclp r_into_rtranclp)
  show ?thesis by (rule reach_star [OF _ rtranclp_trans [OF plant_run(1) run]]) (rule reach_init, simp)
qed

theorem AssignSlot_capacity_witness:
  "\<exists>w' db' s. AssignSlot 10 70 plant_timed = (Inr w', db') \<and> row_by sl_ID 70 (slots db') = Some s \<and>
     assigned_hours db' 70 \<le> sl_CapacityHours s"
proof -
  have "\<not> isl (fst (AssignSlot 10 70 plant_timed))" by code_simp
  then obtain w' db' where eq: "AssignSlot 10 70 plant_timed = (Inr w', db')" by (metis prod.collapse sum.collapse(2))
  from AssignSlot_capacity [OF plant_timed_reach eq] eq show ?thesis by blast
qed

text \<open>
  The estimate of an order that already has a slot can be raised past the slot's capacity:
  \<^verbatim>\<open>SetEstimatedHours\<close> succeeds with any positive number of hours the column holds, and the slot's
  load changes by the difference, whatever the capacity is.
\<close>

theorem SetEstimatedHours_ignores_capacity:
  assumes "keys_distinct wo_ID (work_orders db)" and "wo_row i db = Some w" and "wo_MachineSlotID w = Some j"
    and "0 < h" and "numeric_6_2 h = Inr c"
  shows "\<exists>w' db'. SetEstimatedHours i h db = (Inr w', db') \<and> slots db' = slots db \<and> wo_MachineSlotID w' = Some j \<and>
    assigned_hours db' j = assigned_hours db j - wo_hours w + c"
proof -
  let ?f = "\<lambda>w. w\<lparr>wo_EstimatedHours := Some c\<rparr>"
  have id: "wo_ID w = i" using row_by_SomeD [OF assms(2)] by simp
  have run: "SetEstimatedHours i h db = (Inr (?f w), update_wo i ?f db)"
    using assms id by (simp add: SetEstimatedHours_def updateEstimatedHours_def selectWorkOrderByID_def row_by_update_where)
  have "assigned_hours (update_wo i ?f db) j = assigned_hours db j - wo_hours w + c"
    using assigned_hours_update [OF assms(1,2), of ?f] assms(3) by simp
  with run assms(3) show ?thesis by simp
qed

definition plant_placed :: prod_db where
  "plant_placed = snd (AssignSlot 10 70 plant_timed)"

theorem SetEstimatedHours_ignores_capacity_witness:
  "\<exists>w' db' s. SetEstimatedHours 10 9 plant_placed = (Inr w', db') \<and> row_by sl_ID 70 (slots db') = Some s \<and>
     sl_CapacityHours s = 800 \<and> assigned_hours db' 70 = 900"
proof -
  let ?w = "the (wo_row 10 plant_placed)"
  have pre: "keys_distinct wo_ID (work_orders plant_placed)" "wo_row 10 plant_placed = Some ?w" "wo_MachineSlotID ?w = Some 70"
    "0 < (9 :: rat)" "numeric_6_2 9 = Inr 900" by code_simp+
  have val: "assigned_hours plant_placed 70 = 250" "wo_EstimatedHours ?w = Some 250"
    "map_option sl_CapacityHours (row_by sl_ID 70 (slots plant_placed)) = Some 800" by code_simp+
  from SetEstimatedHours_ignores_capacity [OF pre] val show ?thesis by auto
qed

text \<open>
  The float subtraction also refuses an order that fits exactly: 8.00 hours of capacity with 7.90
  assigned leave less than 0.10, while the schedule suggestion, which compares decimals,
  proposes that very slot.
\<close>

lemma exact_fit_refused:
  "hours_float 10 > fl (hours_float 800 - hours_float 790)" and "(790 :: int) + 10 \<le> 800"
  by code_simp+

section \<open>Assignment\<close>

definition cutting_load :: "prod_db \<Rightarrow> uuid \<Rightarrow> int" where
  "cutting_load db u = int (count_where (\<lambda>w. wo_Status w = WOInCutting \<and> wo_AssignedTo w = Some u) (work_orders db))"

lemma hd_insort_key: "hd (insort_key f b ys) = (if ys = [] \<or> f b \<le> f (hd ys) then b else hd ys)"
  by (cases ys) auto

lemma sort_key_Nil_iff: "sort_key f xs = [] \<longleftrightarrow> xs = []"
  by (metis length_0_conv length_sort)

lemma least_busy_hd: "least_busy load b us = hd (sort_key load (b # us))"
proof (induction us arbitrary: b)
  case (Cons u us)
  then show ?case by (auto simp: hd_insort_key sort_key_Nil_iff)
qed simp

text \<open>
  The suggested operator. The loop of \<^verbatim>\<open>SuggestAssignment\<close> computes the head of the CNC operators
  sorted by how many orders they have in cutting, ties by identifier: the first of the least
  busy. It fails only for an unknown order or when there is no CNC operator.
\<close>

theorem SuggestAssignment_least_busy:
  "SuggestAssignment deps woID (db, x) =
     (if wo_row woID db = None then Inl (Biz ErrNotFound)
      else case sort_key (cutting_load db) (sort (map fst (filter (\<lambda>u. snd u = ''cnc'') (ref_users (refs deps x))))) of
             [] \<Rightarrow> Inl (Biz ErrNotFound)
           | u # _ \<Rightarrow> Inr \<lparr>sar_UserID = u, sar_InCuttingCount = cutting_load db u\<rparr>)"
proof (cases "wo_row woID db = None \<or> sort (map fst (filter (\<lambda>u. snd u = ''cnc'') (ref_users (refs deps x)))) = []")
  case True
  then show ?thesis by (auto simp: SuggestAssignment_def selectCNCUserIDs_def selectWorkOrderByID_def split: sum.splits option.splits)
next
  case False
  then obtain w u us where w: "wo_row woID db = Some w"
    and us: "sort (map fst (filter (\<lambda>u. snd u = ''cnc'') (ref_users (refs deps x)))) = u # us" by (meson neq_Nil_conv not_Some_eq)
  have load: "selectInCuttingCountByUser db = Inr (cutting_load db)"
    by (simp add: selectInCuttingCountByUser_def cutting_load_def fun_eq_iff)
  obtain v vs where v: "sort_key (cutting_load db) (u # us) = v # vs" by (metis list.distinct(1) neq_Nil_conv sort_key_Nil_iff)
  have "least_busy (cutting_load db) u us = v" by (simp only: least_busy_hd v list.sel(1))
  then show ?thesis
    by (simp add: SuggestAssignment_def selectCNCUserIDs_def selectWorkOrderByID_def w us v load del: sort_key_simps)
qed

section \<open>Creating an order\<close>

lemma check_stock_Inr_iff: "check_stock count qty ms = Inr () \<longleftrightarrow> (\<forall>m \<in> set ms. \<exists>n. count m = Inr n \<and> qty \<le> n)"
  by (induction ms) (auto split: sum.splits)

text \<open>
  Creating. An order is created only under an approved plan that lists the SKU, for a positive
  quantity, and, where stock and bills of material are wired, only if every sheet material of the
  SKU has at least that many available sheets. It is appended as planned and unassigned; the
  remnant advice that follows cannot fail the call. A call that fails changes nothing.
\<close>

theorem CreateWorkOrder_effect:
  assumes "CreateWorkOrder deps env inp (db, x) = (r, (db', x'))"
  shows "case r of
      Inl e \<Rightarrow> db' = db \<and> x' = x
    | Inr w \<Rightarrow> (\<exists>plan sku. pc deps (cw_PlanID inp) x = Inr plan \<and> pi_Status plan = PlanApproved \<and> cw_SKUID inp \<in> set (pi_SKUIDs plan) \<and>
        sc deps (cw_SKUID inp) x = Inr sku \<and> 0 < cw_Quantity inp \<and>
        (\<forall>count bom. stk deps = Some count \<longrightarrow> br deps = Some bom \<longrightarrow>
           (\<exists>ms. bom (cw_SKUID inp) x = Inr ms \<and> (\<forall>m \<in> set ms. \<exists>n. count m x = Inr n \<and> cw_Quantity inp \<le> n))) \<and>
        w = new_work_order (fresh env 0) (cw_PlanID inp) (cw_SKUID inp) (cw_Quantity inp) (cw_SalesOrderLineID inp) None (now env) \<and>
        db' = db\<lparr>work_orders := work_orders db @ [w]\<rparr> \<and> x' = remnant_advice deps (wo_ID w) sku inp x)"
proof -
  let ?w = "new_work_order (fresh env 0) (cw_PlanID inp) (cw_SKUID inp) (cw_Quantity inp) (cw_SalesOrderLineID inp) None (now env)"
  have cols: "wo_columns ?w = ?w" by (simp add: wo_columns_def new_work_order_def)
  have stock: "stock_check deps sku qty x = Inr () \<Longrightarrow> stk deps = Some count \<Longrightarrow> br deps = Some bom \<Longrightarrow>
      \<exists>ms. bom sku x = Inr ms \<and> (\<forall>m \<in> set ms. \<exists>n. count m x = Inr n \<and> qty \<le> n)" for sku qty count bom
    by (auto simp: stock_check_def check_stock_Inr_iff split: sum.splits)
  have ins: "insertWorkOrder rf ?w db = (q, db1) \<Longrightarrow> (\<exists>e. q = Inl e \<and> db1 = db) \<or> (q = Inr () \<and> db1 = db\<lparr>work_orders := work_orders db @ [?w]\<rparr>)"
    for rf q db1 by (erule insertWorkOrder_cases) (simp_all add: cols)
  show ?thesis
    using assms stock
    by (auto simp: CreateWorkOrder_def Let_def planContainsSKU_def list_ex_iff not_le
        split: sum.splits if_splits prod.splits dest!: ins)
qed

theorem CreateWorkOrder_effect_witness:
  "\<exists>w db' x'. CreateWorkOrder plant (plant_env 1) order10 (empty_prod, []) = (Inr w, (db', x')) \<and> work_orders db' = [w] \<and> wo_Status w = WOPlanned"
proof -
  have "\<not> isl (fst (CreateWorkOrder plant (plant_env 1) order10 (empty_prod, [])))" by code_simp
  from run_ok [OF this] obtain w db' x' where eq: "CreateWorkOrder plant (plant_env 1) order10 (empty_prod, []) = (Inr w, (db', x'))" by blast
  from CreateWorkOrder_effect [OF eq] eq show ?thesis by (auto simp: empty_prod_def new_work_order_def)
qed

section \<open>Endpoints the database refuses\<close>

text \<open>
  With the schema the migrations build, PostgreSQL refuses the statements of four operations:
  reassigning and claiming an order lock the nullable side of an outer join, and the
  feasibility check and the list of preemption candidates name a column that the sales order
  lines do not have. None of the four ever succeeds, and none changes the tables.
\<close>

lemma production_refused:
  "(\<exists>e. ReassignWorkOrder migrated_prod_schema deps env rea (db, x) = (Inl e, (db, x))) \<and>
   (\<exists>e. ClaimWorkOrder migrated_prod_schema deps env i u (db, x) = (Inl e, (db, x))) \<and>
   (\<exists>e. CheckFeasibility migrated_prod_schema deps env i (db, x) = Inl e) \<and>
   (\<exists>e. ListWOPreemptCandidates migrated_prod_schema deps env i (db, x) = Inl e)"
  by (auto simp: ReassignWorkOrder_def reassignWorkOrderAtomically_def ClaimWorkOrder_def claimWorkOrderAtomically_def
      lockWorkOrderByID_def CheckFeasibility_def selectWOWithPlanDeadline_def ListWOPreemptCandidates_def
      selectPreemptCandidates_def migrated_prod_schema_def local_op_def split: sum.splits)

end
