(* ===== verification/Planning.thy ===== *)
theory Planning
  imports Domain Paging Inventory_Listings
begin

text \<open>
  The planning module: \<^verbatim>\<open>internal/module/planning\<close>. A plan is rooted in a purchase order or a sales
  order, lists SKUs with quantities, and moves from draft to approved to canceled; canceling an
  approved plan cascades to the work orders through the interface \<^verbatim>\<open>WorkOrderCanceller\<close>. Plan
  codes come from a sequence. \<open>plan_refs\<close> is what the statements read of the tables of other
  modules: the codes of purchase and sales orders and the SKUs.

  The sequence is part of the tables here. PostgreSQL does not undo \<^verbatim>\<open>nextval\<close> when a later
  statement fails, and neither does the model. The year of a plan code is the clock's, an argument.
  A deadline is a \<^verbatim>\<open>DATE\<close>: the column keeps the day of the instant it is given, and the bounds of a
  query are cast to days too. Days are those of UTC.
\<close>

section \<open>Rows\<close>

record PlanItem =
  it_ID :: uuid
  it_PlanID :: uuid
  it_SKUID :: uuid
  it_Quantity :: int

record Plan =
  pn_ID :: uuid
  pn_Code :: string
  pn_POID :: "uuid option"
  pn_SOID :: "uuid option"
  pn_Status :: PlanStatus
  pn_Deadline :: "time option"
  pn_CreatedAt :: time
  pn_CanceledReason :: string
  pn_CanceledAt :: "time option"
  pn_CanceledBy :: "uuid option"

record plan_db =
  plans :: "Plan list"
  plan_items :: "PlanItem list"
  plan_seq :: nat

record plan_refs =
  pref_pos :: "(uuid \<times> string) list"
  pref_sos :: "(uuid \<times> string) list"
  pref_skus :: "uuid list"

fun plan_status_text :: "PlanStatus \<Rightarrow> string" where
  "plan_status_text PlanDraft = ''DRAFT''"
| "plan_status_text PlanApproved = ''APPROVED''"
| "plan_status_text PlanCanceled = ''CANCELED''"

definition date_of :: "time \<Rightarrow> time" where
  "date_of t = t - t mod day_micros"

section \<open>Plan codes\<close>

text \<open>\<^verbatim>\<open>fmt.Sprintf("KH-%d-%03d", year, seq)\<close> for a year and a sequence number that are not negative.\<close>

definition digit :: "nat \<Rightarrow> char" where
  "digit n = char_of (48 + n)"

fun decimal :: "nat \<Rightarrow> string" where
  "decimal n = (if n < 10 then [digit n] else decimal (n div 10) @ [digit (n mod 10)])"

declare decimal.simps [simp del]

definition pad3 :: "string \<Rightarrow> string" where
  "pad3 s = replicate (3 - length s) (CHR ''0'') @ s"

definition planCode :: "nat \<Rightarrow> nat \<Rightarrow> string" where
  "planCode year seq = ''KH-'' @ decimal year @ ''-'' @ pad3 (decimal seq)"

definition nextPlanCode :: "nat \<Rightarrow> (plan_db, string) op" where
  "nextPlanCode year db = (Inr (planCode year (plan_seq db)), db\<lparr>plan_seq := Suc (plan_seq db)\<rparr>)"

section \<open>Statements\<close>

definition check_plan :: "plan_refs \<Rightarrow> plan_db \<Rightarrow> Plan \<Rightarrow> error option" where
  "check_plan rf db p =
     (if pn_Code p \<in> set (map pn_Code (plans db)) then Some (Pg UniqueViolation)
      else if (pn_POID p = None) = (pn_SOID p = None) then Some (Pg CheckViolation)
      else if (case pn_POID p of None \<Rightarrow> False | Some i \<Rightarrow> i \<notin> set (map fst (pref_pos rf))) \<or>
              (case pn_SOID p of None \<Rightarrow> False | Some i \<Rightarrow> i \<notin> set (map fst (pref_sos rf)))
           then Some (Pg ForeignKeyViolation)
      else None)"

text \<open>The row as the columns keep it; the columns of a cancellation stay null.\<close>

definition plan_columns :: "Plan \<Rightarrow> Plan" where
  "plan_columns p = p\<lparr>pn_Deadline := map_option date_of (pn_Deadline p), pn_CanceledReason := [],
     pn_CanceledAt := None, pn_CanceledBy := None\<rparr>"

definition insertPlan :: "plan_refs \<Rightarrow> Plan \<Rightarrow> (plan_db, unit) op" where
  "insertPlan rf p db =
     (case insert_checked (check_plan rf db) pn_ID (plan_columns p) (plans db) of
        Inl e \<Rightarrow> (Inl e, db)
      | Inr t \<Rightarrow> (Inr (), db\<lparr>plans := t\<rparr>))"

definition check_item :: "plan_refs \<Rightarrow> plan_db \<Rightarrow> PlanItem \<Rightarrow> error option" where
  "check_item rf db it =
     (if \<not> in_int4 (it_Quantity it) then Some (Pg NumericOutOfRange)
      else if row_by pn_ID (it_PlanID it) (plans db) = None \<or> it_SKUID it \<notin> set (pref_skus rf)
           then Some (Pg ForeignKeyViolation)
      else None)"

text \<open>One statement per item and no transaction around them: a failure keeps the items before it.\<close>

fun insertPlanItems :: "plan_refs \<Rightarrow> PlanItem list \<Rightarrow> (plan_db, unit) op" where
  "insertPlanItems rf [] db = (Inr (), db)"
| "insertPlanItems rf (it # its) db =
     (case insert_checked (check_item rf db) it_ID it (plan_items db) of
        Inl e \<Rightarrow> (Inl e, db)
      | Inr t \<Rightarrow> insertPlanItems rf its (db\<lparr>plan_items := t\<rparr>))"

definition selectPlanByID :: "uuid \<Rightarrow> plan_db \<Rightarrow> Plan result" where
  "selectPlanByID i db = (case row_by pn_ID i (plans db) of None \<Rightarrow> Inl (Biz ErrNotFound) | Some p \<Rightarrow> Inr p)"

definition selectPlanItemsByPlanID :: "uuid \<Rightarrow> plan_db \<Rightarrow> PlanItem list result" where
  "selectPlanItemsByPlanID i db = Inr (sort_key it_ID (select_where (\<lambda>it. it_PlanID it = i) (plan_items db)))"

definition update_plan :: "uuid \<Rightarrow> (Plan \<Rightarrow> Plan) \<Rightarrow> plan_db \<Rightarrow> plan_db" where
  "update_plan i f db = db\<lparr>plans := update_where (\<lambda>p. pn_ID p = i) f (plans db)\<rparr>"

definition updatePlanStatus :: "uuid \<Rightarrow> PlanStatus \<Rightarrow> (plan_db, unit) op" where
  "updatePlanStatus i st db = (Inr (), update_plan i (\<lambda>p. p\<lparr>pn_Status := st\<rparr>) db)"

definition cancelPlanWithMetadata :: "uuid \<Rightarrow> string \<Rightarrow> uuid \<Rightarrow> time \<Rightarrow> (plan_db, unit) op" where
  "cancelPlanWithMetadata i reason actor t db =
     (Inr (), update_plan i (\<lambda>p. p\<lparr>pn_Status := PlanCanceled, pn_CanceledReason := reason,
        pn_CanceledBy := Some actor, pn_CanceledAt := Some t\<rparr>) db)"

definition ref_code :: "(uuid \<times> string) list \<Rightarrow> uuid option \<Rightarrow> string option" where
  "ref_code t r = (case r of None \<Rightarrow> None | Some i \<Rightarrow> map_option snd (find (\<lambda>q. fst q = i) t))"

definition code_matches :: "string option \<Rightarrow> string \<Rightarrow> bool" where
  "code_matches c pat \<longleftrightarrow> (case c of None \<Rightarrow> False | Some t \<Rightarrow> ilike t pat)"

text \<open>The search text matches the plan's own code or the code of its root.\<close>

definition plan_searched :: "plan_refs \<Rightarrow> string \<Rightarrow> string \<Rightarrow> Plan \<Rightarrow> bool" where
  "plan_searched rf status search p \<longleftrightarrow>
     (status = [] \<or> plan_status_text (pn_Status p) = status) \<and>
     (let pat = ''%'' @ search @ ''%'' in
      ilike (pn_Code p) pat \<or> code_matches (ref_code (pref_pos rf) (pn_POID p)) pat \<or>
      code_matches (ref_code (pref_sos rf) (pn_SOID p)) pat)"

definition in_interval :: "time option \<Rightarrow> time option \<Rightarrow> time \<Rightarrow> bool" where
  "in_interval from to t \<longleftrightarrow> (case from of None \<Rightarrow> True | Some f \<Rightarrow> f \<le> t) \<and> (case to of None \<Rightarrow> True | Some u \<Rightarrow> t \<le> u)"

definition plan_cursor :: "Plan \<Rightarrow> Cursor" where
  "plan_cursor p = \<lparr>Ts = pn_CreatedAt p, CID = pn_ID p\<rparr>"

definition matching_plans :: "plan_refs \<Rightarrow> string \<Rightarrow> string \<Rightarrow> time option \<Rightarrow> time option \<Rightarrow> plan_db \<Rightarrow> Plan list" where
  "matching_plans rf status search from to db =
     select_where (\<lambda>p. plan_searched rf status search p \<and> in_interval from to (pn_CreatedAt p)) (plans db)"

definition selectPlansKeyset ::
  "plan_refs \<Rightarrow> string \<Rightarrow> string \<Rightarrow> time option \<Rightarrow> time option \<Rightarrow> Cursor \<Rightarrow> int \<Rightarrow> plan_db \<Rightarrow> Plan list result" where
  "selectPlansKeyset rf status search from to cur limit db =
     Inr (keyset_page plan_cursor (matching_plans rf status search from to db) cur limit)"

text \<open>
  Lookup order: approved plans first, plans without a deadline last, then the nearest deadline and
  the newest plan. A bound on the deadline drops plans without one.
\<close>

definition lookup_rank :: "Plan \<Rightarrow> nat" where
  "lookup_rank p = (if pn_Status p = PlanApproved then 0 else 2) + (if pn_Deadline p = None then 1 else 0)"

definition deadline_within :: "time option \<Rightarrow> time option \<Rightarrow> Plan \<Rightarrow> bool" where
  "deadline_within from to p \<longleftrightarrow>
     (from = None \<and> to = None) \<or> (case pn_Deadline p of None \<Rightarrow> False | Some d \<Rightarrow> in_interval (map_option date_of from) (map_option date_of to) d)"

definition selectPlansLookup ::
  "plan_refs \<Rightarrow> string \<Rightarrow> string \<Rightarrow> time option \<Rightarrow> time option \<Rightarrow> int \<Rightarrow> int \<Rightarrow> plan_db \<Rightarrow> (Plan list \<times> int) result" where
  "selectPlansLookup rf search status from to limit offset db =
     (let ps = select_where (\<lambda>p. plan_searched rf status search p \<and> deadline_within from to p) (plans db);
          ordered = sort_key lookup_rank (sort_key (\<lambda>p. case pn_Deadline p of None \<Rightarrow> 0 | Some d \<Rightarrow> d)
                      (sort_key (\<lambda>p. - pn_CreatedAt p) ps))
      in Inr (take (nat limit) (drop (nat offset) ordered), int (length ps)))"

section \<open>Service\<close>

record 'x WorkOrderCanceller =
  ListStatusesByPlan_dep :: "uuid \<Rightarrow> 'x \<Rightarrow> WorkOrderStatus list result"
  CancelPlannedByPlan_dep :: "uuid \<Rightarrow> ('x, int) op"

record BoostPriorityInput =
  bp_WOID :: uuid
  bp_Reason :: string
  bp_ActorID :: uuid

record PreemptInput =
  pt_ToWOID :: uuid
  pt_FromWOID :: uuid
  pt_Reason :: string
  pt_ActorID :: uuid

record FeasibilitySuggestion =
  fg_WOID :: uuid
  fg_Score :: rat
  fg_DaysToDue :: int
  fg_FreedQty :: int

record FeasibilityResult =
  fe_Feasible :: bool
  fe_Reason :: string
  fe_Suggestions :: "FeasibilitySuggestion list"

record PreemptCandidate =
  pd_WOID :: uuid
  pd_Status :: WorkOrderStatus
  pd_SlackDays :: int
  pd_FreedQty :: int

record 'x WorkOrderAdvisor =
  CheckFeasibility_dep :: "uuid \<Rightarrow> 'x \<Rightarrow> FeasibilityResult result"
  ListPreemptCandidates_dep :: "uuid \<Rightarrow> 'x \<Rightarrow> PreemptCandidate list result"
  BoostPriority_dep :: "BoostPriorityInput \<Rightarrow> ('x, uuid \<times> time) op"
  PreemptWorkOrder_dep :: "PreemptInput \<Rightarrow> ('x, uuid \<times> time \<times> int) op"

record PlanItemInput =
  ii_SKUID :: uuid
  ii_Quantity :: int

record CreatePlanInput =
  ip_POID :: "uuid option"
  ip_SOID :: "uuid option"
  ip_Items :: "PlanItemInput list"
  ip_Deadline :: "time option"

text \<open>
  The plan and its items are inserted by separate statements; the identifiers are the plan's
  first, then one per item. \<open>year\<close> is the year of the clock.
\<close>

definition CreatePlan :: "plan_refs \<Rightarrow> nat \<Rightarrow> env \<Rightarrow> CreatePlanInput \<Rightarrow> (plan_db, Plan \<times> PlanItem list) op" where
  "CreatePlan rf year env inp db =
     (if (ip_POID inp = None) = (ip_SOID inp = None) then (Inl (Biz ErrInvalidInput), db)
      else if ip_Items inp = [] then (Inl (Biz ErrInvalidInput), db)
      else if list_ex (\<lambda>it. ii_Quantity it \<le> 0) (ip_Items inp) then (Inl (Biz ErrInvalidInput), db)
      else (case nextPlanCode year db of
              (Inl e, db1) \<Rightarrow> (Inl e, db1)
            | (Inr code, db1) \<Rightarrow>
                let p = \<lparr>pn_ID = fresh env 0, pn_Code = code, pn_POID = ip_POID inp, pn_SOID = ip_SOID inp,
                         pn_Status = PlanDraft, pn_Deadline = ip_Deadline inp, pn_CreatedAt = now env,
                         pn_CanceledReason = [], pn_CanceledAt = None, pn_CanceledBy = None\<rparr>;
                    its = map (\<lambda>(i, it). \<lparr>it_ID = fresh env (Suc i), it_PlanID = pn_ID p, it_SKUID = ii_SKUID it,
                                         it_Quantity = ii_Quantity it\<rparr>) (zip [0..<length (ip_Items inp)] (ip_Items inp))
                in (case insertPlan rf p db1 of
                      (Inl e, db2) \<Rightarrow> (Inl e, db2)
                    | (Inr _, db2) \<Rightarrow>
                        (case insertPlanItems rf its db2 of
                           (Inl e, db3) \<Rightarrow> (Inl e, db3)
                         | (Inr _, db3) \<Rightarrow> (Inr (p, its), db3)))))"

definition GetPlan :: "uuid \<Rightarrow> plan_db \<Rightarrow> (Plan \<times> PlanItem list) result" where
  "GetPlan i db =
     (case selectPlanByID i db of
        Inl e \<Rightarrow> Inl e
      | Inr p \<Rightarrow> (case selectPlanItemsByPlanID i db of Inl e \<Rightarrow> Inl e | Inr its \<Rightarrow> Inr (p, its)))"

text \<open>The items hydrated into each row of the page are a function of the row and are left out.\<close>

definition ListPlans ::
  "plan_refs \<Rightarrow> CursorParams \<Rightarrow> string \<Rightarrow> string \<Rightarrow> time option \<Rightarrow> time option \<Rightarrow> plan_db \<Rightarrow> Plan CursorResult result" where
  "ListPlans rf p status search from to db =
     (if (case (from, to) of (Some f, Some t) \<Rightarrow> f > t | _ \<Rightarrow> False) then Inl (Biz ErrInvalidInput)
      else (case Decoded p of
              Inl _ \<Rightarrow> Inl (Biz ErrInvalidInput)
            | Inr cur \<Rightarrow>
                (case selectPlansKeyset rf status search from to cur (CLimit p + 1) db of
                   Inl e \<Rightarrow> Inl e
                 | Inr rows \<Rightarrow> Inr (NewCursorResult rows (CLimit p) plan_cursor))))"

definition ApprovePlan :: "uuid \<Rightarrow> (plan_db, unit) op" where
  "ApprovePlan i db =
     (case selectPlanByID i db of
        Inl e \<Rightarrow> (Inl e, db)
      | Inr p \<Rightarrow> if pn_Status p \<noteq> PlanDraft then (Inl (Biz ErrInvalidTransition), db)
                else updatePlanStatus i PlanApproved db)"

record CancelPlanInput =
  xp_PlanID :: uuid
  xp_Reason :: string
  xp_ActorID :: uuid

definition CancelPlan :: "'x WorkOrderCanceller option \<Rightarrow> env \<Rightarrow> CancelPlanInput \<Rightarrow> (plan_db \<times> 'x, unit) op" where
  "CancelPlan woc env inp st =
     (let db = fst st; x = snd st in
      case selectPlanByID (xp_PlanID inp) db of
        Inl e \<Rightarrow> (Inl e, st)
      | Inr p \<Rightarrow>
          (case pn_Status p of
             PlanDraft \<Rightarrow> (case updatePlanStatus (xp_PlanID inp) PlanCanceled db of (r, db1) \<Rightarrow> (r, (db1, x)))
           | PlanApproved \<Rightarrow>
               if xp_Reason inp = [] then (Inl (Biz ErrInvalidInput), st)
               else (case woc of
                       None \<Rightarrow> (Inl (Biz ErrPreconditionFailed), st)
                     | Some c \<Rightarrow>
                         (case ListStatusesByPlan_dep c (xp_PlanID inp) x of
                            Inl e \<Rightarrow> (Inl e, st)
                          | Inr sts \<Rightarrow>
                              if list_ex (\<lambda>s. s \<noteq> WOPlanned \<and> s \<noteq> WOCanceled) sts then (Inl (Biz ErrInvalidTransition), st)
                              else (case CancelPlannedByPlan_dep c (xp_PlanID inp) x of
                                      (Inl e, x1) \<Rightarrow> (Inl e, (db, x1))
                                    | (Inr _, x1) \<Rightarrow>
                                        (case cancelPlanWithMetadata (xp_PlanID inp) (xp_Reason inp) (xp_ActorID inp) (now env) db of
                                           (r, db1) \<Rightarrow> (r, (db1, x1))))))
           | PlanCanceled \<Rightarrow> (Inl (Biz ErrInvalidTransition), st)))"

abbreviation maxLookupLimit :: int where "maxLookupLimit \<equiv> 50"

record LookupPlansInput =
  lp_Search :: string
  lp_Status :: "string"
  lp_DeadlineFrom :: "time option"
  lp_DeadlineTo :: "time option"
  lp_Page :: int
  lp_Limit :: int

definition LookupPlans :: "plan_refs \<Rightarrow> LookupPlansInput \<Rightarrow> plan_db \<Rightarrow> Plan PagedResult result" where
  "LookupPlans rf inp db =
     (if (case (lp_DeadlineFrom inp, lp_DeadlineTo inp) of (Some f, Some t) \<Rightarrow> f > t | _ \<Rightarrow> False) then Inl (Biz ErrInvalidInput)
      else let limit = (if lp_Limit inp \<le> 0 \<or> lp_Limit inp > maxLookupLimit then maxLookupLimit else lp_Limit inp);
               page = (if lp_Page inp < 1 then 1 else lp_Page inp);
               offset = i64 (i64 (page - 1) * limit)
           in (case selectPlansLookup rf (lp_Search inp) (lp_Status inp) (lp_DeadlineFrom inp) (lp_DeadlineTo inp) limit offset db of
                 Inl e \<Rightarrow> Inl e
               | Inr (items, cnt) \<Rightarrow>
                   Inr (NewPagedResult items cnt \<lparr>Page = page, Limit = limit, Search = [], SortBy = [], Order = []\<rparr>)))"

definition PlanningCheckFeasibility :: "'x WorkOrderAdvisor option \<Rightarrow> uuid \<Rightarrow> 'x \<Rightarrow> FeasibilityResult result" where
  "PlanningCheckFeasibility adv woID x =
     (case adv of None \<Rightarrow> Inl (Biz ErrPreconditionFailed) | Some a \<Rightarrow> CheckFeasibility_dep a woID x)"

definition ListPreemptCandidates :: "'x WorkOrderAdvisor option \<Rightarrow> uuid \<Rightarrow> 'x \<Rightarrow> PreemptCandidate list result" where
  "ListPreemptCandidates adv woID x =
     (case adv of None \<Rightarrow> Inl (Biz ErrPreconditionFailed) | Some a \<Rightarrow> ListPreemptCandidates_dep a woID x)"

definition BoostWorkOrderPriority :: "'x WorkOrderAdvisor option \<Rightarrow> BoostPriorityInput \<Rightarrow> ('x, uuid \<times> time) op" where
  "BoostWorkOrderPriority adv inp x =
     (case adv of
        None \<Rightarrow> (Inl (Biz ErrPreconditionFailed), x)
      | Some a \<Rightarrow> if bp_Reason inp = [] then (Inl (Biz ErrInvalidInput), x) else BoostPriority_dep a inp x)"

definition PreemptWorkOrder :: "'x WorkOrderAdvisor option \<Rightarrow> PreemptInput \<Rightarrow> ('x, uuid \<times> time \<times> int) op" where
  "PreemptWorkOrder adv inp x =
     (case adv of
        None \<Rightarrow> (Inl (Biz ErrPreconditionFailed), x)
      | Some a \<Rightarrow>
          if pt_Reason inp = [] then (Inl (Biz ErrInvalidInput), x)
          else if pt_FromWOID inp = pt_ToWOID inp then (Inl (Biz ErrInvalidInput), x)
          else PreemptWorkOrder_dep a inp x)"

end
