(* ===== verification/Planning_Wiring.thy ===== *)
theory Planning_Wiring
  imports Planning Production_Props
begin

text \<open>
  Planning and production wired to each other as \<^verbatim>\<open>cmd/server/main.go\<close> does: production reads plans
  through \<^verbatim>\<open>planAdapter\<close>, planning cancels and re-allocates work orders through
  \<^verbatim>\<open>planningWOCancellerAdapter\<close> and \<^verbatim>\<open>planningWOAdvisorAdapter\<close>.

  The locale \<open>work_order_canceller\<close> is what \<open>CancelPlan\<close> relies on: the statuses it is told are those
  of the plan's orders, and canceling turns the planned ones of that plan into canceled ones and
  touches nothing else. Inside it the outcome of \<open>CancelPlan\<close> is derived once; production's own
  operations are its interpretation.
\<close>

section \<open>Adapters\<close>

definition planAdapter_GetPlan :: "uuid \<Rightarrow> plan_db \<Rightarrow> PlanInfo result" where
  "planAdapter_GetPlan planID pdb =
     (case GetPlan planID pdb of
        Inl e \<Rightarrow> Inl e
      | Inr (p, its) \<Rightarrow> Inr \<lparr>pi_ID = pn_ID p, pi_Status = pn_Status p, pi_SKUIDs = map it_SKUID its\<rparr>)"

text \<open>Production's neighbours with the plan tables \<open>pdb\<close> behind the plan reader and the foreign keys.\<close>

definition with_plans :: "plan_db \<Rightarrow> 'x prod_deps \<Rightarrow> 'x prod_deps" where
  "with_plans pdb deps = deps\<lparr>pc := (\<lambda>i _. planAdapter_GetPlan i pdb),
     refs := (\<lambda>x. (refs deps x)\<lparr>ref_plans := map (\<lambda>p. (pn_ID p, pn_Deadline p)) (plans pdb)\<rparr>)\<rparr>"

definition planningWOCancellerAdapter :: "prod_db WorkOrderCanceller" where
  "planningWOCancellerAdapter =
     \<lparr>ListStatusesByPlan_dep = ListStatusesByPlan, CancelPlannedByPlan_dep = CancelPlannedByPlan\<rparr>"

text \<open>The preemption request the adapter builds does not set the material: it stays \<^verbatim>\<open>uuid.Nil\<close>.\<close>

definition planningWOAdvisorAdapter ::
  "prod_schema \<Rightarrow> 'x prod_deps \<Rightarrow> env \<Rightarrow> (prod_db \<times> 'x) WorkOrderAdvisor" where
  "planningWOAdvisorAdapter sch deps env =
     \<lparr>CheckFeasibility_dep = (\<lambda>woID st.
        map_sum id (\<lambda>r. \<lparr>fe_Feasible = fr_Feasible r, fe_Reason = fr_Reason r,
          fe_Suggestions = map (\<lambda>s. \<lparr>fg_WOID = fs_WOID s, fg_Score = fs_Score s, fg_DaysToDue = fs_DaysToDue s,
            fg_FreedQty = fs_FreedQty s\<rparr>) (fr_Suggestions r)\<rparr>) (CheckFeasibility sch deps env woID st)),
      ListPreemptCandidates_dep = (\<lambda>woID st.
        map_sum id (map (\<lambda>c. \<lparr>pd_WOID = pk_WOID c, pd_Status = pk_Status c, pd_SlackDays = pk_SlackDays c,
          pd_FreedQty = pk_FreedQty c\<rparr>)) (ListWOPreemptCandidates sch deps env woID st)),
      BoostPriority_dep = (\<lambda>inp. BoostWOPriority deps env (bp_WOID inp) (bp_Reason inp) (bp_ActorID inp)),
      PreemptWorkOrder_dep = (\<lambda>inp. PreemptWO deps env
        \<lparr>pp_FromWOID = pt_FromWOID inp, pp_ToWOID = pt_ToWOID inp, pp_MaterialID = uuid_Nil,
         pp_Reason = pt_Reason inp, pp_ActorID = pt_ActorID inp\<rparr>)\<rparr>"

section \<open>The cascade and its interface\<close>

definition cancel_status :: "WorkOrderStatus \<Rightarrow> WorkOrderStatus" where
  "cancel_status s = (if s = WOPlanned then WOCanceled else s)"

text \<open>The plan row that canceling an approved plan writes.\<close>

definition canceled_row :: "CancelPlanInput \<Rightarrow> time \<Rightarrow> Plan \<Rightarrow> Plan" where
  "canceled_row inp t p = p\<lparr>pn_Status := PlanCanceled, pn_CanceledReason := xp_Reason inp,
     pn_CanceledBy := Some (xp_ActorID inp), pn_CanceledAt := Some t\<rparr>"

locale work_order_canceller =
  fixes woc :: "'x WorkOrderCanceller"
    and orders :: "uuid \<Rightarrow> 'x \<Rightarrow> WorkOrderStatus list"
  assumes statuses: "ListStatusesByPlan_dep woc p x = Inr ss \<Longrightarrow> ss = orders p x"
    and cancel_error: "CancelPlannedByPlan_dep woc p x = (Inl e, x') \<Longrightarrow> x' = x"
    and cancel_orders: "CancelPlannedByPlan_dep woc p x = (Inr n, x') \<Longrightarrow>
      orders q x' = (if q = p then map cancel_status (orders q x) else orders q x)"
begin

lemma CancelPlan_cases:
  assumes "CancelPlan (Some woc) env inp (pdb, x) = (r, (pdb', x'))"
  obtains (error) e where "r = Inl e" and "pdb' = pdb" and "x' = x"
  | (draft) p where "r = Inr ()" and "row_by pn_ID (xp_PlanID inp) (plans pdb) = Some p" and "pn_Status p = PlanDraft"
    and "pdb' = update_plan (xp_PlanID inp) (\<lambda>p. p\<lparr>pn_Status := PlanCanceled\<rparr>) pdb" and "x' = x"
  | (approved) p n where "r = Inr ()" and "row_by pn_ID (xp_PlanID inp) (plans pdb) = Some p"
    and "pn_Status p = PlanApproved" and "xp_Reason inp \<noteq> []"
    and "set (orders (xp_PlanID inp) x) \<subseteq> {WOPlanned, WOCanceled}"
    and "CancelPlannedByPlan_dep woc (xp_PlanID inp) x = (Inr n, x')"
    and "pdb' = update_plan (xp_PlanID inp) (canceled_row inp (now env)) pdb"
    and "\<And>q. orders q x' = (if q = xp_PlanID inp then map (\<lambda>_. WOCanceled) (orders q x) else orders q x)"
proof (cases r)
  case (Inl e)
  show ?thesis
    by (rule error [of e]) (use assms Inl in \<open>auto simp: CancelPlan_def Let_def updatePlanStatus_def cancelPlanWithMetadata_def
      dest: cancel_error split: sum.splits PlanStatus.splits if_splits prod.splits\<close>)
next
  case (Inr u)
  then obtain p where p: "row_by pn_ID (xp_PlanID inp) (plans pdb) = Some p"
    using assms by (auto simp: CancelPlan_def Let_def selectPlanByID_def split: sum.splits option.splits)
  then have sel: "selectPlanByID (xp_PlanID inp) pdb = Inr p" by (simp add: selectPlanByID_def)
  note run = assms [unfolded CancelPlan_def Let_def fst_conv snd_conv sel sum.case]
  show ?thesis
  proof (cases "pn_Status p")
    case PlanDraft
    show ?thesis by (rule draft [OF _ p PlanDraft]) (use run PlanDraft Inr in \<open>auto simp: updatePlanStatus_def\<close>)
  next
    case PlanApproved
    with run Inr have "xp_Reason inp \<noteq> []" by (auto split: if_splits)
    with run Inr PlanApproved obtain ss n where c: "ListStatusesByPlan_dep woc (xp_PlanID inp) x = Inr ss"
      "list_all (\<lambda>s. s = WOPlanned \<or> s = WOCanceled) ss" "CancelPlannedByPlan_dep woc (xp_PlanID inp) x = (Inr n, x')"
      "pdb' = snd (cancelPlanWithMetadata (xp_PlanID inp) (xp_Reason inp) (xp_ActorID inp) (now env) pdb)"
      by (auto simp: cancelPlanWithMetadata_def list_all_iff list_ex_iff split: sum.splits if_splits prod.splits)
    have ss: "set (orders (xp_PlanID inp) x) \<subseteq> {WOPlanned, WOCanceled}"
      using c(2) by (auto simp: statuses [OF c(1)] list_all_iff)
    then have "map cancel_status (orders (xp_PlanID inp) x) = map (\<lambda>_. WOCanceled) (orders (xp_PlanID inp) x)"
      by (auto simp: cancel_status_def)
    then show ?thesis
      by (intro approved [OF _ p PlanApproved \<open>xp_Reason inp \<noteq> []\<close> ss c(3)])
        (use c(4) Inr cancel_orders [OF c(3)] in
          \<open>simp_all add: cancelPlanWithMetadata_def update_plan_def canceled_row_def [abs_def]\<close>)
  next
    case PlanCanceled
    then show ?thesis using run Inr by simp
  qed
qed

end

text \<open>Production keeps the contract.\<close>

definition statuses_of :: "uuid \<Rightarrow> prod_db \<Rightarrow> WorkOrderStatus list" where
  "statuses_of p db = map wo_Status (select_where (\<lambda>w. wo_PlanID w = p) (work_orders db))"

lemma statuses_of_cancel:
  "map wo_Status (filter (\<lambda>w. wo_PlanID w = q) (update_where (\<lambda>w. wo_PlanID w = p \<and> wo_Status w = WOPlanned)
     (\<lambda>w. w\<lparr>wo_Status := WOCanceled\<rparr>) t)) =
   (if q = p then map cancel_status (map wo_Status (filter (\<lambda>w. wo_PlanID w = q) t))
    else map wo_Status (filter (\<lambda>w. wo_PlanID w = q) t))"
  by (induction t) (auto simp: cancel_status_def)

interpretation canceller: work_order_canceller planningWOCancellerAdapter statuses_of
proof unfold_locales
  show "ss = statuses_of p db" if "ListStatusesByPlan_dep planningWOCancellerAdapter p db = Inr ss" for p db ss
    using that by (auto simp: planningWOCancellerAdapter_def ListStatusesByPlan_def listStatusesByPlan_def statuses_of_def
        split: if_splits)
  show "db' = db" if "CancelPlannedByPlan_dep planningWOCancellerAdapter p db = (Inl e, db')" for p db e db'
    using that by (auto simp: planningWOCancellerAdapter_def CancelPlannedByPlan_def cancelPlannedByPlan_def split: if_splits)
  show "statuses_of q db' = (if q = p then map cancel_status (statuses_of q db) else statuses_of q db)"
    if "CancelPlannedByPlan_dep planningWOCancellerAdapter p db = (Inr n, db')" for p db n db' q
    using that statuses_of_cancel [of q p "work_orders db"]
    by (auto simp: planningWOCancellerAdapter_def CancelPlannedByPlan_def cancelPlannedByPlan_def statuses_of_def
        select_where_def split: if_splits)
qed

end
