(* ===== verification/Planning_Invariant.thy ===== *)
theory Planning_Invariant
  imports Planning_Wiring
begin

text \<open>
  The plan tables and the work orders as one transition system. A step is a call of the planning
  service, a call of the production service that creates or splits an order, or any other call of
  production (those keep the set of orders, \<open>prod_step_inserts\<close>). Production sees the current plan
  tables through the adapter; its other neighbours answer anything.

  \<open>carry\<close> says which partial completions may run. It is there because \<open>PartialComplete\<close> does not
  look at the plan it carries an order over to.
\<close>

section \<open>Plan codes\<close>

definition undecimal :: "string \<Rightarrow> nat" where
  "undecimal s = foldl (\<lambda>n c. 10 * n + (of_char c - 48)) 0 s"

lemma of_digit: "n < 10 \<Longrightarrow> (of_char (digit n) :: nat) = 48 + n"
  by (simp add: digit_def)

lemma undecimal_snoc: "undecimal (s @ [c]) = 10 * undecimal s + (of_char c - 48)"
  by (simp add: undecimal_def)

lemma undecimal_decimal: "undecimal (decimal n) = n"
proof (induction n rule: decimal.induct)
  case (1 n)
  show ?case
  proof (cases "n < 10")
    case True
    then show ?thesis by (simp add: decimal.simps [of n] undecimal_def of_digit)
  next
    case False
    then have "decimal n = decimal (n div 10) @ [digit (n mod 10)]" by (simp add: decimal.simps [of n])
    then show ?thesis using 1 [OF False] by (simp only: undecimal_snoc of_digit) simp
  qed
qed

lemma undecimal_zeros: "undecimal (replicate k (CHR ''0'') @ s) = undecimal s"
  by (induction k) (simp_all add: undecimal_def)

lemma undecimal_pad3: "undecimal (pad3 s) = undecimal s"
  by (simp add: pad3_def undecimal_zeros)

lemma decimal_digits: "c \<in> set (decimal n) \<Longrightarrow> \<exists>d < 10. c = digit d"
proof (induction n rule: decimal.induct)
  case (1 n)
  then show ?case by (cases "n < 10") (auto simp: decimal.simps [of n] intro: exI [of _ "n mod 10"])
qed

lemma decimal_no_dash: "CHR ''-'' \<notin> set (decimal n)"
proof
  assume "CHR ''-'' \<in> set (decimal n)"
  then obtain d where d: "d < 10" "CHR ''-'' = digit d" using decimal_digits by blast
  have "(of_char (CHR ''-'') :: nat) = of_char (digit d)" by (simp only: d(2))
  then show False using d(1) by (simp add: of_digit)
qed

text \<open>The dash ends the year, so year and number can be read back.\<close>

lemma dash_split:
  assumes "xs @ CHR ''-'' # ys = us @ CHR ''-'' # vs" and "CHR ''-'' \<notin> set xs" and "CHR ''-'' \<notin> set us"
  shows "xs = us \<and> ys = vs"
  using assms
proof (induction xs arbitrary: us)
  case Nil
  then show ?case by (cases us) auto
next
  case (Cons x xs)
  then show ?case by (cases us) auto
qed

lemma planCode_eq_iff: "planCode y n = planCode y' n' \<longleftrightarrow> y = y' \<and> n = n'"
proof
  assume "planCode y n = planCode y' n'"
  then have "decimal y @ CHR ''-'' # pad3 (decimal n) = decimal y' @ CHR ''-'' # pad3 (decimal n')"
    by (simp add: planCode_def)
  from dash_split [OF this decimal_no_dash decimal_no_dash]
  have "decimal y = decimal y'" and "pad3 (decimal n) = pad3 (decimal n')" by simp_all
  then show "y = y' \<and> n = n'" by (metis undecimal_decimal undecimal_pad3)
qed simp

section \<open>Plans\<close>

definition empty_plans :: plan_db where
  "empty_plans = \<lparr>plans = [], plan_items = [], plan_seq = 1\<rparr>"

text \<open>Every code was drawn from the sequence, and no two plans have one code.\<close>

definition plans_ok :: "plan_db \<Rightarrow> bool" where
  "plans_ok pdb \<longleftrightarrow> keys_distinct pn_ID (plans pdb) \<and> distinct (map pn_Code (plans pdb)) \<and>
     (\<forall>p \<in> set (plans pdb). \<exists>y n. pn_Code p = planCode y n \<and> n < plan_seq pdb)"

lemma plans_ok_fresh_code: "plans_ok pdb \<Longrightarrow> planCode y (plan_seq pdb) \<notin> pn_Code ` set (plans pdb)"
  by (auto simp: plans_ok_def planCode_eq_iff)

lemma insertPlanItems_plans:
  "insertPlanItems rf its pdb = (r, pdb') \<Longrightarrow> plans pdb' = plans pdb \<and> plan_seq pdb' = plan_seq pdb"
  by (induction rf its pdb rule: insertPlanItems.induct) (auto split: sum.splits)

definition new_plan :: "nat \<Rightarrow> env \<Rightarrow> CreatePlanInput \<Rightarrow> plan_db \<Rightarrow> Plan" where
  "new_plan year env inp pdb =
     \<lparr>pn_ID = fresh env 0, pn_Code = planCode year (plan_seq pdb), pn_POID = ip_POID inp, pn_SOID = ip_SOID inp,
      pn_Status = PlanDraft, pn_Deadline = ip_Deadline inp, pn_CreatedAt = now env,
      pn_CanceledReason = [], pn_CanceledAt = None, pn_CanceledBy = None\<rparr>"

lemma insertPlan_cases:
  assumes "insertPlan rf p pdb = (r, pdb')"
  obtains e where "r = Inl e" and "pdb' = pdb"
  | "r = Inr ()" and "pdb' = pdb\<lparr>plans := plans pdb @ [plan_columns p]\<rparr>" and "pn_ID p \<notin> pn_ID ` set (plans pdb)"
    and "pn_Code p \<notin> pn_Code ` set (plans pdb)"
  using assms by (auto simp: insertPlan_def check_plan_def plan_columns_def split: sum.splits if_splits)

lemma CreatePlan_cases:
  assumes "CreatePlan rf year env inp pdb = (r, pdb')"
  obtains e where "r = Inl e" and "plans pdb' = plans pdb" and "plan_seq pdb' \<in> {plan_seq pdb, Suc (plan_seq pdb)}"
  | "plans pdb' = plans pdb @ [plan_columns (new_plan year env inp pdb)]" and "plan_seq pdb' = Suc (plan_seq pdb)"
    and "fresh env 0 \<notin> pn_ID ` set (plans pdb)"
proof -
  let ?p = "new_plan year env inp pdb"
  let ?db1 = "pdb\<lparr>plan_seq := Suc (plan_seq pdb)\<rparr>"
  obtain q db2 where ins: "insertPlan rf ?p ?db1 = (q, db2)" by force
  consider (refused) e where "r = Inl e" "pdb' = pdb"
    | (failed) e where "q = Inl e" "r = Inl e" "pdb' = db2"
    | (items) its r' where "q = Inr ()" "insertPlanItems rf its db2 = (r', pdb')"
    using assms ins [unfolded new_plan_def]
    by (auto simp: CreatePlan_def nextPlanCode_def Let_def split: if_splits sum.splits prod.splits)
  then show ?thesis
  proof cases
    case refused
    then show ?thesis by (intro that(1)) auto
  next
    case failed
    from ins failed show ?thesis by (cases rule: insertPlan_cases) (auto intro: that(1))
  next
    case (items its r')
    note t = insertPlanItems_plans [OF items(2)]
    from ins show ?thesis
    proof (cases rule: insertPlan_cases)
      case 2
      with t show ?thesis by (intro that(2)) (auto simp: new_plan_def)
    qed (use items in simp)
  qed
qed

lemma plans_ok_update:
  assumes "plans_ok pdb" and "\<And>p. pn_ID (f p) = pn_ID p \<and> pn_Code (f p) = pn_Code p"
  shows "plans_ok (update_plan i f pdb)"
proof -
  have "map pn_ID (update_where (\<lambda>p. pn_ID p = i) f (plans pdb)) = map pn_ID (plans pdb)"
    "map pn_Code (update_where (\<lambda>p. pn_ID p = i) f (plans pdb)) = map pn_Code (plans pdb)"
    using assms(2) by (auto intro: map_update_where)
  then show ?thesis
    using assms by (auto simp: plans_ok_def update_plan_def elim!: in_update_whereE)
qed

lemma CreatePlan_plans_ok:
  assumes "plans_ok pdb" and "CreatePlan rf year env inp pdb = (r, pdb')"
  shows "plans_ok pdb'"
  using assms(2)
proof (cases rule: CreatePlan_cases)
  case 1
  with assms(1) show ?thesis by (fastforce simp: plans_ok_def)
next
  case 2
  with assms(1) plans_ok_fresh_code [OF assms(1)] show ?thesis
    by (fastforce simp: plans_ok_def plan_columns_def new_plan_def)
qed

lemma ApprovePlan_cases:
  assumes "ApprovePlan i pdb = (r, pdb')"
  obtains e where "r = Inl e" and "pdb' = pdb"
  | p where "r = Inr ()" and "row_by pn_ID i (plans pdb) = Some p" and "pn_Status p = PlanDraft"
    and "pdb' = update_plan i (\<lambda>p. p\<lparr>pn_Status := PlanApproved\<rparr>) pdb"
  using assms by (auto simp: ApprovePlan_def selectPlanByID_def updatePlanStatus_def split: option.splits if_splits)

section \<open>Plans and orders together\<close>

inductive factory_step ::
  "(plan_db \<Rightarrow> PartialCompleteInput \<Rightarrow> bool) \<Rightarrow> prod_schema \<Rightarrow> 'x prod_deps \<Rightarrow> plan_db \<times> prod_db \<Rightarrow> plan_db \<times> prod_db \<Rightarrow> bool"
  for carry :: "plan_db \<Rightarrow> PartialCompleteInput \<Rightarrow> bool" and sch :: prod_schema and deps :: "'x prod_deps" where
  plan_created: "CreatePlan rf year env inp pdb = (r, pdb') \<Longrightarrow> factory_step carry sch deps (pdb, db) (pdb', db)"
| plan_approved: "ApprovePlan i pdb = (r, pdb') \<Longrightarrow> factory_step carry sch deps (pdb, db) (pdb', db)"
| plan_canceled: "CancelPlan (Some planningWOCancellerAdapter) env xin (pdb, db) = (r, (pdb', db')) \<Longrightarrow>
    factory_step carry sch deps (pdb, db) (pdb', db')"
| order_created: "CreateWorkOrder (with_plans pdb deps) env cwo (db, x) = (q, (db', x')) \<Longrightarrow>
    factory_step carry sch deps (pdb, db) (pdb, db')"
| order_split: "PartialComplete (with_plans pdb deps) env par (db, x) = (q, (db', x')) \<Longrightarrow> carry pdb par \<Longrightarrow>
    factory_step carry sch deps (pdb, db) (pdb, db')"
| order_step: "prod_step sch (with_plans pdb deps) db db' \<Longrightarrow> length (work_orders db') = length (work_orders db) \<Longrightarrow>
    factory_step carry sch deps (pdb, db) (pdb, db')"

abbreviation factory_init :: "plan_db \<times> prod_db \<Rightarrow> bool" where
  "factory_init s \<equiv> s = (empty_plans, empty_prod)"

definition carry_approved :: "plan_db \<Rightarrow> PartialCompleteInput \<Rightarrow> bool" where
  "carry_approved pdb par \<longleftrightarrow>
     (case pci_CarryOverPlanID par of
        None \<Rightarrow> True
      | Some q \<Rightarrow> (case row_by pn_ID q (plans pdb) of None \<Rightarrow> False | Some p \<Rightarrow> pn_Status p = PlanApproved))"

fun plan_allows :: "PlanStatus \<Rightarrow> WorkOrderStatus \<Rightarrow> bool" where
  "plan_allows PlanDraft s = False"
| "plan_allows PlanApproved s = True"
| "plan_allows PlanCanceled s = (s = WOCanceled)"

definition orders_planned :: "plan_db \<Rightarrow> prod_db \<Rightarrow> bool" where
  "orders_planned pdb db \<longleftrightarrow> (\<forall>w \<in> set (work_orders db). \<exists>p \<in> set (plans pdb).
     pn_ID p = wo_PlanID w \<and> plan_allows (pn_Status p) (wo_Status w))"

definition factory_ok :: "plan_db \<times> prod_db \<Rightarrow> bool" where
  "factory_ok s \<longleftrightarrow> plans_ok (fst s) \<and> prod_ok (snd s) \<and> orders_planned (fst s) (snd s)"

lemma plan_allows_edge: "plan_allows st s \<Longrightarrow> status_edge s t \<Longrightarrow> plan_allows st t"
  by (cases st) (auto simp: status_edge_def CanTransitionTo_iff)

lemma orders_planned_edge:
  assumes "orders_planned pdb db"
    and "\<And>w'. w' \<in> set (work_orders db') \<Longrightarrow> \<exists>w \<in> set (work_orders db). wo_edge w w'"
  shows "orders_planned pdb db'"
  unfolding orders_planned_def
proof
  fix w' assume "w' \<in> set (work_orders db')"
  with assms(2) obtain w where w: "w \<in> set (work_orders db)" "wo_edge w w'" by blast
  with assms(1) obtain p where "p \<in> set (plans pdb)" "pn_ID p = wo_PlanID w" "plan_allows (pn_Status p) (wo_Status w)"
    unfolding orders_planned_def by blast
  then show "\<exists>p \<in> set (plans pdb). pn_ID p = wo_PlanID w' \<and> plan_allows (pn_Status p) (wo_Status w')"
    using w(2) wo_edgeD(4) [OF w(2)] plan_allows_edge by (intro bexI [of _ p]) (auto simp: wo_edge_def same_order_def)
qed

lemma wo_change_back:
  assumes "wo_change db db'" and "length (work_orders db') = length (work_orders db)" and "w' \<in> set (work_orders db')"
  shows "\<exists>w \<in> set (work_orders db). wo_edge w w'"
  using assms(1)
proof cases
  case (wo_update P f)
  with assms(3) obtain w where "w \<in> set (work_orders db)" "w' = (if P w then f w else w)"
    by (auto elim!: in_update_whereE)
  with wo_update(2) [of w] show ?thesis by (intro bexI [of _ w]) auto
qed (use assms(2,3) in \<open>auto intro: bexI [of _ w']\<close>)

text \<open>Only creating and splitting insert orders, so \<open>factory_step\<close> leaves out no call of production.\<close>

lemma same_length:
  "work_orders db' = work_orders db \<Longrightarrow> length (work_orders db') = length (work_orders db)"
  by simp

lemma schedule_length:
  "DeleteSlot i db = (r1, db') \<Longrightarrow> length (work_orders db') = length (work_orders db)"
  "SetEstimatedHours i h db = (r2, db') \<Longrightarrow> length (work_orders db') = length (work_orders db)"
  "AssignSlot i j db = (r3, db') \<Longrightarrow> length (work_orders db') = length (work_orders db)"
  "UnassignSlot i db = (r4, db') \<Longrightarrow> length (work_orders db') = length (work_orders db)"
  "CancelPlannedByPlan p db = (r5, db') \<Longrightarrow> length (work_orders db') = length (work_orders db)"
  "UpdateQCStatus i txt db = (r6, db') \<Longrightarrow> length (work_orders db') = length (work_orders db)"
  by (auto simp: DeleteSlot_def deleteSlot_def SetEstimatedHours_def updateEstimatedHours_def AssignSlot_def
      assignSlotAtomically_def UnassignSlot_def unassignWOFromSlot_def CancelPlannedByPlan_def cancelPlannedByPlan_def
      UpdateQCStatus_def updateWorkOrderQCStatus_def Let_def split: sum.splits if_splits option.splits)

lemma allocation_length:
  "AdvanceStatus deps i adv (db, x) = (r1, (db', x')) \<Longrightarrow> length (work_orders db') = length (work_orders db)"
  "AssignWorkOrder deps env i u (db, x) = (r2, (db', x')) \<Longrightarrow> length (work_orders db') = length (work_orders db)"
  "BoostWOPriority deps env i txt a (db, x) = (r3, (db', x')) \<Longrightarrow> length (work_orders db') = length (work_orders db)"
  "PreemptWO deps env pre (db, x) = (r4, (db', x')) \<Longrightarrow> length (work_orders db') = length (work_orders db)"
  "ReassignWorkOrder sch deps env rea (db, x) = (r5, (db', x')) \<Longrightarrow> length (work_orders db') = length (work_orders db)"
  "ClaimWorkOrder sch deps env i u (db, x) = (r6, (db', x')) \<Longrightarrow> length (work_orders db') = length (work_orders db)"
  by (auto simp: AssignWorkOrder_def updateWorkOrderAssignment_def BoostWOPriority_def setPriorityBoostAtomically_def
      ReassignWorkOrder_def reassignWorkOrderAtomically_def ClaimWorkOrder_def claimWorkOrderAtomically_def local_op_def Let_def
      elim: AdvanceStatus_cases PreemptWO_cases split: sum.splits if_splits)

lemma prod_step_inserts:
  assumes "prod_step sch deps db db'"
  shows "length (work_orders db') = length (work_orders db) \<or>
    (\<exists>env inp x r x'. CreateWorkOrder deps env inp (db, x) = (r, (db', x'))) \<or>
    (\<exists>env inp x r x'. PartialComplete deps env inp (db, x) = (r, (db', x')))"
  using assms
  by cases (blast intro: same_length RecordConsumption_same machine_ops_same labor_blockers_same schedule_length
      allocation_length)+

section \<open>Every step keeps plans and orders consistent\<close>

lemma orders_planned_plans:
  assumes "orders_planned pdb db"
    and "\<And>p w. p \<in> set (plans pdb) \<Longrightarrow> w \<in> set (work_orders db) \<Longrightarrow> pn_ID p = wo_PlanID w \<Longrightarrow>
      plan_allows (pn_Status p) (wo_Status w) \<Longrightarrow>
      \<exists>p' \<in> set (plans pdb'). pn_ID p' = pn_ID p \<and> plan_allows (pn_Status p') (wo_Status w)"
  shows "orders_planned pdb' db"
  using assms unfolding orders_planned_def by metis

lemma orders_planned_insert:
  assumes "orders_planned pdb db" and "work_orders db' = work_orders db @ [w]"
    and "row_by pn_ID (wo_PlanID w) (plans pdb) = Some p" and "pn_Status p = PlanApproved"
  shows "orders_planned pdb db'"
  using assms row_by_SomeD [OF assms(3)] by (fastforce simp: orders_planned_def)

text \<open>An order of a draft plan cannot exist, so approving or canceling a draft concerns no order.\<close>

lemma orders_planned_row:
  assumes "plans_ok pdb" and "orders_planned pdb db" and "row_by pn_ID i (plans pdb) = Some p"
    and "w \<in> set (work_orders db)" and "wo_PlanID w = i"
  shows "plan_allows (pn_Status p) (wo_Status w)"
proof -
  from assms(2,4,5) obtain q where "q \<in> set (plans pdb)" "pn_ID q = i" "plan_allows (pn_Status q) (wo_Status w)"
    unfolding orders_planned_def by blast
  moreover from this assms(1,3) have "q = p" unfolding plans_ok_def by (metis option.inject row_by_eq_SomeI)
  ultimately show ?thesis by simp
qed

lemma orders_planned_status:
  assumes "plans_ok pdb" and "orders_planned pdb db" and "row_by pn_ID i (plans pdb) = Some p"
    and "\<And>w. w \<in> set (work_orders db) \<Longrightarrow> wo_PlanID w = i \<Longrightarrow> plan_allows (pn_Status p) (wo_Status w) \<Longrightarrow> plan_allows st (wo_Status w)"
    and "\<And>p. pn_ID (f p) = pn_ID p \<and> pn_Status (f p) = st"
  shows "orders_planned (update_plan i f pdb) db"
proof (rule orders_planned_plans [OF assms(2)])
  fix q w
  assume q: "q \<in> set (plans pdb)" "w \<in> set (work_orders db)" "pn_ID q = wo_PlanID w" "plan_allows (pn_Status q) (wo_Status w)"
  let ?q = "if pn_ID q = i then f q else q"
  have "plan_allows (pn_Status ?q) (wo_Status w)"
    using q assms(4) [of w] assms(5) orders_planned_row [OF assms(1-3)] by simp
  then show "\<exists>q' \<in> set (plans (update_plan i f pdb)). pn_ID q' = pn_ID q \<and> plan_allows (pn_Status q') (wo_Status w)"
    using q(1) assms(5) by (intro bexI [of _ ?q]) (auto simp: update_plan_def set_update_where)
qed

lemma CancelPlan_factory:
  assumes "factory_ok (pdb, db)" and "CancelPlan (Some planningWOCancellerAdapter) env inp (pdb, db) = (r, (pdb', db'))"
  shows "factory_ok (pdb', db')"
proof -
  have ok: "plans_ok pdb" "prod_ok db" "orders_planned pdb db" using assms(1) by (simp_all add: factory_ok_def)
  from assms(2) show ?thesis
  proof (cases rule: canceller.CancelPlan_cases)
    case error
    with assms(1) show ?thesis by simp
  next
    case (draft p)
    have "orders_planned pdb' db'"
      unfolding draft(4,5) by (rule orders_planned_status [OF ok(1,3) draft(2), where st = PlanCanceled]) (simp_all add: draft(3))
    with ok draft show ?thesis by (auto simp: factory_ok_def intro: plans_ok_update)
  next
    case (approved p n)
    have run: "CancelPlannedByPlan (xp_PlanID inp) db = (Inr n, db')"
      using approved(6) by (simp add: planningWOCancellerAdapter_def)
    note change = CancelPlannedByPlan_change [OF run]
    have "orders_planned pdb db'"
      by (rule orders_planned_edge [OF ok(3) wo_change_back [OF change schedule_length(5) [OF run]]])
    moreover have "plan_allows PlanCanceled (wo_Status w)" if "w \<in> set (work_orders db')" "wo_PlanID w = xp_PlanID inp" for w
    proof -
      have "wo_Status w \<in> set (statuses_of (xp_PlanID inp) db')"
        using that by (auto simp: statuses_of_def select_where_def)
      then show ?thesis by (auto simp: approved(8))
    qed
    ultimately have "orders_planned pdb' db'"
      unfolding approved(7) by (intro orders_planned_status [OF ok(1) _ approved(2), where st = PlanCanceled])
        (auto simp: canceled_row_def)
    moreover have "plans_ok pdb'"
      unfolding approved(7) by (rule plans_ok_update [OF ok(1)]) (simp add: canceled_row_def)
    ultimately show ?thesis using wo_change_ok [OF change ok(2)] by (simp add: factory_ok_def)
  qed
qed

lemma CreateWorkOrder_plan:
  assumes "CreateWorkOrder (with_plans pdb deps) env inp (db, x) = (r, (db', x'))"
  obtains "work_orders db' = work_orders db"
  | w p where "work_orders db' = work_orders db @ [w]" and "row_by pn_ID (wo_PlanID w) (plans pdb) = Some p"
    and "pn_Status p = PlanApproved"
proof -
  let ?w = "new_work_order (fresh env 0) (cw_PlanID inp) (cw_SKUID inp) (cw_Quantity inp) (cw_SalesOrderLineID inp) None (now env)"
  consider "db' = db" | r' plan where "insertWorkOrder (refs (with_plans pdb deps) x) ?w db = (r', db')"
      "planAdapter_GetPlan (cw_PlanID inp) pdb = Inr plan" "pi_Status plan = PlanApproved"
    using assms by (auto simp: CreateWorkOrder_def with_plans_def Let_def split: sum.splits if_splits prod.splits)
  then show ?thesis
  proof cases
    case 2
    then obtain p where p: "row_by pn_ID (cw_PlanID inp) (plans pdb) = Some p" "pn_Status p = PlanApproved"
      by (auto simp: planAdapter_GetPlan_def GetPlan_def selectPlanByID_def split: sum.splits option.splits)
    from 2(1) show ?thesis
      by (cases rule: insertWorkOrder_cases) (auto simp: wo_columns_def new_work_order_def p intro: that)
  qed (use that in simp)
qed

lemma PartialComplete_factory:
  assumes "factory_ok (pdb, db)" and "PartialComplete deps env par (db, x) = (r, (db', x'))" and "carry_approved pdb par"
  shows "orders_planned pdb db'"
proof -
  have ok: "plans_ok pdb" "prod_ok db" "orders_planned pdb db" using assms(1) by (simp_all add: factory_ok_def)
  from assms(2) show ?thesis
  proof (cases rule: PartialComplete_cases)
    case (2 w)
    let ?f = "closed_row (pci_ActualQty par) (pci_ShortfallReason par)"
    let ?db1 = "update_wo (pci_WorkOrderID par) ?f db"
    have w: "w \<in> set (work_orders db)" using row_by_SomeD [OF 2(1)] by simp
    have "wo_edge w (?f w)"
      using 2 by (simp add: wo_edge_def same_order_def closed_row_def status_edge_def closes_def)
    then have "wo_change db ?db1"
      by (intro wo_update_row [OF prod_okD(1) [OF ok(2)] 2(1)]) simp_all
    then have base: "orders_planned pdb ?db1"
      by (rule orders_planned_edge [OF ok(3) wo_change_back]) simp_all
    show ?thesis
    proof (cases "carry_over_of env par w")
      case None
      with base 2(7) show ?thesis by (simp add: orders_planned_def)
    next
      case (Some c)
      from w ok(3) obtain p where p: "p \<in> set (plans pdb)" "pn_ID p = wo_PlanID w" "plan_allows (pn_Status p) (wo_Status w)"
        unfolding orders_planned_def by blast
      then have own: "row_by pn_ID (wo_PlanID w) (plans pdb) = Some p" "pn_Status p = PlanApproved"
        using ok(1) 2(3) by (auto simp: plans_ok_def row_by_Some_iff elim: plan_allows.elims)
      from Some have "wo_PlanID (wo_columns c) = (case pci_CarryOverPlanID par of None \<Rightarrow> wo_PlanID w | Some q \<Rightarrow> q)"
        by (auto simp: carry_over_of_def wo_columns_def new_work_order_def split: if_splits)
      with assms(3) own obtain q where "row_by pn_ID (wo_PlanID (wo_columns c)) (plans pdb) = Some q" "pn_Status q = PlanApproved"
        by (auto simp: carry_approved_def split: option.splits)
      then show ?thesis by (intro orders_planned_insert [OF base]) (use 2(7) Some in auto)
    qed
  qed (use ok in simp)
qed

lemma factory_step_ok:
  assumes "factory_ok s" and "factory_step carry_approved sch deps s s'"
  shows "factory_ok s'"
  using assms(2)
proof cases
  case (plan_created rf year env inp pdb r pdb' db)
  have ok: "plans_ok pdb" "prod_ok db" "orders_planned pdb db" using assms(1) plan_created(1) by (simp_all add: factory_ok_def)
  from plan_created(3) have "set (plans pdb) \<subseteq> set (plans pdb')" by (cases rule: CreatePlan_cases) auto
  then have "orders_planned pdb' db" using ok(3) unfolding orders_planned_def by blast
  then show ?thesis using ok(2) CreatePlan_plans_ok [OF ok(1) plan_created(3)] plan_created(2) by (simp add: factory_ok_def)
next
  case (plan_approved i pdb r pdb' db)
  have ok: "plans_ok pdb" "prod_ok db" "orders_planned pdb db" using assms(1) plan_approved(1) by (simp_all add: factory_ok_def)
  from plan_approved(3) show ?thesis
  proof (cases rule: ApprovePlan_cases)
    case (2 p)
    have "orders_planned pdb' db"
      unfolding 2(4) by (rule orders_planned_status [OF ok(1,3) 2(2), where st = PlanApproved]) simp_all
    then show ?thesis using ok(1,2) 2(4) plan_approved(2) by (auto simp: factory_ok_def intro: plans_ok_update)
  qed (use assms(1) plan_approved in simp)
next
  case (plan_canceled env xin pdb db r pdb' db')
  then show ?thesis using CancelPlan_factory assms(1) by blast
next
  case (order_created pdb env cwo db x q db' x')
  have ok: "plans_ok pdb" "prod_ok db" "orders_planned pdb db" using assms(1) order_created(1) by (simp_all add: factory_ok_def)
  have "prod_ok db'" by (rule wo_change_ok [OF CreateWorkOrder_change [OF order_created(3)] ok(2)])
  moreover from order_created(3) have "orders_planned pdb db'"
  proof (cases rule: CreateWorkOrder_plan)
    case 1
    with ok(3) show ?thesis by (simp add: orders_planned_def)
  next
    case (2 w p)
    then show ?thesis by (rule orders_planned_insert [OF ok(3)])
  qed
  ultimately show ?thesis using ok(1) order_created(2) by (simp add: factory_ok_def)
next
  case (order_split pdb env par db x q db' x')
  have ok: "plans_ok pdb" "prod_ok db" using assms(1) order_split(1) by (simp_all add: factory_ok_def)
  have int4: "\<forall>w \<in> set (work_orders db). in_int4 (wo_Quantity w)" using prod_okD(2) [OF ok(2)] by blast
  have "prod_ok db'" by (rule wo_change_ok [OF PartialComplete_change [OF prod_okD(1) [OF ok(2)] int4 order_split(3)] ok(2)])
  moreover have "orders_planned pdb db'"
    by (rule PartialComplete_factory [OF _ order_split(3,4)]) (use assms(1) order_split(1) in simp)
  ultimately show ?thesis using ok(1) order_split(2) by (simp add: factory_ok_def)
next
  case (order_step pdb db db')
  have ok: "plans_ok pdb" "prod_ok db" "orders_planned pdb db" using assms(1) order_step(1) by (simp_all add: factory_ok_def)
  note change = prod_step_change [OF ok(2) order_step(3)]
  have "orders_planned pdb db'" by (rule orders_planned_edge [OF ok(3) wo_change_back [OF change order_step(4)]])
  then show ?thesis using ok(1) wo_change_ok [OF change ok(2)] order_step(2) by (simp add: factory_ok_def)
qed

interpretation factory: invariant factory_init "factory_step carry_approved sch deps" factory_ok
proof unfold_locales
  show "factory_ok s" if "factory_init s" for s
    using that by (simp add: factory_ok_def plans_ok_def prod_ok_def orders_planned_def empty_plans_def empty_prod_def)
qed (rule factory_step_ok)

text \<open>The plan codes need no assumption on the carry-overs.\<close>

lemma factory_step_codes:
  assumes "plans_ok (fst s)" and "factory_step carry sch deps s s'"
  shows "plans_ok (fst s')"
  using assms(2)
proof cases
  case (plan_created rf year env inp pdb r pdb' db)
  then show ?thesis using assms(1) CreatePlan_plans_ok by simp
next
  case (plan_approved i pdb r pdb' db)
  from plan_approved(3) show ?thesis
    by (cases rule: ApprovePlan_cases) (use assms(1) plan_approved in \<open>auto intro: plans_ok_update\<close>)
next
  case (plan_canceled env xin pdb db r pdb' db')
  from plan_canceled(3) show ?thesis
    by (cases rule: canceller.CancelPlan_cases)
      (use assms(1) plan_canceled in \<open>auto intro: plans_ok_update simp: canceled_row_def\<close>)
qed (use assms(1) in simp_all)

interpretation plan_codes: invariant factory_init "factory_step carry sch deps" "\<lambda>s. plans_ok (fst s)"
proof unfold_locales
  show "plans_ok (fst s)" if "factory_init s" for s
    using that by (simp add: plans_ok_def empty_plans_def)
qed (rule factory_step_codes)

end
