(* ===== verification/Planning_Props.thy ===== *)
theory Planning_Props
  imports Planning_Invariant
begin

text \<open>
  The properties of planning and of its composition with production: the cancel cascade, the
  consistency of plans and orders over every execution, the one call that breaks it, unique
  plan codes, and preemption as it is wired.
\<close>

section \<open>The cancel cascade\<close>

text \<open>
  Canceling a plan. A \<^verbatim>\<open>CancelPlan\<close> that fails changes neither the plans nor the orders. One
  that succeeds on a draft changes only the plan's status. One that succeeds on an approved
  plan was given a reason, found every order of the plan still planned or already canceled,
  cancels exactly the orders of that plan and no other, and records status, reason, actor and
  time on the plan's row.
\<close>

theorem CancelPlan_cascade:
  assumes "CancelPlan (Some planningWOCancellerAdapter) env inp (pdb, db) = (r, (pdb', db'))"
  shows "case r of
      Inl e \<Rightarrow> pdb' = pdb \<and> db' = db
    | Inr _ \<Rightarrow> (\<exists>p. row_by pn_ID (xp_PlanID inp) (plans pdb) = Some p \<and>
        (pn_Status p = PlanDraft \<and> db' = db \<and> pdb' = update_plan (xp_PlanID inp) (\<lambda>p. p\<lparr>pn_Status := PlanCanceled\<rparr>) pdb \<or>
         pn_Status p = PlanApproved \<and> xp_Reason inp \<noteq> [] \<and>
         (\<forall>w \<in> set (work_orders db). wo_PlanID w = xp_PlanID inp \<longrightarrow> wo_Status w \<in> {WOPlanned, WOCanceled}) \<and>
         db' = db\<lparr>work_orders := update_where (\<lambda>w. wo_PlanID w = xp_PlanID inp) (\<lambda>w. w\<lparr>wo_Status := WOCanceled\<rparr>) (work_orders db)\<rparr> \<and>
         pdb' = update_plan (xp_PlanID inp) (canceled_row inp (now env)) pdb))"
  using assms
proof (cases rule: canceller.CancelPlan_cases)
  case (approved p n)
  have prior: "wo_Status w \<in> {WOPlanned, WOCanceled}" if "w \<in> set (work_orders db)" "wo_PlanID w = xp_PlanID inp" for w
    using approved(5) that by (auto simp: statuses_of_def select_where_def)
  have "db' = db\<lparr>work_orders := update_where (\<lambda>w. wo_PlanID w = xp_PlanID inp \<and> wo_Status w = WOPlanned)
      (\<lambda>w. w\<lparr>wo_Status := WOCanceled\<rparr>) (work_orders db)\<rparr>"
    using approved(6) by (auto simp: planningWOCancellerAdapter_def CancelPlannedByPlan_def cancelPlannedByPlan_def split: if_splits)
  also have "update_where (\<lambda>w. wo_PlanID w = xp_PlanID inp \<and> wo_Status w = WOPlanned) (\<lambda>w. w\<lparr>wo_Status := WOCanceled\<rparr>) (work_orders db) =
      update_where (\<lambda>w. wo_PlanID w = xp_PlanID inp) (\<lambda>w. w\<lparr>wo_Status := WOCanceled\<rparr>) (work_orders db)"
    unfolding update_where_def by (rule map_cong) (use prior in fastforce)+
  finally show ?thesis using approved prior by simp
qed auto

section \<open>A concrete office\<close>

text \<open>Plans 10 and 20 for the purchase order 7; plan 20 is canceled before any order exists.\<close>

definition office_refs :: plan_refs where
  "office_refs = \<lparr>pref_pos = [(7, ''PO-7'')], pref_sos = [], pref_skus = [2]\<rparr>"

definition plan_for_po :: CreatePlanInput where
  "plan_for_po = \<lparr>ip_POID = Some 7, ip_SOID = None, ip_Items = [\<lparr>ii_SKUID = 2, ii_Quantity = 10\<rparr>], ip_Deadline = None\<rparr>"

definition office_planned :: plan_db where
  "office_planned = snd (CreatePlan office_refs 2026 (plant_env 1) plan_for_po empty_plans)"

definition office_planned2 :: plan_db where
  "office_planned2 = snd (CreatePlan office_refs 2026 (plant_env 2) plan_for_po office_planned)"

definition office_approved :: plan_db where
  "office_approved = snd (ApprovePlan 10 office_planned2)"

definition office_approved2 :: plan_db where
  "office_approved2 = snd (ApprovePlan 20 office_approved)"

definition drop20 :: CancelPlanInput where
  "drop20 = \<lparr>xp_PlanID = 20, xp_Reason = ''customer withdrew'', xp_ActorID = 9\<rparr>"

definition office_canceled :: plan_db where
  "office_canceled = fst (snd (CancelPlan (Some planningWOCancellerAdapter) (plant_env 3) drop20 (office_approved2, empty_prod)))"

text \<open>Order 40 of plan 10 goes into processing; it is closed short and carried over to plan 20.\<close>

abbreviation wired :: "WOCompletedEvent list prod_deps" where
  "wired \<equiv> with_plans office_canceled plant"

definition order_plan10 :: CreateWOInput where
  "order_plan10 = order10\<lparr>cw_PlanID := 10\<rparr>"

definition floor_created :: prod_db where
  "floor_created = fst (snd (CreateWorkOrder wired (plant_env 4) order_plan10 (empty_prod, [])))"

definition floor_assigned :: prod_db where
  "floor_assigned = fst (snd (AssignWorkOrder wired (plant_env 5) 40 5 (floor_created, [])))"

definition floor_cutting :: prod_db where
  "floor_cutting = fst (snd (AdvanceStatus wired 40 (move_to WOInCutting) (floor_assigned, [])))"

definition floor_processing :: prod_db where
  "floor_processing = fst (snd (AdvanceStatus wired 40 (move_to WOInProcessing) (floor_cutting, [])))"

definition carry_to :: "uuid option \<Rightarrow> PartialCompleteInput" where
  "carry_to q = short4\<lparr>pci_WorkOrderID := 40, pci_CarryOverPlanID := q\<rparr>"

definition floor_short :: "uuid option \<Rightarrow> prod_db" where
  "floor_short q = fst (snd (PartialComplete wired (plant_env 6) (carry_to q) (floor_processing, [])))"

definition floor_carry_assigned :: prod_db where
  "floor_carry_assigned = fst (snd (AssignWorkOrder wired (plant_env 7) 60 5 (floor_short (Some 20), [])))"

definition floor_carry_cutting :: prod_db where
  "floor_carry_cutting = fst (snd (AdvanceStatus wired 60 (move_to WOInCutting) (floor_carry_assigned, [])))"

text \<open>The states reached, for evaluation.\<close>

lemma office_canceled_code [code]:
  "office_canceled = \<lparr>plans =
     [\<lparr>pn_ID = 10, pn_Code = ''KH-2026-001'', pn_POID = Some 7, pn_SOID = None, pn_Status = PlanApproved, pn_Deadline = None,
       pn_CreatedAt = 1, pn_CanceledReason = [], pn_CanceledAt = None, pn_CanceledBy = None\<rparr>,
      \<lparr>pn_ID = 20, pn_Code = ''KH-2026-002'', pn_POID = Some 7, pn_SOID = None, pn_Status = PlanCanceled, pn_Deadline = None,
       pn_CreatedAt = 2, pn_CanceledReason = ''customer withdrew'', pn_CanceledAt = Some 3, pn_CanceledBy = Some 9\<rparr>],
     plan_items = [\<lparr>it_ID = 11, it_PlanID = 10, it_SKUID = 2, it_Quantity = 10\<rparr>,
      \<lparr>it_ID = 21, it_PlanID = 20, it_SKUID = 2, it_Quantity = 10\<rparr>], plan_seq = 3\<rparr>"
  by code_simp

lemma floor_processing_code [code]:
  "floor_processing = empty_prod\<lparr>work_orders :=
     [(new_work_order 40 10 2 10 None None 4)\<lparr>wo_Status := WOInProcessing, wo_AssignedTo := Some 5, wo_AssignedAt := Some 5\<rparr>]\<rparr>"
  by code_simp

lemma office_cancel_db: "snd (snd (CancelPlan (Some planningWOCancellerAdapter) (plant_env 3) drop20 (office_approved2, empty_prod))) = empty_prod"
  by code_simp

lemma office_steps:
  "factory_step carry sch deps (empty_plans, db) (office_planned, db)"
  "factory_step carry sch deps (office_planned, db) (office_planned2, db)"
  "factory_step carry sch deps (office_planned2, db) (office_approved, db)"
  "factory_step carry sch deps (office_approved, db) (office_approved2, db)"
  "factory_step carry sch deps (office_approved2, empty_prod) (office_canceled, empty_prod)"
proof -
  show "factory_step carry sch deps (empty_plans, db) (office_planned, db)"
    by (rule plan_created [OF run_pair [OF office_planned_def]])
  show "factory_step carry sch deps (office_planned, db) (office_planned2, db)"
    by (rule plan_created [OF run_pair [OF office_planned2_def]])
  show "factory_step carry sch deps (office_planned2, db) (office_approved, db)"
    by (rule plan_approved [OF run_pair [OF office_approved_def]])
  show "factory_step carry sch deps (office_approved, db) (office_approved2, db)"
    by (rule plan_approved [OF run_pair [OF office_approved2_def]])
  show "factory_step carry sch deps (office_approved2, empty_prod) (office_canceled, empty_prod)"
    by (rule plan_canceled) (subst office_cancel_db [symmetric], rule run_eq [OF office_canceled_def])
qed

lemma floor_lengths:
  "length (work_orders floor_assigned) = length (work_orders floor_created)"
  "length (work_orders floor_cutting) = length (work_orders floor_assigned)"
  "length (work_orders floor_processing) = length (work_orders floor_cutting)"
  "length (work_orders floor_carry_assigned) = length (work_orders (floor_short (Some 20)))"
  "length (work_orders floor_carry_cutting) = length (work_orders floor_carry_assigned)"
  by code_simp+

lemma floor_steps:
  "factory_step carry sch plant (office_canceled, empty_prod) (office_canceled, floor_created)"
  "factory_step carry sch plant (office_canceled, floor_created) (office_canceled, floor_assigned)"
  "factory_step carry sch plant (office_canceled, floor_assigned) (office_canceled, floor_cutting)"
  "factory_step carry sch plant (office_canceled, floor_cutting) (office_canceled, floor_processing)"
  "carry office_canceled (carry_to q) \<Longrightarrow>
     factory_step carry sch plant (office_canceled, floor_processing) (office_canceled, floor_short q)"
  "factory_step carry sch plant (office_canceled, floor_short (Some 20)) (office_canceled, floor_carry_assigned)"
  "factory_step carry sch plant (office_canceled, floor_carry_assigned) (office_canceled, floor_carry_cutting)"
  by (rule order_created [OF run_eq [OF floor_created_def]]
      order_step [OF prod_step.intros(4) [OF run_eq [OF floor_assigned_def]] floor_lengths(1)]
      order_step [OF prod_step.intros(2) [OF run_eq [OF floor_cutting_def]] floor_lengths(2)]
      order_step [OF prod_step.intros(2) [OF run_eq [OF floor_processing_def]] floor_lengths(3)]
      order_split [OF run_eq [OF floor_short_def]]
      order_step [OF prod_step.intros(4) [OF run_eq [OF floor_carry_assigned_def]] floor_lengths(4)]
      order_step [OF prod_step.intros(2) [OF run_eq [OF floor_carry_cutting_def]] floor_lengths(5)]; assumption?)+

lemma office_reach:
  "reach factory_init (factory_step carry sch deps) (office_planned, empty_prod)"
  "reach factory_init (factory_step carry sch deps) (office_canceled, empty_prod)"
proof -
  show planned: "reach factory_init (factory_step carry sch deps) (office_planned, empty_prod)"
    by (rule reach_step [where s = "(empty_plans, empty_prod)"]) (simp_all add: reach_init office_steps(1))
  show "reach factory_init (factory_step carry sch deps) (office_canceled, empty_prod)"
    by (rule reach_step [OF reach_step [OF reach_step [OF reach_step [OF planned office_steps(2)] office_steps(3)]
      office_steps(4)] office_steps(5)])
qed

lemma floor_reach: "reach factory_init (factory_step carry sch plant) (office_canceled, floor_processing)"
  by (rule reach_step [OF reach_step [OF reach_step [OF reach_step [OF office_reach(2) floor_steps(1)] floor_steps(2)]
    floor_steps(3)] floor_steps(4)])

theorem CancelPlan_cascade_witness:
  "\<exists>p. row_by pn_ID 20 (plans office_approved2) = Some p \<and> pn_Status p = PlanApproved \<and> pn_Status p \<noteq> PlanDraft"
proof -
  have ok: "\<not> isl (fst (CancelPlan (Some planningWOCancellerAdapter) (plant_env 3) drop20 (office_approved2, empty_prod)))" by code_simp
  have draft: "list_all (\<lambda>p. pn_Status p \<noteq> PlanDraft) (plans office_approved2)" by code_simp
  from run_ok [OF ok] obtain a pdb db where
    eq: "CancelPlan (Some planningWOCancellerAdapter) (plant_env 3) drop20 (office_approved2, empty_prod) = (Inr a, (pdb, db))" by blast
  from CancelPlan_cascade [OF eq] draft show ?thesis by (auto simp: drop20_def list_all_iff dest: row_by_SomeD)
qed

section \<open>Plans and orders over every execution\<close>

text \<open>
  C34: plans and orders agree. As long as partial completions carry over to approved plans only, in
  every state that planning and production can reach together, every work order belongs to an
  existing plan that has been approved, and if that plan is canceled, so is the order: no
  work goes on under a draft or a canceled plan.
\<close>

theorem orders_follow_plans:
  assumes "reach factory_init (factory_step carry_approved sch deps) (pdb, db)" and "w \<in> set (work_orders db)"
  shows "\<exists>p. row_by pn_ID (wo_PlanID w) (plans pdb) = Some p \<and> pn_Status p \<noteq> PlanDraft \<and>
    (pn_Status p = PlanCanceled \<longrightarrow> wo_Status w = WOCanceled)"
proof -
  have ok: "plans_ok pdb" "orders_planned pdb db"
    using factory.reach_inv [OF assms(1)] by (simp_all add: factory_ok_def)
  from ok(2) assms(2) obtain p where p: "p \<in> set (plans pdb)" "pn_ID p = wo_PlanID w" "plan_allows (pn_Status p) (wo_Status w)"
    unfolding orders_planned_def by blast
  then have "row_by pn_ID (wo_PlanID w) (plans pdb) = Some p"
    using ok(1) row_by_eq_SomeI unfolding plans_ok_def by metis
  with p(3) show ?thesis by (cases "pn_Status p") auto
qed

theorem orders_follow_plans_witness:
  "\<exists>w p. w \<in> set (work_orders (floor_short None)) \<and> row_by pn_ID (wo_PlanID w) (plans office_canceled) = Some p \<and> pn_Status p = PlanApproved"
proof -
  have r: "reach factory_init (factory_step carry_approved migrated_prod_schema plant) (office_canceled, floor_short None)"
    by (rule reach_step [OF floor_reach floor_steps(5)]) code_simp
  have "list_ex (\<lambda>w. wo_Status w = WOPlanned) (work_orders (floor_short None))" by code_simp
  then obtain w where w: "w \<in> set (work_orders (floor_short None))" "wo_Status w = WOPlanned"
    by (auto simp: list_ex_iff)
  from orders_follow_plans [OF r w(1)] w obtain p where "row_by pn_ID (wo_PlanID w) (plans office_canceled) = Some p"
    "pn_Status p \<noteq> PlanDraft" "pn_Status p \<noteq> PlanCanceled" by auto
  then show ?thesis using w(1) PlanStatus.exhaust by blast
qed

text \<open>
  The plan a partial completion names is not checked. Plan 20 is canceled; order 40 of plan 10 is
  closed short and its remainder carried over to plan 20: a planned order under a canceled
  plan, which is then assigned and goes into cutting.
\<close>

theorem carry_over_into_canceled_plan:
  "\<exists>pdb db w p. reach factory_init (factory_step (\<lambda>_ _. True) migrated_prod_schema plant) (pdb, db) \<and>
     w \<in> set (work_orders db) \<and> row_by pn_ID (wo_PlanID w) (plans pdb) = Some p \<and>
     pn_Status p = PlanCanceled \<and> wo_Status w = WOInCutting"
proof (intro exI conjI)
  show "reach factory_init (factory_step (\<lambda>_ _. True) migrated_prod_schema plant) (office_canceled, floor_carry_cutting)"
    by (rule reach_step [OF reach_step [OF reach_step [OF floor_reach floor_steps(5) [of _ "Some 20"]] floor_steps(6)] floor_steps(7)]) simp
  show "last (work_orders floor_carry_cutting) \<in> set (work_orders floor_carry_cutting)"
    by (rule last_in_set) code_simp
  show "row_by pn_ID (wo_PlanID (last (work_orders floor_carry_cutting))) (plans office_canceled) = Some (last (plans office_canceled))"
    by code_simp
  show "pn_Status (last (plans office_canceled)) = PlanCanceled" by code_simp
  show "wo_Status (last (work_orders floor_carry_cutting)) = WOInCutting" by code_simp
qed

section \<open>Plan codes\<close>

lemma insertPlanItems_keys:
  "insertPlanItems rf its pdb = (r, pdb') \<Longrightarrow> distinct (map it_ID its) \<Longrightarrow> it_ID ` set its \<inter> it_ID ` set (plan_items pdb) = {} \<Longrightarrow>
   r \<noteq> Inl (Pg UniqueViolation)"
proof (induction rf its pdb rule: insertPlanItems.induct)
  case (2 rf it its db)
  obtain q where q: "insert_checked (check_item rf db) it_ID it (plan_items db) = q" by simp
  show ?case
  proof (cases q)
    case (Inl e)
    then have "e \<noteq> Pg UniqueViolation"
      using q 2(4) by (auto simp: insert_checked_def check_item_def split: option.splits if_splits)
    then show ?thesis using 2(2) q Inl by auto
  next
    case (Inr t)
    then show ?thesis using 2 q by auto
  qed
qed auto

text \<open>
  Plan codes. The code determines the year and the number it was made from. So no execution of
  planning and production, whatever the clock's year does, ever gives two plans the same code,
  and creating a plan never fails on the unique constraint of the code: with unused
  identifiers it does not fail on a unique constraint at all.
\<close>

theorem plan_codes_unique:
  assumes "reach factory_init (factory_step carry sch deps) (pdb, db)" and "CreatePlan rf year env inp pdb = (r, pdb')"
    and "inj (fresh env)" and "fresh env 0 \<notin> pn_ID ` set (plans pdb)" and "range (fresh env) \<inter> it_ID ` set (plan_items pdb) = {}"
  shows "distinct (map pn_Code (plans pdb')) \<and> r \<noteq> Inl (Pg UniqueViolation) \<and>
    (\<forall>y n y' n'. planCode y n = planCode y' n' \<longleftrightarrow> y = y' \<and> n = n')"
proof -
  have ok: "plans_ok pdb" using plan_codes.reach_inv [OF assms(1)] by simp
  have "distinct (map pn_Code (plans pdb'))" using CreatePlan_plans_ok [OF ok assms(2)] by (simp add: plans_ok_def)
  moreover have "r \<noteq> Inl (Pg UniqueViolation)"
  proof -
    let ?p = "new_plan year env inp pdb"
    let ?db1 = "pdb\<lparr>plan_seq := Suc (plan_seq pdb)\<rparr>"
    let ?its = "map (\<lambda>(i, it). \<lparr>it_ID = fresh env (Suc i), it_PlanID = fresh env 0, it_SKUID = ii_SKUID it,
      it_Quantity = ii_Quantity it\<rparr>) (zip [0..<length (ip_Items inp)] (ip_Items inp))"
    obtain q db2 where ins: "insertPlan rf ?p ?db1 = (q, db2)" by force
    obtain q2 db3 where items: "insertPlanItems rf ?its db2 = (q2, db3)" by force
    have q: "q \<noteq> Inl (Pg UniqueViolation)"
      using ins plans_ok_fresh_code [OF ok, of year] assms(4)
      by (auto simp: insertPlan_def check_plan_def plan_columns_def new_plan_def insert_checked_def split: option.splits if_splits sum.splits)
    have ids: "map it_ID ?its = map (\<lambda>i. fresh env (Suc i)) [0..<length (ip_Items inp)]"
      by (simp add: map_fst_zip comp_def case_prod_unfold flip: map_map [of "\<lambda>i. fresh env (Suc i)" fst, unfolded comp_def])
    have "distinct (map it_ID ?its)"
      unfolding ids using assms(3) by (auto simp: distinct_map inj_on_def inj_def)
    moreover have "it_ID ` set ?its \<subseteq> range (fresh env)"
      unfolding set_map [symmetric] ids by auto
    moreover have "plan_items db2 = plan_items pdb" using ins by (cases rule: insertPlan_cases) simp_all
    ultimately have q2: "q2 \<noteq> Inl (Pg UniqueViolation)"
      using assms(5) by (intro insertPlanItems_keys [OF items]) auto
    show ?thesis
      using assms(2) q q2 ins [unfolded new_plan_def] items
      by (auto simp: CreatePlan_def nextPlanCode_def Let_def split: if_splits sum.splits prod.splits)
  qed
  ultimately show ?thesis by (simp add: planCode_eq_iff)
qed

theorem plan_codes_unique_witness:
  "\<exists>r. CreatePlan office_refs 2027 (plant_env 2) plan_for_po office_planned = (r, snd (CreatePlan office_refs 2027 (plant_env 2) plan_for_po office_planned)) \<and>
     r \<noteq> Inl (Pg UniqueViolation) \<and> map pn_Code (plans office_planned) = [''KH-2026-001'']"
proof -
  obtain r pdb' where run: "CreatePlan office_refs 2027 (plant_env 2) plan_for_po office_planned = (r, pdb')" by force
  have ids: "map pn_ID (plans office_planned) = [10]" "map it_ID (plan_items office_planned) = [11]"
    "map pn_Code (plans office_planned) = [''KH-2026-001'']"
    by code_simp+
  have "inj (fresh (plant_env 2))" by (auto simp: plant_env_def inj_def)
  moreover have "fresh (plant_env 2) 0 \<notin> pn_ID ` set (plans office_planned)"
    using arg_cong [OF ids(1), of set] by (simp add: plant_env_def)
  moreover have "range (fresh (plant_env 2)) \<inter> it_ID ` set (plan_items office_planned) = {}"
    using arg_cong [OF ids(2), of set] by (auto simp: plant_env_def)
  ultimately show ?thesis
    using plan_codes_unique [OF office_reach(1) run] run ids(3) by simp
qed

section \<open>Preemption as it is wired\<close>

text \<open>
  Preemption through the planning endpoint never succeeds. The adapter does not pass a material,
  so the log entry would name the material \<^verbatim>\<open>uuid.Nil\<close>, which the catalog does not have: the
  foreign key refuses it, the transaction rolls back and the orders stay as they are.
\<close>

lemma PreemptWorkOrder_refused:
  assumes "uuid_Nil \<notin> set (ref_materials (refs deps x))"
  shows "\<exists>e. PreemptWorkOrder (Some (planningWOAdvisorAdapter sch deps env)) inp (db, x) = (Inl e, (db, x))"
proof -
  let ?pop = "\<lparr>pp_FromWOID = pt_FromWOID inp, pp_ToWOID = pt_ToWOID inp, pp_MaterialID = uuid_Nil,
    pp_Reason = pt_Reason inp, pp_ActorID = pt_ActorID inp\<rparr>"
  obtain r db' x' where run: "PreemptWO deps env ?pop (db, x) = (r, (db', x'))" by (metis prod_cases3)
  then have "\<exists>e. PreemptWO deps env ?pop (db, x) = (Inl e, (db, x))"
  proof (cases rule: PreemptWO_cases)
    case (2 w l)
    then show ?thesis using assms by (auto simp: check_preemption_def split: if_splits)
  qed (use run in simp)
  then show ?thesis by (auto simp: PreemptWorkOrder_def planningWOAdvisorAdapter_def)
qed

end
