(* ===== verification/Costing.thy ===== *)
theory Costing
  imports Domain Paging Inventory_Listings Production_Store
begin

text \<open>
  The costing module: \<^verbatim>\<open>internal/module/costing\<close>. A work order has at most one costing record, an
  estimate before cutting and the actual cost after completion; finalizing freezes it and
  opens it for adjustments, which are kept beside it. The readers of work orders, cuts,
  consumption and labor, the notifier, the audit log and the currency readers (\<^verbatim>\<open>deps.go\<close>) are the
  fields of \<open>cost_deps\<close>; the notifier and the audit log change a state \<open>'x\<close> of their own and their
  errors are dropped.

  An exchange rate is the decimal number the rate table holds; the record's column
  \<^verbatim>\<open>NUMERIC(16,6)\<close> rounds it to six places. The waste report reads the tables of the inventory and is
  not part of this theory.
\<close>

section \<open>Rows\<close>

datatype CostingType = CostingTypeEstimated | CostingTypeActual

record CostingRecord =
  co_ID :: uuid
  co_WorkOrderID :: uuid
  co_SKUID :: uuid
  co_CostingType :: CostingType
  co_MaterialCost :: Money
  co_AuxiliaryCost :: Money
  co_LaborCost :: Money
  co_TotalCost :: Money
  co_SOCurrency :: "string option"
  co_FXRateToVND :: "rat option"
  co_Finalized :: bool
  co_FinalizedAt :: "time option"
  co_FinalizedBy :: "uuid option"
  co_CreatedAt :: time

record CostingAdjustment =
  ca_ID :: uuid
  ca_CostingRecordID :: uuid
  ca_Reason :: string
  ca_DeltaMaterial :: Money
  ca_DeltaAuxiliary :: Money
  ca_DeltaLabor :: Money
  ca_DeltaTotal :: Money
  ca_CreatedBy :: uuid
  ca_CreatedAt :: time

record cost_db =
  costing_records :: "CostingRecord list"
  adjustments :: "CostingAdjustment list"

section \<open>Statements\<close>

abbreviation cost_row :: "uuid \<Rightarrow> cost_db \<Rightarrow> CostingRecord option" where
  "cost_row wo db \<equiv> row_by co_WorkOrderID wo (costing_records db)"

definition numeric_16_6 :: "rat \<Rightarrow> rat result" where
  "numeric_16_6 x = (let c = round_half_away (x * 10 ^ 6)
     in if \<bar>c\<bar> < 10 ^ 16 then Inr (of_int c / 10 ^ 6) else Inl (Pg NumericOutOfRange))"

definition rate_column :: "rat option \<Rightarrow> rat option result" where
  "rate_column r = (case r of None \<Rightarrow> Inr None | Some x \<Rightarrow> map_sum id Some (numeric_16_6 x))"

text \<open>\<open>wos\<close> is the identifiers of the work orders, for the foreign key.\<close>

definition insertCostingRecord :: "uuid list \<Rightarrow> CostingRecord \<Rightarrow> (cost_db, unit) op" where
  "insertCostingRecord wos r db =
     (case rate_column (co_FXRateToVND r) of
        Inl e \<Rightarrow> (Inl e, db)
      | Inr rate \<Rightarrow>
          (case insert_checked (\<lambda>r. if co_WorkOrderID r \<in> set (map co_WorkOrderID (costing_records db)) then Some (Pg UniqueViolation)
                                   else if co_WorkOrderID r \<notin> set wos then Some (Pg ForeignKeyViolation) else None)
                  co_ID (r\<lparr>co_FXRateToVND := rate, co_FinalizedAt := None, co_FinalizedBy := None\<rparr>) (costing_records db) of
             Inl e \<Rightarrow> (Inl e, db)
           | Inr t \<Rightarrow> (Inr (), db\<lparr>costing_records := t\<rparr>)))"

definition recompute :: "CostingRecord \<Rightarrow> rat option \<Rightarrow> CostingRecord \<Rightarrow> CostingRecord" where
  "recompute r rate old = old\<lparr>co_SKUID := co_SKUID r, co_CostingType := co_CostingType r,
     co_MaterialCost := co_MaterialCost r, co_AuxiliaryCost := co_AuxiliaryCost r, co_LaborCost := co_LaborCost r,
     co_TotalCost := co_TotalCost r, co_SOCurrency := co_SOCurrency r, co_FXRateToVND := rate\<rparr>"

definition updateCostingRecord :: "CostingRecord \<Rightarrow> (cost_db, unit) op" where
  "updateCostingRecord r db =
     (let hit = (\<lambda>c. co_WorkOrderID c = co_WorkOrderID r \<and> \<not> co_Finalized c) in
      if count_where hit (costing_records db) = 0 then (Inl (Biz ErrAlreadyFinalized), db)
      else (case rate_column (co_FXRateToVND r) of
              Inl e \<Rightarrow> (Inl e, db)
            | Inr rate \<Rightarrow> (Inr (), db\<lparr>costing_records := update_where hit (recompute r rate) (costing_records db)\<rparr>)))"

definition selectCostingRecordByWO :: "uuid \<Rightarrow> cost_db \<Rightarrow> CostingRecord result" where
  "selectCostingRecordByWO wo db = (case cost_row wo db of None \<Rightarrow> Inl (Biz ErrNotFound) | Some r \<Rightarrow> Inr r)"

definition finalizeCostingRecord :: "time \<Rightarrow> uuid \<Rightarrow> uuid \<Rightarrow> (cost_db, unit) op" where
  "finalizeCostingRecord t wo actor db =
     (let hit = (\<lambda>c. co_WorkOrderID c = wo \<and> \<not> co_Finalized c) in
      if count_where hit (costing_records db) = 0
      then (case selectCostingRecordByWO wo db of
              Inl e \<Rightarrow> (Inl e, db)
            | Inr r \<Rightarrow> (Inl (Biz (if co_Finalized r then ErrAlreadyFinalized else ErrNotFound)), db))
      else (Inr (), db\<lparr>costing_records := update_where hit
             (\<lambda>c. c\<lparr>co_Finalized := True, co_FinalizedAt := Some t, co_FinalizedBy := Some actor\<rparr>) (costing_records db)\<rparr>))"

definition hasCostingRecord :: "uuid \<Rightarrow> cost_db \<Rightarrow> bool result" where
  "hasCostingRecord wo db = Inr (list_ex (\<lambda>r. co_WorkOrderID r = wo) (costing_records db))"

definition insertCostingAdjustment :: "CostingAdjustment \<Rightarrow> (cost_db, unit) op" where
  "insertCostingAdjustment a db =
     (case insert_checked (\<lambda>a. if row_by co_ID (ca_CostingRecordID a) (costing_records db) = None then Some (Pg ForeignKeyViolation) else None)
             ca_ID a (adjustments db) of
        Inl e \<Rightarrow> (Inl e, db)
      | Inr t \<Rightarrow> (Inr (), db\<lparr>adjustments := t\<rparr>))"

definition selectAdjustmentsByRecord :: "uuid \<Rightarrow> cost_db \<Rightarrow> CostingAdjustment list result" where
  "selectAdjustmentsByRecord i db =
     Inr (sort_key ca_CreatedAt (select_where (\<lambda>a. ca_CostingRecordID a = i) (adjustments db)))"

record CostingListFilter =
  xf_Finalized :: "bool option"
  xf_SKUID :: "uuid option"
  xf_From :: "time option"
  xf_To :: "time option"
  xf_Search :: string

text \<open>\<open>skus\<close> is the code and name of a SKU, from the table the query joins.\<close>

definition record_matches :: "(uuid \<Rightarrow> (string \<times> string) option) \<Rightarrow> CostingListFilter \<Rightarrow> CostingRecord \<Rightarrow> bool" where
  "record_matches skus f r \<longleftrightarrow>
     (case xf_Finalized f of None \<Rightarrow> True | Some b \<Rightarrow> co_Finalized r = b) \<and>
     (case xf_SKUID f of None \<Rightarrow> True | Some i \<Rightarrow> co_SKUID r = i) \<and>
     (case xf_From f of None \<Rightarrow> True | Some t \<Rightarrow> co_CreatedAt r \<ge> t) \<and>
     (case xf_To f of None \<Rightarrow> True | Some t \<Rightarrow> co_CreatedAt r < t) \<and>
     (xf_Search f = [] \<or> (case skus (co_SKUID r) of
        None \<Rightarrow> False
      | Some (code, name) \<Rightarrow> ilike code (''%'' @ xf_Search f @ ''%'') \<or> ilike name (''%'' @ xf_Search f @ ''%'')))"

definition record_cursor :: "CostingRecord \<Rightarrow> Cursor" where
  "record_cursor r = \<lparr>Ts = co_CreatedAt r, CID = co_ID r\<rparr>"

definition selectCostingRecordsKeyset ::
  "(uuid \<Rightarrow> (string \<times> string) option) \<Rightarrow> CostingListFilter \<Rightarrow> Cursor \<Rightarrow> int \<Rightarrow> cost_db \<Rightarrow> CostingRecord list result" where
  "selectCostingRecordsKeyset skus f cur limit db =
     Inr (keyset_page record_cursor (select_where (record_matches skus f) (costing_records db)) cur limit)"

section \<open>Interfaces to the other modules\<close>

record WOInfo =
  wi_ID :: uuid
  wi_SKUID :: uuid
  wi_Status :: WorkOrderStatus
  wi_SalesOrderLineID :: "uuid option"
  wi_CompletedAt :: "time option"

record CuttingData =
  cd_SheetCost :: Money
  cd_SheetAreaMM2 :: int
  cd_UsedAreaMM2 :: int

record 'x cost_deps =
  wo_ids :: "'x \<Rightarrow> uuid list"
  wor :: "uuid \<Rightarrow> 'x \<Rightarrow> WOInfo result"
  cdr :: "uuid \<Rightarrow> 'x \<Rightarrow> CuttingData list result"
  conr :: "uuid \<Rightarrow> 'x \<Rightarrow> Money result"
  lbr :: "(uuid \<Rightarrow> 'x \<Rightarrow> Money result) option"
  cost_notifier :: "(uuid \<Rightarrow> CostingType \<Rightarrow> ('x, unit) op) option"
  cost_audit :: "(CostingAdjustment \<Rightarrow> uuid \<Rightarrow> ('x, unit) op) option"
  fxr :: "(string \<Rightarrow> time \<Rightarrow> 'x \<Rightarrow> rat result) option"
  socr :: "(uuid \<Rightarrow> 'x \<Rightarrow> string result) option"

section \<open>Computing a cost\<close>

definition zero_money :: Money where
  "zero_money = \<lparr>Amount = 0, Currency = []\<rparr>"

text \<open>Each cut carries the share of its sheet's cost that its area has; a sheet without area is skipped.\<close>

fun material_cost :: "CuttingData list \<Rightarrow> Money \<Rightarrow> Money" where
  "material_cost [] acc = acc"
| "material_cost (cd # cds) acc =
     (if cd_SheetAreaMM2 cd \<le> 0 then material_cost cds acc
      else material_cost cds (Add acc (Scale (cd_SheetCost cd) (cd_UsedAreaMM2 cd) (cd_SheetAreaMM2 cd))))"

definition labor_cost :: "'x cost_deps \<Rightarrow> uuid \<Rightarrow> 'x \<Rightarrow> Money result" where
  "labor_cost deps wo x =
     (case lbr deps of
        None \<Rightarrow> Inr (VND 0)
      | Some f \<Rightarrow> (case f wo x of Inl e \<Rightarrow> Inl e | Inr m \<Rightarrow> Inr (if Currency m = [] then VND 0 else m)))"

definition so_currency :: "'x cost_deps \<Rightarrow> WOInfo \<Rightarrow> 'x \<Rightarrow> string option" where
  "so_currency deps wo x =
     (case (wi_SalesOrderLineID wo, socr deps) of
        (Some l, Some f) \<Rightarrow> (case f l x of Inl _ \<Rightarrow> None | Inr cur \<Rightarrow> if cur \<noteq> [] \<and> cur \<noteq> ''VND'' then Some cur else None)
      | _ \<Rightarrow> None)"

definition fx_rate :: "'x cost_deps \<Rightarrow> time \<Rightarrow> WOInfo \<Rightarrow> 'x \<Rightarrow> rat option" where
  "fx_rate deps t wo x =
     (case (so_currency deps wo x, fxr deps) of
        (Some cur, Some f) \<Rightarrow>
          (case f cur (case wi_CompletedAt wo of None \<Rightarrow> t | Some c \<Rightarrow> c) x of Inl _ \<Rightarrow> None | Inr rate \<Rightarrow> Some rate)
      | _ \<Rightarrow> None)"

definition notify_computed :: "'x cost_deps \<Rightarrow> CostingRecord \<Rightarrow> 'x \<Rightarrow> 'x" where
  "notify_computed deps r x =
     (case cost_notifier deps of None \<Rightarrow> x | Some f \<Rightarrow> snd (f (co_WorkOrderID r) (co_CostingType r) x))"

text \<open>The costs of an order and the record made of them, before it is looked up and stored.\<close>

definition cost_record :: "'x cost_deps \<Rightarrow> time \<Rightarrow> uuid \<Rightarrow> 'x \<Rightarrow> CostingRecord result" where
  "cost_record deps t woID x =
     (case wor deps woID x of
        Inl e \<Rightarrow> Inl e
      | Inr wo \<Rightarrow>
          if wi_Status wo \<noteq> WOPlanned \<and> wi_Status wo \<noteq> WOCompleted \<and> wi_Status wo \<noteq> WOPartialComplete
          then Inl (Biz ErrPreconditionFailed)
          else (case cdr deps woID x of
                  Inl e \<Rightarrow> Inl e
                | Inr cutting \<Rightarrow>
                    (case conr deps woID x of
                       Inl e \<Rightarrow> Inl e
                     | Inr aux \<Rightarrow>
                         (case labor_cost deps woID x of
                            Inl e \<Rightarrow> Inl e
                          | Inr lab \<Rightarrow>
                              let mat = material_cost cutting zero_money in
                              Inr \<lparr>co_ID = uuid_Nil, co_WorkOrderID = woID, co_SKUID = wi_SKUID wo,
                                co_CostingType = (if wi_Status wo = WOPlanned then CostingTypeEstimated else CostingTypeActual),
                                co_MaterialCost = mat, co_AuxiliaryCost = aux, co_LaborCost = lab,
                                co_TotalCost = Add (Add mat aux) lab, co_SOCurrency = so_currency deps wo x,
                                co_FXRateToVND = fx_rate deps t wo x, co_Finalized = False, co_FinalizedAt = None,
                                co_FinalizedBy = None, co_CreatedAt = t\<rparr>))))"

definition ComputeCost :: "'x cost_deps \<Rightarrow> env \<Rightarrow> uuid \<Rightarrow> (cost_db \<times> 'x, CostingRecord) op" where
  "ComputeCost deps env woID st =
     (let db = fst st; x = snd st in
      case cost_record deps (now env) woID x of
        Inl e \<Rightarrow> (Inl e, st)
      | Inr r \<Rightarrow>
          (case cost_row woID db of
             Some old \<Rightarrow>
               if co_Finalized old then (Inl (Biz ErrAlreadyFinalized), st)
               else if co_CostingType r = CostingTypeActual \<and> Amount (co_TotalCost r) = 0 then (Inl (Biz ErrPreconditionFailed), st)
               else (let r = r\<lparr>co_ID := co_ID old, co_CreatedAt := co_CreatedAt old\<rparr>
                     in (case updateCostingRecord r db of
                           (Inl e, db1) \<Rightarrow> (Inl e, (db1, x))
                         | (Inr _, db1) \<Rightarrow> (Inr r, (db1, notify_computed deps r x))))
           | None \<Rightarrow>
               if co_CostingType r = CostingTypeActual \<and> Amount (co_TotalCost r) = 0 then (Inl (Biz ErrPreconditionFailed), st)
               else (let r = r\<lparr>co_ID := fresh env 0\<rparr>
                     in (case insertCostingRecord (wo_ids deps x) r db of
                           (Inl e, db1) \<Rightarrow> (Inl e, (db1, x))
                         | (Inr _, db1) \<Rightarrow> (Inr r, (db1, notify_computed deps r x))))))"

section \<open>Finalizing and adjusting\<close>

definition FinalizeCost :: "env \<Rightarrow> uuid \<Rightarrow> uuid \<Rightarrow> (cost_db, unit) op" where
  "FinalizeCost env wo actor = finalizeCostingRecord (now env) wo actor"

record CreateAdjustmentInput =
  ai_WorkOrderID :: uuid
  ai_Reason :: string
  ai_DeltaMaterial :: Money
  ai_DeltaAuxiliary :: Money
  ai_DeltaLabor :: Money
  ai_CreatedBy :: uuid

definition delta_total :: "CreateAdjustmentInput \<Rightarrow> Money" where
  "delta_total inp = Add (Add (ai_DeltaMaterial inp) (ai_DeltaAuxiliary inp)) (ai_DeltaLabor inp)"

definition new_adjustment :: "env \<Rightarrow> CreateAdjustmentInput \<Rightarrow> CostingRecord \<Rightarrow> CostingAdjustment" where
  "new_adjustment env inp r =
     \<lparr>ca_ID = fresh env 0, ca_CostingRecordID = co_ID r, ca_Reason = ai_Reason inp, ca_DeltaMaterial = ai_DeltaMaterial inp,
      ca_DeltaAuxiliary = ai_DeltaAuxiliary inp, ca_DeltaLabor = ai_DeltaLabor inp, ca_DeltaTotal = delta_total inp,
      ca_CreatedBy = ai_CreatedBy inp, ca_CreatedAt = now env\<rparr>"

definition CreateAdjustment :: "'x cost_deps \<Rightarrow> env \<Rightarrow> CreateAdjustmentInput \<Rightarrow> (cost_db \<times> 'x, CostingAdjustment) op" where
  "CreateAdjustment deps env inp st =
     (if ai_Reason inp = [] then (Inl (Biz ErrInvalidInput), st)
      else (case selectCostingRecordByWO (ai_WorkOrderID inp) (fst st) of
              Inl e \<Rightarrow> (Inl e, st)
            | Inr r \<Rightarrow>
                if \<not> co_Finalized r then (Inl (Biz ErrPreconditionFailed), st)
                else if Amount (delta_total inp) = 0 \<and> Amount (ai_DeltaMaterial inp) = 0 \<and>
                        Amount (ai_DeltaAuxiliary inp) = 0 \<and> Amount (ai_DeltaLabor inp) = 0 then (Inl (Biz ErrInvalidInput), st)
                else (let a = new_adjustment env inp r
                      in (case insertCostingAdjustment a (fst st) of
                            (Inl e, db) \<Rightarrow> (Inl e, (db, snd st))
                          | (Inr _, db) \<Rightarrow> (Inr a, (db, case cost_audit deps of None \<Rightarrow> snd st
                                                         | Some f \<Rightarrow> snd (f a (co_WorkOrderID r) (snd st))))))))"

section \<open>Reading\<close>

definition ListAdjustments :: "uuid \<Rightarrow> cost_db \<Rightarrow> CostingAdjustment list result" where
  "ListAdjustments wo db =
     (case selectCostingRecordByWO wo db of Inl e \<Rightarrow> Inl e | Inr r \<Rightarrow> selectAdjustmentsByRecord (co_ID r) db)"

definition GetCostingRecord :: "uuid \<Rightarrow> cost_db \<Rightarrow> CostingRecord result" where
  "GetCostingRecord wo db = selectCostingRecordByWO wo db"

record CostingRecordDetail =
  de_Record :: CostingRecord
  de_Adjustments :: "CostingAdjustment list"
  de_EffectiveMaterial :: Money
  de_EffectiveAuxiliary :: Money
  de_EffectiveLabor :: Money
  de_EffectiveTotal :: Money

definition fold_deltas :: "(CostingAdjustment \<Rightarrow> Money) \<Rightarrow> Money \<Rightarrow> CostingAdjustment list \<Rightarrow> Money" where
  "fold_deltas d m as = foldl (\<lambda>m a. Add m (d a)) m as"

definition GetCostingRecordDetail :: "uuid \<Rightarrow> cost_db \<Rightarrow> CostingRecordDetail result" where
  "GetCostingRecordDetail wo db =
     (case selectCostingRecordByWO wo db of
        Inl e \<Rightarrow> Inl e
      | Inr r \<Rightarrow>
          (case selectAdjustmentsByRecord (co_ID r) db of
             Inl e \<Rightarrow> Inl e
           | Inr as \<Rightarrow> Inr \<lparr>de_Record = r, de_Adjustments = as,
               de_EffectiveMaterial = fold_deltas ca_DeltaMaterial (co_MaterialCost r) as,
               de_EffectiveAuxiliary = fold_deltas ca_DeltaAuxiliary (co_AuxiliaryCost r) as,
               de_EffectiveLabor = fold_deltas ca_DeltaLabor (co_LaborCost r) as,
               de_EffectiveTotal = fold_deltas ca_DeltaTotal (co_TotalCost r) as\<rparr>))"

definition HasCostingRecord :: "uuid \<Rightarrow> cost_db \<Rightarrow> bool result" where
  "HasCostingRecord wo db = hasCostingRecord wo db"

definition IsCostingFinalized :: "uuid \<Rightarrow> cost_db \<Rightarrow> bool result" where
  "IsCostingFinalized wo db =
     (case selectCostingRecordByWO wo db of
        Inl e \<Rightarrow> if e = Biz ErrNotFound then Inr False else Inl e
      | Inr r \<Rightarrow> Inr (co_Finalized r))"

definition ListCostingRecords ::
  "(uuid \<Rightarrow> (string \<times> string) option) \<Rightarrow> CursorParams \<Rightarrow> CostingListFilter \<Rightarrow> cost_db \<Rightarrow> CostingRecord CursorResult result" where
  "ListCostingRecords skus p f db =
     (if (case (xf_From f, xf_To f) of (Some a, Some b) \<Rightarrow> a > b | _ \<Rightarrow> False) then Inl (Biz ErrInvalidInput)
      else (case Decoded p of
              Inl e \<Rightarrow> Inl e
            | Inr cur \<Rightarrow>
                (case selectCostingRecordsKeyset skus f cur (CLimit p + 1) db of
                   Inl e \<Rightarrow> Inl e
                 | Inr rows \<Rightarrow> Inr (NewCursorResult rows (CLimit p) record_cursor))))"

end
