(* ===== verification/Costing_Invariant.thy ===== *)
theory Costing_Invariant
  imports Costing Production_Invariant
begin

text \<open>
  The costing module as a transition system (compute, finalize, adjust, with any input and any
  answer of the neighbours), its invariant, and what holds along executions: a finalized record
  never changes again and its adjustments are never lost.

  The locale \<open>costing_gate\<close> is what production relies on when it asks costing through
  \<^verbatim>\<open>CostingChecker\<close>: the checker answers truthfully and finalized stays finalized. From it follows
  that the labor of a finalized order is frozen; costing's operations are its interpretation.
\<close>

section \<open>Steps and invariant\<close>

inductive cost_step :: "'x cost_deps \<Rightarrow> cost_db \<Rightarrow> cost_db \<Rightarrow> bool" for deps :: "'x cost_deps" where
  computed: "ComputeCost deps env wo (db, x) = (r, (db', x')) \<Longrightarrow> cost_step deps db db'"
| finalized: "FinalizeCost env wo actor db = (r', db') \<Longrightarrow> cost_step deps db db'"
| adjusted: "CreateAdjustment deps env inp (db, x) = (r'', (db', x')) \<Longrightarrow> cost_step deps db db'"

definition empty_costs :: cost_db where
  "empty_costs = \<lparr>costing_records = [], adjustments = []\<rparr>"

definition total_ok :: "CostingRecord \<Rightarrow> bool" where
  "total_ok r \<longleftrightarrow> co_TotalCost r = Add (Add (co_MaterialCost r) (co_AuxiliaryCost r)) (co_LaborCost r)"

definition delta_ok :: "CostingAdjustment \<Rightarrow> bool" where
  "delta_ok a \<longleftrightarrow> ca_DeltaTotal a = Add (Add (ca_DeltaMaterial a) (ca_DeltaAuxiliary a)) (ca_DeltaLabor a)"

text \<open>
  One record per work order, totals that add up, adjustments of finalized records only, and an
  unfinalized record without the stamp of finalization.
\<close>

definition costs_ok :: "cost_db \<Rightarrow> bool" where
  "costs_ok db \<longleftrightarrow> keys_distinct co_ID (costing_records db) \<and> keys_distinct co_WorkOrderID (costing_records db) \<and>
     (\<forall>r \<in> set (costing_records db). total_ok r \<and> (\<not> co_Finalized r \<longrightarrow> co_FinalizedAt r = None \<and> co_FinalizedBy r = None)) \<and>
     (\<forall>a \<in> set (adjustments db). delta_ok a \<and> (\<exists>r \<in> set (costing_records db). co_ID r = ca_CostingRecordID a \<and> co_Finalized r))"

section \<open>What a call does\<close>

lemma cost_record_Inr:
  assumes "cost_record deps t woID x = Inr r"
  shows "co_WorkOrderID r = woID" and "total_ok r" and "\<not> co_Finalized r" and "co_FinalizedAt r = None"
    and "co_FinalizedBy r = None" and "co_CreatedAt r = t"
  using assms by (auto simp: cost_record_def total_ok_def Let_def split: sum.splits if_splits)

text \<open>The row as the rate column keeps it.\<close>

definition stored :: "CostingRecord \<Rightarrow> rat option \<Rightarrow> CostingRecord" where
  "stored r rate = r\<lparr>co_FXRateToVND := rate\<rparr>"

lemma ComputeCost_cases:
  assumes "ComputeCost deps env woID (db, x) = (r, (db', x'))"
  obtains (error) e where "r = Inl e" and "db' = db" and "x' = x"
  | (insert) c rate where "cost_record deps (now env) woID x = Inr c" and "cost_row woID db = None"
    and "r = Inr (c\<lparr>co_ID := fresh env 0\<rparr>)" and "rate_column (co_FXRateToVND c) = Inr rate"
    and "db' = db\<lparr>costing_records := costing_records db @ [stored (c\<lparr>co_ID := fresh env 0\<rparr>) rate]\<rparr>"
    and "fresh env 0 \<notin> co_ID ` set (costing_records db)" and "woID \<in> set (wo_ids deps x)"
    and "co_CostingType c = CostingTypeActual \<longrightarrow> Amount (co_TotalCost c) \<noteq> 0"
    and "x' = notify_computed deps (c\<lparr>co_ID := fresh env 0\<rparr>) x"
  | (update) c old rate where "cost_record deps (now env) woID x = Inr c" and "cost_row woID db = Some old"
    and "\<not> co_Finalized old" and "r = Inr (c\<lparr>co_ID := co_ID old, co_CreatedAt := co_CreatedAt old\<rparr>)"
    and "rate_column (co_FXRateToVND c) = Inr rate"
    and "db' = db\<lparr>costing_records := update_where (\<lambda>d. co_WorkOrderID d = woID \<and> \<not> co_Finalized d)
      (recompute c rate) (costing_records db)\<rparr>"
    and "co_CostingType c = CostingTypeActual \<longrightarrow> Amount (co_TotalCost c) \<noteq> 0"
    and "x' = notify_computed deps (c\<lparr>co_ID := co_ID old, co_CreatedAt := co_CreatedAt old\<rparr>) x"
proof (cases r)
  case (Inl e)
  show ?thesis
    by (rule error [of e]) (use assms Inl in \<open>auto simp: ComputeCost_def Let_def insertCostingRecord_def updateCostingRecord_def
      split: sum.splits option.splits if_splits prod.splits\<close>)
next
  case (Inr v)
  then obtain c where c: "cost_record deps (now env) woID x = Inr c"
    using assms by (auto simp: ComputeCost_def Let_def split: sum.splits)
  have wo: "co_WorkOrderID c = woID" and fin: "co_FinalizedAt c = None" "co_FinalizedBy c = None"
    using cost_record_Inr [OF c] by simp_all
  note run = assms [unfolded ComputeCost_def Let_def fst_conv snd_conv c sum.case Inr]
  show ?thesis
  proof (cases "cost_row woID db")
    case None
    let ?c = "c\<lparr>co_ID := fresh env 0\<rparr>"
    from run None obtain rate where rate: "rate_column (co_FXRateToVND c) = Inr rate"
      by (auto simp: insertCostingRecord_def split: if_splits sum.splits)
    have cols: "?c\<lparr>co_FXRateToVND := rate, co_FinalizedAt := None, co_FinalizedBy := None\<rparr> = stored ?c rate"
      using fin by (simp add: stored_def)
    show ?thesis
      by (rule insert [OF c None _ rate])
        (use run None rate cols Inr wo in \<open>auto simp: insertCostingRecord_def stored_def split: if_splits sum.splits\<close>)
  next
    case (Some old)
    let ?c = "c\<lparr>co_ID := co_ID old, co_CreatedAt := co_CreatedAt old\<rparr>"
    have old: "\<not> co_Finalized old" using run Some by (auto split: if_splits)
    from run Some old obtain rate where rate: "rate_column (co_FXRateToVND c) = Inr rate"
      by (auto simp: updateCostingRecord_def Let_def split: if_splits sum.splits)
    have same: "recompute ?c rate = recompute c rate" by (simp add: recompute_def fun_eq_iff)
    show ?thesis
      by (rule update [OF c Some old _ rate])
        (use run Some old rate same Inr wo in \<open>auto simp: updateCostingRecord_def Let_def split: if_splits sum.splits\<close>)
  qed
qed

lemma FinalizeCost_cases:
  assumes "FinalizeCost env wo actor db = (r, db')"
  obtains (error) e where "r = Inl e" and "db' = db"
  | (done_now) "r = Inr ()" and "list_ex (\<lambda>c. co_WorkOrderID c = wo \<and> \<not> co_Finalized c) (costing_records db)"
    and "db' = db\<lparr>costing_records := update_where (\<lambda>c. co_WorkOrderID c = wo \<and> \<not> co_Finalized c)
      (\<lambda>c. c\<lparr>co_Finalized := True, co_FinalizedAt := Some (now env), co_FinalizedBy := Some actor\<rparr>) (costing_records db)\<rparr>"
proof (cases r)
  case (Inl e)
  show ?thesis by (rule error [of e]) (use assms Inl in \<open>auto simp: FinalizeCost_def finalizeCostingRecord_def Let_def
    split: if_splits sum.splits\<close>)
next
  case (Inr u)
  show ?thesis by (rule done_now) (use assms Inr in \<open>auto simp: FinalizeCost_def finalizeCostingRecord_def Let_def
    count_where_zero_iff list_ex_iff split: if_splits sum.splits\<close>)
qed

lemma CreateAdjustment_cases:
  assumes "CreateAdjustment deps env inp (db, x) = (r, (db', x'))"
  obtains (error) e where "r = Inl e" and "db' = db" and "x' = x"
  | (added) c where "cost_row (ai_WorkOrderID inp) db = Some c" and "co_Finalized c" and "ai_Reason inp \<noteq> []"
    and "r = Inr (new_adjustment env inp c)"
    and "db' = db\<lparr>adjustments := adjustments db @ [new_adjustment env inp c]\<rparr>" and "fresh env 0 \<notin> ca_ID ` set (adjustments db)"
proof (cases r)
  case (Inl e)
  show ?thesis by (rule error [of e]) (use assms Inl in \<open>auto simp: CreateAdjustment_def insertCostingAdjustment_def Let_def
    split: if_splits sum.splits\<close>)
next
  case (Inr a)
  then obtain c where c: "cost_row (ai_WorkOrderID inp) db = Some c"
    using assms by (auto simp: CreateAdjustment_def selectCostingRecordByWO_def split: if_splits option.splits)
  have id: "ca_ID (new_adjustment env inp c) = fresh env 0" by (simp add: new_adjustment_def)
  show ?thesis by (rule added [OF c]) (use assms Inr c id in \<open>auto simp: CreateAdjustment_def selectCostingRecordByWO_def
    insertCostingAdjustment_def Let_def split: if_splits sum.splits\<close>)
qed

section \<open>The invariant holds\<close>

lemma recompute_ok: "total_ok c \<Longrightarrow> total_ok (recompute c rate old)"
  by (simp add: total_ok_def recompute_def)

lemma costs_ok_update:
  assumes "costs_ok db" and "\<And>r. co_ID (f r) = co_ID r \<and> co_WorkOrderID (f r) = co_WorkOrderID r"
    and "\<And>r. r \<in> set (costing_records db) \<Longrightarrow> P r \<Longrightarrow> total_ok (f r) \<and> (co_Finalized r \<longrightarrow> co_Finalized (f r)) \<and>
      (\<not> co_Finalized (f r) \<longrightarrow> co_FinalizedAt (f r) = None \<and> co_FinalizedBy (f r) = None)"
  shows "costs_ok (db\<lparr>costing_records := update_where P f (costing_records db)\<rparr>)"
proof -
  have "map co_ID (update_where P f (costing_records db)) = map co_ID (costing_records db)"
    "map co_WorkOrderID (update_where P f (costing_records db)) = map co_WorkOrderID (costing_records db)"
    using assms(2) by (auto intro: map_update_where)
  moreover have "\<exists>r' \<in> set (update_where P f (costing_records db)). co_ID r' = co_ID r \<and> co_Finalized r'"
    if "r \<in> set (costing_records db)" "co_Finalized r" for r
    using that assms(2) assms(3) [of r] by (intro bexI [of _ "if P r then f r else r"]) (auto simp: set_update_where)
  ultimately show ?thesis
    using assms(1,3) unfolding costs_ok_def by (auto elim!: in_update_whereE) metis
qed

lemma cost_step_ok:
  assumes "costs_ok db" and "cost_step deps db db'"
  shows "costs_ok db'"
  using assms(2)
proof cases
  case (computed env wo x r x')
  from computed(1) show ?thesis
  proof (cases rule: ComputeCost_cases)
    case (insert c rate)
    note c = cost_record_Inr [OF insert(1)]
    have "wo \<notin> co_WorkOrderID ` set (costing_records db)" using insert(2) by (simp add: row_by_None_iff)
    then show ?thesis using assms(1) c insert(5,6) unfolding costs_ok_def
      by (auto simp: stored_def total_ok_def)
  next
    case (update c old rate)
    show ?thesis
      unfolding update(6) by (rule costs_ok_update [OF assms(1)])
        (use cost_record_Inr [OF update(1)] assms(1) in \<open>auto simp: costs_ok_def recompute_def total_ok_def\<close>)
  qed (use assms(1) in simp)
next
  case (finalized env wo actor r)
  from finalized(1) show ?thesis
  proof (cases rule: FinalizeCost_cases)
    case done_now
    show ?thesis
      unfolding done_now(3) by (rule costs_ok_update [OF assms(1)]) (use assms(1) in \<open>auto simp: costs_ok_def total_ok_def\<close>)
  qed (use assms(1) in simp)
next
  case (adjusted env inp x r x')
  from adjusted(1) show ?thesis
  proof (cases rule: CreateAdjustment_cases)
    case (added c)
    then show ?thesis using assms(1) row_by_SomeD [OF added(1)] unfolding costs_ok_def
      by (auto simp: new_adjustment_def delta_ok_def delta_total_def)
  qed (use assms(1) in simp)
qed

interpretation costing: invariant "\<lambda>db. db = empty_costs" "cost_step deps" costs_ok
proof unfold_locales
  show "costs_ok db" if "db = empty_costs" for db
    using that by (simp add: costs_ok_def empty_costs_def)
qed (rule cost_step_ok)

section \<open>Executions\<close>

definition is_finalized :: "cost_db \<Rightarrow> uuid \<Rightarrow> bool" where
  "is_finalized db wo \<longleftrightarrow> (case cost_row wo db of None \<Rightarrow> False | Some r \<Rightarrow> co_Finalized r)"

text \<open>Finalized records stay as they are; adjustments are only appended.\<close>

definition books_grow :: "cost_db \<Rightarrow> cost_db \<Rightarrow> bool" where
  "books_grow db db' \<longleftrightarrow> (\<forall>r \<in> set (costing_records db). co_Finalized r \<longrightarrow> r \<in> set (costing_records db')) \<and>
     (\<exists>as. adjustments db' = adjustments db @ as)"

lemma books_grow_refl: "books_grow db db"
  by (simp add: books_grow_def)

lemma books_grow_trans: "books_grow a b \<Longrightarrow> books_grow b c \<Longrightarrow> books_grow a c"
  unfolding books_grow_def by (metis append.assoc)

lemma books_grow_update:
  "(\<And>r. P r \<Longrightarrow> \<not> co_Finalized r) \<Longrightarrow> books_grow db (db\<lparr>costing_records := update_where P f (costing_records db)\<rparr>)"
  by (force simp: books_grow_def set_update_where)

lemma cost_step_grow: "cost_step deps db db' \<Longrightarrow> books_grow db db'"
proof (induction rule: cost_step.induct)
  case (computed env wo db x r db' x')
  then show ?case
  proof (cases rule: ComputeCost_cases)
    case insert
    then show ?thesis by (simp add: books_grow_def)
  next
    case update
    show ?thesis unfolding update(6) by (rule books_grow_update) simp
  qed (simp add: books_grow_refl)
next
  case (finalized env wo actor db r db')
  then show ?case
  proof (cases rule: FinalizeCost_cases)
    case done_now
    show ?thesis unfolding done_now(3) by (rule books_grow_update) simp
  qed (simp add: books_grow_refl)
next
  case (adjusted env inp db x r db' x')
  then show ?case by (cases rule: CreateAdjustment_cases) (simp_all add: books_grow_def)
qed

lemma cost_star_grow: "(cost_step deps)\<^sup>*\<^sup>* db db' \<Longrightarrow> books_grow db db'"
  by (induction rule: rtranclp_induct) (auto intro: books_grow_refl books_grow_trans cost_step_grow)

lemma is_finalized_iff:
  assumes "costs_ok db"
  shows "is_finalized db wo \<longleftrightarrow> (\<exists>r \<in> set (costing_records db). co_WorkOrderID r = wo \<and> co_Finalized r)"
proof -
  have "keys_distinct co_WorkOrderID (costing_records db)" using assms by (simp add: costs_ok_def)
  note iff = row_by_Some_iff [OF this]
  show ?thesis
  proof (cases "cost_row wo db")
    case None
    then have "wo \<notin> co_WorkOrderID ` set (costing_records db)" by (simp add: row_by_None_iff)
    then show ?thesis using None by (auto simp: is_finalized_def)
  next
    case (Some r)
    then have r: "r \<in> set (costing_records db)" "co_WorkOrderID r = wo" using iff by simp_all
    have "r' = r" if "r' \<in> set (costing_records db)" "co_WorkOrderID r' = wo" for r'
      using iff [of wo r'] that Some by simp
    moreover have "is_finalized db wo \<longleftrightarrow> co_Finalized r" using Some by (simp add: is_finalized_def)
    ultimately show ?thesis using r by metis
  qed
qed

lemma is_finalized_stable:
  assumes "costs_ok db" and "cost_step deps db db'" and "is_finalized db wo"
  shows "is_finalized db' wo"
proof -
  from assms(3) obtain r where "r \<in> set (costing_records db)" "co_WorkOrderID r = wo" "co_Finalized r"
    unfolding is_finalized_iff [OF assms(1)] by blast
  moreover from this cost_step_grow [OF assms(2)] have "r \<in> set (costing_records db')" unfolding books_grow_def by simp
  ultimately show ?thesis unfolding is_finalized_iff [OF cost_step_ok [OF assms(1,2)]] by blast
qed

section \<open>The gate production asks\<close>

text \<open>
  Costing and production side by side: a step of either. Production's checker is costing's state
  at the moment of the call.
\<close>

inductive books_step ::
  "prod_schema \<Rightarrow> ('c \<Rightarrow> 'x prod_deps) \<Rightarrow> ('c \<Rightarrow> 'c \<Rightarrow> bool) \<Rightarrow> 'c \<times> prod_db \<Rightarrow> 'c \<times> prod_db \<Rightarrow> bool"
  for sch :: prod_schema and deps :: "'c \<Rightarrow> 'x prod_deps" and cstep :: "'c \<Rightarrow> 'c \<Rightarrow> bool" where
  costing_moves: "cstep c c' \<Longrightarrow> books_step sch deps cstep (c, db) (c', db)"
| production_moves: "prod_step sch (deps c) db db' \<Longrightarrow> books_step sch deps cstep (c, db) (c, db')"

definition labor_of :: "uuid \<Rightarrow> prod_db \<Rightarrow> LaborEntry list" where
  "labor_of wo db = select_where (\<lambda>e. le_WorkOrderID e = wo) (labor db)"

lemma labor_same_orders:
  "CreateWorkOrder deps env cwo (db, x) = (r1, (db', x')) \<Longrightarrow> labor db' = labor db"
  "AdvanceStatus deps i adv (db, x) = (r2, (db', x')) \<Longrightarrow> labor db' = labor db"
  "RecordConsumption deps env con (db, x) = (r3, (db', x')) \<Longrightarrow> labor db' = labor db"
  "AssignWorkOrder deps env i u (db, x) = (r4, (db', x')) \<Longrightarrow> labor db' = labor db"
  "CancelPlannedByPlan p db = (r5, db') \<Longrightarrow> labor db' = labor db"
  "PartialComplete deps env par (db, x) = (r6, (db', x')) \<Longrightarrow> labor db' = labor db"
  by (auto simp: CreateWorkOrder_def insertWorkOrder_def RecordConsumption_def insertConsumption_def AssignWorkOrder_def
      updateWorkOrderAssignment_def CancelPlannedByPlan_def cancelPlannedByPlan_def PartialComplete_def
      partialCompleteAtomically_def Let_def elim: AdvanceStatus_cases split: sum.splits if_splits prod.splits option.splits)

lemma labor_same_machines:
  "CreateMachine env mac db = (r1, db') \<Longrightarrow> labor db' = labor db"
  "DeactivateMachine i db = (r2, db') \<Longrightarrow> labor db' = labor db"
  "CreateSlot env slt db = (r3, db') \<Longrightarrow> labor db' = labor db"
  "DeleteSlot i db = (r4, db') \<Longrightarrow> labor db' = labor db"
  "SetEstimatedHours i h db = (r5, db') \<Longrightarrow> labor db' = labor db"
  "AssignSlot i j db = (r6, db') \<Longrightarrow> labor db' = labor db"
  "UnassignSlot i db = (r7, db') \<Longrightarrow> labor db' = labor db"
  by (auto simp: CreateMachine_def insertMachine_def DeactivateMachine_def deactivateMachine_def CreateSlot_def insertSlot_def
      DeleteSlot_def deleteSlot_def SetEstimatedHours_def updateEstimatedHours_def AssignSlot_def assignSlotAtomically_def
      UnassignSlot_def unassignWOFromSlot_def Let_def split: sum.splits if_splits prod.splits option.splits)

lemma labor_same_rest:
  "BoostWOPriority deps env i txt a (db, x) = (r1, (db', x')) \<Longrightarrow> labor db' = labor db"
  "PreemptWO deps env pre (db, x) = (r2, (db', x')) \<Longrightarrow> labor db' = labor db"
  "ReassignWorkOrder sch deps env rea (db, x) = (r3, (db', x')) \<Longrightarrow> labor db' = labor db"
  "ClaimWorkOrder sch deps env i u (db, x) = (r4, (db', x')) \<Longrightarrow> labor db' = labor db"
  "UpdateQCStatus i txt db = (r5, db') \<Longrightarrow> labor db' = labor db"
  "CreateBlocker env blk db = (r6, db') \<Longrightarrow> labor db' = labor db"
  "ResolveBlocker env i u db = (r7, db') \<Longrightarrow> labor db' = labor db"
  by (auto simp: BoostWOPriority_def setPriorityBoostAtomically_def ReassignWorkOrder_def reassignWorkOrderAtomically_def
      ClaimWorkOrder_def claimWorkOrderAtomically_def UpdateQCStatus_def updateWorkOrderQCStatus_def CreateBlocker_def
      insertBlocker_def ResolveBlocker_def getBlocker_def resolveBlocker_def local_op_def Let_def elim: PreemptWO_cases
      split: sum.splits if_splits prod.splits option.splits)

lemmas labor_same = labor_same_orders labor_same_machines labor_same_rest

lemma RecordLaborEntry_frozen:
  assumes "RecordLaborEntry deps env inp (db, x) = (r, (db', x'))"
    and "cc deps = Some c" and "IsCostingFinalized_dep c wo x = Inr True"
  shows "labor_of wo db' = labor_of wo db"
  using assms
  by (auto simp: RecordLaborEntry_def finalized_guard_def insertLaborEntry_def labor_of_def select_where_def Let_def
      split: sum.splits if_splits option.splits prod.splits)

locale costing_gate =
  fixes cinv :: "'c \<Rightarrow> bool"
    and cstep :: "'c \<Rightarrow> 'c \<Rightarrow> bool"
    and frozen :: "'c \<Rightarrow> uuid \<Rightarrow> bool"
    and deps :: "'c \<Rightarrow> 'x prod_deps"
  assumes gate: "\<exists>k. cc (deps c) = Some k \<and> (frozen c wo \<longrightarrow> IsCostingFinalized_dep k wo x = Inr True)"
    and cinv_step: "cinv c \<Longrightarrow> cstep c c' \<Longrightarrow> cinv c'"
    and frozen_step: "cinv c \<Longrightarrow> cstep c c' \<Longrightarrow> frozen c wo \<Longrightarrow> frozen c' wo"
begin

lemma prod_step_frozen:
  assumes "prod_step sch (deps c) db db'" and "frozen c wo"
  shows "labor_of wo db' = labor_of wo db"
  using assms(1)
proof cases
  case (12 env lab x r x')
  from gate obtain k where "cc (deps c) = Some k" "frozen c wo \<longrightarrow> IsCostingFinalized_dep k wo x = Inr True" by blast
  with 12 assms(2) show ?thesis by (intro RecordLaborEntry_frozen) auto
qed (simp_all add: labor_of_def labor_same)

lemma frozen_star:
  assumes "(books_step sch deps cstep)\<^sup>*\<^sup>* (c, db) (c', db')" and "cinv c" and "frozen c wo"
  shows "cinv c' \<and> frozen c' wo \<and> labor_of wo db' = labor_of wo db"
  using assms(1)
proof (induction rule: rtranclp_induct2)
  case refl
  with assms show ?case by simp
next
  case (step c1 db1 c2 db2)
  from step(2) show ?case
    by cases (use step(3) cinv_step frozen_step prod_step_frozen in auto)
qed

end

text \<open>Costing behind production's checker, as \<^verbatim>\<open>costingCheckerAdapter\<close> wires it.\<close>

definition with_costing :: "'x prod_deps \<Rightarrow> cost_db \<Rightarrow> 'x prod_deps" where
  "with_costing deps cdb = deps\<lparr>cc := Some \<lparr>HasCostingRecord_dep = (\<lambda>wo _. HasCostingRecord wo cdb),
     IsCostingFinalized_dep = (\<lambda>wo _. IsCostingFinalized wo cdb)\<rparr>\<rparr>"

lemma IsCostingFinalized_iff: "IsCostingFinalized wo cdb = Inr (is_finalized cdb wo)"
  by (simp add: IsCostingFinalized_def selectCostingRecordByWO_def is_finalized_def split: option.split)

interpretation gate: costing_gate costs_ok "cost_step cdeps" is_finalized "with_costing deps"
proof unfold_locales
  show "\<exists>k. cc (with_costing deps c) = Some k \<and> (is_finalized c wo \<longrightarrow> IsCostingFinalized_dep k wo x = Inr True)" for c wo x
    by (simp add: with_costing_def IsCostingFinalized_iff)
qed (rule cost_step_ok is_finalized_stable; assumption)+

end
