(* ===== verification/Costing_Props.thy ===== *)
theory Costing_Props
  imports Costing_Invariant Production_Props Inventory_Props "HOL-Library.Multiset"
begin

text \<open>
  Costing wired to production and inventory as in \<^verbatim>\<open>cmd/server/main.go\<close>, and its properties: what a
  computed cost consists of, that a finalized cost is final (with its labor), and the effective
  totals shown to the accountant.
\<close>

section \<open>Adapters\<close>

text \<open>\<^verbatim>\<open>woAdapter\<close> does not fill \<^verbatim>\<open>CompletedAt\<close>.\<close>

definition woAdapter_GetWorkOrder :: "uuid \<Rightarrow> prod_db \<Rightarrow> WOInfo result" where
  "woAdapter_GetWorkOrder woID db =
     (case selectWorkOrderByID woID db of
        Inl e \<Rightarrow> Inl e
      | Inr w \<Rightarrow> Inr \<lparr>wi_ID = wo_ID w, wi_SKUID = wo_SKUID w, wi_Status = wo_Status w,
                   wi_SalesOrderLineID = wo_SalesOrderLineID w, wi_CompletedAt = None\<rparr>)"

text \<open>The inner join on \<^verbatim>\<open>sheet_id\<close> keeps only the cuts made directly from a sheet.\<close>

definition cutting_row :: "inv_db \<Rightarrow> CuttingRecord \<Rightarrow> CuttingData list" where
  "cutting_row idb c =
     (case cr_SheetID c of
        None \<Rightarrow> []
      | Some s \<Rightarrow> (case row_by sh_ID s (sheets idb) of
                    None \<Rightarrow> []
                  | Some sh \<Rightarrow> [\<lparr>cd_SheetCost = sh_CostPerSheet sh, cd_SheetAreaMM2 = area (sh_Dimensions sh),
                                 cd_UsedAreaMM2 = area (cr_Used c)\<rparr>]))"

definition cuttingAdapter_GetCuttingDataForWO :: "uuid \<Rightarrow> inv_db \<Rightarrow> CuttingData list result" where
  "cuttingAdapter_GetCuttingDataForWO woID idb =
     Inr (concat (map (cutting_row idb) (select_where (\<lambda>c. cr_WorkOrderID c = woID) (cuts idb))))"

text \<open>\<^verbatim>\<open>SUM(quantity::bigint)\<close>: each quantity is rounded to an integer and the sum is taken as dong.\<close>

definition consumptionAdapter_GetConsumptionCostForWO :: "uuid \<Rightarrow> prod_db \<Rightarrow> Money result" where
  "consumptionAdapter_GetConsumptionCostForWO woID db =
     (let qs = map (\<lambda>c. round_half_away (cn_Quantity c)) (select_where (\<lambda>c. cn_WorkOrderID c = woID) (consumptions db))
      in if list_all in_i64 qs \<and> in_i64 (sum_list qs) then Inr (VND (sum_list qs)) else Inl (Pg NumericOutOfRange))"

definition laborDataAdapter_GetLaborCostForWO :: "uuid \<Rightarrow> prod_db \<Rightarrow> Money result" where
  "laborDataAdapter_GetLaborCostForWO woID db = SumLaborCost woID db"

text \<open>Costing over production's and the inventory's tables, given the currency and rate readers.\<close>

definition wired_costing ::
  "(uuid \<Rightarrow> string result) option \<Rightarrow> (string \<Rightarrow> time \<Rightarrow> rat result) option \<Rightarrow> (prod_db \<times> inv_db) cost_deps" where
  "wired_costing cur fx =
     \<lparr>wo_ids = (\<lambda>(db, idb). map wo_ID (work_orders db)),
      wor = (\<lambda>i (db, idb). woAdapter_GetWorkOrder i db),
      cdr = (\<lambda>i (db, idb). cuttingAdapter_GetCuttingDataForWO i idb),
      conr = (\<lambda>i (db, idb). consumptionAdapter_GetConsumptionCostForWO i db),
      lbr = Some (\<lambda>i (db, idb). laborDataAdapter_GetLaborCostForWO i db),
      cost_notifier = None, cost_audit = None,
      fxr = map_option (\<lambda>f c t _. f c t) fx, socr = map_option (\<lambda>f l _. f l) cur\<rparr>"

section \<open>Computing\<close>

lemma Add_currency: "Currency (Add a b) = Currency a"
  by (simp add: Add_def)

lemma material_cost_currency: "Currency (material_cost cds m) = Currency m"
  by (induction cds m rule: material_cost.induct) (auto simp: Add_def)

lemma cost_row_update_other:
  "w \<noteq> wo \<Longrightarrow> (\<And>c. co_WorkOrderID (f c) = co_WorkOrderID c) \<Longrightarrow>
   row_by co_WorkOrderID w (update_where (\<lambda>c. co_WorkOrderID c = wo \<and> P c) f t) = row_by co_WorkOrderID w t"
  by (induction t) auto

text \<open>
  C38: computing a cost. A \<^verbatim>\<open>ComputeCost\<close> that fails changes nothing. One that succeeds found the order
  planned (an estimate) or completed, fully or in part (the actual cost), and no finalized
  record; it stores material, consumption and labor cost and their sum, under one record per
  order that keeps its identifier and creation time when it is recomputed, leaves every other
  record and all adjustments alone, and never stores an actual cost of zero. The currency of the
  material cost and of the total is the empty string.
\<close>

theorem ComputeCost_effect:
  assumes "reach (\<lambda>db. db = empty_costs) (cost_step deps) db" and "ComputeCost deps env woID (db, x) = (r, (db', x'))"
  shows "case r of
      Inl e \<Rightarrow> db' = db \<and> x' = x
    | Inr c \<Rightarrow> (\<exists>wo cutting aux lab rate.
        wor deps woID x = Inr wo \<and> wi_Status wo \<in> {WOPlanned, WOCompleted, WOPartialComplete} \<and>
        cdr deps woID x = Inr cutting \<and> conr deps woID x = Inr aux \<and> labor_cost deps woID x = Inr lab \<and>
        co_CostingType c = (if wi_Status wo = WOPlanned then CostingTypeEstimated else CostingTypeActual) \<and>
        co_MaterialCost c = material_cost cutting zero_money \<and> co_AuxiliaryCost c = aux \<and> co_LaborCost c = lab \<and>
        co_TotalCost c = Add (Add (co_MaterialCost c) aux) lab \<and>
        Currency (co_MaterialCost c) = [] \<and> Currency (co_TotalCost c) = [] \<and>
        (wi_Status wo \<noteq> WOPlanned \<longrightarrow> Amount (co_TotalCost c) \<noteq> 0) \<and> \<not> co_Finalized c \<and>
        cost_row woID db' = Some (stored c rate) \<and>
        (case cost_row woID db of
           None \<Rightarrow> co_ID c = fresh env 0 \<and> co_CreatedAt c = now env
         | Some old \<Rightarrow> \<not> co_Finalized old \<and> co_ID c = co_ID old \<and> co_CreatedAt c = co_CreatedAt old) \<and>
        (\<forall>w. w \<noteq> woID \<longrightarrow> cost_row w db' = cost_row w db) \<and> adjustments db' = adjustments db)"
proof -
  let ?parts = "\<lambda>c wo cutting aux lab. wor deps woID x = Inr wo \<and> wi_Status wo \<in> {WOPlanned, WOCompleted, WOPartialComplete} \<and>
      cdr deps woID x = Inr cutting \<and> conr deps woID x = Inr aux \<and> labor_cost deps woID x = Inr lab \<and>
      co_CostingType c = (if wi_Status wo = WOPlanned then CostingTypeEstimated else CostingTypeActual) \<and>
      co_MaterialCost c = material_cost cutting zero_money \<and> co_AuxiliaryCost c = aux \<and> co_LaborCost c = lab \<and>
      co_TotalCost c = Add (Add (co_MaterialCost c) aux) lab \<and> Currency (co_MaterialCost c) = [] \<and> Currency (co_TotalCost c) = []"
  have parts: "\<exists>wo cutting aux lab. ?parts c wo cutting aux lab"
    if "cost_record deps (now env) woID x = Inr c" for c
  proof -
    from that obtain wo cutting aux lab where p: "wor deps woID x = Inr wo" "cdr deps woID x = Inr cutting"
        "conr deps woID x = Inr aux" "labor_cost deps woID x = Inr lab" "wi_Status wo \<in> {WOPlanned, WOCompleted, WOPartialComplete}"
      unfolding cost_record_def by (auto split: sum.splits if_splits)
    have "?parts c wo cutting aux lab"
      using that p by (auto simp: cost_record_def Let_def material_cost_currency Add_currency zero_money_def)
    then show ?thesis by blast
  qed
  from assms(2) show ?thesis
  proof (cases rule: ComputeCost_cases)
    case (insert c rate)
    note c = cost_record_Inr [OF insert(1)]
    have row: "cost_row woID db' = Some (stored (c\<lparr>co_ID := fresh env 0\<rparr>) rate)" "\<forall>w. w \<noteq> woID \<longrightarrow> cost_row w db' = cost_row w db"
      using insert(2,5) c(1) by (auto simp: stored_def split: option.split)
    from parts [OF insert(1)] obtain wo cutting aux lab where p: "?parts c wo cutting aux lab" by blast
    show ?thesis
      unfolding insert(3) sum.case
      by (rule exI [of _ wo], rule exI [of _ cutting], rule exI [of _ aux], rule exI [of _ lab], rule exI [of _ rate]) (use insert(2,5,8) c p row in auto)
  next
    case (update c old rate)
    note c = cost_record_Inr [OF update(1)]
    have wo: "co_WorkOrderID (recompute c rate d) = co_WorkOrderID d" for d by (simp add: recompute_def)
    have old: "co_WorkOrderID old = woID" using row_by_SomeD [OF update(2)] by simp
    have fin: "co_FinalizedAt old = None" "co_FinalizedBy old = None"
      using costing.reach_inv [OF assms(1)] row_by_SomeD [OF update(2)] update(3) unfolding costs_ok_def by auto
    have "recompute c rate old = stored (c\<lparr>co_ID := co_ID old, co_CreatedAt := co_CreatedAt old\<rparr>) rate"
      using c(1,3-5) old update(3) fin by (cases old; cases c) (simp add: recompute_def stored_def)
    moreover have "cost_row woID db' = Some (recompute c rate old)"
      using update(2,3,6) old by (simp add: row_by_update_where wo)
    ultimately have row: "cost_row woID db' = Some (stored (c\<lparr>co_ID := co_ID old, co_CreatedAt := co_CreatedAt old\<rparr>) rate)" by simp
    have other: "\<forall>w. w \<noteq> woID \<longrightarrow> cost_row w db' = cost_row w db" "adjustments db' = adjustments db"
      using update(6) cost_row_update_other [OF _ wo] by simp_all
    from parts [OF update(1)] obtain wo cutting aux lab where p: "?parts c wo cutting aux lab" by blast
    show ?thesis
      unfolding update(4) sum.case
      by (rule exI [of _ wo], rule exI [of _ cutting], rule exI [of _ aux], rule exI [of _ lab], rule exI [of _ rate]) (use update(2,3,7) c p row other in auto)
  qed simp
qed

section \<open>A concrete ledger\<close>

text \<open>
  Order 10 of the plant, in processing, is closed short at four units after an hour of labor at
  120000 dong. No sheet was cut for it.
\<close>

definition ledger_labor :: prod_db where
  "ledger_labor = fst (snd (RecordLaborEntry plant (plant_env 5)
     \<lparr>lbi_WorkOrderID = 10, lbi_Stage = Some LaborStageCNC, lbi_Minutes = 60, lbi_RatePerHour = 120000, lbi_WorkerID = None, lbi_ActorID = 5\<rparr>
     (plant_short, [])))"

definition no_currency :: "(prod_db \<times> inv_db) cost_deps" where
  "no_currency = wired_costing None None"

definition ledger_computed :: cost_db where
  "ledger_computed = fst (snd (ComputeCost no_currency (plant_env 6) 10 (empty_costs, (ledger_labor, shop_empty))))"

definition ledger_final :: cost_db where
  "ledger_final = snd (FinalizeCost (plant_env 7) 10 9 ledger_computed)"

definition add_aux :: CreateAdjustmentInput where
  "add_aux = \<lparr>ai_WorkOrderID = 10, ai_Reason = ''glue'', ai_DeltaMaterial = VND 0, ai_DeltaAuxiliary = VND 5000,
     ai_DeltaLabor = VND (- 2000), ai_CreatedBy = 9\<rparr>"

definition ledger_adjusted :: cost_db where
  "ledger_adjusted = fst (snd (CreateAdjustment no_currency (plant_env 8) add_aux (ledger_final, (ledger_labor, shop_empty))))"

lemma ledger_steps:
  "cost_step no_currency empty_costs ledger_computed"
  "cost_step no_currency ledger_computed ledger_final"
  "cost_step no_currency ledger_final ledger_adjusted"
  by (rule computed [OF run_eq [OF ledger_computed_def]] finalized [OF run_pair [OF ledger_final_def]]
      adjusted [OF run_eq [OF ledger_adjusted_def]])+

lemma ledger_reach:
  "reach (\<lambda>db. db = empty_costs) (cost_step no_currency) empty_costs"
  "reach (\<lambda>db. db = empty_costs) (cost_step no_currency) ledger_adjusted"
proof -
  show init: "reach (\<lambda>db. db = empty_costs) (cost_step no_currency) empty_costs" by (rule reach_init) simp
  show "reach (\<lambda>db. db = empty_costs) (cost_step no_currency) ledger_adjusted"
    by (rule reach_step [OF reach_step [OF reach_step [OF init ledger_steps(1)] ledger_steps(2)] ledger_steps(3)])
qed

lemma ledger_row:
  "map (\<lambda>r. (co_WorkOrderID r, co_Finalized r, Amount (co_TotalCost r))) (costing_records ledger_final) = [(10, True, 120002)]"
  by code_simp

theorem ComputeCost_effect_witness:
  "\<exists>c db x. ComputeCost no_currency (plant_env 6) 10 (empty_costs, (ledger_labor, shop_empty)) = (Inr c, (db, x)) \<and>
     Currency (co_TotalCost c) = []"
proof -
  have "\<not> isl (fst (ComputeCost no_currency (plant_env 6) 10 (empty_costs, (ledger_labor, shop_empty))))" by code_simp
  from run_ok [OF this] obtain c db x where
    run: "ComputeCost no_currency (plant_env 6) 10 (empty_costs, (ledger_labor, shop_empty)) = (Inr c, (db, x))" by blast
  from ComputeCost_effect [OF ledger_reach(1) run] run show ?thesis by auto
qed

section \<open>Final means final\<close>

lemma books_star_costs: "(books_step sch pdeps cstep)\<^sup>*\<^sup>* (c, db) (c', db') \<Longrightarrow> cstep\<^sup>*\<^sup>* c c'"
proof (induction rule: rtranclp_induct2)
  case (step c1 db1 c2 db2)
  from step(2) show ?case
    by cases (use step(3) in \<open>auto intro: rtranclp.rtrancl_into_rtrancl\<close>)
qed simp

lemma SumLaborCost_labor_of: "labor_of wo db' = labor_of wo db \<Longrightarrow> SumLaborCost wo db' = SumLaborCost wo db"
  by (simp add: SumLaborCost_def sumLaborMinuteRateByWO_def labor_of_def)

text \<open>
  C39: a finalized cost is final. Whatever costing and production do afterwards, in any order, a
  finalized record stays exactly as it is, no adjustment is ever lost or changed, and the labor
  recorded for the order stays as it was costed: production refuses further entries.
\<close>

theorem finalized_is_final:
  assumes "costs_ok cdb" and "(books_step sch (with_costing pdeps) (cost_step deps))\<^sup>*\<^sup>* (cdb, db) (cdb', db')"
    and "r \<in> set (costing_records cdb)" and "co_Finalized r"
  shows "cost_row (co_WorkOrderID r) cdb' = Some r \<and> (\<exists>as. adjustments cdb' = adjustments cdb @ as) \<and>
    SumLaborCost (co_WorkOrderID r) db' = SumLaborCost (co_WorkOrderID r) db"
proof -
  have f: "is_finalized cdb (co_WorkOrderID r)" using assms(3,4) is_finalized_iff [OF assms(1)] by blast
  from gate.frozen_star [OF assms(2,1) f] have ok: "costs_ok cdb'" and lab: "labor_of (co_WorkOrderID r) db' = labor_of (co_WorkOrderID r) db"
    by simp_all
  have grow: "books_grow cdb cdb'" by (rule cost_star_grow [OF books_star_costs [OF assms(2)]])
  then have "r \<in> set (costing_records cdb')" using assms(3,4) by (simp add: books_grow_def)
  then have "cost_row (co_WorkOrderID r) cdb' = Some r" using ok by (intro row_by_eq_SomeI) (simp_all add: costs_ok_def)
  then show ?thesis using grow SumLaborCost_labor_of [OF lab] by (simp add: books_grow_def)
qed

theorem finalized_is_final_witness:
  "\<exists>r \<in> set (costing_records ledger_final). co_WorkOrderID r = 10 \<and> cost_row 10 ledger_adjusted = Some r"
proof -
  obtain r where r: "r \<in> set (costing_records ledger_final)" "co_WorkOrderID r = 10" "co_Finalized r"
    using ledger_row by auto
  have ok: "costs_ok ledger_final"
    by (rule costing.reach_inv [OF reach_step [OF reach_step [OF ledger_reach(1) ledger_steps(1)] ledger_steps(2)]])
  have "(books_step migrated_prod_schema (with_costing plant) (cost_step no_currency))\<^sup>*\<^sup>* (ledger_final, ledger_labor) (ledger_adjusted, ledger_labor)"
    by (rule r_into_rtranclp, rule costing_moves, rule ledger_steps(3))
  from finalized_is_final [OF ok this r(1,3)] r show ?thesis by auto
qed

section \<open>Effective totals\<close>

lemma fold_deltas_amount: "i64 (Amount (fold_deltas d m as)) = i64 (Amount m + sum_list (map (Amount \<circ> d) as))"
proof (induction as arbitrary: m)
  case (Cons a as)
  have "fold_deltas d m (a # as) = fold_deltas d (Add m (d a)) as" by (simp add: fold_deltas_def)
  then show ?case using Cons [of "Add m (d a)"] by (simp add: Add_def i64_arith algebra_simps)
qed (simp add: fold_deltas_def)

lemma sum_list_sort: "sum_list (map (f :: 'a \<Rightarrow> int) (sort_key k xs)) = sum_list (map f xs)"
  by (metis mset_map mset_sort sum_mset_sum_list)

definition deltas :: "(CostingAdjustment \<Rightarrow> Money) \<Rightarrow> CostingRecord \<Rightarrow> cost_db \<Rightarrow> int" where
  "deltas d r db = sum_where (Amount \<circ> d) (\<lambda>a. ca_CostingRecordID a = co_ID r) (adjustments db)"

lemma deltas_total:
  assumes "costs_ok db"
  shows "i64 (deltas ca_DeltaTotal r db) = i64 (deltas ca_DeltaMaterial r db + deltas ca_DeltaAuxiliary r db + deltas ca_DeltaLabor r db)"
proof -
  have "i64 (sum_where (Amount \<circ> ca_DeltaTotal) P as) =
      i64 (sum_where (Amount \<circ> ca_DeltaMaterial) P as + sum_where (Amount \<circ> ca_DeltaAuxiliary) P as + sum_where (Amount \<circ> ca_DeltaLabor) P as)"
    if "\<forall>a \<in> set as. delta_ok a" for P as
    using that
  proof (induction as)
    case (Cons a as)
    let ?s = "sum_where (Amount \<circ> ca_DeltaTotal) P as"
    let ?m = "sum_where (Amount \<circ> ca_DeltaMaterial) P as + sum_where (Amount \<circ> ca_DeltaAuxiliary) P as + sum_where (Amount \<circ> ca_DeltaLabor) P as"
    let ?d = "Amount (ca_DeltaMaterial a) + Amount (ca_DeltaAuxiliary a) + Amount (ca_DeltaLabor a)"
    have "i64 (i64 ?d + ?s) = i64 (?d + i64 ?s)" by (simp only: i64_arith)
    also have "\<dots> = i64 (?d + ?m)" using Cons by (simp only: i64_arith) (metis i64_add_right list.set_intros(2))
    finally show ?case using Cons by (auto simp: delta_ok_def Add_def i64_arith algebra_simps comp_def)
  qed simp
  then show ?thesis using assms unfolding deltas_def costs_ok_def by blast
qed

text \<open>
  C40: effective totals. The loop over the adjustments, in the order the query returns them, gives each
  cost of the record plus the sum of the adjustments of that record, in Go's 64-bit arithmetic;
  and although the total is folded from its own column, it is always the sum of the effective
  material, auxiliary and labor cost.
\<close>

theorem effective_totals:
  assumes "reach (\<lambda>db. db = empty_costs) (cost_step deps) db" and "GetCostingRecordDetail wo db = Inr d"
  shows "cost_row wo db = Some (de_Record d) \<and>
    i64 (Amount (de_EffectiveMaterial d)) = i64 (Amount (co_MaterialCost (de_Record d)) + deltas ca_DeltaMaterial (de_Record d) db) \<and>
    i64 (Amount (de_EffectiveAuxiliary d)) = i64 (Amount (co_AuxiliaryCost (de_Record d)) + deltas ca_DeltaAuxiliary (de_Record d) db) \<and>
    i64 (Amount (de_EffectiveLabor d)) = i64 (Amount (co_LaborCost (de_Record d)) + deltas ca_DeltaLabor (de_Record d) db) \<and>
    i64 (Amount (de_EffectiveTotal d)) =
      i64 (Amount (de_EffectiveMaterial d) + Amount (de_EffectiveAuxiliary d) + Amount (de_EffectiveLabor d))"
proof -
  have ok: "costs_ok db" by (rule costing.reach_inv [OF assms(1)])
  from assms(2) obtain r where r: "cost_row wo db = Some r" "de_Record d = r"
    by (auto simp: GetCostingRecordDetail_def selectCostingRecordByWO_def split: sum.splits option.splits)
  let ?as = "sort_key ca_CreatedAt (filter (\<lambda>a. ca_CostingRecordID a = co_ID r) (adjustments db))"
  have d: "de_EffectiveMaterial d = fold_deltas ca_DeltaMaterial (co_MaterialCost r) ?as"
    "de_EffectiveAuxiliary d = fold_deltas ca_DeltaAuxiliary (co_AuxiliaryCost r) ?as"
    "de_EffectiveLabor d = fold_deltas ca_DeltaLabor (co_LaborCost r) ?as"
    "de_EffectiveTotal d = fold_deltas ca_DeltaTotal (co_TotalCost r) ?as"
    using assms(2) r by (auto simp: GetCostingRecordDetail_def selectCostingRecordByWO_def selectAdjustmentsByRecord_def select_where_def)
  have sum: "i64 (Amount (fold_deltas g m ?as)) = i64 (Amount m + deltas g r db)" for g m
    by (simp add: fold_deltas_amount sum_list_sort deltas_def sum_where_def)
  have tot: "i64 (Amount (co_TotalCost r)) = i64 (Amount (co_MaterialCost r) + Amount (co_AuxiliaryCost r) + Amount (co_LaborCost r))"
    using ok row_by_SomeD [OF r(1)] by (auto simp: costs_ok_def total_ok_def Add_def i64_arith)
  let ?M = "Amount (co_MaterialCost r)" and ?A = "Amount (co_AuxiliaryCost r)" and ?L = "Amount (co_LaborCost r)"
  let ?m = "deltas ca_DeltaMaterial r db" and ?a = "deltas ca_DeltaAuxiliary r db" and ?l = "deltas ca_DeltaLabor r db"
  have "i64 (Amount (de_EffectiveTotal d)) = i64 (i64 (Amount (co_TotalCost r)) + i64 (deltas ca_DeltaTotal r db))"
    by (simp only: d(4) sum i64_arith)
  also have "\<dots> = i64 ((?M + ?A + ?L) + (?m + ?a + ?l))" by (simp only: tot deltas_total [OF ok] i64_arith)
  also have "(?M + ?A + ?L) + (?m + ?a + ?l) = (?M + ?m) + (?A + ?a) + (?L + ?l)" by simp
  also have "i64 \<dots> = i64 (i64 (i64 (?M + ?m) + i64 (?A + ?a)) + i64 (?L + ?l))" by (simp only: i64_arith)
  also have "\<dots> = i64 (i64 (i64 (Amount (de_EffectiveMaterial d)) + i64 (Amount (de_EffectiveAuxiliary d))) + i64 (Amount (de_EffectiveLabor d)))"
    by (simp only: d sum)
  also have "\<dots> = i64 (Amount (de_EffectiveMaterial d) + Amount (de_EffectiveAuxiliary d) + Amount (de_EffectiveLabor d))"
    by (simp only: i64_arith)
  finally show ?thesis using r by (simp add: d sum)
qed

theorem effective_totals_witness:
  "\<exists>d. GetCostingRecordDetail 10 ledger_adjusted = Inr d \<and> i64 (Amount (de_EffectiveTotal d)) = 123002 \<and>
     i64 (Amount (de_EffectiveMaterial d) + Amount (de_EffectiveAuxiliary d) + Amount (de_EffectiveLabor d)) = 123002"
proof -
  have ok: "\<not> isl (GetCostingRecordDetail 10 ledger_adjusted)"
    and tot: "i64 (Amount (de_EffectiveTotal (projr (GetCostingRecordDetail 10 ledger_adjusted)))) = 123002" by code_simp+
  from ok obtain d where d: "GetCostingRecordDetail 10 ledger_adjusted = Inr d" by (metis sum.collapse(2))
  from effective_totals [OF ledger_reach(2) d] tot d show ?thesis by simp
qed

section \<open>Material cost and the inventory\<close>

text \<open>The share of its sheet's cost that one cut is charged; nothing for a cut of a remnant.\<close>

definition charge :: "inv_db \<Rightarrow> CuttingRecord \<Rightarrow> int" where
  "charge idb c = sum_list (map (\<lambda>d. Amount (cd_SheetCost d) * cd_UsedAreaMM2 d div cd_SheetAreaMM2 d) (cutting_row idb c))"

text \<open>Costs that the products and sums of the computation can hold.\<close>

definition costs_fit :: "inv_db \<Rightarrow> bool" where
  "costs_fit idb \<longleftrightarrow> (\<forall>s \<in> set (sheets idb). 0 \<le> Amount (sh_CostPerSheet s) \<and>
       Amount (sh_CostPerSheet s) * area (sh_Dimensions s) < 2 ^ 63) \<and>
     sum_list (map (\<lambda>s. Amount (sh_CostPerSheet s)) (sheets idb)) < 2 ^ 63"

definition sheet_cost :: "inv_db \<Rightarrow> CuttingRecord \<Rightarrow> int" where
  "sheet_cost idb c = sum_where (\<lambda>s. Amount (sh_CostPerSheet s)) (\<lambda>s. cr_SheetID c = Some (sh_ID s)) (sheets idb)"

lemma sum_where_member:
  "c \<in> set t \<Longrightarrow> P c \<Longrightarrow> (\<And>d. d \<in> set t \<Longrightarrow> 0 \<le> f d) \<Longrightarrow> f c \<le> sum_where f P t"
proof (induction t)
  case (Cons d t)
  have pos: "0 \<le> sum_where f P t" "0 \<le> f d" using Cons.prems(3) by (auto intro: sum_where_nonneg)
  have "f c \<le> sum_where f P t" if "c \<in> set t" using Cons.IH [OF that Cons.prems(2)] Cons.prems(3) by simp
  with pos Cons.prems(1,2) show ?case by auto
qed simp

lemma direct_cut_fits:
  assumes "db_ok idb" and "c \<in> set (cuts idb)" and "cr_SheetID c = Some (sh_ID s)" and "s \<in> set (sheets idb)"
  shows "0 < area (cr_Used c)" and "area (cr_Used c) \<le> area (sh_Dimensions s)" and "0 < area (sh_Dimensions s)"
proof -
  have ok: "cut_ok idb c" "sheet_ok idb s" "\<forall>r \<in> set (remnants idb). remnant_ok idb r" "\<forall>c \<in> set (cuts idb). cut_ok idb c"
    using assms by (simp_all add: db_ok_def)
  show pos: "0 < area (cr_Used c)" using ok(1) by (simp add: cut_ok_def dims_ok_def area_pos)
  show "0 < area (sh_Dimensions s)" using ok(2) by (simp add: sheet_ok_def dims_ok_def area_pos)
  have "(area \<circ> cr_Used) c \<le> used_area idb (sh_ID s)"
    unfolding used_area_def
    by (rule sum_where_member [OF assms(2)])
      (use ok(4) in \<open>auto simp: cut_board_def assms(3) cut_ok_def dims_ok_def dest!: area_pos bspec\<close>)
  moreover have "0 \<le> standing_area idb (sh_ID s)"
    unfolding standing_area_def using ok(3)
    by (intro sum_where_nonneg) (fastforce simp: remnant_ok_def dims_ok_def dest: area_pos)
  ultimately show "area (cr_Used c) \<le> area (sh_Dimensions s)" using ok(2) by (simp add: sheet_ok_def)
qed

lemma share_bounds:
  assumes "0 \<le> m" and "0 < u" and "u \<le> a" and "m * a < (2 ^ 63 :: int)"
  shows "0 \<le> m * u div a" and "m * u div a \<le> m" and "in_i64 (m * u)" and "in_i64 (m * u div a)"
proof -
  have le: "m * u \<le> m * a" using assms by (intro mult_left_mono) auto
  have a: "0 < a" using assms by simp
  show lo: "0 \<le> m * u div a" using assms a by (intro pos_imp_zdiv_nonneg_iff [THEN iffD2]) auto
  show hi: "m * u div a \<le> m" using zdiv_mono1 [OF le a] a by simp
  have "m \<le> m * a" using mult_left_mono [of 1 a m] assms(1) a by simp
  then have "m < 2 ^ 63" using assms(4) by linarith
  then show "in_i64 (m * u div a)" using lo hi by (simp add: in_i64_def)
  have "0 \<le> m * u" using assms by simp
  then show "in_i64 (m * u)" using le assms(4) by (simp add: in_i64_def)
qed

lemma charge_cases:
  assumes "db_ok idb" and "costs_fit idb" and "c \<in> set (cuts idb)"
  obtains (none) "cutting_row idb c = []" and "charge idb c = 0" and "0 \<le> sheet_cost idb c"
  | (sheet) d where "cutting_row idb c = [d]" and "0 < cd_SheetAreaMM2 d"
    and "Amount (Scale (cd_SheetCost d) (cd_UsedAreaMM2 d) (cd_SheetAreaMM2 d)) = charge idb c"
    and "0 \<le> charge idb c" and "charge idb c \<le> sheet_cost idb c"
proof (cases "\<exists>s. cr_SheetID c = Some (sh_ID s) \<and> row_by sh_ID (sh_ID s) (sheets idb) = Some s")
  case False
  then have "cutting_row idb c = []"
    by (auto simp: cutting_row_def split: option.splits dest: row_by_SomeD)
  moreover have "0 \<le> sheet_cost idb c"
    unfolding sheet_cost_def using assms(2) by (intro sum_where_nonneg) (simp add: costs_fit_def)
  ultimately show ?thesis by (intro none) (simp_all add: charge_def)
next
  case True
  then obtain s where s: "cr_SheetID c = Some (sh_ID s)" "row_by sh_ID (sh_ID s) (sheets idb) = Some s" by blast
  then have mem: "s \<in> set (sheets idb)" using row_by_SomeD [OF s(2)] by simp
  note fits = direct_cut_fits [OF assms(1,3) s(1) mem]
  let ?m = "sh_CostPerSheet s" and ?u = "area (cr_Used c)" and ?a = "area (sh_Dimensions s)"
  have row: "cutting_row idb c = [\<lparr>cd_SheetCost = ?m, cd_SheetAreaMM2 = ?a, cd_UsedAreaMM2 = ?u\<rparr>]"
    using s by (simp add: cutting_row_def)
  have "0 \<le> Amount ?m" "Amount ?m * ?a < 2 ^ 63" using assms(2) mem unfolding costs_fit_def by blast+
  note b = share_bounds [OF this(1) fits(1,2) this(2)]
  have ch: "charge idb c = Amount ?m * ?u div ?a" by (simp add: charge_def row)
  have q: "quot (Amount ?m * ?u) ?a = Amount ?m * ?u div ?a"
    using fits \<open>0 \<le> Amount ?m\<close> by (intro quot_nonneg) auto
  have key: "sum_where (\<lambda>s. Amount (sh_CostPerSheet s)) (\<lambda>x. sh_ID x = sh_ID s) (sheets idb) = Amount ?m"
    using sum_where_key [OF _ s(2)] assms(1) by (simp add: db_ok_def keys_ok_def)
  have "sheet_cost idb c = Amount ?m" unfolding key [symmetric] sheet_cost_def s(1) by (rule sum_where_cong) auto
  then show ?thesis
    by (intro sheet [OF row]) (use b fits(3) ch q in \<open>simp_all add: Scale_def\<close>)
qed

lemma charge_nonneg: "db_ok idb \<Longrightarrow> costs_fit idb \<Longrightarrow> c \<in> set (cuts idb) \<Longrightarrow> 0 \<le> charge idb c"
  by (erule (2) charge_cases) simp_all

lemma charge_le: "db_ok idb \<Longrightarrow> costs_fit idb \<Longrightarrow> c \<in> set (cuts idb) \<Longrightarrow> charge idb c \<le> sheet_cost idb c"
  by (erule (2) charge_cases) simp_all

lemma material_cost_exact:
  assumes "db_ok idb" and "costs_fit idb" and "set cs \<subseteq> set (cuts idb)"
    and "0 \<le> Amount m" and "Amount m + sum_list (map (charge idb) cs) < 2 ^ 63"
  shows "Amount (material_cost (concat (map (cutting_row idb) cs)) m) = Amount m + sum_list (map (charge idb) cs)"
  using assms(3-5)
proof (induction cs arbitrary: m)
  case (Cons c cs)
  have c: "c \<in> set (cuts idb)" using Cons.prems(1) by simp
  have rest: "0 \<le> sum_list (map (charge idb) cs)"
    using Cons.prems(1) charge_nonneg [OF assms(1,2)] by (intro sum_list_nonneg) auto
  from assms(1,2) c show ?case
  proof (cases rule: charge_cases)
    case none
    with Cons show ?thesis by simp
  next
    case (sheet d)
    let ?s = "Scale (cd_SheetCost d) (cd_UsedAreaMM2 d) (cd_SheetAreaMM2 d)"
    have "in_i64 (Amount m + charge idb c)" using Cons.prems(2,3) rest sheet(4) by (simp add: in_i64_def)
    then have add: "Amount (Add m ?s) = Amount m + charge idb c" by (simp add: Add_def sheet(3))
    then show ?thesis
      using Cons.IH [of "Add m ?s"] Cons.prems sheet by simp
  qed
qed simp

text \<open>Summing per order, per cut and per sheet.\<close>

lemma sum_by_order:
  fixes f :: "CuttingRecord \<Rightarrow> int"
  assumes "distinct ws" and "\<And>c. c \<in> set cs \<Longrightarrow> 0 \<le> f c"
  shows "(\<Sum>w\<leftarrow>ws. sum_where f (\<lambda>c. cr_WorkOrderID c = w) cs) \<le> sum_list (map f cs)"
  using assms(2)
proof (induction cs)
  case (Cons c cs)
  have one: "(\<Sum>w\<leftarrow>ws. if cr_WorkOrderID c = w then f c else 0) \<le> f c"
    using assms(1)
  proof (induction ws)
    case (Cons v ws)
    have none: "(\<Sum>w\<leftarrow>ws. if cr_WorkOrderID c = w then f c else 0) = 0" if "cr_WorkOrderID c \<notin> set ws"
      using that by (induction ws) auto
    then show ?case using Cons by (cases "cr_WorkOrderID c = v") auto
  qed (use Cons.prems [of c] in simp)
  have "(\<Sum>w\<leftarrow>ws. sum_where f (\<lambda>c. cr_WorkOrderID c = w) (c # cs)) =
      (\<Sum>w\<leftarrow>ws. (if cr_WorkOrderID c = w then f c else 0) + sum_where f (\<lambda>c. cr_WorkOrderID c = w) cs)"
    by (intro arg_cong [where f = sum_list] map_cong) auto
  also have "\<dots> = (\<Sum>w\<leftarrow>ws. if cr_WorkOrderID c = w then f c else 0) + (\<Sum>w\<leftarrow>ws. sum_where f (\<lambda>c. cr_WorkOrderID c = w) cs)"
    by (rule sum_list_addf)
  finally show ?case using one Cons by fastforce
qed (simp add: sum_list_0)

lemma sheet_cost_swap:
  "(\<Sum>c\<leftarrow>cs. sum_where f (\<lambda>s. cr_SheetID c = Some (sh_ID s)) ss) =
   (\<Sum>s\<leftarrow>ss. int (count_where (\<lambda>c. cr_SheetID c = Some (sh_ID s)) cs) * f s)"
proof (induction cs)
  case Nil
  then show ?case by (simp add: sum_list_0)
next
  case (Cons c cs)
  have "sum_where f (\<lambda>s. cr_SheetID c = Some (sh_ID s)) ss = (\<Sum>s\<leftarrow>ss. if cr_SheetID c = Some (sh_ID s) then f s else 0)"
    by (induction ss) auto
  then have "(\<Sum>c\<leftarrow>c # cs. sum_where f (\<lambda>s. cr_SheetID c = Some (sh_ID s)) ss) =
      (\<Sum>s\<leftarrow>ss. (if cr_SheetID c = Some (sh_ID s) then f s else 0) + int (count_where (\<lambda>c. cr_SheetID c = Some (sh_ID s)) cs) * f s)"
    by (simp add: Cons sum_list_addf)
  also have "\<dots> = (\<Sum>s\<leftarrow>ss. int (count_where (\<lambda>c. cr_SheetID c = Some (sh_ID s)) (c # cs)) * f s)"
    by (intro arg_cong [where f = sum_list] map_cong) (auto simp: algebra_simps)
  finally show ?case .
qed

lemma charges_le_issued:
  assumes "db_ok idb" and "costs_fit idb"
  shows "sum_list (map (charge idb) (cuts idb)) \<le>
    sum_where (\<lambda>s. Amount (sh_CostPerSheet s)) (\<lambda>s. sh_Status s = SheetIssued) (sheets idb)"
proof -
  have "sum_list (map (charge idb) (cuts idb)) \<le> sum_list (map (sheet_cost idb) (cuts idb))"
    by (rule sum_list_mono) (rule charge_le [OF assms])
  also have "\<dots> = (\<Sum>s\<leftarrow>sheets idb. int (cuts_of_sheet idb (sh_ID s)) * Amount (sh_CostPerSheet s))"
    unfolding sheet_cost_def cuts_of_sheet_def by (rule sheet_cost_swap)
  also have "\<dots> = (\<Sum>s\<leftarrow>sheets idb. if sh_Status s = SheetIssued then Amount (sh_CostPerSheet s) else 0)"
    using assms(1) by (intro arg_cong [where f = sum_list] map_cong) (auto simp: db_ok_def sheet_ok_def)
  also have "\<dots> = sum_where (\<lambda>s. Amount (sh_CostPerSheet s)) (\<lambda>s. sh_Status s = SheetIssued) (sheets idb)"
    by (induction "sheets idb") (auto simp: sum_where_def sum_list_map_filter')
  finally show ?thesis .
qed

text \<open>
  C22: sheets are not charged twice. In every state of the inventory reached with no posted cycle count that revives
  used material or declares unused material used (a revived board can be cut and charged again), with sheet costs that are
  not negative and fit the arithmetic, the material costs that costing computes for any
  different work orders together do not exceed what the issued sheets cost: every sheet is cut once, and a cut is
  charged its share of the area, rounded down. An order made from remnants only is charged nothing.
\<close>

theorem material_charged_once:
  assumes "stock_reach spares_used sch threshold (idb, ps)" and "costs_fit idb" and "distinct ws"
  shows "(\<Sum>w\<leftarrow>ws. Amount (material_cost (projr (cuttingAdapter_GetCuttingDataForWO w idb)) zero_money)) \<le>
      sum_where (\<lambda>s. Amount (sh_CostPerSheet s)) (\<lambda>s. sh_Status s = SheetIssued) (sheets idb) \<and>
    (\<forall>w. (\<forall>c \<in> set (cuts idb). cr_WorkOrderID c = w \<longrightarrow> cr_SheetID c = None) \<longrightarrow>
       cuttingAdapter_GetCuttingDataForWO w idb = Inr [])"
proof -
  have ok: "db_ok idb" using stock.reach_inv [OF assms(1)] by (simp add: inv_ok_def)
  let ?mine = "\<lambda>w. filter (\<lambda>c. cr_WorkOrderID c = w) (cuts idb)"
  note pos = charge_nonneg [OF ok assms(2)]
  have issued: "sum_list (map (charge idb) (cuts idb)) \<le> sum_where (\<lambda>s. Amount (sh_CostPerSheet s)) (\<lambda>s. sh_Status s = SheetIssued) (sheets idb)"
    by (rule charges_le_issued [OF ok assms(2)])
  also have "\<dots> \<le> (\<Sum>s\<leftarrow>sheets idb. Amount (sh_CostPerSheet s))"
  proof -
    have "sum_where f P t \<le> sum_list (map f t)" if "\<forall>x \<in> set t. 0 \<le> f x" for f P and t :: "BoardSheet list"
      using that by (induction t) (auto intro: add_increasing)
    then show ?thesis using assms(2) by (simp add: costs_fit_def)
  qed
  finally have total_lt: "sum_list (map (charge idb) (cuts idb)) < 2 ^ 63" using assms(2) by (simp add: costs_fit_def)
  have exact: "Amount (material_cost (projr (cuttingAdapter_GetCuttingDataForWO w idb)) zero_money) =
      sum_where (charge idb) (\<lambda>c. cr_WorkOrderID c = w) (cuts idb)" for w
  proof -
    have "sum_where (charge idb) (\<lambda>c. cr_WorkOrderID c = w) (cuts idb) \<le> sum_list (map (charge idb) (cuts idb))"
      using sum_by_order [of "[w]" "cuts idb" "charge idb"] pos by simp
    then show ?thesis
      using material_cost_exact [OF ok assms(2), of "?mine w" zero_money] total_lt
      by (simp add: cuttingAdapter_GetCuttingDataForWO_def select_where_def sum_where_def zero_money_def)
  qed
  have "(\<Sum>w\<leftarrow>ws. sum_where (charge idb) (\<lambda>c. cr_WorkOrderID c = w) (cuts idb)) \<le> sum_list (map (charge idb) (cuts idb))"
    by (rule sum_by_order [OF assms(3)]) (rule pos)
  moreover have "cuttingAdapter_GetCuttingDataForWO w idb = Inr []"
    if "\<forall>c \<in> set (cuts idb). cr_WorkOrderID c = w \<longrightarrow> cr_SheetID c = None" for w
    using that by (auto simp: cuttingAdapter_GetCuttingDataForWO_def select_where_def cutting_row_def)
  ultimately show ?thesis using issued by (simp add: exact)
qed

theorem material_charged_once_witness:
  "Amount (material_cost (projr (cuttingAdapter_GetCuttingDataForWO 70 shop_cut)) zero_money) \<le> 500000"
proof -
  have fit: "costs_fit shop_cut"
    unfolding costs_fit_def list_all_iff [symmetric] by code_simp
  have "sum_where (\<lambda>s. Amount (sh_CostPerSheet s)) (\<lambda>s. sh_Status s = SheetIssued) (sheets shop_cut) = 500000" by code_simp
  then show ?thesis
    using material_charged_once [OF shop_reach(4) fit, of "[70]"] by simp
qed

end
