(* ===== verification/Purchasing.thy ===== *)
theory Purchasing
  imports Domain Paging Inventory_Service
begin

text \<open>
  The purchasing module: \<^verbatim>\<open>internal/module/purchasing\<close>. A purchase order for one material is drafted,
  given items, ordered, and received; receiving calls the inventory once per item. A rejection
  of a lot drafts an order automatically. The catalog and the inventory are the fields of
  \<open>pur_deps\<close>; the inventory is called several times in one operation, so its field is given the
  number of the call. \<^verbatim>\<open>uuid.String()[:8]\<close> is the parameter \<open>short\<close>.

  Every statement on purchase orders names the column \<^verbatim>\<open>source_rejection_id\<close>. Whether the table has it
  is a fact of the migrations, the field of \<open>pur_schema\<close>: migration 00080 adds the column to another
  table, \<^verbatim>\<open>purchase_orders\<close>.
\<close>

section \<open>Rows\<close>

datatype POStatus = StatusDraft | StatusOrdered | StatusReceived | StatusCancelled

fun po_status_text :: "POStatus \<Rightarrow> string" where
  "po_status_text StatusDraft = ''DRAFT''"
| "po_status_text StatusOrdered = ''ORDERED''"
| "po_status_text StatusReceived = ''RECEIVED''"
| "po_status_text StatusCancelled = ''CANCELLED''"

record PurchaseOrder =
  po_ID :: uuid
  po_Code :: string
  po_MaterialID :: uuid
  po_Supplier :: string
  po_Status :: POStatus
  po_Note :: string
  po_SourceRejectionID :: "uuid option"
  po_OrderedAt :: "time option"
  po_ReceivedAt :: "time option"
  po_CreatedBy :: uuid
  po_CreatedAt :: time

record POItem =
  pit_ID :: uuid
  pit_POID :: uuid
  pit_Quantity :: int
  pit_LengthMM :: int
  pit_WidthMM :: int
  pit_UnitCost :: Money
  pit_LotID :: "uuid option"
  pit_CreatedAt :: time

record pur_db =
  pos :: "PurchaseOrder list"
  po_items :: "POItem list"

record pur_schema =
  source_rejection_column :: bool

definition migrated_pur_schema :: pur_schema where
  "migrated_pur_schema = \<lparr>source_rejection_column = False\<rparr>"

section \<open>Statements\<close>

abbreviation po_row :: "uuid \<Rightarrow> pur_db \<Rightarrow> PurchaseOrder option" where
  "po_row i db \<equiv> row_by po_ID i (pos db)"

definition insertPO :: "pur_schema \<Rightarrow> uuid list \<Rightarrow> PurchaseOrder \<Rightarrow> (pur_db, unit) op" where
  "insertPO sch mats po db =
     (if \<not> source_rejection_column sch then (Inl (Pg UndefinedColumn), db)
      else (case insert_checked (\<lambda>p. if po_Code p \<in> set (map po_Code (pos db)) then Some (Pg UniqueViolation)
                                     else if po_MaterialID p \<notin> set mats then Some (Pg ForeignKeyViolation) else None)
                   po_ID po (pos db) of
              Inl e \<Rightarrow> (Inl e, db)
            | Inr t \<Rightarrow> (Inr (), db\<lparr>pos := t\<rparr>)))"

definition selectPOItems :: "uuid \<Rightarrow> pur_db \<Rightarrow> POItem list" where
  "selectPOItems i db = sort_key pit_CreatedAt (select_where (\<lambda>it. pit_POID it = i) (po_items db))"

definition selectPOByID :: "pur_schema \<Rightarrow> uuid \<Rightarrow> pur_db \<Rightarrow> (PurchaseOrder \<times> POItem list) result" where
  "selectPOByID sch i db =
     (if \<not> source_rejection_column sch then Inl (Pg UndefinedColumn)
      else (case po_row i db of None \<Rightarrow> Inl (Biz ErrNotFound) | Some po \<Rightarrow> Inr (po, selectPOItems i db)))"

definition selectPOByRejectionID :: "pur_schema \<Rightarrow> uuid \<Rightarrow> pur_db \<Rightarrow> PurchaseOrder result" where
  "selectPOByRejectionID sch i db =
     (if \<not> source_rejection_column sch then Inl (Pg UndefinedColumn)
      else (case find (\<lambda>po. po_SourceRejectionID po = Some i) (pos db) of None \<Rightarrow> Inl (Biz ErrNotFound) | Some po \<Rightarrow> Inr po))"

record POListFilter =
  pf_Status :: string
  pf_MaterialID :: "uuid option"
  pf_From :: "time option"
  pf_To :: "time option"

definition po_matches :: "POListFilter \<Rightarrow> PurchaseOrder \<Rightarrow> bool" where
  "po_matches f po \<longleftrightarrow>
     (pf_Status f = [] \<or> po_status_text (po_Status po) = pf_Status f) \<and>
     (case pf_MaterialID f of None \<Rightarrow> True | Some m \<Rightarrow> po_MaterialID po = m) \<and>
     (case pf_From f of None \<Rightarrow> True | Some t \<Rightarrow> po_CreatedAt po \<ge> t) \<and>
     (case pf_To f of None \<Rightarrow> True | Some t \<Rightarrow> po_CreatedAt po < t)"

text \<open>The count names no missing column; the page does. Rows of one instant come in table order.\<close>

definition selectPOsPaged :: "pur_schema \<Rightarrow> PageParams \<Rightarrow> POListFilter \<Rightarrow> pur_db \<Rightarrow> (PurchaseOrder list \<times> int) result" where
  "selectPOsPaged sch p f db =
     (if \<not> source_rejection_column sch then Inl (Pg UndefinedColumn)
      else let rows = select_where (po_matches f) (pos db);
               ordered = sort_key (\<lambda>po. if Order p = ''asc'' then po_CreatedAt po else - po_CreatedAt po) rows
           in Inr (take (nat (Limit p)) (drop (nat (Offset p)) ordered), int (length rows)))"

definition set_po_status :: "POStatus \<Rightarrow> time option \<Rightarrow> PurchaseOrder \<Rightarrow> PurchaseOrder" where
  "set_po_status st t po = po\<lparr>po_Status := st,
     po_OrderedAt := (if st = StatusOrdered then t else po_OrderedAt po),
     po_ReceivedAt := (if st = StatusReceived then t else po_ReceivedAt po)\<rparr>"

definition updatePOStatus :: "uuid \<Rightarrow> POStatus \<Rightarrow> time option \<Rightarrow> (pur_db, unit) op" where
  "updatePOStatus i st t db = (Inr (), db\<lparr>pos := update_where (\<lambda>po. po_ID po = i) (set_po_status st t) (pos db)\<rparr>)"

definition check_po_item :: "pur_db \<Rightarrow> POItem \<Rightarrow> error option" where
  "check_po_item db it =
     (if \<not> (in_int4 (pit_Quantity it) \<and> in_int4 (pit_LengthMM it) \<and> in_int4 (pit_WidthMM it)) then Some (Pg NumericOutOfRange)
      else if pit_Quantity it \<le> 0 \<or> pit_LengthMM it \<le> 0 \<or> pit_WidthMM it \<le> 0 \<or> Amount (pit_UnitCost it) < 0
           then Some (Pg CheckViolation)
      else if po_row (pit_POID it) db = None then Some (Pg ForeignKeyViolation)
      else None)"

definition insertPOItem :: "POItem \<Rightarrow> (pur_db, unit) op" where
  "insertPOItem it db =
     (case insert_checked (check_po_item db) pit_ID it (po_items db) of
        Inl e \<Rightarrow> (Inl e, db)
      | Inr t \<Rightarrow> (Inr (), db\<lparr>po_items := t\<rparr>))"

definition deletePOItem :: "uuid \<Rightarrow> uuid \<Rightarrow> (pur_db, unit) op" where
  "deletePOItem poID itemID db =
     (let hit = (\<lambda>it. pit_ID it = itemID \<and> pit_POID it = poID) in
      if count_where hit (po_items db) = 0 then (Inl (Biz ErrNotFound), db)
      else (Inr (), db\<lparr>po_items := delete_where hit (po_items db)\<rparr>))"

definition linkItemToLot :: "uuid list \<Rightarrow> uuid \<Rightarrow> uuid \<Rightarrow> (pur_db, unit) op" where
  "linkItemToLot lotIDs itemID lotID db =
     (if row_by pit_ID itemID (po_items db) \<noteq> None \<and> lotID \<notin> set lotIDs then (Inl (Pg ForeignKeyViolation), db)
      else (Inr (), db\<lparr>po_items := update_where (\<lambda>it. pit_ID it = itemID) (\<lambda>it. it\<lparr>pit_LotID := Some lotID\<rparr>) (po_items db)\<rparr>))"

section \<open>Service\<close>

record PurReceiveStockInput =
  pr_MaterialID :: uuid
  pr_LengthMM :: int
  pr_WidthMM :: int
  pr_UnitCost :: Money
  pr_Quantity :: int
  pr_SupplierRef :: string

record 'x pur_deps =
  pur_mats :: "'x \<Rightarrow> uuid list"
  pur_lots :: "'x \<Rightarrow> uuid list"
  pmc :: "uuid \<Rightarrow> 'x \<Rightarrow> unit result"
  psr :: "nat \<Rightarrow> PurReceiveStockInput \<Rightarrow> ('x, uuid) op"

record CreatePOInput =
  cp_Code :: string
  cp_MaterialID :: uuid
  cp_Supplier :: string
  cp_Note :: string
  cp_CreatedBy :: uuid

definition CreatePO :: "pur_schema \<Rightarrow> 'x pur_deps \<Rightarrow> env \<Rightarrow> CreatePOInput \<Rightarrow> (pur_db \<times> 'x, PurchaseOrder) op" where
  "CreatePO sch deps env inp st =
     (if cp_Code inp = [] then (Inl (Biz ErrInvalidInput), st)
      else if cp_MaterialID inp = uuid_Nil then (Inl (Biz ErrInvalidInput), st)
      else (case pmc deps (cp_MaterialID inp) (snd st) of
              Inl e \<Rightarrow> (Inl e, st)
            | Inr _ \<Rightarrow>
                let po = \<lparr>po_ID = fresh env 0, po_Code = cp_Code inp, po_MaterialID = cp_MaterialID inp, po_Supplier = cp_Supplier inp,
                          po_Status = StatusDraft, po_Note = cp_Note inp, po_SourceRejectionID = None, po_OrderedAt = None,
                          po_ReceivedAt = None, po_CreatedBy = cp_CreatedBy inp, po_CreatedAt = now env\<rparr>
                in (case insertPO sch (pur_mats deps (snd st)) po (fst st) of
                      (Inl e, db) \<Rightarrow> (Inl e, (db, snd st))
                    | (Inr _, db) \<Rightarrow> (Inr po, (db, snd st)))))"

definition GetPO :: "pur_schema \<Rightarrow> uuid \<Rightarrow> pur_db \<Rightarrow> (PurchaseOrder \<times> POItem list) result" where
  "GetPO sch i db = selectPOByID sch i db"

definition ListPOs :: "pur_schema \<Rightarrow> PageParams \<Rightarrow> POListFilter \<Rightarrow> pur_db \<Rightarrow> PurchaseOrder PagedResult result" where
  "ListPOs sch p f db =
     (if (case (pf_From f, pf_To f) of (Some a, Some b) \<Rightarrow> \<not> a < b | _ \<Rightarrow> False) then Inl (Biz ErrInvalidInput)
      else (case selectPOsPaged sch p f db of
              Inl e \<Rightarrow> Inl e
            | Inr (rows, cnt) \<Rightarrow> Inr (NewPagedResult rows cnt p)))"

record AddPOItemInput =
  ia_POID :: uuid
  ia_Quantity :: int
  ia_LengthMM :: int
  ia_WidthMM :: int
  ia_UnitCost :: Money

definition AddItem :: "pur_schema \<Rightarrow> env \<Rightarrow> AddPOItemInput \<Rightarrow> (pur_db, POItem) op" where
  "AddItem sch env inp db =
     (if ia_Quantity inp \<le> 0 then (Inl (Biz ErrInvalidInput), db)
      else if ia_LengthMM inp \<le> 0 \<or> ia_WidthMM inp \<le> 0 then (Inl (Biz ErrInvalidInput), db)
      else if Amount (ia_UnitCost inp) < 0 then (Inl (Biz ErrInvalidInput), db)
      else (case selectPOByID sch (ia_POID inp) db of
              Inl e \<Rightarrow> (Inl e, db)
            | Inr (po, _) \<Rightarrow>
                if po_Status po \<noteq> StatusDraft then (Inl (Biz ErrPreconditionFailed), db)
                else (let it = \<lparr>pit_ID = fresh env 0, pit_POID = ia_POID inp, pit_Quantity = ia_Quantity inp,
                                pit_LengthMM = ia_LengthMM inp, pit_WidthMM = ia_WidthMM inp, pit_UnitCost = ia_UnitCost inp,
                                pit_LotID = None, pit_CreatedAt = now env\<rparr>
                      in (case insertPOItem it db of (Inl e, db1) \<Rightarrow> (Inl e, db1) | (Inr _, db1) \<Rightarrow> (Inr it, db1)))))"

definition RemoveItem :: "pur_schema \<Rightarrow> uuid \<Rightarrow> uuid \<Rightarrow> (pur_db, unit) op" where
  "RemoveItem sch poID itemID db =
     (case selectPOByID sch poID db of
        Inl e \<Rightarrow> (Inl e, db)
      | Inr (po, _) \<Rightarrow> if po_Status po \<noteq> StatusDraft then (Inl (Biz ErrPreconditionFailed), db) else deletePOItem poID itemID db)"

definition OrderPO :: "pur_schema \<Rightarrow> env \<Rightarrow> uuid \<Rightarrow> (pur_db, PurchaseOrder) op" where
  "OrderPO sch env i db =
     (case selectPOByID sch i db of
        Inl e \<Rightarrow> (Inl e, db)
      | Inr (po, its) \<Rightarrow>
          if po_Status po \<noteq> StatusDraft then (Inl (Biz ErrInvalidTransition), db)
          else if its = [] then (Inl (Biz ErrPreconditionFailed), db)
          else (case updatePOStatus i StatusOrdered (Some (now env)) db of
                  (Inl e, db1) \<Rightarrow> (Inl e, db1)
                | (Inr _, db1) \<Rightarrow> (Inr (po\<lparr>po_Status := StatusOrdered, po_OrderedAt := Some (now env)\<rparr>), db1)))"

text \<open>One call of the inventory and one update per item; nothing is undone when a later one fails.\<close>

fun receive_items :: "'x pur_deps \<Rightarrow> PurchaseOrder \<Rightarrow> nat \<Rightarrow> POItem list \<Rightarrow> (pur_db \<times> 'x, unit) op" where
  "receive_items deps po k [] st = (Inr (), st)"
| "receive_items deps po k (it # its) st =
     (case psr deps k \<lparr>pr_MaterialID = po_MaterialID po, pr_LengthMM = pit_LengthMM it, pr_WidthMM = pit_WidthMM it,
                       pr_UnitCost = pit_UnitCost it, pr_Quantity = pit_Quantity it, pr_SupplierRef = po_Code po\<rparr> (snd st) of
        (Inl e, x) \<Rightarrow> (Inl e, (fst st, x))
      | (Inr lotID, x) \<Rightarrow>
          (case linkItemToLot (pur_lots deps x) (pit_ID it) lotID (fst st) of
             (Inl e, db) \<Rightarrow> (Inl e, (db, x))
           | (Inr _, db) \<Rightarrow> receive_items deps po (Suc k) its (db, x)))"

definition ReceivePO :: "pur_schema \<Rightarrow> 'x pur_deps \<Rightarrow> env \<Rightarrow> uuid \<Rightarrow> (pur_db \<times> 'x, PurchaseOrder) op" where
  "ReceivePO sch deps env i st =
     (case selectPOByID sch i (fst st) of
        Inl e \<Rightarrow> (Inl e, st)
      | Inr (po, its) \<Rightarrow>
          if po_Status po \<noteq> StatusOrdered then (Inl (Biz ErrInvalidTransition), st)
          else (case receive_items deps po 0 its st of
                  (Inl e, st1) \<Rightarrow> (Inl e, st1)
                | (Inr _, (db, x)) \<Rightarrow>
                    (case updatePOStatus i StatusReceived (Some (now env)) db of
                       (Inl e, db1) \<Rightarrow> (Inl e, (db1, x))
                     | (Inr _, db1) \<Rightarrow> (Inr (po\<lparr>po_Status := StatusReceived, po_ReceivedAt := Some (now env)\<rparr>), (db1, x)))))"

definition CancelPO :: "pur_schema \<Rightarrow> uuid \<Rightarrow> (pur_db, PurchaseOrder) op" where
  "CancelPO sch i db =
     (case selectPOByID sch i db of
        Inl e \<Rightarrow> (Inl e, db)
      | Inr (po, _) \<Rightarrow>
          if po_Status po = StatusReceived \<or> po_Status po = StatusCancelled then (Inl (Biz ErrInvalidTransition), db)
          else (case updatePOStatus i StatusCancelled None db of
                  (Inl e, db1) \<Rightarrow> (Inl e, db1)
                | (Inr _, db1) \<Rightarrow> (Inr (po\<lparr>po_Status := StatusCancelled\<rparr>), db1)))"

record CreateFromRejectionInput =
  fj_RejectionID :: uuid
  fj_MaterialID :: uuid
  fj_Supplier :: string
  fj_QtySheets :: int
  fj_CreatedBy :: uuid

text \<open>The text of the note repeats the identifier and the quantity; it is the parameter \<open>note\<close>.\<close>

definition CreateFromRejection ::
  "pur_schema \<Rightarrow> 'x pur_deps \<Rightarrow> (uuid \<Rightarrow> string) \<Rightarrow> (uuid \<Rightarrow> int \<Rightarrow> string) \<Rightarrow> env \<Rightarrow> CreateFromRejectionInput \<Rightarrow>
   (pur_db \<times> 'x, PurchaseOrder) op" where
  "CreateFromRejection sch deps short note env inp st =
     (if fj_RejectionID inp = uuid_Nil then (Inl (Biz ErrInvalidInput), st)
      else if fj_MaterialID inp = uuid_Nil then (Inl (Biz ErrInvalidInput), st)
      else if fj_QtySheets inp \<le> 0 then (Inl (Biz ErrInvalidInput), st)
      else let po = \<lparr>po_ID = fresh env 0, po_Code = ''AUTO-REJ-'' @ short (fj_RejectionID inp), po_MaterialID = fj_MaterialID inp,
                     po_Supplier = fj_Supplier inp, po_Status = StatusDraft, po_Note = note (fj_RejectionID inp) (fj_QtySheets inp),
                     po_SourceRejectionID = Some (fj_RejectionID inp), po_OrderedAt = None, po_ReceivedAt = None,
                     po_CreatedBy = fj_CreatedBy inp, po_CreatedAt = now env\<rparr>
           in (case insertPO sch (pur_mats deps (snd st)) po (fst st) of
                 (Inl e, db) \<Rightarrow> (Inl e, (db, snd st))
               | (Inr _, db) \<Rightarrow> (Inr po, (db, snd st))))"

definition CancelFromRejection :: "pur_schema \<Rightarrow> uuid \<Rightarrow> (pur_db, unit) op" where
  "CancelFromRejection sch rejectionID db =
     (case selectPOByRejectionID sch rejectionID db of
        Inl e \<Rightarrow> if e = Biz ErrNotFound then (Inr (), db) else (Inl e, db)
      | Inr po \<Rightarrow> if po_Status po = StatusReceived \<or> po_Status po = StatusCancelled then (Inr (), db)
                  else updatePOStatus (po_ID po) StatusCancelled None db)"

section \<open>Wiring to the inventory\<close>

text \<open>\<^verbatim>\<open>purchasingStockAdapter\<close>; \<open>envs k\<close> is what the \<open>k\<close>-th call reads of the clock and draws as identifiers.\<close>

definition purchasingStockAdapter_ReceiveStock :: "env \<Rightarrow> PurReceiveStockInput \<Rightarrow> (inv_db, uuid) op" where
  "purchasingStockAdapter_ReceiveStock env inp idb =
     (case ReceiveStock env \<lparr>rs_MaterialID = pr_MaterialID inp,
              rs_Dimensions = \<lparr>LengthMM = pr_LengthMM inp, WidthMM = pr_WidthMM inp\<rparr>, rs_CostPerSheet = pr_UnitCost inp,
              rs_Quantity = pr_Quantity inp, rs_SupplierRef = pr_SupplierRef inp\<rparr> idb of
        (Inl e, idb1) \<Rightarrow> (Inl e, idb1)
      | (Inr lot, idb1) \<Rightarrow> (Inr (lot_ID lot), idb1))"

text \<open>The catalog is the material table of the inventory's joins.\<close>

definition wired_purchasing :: "(nat \<Rightarrow> env) \<Rightarrow> inv_db pur_deps" where
  "wired_purchasing envs =
     \<lparr>pur_mats = (\<lambda>idb. map mat_ID (materials idb)), pur_lots = (\<lambda>idb. map lot_ID (lots idb)),
      pmc = (\<lambda>m idb. if m \<in> set (map mat_ID (materials idb)) then Inr () else Inl (Biz ErrNotFound)),
      psr = (\<lambda>k inp. purchasingStockAdapter_ReceiveStock (envs k) inp)\<rparr>"

end
