(* ===== verification/Purchasing_Props.thy ===== *)
theory Purchasing_Props
  imports Purchasing Inventory_Props
begin

text \<open>
  The purchasing module as a transition system, the life of a purchase order over every execution,
  and what receiving an order does to the stock.
\<close>

section \<open>Steps and invariant\<close>

inductive pur_step :: "pur_schema \<Rightarrow> 'x pur_deps \<Rightarrow> pur_db \<Rightarrow> pur_db \<Rightarrow> bool"
  for sch :: pur_schema and deps :: "'x pur_deps" where
  "CreatePO sch deps env cin (db, x) = (r1, (db', x')) \<Longrightarrow> pur_step sch deps db db'"
| "AddItem sch env ain db = (r2, db') \<Longrightarrow> pur_step sch deps db db'"
| "RemoveItem sch i j db = (r3, db') \<Longrightarrow> pur_step sch deps db db'"
| "OrderPO sch env i db = (r4, db') \<Longrightarrow> pur_step sch deps db db'"
| "ReceivePO sch deps env i (db, x) = (r5, (db', x')) \<Longrightarrow> pur_step sch deps db db'"
| "CancelPO sch i db = (r6, db') \<Longrightarrow> pur_step sch deps db db'"
| "CreateFromRejection sch deps short note env fin (db, x) = (r7, (db', x')) \<Longrightarrow> pur_step sch deps db db'"
| "CancelFromRejection sch i db = (r8, db') \<Longrightarrow> pur_step sch deps db db'"

definition empty_purchases :: pur_db where
  "empty_purchases = \<lparr>pos = [], po_items = []\<rparr>"

text \<open>What was agreed on: the items without the lot they became.\<close>

definition agreed :: "POItem \<Rightarrow> POItem" where
  "agreed it = it\<lparr>pit_LotID := None\<rparr>"

definition po_terms :: "uuid \<Rightarrow> pur_db \<Rightarrow> POItem list" where
  "po_terms i db = map agreed (select_where (\<lambda>it. pit_POID it = i) (po_items db))"

definition pur_ok :: "pur_db \<Rightarrow> bool" where
  "pur_ok db \<longleftrightarrow> keys_distinct po_ID (pos db) \<and> distinct (map po_Code (pos db)) \<and>
     (\<forall>po \<in> set (pos db). po_Status po \<in> {StatusOrdered, StatusReceived} \<longrightarrow>
        po_terms (po_ID po) db \<noteq> [] \<and> po_OrderedAt po \<noteq> None \<and> (po_Status po = StatusReceived \<longrightarrow> po_ReceivedAt po \<noteq> None))"

fun po_future :: "POStatus \<Rightarrow> POStatus set" where
  "po_future StatusDraft = UNIV"
| "po_future StatusOrdered = {StatusOrdered, StatusReceived, StatusCancelled}"
| "po_future StatusReceived = {StatusReceived}"
| "po_future StatusCancelled = {StatusCancelled}"

definition same_po :: "PurchaseOrder \<Rightarrow> PurchaseOrder \<Rightarrow> bool" where
  "same_po p q \<longleftrightarrow> po_ID q = po_ID p \<and> po_Code q = po_Code p \<and> po_MaterialID q = po_MaterialID p \<and> po_Supplier q = po_Supplier p \<and>
     po_Note q = po_Note p \<and> po_SourceRejectionID q = po_SourceRejectionID p \<and> po_CreatedBy q = po_CreatedBy p \<and>
     po_CreatedAt q = po_CreatedAt p \<and>
     po_Status q \<in> po_future (po_Status p) \<and> (po_Status p \<in> {StatusReceived, StatusCancelled} \<longrightarrow> q = p)"

definition pos_evolve :: "pur_db \<Rightarrow> pur_db \<Rightarrow> bool" where
  "pos_evolve db db' \<longleftrightarrow> (\<forall>p \<in> set (pos db). \<exists>q \<in> set (pos db'). same_po p q \<and>
     (po_Status p \<noteq> StatusDraft \<longrightarrow> po_terms (po_ID p) db' = po_terms (po_ID p) db))"

lemma same_po_refl: "same_po p p"
  by (cases "po_Status p") (simp_all add: same_po_def)

lemma same_po_trans: "same_po p q \<Longrightarrow> same_po q r \<Longrightarrow> same_po p r"
  by (cases "po_Status p"; cases "po_Status q") (auto simp: same_po_def)

lemma same_po_id: "same_po p q \<Longrightarrow> po_ID q = po_ID p"
  by (simp add: same_po_def)

lemma pos_evolve_refl: "pos_evolve db db"
  unfolding pos_evolve_def using same_po_refl by blast

lemma pos_evolve_trans:
  assumes "pos_evolve a b" and "pos_evolve b c"
  shows "pos_evolve a c"
  unfolding pos_evolve_def
proof
  fix p assume "p \<in> set (pos a)"
  with assms(1) obtain q where q: "q \<in> set (pos b)" "same_po p q" "po_Status p \<noteq> StatusDraft \<longrightarrow> po_terms (po_ID p) b = po_terms (po_ID p) a"
    unfolding pos_evolve_def by blast
  with assms(2) obtain r where r: "r \<in> set (pos c)" "same_po q r" "po_Status q \<noteq> StatusDraft \<longrightarrow> po_terms (po_ID q) c = po_terms (po_ID q) b"
    unfolding pos_evolve_def by blast
  have "po_Status q \<noteq> StatusDraft" if "po_Status p \<noteq> StatusDraft"
    using q(2) that by (cases "po_Status p") (auto simp: same_po_def)
  then show "\<exists>r \<in> set (pos c). same_po p r \<and> (po_Status p \<noteq> StatusDraft \<longrightarrow> po_terms (po_ID p) c = po_terms (po_ID p) a)"
    using q(3) r(3) same_po_id [OF q(2)] by (intro bexI [OF _ r(1)] conjI same_po_trans [OF q(2) r(2)]) simp
qed

section \<open>What the calls do\<close>

text \<open>Three kinds of change: a new draft, the items of a draft, the status of one order (with lots linked).\<close>

inductive po_change :: "pur_db \<Rightarrow> pur_db \<Rightarrow> bool" where
  po_same: "pos db' = pos db \<Longrightarrow> (\<And>i. po_terms i db' = po_terms i db) \<Longrightarrow> po_change db db'"
| po_draft: "pos db' = pos db @ [p] \<Longrightarrow> po_items db' = po_items db \<Longrightarrow> po_ID p \<notin> po_ID ` set (pos db) \<Longrightarrow>
    po_Code p \<notin> po_Code ` set (pos db) \<Longrightarrow> po_Status p = StatusDraft \<Longrightarrow> po_change db db'"
| po_item: "pos db' = pos db \<Longrightarrow> po_row i db = Some p \<Longrightarrow> po_Status p = StatusDraft \<Longrightarrow>
    (\<And>j. j \<noteq> i \<Longrightarrow> po_terms j db' = po_terms j db) \<Longrightarrow> po_change db db'"
| po_move: "pos db' = update_where (\<lambda>p. po_ID p = i) (set_po_status st t) (pos db) \<Longrightarrow> po_row i db = Some p \<Longrightarrow>
    (\<And>j. po_terms j db' = po_terms j db) \<Longrightarrow>
    (po_Status p, st) \<in> {(StatusDraft, StatusOrdered), (StatusOrdered, StatusReceived), (StatusDraft, StatusCancelled),
      (StatusOrdered, StatusCancelled)} \<Longrightarrow>
    (st = StatusOrdered \<Longrightarrow> po_terms i db \<noteq> [] \<and> t \<noteq> None) \<Longrightarrow> (st = StatusReceived \<Longrightarrow> t \<noteq> None) \<Longrightarrow> po_change db db'"

lemma set_po_status_simps [simp]:
  "po_ID (set_po_status st t p) = po_ID p" "po_Code (set_po_status st t p) = po_Code p" "po_Status (set_po_status st t p) = st"
  by (simp_all add: set_po_status_def)

lemma po_change_ok:
  assumes "po_change db db'" and "pur_ok db"
  shows "pur_ok db' \<and> pos_evolve db db'"
  using assms(1)
proof cases
  case po_same
  then show ?thesis using assms(2) same_po_refl unfolding pur_ok_def pos_evolve_def by auto
next
  case (po_draft p)
  then have t: "po_terms i db' = po_terms i db" for i by (simp add: po_terms_def)
  have "pur_ok db'" using assms(2) po_draft t unfolding pur_ok_def by auto
  moreover have "\<exists>q' \<in> set (pos db'). same_po q q'" if "q \<in> set (pos db)" for q
    using that po_draft(1) same_po_refl by (intro bexI [of _ q]) auto
  ultimately show ?thesis unfolding pos_evolve_def t by simp
next
  case (po_item i p)
  have draft: "q = p" if "q \<in> set (pos db)" "po_ID q = i" for q
    using that po_item(2) assms(2) row_by_eq_SomeI unfolding pur_ok_def by fastforce
  have same: "po_terms (po_ID q) db' = po_terms (po_ID q) db" if "q \<in> set (pos db)" "po_Status q \<noteq> StatusDraft" for q
    using that draft po_item(3,4) by metis
  then show ?thesis using assms(2) po_item(1) same_po_refl unfolding pur_ok_def pos_evolve_def by fastforce
next
  case (po_move i st t p)
  let ?f = "\<lambda>q. if po_ID q = i then set_po_status st t q else q"
  have only: "q = p" if "q \<in> set (pos db)" "po_ID q = i" for q
    using that po_move(2) assms(2) row_by_eq_SomeI unfolding pur_ok_def by fastforce
  have p: "p \<in> set (pos db)" "po_ID p = i" using row_by_SomeD [OF po_move(2)] by auto
  have maps: "map po_ID (pos db') = map po_ID (pos db)" "map po_Code (pos db') = map po_Code (pos db)"
    unfolding po_move(1) by (auto intro: map_update_where)
  have move: "same_po p (set_po_status st t p)"
    using po_move(4) by (auto simp: same_po_def set_po_status_def)
  have new: "po_Status (?f q) \<in> {StatusOrdered, StatusReceived} \<longrightarrow> po_terms (po_ID (?f q)) db \<noteq> [] \<and> po_OrderedAt (?f q) \<noteq> None \<and>
      (po_Status (?f q) = StatusReceived \<longrightarrow> po_ReceivedAt (?f q) \<noteq> None)" if "q \<in> set (pos db)" for q
  proof (cases "po_ID q = i")
    case True
    then have "q = p" using only that by simp
    then show ?thesis
      using po_move(4-6) p assms(2) unfolding pur_ok_def by (auto simp: set_po_status_def)
  next
    case False
    then show ?thesis using that assms(2) unfolding pur_ok_def by auto
  qed
  have img: "set (pos db') = ?f ` set (pos db)" unfolding po_move(1) set_update_where by (rule image_cong) simp_all
  have "pur_ok db'"
    unfolding pur_ok_def maps po_move(3) img using assms(2) ballI [OF new]
    by (simp only: pur_ok_def ball_simps Ball_image_comp o_def simp_thms)
  moreover have "\<exists>q' \<in> set (pos db'). same_po q q'" if "q \<in> set (pos db)" for q
    using that only move same_po_refl unfolding po_move(1) set_update_where by (intro bexI [of _ "?f q"]) auto
  ultimately show ?thesis unfolding pos_evolve_def po_move(3) by simp
qed

lemma po_change_refl [simp]: "po_change db db"
  by (rule po_same) simp_all

lemma selectPOByID_Inr: "selectPOByID sch i db = Inr (po, its) \<longleftrightarrow> source_rejection_column sch \<and> po_row i db = Some po \<and> its = selectPOItems i db"
  by (auto simp: selectPOByID_def split: option.splits)

lemma link_terms: "linkItemToLot ls j l db = (r, db') \<Longrightarrow> pos db' = pos db \<and> po_terms i db' = po_terms i db"
proof -
  have "map agreed (filter (\<lambda>it. pit_POID it = i) (update_where (\<lambda>it. pit_ID it = j) (\<lambda>it. it\<lparr>pit_LotID := Some l\<rparr>) t)) =
      map agreed (filter (\<lambda>it. pit_POID it = i) t)" for t
    by (induction t) (auto simp: agreed_def)
  then show "linkItemToLot ls j l db = (r, db') \<Longrightarrow> pos db' = pos db \<and> po_terms i db' = po_terms i db"
    by (auto simp: linkItemToLot_def po_terms_def select_where_def split: if_splits)
qed

lemma receive_items_terms:
  "receive_items deps po k its (db, x) = (r, (db', x')) \<Longrightarrow> pos db' = pos db \<and> (\<forall>i. po_terms i db' = po_terms i db)"
proof (induction its arbitrary: k db x)
  case (Cons it its)
  obtain q x1 where recv: "psr deps k \<lparr>pr_MaterialID = po_MaterialID po, pr_LengthMM = pit_LengthMM it, pr_WidthMM = pit_WidthMM it,
      pr_UnitCost = pit_UnitCost it, pr_Quantity = pit_Quantity it, pr_SupplierRef = po_Code po\<rparr> x = (q, x1)" by force
  show ?case
  proof (cases q)
    case (Inl e)
    then show ?thesis using Cons.prems recv by simp
  next
    case (Inr l)
    obtain q2 db1 where link: "linkItemToLot (pur_lots deps x1) (pit_ID it) l db = (q2, db1)" by force
    show ?thesis
    proof (cases q2)
      case (Inl e)
      then show ?thesis using Cons.prems recv \<open>q = Inr l\<close> link link_terms [OF link] by simp
    next
      case (Inr u)
      then have "receive_items deps po (Suc k) its (db1, x1) = (r, (db', x'))" using Cons.prems recv \<open>q = Inr l\<close> link by simp
      from Cons.IH [OF this] show ?thesis using link_terms [OF link] by simp
    qed
  qed
qed simp

lemma po_status_live: "st \<noteq> StatusReceived \<Longrightarrow> st \<noteq> StatusCancelled \<Longrightarrow> st = StatusDraft \<or> st = StatusOrdered"
  by (cases st) auto

lemma insertPO_draft:
  "insertPO sch mats p db = (r, db') \<Longrightarrow> po_Status p = StatusDraft \<Longrightarrow> po_change db db'"
  by (auto simp: insertPO_def split: if_splits sum.splits intro: po_same po_draft)

lemma pur_step_change:
  assumes "pur_ok db" and "pur_step sch deps db db'"
  shows "po_change db db'"
  using assms(2)
proof cases
  case (1 env cin x r x')
  then show ?thesis
    by (auto simp: CreatePO_def Let_def split: if_splits sum.splits prod.splits intro: po_same dest!: insertPO_draft)
next
  case (2 env ain r)
  have "db' = db \<or> (\<exists>p it. po_row (ia_POID ain) db = Some p \<and> po_Status p = StatusDraft \<and> pit_POID it = ia_POID ain \<and>
      db' = db\<lparr>po_items := po_items db @ [it]\<rparr>)"
  proof (cases r)
    case (Inl e)
    then show ?thesis using 2
      by (auto simp: AddItem_def insertPOItem_def Let_def split: if_splits sum.splits prod.splits)
  next
    case (Inr it)
    with 2 obtain p where "po_row (ia_POID ain) db = Some p" "po_Status p = StatusDraft" "pit_POID it = ia_POID ain"
      "db' = db\<lparr>po_items := po_items db @ [it]\<rparr>"
      by (auto simp: AddItem_def insertPOItem_def insert_checked_def selectPOByID_Inr Let_def split: if_splits sum.splits prod.splits option.splits)
    then show ?thesis by (intro disjI2 exI conjI)
  qed
  then show ?thesis
    by (elim disjE exE conjE) (auto intro!: po_item [where i = "ia_POID ain"] simp: po_terms_def select_where_def)
next
  case (3 i j r)
  have keep: "map agreed (filter (\<lambda>it. pit_POID it = k) (filter (\<lambda>it. pit_ID it = j \<longrightarrow> pit_POID it \<noteq> i) t)) =
      map agreed (filter (\<lambda>it. pit_POID it = k) t)" if "k \<noteq> i" for k t
    using that by (induction t) auto
  have "db' = db \<or> (\<exists>p. po_row i db = Some p \<and> po_Status p = StatusDraft \<and>
      db' = db\<lparr>po_items := delete_where (\<lambda>it. pit_ID it = j \<and> pit_POID it = i) (po_items db)\<rparr>)"
    using 3 by (auto simp: RemoveItem_def deletePOItem_def selectPOByID_Inr Let_def split: if_splits sum.splits)
  then show ?thesis
    by (elim disjE exE conjE) (auto intro!: po_item [where i = i] simp: po_terms_def select_where_def delete_where_def keep simp del: filter_filter)
next
  case (4 env i r)
  have "po_terms i db \<noteq> []" if "selectPOItems i db \<noteq> []"
    using that by (auto simp: selectPOItems_def po_terms_def)
  then have "db' = db \<or> (\<exists>p. po_row i db = Some p \<and> po_Status p = StatusDraft \<and> po_terms i db \<noteq> [] \<and>
      db' = db\<lparr>pos := update_where (\<lambda>po. po_ID po = i) (set_po_status StatusOrdered (Some (now env))) (pos db)\<rparr>)"
    using 4 by (auto simp: OrderPO_def updatePOStatus_def selectPOByID_Inr split: if_splits sum.splits)
  then show ?thesis
    by (elim disjE exE conjE)
      (auto intro!: po_move [where i = i and st = StatusOrdered and t = "Some (now env)"] simp: po_terms_def)
next
  case (5 env i x r x')
  show ?thesis
  proof (cases "selectPOByID sch i db")
    case (Inl e)
    then show ?thesis using 5 by (auto simp: ReceivePO_def intro: po_same)
  next
    case (Inr v)
    then obtain po where po: "selectPOByID sch i db = Inr (po, selectPOItems i db)" "po_row i db = Some po"
      by (cases v) (auto simp: selectPOByID_Inr)
    obtain q db1 x1 where run: "receive_items deps po 0 (selectPOItems i db) (db, x) = (q, (db1, x1))" by (metis prod_cases3)
    note t = receive_items_terms [OF run]
    show ?thesis
    proof (cases "po_Status po = StatusOrdered \<and> \<not> isl q")
      case True
      then show ?thesis using 5 po run t
        by (intro po_move [where i = i and st = StatusReceived and t = "Some (now env)", OF _ po(2)])
          (auto simp: ReceivePO_def updatePOStatus_def po_terms_def split: sum.splits)
    next
      case False
      then show ?thesis using 5 po run t
        by (intro po_same) (auto simp: ReceivePO_def updatePOStatus_def split: if_splits sum.splits)
    qed
  qed
next
  case (6 i r)
  have "db' = db \<or> (\<exists>p. po_row i db = Some p \<and> po_Status p \<noteq> StatusReceived \<and> po_Status p \<noteq> StatusCancelled \<and>
      db' = db\<lparr>pos := update_where (\<lambda>po. po_ID po = i) (set_po_status StatusCancelled None) (pos db)\<rparr>)"
    using 6 by (auto simp: CancelPO_def updatePOStatus_def selectPOByID_Inr split: if_splits sum.splits)
  then show ?thesis
    by (elim disjE exE conjE)
      (auto intro!: po_move [where i = i and st = StatusCancelled and t = None] simp: po_terms_def dest: po_status_live)
next
  case (7 short nt env fin x r x')
  then show ?thesis
    by (auto simp: CreateFromRejection_def Let_def split: if_splits sum.splits prod.splits intro: po_same dest!: insertPO_draft)
next
  case (8 i r)
  show ?thesis
  proof (cases "find (\<lambda>po. po_SourceRejectionID po = Some i) (pos db)")
    case None
    then show ?thesis
      using 8 by (intro po_same) (auto simp: CancelFromRejection_def selectPOByRejectionID_def split: if_splits)
  next
    case (Some po)
    then have "po \<in> set (pos db)" by (auto simp: find_Some_iff)
    then have row: "po_row (po_ID po) db = Some po" using assms(1) by (simp add: pur_ok_def row_by_eq_SomeI)
    show ?thesis
    proof (cases "source_rejection_column sch \<and> po_Status po \<noteq> StatusReceived \<and> po_Status po \<noteq> StatusCancelled")
      case True
      then show ?thesis
        using 8 Some by (intro po_move [where st = StatusCancelled and t = None, OF _ row])
          (auto simp: CancelFromRejection_def selectPOByRejectionID_def updatePOStatus_def po_terms_def dest: po_status_live)
    next
      case False
      then show ?thesis
        using 8 Some by (intro po_same) (auto simp: CancelFromRejection_def selectPOByRejectionID_def split: if_splits)
    qed
  qed
qed

interpretation purchasing: invariant "\<lambda>db. db = empty_purchases" "pur_step sch deps" pur_ok
proof unfold_locales
  show "pur_ok db" if "db = empty_purchases" for db using that by (simp add: pur_ok_def empty_purchases_def)
  show "pur_ok db'" if "pur_ok db" "pur_step sch deps db db'" for db db'
    using po_change_ok [OF pur_step_change [OF that] that(1)] by simp
qed

lemma pos_evolve_star:
  assumes "pur_ok db" and "(pur_step sch deps)\<^sup>*\<^sup>* db db'"
  shows "pos_evolve db db'"
  using assms(2)
proof (induction rule: rtranclp_induct)
  case (step db1 db2)
  have ok: "pur_ok db1" by (rule purchasing.star_inv [OF assms(1) step(1)])
  from po_change_ok [OF pur_step_change [OF ok step(2)] ok] step(3) show ?case by (blast intro: pos_evolve_trans)
qed (rule pos_evolve_refl)

section \<open>A concrete purchase\<close>

text \<open>
  On tables that have the column: an order of two boards and of three half boards is drafted, ordered
  and received into the empty shop.
\<close>

definition amended_pur_schema :: pur_schema where
  "amended_pur_schema = \<lparr>source_rejection_column = True\<rparr>"

definition buy_env :: "nat \<Rightarrow> env" where
  "buy_env k = \<lparr>now = int k, fresh = (\<lambda>n. 10 * k + n)\<rparr>"

abbreviation buy_deps :: "inv_db pur_deps" where
  "buy_deps \<equiv> wired_purchasing (\<lambda>k. buy_env (6 + k))"

definition buy_items :: "AddPOItemInput list" where
  "buy_items = [\<lparr>ia_POID = 10, ia_Quantity = 2, ia_LengthMM = 2800, ia_WidthMM = 2070, ia_UnitCost = \<lparr>Amount = 900, Currency = ''VND''\<rparr>\<rparr>,
     \<lparr>ia_POID = 10, ia_Quantity = 3, ia_LengthMM = 1400, ia_WidthMM = 2070, ia_UnitCost = \<lparr>Amount = 500, Currency = ''VND''\<rparr>\<rparr>]"

definition buy_drafted :: pur_db where
  "buy_drafted = fst (snd (CreatePO amended_pur_schema buy_deps (buy_env 1)
     \<lparr>cp_Code = ''PO-1'', cp_MaterialID = 1, cp_Supplier = ''Stone Ltd'', cp_Note = [], cp_CreatedBy = 9\<rparr> (empty_purchases, shop_empty)))"

definition buy_itemised :: pur_db where
  "buy_itemised = snd (AddItem amended_pur_schema (buy_env 3) (buy_items ! 1)
     (snd (AddItem amended_pur_schema (buy_env 2) (buy_items ! 0) buy_drafted)))"

definition buy_ordered :: pur_db where
  "buy_ordered = snd (OrderPO amended_pur_schema (buy_env 4) 10 buy_itemised)"

definition buy_received :: "PurchaseOrder result \<times> (pur_db \<times> inv_db)" where
  "buy_received = ReceivePO amended_pur_schema buy_deps (buy_env 5) 10 (buy_ordered, shop_empty)"

lemma buy_ordered_code [code]:
  "buy_ordered = \<lparr>pos = [\<lparr>po_ID = 10, po_Code = ''PO-1'', po_MaterialID = 1, po_Supplier = ''Stone Ltd'', po_Status = StatusOrdered,
       po_Note = [], po_SourceRejectionID = None, po_OrderedAt = Some 4, po_ReceivedAt = None, po_CreatedBy = 9, po_CreatedAt = 1\<rparr>],
     po_items = [\<lparr>pit_ID = 20, pit_POID = 10, pit_Quantity = 2, pit_LengthMM = 2800, pit_WidthMM = 2070,
         pit_UnitCost = \<lparr>Amount = 900, Currency = ''VND''\<rparr>, pit_LotID = None, pit_CreatedAt = 2\<rparr>,
       \<lparr>pit_ID = 30, pit_POID = 10, pit_Quantity = 3, pit_LengthMM = 1400, pit_WidthMM = 2070,
         pit_UnitCost = \<lparr>Amount = 500, Currency = ''VND''\<rparr>, pit_LotID = None, pit_CreatedAt = 3\<rparr>]\<rparr>"
  by code_simp

lemma buy_received_ok: "\<not> isl (fst buy_received)"
  by code_simp

lemma buy_runs:
  "(pur_step amended_pur_schema buy_deps)\<^sup>*\<^sup>* empty_purchases buy_ordered"
  "pur_step amended_pur_schema buy_deps buy_ordered (fst (snd buy_received))"
proof -
  let ?S = "pur_step amended_pur_schema buy_deps"
  have "?S empty_purchases buy_drafted"
    unfolding buy_drafted_def by (rule pur_step.intros(1)) (simp add: prod_eq_iff)
  moreover have "?S buy_drafted (snd (AddItem amended_pur_schema (buy_env 2) (buy_items ! 0) buy_drafted))"
    by (rule pur_step.intros(2)) (simp add: prod_eq_iff)
  moreover have "?S (snd (AddItem amended_pur_schema (buy_env 2) (buy_items ! 0) buy_drafted)) buy_itemised"
    unfolding buy_itemised_def by (rule pur_step.intros(2)) (simp add: prod_eq_iff)
  moreover have "?S buy_itemised buy_ordered"
    unfolding buy_ordered_def by (rule pur_step.intros(4)) (simp add: prod_eq_iff)
  ultimately show "?S\<^sup>*\<^sup>* empty_purchases buy_ordered"
    by (meson converse_rtranclp_into_rtranclp rtranclp.rtrancl_refl)
  show "?S buy_ordered (fst (snd buy_received))"
    unfolding buy_received_def by (rule pur_step.intros(5)) (simp add: prod_eq_iff)
qed

section \<open>The life of a purchase order\<close>

text \<open>
  C20: the life of a purchase order. Whatever calls of the service follow one another and whatever
  the catalog and the inventory answer, an order of a reachable state never disappears; its code,
  material, supplier and author never change; its status only moves from draft to ordered to
  received, or to cancelled from draft or ordered; once it is no longer a draft its items stay
  as agreed, up to the lots they become; and a received or cancelled order does not change at all.
  An order that is ordered or received has at least one item and the time it was ordered.
\<close>

theorem po_life_cycle:
  assumes "(pur_step sch deps)\<^sup>*\<^sup>* empty_purchases db" and "po_row i db = Some p"
  shows "(po_Status p \<in> {StatusOrdered, StatusReceived} \<longrightarrow> po_terms i db \<noteq> [] \<and> po_OrderedAt p \<noteq> None) \<and>
    ((pur_step sch deps)\<^sup>*\<^sup>* db db' \<longrightarrow> (\<exists>q. po_row i db' = Some q \<and> po_Code q = po_Code p \<and> po_MaterialID q = po_MaterialID p \<and>
       po_Supplier q = po_Supplier p \<and> po_CreatedBy q = po_CreatedBy p \<and> po_Status q \<in> po_future (po_Status p) \<and>
       (po_Status p \<noteq> StatusDraft \<longrightarrow> po_terms i db' = po_terms i db) \<and>
       (po_Status p \<in> {StatusReceived, StatusCancelled} \<longrightarrow> q = p)))"
proof -
  have ok: "pur_ok db" by (rule purchasing.star_inv [OF purchasing.init_inv [OF refl] assms(1)])
  have p: "p \<in> set (pos db)" "po_ID p = i" using row_by_SomeD [OF assms(2)] by auto
  have "\<exists>q. po_row i db' = Some q \<and> same_po p q \<and> (po_Status p \<noteq> StatusDraft \<longrightarrow> po_terms i db' = po_terms i db)"
    if star: "(pur_step sch deps)\<^sup>*\<^sup>* db db'"
  proof -
    from pos_evolve_star [OF ok star] p obtain q where q: "q \<in> set (pos db')" "same_po p q"
      "po_Status p \<noteq> StatusDraft \<longrightarrow> po_terms i db' = po_terms i db" unfolding pos_evolve_def by blast
    moreover have "po_row i db' = Some q"
      using purchasing.star_inv [OF ok star] q(1) same_po_id [OF q(2)] p(2) by (auto simp: pur_ok_def row_by_eq_SomeI)
    ultimately show ?thesis by blast
  qed
  moreover have "po_Status p \<in> {StatusOrdered, StatusReceived} \<longrightarrow> po_terms i db \<noteq> [] \<and> po_OrderedAt p \<noteq> None"
    using ok p unfolding pur_ok_def by blast
  ultimately show ?thesis unfolding same_po_def by blast
qed

theorem po_life_cycle_witness:
  "(\<exists>p. po_row 10 buy_ordered = Some p \<and> po_Status p = StatusOrdered \<and> po_terms 10 buy_ordered \<noteq> [] \<and>
     (\<exists>q. po_row 10 (fst (snd buy_received)) = Some q \<and> po_Code q = po_Code p \<and>
        po_terms 10 (fst (snd buy_received)) = po_terms 10 buy_ordered)) \<and>
   map po_Status (pos (fst (snd buy_received))) = [StatusReceived]"
proof -
  have "map (\<lambda>p. (po_ID p, po_Status p)) (pos buy_ordered) = [(10, StatusOrdered)]" by code_simp
  then obtain p where p: "po_row 10 buy_ordered = Some p" "po_Status p = StatusOrdered"
    by (auto simp: row_by_def)
  have "map po_Status (pos (fst (snd buy_received))) = [StatusReceived]" by code_simp
  moreover have "(pur_step amended_pur_schema buy_deps)\<^sup>*\<^sup>* buy_ordered (fst (snd buy_received))"
    using buy_runs(2) by (rule r_into_rtranclp)
  ultimately show ?thesis
    using po_life_cycle [OF buy_runs(1) p(1), of "fst (snd buy_received)"] p by auto
qed

section \<open>Receiving\<close>

text \<open>The sheets that one item of an order becomes.\<close>

definition arrives :: "PurchaseOrder \<Rightarrow> POItem \<Rightarrow> BoardSheet list \<Rightarrow> bool" where
  "arrives po it new \<longleftrightarrow> int (length new) = pit_Quantity it \<and>
     (\<forall>s \<in> set new. sh_Dimensions s = \<lparr>LengthMM = pit_LengthMM it, WidthMM = pit_WidthMM it\<rparr> \<and> sh_CostPerSheet s = pit_UnitCost it \<and>
        sh_Status s = SheetPendingQC \<and> sh_LotBatch s = Some (po_Code po))"

lemma arrives_quantity: "list_all2 (arrives po) its news \<Longrightarrow> int (length (concat news)) = sum_list (map pit_Quantity its)"
  by (induction rule: list_all2_induct) (simp_all add: arrives_def)

lemma adapter_arrives:
  assumes "psr (wired_purchasing envs) k \<lparr>pr_MaterialID = po_MaterialID po, pr_LengthMM = pit_LengthMM it, pr_WidthMM = pit_WidthMM it,
      pr_UnitCost = pit_UnitCost it, pr_Quantity = pit_Quantity it, pr_SupplierRef = po_Code po\<rparr> idb = (Inr l, idb')"
  shows "\<exists>new. arrives po it new \<and> sheets idb' = sheets idb @ new"
proof -
  let ?inp = "\<lparr>rs_MaterialID = po_MaterialID po, rs_Dimensions = \<lparr>LengthMM = pit_LengthMM it, WidthMM = pit_WidthMM it\<rparr>,
    rs_CostPerSheet = pit_UnitCost it, rs_Quantity = pit_Quantity it, rs_SupplierRef = po_Code po\<rparr>"
  from assms obtain lot where run: "ReceiveStock (envs k) ?inp idb = (Inr lot, idb')"
    by (auto simp: wired_purchasing_def purchasingStockAdapter_ReceiveStock_def split: prod.splits sum.splits)
  show ?thesis
    by (rule exI [of _ "map (\<lambda>i. new_sheet ?inp (lot_ID lot) (fresh (envs k) (Suc i))) [0..<nat (pit_Quantity it)]"])
      (use ReceiveStock_InrD(1,4) [OF run] in \<open>auto simp: arrives_def new_sheet_def\<close>)
qed

lemma adapter_refuses:
  "psr (wired_purchasing envs) k inp idb = (Inl e, idb') \<Longrightarrow> sheets idb' = sheets idb"
  by (auto simp: wired_purchasing_def purchasingStockAdapter_ReceiveStock_def split: prod.splits sum.splits dest: ReceiveStock_Inl_sheets)

lemma receive_items_arrive:
  "receive_items (wired_purchasing envs) po k its (db, idb) = (r, (db', idb')) \<Longrightarrow>
     \<exists>n news. n \<le> length its \<and> list_all2 (arrives po) (take n its) news \<and> sheets idb' = sheets idb @ concat news \<and>
       (r = Inr () \<longrightarrow> n = length its)"
proof (induction its arbitrary: k db idb)
  case Nil
  then show ?case by (intro exI [of _ 0] exI [of _ "[]"]) simp
next
  case (Cons it its)
  let ?W = "wired_purchasing envs"
  obtain q idb1 where recv: "psr ?W k \<lparr>pr_MaterialID = po_MaterialID po, pr_LengthMM = pit_LengthMM it, pr_WidthMM = pit_WidthMM it,
      pr_UnitCost = pit_UnitCost it, pr_Quantity = pit_Quantity it, pr_SupplierRef = po_Code po\<rparr> idb = (q, idb1)" by force
  show ?case
  proof (cases q)
    case (Inl e)
    then show ?thesis using Cons.prems recv adapter_refuses [OF recv [unfolded Inl]]
      by (intro exI [of _ 0] exI [of _ "[]"]) auto
  next
    case (Inr l)
    from adapter_arrives [OF recv [unfolded Inr]] obtain new where new: "arrives po it new" "sheets idb1 = sheets idb @ new" by blast
    obtain q2 db1 where link: "linkItemToLot (pur_lots ?W idb1) (pit_ID it) l db = (q2, db1)" by force
    show ?thesis
    proof (cases q2)
      case (Inl e)
      then show ?thesis using Cons.prems recv Inr link new by (intro exI [of _ 1] exI [of _ "[new]"]) auto
    next
      case (Inr u)
      then have "receive_items ?W po (Suc k) its (db1, idb1) = (r, (db', idb'))" using Cons.prems recv \<open>q = Inr l\<close> link by simp
      from Cons.IH [OF this] obtain n news where "n \<le> length its" "list_all2 (arrives po) (take n its) news"
        "sheets idb' = sheets idb1 @ concat news" "r = Inr () \<longrightarrow> n = length its" by blast
      then show ?thesis using new by (intro exI [of _ "Suc n"] exI [of _ "new # news"]) simp
    qed
  qed
qed

text \<open>
  Receiving an order. A \<^verbatim>\<open>ReceivePO\<close> that succeeds, on the inventory it is wired to, found the order
  ordered, marks it received and adds to the stock exactly the agreed sheets: for each item its
  quantity of sheets, of its size and cost, under the code of the order and waiting for
  quality control. One that fails leaves the order as it was, but the sheets of the items before the
  failing one are in the stock and stay there: the order can be received again, and then they
  arrive a second time.
\<close>

theorem ReceivePO_effect:
  assumes "ReceivePO sch (wired_purchasing envs) env i (db, idb) = (r, (db', idb'))"
  shows "case r of
      Inr po' \<Rightarrow> (\<exists>po news. po_row i db = Some po \<and> po_Status po = StatusOrdered \<and>
        po' = po\<lparr>po_Status := StatusReceived, po_ReceivedAt := Some (now env)\<rparr> \<and>
        pos db' = update_where (\<lambda>p. po_ID p = i) (\<lambda>p. p\<lparr>po_Status := StatusReceived, po_ReceivedAt := Some (now env)\<rparr>) (pos db) \<and>
        list_all2 (arrives po) (selectPOItems i db) news \<and> sheets idb' = sheets idb @ concat news \<and>
        int (length (sheets idb')) = int (length (sheets idb)) + sum_list (map pit_Quantity (selectPOItems i db)))
    | Inl e \<Rightarrow> pos db' = pos db \<and> (sheets idb' = sheets idb \<or> (\<exists>po n news. po_row i db = Some po \<and> po_Status po = StatusOrdered \<and>
        list_all2 (arrives po) (take n (selectPOItems i db)) news \<and> sheets idb' = sheets idb @ concat news))"
proof (cases "selectPOByID sch i db")
  case (Inl e)
  then show ?thesis using assms by (auto simp: ReceivePO_def)
next
  case (Inr v)
  then obtain po where po: "selectPOByID sch i db = Inr (po, selectPOItems i db)" "po_row i db = Some po"
    by (cases v) (auto simp: selectPOByID_Inr)
  show ?thesis
  proof (cases "po_Status po = StatusOrdered")
    case False
    then show ?thesis using assms po by (auto simp: ReceivePO_def)
  next
    case True
    obtain q db1 idb1 where run: "receive_items (wired_purchasing envs) po 0 (selectPOItems i db) (db, idb) = (q, (db1, idb1))"
      by (metis prod_cases3)
    from receive_items_arrive [OF run] obtain n news where n: "n \<le> length (selectPOItems i db)"
      "list_all2 (arrives po) (take n (selectPOItems i db)) news" "sheets idb1 = sheets idb @ concat news"
      "q = Inr () \<longrightarrow> n = length (selectPOItems i db)" by blast
    have upd: "update_where (\<lambda>p. po_ID p = i) (set_po_status StatusReceived (Some (now env))) t =
        update_where (\<lambda>p. po_ID p = i) (\<lambda>p. p\<lparr>po_Status := StatusReceived, po_ReceivedAt := Some (now env)\<rparr>) t" for t
      by (simp add: update_where_def set_po_status_def)
    show ?thesis
    proof (cases q)
      case (Inl e)
      then have "r = Inl e \<and> db' = db1 \<and> idb' = idb1" using assms po run True by (simp add: ReceivePO_def)
      then show ?thesis using receive_items_terms [OF run] n(2,3) po(2) True by auto
    next
      case (Inr u)
      then have r: "r = Inr (po\<lparr>po_Status := StatusReceived, po_ReceivedAt := Some (now env)\<rparr>)" "idb' = idb1"
        "pos db' = update_where (\<lambda>p. po_ID p = i) (set_po_status StatusReceived (Some (now env))) (pos db1)"
        using assms po run True by (auto simp: ReceivePO_def updatePOStatus_def)
      have "list_all2 (arrives po) (selectPOItems i db) news" using n(2,4) Inr by simp
      then show ?thesis using r(2,3) receive_items_terms [OF run] n(3) po(2) True arrives_quantity
        unfolding r(1) upd by auto
    qed
  qed
qed

theorem ReceivePO_effect_witness:
  "int (length (sheets (snd (snd buy_received)))) = int (length (sheets shop_empty)) + 5 \<and> po_row 10 buy_ordered \<noteq> None"
proof -
  from buy_received_ok obtain po' where r: "fst buy_received = Inr po'" by (cases "fst buy_received") auto
  have "sum_list (map pit_Quantity (selectPOItems 10 buy_ordered)) = 5" by code_simp
  moreover have "ReceivePO amended_pur_schema buy_deps (buy_env 5) 10 (buy_ordered, shop_empty) =
      (Inr po', (fst (snd buy_received), snd (snd buy_received)))"
    unfolding r [symmetric] by (simp add: buy_received_def)
  from ReceivePO_effect [OF this] have "po_row 10 buy_ordered \<noteq> None \<and>
      int (length (sheets (snd (snd buy_received)))) = int (length (sheets shop_empty)) + sum_list (map pit_Quantity (selectPOItems 10 buy_ordered))"
    by auto
  ultimately show ?thesis by simp
qed

section \<open>Purchasing on the migrated tables\<close>

lemma purchasing_refused:
  "(\<exists>e. CreatePO migrated_pur_schema pdeps env cin (pdb, y) = (Inl e, (pdb, y))) \<and>
   (\<exists>e. AddItem migrated_pur_schema env ain pdb = (Inl e, pdb)) \<and>
   (\<exists>e. OrderPO migrated_pur_schema env i pdb = (Inl e, pdb)) \<and>
   (\<exists>e. ReceivePO migrated_pur_schema pdeps env i (pdb, y) = (Inl e, (pdb, y))) \<and>
   (\<exists>e. CancelPO migrated_pur_schema i pdb = (Inl e, pdb)) \<and>
   (\<exists>e. CreateFromRejection migrated_pur_schema pdeps short note env fin (pdb, y) = (Inl e, (pdb, y))) \<and>
   (\<exists>e. CancelFromRejection migrated_pur_schema i pdb = (Inl e, pdb)) \<and>
   (\<exists>e. ListPOs migrated_pur_schema pg f pdb = Inl e)"
  by (auto simp: CreatePO_def insertPO_def AddItem_def OrderPO_def ReceivePO_def CancelPO_def CreateFromRejection_def
      CancelFromRejection_def ListPOs_def selectPOsPaged_def selectPOByID_def selectPOByRejectionID_def migrated_pur_schema_def
      Let_def split: sum.splits)

end
