(* ===== verification/Sales_Store.thy ===== *)
theory Sales_Store
  imports Planning
begin

text \<open>
  Rows and statements of the sales module: \<^verbatim>\<open>internal/module/sales/iface.go\<close> and \<^verbatim>\<open>pgstore.go\<close>, with
  the constraints of migrations 00047, 00048, 00054 and 00058. The struct of a sales order also carries
  columns joined from its customer and the lines read separately; a stored row leaves them empty.

  \<open>sales_refs\<close> is what the statements read of tables of other modules: the users, the SKUs, and the
  sales order lines that a row of another table refers to, which cannot be deleted. The day of the clock,
  on which the counter of order codes is kept, is an argument.
\<close>

section \<open>Text\<close>

text \<open>\<^verbatim>\<open>%0nd\<close> of a number that is not negative.\<close>

definition zpad :: "nat \<Rightarrow> nat \<Rightarrow> string" where
  "zpad n k = replicate (n - length (decimal k)) (CHR ''0'') @ decimal k"

section \<open>Rows\<close>

datatype SOStatus = SOStatusDraft | SOStatusConfirmed | SOStatusInProduction | SOStatusPartiallyShipped | SOStatusShipped | SOStatusCancelled

fun so_status_text :: "SOStatus \<Rightarrow> string" where
  "so_status_text SOStatusDraft = ''DRAFT''"
| "so_status_text SOStatusConfirmed = ''CONFIRMED''"
| "so_status_text SOStatusInProduction = ''IN_PRODUCTION''"
| "so_status_text SOStatusPartiallyShipped = ''PARTIALLY_SHIPPED''"
| "so_status_text SOStatusShipped = ''SHIPPED''"
| "so_status_text SOStatusCancelled = ''CANCELLED''"

record Customer =
  cu_ID :: uuid
  cu_Code :: string
  cu_Name :: string
  cu_CountryCode :: string
  cu_Address :: string
  cu_ContactPerson :: string
  cu_ContactPhone :: string
  cu_ContactEmail :: string
  cu_IsActive :: bool
  cu_CreatedAt :: time

record SalesOrderLine =
  sl_ID :: uuid
  sl_SalesOrderID :: uuid
  sl_SKUID :: uuid
  sl_QtyOrdered :: int
  sl_QtyPlanned :: int
  sl_QtyShipped :: int
  sl_UnitPrice :: Money
  sl_Parent :: "uuid option"
  sl_CreatedAt :: time

record SalesOrder =
  so_ID :: uuid
  so_Code :: string
  so_CustomerID :: uuid
  so_CustomerCode :: string
  so_CustomerName :: string
  so_CustomerCountry :: string
  so_Incoterm :: string
  so_PortOfLoading :: string
  so_PortOfDischarge :: string
  so_Currency :: string
  so_Status :: SOStatus
  so_ExpectedShipDate :: "time option"
  so_Note :: string
  so_CreatedBy :: uuid
  so_CreatedAt :: time
  so_Lines :: "SalesOrderLine list"

record CustomerSKUMapping =
  csm_CustomerID :: uuid
  csm_Code :: string
  csm_SKUID :: uuid
  csm_Notes :: string
  csm_CreatedBy :: "uuid option"
  csm_CreatedAt :: time
  csm_UpdatedAt :: time

type_synonym calendar_day = "nat \<times> nat \<times> nat"

record sales_db =
  customers :: "Customer list"
  sos :: "SalesOrder list"
  so_lines :: "SalesOrderLine list"
  mappings :: "CustomerSKUMapping list"
  customer_code_seq :: nat
  so_counters :: "(calendar_day \<times> nat) list"

record sales_refs =
  sref_users :: "uuid list"
  sref_skus :: "uuid list"
  sref_used_lines :: "uuid list"

definition currencies :: "string list" where
  "currencies = [''VND'', ''USD'', ''EUR'']"

abbreviation so_row :: "uuid \<Rightarrow> sales_db \<Rightarrow> SalesOrder option" where
  "so_row i db \<equiv> row_by so_ID i (sos db)"

abbreviation line_row :: "uuid \<Rightarrow> sales_db \<Rightarrow> SalesOrderLine option" where
  "line_row i db \<equiv> row_by sl_ID i (so_lines db)"

section \<open>Customers\<close>

definition nextCustomerCode :: "(sales_db, string) op" where
  "nextCustomerCode db = (Inr (''KH'' @ zpad 3 (customer_code_seq db)), db\<lparr>customer_code_seq := Suc (customer_code_seq db)\<rparr>)"

definition insertCustomer :: "Customer \<Rightarrow> (sales_db, unit) op" where
  "insertCustomer c db =
     (case insert_checked (\<lambda>r. if cu_Code r \<in> set (map cu_Code (customers db)) then Some (Pg UniqueViolation) else None)
             cu_ID c (customers db) of
        Inl e \<Rightarrow> (Inl e, db)
      | Inr t \<Rightarrow> (Inr (), db\<lparr>customers := t\<rparr>))"

definition selectCustomerByID :: "uuid \<Rightarrow> sales_db \<Rightarrow> Customer result" where
  "selectCustomerByID i db = (case row_by cu_ID i (customers db) of None \<Rightarrow> Inl (Biz ErrNotFound) | Some c \<Rightarrow> Inr c)"

text \<open>The search text is wrapped before it is compared with the empty text, so that test never succeeds.\<close>

definition selectCustomersPaged :: "PageParams \<Rightarrow> bool \<Rightarrow> sales_db \<Rightarrow> (Customer list \<times> int) result" where
  "selectCustomersPaged p activeOnly db =
     (let pat = ''%'' @ Search p @ ''%'';
          rows = select_where (\<lambda>c. (activeOnly \<longrightarrow> cu_IsActive c) \<and> (ilike (cu_Code c) pat \<or> ilike (cu_Name c) pat)) (customers db);
          ordered = rev (sort_key cu_CreatedAt (sort_key cu_ID rows))
      in Inr (take (nat (Limit p)) (drop (nat (Offset p)) ordered), int (length rows)))"

definition updateCustomer :: "Customer \<Rightarrow> (sales_db, unit) op" where
  "updateCustomer c db = (Inr (), db\<lparr>customers := update_where (\<lambda>r. cu_ID r = cu_ID c)
     (\<lambda>r. r\<lparr>cu_Name := cu_Name c, cu_CountryCode := cu_CountryCode c, cu_Address := cu_Address c, cu_ContactPerson := cu_ContactPerson c,
        cu_ContactPhone := cu_ContactPhone c, cu_ContactEmail := cu_ContactEmail c, cu_IsActive := cu_IsActive c\<rparr>) (customers db)\<rparr>)"

definition customerCodeExists :: "string \<Rightarrow> sales_db \<Rightarrow> bool result" where
  "customerCodeExists code db = Inr (code \<in> set (map cu_Code (customers db)))"

section \<open>Sales orders\<close>

definition soCode :: "calendar_day \<Rightarrow> nat \<Rightarrow> string" where
  "soCode day seq = (case day of (y, m, d) \<Rightarrow> ''SO'' @ zpad 4 y @ zpad 2 m @ zpad 2 d @ ''-'' @ zpad 3 seq)"

text \<open>One atomic statement: a new counter starts at one, an existing one is raised.\<close>

definition nextSOCode :: "calendar_day \<Rightarrow> (sales_db, string) op" where
  "nextSOCode day db =
     (let seq = (case map_of (so_counters db) day of None \<Rightarrow> 1 | Some n \<Rightarrow> Suc n)
      in if \<not> in_int4 (int seq) then (Inl (Pg NumericOutOfRange), db)
         else (Inr (soCode day seq), db\<lparr>so_counters := (day, seq) # filter (\<lambda>c. fst c \<noteq> day) (so_counters db)\<rparr>))"

text \<open>The row as the columns keep it.\<close>

definition so_columns :: "SalesOrder \<Rightarrow> SalesOrder" where
  "so_columns so = so\<lparr>so_CustomerCode := [], so_CustomerName := [], so_CustomerCountry := [],
     so_ExpectedShipDate := map_option date_of (so_ExpectedShipDate so), so_Lines := []\<rparr>"

definition check_so :: "sales_refs \<Rightarrow> sales_db \<Rightarrow> SalesOrder \<Rightarrow> error option" where
  "check_so rf db so =
     (if so_Code so \<in> set (map so_Code (sos db)) then Some (Pg UniqueViolation)
      else if so_Currency so \<notin> set currencies then Some (Pg CheckViolation)
      else if so_CustomerID so \<notin> set (map cu_ID (customers db)) \<or> so_CreatedBy so \<notin> set (sref_users rf) then Some (Pg ForeignKeyViolation)
      else None)"

definition insertSO :: "sales_refs \<Rightarrow> SalesOrder \<Rightarrow> (sales_db, unit) op" where
  "insertSO rf so db =
     (case insert_checked (check_so rf db) so_ID (so_columns so) (sos db) of
        Inl e \<Rightarrow> (Inl e, db)
      | Inr t \<Rightarrow> (Inr (), db\<lparr>sos := t\<rparr>))"

definition check_line :: "sales_refs \<Rightarrow> sales_db \<Rightarrow> SalesOrderLine \<Rightarrow> error option" where
  "check_line rf db l =
     (if \<not> (in_int4 (sl_QtyOrdered l) \<and> in_int4 (sl_QtyPlanned l) \<and> in_int4 (sl_QtyShipped l)) then Some (Pg NumericOutOfRange)
      else if sl_QtyOrdered l \<le> 0 \<or> Amount (sl_UnitPrice l) < 0 \<or> sl_QtyPlanned l > sl_QtyOrdered l \<or> sl_QtyShipped l > sl_QtyPlanned l \<or>
              Currency (sl_UnitPrice l) \<notin> set currencies then Some (Pg CheckViolation)
      else if (sl_SalesOrderID l, sl_SKUID l) \<in> set (map (\<lambda>r. (sl_SalesOrderID r, sl_SKUID r)) (so_lines db)) then Some (Pg UniqueViolation)
      else if sl_SalesOrderID l \<notin> set (map so_ID (sos db)) \<or> sl_SKUID l \<notin> set (sref_skus rf) then Some (Pg ForeignKeyViolation)
      else None)"

text \<open>One statement per line and no transaction around them.\<close>

fun insertSOLines :: "sales_refs \<Rightarrow> SalesOrderLine list \<Rightarrow> (sales_db, unit) op" where
  "insertSOLines rf [] db = (Inr (), db)"
| "insertSOLines rf (l # ls) db =
     (case insert_checked (check_line rf db) sl_ID l (so_lines db) of
        Inl e \<Rightarrow> (Inl e, db)
      | Inr t \<Rightarrow> insertSOLines rf ls (db\<lparr>so_lines := t\<rparr>))"

text \<open>Other tables' references refuse the deletion; a carried-over line forgets a deleted parent.\<close>

definition deleteSOLinesBySO :: "sales_refs \<Rightarrow> uuid \<Rightarrow> (sales_db, unit) op" where
  "deleteSOLinesBySO rf soID db =
     (let gone = map sl_ID (select_where (\<lambda>l. sl_SalesOrderID l = soID) (so_lines db)) in
      if list_ex (\<lambda>i. i \<in> set (sref_used_lines rf)) gone then (Inl (Pg ForeignKeyViolation), db)
      else (Inr (), db\<lparr>so_lines := map (\<lambda>l. if (case sl_Parent l of None \<Rightarrow> False | Some i \<Rightarrow> i \<in> set gone) then l\<lparr>sl_Parent := None\<rparr> else l)
                         (delete_where (\<lambda>l. sl_SalesOrderID l = soID) (so_lines db))\<rparr>))"

record CarryOverSOLineInput =
  col_ParentSOLineID :: uuid
  col_Qty :: int
  col_CreatedBy :: uuid

definition insertCarryOverSOLine :: "sales_refs \<Rightarrow> env \<Rightarrow> CarryOverSOLineInput \<Rightarrow> (sales_db, uuid) op" where
  "insertCarryOverSOLine rf env inp db =
     (case line_row (col_ParentSOLineID inp) db of
        None \<Rightarrow> (Inl (Biz ErrNotFound), db)
      | Some l \<Rightarrow>
          let new = \<lparr>sl_ID = fresh env 0, sl_SalesOrderID = sl_SalesOrderID l, sl_SKUID = sl_SKUID l, sl_QtyOrdered = col_Qty inp,
                     sl_QtyPlanned = col_Qty inp, sl_QtyShipped = 0, sl_UnitPrice = sl_UnitPrice l,
                     sl_Parent = Some (col_ParentSOLineID inp), sl_CreatedAt = now env\<rparr>
          in (case insert_checked (check_line rf db) sl_ID new (so_lines db) of
                Inl e \<Rightarrow> (Inl (if e = Pg UniqueViolation then Biz ErrInvalidInput else e), db)
              | Inr t \<Rightarrow> (Inr (sl_ID new), db\<lparr>so_lines := t\<rparr>)))"

text \<open>The join with the customer.\<close>

definition scanSO :: "sales_db \<Rightarrow> SalesOrder \<Rightarrow> SalesOrder option" where
  "scanSO db so =
     (case row_by cu_ID (so_CustomerID so) (customers db) of
        None \<Rightarrow> None
      | Some c \<Rightarrow> Some (so\<lparr>so_CustomerCode := cu_Code c, so_CustomerName := cu_Name c, so_CustomerCountry := cu_CountryCode c\<rparr>))"

definition selectSOByID :: "uuid \<Rightarrow> sales_db \<Rightarrow> SalesOrder result" where
  "selectSOByID i db =
     (case Option.bind (so_row i db) (scanSO db) of None \<Rightarrow> Inl (Biz ErrNotFound) | Some so \<Rightarrow> Inr so)"

definition selectSOLinesBySOID :: "uuid \<Rightarrow> sales_db \<Rightarrow> SalesOrderLine list result" where
  "selectSOLinesBySOID i db =
     Inr (sort_key sl_CreatedAt (sort_key sl_ID (select_where (\<lambda>l. sl_SalesOrderID l = i) (so_lines db))))"

record SOListFilter =
  sf_Status :: string
  sf_CustomerID :: "uuid option"

definition nullableUUID :: "uuid \<Rightarrow> uuid option" where
  "nullableUUID i = (if i = uuid_Nil then None else Some i)"

definition so_matches :: "SOListFilter \<Rightarrow> string \<Rightarrow> SalesOrder \<Rightarrow> bool" where
  "so_matches f pat so \<longleftrightarrow>
     (sf_Status f = [] \<or> so_status_text (so_Status so) = sf_Status f) \<and>
     (case Option.bind (sf_CustomerID f) nullableUUID of None \<Rightarrow> True | Some i \<Rightarrow> so_CustomerID so = i) \<and>
     (ilike (so_Code so) pat \<or> ilike (so_CustomerCode so) pat \<or> ilike (so_CustomerName so) pat)"

definition selectSOsPaged :: "PageParams \<Rightarrow> SOListFilter \<Rightarrow> sales_db \<Rightarrow> (SalesOrder list \<times> int) result" where
  "selectSOsPaged p f db =
     (let rows = filter (so_matches f (''%'' @ Search p @ ''%'')) (List.map_filter (scanSO db) (sos db));
          ordered = rev (sort_key so_CreatedAt (sort_key so_ID rows))
      in Inr (take (nat (Limit p)) (drop (nat (Offset p)) ordered), int (length rows)))"

definition updateSO :: "SalesOrder \<Rightarrow> (sales_db, unit) op" where
  "updateSO so db =
     (if so_row (so_ID so) db \<noteq> None \<and> so_Currency so \<notin> set currencies then (Inl (Pg CheckViolation), db)
      else (Inr (), db\<lparr>sos := update_where (\<lambda>r. so_ID r = so_ID so)
        (\<lambda>r. r\<lparr>so_Incoterm := so_Incoterm so, so_PortOfLoading := so_PortOfLoading so, so_PortOfDischarge := so_PortOfDischarge so,
           so_Currency := so_Currency so, so_ExpectedShipDate := map_option date_of (so_ExpectedShipDate so), so_Note := so_Note so\<rparr>) (sos db)\<rparr>))"

definition set_so_status :: "(SalesOrder \<Rightarrow> bool) \<Rightarrow> SOStatus \<Rightarrow> sales_db \<Rightarrow> sales_db" where
  "set_so_status P st db = db\<lparr>sos := update_where P (\<lambda>r. r\<lparr>so_Status := st\<rparr>) (sos db)\<rparr>"

definition updateSOStatus :: "uuid \<Rightarrow> SOStatus \<Rightarrow> (sales_db, unit) op" where
  "updateSOStatus i st db = (Inr (), set_so_status (\<lambda>r. so_ID r = i) st db)"

definition selectSOLineByID :: "uuid \<Rightarrow> sales_db \<Rightarrow> (SalesOrderLine \<times> SalesOrder) result" where
  "selectSOLineByID i db =
     (case line_row i db of
        None \<Rightarrow> Inl (Biz ErrNotFound)
      | Some l \<Rightarrow> (case selectSOByID (sl_SalesOrderID l) db of Inl e \<Rightarrow> Inl e | Inr so \<Rightarrow> Inr (l, so)))"

section \<open>Shipments\<close>

text \<open>
  The writer runs inside the transaction of its caller, which rolls back when it fails; its result
  is the tables it leaves or the error.
\<close>

record ShipmentItemInput =
  shi_SOLineID :: uuid
  shi_Qty :: int

definition add_shipped :: "uuid \<Rightarrow> int \<Rightarrow> sales_db \<Rightarrow> sales_db" where
  "add_shipped i q db = db\<lparr>so_lines := update_where (\<lambda>l. sl_ID l = i) (\<lambda>l. l\<lparr>sl_QtyShipped := sl_QtyShipped l + q\<rparr>) (so_lines db)\<rparr>"

definition ship_item :: "ShipmentItemInput \<Rightarrow> sales_db \<Rightarrow> (uuid \<times> sales_db) result" where
  "ship_item it db =
     (if shi_Qty it \<le> 0 then Inl (Biz ErrInvalidInput)
      else (case line_row (shi_SOLineID it) db of
              None \<Rightarrow> Inl (Biz ErrNotFound)
            | Some l \<Rightarrow>
                if \<not> in_int4 (sl_QtyShipped l + shi_Qty it) then Inl (Pg NumericOutOfRange)
                else if sl_QtyShipped l + shi_Qty it > sl_QtyPlanned l then Inl (Biz ErrInvalidInput)
                else Inr (sl_SalesOrderID l, add_shipped (shi_SOLineID it) (shi_Qty it) db)))"

fun ship_items :: "ShipmentItemInput list \<Rightarrow> sales_db \<Rightarrow> (uuid list \<times> sales_db) result" where
  "ship_items [] db = Inr ([], db)"
| "ship_items (it # its) db =
     (case ship_item it db of
        Inl e \<Rightarrow> Inl e
      | Inr (soID, db1) \<Rightarrow> (case ship_items its db1 of Inl e \<Rightarrow> Inl e | Inr (ids, db2) \<Rightarrow> Inr (soID # ids, db2)))"

definition recomputeSOStatusTx :: "uuid \<Rightarrow> sales_db \<Rightarrow> sales_db" where
  "recomputeSOStatusTx soID db =
     (let ls = select_where (\<lambda>l. sl_SalesOrderID l = soID) (so_lines db) in
      if list_all (\<lambda>l. sl_QtyShipped l \<ge> sl_QtyOrdered l) ls
      then set_so_status (\<lambda>r. so_ID r = soID \<and> so_Status r \<noteq> SOStatusShipped) SOStatusShipped db
      else if list_ex (\<lambda>l. sl_QtyShipped l > 0) ls
      then set_so_status (\<lambda>r. so_ID r = soID \<and> so_Status r \<in> {SOStatusConfirmed, SOStatusInProduction, SOStatusPartiallyShipped})
             SOStatusPartiallyShipped db
      else db)"

definition recordShipmentTx :: "ShipmentItemInput list \<Rightarrow> sales_db \<Rightarrow> sales_db result" where
  "recordShipmentTx its db =
     (case ship_items its db of
        Inl e \<Rightarrow> Inl e
      | Inr (ids, db1) \<Rightarrow> Inr (fold recomputeSOStatusTx (remdups ids) db1))"

section \<open>Splitting\<close>

definition lockSOForUpdate :: "uuid \<Rightarrow> sales_db \<Rightarrow> SalesOrder result" where
  "lockSOForUpdate i db = selectSOByID i db"

fun lockAndReadSOLines :: "uuid list \<Rightarrow> sales_db \<Rightarrow> SalesOrderLine list result" where
  "lockAndReadSOLines [] db = Inr []"
| "lockAndReadSOLines (i # is) db =
     (case line_row i db of
        None \<Rightarrow> Inl (Biz ErrNotFound)
      | Some l \<Rightarrow> (case lockAndReadSOLines is db of Inl e \<Rightarrow> Inl e | Inr ls \<Rightarrow> Inr (l # ls)))"

definition add_planned :: "uuid \<Rightarrow> int \<Rightarrow> sales_db \<Rightarrow> sales_db" where
  "add_planned i q db = db\<lparr>so_lines := update_where (\<lambda>l. sl_ID l = i) (\<lambda>l. l\<lparr>sl_QtyPlanned := sl_QtyPlanned l + q\<rparr>) (so_lines db)\<rparr>"

definition incrementQtyPlanned :: "uuid \<Rightarrow> int \<Rightarrow> sales_db \<Rightarrow> sales_db result" where
  "incrementQtyPlanned i delta db =
     (case line_row i db of
        None \<Rightarrow> if in_int4 delta then Inr db else Inl (Pg NumericOutOfRange)
      | Some l \<Rightarrow>
          if \<not> in_int4 delta \<or> \<not> in_int4 (sl_QtyPlanned l + delta) then Inl (Pg NumericOutOfRange)
          else if sl_QtyPlanned l + delta > sl_QtyOrdered l then Inl (Biz ErrInvalidInput)
          else if sl_QtyShipped l > sl_QtyPlanned l + delta then Inl (Pg CheckViolation)
          else Inr (add_planned i delta db))"

definition updateStatusIfCurrent :: "uuid \<Rightarrow> SOStatus list \<Rightarrow> SOStatus \<Rightarrow> sales_db \<Rightarrow> sales_db" where
  "updateStatusIfCurrent i expected target db = set_so_status (\<lambda>r. so_ID r = i \<and> so_Status r \<in> set expected) target db"

section \<open>Customer SKU mappings\<close>

definition same_csm :: "uuid \<Rightarrow> string \<Rightarrow> CustomerSKUMapping \<Rightarrow> bool" where
  "same_csm c code m \<longleftrightarrow> csm_CustomerID m = c \<and> csm_Code m = code"

definition check_csm :: "sales_refs \<Rightarrow> sales_db \<Rightarrow> CustomerSKUMapping \<Rightarrow> error option" where
  "check_csm rf db m =
     (if csm_CustomerID m \<notin> set (map cu_ID (customers db)) \<or> csm_SKUID m \<notin> set (sref_skus rf) \<or>
         (case csm_CreatedBy m of None \<Rightarrow> False | Some u \<Rightarrow> u \<notin> set (sref_users rf)) then Some (Pg ForeignKeyViolation)
      else None)"

fun mapCSMPgError :: "error \<Rightarrow> error" where
  "mapCSMPgError (Pg UniqueViolation) = Biz ErrInvalidInput"
| "mapCSMPgError (Pg ForeignKeyViolation) = Biz ErrInvalidInput"
| "mapCSMPgError e = e"

definition insertCustomerSKUMapping :: "sales_refs \<Rightarrow> CustomerSKUMapping \<Rightarrow> (sales_db, unit) op" where
  "insertCustomerSKUMapping rf m db =
     (if list_ex (same_csm (csm_CustomerID m) (csm_Code m)) (mappings db) then (Inl (mapCSMPgError (Pg UniqueViolation)), db)
      else (case check_csm rf db m of
              Some e \<Rightarrow> (Inl (mapCSMPgError e), db)
            | None \<Rightarrow> (Inr (), db\<lparr>mappings := mappings db @ [m]\<rparr>)))"

record CustomerSKUMappingFilter =
  cf_CustomerID :: "uuid option"

text \<open>\<^verbatim>\<open>ORDER BY customer_id, customer_sku_code\<close>; \<open>collate\<close> ranks texts as the database does.\<close>

definition selectCustomerSKUMappingsPaged ::
  "(string \<Rightarrow> nat) \<Rightarrow> PageParams \<Rightarrow> CustomerSKUMappingFilter \<Rightarrow> sales_db \<Rightarrow> (CustomerSKUMapping list \<times> int) result" where
  "selectCustomerSKUMappingsPaged collate p f db =
     (let rows = select_where (\<lambda>m. case cf_CustomerID f of None \<Rightarrow> True | Some i \<Rightarrow> csm_CustomerID m = i) (mappings db);
          ordered = sort_key csm_CustomerID (sort_key (\<lambda>m. collate (csm_Code m)) rows)
      in Inr (take (nat (Limit p)) (drop (nat (Offset p)) ordered), int (length rows)))"

definition selectCustomerSKUMappingByPK :: "uuid \<Rightarrow> string \<Rightarrow> sales_db \<Rightarrow> CustomerSKUMapping result" where
  "selectCustomerSKUMappingByPK c code db =
     (case find (same_csm c code) (mappings db) of None \<Rightarrow> Inl (Biz ErrNotFound) | Some m \<Rightarrow> Inr m)"

definition updateCustomerSKUMapping :: "sales_refs \<Rightarrow> CustomerSKUMapping \<Rightarrow> (sales_db, unit) op" where
  "updateCustomerSKUMapping rf m db =
     (let hit = same_csm (csm_CustomerID m) (csm_Code m) in
      if count_where hit (mappings db) = 0 then (Inl (Biz ErrNotFound), db)
      else if csm_SKUID m \<notin> set (sref_skus rf) then (Inl (mapCSMPgError (Pg ForeignKeyViolation)), db)
      else (Inr (), db\<lparr>mappings := update_where hit
              (\<lambda>r. r\<lparr>csm_SKUID := csm_SKUID m, csm_Notes := csm_Notes m, csm_UpdatedAt := csm_UpdatedAt m\<rparr>) (mappings db)\<rparr>))"

definition deleteCustomerSKUMapping :: "uuid \<Rightarrow> string \<Rightarrow> (sales_db, unit) op" where
  "deleteCustomerSKUMapping c code db =
     (if count_where (same_csm c code) (mappings db) = 0 then (Inl (Biz ErrNotFound), db)
      else (Inr (), db\<lparr>mappings := delete_where (same_csm c code) (mappings db)\<rparr>))"

text \<open>All rows in one transaction.\<close>

fun insert_mappings :: "sales_refs \<Rightarrow> CustomerSKUMapping list \<Rightarrow> sales_db \<Rightarrow> sales_db result" where
  "insert_mappings rf [] db = Inr db"
| "insert_mappings rf (m # ms) db =
     (case insertCustomerSKUMapping rf m db of (Inl e, _) \<Rightarrow> Inl e | (Inr _, db1) \<Rightarrow> insert_mappings rf ms db1)"

definition bulkInsertCustomerSKUMappings :: "sales_refs \<Rightarrow> CustomerSKUMapping list \<Rightarrow> (sales_db, unit) op" where
  "bulkInsertCustomerSKUMappings rf ms db = (case insert_mappings rf ms db of Inl e \<Rightarrow> (Inl e, db) | Inr db1 \<Rightarrow> (Inr (), db1))"

end
