(* ===== verification/Sales_Service.thy ===== *)
theory Sales_Service
  imports Sales_Store
begin

text \<open>
  The operations of \<^verbatim>\<open>internal/module/sales/service.go\<close>. The catalog, the production splitter and the
  audit log are optional interfaces over an outside state; a failure of the audit log is ignored by the
  code. Splitting an order runs in three phases, a checking transaction, the call of the splitter
  and a writing transaction, which are separate definitions here.
\<close>

section \<open>Neighbours\<close>

record SalesSKUInfo =
  ssi_HeightMM :: "int option"
  ssi_WeightKg :: "rat option"
  ssi_HSCode :: "string option"

record CreatePlanWOItem =
  pwi_SOLineID :: uuid
  pwi_SKUID :: uuid
  pwi_Quantity :: int

record CreatePlanWithWOsRequest =
  pwr_SalesOrderID :: uuid
  pwr_Deadline :: "time option"
  pwr_ActorID :: uuid
  pwr_Items :: "CreatePlanWOItem list"

record SplitToPlanResult =
  spr_PlanID :: uuid
  spr_PlanCode :: string
  spr_WorkOrderIDs :: "uuid list"

datatype AuditCSMAction = CSMCreated | CSMUpdated | CSMDeleted | CSMBulkImported

record AuditCustomerSKUMappingInput =
  am_Action :: AuditCSMAction
  am_CustomerID :: uuid
  am_Code :: string
  am_SKUID :: uuid
  am_PreviousSKUID :: "uuid option"
  am_RowsImported :: int
  am_ActorID :: uuid
  am_Notes :: string

record 'x sales_deps =
  srefs :: "'x \<Rightarrow> sales_refs"
  skuChecker :: "(uuid \<Rightarrow> 'x \<Rightarrow> SalesSKUInfo result) option"
  splitter :: "(CreatePlanWithWOsRequest \<Rightarrow> ('x, SplitToPlanResult) op) option"
  auditor :: "(AuditCustomerSKUMappingInput \<Rightarrow> ('x, unit) op) option"

definition logMappingAudit :: "'x sales_deps \<Rightarrow> AuditCustomerSKUMappingInput \<Rightarrow> 'x \<Rightarrow> 'x" where
  "logMappingAudit deps inp x = (case auditor deps of None \<Rightarrow> x | Some f \<Rightarrow> snd (f inp x))"

section \<open>Customers\<close>

record CreateCustomerInput =
  cc_Code :: string
  cc_Name :: string
  cc_CountryCode :: string
  cc_Address :: string
  cc_ContactPerson :: string
  cc_ContactPhone :: string
  cc_ContactEmail :: string

definition customer_code :: "string \<Rightarrow> (sales_db, string) op" where
  "customer_code code db =
     (if code = [] then nextCustomerCode db
      else (case customerCodeExists code db of
              Inl e \<Rightarrow> (Inl e, db)
            | Inr taken \<Rightarrow> if taken then (Inl (Biz ErrInvalidInput), db) else (Inr code, db)))"

definition CreateCustomer :: "env \<Rightarrow> CreateCustomerInput \<Rightarrow> (sales_db, Customer) op" where
  "CreateCustomer env inp db =
     (let name = TrimSpace (cc_Name inp) in
      if name = [] then (Inl (Biz ErrInvalidInput), db)
      else (case customer_code (TrimSpace (cc_Code inp)) db of
              (Inl e, db1) \<Rightarrow> (Inl e, db1)
            | (Inr code, db1) \<Rightarrow>
                let c = \<lparr>cu_ID = fresh env 0, cu_Code = code, cu_Name = name, cu_CountryCode = ToUpper (TrimSpace (cc_CountryCode inp)),
                         cu_Address = TrimSpace (cc_Address inp), cu_ContactPerson = TrimSpace (cc_ContactPerson inp),
                         cu_ContactPhone = TrimSpace (cc_ContactPhone inp), cu_ContactEmail = TrimSpace (cc_ContactEmail inp),
                         cu_IsActive = True, cu_CreatedAt = now env\<rparr>
                in (case insertCustomer c db1 of (Inl e, db2) \<Rightarrow> (Inl e, db2) | (Inr _, db2) \<Rightarrow> (Inr c, db2))))"

definition ListCustomers :: "PageParams \<Rightarrow> bool \<Rightarrow> sales_db \<Rightarrow> Customer PagedResult result" where
  "ListCustomers p activeOnly db =
     (case selectCustomersPaged p activeOnly db of Inl e \<Rightarrow> Inl e | Inr (items, cnt) \<Rightarrow> Inr (NewPagedResult items cnt p))"

record PatchCustomerInput =
  kc_ID :: uuid
  kc_Name :: "string option"
  kc_CountryCode :: "string option"
  kc_Address :: "string option"
  kc_ContactPerson :: "string option"
  kc_ContactPhone :: "string option"
  kc_ContactEmail :: "string option"
  kc_IsActive :: "bool option"

text \<open>A field that is given replaces the stored one.\<close>

definition given :: "('b \<Rightarrow> 'a) \<Rightarrow> 'b option \<Rightarrow> 'a \<Rightarrow> 'a" where
  "given f v old = (case v of None \<Rightarrow> old | Some x \<Rightarrow> f x)"

definition PatchCustomer :: "PatchCustomerInput \<Rightarrow> (sales_db, Customer) op" where
  "PatchCustomer inp db =
     (case selectCustomerByID (kc_ID inp) db of
        Inl e \<Rightarrow> (Inl e, db)
      | Inr c \<Rightarrow>
          if map_option TrimSpace (kc_Name inp) = Some [] then (Inl (Biz ErrInvalidInput), db)
          else let c1 = c\<lparr>cu_Name := given TrimSpace (kc_Name inp) (cu_Name c),
                          cu_CountryCode := given (\<lambda>s. ToUpper (TrimSpace s)) (kc_CountryCode inp) (cu_CountryCode c),
                          cu_Address := given TrimSpace (kc_Address inp) (cu_Address c),
                          cu_ContactPerson := given TrimSpace (kc_ContactPerson inp) (cu_ContactPerson c),
                          cu_ContactPhone := given TrimSpace (kc_ContactPhone inp) (cu_ContactPhone c),
                          cu_ContactEmail := given TrimSpace (kc_ContactEmail inp) (cu_ContactEmail c),
                          cu_IsActive := given id (kc_IsActive inp) (cu_IsActive c)\<rparr>
               in (case updateCustomer c1 db of (Inl e, db1) \<Rightarrow> (Inl e, db1) | (Inr _, db1) \<Rightarrow> (Inr c1, db1)))"

section \<open>Sales orders\<close>

record CreateSOLineInput =
  li_SKUID :: uuid
  li_QtyOrdered :: int
  li_UnitPrice :: Money

definition normalizeCurrency :: "string \<Rightarrow> string" where
  "normalizeCurrency c = ToUpper (TrimSpace c)"

fun validate_lines :: "uuid list \<Rightarrow> CreateSOLineInput list \<Rightarrow> unit result" where
  "validate_lines seen [] = Inr ()"
| "validate_lines seen (l # ls) =
     (if li_SKUID l = uuid_Nil then Inl (Biz ErrInvalidInput)
      else if li_QtyOrdered l \<le> 0 then Inl (Biz ErrInvalidInput)
      else if Amount (li_UnitPrice l) < 0 then Inl (Biz ErrInvalidInput)
      else if normalizeCurrency (Currency (li_UnitPrice l)) = [] then Inl (Biz ErrInvalidInput)
      else if li_SKUID l \<in> set seen then Inl (Biz ErrInvalidInput)
      else validate_lines (li_SKUID l # seen) ls)"

definition validateLines :: "CreateSOLineInput list \<Rightarrow> unit result" where
  "validateLines ls = validate_lines [] ls"

definition export_sku_ok :: "SalesSKUInfo \<Rightarrow> bool" where
  "export_sku_ok i \<longleftrightarrow>
     (case ssi_HeightMM i of None \<Rightarrow> False | Some h \<Rightarrow> h > 0) \<and>
     (case ssi_WeightKg i of None \<Rightarrow> False | Some w \<Rightarrow> w > 0) \<and>
     (case ssi_HSCode i of None \<Rightarrow> False | Some h \<Rightarrow> h \<noteq> [])"

fun check_skus :: "(uuid \<Rightarrow> SalesSKUInfo result) \<Rightarrow> bool \<Rightarrow> CreateSOLineInput list \<Rightarrow> unit result" where
  "check_skus get isExport [] = Inr ()"
| "check_skus get isExport (l # ls) =
     (case get (li_SKUID l) of
        Inl e \<Rightarrow> Inl e
      | Inr i \<Rightarrow> if isExport \<and> \<not> export_sku_ok i then Inl (Biz ErrInvalidInput) else check_skus get isExport ls)"

definition validateSKUs :: "'x sales_deps \<Rightarrow> CreateSOLineInput list \<Rightarrow> string \<Rightarrow> 'x \<Rightarrow> unit result" where
  "validateSKUs deps ls incoterm x =
     (case skuChecker deps of
        None \<Rightarrow> Inr ()
      | Some get \<Rightarrow> check_skus (\<lambda>i. get i x) (TrimSpace incoterm \<noteq> []) ls)"

definition build_lines :: "env \<Rightarrow> nat \<Rightarrow> uuid \<Rightarrow> CreateSOLineInput list \<Rightarrow> SalesOrderLine list" where
  "build_lines env k soID ls =
     map (\<lambda>(i, l). \<lparr>sl_ID = fresh env (k + i), sl_SalesOrderID = soID, sl_SKUID = li_SKUID l, sl_QtyOrdered = li_QtyOrdered l,
            sl_QtyPlanned = 0, sl_QtyShipped = 0,
            sl_UnitPrice = \<lparr>Amount = Amount (li_UnitPrice l), Currency = normalizeCurrency (Currency (li_UnitPrice l))\<rparr>,
            sl_Parent = None, sl_CreatedAt = now env\<rparr>) (zip [0..<length ls] ls)"

record CreateSOInput =
  cs_CustomerID :: uuid
  cs_Incoterm :: string
  cs_PortOfLoading :: string
  cs_PortOfDischarge :: string
  cs_Currency :: string
  cs_ExpectedShipDate :: "time option"
  cs_Note :: string
  cs_Lines :: "CreateSOLineInput list"
  cs_CreatedBy :: uuid

definition CreateSO :: "'x sales_deps \<Rightarrow> env \<Rightarrow> calendar_day \<Rightarrow> CreateSOInput \<Rightarrow> 'x \<Rightarrow> (sales_db, SalesOrder) op" where
  "CreateSO deps env day inp x db =
     (if cs_CustomerID inp = uuid_Nil then (Inl (Biz ErrInvalidInput), db)
      else if cs_Lines inp = [] then (Inl (Biz ErrInvalidInput), db)
      else (case validateLines (cs_Lines inp) of
        Inl e \<Rightarrow> (Inl e, db)
      | Inr _ \<Rightarrow> (case validateSKUs deps (cs_Lines inp) (cs_Incoterm inp) x of
          Inl e \<Rightarrow> (Inl e, db)
        | Inr _ \<Rightarrow> (case nextSOCode day db of
            (Inl e, db1) \<Rightarrow> (Inl e, db1)
          | (Inr code, db1) \<Rightarrow>
              let cur = normalizeCurrency (cs_Currency inp);
                  so = \<lparr>so_ID = fresh env 0, so_Code = code, so_CustomerID = cs_CustomerID inp, so_CustomerCode = [],
                        so_CustomerName = [], so_CustomerCountry = [], so_Incoterm = ToUpper (TrimSpace (cs_Incoterm inp)),
                        so_PortOfLoading = TrimSpace (cs_PortOfLoading inp), so_PortOfDischarge = TrimSpace (cs_PortOfDischarge inp),
                        so_Currency = (if cur = [] then ''VND'' else cur), so_Status = SOStatusDraft,
                        so_ExpectedShipDate = cs_ExpectedShipDate inp, so_Note = TrimSpace (cs_Note inp),
                        so_CreatedBy = cs_CreatedBy inp, so_CreatedAt = now env, so_Lines = []\<rparr>;
                  ls = build_lines env 1 (so_ID so) (cs_Lines inp)
              in (case insertSO (srefs deps x) so db1 of
                    (Inl e, db2) \<Rightarrow> (Inl e, db2)
                  | (Inr _, db2) \<Rightarrow>
                      (case insertSOLines (srefs deps x) ls db2 of
                         (Inl e, db3) \<Rightarrow> (Inl e, db3)
                       | (Inr _, db3) \<Rightarrow> (Inr (so\<lparr>so_Lines := ls\<rparr>), db3)))))))"

definition with_lines :: "sales_db \<Rightarrow> SalesOrder \<Rightarrow> SalesOrder result" where
  "with_lines db so = (case selectSOLinesBySOID (so_ID so) db of Inl e \<Rightarrow> Inl e | Inr ls \<Rightarrow> Inr (so\<lparr>so_Lines := ls\<rparr>))"

definition GetSO :: "uuid \<Rightarrow> sales_db \<Rightarrow> SalesOrder result" where
  "GetSO i db = (case selectSOByID i db of Inl e \<Rightarrow> Inl e | Inr so \<Rightarrow> with_lines db so)"

fun all_with_lines :: "sales_db \<Rightarrow> SalesOrder list \<Rightarrow> SalesOrder list result" where
  "all_with_lines db [] = Inr []"
| "all_with_lines db (so # os) =
     (case with_lines db so of
        Inl e \<Rightarrow> Inl e
      | Inr so1 \<Rightarrow> (case all_with_lines db os of Inl e \<Rightarrow> Inl e | Inr os1 \<Rightarrow> Inr (so1 # os1)))"

definition ListSOs :: "PageParams \<Rightarrow> SOListFilter \<Rightarrow> sales_db \<Rightarrow> SalesOrder PagedResult result" where
  "ListSOs p f db =
     (case selectSOsPaged p f db of
        Inl e \<Rightarrow> Inl e
      | Inr (os, cnt) \<Rightarrow> (case all_with_lines db os of Inl e \<Rightarrow> Inl e | Inr os1 \<Rightarrow> Inr (NewPagedResult os1 cnt p)))"

record PatchSOInput =
  ks_ID :: uuid
  ks_Incoterm :: "string option"
  ks_PortOfLoading :: "string option"
  ks_PortOfDischarge :: "string option"
  ks_Currency :: "string option"
  ks_ExpectedShipDate :: "time option"
  ks_ClearExpectedShipDate :: bool
  ks_Note :: "string option"
  ks_Lines :: "CreateSOLineInput list option"

definition patch_header :: "PatchSOInput \<Rightarrow> SalesOrder \<Rightarrow> SalesOrder" where
  "patch_header inp so = so\<lparr>so_Incoterm := given (\<lambda>s. ToUpper (TrimSpace s)) (ks_Incoterm inp) (so_Incoterm so),
     so_PortOfLoading := given TrimSpace (ks_PortOfLoading inp) (so_PortOfLoading so),
     so_PortOfDischarge := given TrimSpace (ks_PortOfDischarge inp) (so_PortOfDischarge so),
     so_Currency := given normalizeCurrency (ks_Currency inp) (so_Currency so),
     so_ExpectedShipDate := (if ks_ClearExpectedShipDate inp then None
       else given Some (ks_ExpectedShipDate inp) (so_ExpectedShipDate so)),
     so_Note := given TrimSpace (ks_Note inp) (so_Note so)\<rparr>"

text \<open>The header is written first, then the lines are checked, deleted and inserted one by one.\<close>

definition replace_lines :: "'x sales_deps \<Rightarrow> env \<Rightarrow> SalesOrder \<Rightarrow> CreateSOLineInput list \<Rightarrow> 'x \<Rightarrow> (sales_db, SalesOrder) op" where
  "replace_lines deps env so ls x db =
     (if ls = [] then (Inl (Biz ErrInvalidInput), db)
      else (case validateLines ls of
        Inl e \<Rightarrow> (Inl e, db)
      | Inr _ \<Rightarrow> (case validateSKUs deps ls (so_Incoterm so) x of
          Inl e \<Rightarrow> (Inl e, db)
        | Inr _ \<Rightarrow> (case deleteSOLinesBySO (srefs deps x) (so_ID so) db of
            (Inl e, db1) \<Rightarrow> (Inl e, db1)
          | (Inr _, db1) \<Rightarrow>
              let built = build_lines env 0 (so_ID so) ls
              in (case insertSOLines (srefs deps x) built db1 of
                    (Inl e, db2) \<Rightarrow> (Inl e, db2)
                  | (Inr _, db2) \<Rightarrow> (Inr (so\<lparr>so_Lines := built\<rparr>), db2))))))"

definition PatchSO :: "'x sales_deps \<Rightarrow> env \<Rightarrow> PatchSOInput \<Rightarrow> 'x \<Rightarrow> (sales_db, SalesOrder) op" where
  "PatchSO deps env inp x db =
     (case selectSOByID (ks_ID inp) db of
        Inl e \<Rightarrow> (Inl e, db)
      | Inr so0 \<Rightarrow>
          if so_Status so0 \<noteq> SOStatusDraft then (Inl (Biz ErrInvalidTransition), db)
          else let so = patch_header inp so0
               in (case updateSO so db of
                     (Inl e, db1) \<Rightarrow> (Inl e, db1)
                   | (Inr _, db1) \<Rightarrow>
                       (case ks_Lines inp of
                          Some ls \<Rightarrow> replace_lines deps env so ls x db1
                        | None \<Rightarrow> (with_lines db1 so, db1))))"

definition validateExportFields :: "SalesOrder \<Rightarrow> unit result" where
  "validateExportFields so =
     (let isExport = so_Currency so \<noteq> ''VND'' \<or> (so_CustomerCountry so \<noteq> [] \<and> so_CustomerCountry so \<noteq> ''VN'') in
      if \<not> isExport then Inr ()
      else if so_Incoterm so = [] \<or> so_PortOfLoading so = [] \<or> so_PortOfDischarge so = [] then Inl (Biz ErrInvalidInput)
      else Inr ())"

definition ConfirmSO :: "uuid \<Rightarrow> (sales_db, unit) op" where
  "ConfirmSO i db =
     (case selectSOByID i db of
        Inl e \<Rightarrow> (Inl e, db)
      | Inr so \<Rightarrow>
          if so_Status so \<noteq> SOStatusDraft then (Inl (Biz ErrInvalidTransition), db)
          else (case validateExportFields so of Inl e \<Rightarrow> (Inl e, db) | Inr _ \<Rightarrow> updateSOStatus i SOStatusConfirmed db))"

definition CancelSO :: "uuid \<Rightarrow> (sales_db, unit) op" where
  "CancelSO i db =
     (case selectSOByID i db of
        Inl e \<Rightarrow> (Inl e, db)
      | Inr so \<Rightarrow>
          if so_Status so \<in> {SOStatusShipped, SOStatusPartiallyShipped, SOStatusCancelled} then (Inl (Biz ErrInvalidTransition), db)
          else (case selectSOLinesBySOID i db of
                  Inl e \<Rightarrow> (Inl e, db)
                | Inr ls \<Rightarrow>
                    if list_ex (\<lambda>l. sl_QtyShipped l > 0) ls then (Inl (Biz ErrInvalidTransition), db)
                    else updateSOStatus i SOStatusCancelled db))"

section \<open>Splitting an order into a plan\<close>

record SplitAllocation =
  al_SOLineID :: uuid
  al_Quantity :: int

record SplitToPlanInput =
  sp_SalesOrderID :: uuid
  sp_Allocations :: "SplitAllocation list"
  sp_Deadline :: time
  sp_ActorID :: uuid

definition pickSplitDeadline :: "time \<Rightarrow> time option \<Rightarrow> time option" where
  "pickSplitDeadline override soShip = (if override \<noteq> 0 then Some override else soShip)"

fun check_allocations :: "uuid \<Rightarrow> (SplitAllocation \<times> SalesOrderLine) list \<Rightarrow> unit result" where
  "check_allocations soID [] = Inr ()"
| "check_allocations soID ((a, l) # als) =
     (if sl_SalesOrderID l \<noteq> soID then Inl (Biz ErrInvalidInput)
      else if i64 (sl_QtyPlanned l + al_Quantity a) > sl_QtyOrdered l then Inl (Biz ErrInvalidInput)
      else check_allocations soID als)"

definition splittable :: "SOStatus set" where
  "splittable = {SOStatusConfirmed, SOStatusInProduction, SOStatusPartiallyShipped}"

definition split_check :: "SplitToPlanInput \<Rightarrow> sales_db \<Rightarrow> (SalesOrder \<times> SalesOrderLine list) result" where
  "split_check inp db =
     (case lockSOForUpdate (sp_SalesOrderID inp) db of
        Inl e \<Rightarrow> Inl e
      | Inr so \<Rightarrow>
          if so_Status so \<notin> splittable then Inl (Biz ErrInvalidTransition)
          else (case lockAndReadSOLines (map al_SOLineID (sp_Allocations inp)) db of
                  Inl e \<Rightarrow> Inl e
                | Inr ls \<Rightarrow>
                    (case check_allocations (sp_SalesOrderID inp) (zip (sp_Allocations inp) ls) of Inl e \<Rightarrow> Inl e | Inr _ \<Rightarrow> Inr (so, ls))))"

definition split_request :: "SplitToPlanInput \<Rightarrow> SalesOrder \<Rightarrow> SalesOrderLine list \<Rightarrow> CreatePlanWithWOsRequest" where
  "split_request inp so ls =
     \<lparr>pwr_SalesOrderID = sp_SalesOrderID inp, pwr_Deadline = pickSplitDeadline (sp_Deadline inp) (so_ExpectedShipDate so),
      pwr_ActorID = sp_ActorID inp,
      pwr_Items = map (\<lambda>(a, l). \<lparr>pwi_SOLineID = al_SOLineID a, pwi_SKUID = sl_SKUID l, pwi_Quantity = al_Quantity a\<rparr>)
        (zip (sp_Allocations inp) ls)\<rparr>"

fun increment_all :: "SplitAllocation list \<Rightarrow> sales_db \<Rightarrow> sales_db result" where
  "increment_all [] db = Inr db"
| "increment_all (a # as) db =
     (case incrementQtyPlanned (al_SOLineID a) (al_Quantity a) db of Inl e \<Rightarrow> Inl e | Inr db1 \<Rightarrow> increment_all as db1)"

definition split_commit :: "SplitToPlanInput \<Rightarrow> SOStatus \<Rightarrow> (sales_db, unit) op" where
  "split_commit inp st db =
     (case increment_all (sp_Allocations inp) db of
        Inl e \<Rightarrow> (Inl (Biz ErrPreconditionFailed), db)
      | Inr db1 \<Rightarrow> (Inr (), if st = SOStatusConfirmed
                           then updateStatusIfCurrent (sp_SalesOrderID inp) [SOStatusConfirmed] SOStatusInProduction db1 else db1))"

definition SplitToPlan :: "'x sales_deps \<Rightarrow> SplitToPlanInput \<Rightarrow> (sales_db \<times> 'x, SplitToPlanResult) op" where
  "SplitToPlan deps inp st =
     (case splitter deps of
        None \<Rightarrow> (Inl (Biz ErrPreconditionFailed), st)
      | Some split \<Rightarrow>
          if sp_Allocations inp = [] then (Inl (Biz ErrInvalidInput), st)
          else if list_ex (\<lambda>a. al_Quantity a \<le> 0) (sp_Allocations inp) then (Inl (Biz ErrInvalidInput), st)
          else (case split_check inp (fst st) of
                  Inl e \<Rightarrow> (Inl e, st)
                | Inr (so, ls) \<Rightarrow>
                    (case split (split_request inp so ls) (snd st) of
                       (Inl e, x1) \<Rightarrow> (Inl e, (fst st, x1))
                     | (Inr pres, x1) \<Rightarrow>
                         (case split_commit inp (so_Status so) (fst st) of
                            (Inl e, db1) \<Rightarrow> (Inl e, (db1, x1))
                          | (Inr _, db1) \<Rightarrow> (Inr pres, (db1, x1))))))"

section \<open>Calls of other modules\<close>

definition GetSOLine :: "uuid \<Rightarrow> sales_db \<Rightarrow> (SalesOrderLine \<times> SalesOrder) result" where
  "GetSOLine i db = selectSOLineByID i db"

definition RecordShipmentTx :: "ShipmentItemInput list \<Rightarrow> sales_db \<Rightarrow> sales_db result" where
  "RecordShipmentTx its db = recordShipmentTx its db"

definition CreateCarryOverSOLine :: "sales_refs \<Rightarrow> env \<Rightarrow> CarryOverSOLineInput \<Rightarrow> (sales_db, uuid) op" where
  "CreateCarryOverSOLine rf env inp db =
     (if col_ParentSOLineID inp = uuid_Nil then (Inl (Biz ErrInvalidInput), db)
      else if col_Qty inp \<le> 0 then (Inl (Biz ErrInvalidInput), db)
      else if col_CreatedBy inp = uuid_Nil then (Inl (Biz ErrInvalidInput), db)
      else insertCarryOverSOLine rf env inp db)"

section \<open>Customer SKU mappings\<close>

definition validateMappingCode :: "string \<Rightarrow> string result" where
  "validateMappingCode code =
     (let c = TrimSpace code in
      if c = [] then Inl (Biz ErrInvalidInput) else if length c > 256 then Inl (Biz ErrInvalidInput) else Inr c)"

definition requireSKU :: "'x sales_deps \<Rightarrow> uuid \<Rightarrow> 'x \<Rightarrow> unit result" where
  "requireSKU deps skuID x =
     (if skuID = uuid_Nil then Inl (Biz ErrInvalidInput)
      else (case skuChecker deps of
              None \<Rightarrow> Inr ()
            | Some get \<Rightarrow>
                (case get skuID x of
                   Inl e \<Rightarrow> Inl (if e = Biz ErrNotFound then Biz ErrInvalidInput else e)
                 | Inr _ \<Rightarrow> Inr ())))"

record CreateCustomerSKUMappingInput =
  mi_CustomerID :: uuid
  mi_Code :: string
  mi_SKUID :: uuid
  mi_Notes :: string
  mi_ActorID :: uuid

definition CreateCustomerSKUMapping ::
  "'x sales_deps \<Rightarrow> env \<Rightarrow> CreateCustomerSKUMappingInput \<Rightarrow> (sales_db \<times> 'x, CustomerSKUMapping) op" where
  "CreateCustomerSKUMapping deps env inp st =
     (if mi_CustomerID inp = uuid_Nil then (Inl (Biz ErrInvalidInput), st)
      else (case validateMappingCode (mi_Code inp) of
        Inl e \<Rightarrow> (Inl e, st)
      | Inr code \<Rightarrow> (case requireSKU deps (mi_SKUID inp) (snd st) of
          Inl e \<Rightarrow> (Inl e, st)
        | Inr _ \<Rightarrow>
            let m = \<lparr>csm_CustomerID = mi_CustomerID inp, csm_Code = code, csm_SKUID = mi_SKUID inp, csm_Notes = TrimSpace (mi_Notes inp),
                     csm_CreatedBy = nullableUUID (mi_ActorID inp), csm_CreatedAt = now env, csm_UpdatedAt = now env\<rparr>
            in (case insertCustomerSKUMapping (srefs deps (snd st)) m (fst st) of
                  (Inl e, db) \<Rightarrow> (Inl e, (db, snd st))
                | (Inr _, db) \<Rightarrow> (Inr m, (db, logMappingAudit deps
                    \<lparr>am_Action = CSMCreated, am_CustomerID = csm_CustomerID m, am_Code = code, am_SKUID = csm_SKUID m,
                     am_PreviousSKUID = None, am_RowsImported = 0, am_ActorID = mi_ActorID inp, am_Notes = csm_Notes m\<rparr> (snd st)))))))"

definition ListCustomerSKUMappings ::
  "(string \<Rightarrow> nat) \<Rightarrow> PageParams \<Rightarrow> CustomerSKUMappingFilter \<Rightarrow> sales_db \<Rightarrow> CustomerSKUMapping PagedResult result" where
  "ListCustomerSKUMappings collate p f db =
     (case selectCustomerSKUMappingsPaged collate p f db of Inl e \<Rightarrow> Inl e | Inr (rows, cnt) \<Rightarrow> Inr (NewPagedResult rows cnt p))"

definition GetCustomerSKUMapping :: "uuid \<Rightarrow> string \<Rightarrow> sales_db \<Rightarrow> CustomerSKUMapping result" where
  "GetCustomerSKUMapping c code db =
     (if c = uuid_Nil then Inl (Biz ErrInvalidInput)
      else (case validateMappingCode code of Inl e \<Rightarrow> Inl e | Inr t \<Rightarrow> selectCustomerSKUMappingByPK c t db))"

record PatchCustomerSKUMappingInput =
  km_CustomerID :: uuid
  km_Code :: string
  km_SKUID :: "uuid option"
  km_Notes :: "string option"
  km_ActorID :: uuid

definition PatchCustomerSKUMapping ::
  "'x sales_deps \<Rightarrow> env \<Rightarrow> PatchCustomerSKUMappingInput \<Rightarrow> (sales_db \<times> 'x, CustomerSKUMapping) op" where
  "PatchCustomerSKUMapping deps env inp st =
     (if km_CustomerID inp = uuid_Nil then (Inl (Biz ErrInvalidInput), st)
      else (case validateMappingCode (km_Code inp) of
        Inl e \<Rightarrow> (Inl e, st)
      | Inr code \<Rightarrow> (case selectCustomerSKUMappingByPK (km_CustomerID inp) code (fst st) of
          Inl e \<Rightarrow> (Inl e, st)
        | Inr cur \<Rightarrow>
            let sku = given id (km_SKUID inp) (csm_SKUID cur); changed = sku \<noteq> csm_SKUID cur
            in (case (if changed then requireSKU deps sku (snd st) else Inr ()) of
                  Inl e \<Rightarrow> (Inl e, st)
                | Inr _ \<Rightarrow>
                    let upd = cur\<lparr>csm_SKUID := sku, csm_Notes := given TrimSpace (km_Notes inp) (csm_Notes cur), csm_UpdatedAt := now env\<rparr>
                    in (case updateCustomerSKUMapping (srefs deps (snd st)) upd (fst st) of
                          (Inl e, db) \<Rightarrow> (Inl e, (db, snd st))
                        | (Inr _, db) \<Rightarrow> (Inr upd, (db, logMappingAudit deps
                            \<lparr>am_Action = CSMUpdated, am_CustomerID = csm_CustomerID upd, am_Code = csm_Code upd, am_SKUID = csm_SKUID upd,
                             am_PreviousSKUID = (if changed then Some (csm_SKUID cur) else None), am_RowsImported = 0,
                             am_ActorID = km_ActorID inp, am_Notes = csm_Notes upd\<rparr> (snd st))))))))"

record DeleteCustomerSKUMappingInput =
  dm_CustomerID :: uuid
  dm_Code :: string
  dm_ActorID :: uuid

definition DeleteCustomerSKUMapping :: "'x sales_deps \<Rightarrow> DeleteCustomerSKUMappingInput \<Rightarrow> (sales_db \<times> 'x, unit) op" where
  "DeleteCustomerSKUMapping deps inp st =
     (if dm_CustomerID inp = uuid_Nil then (Inl (Biz ErrInvalidInput), st)
      else (case validateMappingCode (dm_Code inp) of
        Inl e \<Rightarrow> (Inl e, st)
      | Inr code \<Rightarrow> (case selectCustomerSKUMappingByPK (dm_CustomerID inp) code (fst st) of
          Inl e \<Rightarrow> (Inl e, st)
        | Inr cur \<Rightarrow> (case deleteCustomerSKUMapping (dm_CustomerID inp) code (fst st) of
            (Inl e, db) \<Rightarrow> (Inl e, (db, snd st))
          | (Inr _, db) \<Rightarrow> (Inr (), (db, logMappingAudit deps
              \<lparr>am_Action = CSMDeleted, am_CustomerID = csm_CustomerID cur, am_Code = csm_Code cur, am_SKUID = csm_SKUID cur,
               am_PreviousSKUID = None, am_RowsImported = 0, am_ActorID = dm_ActorID inp, am_Notes = []\<rparr> (snd st)))))))"

record BulkMappingRow =
  bm_Code :: string
  bm_SKUID :: uuid
  bm_Notes :: string

datatype RowErrorCode = InvalidCode | DuplicateInBatch | InvalidSKU

record BulkImportRowError =
  be_Row :: nat
  be_Code :: RowErrorCode

record BulkImportResult =
  bi_Inserted :: int
  bi_Errors :: "BulkImportRowError list"

record BulkImportCustomerSKUMappingsInput =
  bu_CustomerID :: uuid
  bu_Rows :: "BulkMappingRow list"
  bu_ActorID :: uuid

text \<open>One row of the batch: an error, or the code and the SKU it is prepared with.\<close>

definition bulk_row :: "'x sales_deps \<Rightarrow> 'x \<Rightarrow> string list \<Rightarrow> BulkMappingRow \<Rightarrow> string list \<times> (RowErrorCode + string)" where
  "bulk_row deps x seen raw =
     (case validateMappingCode (bm_Code raw) of
        Inl _ \<Rightarrow> (seen, Inl InvalidCode)
      | Inr code \<Rightarrow>
          if code \<in> set seen then (seen, Inl DuplicateInBatch)
          else (case requireSKU deps (bm_SKUID raw) x of Inl _ \<Rightarrow> (code # seen, Inl InvalidSKU) | Inr _ \<Rightarrow> (code # seen, Inr code)))"

fun bulk_rows ::
  "'x sales_deps \<Rightarrow> 'x \<Rightarrow> env \<Rightarrow> BulkImportCustomerSKUMappingsInput \<Rightarrow> nat \<Rightarrow> string list \<Rightarrow> BulkMappingRow list \<Rightarrow>
   BulkImportRowError list \<times> CustomerSKUMapping list" where
  "bulk_rows deps x env inp k seen [] = ([], [])"
| "bulk_rows deps x env inp k seen (raw # raws) =
     (case bulk_row deps x seen raw of
        (seen1, r) \<Rightarrow>
          (case bulk_rows deps x env inp (Suc k) seen1 raws of
             (errs, prep) \<Rightarrow>
               (case r of
                  Inl c \<Rightarrow> (\<lparr>be_Row = k, be_Code = c\<rparr> # errs, prep)
                | Inr code \<Rightarrow> (errs, \<lparr>csm_CustomerID = bu_CustomerID inp, csm_Code = code, csm_SKUID = bm_SKUID raw,
                    csm_Notes = TrimSpace (bm_Notes raw), csm_CreatedBy = nullableUUID (bu_ActorID inp), csm_CreatedAt = now env,
                    csm_UpdatedAt = now env\<rparr> # prep))))"

definition BulkImportCustomerSKUMappings ::
  "'x sales_deps \<Rightarrow> env \<Rightarrow> BulkImportCustomerSKUMappingsInput \<Rightarrow> sales_db \<times> 'x \<Rightarrow>
   (BulkImportResult \<times> unit result) \<times> (sales_db \<times> 'x)" where
  "BulkImportCustomerSKUMappings deps env inp st =
     (let none = \<lparr>bi_Inserted = 0, bi_Errors = []\<rparr> in
      if bu_CustomerID inp = uuid_Nil then ((none, Inl (Biz ErrInvalidInput)), st)
      else if bu_Rows inp = [] then ((none, Inl (Biz ErrInvalidInput)), st)
      else (case bulk_rows deps (snd st) env inp 1 [] (bu_Rows inp) of
              (errs, prep) \<Rightarrow>
                if errs \<noteq> [] then ((\<lparr>bi_Inserted = 0, bi_Errors = errs\<rparr>, Inl (Biz ErrInvalidInput)), st)
                else (case bulkInsertCustomerSKUMappings (srefs deps (snd st)) prep (fst st) of
                        (Inl e, db) \<Rightarrow> ((none, Inl e), (db, snd st))
                      | (Inr _, db) \<Rightarrow> ((\<lparr>bi_Inserted = int (length prep), bi_Errors = []\<rparr>, Inr ()),
                          (db, logMappingAudit deps
                            \<lparr>am_Action = CSMBulkImported, am_CustomerID = bu_CustomerID inp, am_Code = [], am_SKUID = uuid_Nil,
                             am_PreviousSKUID = None, am_RowsImported = int (length prep), am_ActorID = bu_ActorID inp,
                             am_Notes = []\<rparr> (snd st))))))"

section \<open>Decimal numbers by hand\<close>

text \<open>
  \<^verbatim>\<open>itoa\<close> collects the digits from the last to the first in a byte slice and reverses it in place. The
  negation wraps around: the smallest integer stays negative.
\<close>

function itoa_digits :: "int \<Rightarrow> string \<Rightarrow> string" where
  "itoa_digits i acc = (if i > 0 then itoa_digits (quot i 10) (acc @ [char_of (48 + nat (i mod 10))]) else acc)"
  by pat_completeness auto
termination
  by (relation "measure (\<lambda>(i, acc). nat i)") (auto simp: quot_nonneg)

declare itoa_digits.simps [simp del]

function swap_loop :: "nat \<Rightarrow> nat \<Rightarrow> 'a list \<Rightarrow> 'a list" where
  "swap_loop l r ds = (if l < r then swap_loop (Suc l) (r - 1) (ds[l := ds ! r, r := ds ! l]) else ds)"
  by pat_completeness auto
termination
  by (relation "measure (\<lambda>(l, r, ds). r - l)") auto

declare swap_loop.simps [simp del]

definition itoa :: "int \<Rightarrow> string" where
  "itoa i =
     (if i = 0 then ''0''
      else let negative = i < 0; j = (if negative then i64 (- i) else i); digits = itoa_digits j [];
               signed = (if negative then digits @ ''-'' else digits)
           in swap_loop 0 (length signed - 1) signed)"

end
