(* ===== verification/Sales_Invariant.thy ===== *)
theory Sales_Invariant
  imports Sales_Service
begin

text \<open>
  The sales module as a transition system. Its state is the tables together with the splits that passed
  their check and whose second transaction is still to come, so that other calls may run between the
  phases of \<^verbatim>\<open>SplitToPlan\<close>. The splitter that is called between the phases acts outside the sales tables and is no part of
  this relation: the second phase may follow a passed check or not, whatever the splitter says, so an invariant holds for every
  splitter, and what some splitter lets happen is stated on \<^verbatim>\<open>SplitToPlan\<close> itself. Every step is a sequence of edits; an edit keeps the invariant \<open>sales_ok\<close> and lets
  an order evolve only as \<open>so_evolves\<close> allows.
\<close>

section \<open>Steps\<close>

type_synonym sales_state = "sales_db \<times> (SplitToPlanInput \<times> SOStatus) list"

inductive sales_step :: "'x sales_deps \<Rightarrow> sales_state \<Rightarrow> sales_state \<Rightarrow> bool" for deps :: "'x sales_deps" where
  step_customer: "CreateCustomer env cci db = (r1, db') \<Longrightarrow> sales_step deps (db, P) (db', P)"
| step_patch_customer: "PatchCustomer kci db = (r1, db') \<Longrightarrow> sales_step deps (db, P) (db', P)"
| step_create: "CreateSO deps env day csi x db = (r2, db') \<Longrightarrow> sales_step deps (db, P) (db', P)"
| step_patch: "PatchSO deps env ksi x db = (r2, db') \<Longrightarrow> sales_step deps (db, P) (db', P)"
| step_confirm: "ConfirmSO i db = (r3, db') \<Longrightarrow> sales_step deps (db, P) (db', P)"
| step_cancel: "CancelSO i db = (r3, db') \<Longrightarrow> sales_step deps (db, P) (db', P)"
| step_split_check: "split_check inp db = Inr (so, ls) \<Longrightarrow> list_all (\<lambda>a. 0 < al_Quantity a) (sp_Allocations inp) \<Longrightarrow>
    sales_step deps (db, P) (db, (inp, so_Status so) # P)"
| step_split_commit: "(inp, st) \<in> set P \<Longrightarrow> split_commit inp st db = (r3, db') \<Longrightarrow> sales_step deps (db, P) (db', P)"
| step_ship: "RecordShipmentTx its db = Inr db' \<Longrightarrow> sales_step deps (db, P) (db', P)"
| step_carry: "CreateCarryOverSOLine rf env coi db = (r4, db') \<Longrightarrow> sales_step deps (db, P) (db', P)"
| step_mapping: "CreateCustomerSKUMapping deps env mi (db, x) = (r5, (db', x')) \<Longrightarrow> sales_step deps (db, P) (db', P)"
| step_patch_mapping: "PatchCustomerSKUMapping deps env kmi (db, x) = (r5, (db', x')) \<Longrightarrow> sales_step deps (db, P) (db', P)"
| step_delete_mapping: "DeleteCustomerSKUMapping deps dmi (db, x) = (r3, (db', x')) \<Longrightarrow> sales_step deps (db, P) (db', P)"
| step_bulk: "BulkImportCustomerSKUMappings deps env bui (db, x) = (r6, (db', x')) \<Longrightarrow> sales_step deps (db, P) (db', P)"

definition empty_sales :: sales_db where
  "empty_sales = \<lparr>customers = [], sos = [], so_lines = [], mappings = [], customer_code_seq = 1, so_counters = []\<rparr>"

section \<open>Invariant\<close>

definition lines_of :: "uuid \<Rightarrow> sales_db \<Rightarrow> SalesOrderLine list" where
  "lines_of i db = filter (\<lambda>l. sl_SalesOrderID l = i) (so_lines db)"

definition line_ok :: "SalesOrderLine \<Rightarrow> bool" where
  "line_ok l \<longleftrightarrow> 0 \<le> sl_QtyShipped l \<and> sl_QtyShipped l \<le> sl_QtyPlanned l \<and> sl_QtyPlanned l \<le> sl_QtyOrdered l \<and> 0 < sl_QtyOrdered l \<and>
     in_int4 (sl_QtyOrdered l)"

text \<open>The status of an order and the quantities of its lines.\<close>

definition agree :: "SOStatus \<Rightarrow> SalesOrderLine list \<Rightarrow> bool" where
  "agree st ls \<longleftrightarrow>
     (st = SOStatusDraft \<longrightarrow> (\<forall>l \<in> set ls. sl_QtyPlanned l = 0)) \<and>
     ((\<exists>l \<in> set ls. 0 < sl_QtyShipped l) \<longrightarrow> st \<in> {SOStatusPartiallyShipped, SOStatusShipped, SOStatusCancelled}) \<and>
     (st = SOStatusShipped \<longleftrightarrow> ls \<noteq> [] \<and> (\<forall>l \<in> set ls. sl_QtyShipped l = sl_QtyOrdered l))"

abbreviation line_key :: "SalesOrderLine \<Rightarrow> uuid \<times> uuid" where
  "line_key l \<equiv> (sl_SalesOrderID l, sl_SKUID l)"

definition sales_ok :: "sales_db \<Rightarrow> bool" where
  "sales_ok db \<longleftrightarrow> keys_distinct so_ID (sos db) \<and> distinct (map so_Code (sos db)) \<and> keys_distinct sl_ID (so_lines db) \<and>
     distinct (map line_key (so_lines db)) \<and> (\<forall>l \<in> set (so_lines db). line_ok l \<and> sl_SalesOrderID l \<in> so_ID ` set (sos db)) \<and>
     (\<forall>so \<in> set (sos db). agree (so_Status so) (lines_of (so_ID so) db))"

section \<open>Evolution\<close>

fun so_future :: "SOStatus \<Rightarrow> SOStatus set" where
  "so_future SOStatusDraft = UNIV"
| "so_future SOStatusConfirmed = - {SOStatusDraft}"
| "so_future SOStatusInProduction = - {SOStatusDraft, SOStatusConfirmed}"
| "so_future SOStatusPartiallyShipped = {SOStatusPartiallyShipped, SOStatusShipped}"
| "so_future SOStatusShipped = {SOStatusShipped}"
| "so_future SOStatusCancelled = {SOStatusCancelled, SOStatusShipped}"

definition line_grows :: "SalesOrderLine \<Rightarrow> SalesOrderLine \<Rightarrow> bool" where
  "line_grows l l' \<longleftrightarrow> sl_ID l' = sl_ID l \<and> sl_SKUID l' = sl_SKUID l \<and> sl_QtyOrdered l' = sl_QtyOrdered l \<and>
     sl_UnitPrice l' = sl_UnitPrice l \<and> sl_QtyPlanned l \<le> sl_QtyPlanned l' \<and> sl_QtyShipped l \<le> sl_QtyShipped l'"

definition same_so :: "SalesOrder \<Rightarrow> SalesOrder \<Rightarrow> bool" where
  "same_so so so' \<longleftrightarrow> so_ID so' = so_ID so \<and> so_Code so' = so_Code so \<and> so_CustomerID so' = so_CustomerID so \<and>
     so_CreatedBy so' = so_CreatedBy so \<and> so_CreatedAt so' = so_CreatedAt so \<and> so_Status so' \<in> so_future (so_Status so) \<and>
     (so_Status so \<noteq> SOStatusDraft \<longrightarrow> so_Currency so' = so_Currency so \<and> so_Incoterm so' = so_Incoterm so)"

definition so_evolves :: "sales_db \<Rightarrow> sales_db \<Rightarrow> bool" where
  "so_evolves db db' \<longleftrightarrow> (\<forall>so \<in> set (sos db). \<exists>so' \<in> set (sos db'). same_so so so' \<and>
     (so_Status so \<noteq> SOStatusDraft \<longrightarrow> list_all2 line_grows (lines_of (so_ID so) db) (lines_of (so_ID so) db')))"

lemma same_so_refl [simp]: "same_so so so"
  by (cases "so_Status so") (simp_all add: same_so_def)

lemma same_so_trans: "same_so a b \<Longrightarrow> same_so b c \<Longrightarrow> same_so a c"
  by (cases "so_Status a"; cases "so_Status b") (auto simp: same_so_def)

lemma same_so_id: "same_so a b \<Longrightarrow> so_ID b = so_ID a"
  by (simp add: same_so_def)

lemma same_so_draft: "same_so a b \<Longrightarrow> so_Status a \<noteq> SOStatusDraft \<Longrightarrow> so_Status b \<noteq> SOStatusDraft"
  by (cases "so_Status a") (auto simp: same_so_def)

lemma line_grows_refl [simp]: "line_grows l l"
  by (simp add: line_grows_def)

lemma line_grows_trans: "line_grows a b \<Longrightarrow> line_grows b c \<Longrightarrow> line_grows a c"
  by (auto simp: line_grows_def)

lemma lines_grow_refl [simp]: "list_all2 line_grows ls ls"
  by (rule list_all2_refl) simp

lemma so_evolves_refl: "so_evolves db db"
  unfolding so_evolves_def by (metis same_so_refl lines_grow_refl)

lemma so_evolves_trans:
  assumes "so_evolves a b" and "so_evolves b c"
  shows "so_evolves a c"
  unfolding so_evolves_def
proof
  fix so assume "so \<in> set (sos a)"
  with assms(1) obtain sb where b: "sb \<in> set (sos b)" "same_so so sb"
    "so_Status so \<noteq> SOStatusDraft \<longrightarrow> list_all2 line_grows (lines_of (so_ID so) a) (lines_of (so_ID so) b)"
    unfolding so_evolves_def by blast
  with assms(2) obtain sc where c: "sc \<in> set (sos c)" "same_so sb sc"
    "so_Status sb \<noteq> SOStatusDraft \<longrightarrow> list_all2 line_grows (lines_of (so_ID sb) b) (lines_of (so_ID sb) c)"
    unfolding so_evolves_def by blast
  have "list_all2 line_grows (lines_of (so_ID so) a) (lines_of (so_ID so) c)" if "so_Status so \<noteq> SOStatusDraft"
    using b(3) c(3) same_so_draft [OF b(2) that] that same_so_id [OF b(2)]
    by (auto intro: list_all2_trans [OF line_grows_trans])
  then show "\<exists>so' \<in> set (sos c). same_so so so' \<and>
      (so_Status so \<noteq> SOStatusDraft \<longrightarrow> list_all2 line_grows (lines_of (so_ID so) a) (lines_of (so_ID so) c))"
    using same_so_trans [OF b(2) c(2)] by (intro bexI [OF _ c(1)]) simp
qed

section \<open>Edits\<close>

definition keeps_so :: "(SalesOrder \<Rightarrow> SalesOrder) \<Rightarrow> bool" where
  "keeps_so f \<longleftrightarrow> (\<forall>r. so_ID (f r) = so_ID r \<and> so_Code (f r) = so_Code r \<and> so_CustomerID (f r) = so_CustomerID r \<and>
     so_CreatedBy (f r) = so_CreatedBy r \<and> so_CreatedAt (f r) = so_CreatedAt r \<and> so_Status (f r) = so_Status r)"

definition forget_parent :: "uuid list \<Rightarrow> SalesOrderLine \<Rightarrow> SalesOrderLine" where
  "forget_parent gone l = (if (case sl_Parent l of None \<Rightarrow> False | Some i \<Rightarrow> i \<in> set gone) then l\<lparr>sl_Parent := None\<rparr> else l)"

inductive edit :: "sales_db \<Rightarrow> sales_db \<Rightarrow> bool" where
  e_other: "sos db' = sos db \<Longrightarrow> so_lines db' = so_lines db \<Longrightarrow> edit db db'"
| e_order: "sos db' = sos db @ [so] \<Longrightarrow> so_lines db' = so_lines db \<Longrightarrow> so_ID so \<notin> so_ID ` set (sos db) \<Longrightarrow>
    so_Code so \<notin> so_Code ` set (sos db) \<Longrightarrow> so_Status so = SOStatusDraft \<Longrightarrow> edit db db'"
| e_header: "sos db' = update_where (\<lambda>r. so_ID r = i) f (sos db) \<Longrightarrow> so_lines db' = so_lines db \<Longrightarrow> keeps_so f \<Longrightarrow>
    so_row i db = Some so \<Longrightarrow> so_Status so = SOStatusDraft \<Longrightarrow> edit db db'"
| e_line: "sos db' = sos db \<Longrightarrow> so_lines db' = so_lines db @ [l] \<Longrightarrow> so_row (sl_SalesOrderID l) db = Some so \<Longrightarrow>
    so_Status so = SOStatusDraft \<Longrightarrow> sl_ID l \<notin> sl_ID ` set (so_lines db) \<Longrightarrow> line_key l \<notin> line_key ` set (so_lines db) \<Longrightarrow>
    sl_QtyPlanned l = 0 \<Longrightarrow> sl_QtyShipped l = 0 \<Longrightarrow> 0 < sl_QtyOrdered l \<Longrightarrow> in_int4 (sl_QtyOrdered l) \<Longrightarrow> edit db db'"
| e_delete: "sos db' = sos db \<Longrightarrow> so_lines db' = map (forget_parent gone) (delete_where (\<lambda>l. sl_SalesOrderID l = i) (so_lines db)) \<Longrightarrow>
    so_row i db = Some so \<Longrightarrow> so_Status so = SOStatusDraft \<Longrightarrow> edit db db'"
| e_status: "sos db' = update_where (\<lambda>r. so_ID r = i) (\<lambda>r. r\<lparr>so_Status := st\<rparr>) (sos db) \<Longrightarrow> so_lines db' = so_lines db \<Longrightarrow>
    so_row i db = Some so \<Longrightarrow>
    (so_Status so, st) \<in> {(SOStatusDraft, SOStatusConfirmed), (SOStatusConfirmed, SOStatusInProduction)} \<or>
    so_Status so \<in> {SOStatusDraft, SOStatusConfirmed, SOStatusInProduction} \<and> st = SOStatusCancelled \<Longrightarrow> edit db db'"
| e_planned: "db' = add_planned i q db \<Longrightarrow> line_row i db = Some l \<Longrightarrow> 0 < q \<Longrightarrow> sl_QtyPlanned l + q \<le> sl_QtyOrdered l \<Longrightarrow>
    so_row (sl_SalesOrderID l) db = Some so \<Longrightarrow> so_Status so \<noteq> SOStatusDraft \<Longrightarrow> edit db db'"
| e_ship: "recordShipmentTx its db = Inr db' \<Longrightarrow> edit db db'"

lemma edit_refl [simp]: "edit db db"
  by (rule e_other) simp_all

lemma sales_okD:
  assumes "sales_ok db"
  shows "keys_distinct so_ID (sos db)" "distinct (map so_Code (sos db))" "keys_distinct sl_ID (so_lines db)"
    and "distinct (map line_key (so_lines db))"
    and "l \<in> set (so_lines db) \<Longrightarrow> line_ok l" "l \<in> set (so_lines db) \<Longrightarrow> sl_SalesOrderID l \<in> so_ID ` set (sos db)"
    and "so \<in> set (sos db) \<Longrightarrow> agree (so_Status so) (lines_of (so_ID so) db)"
  using assms by (simp_all add: sales_ok_def)

lemmas so_row_only = row_by_only [OF sales_okD(1)]
lemmas line_row_only = row_by_only [OF sales_okD(3)]

text \<open>Most edits leave the lines of every order but one, or every order but one, as they are.\<close>

lemma sales_okI:
  assumes "keys_distinct so_ID (sos db)" and "distinct (map so_Code (sos db))" and "keys_distinct sl_ID (so_lines db)"
    and "distinct (map line_key (so_lines db))" and "\<And>l. l \<in> set (so_lines db) \<Longrightarrow> line_ok l"
    and "\<And>l. l \<in> set (so_lines db) \<Longrightarrow> sl_SalesOrderID l \<in> so_ID ` set (sos db)"
    and "\<And>so. so \<in> set (sos db) \<Longrightarrow> agree (so_Status so) (lines_of (so_ID so) db)"
  shows "sales_ok db"
  using assms by (simp add: sales_ok_def)

lemma so_evolvesI:
  assumes "\<And>so. so \<in> set (sos db) \<Longrightarrow> f so \<in> set (sos db') \<and> same_so so (f so)"
    and "\<And>so. so \<in> set (sos db) \<Longrightarrow> so_Status so \<noteq> SOStatusDraft \<Longrightarrow> list_all2 line_grows (lines_of (so_ID so) db) (lines_of (so_ID so) db')"
  shows "so_evolves db db'"
  unfolding so_evolves_def using assms by blast

lemma update_so:
  assumes "sales_ok db" and "sos db' = update_where (\<lambda>r. so_ID r = i) f (sos db)" and "so_lines db' = so_lines db"
    and "so_row i db = Some so" and "\<And>r. so_ID (f r) = so_ID r \<and> so_Code (f r) = so_Code r"
    and "same_so so (f so)" and "agree (so_Status (f so)) (lines_of i db)"
  shows "sales_ok db' \<and> so_evolves db db'"
proof
  note ok = sales_okD [OF assms(1)]
  have ls: "lines_of j db' = lines_of j db" for j by (simp add: lines_of_def assms(3))
  have row: "r = so" if "r \<in> set (sos db)" "so_ID r = i" for r
    using so_row_only [OF assms(1,4) that(1)] that(2) by simp
  have ids: "map so_ID (sos db') = map so_ID (sos db)" "map so_Code (sos db') = map so_Code (sos db)"
    unfolding assms(2) using assms(5) by (auto intro: map_update_where)
  then have idset: "so_ID ` set (sos db') = so_ID ` set (sos db)" by (metis list.set_map)
  show "sales_ok db'"
  proof (rule sales_okI)
    fix r' assume "r' \<in> set (sos db')"
    then obtain r where r: "r \<in> set (sos db)" "r' = (if so_ID r = i then f r else r)"
      unfolding assms(2) by (rule in_update_whereE)
    show "agree (so_Status r') (lines_of (so_ID r') db')"
      using r row [OF r(1)] ok(7) [OF r(1)] assms(5,7) by (auto simp: ls)
  qed (use ok ids idset in \<open>simp_all add: assms(3)\<close>)
  show "so_evolves db db'"
    by (rule so_evolvesI [where f = "\<lambda>r. if so_ID r = i then f r else r"])
      (use row assms(6) in \<open>auto simp: ls assms(2) set_update_where\<close>)
qed

lemma agree_draft: "(\<And>l. l \<in> set ls \<Longrightarrow> line_ok l) \<Longrightarrow> (\<And>l. l \<in> set ls \<Longrightarrow> sl_QtyPlanned l = 0) \<Longrightarrow> agree SOStatusDraft ls"
proof -
  assume ok: "\<And>l. l \<in> set ls \<Longrightarrow> line_ok l" and zero: "\<And>l. l \<in> set ls \<Longrightarrow> sl_QtyPlanned l = 0"
  have "\<forall>l \<in> set ls. sl_QtyShipped l = 0 \<and> 0 < sl_QtyOrdered l"
  proof
    show "sl_QtyShipped l = 0 \<and> 0 < sl_QtyOrdered l" if "l \<in> set ls" for l
      using ok [OF that] zero [OF that] by (simp add: line_ok_def)
  qed
  then show ?thesis using zero by (cases ls) (auto simp: agree_def)
qed

lemma agree_unshipped:
  "agree st ls \<Longrightarrow> st \<in> {SOStatusDraft, SOStatusConfirmed, SOStatusInProduction} \<Longrightarrow>
   st' \<in> {SOStatusConfirmed, SOStatusInProduction, SOStatusCancelled} \<Longrightarrow> (\<And>l. l \<in> set ls \<Longrightarrow> line_ok l) \<Longrightarrow> agree st' ls"
  by (auto simp: agree_def line_ok_def)

lemma lines_of_ok: "sales_ok db \<Longrightarrow> l \<in> set (lines_of i db) \<Longrightarrow> line_ok l"
  using sales_okD(5) by (auto simp: lines_of_def)

lemma edit_order_ok:
  assumes "sales_ok db" and "sos db' = sos db @ [so]" and "so_lines db' = so_lines db" and "so_ID so \<notin> so_ID ` set (sos db)"
    and "so_Code so \<notin> so_Code ` set (sos db)" and "so_Status so = SOStatusDraft"
  shows "sales_ok db' \<and> so_evolves db db'"
proof
  note ok = sales_okD [OF assms(1)]
  have ls: "lines_of j db' = lines_of j db" for j by (simp add: lines_of_def assms(3))
  have none: "lines_of (so_ID so) db = []" using ok(6) assms(4) unfolding lines_of_def filter_empty_conv by metis
  show "sales_ok db'"
    by (rule sales_okI) (use ok assms(2-6) in \<open>auto simp: ls none agree_def\<close>)
  show "so_evolves db db'"
    by (rule so_evolvesI [where f = id]) (auto simp: ls assms(2))
qed

lemma edit_line_ok:
  assumes "sales_ok db" and "sos db' = sos db" and "so_lines db' = so_lines db @ [l]" and "so_row (sl_SalesOrderID l) db = Some so"
    and "so_Status so = SOStatusDraft" and "sl_ID l \<notin> sl_ID ` set (so_lines db)" and "line_key l \<notin> line_key ` set (so_lines db)"
    and "sl_QtyPlanned l = 0" and "sl_QtyShipped l = 0" and "0 < sl_QtyOrdered l" and "in_int4 (sl_QtyOrdered l)"
  shows "sales_ok db' \<and> so_evolves db db'"
proof
  note ok = sales_okD [OF assms(1)]
  have so: "so \<in> set (sos db)" "so_ID so = sl_SalesOrderID l" using row_by_SomeD [OF assms(4)] by auto
  have ls: "lines_of j db' = lines_of j db @ (if j = sl_SalesOrderID l then [l] else [])" for j
    by (simp add: lines_of_def assms(3))
  have l: "line_ok l" using assms(8-11) by (simp add: line_ok_def)
  have draft: "agree SOStatusDraft (lines_of (so_ID so) db')"
  proof (rule agree_draft)
    show "line_ok r" if "r \<in> set (lines_of (so_ID so) db')" for r
      using that lines_of_ok [OF assms(1)] l by (auto simp: ls split: if_splits)
    show "sl_QtyPlanned r = 0" if "r \<in> set (lines_of (so_ID so) db')" for r
      using that ok(7) [OF so(1)] assms(5,8) by (auto simp: ls agree_def split: if_splits)
  qed
  show "sales_ok db'"
  proof (rule sales_okI)
    fix r assume r: "r \<in> set (sos db')"
    show "agree (so_Status r) (lines_of (so_ID r) db')"
    proof (cases "r = so")
      case True
      then show ?thesis using draft assms(5) by simp
    next
      case False
      then have "so_ID r \<noteq> sl_SalesOrderID l" using so_row_only [OF assms(1,4)] r assms(2) by auto
      then show ?thesis using ok(7) r assms(2) by (simp add: ls)
    qed
  qed (use ok l so assms(2,3,6,7) in \<open>auto simp: rev_image_eqI\<close>)
  show "so_evolves db db'"
  proof (rule so_evolvesI [where f = id])
    show "list_all2 line_grows (lines_of (so_ID r) db) (lines_of (so_ID r) db')"
      if "r \<in> set (sos db)" "so_Status r \<noteq> SOStatusDraft" for r
      using that so_row_only [OF assms(1,4) that(1)] assms(5) by (auto simp: ls)
  qed (simp add: assms(2))
qed

lemma forget_parent_simps [simp]:
  "sl_ID (forget_parent g l) = sl_ID l" "sl_SalesOrderID (forget_parent g l) = sl_SalesOrderID l" "sl_SKUID (forget_parent g l) = sl_SKUID l"
  "sl_QtyOrdered (forget_parent g l) = sl_QtyOrdered l" "sl_QtyPlanned (forget_parent g l) = sl_QtyPlanned l"
  "sl_QtyShipped (forget_parent g l) = sl_QtyShipped l" "sl_UnitPrice (forget_parent g l) = sl_UnitPrice l"
  "line_grows l (forget_parent g l)" "line_ok (forget_parent g l) \<longleftrightarrow> line_ok l"
  by (auto simp: forget_parent_def line_grows_def line_ok_def split: option.splits)

lemma agree_map: "(\<And>l. sl_QtyOrdered (g l) = sl_QtyOrdered l \<and> sl_QtyPlanned (g l) = sl_QtyPlanned l \<and> sl_QtyShipped (g l) = sl_QtyShipped l) \<Longrightarrow>
   agree st (map g ls) \<longleftrightarrow> agree st ls"
  by (simp add: agree_def)

lemma distinct_map_map_filter: "(\<And>l. k (g l) = k l) \<Longrightarrow> distinct (map k t) \<Longrightarrow> distinct (map k (map g (filter P t)))"
  by (induction t) auto

lemma edit_delete_ok:
  assumes "sales_ok db" and "sos db' = sos db"
    and "so_lines db' = map (forget_parent gone) (delete_where (\<lambda>l. sl_SalesOrderID l = i) (so_lines db))"
    and "so_row i db = Some so" and "so_Status so = SOStatusDraft"
  shows "sales_ok db' \<and> so_evolves db db'"
proof
  note ok = sales_okD [OF assms(1)]
  have ls: "lines_of j db' = (if j = i then [] else map (forget_parent gone) (lines_of j db))" for j
  proof -
    have "filter (\<lambda>l. sl_SalesOrderID l = j) (map (forget_parent gone) (filter (\<lambda>l. sl_SalesOrderID l \<noteq> i) t)) =
        (if j = i then [] else map (forget_parent gone) (filter (\<lambda>l. sl_SalesOrderID l = j) t))" for t
      by (induction t) auto
    then show ?thesis by (simp add: lines_of_def assms(3) delete_where_def)
  qed
  show "sales_ok db'"
  proof (rule sales_okI)
    show "agree (so_Status r) (lines_of (so_ID r) db')" if "r \<in> set (sos db')" for r
      using that so_row_only [OF assms(1,4), of r] assms(2,5) ok(7) [of r]
      by (auto simp: ls agree_map) (auto simp: agree_def)
  qed (use ok assms(2,3) in \<open>auto simp: delete_where_def simp del: map_map intro!: distinct_map_map_filter\<close>)
  show "so_evolves db db'"
  proof (rule so_evolvesI [where f = id])
    show "list_all2 line_grows (lines_of (so_ID r) db) (lines_of (so_ID r) db')"
      if "r \<in> set (sos db)" "so_Status r \<noteq> SOStatusDraft" for r
      using that so_row_only [OF assms(1,4) that(1)] assms(5) by (auto simp: ls list_all2_conv_all_nth)
  qed (simp add: assms(2))
qed

text \<open>Quantities of the lines grow, and statuses follow.\<close>

definition moved :: "SalesOrderLine \<Rightarrow> SalesOrderLine \<Rightarrow> bool" where
  "moved l l' \<longleftrightarrow> line_grows l l' \<and> sl_SalesOrderID l' = sl_SalesOrderID l \<and> line_ok l'"

lemma moved_filter:
  "list_all2 moved xs ys \<Longrightarrow> list_all2 moved (filter (\<lambda>l. sl_SalesOrderID l = i) xs) (filter (\<lambda>l. sl_SalesOrderID l = i) ys)"
  by (induction rule: list_all2_induct) (auto simp: moved_def)

lemma moved_lines_of:
  "list_all2 moved (so_lines db) (so_lines db') \<Longrightarrow> list_all2 moved (lines_of i db) (lines_of i db')"
  unfolding lines_of_def by (rule moved_filter)

lemma moved_grow: "list_all2 moved xs ys \<Longrightarrow> list_all2 line_grows xs ys"
  by (erule list_all2_mono) (simp add: moved_def)

lemma moved_keys: "list_all2 moved xs ys \<Longrightarrow> map sl_ID ys = map sl_ID xs \<and> map line_key ys = map line_key xs"
  by (induction rule: list_all2_induct) (auto simp: moved_def line_grows_def)

lemma list_all2_D2: "list_all2 P xs ys \<Longrightarrow> y \<in> set ys \<Longrightarrow> \<exists>x \<in> set xs. P x y"
  by (induction rule: list_all2_induct) auto

lemma list_all2_D1: "list_all2 P xs ys \<Longrightarrow> x \<in> set xs \<Longrightarrow> \<exists>y \<in> set ys. P x y"
  by (induction rule: list_all2_induct) auto

lemma list_all2_zip_D1: "list_all2 P xs ys \<Longrightarrow> x \<in> set xs \<Longrightarrow> \<exists>y. (x, y) \<in> set (zip xs ys) \<and> P x y"
  by (induction rule: list_all2_induct) auto

lemma lines_move_ok:
  assumes "sales_ok db" and "list_all2 moved (so_lines db) (so_lines db')" and "sos db' = map g (sos db)"
    and "\<And>so. so \<in> set (sos db) \<Longrightarrow> same_so so (g so) \<and> agree (so_Status (g so)) (lines_of (so_ID so) db')"
  shows "sales_ok db' \<and> so_evolves db db'"
proof
  note ok = sales_okD [OF assms(1)]
  have id: "so_ID (g so) = so_ID so \<and> so_Code (g so) = so_Code so" if "so \<in> set (sos db)" for so
    using assms(4) [OF that] by (simp add: same_so_def)
  then have ids: "map so_ID (sos db') = map so_ID (sos db)" "map so_Code (sos db') = map so_Code (sos db)"
    by (simp_all add: assms(3))
  show "sales_ok db'"
  proof (rule sales_okI)
    show "sl_SalesOrderID l \<in> so_ID ` set (sos db')" if "l \<in> set (so_lines db')" for l
      using list_all2_D2 [OF assms(2) that] ok(6) ids by (metis list.set_map moved_def)
    show "line_ok l" if "l \<in> set (so_lines db')" for l
      using list_all2_D2 [OF assms(2) that] by (auto simp: moved_def)
    show "agree (so_Status r) (lines_of (so_ID r) db')" if "r \<in> set (sos db')" for r
      using that assms(3,4) id by auto
  qed (use ok ids moved_keys [OF assms(2)] in simp_all)
  show "so_evolves db db'"
    by (rule so_evolvesI [where f = g])
      (use assms(3,4) moved_grow [OF moved_lines_of [OF assms(2)]] in auto)
qed

lemma agree_plan:
  assumes "agree st ls" and "\<And>l. sl_QtyOrdered (g l) = sl_QtyOrdered l \<and> sl_QtyShipped (g l) = sl_QtyShipped l"
    and "\<And>l. st = SOStatusDraft \<Longrightarrow> l \<in> set ls \<Longrightarrow> sl_QtyPlanned (g l) = 0"
  shows "agree st (map g ls)"
  using assms unfolding agree_def by auto

lemma edit_planned_ok:
  assumes "sales_ok db" and "db' = add_planned i q db" and "line_row i db = Some l" and "0 < q"
    and "sl_QtyPlanned l + q \<le> sl_QtyOrdered l" and "so_row (sl_SalesOrderID l) db = Some so" and "so_Status so \<noteq> SOStatusDraft"
  shows "sales_ok db' \<and> so_evolves db db'"
proof -
  note ok = sales_okD [OF assms(1)]
  let ?f = "\<lambda>r. if sl_ID r = i then r\<lparr>sl_QtyPlanned := sl_QtyPlanned r + q\<rparr> else r"
  have lines: "so_lines db' = map ?f (so_lines db)" and sos: "sos db' = map id (sos db)"
    by (simp_all add: assms(2) add_planned_def update_where_def)
  have mv: "moved r (?f r)" if "r \<in> set (so_lines db)" for r
    using ok(5) [OF that] line_row_only [OF assms(1,3) that] assms(4,5)
    by (auto simp: moved_def line_grows_def line_ok_def)
  then have all: "list_all2 moved (so_lines db) (so_lines db')"
    unfolding lines by (simp add: list_all2_conv_all_nth)
  have ag: "agree (so_Status r) (lines_of (so_ID r) db')" if r: "r \<in> set (sos db)" for r
  proof -
    have eq: "lines_of (so_ID r) db' = map ?f (lines_of (so_ID r) db)"
      unfolding lines_of_def lines filter_map by (rule arg_cong [where f = "map ?f"], rule filter_cong) auto
    have zero: "sl_QtyPlanned (?f k) = 0" if "so_Status r = SOStatusDraft" "k \<in> set (lines_of (so_ID r) db)" for k
    proof -
      have "sl_ID k \<noteq> i"
        using that r assms(6,7) line_row_only [OF assms(1,3)] so_row_only [OF assms(1,6) r] by (auto simp: lines_of_def)
      then show ?thesis using ok(7) [OF r] that by (simp add: agree_def)
    qed
    show ?thesis unfolding eq by (rule agree_plan [OF ok(7) [OF r] _ zero]) simp
  qed
  show ?thesis by (rule lines_move_ok [OF assms(1) all sos]) (simp add: ag)
qed

section \<open>Shipments\<close>

definition recomputed :: "SOStatus \<Rightarrow> SalesOrderLine list \<Rightarrow> SOStatus" where
  "recomputed st ls =
     (if list_all (\<lambda>l. sl_QtyShipped l \<ge> sl_QtyOrdered l) ls then SOStatusShipped
      else if list_ex (\<lambda>l. sl_QtyShipped l > 0) ls \<and> st \<in> {SOStatusConfirmed, SOStatusInProduction, SOStatusPartiallyShipped}
      then SOStatusPartiallyShipped else st)"

lemma recompute_sos:
  "recomputeSOStatusTx i db = db\<lparr>sos := map (\<lambda>so. if so_ID so = i then so\<lparr>so_Status := recomputed (so_Status so) (lines_of i db)\<rparr> else so) (sos db)\<rparr>"
proof -
  have same: "so\<lparr>so_Status := st\<rparr> = so" if "so_Status so = st" for so :: SalesOrder and st using that by auto
  have keep: "db\<lparr>sos := map (\<lambda>so. if so_ID so = i then so\<lparr>so_Status := so_Status so\<rparr> else so) (sos db)\<rparr> = db"
    by (cases db) (simp add: same map_idI)
  note defs = recomputeSOStatusTx_def set_so_status_def recomputed_def Let_def lines_of_def select_where_def update_where_def
  show ?thesis
  proof (cases "list_all (\<lambda>l. sl_QtyOrdered l \<le> sl_QtyShipped l) (filter (\<lambda>l. sl_SalesOrderID l = i) (so_lines db)) \<or>
      list_ex (\<lambda>l. 0 < sl_QtyShipped l) (filter (\<lambda>l. sl_SalesOrderID l = i) (so_lines db))")
    case True
    then show ?thesis unfolding defs by (auto simp: same intro!: sales_db.fold_congs [OF refl refl] map_cong)
  next
    case False
    then show ?thesis by (simp add: defs keep cong: if_cong)
  qed
qed

lemma fold_recompute:
  "fold recomputeSOStatusTx (remdups is) db =
     db\<lparr>sos := map (\<lambda>so. if so_ID so \<in> set is then so\<lparr>so_Status := recomputed (so_Status so) (lines_of (so_ID so) db)\<rparr> else so) (sos db)\<rparr>"
proof -
  have "fold recomputeSOStatusTx js db =
     db\<lparr>sos := map (\<lambda>so. if so_ID so \<in> set js then so\<lparr>so_Status := recomputed (so_Status so) (lines_of (so_ID so) db)\<rparr> else so) (sos db)\<rparr>"
    if "distinct js" for js db
    using that
  proof (induction js arbitrary: db)
    case Nil
    then show ?case by simp
  next
    case (Cons j js)
    have "lines_of i (recomputeSOStatusTx j db) = lines_of i db" for i by (simp add: recompute_sos lines_of_def)
    then show ?case using Cons by (auto simp: Cons.IH recompute_sos lines_of_def intro!: map_cong)
  qed
  from this [of "remdups is"] show ?thesis by simp
qed

text \<open>A line a shipment may have touched, seen with the orders it touched.\<close>

definition shipped :: "uuid set \<Rightarrow> SalesOrderLine \<Rightarrow> SalesOrderLine \<Rightarrow> bool" where
  "shipped S l l' \<longleftrightarrow> moved l l' \<and> sl_QtyPlanned l' = sl_QtyPlanned l \<and> (l' = l \<or> sl_SalesOrderID l \<in> S)"

lemma shipped_trans: "shipped S a b \<Longrightarrow> shipped T b c \<Longrightarrow> shipped (S \<union> T) a c"
  by (auto simp: shipped_def moved_def intro: line_grows_trans)

lemma shipped_refl: "(\<And>l. l \<in> set ls \<Longrightarrow> line_ok l) \<Longrightarrow> list_all2 (shipped S) ls ls"
  by (rule list.rel_refl_strong) (simp add: shipped_def moved_def)

lemma ship_item_lines:
  assumes "ship_item it db = Inr (i, db')" and "keys_distinct sl_ID (so_lines db)" and "\<And>l. l \<in> set (so_lines db) \<Longrightarrow> line_ok l"
  shows "sos db' = sos db" and "list_all2 (shipped {i}) (so_lines db) (so_lines db')"
    and "\<exists>l \<in> set (so_lines db'). sl_SalesOrderID l = i \<and> 0 < sl_QtyShipped l"
proof -
  let ?f = "\<lambda>r. if sl_ID r = shi_SOLineID it then r\<lparr>sl_QtyShipped := sl_QtyShipped r + shi_Qty it\<rparr> else r"
  obtain l where l: "line_row (shi_SOLineID it) db = Some l" "0 < shi_Qty it" "sl_QtyShipped l + shi_Qty it \<le> sl_QtyPlanned l"
    and i: "i = sl_SalesOrderID l" and db': "db' = add_shipped (shi_SOLineID it) (shi_Qty it) db"
    using assms(1) by (auto simp: ship_item_def split: if_splits option.splits)
  show "sos db' = sos db" by (simp add: db' add_shipped_def)
  have lines: "so_lines db' = map ?f (so_lines db)" by (simp add: db' add_shipped_def update_where_def)
  have "shipped {i} r (?f r)" if "r \<in> set (so_lines db)" for r
    using assms(3) [OF that] row_by_only [OF assms(2) l(1) that] l i
    by (auto simp: shipped_def moved_def line_grows_def line_ok_def)
  then show "list_all2 (shipped {i}) (so_lines db) (so_lines db')"
    unfolding lines by (simp add: list_all2_conv_all_nth)
  have "l \<in> set (so_lines db)" "sl_ID l = shi_SOLineID it" using row_by_SomeD [OF l(1)] by auto
  then show "\<exists>l \<in> set (so_lines db'). sl_SalesOrderID l = i \<and> 0 < sl_QtyShipped l"
    unfolding lines using assms(3) l(2) i by (intro bexI [of _ "?f l"]) (fastforce simp: line_ok_def)+
qed

lemma ship_items_lines:
  "ship_items its db = Inr (ids, db') \<Longrightarrow> keys_distinct sl_ID (so_lines db) \<Longrightarrow> (\<And>l. l \<in> set (so_lines db) \<Longrightarrow> line_ok l) \<Longrightarrow>
     sos db' = sos db \<and> list_all2 (shipped (set ids)) (so_lines db) (so_lines db') \<and>
     (\<forall>i \<in> set ids. \<exists>l \<in> set (so_lines db'). sl_SalesOrderID l = i \<and> 0 < sl_QtyShipped l)"
proof (induction its arbitrary: db ids)
  case Nil
  then show ?case by (auto intro: shipped_refl)
next
  case (Cons it its)
  from Cons.prems(1) obtain i db1 ids2 where one: "ship_item it db = Inr (i, db1)" and rest: "ship_items its db1 = Inr (ids2, db')"
    and ids: "ids = i # ids2" by (auto split: sum.splits prod.splits)
  note o = ship_item_lines [OF one Cons.prems(2,3)]
  have "list_all2 moved (so_lines db) (so_lines db1)" using o(2) by (rule list_all2_mono) (auto simp: shipped_def)
  from moved_keys [OF this] have keys: "keys_distinct sl_ID (so_lines db1)" using Cons.prems(2) by simp
  have "line_ok l" if "l \<in> set (so_lines db1)" for l
    using list_all2_D2 [OF o(2) that] by (auto simp: shipped_def moved_def)
  note r = Cons.IH [OF rest keys this]
  have "list_all2 (shipped (set ids)) (so_lines db) (so_lines db')"
    by (rule list_all2_trans [OF _ o(2) conjunct1 [OF conjunct2 [OF r]]]) (use shipped_trans ids in fastforce)
  moreover have "\<exists>l' \<in> set (so_lines db'). sl_SalesOrderID l' = i \<and> 0 < sl_QtyShipped l'"
  proof -
    obtain l where l: "l \<in> set (so_lines db1)" "sl_SalesOrderID l = i" "0 < sl_QtyShipped l" using o(3) by blast
    from list_all2_D1 [OF conjunct1 [OF conjunct2 [OF r]] l(1)] obtain l' where "l' \<in> set (so_lines db')" "shipped (set ids2) l l'" by blast
    then show ?thesis using l(2,3) by (intro bexI [of _ l']) (auto simp: shipped_def moved_def line_grows_def)
  qed
  ultimately show ?case using r o(1) ids by auto
qed

lemma agree_shipped:
  assumes "agree st ls" and "list_all2 (shipped S) ls ls'" and "\<And>l. l \<in> set ls \<Longrightarrow> line_ok l" and "\<exists>l \<in> set ls'. 0 < sl_QtyShipped l"
  shows "agree (recomputed st ls') ls' \<and> recomputed st ls' \<in> so_future st"
proof -
  have ok: "line_ok l'" if "l' \<in> set ls'" for l'
    using list_all2_D2 [OF assms(2) that] by (auto simp: shipped_def moved_def)
  have full: "(\<forall>l' \<in> set ls'. sl_QtyOrdered l' \<le> sl_QtyShipped l') \<longleftrightarrow> (\<forall>l' \<in> set ls'. sl_QtyShipped l' = sl_QtyOrdered l')"
    by (rule ball_cong [OF refl]) (use ok in \<open>fastforce simp: line_ok_def\<close>)
  have nonempty: "ls' \<noteq> []" "ls \<noteq> []" using assms(4) list_all2_lengthD [OF assms(2)] by auto
  have "st \<noteq> SOStatusDraft"
  proof
    assume draft: "st = SOStatusDraft"
    from assms(4) obtain l' where l': "l' \<in> set ls'" "0 < sl_QtyShipped l'" by blast
    from list_all2_D2 [OF assms(2) l'(1)] obtain l where "l \<in> set ls" "shipped S l l'" by blast
    then show False using draft assms(1) l'(2) by (auto simp: agree_def shipped_def moved_def line_ok_def)
  qed
  moreover have "\<forall>l' \<in> set ls'. sl_QtyShipped l' \<ge> sl_QtyOrdered l'" if "st = SOStatusShipped"
  proof
    fix l' assume "l' \<in> set ls'"
    from list_all2_D2 [OF assms(2) this] obtain l where "l \<in> set ls" "shipped S l l'" by blast
    then show "sl_QtyShipped l' \<ge> sl_QtyOrdered l'" using that assms(1) by (auto simp: agree_def shipped_def moved_def line_grows_def)
  qed
  ultimately show ?thesis
    using assms(4) nonempty
    by (cases st) (simp_all add: agree_def recomputed_def list_all_iff list_ex_iff full)
qed

text \<open>What a recorded shipment leaves, order by order.\<close>

lemma recordShipmentTx_view:
  assumes "sales_ok db" and "recordShipmentTx its db = Inr db'"
  obtains S where "sos db' = map (\<lambda>so. if so_ID so \<in> S then so\<lparr>so_Status := recomputed (so_Status so) (lines_of (so_ID so) db')\<rparr> else so) (sos db)"
    and "list_all2 (shipped S) (so_lines db) (so_lines db')"
    and "\<And>i. list_all2 (shipped S) (lines_of i db) (lines_of i db')"
    and "\<And>i. i \<in> S \<Longrightarrow> \<exists>l \<in> set (lines_of i db'). 0 < sl_QtyShipped l"
    and "\<And>i. i \<notin> S \<Longrightarrow> lines_of i db' = lines_of i db"
proof -
  note ok = sales_okD [OF assms(1)]
  from assms(2) obtain ids db1 where items: "ship_items its db = Inr (ids, db1)"
    and db': "db' = fold recomputeSOStatusTx (remdups ids) db1" by (auto simp: recordShipmentTx_def split: sum.splits)
  note one = ship_items_lines [OF items ok(3,5)]
  have lines: "so_lines db' = so_lines db1" unfolding db' fold_recompute by simp
  then have ls: "lines_of i db' = lines_of i db1" for i by (simp add: lines_of_def)
  have sos: "sos db' = map (\<lambda>so. if so_ID so \<in> set ids then so\<lparr>so_Status := recomputed (so_Status so) (lines_of (so_ID so) db')\<rparr> else so) (sos db)"
    unfolding ls unfolding db' fold_recompute using one by simp
  have sh: "list_all2 (shipped (set ids)) (lines_of i db) (lines_of i db')" for i
  proof -
    have "list_all2 (shipped S) (filter (\<lambda>l. sl_SalesOrderID l = i) xs) (filter (\<lambda>l. sl_SalesOrderID l = i) ys)"
      if "list_all2 (shipped S) xs ys" for S xs ys
      using that by (induction rule: list_all2_induct) (auto simp: shipped_def moved_def)
    then show ?thesis unfolding lines_of_def lines using one by blast
  qed
  have same: "lines_of i db' = lines_of i db" if "i \<notin> set ids" for i
  proof -
    have "list_all2 (=) (lines_of i db) (lines_of i db')"
      using sh [of i] that
      by (auto simp: shipped_def lines_of_def list_all2_conv_all_nth) (metis (mono_tags, lifting) mem_Collect_eq nth_mem set_filter)
    then show ?thesis by (simp add: list.rel_eq)
  qed
  have "\<exists>l \<in> set (lines_of i db'). 0 < sl_QtyShipped l" if "i \<in> set ids" for i
    unfolding lines_of_def lines using one that by auto
  then show ?thesis using that [OF sos _ sh _ same] one lines by metis
qed

lemma edit_ship_ok:
  assumes "sales_ok db" and "recordShipmentTx its db = Inr db'"
  shows "sales_ok db' \<and> so_evolves db db'"
  using assms
proof (rule recordShipmentTx_view)
  fix S
  let ?g = "\<lambda>so. if so_ID so \<in> S then so\<lparr>so_Status := recomputed (so_Status so) (lines_of (so_ID so) db')\<rparr> else so"
  assume sos: "sos db' = map ?g (sos db)" and lines: "list_all2 (shipped S) (so_lines db) (so_lines db')"
    and sh: "\<And>i. list_all2 (shipped S) (lines_of i db) (lines_of i db')"
    and some: "\<And>i. i \<in> S \<Longrightarrow> \<exists>l \<in> set (lines_of i db'). 0 < sl_QtyShipped l"
    and same: "\<And>i. i \<notin> S \<Longrightarrow> lines_of i db' = lines_of i db"
  have mv: "list_all2 moved (so_lines db) (so_lines db')"
    using lines by (rule list_all2_mono) (auto simp: shipped_def)
  show ?thesis
  proof (rule lines_move_ok [OF assms(1) mv sos])
    fix so assume so: "so \<in> set (sos db)"
    show "same_so so (?g so) \<and> agree (so_Status (?g so)) (lines_of (so_ID so) db')"
      using agree_shipped [OF sales_okD(7) [OF assms(1) so] sh lines_of_ok [OF assms(1)] some] same [of "so_ID so"] sales_okD(7) [OF assms(1) so]
      by (cases "so_ID so \<in> S") (auto simp: same_so_def)
  qed
qed

theorem edit_ok:
  assumes "sales_ok db" and "edit db db'"
  shows "sales_ok db' \<and> so_evolves db db'"
  using assms(2)
proof cases
  case e_other
  then have "lines_of i db' = lines_of i db" for i by (simp add: lines_of_def)
  then show ?thesis using assms(1) e_other so_evolves_refl unfolding sales_ok_def so_evolves_def by simp
next
  case (e_order so)
  then show ?thesis by (rule edit_order_ok [OF assms(1)])
next
  case (e_header i f so)
  have "so_ID so = i" "so \<in> set (sos db)" using row_by_SomeD [OF e_header(4)] by auto
  then show ?thesis
    using e_header(3,5) sales_okD(7) [OF assms(1), of so]
    by (intro update_so [OF assms(1) e_header(1,2,4)]) (auto simp: keeps_so_def same_so_def)
next
  case (e_line l so)
  then show ?thesis by (rule edit_line_ok [OF assms(1)])
next
  case (e_delete gone i so)
  then show ?thesis by (rule edit_delete_ok [OF assms(1)])
next
  case (e_status i st so)
  have so: "so_ID so = i" "so \<in> set (sos db)" using row_by_SomeD [OF e_status(3)] by auto
  have "agree st (lines_of i db)"
    by (rule agree_unshipped [of "so_Status so"])
      (use e_status(4) sales_okD(7) [OF assms(1) so(2)] so(1) lines_of_ok [OF assms(1)] in auto)
  then show ?thesis
    using e_status(4) by (intro update_so [OF assms(1) e_status(1-3)]) (auto simp: same_so_def)
next
  case (e_planned i q l so)
  then show ?thesis by (rule edit_planned_ok [OF assms(1)])
next
  case (e_ship its)
  then show ?thesis by (rule edit_ship_ok [OF assms(1)])
qed

section \<open>Calls as edits\<close>

lemma edits_ok: "edit\<^sup>*\<^sup>* db db' \<Longrightarrow> sales_ok db \<Longrightarrow> sales_ok db' \<and> so_evolves db db'"
proof (induction rule: rtranclp_induct)
  case base
  then show ?case using so_evolves_refl by simp
next
  case (step b c)
  then show ?case using edit_ok [of b c] so_evolves_trans by blast
qed

lemma insertSOLines_edits:
  "insertSOLines rf ls db = (r, db') \<Longrightarrow> so_row i db = Some so \<Longrightarrow> so_Status so = SOStatusDraft \<Longrightarrow>
   (\<And>l. l \<in> set ls \<Longrightarrow> sl_SalesOrderID l = i \<and> sl_QtyPlanned l = 0 \<and> sl_QtyShipped l = 0) \<Longrightarrow> edit\<^sup>*\<^sup>* db db'"
proof (induction ls arbitrary: db)
  case Nil
  then show ?case by simp
next
  case (Cons l ls)
  show ?case
  proof (cases "insert_checked (check_line rf db) sl_ID l (so_lines db)")
    case (Inl e)
    then show ?thesis using Cons.prems(1) by simp
  next
    case (Inr t)
    let ?db1 = "db\<lparr>so_lines := t\<rparr>"
    have t: "check_line rf db l = None" "sl_ID l \<notin> sl_ID ` set (so_lines db)" "t = so_lines db @ [l]" using Inr by simp_all
    have l: "sl_SalesOrderID l = i" "sl_QtyPlanned l = 0" "sl_QtyShipped l = 0" using Cons.prems(4) by auto
    have "0 < sl_QtyOrdered l \<and> in_int4 (sl_QtyOrdered l) \<and> line_key l \<notin> line_key ` set (so_lines db)"
      using t(1) by (auto simp: check_line_def split: if_splits)
    then have "edit db ?db1"
      using t l Cons.prems(2,3) by (intro e_line [where l = l and so = so]) auto
    moreover have "edit\<^sup>*\<^sup>* ?db1 db'"
      by (rule Cons.IH) (use Cons.prems Inr in auto)
    ultimately show ?thesis by (rule converse_rtranclp_into_rtranclp)
  qed
qed

lemma build_lines_draft: "l \<in> set (build_lines env k i ls) \<Longrightarrow> sl_SalesOrderID l = i \<and> sl_QtyPlanned l = 0 \<and> sl_QtyShipped l = 0"
  by (auto simp: build_lines_def)

lemma nextSOCode_tables: "nextSOCode day db = (r, db') \<Longrightarrow> sos db' = sos db \<and> so_lines db' = so_lines db \<and> customers db' = customers db"
  by (auto simp: nextSOCode_def Let_def split: if_splits)

lemma CreateSO_edits:
  assumes "CreateSO deps env day csi x db = (r, db')"
  shows "edit\<^sup>*\<^sup>* db db'"
proof -
  obtain c db1 where code: "nextSOCode day db = (c, db1)" by force
  note tab = nextSOCode_tables [OF code]
  then have e1: "edit db db1" by (intro e_other) auto
  define cur where "cur = normalizeCurrency (cs_Currency csi)"
  define so where "so = (\<lambda>code. \<lparr>so_ID = fresh env 0, so_Code = code, so_CustomerID = cs_CustomerID csi, so_CustomerCode = [],
      so_CustomerName = [], so_CustomerCountry = [], so_Incoterm = ToUpper (TrimSpace (cs_Incoterm csi)),
      so_PortOfLoading = TrimSpace (cs_PortOfLoading csi), so_PortOfDischarge = TrimSpace (cs_PortOfDischarge csi),
      so_Currency = (if cur = [] then ''VND'' else cur), so_Status = SOStatusDraft, so_ExpectedShipDate = cs_ExpectedShipDate csi,
      so_Note = TrimSpace (cs_Note csi), so_CreatedBy = cs_CreatedBy csi, so_CreatedAt = now env, so_Lines = []\<rparr>)"
  consider "db' = db" | "db' = db1" | db2 r2 where "insertSO (srefs deps x) (so (projr c)) db1 = (r2, db2)" "isl r2" "db' = db2"
    | db2 r3 where "insertSO (srefs deps x) (so (projr c)) db1 = (Inr (), db2)"
      "insertSOLines (srefs deps x) (build_lines env 1 (fresh env 0) (cs_Lines csi)) db2 = (r3, db')"
    using assms code by (cases c) (auto simp: CreateSO_def so_def cur_def Let_def split: if_splits sum.splits prod.splits)
  then show ?thesis
  proof cases
    case 3
    then show ?thesis using e1 by (auto simp: insertSO_def split: sum.splits)
  next
    case 4
    then have sos: "sos db2 = sos db1 @ [so_columns (so (projr c))]" "so_lines db2 = so_lines db1"
      "so_ID (so_columns (so (projr c))) \<notin> so_ID ` set (sos db1)" "so_Code (so_columns (so (projr c))) \<notin> so_Code ` set (sos db1)"
      by (auto simp: insertSO_def check_so_def split: sum.splits if_splits)
    have st: "so_Status (so_columns (so (projr c))) = SOStatusDraft" "so_ID (so_columns (so (projr c))) = fresh env 0"
      by (simp_all add: so_columns_def so_def)
    have e2: "edit db1 db2" by (rule e_order [OF sos st(1)])
    have "so_row (fresh env 0) db2 = Some (so_columns (so (projr c)))"
      using sos st(2) by (simp add: row_by_None_iff [THEN iffD2])
    from insertSOLines_edits [OF 4(2) this st(1) build_lines_draft] e1 e2 show ?thesis
      by (meson converse_rtranclp_into_rtranclp)
  qed (use e1 in auto)
qed

lemma selectSOByID_row:
  assumes "selectSOByID i db = Inr so"
  shows "\<exists>r. so_row i db = Some r \<and> so_Status r = so_Status so \<and> so_ID so = i"
proof -
  from assms obtain r where r: "so_row i db = Some r" "scanSO db r = Some so"
    by (auto simp: selectSOByID_def bind_eq_Some_conv split: option.splits)
  then show ?thesis using row_by_SomeD [OF r(1)] by (auto simp: scanSO_def split: option.splits)
qed

lemma deleteSOLines_edit:
  assumes "deleteSOLinesBySO rf i db = (r, db')" and "so_row i db = Some so" and "so_Status so = SOStatusDraft"
  shows "edit db db' \<and> sos db' = sos db"
proof (cases r)
  case (Inl e)
  then show ?thesis using assms(1) by (auto simp: deleteSOLinesBySO_def Let_def split: if_splits)
next
  case (Inr u)
  let ?gone = "map sl_ID (select_where (\<lambda>l. sl_SalesOrderID l = i) (so_lines db))"
  have "db' = db\<lparr>so_lines := map (forget_parent ?gone) (delete_where (\<lambda>l. sl_SalesOrderID l = i) (so_lines db))\<rparr>"
    using assms(1) Inr by (auto simp: deleteSOLinesBySO_def Let_def forget_parent_def [abs_def] split: if_splits)
  then show ?thesis by (auto intro: e_delete [OF _ _ assms(2,3)])
qed

lemma updateSO_edit:
  assumes "updateSO so db = (r, db')" and "so_row (so_ID so) db = Some s0" and "so_Status s0 = SOStatusDraft"
  shows "edit db db' \<and> (\<exists>s1. so_row (so_ID so) db' = Some s1 \<and> so_Status s1 = SOStatusDraft)"
proof (cases "so_Currency so \<in> set currencies")
  case False
  then show ?thesis using assms by (auto simp: updateSO_def)
next
  case True
  define f where "f = (\<lambda>r :: SalesOrder. r\<lparr>so_Incoterm := so_Incoterm so, so_PortOfLoading := so_PortOfLoading so, so_PortOfDischarge := so_PortOfDischarge so,
           so_Currency := so_Currency so, so_ExpectedShipDate := map_option date_of (so_ExpectedShipDate so), so_Note := so_Note so\<rparr>)"
  have db': "db' = db\<lparr>sos := update_where (\<lambda>r. so_ID r = so_ID so) f (sos db)\<rparr>"
    using assms True by (auto simp: updateSO_def f_def)
  have keep: "keeps_so f" by (simp add: keeps_so_def f_def)
  have "edit db db'"
    by (rule e_header [where f = f, OF _ _ keep assms(2,3)]) (simp_all add: db')
  moreover have "so_row (so_ID so) db' = map_option (\<lambda>r. if so_ID r = so_ID so then f r else r) (so_row (so_ID so) db)"
    unfolding db' using keep by (simp add: row_by_update_where keeps_so_def)
  ultimately show ?thesis using assms(2,3) keep by (auto simp: keeps_so_def)
qed

lemma replace_lines_edits:
  assumes "replace_lines deps env so ls x db = (r, db')" and "so_row (so_ID so) db = Some s0" and "so_Status s0 = SOStatusDraft"
  shows "edit\<^sup>*\<^sup>* db db'"
proof -
  obtain r1 db1 where del: "deleteSOLinesBySO (srefs deps x) (so_ID so) db = (r1, db1)" by force
  note d = deleteSOLines_edit [OF del assms(2,3)]
  obtain r2 db2 where ins: "insertSOLines (srefs deps x) (build_lines env 0 (so_ID so) ls) db1 = (r2, db2)" by force
  have "so_row (so_ID so) db1 = Some s0" using d assms(2) by simp
  note i = insertSOLines_edits [OF ins this assms(3) build_lines_draft]
  have "db' = db \<or> db' = db1 \<or> db' = db2"
    using assms(1) del ins by (auto simp: replace_lines_def Let_def split: if_splits sum.splits)
  then show ?thesis using d i by (meson converse_rtranclp_into_rtranclp rtranclp.rtrancl_refl)
qed

lemma PatchSO_edits:
  assumes "PatchSO deps env ksi x db = (r, db')"
  shows "edit\<^sup>*\<^sup>* db db'"
proof (cases "selectSOByID (ks_ID ksi) db")
  case (Inl e)
  then show ?thesis using assms by (simp add: PatchSO_def)
next
  case (Inr so0)
  let ?so = "patch_header ksi so0"
  obtain s0 where s0: "so_row (ks_ID ksi) db = Some s0" "so_Status s0 = so_Status so0" "so_ID so0 = ks_ID ksi"
    using selectSOByID_row [OF Inr] by blast
  show ?thesis
  proof (cases "so_Status so0 = SOStatusDraft")
    case False
    then show ?thesis using assms Inr by (simp add: PatchSO_def)
  next
    case True
    obtain r1 db1 where upd: "updateSO ?so db = (r1, db1)" by force
    have id: "so_ID ?so = ks_ID ksi" using s0(3) by (simp add: patch_header_def)
    with updateSO_edit [OF upd] s0 True obtain s1 where e: "edit db db1" and s1: "so_row (so_ID ?so) db1 = Some s1" "so_Status s1 = SOStatusDraft"
      by auto
    have "db' = db1 \<or> (\<exists>ls r2. replace_lines deps env ?so ls x db1 = (r2, db'))"
      using assms Inr True upd by (auto simp: PatchSO_def Let_def split: sum.splits option.splits)
    then show ?thesis
      using e replace_lines_edits [OF _ s1] by (meson converse_rtranclp_into_rtranclp r_into_rtranclp)
  qed
qed

lemma ConfirmSO_edits: "ConfirmSO i db = (r, db') \<Longrightarrow> edit\<^sup>*\<^sup>* db db'"
proof (cases "selectSOByID i db")
  case (Inr so)
  assume run: "ConfirmSO i db = (r, db')"
  obtain s0 where s0: "so_row i db = Some s0" "so_Status s0 = so_Status so" using selectSOByID_row [OF Inr] by blast
  show ?thesis
  proof (cases "db' = db")
    case False
    then show ?thesis using run Inr s0
      by (intro r_into_rtranclp e_status [where i = i and st = SOStatusConfirmed and so = s0])
        (auto simp: ConfirmSO_def updateSOStatus_def set_so_status_def split: if_splits sum.splits)
  qed simp
qed (simp add: ConfirmSO_def)

lemma CancelSO_edits: "CancelSO i db = (r, db') \<Longrightarrow> edit\<^sup>*\<^sup>* db db'"
proof (cases "selectSOByID i db")
  case (Inr so)
  assume run: "CancelSO i db = (r, db')"
  obtain s0 where s0: "so_row i db = Some s0" "so_Status s0 = so_Status so" using selectSOByID_row [OF Inr] by blast
  show ?thesis
  proof (cases "db' = db")
    case False
    have live: "so_Status so \<in> {SOStatusDraft, SOStatusConfirmed, SOStatusInProduction}"
      using False run Inr by (cases "so_Status so") (auto simp: CancelSO_def)
    then show ?thesis using False run Inr s0
      by (intro r_into_rtranclp e_status [where i = i and st = SOStatusCancelled and so = s0])
        (auto simp: CancelSO_def updateSOStatus_def set_so_status_def selectSOLinesBySOID_def split: if_splits)
  qed simp
qed (simp add: CancelSO_def)

text \<open>A carried-over line has the order and the SKU of its parent, which are unique together.\<close>

lemma carry_over_refused: "\<exists>e. CreateCarryOverSOLine rf env coi db = (Inl e, db)"
proof (cases "line_row (col_ParentSOLineID coi) db")
  case None
  then show ?thesis by (simp add: CreateCarryOverSOLine_def insertCarryOverSOLine_def)
next
  case (Some l)
  then have l: "l \<in> set (so_lines db)" using row_by_SomeD by fastforce
  have "\<exists>e. check_line rf db (\<lparr>sl_ID = a, sl_SalesOrderID = sl_SalesOrderID l, sl_SKUID = sl_SKUID l, sl_QtyOrdered = q, sl_QtyPlanned = q,
      sl_QtyShipped = 0, sl_UnitPrice = m, sl_Parent = u, sl_CreatedAt = t\<rparr>) = Some e" for a q m u t
    using l by (force simp: check_line_def)
  then show ?thesis
    using Some by (auto simp: CreateCarryOverSOLine_def insertCarryOverSOLine_def insert_checked_def Let_def split: option.splits)
      (metis option.distinct(1))
qed

section \<open>Pending splits\<close>

definition allocated :: "sales_db \<Rightarrow> uuid \<Rightarrow> bool" where
  "allocated db i \<longleftrightarrow> (\<exists>l so. line_row i db = Some l \<and> so_row (sl_SalesOrderID l) db = Some so \<and> so_Status so \<noteq> SOStatusDraft)"

definition pending_ok :: "sales_db \<Rightarrow> SplitToPlanInput \<Rightarrow> bool" where
  "pending_ok db inp \<longleftrightarrow> list_all (\<lambda>a. 0 < al_Quantity a \<and> allocated db (al_SOLineID a)) (sp_Allocations inp)"

lemma allocated_evolves:
  assumes "allocated db i" and "sales_ok db" and "sales_ok db'" and "so_evolves db db'"
  shows "allocated db' i"
proof -
  from assms(1) obtain l so where l: "line_row i db = Some l" and so: "so_row (sl_SalesOrderID l) db = Some so" "so_Status so \<noteq> SOStatusDraft"
    unfolding allocated_def by blast
  have lin: "l \<in> set (so_lines db)" "sl_ID l = i" using row_by_SomeD [OF l] by auto
  have soin: "so \<in> set (sos db)" "so_ID so = sl_SalesOrderID l" using row_by_SomeD [OF so(1)] by auto
  from assms(4) soin(1) so(2) obtain so' where so': "so' \<in> set (sos db')" "same_so so so'"
    and g: "list_all2 line_grows (lines_of (so_ID so) db) (lines_of (so_ID so) db')" unfolding so_evolves_def by blast
  have "l \<in> set (lines_of (so_ID so) db)" using lin soin(2) by (simp add: lines_of_def)
  from list_all2_D1 [OF g this] obtain l' where l': "l' \<in> set (so_lines db')" "sl_SalesOrderID l' = so_ID so" "sl_ID l' = i"
    using lin(2) by (auto simp: lines_of_def line_grows_def)
  have "line_row i db' = Some l'" using row_by_eq_SomeI [OF sales_okD(3) [OF assms(3)] l'(1)] l'(3) by simp
  moreover have "so_row (sl_SalesOrderID l') db' = Some so'"
    using row_by_eq_SomeI [OF sales_okD(1) [OF assms(3)] so'(1)] same_so_id [OF so'(2)] l'(2) by simp
  ultimately show ?thesis unfolding allocated_def using same_so_draft [OF so'(2) so(2)] by blast
qed

lemma increment_all_edits:
  "increment_all as db = Inr db' \<Longrightarrow> sales_ok db \<Longrightarrow> list_all (\<lambda>a. 0 < al_Quantity a \<and> allocated db (al_SOLineID a)) as \<Longrightarrow> edit\<^sup>*\<^sup>* db db'"
proof (induction "as" arbitrary: db)
  case (Cons a as)
  from Cons.prems(3) obtain l so where l: "line_row (al_SOLineID a) db = Some l" and so: "so_row (sl_SalesOrderID l) db = Some so"
    "so_Status so \<noteq> SOStatusDraft" and q: "0 < al_Quantity a" by (auto simp: allocated_def)
  define db1 where "db1 = add_planned (al_SOLineID a) (al_Quantity a) db"
  from Cons.prems(1) l have cap: "sl_QtyPlanned l + al_Quantity a \<le> sl_QtyOrdered l" and rest: "increment_all as db1 = Inr db'"
    by (auto simp: incrementQtyPlanned_def db1_def split: if_splits)
  have e: "edit db db1" by (rule e_planned [OF db1_def l q cap so])
  note ok = edit_ok [OF Cons.prems(2) e]
  have "list_all (\<lambda>a. 0 < al_Quantity a \<and> allocated db1 (al_SOLineID a)) as"
    using Cons.prems(3) allocated_evolves [OF _ Cons.prems(2)] ok by (auto simp: list_all_iff)
  from Cons.IH [OF rest _ this] ok e show ?case by (meson converse_rtranclp_into_rtranclp)
qed simp

lemma split_commit_edits:
  assumes "split_commit inp st db = (r, db')" and "sales_ok db" and "pending_ok db inp"
  shows "edit\<^sup>*\<^sup>* db db'"
proof (cases "increment_all (sp_Allocations inp) db")
  case (Inl e)
  then show ?thesis using assms(1) by (simp add: split_commit_def)
next
  case (Inr db1)
  have e: "edit\<^sup>*\<^sup>* db db1" using increment_all_edits [OF Inr assms(2)] assms(3) by (simp add: pending_ok_def)
  let ?i = "sp_SalesOrderID inp"
  have ok: "sales_ok db1" using edits_ok [OF e assms(2)] by simp
  have "edit db1 (updateStatusIfCurrent ?i [SOStatusConfirmed] SOStatusInProduction db1)"
  proof (cases "\<exists>so. so_row ?i db1 = Some so \<and> so_Status so = SOStatusConfirmed")
    case True
    then obtain so where so: "so_row ?i db1 = Some so" "so_Status so = SOStatusConfirmed" by blast
    have "update_where (\<lambda>r. so_ID r = ?i \<and> so_Status r \<in> set [SOStatusConfirmed]) (\<lambda>r. r\<lparr>so_Status := SOStatusInProduction\<rparr>) (sos db1) =
        update_where (\<lambda>r. so_ID r = ?i) (\<lambda>r. r\<lparr>so_Status := SOStatusInProduction\<rparr>) (sos db1)"
      unfolding update_where_def using so_row_only [OF ok so(1)] so(2) by (auto intro!: map_cong)
    then show ?thesis
      by (intro e_status [OF _ _ so(1)]) (auto simp: updateStatusIfCurrent_def set_so_status_def so(2))
  next
    case False
    have "update_where (\<lambda>r. so_ID r = ?i \<and> so_Status r \<in> set [SOStatusConfirmed]) (\<lambda>r. r\<lparr>so_Status := SOStatusInProduction\<rparr>) (sos db1) = sos db1"
      using False row_by_eq_SomeI [OF sales_okD(1) [OF ok]] by (intro update_where_id_other) (metis empty_iff empty_set set_ConsD)
    then show ?thesis by (intro e_other) (simp_all add: updateStatusIfCurrent_def set_so_status_def)
  qed
  then show ?thesis
    using assms(1) Inr e by (auto simp: split_commit_def split: if_splits intro: rtranclp.rtrancl_into_rtrancl)
qed

lemma check_allocations_owned: "check_allocations i als = Inr u \<Longrightarrow> (a, l) \<in> set als \<Longrightarrow> sl_SalesOrderID l = i"
  by (induction i als rule: check_allocations.induct) (auto split: if_splits)

lemma lockAndReadSOLines_rows: "lockAndReadSOLines is db = Inr ls \<Longrightarrow> list_all2 (\<lambda>i l. line_row i db = Some l) is ls"
  by (induction "is" arbitrary: ls) (auto split: option.splits sum.splits)

lemma split_check_pending:
  assumes "split_check inp db = Inr (so, ls)" and "list_all (\<lambda>a. 0 < al_Quantity a) (sp_Allocations inp)"
  shows "pending_ok db inp"
proof -
  from assms(1) have sel: "selectSOByID (sp_SalesOrderID inp) db = Inr so" and st: "so_Status so \<in> splittable"
    and rd: "lockAndReadSOLines (map al_SOLineID (sp_Allocations inp)) db = Inr ls"
    and chk: "check_allocations (sp_SalesOrderID inp) (zip (sp_Allocations inp) ls) = Inr ()"
    by (auto simp: split_check_def lockSOForUpdate_def split: sum.splits if_splits)
  obtain s0 where s0: "so_row (sp_SalesOrderID inp) db = Some s0" "so_Status s0 = so_Status so" using selectSOByID_row [OF sel] by blast
  have "allocated db (al_SOLineID a)" if "a \<in> set (sp_Allocations inp)" for a
  proof -
    have rows: "list_all2 (\<lambda>a l. line_row (al_SOLineID a) db = Some l) (sp_Allocations inp) ls"
      using lockAndReadSOLines_rows [OF rd] by (simp add: list_all2_map1)
    from list_all2_zip_D1 [OF rows that] obtain l
      where "(a, l) \<in> set (zip (sp_Allocations inp) ls)" "line_row (al_SOLineID a) db = Some l" by blast
    then show ?thesis
      using check_allocations_owned [OF chk] s0 st by (auto simp: allocated_def splittable_def)
  qed
  then show ?thesis using assms(2) by (simp add: pending_ok_def list_all_iff)
qed

section \<open>The system\<close>

definition sales_inv :: "sales_state \<Rightarrow> bool" where
  "sales_inv s \<longleftrightarrow> sales_ok (fst s) \<and> (\<forall>p \<in> set (snd s). pending_ok (fst s) (fst p))"

text \<open>Customers and mappings are kept in tables of their own.\<close>

lemma insert_mappings_orders: "insert_mappings rf ms db = Inr db' \<Longrightarrow> sos db' = sos db \<and> so_lines db' = so_lines db"
  by (induction ms arbitrary: db) (auto simp: insertCustomerSKUMapping_def split: if_splits option.splits)

lemma other_tables:
  "CreateCustomer env cci db = (r1, db') \<Longrightarrow> sos db' = sos db \<and> so_lines db' = so_lines db"
  "PatchCustomer kci db = (r1, db') \<Longrightarrow> sos db' = sos db \<and> so_lines db' = so_lines db"
  "CreateCustomerSKUMapping deps env mi (db, x) = (r5, (db', x')) \<Longrightarrow> sos db' = sos db \<and> so_lines db' = so_lines db"
  "PatchCustomerSKUMapping deps env kmi (db, x) = (r5, (db', x')) \<Longrightarrow> sos db' = sos db \<and> so_lines db' = so_lines db"
  "DeleteCustomerSKUMapping deps dmi (db, x) = (r3, (db', x')) \<Longrightarrow> sos db' = sos db \<and> so_lines db' = so_lines db"
  "BulkImportCustomerSKUMappings deps env bui (db, x) = (r6, (db', x')) \<Longrightarrow> sos db' = sos db \<and> so_lines db' = so_lines db"
  by (auto simp: CreateCustomer_def customer_code_def customerCodeExists_def nextCustomerCode_def insertCustomer_def PatchCustomer_def updateCustomer_def
      CreateCustomerSKUMapping_def insertCustomerSKUMapping_def PatchCustomerSKUMapping_def updateCustomerSKUMapping_def
      DeleteCustomerSKUMapping_def deleteCustomerSKUMapping_def BulkImportCustomerSKUMappings_def bulkInsertCustomerSKUMappings_def Let_def
    split: if_splits sum.splits prod.splits option.splits dest: insert_mappings_orders)

lemma sales_step_edits:
  assumes "sales_step deps s s'" and "sales_inv s"
  shows "edit\<^sup>*\<^sup>* (fst s) (fst s')"
  using assms(1)
proof cases
  case step_split_commit
  then show ?thesis using assms(2) split_commit_edits by (fastforce simp: sales_inv_def)
next
  case (step_carry rf env coi db r db' P)
  then show ?thesis using carry_over_refused [of rf env coi db] by auto
next
  case step_create
  then show ?thesis by (simp add: CreateSO_edits)
next
  case step_patch
  then show ?thesis by (simp add: PatchSO_edits)
next
  case step_confirm
  then show ?thesis by (simp add: ConfirmSO_edits)
next
  case step_cancel
  then show ?thesis by (simp add: CancelSO_edits)
next
  case step_ship
  then show ?thesis by (auto simp: RecordShipmentTx_def intro: e_ship)
qed (auto dest!: other_tables intro!: r_into_rtranclp intro: e_other)

lemma sales_step_inv:
  assumes "sales_inv s" and "sales_step deps s s'"
  shows "sales_inv s' \<and> so_evolves (fst s) (fst s')"
proof -
  note e = edits_ok [OF sales_step_edits [OF assms(2,1)] conjunct1 [OF assms(1) [unfolded sales_inv_def]]]
  have keep: "pending_ok (fst s') inp" if "pending_ok (fst s) inp" for inp
    using that e assms(1) allocated_evolves by (auto simp: pending_ok_def list_all_iff sales_inv_def)
  have "\<forall>p \<in> set (snd s'). pending_ok (fst s') (fst p)"
    using assms(2,1) keep by cases (auto simp: sales_inv_def intro: split_check_pending)
  then show ?thesis using e by (simp add: sales_inv_def)
qed

interpretation sales: invariant "\<lambda>s. s = (empty_sales, [])" "sales_step deps" sales_inv
proof unfold_locales
  show "sales_inv s" if "s = (empty_sales, [])" for s using that by (simp add: sales_inv_def sales_ok_def empty_sales_def)
  show "sales_inv s'" if "sales_inv s" "sales_step deps s s'" for s s' using sales_step_inv [OF that] by simp
qed

lemma so_evolves_star:
  assumes "sales_inv s" and "(sales_step deps)\<^sup>*\<^sup>* s s'"
  shows "so_evolves (fst s) (fst s')"
  using assms(2)
proof (induction rule: rtranclp_induct)
  case (step b c)
  then show ?case using sales_step_inv [OF sales.star_inv [OF assms(1) step(1)] step(2)] by (blast intro: so_evolves_trans)
qed (rule so_evolves_refl)

end
