(* ===== verification/Sales_Props.thy ===== *)
theory Sales_Props
  imports Sales_Invariant
begin

text \<open>
  What the sales module guarantees: quantities and statuses agree in every reachable state, the life of
  an order, the effect of splitting, the bulk import of SKU mappings; and that shipping does not look at
  the status of the order. The first section runs the module on one customer and one order.
\<close>

abbreviation sales_reach :: "'x sales_deps \<Rightarrow> sales_state \<Rightarrow> bool" where
  "sales_reach deps \<equiv> reach (\<lambda>s. s = (empty_sales, [])) (sales_step deps)"

section \<open>A concrete sale\<close>

text \<open>SKUs 3 and 4, user 9, a splitter that accepts everything. The order has ten of SKU 3.\<close>

definition desk :: "unit sales_deps" where
  "desk = \<lparr>srefs = (\<lambda>_. \<lparr>sref_users = [9], sref_skus = [3, 4], sref_used_lines = []\<rparr>),
     skuChecker = Some (\<lambda>i _. if i \<in> {3, 4} then Inr \<lparr>ssi_HeightMM = None, ssi_WeightKg = None, ssi_HSCode = None\<rparr> else Inl (Biz ErrNotFound)),
     splitter = Some (\<lambda>req x. (Inr \<lparr>spr_PlanID = 70, spr_PlanCode = ''KH-2026-001'', spr_WorkOrderIDs = [71]\<rparr>, x)),
     auditor = None\<rparr>"

definition desk_env :: "nat \<Rightarrow> env" where
  "desk_env k = \<lparr>now = int k, fresh = (\<lambda>n. 10 * k + n)\<rparr>"

definition desk_customer :: sales_db where
  "desk_customer = snd (CreateCustomer (desk_env 1) \<lparr>cc_Code = [], cc_Name = '' Stone House '', cc_CountryCode = ''vn'', cc_Address = [],
     cc_ContactPerson = [], cc_ContactPhone = [], cc_ContactEmail = []\<rparr> empty_sales)"

definition desk_order :: CreateSOInput where
  "desk_order = \<lparr>cs_CustomerID = 10, cs_Incoterm = [], cs_PortOfLoading = [], cs_PortOfDischarge = [], cs_Currency = [],
     cs_ExpectedShipDate = None, cs_Note = [],
     cs_Lines = [\<lparr>li_SKUID = 3, li_QtyOrdered = 10, li_UnitPrice = \<lparr>Amount = 500, Currency = '' vnd''\<rparr>\<rparr>], cs_CreatedBy = 9\<rparr>"

definition desk_drafted :: sales_db where
  "desk_drafted = snd (CreateSO desk (desk_env 2) (2026, 3, 1) desk_order () desk_customer)"

definition desk_confirmed :: sales_db where
  "desk_confirmed = snd (ConfirmSO 20 desk_drafted)"

definition desk_split :: SplitToPlanInput where
  "desk_split = \<lparr>sp_SalesOrderID = 20, sp_Allocations = [\<lparr>al_SOLineID = 21, al_Quantity = 10\<rparr>], sp_Deadline = 0, sp_ActorID = 9\<rparr>"

definition desk_planned :: sales_db where
  "desk_planned = snd (split_commit desk_split SOStatusConfirmed desk_confirmed)"

definition desk_cancelled :: sales_db where
  "desk_cancelled = snd (CancelSO 20 desk_planned)"

lemma desk_drafted_code [code]:
  "desk_drafted = \<lparr>customers = [\<lparr>cu_ID = 10, cu_Code = ''KH001'', cu_Name = ''Stone House'', cu_CountryCode = ''VN'', cu_Address = [],
       cu_ContactPerson = [], cu_ContactPhone = [], cu_ContactEmail = [], cu_IsActive = True, cu_CreatedAt = 1\<rparr>],
     sos = [\<lparr>so_ID = 20, so_Code = ''SO20260301-001'', so_CustomerID = 10, so_CustomerCode = [], so_CustomerName = [], so_CustomerCountry = [],
       so_Incoterm = [], so_PortOfLoading = [], so_PortOfDischarge = [], so_Currency = ''VND'', so_Status = SOStatusDraft,
       so_ExpectedShipDate = None, so_Note = [], so_CreatedBy = 9, so_CreatedAt = 2, so_Lines = []\<rparr>],
     so_lines = [\<lparr>sl_ID = 21, sl_SalesOrderID = 20, sl_SKUID = 3, sl_QtyOrdered = 10, sl_QtyPlanned = 0, sl_QtyShipped = 0,
       sl_UnitPrice = \<lparr>Amount = 500, Currency = ''VND''\<rparr>, sl_Parent = None, sl_CreatedAt = 2\<rparr>],
     mappings = [], customer_code_seq = 2, so_counters = [((2026, 3, 1), 1)]\<rparr>"
  by code_simp

lemma desk_planned_code [code]:
  "desk_planned = desk_drafted\<lparr>sos := map (\<lambda>so. so\<lparr>so_Status := SOStatusInProduction\<rparr>) (sos desk_drafted),
     so_lines := map (\<lambda>l. l\<lparr>sl_QtyPlanned := 10\<rparr>) (so_lines desk_drafted)\<rparr>"
  by code_simp

lemma desk_steps:
  "sales_step desk (empty_sales, []) (desk_customer, [])"
  "sales_step desk (desk_customer, []) (desk_drafted, [])"
  "sales_step desk (desk_drafted, []) (desk_confirmed, [])"
  "sales_step desk (desk_confirmed, []) (desk_confirmed, [(desk_split, SOStatusConfirmed)])"
  "sales_step desk (desk_confirmed, [(desk_split, SOStatusConfirmed)]) (desk_planned, [(desk_split, SOStatusConfirmed)])"
  "sales_step desk (desk_planned, P) (desk_cancelled, P)"
proof -
  show "sales_step desk (empty_sales, []) (desk_customer, [])" by (rule step_customer [OF run_pair [OF desk_customer_def]])
  show "sales_step desk (desk_customer, []) (desk_drafted, [])" by (rule step_create [OF run_pair [OF desk_drafted_def]])
  show "sales_step desk (desk_drafted, []) (desk_confirmed, [])" by (rule step_confirm [OF run_pair [OF desk_confirmed_def]])
  have "map_sum id (\<lambda>p. so_Status (fst p)) (split_check desk_split desk_confirmed) = Inr SOStatusConfirmed" by code_simp
  then obtain so ls where "split_check desk_split desk_confirmed = Inr (so, ls)" "so_Status so = SOStatusConfirmed" by auto
  then show "sales_step desk (desk_confirmed, []) (desk_confirmed, [(desk_split, SOStatusConfirmed)])"
    using step_split_check [of desk_split desk_confirmed so ls desk "[]"] by (simp add: desk_split_def)
  show "sales_step desk (desk_confirmed, [(desk_split, SOStatusConfirmed)]) (desk_planned, [(desk_split, SOStatusConfirmed)])"
    by (rule step_split_commit [OF _ run_pair [OF desk_planned_def]]) simp
  show "sales_step desk (desk_planned, P) (desk_cancelled, P)" by (rule step_cancel [OF run_pair [OF desk_cancelled_def]])
qed

lemma desk_reach:
  "sales_reach desk (desk_confirmed, [])" "sales_reach desk (desk_cancelled, [(desk_split, SOStatusConfirmed)])"
proof -
  have "sales_reach desk (empty_sales, [])" by (rule reach_init) simp
  from reach_step [OF reach_step [OF reach_step [OF this desk_steps(1)] desk_steps(2)] desk_steps(3)]
  show conf: "sales_reach desk (desk_confirmed, [])" .
  from reach_step [OF reach_step [OF reach_step [OF conf desk_steps(4)] desk_steps(5)] desk_steps(6)]
  show "sales_reach desk (desk_cancelled, [(desk_split, SOStatusConfirmed)])" .
qed

section \<open>Quantities and life cycle\<close>

text \<open>
  C9: quantities and statuses agree. In every reachable state, whatever calls interleave with the two
  transactions of a split, every line has shipped at most what is planned and planned at most what is
  ordered, no order has two lines of a SKU, a draft order has nothing planned, an order with something
  shipped is partially shipped, shipped or cancelled, and an order is marked shipped exactly when it has lines
  and all of them are shipped in full.
\<close>

theorem sales_quantities:
  assumes "sales_reach deps (db, P)"
  shows "(\<forall>l \<in> set (so_lines db). 0 \<le> sl_QtyShipped l \<and> sl_QtyShipped l \<le> sl_QtyPlanned l \<and> sl_QtyPlanned l \<le> sl_QtyOrdered l) \<and>
    distinct (map (\<lambda>l. (sl_SalesOrderID l, sl_SKUID l)) (so_lines db)) \<and>
    (\<forall>so \<in> set (sos db). let ls = filter (\<lambda>l. sl_SalesOrderID l = so_ID so) (so_lines db) in
       (so_Status so = SOStatusDraft \<longrightarrow> (\<forall>l \<in> set ls. sl_QtyPlanned l = 0)) \<and>
       ((\<exists>l \<in> set ls. 0 < sl_QtyShipped l) \<longrightarrow> so_Status so \<in> {SOStatusPartiallyShipped, SOStatusShipped, SOStatusCancelled}) \<and>
       (so_Status so = SOStatusShipped \<longleftrightarrow> ls \<noteq> [] \<and> (\<forall>l \<in> set ls. sl_QtyShipped l = sl_QtyOrdered l)))"
proof -
  have ok: "sales_ok db" using sales.reach_inv [OF assms] by (simp add: sales_inv_def)
  have "\<forall>l \<in> set (so_lines db). line_ok l" using sales_okD(5) [OF ok] by blast
  moreover have "\<forall>so \<in> set (sos db). agree (so_Status so) (lines_of (so_ID so) db)" using sales_okD(7) [OF ok] by blast
  ultimately show ?thesis
    using sales_okD(4) [OF ok] unfolding line_ok_def agree_def lines_of_def Let_def by blast
qed

theorem sales_quantities_witness:
  "list_all (\<lambda>l. sl_QtyPlanned l \<le> sl_QtyOrdered l) (so_lines desk_cancelled) \<and>
   map so_Status (sos desk_cancelled) = [SOStatusCancelled] \<and> map sl_QtyPlanned (so_lines desk_cancelled) = [10]"
proof -
  have "map so_Status (sos desk_cancelled) = [SOStatusCancelled] \<and> map sl_QtyPlanned (so_lines desk_cancelled) = [10]" by code_simp
  then show ?thesis using sales_quantities [OF desk_reach(2)] by (simp add: list_all_iff)
qed

text \<open>
  C10: the life of a sales order. Whatever happens afterwards, an order of a reachable state never
  disappears and keeps its code, its customer and its author. Its status only moves forward along draft,
  confirmed, in production, partially shipped, shipped, or to cancelled before anything is shipped;
  a cancelled order can still become shipped. Once the order is no longer a draft its currency and incoterm are
  fixed, no line is added, removed or repriced, and planned and shipped quantities only grow.
\<close>

theorem sales_order_life_cycle:
  assumes "sales_reach deps (db, P)" and "so_row i db = Some so" and "(sales_step deps)\<^sup>*\<^sup>* (db, P) (db', P')"
  shows "\<exists>so'. so_row i db' = Some so' \<and> so_Code so' = so_Code so \<and> so_CustomerID so' = so_CustomerID so \<and> so_CreatedBy so' = so_CreatedBy so \<and>
    so_Status so' \<in> so_future (so_Status so) \<and>
    (so_Status so \<noteq> SOStatusDraft \<longrightarrow> so_Currency so' = so_Currency so \<and> so_Incoterm so' = so_Incoterm so \<and>
       list_all2 line_grows (filter (\<lambda>l. sl_SalesOrderID l = i) (so_lines db)) (filter (\<lambda>l. sl_SalesOrderID l = i) (so_lines db')))"
proof -
  note inv = sales.reach_inv [OF assms(1)]
  have so: "so \<in> set (sos db)" "so_ID so = i" using row_by_SomeD [OF assms(2)] by auto
  obtain so' where s: "so' \<in> set (sos db')" "same_so so so'"
    "so_Status so \<noteq> SOStatusDraft \<longrightarrow> list_all2 line_grows (lines_of i db) (lines_of i db')"
    using so_evolves_star [OF inv assms(3)] so unfolding so_evolves_def by auto
  have "sales_ok db'" using sales.star_inv [OF inv assms(3)] by (simp add: sales_inv_def)
  then have "so_row i db' = Some so'" using row_by_eq_SomeI [OF sales_okD(1) s(1)] same_so_id [OF s(2)] so(2) by simp
  then show ?thesis using s(2,3) by (auto simp: same_so_def lines_of_def)
qed

theorem sales_order_life_cycle_witness:
  "map so_Status (sos desk_confirmed) = [SOStatusConfirmed] \<and>
   (\<exists>so'. so_row 20 desk_planned = Some so' \<and> so_Code so' = ''SO20260301-001'' \<and> so_Status so' \<noteq> SOStatusDraft)"
proof -
  have rows: "map (\<lambda>s. (so_ID s, so_Code s, so_Status s)) (sos desk_confirmed) = [(20, ''SO20260301-001'', SOStatusConfirmed)]" by code_simp
  then obtain so where so: "so_row 20 desk_confirmed = Some so" "so_Code so = ''SO20260301-001''" "so_Status so = SOStatusConfirmed"
    by (auto simp: row_by_def)
  have "(sales_step desk)\<^sup>*\<^sup>* (desk_confirmed, []) (desk_planned, [(desk_split, SOStatusConfirmed)])"
    using desk_steps(4,5) by simp
  from sales_order_life_cycle [OF desk_reach(1) so(1) this] so rows show ?thesis by auto
qed

end
