(* ===== verification/Sales_Flow_Props.thy ===== *)
theory Sales_Flow_Props
  imports Sales_Props
begin

text \<open>
  Splitting and shipping: what a split writes, that a cancelled order can be shipped, that every
  confirmed order can be brought to shipped, and what a bulk import of SKU mappings leaves.
\<close>

section \<open>Splitting\<close>

definition planned_for :: "SplitAllocation list \<Rightarrow> uuid \<Rightarrow> int" where
  "planned_for as i = sum_list (map al_Quantity (filter (\<lambda>a. al_SOLineID a = i) as))"

lemma incrementQtyPlanned_lines:
  "incrementQtyPlanned i q db = Inr db' \<Longrightarrow>
     db' = db\<lparr>so_lines := map (\<lambda>l. l\<lparr>sl_QtyPlanned := sl_QtyPlanned l + (if sl_ID l = i then q else 0)\<rparr>) (so_lines db)\<rparr>"
proof -
  assume run: "incrementQtyPlanned i q db = Inr db'"
  have "so_lines db = map (\<lambda>l. l\<lparr>sl_QtyPlanned := sl_QtyPlanned l + (if sl_ID l = i then q else 0)\<rparr>) (so_lines db)" if "line_row i db = None"
    by (rule sym, rule map_idI) (use that in \<open>auto simp: row_by_None_iff\<close>)
  moreover have "update_where (\<lambda>l. sl_ID l = i) (\<lambda>l. l\<lparr>sl_QtyPlanned := sl_QtyPlanned l + q\<rparr>) t =
      map (\<lambda>l. l\<lparr>sl_QtyPlanned := sl_QtyPlanned l + (if sl_ID l = i then q else 0)\<rparr>) t" for t
    unfolding update_where_def by (rule map_cong) auto
  ultimately show ?thesis
    using run by (cases db) (auto simp: incrementQtyPlanned_def add_planned_def split: option.splits if_splits)
qed

lemma increment_all_lines:
  "increment_all as db = Inr db' \<Longrightarrow>
     db' = db\<lparr>so_lines := map (\<lambda>l. l\<lparr>sl_QtyPlanned := sl_QtyPlanned l + planned_for as (sl_ID l)\<rparr>) (so_lines db)\<rparr>"
proof (induction "as" arbitrary: db)
  case Nil
  then show ?case by (cases db) (simp add: planned_for_def map_idI)
next
  case (Cons a as)
  then obtain db1 where one: "incrementQtyPlanned (al_SOLineID a) (al_Quantity a) db = Inr db1" and rest: "increment_all as db1 = Inr db'"
    by (auto split: sum.splits)
  have "planned_for (a # as) i = (if i = al_SOLineID a then al_Quantity a else 0) + planned_for as i" for i
    by (auto simp: planned_for_def)
  then show ?case
    using Cons.IH [OF rest] incrementQtyPlanned_lines [OF one] by (simp add: o_def add.assoc)
qed

text \<open>
  Splitting an order. A \<^verbatim>\<open>SplitToPlan\<close> that succeeds found the order confirmed, in production or
  partially shipped and every allocation within what its line has left; the splitter was asked for exactly these
  quantities and accepted; each line's planned quantity grows by the sum of its allocations, nothing
  else of a line changes, and a confirmed order moves to production. One that fails leaves the sales tables as they
  were; the splitter may then have acted, once, on a request that passed the check.
\<close>

theorem SplitToPlan_effect:
  assumes "SplitToPlan deps inp (db, x) = (r, (db', x'))" and "splitter deps = Some split"
  shows "case r of
      Inl e \<Rightarrow> db' = db \<and> (x' = x \<or> (\<exists>so ls. split_check inp db = Inr (so, ls) \<and> x' = snd (split (split_request inp so ls) x)))
    | Inr res \<Rightarrow> (\<exists>so ls. split_check inp db = Inr (so, ls) \<and> so_Status so \<in> {SOStatusConfirmed, SOStatusInProduction, SOStatusPartiallyShipped} \<and>
        split (split_request inp so ls) x = (Inr res, x') \<and>
        map pwi_SOLineID (pwr_Items (split_request inp so ls)) = map al_SOLineID (sp_Allocations inp) \<and>
        map pwi_Quantity (pwr_Items (split_request inp so ls)) = map al_Quantity (sp_Allocations inp) \<and>
        db' = db\<lparr>so_lines := map (\<lambda>l. l\<lparr>sl_QtyPlanned := sl_QtyPlanned l + planned_for (sp_Allocations inp) (sl_ID l)\<rparr>) (so_lines db),
                 sos := (if so_Status so = SOStatusConfirmed
                         then update_where (\<lambda>s. so_ID s = sp_SalesOrderID inp \<and> so_Status s = SOStatusConfirmed)
                                (\<lambda>s. s\<lparr>so_Status := SOStatusInProduction\<rparr>) (sos db) else sos db)\<rparr>)"
proof (cases r)
  case (Inl e)
  then show ?thesis
    using assms by (auto simp: SplitToPlan_def split_commit_def split: if_splits sum.splits prod.splits)
next
  case (Inr res)
  with assms obtain so ls where chk: "split_check inp db = Inr (so, ls)" and call: "split (split_request inp so ls) x = (Inr res, x')"
    and commit: "split_commit inp (so_Status so) db = (Inr (), db')"
    by (auto simp: SplitToPlan_def split: if_splits sum.splits prod.splits)
  from commit obtain db1 where inc: "increment_all (sp_Allocations inp) db = Inr db1"
    and db': "db' = (if so_Status so = SOStatusConfirmed then updateStatusIfCurrent (sp_SalesOrderID inp) [SOStatusConfirmed] SOStatusInProduction db1 else db1)"
    by (auto simp: split_commit_def split: sum.splits)
  have st: "so_Status so \<in> {SOStatusConfirmed, SOStatusInProduction, SOStatusPartiallyShipped}"
    and rd: "lockAndReadSOLines (map al_SOLineID (sp_Allocations inp)) db = Inr ls"
    using chk by (auto simp: split_check_def splittable_def split: sum.splits if_splits)
  have len: "length ls = length (sp_Allocations inp)" using list_all2_lengthD [OF lockAndReadSOLines_rows [OF rd]] by simp
  have items: "map pwi_SOLineID (pwr_Items (split_request inp so ls)) = map al_SOLineID (sp_Allocations inp)"
    "map pwi_Quantity (pwr_Items (split_request inp so ls)) = map al_Quantity (sp_Allocations inp)"
    by (rule nth_equalityI; simp add: split_request_def len)+
  have "db' = db\<lparr>so_lines := map (\<lambda>l. l\<lparr>sl_QtyPlanned := sl_QtyPlanned l + planned_for (sp_Allocations inp) (sl_ID l)\<rparr>) (so_lines db),
                 sos := (if so_Status so = SOStatusConfirmed
                         then update_where (\<lambda>s. so_ID s = sp_SalesOrderID inp \<and> so_Status s = SOStatusConfirmed)
                                (\<lambda>s. s\<lparr>so_Status := SOStatusInProduction\<rparr>) (sos db) else sos db)\<rparr>"
    unfolding db' increment_all_lines [OF inc] by (simp add: updateStatusIfCurrent_def set_so_status_def)
  with chk call st items show ?thesis unfolding Inr sum.case by blast
qed

theorem SplitToPlan_effect_witness:
  "map sl_QtyPlanned (so_lines (fst (snd (SplitToPlan desk desk_split (desk_confirmed, ()))))) = [10] \<and>
   \<not> isl (fst (SplitToPlan desk desk_split (desk_confirmed, ())))"
proof -
  define run where "run = SplitToPlan desk desk_split (desk_confirmed, ())"
  have "\<not> isl (fst run)" unfolding run_def by code_simp
  then obtain res where eq: "SplitToPlan desk desk_split (desk_confirmed, ()) = (Inr res, (fst (snd run), snd (snd run)))"
    unfolding run_def by (metis prod.collapse sum.collapse(2))
  obtain sp where sp: "splitter desk = Some sp" by (simp add: desk_def)
  have rows: "map sl_ID (so_lines desk_confirmed) = [21] \<and> map sl_QtyPlanned (so_lines desk_confirmed) = [0]" by code_simp
  have "planned_for (sp_Allocations desk_split) 21 = 10" by code_simp
  with SplitToPlan_effect [OF eq sp] rows have "map sl_QtyPlanned (so_lines (fst (snd run))) = [10]"
    by (auto simp: o_def)
  then show ?thesis using \<open>\<not> isl (fst run)\<close> by (simp add: run_def)
qed

section \<open>Shipping a cancelled order\<close>

text \<open>
  Shipping ignores the cancellation. A cancelled order with one line, planned in full before it was
  cancelled, can be shipped: the recording of the shipment succeeds and marks the cancelled order as shipped.
\<close>

theorem cancelled_order_ships:
  assumes "sales_reach deps (db, P)" and "so_row i db = Some so" and "so_Status so = SOStatusCancelled"
    and "filter (\<lambda>l. sl_SalesOrderID l = i) (so_lines db) = [l]" and "sl_QtyPlanned l = sl_QtyOrdered l" and "sl_QtyShipped l = 0"
  shows "\<exists>db'. RecordShipmentTx [\<lparr>shi_SOLineID = sl_ID l, shi_Qty = sl_QtyOrdered l\<rparr>] db = Inr db' \<and>
    map_option so_Status (so_row i db') = Some SOStatusShipped"
proof -
  have ok: "sales_ok db" using sales.reach_inv [OF assms(1)] by (simp add: sales_inv_def)
  have "l \<in> set (filter (\<lambda>l. sl_SalesOrderID l = i) (so_lines db))" unfolding assms(4) by simp
  then have l: "l \<in> set (so_lines db)" "sl_SalesOrderID l = i" by auto
  have lok: "0 < sl_QtyOrdered l" "in_int4 (sl_QtyOrdered l)" using sales_okD(5) [OF ok l(1)] by (simp_all add: line_ok_def)
  have row: "line_row (sl_ID l) db = Some l" by (rule row_by_eq_SomeI [OF sales_okD(3) [OF ok] l(1)])
  let ?it = "\<lparr>shi_SOLineID = sl_ID l, shi_Qty = sl_QtyOrdered l\<rparr>"
  let ?db1 = "add_shipped (sl_ID l) (sl_QtyOrdered l) db"
  have run: "recordShipmentTx [?it] db = Inr (recomputeSOStatusTx i ?db1)"
    using row lok l(2) assms(5,6) by (simp add: recordShipmentTx_def ship_item_def)
  have "lines_of i ?db1 = [l\<lparr>sl_QtyShipped := sl_QtyOrdered l\<rparr>]"
  proof -
    have "filter (\<lambda>l. sl_SalesOrderID l = i) (update_where (\<lambda>k. sl_ID k = j) (\<lambda>k. k\<lparr>sl_QtyShipped := sl_QtyShipped k + q\<rparr>) t) =
        update_where (\<lambda>k. sl_ID k = j) (\<lambda>k. k\<lparr>sl_QtyShipped := sl_QtyShipped k + q\<rparr>) (filter (\<lambda>l. sl_SalesOrderID l = i) t)" for j q and t :: "SalesOrderLine list"
      by (induction t) auto
    then show ?thesis using assms(4,6) by (simp add: lines_of_def add_shipped_def)
  qed
  then have "recomputed st (lines_of i ?db1) = SOStatusShipped" for st by (simp add: recomputed_def)
  moreover have "so_ID so = i" using row_by_SomeD [OF assms(2)] by simp
  ultimately have "map_option so_Status (so_row i (recomputeSOStatusTx i ?db1)) = Some SOStatusShipped"
    using assms(2) by (simp add: recompute_sos row_by_map add_shipped_def)
  then show ?thesis using run by (simp add: RecordShipmentTx_def)
qed

theorem cancelled_order_ships_witness:
  "map so_Status (sos desk_cancelled) = [SOStatusCancelled] \<and>
   (\<exists>db'. RecordShipmentTx [\<lparr>shi_SOLineID = 21, shi_Qty = 10\<rparr>] desk_cancelled = Inr db' \<and> map_option so_Status (so_row 20 db') = Some SOStatusShipped)"
proof -
  define l where "l = hd (so_lines desk_cancelled)"
  have st: "map (\<lambda>s. (so_ID s, so_Status s)) (sos desk_cancelled) = [(20, SOStatusCancelled)]" by code_simp
  then obtain so where so: "so_row 20 desk_cancelled = Some so" "so_Status so = SOStatusCancelled" by (auto simp: row_by_def)
  have ls: "filter (\<lambda>l. sl_SalesOrderID l = 20) (so_lines desk_cancelled) = [l]" unfolding l_def by code_simp
  have q: "sl_QtyPlanned l = sl_QtyOrdered l" "sl_QtyShipped l = 0" "sl_ID l = 21" "sl_QtyOrdered l = 10" unfolding l_def by code_simp+
  show ?thesis using cancelled_order_ships [OF desk_reach(2) so ls q(1,2)] q(3,4) st by auto
qed

section \<open>Every confirmed order can be shipped\<close>

definition left_of :: "SalesOrderLine \<Rightarrow> int" where
  "left_of l = (sl_QtyOrdered l - sl_QtyPlanned l) + (sl_QtyOrdered l - sl_QtyShipped l)"

definition work_left :: "uuid \<Rightarrow> sales_db \<Rightarrow> nat" where
  "work_left i db = nat (sum_list (map left_of (lines_of i db)))"

lemma left_of_le: "list_all2 line_grows xs ys \<Longrightarrow> sum_list (map left_of ys) \<le> sum_list (map left_of xs)"
  by (induction rule: list_all2_induct) (auto simp: line_grows_def left_of_def)

lemma left_of_less:
  "list_all2 line_grows xs ys \<Longrightarrow> (x, y) \<in> set (zip xs ys) \<Longrightarrow> left_of y < left_of x \<Longrightarrow> sum_list (map left_of ys) < sum_list (map left_of xs)"
proof (induction rule: list_all2_induct)
  case (Cons a as b bs)
  from Cons.hyps have "left_of b \<le> left_of a" by (auto simp: line_grows_def left_of_def)
  then show ?case using Cons.prems Cons.IH left_of_le [OF Cons.hyps(2)] by auto
qed simp

lemma selectSOByID_again:
  assumes "selectSOByID i db = Inr so" and "customers db' = customers db" and "so_row i db = Some r" and "so_row i db' = Some r'" and "same_so r r'"
  shows "\<exists>so'. selectSOByID i db' = Inr so' \<and> so_Status so' = so_Status r'"
  using assms by (auto simp: selectSOByID_def scanSO_def same_so_def split: option.splits)

lemma work_left_decreases:
  assumes "sales_inv (db, P)" and "sales_inv (db', P')" and "so_evolves db db'" and "so_row i db = Some r" and "so_Status r \<noteq> SOStatusDraft"
    and "l \<in> set (lines_of i db)" and "line_row (sl_ID l) db' = Some l'" and "left_of l' < left_of l"
  shows "work_left i db' < work_left i db \<and> (\<exists>r'. so_row i db' = Some r' \<and> same_so r r')"
proof -
  have ok: "sales_ok db" "sales_ok db'" using assms(1,2) by (simp_all add: sales_inv_def)
  have r: "r \<in> set (sos db)" "so_ID r = i" using row_by_SomeD [OF assms(4)] by auto
  from assms(3,5) r obtain r' where r': "r' \<in> set (sos db')" "same_so r r'" and g: "list_all2 line_grows (lines_of i db) (lines_of i db')"
    unfolding so_evolves_def by blast
  from list_all2_zip_D1 [OF g assms(6)] obtain y where y: "(l, y) \<in> set (zip (lines_of i db) (lines_of i db'))" "line_grows l y" by blast
  have "y \<in> set (so_lines db')" using set_zip_rightD [OF y(1)] by (simp add: lines_of_def)
  then have "y = l'" using line_row_only [OF ok(2) assms(7)] y(2) by (simp add: line_grows_def)
  then have "sum_list (map left_of (lines_of i db')) < sum_list (map left_of (lines_of i db))"
    using left_of_less [OF g y(1)] assms(8) by simp
  moreover have "0 \<le> sum_list (map left_of (lines_of i db'))"
    using lines_of_ok [OF ok(2)] by (intro sum_list_nonneg) (fastforce simp: left_of_def line_ok_def)
  moreover have "so_row i db' = Some r'" using row_by_eq_SomeI [OF sales_okD(1) [OF ok(2)] r'(1)] same_so_id [OF r'(2)] r(2) by simp
  ultimately show ?thesis using r'(2) by (auto simp: work_left_def)
qed

text \<open>
  The calls that carry an order on: a split that succeeds, with the call of the splitter between its two phases, and the
  recording of a shipment.
\<close>

inductive flow_call :: "'x sales_deps \<Rightarrow> sales_db \<times> 'x \<Rightarrow> sales_db \<times> 'x \<Rightarrow> bool" for deps :: "'x sales_deps" where
  flow_split: "SplitToPlan deps inp st = (Inr res, st') \<Longrightarrow> flow_call deps st st'"
| flow_ship: "RecordShipmentTx its db = Inr db' \<Longrightarrow> flow_call deps (db, x) (db', x)"

text \<open>A splitter that takes on every request of positive quantities for the order.\<close>

definition splitter_accepts :: "'x sales_deps \<Rightarrow> uuid \<Rightarrow> bool" where
  "splitter_accepts deps i \<longleftrightarrow> (\<exists>split. splitter deps = Some split \<and>
     (\<forall>req x. pwr_SalesOrderID req = i \<and> (\<forall>it \<in> set (pwr_Items req). 0 < pwi_Quantity it) \<longrightarrow>
        (\<exists>res x'. split req x = (Inr res, x'))))"

lemma plan_rest:
  assumes accepts: "splitter_accepts deps i" and "sales_inv (db, P)" and "selectSOByID i db = Inr so" and "so_Status so \<in> splittable" and "l \<in> set (lines_of i db)"
    and "sl_QtyPlanned l < sl_QtyOrdered l"
  shows "\<exists>db' P' x'. flow_call deps (db, x) (db', x') \<and> (sales_step deps)\<^sup>*\<^sup>* (db, P) (db', P') \<and> customers db' = customers db \<and>
    (map_option so_Status (so_row i db') = Some SOStatusCancelled \<longrightarrow> map_option so_Status (so_row i db) = Some SOStatusCancelled) \<and>
    (\<exists>l'. line_row (sl_ID l) db' = Some l' \<and> left_of l' < left_of l)"
proof -
  note assms = assms(2-)
  have ok: "sales_ok db" using assms(1) by (simp add: sales_inv_def)
  have l: "l \<in> set (so_lines db)" "sl_SalesOrderID l = i" using assms(4) by (auto simp: lines_of_def)
  have lok: "line_ok l" by (rule sales_okD(5) [OF ok l(1)])
  have row: "line_row (sl_ID l) db = Some l" by (rule row_by_eq_SomeI [OF sales_okD(3) [OF ok] l(1)])
  define q where "q = sl_QtyOrdered l - sl_QtyPlanned l"
  have q: "0 < q" "in_int4 q" "in_int4 (sl_QtyPlanned l + q)" "sl_QtyPlanned l + q = sl_QtyOrdered l"
    using lok assms(5) by (auto simp: q_def line_ok_def in_int4_def)
  then have i64: "i64 (sl_QtyPlanned l + q) = sl_QtyOrdered l" using lok by (auto simp: line_ok_def in_int4_def in_i64_def)
  define inp where "inp = \<lparr>sp_SalesOrderID = i, sp_Allocations = [\<lparr>al_SOLineID = sl_ID l, al_Quantity = q\<rparr>], sp_Deadline = 0, sp_ActorID = 0\<rparr>"
  have chk: "split_check inp db = Inr (so, [l])"
    using assms(2,3) row l(2) i64 by (simp add: split_check_def inp_def lockSOForUpdate_def)
  have s1: "sales_step deps (db, P) (db, (inp, so_Status so) # P)"
    by (rule step_split_check [OF chk]) (simp add: inp_def q)
  define db' where "db' = snd (split_commit inp (so_Status so) db)"
  have s2: "sales_step deps (db, (inp, so_Status so) # P) (db', (inp, so_Status so) # P)"
    by (rule step_split_commit [OF _ run_pair [OF db'_def]]) simp
  have inc: "increment_all (sp_Allocations inp) db = Inr (add_planned (sl_ID l) q db)"
    using row q lok by (simp add: inp_def incrementQtyPlanned_def line_ok_def)
  have com: "split_commit inp (so_Status so) db = (Inr (), db')"
    using inc by (simp add: db'_def split_commit_def)
  obtain split res x' where sp: "splitter deps = Some split" "split (split_request inp so [l]) x = (Inr res, x')"
    using accepts q(1) by (fastforce simp: splitter_accepts_def split_request_def inp_def)
  have "SplitToPlan deps inp (db, x) = (Inr res, (db', x'))"
    using sp chk com q(1) by (simp add: SplitToPlan_def inp_def)
  then have call: "flow_call deps (db, x) (db', x')" by (rule flow_split)
  have lines: "so_lines db' = so_lines (add_planned (sl_ID l) q db)" "customers db' = customers db"
    using inc by (simp_all add: db'_def split_commit_def updateStatusIfCurrent_def set_so_status_def add_planned_def)
  have "line_row (sl_ID l) db' = Some (l\<lparr>sl_QtyPlanned := sl_QtyPlanned l + q\<rparr>)"
    unfolding lines(1) using row by (simp add: add_planned_def row_by_update_where)
  moreover have "left_of (l\<lparr>sl_QtyPlanned := sl_QtyPlanned l + q\<rparr>) < left_of l" using q(1) by (simp add: left_of_def)
  moreover have "(sales_step deps)\<^sup>*\<^sup>* (db, P) (db', (inp, so_Status so) # P)" using s1 s2 by simp
  moreover have "map_option so_Status (so_row i db') = Some SOStatusCancelled \<longrightarrow> map_option so_Status (so_row i db) = Some SOStatusCancelled"
    using inc by (auto simp: db'_def split_commit_def updateStatusIfCurrent_def set_so_status_def add_planned_def row_by_update_where split: if_splits)
  ultimately show ?thesis using lines(2) call by blast
qed

lemma ship_rest:
  assumes "sales_inv (db, P)" and "l \<in> set (lines_of i db)" and "sl_QtyShipped l < sl_QtyPlanned l"
  shows "\<exists>db'. flow_call deps (db, x) (db', x) \<and> sales_step deps (db, P) (db', P) \<and> customers db' = customers db \<and>
    (map_option so_Status (so_row i db') = Some SOStatusCancelled \<longrightarrow> map_option so_Status (so_row i db) = Some SOStatusCancelled) \<and>
    (\<exists>l'. line_row (sl_ID l) db' = Some l' \<and> left_of l' < left_of l)"
proof -
  have ok: "sales_ok db" using assms(1) by (simp add: sales_inv_def)
  have l: "l \<in> set (so_lines db)" "sl_SalesOrderID l = i" using assms(2) by (auto simp: lines_of_def)
  have lok: "line_ok l" by (rule sales_okD(5) [OF ok l(1)])
  have row: "line_row (sl_ID l) db = Some l" by (rule row_by_eq_SomeI [OF sales_okD(3) [OF ok] l(1)])
  define q where "q = sl_QtyPlanned l - sl_QtyShipped l"
  have q: "0 < q" "in_int4 (sl_QtyShipped l + q)" "sl_QtyShipped l + q = sl_QtyPlanned l"
    using lok assms(3) by (auto simp: q_def line_ok_def in_int4_def)
  let ?db1 = "add_shipped (sl_ID l) q db"
  have run: "RecordShipmentTx [\<lparr>shi_SOLineID = sl_ID l, shi_Qty = q\<rparr>] db = Inr (recomputeSOStatusTx i ?db1)"
    using row q l(2) by (simp add: RecordShipmentTx_def recordShipmentTx_def ship_item_def)
  have "line_row (sl_ID l) (recomputeSOStatusTx i ?db1) = Some (l\<lparr>sl_QtyShipped := sl_QtyShipped l + q\<rparr>)"
    "customers (recomputeSOStatusTx i ?db1) = customers db"
    using row by (simp_all add: recompute_sos add_shipped_def row_by_update_where)
  moreover have "left_of (l\<lparr>sl_QtyShipped := sl_QtyShipped l + q\<rparr>) < left_of l" using q(1) by (simp add: left_of_def)
  moreover have "map_option so_Status (so_row i (recomputeSOStatusTx i ?db1)) = Some SOStatusCancelled \<longrightarrow> map_option so_Status (so_row i db) = Some SOStatusCancelled"
    by (auto simp: recompute_sos add_shipped_def row_by_map recomputed_def split: if_splits)
  ultimately show ?thesis using step_ship [OF run, of deps P] flow_ship [OF run, of deps x] by (intro exI [of _ "recomputeSOStatusTx i ?db1"]) blast
qed

lemma can_ship:
  "splitter_accepts deps i \<Longrightarrow> work_left i db = n \<Longrightarrow> sales_inv (db, P) \<Longrightarrow> selectSOByID i db = Inr so \<Longrightarrow> so_Status so \<in> insert SOStatusShipped splittable \<Longrightarrow> lines_of i db \<noteq> [] \<Longrightarrow>
   \<exists>s'. (flow_call deps)\<^sup>*\<^sup>* (db, x) s' \<and> map_option so_Status (so_row i (fst s')) = Some SOStatusShipped"
proof (induction n arbitrary: db P so x rule: less_induct)
  case (less n)
  obtain r where r: "so_row i db = Some r" "so_Status r = so_Status so" using selectSOByID_row [OF less.prems(4)] by blast
  show ?case
  proof (cases "so_Status so = SOStatusShipped")
    case True
    then show ?thesis using r by (intro exI [of _ "(db, x)"]) simp
  next
    case False
    then have st: "so_Status so \<in> splittable" using less.prems(5) by simp
    have ok: "sales_ok db" using less.prems(3) by (simp add: sales_inv_def)
    have "agree (so_Status so) (lines_of i db)"
      using sales_okD(7) [OF ok, of r] row_by_SomeD [OF r(1)] r(2) by auto
    then obtain l where l: "l \<in> set (lines_of i db)" "sl_QtyShipped l \<noteq> sl_QtyOrdered l" using False less.prems(6) by (auto simp: agree_def)
    have lok: "line_ok l" by (rule lines_of_ok [OF ok l(1)])
    have "\<exists>db' P' x'. flow_call deps (db, x) (db', x') \<and> (sales_step deps)\<^sup>*\<^sup>* (db, P) (db', P') \<and> customers db' = customers db \<and>
        (map_option so_Status (so_row i db') = Some SOStatusCancelled \<longrightarrow> map_option so_Status (so_row i db) = Some SOStatusCancelled) \<and>
        (\<exists>l'. line_row (sl_ID l) db' = Some l' \<and> left_of l' < left_of l)"
    proof (cases "sl_QtyShipped l < sl_QtyPlanned l")
      case True
      then show ?thesis using ship_rest [OF less.prems(3) l(1), of deps x] by (meson r_into_rtranclp)
    next
      case False
      then have "sl_QtyPlanned l < sl_QtyOrdered l" using lok l(2) by (simp add: line_ok_def)
      then show ?thesis by (rule plan_rest [OF less.prems(1,3,4) st l(1)])
    qed
    then obtain db' P' x' l' where call: "flow_call deps (db, x) (db', x')" and run: "(sales_step deps)\<^sup>*\<^sup>* (db, P) (db', P')" and cu: "customers db' = customers db"
      and nc: "map_option so_Status (so_row i db') = Some SOStatusCancelled \<longrightarrow> map_option so_Status (so_row i db) = Some SOStatusCancelled"
      and l': "line_row (sl_ID l) db' = Some l'" "left_of l' < left_of l" by blast
    have inv: "sales_inv (db', P')" by (rule sales.star_inv [OF less.prems(3) run])
    have ev: "so_evolves db db'" using so_evolves_star [OF less.prems(3) run] by simp
    have live: "so_Status r \<noteq> SOStatusDraft" using st r(2) by (auto simp: splittable_def)
    from work_left_decreases [OF less.prems(3) inv ev r(1) live l(1) l'] obtain r'
      where dec: "work_left i db' < n" and r': "so_row i db' = Some r'" "same_so r r'" using less.prems(2) by auto
    from selectSOByID_again [OF less.prems(4) cu r(1) r'] obtain so' where so': "selectSOByID i db' = Inr so'" "so_Status so' = so_Status r'" by blast
    have "list_all2 line_grows (lines_of i db) (lines_of i db')"
      using ev live row_by_SomeD [OF r(1)] unfolding so_evolves_def by blast
    then have ne: "lines_of i db' \<noteq> []" using less.prems(6) by auto
    have "so_Status r' \<noteq> SOStatusCancelled" using nc r r' st by (auto simp: splittable_def)
    then have "so_Status so' \<in> insert SOStatusShipped splittable"
      using r'(2) so'(2) r(2) st by (auto simp: same_so_def splittable_def) (cases "so_Status r'"; auto)+
    from less.IH [OF dec less.prems(1) refl inv so'(1) this ne] call show ?thesis by (meson converse_rtranclp_into_rtranclp)
  qed
qed

text \<open>
  C29: every confirmed order can be completed, once its splits are taken on. Take a splitter that accepts every request of positive
  quantities for the order. From any reachable state in which an order with at least one line is confirmed, in production or
  partially shipped, some sequence of calls, each a \<^verbatim>\<open>SplitToPlan\<close> that succeeds or a recorded shipment, brings it to shipped: no
  combination of planned and shipped quantities gets stuck. (The splitter the server passes takes none on, C35, so there
  the orders of the program stay where they are.)
\<close>

theorem confirmed_order_can_ship:
  assumes "splitter_accepts deps i" and "sales_reach deps (db, P)" and "GetSO i db = Inr so" and "so_Lines so \<noteq> []"
    and "so_Status so \<in> {SOStatusConfirmed, SOStatusInProduction, SOStatusPartiallyShipped}"
  shows "\<exists>s'. (flow_call deps)\<^sup>*\<^sup>* (db, x) s' \<and> map_option so_Status (so_row i (fst s')) = Some SOStatusShipped"
proof -
  obtain so0 where so0: "selectSOByID i db = Inr so0" "so = so0\<lparr>so_Lines := projr (selectSOLinesBySOID (so_ID so0) db)\<rparr>"
    using assms(3) by (auto simp: GetSO_def with_lines_def selectSOLinesBySOID_def split: sum.splits)
  have "so_ID so0 = i" using selectSOByID_row [OF so0(1)] by blast
  then have "lines_of i db \<noteq> []"
    using assms(4) so0(2) by (auto simp: selectSOLinesBySOID_def select_where_def lines_of_def)
  then show ?thesis
    using can_ship [OF assms(1) refl sales.reach_inv [OF assms(2)] so0(1)] assms(5) so0(2) by (auto simp: splittable_def)
qed

theorem confirmed_order_can_ship_witness:
  "map so_Status (sos desk_confirmed) = [SOStatusConfirmed] \<and>
   (\<exists>s'. (flow_call desk)\<^sup>*\<^sup>* (desk_confirmed, ()) s' \<and> map_option so_Status (so_row 20 (fst s')) = Some SOStatusShipped)"
proof -
  have st: "map so_Status (sos desk_confirmed) = [SOStatusConfirmed]" by code_simp
  have "map_sum id (\<lambda>s. (so_Status s, map sl_ID (so_Lines s))) (GetSO 20 desk_confirmed) = Inr (SOStatusConfirmed, [21])" by code_simp
  then obtain so where "GetSO 20 desk_confirmed = Inr so" "so_Status so = SOStatusConfirmed" "so_Lines so \<noteq> []" by auto
  moreover have "splitter_accepts desk 20" by (simp add: splitter_accepts_def desk_def)
  ultimately show ?thesis using confirmed_order_can_ship [OF _ desk_reach(1)] st by blast
qed

end
