(* ===== verification/Sales_Mapping_Props.thy ===== *)
theory Sales_Mapping_Props
  imports Sales_Props
begin

text \<open>
  The SKU codes of customers: a bulk import is all or nothing and every imported code resolves to its SKU
  afterwards. The decimal rendering written by hand for its messages is correct on every 64-bit
  integer but one.
\<close>

section \<open>Bulk import\<close>

definition prepared :: "uuid \<Rightarrow> BulkMappingRow \<Rightarrow> CustomerSKUMapping \<Rightarrow> bool" where
  "prepared c raw m \<longleftrightarrow> csm_CustomerID m = c \<and> validateMappingCode (bm_Code raw) = Inr (csm_Code m) \<and> csm_SKUID m = bm_SKUID raw"

lemma bulk_rows_prepared:
  "bulk_rows deps x env inp k seen raws = ([], prep) \<Longrightarrow> list_all2 (prepared (bu_CustomerID inp)) raws prep"
proof (induction raws arbitrary: k seen prep)
  case (Cons raw raws)
  obtain seen1 r where row: "bulk_row deps x seen raw = (seen1, r)" by force
  obtain errs prep1 where rest: "bulk_rows deps x env inp (Suc k) seen1 raws = (errs, prep1)" by force
  from Cons.prems row rest obtain code where code: "r = Inr code" "errs = []"
    and prep: "prep = \<lparr>csm_CustomerID = bu_CustomerID inp, csm_Code = code, csm_SKUID = bm_SKUID raw,
      csm_Notes = TrimSpace (bm_Notes raw), csm_CreatedBy = nullableUUID (bu_ActorID inp), csm_CreatedAt = now env, csm_UpdatedAt = now env\<rparr> # prep1"
    by (cases r) auto
  have "validateMappingCode (bm_Code raw) = Inr code"
    using row code(1) by (auto simp: bulk_row_def split: sum.splits if_splits)
  then show ?case using Cons.IH [OF rest [unfolded code(2)]] prep by (simp add: prepared_def)
qed simp

lemma find_append: "find P (xs @ ys) = (case find P xs of None \<Rightarrow> find P ys | Some x \<Rightarrow> Some x)"
  by (induction xs) auto

lemma insert_mappings_keep:
  "insert_mappings rf ms db = Inr db' \<Longrightarrow> find P (mappings db) = Some m \<Longrightarrow> find P (mappings db') = Some m"
proof (induction ms arbitrary: db)
  case (Cons m0 ms)
  then obtain db1 where one: "insertCustomerSKUMapping rf m0 db = (Inr (), db1)" and rest: "insert_mappings rf ms db1 = Inr db'"
    by (auto split: prod.splits sum.splits)
  from one have "mappings db1 = mappings db @ [m0]"
    by (auto simp: insertCustomerSKUMapping_def split: if_splits option.splits)
  then show ?case using Cons.IH [OF rest] Cons.prems(2) by (simp add: find_append)
qed simp

lemma insert_mappings_stored:
  "insert_mappings rf ms db = Inr db' \<Longrightarrow> db' = db\<lparr>mappings := mappings db @ ms\<rparr>"
proof (induction ms arbitrary: db)
  case (Cons m ms)
  then obtain db1 where one: "insertCustomerSKUMapping rf m db = (Inr (), db1)" and rest: "insert_mappings rf ms db1 = Inr db'"
    by (auto split: prod.splits sum.splits)
  from one have "db1 = db\<lparr>mappings := mappings db @ [m]\<rparr>"
    by (auto simp: insertCustomerSKUMapping_def split: if_splits option.splits)
  then show ?case using Cons.IH [OF rest] by simp
qed simp

lemma insert_mappings_find:
  "insert_mappings rf ms db = Inr db' \<Longrightarrow> m \<in> set ms \<Longrightarrow> find (same_csm (csm_CustomerID m) (csm_Code m)) (mappings db') = Some m"
proof (induction ms arbitrary: db)
  case (Cons m0 ms)
  then obtain db1 where one: "insertCustomerSKUMapping rf m0 db = (Inr (), db1)" and rest: "insert_mappings rf ms db1 = Inr db'"
    by (auto split: prod.splits sum.splits)
  from one have "mappings db1 = mappings db @ [m0]" "\<not> list_ex (same_csm (csm_CustomerID m0) (csm_Code m0)) (mappings db)"
    by (auto simp: insertCustomerSKUMapping_def split: if_splits option.splits)
  moreover from this(2) have "find (same_csm (csm_CustomerID m0) (csm_Code m0)) (mappings db) = None"
    by (simp add: find_None_iff list_ex_iff)
  ultimately have "find (same_csm (csm_CustomerID m0) (csm_Code m0)) (mappings db1) = Some m0"
    by (simp add: find_append same_csm_def)
  then show ?case using insert_mappings_keep [OF rest] Cons.IH [OF rest] Cons.prems(2) by auto
qed simp

text \<open>
  C21: a bulk import is all or nothing. When it reports an error, no mapping was stored. When it succeeds, no row is in error,
  the table of mappings has grown by exactly one row for each row of the file, in its order, with that
  customer, the normalised code and the SKU of the row, and nothing else has changed; the reported
  count is the number of these rows, every code of the file resolves to the SKU of its row for that
  customer, and every mapping that existed before still resolves as it did.
\<close>

theorem bulk_import_roundtrip:
  assumes "BulkImportCustomerSKUMappings deps env inp (db, x) = ((res, r), (db', x'))"
  shows "case r of
      Inl e \<Rightarrow> db' = db \<and> bi_Inserted res = 0
    | Inr _ \<Rightarrow> bi_Errors res = [] \<and> bi_Inserted res = int (length (bu_Rows inp)) \<and>
        (\<exists>new. db' = db\<lparr>mappings := mappings db @ new\<rparr> \<and> list_all2 (prepared (bu_CustomerID inp)) (bu_Rows inp) new) \<and>
        (\<forall>raw \<in> set (bu_Rows inp). \<exists>m. GetCustomerSKUMapping (bu_CustomerID inp) (bm_Code raw) db' = Inr m \<and> csm_SKUID m = bm_SKUID raw) \<and>
        (\<forall>c code m. GetCustomerSKUMapping c code db = Inr m \<longrightarrow> GetCustomerSKUMapping c code db' = Inr m)"
proof (cases r)
  case (Inl e)
  obtain errs prep where rows: "bulk_rows deps x env inp 1 [] (bu_Rows inp) = (errs, prep)" by force
  show ?thesis
  proof (cases "insert_mappings (srefs deps x) prep db")
    case (Inl e')
    then show ?thesis
      using assms rows by (auto simp: BulkImportCustomerSKUMappings_def bulkInsertCustomerSKUMappings_def Let_def split: if_splits)
  next
    case (Inr db1)
    then show ?thesis
      using assms rows \<open>r = Inl e\<close> by (auto simp: BulkImportCustomerSKUMappings_def bulkInsertCustomerSKUMappings_def Let_def split: if_splits)
  qed
next
  case (Inr u)
  obtain errs prep where rows0: "bulk_rows deps x env inp 1 [] (bu_Rows inp) = (errs, prep)" by force
  from assms Inr rows0 have nil: "bu_CustomerID inp \<noteq> uuid_Nil" and errs: "errs = []"
    by (auto simp: BulkImportCustomerSKUMappings_def Let_def split: if_splits)
  note rows = rows0 [unfolded errs]
  from assms Inr rows nil have ins: "insert_mappings (srefs deps x) prep db = Inr db'" and res: "res = \<lparr>bi_Inserted = int (length prep), bi_Errors = []\<rparr>"
    by (cases "insert_mappings (srefs deps x) prep db";
        auto simp: BulkImportCustomerSKUMappings_def bulkInsertCustomerSKUMappings_def Let_def split: if_splits)+
  note prep = bulk_rows_prepared [OF rows]
  have "\<exists>m. GetCustomerSKUMapping (bu_CustomerID inp) (bm_Code raw) db' = Inr m \<and> csm_SKUID m = bm_SKUID raw" if raw: "raw \<in> set (bu_Rows inp)" for raw
  proof -
    obtain m where m: "m \<in> set prep" "prepared (bu_CustomerID inp) raw m"
      using list_all2_D1 [OF prep raw] by blast
    then show ?thesis
      using insert_mappings_find [OF ins m(1)] nil
      by (intro exI [of _ m]) (auto simp: prepared_def GetCustomerSKUMapping_def selectCustomerSKUMappingByPK_def)
  qed
  moreover have "GetCustomerSKUMapping c code db' = Inr m" if "GetCustomerSKUMapping c code db = Inr m" for c code m
    using that insert_mappings_keep [OF ins]
    by (auto simp: GetCustomerSKUMapping_def selectCustomerSKUMappingByPK_def split: if_splits sum.splits option.splits)
  ultimately show ?thesis using list_all2_lengthD [OF prep] prep insert_mappings_stored [OF ins] res Inr by auto
qed

theorem bulk_import_roundtrip_witness:
  "\<exists>db' m. GetCustomerSKUMapping 10 ''A-1'' db' = Inr m \<and> csm_SKUID m = 4 \<and>
     length (mappings db') = Suc (length (mappings desk_drafted))"
proof -
  define inp where "inp = \<lparr>bu_CustomerID = 10, bu_Rows = [\<lparr>bm_Code = '' A-1 '', bm_SKUID = 4, bm_Notes = []\<rparr>], bu_ActorID = 9\<rparr>"
  define run where "run = BulkImportCustomerSKUMappings desk (desk_env 7) inp (desk_drafted, ())"
  have "\<not> isl (snd (fst run))" unfolding run_def inp_def by code_simp
  then obtain u where ok: "snd (fst run) = Inr u" by (cases "snd (fst run)") auto
  have "BulkImportCustomerSKUMappings desk (desk_env 7) inp (desk_drafted, ()) = ((fst (fst run), Inr u), (fst (snd run), ()))"
    unfolding run_def [symmetric] ok [symmetric] by (simp add: prod_eq_iff)
  note trip = bulk_import_roundtrip [OF this, unfolded sum.case]
  from trip obtain m where m: "GetCustomerSKUMapping 10 '' A-1 '' (fst (snd run)) = Inr m" "csm_SKUID m = 4" by (auto simp: inp_def)
  from trip obtain new where new: "fst (snd run) = desk_drafted\<lparr>mappings := mappings desk_drafted @ new\<rparr>"
    "list_all2 (prepared (bu_CustomerID inp)) (bu_Rows inp) new" by blast
  from list_all2_lengthD [OF new(2)] have "length new = 1" by (simp add: inp_def)
  with new(1) have "length (mappings (fst (snd run))) = Suc (length (mappings desk_drafted))" by simp
  moreover have "validateMappingCode '' A-1 '' = validateMappingCode ''A-1''" by code_simp
  ultimately show ?thesis using m by (auto simp: GetCustomerSKUMapping_def intro!: exI [of _ "fst (snd run)"])
qed

section \<open>Decimal numbers\<close>

lemma itoa_digits_decimal:
  assumes "0 < i"
  shows "rev (itoa_digits i acc) = decimal (nat i) @ rev acc"
  using assms
proof (induction "nat i" arbitrary: i acc rule: less_induct)
  case less
  let ?d = "char_of (48 + nat (i mod 10)) :: char"
  have q: "quot i 10 = i div 10" using less.prems by (simp add: quot_nonneg)
  have d: "?d = digit (nat i mod 10)" using less.prems by (simp add: digit_def nat_mod_distrib)
  have step: "itoa_digits i acc = itoa_digits (i div 10) (acc @ [?d])" using less.prems by (simp add: itoa_digits.simps [of i] q)
  show ?case
  proof (cases "i < 10")
    case True
    then have "i div 10 = 0" "nat i < 10" using less.prems by auto
    then show ?thesis using step d by (simp add: itoa_digits.simps [of 0] decimal.simps [of "nat i"])
  next
    case False
    then have "0 < i div 10" "nat (i div 10) < nat i" using less.prems by auto
    from less.hyps [OF this(2,1)] have "rev (itoa_digits i acc) = decimal (nat (i div 10)) @ [?d] @ rev acc" using step by simp
    moreover have "nat (i div 10) = nat i div 10" using less.prems by (simp add: nat_div_distrib)
    moreover have "\<not> nat i < 10" using False by simp
    ultimately show ?thesis using d by (simp add: decimal.simps [of "nat i"])
  qed
qed

text \<open>The loop that swaps the ends towards the middle reverses the list.\<close>

lemma swap_loop_nth:
  "r < length ds \<Longrightarrow> length (swap_loop l r ds) = length ds \<and>
     (\<forall>k < length ds. swap_loop l r ds ! k = (if l \<le> k \<and> k \<le> r then ds ! (l + r - k) else ds ! k))"
proof (induction l r ds rule: swap_loop.induct)
  case (1 l r ds)
  show ?case
  proof (cases "l < r")
    case False
    then have "l + r - k = k" if "l \<le> k" "k \<le> r" for k using that by simp
    then show ?thesis using False by (simp add: swap_loop.simps [of l r ds])
  next
    case True
    let ?ds = "ds[l := ds ! r, r := ds ! l]"
    have IH: "length (swap_loop (Suc l) (r - 1) ?ds) = length ?ds"
      "\<And>k. k < length ?ds \<Longrightarrow> swap_loop (Suc l) (r - 1) ?ds ! k = (if Suc l \<le> k \<and> k \<le> r - 1 then ?ds ! (Suc l + (r - 1) - k) else ?ds ! k)"
      using "1.IH" [OF True] "1.prems" by auto
    have step: "swap_loop l r ds = swap_loop (Suc l) (r - 1) ?ds" using True by (simp add: swap_loop.simps [of l r ds])
    show ?thesis
      unfolding step using IH True "1.prems" by (auto simp: nth_list_update)
  qed
qed

lemma swap_loop_rev: "swap_loop 0 (length ds - 1) ds = rev ds"
proof (cases "ds = []")
  case True
  then show ?thesis by (simp add: swap_loop.simps)
next
  case False
  then have "length ds - 1 < length ds" by simp
  from swap_loop_nth [OF this, of 0] show ?thesis
    by (intro nth_equalityI) (auto simp: rev_nth)
qed

lemma itoa_decimal:
  assumes "in_i64 i"
  shows "itoa i = (if i = - (2 ^ 63) then ''-'' else if i < 0 then CHR ''-'' # decimal (nat (- i)) else decimal (nat i))"
proof -
  have "i64 (- i) = - i" if "i < 0" "i \<noteq> - (2 ^ 63)" using assms that by (intro i64_in_range) (auto simp: in_i64_def)
  moreover have "i64 (2 ^ 63) = - (2 ^ 63)" by (simp add: i64_def)
  moreover have "decimal 0 = ''0''" by code_simp
  moreover have "itoa_digits (- (2 ^ 63)) [] = []" by (simp add: itoa_digits.simps)
  ultimately show ?thesis
    unfolding itoa_def Let_def swap_loop_rev using itoa_digits_decimal [of i "[]"] itoa_digits_decimal [of "- i" "[]"] by auto
qed

end
