(* ===== verification/Sales_Refinement.thy ===== *)
theory Sales_Refinement
  imports Sales_Props
begin

text \<open>
  The contract of a sales order, stated without tables: an order is a status and a list of ordered, planned and
  shipped quantities, and eight transitions change it. Every execution of the sales module, seen
  through any one order, is an execution of this contract.
\<close>

section \<open>The contract\<close>

type_synonym quantities = "int \<times> int \<times> int"

type_synonym book = "(SOStatus \<times> quantities list) option"

definition book_status :: "SOStatus \<Rightarrow> quantities list \<Rightarrow> SOStatus" where
  "book_status st ls =
     (if list_all (\<lambda>(oq, pq, sq). sq \<ge> oq) ls then SOStatusShipped
      else if st = SOStatusCancelled then SOStatusCancelled else SOStatusPartiallyShipped)"

inductive book_step :: "book \<Rightarrow> book \<Rightarrow> bool" where
  book_open: "book_step None (Some (SOStatusDraft, []))"
| book_draft: "list_all (\<lambda>(oq, pq, sq). 0 < oq \<and> pq = 0 \<and> sq = 0) ls' \<Longrightarrow>
    book_step (Some (SOStatusDraft, ls)) (Some (SOStatusDraft, ls'))"
| book_confirm: "book_step (Some (SOStatusDraft, ls)) (Some (SOStatusConfirmed, ls))"
| book_start: "book_step (Some (SOStatusConfirmed, ls)) (Some (SOStatusInProduction, ls))"
| book_cancel: "st \<in> {SOStatusDraft, SOStatusConfirmed, SOStatusInProduction} \<Longrightarrow> book_step (Some (st, ls)) (Some (SOStatusCancelled, ls))"
| book_plan: "st \<noteq> SOStatusDraft \<Longrightarrow> k < length ls \<Longrightarrow> ls ! k = (oq, pq, sq) \<Longrightarrow> 0 < q \<Longrightarrow> pq + q \<le> oq \<Longrightarrow>
    book_step (Some (st, ls)) (Some (st, ls[k := (oq, pq + q, sq)]))"
| book_ship: "st \<notin> {SOStatusDraft, SOStatusShipped} \<Longrightarrow>
    list_all2 (\<lambda>(oq, pq, sq) (oq', pq', sq'). oq' = oq \<and> pq' = pq \<and> sq \<le> sq' \<and> sq' \<le> pq) ls ls' \<Longrightarrow>
    list_ex (\<lambda>(oq, pq, sq). 0 < sq) ls' \<Longrightarrow>
    book_step (Some (st, ls)) (Some (book_status st ls', ls'))"

section \<open>Refinement\<close>

text \<open>A system with an invariant implements another when each of its steps is a sequence of the other's.\<close>

locale refinement = invariant init step inv
  for init :: "'s \<Rightarrow> bool" and step :: "'s \<Rightarrow> 's \<Rightarrow> bool" and inv :: "'s \<Rightarrow> bool" +
  fixes astep :: "'a \<Rightarrow> 'a \<Rightarrow> bool" and abs_of :: "'s \<Rightarrow> 'a"
  assumes simulates: "inv s \<Longrightarrow> step s s' \<Longrightarrow> astep\<^sup>*\<^sup>* (abs_of s) (abs_of s')"
begin

lemma refines:
  assumes "inv s" and "step\<^sup>*\<^sup>* s s'"
  shows "astep\<^sup>*\<^sup>* (abs_of s) (abs_of s')"
  using assms(2)
proof (induction rule: rtranclp_induct)
  case (step b c)
  then show ?case using simulates [OF star_inv [OF assms(1) step(1)] step(2)] by (meson rtranclp_trans)
qed simp

end

definition quantities_of :: "SalesOrderLine \<Rightarrow> quantities" where
  "quantities_of l = (sl_QtyOrdered l, sl_QtyPlanned l, sl_QtyShipped l)"

definition book_of :: "uuid \<Rightarrow> sales_db \<Rightarrow> book" where
  "book_of i db = map_option (\<lambda>so. (so_Status so, map quantities_of (lines_of i db))) (so_row i db)"

lemma book_same: "sos db' = sos db \<Longrightarrow> lines_of i db' = lines_of i db \<Longrightarrow> book_of i db' = book_of i db"
  by (simp add: book_of_def)

lemma draft_quantities:
  assumes "sales_ok db" and "so_row i db = Some so" and "so_Status so = SOStatusDraft"
  shows "list_all (\<lambda>(oq, pq, sq). 0 < oq \<and> pq = 0 \<and> sq = 0) (map quantities_of (lines_of i db))"
proof -
  have "agree SOStatusDraft (lines_of i db)" using sales_okD(7) [OF assms(1), of so] row_by_SomeD [OF assms(2)] assms(3) by auto
  moreover have "line_ok l" if "l \<in> set (lines_of i db)" for l by (rule lines_of_ok [OF assms(1) that])
  ultimately show ?thesis unfolding list_all_iff agree_def line_ok_def quantities_of_def by fastforce
qed

lemma edit_draft_book:
  assumes "sales_ok db" and "sales_ok db'" and "sos db' = sos db" and "so_row j db = Some so" and "so_Status so = SOStatusDraft"
    and "\<And>k. k \<noteq> j \<Longrightarrow> map quantities_of (lines_of k db') = map quantities_of (lines_of k db)"
  shows "book_step\<^sup>=\<^sup>= (book_of i db) (book_of i db')"
proof (cases "i = j")
  case True
  have "so_row j db' = Some so" using assms(3,4) by simp
  from draft_quantities [OF assms(2) this assms(5)] show ?thesis
    using True assms(3-5) book_draft by (simp add: book_of_def)
next
  case False
  then show ?thesis using assms(3,6) by (simp add: book_of_def)
qed

lemma edit_status_book:
  assumes "sos db' = update_where (\<lambda>r. so_ID r = j) f (sos db)" and "so_lines db' = so_lines db" and "so_row j db = Some so"
    and "\<And>r. so_ID (f r) = so_ID r" and "\<And>ls. book_step\<^sup>=\<^sup>= (Some (so_Status so, ls)) (Some (so_Status (f so), ls))"
  shows "book_step\<^sup>=\<^sup>= (book_of i db) (book_of i db')"
proof -
  have rows: "so_row k db' = map_option (\<lambda>r. if so_ID r = j then f r else r) (so_row k db)" for k
    unfolding assms(1) using assms(4) by (rule row_by_update_where)
  have ls: "lines_of k db' = lines_of k db" for k by (simp add: lines_of_def assms(2))
  show ?thesis
  proof (cases "i = j")
    case True
    have "so_ID so = j" using row_by_SomeD [OF assms(3)] by simp
    then show ?thesis using True assms(3,5) by (auto simp: book_of_def rows ls)
  next
    case False
    then have "so_row i db' = so_row i db" unfolding rows by (cases "so_row i db") (auto dest: row_by_SomeD)
    then show ?thesis by (simp add: book_of_def ls)
  qed
qed

lemma edit_plan_book:
  assumes "sales_ok db" and "db' = add_planned j q db" and "line_row j db = Some l" and "0 < q" and "sl_QtyPlanned l + q \<le> sl_QtyOrdered l"
    and "so_row (sl_SalesOrderID l) db = Some so" and "so_Status so \<noteq> SOStatusDraft"
  shows "book_step\<^sup>=\<^sup>= (book_of i db) (book_of i db')"
proof -
  let ?f = "\<lambda>k. if sl_ID k = j then k\<lparr>sl_QtyPlanned := sl_QtyPlanned k + q\<rparr> else k"
  have l: "l \<in> set (so_lines db)" "sl_ID l = j" using row_by_SomeD [OF assms(3)] by auto
  have sos: "sos db' = sos db" and ls: "lines_of k db' = map ?f (lines_of k db)" for k
    unfolding assms(2) add_planned_def update_where_def lines_of_def by (auto simp: filter_map o_def intro!: arg_cong [where f = "map _"] filter_cong)
  show ?thesis
  proof (cases "i = sl_SalesOrderID l")
    case False
    have "?f k = k" if "k \<in> set (lines_of i db)" for k
      using that False line_row_only [OF assms(1,3)] by (auto simp: lines_of_def)
    then have "lines_of i db' = lines_of i db" unfolding ls by (rule map_idI)
    then show ?thesis using sos by (simp add: book_of_def)
  next
    case True
    then have "l \<in> set (lines_of i db)" using l by (simp add: lines_of_def)
    then obtain n where n: "n < length (lines_of i db)" "lines_of i db ! n = l" by (auto simp: in_set_conv_nth)
    have other: "sl_ID (lines_of i db ! m) \<noteq> j" if "m < length (lines_of i db)" "m \<noteq> n" for m
    proof -
      have "distinct (map sl_ID (lines_of i db))" using sales_okD(3) [OF assms(1)] by (simp add: lines_of_def distinct_map_filter)
      then show ?thesis using that n l(2) nth_eq_iff_index_eq [of "map sl_ID (lines_of i db)" m n] by auto
    qed
    have "map quantities_of (lines_of i db') =
        (map quantities_of (lines_of i db)) [n := (sl_QtyOrdered l, sl_QtyPlanned l + q, sl_QtyShipped l)]"
      unfolding ls by (rule nth_equalityI) (use n l(2) other in \<open>auto simp: nth_list_update quantities_of_def\<close>)
    moreover have "map quantities_of (lines_of i db) ! n = (sl_QtyOrdered l, sl_QtyPlanned l, sl_QtyShipped l)"
      using n by (simp add: quantities_of_def)
    ultimately show ?thesis
      using book_plan [OF assms(7), of n "map quantities_of (lines_of i db)"] n(1) assms(4-6) sos True by (simp add: book_of_def)
  qed
qed

lemma edit_ship_book:
  assumes "sales_ok db" and "recordShipmentTx its db = Inr db'"
  shows "book_step\<^sup>=\<^sup>= (book_of i db) (book_of i db')"
  using assms
proof (rule recordShipmentTx_view)
  fix S
  assume sos: "sos db' = map (\<lambda>so. if so_ID so \<in> S then so\<lparr>so_Status := recomputed (so_Status so) (lines_of (so_ID so) db')\<rparr> else so) (sos db)"
    and sh: "\<And>i. list_all2 (shipped S) (lines_of i db) (lines_of i db')"
    and some: "\<And>i. i \<in> S \<Longrightarrow> \<exists>l \<in> set (lines_of i db'). 0 < sl_QtyShipped l"
    and same: "\<And>i. i \<notin> S \<Longrightarrow> lines_of i db' = lines_of i db"
  have row: "so_row i db' = map_option (\<lambda>so. if i \<in> S then so\<lparr>so_Status := recomputed (so_Status so) (lines_of i db')\<rparr> else so) (so_row i db)"
    unfolding sos by (subst row_by_map) (auto simp: map_option_case split: option.splits dest!: row_by_SomeD)
  show ?thesis
  proof (cases "i \<in> S \<and> so_row i db \<noteq> None")
    case False
    then show ?thesis using same [of i] by (cases "so_row i db") (auto simp: book_of_def row)
  next
    case True
    then obtain so where so: "so_row i db = Some so" and S: "i \<in> S" by blast
    let ?ls = "map quantities_of (lines_of i db)" and ?ls' = "map quantities_of (lines_of i db')"
    have ag: "agree (so_Status so) (lines_of i db)" using sales_okD(7) [OF assms(1), of so] row_by_SomeD [OF so] by auto
    have ag': "agree (recomputed (so_Status so) (lines_of i db')) (lines_of i db') \<and> recomputed (so_Status so) (lines_of i db') \<in> so_future (so_Status so)"
      by (rule agree_shipped [OF ag sh lines_of_ok [OF assms(1)] some [OF S]])
    have rel: "list_all2 (\<lambda>(oq, pq, sq) (oq', pq', sq'). oq' = oq \<and> pq' = pq \<and> sq \<le> sq' \<and> sq' \<le> pq) ?ls ?ls'"
      unfolding list_all2_map1 list_all2_map2 using sh [of i]
      by (rule list_all2_mono) (auto simp: shipped_def moved_def line_grows_def line_ok_def quantities_of_def)
    have ex: "list_ex (\<lambda>(oq, pq, sq). 0 < sq) ?ls'" using some [OF S] by (auto simp: list_ex_iff quantities_of_def)
    have stat: "recomputed (so_Status so) (lines_of i db') = book_status (so_Status so) ?ls'" if "so_Status so \<noteq> SOStatusDraft" "so_Status so \<noteq> SOStatusShipped"
      using that some [OF S] by (cases "so_Status so") (auto simp: recomputed_def book_status_def list_all_iff list_ex_iff quantities_of_def)
    show ?thesis
    proof (cases "so_Status so = SOStatusShipped")
      case True
      have "\<forall>l \<in> set (lines_of i db). sl_QtyShipped l = sl_QtyOrdered l" using ag True by (simp add: agree_def)
      then have "list_all2 (\<lambda>l l'. quantities_of l' = quantities_of l) (lines_of i db) (lines_of i db')"
        using sh [of i] by (auto simp: list_all2_conv_all_nth shipped_def moved_def line_grows_def line_ok_def quantities_of_def)
      then have "?ls' = ?ls" by (induction rule: list_all2_induct) auto
      moreover have "recomputed (so_Status so) (lines_of i db') = SOStatusShipped" using ag' True by simp
      ultimately show ?thesis using so S True by (simp add: book_of_def row)
    next
      case False
      have "so_Status so \<noteq> SOStatusDraft"
      proof
        assume draft: "so_Status so = SOStatusDraft"
        obtain l' where l': "l' \<in> set (lines_of i db')" "0 < sl_QtyShipped l'" using some [OF S] by blast
        from list_all2_D2 [OF sh l'(1)] obtain l where "l \<in> set (lines_of i db)" "shipped S l l'" by blast
        then show False using draft ag l'(2) by (auto simp: agree_def shipped_def moved_def line_ok_def)
      qed
      then show ?thesis using book_ship [OF _ rel ex, of "so_Status so"] stat False so S by (simp add: book_of_def row)
    qed
  qed
qed

lemma edit_book:
  assumes "sales_ok db" and "edit db db'"
  shows "book_step\<^sup>=\<^sup>= (book_of i db) (book_of i db')"
proof -
  have ok': "sales_ok db'" using edit_ok [OF assms] by simp
  show ?thesis
    using assms(2)
  proof cases
    case e_other
    then show ?thesis by (simp add: book_of_def lines_of_def)
  next
    case (e_order so)
    have "lines_of (so_ID so) db = []" using sales_okD(6) [OF assms(1)] e_order(3) unfolding lines_of_def filter_empty_conv by metis
    moreover have "lines_of k db' = lines_of k db" for k using e_order(2) by (simp add: lines_of_def)
    moreover have "so_row (so_ID so) db = None" using e_order(3) by (simp add: row_by_None_iff)
    ultimately show ?thesis
      using e_order(1,5) book_open by (cases "i = so_ID so") (auto simp: book_of_def split: option.splits)
  next
    case (e_header j f so)
    then show ?thesis by (intro edit_status_book [OF e_header(1,2,4)]) (auto simp: keeps_so_def)
  next
    case (e_line l so)
    then show ?thesis by (intro edit_draft_book [OF assms(1) ok' _ e_line(3,4)]) (auto simp: lines_of_def)
  next
    case (e_delete gone j so)
    have "map quantities_of (lines_of k db') = map quantities_of (lines_of k db)" if "k \<noteq> j" for k
    proof -
      have "map quantities_of (filter (\<lambda>l. sl_SalesOrderID l = k) (map (forget_parent gone) (filter (\<lambda>l. sl_SalesOrderID l \<noteq> j) t))) =
          map quantities_of (filter (\<lambda>l. sl_SalesOrderID l = k) t)" for t
        using that by (induction t) (auto simp: quantities_of_def)
      then show ?thesis by (simp add: lines_of_def e_delete(2) delete_where_def)
    qed
    then show ?thesis by (intro edit_draft_book [OF assms(1) ok' e_delete(1,3,4)])
  next
    case (e_status j st so)
    then show ?thesis
      by (intro edit_status_book [OF e_status(1-3)]) (auto intro: book_confirm book_start book_cancel)
  next
    case (e_planned j q l so)
    then show ?thesis by (rule edit_plan_book [OF assms(1)])
  next
    case (e_ship its)
    then show ?thesis by (rule edit_ship_book [OF assms(1)])
  qed
qed

interpretation sales_book: refinement "\<lambda>s. s = (empty_sales, [])" "sales_step deps" sales_inv book_step "\<lambda>s. book_of i (fst s)"
proof unfold_locales
  fix s s' assume inv: "sales_inv s" and step: "sales_step deps s s'"
  have "sales_ok a \<Longrightarrow> book_step\<^sup>*\<^sup>* (book_of i a) (book_of i b)" if "edit\<^sup>*\<^sup>* a b" for a b
    using that
  proof (induction rule: rtranclp_induct)
    case (step b c)
    then show ?case using edit_book [of b c i] edits_ok [OF step(1)] by (auto intro: rtranclp.rtrancl_into_rtrancl)
  qed simp
  then show "book_step\<^sup>*\<^sup>* (book_of i (fst s)) (book_of i (fst s'))"
    using sales_step_edits [OF step inv] inv by (simp add: sales_inv_def)
qed

text \<open>
  C30: the sales module implements the contract of an order. From the first state on, whatever the calls
  and however they interleave with the phases of a split, the status and the quantities of any order develop by the
  transitions of the contract only: it is opened as an empty draft, a draft exchanges lines with nothing
  planned, it is confirmed, started or cancelled, planned up to what was ordered and shipped up to what was
  planned, with the status that the quantities shipped determine.
\<close>

theorem order_implements_contract:
  assumes "sales_reach deps (db, P)" and "(sales_step deps)\<^sup>*\<^sup>* (db, P) (db', P')"
  shows "book_step\<^sup>*\<^sup>* (book_of i db) (book_of i db')"
  using sales_book.refines [OF sales.reach_inv [OF assms(1)] assms(2)] by simp

theorem order_implements_contract_witness:
  "book_step\<^sup>*\<^sup>* (Some (SOStatusConfirmed, [(10, 0, 0)])) (Some (SOStatusCancelled, [(10, 10, 0)]))"
proof -
  have "(sales_step desk)\<^sup>*\<^sup>* (desk_confirmed, []) (desk_cancelled, [(desk_split, SOStatusConfirmed)])"
    using desk_steps(4,5) desk_steps(6) [of "[(desk_split, SOStatusConfirmed)]"] by simp
  from order_implements_contract [OF desk_reach(1) this, of 20] show ?thesis
  proof -
    have "book_of 20 desk_confirmed = Some (SOStatusConfirmed, [(10, 0, 0)])" "book_of 20 desk_cancelled = Some (SOStatusCancelled, [(10, 10, 0)])"
      by code_simp+
    then show ?thesis using \<open>book_step\<^sup>*\<^sup>* (book_of 20 desk_confirmed) (book_of 20 desk_cancelled)\<close> by simp
  qed
qed

end
