(* ===== verification/Sales_Wiring.thy ===== *)
theory Sales_Wiring
  imports Sales_Service Planning_Invariant
begin

text \<open>
  Sales wired to planning and production as \<^verbatim>\<open>cmd/server/main.go\<close> does it: the splitter creates a plan and
  then one work order per item, as separate calls. \<open>envs k\<close> is what the \<open>k\<close>-th call reads of the clock and
  draws as identifiers.
\<close>

fun split_orders :: "'y prod_deps \<Rightarrow> (nat \<Rightarrow> env) \<Rightarrow> nat \<Rightarrow> uuid \<Rightarrow> uuid \<Rightarrow> CreatePlanWOItem list \<Rightarrow> (prod_db \<times> 'y, uuid list) op" where
  "split_orders deps envs k planID actor [] st = (Inr [], st)"
| "split_orders deps envs k planID actor (it # its) st =
     (case CreateWorkOrder deps (envs k) \<lparr>cw_PlanID = planID, cw_SKUID = pwi_SKUID it, cw_Quantity = pwi_Quantity it,
              cw_BypassReason = [], cw_CallerID = Some actor, cw_SalesOrderLineID = Some (pwi_SOLineID it)\<rparr> st of
        (Inl e, st1) \<Rightarrow> (Inl e, st1)
      | (Inr w, st1) \<Rightarrow>
          (case split_orders deps envs (Suc k) planID actor its st1 of (Inl e, st2) \<Rightarrow> (Inl e, st2) | (Inr ids, st2) \<Rightarrow> (Inr (wo_ID w # ids), st2)))"

definition salesProductionSplitterAdapter ::
  "plan_refs \<Rightarrow> nat \<Rightarrow> 'y prod_deps \<Rightarrow> (nat \<Rightarrow> env) \<Rightarrow> CreatePlanWithWOsRequest \<Rightarrow> (plan_db \<times> prod_db \<times> 'y, SplitToPlanResult) op" where
  "salesProductionSplitterAdapter rf year deps envs req st =
     (case CreatePlan rf year (envs 0) \<lparr>ip_POID = None, ip_SOID = Some (pwr_SalesOrderID req),
              ip_Items = map (\<lambda>it. \<lparr>ii_SKUID = pwi_SKUID it, ii_Quantity = pwi_Quantity it\<rparr>) (pwr_Items req),
              ip_Deadline = pwr_Deadline req\<rparr> (fst st) of
        (Inl e, pdb) \<Rightarrow> (Inl e, (pdb, snd st))
      | (Inr (plan, its), pdb) \<Rightarrow>
          (case split_orders (with_plans pdb deps) envs 1 (pn_ID plan) (pwr_ActorID req) (pwr_Items req) (snd st) of
             (Inl e, st1) \<Rightarrow> (Inl e, (pdb, st1))
           | (Inr ids, st1) \<Rightarrow> (Inr \<lparr>spr_PlanID = pn_ID plan, spr_PlanCode = pn_Code plan, spr_WorkOrderIDs = ids\<rparr>, (pdb, st1))))"

text \<open>The plan is a draft when the first work order asks for it.\<close>

lemma CreatePlan_draft:
  assumes "CreatePlan rf year env inp db = (r, db')"
  shows "\<forall>p \<in> set (plans db'). p \<in> set (plans db) \<or> pn_Status p = PlanDraft"
    and "r = Inr (p, its) \<Longrightarrow> \<exists>row. row_by pn_ID (pn_ID p) (plans db') = Some row \<and> pn_Status row = PlanDraft"
  using assms
  by (auto simp: CreatePlan_def nextPlanCode_def insertPlan_def plan_columns_def Let_def split: if_splits sum.splits prod.splits dest!: insertPlanItems_plans)
    (auto simp: row_by_None_iff rev_image_eqI split: option.splits dest!: row_by_SomeD)

lemma split_orders_draft:
  assumes "row_by pn_ID planID (plans pdb) = Some row" and "pn_Status row = PlanDraft" and "its \<noteq> []"
  shows "split_orders (with_plans pdb deps) envs k planID actor its st = (Inl (Biz ErrPreconditionFailed), st)"
  using assms by (cases its) (auto simp: CreateWorkOrder_def with_plans_def planAdapter_GetPlan_def GetPlan_def selectPlanByID_def
      selectPlanItemsByPlanID_def Let_def split: sum.splits)

lemma splitter_refuses:
  assumes "pwr_Items req \<noteq> []"
  shows "\<exists>e pdb'. salesProductionSplitterAdapter rf year deps envs req (pdb, st) = (Inl e, (pdb', st)) \<and>
    (\<forall>p \<in> set (plans pdb'). p \<in> set (plans pdb) \<or> pn_Status p = PlanDraft)"
proof -
  define inp where "inp = \<lparr>ip_POID = None, ip_SOID = Some (pwr_SalesOrderID req),
    ip_Items = map (\<lambda>it. \<lparr>ii_SKUID = pwi_SKUID it, ii_Quantity = pwi_Quantity it\<rparr>) (pwr_Items req), ip_Deadline = pwr_Deadline req\<rparr>"
  obtain r pdb' where run: "CreatePlan rf year (envs 0) inp pdb = (r, pdb')" by force
  note draft = CreatePlan_draft [OF run]
  show ?thesis
  proof (cases r)
    case (Inl e)
    then show ?thesis using run draft(1) by (simp add: salesProductionSplitterAdapter_def inp_def)
  next
    case (Inr v)
    obtain p its where v: "v = (p, its)" by force
    from draft(2) [OF Inr [unfolded v]] obtain row where "row_by pn_ID (pn_ID p) (plans pdb') = Some row" "pn_Status row = PlanDraft" by blast
    from split_orders_draft [OF this assms, of deps envs 1 "pwr_ActorID req" st] show ?thesis
      using run draft(1) Inr v by (simp add: salesProductionSplitterAdapter_def inp_def)
  qed
qed

end
