(* ===== verification/Packing_Store.thy ===== *)
theory Packing_Store
  imports Domain Paging
begin

text \<open>
  Rows and statements of the packing module: \<^verbatim>\<open>internal/module/packing/iface.go\<close> and \<^verbatim>\<open>pgstore.go\<close>, with
  the constraints of migrations 00052, 00066, 00072 and 00078. The pool has one row per physical piece.
  The texts that a query joins from the SKU, the barcode and the work order for display are left out.

  \<open>pack_refs\<close> is what the statements read of tables of other modules: the keys a reference may point
  to, the lines of containers with their container, and the soonest cut-off of an open container that
  holds a sales order line.
\<close>

section \<open>Rows\<close>

datatype FGStatus = FGStatusAvailable | FGStatusReserved | FGStatusLoaded | FGStatusDefect | FGStatusDisposed

fun fg_status_text :: "FGStatus \<Rightarrow> string" where
  "fg_status_text FGStatusAvailable = ''AVAILABLE''"
| "fg_status_text FGStatusReserved = ''RESERVED''"
| "fg_status_text FGStatusLoaded = ''LOADED''"
| "fg_status_text FGStatusDefect = ''DEFECT''"
| "fg_status_text FGStatusDisposed = ''DISPOSED''"

record FGPool =
  fg_ID :: uuid
  fg_WorkOrderID :: uuid
  fg_SKUID :: uuid
  fg_BarcodeID :: uuid
  fg_SalesOrderLineID :: "uuid option"
  fg_Status :: FGStatus
  fg_ContainerLineID :: "uuid option"
  fg_ComponentType :: "string option"
  fg_UnitIndex :: "int option"
  fg_QCPassedAt :: time
  fg_QCPassedBy :: uuid
  fg_CreatedAt :: time

text \<open>A resolution of \<open>None\<close> is the column's \<^verbatim>\<open>NULL\<close>, which Go reads as the empty text.\<close>

record FGDefect =
  df_ID :: uuid
  df_FGPoolID :: uuid
  df_Reason :: string
  df_Detail :: string
  df_PhotoURLs :: "string list"
  df_DetectedBy :: uuid
  df_DetectedAt :: time
  df_Resolution :: "string option"
  df_ResolvedBy :: "uuid option"
  df_ResolvedAt :: "time option"
  df_Note :: string

record FGReassignmentLog =
  rlg_ID :: uuid
  rlg_FGID :: uuid
  rlg_FromSOLID :: "uuid option"
  rlg_ToSOLID :: uuid
  rlg_ActorID :: uuid
  rlg_Reason :: string
  rlg_ReassignedAt :: time

datatype AllocationType = AllocationTypeHard | AllocationTypeSoft

record Allocation =
  ac_ID :: uuid
  ac_FGPoolID :: uuid
  ac_SalesOrderLineID :: uuid
  ac_Type :: AllocationType
  ac_ReleasedBy :: "uuid option"
  ac_ReleasedAt :: "time option"
  ac_CreatedAt :: time

record packing_db =
  fg_pool :: "FGPool list"
  fg_defects :: "FGDefect list"
  fg_allocations :: "Allocation list"
  fg_reassignments :: "FGReassignmentLog list"

record pack_refs =
  fgref_work_orders :: "uuid list"
  fgref_skus :: "uuid list"
  fgref_barcodes :: "uuid list"
  fgref_so_lines :: "uuid list"
  fgref_users :: "uuid list"
  fgref_container_lines :: "(uuid \<times> uuid) list"
  fgref_cutoff :: "uuid \<Rightarrow> time option"

abbreviation fg_row :: "uuid \<Rightarrow> packing_db \<Rightarrow> FGPool option" where
  "fg_row i db \<equiv> row_by fg_ID i (fg_pool db)"

definition on_line :: "FGStatus \<Rightarrow> bool" where
  "on_line s \<longleftrightarrow> s = FGStatusReserved \<or> s = FGStatusLoaded"

section \<open>The pool\<close>

text \<open>\<^verbatim>\<open>chk_fg_reserved_has_line\<close>: a reserved or loaded piece names a container line, the others none.\<close>

definition chk_reserved_has_line :: "FGStatus \<Rightarrow> uuid option \<Rightarrow> bool" where
  "chk_reserved_has_line s cl \<longleftrightarrow> (on_line s \<longleftrightarrow> cl \<noteq> None)"

definition check_fg :: "pack_refs \<Rightarrow> FGPool list \<Rightarrow> FGPool \<Rightarrow> error option" where
  "check_fg rf t r =
     (if (case fg_UnitIndex r of None \<Rightarrow> False | Some u \<Rightarrow> \<not> in_int4 u) then Some (Pg NumericOutOfRange)
      else if \<not> chk_reserved_has_line (fg_Status r) (fg_ContainerLineID r) then Some (Pg CheckViolation)
      else if fg_BarcodeID r \<in> set (map fg_BarcodeID t) then Some (Pg UniqueViolation)
      else if fg_WorkOrderID r \<notin> set (fgref_work_orders rf) \<or> fg_SKUID r \<notin> set (fgref_skus rf) \<or> fg_BarcodeID r \<notin> set (fgref_barcodes rf) \<or>
              \<not> opt_ref (fg_SalesOrderLineID r) (fgref_so_lines rf) \<or> \<not> opt_ref (fg_ContainerLineID r) (map fst (fgref_container_lines rf)) \<or>
              fg_QCPassedBy r \<notin> set (fgref_users rf) then Some (Pg ForeignKeyViolation)
      else None)"

fun insert_fgs :: "pack_refs \<Rightarrow> FGPool list \<Rightarrow> FGPool list \<Rightarrow> FGPool list result" where
  "insert_fgs rf [] t = Inr t"
| "insert_fgs rf (r # rs) t = (case insert_checked (check_fg rf t) fg_ID r t of Inl e \<Rightarrow> Inl e | Inr t1 \<Rightarrow> insert_fgs rf rs t1)"

definition check_allocation :: "FGPool list \<Rightarrow> Allocation list \<Rightarrow> Allocation \<Rightarrow> error option" where
  "check_allocation fgs t a =
     (if ac_FGPoolID a \<in> set (map ac_FGPoolID t) then Some (Pg UniqueViolation)
      else if ac_FGPoolID a \<notin> set (map fg_ID fgs) then Some (Pg ForeignKeyViolation)
      else None)"

fun insert_allocations :: "FGPool list \<Rightarrow> Allocation list \<Rightarrow> Allocation list \<Rightarrow> Allocation list result" where
  "insert_allocations fgs [] t = Inr t"
| "insert_allocations fgs (a # as) t =
     (case insert_checked (check_allocation fgs t) ac_ID a t of Inl e \<Rightarrow> Inl e | Inr t1 \<Rightarrow> insert_allocations fgs as t1)"

text \<open>Pieces and their allocations in one transaction.\<close>

definition insertFGBatchWithAllocations :: "pack_refs \<Rightarrow> FGPool list \<Rightarrow> Allocation list \<Rightarrow> (packing_db, unit) op" where
  "insertFGBatchWithAllocations rf rows allocs db =
     (if rows = [] then (Inr (), db)
      else (case insert_fgs rf rows (fg_pool db) of
              Inl e \<Rightarrow> (Inl e, db)
            | Inr t \<Rightarrow>
                (case insert_allocations t allocs (fg_allocations db) of
                   Inl e \<Rightarrow> (Inl e, db)
                 | Inr u \<Rightarrow> (Inr (), db\<lparr>fg_pool := t, fg_allocations := u\<rparr>))))"

definition selectFGByID :: "uuid \<Rightarrow> packing_db \<Rightarrow> FGPool result" where
  "selectFGByID i db = (case fg_row i db of None \<Rightarrow> Inl (Biz ErrNotFound) | Some fg \<Rightarrow> Inr fg)"

definition selectFGByBarcodeID :: "uuid \<Rightarrow> packing_db \<Rightarrow> FGPool result" where
  "selectFGByBarcodeID i db = (case row_by fg_BarcodeID i (fg_pool db) of None \<Rightarrow> Inl (Biz ErrNotFound) | Some fg \<Rightarrow> Inr fg)"

definition selectFGByWorkOrderID :: "uuid \<Rightarrow> packing_db \<Rightarrow> FGPool list result" where
  "selectFGByWorkOrderID wo db = Inr (sort_key fg_CreatedAt (sort_key fg_ID (select_where (\<lambda>r. fg_WorkOrderID r = wo) (fg_pool db))))"

record FGListFilter =
  ff_Status :: string
  ff_SKUID :: "uuid option"
  ff_SOLineID :: "uuid option"
  ff_WorkOrderID :: "uuid option"
  ff_From :: "time option"
  ff_To :: "time option"

definition fg_matches :: "FGListFilter \<Rightarrow> FGPool \<Rightarrow> bool" where
  "fg_matches f r \<longleftrightarrow>
     (ff_Status f = [] \<or> fg_status_text (fg_Status r) = ff_Status f) \<and>
     (ff_SKUID f = None \<or> ff_SKUID f = Some (fg_SKUID r)) \<and>
     (ff_SOLineID f = None \<or> ff_SOLineID f = fg_SalesOrderLineID r) \<and>
     (ff_WorkOrderID f = None \<or> ff_WorkOrderID f = Some (fg_WorkOrderID r)) \<and>
     (case ff_From f of None \<Rightarrow> True | Some t \<Rightarrow> t \<le> fg_CreatedAt r) \<and>
     (case ff_To f of None \<Rightarrow> True | Some t \<Rightarrow> fg_CreatedAt r < t)"

definition selectFGPaged :: "PageParams \<Rightarrow> FGListFilter \<Rightarrow> packing_db \<Rightarrow> (FGPool list \<times> int) result" where
  "selectFGPaged p f db =
     (let rows = select_where (fg_matches f) (fg_pool db);
          ordered = rev (sort_key fg_CreatedAt (sort_key fg_ID rows))
      in Inr (take (nat (Limit p)) (drop (nat (Offset p)) ordered), int (length rows)))"

text \<open>Replacements for a piece, those with the soonest cut-off first and those without one last.\<close>

definition nearest_cutoff :: "pack_refs \<Rightarrow> FGPool \<Rightarrow> time option" where
  "nearest_cutoff rf r = Option.bind (fg_SalesOrderLineID r) (fgref_cutoff rf)"

definition selectAvailableFGsBySKU :: "pack_refs \<Rightarrow> uuid \<Rightarrow> uuid \<Rightarrow> int \<Rightarrow> packing_db \<Rightarrow> (FGPool \<times> time option) list result" where
  "selectAvailableFGsBySKU rf sku excl limit db =
     (let rows = select_where (\<lambda>r. fg_SKUID r = sku \<and> fg_Status r = FGStatusAvailable \<and> fg_ID r \<noteq> excl) (fg_pool db);
          byage = sort_key fg_CreatedAt (sort_key fg_ID rows)
      in Inr (map (\<lambda>r. (r, nearest_cutoff rf r)) (take (nat limit)
           (sort_key (\<lambda>r. the (nearest_cutoff rf r)) (filter (\<lambda>r. nearest_cutoff rf r \<noteq> None) byage) @
            filter (\<lambda>r. nearest_cutoff rf r = None) byage))))"

definition in_container :: "pack_refs \<Rightarrow> uuid \<Rightarrow> FGPool \<Rightarrow> bool" where
  "in_container rf c r \<longleftrightarrow> (case fg_ContainerLineID r of None \<Rightarrow> False | Some l \<Rightarrow> (l, c) \<in> set (fgref_container_lines rf))"

text \<open>
  \<^verbatim>\<open>ORDER BY sku_id, unit_index, component_type\<close>, without consequence for the caller, which only builds sets.
\<close>

definition selectReservedFGsByContainer :: "pack_refs \<Rightarrow> uuid \<Rightarrow> packing_db \<Rightarrow> FGPool list result" where
  "selectReservedFGsByContainer rf c db =
     Inr (sort_key fg_SKUID (select_where (\<lambda>r. in_container rf c r \<and> fg_Status r = FGStatusReserved) (fg_pool db)))"

section \<open>Statements of the transactions\<close>

definition lockFGForUpdate :: "uuid \<Rightarrow> packing_db \<Rightarrow> FGPool result" where
  "lockFGForUpdate i db = selectFGByID i db"

definition lockFGByBarcodeForUpdate :: "uuid \<Rightarrow> packing_db \<Rightarrow> FGPool result" where
  "lockFGByBarcodeForUpdate i db = selectFGByBarcodeID i db"

text \<open>\<^verbatim>\<open>SKIP LOCKED\<close>: rows that another transaction holds, named by \<open>held\<close>, are passed over.\<close>

definition lockAvailableFGsForReserve :: "(uuid \<Rightarrow> bool) \<Rightarrow> uuid \<Rightarrow> uuid \<Rightarrow> int \<Rightarrow> packing_db \<Rightarrow> FGPool list result" where
  "lockAvailableFGsForReserve held sku sol qty db =
     Inr (take (nat qty) (sort_key fg_CreatedAt (sort_key fg_ID
       (select_where (\<lambda>r. fg_SKUID r = sku \<and> fg_SalesOrderLineID r = Some sol \<and> fg_Status r = FGStatusAvailable \<and> \<not> held (fg_ID r)) (fg_pool db)))))"

definition lockReservedFGsByContainerLine :: "uuid \<Rightarrow> packing_db \<Rightarrow> FGPool list result" where
  "lockReservedFGsByContainerLine cl db =
     Inr (sort_key fg_ID (select_where (\<lambda>r. fg_ContainerLineID r = Some cl \<and> on_line (fg_Status r)) (fg_pool db)))"

definition lockReservedFGsByContainer :: "pack_refs \<Rightarrow> uuid \<Rightarrow> packing_db \<Rightarrow> FGPool list result" where
  "lockReservedFGsByContainer rf c db =
     Inr (sort_key fg_ID (select_where (\<lambda>r. in_container rf c r \<and> fg_Status r = FGStatusReserved) (fg_pool db)))"

definition set_fg :: "(FGPool \<Rightarrow> bool) \<Rightarrow> FGStatus \<Rightarrow> uuid option \<Rightarrow> packing_db \<Rightarrow> packing_db" where
  "set_fg P st cl db = db\<lparr>fg_pool := update_where P (\<lambda>r. r\<lparr>fg_Status := st, fg_ContainerLineID := cl\<rparr>) (fg_pool db)\<rparr>"

definition flipFGStatus :: "pack_refs \<Rightarrow> uuid \<Rightarrow> FGStatus \<Rightarrow> uuid option \<Rightarrow> packing_db \<Rightarrow> packing_db result" where
  "flipFGStatus rf i st cl db =
     (if fg_row i db = None then Inl (Biz ErrNotFound)
      else if \<not> chk_reserved_has_line st cl then Inl (Biz ErrInvalidInput)
      else if \<not> opt_ref cl (map fst (fgref_container_lines rf)) then Inl (Pg ForeignKeyViolation)
      else Inr (set_fg (\<lambda>r. fg_ID r = i) st cl db))"

definition bulkFlipFGStatus :: "pack_refs \<Rightarrow> uuid list \<Rightarrow> FGStatus \<Rightarrow> uuid option \<Rightarrow> packing_db \<Rightarrow> packing_db result" where
  "bulkFlipFGStatus rf ids st cl db =
     (if ids = [] then Inr db
      else if list_ex (\<lambda>r. fg_ID r \<in> set ids) (fg_pool db) \<and> \<not> chk_reserved_has_line st cl then Inl (Pg CheckViolation)
      else if list_ex (\<lambda>r. fg_ID r \<in> set ids) (fg_pool db) \<and> \<not> opt_ref cl (map fst (fgref_container_lines rf)) then Inl (Pg ForeignKeyViolation)
      else Inr (set_fg (\<lambda>r. fg_ID r \<in> set ids) st cl db))"

section \<open>Defects\<close>

definition selectDefectByID :: "uuid \<Rightarrow> packing_db \<Rightarrow> FGDefect result" where
  "selectDefectByID i db = (case row_by df_ID i (fg_defects db) of None \<Rightarrow> Inl (Biz ErrNotFound) | Some d \<Rightarrow> Inr d)"

definition validDefectReason :: "string \<Rightarrow> bool" where
  "validDefectReason r \<longleftrightarrow> r \<in> {''BROKEN'', ''WRONG_SIZE'', ''MISSING_ACCESSORY'', ''SCRATCHED'', ''OTHER''}"

definition validResolution :: "string \<Rightarrow> bool" where
  "validResolution r \<longleftrightarrow> r \<in> {''DISCARD'', ''REWORK'', ''RETURN_NCC''}"

text \<open>The checks of the table repeat those of the service; the reference to the piece is unique.\<close>

definition check_defect :: "pack_refs \<Rightarrow> packing_db \<Rightarrow> FGDefect \<Rightarrow> error option" where
  "check_defect rf db d =
     (if \<not> validDefectReason (df_Reason d) then Some (Pg CheckViolation)
      else if df_FGPoolID d \<in> set (map df_FGPoolID (fg_defects db)) then Some (Pg UniqueViolation)
      else if df_FGPoolID d \<notin> set (map fg_ID (fg_pool db)) \<or> df_DetectedBy d \<notin> set (fgref_users rf) then Some (Pg ForeignKeyViolation)
      else None)"

definition insertDefect :: "pack_refs \<Rightarrow> FGDefect \<Rightarrow> packing_db \<Rightarrow> packing_db result" where
  "insertDefect rf d db =
     (case insert_checked (check_defect rf db) df_ID d (fg_defects db) of Inl e \<Rightarrow> Inl e | Inr t \<Rightarrow> Inr (db\<lparr>fg_defects := t\<rparr>))"

definition updateDefectResolution :: "pack_refs \<Rightarrow> time \<Rightarrow> uuid \<Rightarrow> string \<Rightarrow> string \<Rightarrow> uuid \<Rightarrow> packing_db \<Rightarrow> packing_db result" where
  "updateDefectResolution rf t i res nt actor db =
     (let hit = (\<lambda>d. df_ID d = i \<and> df_Resolution d = None) in
      if count_where hit (fg_defects db) = 0 then Inl (Biz ErrInvalidTransition)
      else if \<not> validResolution res then Inl (Pg CheckViolation)
      else if actor \<notin> set (fgref_users rf) then Inl (Pg ForeignKeyViolation)
      else Inr (db\<lparr>fg_defects := update_where hit
                  (\<lambda>d. d\<lparr>df_Resolution := Some res, df_Note := nt, df_ResolvedBy := Some actor, df_ResolvedAt := Some t\<rparr>) (fg_defects db)\<rparr>))"

section \<open>Allocations\<close>

definition updateFGSOLine :: "pack_refs \<Rightarrow> uuid \<Rightarrow> uuid option \<Rightarrow> packing_db \<Rightarrow> packing_db result" where
  "updateFGSOLine rf i sol db =
     (if fg_row i db \<noteq> None \<and> \<not> opt_ref sol (fgref_so_lines rf) then Inl (Pg ForeignKeyViolation)
      else Inr (db\<lparr>fg_pool := update_where (\<lambda>r. fg_ID r = i) (\<lambda>r. r\<lparr>fg_SalesOrderLineID := sol\<rparr>) (fg_pool db)\<rparr>))"

definition insertReassignLog :: "pack_refs \<Rightarrow> FGReassignmentLog \<Rightarrow> packing_db \<Rightarrow> packing_db result" where
  "insertReassignLog rf l db =
     (case insert_checked (\<lambda>l. if rlg_FGID l \<notin> set (map fg_ID (fg_pool db)) \<or> \<not> opt_ref (rlg_FromSOLID l) (fgref_so_lines rf) \<or>
                                 rlg_ToSOLID l \<notin> set (fgref_so_lines rf) \<or> rlg_ActorID l \<notin> set (fgref_users rf)
                               then Some (Pg ForeignKeyViolation) else None) rlg_ID l (fg_reassignments db) of
        Inl e \<Rightarrow> Inl e
      | Inr t \<Rightarrow> Inr (db\<lparr>fg_reassignments := t\<rparr>))"

definition selectAllocationByID :: "uuid \<Rightarrow> packing_db \<Rightarrow> Allocation result" where
  "selectAllocationByID i db = (case row_by ac_ID i (fg_allocations db) of None \<Rightarrow> Inl (Biz ErrNotFound) | Some a \<Rightarrow> Inr a)"

definition selectAllocationsBySOLine :: "uuid \<Rightarrow> packing_db \<Rightarrow> Allocation list result" where
  "selectAllocationsBySOLine sol db = Inr (sort_key ac_CreatedAt (select_where (\<lambda>a. ac_SalesOrderLineID a = sol) (fg_allocations db)))"

definition lockAllocationForUpdate :: "uuid \<Rightarrow> packing_db \<Rightarrow> Allocation result" where
  "lockAllocationForUpdate i db = selectAllocationByID i db"

definition updateAllocationType :: "time \<Rightarrow> uuid \<Rightarrow> AllocationType \<Rightarrow> uuid option \<Rightarrow> packing_db \<Rightarrow> packing_db result" where
  "updateAllocationType t i ty who db =
     (if row_by ac_ID i (fg_allocations db) = None then Inl (Biz ErrNotFound)
      else Inr (db\<lparr>fg_allocations := update_where (\<lambda>a. ac_ID a = i)
        (\<lambda>a. case who of None \<Rightarrow> a\<lparr>ac_Type := ty\<rparr>
              | Some u \<Rightarrow> a\<lparr>ac_Type := ty, ac_ReleasedBy := Some u, ac_ReleasedAt := Some t\<rparr>) (fg_allocations db)\<rparr>))"

definition updateAllocationSOLine :: "uuid \<Rightarrow> uuid \<Rightarrow> packing_db \<Rightarrow> packing_db result" where
  "updateAllocationSOLine i sol db =
     (if row_by ac_ID i (fg_allocations db) = None then Inl (Biz ErrNotFound)
      else Inr (db\<lparr>fg_allocations := update_where (\<lambda>a. ac_ID a = i) (\<lambda>a. a\<lparr>ac_SalesOrderLineID := sol\<rparr>) (fg_allocations db)\<rparr>))"

end
