(* ===== verification/Durations.thy ===== *)
theory Durations
  imports Float64
begin

text \<open>
  \<^verbatim>\<open>int(f)\<close> drops the fraction, towards zero. \<^verbatim>\<open>Duration.Hours\<close> adds the whole hours and the rest as a fraction
  of an hour, both as floats; an instant is counted in microseconds.
\<close>

definition go_int :: "rat \<Rightarrow> int" where
  "go_int x = (if 0 \<le> x then \<lfloor>x\<rfloor> else - \<lfloor>- x\<rfloor>)"

definition hour_micros :: int where
  "hour_micros = 3600000000"

definition duration_hours :: "int \<Rightarrow> rat" where
  "duration_hours d =
     (let h = sgn d * (\<bar>d\<bar> div hour_micros); r = sgn d * (\<bar>d\<bar> mod hour_micros)
      in fl (of_int h + fl (of_int r / of_int hour_micros)))"

definition days_between :: "int \<Rightarrow> int" where
  "days_between d = go_int (fl (duration_hours d / 24))"

end
