(* ===== verification/Packing_Service.thy ===== *)
theory Packing_Service
  imports Packing_Store Durations
begin

text \<open>
  The packing service, \<^verbatim>\<open>internal/module/packing/service.go\<close>. The modules it calls are the record
  \<open>pack_deps\<close>, a field of \<open>None\<close> where the service was built without one. The remover of container
  lines runs on a connection of its own and reaches the pool again through delivery, so it acts on both
  states; what it wrote stays when the surrounding transaction rolls back.
\<close>

section \<open>Inputs, results and the modules it calls\<close>

record CreateFromCompletedWOInput =
  wc_WorkOrderID :: uuid
  wc_SKUID :: uuid
  wc_SKUCode :: string
  wc_SKUName :: string
  wc_Dimensions :: string
  wc_Quantity :: int
  wc_SalesOrderLineID :: "uuid option"
  wc_ProductionPlanID :: uuid
  wc_POID :: uuid
  wc_QCPassedBy :: uuid
  wc_ProducedDate :: time

record BarcodeIssueInput =
  bci_WorkOrderID :: uuid
  bci_SKUID :: uuid
  bci_POID :: uuid
  bci_ProductionPlanID :: uuid
  bci_SKUCode :: string
  bci_SKUName :: string
  bci_Dimensions :: string
  bci_ProducedDate :: time

record ContainerSuggestion =
  sg_ContainerID :: uuid
  sg_Code :: string
  sg_Status :: string
  sg_FillPctCBM :: rat
  sg_FillPctMass :: rat
  sg_ContainerType :: string

record SKUComponentInfo =
  sc_ComponentType :: string
  sc_CbmPerUnit :: rat
  sc_SortOrder :: int

datatype FGNotice = FGDefectCreated uuid string | FGDefectResolved uuid string

record 'x pack_deps =
  prefs :: "'x \<Rightarrow> pack_refs"
  barcodeIss :: "(BarcodeIssueInput \<Rightarrow> ('x, uuid) op) option"
  barcodeRes :: "(uuid \<Rightarrow> 'x \<Rightarrow> uuid result) option"
  wog :: "(uuid \<Rightarrow> 'x \<Rightarrow> WorkOrderStatus result) option"
  suggester :: "(uuid \<Rightarrow> 'x \<Rightarrow> ContainerSuggestion list result) option"
  lineRemover :: "(uuid \<Rightarrow> uuid \<Rightarrow> (packing_db \<times> 'x, unit) op) option"
  defectNotifier :: "(FGNotice \<Rightarrow> ('x, unit) op) option"
  solChecker :: "(uuid \<Rightarrow> 'x \<Rightarrow> uuid result) option"
  skuCompRes :: "(uuid \<Rightarrow> 'x \<Rightarrow> SKUComponentInfo list result) option"

section \<open>Pieces of a completed work order\<close>

text \<open>
  The boxes to make: one per unit, or one per unit and component. The unit index is the loop
  variable.
\<close>

definition boxes :: "int \<Rightarrow> SKUComponentInfo list \<Rightarrow> (string option \<times> int option) list" where
  "boxes q comps =
     (if comps = [] then replicate (nat q) (None, None)
      else concat (map (\<lambda>u. map (\<lambda>c. (Some (sc_ComponentType c), Some (int u))) comps) [0..<nat q]))"

definition barcode_input :: "CreateFromCompletedWOInput \<Rightarrow> BarcodeIssueInput" where
  "barcode_input inp =
     \<lparr>bci_WorkOrderID = wc_WorkOrderID inp, bci_SKUID = wc_SKUID inp, bci_POID = wc_POID inp, bci_ProductionPlanID = wc_ProductionPlanID inp,
      bci_SKUCode = wc_SKUCode inp, bci_SKUName = wc_SKUName inp, bci_Dimensions = wc_Dimensions inp, bci_ProducedDate = wc_ProducedDate inp\<rparr>"

definition new_fg :: "env \<Rightarrow> CreateFromCompletedWOInput \<Rightarrow> nat \<Rightarrow> uuid \<Rightarrow> string option \<times> int option \<Rightarrow> FGPool" where
  "new_fg env inp n bc box =
     \<lparr>fg_ID = fresh env n, fg_WorkOrderID = wc_WorkOrderID inp, fg_SKUID = wc_SKUID inp, fg_BarcodeID = bc,
      fg_SalesOrderLineID = wc_SalesOrderLineID inp, fg_Status = FGStatusAvailable, fg_ContainerLineID = None,
      fg_ComponentType = fst box, fg_UnitIndex = snd box, fg_QCPassedAt = now env, fg_QCPassedBy = wc_QCPassedBy inp, fg_CreatedAt = now env\<rparr>"

text \<open>A barcode is issued for each box in turn, each kept even when a later one fails.\<close>

fun issue_boxes ::
  "(BarcodeIssueInput \<Rightarrow> ('x, uuid) op) \<Rightarrow> env \<Rightarrow> CreateFromCompletedWOInput \<Rightarrow> nat \<Rightarrow> (string option \<times> int option) list \<Rightarrow> ('x, FGPool list) op" where
  "issue_boxes iss env inp n [] x = (Inr [], x)"
| "issue_boxes iss env inp n (b # bs) x =
     (case iss (barcode_input inp) x of
        (Inl e, x1) \<Rightarrow> (Inl e, x1)
      | (Inr bc, x1) \<Rightarrow>
          (case issue_boxes iss env inp (Suc n) bs x1 of
             (Inl e, x2) \<Rightarrow> (Inl e, x2)
           | (Inr rs, x2) \<Rightarrow> (Inr (new_fg env inp n bc b # rs), x2)))"

definition hard_allocations :: "env \<Rightarrow> nat \<Rightarrow> uuid option \<Rightarrow> FGPool list \<Rightarrow> Allocation list" where
  "hard_allocations env n sol rows =
     (case sol of
        None \<Rightarrow> []
      | Some s \<Rightarrow> map (\<lambda>(k, fg). \<lparr>ac_ID = fresh env (n + k), ac_FGPoolID = fg_ID fg, ac_SalesOrderLineID = s, ac_Type = AllocationTypeHard,
                      ac_ReleasedBy = None, ac_ReleasedAt = None, ac_CreatedAt = now env\<rparr>) (List.enumerate 0 rows))"

definition components_of :: "'x pack_deps \<Rightarrow> uuid \<Rightarrow> 'x \<Rightarrow> SKUComponentInfo list result" where
  "components_of deps sku x = (case skuCompRes deps of None \<Rightarrow> Inr [] | Some f \<Rightarrow> f sku x)"

definition CreateFromCompletedWO :: "'x pack_deps \<Rightarrow> env \<Rightarrow> CreateFromCompletedWOInput \<Rightarrow> (packing_db \<times> 'x, FGPool list) op" where
  "CreateFromCompletedWO deps env inp st =
     (let (db, x) = st in
      if wc_WorkOrderID inp = uuid_Nil \<or> wc_SKUID inp = uuid_Nil \<or> wc_QCPassedBy inp = uuid_Nil then (Inl (Biz ErrInvalidInput), st)
      else if wc_Quantity inp \<le> 0 then (Inl (Biz ErrInvalidInput), st)
      else (case selectFGByWorkOrderID (wc_WorkOrderID inp) db of
              Inl e \<Rightarrow> (Inl e, st)
            | Inr existing \<Rightarrow>
                if existing \<noteq> [] then (Inr existing, st)
                else (case barcodeIss deps of
                        None \<Rightarrow> (Inl (Biz ErrPreconditionFailed), st)
                      | Some iss \<Rightarrow>
                          (case components_of deps (wc_SKUID inp) x of
                             Inl e \<Rightarrow> (Inl e, st)
                           | Inr comps \<Rightarrow>
                               (case issue_boxes iss env inp 0 (boxes (wc_Quantity inp) comps) x of
                                  (Inl e, x1) \<Rightarrow> (Inl e, (db, x1))
                                | (Inr rows, x1) \<Rightarrow>
                                    (case insertFGBatchWithAllocations (prefs deps x1) rows
                                            (hard_allocations env (length rows) (wc_SalesOrderLineID inp) rows) db of
                                       (Inl e, db1) \<Rightarrow> (Inl e, (db1, x1))
                                     | (Inr _, db1) \<Rightarrow> (Inr rows, (db1, x1))))))))"

section \<open>Reading\<close>

definition GetFG :: "uuid \<Rightarrow> packing_db \<Rightarrow> FGPool result" where
  "GetFG i db = selectFGByID i db"

definition ListFG :: "PageParams \<Rightarrow> FGListFilter \<Rightarrow> packing_db \<Rightarrow> FGPool PagedResult result" where
  "ListFG p f db = (case selectFGPaged p f db of Inl e \<Rightarrow> Inl e | Inr (items, cnt) \<Rightarrow> Inr (NewPagedResult items cnt p))"

record ScanResult =
  sr_FG :: FGPool
  sr_WOStatus :: "WorkOrderStatus option"
  sr_Suggested :: "ContainerSuggestion list"

definition scan_suggestions :: "'x pack_deps \<Rightarrow> FGPool \<Rightarrow> 'x \<Rightarrow> ContainerSuggestion list result" where
  "scan_suggestions deps fg x =
     (case (suggester deps, fg_SalesOrderLineID fg) of
        (Some f, Some sol) \<Rightarrow> if fg_Status fg = FGStatusAvailable then f sol x else Inr []
      | _ \<Rightarrow> Inr [])"

definition ScanBarcode :: "'x pack_deps \<Rightarrow> uuid \<Rightarrow> packing_db \<times> 'x \<Rightarrow> ScanResult result" where
  "ScanBarcode deps bc st =
     (let (db, x) = st in
      if bc = uuid_Nil then Inl (Biz ErrInvalidInput)
      else (case (case barcodeRes deps of None \<Rightarrow> Inr uuid_Nil | Some f \<Rightarrow> f bc x) of
              Inl e \<Rightarrow> Inl e
            | Inr _ \<Rightarrow>
                (case selectFGByBarcodeID bc db of
                   Inl e \<Rightarrow> Inl e
                 | Inr fg \<Rightarrow>
                     (case wog deps of
                        None \<Rightarrow> Inr \<lparr>sr_FG = fg, sr_WOStatus = None, sr_Suggested = []\<rparr>
                      | Some g \<Rightarrow>
                          (case g (fg_WorkOrderID fg) x of
                             Inl e \<Rightarrow> Inl e
                           | Inr s \<Rightarrow>
                               if s \<notin> {WOCompleted, WOPartialComplete, WOCosted} then Inl (Biz ErrPreconditionFailed)
                               else (case scan_suggestions deps fg x of
                                       Inl e \<Rightarrow> Inl e
                                     | Inr sgs \<Rightarrow> Inr \<lparr>sr_FG = fg, sr_WOStatus = Some s, sr_Suggested = sgs\<rparr>))))))"

section \<open>Defects\<close>

record ReportDefectInput =
  rd_BarcodeID :: uuid
  rd_Reason :: string
  rd_Detail :: string
  rd_PhotoURLs :: "string list"
  rd_DetectedBy :: uuid

datatype SuggestionType = SuggestionReassign | SuggestionCarryOverWO

record ShortfallSuggestion =
  ss_Type :: SuggestionType
  ss_FGID :: "uuid option"
  ss_SKUID :: uuid
  ss_CutoffDate :: "time option"
  ss_DaysToCutoff :: "int option"

definition buildShortfallSuggestions :: "pack_refs \<Rightarrow> env \<Rightarrow> bool \<Rightarrow> uuid \<Rightarrow> uuid \<Rightarrow> packing_db \<Rightarrow> ShortfallSuggestion list" where
  "buildShortfallSuggestions rf env hadLine sku excl db =
     (let carry = [\<lparr>ss_Type = SuggestionCarryOverWO, ss_FGID = None, ss_SKUID = sku, ss_CutoffDate = None, ss_DaysToCutoff = None\<rparr>] in
      if \<not> hadLine then []
      else (case selectAvailableFGsBySKU rf sku excl 5 db of
              Inl e \<Rightarrow> carry
            | Inr cands \<Rightarrow>
                if cands = [] then carry
                else map (\<lambda>(fg, cut). \<lparr>ss_Type = SuggestionReassign, ss_FGID = Some (fg_ID fg), ss_SKUID = sku, ss_CutoffDate = cut,
                              ss_DaysToCutoff = map_option (\<lambda>t. days_between (t - now env)) cut\<rparr>) cands))"

record DefectReportResult =
  dr_Defect :: FGDefect
  dr_Suggestions :: "ShortfallSuggestion list"

text \<open>The container line of a reserved piece is removed first; the result says whether there was one.\<close>

definition release_line :: "'x pack_deps \<Rightarrow> ReportDefectInput \<Rightarrow> FGPool \<Rightarrow> (packing_db \<times> 'x, bool) op" where
  "release_line deps inp fg st =
     (case (if fg_Status fg = FGStatusReserved then fg_ContainerLineID fg else None) of
        None \<Rightarrow> (Inr False, st)
      | Some cl \<Rightarrow>
          (case lineRemover deps of
             None \<Rightarrow> (Inl (Biz ErrPreconditionFailed), st)
           | Some rm \<Rightarrow> (case rm cl (rd_DetectedBy inp) st of (Inl e, st1) \<Rightarrow> (Inl e, st1) | (Inr _, st1) \<Rightarrow> (Inr True, st1))))"

definition new_defect :: "env \<Rightarrow> ReportDefectInput \<Rightarrow> FGPool \<Rightarrow> FGDefect" where
  "new_defect env inp fg =
     \<lparr>df_ID = fresh env 0, df_FGPoolID = fg_ID fg, df_Reason = rd_Reason inp, df_Detail = rd_Detail inp, df_PhotoURLs = rd_PhotoURLs inp,
      df_DetectedBy = rd_DetectedBy inp, df_DetectedAt = now env, df_Resolution = None, df_ResolvedBy = None, df_ResolvedAt = None, df_Note = []\<rparr>"

definition notify :: "'x pack_deps \<Rightarrow> FGNotice \<Rightarrow> 'x \<Rightarrow> 'x" where
  "notify deps n x = (case defectNotifier deps of None \<Rightarrow> x | Some f \<Rightarrow> snd (f n x))"

definition ReportDefect :: "'x pack_deps \<Rightarrow> env \<Rightarrow> ReportDefectInput \<Rightarrow> (packing_db \<times> 'x, DefectReportResult) op" where
  "ReportDefect deps env inp st =
     (if rd_BarcodeID inp = uuid_Nil \<or> rd_DetectedBy inp = uuid_Nil then (Inl (Biz ErrInvalidInput), st)
      else if \<not> validDefectReason (rd_Reason inp) then (Inl (Biz ErrInvalidInput), st)
      else (case lockFGByBarcodeForUpdate (rd_BarcodeID inp) (fst st) of
              Inl e \<Rightarrow> (Inl e, st)
            | Inr fg \<Rightarrow>
                if fg_Status fg \<notin> {FGStatusAvailable, FGStatusReserved} then (Inl (Biz ErrInvalidTransition), st)
                else (case release_line deps inp fg st of
                        (Inl e, st1) \<Rightarrow> (Inl e, st1)
                      | (Inr had, (db1, x1)) \<Rightarrow>
                          (case flipFGStatus (prefs deps x1) (fg_ID fg) FGStatusDefect None db1 of
                             Inl e \<Rightarrow> (Inl e, (db1, x1))
                           | Inr db2 \<Rightarrow>
                               (case insertDefect (prefs deps x1) (new_defect env inp fg) db2 of
                                  Inl e \<Rightarrow> (Inl e, (db1, x1))
                                | Inr db3 \<Rightarrow>
                                    (Inr \<lparr>dr_Defect = new_defect env inp fg,
                                          dr_Suggestions = buildShortfallSuggestions (prefs deps x1) env had (fg_SKUID fg) (fg_ID fg) db3\<rparr>,
                                     (db3, notify deps (FGDefectCreated (fg_ID fg) (rd_Reason inp)) x1)))))))"

record ResolveDefectInput =
  rs_DefectID :: uuid
  rs_Resolution :: string
  rs_Note :: string
  rs_ResolvedBy :: uuid

definition ResolveDefect :: "'x pack_deps \<Rightarrow> env \<Rightarrow> ResolveDefectInput \<Rightarrow> (packing_db \<times> 'x, FGDefect) op" where
  "ResolveDefect deps env inp st =
     (let (db, x) = st in
      if rs_DefectID inp = uuid_Nil \<or> rs_ResolvedBy inp = uuid_Nil then (Inl (Biz ErrInvalidInput), st)
      else if \<not> validResolution (rs_Resolution inp) then (Inl (Biz ErrInvalidInput), st)
      else (case selectDefectByID (rs_DefectID inp) db of
              Inl e \<Rightarrow> (Inl e, st)
            | Inr d \<Rightarrow>
                (case lockFGForUpdate (df_FGPoolID d) db of
                   Inl e \<Rightarrow> (Inl e, st)
                 | Inr fg \<Rightarrow>
                     if fg_Status fg \<noteq> FGStatusDefect then (Inl (Biz ErrInvalidTransition), st)
                     else (case flipFGStatus (prefs deps x) (fg_ID fg)
                                  (if rs_Resolution inp = ''REWORK'' then FGStatusAvailable else FGStatusDisposed) None db of
                             Inl e \<Rightarrow> (Inl e, st)
                           | Inr db1 \<Rightarrow>
                               (case updateDefectResolution (prefs deps x) (now env) (rs_DefectID inp) (rs_Resolution inp) (rs_Note inp) (rs_ResolvedBy inp) db1 of
                                  Inl e \<Rightarrow> (Inl e, st)
                                | Inr db2 \<Rightarrow>
                                    (Inr (d\<lparr>df_Resolution := Some (rs_Resolution inp), df_Note := rs_Note inp,
                                            df_ResolvedAt := Some (now env), df_ResolvedBy := Some (rs_ResolvedBy inp)\<rparr>),
                                     (db2, notify deps (FGDefectResolved (df_FGPoolID d) (rs_Resolution inp)) x)))))))"

section \<open>Hooks of delivery\<close>

record ReserveInput =
  ri_SKUID :: uuid
  ri_SalesOrderLineID :: uuid
  ri_Qty :: int
  ri_ContainerLineID :: uuid

definition ReserveOnContainerAdd :: "pack_refs \<Rightarrow> (uuid \<Rightarrow> bool) \<Rightarrow> ReserveInput \<Rightarrow> (packing_db, int) op" where
  "ReserveOnContainerAdd rf held inp db =
     (if ri_SKUID inp = uuid_Nil \<or> ri_SalesOrderLineID inp = uuid_Nil \<or> ri_ContainerLineID inp = uuid_Nil then (Inl (Biz ErrInvalidInput), db)
      else if ri_Qty inp \<le> 0 then (Inr 0, db)
      else (case lockAvailableFGsForReserve held (ri_SKUID inp) (ri_SalesOrderLineID inp) (ri_Qty inp) db of
              Inl e \<Rightarrow> (Inl e, db)
            | Inr rows \<Rightarrow>
                if rows = [] then (Inr 0, db)
                else (case bulkFlipFGStatus rf (map fg_ID rows) FGStatusReserved (Some (ri_ContainerLineID inp)) db of
                        Inl e \<Rightarrow> (Inl e, db)
                      | Inr db1 \<Rightarrow> (Inr (int (length rows)), db1))))"

definition ReleaseOnContainerDelete :: "pack_refs \<Rightarrow> uuid \<Rightarrow> (packing_db, unit) op" where
  "ReleaseOnContainerDelete rf cl db =
     (if cl = uuid_Nil then (Inl (Biz ErrInvalidInput), db)
      else (case lockReservedFGsByContainerLine cl db of
              Inl e \<Rightarrow> (Inl e, db)
            | Inr rows \<Rightarrow>
                if rows = [] then (Inr (), db)
                else (case bulkFlipFGStatus rf (map fg_ID rows) FGStatusAvailable None db of
                        Inl e \<Rightarrow> (Inl e, db)
                      | Inr db1 \<Rightarrow> (Inr (), db1))))"

fun load_all :: "pack_refs \<Rightarrow> FGPool list \<Rightarrow> packing_db \<Rightarrow> packing_db result" where
  "load_all rf [] db = Inr db"
| "load_all rf (r # rs) db =
     (case flipFGStatus rf (fg_ID r) FGStatusLoaded (fg_ContainerLineID r) db of Inl e \<Rightarrow> Inl e | Inr db1 \<Rightarrow> load_all rf rs db1)"

definition MarkLoadedOnSeal :: "pack_refs \<Rightarrow> uuid \<Rightarrow> (packing_db, unit) op" where
  "MarkLoadedOnSeal rf c db =
     (if c = uuid_Nil then (Inl (Biz ErrInvalidInput), db)
      else (case lockReservedFGsByContainer rf c db of
              Inl e \<Rightarrow> (Inl e, db)
            | Inr rows \<Rightarrow> (case load_all rf rows db of Inl e \<Rightarrow> (Inl e, db) | Inr db1 \<Rightarrow> (Inr (), db1))))"

text \<open>
  A unit is the pair of SKU and unit index; the work order is not part of it. Go visits the units in
  no particular order, here in the order of their first piece.
\<close>

definition packed_units :: "FGPool list \<Rightarrow> (uuid \<times> int) list" where
  "packed_units fgs =
     remdups (List.map_filter (\<lambda>fg. case (fg_UnitIndex fg, fg_ComponentType fg) of (Some u, Some _) \<Rightarrow> Some (fg_SKUID fg, u) | _ \<Rightarrow> None) fgs)"

definition packed_types :: "FGPool list \<Rightarrow> uuid \<times> int \<Rightarrow> string list" where
  "packed_types fgs k = List.map_filter fg_ComponentType (filter (\<lambda>fg. fg_SKUID fg = fst k \<and> fg_UnitIndex fg = Some (snd k)) fgs)"

fun incomplete_units ::
  "(uuid \<Rightarrow> SKUComponentInfo list result) \<Rightarrow> FGPool list \<Rightarrow> (uuid \<times> int) list \<Rightarrow> (uuid \<times> int) list result" where
  "incomplete_units comps fgs [] = Inr []"
| "incomplete_units comps fgs (k # ks) =
     (case comps (fst k) of
        Inl e \<Rightarrow> Inl e
      | Inr cs \<Rightarrow>
          (case incomplete_units comps fgs ks of
             Inl e \<Rightarrow> Inl e
           | Inr bad \<Rightarrow> Inr (if list_all (\<lambda>c. sc_ComponentType c \<in> set (packed_types fgs k)) cs then bad else k # bad)))"

definition CheckComponentsForSeal :: "'x pack_deps \<Rightarrow> uuid \<Rightarrow> packing_db \<times> 'x \<Rightarrow> unit result" where
  "CheckComponentsForSeal deps c st =
     (case skuCompRes deps of
        None \<Rightarrow> Inr ()
      | Some f \<Rightarrow>
          (case selectReservedFGsByContainer (prefs deps (snd st)) c (fst st) of
             Inl e \<Rightarrow> Inl e
           | Inr fgs \<Rightarrow>
               (case incomplete_units (\<lambda>sku. f sku (snd st)) fgs (packed_units fgs) of
                  Inl e \<Rightarrow> Inl e
                | Inr bad \<Rightarrow> if bad = [] then Inr () else Inl (Biz ErrPreconditionFailed))))"

section \<open>Reassignment and allocations\<close>

record ReassignFGInput =
  rf_FGID :: uuid
  rf_NewSOLineID :: uuid
  rf_Reason :: string
  rf_ActorID :: uuid

definition target_sku :: "'x pack_deps \<Rightarrow> uuid \<Rightarrow> 'x \<Rightarrow> uuid option result" where
  "target_sku deps sol x = (case solChecker deps of None \<Rightarrow> Inr None | Some f \<Rightarrow> (case f sol x of Inl e \<Rightarrow> Inl e | Inr sku \<Rightarrow> Inr (Some sku)))"

definition ReassignFG ::
  "'x pack_deps \<Rightarrow> env \<Rightarrow> ReassignFGInput \<Rightarrow> (packing_db \<times> 'x, FGPool \<times> FGReassignmentLog option) op" where
  "ReassignFG deps env inp st =
     (let (db, x) = st in
      if rf_FGID inp = uuid_Nil \<or> rf_NewSOLineID inp = uuid_Nil \<or> rf_Reason inp = [] \<or> rf_ActorID inp = uuid_Nil then (Inl (Biz ErrInvalidInput), st)
      else (case target_sku deps (rf_NewSOLineID inp) x of
              Inl e \<Rightarrow> (Inl e, st)
            | Inr sku \<Rightarrow>
                (case lockFGForUpdate (rf_FGID inp) db of
                   Inl e \<Rightarrow> (Inl e, st)
                 | Inr fg \<Rightarrow>
                     if fg_Status fg = FGStatusLoaded then (Inl (Biz ErrPreconditionFailed), st)
                     else if fg_Status fg \<notin> {FGStatusAvailable, FGStatusReserved} then (Inl (Biz ErrInvalidTransition), st)
                     else if sku \<noteq> None \<and> sku \<noteq> Some (fg_SKUID fg) then (Inl (Biz ErrInvalidInput), st)
                     else if fg_SalesOrderLineID fg = Some (rf_NewSOLineID inp) then (Inr (fg, None), st)
                     else let log = \<lparr>rlg_ID = fresh env 0, rlg_FGID = fg_ID fg, rlg_FromSOLID = fg_SalesOrderLineID fg, rlg_ToSOLID = rf_NewSOLineID inp,
                                     rlg_ActorID = rf_ActorID inp, rlg_Reason = rf_Reason inp, rlg_ReassignedAt = now env\<rparr>
                          in (case updateFGSOLine (prefs deps x) (fg_ID fg) (Some (rf_NewSOLineID inp)) db of
                                Inl e \<Rightarrow> (Inl e, st)
                              | Inr db1 \<Rightarrow>
                                  (case insertReassignLog (prefs deps x) log db1 of
                                     Inl e \<Rightarrow> (Inl e, st)
                                   | Inr db2 \<Rightarrow> (Inr (fg\<lparr>fg_SalesOrderLineID := Some (rf_NewSOLineID inp)\<rparr>, Some log), (db2, x)))))))"

definition ReleaseAllocation :: "env \<Rightarrow> uuid \<Rightarrow> uuid \<Rightarrow> (packing_db, Allocation) op" where
  "ReleaseAllocation env i actor db =
     (if i = uuid_Nil \<or> actor = uuid_Nil then (Inl (Biz ErrInvalidInput), db)
      else (case selectAllocationByID i db of
              Inl e \<Rightarrow> (Inl e, db)
            | Inr alloc0 \<Rightarrow>
                (case lockFGForUpdate (ac_FGPoolID alloc0) db of
                   Inl e \<Rightarrow> (Inl e, db)
                 | Inr fg \<Rightarrow>
                     if on_line (fg_Status fg) then (Inl (Biz ErrPreconditionFailed), db)
                     else (case lockAllocationForUpdate i db of
                             Inl e \<Rightarrow> (Inl e, db)
                           | Inr alloc \<Rightarrow>
                               if ac_Type alloc = AllocationTypeSoft then (Inl (Biz ErrInvalidTransition), db)
                               else (case updateAllocationType (now env) (ac_ID alloc) AllocationTypeSoft (Some actor) db of
                                       Inl e \<Rightarrow> (Inl e, db)
                                     | Inr db1 \<Rightarrow> (Inr (alloc\<lparr>ac_Type := AllocationTypeSoft, ac_ReleasedBy := Some actor\<rparr>), db1))))))"

text \<open>The SKU of the new line is compared before the transaction, on a read of its own.\<close>

definition reassign_target :: "'x pack_deps \<Rightarrow> uuid \<Rightarrow> uuid \<Rightarrow> packing_db \<times> 'x \<Rightarrow> unit result" where
  "reassign_target deps sol fgID st =
     (case target_sku deps sol (snd st) of
        Inl e \<Rightarrow> Inl e
      | Inr None \<Rightarrow> Inr ()
      | Inr (Some sku) \<Rightarrow>
          (case selectFGByID fgID (fst st) of
             Inl e \<Rightarrow> Inl e
           | Inr fg0 \<Rightarrow> if sku \<noteq> fg_SKUID fg0 then Inl (Biz ErrInvalidInput) else Inr ()))"

definition ReassignAllocation :: "'x pack_deps \<Rightarrow> uuid \<Rightarrow> uuid \<Rightarrow> uuid \<Rightarrow> (packing_db \<times> 'x, Allocation) op" where
  "ReassignAllocation deps i sol actor st =
     (let (db, x) = st in
      if i = uuid_Nil \<or> sol = uuid_Nil \<or> actor = uuid_Nil then (Inl (Biz ErrInvalidInput), st)
      else (case selectAllocationByID i db of
              Inl e \<Rightarrow> (Inl e, st)
            | Inr alloc0 \<Rightarrow>
                (case reassign_target deps sol (ac_FGPoolID alloc0) st of
                   Inl e \<Rightarrow> (Inl e, st)
                 | Inr _ \<Rightarrow>
                     (case lockFGForUpdate (ac_FGPoolID alloc0) db of
                        Inl e \<Rightarrow> (Inl e, st)
                      | Inr fg \<Rightarrow>
                          if on_line (fg_Status fg) then (Inl (Biz ErrPreconditionFailed), st)
                          else (case lockAllocationForUpdate i db of
                                  Inl e \<Rightarrow> (Inl e, st)
                                | Inr alloc \<Rightarrow>
                                    if ac_SalesOrderLineID alloc = sol then (Inl (Biz ErrInvalidInput), st)
                                    else (case updateAllocationSOLine (ac_ID alloc) sol db of
                                            Inl e \<Rightarrow> (Inl e, st)
                                          | Inr db1 \<Rightarrow>
                                              (case updateFGSOLine (prefs deps x) (fg_ID fg) (Some sol) db1 of
                                                 Inl e \<Rightarrow> (Inl e, st)
                                               | Inr db2 \<Rightarrow> (Inr (alloc\<lparr>ac_SalesOrderLineID := sol\<rparr>), (db2, x)))))))))"

definition ListAllocations :: "uuid \<Rightarrow> packing_db \<Rightarrow> Allocation list result" where
  "ListAllocations sol db = (if sol = uuid_Nil then Inl (Biz ErrInvalidInput) else selectAllocationsBySOLine sol db)"

end
