(* ===== verification/Packing_Invariant.thy ===== *)
theory Packing_Invariant
  imports Packing_Service
begin

text \<open>
  The packing service as a transition system. Every call is a sequence of edits of the pool: new
  pieces, a change of status allowed by the life cycle, a defect, a resolution, a change of
  allocation. The invariant and the life of a piece are proved once, over the edits.
\<close>

section \<open>Steps\<close>

text \<open>
  What the service relies on when it removes the container line of a defective piece: the remover
  touches the pool only by releasing lines.
\<close>

definition released :: "packing_db \<Rightarrow> packing_db \<Rightarrow> bool" where
  "released db db' \<longleftrightarrow> (\<exists>rf cl r. ReleaseOnContainerDelete rf cl db = (r, db'))"

definition remover_releases :: "'x pack_deps \<Rightarrow> bool" where
  "remover_releases deps \<longleftrightarrow>
     (\<forall>rm cl u db x r db' x'. lineRemover deps = Some rm \<longrightarrow> rm cl u (db, x) = (r, (db', x')) \<longrightarrow> released\<^sup>*\<^sup>* db db')"

inductive pack_step :: "'x pack_deps \<Rightarrow> packing_db \<times> 'x \<Rightarrow> packing_db \<times> 'x \<Rightarrow> bool" for deps where
  step_create: "CreateFromCompletedWO deps env inp s = (r, s') \<Longrightarrow> pack_step deps s s'"
| step_report: "ReportDefect deps env rin s = (r, s') \<Longrightarrow> pack_step deps s s'"
| step_resolve: "ResolveDefect deps env zin s = (r, s') \<Longrightarrow> pack_step deps s s'"
| step_reserve: "ReserveOnContainerAdd (prefs deps x) held vin db = (r, db') \<Longrightarrow> pack_step deps (db, x) (db', x)"
| step_release: "ReleaseOnContainerDelete (prefs deps x) cl db = (r, db') \<Longrightarrow> pack_step deps (db, x) (db', x)"
| step_loaded: "MarkLoadedOnSeal (prefs deps x) c db = (r, db') \<Longrightarrow> pack_step deps (db, x) (db', x)"
| step_reassign: "ReassignFG deps env ain s = (r, s') \<Longrightarrow> pack_step deps s s'"
| step_release_alloc: "ReleaseAllocation env i u db = (r, db') \<Longrightarrow> pack_step deps (db, x) (db', x)"
| step_reassign_alloc: "ReassignAllocation deps i sol u s = (r, s') \<Longrightarrow> pack_step deps s s'"
| step_outside: "pack_step deps (db, x) (db, x')"

definition empty_packing :: packing_db where
  "empty_packing = \<lparr>fg_pool = [], fg_defects = [], fg_allocations = [], fg_reassignments = []\<rparr>"

section \<open>Edits\<close>

definition fg_flip :: "FGStatus \<Rightarrow> FGStatus \<Rightarrow> bool" where
  "fg_flip s t \<longleftrightarrow> (s = FGStatusAvailable \<and> t = FGStatusReserved) \<or> (on_line s \<and> t = FGStatusAvailable) \<or> (on_line s \<and> t = FGStatusLoaded)"

definition set_resolution :: "uuid \<Rightarrow> string \<Rightarrow> string \<Rightarrow> uuid \<Rightarrow> time \<Rightarrow> packing_db \<Rightarrow> packing_db" where
  "set_resolution i res nt u t db =
     db\<lparr>fg_defects := update_where (\<lambda>d. df_ID d = i \<and> df_Resolution d = None)
       (\<lambda>d. d\<lparr>df_Resolution := Some res, df_Note := nt, df_ResolvedBy := Some u, df_ResolvedAt := Some t\<rparr>) (fg_defects db)\<rparr>"

inductive pack_edit :: "packing_db \<Rightarrow> packing_db \<Rightarrow> bool" where
  edit_insert: "insert_fgs rf rows (fg_pool db) = Inr t \<Longrightarrow> insert_allocations t as (fg_allocations db) = Inr u \<Longrightarrow>
    \<forall>r \<in> set rows. fg_Status r = FGStatusAvailable \<Longrightarrow> pack_edit db (db\<lparr>fg_pool := t, fg_allocations := u\<rparr>)"
| edit_flip: "chk_reserved_has_line st cl \<Longrightarrow> \<forall>r \<in> set (fg_pool db). P r \<longrightarrow> fg_flip (fg_Status r) st \<Longrightarrow> pack_edit db (set_fg P st cl db)"
| edit_defect: "fg_row (df_FGPoolID d) db = Some r \<Longrightarrow> fg_Status r \<in> {FGStatusAvailable, FGStatusReserved} \<Longrightarrow> df_Resolution d = None \<Longrightarrow>
    insertDefect rf d (set_fg (\<lambda>r. fg_ID r = df_FGPoolID d) FGStatusDefect None db) = Inr db' \<Longrightarrow> pack_edit db db'"
| edit_resolve: "row_by df_ID (df_ID d) (fg_defects db) = Some d \<Longrightarrow> df_Resolution d = None \<Longrightarrow> fg_row (df_FGPoolID d) db = Some r \<Longrightarrow> fg_Status r = FGStatusDefect \<Longrightarrow>
    validResolution res \<Longrightarrow> pack_edit db (set_resolution (df_ID d) res nt u t
      (set_fg (\<lambda>r. fg_ID r = df_FGPoolID d) (if res = ''REWORK'' then FGStatusAvailable else FGStatusDisposed) None db))"
| edit_sol: "pack_edit db (db\<lparr>fg_pool := update_where P (\<lambda>r. r\<lparr>fg_SalesOrderLineID := sol\<rparr>) (fg_pool db)\<rparr>)"
| edit_alloc: "(\<And>a. ac_ID (f a) = ac_ID a \<and> ac_FGPoolID (f a) = ac_FGPoolID a) \<Longrightarrow>
    pack_edit db (db\<lparr>fg_allocations := map f (fg_allocations db)\<rparr>)"
| edit_log: "pack_edit db (db\<lparr>fg_reassignments := l\<rparr>)"

abbreviation edits :: "packing_db \<Rightarrow> packing_db \<Rightarrow> bool" where
  "edits \<equiv> pack_edit\<^sup>*\<^sup>*"

lemma set_fg_simps [simp]:
  "fg_pool (set_fg P st cl db) = update_where P (\<lambda>r. r\<lparr>fg_Status := st, fg_ContainerLineID := cl\<rparr>) (fg_pool db)"
  "fg_defects (set_fg P st cl db) = fg_defects db"
  "fg_allocations (set_fg P st cl db) = fg_allocations db"
  "fg_reassignments (set_fg P st cl db) = fg_reassignments db"
  by (simp_all add: set_fg_def)

section \<open>The invariant\<close>

definition verdict :: "FGDefect \<Rightarrow> FGStatus \<Rightarrow> bool" where
  "verdict d s \<longleftrightarrow> (s = FGStatusDefect \<longleftrightarrow> df_Resolution d = None) \<and> (s = FGStatusDisposed \<longleftrightarrow> df_Resolution d \<in> {Some ''DISCARD'', Some ''RETURN_NCC''})"

definition pack_ok :: "packing_db \<Rightarrow> bool" where
  "pack_ok db \<longleftrightarrow>
     keys_distinct fg_ID (fg_pool db) \<and> distinct (map fg_BarcodeID (fg_pool db)) \<and>
     (\<forall>r \<in> set (fg_pool db). chk_reserved_has_line (fg_Status r) (fg_ContainerLineID r)) \<and>
     keys_distinct df_ID (fg_defects db) \<and> distinct (map df_FGPoolID (fg_defects db)) \<and>
     (\<forall>d \<in> set (fg_defects db). \<exists>r. fg_row (df_FGPoolID d) db = Some r \<and> verdict d (fg_Status r)) \<and>
     (\<forall>r \<in> set (fg_pool db). fg_Status r \<in> {FGStatusDefect, FGStatusDisposed} \<longrightarrow> fg_ID r \<in> df_FGPoolID ` set (fg_defects db)) \<and>
     keys_distinct ac_ID (fg_allocations db) \<and> distinct (map ac_FGPoolID (fg_allocations db)) \<and>
     ac_FGPoolID ` set (fg_allocations db) \<subseteq> fg_ID ` set (fg_pool db)"

lemma pack_okD:
  assumes "pack_ok db"
  shows "keys_distinct fg_ID (fg_pool db)" "distinct (map fg_BarcodeID (fg_pool db))"
    "\<And>r. r \<in> set (fg_pool db) \<Longrightarrow> chk_reserved_has_line (fg_Status r) (fg_ContainerLineID r)"
    "keys_distinct df_ID (fg_defects db)" "distinct (map df_FGPoolID (fg_defects db))"
    "\<And>d. d \<in> set (fg_defects db) \<Longrightarrow> \<exists>r. fg_row (df_FGPoolID d) db = Some r \<and> verdict d (fg_Status r)"
    "\<And>r. r \<in> set (fg_pool db) \<Longrightarrow> fg_Status r \<in> {FGStatusDefect, FGStatusDisposed} \<Longrightarrow> fg_ID r \<in> df_FGPoolID ` set (fg_defects db)"
    "keys_distinct ac_ID (fg_allocations db)" "distinct (map ac_FGPoolID (fg_allocations db))"
    "ac_FGPoolID ` set (fg_allocations db) \<subseteq> fg_ID ` set (fg_pool db)"
  using assms by (auto simp: pack_ok_def)

lemma insert_fgs_Inr:
  "insert_fgs rf rows t = Inr t' \<Longrightarrow>
     t' = t @ rows \<and> (\<forall>r \<in> set rows. chk_reserved_has_line (fg_Status r) (fg_ContainerLineID r)) \<and>
     (keys_distinct fg_ID t \<longrightarrow> keys_distinct fg_ID t') \<and> (distinct (map fg_BarcodeID t) \<longrightarrow> distinct (map fg_BarcodeID t'))"
proof (induction rows arbitrary: t)
  case Nil
  then show ?case by simp
next
  case (Cons r rs)
  then have new: "check_fg rf t r = None" "fg_ID r \<notin> fg_ID ` set t" and rest: "insert_fgs rf rs (t @ [r]) = Inr t'"
    by (auto split: sum.splits)
  have "chk_reserved_has_line (fg_Status r) (fg_ContainerLineID r)" "fg_BarcodeID r \<notin> fg_BarcodeID ` set t"
    using new(1) by (auto simp: check_fg_def split: if_splits)
  moreover from this new(2) have "keys_distinct fg_ID t \<Longrightarrow> keys_distinct fg_ID (t @ [r])"
    "distinct (map fg_BarcodeID t) \<Longrightarrow> distinct (map fg_BarcodeID (t @ [r]))" by auto
  ultimately show ?case using Cons.IH [OF rest] by (metis append_Cons append_assoc append_Nil set_ConsD)
qed

lemma insert_allocations_Inr:
  "insert_allocations fgs as t = Inr t' \<Longrightarrow>
     t' = t @ as \<and> ac_FGPoolID ` set as \<subseteq> fg_ID ` set fgs \<and>
     (keys_distinct ac_ID t \<longrightarrow> keys_distinct ac_ID t') \<and> (distinct (map ac_FGPoolID t) \<longrightarrow> distinct (map ac_FGPoolID t'))"
proof (induction as arbitrary: t)
  case Nil
  then show ?case by simp
next
  case (Cons a as)
  then have new: "check_allocation fgs t a = None" "ac_ID a \<notin> ac_ID ` set t" and rest: "insert_allocations fgs as (t @ [a]) = Inr t'"
    by (auto split: sum.splits)
  have "ac_FGPoolID a \<notin> ac_FGPoolID ` set t" "ac_FGPoolID a \<in> fg_ID ` set fgs"
    using new(1) by (auto simp: check_allocation_def split: if_splits)
  moreover from this new(2) have "keys_distinct ac_ID t \<Longrightarrow> keys_distinct ac_ID (t @ [a])"
    "distinct (map ac_FGPoolID t) \<Longrightarrow> distinct (map ac_FGPoolID (t @ [a]))" by auto
  moreover have "t @ a # as = (t @ [a]) @ as" "ac_FGPoolID ` set (a # as) = insert (ac_FGPoolID a) (ac_FGPoolID ` set as)" by auto
  ultimately show ?case using Cons.IH [OF rest] by (metis insert_subset)
qed

text \<open>A change of the rows of the pool that keeps what the invariant reads of the other tables.\<close>

lemma pack_ok_pool:
  assumes ok: "pack_ok db"
    and f: "\<And>r. fg_ID (f r) = fg_ID r \<and> fg_BarcodeID (f r) = fg_BarcodeID r"
    and row: "\<And>r. r \<in> set (fg_pool db) \<Longrightarrow> chk_reserved_has_line (fg_Status (f r)) (fg_ContainerLineID (f r))"
    and st: "\<And>r. r \<in> set (fg_pool db) \<Longrightarrow> (fg_Status (f r) = FGStatusDefect \<longleftrightarrow> fg_Status r = FGStatusDefect) \<and>
      (fg_Status (f r) = FGStatusDisposed \<longleftrightarrow> fg_Status r = FGStatusDisposed)"
  shows "pack_ok (db\<lparr>fg_pool := map f (fg_pool db)\<rparr>)"
proof -
  note o = pack_okD [OF ok]
  have "\<exists>r. row_by fg_ID (df_FGPoolID d) (map f (fg_pool db)) = Some r \<and> verdict d (fg_Status r)" if "d \<in> set (fg_defects db)" for d
  proof -
    from o(6) [OF that] obtain r where r: "fg_row (df_FGPoolID d) db = Some r" "verdict d (fg_Status r)" by blast
    have "row_by fg_ID (df_FGPoolID d) (map f (fg_pool db)) = Some (f r)" using r(1) f by (subst row_by_map) auto
    then show ?thesis using r st [of r] row_by_SomeD [OF r(1)] by (auto simp: verdict_def)
  qed
  moreover have "fg_ID \<circ> f = fg_ID" "fg_BarcodeID \<circ> f = fg_BarcodeID" using f by auto
  moreover have "fg_ID ` f ` set (fg_pool db) = fg_ID ` set (fg_pool db)" using f by (auto simp: image_image)
  ultimately show ?thesis using o row st f by (auto simp: pack_ok_def)
qed

lemma pack_edit_ok:
  assumes "pack_edit db db'" and ok: "pack_ok db"
  shows "pack_ok db'"
  using assms(1)
proof cases
  case (edit_insert rf rows t as u)
  note o = pack_okD [OF ok] and i = insert_fgs_Inr [OF edit_insert(2)] and a = insert_allocations_Inr [OF edit_insert(3)]
  have "\<exists>r. row_by fg_ID (df_FGPoolID d) t = Some r \<and> verdict d (fg_Status r)" if "d \<in> set (fg_defects db)" for d
    using o(6) [OF that] i by auto
  moreover have "keys_distinct fg_ID t" "distinct (map fg_BarcodeID t)" "keys_distinct ac_ID u" "distinct (map ac_FGPoolID u)"
    using o i a by blast+
  moreover have "\<forall>r \<in> set t. chk_reserved_has_line (fg_Status r) (fg_ContainerLineID r)"
    "\<forall>r \<in> set t. fg_Status r \<in> {FGStatusDefect, FGStatusDisposed} \<longrightarrow> fg_ID r \<in> df_FGPoolID ` set (fg_defects db)"
    using o(3,7) i edit_insert(4) by auto
  moreover have "ac_FGPoolID ` set u \<subseteq> fg_ID ` set t" using o(10) i a by (auto simp: image_Un)
  ultimately show ?thesis using o by (simp add: pack_ok_def edit_insert(1))
next
  case (edit_flip st cl P)
  have "pack_ok (db\<lparr>fg_pool := map (\<lambda>r. if P r then r\<lparr>fg_Status := st, fg_ContainerLineID := cl\<rparr> else r) (fg_pool db)\<rparr>)"
    using edit_flip(2,3) pack_okD(3) [OF ok] by (intro pack_ok_pool [OF ok]) (auto simp: fg_flip_def on_line_def)
  then show ?thesis by (simp add: edit_flip(1) set_fg_def update_where_def)
next
  case (edit_defect d r rf)
  note o = pack_okD [OF ok]
  let ?pool = "update_where (\<lambda>r. fg_ID r = df_FGPoolID d) (\<lambda>r. r\<lparr>fg_Status := FGStatusDefect, fg_ContainerLineID := None\<rparr>) (fg_pool db)"
  from edit_defect(4) have new: "df_FGPoolID d \<notin> df_FGPoolID ` set (fg_defects db)" "df_ID d \<notin> df_ID ` set (fg_defects db)"
    and db': "db' = (set_fg (\<lambda>r. fg_ID r = df_FGPoolID d) FGStatusDefect None db)\<lparr>fg_defects := fg_defects db @ [d]\<rparr>"
    by (auto simp: insertDefect_def check_defect_def set_fg_def split: sum.splits if_splits)
  have keys: "map fg_ID ?pool = map fg_ID (fg_pool db)" "map fg_BarcodeID ?pool = map fg_BarcodeID (fg_pool db)"
    by (auto simp: map_update_where)
  have rows: "row_by fg_ID i ?pool = map_option (\<lambda>r. if fg_ID r = df_FGPoolID d then r\<lparr>fg_Status := FGStatusDefect, fg_ContainerLineID := None\<rparr> else r) (fg_row i db)" for i
    by (rule row_by_update_where) simp
  have "\<exists>r. row_by fg_ID (df_FGPoolID d') ?pool = Some r \<and> verdict d' (fg_Status r)" if "d' \<in> set (fg_defects db)" for d'
  proof -
    have "df_FGPoolID d' \<noteq> df_FGPoolID d" using new(1) that by (metis imageI)
    moreover from o(6) [OF that] obtain r' where r': "fg_row (df_FGPoolID d') db = Some r'" "verdict d' (fg_Status r')" by blast
    ultimately show ?thesis using row_by_SomeD [OF r'(1)] by (simp add: rows)
  qed
  moreover have "\<exists>r. row_by fg_ID (df_FGPoolID d) ?pool = Some r \<and> verdict d (fg_Status r)"
    using edit_defect(3) row_by_SomeD [OF edit_defect(1)] by (simp add: rows edit_defect(1) verdict_def)
  moreover have "fg_ID ` set ?pool = fg_ID ` set (fg_pool db)" using keys(1) by (metis list.set_map)
  moreover have "\<forall>r \<in> set ?pool. chk_reserved_has_line (fg_Status r) (fg_ContainerLineID r)"
    using o(3) by (auto simp: set_update_where chk_reserved_has_line_def on_line_def)
  moreover have "\<forall>r \<in> set ?pool. fg_Status r \<in> {FGStatusDefect, FGStatusDisposed} \<longrightarrow> fg_ID r \<in> df_FGPoolID ` set (fg_defects db @ [d])"
    using o(7) by (auto simp: set_update_where)
  ultimately show ?thesis using o new keys by (auto simp: pack_ok_def db')
next
  case (edit_sol P sol)
  have "pack_ok (db\<lparr>fg_pool := map (\<lambda>r. if P r then r\<lparr>fg_SalesOrderLineID := sol\<rparr> else r) (fg_pool db)\<rparr>)"
    using pack_okD(3) [OF ok] by (intro pack_ok_pool [OF ok]) auto
  then show ?thesis by (simp add: edit_sol update_where_def)
next
  case (edit_alloc f)
  have "ac_ID \<circ> f = ac_ID" "ac_FGPoolID \<circ> f = ac_FGPoolID"
    "ac_FGPoolID ` f ` set (fg_allocations db) = ac_FGPoolID ` set (fg_allocations db)"
    using edit_alloc(2) by (auto simp: image_image)
  then show ?thesis using ok by (simp add: edit_alloc(1) pack_ok_def)
next
  case (edit_log l)
  then show ?thesis using ok by (simp add: pack_ok_def)
next
  case (edit_resolve d r res nt u t)
  note o = pack_okD [OF ok]
  let ?st = "if res = ''REWORK'' then FGStatusAvailable else FGStatusDisposed"
  let ?pool = "update_where (\<lambda>r. fg_ID r = df_FGPoolID d) (\<lambda>r. r\<lparr>fg_Status := ?st, fg_ContainerLineID := None\<rparr>) (fg_pool db)"
  let ?g = "\<lambda>d'. d'\<lparr>df_Resolution := Some res, df_Note := nt, df_ResolvedBy := Some u, df_ResolvedAt := Some t\<rparr>"
  let ?hit = "\<lambda>d'. df_ID d' = df_ID d \<and> df_Resolution d' = None"
  let ?dfs = "update_where ?hit ?g (fg_defects db)"
  have d: "d \<in> set (fg_defects db)" using edit_resolve(2) by (auto dest: row_by_SomeD)
  have keys: "map fg_ID ?pool = map fg_ID (fg_pool db)" "map fg_BarcodeID ?pool = map fg_BarcodeID (fg_pool db)"
    "map df_ID ?dfs = map df_ID (fg_defects db)" "map df_FGPoolID ?dfs = map df_FGPoolID (fg_defects db)"
    by (auto simp: map_update_where)
  have rows: "row_by fg_ID i ?pool = map_option (\<lambda>r. if fg_ID r = df_FGPoolID d then r\<lparr>fg_Status := ?st, fg_ContainerLineID := None\<rparr> else r) (fg_row i db)" for i
    by (rule row_by_update_where) simp
  have only: "d' = d" if "d' \<in> set (fg_defects db)" "df_ID d' = df_ID d \<or> df_FGPoolID d' = df_FGPoolID d" for d'
    using that d o(4,5) by (auto simp: distinct_map dest: inj_onD)
  have "\<exists>r. row_by fg_ID (df_FGPoolID d') ?pool = Some r \<and> verdict d' (fg_Status r)" if "d' \<in> set ?dfs" for d'
  proof -
    from that obtain d0 where d0: "d0 \<in> set (fg_defects db)" "d' = (if ?hit d0 then ?g d0 else d0)" by (auto simp: set_update_where)
    show ?thesis
    proof (cases "d0 = d")
      case True
      have "verdict (?g d) ?st" using edit_resolve(6) by (auto simp: verdict_def validResolution_def)
      then show ?thesis using True d0(2) edit_resolve(3) row_by_SomeD [OF edit_resolve(4)] by (simp add: rows edit_resolve(4))
    next
      case False
      then have "df_FGPoolID d0 \<noteq> df_FGPoolID d" "d' = d0" using only [OF d0(1)] d0(2) by auto
      moreover from o(6) [OF d0(1)] obtain r' where r': "fg_row (df_FGPoolID d0) db = Some r'" "verdict d0 (fg_Status r')" by blast
      ultimately show ?thesis using row_by_SomeD [OF r'(1)] by (simp add: rows)
    qed
  qed
  moreover have img: "fg_ID ` set ?pool = fg_ID ` set (fg_pool db)" "df_FGPoolID ` set ?dfs = df_FGPoolID ` set (fg_defects db)"
    using keys by (metis list.set_map)+
  moreover have "\<forall>r \<in> set ?pool. chk_reserved_has_line (fg_Status r) (fg_ContainerLineID r)"
    using o(3) by (auto simp: set_update_where chk_reserved_has_line_def on_line_def)
  moreover have "\<forall>r \<in> set ?pool. fg_Status r \<in> {FGStatusDefect, FGStatusDisposed} \<longrightarrow> fg_ID r \<in> df_FGPoolID ` set (fg_defects db)"
    using o(7) d by (auto simp: set_update_where)
  ultimately show ?thesis using o keys by (simp add: pack_ok_def edit_resolve(1) set_resolution_def)
qed

section \<open>Every call is a sequence of edits\<close>

lemma issue_boxes_rows:
  "issue_boxes iss env inp n bs x = (Inr rows, x') \<Longrightarrow>
     length rows = length bs \<and> (\<forall>k < length bs. \<exists>bc. rows ! k = new_fg env inp (n + k) bc (bs ! k))"
proof (induction bs arbitrary: n x rows x')
  case Nil
  then show ?case by simp
next
  case (Cons b bs)
  from Cons.prems obtain bc x1 rs where
    one: "iss (barcode_input inp) x = (Inr bc, x1)" and rest: "issue_boxes iss env inp (Suc n) bs x1 = (Inr rs, x')"
    and rows: "rows = new_fg env inp n bc b # rs" by (auto split: prod.splits sum.splits)
  from Cons.IH [OF rest] have len: "length rs = length bs"
    and at_k: "\<And>k. k < length bs \<Longrightarrow> \<exists>c. rs ! k = new_fg env inp (Suc n + k) c (bs ! k)" by auto
  have "\<exists>c. rows ! k = new_fg env inp (n + k) c ((b # bs) ! k)" if "k < length (b # bs)" for k
    using that at_k [of "k - 1"] by (cases k) (auto simp: rows)
  with len rows show ?case by simp
qed

lemma CreateFromCompletedWO_edits:
  assumes "CreateFromCompletedWO deps env inp (db, x) = (r, (db', x'))"
  shows "edits db db'"
proof -
  have "db' = db \<or> (\<exists>rf rows t u as. insert_fgs rf rows (fg_pool db) = Inr t \<and> insert_allocations t as (fg_allocations db) = Inr u \<and>
      (\<forall>r \<in> set rows. fg_Status r = FGStatusAvailable) \<and> db' = db\<lparr>fg_pool := t, fg_allocations := u\<rparr>)"
  proof -
    { fix iss comps rows x1
      assume "issue_boxes iss env inp 0 (boxes (wc_Quantity inp) comps) x = (Inr rows, x1)"
      from issue_boxes_rows [OF this] have "\<forall>r \<in> set rows. fg_Status r = FGStatusAvailable"
        by (fastforce simp: in_set_conv_nth new_fg_def) }
    with assms show ?thesis
      by (auto simp: CreateFromCompletedWO_def insertFGBatchWithAllocations_def Let_def split: if_splits sum.splits option.splits prod.splits)
        blast+
  qed
  then show ?thesis by (auto intro: edit_insert)
qed

lemma pack_edits_ok: "edits db db' \<Longrightarrow> pack_ok db \<Longrightarrow> pack_ok db'"
  by (induction rule: rtranclp_induct) (auto intro: pack_edit_ok)

lemma same_piece: "pack_ok db \<Longrightarrow> r \<in> set (fg_pool db) \<Longrightarrow> r' \<in> set (fg_pool db) \<Longrightarrow> fg_ID r = fg_ID r' \<Longrightarrow> r = r'"
  by (auto dest!: pack_okD(1) simp: distinct_map dest: inj_onD)

lemma flip_rows:
  assumes "pack_ok db" and "set rows \<subseteq> set (fg_pool db)" and "\<forall>r \<in> set rows. fg_flip (fg_Status r) st" and "chk_reserved_has_line st cl"
  shows "pack_edit db (set_fg (\<lambda>r. fg_ID r \<in> set (map fg_ID rows)) st cl db)"
proof (rule edit_flip [OF assms(4)], intro ballI impI)
  fix r assume r: "r \<in> set (fg_pool db)" "fg_ID r \<in> set (map fg_ID rows)"
  then obtain r' where "r' \<in> set rows" "fg_ID r = fg_ID r'" by auto
  moreover from this have "r = r'" using same_piece [OF assms(1) r(1)] assms(2) by blast
  ultimately show "fg_flip (fg_Status r) st" using assms(3) by blast
qed

lemma ReserveOnContainerAdd_edits:
  assumes "pack_ok db" and "ReserveOnContainerAdd rf held inp db = (r, db')"
  shows "edits db db'"
proof -
  let ?rows = "take (nat (ri_Qty inp)) (sort_key fg_CreatedAt (sort_key fg_ID (select_where (\<lambda>r. fg_SKUID r = ri_SKUID inp \<and>
    fg_SalesOrderLineID r = Some (ri_SalesOrderLineID inp) \<and> fg_Status r = FGStatusAvailable \<and> \<not> held (fg_ID r)) (fg_pool db))))"
  have "db' = db \<or> db' = set_fg (\<lambda>r. fg_ID r \<in> set (map fg_ID ?rows)) FGStatusReserved (Some (ri_ContainerLineID inp)) db"
    using assms(2) by (auto simp: ReserveOnContainerAdd_def lockAvailableFGsForReserve_def bulkFlipFGStatus_def split: if_splits sum.splits)
  moreover have "set ?rows \<subseteq> set (fg_pool db)" "\<forall>r \<in> set ?rows. fg_flip (fg_Status r) FGStatusReserved"
    by (auto simp: select_where_def fg_flip_def dest!: in_set_takeD)
  then have "pack_edit db (set_fg (\<lambda>r. fg_ID r \<in> set (map fg_ID ?rows)) FGStatusReserved (Some (ri_ContainerLineID inp)) db)"
    by (rule flip_rows [OF assms(1)]) (simp add: chk_reserved_has_line_def on_line_def)
  ultimately show ?thesis by auto
qed

lemma ReleaseOnContainerDelete_cases:
  assumes "ReleaseOnContainerDelete rf cl db = (r, db')"
  obtains "db' = db"
  | rows where "set rows \<subseteq> set (fg_pool db)" "\<forall>r \<in> set rows. on_line (fg_Status r)"
      "db' = set_fg (\<lambda>r. fg_ID r \<in> set (map fg_ID rows)) FGStatusAvailable None db"
proof -
  let ?rows = "sort_key fg_ID (select_where (\<lambda>r. fg_ContainerLineID r = Some cl \<and> on_line (fg_Status r)) (fg_pool db))"
  have "db' = db \<or> db' = set_fg (\<lambda>r. fg_ID r \<in> set (map fg_ID ?rows)) FGStatusAvailable None db"
    using assms by (auto simp: ReleaseOnContainerDelete_def lockReservedFGsByContainerLine_def bulkFlipFGStatus_def split: if_splits sum.splits)
  then show thesis
  proof
    assume "db' = db" then show thesis by (rule that(1))
  next
    assume "db' = set_fg (\<lambda>r. fg_ID r \<in> set (map fg_ID ?rows)) FGStatusAvailable None db"
    then show thesis by (rule that(2) [rotated 2]) (auto simp: select_where_def)
  qed
qed

lemma ReleaseOnContainerDelete_edits:
  assumes "pack_ok db" and "ReleaseOnContainerDelete rf cl db = (r, db')"
  shows "edits db db'"
  using assms(2)
proof (cases rule: ReleaseOnContainerDelete_cases)
  case (2 rows)
  have "pack_edit db db'" unfolding 2(3)
    by (rule flip_rows [OF assms(1) 2(1)]) (use 2(2) in \<open>auto simp: fg_flip_def chk_reserved_has_line_def on_line_def\<close>)
  then show ?thesis by auto
qed simp

lemma released_edits: "released\<^sup>*\<^sup>* db db' \<Longrightarrow> pack_ok db \<Longrightarrow> edits db db'"
proof (induction rule: rtranclp_induct)
  case (step db1 db2)
  then have "edits db db1" by blast
  moreover have "edits db1 db2" using step(2) pack_edits_ok [OF \<open>edits db db1\<close> step.prems]
    by (auto simp: released_def intro: ReleaseOnContainerDelete_edits)
  ultimately show ?case by auto
qed simp

text \<open>Releasing keeps a piece where it is or makes it available.\<close>

lemma released_status:
  "released\<^sup>*\<^sup>* db db' \<Longrightarrow> fg_row i db = Some r \<Longrightarrow> \<exists>r'. fg_row i db' = Some r' \<and> (fg_Status r' = fg_Status r \<or> fg_Status r' = FGStatusAvailable)"
proof (induction rule: rtranclp_induct)
  case (step db1 db2)
  from step(2) obtain rf cl a where "ReleaseOnContainerDelete rf cl db1 = (a, db2)" by (auto simp: released_def)
  then have "\<exists>r'. fg_row i db2 = Some r' \<and> (fg_Status r' = fg_Status r1 \<or> fg_Status r' = FGStatusAvailable)" if "fg_row i db1 = Some r1" for r1
    using that by (cases rule: ReleaseOnContainerDelete_cases) (auto simp: row_by_update_where)
  then show ?case using step by fastforce
qed simp

lemma load_all_edits:
  "load_all rf rows db = Inr db' \<Longrightarrow> \<forall>r \<in> set rows. \<forall>r' \<in> set (fg_pool db). fg_ID r' = fg_ID r \<longrightarrow> on_line (fg_Status r') \<Longrightarrow> edits db db'"
proof (induction rows arbitrary: db)
  case Nil
  then show ?case by simp
next
  case (Cons r rs)
  let ?db1 = "set_fg (\<lambda>r'. fg_ID r' = fg_ID r) FGStatusLoaded (fg_ContainerLineID r) db"
  from Cons.prems(1) have chk: "chk_reserved_has_line FGStatusLoaded (fg_ContainerLineID r)" and rest: "load_all rf rs ?db1 = Inr db'"
    by (auto simp: flipFGStatus_def split: if_splits sum.splits)
  have "pack_edit db ?db1" using Cons.prems(2) by (intro edit_flip [OF chk]) (auto simp: fg_flip_def)
  moreover have "edits ?db1 db'"
    using Cons.prems(2) by (intro Cons.IH [OF rest]) (auto simp: set_update_where on_line_def)
  ultimately show ?case by (meson converse_rtranclp_into_rtranclp)
qed

lemma MarkLoadedOnSeal_edits:
  assumes "pack_ok db" and "MarkLoadedOnSeal rf c db = (r, db')"
  shows "edits db db'"
proof -
  let ?rows = "sort_key fg_ID (select_where (\<lambda>r. in_container rf c r \<and> fg_Status r = FGStatusReserved) (fg_pool db))"
  have "db' = db \<or> load_all rf ?rows db = Inr db'"
    using assms(2) by (auto simp: MarkLoadedOnSeal_def lockReservedFGsByContainer_def split: if_splits sum.splits)
  moreover have "\<forall>r \<in> set ?rows. \<forall>r' \<in> set (fg_pool db). fg_ID r' = fg_ID r \<longrightarrow> on_line (fg_Status r')"
    by (auto simp: select_where_def on_line_def dest: same_piece [OF assms(1)])
  ultimately show ?thesis using load_all_edits by blast
qed

lemma release_line_released:
  assumes "remover_releases deps" and "release_line deps inp fg (db, x) = (r, (db', x'))"
  shows "released\<^sup>*\<^sup>* db db'"
  using assms by (auto simp: release_line_def remover_releases_def split: if_splits option.splits sum.splits prod.splits)
    blast+

lemma ReportDefect_edits:
  assumes ok: "pack_ok db" and law: "remover_releases deps" and "ReportDefect deps env inp (db, x) = (r, (db', x'))"
  shows "edits db db'"
proof -
  { fix fg a db1 x1
    assume fg: "selectFGByBarcodeID (rd_BarcodeID inp) db = Inr fg" "fg_Status fg \<in> {FGStatusAvailable, FGStatusReserved}"
      and rel: "release_line deps inp fg (db, x) = (a, (db1, x1))"
    have rel': "released\<^sup>*\<^sup>* db db1" by (rule release_line_released [OF law rel])
    have "fg \<in> set (fg_pool db)" using fg(1) by (auto simp: selectFGByBarcodeID_def split: option.splits dest: row_by_SomeD)
    then have "fg_row (fg_ID fg) db = Some fg" by (rule row_by_eq_SomeI [OF pack_okD(1) [OF ok]])
    from released_status [OF rel' this] fg(2) obtain r' where
      "fg_row (fg_ID fg) db1 = Some r'" "fg_Status r' \<in> {FGStatusAvailable, FGStatusReserved}" by auto
    then have "pack_edit db1 db2" if "insertDefect rf (new_defect env inp fg) (set_fg (\<lambda>r. fg_ID r = fg_ID fg) FGStatusDefect None db1) = Inr db2" for rf db2
      using that by (intro edit_defect [of "new_defect env inp fg"]) (auto simp: new_defect_def)
    then have "edits db db1" "\<And>rf db2. insertDefect rf (new_defect env inp fg) (set_fg (\<lambda>r. fg_ID r = fg_ID fg) FGStatusDefect None db1) = Inr db2 \<Longrightarrow> edits db db2"
      using released_edits [OF rel' ok] by (auto intro: rtranclp.rtrancl_into_rtrancl) }
  note via = this
  from assms(3) show ?thesis
    by (auto simp: ReportDefect_def lockFGByBarcodeForUpdate_def flipFGStatus_def split: if_splits sum.splits prod.splits intro: via)
qed

lemma ResolveDefect_edits:
  assumes ok: "pack_ok db" and "ResolveDefect deps env inp (db, x) = (r, (db', x'))"
  shows "edits db db'"
proof -
  { fix d fg rf
    let ?st = "if rs_Resolution inp = ''REWORK'' then FGStatusAvailable else FGStatusDisposed"
    assume d: "row_by df_ID (rs_DefectID inp) (fg_defects db) = Some d" and fg: "fg_row (df_FGPoolID d) db = Some fg" "fg_Status fg = FGStatusDefect"
      and res: "validResolution (rs_Resolution inp)"
    have din: "d \<in> set (fg_defects db)" "df_ID d = rs_DefectID inp" using row_by_SomeD [OF d] by auto
    from pack_okD(6) [OF ok din(1)] fg have "df_Resolution d = None" by (auto simp: verdict_def)
    then have "pack_edit db ((set_fg (\<lambda>r. fg_ID r = fg_ID fg) ?st None db)\<lparr>fg_defects := update_where (\<lambda>d. df_ID d = rs_DefectID inp \<and> df_Resolution d = None)
        (\<lambda>d. d\<lparr>df_Resolution := Some (rs_Resolution inp), df_Note := rs_Note inp, df_ResolvedBy := Some (rs_ResolvedBy inp), df_ResolvedAt := Some (now env)\<rparr>)
        (fg_defects db)\<rparr>)"
      using edit_resolve [of d db fg "rs_Resolution inp" "rs_Note inp" "rs_ResolvedBy inp" "now env"] d fg res din(2) row_by_SomeD [OF fg(1)]
      by (simp add: set_resolution_def) }
  note via = this
  have "db' = db \<or> pack_edit db db'"
    using assms(2) via by (auto simp: ResolveDefect_def selectDefectByID_def lockFGForUpdate_def selectFGByID_def flipFGStatus_def updateDefectResolution_def Let_def
        split: if_splits sum.splits option.splits)
  then show ?thesis by auto
qed

lemma ReassignFG_edits: "ReassignFG deps env inp (db, x) = (r, (db', x')) \<Longrightarrow> edits db db'"
proof -
  have "edits db (db\<lparr>fg_pool := update_where P (\<lambda>r. r\<lparr>fg_SalesOrderLineID := sol\<rparr>) (fg_pool db), fg_reassignments := l\<rparr>)" for P sol l
  proof -
    let ?db1 = "db\<lparr>fg_pool := update_where P (\<lambda>r. r\<lparr>fg_SalesOrderLineID := sol\<rparr>) (fg_pool db)\<rparr>"
    have "pack_edit db ?db1" by (rule edit_sol)
    moreover have "pack_edit ?db1 (?db1\<lparr>fg_reassignments := l\<rparr>)" by (rule edit_log)
    ultimately show ?thesis by simp
  qed
  then show "ReassignFG deps env inp (db, x) = (r, (db', x')) \<Longrightarrow> edits db db'"
    by (auto simp: ReassignFG_def updateFGSOLine_def insertReassignLog_def Let_def split: if_splits sum.splits)
qed

lemma alloc_update_edit:
  "(\<And>a. ac_ID (f a) = ac_ID a \<and> ac_FGPoolID (f a) = ac_FGPoolID a) \<Longrightarrow> pack_edit db (db\<lparr>fg_allocations := update_where P f (fg_allocations db)\<rparr>)"
  unfolding update_where_def by (rule edit_alloc) auto

lemma ReleaseAllocation_edits: "ReleaseAllocation env i u db = (r, db') \<Longrightarrow> edits db db'"
  by (auto simp: ReleaseAllocation_def updateAllocationType_def split: if_splits sum.splits intro!: r_into_rtranclp alloc_update_edit)

lemma ReassignAllocation_edits: "ReassignAllocation deps i sol u (db, x) = (r, (db', x')) \<Longrightarrow> edits db db'"
proof -
  have "edits db (db\<lparr>fg_allocations := update_where P (\<lambda>a. a\<lparr>ac_SalesOrderLineID := sol\<rparr>) (fg_allocations db),
      fg_pool := update_where Q (\<lambda>r. r\<lparr>fg_SalesOrderLineID := Some sol\<rparr>) (fg_pool db)\<rparr>)" for P Q
  proof -
    let ?db1 = "db\<lparr>fg_allocations := update_where P (\<lambda>a. a\<lparr>ac_SalesOrderLineID := sol\<rparr>) (fg_allocations db)\<rparr>"
    have "pack_edit db ?db1" by (rule alloc_update_edit) simp
    moreover have "pack_edit ?db1 (?db1\<lparr>fg_pool := update_where Q (\<lambda>r. r\<lparr>fg_SalesOrderLineID := Some sol\<rparr>) (fg_pool ?db1)\<rparr>)" by (rule edit_sol)
    ultimately show ?thesis by simp
  qed
  then show "ReassignAllocation deps i sol u (db, x) = (r, (db', x')) \<Longrightarrow> edits db db'"
    by (auto simp: ReassignAllocation_def updateAllocationSOLine_def updateFGSOLine_def Let_def split: if_splits sum.splits)
qed

theorem pack_step_edits:
  assumes "pack_step deps s s'" and "remover_releases deps" and "pack_ok (fst s)"
  shows "edits (fst s) (fst s')"
  using assms
proof cases
  case (step_create env inp r)
  then show ?thesis by (cases s; cases s') (auto intro: CreateFromCompletedWO_edits)
next
  case (step_report env rin r)
  then show ?thesis using assms(2,3) by (cases s; cases s') (auto intro: ReportDefect_edits)
next
  case (step_resolve env zin r)
  then show ?thesis using assms(3) by (cases s; cases s') (auto intro: ResolveDefect_edits)
next
  case (step_reassign env ain r)
  then show ?thesis by (cases s; cases s') (auto intro: ReassignFG_edits)
next
  case (step_reassign_alloc i sol u r)
  then show ?thesis by (cases s; cases s') (auto intro: ReassignAllocation_edits)
qed (use assms(3) in \<open>auto intro: ReserveOnContainerAdd_edits ReleaseOnContainerDelete_edits MarkLoadedOnSeal_edits ReleaseAllocation_edits\<close>)

text \<open>The law of the remover is carried in the invariant, so that the contract applies to every such wiring.\<close>

interpretation packing: invariant "\<lambda>s. fst s = empty_packing \<and> remover_releases deps" "pack_step deps" "\<lambda>s. pack_ok (fst s) \<and> remover_releases deps"
proof unfold_locales
  fix s :: "packing_db \<times> 'a"
  assume "fst s = empty_packing \<and> remover_releases deps"
  then show "pack_ok (fst s) \<and> remover_releases deps" by (simp add: pack_ok_def empty_packing_def)
next
  fix s s' :: "packing_db \<times> 'a"
  assume "pack_ok (fst s) \<and> remover_releases deps" and "pack_step deps s s'"
  then show "pack_ok (fst s') \<and> remover_releases deps" using pack_step_edits pack_edits_ok by blast
qed

section \<open>The life of a piece\<close>

definition same_fg :: "FGPool \<Rightarrow> FGPool \<Rightarrow> bool" where
  "same_fg r r' \<longleftrightarrow> fg_ID r' = fg_ID r \<and> fg_WorkOrderID r' = fg_WorkOrderID r \<and> fg_SKUID r' = fg_SKUID r \<and> fg_BarcodeID r' = fg_BarcodeID r \<and>
     fg_ComponentType r' = fg_ComponentType r \<and> fg_UnitIndex r' = fg_UnitIndex r \<and> fg_QCPassedBy r' = fg_QCPassedBy r \<and> fg_CreatedAt r' = fg_CreatedAt r"

definition failed :: "packing_db \<Rightarrow> uuid \<Rightarrow> bool" where
  "failed db i \<longleftrightarrow> i \<in> df_FGPoolID ` set (fg_defects db)"

definition piece_lives :: "packing_db \<Rightarrow> packing_db \<Rightarrow> FGPool \<Rightarrow> FGPool \<Rightarrow> bool" where
  "piece_lives db db' r r' \<longleftrightarrow> same_fg r r' \<and>
     (fg_Status r = FGStatusDisposed \<longrightarrow> fg_Status r' = FGStatusDisposed) \<and>
     (failed db (fg_ID r) \<longrightarrow> failed db' (fg_ID r)) \<and>
     (failed db (fg_ID r) \<and> fg_Status r \<noteq> FGStatusDefect \<longrightarrow> fg_Status r' \<noteq> FGStatusDefect \<and> (fg_Status r' = FGStatusDisposed \<longrightarrow> fg_Status r = FGStatusDisposed))"

definition pool_lives :: "packing_db \<Rightarrow> packing_db \<Rightarrow> bool" where
  "pool_lives db db' \<longleftrightarrow> (\<forall>i r. fg_row i db = Some r \<longrightarrow> (\<exists>r'. fg_row i db' = Some r' \<and> piece_lives db db' r r'))"

lemma pool_lives_refl: "pool_lives db db"
  by (simp add: pool_lives_def piece_lives_def same_fg_def)

lemma pool_lives_trans: "pool_lives a b \<Longrightarrow> pool_lives b c \<Longrightarrow> pool_lives a c"
  unfolding pool_lives_def
proof (intro allI impI)
  fix i r
  assume ab: "\<forall>i r. fg_row i a = Some r \<longrightarrow> (\<exists>r'. fg_row i b = Some r' \<and> piece_lives a b r r')"
    and bc: "\<forall>i r. fg_row i b = Some r \<longrightarrow> (\<exists>r'. fg_row i c = Some r' \<and> piece_lives b c r r')" and r: "fg_row i a = Some r"
  from ab r obtain r1 where r1: "fg_row i b = Some r1" "piece_lives a b r r1" by blast
  from bc r1(1) obtain r2 where r2: "fg_row i c = Some r2" "piece_lives b c r1 r2" by blast
  have eq: "fg_ID r1 = fg_ID r" using r1(2) by (simp add: piece_lives_def same_fg_def)
  note p = r1(2) [unfolded piece_lives_def] and q = r2(2) [unfolded piece_lives_def eq]
  have "same_fg r r2" using p [THEN conjunct1] q [THEN conjunct1] by (simp add: same_fg_def)
  then have "piece_lives a c r r2" unfolding piece_lives_def using p [THEN conjunct2] q [THEN conjunct2] by meson
  with r2(1) show "\<exists>r'. fg_row i c = Some r' \<and> piece_lives a c r r'" by blast
qed

lemma pool_lives_map:
  assumes "\<And>r. same_fg r (f r)"
    and "\<And>r. r \<in> set (fg_pool db) \<Longrightarrow> fg_Status (f r) = fg_Status r \<or> (fg_Status r \<notin> {FGStatusDisposed, FGStatusDefect} \<and> fg_Status (f r) \<notin> {FGStatusDisposed, FGStatusDefect})"
    and "fg_pool db' = map f (fg_pool db)" and "fg_defects db' = fg_defects db"
  shows "pool_lives db db'"
  unfolding pool_lives_def
proof (intro allI impI)
  fix i r assume r: "fg_row i db = Some r"
  have "fg_row i db' = Some (f r)" using r assms(1) by (simp add: assms(3) row_by_map same_fg_def)
  moreover have "piece_lives db db' r (f r)" using assms(1) [of r] assms(2) [of r] row_by_SomeD [OF r] assms(4)
    by (auto simp: piece_lives_def failed_def)
  ultimately show "\<exists>r'. fg_row i db' = Some r' \<and> piece_lives db db' r r'" by blast
qed

lemma pool_lives_same: "fg_pool db' = fg_pool db \<Longrightarrow> fg_defects db' = fg_defects db \<Longrightarrow> pool_lives db db'"
  by (rule pool_lives_map [of "\<lambda>r. r"]) (auto simp: same_fg_def)

text \<open>One piece changes its status; the defect rows keep the pieces they name.\<close>

lemma pool_lives_one:
  assumes "fg_row k db = Some r0" and "fg_Status r0 \<noteq> FGStatusDisposed" and "failed db k \<Longrightarrow> fg_Status r0 = FGStatusDefect"
    and "fg_pool db' = update_where (\<lambda>r. fg_ID r = k) (\<lambda>r. r\<lparr>fg_Status := st, fg_ContainerLineID := cl\<rparr>) (fg_pool db)"
    and "df_FGPoolID ` set (fg_defects db) \<subseteq> df_FGPoolID ` set (fg_defects db')"
  shows "pool_lives db db'"
  unfolding pool_lives_def
proof (intro allI impI)
  fix i r assume r: "fg_row i db = Some r"
  let ?r' = "if fg_ID r = k then r\<lparr>fg_Status := st, fg_ContainerLineID := cl\<rparr> else r"
  have id: "fg_ID r = i" using row_by_SomeD [OF r] by simp
  have "fg_row i db' = Some ?r'" using r by (simp add: assms(4) row_by_update_where)
  moreover have "piece_lives db db' r ?r'"
  proof (cases "i = k")
    case True
    then have "r = r0" using r assms(1) by simp
    then show ?thesis using assms(2,3,5) True id by (auto simp: piece_lives_def same_fg_def failed_def)
  next
    case False
    then show ?thesis using assms(5) id by (auto simp: piece_lives_def same_fg_def failed_def)
  qed
  ultimately show "\<exists>r'. fg_row i db' = Some r' \<and> piece_lives db db' r r'" by blast
qed

lemma edit_lives:
  assumes "pack_edit db db'" and ok: "pack_ok db"
  shows "pool_lives db db'"
  using assms(1)
proof cases
  case (edit_insert rf rows t as u)
  have "fg_pool db' = fg_pool db @ rows" "fg_defects db' = fg_defects db" using edit_insert(1) insert_fgs_Inr [OF edit_insert(2)] by simp_all
  then show ?thesis by (auto simp: pool_lives_def piece_lives_def same_fg_def failed_def)
next
  case (edit_flip st cl P)
  then show ?thesis
    by (intro pool_lives_map [of "\<lambda>r. if P r then r\<lparr>fg_Status := st, fg_ContainerLineID := cl\<rparr> else r"])
      (auto simp: same_fg_def update_where_def fg_flip_def on_line_def)
next
  case (edit_defect d r rf)
  then have "df_FGPoolID d \<notin> df_FGPoolID ` set (fg_defects db)" "fg_defects db' = fg_defects db @ [d]"
    "fg_pool db' = update_where (\<lambda>r. fg_ID r = df_FGPoolID d) (\<lambda>r. r\<lparr>fg_Status := FGStatusDefect, fg_ContainerLineID := None\<rparr>) (fg_pool db)"
    by (auto simp: insertDefect_def check_defect_def split: sum.splits if_splits)
  then show ?thesis using edit_defect(1,2) by (intro pool_lives_one [of "df_FGPoolID d"]) (auto simp: failed_def)
next
  case (edit_resolve d r res nt u t)
  let ?g = "\<lambda>d'. d'\<lparr>df_Resolution := Some res, df_Note := nt, df_ResolvedBy := Some u, df_ResolvedAt := Some t\<rparr>"
  have "map df_FGPoolID (update_where (\<lambda>d'. df_ID d' = df_ID d \<and> df_Resolution d' = None) ?g (fg_defects db)) = map df_FGPoolID (fg_defects db)"
    by (rule map_update_where) simp
  then have "map df_FGPoolID (fg_defects db') = map df_FGPoolID (fg_defects db)" by (simp add: edit_resolve(1) set_resolution_def)
  then have "df_FGPoolID ` set (fg_defects db') = df_FGPoolID ` set (fg_defects db)" by (metis list.set_map)
  then show ?thesis using edit_resolve(4,5)
    by (intro pool_lives_one [of "df_FGPoolID d"]) (auto simp: edit_resolve(1) set_resolution_def)
next
  case (edit_sol P sol)
  then show ?thesis
    by (intro pool_lives_map [of "\<lambda>r. if P r then r\<lparr>fg_SalesOrderLineID := sol\<rparr> else r"]) (auto simp: same_fg_def update_where_def)
qed (auto intro: pool_lives_same)

lemma edits_lives: "edits db db' \<Longrightarrow> pack_ok db \<Longrightarrow> pool_lives db db'"
proof (induction rule: rtranclp_induct)
  case base
  show ?case by (rule pool_lives_refl)
next
  case (step db1 db2)
  then show ?case using edit_lives [OF step(2) pack_edits_ok [OF step(1)]] pool_lives_trans by blast
qed

lemma steps_lives:
  "(pack_step deps)\<^sup>*\<^sup>* s s' \<Longrightarrow> pack_ok (fst s) \<Longrightarrow> remover_releases deps \<Longrightarrow> pool_lives (fst s) (fst s')"
proof (induction rule: rtranclp_induct)
  case base
  show ?case by (rule pool_lives_refl)
next
  case (step s1 s2)
  then have "pack_ok (fst s1)" using packing.star_inv [OF _ step(1)] by blast
  then have "pool_lives (fst s1) (fst s2)" using pack_step_edits [OF step(2)] step.prems(2) edits_lives by blast
  then show ?case using step pool_lives_trans by blast
qed

end
