(* ===== verification/Packing_Props.thy ===== *)
theory Packing_Props
  imports Packing_Invariant "HOL-Library.Multiset"
begin

text \<open>
  Properties of the packing module over every sequence of its calls, with a small depot as the running
  example: a work order of two pieces, one of them reserved on a container line and later found broken.
\<close>

section \<open>Example\<close>

text \<open>The outside state is the number of barcodes issued so far; container line 70 belongs to container 60.\<close>

definition depot_refs :: pack_refs where
  "depot_refs = \<lparr>fgref_work_orders = [40], fgref_skus = [4], fgref_barcodes = [500, 501, 502, 503], fgref_so_lines = [21, 22], fgref_users = [9],
     fgref_container_lines = [(70, 60)], fgref_cutoff = (\<lambda>_. None)\<rparr>"

definition depot :: "nat pack_deps" where
  "depot = \<lparr>prefs = (\<lambda>_. depot_refs), barcodeIss = Some (\<lambda>inp n. (Inr (500 + n), Suc n)), barcodeRes = None, wog = None, suggester = None,
     lineRemover = Some (\<lambda>cl u (db, n). case ReleaseOnContainerDelete depot_refs cl db of (r, db1) \<Rightarrow> (r, (db1, n))),
     defectNotifier = None, solChecker = None, skuCompRes = None\<rparr>"

definition depot_env :: "nat \<Rightarrow> env" where
  "depot_env k = \<lparr>now = int k, fresh = (\<lambda>n. 100 * k + n)\<rparr>"

definition depot_wo :: CreateFromCompletedWOInput where
  "depot_wo = \<lparr>wc_WorkOrderID = 40, wc_SKUID = 4, wc_SKUCode = [], wc_SKUName = [], wc_Dimensions = [], wc_Quantity = 2, wc_SalesOrderLineID = Some 21,
     wc_ProductionPlanID = 30, wc_POID = 0, wc_QCPassedBy = 9, wc_ProducedDate = 0\<rparr>"

definition depot_made :: packing_db where
  "depot_made = fst (snd (CreateFromCompletedWO depot (depot_env 1) depot_wo (empty_packing, 0)))"

definition depot_report :: "uuid \<Rightarrow> ReportDefectInput" where
  "depot_report bc = \<lparr>rd_BarcodeID = bc, rd_Reason = ''BROKEN'', rd_Detail = [], rd_PhotoURLs = [], rd_DetectedBy = 9\<rparr>"

definition depot_broken :: packing_db where
  "depot_broken = fst (snd (ReportDefect depot (depot_env 2) (depot_report 500) (depot_made, 2)))"

definition depot_reworked :: packing_db where
  "depot_reworked = fst (snd (ResolveDefect depot (depot_env 3)
     \<lparr>rs_DefectID = 200, rs_Resolution = ''REWORK'', rs_Note = [], rs_ResolvedBy = 9\<rparr> (depot_broken, 2)))"

definition depot_reserved :: packing_db where
  "depot_reserved = snd (ReserveOnContainerAdd depot_refs (\<lambda>_. False)
     \<lparr>ri_SKUID = 4, ri_SalesOrderLineID = 21, ri_Qty = 2, ri_ContainerLineID = 70\<rparr> depot_reworked)"

lemma depot_releases: "remover_releases depot"
  by (auto simp: remover_releases_def depot_def released_def split: prod.splits intro!: r_into_rtranclp) blast

lemma pack_reach:
  assumes "remover_releases deps" and "reach (\<lambda>s. fst s = empty_packing) (pack_step deps) s"
  shows "pack_ok (fst s)"
proof -
  have "reach (\<lambda>s. fst s = empty_packing \<and> remover_releases deps) (pack_step deps) s"
    using assms(2) by (induction rule: reach.induct) (auto intro: reach_init reach_step simp: assms(1))
  then show ?thesis using packing.reach_inv by blast
qed

lemma depot_steps:
  "pack_step depot (empty_packing, 0) (depot_made, 2)"
  "pack_step depot (depot_made, 2) (depot_broken, 2)"
  "pack_step depot (depot_broken, 2) (depot_reworked, 2)"
  "pack_step depot (depot_reworked, 2) (depot_reserved, 2)"
proof -
  have "snd (snd (CreateFromCompletedWO depot (depot_env 1) depot_wo (empty_packing, 0))) = 2" by code_simp
  then show "pack_step depot (empty_packing, 0) (depot_made, 2)"
    by (intro step_create [where env = "depot_env 1" and inp = depot_wo and r = "fst (CreateFromCompletedWO depot (depot_env 1) depot_wo (empty_packing, 0))"])
      (simp add: depot_made_def prod_eq_iff)
  have "snd (snd (ReportDefect depot (depot_env 2) (depot_report 500) (depot_made, 2))) = 2" by code_simp
  then show "pack_step depot (depot_made, 2) (depot_broken, 2)"
    by (intro step_report [where env = "depot_env 2" and rin = "depot_report 500" and r = "fst (ReportDefect depot (depot_env 2) (depot_report 500) (depot_made, 2))"])
      (simp add: depot_broken_def prod_eq_iff)
  let ?res = "ResolveDefect depot (depot_env 3) \<lparr>rs_DefectID = 200, rs_Resolution = ''REWORK'', rs_Note = [], rs_ResolvedBy = 9\<rparr> (depot_broken, 2)"
  have "snd (snd ?res) = 2" by code_simp
  then show "pack_step depot (depot_broken, 2) (depot_reworked, 2)"
    by (intro step_resolve [where env = "depot_env 3" and r = "fst ?res"]) (simp add: depot_reworked_def prod_eq_iff)
  have "prefs depot 2 = depot_refs" by (simp add: depot_def)
  then show "pack_step depot (depot_reworked, 2) (depot_reserved, 2)"
    by (intro step_reserve [where held = "\<lambda>_. False" and vin = "\<lparr>ri_SKUID = 4, ri_SalesOrderLineID = 21, ri_Qty = 2, ri_ContainerLineID = 70\<rparr>"])
      (simp add: depot_reserved_def prod_eq_iff)
qed

lemma depot_reach:
  "reach (\<lambda>s. fst s = empty_packing) (pack_step depot) (depot_reworked, 2)"
  "reach (\<lambda>s. fst s = empty_packing) (pack_step depot) (depot_reserved, 2)"
proof -
  have "reach (\<lambda>s. fst s = empty_packing) (pack_step depot) (empty_packing, 0)" by (rule reach_init) simp
  from reach_step [OF reach_step [OF reach_step [OF this depot_steps(1)] depot_steps(2)] depot_steps(3)]
  show *: "reach (\<lambda>s. fst s = empty_packing) (pack_step depot) (depot_reworked, 2)" .
  show "reach (\<lambda>s. fst s = empty_packing) (pack_step depot) (depot_reserved, 2)" by (rule reach_step [OF * depot_steps(4)])
qed

section \<open>The pool\<close>

text \<open>
  C16: the pool of finished goods is consistent. In every reachable state of the packing module, as long as the
  remover of container lines touches the pool only by releasing lines, every barcode belongs to one piece; a
  piece names a container line exactly when it is reserved or loaded; it is in defect exactly when
  it has a defect that is not resolved, and disposed of exactly when its defect was resolved by discarding or
  returning it; a piece has at most one defect and at most one allocation, and every defect and allocation
  belongs to a piece of the pool.
\<close>

theorem pool_consistent:
  assumes "remover_releases deps" and "reach (\<lambda>s. fst s = empty_packing) (pack_step deps) s"
  shows "distinct (map fg_BarcodeID (fg_pool (fst s))) \<and> distinct (map df_FGPoolID (fg_defects (fst s))) \<and> distinct (map ac_FGPoolID (fg_allocations (fst s))) \<and>
    df_FGPoolID ` set (fg_defects (fst s)) \<subseteq> fg_ID ` set (fg_pool (fst s)) \<and> ac_FGPoolID ` set (fg_allocations (fst s)) \<subseteq> fg_ID ` set (fg_pool (fst s)) \<and>
    (\<forall>r \<in> set (fg_pool (fst s)).
       (fg_ContainerLineID r \<noteq> None \<longleftrightarrow> fg_Status r \<in> {FGStatusReserved, FGStatusLoaded}) \<and>
       (fg_Status r = FGStatusDefect \<longleftrightarrow> (\<exists>d \<in> set (fg_defects (fst s)). df_FGPoolID d = fg_ID r \<and> df_Resolution d = None)) \<and>
       (fg_Status r = FGStatusDisposed \<longleftrightarrow>
          (\<exists>d \<in> set (fg_defects (fst s)). df_FGPoolID d = fg_ID r \<and> df_Resolution d \<in> {Some ''DISCARD'', Some ''RETURN_NCC''})))"
proof -
  note ok = pack_reach [OF assms]
  note o = pack_okD [OF ok]
  have named: "fg_Status r = fg_Status r'" if "r \<in> set (fg_pool (fst s))" "fg_row (fg_ID r) (fst s) = Some r'" for r r'
    using row_by_eq_SomeI [OF o(1) that(1)] that(2) by simp
  have "df_FGPoolID ` set (fg_defects (fst s)) \<subseteq> fg_ID ` set (fg_pool (fst s))"
  proof (rule image_subsetI)
    fix d assume "d \<in> set (fg_defects (fst s))"
    from o(6) [OF this] obtain r where "fg_row (df_FGPoolID d) (fst s) = Some r" by blast
    from row_by_SomeD [OF this] show "df_FGPoolID d \<in> fg_ID ` set (fg_pool (fst s))" by (metis imageI)
  qed
  moreover have "(fg_Status r = FGStatusDefect \<longleftrightarrow> (\<exists>d \<in> set (fg_defects (fst s)). df_FGPoolID d = fg_ID r \<and> df_Resolution d = None)) \<and>
      (fg_Status r = FGStatusDisposed \<longleftrightarrow>
        (\<exists>d \<in> set (fg_defects (fst s)). df_FGPoolID d = fg_ID r \<and> df_Resolution d \<in> {Some ''DISCARD'', Some ''RETURN_NCC''}))"
    if r: "r \<in> set (fg_pool (fst s))" for r
  proof -
    have judged: "verdict d (fg_Status r)" if "d \<in> set (fg_defects (fst s))" "df_FGPoolID d = fg_ID r" for d
      using o(6) [OF that(1)] named [OF r] that(2) by auto
    show ?thesis
    proof (cases "fg_ID r \<in> df_FGPoolID ` set (fg_defects (fst s))")
      case True
      then obtain d where d: "d \<in> set (fg_defects (fst s))" "df_FGPoolID d = fg_ID r" by auto
      have only: "d' = d" if "d' \<in> set (fg_defects (fst s))" "df_FGPoolID d' = fg_ID r" for d'
        using o(5) d that by (auto simp: distinct_map inj_on_def)
      have "(\<exists>d' \<in> set (fg_defects (fst s)). df_FGPoolID d' = fg_ID r \<and> P d') \<longleftrightarrow> P d" for P using d only by blast
      then show ?thesis using judged [OF d] by (simp add: verdict_def)
    next
      case False
      then have "fg_Status r \<notin> {FGStatusDefect, FGStatusDisposed}" using o(7) [OF r] by blast
      then show ?thesis using False by (auto simp: image_iff)
    qed
  qed
  ultimately show ?thesis using o by (auto simp: chk_reserved_has_line_def on_line_def)
qed

theorem pool_consistent_witness:
  "map fg_Status (fg_pool depot_reserved) = [FGStatusReserved, FGStatusReserved] \<and> list_all (\<lambda>r. fg_ContainerLineID r \<noteq> None) (fg_pool depot_reserved)"
proof -
  have st: "map fg_Status (fg_pool depot_reserved) = [FGStatusReserved, FGStatusReserved]" by code_simp
  have "list_all (\<lambda>r. fg_Status r = FGStatusReserved) (fg_pool depot_reserved)" by code_simp
  then show ?thesis using st pool_consistent [OF depot_releases depot_reach(2)] by (simp add: list_all_iff)
qed

text \<open>
  C18: a piece fails at most once. Whatever calls follow, a piece of a reachable state stays in the pool and keeps
  its work order, SKU, barcode, component and unit; once disposed of it stays so; and a piece that
  was reworked after a defect never again leaves the pool through a defect: every later report of a defect of it is
  an error, because the table of defects has one row per piece.
\<close>

theorem piece_fails_at_most_once:
  assumes "remover_releases deps" and "reach (\<lambda>s. fst s = empty_packing) (pack_step deps) s" and "fg_row i (fst s) = Some r"
    and "(pack_step deps)\<^sup>*\<^sup>* s s'"
  shows "\<exists>r'. fg_row i (fst s') = Some r' \<and> same_fg r r' \<and> (fg_Status r = FGStatusDisposed \<longrightarrow> fg_Status r' = FGStatusDisposed) \<and>
    (i \<in> df_FGPoolID ` set (fg_defects (fst s)) \<and> fg_Status r \<notin> {FGStatusDefect, FGStatusDisposed} \<longrightarrow>
       fg_Status r' \<notin> {FGStatusDefect, FGStatusDisposed} \<and> (\<forall>env inp. rd_BarcodeID inp = fg_BarcodeID r \<longrightarrow> isl (fst (ReportDefect deps env inp s'))))"
proof -
  note ok = pack_reach [OF assms(1,2)]
  have ok': "pack_ok (fst s')" using packing.star_inv [OF _ assms(4)] ok assms(1) by blast
  from steps_lives [OF assms(4) ok assms(1)] assms(3) obtain r' where r': "fg_row i (fst s') = Some r'" "piece_lives (fst s) (fst s') r r'"
    by (auto simp: pool_lives_def)
  have i: "fg_ID r = i" "fg_ID r' = i" using row_by_SomeD [OF assms(3)] row_by_SomeD [OF r'(1)] by auto
  have same: "same_fg r r'" using r'(2) by (simp add: piece_lives_def)
  have "isl (fst (ReportDefect deps env inp s'))" if "failed (fst s) i" "rd_BarcodeID inp = fg_BarcodeID r" for env inp
  proof -
    have row: "row_by fg_BarcodeID (fg_BarcodeID r) (fg_pool (fst s')) = Some r'"
      using row_by_eq_SomeI [OF pack_okD(2) [OF ok'], of r'] row_by_SomeD [OF r'(1)] same by (simp add: same_fg_def)
    have "i \<in> df_FGPoolID ` set (fg_defects (fst s'))" using r'(2) that(1) i(1) by (simp add: piece_lives_def failed_def)
    obtain a db1 x1 where rel: "release_line deps inp r' s' = (a, (db1, x1))" by (metis prod.collapse)
    have "released\<^sup>*\<^sup>* (fst s') db1" using release_line_released [OF assms(1)] rel by (metis prod.collapse)
    then have "pool_lives (fst s') db1" using released_edits ok' edits_lives by blast
    then have "failed db1 i" using r'(1) \<open>i \<in> _\<close> i(2) by (auto simp: pool_lives_def piece_lives_def failed_def)
    then have "\<exists>e. insertDefect (prefs deps x1) (new_defect env inp r') (set_fg (\<lambda>r. fg_ID r = fg_ID r') FGStatusDefect None db1) = Inl e"
      using i(2) by (auto simp: insertDefect_def insert_checked_def check_defect_def new_defect_def failed_def)
    then show ?thesis
      using that(2) row rel by (auto simp: ReportDefect_def lockFGByBarcodeForUpdate_def selectFGByBarcodeID_def flipFGStatus_def split: sum.splits)
  qed
  then show ?thesis using r' same i by (auto simp: piece_lives_def failed_def)
qed

theorem piece_fails_at_most_once_witness:
  "map fg_Status (fg_pool depot_reworked) = [FGStatusAvailable, FGStatusAvailable] \<and> map df_FGPoolID (fg_defects depot_reworked) = [100] \<and>
   isl (fst (ReportDefect depot (depot_env 5) (depot_report 500) (depot_reserved, 2)))"
proof -
  have st: "map (\<lambda>r. (fg_ID r, fg_BarcodeID r, fg_Status r)) (fg_pool depot_reworked) = [(100, 500, FGStatusAvailable), (101, 501, FGStatusAvailable)]"
    "map df_FGPoolID (fg_defects depot_reworked) = [100]" by code_simp+
  then obtain r where r: "fg_row 100 depot_reworked = Some r" "fg_BarcodeID r = 500" "fg_Status r = FGStatusAvailable" by (auto simp: row_by_def)
  have "(pack_step depot)\<^sup>*\<^sup>* (depot_reworked, 2) (depot_reserved, 2)" using depot_steps(4) by blast
  from piece_fails_at_most_once [OF depot_releases depot_reach(1) _ this, of 100 r] r
  have "100 \<in> df_FGPoolID ` set (fg_defects depot_reworked) \<longrightarrow> isl (fst (ReportDefect depot (depot_env 5) (depot_report 500) (depot_reserved, 2)))"
    by (auto simp: depot_report_def)
  moreover have "100 \<in> set (map df_FGPoolID (fg_defects depot_reworked))" using st(2) by simp
  ultimately show ?thesis using st by auto
qed

section \<open>Pieces of a work order\<close>

lemma issue_boxes_labels:
  "issue_boxes iss env inp n bs x = (Inr rows, x') \<Longrightarrow> map (\<lambda>r. (fg_ComponentType r, fg_UnitIndex r)) rows = bs \<and>
     (\<forall>r \<in> set rows. fg_WorkOrderID r = wc_WorkOrderID inp \<and> fg_SKUID r = wc_SKUID inp \<and> fg_SalesOrderLineID r = wc_SalesOrderLineID inp \<and> fg_Status r = FGStatusAvailable)"
  by (induction bs arbitrary: n x rows x') (auto split: prod.splits sum.splits simp: new_fg_def)

lemma enumerate_snd: "map (\<lambda>p. g (snd p)) (List.enumerate n xs) = map g xs"
  by (induction xs arbitrary: n) auto

lemma sort_key_empty: "sort_key f xs = [] \<longleftrightarrow> xs = []"
  by (metis mset_sort mset_zero_iff)

lemma hard_allocations_pieces: "map (\<lambda>a. (ac_FGPoolID a, ac_SalesOrderLineID a, ac_Type a)) (hard_allocations env n sol rows) =
    (case sol of None \<Rightarrow> [] | Some s \<Rightarrow> map (\<lambda>r. (fg_ID r, s, AllocationTypeHard)) rows)"
  using enumerate_snd [of "\<lambda>r. (fg_ID r, s, AllocationTypeHard)" 0 rows for s] by (auto simp: hard_allocations_def case_prod_beta o_def split: option.splits)

text \<open>
  C26: a completed work order enters the pool once. A call that fails leaves the pool as it was. A call that succeeds
  either finds pieces of the work order and returns exactly them, changing nothing; or adds to the pool, for every unit
  one box, or one box per component of the SKU where it has components, all available and of the
  order's SKU and sales order line, and for each of them a hard allocation where the sales order line is known.
  A repeated call, at any time before the pool changes, returns the same pieces and adds none.
\<close>

theorem CreateFromCompletedWO_effect:
  assumes "CreateFromCompletedWO deps env inp (db, x) = (res, (db', x'))"
  shows "case res of
      Inl e \<Rightarrow> db' = db
    | Inr rows \<Rightarrow> rows \<noteq> [] \<and> mset rows = mset (filter (\<lambda>r. fg_WorkOrderID r = wc_WorkOrderID inp) (fg_pool db')) \<and>
        (\<exists>rows2. \<forall>env2 x2. CreateFromCompletedWO deps env2 inp (db', x2) = (Inr rows2, (db', x2)) \<and> mset rows2 = mset rows) \<and>
        (db' = db \<or>
          (\<forall>r \<in> set (fg_pool db). fg_WorkOrderID r \<noteq> wc_WorkOrderID inp) \<and> fg_pool db' = fg_pool db @ rows \<and> fg_defects db' = fg_defects db \<and>
          (\<exists>comps. components_of deps (wc_SKUID inp) x = Inr comps \<and> map (\<lambda>r. (fg_ComponentType r, fg_UnitIndex r)) rows = boxes (wc_Quantity inp) comps) \<and>
          (\<forall>r \<in> set rows. fg_WorkOrderID r = wc_WorkOrderID inp \<and> fg_SKUID r = wc_SKUID inp \<and> fg_SalesOrderLineID r = wc_SalesOrderLineID inp \<and> fg_Status r = FGStatusAvailable) \<and>
          (\<exists>as. fg_allocations db' = fg_allocations db @ as \<and> map (\<lambda>a. (ac_FGPoolID a, ac_SalesOrderLineID a, ac_Type a)) as =
             (case wc_SalesOrderLineID inp of None \<Rightarrow> [] | Some s \<Rightarrow> map (\<lambda>r. (fg_ID r, s, AllocationTypeHard)) rows)))"
proof (cases res)
  case (Inl e)
  then show ?thesis using assms
    by (auto simp: CreateFromCompletedWO_def insertFGBatchWithAllocations_def Let_def split: if_splits sum.splits option.splits prod.splits)
next
  case (Inr rows)
  let ?mine = "\<lambda>db. filter (\<lambda>r. fg_WorkOrderID r = wc_WorkOrderID inp) (fg_pool db)"
  have again: "CreateFromCompletedWO deps env2 inp (db', x2) = (Inr (sort_key fg_CreatedAt (sort_key fg_ID (?mine db'))), (db', x2))"
    if "?mine db' \<noteq> []" for env2 x2
  proof -
    have "sort_key fg_CreatedAt (sort_key fg_ID (?mine db')) \<noteq> []" using that by (simp add: sort_key_empty)
    then show ?thesis using assms Inr by (auto simp: CreateFromCompletedWO_def selectFGByWorkOrderID_def select_where_def split: if_splits)
  qed
  have "(db' = db \<and> rows = sort_key fg_CreatedAt (sort_key fg_ID (?mine db)) \<and> rows \<noteq> []) \<or>
      (?mine db = [] \<and> (\<exists>comps iss. components_of deps (wc_SKUID inp) x = Inr comps \<and> wc_Quantity inp > 0 \<and>
        issue_boxes iss env inp 0 (boxes (wc_Quantity inp) comps) x = (Inr rows, x') \<and>
        insertFGBatchWithAllocations (prefs deps x') rows (hard_allocations env (length rows) (wc_SalesOrderLineID inp) rows) db = (Inr (), db')))"
    using assms Inr by (auto simp: CreateFromCompletedWO_def selectFGByWorkOrderID_def select_where_def Let_def sort_key_empty
        split: if_splits sum.splits option.splits prod.splits)
  then show ?thesis
  proof (elim disjE conjE exE)
    assume "db' = db" "rows = sort_key fg_CreatedAt (sort_key fg_ID (?mine db))" "rows \<noteq> []"
    moreover from this have "?mine db' \<noteq> []" by auto
    ultimately show ?thesis using Inr again by auto
  next
    fix comps iss
    assume none: "?mine db = []" and comps: "components_of deps (wc_SKUID inp) x = Inr comps" "wc_Quantity inp > 0"
      and iss: "issue_boxes iss env inp 0 (boxes (wc_Quantity inp) comps) x = (Inr rows, x')"
      and ins: "insertFGBatchWithAllocations (prefs deps x') rows (hard_allocations env (length rows) (wc_SalesOrderLineID inp) rows) db = (Inr (), db')"
    note lab = issue_boxes_labels [OF iss]
    have "boxes (wc_Quantity inp) comps \<noteq> []" using comps(2) by (auto simp: boxes_def intro!: exI [of _ 0])
    with lab have ne: "rows \<noteq> []" by auto
    from ins ne have tabs: "fg_pool db' = fg_pool db @ rows" "fg_defects db' = fg_defects db"
      "fg_allocations db' = fg_allocations db @ hard_allocations env (length rows) (wc_SalesOrderLineID inp) rows"
      by (auto simp: insertFGBatchWithAllocations_def split: if_splits sum.splits dest!: insert_fgs_Inr insert_allocations_Inr)
    have mine: "?mine db' = rows" using none lab by (simp add: tabs(1) filter_id_conv)
    have "\<forall>r \<in> set (fg_pool db). fg_WorkOrderID r \<noteq> wc_WorkOrderID inp" using none by (simp add: filter_empty_conv)
    then show ?thesis using Inr again mine ne lab tabs comps(1) hard_allocations_pieces by auto
  qed
qed

theorem CreateFromCompletedWO_effect_witness:
  "length (fg_pool depot_made) = 2 \<and>
   (\<exists>rows2. \<forall>env2 x2. CreateFromCompletedWO depot env2 depot_wo (depot_made, x2) = (Inr rows2, (depot_made, x2)) \<and> length rows2 = 2)"
proof -
  define run where "run = CreateFromCompletedWO depot (depot_env 1) depot_wo (empty_packing, 0)"
  have n: "length (fg_pool depot_made) = 2" "\<not> isl (fst run)" unfolding run_def by code_simp+
  then obtain rows where "fst run = Inr rows" by (cases "fst run") auto
  then have eq: "CreateFromCompletedWO depot (depot_env 1) depot_wo (empty_packing, 0) = (Inr rows, (depot_made, snd (snd run)))"
    unfolding run_def [symmetric] depot_made_def by (metis prod.collapse)
  from CreateFromCompletedWO_effect [OF eq] obtain rows2 where
    again: "\<forall>env2 x2. CreateFromCompletedWO depot env2 depot_wo (depot_made, x2) = (Inr rows2, (depot_made, x2)) \<and> mset rows2 = mset rows"
    and mine: "mset rows = mset (filter (\<lambda>r. fg_WorkOrderID r = wc_WorkOrderID depot_wo) (fg_pool depot_made))" unfolding sum.case by blast
  have "length (filter (\<lambda>r. fg_WorkOrderID r = wc_WorkOrderID depot_wo) (fg_pool depot_made)) = 2" by code_simp
  then have "length rows2 = 2" using again mine by (metis mset_eq_length)
  then show ?thesis using again n(1) by blast
qed

end
