(* ===== verification/Delivery_Store.thy ===== *)
theory Delivery_Store
  imports Sales_Store Durations
begin

text \<open>
  Rows and statements of the delivery module: \<^verbatim>\<open>internal/module/delivery/iface.go\<close> and \<^verbatim>\<open>pgstore.go\<close>, with
  the constraints of migrations 00051, 00055, 00056, 00063, 00065, 00067, 00068 and 00069. A
  \<^verbatim>\<open>NUMERIC\<close> column holds an exact decimal, kept as a rational; Go reads it as the nearest
  \<^verbatim>\<open>float64\<close>. The SKU texts joined for display and the JSON copy of a replaced line are left out.

  \<open>del_refs\<close> is what the statements read of tables of other modules: the users, the SKUs, the sales order
  lines, and the container lines that a piece of the finished goods pool refers to, which cannot be deleted.
\<close>

section \<open>Decimal columns\<close>

definition numeric_col :: "nat \<Rightarrow> nat \<Rightarrow> rat \<Rightarrow> rat result" where
  "numeric_col p s x =
     (let c = round_half_away (shortest x * 10 ^ s)
      in if \<bar>c\<bar> < 10 ^ p then Inr (of_int c / 10 ^ s) else Inl (Pg NumericOutOfRange))"

abbreviation cbm_col :: "rat \<Rightarrow> rat result" where "cbm_col \<equiv> numeric_col 8 3"
abbreviation weight_col :: "rat \<Rightarrow> rat result" where "weight_col \<equiv> numeric_col 10 2"

section \<open>Rows\<close>

datatype ContainerStatus = ContainerStatusOpen | ContainerStatusLoading | ContainerStatusSealed | ContainerStatusShipped | ContainerStatusCancelled

fun container_status_text :: "ContainerStatus \<Rightarrow> string" where
  "container_status_text ContainerStatusOpen = ''OPEN''"
| "container_status_text ContainerStatusLoading = ''LOADING''"
| "container_status_text ContainerStatusSealed = ''SEALED''"
| "container_status_text ContainerStatusShipped = ''SHIPPED''"
| "container_status_text ContainerStatusCancelled = ''CANCELLED''"

record Container =
  ctn_ID :: uuid
  ctn_Code :: string
  ctn_ContainerType :: string
  ctn_MaxCBM :: rat
  ctn_MaxPayloadKG :: rat
  ctn_Status :: ContainerStatus
  ctn_SealedAt :: "time option"
  ctn_SealedBy :: "uuid option"
  ctn_Note :: string
  ctn_VesselID :: "uuid option"
  ctn_CutoffDate :: "time option"
  ctn_DestinationCode :: string
  ctn_DestinationName :: string
  ctn_LoaderID :: "uuid option"
  ctn_CreatedBy :: uuid
  ctn_CreatedAt :: time

record ContainerLine =
  ctl_ID :: uuid
  ctl_ContainerID :: uuid
  ctl_SKUID :: uuid
  ctl_Qty :: int
  ctl_SalesOrderLineID :: uuid
  ctl_CBMTotal :: rat
  ctl_WeightKGTotal :: rat
  ctl_AddedBy :: uuid
  ctl_AddedAt :: time

record ContainerStatusLogEntry =
  sle_ID :: uuid
  sle_ContainerID :: uuid
  sle_FromStatus :: ContainerStatus
  sle_ToStatus :: ContainerStatus
  sle_ActorID :: uuid
  sle_Note :: string
  sle_CreatedAt :: time

record ContainerOverloadLog =
  ol_ID :: uuid
  ol_ContainerID :: uuid
  ol_LineID :: uuid
  ol_ProjectedCBM :: rat
  ol_MaxCBM :: rat
  ol_ProjectedKG :: rat
  ol_MaxKG :: rat
  ol_ActorID :: uuid
  ol_Reason :: string

record ContainerTransferAudit =
  ta_ID :: uuid
  ta_SourceContainerID :: uuid
  ta_TargetContainerID :: uuid
  ta_LineID :: uuid
  ta_SKUID :: uuid
  ta_QtyTransferred :: int
  ta_Reason :: string
  ta_IsCrossPlan :: bool
  ta_ActorID :: uuid
  ta_ActorRole :: string
  ta_CreatedAt :: time

record ContainerLoaderLog =
  ll_ID :: uuid
  ll_ContainerID :: uuid
  ll_FromLoaderID :: "uuid option"
  ll_ToLoaderID :: "uuid option"
  ll_Reason :: string
  ll_AssignedBy :: uuid
  ll_AssignedAt :: time

record ContainerRouteChangeLog =
  rc_ID :: uuid
  rc_ContainerID :: uuid
  rc_FromDC :: string
  rc_ToDC :: string
  rc_FromDest :: string
  rc_ToDest :: string
  rc_Reason :: string
  rc_ActorID :: uuid
  rc_ChangedAt :: time

datatype LoadingPlanStatus = LoadingPlanStatusParsed | LoadingPlanStatusValidated | LoadingPlanStatusApproved | LoadingPlanStatusSuperseded

record LoadingPlan =
  lpn_ID :: uuid
  lpn_ContainerID :: uuid
  lpn_ExcelFileURL :: string
  lpn_ExcelHash :: string
  lpn_ParsedAt :: time
  lpn_UploadedBy :: uuid
  lpn_Status :: LoadingPlanStatus
  lpn_Version :: int
  lpn_Notes :: string
  lpn_ApprovedAt :: "time option"
  lpn_ApprovedBy :: "uuid option"
  lpn_SupersededAt :: "time option"
  lpn_SupersededBy :: "uuid option"
  lpn_CreatedAt :: time

record LoadingPlanLine =
  lpl_ID :: uuid
  lpl_LoadingPlanID :: uuid
  lpl_SKUID :: uuid
  lpl_QtyPlannedPieces :: int
  lpl_UnitInExcel :: string
  lpl_QtyInExcel :: rat
  lpl_CustomerSKUCode :: string
  lpl_ExcelRowNum :: int
  lpl_CreatedAt :: time

record ContainerLineHistoryEntry =
  clh_ID :: uuid
  clh_OriginalLineID :: uuid
  clh_ContainerID :: uuid
  clh_SKUID :: uuid
  clh_SupersededAt :: time
  clh_SupersededByPlan :: uuid
  clh_SupersededByUser :: uuid
  clh_Reason :: string

record delivery_db =
  containers :: "Container list"
  container_lines :: "ContainerLine list"
  container_status_log :: "ContainerStatusLogEntry list"
  container_overload_log :: "ContainerOverloadLog list"
  container_transfer_audit :: "ContainerTransferAudit list"
  container_loader_log :: "ContainerLoaderLog list"
  container_route_log :: "ContainerRouteChangeLog list"
  loading_plans :: "LoadingPlan list"
  loading_plan_lines :: "LoadingPlanLine list"
  container_lines_history :: "ContainerLineHistoryEntry list"
  container_counters :: "(calendar_day \<times> nat) list"

record del_refs =
  dref_users :: "uuid list"
  dref_skus :: "uuid list"
  dref_so_lines :: "uuid list"
  dref_used_lines :: "uuid list"

abbreviation container_row :: "uuid \<Rightarrow> delivery_db \<Rightarrow> Container option" where
  "container_row i db \<equiv> row_by ctn_ID i (containers db)"

abbreviation cline_row :: "uuid \<Rightarrow> delivery_db \<Rightarrow> ContainerLine option" where
  "cline_row i db \<equiv> row_by ctl_ID i (container_lines db)"

abbreviation lplan_row :: "uuid \<Rightarrow> delivery_db \<Rightarrow> LoadingPlan option" where
  "lplan_row i db \<equiv> row_by lpn_ID i (loading_plans db)"

definition lines_in :: "uuid \<Rightarrow> delivery_db \<Rightarrow> ContainerLine list" where
  "lines_in c db = filter (\<lambda>l. ctl_ContainerID l = c) (container_lines db)"

section \<open>Containers\<close>

definition containerCode :: "calendar_day \<Rightarrow> nat \<Rightarrow> string" where
  "containerCode day seq = (case day of (y, m, d) \<Rightarrow> ''CONT'' @ zpad 4 y @ zpad 2 m @ zpad 2 d @ ''-'' @ zpad 3 seq)"

definition nextContainerCode :: "calendar_day \<Rightarrow> (delivery_db, string) op" where
  "nextContainerCode day db =
     (let seq = (case map_of (container_counters db) day of None \<Rightarrow> 1 | Some n \<Rightarrow> Suc n)
      in if \<not> in_int4 (int seq) then (Inl (Pg NumericOutOfRange), db)
         else (Inr (containerCode day seq), db\<lparr>container_counters := (day, seq) # filter (\<lambda>c. fst c \<noteq> day) (container_counters db)\<rparr>))"

definition container_types :: "string list" where
  "container_types = [''20GP'', ''40GP'', ''40HC'']"

definition insertContainer :: "del_refs \<Rightarrow> Container \<Rightarrow> (delivery_db, unit) op" where
  "insertContainer rf c db =
     (case (cbm_col (ctn_MaxCBM c), weight_col (ctn_MaxPayloadKG c)) of
        (Inl e, _) \<Rightarrow> (Inl e, db)
      | (Inr _, Inl e) \<Rightarrow> (Inl e, db)
      | (Inr m, Inr w) \<Rightarrow>
          (case insert_checked (\<lambda>r. if ctn_ContainerType r \<notin> set container_types \<or> ctn_MaxCBM r \<le> 0 \<or> ctn_MaxPayloadKG r \<le> 0 then Some (Pg CheckViolation)
                                   else if ctn_Code r \<in> set (map ctn_Code (containers db)) then Some (Pg UniqueViolation)
                                   else if ctn_CreatedBy r \<notin> set (dref_users rf) then Some (Pg ForeignKeyViolation) else None)
                 ctn_ID (c\<lparr>ctn_MaxCBM := m, ctn_MaxPayloadKG := w\<rparr>) (containers db) of
             Inl e \<Rightarrow> (Inl e, db)
           | Inr t \<Rightarrow> (Inr (), db\<lparr>containers := t\<rparr>)))"

definition scanContainer :: "Container \<Rightarrow> Container" where
  "scanContainer c = c\<lparr>ctn_MaxCBM := fl (ctn_MaxCBM c), ctn_MaxPayloadKG := fl (ctn_MaxPayloadKG c)\<rparr>"

definition selectContainerByID :: "uuid \<Rightarrow> delivery_db \<Rightarrow> Container result" where
  "selectContainerByID i db = (case container_row i db of None \<Rightarrow> Inl (Biz ErrNotFound) | Some c \<Rightarrow> Inr (scanContainer c))"

definition scan_line :: "ContainerLine \<Rightarrow> ContainerLine" where
  "scan_line l = l\<lparr>ctl_CBMTotal := fl (ctl_CBMTotal l), ctl_WeightKGTotal := fl (ctl_WeightKGTotal l)\<rparr>"

definition selectContainerLines :: "uuid \<Rightarrow> delivery_db \<Rightarrow> ContainerLine list result" where
  "selectContainerLines c db = Inr (map scan_line (sort_key ctl_AddedAt (sort_key ctl_ID (lines_in c db))))"

record ContainerListFilter =
  clf_Status :: string
  clf_ContainerType :: string
  clf_LoaderID :: "uuid option"
  clf_VesselID :: "uuid option"

definition container_matches :: "ContainerListFilter \<Rightarrow> string \<Rightarrow> Container \<Rightarrow> bool" where
  "container_matches f pat c \<longleftrightarrow>
     (clf_Status f = [] \<or> container_status_text (ctn_Status c) = clf_Status f) \<and>
     (clf_ContainerType f = [] \<or> ctn_ContainerType c = clf_ContainerType f) \<and> ilike (ctn_Code c) pat \<and>
     (clf_LoaderID f = None \<or> ctn_LoaderID c = clf_LoaderID f) \<and> (clf_VesselID f = None \<or> ctn_VesselID c = clf_VesselID f)"

definition selectContainersPaged :: "PageParams \<Rightarrow> ContainerListFilter \<Rightarrow> delivery_db \<Rightarrow> (Container list \<times> int) result" where
  "selectContainersPaged p f db =
     (let rows = select_where (container_matches f (''%'' @ Search p @ ''%'')) (containers db);
          ordered = rev (sort_key ctn_CreatedAt (sort_key ctn_ID rows))
      in Inr (map scanContainer (take (nat (Limit p)) (drop (nat (Offset p)) ordered)), int (length rows)))"

definition selectStatusLog :: "uuid \<Rightarrow> delivery_db \<Rightarrow> ContainerStatusLogEntry list result" where
  "selectStatusLog c db = Inr (rev (sort_key sle_CreatedAt (sort_key sle_ID (select_where (\<lambda>e. sle_ContainerID e = c) (container_status_log db)))))"

section \<open>Statements of the line transactions\<close>

definition lockContainerForUpdate :: "uuid \<Rightarrow> delivery_db \<Rightarrow> Container result" where
  "lockContainerForUpdate i db = selectContainerByID i db"

definition lockLineForUpdate :: "uuid \<Rightarrow> delivery_db \<Rightarrow> ContainerLine result" where
  "lockLineForUpdate i db = (case cline_row i db of None \<Rightarrow> Inl (Biz ErrNotFound) | Some l \<Rightarrow> Inr (scan_line l))"

definition used_cbm :: "uuid \<Rightarrow> delivery_db \<Rightarrow> rat" where
  "used_cbm c db = sum_list (map ctl_CBMTotal (lines_in c db))"

definition used_weight :: "uuid \<Rightarrow> delivery_db \<Rightarrow> rat" where
  "used_weight c db = sum_list (map ctl_WeightKGTotal (lines_in c db))"

definition sumLinesAggregates :: "uuid \<Rightarrow> delivery_db \<Rightarrow> rat \<times> rat" where
  "sumLinesAggregates c db = (fl (used_cbm c db), fl (used_weight c db))"

record ShipmentItem =
  si_SOLineID :: uuid
  si_Qty :: int

definition qty_for :: "uuid \<Rightarrow> uuid \<Rightarrow> delivery_db \<Rightarrow> int" where
  "qty_for c sol db = sum_where ctl_Qty (\<lambda>l. ctl_ContainerID l = c \<and> ctl_SalesOrderLineID l = sol) (container_lines db)"

text \<open>One item per sales order line; the sum is cast to 32 bits. The groups come in no particular order.\<close>

definition listLinesForSeal :: "uuid \<Rightarrow> delivery_db \<Rightarrow> ShipmentItem list result" where
  "listLinesForSeal c db =
     (let sols = remdups (map ctl_SalesOrderLineID (lines_in c db)) in
      if list_ex (\<lambda>s. \<not> in_int4 (qty_for c s db)) sols then Inl (Pg NumericOutOfRange)
      else Inr (map (\<lambda>s. \<lparr>si_SOLineID = s, si_Qty = qty_for c s db\<rparr>) sols))"

definition check_cline :: "del_refs \<Rightarrow> delivery_db \<Rightarrow> ContainerLine \<Rightarrow> error option" where
  "check_cline rf db l =
     (if \<not> in_int4 (ctl_Qty l) then Some (Pg NumericOutOfRange)
      else if ctl_Qty l \<le> 0 \<or> ctl_CBMTotal l < 0 \<or> ctl_WeightKGTotal l < 0 then Some (Pg CheckViolation)
      else if ctl_ContainerID l \<notin> set (map ctn_ID (containers db)) \<or> ctl_SKUID l \<notin> set (dref_skus rf) \<or>
              ctl_SalesOrderLineID l \<notin> set (dref_so_lines rf) \<or> ctl_AddedBy l \<notin> set (dref_users rf) then Some (Pg ForeignKeyViolation)
      else None)"

definition insertLine :: "del_refs \<Rightarrow> ContainerLine \<Rightarrow> delivery_db \<Rightarrow> delivery_db result" where
  "insertLine rf l db =
     (case (cbm_col (ctl_CBMTotal l), weight_col (ctl_WeightKGTotal l)) of
        (Inl e, _) \<Rightarrow> Inl e
      | (Inr _, Inl e) \<Rightarrow> Inl e
      | (Inr m, Inr w) \<Rightarrow>
          (case insert_checked (check_cline rf db) ctl_ID (l\<lparr>ctl_CBMTotal := m, ctl_WeightKGTotal := w\<rparr>) (container_lines db) of
             Inl e \<Rightarrow> Inl e
           | Inr t \<Rightarrow> Inr (db\<lparr>container_lines := t\<rparr>)))"

text \<open>A line that a piece of the pool or an entry of the overload log refers to cannot be deleted.\<close>

definition line_used :: "del_refs \<Rightarrow> delivery_db \<Rightarrow> uuid \<Rightarrow> bool" where
  "line_used rf db i \<longleftrightarrow> i \<in> set (dref_used_lines rf) \<or> i \<in> set (map ol_LineID (container_overload_log db))"

definition deleteLine :: "del_refs \<Rightarrow> uuid \<Rightarrow> delivery_db \<Rightarrow> delivery_db result" where
  "deleteLine rf i db =
     (if cline_row i db = None then Inl (Biz ErrNotFound)
      else if line_used rf db i then Inl (Pg ForeignKeyViolation)
      else Inr (db\<lparr>container_lines := delete_where (\<lambda>l. ctl_ID l = i) (container_lines db)\<rparr>))"

definition updateLineQty :: "uuid \<Rightarrow> int \<Rightarrow> rat \<Rightarrow> rat \<Rightarrow> delivery_db \<Rightarrow> delivery_db result" where
  "updateLineQty i q cbm weight db =
     (case (cbm_col cbm, weight_col weight) of
        (Inl e, _) \<Rightarrow> Inl e
      | (Inr _, Inl e) \<Rightarrow> Inl e
      | (Inr m, Inr w) \<Rightarrow>
          if \<not> in_int4 q then Inl (Pg NumericOutOfRange)
          else if cline_row i db = None then Inl (Biz ErrNotFound)
          else if q \<le> 0 then Inl (Biz ErrInvalidInput)
          else if m < 0 \<or> w < 0 then Inl (Pg CheckViolation)
          else Inr (db\<lparr>container_lines := update_where (\<lambda>l. ctl_ID l = i) (\<lambda>l. l\<lparr>ctl_Qty := q, ctl_CBMTotal := m, ctl_WeightKGTotal := w\<rparr>) (container_lines db)\<rparr>))"

record updateStatusInput =
  us_ContainerID :: uuid
  us_FromStatus :: ContainerStatus
  us_ToStatus :: ContainerStatus
  us_ActorID :: uuid
  us_Note :: string
  us_Now :: time

definition set_container_status :: "updateStatusInput \<Rightarrow> Container \<Rightarrow> Container" where
  "set_container_status inp c =
     (case us_ToStatus inp of
        ContainerStatusSealed \<Rightarrow> c\<lparr>ctn_Status := ContainerStatusSealed, ctn_SealedAt := Some (us_Now inp), ctn_SealedBy := Some (us_ActorID inp)\<rparr>
      | ContainerStatusLoading \<Rightarrow> c\<lparr>ctn_Status := ContainerStatusLoading, ctn_SealedAt := None, ctn_SealedBy := None\<rparr>
      | st \<Rightarrow> c\<lparr>ctn_Status := st\<rparr>)"

text \<open>The identifier of the log entry is drawn inside, as \<open>logID\<close>.\<close>

definition updateContainerStatus :: "del_refs \<Rightarrow> uuid \<Rightarrow> updateStatusInput \<Rightarrow> delivery_db \<Rightarrow> (Container \<times> delivery_db) result" where
  "updateContainerStatus rf logID inp db =
     (if us_ToStatus inp = ContainerStatusSealed \<and> container_row (us_ContainerID inp) db \<noteq> None \<and> us_ActorID inp \<notin> set (dref_users rf)
      then Inl (Pg ForeignKeyViolation)
      else let t = update_where (\<lambda>c. ctn_ID c = us_ContainerID inp) (set_container_status inp) (containers db);
               e = \<lparr>sle_ID = logID, sle_ContainerID = us_ContainerID inp, sle_FromStatus = us_FromStatus inp, sle_ToStatus = us_ToStatus inp,
                    sle_ActorID = us_ActorID inp, sle_Note = us_Note inp, sle_CreatedAt = us_Now inp\<rparr>
           in (case insert_checked (\<lambda>e. if sle_ContainerID e \<notin> set (map ctn_ID t) \<or> sle_ActorID e \<notin> set (dref_users rf) then Some (Pg ForeignKeyViolation) else None)
                      sle_ID e (container_status_log db) of
                 Inl e \<Rightarrow> Inl e
               | Inr lg \<Rightarrow>
                   (case row_by ctn_ID (us_ContainerID inp) t of
                      None \<Rightarrow> Inl (Biz ErrNotFound)
                    | Some c \<Rightarrow> Inr (scanContainer c, db\<lparr>containers := t, container_status_log := lg\<rparr>))))"

definition insertTransferAudit :: "del_refs \<Rightarrow> ContainerTransferAudit \<Rightarrow> delivery_db \<Rightarrow> delivery_db result" where
  "insertTransferAudit rf a db =
     (case insert_checked (\<lambda>a. if \<not> in_int4 (ta_QtyTransferred a) then Some (Pg NumericOutOfRange)
                              else if ta_QtyTransferred a \<le> 0 then Some (Pg CheckViolation)
                              else if ta_SourceContainerID a \<notin> set (map ctn_ID (containers db)) \<or> ta_TargetContainerID a \<notin> set (map ctn_ID (containers db)) \<or>
                                      ta_SKUID a \<notin> set (dref_skus rf) then Some (Pg ForeignKeyViolation) else None)
             ta_ID a (container_transfer_audit db) of
        Inl e \<Rightarrow> Inl e
      | Inr t \<Rightarrow> Inr (db\<lparr>container_transfer_audit := t\<rparr>))"

definition insertOverloadLog :: "del_refs \<Rightarrow> ContainerOverloadLog \<Rightarrow> delivery_db \<Rightarrow> delivery_db result" where
  "insertOverloadLog rf l db =
     (case (numeric_col 10 4 (ol_ProjectedCBM l), numeric_col 10 4 (ol_MaxCBM l), numeric_col 12 3 (ol_ProjectedKG l), numeric_col 12 3 (ol_MaxKG l)) of
        (Inr pc, Inr mc, Inr pk, Inr mk) \<Rightarrow>
          (case insert_checked (\<lambda>l. if ol_ContainerID l \<notin> set (map ctn_ID (containers db)) \<or> ol_LineID l \<notin> set (map ctl_ID (container_lines db)) \<or>
                                      ol_ActorID l \<notin> set (dref_users rf) then Some (Pg ForeignKeyViolation) else None)
                  ol_ID (l\<lparr>ol_ProjectedCBM := pc, ol_MaxCBM := mc, ol_ProjectedKG := pk, ol_MaxKG := mk\<rparr>) (container_overload_log db) of
             Inl e \<Rightarrow> Inl e
           | Inr t \<Rightarrow> Inr (db\<lparr>container_overload_log := t\<rparr>))
      | _ \<Rightarrow> Inl (Pg NumericOutOfRange))"

definition hasApprovedLoadingPlan :: "uuid \<Rightarrow> delivery_db \<Rightarrow> bool" where
  "hasApprovedLoadingPlan c db \<longleftrightarrow> list_ex (\<lambda>p. lpn_ContainerID p = c \<and> lpn_Status p = LoadingPlanStatusApproved) (loading_plans db)"

end
