(* ===== verification/Delivery_Plans.thy ===== *)
theory Delivery_Plans
  imports Delivery_Store
begin

text \<open>
  Loading plans of the delivery module: their statements in \<^verbatim>\<open>pgstore.go\<close>, and the parser of the uploaded
  workbook, \<^verbatim>\<open>excel_parser_v1.go\<close>, from the point where the spreadsheet library has returned the rows of the
  first sheet. The workbook, its hash and \<^verbatim>\<open>strconv.ParseFloat\<close> of a cell are arguments.
\<close>

section \<open>Statements\<close>

fun mapLoadingPlanPgError :: "error \<Rightarrow> error" where
  "mapLoadingPlanPgError (Pg UniqueViolation) = Biz ErrInvalidInput"
| "mapLoadingPlanPgError (Pg ForeignKeyViolation) = Biz ErrInvalidInput"
| "mapLoadingPlanPgError e = e"

definition lplan_active :: "LoadingPlan \<Rightarrow> bool" where
  "lplan_active p \<longleftrightarrow> lpn_Status p \<noteq> LoadingPlanStatusSuperseded"

definition check_lplan :: "del_refs \<Rightarrow> delivery_db \<Rightarrow> LoadingPlan \<Rightarrow> error option" where
  "check_lplan rf db p =
     (if \<not> in_int4 (lpn_Version p) then Some (Pg NumericOutOfRange)
      else if lpn_Version p \<le> 0 then Some (Pg CheckViolation)
      else if lplan_active p \<and> list_ex (\<lambda>q. lplan_active q \<and> lpn_ContainerID q = lpn_ContainerID p \<and> lpn_ExcelHash q = lpn_ExcelHash p) (loading_plans db)
        then Some (Pg UniqueViolation)
      else if lpn_ContainerID p \<notin> set (map ctn_ID (containers db)) \<or> lpn_UploadedBy p \<notin> set (dref_users rf) then Some (Pg ForeignKeyViolation)
      else None)"

text \<open>The quantity of the workbook is kept in a column of eighteen digits, four of them decimals.\<close>

definition check_lplan_line :: "del_refs \<Rightarrow> LoadingPlan list \<Rightarrow> LoadingPlanLine \<Rightarrow> error option" where
  "check_lplan_line rf ps l =
     (if \<not> in_int4 (lpl_QtyPlannedPieces l) \<or> \<not> in_int4 (lpl_ExcelRowNum l) then Some (Pg NumericOutOfRange)
      else if lpl_QtyPlannedPieces l \<le> 0 \<or> lpl_QtyInExcel l \<le> 0 \<or> lpl_ExcelRowNum l \<le> 0 then Some (Pg CheckViolation)
      else if lpl_LoadingPlanID l \<notin> set (map lpn_ID ps) \<or> lpl_SKUID l \<notin> set (dref_skus rf) then Some (Pg ForeignKeyViolation)
      else None)"

fun insert_lplan_lines :: "del_refs \<Rightarrow> LoadingPlan list \<Rightarrow> LoadingPlanLine list \<Rightarrow> LoadingPlanLine list \<Rightarrow> LoadingPlanLine list result" where
  "insert_lplan_lines rf ps [] t = Inr t"
| "insert_lplan_lines rf ps (l # ls) t =
     (case numeric_col 18 4 (lpl_QtyInExcel l) of
        Inl e \<Rightarrow> Inl e
      | Inr q \<Rightarrow>
          (case insert_checked (check_lplan_line rf ps) lpl_ID (l\<lparr>lpl_QtyInExcel := q\<rparr>) t of
             Inl e \<Rightarrow> Inl e
           | Inr t1 \<Rightarrow> insert_lplan_lines rf ps ls t1))"

definition insertLoadingPlanWithLines :: "del_refs \<Rightarrow> LoadingPlan \<Rightarrow> LoadingPlanLine list \<Rightarrow> (delivery_db, unit) op" where
  "insertLoadingPlanWithLines rf p ls db =
     (case insert_checked (check_lplan rf db) lpn_ID p (loading_plans db) of
        Inl e \<Rightarrow> (Inl (mapLoadingPlanPgError e), db)
      | Inr ps \<Rightarrow>
          (case insert_lplan_lines rf ps ls (loading_plan_lines db) of
             Inl e \<Rightarrow> (Inl (mapLoadingPlanPgError e), db)
           | Inr t \<Rightarrow> (Inr (), db\<lparr>loading_plans := ps, loading_plan_lines := t\<rparr>)))"

definition selectLoadingPlanByID :: "uuid \<Rightarrow> delivery_db \<Rightarrow> LoadingPlan result" where
  "selectLoadingPlanByID i db = (case lplan_row i db of None \<Rightarrow> Inl (Biz ErrNotFound) | Some p \<Rightarrow> Inr p)"

definition selectLoadingPlanLines :: "uuid \<Rightarrow> delivery_db \<Rightarrow> LoadingPlanLine list result" where
  "selectLoadingPlanLines i db =
     Inr (map (\<lambda>l. l\<lparr>lpl_QtyInExcel := fl (lpl_QtyInExcel l)\<rparr>) (sort_key lpl_ExcelRowNum (select_where (\<lambda>l. lpl_LoadingPlanID l = i) (loading_plan_lines db))))"

text \<open>The newest version first; plans of one version come in table order.\<close>

definition active_lplans :: "uuid \<Rightarrow> delivery_db \<Rightarrow> LoadingPlan list" where
  "active_lplans c db = sort_key (\<lambda>p. - lpn_Version p) (select_where (\<lambda>p. lpn_ContainerID p = c \<and> lplan_active p) (loading_plans db))"

definition selectActiveLoadingPlan :: "uuid \<Rightarrow> delivery_db \<Rightarrow> LoadingPlan result" where
  "selectActiveLoadingPlan c db = (case active_lplans c db of [] \<Rightarrow> Inl (Biz ErrNotFound) | p # _ \<Rightarrow> Inr p)"

definition nextLoadingPlanVersion :: "uuid \<Rightarrow> delivery_db \<Rightarrow> int result" where
  "nextLoadingPlanVersion c db =
     (let v = foldr max (map lpn_Version (select_where (\<lambda>p. lpn_ContainerID p = c) (loading_plans db))) 0 + 1
      in if in_int4 v then Inr v else Inl (Pg NumericOutOfRange))"

text \<open>
  The two last statements of both approvals: supersede the other plans of the container, then approve the
  named plan while it is parsed or validated.
\<close>

definition supersede_others :: "uuid \<Rightarrow> uuid \<Rightarrow> time \<Rightarrow> LoadingPlan list \<Rightarrow> LoadingPlan list" where
  "supersede_others c i t ps = update_where (\<lambda>p. lpn_ContainerID p = c \<and> lpn_ID p \<noteq> i \<and> lplan_active p)
     (\<lambda>p. p\<lparr>lpn_Status := LoadingPlanStatusSuperseded, lpn_SupersededAt := Some t, lpn_SupersededBy := Some i\<rparr>) ps"

definition promote :: "del_refs \<Rightarrow> LoadingPlan \<Rightarrow> uuid \<Rightarrow> time \<Rightarrow> delivery_db \<Rightarrow> (LoadingPlan \<times> delivery_db) result" where
  "promote rf p actor t db =
     (let ps = supersede_others (lpn_ContainerID p) (lpn_ID p) t (loading_plans db);
          hit = (\<lambda>q. lpn_ID q = lpn_ID p \<and> lpn_Status q \<in> {LoadingPlanStatusParsed, LoadingPlanStatusValidated})
      in if count_where hit ps = 0 then Inl (Biz ErrInvalidTransition)
         else if actor \<notin> set (dref_users rf) then Inl (Pg ForeignKeyViolation)
         else let ps1 = update_where hit (\<lambda>q. q\<lparr>lpn_Status := LoadingPlanStatusApproved, lpn_ApprovedAt := Some t, lpn_ApprovedBy := Some actor\<rparr>) ps
              in (case row_by lpn_ID (lpn_ID p) ps1 of
                    None \<Rightarrow> Inl (Biz ErrInvalidTransition)
                  | Some q \<Rightarrow> Inr (q, db\<lparr>loading_plans := ps1\<rparr>)))"

definition approveLoadingPlanTx :: "del_refs \<Rightarrow> uuid \<Rightarrow> uuid \<Rightarrow> time \<Rightarrow> (delivery_db, LoadingPlan) op" where
  "approveLoadingPlanTx rf i actor t db =
     (case lplan_row i db of
        None \<Rightarrow> (Inl (Biz ErrNotFound), db)
      | Some p \<Rightarrow>
          if lpn_Status p = LoadingPlanStatusApproved then (Inr p, db)
          else if lpn_Status p = LoadingPlanStatusSuperseded then (Inl (Biz ErrInvalidTransition), db)
          else (case promote rf p actor t db of Inl e \<Rightarrow> (Inl e, db) | Inr (q, db1) \<Rightarrow> (Inr q, db1)))"

definition history_of :: "env \<Rightarrow> uuid \<Rightarrow> uuid \<Rightarrow> time \<Rightarrow> ContainerLine list \<Rightarrow> ContainerLineHistoryEntry list" where
  "history_of env plan actor t ls =
     map (\<lambda>(k, l). \<lparr>clh_ID = fresh env k, clh_OriginalLineID = ctl_ID l, clh_ContainerID = ctl_ContainerID l, clh_SKUID = ctl_SKUID l,
            clh_SupersededAt = t, clh_SupersededByPlan = plan, clh_SupersededByUser = actor, clh_Reason = ''PLAN_V2_SUPERSEDE''\<rparr>)
       (List.enumerate 0 ls)"

definition supersedeLoadingPlanTx :: "del_refs \<Rightarrow> env \<Rightarrow> uuid \<Rightarrow> uuid \<Rightarrow> time \<Rightarrow> (delivery_db, LoadingPlan \<times> int) op" where
  "supersedeLoadingPlanTx rf env i actor t db =
     (case lplan_row i db of
        None \<Rightarrow> (Inl (Biz ErrNotFound), db)
      | Some p \<Rightarrow>
          if lpn_Status p = LoadingPlanStatusSuperseded then (Inl (Biz ErrInvalidTransition), db)
          else if lpn_Status p = LoadingPlanStatusApproved then (Inr (p, 0), db)
          else let snaps = lines_in (lpn_ContainerID p) db in
            if snaps \<noteq> [] \<and> actor \<notin> set (dref_users rf) then (Inl (Pg ForeignKeyViolation), db)
            else (case insert_batch (\<lambda>_. None) clh_ID (history_of env i actor t snaps) (container_lines_history db) of
                    Inl e \<Rightarrow> (Inl e, db)
                  | Inr hist \<Rightarrow>
                      if list_ex (\<lambda>l. line_used rf db (ctl_ID l)) snaps then (Inl (Pg ForeignKeyViolation), db)
                      else let db1 = db\<lparr>container_lines_history := hist,
                                        container_lines := delete_where (\<lambda>l. ctl_ContainerID l = lpn_ContainerID p) (container_lines db)\<rparr>
                           in (case promote rf p actor t db1 of Inl e \<Rightarrow> (Inl e, db) | Inr (q, db2) \<Rightarrow> (Inr (q, int (length snaps)), db2))))"

definition countContainerLines :: "uuid \<Rightarrow> delivery_db \<Rightarrow> int" where
  "countContainerLines c db = int (length (lines_in c db))"

record ShortageItem =
  sh_SKUID :: uuid
  sh_Planned :: int
  sh_Actual :: int
  sh_MissingQty :: int

definition planned_qty :: "uuid \<Rightarrow> uuid \<Rightarrow> delivery_db \<Rightarrow> int" where
  "planned_qty i sku db = sum_where lpl_QtyPlannedPieces (\<lambda>l. lpl_LoadingPlanID l = i \<and> lpl_SKUID l = sku) (loading_plan_lines db)"

definition loaded_qty :: "uuid \<Rightarrow> uuid \<Rightarrow> delivery_db \<Rightarrow> int" where
  "loaded_qty c sku db = sum_where ctl_Qty (\<lambda>l. ctl_ContainerID l = c \<and> ctl_SKUID l = sku) (container_lines db)"

definition selectShortagesForContainer :: "uuid \<Rightarrow> delivery_db \<Rightarrow> (uuid option \<times> ShortageItem list) result" where
  "selectShortagesForContainer c db =
     (case active_lplans c db of
        [] \<Rightarrow> Inr (None, [])
      | p # _ \<Rightarrow>
          let skus = remdups (map lpl_SKUID (filter (\<lambda>l. lpl_LoadingPlanID l = lpn_ID p) (loading_plan_lines db))) in
          if list_ex (\<lambda>s. \<not> in_int4 (planned_qty (lpn_ID p) s db) \<or> \<not> in_int4 (loaded_qty c s db)) skus then Inl (Pg NumericOutOfRange)
          else Inr (Some (lpn_ID p),
                 map (\<lambda>s. \<lparr>sh_SKUID = s, sh_Planned = planned_qty (lpn_ID p) s db, sh_Actual = loaded_qty c s db,
                           sh_MissingQty = planned_qty (lpn_ID p) s db - loaded_qty c s db\<rparr>)
                   (filter (\<lambda>s. planned_qty (lpn_ID p) s db > loaded_qty c s db) skus)))"

definition selectContainerLinesHistory :: "uuid \<Rightarrow> uuid option \<Rightarrow> delivery_db \<Rightarrow> ContainerLineHistoryEntry list result" where
  "selectContainerLinesHistory c plan db =
     Inr (sort_key (\<lambda>e. - clh_SupersededAt e)
       (select_where (\<lambda>e. clh_ContainerID e = c \<and> (plan = None \<or> plan = Some (clh_SupersededByPlan e))) (container_lines_history db)))"

section \<open>The workbook\<close>

record parsedExcelRow =
  xr_RowNum :: int
  xr_CustomerSKUCode :: string
  xr_QtyInExcel :: rat
  xr_UnitInExcel :: string
  xr_Notes :: string

datatype RowProblem = MissingCode | InvalidQty | MissingUnit | UnmappedSKU

record LoadingPlanRowError =
  le_Row :: int
  le_Col :: string
  le_Code :: RowProblem

definition isBlankRow :: "string list \<Rightarrow> bool" where
  "isBlankRow row \<longleftrightarrow> list_all (\<lambda>c. TrimSpace c = []) row"

definition pad_row :: "string list \<Rightarrow> string list" where
  "pad_row row = (if length row < 3 then row @ replicate (3 - length row) [] else row)"

text \<open>One row, already padded to three cells: an error or the parsed row.\<close>

definition parse_row :: "(string \<Rightarrow> rat option) \<Rightarrow> int \<Rightarrow> string list \<Rightarrow> LoadingPlanRowError + parsedExcelRow" where
  "parse_row ParseFloat n row =
     (let code = TrimSpace (row ! 0); unit = TrimSpace (row ! 2) in
      if code = [] then Inl \<lparr>le_Row = n, le_Col = ''A'', le_Code = MissingCode\<rparr>
      else (case ParseFloat (TrimSpace (row ! 1)) of
              None \<Rightarrow> Inl \<lparr>le_Row = n, le_Col = ''B'', le_Code = InvalidQty\<rparr>
            | Some q \<Rightarrow>
                if q \<le> 0 then Inl \<lparr>le_Row = n, le_Col = ''B'', le_Code = InvalidQty\<rparr>
                else if unit = [] then Inl \<lparr>le_Row = n, le_Col = ''C'', le_Code = MissingUnit\<rparr>
                else Inr \<lparr>xr_RowNum = n, xr_CustomerSKUCode = code, xr_QtyInExcel = q, xr_UnitInExcel = unit,
                          xr_Notes = (if length row > 3 then TrimSpace (row ! 3) else [])\<rparr>))"

fun parse_rows :: "(string \<Rightarrow> rat option) \<Rightarrow> int \<Rightarrow> string list list \<Rightarrow> parsedExcelRow list \<times> LoadingPlanRowError list" where
  "parse_rows ParseFloat n [] = ([], [])"
| "parse_rows ParseFloat n (row # rows) =
     (let rest = parse_rows ParseFloat (n + 1) rows in
      if isBlankRow (pad_row row) then rest
      else (case parse_row ParseFloat n (pad_row row) of Inl e \<Rightarrow> (fst rest, e # snd rest) | Inr r \<Rightarrow> (r # fst rest, snd rest)))"

definition excelMaxRowsPerLoadingPlan :: nat where
  "excelMaxRowsPerLoadingPlan = 10000"

text \<open>\<open>None\<close> where the parser returns an error for the whole workbook; such an error becomes an invalid input.\<close>

definition parseExcelV1 :: "(string \<Rightarrow> rat option) \<Rightarrow> string list list \<Rightarrow> (parsedExcelRow list \<times> LoadingPlanRowError list) option" where
  "parseExcelV1 ParseFloat rows =
     (case rows of
        header # r # rest \<Rightarrow>
          if length header < 3 then None
          else if length (r # rest) > excelMaxRowsPerLoadingPlan then None
          else Some (parse_rows ParseFloat 2 (r # rest))
      | _ \<Rightarrow> None)"

end
