(* ===== verification/Delivery_Service.thy ===== *)
theory Delivery_Service
  imports Delivery_Plans
begin

text \<open>
  Containers and their lines, \<^verbatim>\<open>internal/module/delivery/service.go\<close>. The modules the service calls are the
  record \<open>del_deps\<close>, a field of \<open>None\<close> where the service was built without one. The recorder of shipments
  runs in the transaction of the seal and is rolled back with it; the tracker of finished goods and
  the recorder of shortages run after the commit, and their errors are only logged. They read the tables of delivery as
  the commit left them.
\<close>

section \<open>The modules it calls\<close>

record SOLineInfo =
  sli_ID :: uuid
  sli_SOID :: uuid
  sli_SOStatus :: string
  sli_SKUID :: uuid
  sli_QtyPlanned :: int
  sli_QtyShipped :: int

record FGReserveRequest =
  frr_SKUID :: uuid
  frr_SalesOrderLineID :: uuid
  frr_Qty :: int
  frr_ContainerLineID :: uuid

record 'x FGTracker =
  ReserveOnAdd :: "delivery_db \<Rightarrow> FGReserveRequest \<Rightarrow> ('x, int) op"
  ReleaseOnDelete :: "delivery_db \<Rightarrow> uuid \<Rightarrow> ('x, unit) op"
  MarkLoaded :: "delivery_db \<Rightarrow> uuid \<Rightarrow> ('x, unit) op"

record ShortShippedAutoInput =
  sas_ContainerID :: uuid
  sas_LoadingPlanID :: "uuid option"
  sas_SKUID :: uuid
  sas_MissingQty :: int
  sas_ActorID :: uuid

datatype AuditLPAction = AuditLPActionUploaded | AuditLPActionApproved | AuditLPActionSuperseded

record AuditLoadingPlanInput =
  alp_Action :: AuditLPAction
  alp_PlanID :: uuid
  alp_ContainerID :: uuid
  alp_Version :: int
  alp_ExcelHash :: string
  alp_ActorID :: uuid
  alp_Notes :: string

record PlanReloadNotice =
  prn_ContainerID :: uuid
  prn_NewPlanID :: uuid
  prn_NewVersion :: int
  prn_SupersededLines :: int
  prn_ActorID :: uuid

record 'x del_deps =
  drefs :: "'x \<Rightarrow> del_refs"
  dskuChecker :: "(uuid \<Rightarrow> 'x \<Rightarrow> unit result) option"
  soLineChecker :: "(uuid \<Rightarrow> 'x \<Rightarrow> SOLineInfo result) option"
  shipRecorder :: "(ShipmentItem list \<Rightarrow> 'x \<Rightarrow> 'x result) option"
  fgTracker :: "'x FGTracker option"
  skuResolver :: "(uuid \<Rightarrow> string \<Rightarrow> 'x \<Rightarrow> uuid result) option"
  lpAuditor :: "(AuditLoadingPlanInput \<Rightarrow> ('x, unit) op) option"
  planReloader :: "(PlanReloadNotice \<Rightarrow> ('x, unit) op) option"
  pendingExc :: "(uuid \<Rightarrow> 'x \<Rightarrow> int result) option"
  shortShipped :: "(delivery_db \<Rightarrow> ShortShippedAutoInput \<Rightarrow> ('x, unit) op) option"
  fgCompChecker :: "(uuid \<Rightarrow> delivery_db \<Rightarrow> 'x \<Rightarrow> unit result) option"
  cbmOverheadPct :: rat

section \<open>Containers\<close>

definition DefaultCapacityForType :: "string \<Rightarrow> (rat \<times> rat) option" where
  "DefaultCapacityForType t =
     (if t = ''20GP'' then Some (fl (332 / 10), 28000)
      else if t = ''40GP'' then Some (fl (677 / 10), 26500)
      else if t = ''40HC'' then Some (fl (764 / 10), 26500)
      else None)"

record CreateContainerInput =
  cci_ContainerType :: string
  cci_MaxCBM :: rat
  cci_MaxPayloadKG :: rat
  cci_Note :: string
  cci_CreatedBy :: uuid

text \<open>The code counter is a statement of its own: a refused insert leaves the number used.\<close>

definition CreateContainer :: "'x del_deps \<Rightarrow> env \<Rightarrow> calendar_day \<Rightarrow> CreateContainerInput \<Rightarrow> 'x \<Rightarrow> (delivery_db, Container) op" where
  "CreateContainer deps env day inp x db =
     (case DefaultCapacityForType (cci_ContainerType inp) of
        None \<Rightarrow> (Inl (Biz ErrInvalidInput), db)
      | Some (cbm, payload) \<Rightarrow>
          if cci_CreatedBy inp = uuid_Nil then (Inl (Biz ErrInvalidInput), db)
          else (case nextContainerCode day db of
                  (Inl e, db1) \<Rightarrow> (Inl e, db1)
                | (Inr code, db1) \<Rightarrow>
                    let c = \<lparr>ctn_ID = fresh env 0, ctn_Code = code, ctn_ContainerType = cci_ContainerType inp,
                             ctn_MaxCBM = (if cci_MaxCBM inp \<le> 0 then cbm else cci_MaxCBM inp),
                             ctn_MaxPayloadKG = (if cci_MaxPayloadKG inp \<le> 0 then payload else cci_MaxPayloadKG inp),
                             ctn_Status = ContainerStatusOpen, ctn_SealedAt = None, ctn_SealedBy = None, ctn_Note = cci_Note inp,
                             ctn_VesselID = None, ctn_CutoffDate = None, ctn_DestinationCode = [], ctn_DestinationName = [],
                             ctn_LoaderID = None, ctn_CreatedBy = cci_CreatedBy inp, ctn_CreatedAt = now env\<rparr>
                    in (case insertContainer (drefs deps x) c db1 of (Inl e, db2) \<Rightarrow> (Inl e, db2) | (Inr _, db2) \<Rightarrow> (Inr c, db2))))"

definition roundPct :: "rat \<Rightarrow> rat" where
  "roundPct v = fl (of_int (go_int (fl (fl (v * 100) + 1 / 2))) / 100)"

definition fill_pct :: "rat \<Rightarrow> rat \<Rightarrow> rat" where
  "fill_pct used cap = fl (fl (used / cap) * 100)"

record ContainerDetail =
  cd_Container :: Container
  cd_Lines :: "ContainerLine list"
  cd_UsedCBM :: rat
  cd_UsedWeight :: rat
  cd_FillPctCBM :: rat
  cd_FillPctMass :: rat

definition float_sum :: "rat list \<Rightarrow> rat" where
  "float_sum xs = fold (\<lambda>x acc. fl (acc + x)) xs 0"

definition GetContainer :: "uuid \<Rightarrow> delivery_db \<Rightarrow> ContainerDetail result" where
  "GetContainer i db =
     (case selectContainerByID i db of
        Inl e \<Rightarrow> Inl e
      | Inr c \<Rightarrow>
          (case selectContainerLines i db of
             Inl e \<Rightarrow> Inl e
           | Inr ls \<Rightarrow>
               let cbm = float_sum (map ctl_CBMTotal ls); weight = float_sum (map ctl_WeightKGTotal ls)
               in Inr \<lparr>cd_Container = c, cd_Lines = ls, cd_UsedCBM = cbm, cd_UsedWeight = weight,
                       cd_FillPctCBM = (if ctn_MaxCBM c > 0 then roundPct (fill_pct cbm (ctn_MaxCBM c)) else 0),
                       cd_FillPctMass = (if ctn_MaxPayloadKG c > 0 then roundPct (fill_pct weight (ctn_MaxPayloadKG c)) else 0)\<rparr>))"

definition ListContainers :: "PageParams \<Rightarrow> ContainerListFilter \<Rightarrow> delivery_db \<Rightarrow> Container PagedResult result" where
  "ListContainers p f db = (case selectContainersPaged p f db of Inl e \<Rightarrow> Inl e | Inr (items, cnt) \<Rightarrow> Inr (NewPagedResult items cnt p))"

definition ListStatusLog :: "uuid \<Rightarrow> delivery_db \<Rightarrow> ContainerStatusLogEntry list result" where
  "ListStatusLog c db = (case selectContainerByID c db of Inl e \<Rightarrow> Inl e | Inr _ \<Rightarrow> selectStatusLog c db)"

section \<open>Capacity\<close>

definition overhead :: "rat \<Rightarrow> rat" where
  "overhead pct = (let o' = fl (1 + fl (pct / 100)) in if o' < 1 then 1 else o')"

definition checkCapacity :: "rat \<Rightarrow> Container \<Rightarrow> rat \<Rightarrow> rat \<Rightarrow> unit result" where
  "checkCapacity pct c cbm weight =
     (if cbm > fl (ctn_MaxCBM c * overhead pct) then Inl (Biz ErrInsufficientStock)
      else if weight > fl (ctn_MaxPayloadKG c * overhead pct) then Inl (Biz ErrInsufficientStock)
      else Inr ())"

definition projected :: "uuid \<Rightarrow> rat \<Rightarrow> rat \<Rightarrow> delivery_db \<Rightarrow> rat \<times> rat" where
  "projected c cbm weight db = (let (u, w) = sumLinesAggregates c db in (fl (u + cbm), fl (w + weight)))"

definition checkCapacityFromAggregate :: "rat \<Rightarrow> Container \<Rightarrow> rat \<Rightarrow> rat \<Rightarrow> delivery_db \<Rightarrow> unit result" where
  "checkCapacityFromAggregate pct c cbm weight db = (let (u, w) = projected (ctn_ID c) cbm weight db in checkCapacity pct c u w)"

definition isNearCapacity :: "Container \<Rightarrow> rat \<Rightarrow> rat \<Rightarrow> bool" where
  "isNearCapacity c cbm weight \<longleftrightarrow>
     (ctn_MaxCBM c > 0 \<and> cbm > fl (ctn_MaxCBM c * fl (9 / 10))) \<or>
     (ctn_MaxPayloadKG c > 0 \<and> weight > fl (ctn_MaxPayloadKG c * fl (9 / 10)))"

definition isAdminRole :: "string \<Rightarrow> bool" where
  "isAdminRole r \<longleftrightarrow> r = ''admin''"

definition isPlannerOrAbove :: "string \<Rightarrow> bool" where
  "isPlannerOrAbove r \<longleftrightarrow> r \<in> {''planner'', ''accountant'', ''admin''}"

definition reasonBlank :: "string \<Rightarrow> bool" where
  "reasonBlank s \<longleftrightarrow> list_all (\<lambda>c. c \<in> {CHR '' '', CHR 0x09, CHR 0x0A, CHR 0x0D}) s"

definition canHoldLines :: "ContainerStatus \<Rightarrow> bool" where
  "canHoldLines s \<longleftrightarrow> s = ContainerStatusOpen \<or> s = ContainerStatusLoading"

definition orderUUIDs :: "uuid \<Rightarrow> uuid \<Rightarrow> uuid \<times> uuid" where
  "orderUUIDs a b = (if a < b then (a, b) else (b, a))"

definition status_change :: "Container \<Rightarrow> ContainerStatus \<Rightarrow> uuid \<Rightarrow> string \<Rightarrow> time \<Rightarrow> updateStatusInput" where
  "status_change c st actor note t =
     \<lparr>us_ContainerID = ctn_ID c, us_FromStatus = ctn_Status c, us_ToStatus = st, us_ActorID = actor, us_Note = note, us_Now = t\<rparr>"

definition flipToLoadingIfOpen :: "del_refs \<Rightarrow> uuid \<Rightarrow> Container \<Rightarrow> uuid \<Rightarrow> string \<Rightarrow> time \<Rightarrow> delivery_db \<Rightarrow> delivery_db result" where
  "flipToLoadingIfOpen rf logID c actor note t db =
     (if ctn_Status c \<noteq> ContainerStatusOpen then Inr db
      else map_sum id snd (updateContainerStatus rf logID (status_change c ContainerStatusLoading actor note t) db))"

section \<open>Adding a line\<close>

record AddLineInput =
  ali_ContainerID :: uuid
  ali_SKUID :: uuid
  ali_Qty :: int
  ali_SalesOrderLineID :: uuid
  ali_CBMTotal :: rat
  ali_WeightKGTotal :: rat
  ali_AddedBy :: uuid
  ali_AllowOverload :: bool
  ali_ActorRole :: string

definition check_add_input :: "AddLineInput \<Rightarrow> unit result" where
  "check_add_input inp =
     (if ali_Qty inp \<le> 0 then Inl (Biz ErrInvalidInput)
      else if ali_SKUID inp = uuid_Nil \<or> ali_SalesOrderLineID inp = uuid_Nil then Inl (Biz ErrInvalidInput)
      else if ali_CBMTotal inp < 0 \<or> ali_WeightKGTotal inp < 0 then Inl (Biz ErrInvalidInput)
      else if ali_AddedBy inp = uuid_Nil then Inl (Biz ErrInvalidInput)
      else if ali_AllowOverload inp \<and> \<not> isAdminRole (ali_ActorRole inp) then Inl (Biz ErrPreconditionFailed)
      else Inr ())"

definition loadable_status :: "string \<Rightarrow> bool" where
  "loadable_status s \<longleftrightarrow> s \<in> {''CONFIRMED'', ''IN_PRODUCTION'', ''PARTIALLY_SHIPPED''}"

definition check_so_line :: "'x del_deps \<Rightarrow> AddLineInput \<Rightarrow> 'x \<Rightarrow> unit result" where
  "check_so_line deps inp x =
     (case soLineChecker deps of
        None \<Rightarrow> Inr ()
      | Some get \<Rightarrow>
          (case get (ali_SalesOrderLineID inp) x of
             Inl e \<Rightarrow> Inl e
           | Inr sol \<Rightarrow>
               if sli_SKUID sol \<noteq> ali_SKUID inp then Inl (Biz ErrInvalidInput)
               else if \<not> loadable_status (sli_SOStatus sol) then Inl (Biz ErrInvalidTransition)
               else if i64 (sli_QtyShipped sol + ali_Qty inp) > sli_QtyPlanned sol then Inl (Biz ErrInvalidInput)
               else Inr ()))"

definition check_add :: "'x del_deps \<Rightarrow> AddLineInput \<Rightarrow> 'x \<Rightarrow> unit result" where
  "check_add deps inp x =
     (case check_add_input inp of
        Inl e \<Rightarrow> Inl e
      | Inr _ \<Rightarrow>
          (case (case dskuChecker deps of None \<Rightarrow> Inr () | Some get \<Rightarrow> get (ali_SKUID inp) x) of
             Inl e \<Rightarrow> Inl e
           | Inr _ \<Rightarrow> check_so_line deps inp x))"

definition new_line :: "env \<Rightarrow> AddLineInput \<Rightarrow> ContainerLine" where
  "new_line env inp =
     \<lparr>ctl_ID = fresh env 0, ctl_ContainerID = ali_ContainerID inp, ctl_SKUID = ali_SKUID inp, ctl_Qty = ali_Qty inp,
      ctl_SalesOrderLineID = ali_SalesOrderLineID inp, ctl_CBMTotal = ali_CBMTotal inp, ctl_WeightKGTotal = ali_WeightKGTotal inp,
      ctl_AddedBy = ali_AddedBy inp, ctl_AddedAt = now env\<rparr>"

definition log_overload :: "del_refs \<Rightarrow> env \<Rightarrow> AddLineInput \<Rightarrow> Container \<Rightarrow> rat \<times> rat \<Rightarrow> bool \<Rightarrow> delivery_db \<Rightarrow> delivery_db result" where
  "log_overload rf env inp c proj over db =
     (if \<not> over then Inr db
      else insertOverloadLog rf \<lparr>ol_ID = fresh env 1, ol_ContainerID = ctn_ID c, ol_LineID = fresh env 0, ol_ProjectedCBM = fst proj,
             ol_MaxCBM = ctn_MaxCBM c, ol_ProjectedKG = snd proj, ol_MaxKG = ctn_MaxPayloadKG c, ol_ActorID = ali_AddedBy inp,
             ol_Reason = ''admin override''\<rparr> db)"

text \<open>The transaction: the line, the note of an overload, the first change of status.\<close>

definition add_line_tx :: "rat \<Rightarrow> del_refs \<Rightarrow> env \<Rightarrow> AddLineInput \<Rightarrow> delivery_db \<Rightarrow> (bool \<times> delivery_db) result" where
  "add_line_tx pct rf env inp db =
     (case lockContainerForUpdate (ali_ContainerID inp) db of
        Inl e \<Rightarrow> Inl e
      | Inr c \<Rightarrow>
          if \<not> canHoldLines (ctn_Status c) then Inl (Biz ErrInvalidTransition)
          else let proj = projected (ali_ContainerID inp) (ali_CBMTotal inp) (ali_WeightKGTotal inp) db;
                   over = isl (checkCapacity pct c (fst proj) (snd proj)) in
            if over \<and> \<not> ali_AllowOverload inp then Inl (Biz ErrInsufficientStock)
            else (case insertLine rf (new_line env inp) db of
                    Inl e \<Rightarrow> Inl e
                  | Inr db1 \<Rightarrow>
                      (case log_overload rf env inp c proj over db1 of
                         Inl e \<Rightarrow> Inl e
                       | Inr db2 \<Rightarrow>
                           (case flipToLoadingIfOpen rf (fresh env (if over then 2 else 1)) c (ali_AddedBy inp) ''first line added'' (now env) db2 of
                              Inl e \<Rightarrow> Inl e
                            | Inr db3 \<Rightarrow> Inr (isNearCapacity c (fst proj) (snd proj), db3)))))"

definition track :: "'x del_deps \<Rightarrow> ('x FGTracker \<Rightarrow> 'x \<Rightarrow> 'x) \<Rightarrow> 'x \<Rightarrow> 'x" where
  "track deps f x = (case fgTracker deps of None \<Rightarrow> x | Some t \<Rightarrow> f t x)"

definition reserve_request :: "ContainerLine \<Rightarrow> FGReserveRequest" where
  "reserve_request l =
     \<lparr>frr_SKUID = ctl_SKUID l, frr_SalesOrderLineID = ctl_SalesOrderLineID l, frr_Qty = ctl_Qty l, frr_ContainerLineID = ctl_ID l\<rparr>"

definition AddLine :: "'x del_deps \<Rightarrow> env \<Rightarrow> AddLineInput \<Rightarrow> (delivery_db \<times> 'x, ContainerLine \<times> bool) op" where
  "AddLine deps env inp st =
     (let (db, x) = st in
      case check_add deps inp x of
        Inl e \<Rightarrow> (Inl e, st)
      | Inr _ \<Rightarrow>
          (case add_line_tx (cbmOverheadPct deps) (drefs deps x) env inp db of
             Inl e \<Rightarrow> (Inl e, st)
           | Inr (near, db1) \<Rightarrow>
               (Inr (new_line env inp, near),
                (db1, track deps (\<lambda>t x. snd (ReserveOnAdd t db1 (reserve_request (new_line env inp)) x)) x))))"

section \<open>Removing and moving a line\<close>

definition delete_line_tx :: "del_refs \<Rightarrow> uuid \<Rightarrow> uuid \<Rightarrow> delivery_db \<Rightarrow> delivery_db result" where
  "delete_line_tx rf containerID lineID db =
     (case lockContainerForUpdate containerID db of
        Inl e \<Rightarrow> Inl e
      | Inr c \<Rightarrow>
          if \<not> canHoldLines (ctn_Status c) then Inl (Biz ErrInvalidTransition)
          else (case lockLineForUpdate lineID db of
                  Inl e \<Rightarrow> Inl e
                | Inr l \<Rightarrow> if ctl_ContainerID l \<noteq> containerID then Inl (Biz ErrInvalidInput) else deleteLine rf lineID db))"

definition DeleteLine :: "'x del_deps \<Rightarrow> uuid \<Rightarrow> uuid \<Rightarrow> (delivery_db \<times> 'x, unit) op" where
  "DeleteLine deps containerID lineID st =
     (let (db, x) = st in
      case delete_line_tx (drefs deps x) containerID lineID db of
        Inl e \<Rightarrow> (Inl e, st)
      | Inr db1 \<Rightarrow> (Inr (), (db1, track deps (\<lambda>t x. snd (ReleaseOnDelete t db1 lineID x)) x)))"

record TransferLineInput =
  tl_ContainerID :: uuid
  tl_LineID :: uuid
  tl_TargetContainerID :: uuid
  tl_Qty :: int
  tl_CBMTotal :: rat
  tl_WeightKGTotal :: rat
  tl_Reason :: string
  tl_ActorID :: uuid
  tl_ActorRole :: string

definition moved_line :: "env \<Rightarrow> TransferLineInput \<Rightarrow> Container \<Rightarrow> ContainerLine \<Rightarrow> int \<Rightarrow> rat \<Rightarrow> rat \<Rightarrow> ContainerLine" where
  "moved_line env inp target l q cbm weight =
     \<lparr>ctl_ID = fresh env 0, ctl_ContainerID = ctn_ID target, ctl_SKUID = ctl_SKUID l, ctl_Qty = q, ctl_SalesOrderLineID = ctl_SalesOrderLineID l,
      ctl_CBMTotal = cbm, ctl_WeightKGTotal = weight, ctl_AddedBy = tl_ActorID inp, ctl_AddedAt = now env\<rparr>"

definition transfer_audit :: "env \<Rightarrow> TransferLineInput \<Rightarrow> Container \<Rightarrow> Container \<Rightarrow> bool \<Rightarrow> ContainerLine \<Rightarrow> int \<Rightarrow> ContainerTransferAudit" where
  "transfer_audit env inp src target crossPlan l q =
     \<lparr>ta_ID = fresh env (if ctn_Status target = ContainerStatusOpen then 2 else 1), ta_SourceContainerID = ctn_ID src,
      ta_TargetContainerID = ctn_ID target, ta_LineID = ctl_ID l, ta_SKUID = ctl_SKUID l, ta_QtyTransferred = q, ta_Reason = tl_Reason inp,
      ta_IsCrossPlan = crossPlan, ta_ActorID = tl_ActorID inp, ta_ActorRole = tl_ActorRole inp, ta_CreatedAt = now env\<rparr>"

record TransferLineResult =
  tr_SourceLine :: "ContainerLine option"
  tr_TargetLine :: ContainerLine
  tr_Audit :: ContainerTransferAudit

text \<open>The last two statements of either branch.\<close>

definition finish_transfer ::
  "del_refs \<Rightarrow> env \<Rightarrow> TransferLineInput \<Rightarrow> Container \<Rightarrow> ContainerTransferAudit \<Rightarrow> delivery_db \<Rightarrow> delivery_db result" where
  "finish_transfer rf env inp target au db =
     (case flipToLoadingIfOpen rf (fresh env 1) target (tl_ActorID inp) ''first line added via transfer'' (now env) db of
        Inl e \<Rightarrow> Inl e
      | Inr db1 \<Rightarrow> insertTransferAudit rf au db1)"

definition move_whole ::
  "rat \<Rightarrow> del_refs \<Rightarrow> env \<Rightarrow> TransferLineInput \<Rightarrow> Container \<Rightarrow> Container \<Rightarrow> bool \<Rightarrow> ContainerLine \<Rightarrow> delivery_db \<Rightarrow> (TransferLineResult \<times> delivery_db) result" where
  "move_whole pct rf env inp src target crossPlan l db =
     (let nl = moved_line env inp target l (ctl_Qty l) (ctl_CBMTotal l) (ctl_WeightKGTotal l);
          au = transfer_audit env inp src target crossPlan l (ctl_Qty l) in
      case checkCapacityFromAggregate pct target (ctl_CBMTotal l) (ctl_WeightKGTotal l) db of
        Inl e \<Rightarrow> Inl e
      | Inr _ \<Rightarrow>
          (case insertLine rf nl db of
             Inl e \<Rightarrow> Inl e
           | Inr db1 \<Rightarrow>
               (case deleteLine rf (ctl_ID l) db1 of
                  Inl e \<Rightarrow> Inl e
                | Inr db2 \<Rightarrow>
                    (case finish_transfer rf env inp target au db2 of
                       Inl e \<Rightarrow> Inl e
                     | Inr db3 \<Rightarrow> Inr (\<lparr>tr_SourceLine = None, tr_TargetLine = nl, tr_Audit = au\<rparr>, db3)))))"

definition move_part ::
  "rat \<Rightarrow> del_refs \<Rightarrow> env \<Rightarrow> TransferLineInput \<Rightarrow> Container \<Rightarrow> Container \<Rightarrow> bool \<Rightarrow> ContainerLine \<Rightarrow> delivery_db \<Rightarrow> (TransferLineResult \<times> delivery_db) result" where
  "move_part pct rf env inp src target crossPlan l db =
     (let q = tl_Qty inp; cbm = tl_CBMTotal inp; weight = tl_WeightKGTotal inp;
          nl = moved_line env inp target l q cbm weight; au = transfer_audit env inp src target crossPlan l q;
          rest = l\<lparr>ctl_Qty := ctl_Qty l - q, ctl_CBMTotal := fl (ctl_CBMTotal l - cbm), ctl_WeightKGTotal := fl (ctl_WeightKGTotal l - weight)\<rparr> in
      if q > ctl_Qty l then Inl (Biz ErrInvalidInput)
      else if cbm \<le> 0 \<or> weight \<le> 0 then Inl (Biz ErrInvalidInput)
      else if cbm > ctl_CBMTotal l \<or> weight > ctl_WeightKGTotal l then Inl (Biz ErrInvalidInput)
      else (case checkCapacityFromAggregate pct target cbm weight db of
              Inl e \<Rightarrow> Inl e
            | Inr _ \<Rightarrow>
                (case updateLineQty (ctl_ID l) (ctl_Qty rest) (ctl_CBMTotal rest) (ctl_WeightKGTotal rest) db of
                   Inl e \<Rightarrow> Inl e
                 | Inr db1 \<Rightarrow>
                     (case insertLine rf nl db1 of
                        Inl e \<Rightarrow> Inl e
                      | Inr db2 \<Rightarrow>
                          (case finish_transfer rf env inp target au db2 of
                             Inl e \<Rightarrow> Inl e
                           | Inr db3 \<Rightarrow> Inr (\<lparr>tr_SourceLine = Some rest, tr_TargetLine = nl, tr_Audit = au\<rparr>, db3))))))"

text \<open>Both containers, locked in the order of their identifiers, as source and target.\<close>

definition lock_pair :: "uuid \<Rightarrow> uuid \<Rightarrow> delivery_db \<Rightarrow> (Container \<times> Container) result" where
  "lock_pair src target db =
     (case lockContainerForUpdate (fst (orderUUIDs src target)) db of
        Inl e \<Rightarrow> Inl e
      | Inr a \<Rightarrow>
          (case lockContainerForUpdate (snd (orderUUIDs src target)) db of
             Inl e \<Rightarrow> Inl e
           | Inr b \<Rightarrow> Inr (if ctn_ID a = src then (a, b) else (b, a))))"

definition transfer_tx :: "rat \<Rightarrow> del_refs \<Rightarrow> env \<Rightarrow> TransferLineInput \<Rightarrow> delivery_db \<Rightarrow> (TransferLineResult \<times> delivery_db) result" where
  "transfer_tx pct rf env inp db =
     (case lock_pair (tl_ContainerID inp) (tl_TargetContainerID inp) db of
        Inl e \<Rightarrow> Inl e
      | Inr (src, target) \<Rightarrow>
          if \<not> canHoldLines (ctn_Status src) \<or> \<not> canHoldLines (ctn_Status target) then Inl (Biz ErrInvalidTransition)
          else let crossPlan = hasApprovedLoadingPlan (ctn_ID src) db in
            if crossPlan \<and> \<not> isPlannerOrAbove (tl_ActorRole inp) then Inl (Biz ErrPreconditionFailed)
            else (case lockLineForUpdate (tl_LineID inp) db of
                    Inl e \<Rightarrow> Inl e
                  | Inr l \<Rightarrow>
                      if ctl_ContainerID l \<noteq> ctn_ID src then Inl (Biz ErrInvalidInput)
                      else if tl_Qty inp = 0 \<or> tl_Qty inp = ctl_Qty l then move_whole pct rf env inp src target crossPlan l db
                      else move_part pct rf env inp src target crossPlan l db))"

definition TransferLine :: "'x del_deps \<Rightarrow> env \<Rightarrow> TransferLineInput \<Rightarrow> (delivery_db \<times> 'x, TransferLineResult) op" where
  "TransferLine deps env inp st =
     (let (db, x) = st in
      if tl_LineID inp = uuid_Nil \<or> tl_TargetContainerID inp = uuid_Nil then (Inl (Biz ErrInvalidInput), st)
      else if tl_ContainerID inp = tl_TargetContainerID inp then (Inl (Biz ErrInvalidInput), st)
      else if tl_Qty inp < 0 then (Inl (Biz ErrInvalidInput), st)
      else if reasonBlank (tl_Reason inp) then (Inl (Biz ErrInvalidInput), st)
      else (case transfer_tx (cbmOverheadPct deps) (drefs deps x) env inp db of
              Inl e \<Rightarrow> (Inl e, st)
            | Inr (r, db1) \<Rightarrow> (Inr r, (db1, x))))"

end
