(* ===== verification/Delivery_Transitions.thy ===== *)
theory Delivery_Transitions
  imports Delivery_Service
begin

text \<open>
  The rest of \<^verbatim>\<open>internal/module/delivery/service.go\<close>: sealing, reopening, shipping and cancelling a container,
  its loading plans, loader and destination, and the list of containers close to their cut-off. The packing list written as a
  spreadsheet is left out.
\<close>

section \<open>Sealing\<close>

record SealInput =
  se_ContainerID :: uuid
  se_ActorID :: uuid
  se_Note :: string

definition check_seal :: "'x del_deps \<Rightarrow> SealInput \<Rightarrow> delivery_db \<Rightarrow> 'x \<Rightarrow> unit result" where
  "check_seal deps inp db x =
     (case (case pendingExc deps of None \<Rightarrow> Inr 0 | Some f \<Rightarrow> f (se_ContainerID inp) x) of
        Inl e \<Rightarrow> Inl e
      | Inr n \<Rightarrow>
          if n > 0 then Inl (Biz ErrPreconditionFailed)
          else (case fgCompChecker deps of None \<Rightarrow> Inr () | Some f \<Rightarrow> f (se_ContainerID inp) db x))"

text \<open>The transaction over the tables of delivery and of the recorder of shipments.\<close>

definition seal_tx ::
  "(ShipmentItem list \<Rightarrow> 'x \<Rightarrow> 'x result) \<Rightarrow> ('x \<Rightarrow> del_refs) \<Rightarrow> env \<Rightarrow> SealInput \<Rightarrow> delivery_db \<times> 'x \<Rightarrow> (Container \<times> delivery_db \<times> 'x) result" where
  "seal_tx ship rfs env inp st =
     (let (db, x) = st in
      case lockContainerForUpdate (se_ContainerID inp) db of
        Inl e \<Rightarrow> Inl e
      | Inr c \<Rightarrow>
          if \<not> canHoldLines (ctn_Status c) then Inl (Biz ErrInvalidTransition)
          else if (case ctn_CutoffDate c of None \<Rightarrow> False | Some t \<Rightarrow> now env > t) then Inl (Biz ErrPreconditionFailed)
          else (case listLinesForSeal (se_ContainerID inp) db of
                  Inl e \<Rightarrow> Inl e
                | Inr items \<Rightarrow>
                    if items = [] then Inl (Biz ErrInvalidInput)
                    else (case ship items x of
                            Inl e \<Rightarrow> Inl e
                          | Inr x1 \<Rightarrow>
                              (case updateContainerStatus (rfs x1) (fresh env 0)
                                      (status_change c ContainerStatusSealed (se_ActorID inp) (se_Note inp) (now env)) db of
                                 Inl e \<Rightarrow> Inl e
                               | Inr (c1, db1) \<Rightarrow> Inr (c1, db1, x1)))))"

definition short_input :: "SealInput \<Rightarrow> uuid option \<Rightarrow> ShortageItem \<Rightarrow> ShortShippedAutoInput" where
  "short_input inp plan it =
     \<lparr>sas_ContainerID = se_ContainerID inp, sas_LoadingPlanID = plan, sas_SKUID = sh_SKUID it, sas_MissingQty = sh_MissingQty it,
      sas_ActorID = se_ActorID inp\<rparr>"

definition record_shortages :: "'x del_deps \<Rightarrow> SealInput \<Rightarrow> delivery_db \<Rightarrow> 'x \<Rightarrow> 'x" where
  "record_shortages deps inp db x =
     (case shortShipped deps of
        None \<Rightarrow> x
      | Some f \<Rightarrow>
          (case selectShortagesForContainer (se_ContainerID inp) db of
             Inl e \<Rightarrow> x
           | Inr (plan, items) \<Rightarrow> fold (\<lambda>it x. snd (f db (short_input inp plan it) x)) (filter (\<lambda>it. sh_MissingQty it > 0) items) x))"

definition Seal :: "'x del_deps \<Rightarrow> env \<Rightarrow> SealInput \<Rightarrow> (delivery_db \<times> 'x, Container) op" where
  "Seal deps env inp st =
     (case shipRecorder deps of
        None \<Rightarrow> (Inl (Biz ErrPreconditionFailed), st)
      | Some ship \<Rightarrow>
          (case check_seal deps inp (fst st) (snd st) of
             Inl e \<Rightarrow> (Inl e, st)
           | Inr _ \<Rightarrow>
               (case seal_tx ship (drefs deps) env inp st of
                  Inl e \<Rightarrow> (Inl e, st)
                | Inr (c, db1, x1) \<Rightarrow>
                    (Inr c, (db1, record_shortages deps inp db1 (track deps (\<lambda>t x. snd (MarkLoaded t db1 (se_ContainerID inp) x)) x1))))))"

section \<open>Reopening, shipping, cancelling\<close>

text \<open>The three transactions differ in the states they start from, the state they reach and the note.\<close>

definition change_status ::
  "del_refs \<Rightarrow> env \<Rightarrow> (ContainerStatus \<Rightarrow> bool) \<Rightarrow> ContainerStatus \<Rightarrow> uuid \<Rightarrow> uuid \<Rightarrow> string \<Rightarrow> (delivery_db, Container) op" where
  "change_status rf env from to i actor note db =
     (case lockContainerForUpdate i db of
        Inl e \<Rightarrow> (Inl e, db)
      | Inr c \<Rightarrow>
          if \<not> from (ctn_Status c) then (Inl (Biz ErrInvalidTransition), db)
          else (case updateContainerStatus rf (fresh env 0) (status_change c to actor note (now env)) db of
                  Inl e \<Rightarrow> (Inl e, db)
                | Inr (c1, db1) \<Rightarrow> (Inr c1, db1)))"

definition Reopen :: "del_refs \<Rightarrow> env \<Rightarrow> uuid \<Rightarrow> uuid \<Rightarrow> string \<Rightarrow> (delivery_db, Container) op" where
  "Reopen rf env i actor reason db =
     (if reasonBlank reason then (Inl (Biz ErrInvalidInput), db)
      else change_status rf env (\<lambda>s. s = ContainerStatusSealed) ContainerStatusLoading i actor reason db)"

definition Ship :: "del_refs \<Rightarrow> env \<Rightarrow> uuid \<Rightarrow> uuid \<Rightarrow> string \<Rightarrow> (delivery_db, Container) op" where
  "Ship rf env i actor note db = change_status rf env (\<lambda>s. s = ContainerStatusSealed) ContainerStatusShipped i actor note db"

definition CancelContainer :: "del_refs \<Rightarrow> env \<Rightarrow> uuid \<Rightarrow> uuid \<Rightarrow> string \<Rightarrow> (delivery_db, Container) op" where
  "CancelContainer rf env i actor reason db = change_status rf env canHoldLines ContainerStatusCancelled i actor reason db"

section \<open>Loading plans\<close>

definition logLoadingPlanAudit :: "'x del_deps \<Rightarrow> AuditLoadingPlanInput \<Rightarrow> 'x \<Rightarrow> 'x" where
  "logLoadingPlanAudit deps inp x = (case lpAuditor deps of None \<Rightarrow> x | Some f \<Rightarrow> snd (f inp x))"

text \<open>\<open>up_Rows\<close> is what the spreadsheet library returns for the file, \<open>None\<close> when it refuses it; \<open>up_Hash\<close> is the digest.\<close>

record UploadLoadingPlanInput =
  up_ContainerID :: uuid
  up_CustomerID :: uuid
  up_ExcelFileURL :: string
  up_UploadedBy :: uuid
  up_Notes :: string
  up_Rows :: "string list list option"
  up_Hash :: string

definition pieces_of :: "rat \<Rightarrow> int" where
  "pieces_of q = (let p = go_int q in if fl (of_int p) < q then p + 1 else p)"

definition plan_line :: "env \<Rightarrow> nat \<Rightarrow> uuid \<Rightarrow> parsedExcelRow \<Rightarrow> LoadingPlanLine" where
  "plan_line env n sku row =
     \<lparr>lpl_ID = fresh env n, lpl_LoadingPlanID = fresh env 0, lpl_SKUID = sku, lpl_QtyPlannedPieces = pieces_of (xr_QtyInExcel row),
      lpl_UnitInExcel = xr_UnitInExcel row, lpl_QtyInExcel = xr_QtyInExcel row, lpl_CustomerSKUCode = xr_CustomerSKUCode row,
      lpl_ExcelRowNum = xr_RowNum row, lpl_CreatedAt = now env\<rparr>"

fun resolve_rows :: "(string \<Rightarrow> uuid result) \<Rightarrow> env \<Rightarrow> nat \<Rightarrow> parsedExcelRow list \<Rightarrow> (LoadingPlanRowError list \<times> LoadingPlanLine list) result" where
  "resolve_rows res env n [] = Inr ([], [])"
| "resolve_rows res env n (row # rows) =
     (case res (xr_CustomerSKUCode row) of
        Inl e \<Rightarrow>
          if e = Biz ErrNotFound
          then map_sum id (\<lambda>(es, ls). (\<lparr>le_Row = xr_RowNum row, le_Col = ''A'', le_Code = UnmappedSKU\<rparr> # es, ls)) (resolve_rows res env n rows)
          else Inl e
      | Inr sku \<Rightarrow> map_sum id (\<lambda>(es, ls). (es, plan_line env n sku row # ls)) (resolve_rows res env (Suc n) rows))"

text \<open>What the operation returns beside its error or plan: the rows in fault.\<close>

type_synonym 'a row_checked = "LoadingPlanRowError list \<times> 'a result"

definition save_plan ::
  "'x del_deps \<Rightarrow> env \<Rightarrow> UploadLoadingPlanInput \<Rightarrow> LoadingPlanLine list \<Rightarrow> delivery_db \<times> 'x \<Rightarrow> (LoadingPlan \<times> LoadingPlanLine list) row_checked \<times> delivery_db \<times> 'x" where
  "save_plan deps env inp ls st =
     (case nextLoadingPlanVersion (up_ContainerID inp) (fst st) of
        Inl e \<Rightarrow> (([], Inl e), st)
      | Inr v \<Rightarrow>
          let p = \<lparr>lpn_ID = fresh env 0, lpn_ContainerID = up_ContainerID inp, lpn_ExcelFileURL = up_ExcelFileURL inp, lpn_ExcelHash = up_Hash inp,
                   lpn_ParsedAt = now env, lpn_UploadedBy = up_UploadedBy inp, lpn_Status = LoadingPlanStatusParsed, lpn_Version = v,
                   lpn_Notes = TrimSpace (up_Notes inp), lpn_ApprovedAt = None, lpn_ApprovedBy = None, lpn_SupersededAt = None, lpn_SupersededBy = None,
                   lpn_CreatedAt = now env\<rparr>
          in (case insertLoadingPlanWithLines (drefs deps (snd st)) p ls (fst st) of
                (Inl e, db1) \<Rightarrow> (([], Inl e), (db1, snd st))
              | (Inr _, db1) \<Rightarrow>
                  (([], Inr (p, ls)),
                   (db1, logLoadingPlanAudit deps \<lparr>alp_Action = AuditLPActionUploaded, alp_PlanID = lpn_ID p, alp_ContainerID = lpn_ContainerID p,
                      alp_Version = v, alp_ExcelHash = lpn_ExcelHash p, alp_ActorID = up_UploadedBy inp, alp_Notes = lpn_Notes p\<rparr> (snd st)))))"

definition UploadLoadingPlan ::
  "'x del_deps \<Rightarrow> (string \<Rightarrow> rat option) \<Rightarrow> env \<Rightarrow> UploadLoadingPlanInput \<Rightarrow> delivery_db \<times> 'x \<Rightarrow>
   (LoadingPlan \<times> LoadingPlanLine list) row_checked \<times> delivery_db \<times> 'x" where
  "UploadLoadingPlan deps ParseFloat env inp st =
     (if up_ContainerID inp = uuid_Nil \<or> up_CustomerID inp = uuid_Nil \<or> up_UploadedBy inp = uuid_Nil then (([], Inl (Biz ErrInvalidInput)), st)
      else (case skuResolver deps of
              None \<Rightarrow> (([], Inl (Biz ErrPreconditionFailed)), st)
            | Some res \<Rightarrow>
                (case selectContainerByID (up_ContainerID inp) (fst st) of
                   Inl e \<Rightarrow> (([], Inl e), st)
                 | Inr c \<Rightarrow>
                     if \<not> canHoldLines (ctn_Status c) then (([], Inl (Biz ErrInvalidTransition)), st)
                     else (case Option.bind (up_Rows inp) (parseExcelV1 ParseFloat) of
                             None \<Rightarrow> (([], Inl (Biz ErrInvalidInput)), st)
                           | Some (rows, errs) \<Rightarrow>
                               if errs \<noteq> [] then ((errs, Inl (Biz ErrInvalidInput)), st)
                               else if rows = [] then (([], Inl (Biz ErrInvalidInput)), st)
                               else if (case selectActiveLoadingPlan (up_ContainerID inp) (fst st) of Inl _ \<Rightarrow> False | Inr p \<Rightarrow> lpn_ExcelHash p = up_Hash inp)
                               then (([], Inl (Biz ErrInvalidInput)), st)
                               else (case resolve_rows (\<lambda>code. res (up_CustomerID inp) code (snd st)) env 1 rows of
                                       Inl e \<Rightarrow> (([], Inl e), st)
                                     | Inr (es, ls) \<Rightarrow> if es \<noteq> [] then ((es, Inl (Biz ErrInvalidInput)), st) else save_plan deps env inp ls st)))))"

definition GetLoadingPlan :: "uuid \<Rightarrow> delivery_db \<Rightarrow> (LoadingPlan \<times> LoadingPlanLine list) result" where
  "GetLoadingPlan i db =
     (if i = uuid_Nil then Inl (Biz ErrInvalidInput)
      else (case selectLoadingPlanByID i db of Inl e \<Rightarrow> Inl e | Inr p \<Rightarrow> map_sum id (Pair p) (selectLoadingPlanLines (lpn_ID p) db)))"

definition GetActiveLoadingPlan :: "uuid \<Rightarrow> delivery_db \<Rightarrow> (LoadingPlan \<times> LoadingPlanLine list) result" where
  "GetActiveLoadingPlan c db =
     (if c = uuid_Nil then Inl (Biz ErrInvalidInput)
      else (case selectActiveLoadingPlan c db of Inl e \<Rightarrow> Inl e | Inr p \<Rightarrow> map_sum id (Pair p) (selectLoadingPlanLines (lpn_ID p) db)))"

record LoadingPlanLineDiff =
  pd_SKUID :: uuid
  pd_CustomerSKUCode :: string
  pd_OldQty :: int
  pd_NewQty :: int

record LoadingPlanDiff =
  dif_Against :: uuid
  dif_NewPlan :: uuid
  dif_Added :: "LoadingPlanLine list"
  dif_Removed :: "LoadingPlanLine list"
  dif_Changed :: "LoadingPlanLineDiff list"

text \<open>The last line of a SKU stands for it. Go visits the SKUs in no particular order, here in that of the lines.\<close>

definition bySKU :: "LoadingPlanLine list \<Rightarrow> uuid \<Rightarrow> LoadingPlanLine option" where
  "bySKU ls = map_of (rev (map (\<lambda>l. (lpl_SKUID l, l)) ls))"

definition skus_of :: "LoadingPlanLine list \<Rightarrow> uuid list" where
  "skus_of ls = remdups (map lpl_SKUID ls)"

definition line_change :: "LoadingPlanLine option \<Rightarrow> LoadingPlanLine option \<Rightarrow> LoadingPlanLineDiff option" where
  "line_change old new =
     (case (old, new) of
        (Some ol, Some nl) \<Rightarrow>
          if lpl_QtyPlannedPieces ol = lpl_QtyPlannedPieces nl then None
          else Some \<lparr>pd_SKUID = lpl_SKUID nl, pd_CustomerSKUCode = lpl_CustomerSKUCode nl, pd_OldQty = lpl_QtyPlannedPieces ol, pd_NewQty = lpl_QtyPlannedPieces nl\<rparr>
      | _ \<Rightarrow> None)"

definition diff_lines :: "uuid \<Rightarrow> uuid \<Rightarrow> LoadingPlanLine list \<Rightarrow> LoadingPlanLine list \<Rightarrow> LoadingPlanDiff" where
  "diff_lines planID againstID news olds =
     \<lparr>dif_Against = againstID, dif_NewPlan = planID,
      dif_Added = List.map_filter (\<lambda>s. if bySKU olds s = None then bySKU news s else None) (skus_of news),
      dif_Removed = List.map_filter (\<lambda>s. if bySKU news s = None then bySKU olds s else None) (skus_of olds),
      dif_Changed = List.map_filter (\<lambda>s. line_change (bySKU olds s) (bySKU news s)) (skus_of news)\<rparr>"

definition DiffLoadingPlans :: "uuid \<Rightarrow> uuid \<Rightarrow> delivery_db \<Rightarrow> LoadingPlanDiff result" where
  "DiffLoadingPlans planID againstID db =
     (if planID = uuid_Nil \<or> againstID = uuid_Nil then Inl (Biz ErrInvalidInput)
      else if planID = againstID then Inl (Biz ErrInvalidInput)
      else (case GetLoadingPlan planID db of
              Inl e \<Rightarrow> Inl e
            | Inr (newPlan, news) \<Rightarrow>
                (case GetLoadingPlan againstID db of
                   Inl e \<Rightarrow> Inl e
                 | Inr (oldPlan, olds) \<Rightarrow>
                     if lpn_ContainerID newPlan \<noteq> lpn_ContainerID oldPlan then Inl (Biz ErrInvalidInput)
                     else Inr (diff_lines planID againstID news olds))))"

record ApproveLoadingPlanInput =
  ap_PlanID :: uuid
  ap_ActorID :: uuid
  ap_Notes :: string
  ap_ConfirmSupersede :: bool

definition notify_reload :: "'x del_deps \<Rightarrow> LoadingPlan \<Rightarrow> int \<Rightarrow> uuid \<Rightarrow> 'x \<Rightarrow> 'x" where
  "notify_reload deps p n actor x =
     (case planReloader deps of
        None \<Rightarrow> x
      | Some f \<Rightarrow>
          if n > 0 then snd (f \<lparr>prn_ContainerID = lpn_ContainerID p, prn_NewPlanID = lpn_ID p, prn_NewVersion = lpn_Version p,
                                prn_SupersededLines = n, prn_ActorID = actor\<rparr> x)
          else x)"

definition approve_tx :: "del_refs \<Rightarrow> env \<Rightarrow> bool \<Rightarrow> ApproveLoadingPlanInput \<Rightarrow> (delivery_db, LoadingPlan \<times> int) op" where
  "approve_tx rf env must inp db =
     (if must then supersedeLoadingPlanTx rf env (ap_PlanID inp) (ap_ActorID inp) (now env) db
      else (case approveLoadingPlanTx rf (ap_PlanID inp) (ap_ActorID inp) (now env) db of (Inl e, db1) \<Rightarrow> (Inl e, db1) | (Inr p, db1) \<Rightarrow> (Inr (p, 0), db1)))"

definition ApproveLoadingPlan :: "'x del_deps \<Rightarrow> env \<Rightarrow> ApproveLoadingPlanInput \<Rightarrow> (delivery_db \<times> 'x, LoadingPlan \<times> LoadingPlanLine list) op" where
  "ApproveLoadingPlan deps env inp st =
     (let (db, x) = st in
      if ap_PlanID inp = uuid_Nil \<or> ap_ActorID inp = uuid_Nil then (Inl (Biz ErrInvalidInput), st)
      else (case selectLoadingPlanByID (ap_PlanID inp) db of
              Inl e \<Rightarrow> (Inl e, st)
            | Inr target \<Rightarrow>
                (case selectContainerByID (lpn_ContainerID target) db of
                   Inl e \<Rightarrow> (Inl e, st)
                 | Inr c \<Rightarrow>
                     if \<not> canHoldLines (ctn_Status c) then (Inl (Biz ErrInvalidTransition), st)
                     else let must = countContainerLines (lpn_ContainerID target) db > 0 \<and> lpn_Status target \<noteq> LoadingPlanStatusApproved in
                       if must \<and> \<not> ap_ConfirmSupersede inp then (Inl (Biz ErrPreconditionFailed), st)
                       else (case approve_tx (drefs deps x) env must inp db of
                               (Inl e, db1) \<Rightarrow> (Inl e, (db1, x))
                             | (Inr (p, n), db1) \<Rightarrow>
                                 (case selectLoadingPlanLines (lpn_ID p) db1 of
                                    Inl e \<Rightarrow> (Inl e, (db1, x))
                                  | Inr ls \<Rightarrow>
                                      (Inr (p, ls),
                                       (db1, notify_reload deps p n (ap_ActorID inp)
                                          (logLoadingPlanAudit deps \<lparr>alp_Action = (if n > 0 then AuditLPActionSuperseded else AuditLPActionApproved),
                                             alp_PlanID = lpn_ID p, alp_ContainerID = lpn_ContainerID p, alp_Version = lpn_Version p,
                                             alp_ExcelHash = lpn_ExcelHash p, alp_ActorID = ap_ActorID inp, alp_Notes = TrimSpace (ap_Notes inp)\<rparr> x))))))))"

definition ListContainerLinesHistory :: "uuid \<Rightarrow> uuid option \<Rightarrow> delivery_db \<Rightarrow> ContainerLineHistoryEntry list result" where
  "ListContainerLinesHistory c plan db =
     (if c = uuid_Nil then Inl (Biz ErrInvalidInput)
      else if plan = Some uuid_Nil then Inl (Biz ErrInvalidInput)
      else selectContainerLinesHistory c plan db)"

section \<open>Containers close to their cut-off\<close>

record AtRiskRow =
  ar_ContainerID :: uuid
  ar_ContainerCode :: string
  ar_CutoffDate :: time
  ar_DaysToCutoff :: int
  ar_UsedCBM :: rat
  ar_MaxCBM :: rat
  ar_FillPctCBM :: rat
  ar_LineCount :: int
  ar_RiskLevel :: string

definition at_risk :: "time \<Rightarrow> Container \<Rightarrow> bool" where
  "at_risk before c \<longleftrightarrow> canHoldLines (ctn_Status c) \<and> (case ctn_CutoffDate c of None \<Rightarrow> False | Some t \<Rightarrow> t \<le> before)"

definition selectAtRiskContainers :: "time \<Rightarrow> delivery_db \<Rightarrow> AtRiskRow list result" where
  "selectAtRiskContainers before db =
     Inr (map (\<lambda>c. \<lparr>ar_ContainerID = ctn_ID c, ar_ContainerCode = ctn_Code c, ar_CutoffDate = the (ctn_CutoffDate c), ar_DaysToCutoff = 0,
                    ar_UsedCBM = fl (used_cbm (ctn_ID c) db), ar_MaxCBM = fl (ctn_MaxCBM c), ar_FillPctCBM = 0,
                    ar_LineCount = int (length (lines_in (ctn_ID c) db)), ar_RiskLevel = []\<rparr>)
            (sort_key (\<lambda>c. the (ctn_CutoffDate c)) (sort_key ctn_ID (select_where (at_risk before) (containers db)))))"

definition rate_risk :: "time \<Rightarrow> AtRiskRow \<Rightarrow> AtRiskRow" where
  "rate_risk t r =
     (let d = days_between (ar_CutoffDate r - t) in
      r\<lparr>ar_DaysToCutoff := d, ar_FillPctCBM := (if ar_MaxCBM r > 0 then fill_pct (ar_UsedCBM r) (ar_MaxCBM r) else 0),
        ar_RiskLevel := (if d < 3 then ''RED'' else ''ORANGE'')\<rparr>)"

definition ListAtRisk :: "env \<Rightarrow> int \<Rightarrow> delivery_db \<Rightarrow> AtRiskRow list result" where
  "ListAtRisk env days db =
     (let d = (if days \<le> 0 then 7 else days)
      in map_sum id (map (rate_risk (now env))) (selectAtRiskContainers (now env + d * day_micros) db))"

section \<open>Loader and destination\<close>

record AssignLoaderInput =
  lo_ContainerID :: uuid
  lo_LoaderID :: "uuid option"
  lo_Reason :: string
  lo_AssignedBy :: uuid

definition user_ref :: "del_refs \<Rightarrow> uuid option \<Rightarrow> bool" where
  "user_ref rf u \<longleftrightarrow> (case u of None \<Rightarrow> True | Some i \<Rightarrow> i \<in> set (dref_users rf))"

definition updateContainerLoader :: "del_refs \<Rightarrow> uuid \<Rightarrow> uuid option \<Rightarrow> ContainerLoaderLog \<Rightarrow> (delivery_db, unit) op" where
  "updateContainerLoader rf i loader e db =
     (if container_row i db \<noteq> None \<and> \<not> user_ref rf loader then (Inl (Pg ForeignKeyViolation), db)
      else (case insert_checked (\<lambda>e. if ll_ContainerID e \<notin> set (map ctn_ID (containers db)) \<or> \<not> user_ref rf (ll_FromLoaderID e) \<or>
                                       \<not> user_ref rf (ll_ToLoaderID e) \<or> ll_AssignedBy e \<notin> set (dref_users rf) then Some (Pg ForeignKeyViolation) else None)
                   ll_ID e (container_loader_log db) of
              Inl er \<Rightarrow> (Inl er, db)
            | Inr t \<Rightarrow>
                (Inr (), db\<lparr>containers := update_where (\<lambda>c. ctn_ID c = i) (\<lambda>c. c\<lparr>ctn_LoaderID := loader\<rparr>) (containers db), container_loader_log := t\<rparr>)))"

definition AssignLoader :: "del_refs \<Rightarrow> env \<Rightarrow> AssignLoaderInput \<Rightarrow> (delivery_db, Container) op" where
  "AssignLoader rf env inp db =
     (if lo_ContainerID inp = uuid_Nil \<or> lo_AssignedBy inp = uuid_Nil then (Inl (Biz ErrInvalidInput), db)
      else (case selectContainerByID (lo_ContainerID inp) db of
              Inl e \<Rightarrow> (Inl e, db)
            | Inr c \<Rightarrow>
                if ctn_LoaderID c \<noteq> None \<and> lo_LoaderID inp \<noteq> None \<and> ctn_LoaderID c \<noteq> lo_LoaderID inp \<and> reasonBlank (lo_Reason inp)
                then (Inl (Biz ErrInvalidInput), db)
                else (case updateContainerLoader rf (lo_ContainerID inp) (lo_LoaderID inp)
                             \<lparr>ll_ID = fresh env 0, ll_ContainerID = lo_ContainerID inp, ll_FromLoaderID = ctn_LoaderID c, ll_ToLoaderID = lo_LoaderID inp,
                              ll_Reason = lo_Reason inp, ll_AssignedBy = lo_AssignedBy inp, ll_AssignedAt = now env\<rparr> db of
                        (Inl e, db1) \<Rightarrow> (Inl e, db1)
                      | (Inr _, db1) \<Rightarrow> (Inr (c\<lparr>ctn_LoaderID := lo_LoaderID inp\<rparr>), db1))))"

definition selectLoaderLog :: "uuid \<Rightarrow> delivery_db \<Rightarrow> ContainerLoaderLog list result" where
  "selectLoaderLog c db = Inr (rev (sort_key ll_AssignedAt (sort_key ll_ID (select_where (\<lambda>e. ll_ContainerID e = c) (container_loader_log db)))))"

definition ListLoaderLog :: "uuid \<Rightarrow> delivery_db \<Rightarrow> ContainerLoaderLog list result" where
  "ListLoaderLog c db =
     (if c = uuid_Nil then Inl (Biz ErrInvalidInput) else (case selectContainerByID c db of Inl e \<Rightarrow> Inl e | Inr _ \<Rightarrow> selectLoaderLog c db))"

record ChangeDestinationInput =
  de_ContainerID :: uuid
  de_DestinationCode :: string
  de_DestinationName :: string
  de_Reason :: string
  de_ActorID :: uuid

definition set_destination :: "string \<Rightarrow> string \<Rightarrow> bool \<Rightarrow> Container \<Rightarrow> Container" where
  "set_destination code name clearVessel c =
     (let c1 = c\<lparr>ctn_DestinationCode := code, ctn_DestinationName := name\<rparr>
      in if clearVessel then c1\<lparr>ctn_VesselID := None, ctn_CutoffDate := None\<rparr> else c1)"

definition changeDestinationTx :: "del_refs \<Rightarrow> uuid \<Rightarrow> string \<Rightarrow> string \<Rightarrow> bool \<Rightarrow> ContainerRouteChangeLog \<Rightarrow> (delivery_db, unit) op" where
  "changeDestinationTx rf i code name clearVessel e db =
     (case insert_checked (\<lambda>e. if rc_ContainerID e \<notin> set (map ctn_ID (containers db)) \<or> rc_ActorID e \<notin> set (dref_users rf) then Some (Pg ForeignKeyViolation) else None)
             rc_ID e (container_route_log db) of
        Inl er \<Rightarrow> (Inl er, db)
      | Inr t \<Rightarrow>
          (Inr (), db\<lparr>containers := update_where (\<lambda>c. ctn_ID c = i) (set_destination code name clearVessel) (containers db), container_route_log := t\<rparr>))"

definition ChangeDestination :: "del_refs \<Rightarrow> env \<Rightarrow> ChangeDestinationInput \<Rightarrow> (delivery_db, Container) op" where
  "ChangeDestination rf env inp db =
     (if de_ContainerID inp = uuid_Nil \<or> de_ActorID inp = uuid_Nil \<or> reasonBlank (de_DestinationCode inp) then (Inl (Biz ErrInvalidInput), db)
      else (case selectContainerByID (de_ContainerID inp) db of
              Inl e \<Rightarrow> (Inl e, db)
            | Inr c \<Rightarrow>
                if ctn_Status c \<in> {ContainerStatusSealed, ContainerStatusShipped} then (Inl (Biz ErrInvalidTransition), db)
                else let re = (ctn_DestinationCode c \<noteq> [] \<and> ctn_DestinationCode c \<noteq> de_DestinationCode inp); clearVessel = (re \<and> ctn_VesselID c \<noteq> None) in
                  if re \<and> reasonBlank (de_Reason inp) then (Inl (Biz ErrInvalidInput), db)
                  else (case changeDestinationTx rf (de_ContainerID inp) (de_DestinationCode inp) (de_DestinationName inp) clearVessel
                               \<lparr>rc_ID = fresh env 0, rc_ContainerID = de_ContainerID inp, rc_FromDC = ctn_DestinationCode c, rc_ToDC = de_DestinationCode inp,
                                rc_FromDest = ctn_DestinationName c, rc_ToDest = de_DestinationName inp, rc_Reason = de_Reason inp,
                                rc_ActorID = de_ActorID inp, rc_ChangedAt = now env\<rparr> db of
                          (Inl e, db1) \<Rightarrow> (Inl e, db1)
                        | (Inr _, db1) \<Rightarrow> (Inr (set_destination (de_DestinationCode inp) (de_DestinationName inp) clearVessel c), db1))))"

definition selectRouteLog :: "uuid \<Rightarrow> delivery_db \<Rightarrow> ContainerRouteChangeLog list result" where
  "selectRouteLog c db = Inr (rev (sort_key rc_ChangedAt (sort_key rc_ID (select_where (\<lambda>e. rc_ContainerID e = c) (container_route_log db)))))"

definition ListRouteLog :: "uuid \<Rightarrow> delivery_db \<Rightarrow> ContainerRouteChangeLog list result" where
  "ListRouteLog c db =
     (if c = uuid_Nil then Inl (Biz ErrInvalidInput) else (case selectContainerByID c db of Inl e \<Rightarrow> Inl e | Inr _ \<Rightarrow> selectRouteLog c db))"

end
