(* ===== verification/Delivery_Decimals.thy ===== *)
theory Delivery_Decimals
  imports Delivery_Store
begin

text \<open>
  What a decimal column stores of a float and what a comparison of floats says of exact sums, with their error
  bounds: the arithmetic behind the capacity of a container.
\<close>

definition decimal_col :: "nat \<Rightarrow> nat \<Rightarrow> rat \<Rightarrow> bool" where
  "decimal_col p s v \<longleftrightarrow> (\<exists>k. 0 \<le> k \<and> k < 10 ^ p \<and> v = of_int k / 10 ^ s)"

lemma decimal_col_nonneg: "decimal_col p s v \<Longrightarrow> 0 \<le> v"
  by (auto simp: decimal_col_def)

lemma fl_up: "0 \<le> y \<Longrightarrow> y \<le> fl y * (1 + 1 / 2 ^ 52)"
proof -
  assume y: "0 \<le> y"
  have "y - fl y \<le> y / 2 ^ 53" using fl_error [of y] y by linarith
  then have "y * (1 - 1 / 2 ^ 53) \<le> fl y" by (simp add: algebra_simps)
  then have "y * (1 - 1 / 2 ^ 53) * (1 + 1 / 2 ^ 52) \<le> fl y * (1 + 1 / 2 ^ 52)" by (rule mult_right_mono) simp
  moreover have "y \<le> y * (1 - 1 / 2 ^ 53) * (1 + 1 / 2 ^ 52)" using y by (simp add: field_simps)
  ultimately show ?thesis by linarith
qed

lemma fl_down: "0 \<le> y \<Longrightarrow> fl y \<le> y * (1 + 1 / 2 ^ 53)"
proof -
  assume "0 \<le> y"
  then have "fl y - y \<le> y / 2 ^ 53" using fl_error [of y] by linarith
  then show ?thesis by (simp add: algebra_simps)
qed

lemma fl_rest:
  assumes "0 < z" and "z \<le> fl v" and "0 \<le> v"
  shows "fl (fl v - z) \<le> v * (1 + 1 / 2 ^ 51)"
proof -
  have "fl (fl v - z) \<le> (fl v - z) * (1 + 1 / 2 ^ 53)" using assms by (intro fl_down) simp
  also have "\<dots> \<le> fl v * (1 + 1 / 2 ^ 53)" using assms by (intro mult_right_mono) auto
  also have "\<dots> \<le> v * (1 + 1 / 2 ^ 53) * (1 + 1 / 2 ^ 53)" using fl_down [OF assms(3)] by (intro mult_right_mono) auto
  also have "\<dots> \<le> v * (1 + 1 / 2 ^ 51)" using assms(3) unfolding mult.assoc by (intro mult_left_mono) (simp_all add: field_simps)
  finally show ?thesis .
qed

lemma shortest_cases: "shortest x = x \<or> fl (shortest x) = x"
proof (cases "find (\<lambda>k. fl (to_decimals k x) = x) [0..<60]")
  case (Some k)
  then have "fl (to_decimals k x) = x" by (auto simp: find_Some_iff)
  then show ?thesis using Some by (simp add: shortest_def)
qed (simp add: shortest_def)

lemma shortest_le: "0 \<le> x \<Longrightarrow> shortest x \<le> x * (1 + 1 / 2 ^ 52)"
proof -
  assume x: "0 \<le> x"
  then have grow: "x \<le> x * (1 + 1 / 2 ^ 52)" by (simp add: algebra_simps)
  show ?thesis
  proof (cases "0 \<le> shortest x")
    case True
    then show ?thesis using shortest_cases [of x] fl_up [OF True] grow by auto
  qed (use x grow in linarith)
qed

lemma numeric_col_decimal: "numeric_col p s x = Inr v \<Longrightarrow> 0 \<le> v \<Longrightarrow> decimal_col p s v"
  by (auto simp: numeric_col_def Let_def decimal_col_def zero_le_divide_iff not_le split: if_splits)
    (meson not_le zero_less_numeral zero_less_power)

lemma numeric_col_le:
  assumes "numeric_col p s x = Inr v" and "0 \<le> x"
  shows "v \<le> x * (1 + 1 / 2 ^ 52) + 1 / (2 * 10 ^ s)"
proof -
  let ?c = "round_half_away (shortest x * 10 ^ s)"
  have v: "v = of_int ?c / 10 ^ s" using assms(1) by (auto simp: numeric_col_def Let_def split: if_splits)
  have "of_int ?c \<le> shortest x * 10 ^ s + 1 / 2" using round_half_away_error [of "shortest x * 10 ^ s"] by linarith
  then have "v \<le> shortest x + 1 / (2 * 10 ^ s)" by (simp add: v field_simps)
  then show ?thesis using shortest_le [OF assms(2)] by linarith
qed

text \<open>What is left of a stored value never rounds to more than the value.\<close>

lemma numeric_col_shrink:
  assumes "numeric_col p s y = Inr v" and "0 \<le> y" and "y \<le> w * (1 + 1 / 2 ^ 51)" and "decimal_col p s w" and "p \<le> 10"
  shows "v \<le> w"
proof -
  let ?c = "round_half_away (shortest y * 10 ^ s)"
  have v: "v = of_int ?c / 10 ^ s" using assms(1) by (auto simp: numeric_col_def Let_def split: if_splits)
  obtain k where k: "0 \<le> k" "k < 10 ^ p" "w = of_int k / 10 ^ s" using assms(4) by (auto simp: decimal_col_def)
  have "(10::int) ^ p \<le> 10 ^ 10" using assms(5) by (intro power_increasing) auto
  with k(2) have small: "k < 10 ^ 10" by linarith
  have "shortest y \<le> w * (1 + 1 / 2 ^ 51) * (1 + 1 / 2 ^ 52)"
    using shortest_le [OF assms(2)] mult_right_mono [OF assms(3), of "1 + 1 / 2 ^ 52"] by simp
  then have "shortest y * 10 ^ s \<le> of_int k * ((1 + 1 / 2 ^ 51) * (1 + 1 / 2 ^ 52))"
    by (simp add: k(3) field_simps)
  also have "\<dots> \<le> of_int k * (1 + 1 / 2 ^ 50)" using k(1) by (intro mult_left_mono) (simp_all add: field_simps)
  also have "\<dots> < of_int k + 1 / 2"
  proof -
    have "(of_int k :: rat) < of_int (10 ^ 10)" using small by (subst of_int_less_iff)
    then show ?thesis by (simp add: algebra_simps)
  qed
  finally have "of_int ?c < (of_int k + 1 :: rat)" using round_half_away_error [of "shortest y * 10 ^ s"] by linarith
  then have "?c \<le> k" by linarith
  then show ?thesis by (simp add: v k(3) divide_right_mono)
qed

text \<open>A sum that a float comparison let through, with what the column then stores.\<close>

lemma projected_le:
  assumes "fl (fl u + x) \<le> L" and "0 \<le> u" and "0 \<le> x" and "numeric_col p s x = Inr v"
  shows "u + v \<le> L * (1 + 1 / 2 ^ 50) + 1 / (2 * 10 ^ s)"
proof -
  let ?r = "1 + 1 / 2 ^ 52 :: rat"
  have f: "0 \<le> fl u" using assms(2) by (rule fl_nonneg)
  have "fl u + x \<le> fl (fl u + x) * ?r" using assms(3) f by (intro fl_up) simp
  also have "\<dots> \<le> L * ?r" using assms(1) by (rule mult_right_mono) simp
  finally have "(fl u + x) * ?r \<le> L * ?r * ?r" by (rule mult_right_mono) simp
  moreover have "u + x * ?r \<le> (fl u + x) * ?r" using fl_up [OF assms(2)] by (simp add: algebra_simps)
  ultimately have "u + x * ?r \<le> L * ?r * ?r" by linarith
  also have "\<dots> \<le> L * (1 + 1 / 2 ^ 50)"
  proof -
    have "0 \<le> L" using assms(1) f assms(3) fl_nonneg [of "fl u + x"] by simp
    then show ?thesis unfolding mult.assoc by (intro mult_left_mono) (simp_all add: field_simps)
  qed
  finally show ?thesis using numeric_col_le [OF assms(4,3)] by linarith
qed

end
