(* ===== verification/Delivery_Invariant.thy ===== *)
theory Delivery_Invariant
  imports Delivery_Transitions Delivery_Decimals
begin

text \<open>
  The delivery service as a transition system. Every call is a sequence of edits of its tables; sealing is an
  edit of its own, since it is the one that other modules hear of inside the transaction. Three facts are proved over the edits: the
  invariant with the capacity of a container, the life of a container, and the quantities that closed containers hold.
\<close>

section \<open>Steps\<close>

inductive del_service :: "'x del_deps \<Rightarrow> delivery_db \<times> 'x \<Rightarrow> delivery_db \<times> 'x \<Rightarrow> bool" for deps where
  step_container: "CreateContainer deps env day cin x db = (r1, db') \<Longrightarrow> del_service deps (db, x) (db', x)"
| step_add: "AddLine deps env ain s = (r2, s') \<Longrightarrow> del_service deps s s'"
| step_delete: "DeleteLine deps c l s = (r3, s') \<Longrightarrow> del_service deps s s'"
| step_transfer: "TransferLine deps env tin s = (r4, s') \<Longrightarrow> del_service deps s s'"
| step_seal: "Seal deps env zin s = (r1, s') \<Longrightarrow> del_service deps s s'"
| step_reopen: "Reopen (drefs deps x) env i u nt db = (r1, db') \<Longrightarrow> del_service deps (db, x) (db', x)"
| step_ship: "Ship (drefs deps x) env i u nt db = (r1, db') \<Longrightarrow> del_service deps (db, x) (db', x)"
| step_cancel: "CancelContainer (drefs deps x) env i u nt db = (r1, db') \<Longrightarrow> del_service deps (db, x) (db', x)"
| step_upload: "UploadLoadingPlan deps pf env uin s = (r5, s') \<Longrightarrow> del_service deps s s'"
| step_approve: "ApproveLoadingPlan deps env pin s = (r6, s') \<Longrightarrow> del_service deps s s'"
| step_loader: "AssignLoader (drefs deps x) env lin db = (r1, db') \<Longrightarrow> del_service deps (db, x) (db', x)"
| step_destination: "ChangeDestination (drefs deps x) env din db = (r1, db') \<Longrightarrow> del_service deps (db, x) (db', x)"

text \<open>\<open>step_booking\<close> is the write of the shipping module, which books a container on a vessel.\<close>

inductive del_call :: "'x del_deps \<Rightarrow> delivery_db \<times> 'x \<Rightarrow> delivery_db \<times> 'x \<Rightarrow> bool" for deps where
  step_service: "del_service deps s s' \<Longrightarrow> del_call deps s s'"
| step_booking: "del_call deps (db, x) (db\<lparr>containers := update_where P (\<lambda>c. c\<lparr>ctn_VesselID := v, ctn_CutoffDate := t\<rparr>) (containers db)\<rparr>, x)"

text \<open>Between the calls the other modules change the state outside at will.\<close>

inductive del_step :: "'x del_deps \<Rightarrow> delivery_db \<times> 'x \<Rightarrow> delivery_db \<times> 'x \<Rightarrow> bool" for deps where
  step_call: "del_call deps s s' \<Longrightarrow> del_step deps s s'"
| step_outside: "del_step deps (db, x) (db, x')"

definition empty_delivery :: delivery_db where
  "empty_delivery = \<lparr>containers = [], container_lines = [], container_status_log = [], container_overload_log = [], container_transfer_audit = [],
     container_loader_log = [], container_route_log = [], loading_plans = [], loading_plan_lines = [], container_lines_history = [], container_counters = []\<rparr>"

section \<open>Edits\<close>

definition line_fine :: "ContainerLine \<Rightarrow> bool" where
  "line_fine l \<longleftrightarrow> 0 < ctl_Qty l \<and> decimal_col 8 3 (ctl_CBMTotal l) \<and> decimal_col 10 2 (ctl_WeightKGTotal l)"

lemma line_fineD: "line_fine l \<Longrightarrow> 0 < ctl_Qty l \<and> 0 \<le> ctl_CBMTotal l \<and> 0 \<le> ctl_WeightKGTotal l"
  by (auto simp: line_fine_def dest: decimal_col_nonneg)

text \<open>The limits of a container: the float the code compares with, and what rounding adds.\<close>

definition cbm_limit :: "rat \<Rightarrow> Container \<Rightarrow> rat" where
  "cbm_limit pct c = fl (fl (ctn_MaxCBM c) * overhead pct) * (1 + 1 / 2 ^ 50) + 1 / 2000"

definition weight_limit :: "rat \<Rightarrow> Container \<Rightarrow> rat" where
  "weight_limit pct c = fl (fl (ctn_MaxPayloadKG c) * overhead pct) * (1 + 1 / 2 ^ 50) + 1 / 200"

definition overfull :: "uuid \<Rightarrow> delivery_db \<Rightarrow> bool" where
  "overfull i db \<longleftrightarrow> (\<exists>e \<in> set (container_overload_log db). ol_ContainerID e = i)"

definition holds :: "uuid \<Rightarrow> delivery_db \<Rightarrow> bool" where
  "holds i db \<longleftrightarrow> (\<exists>c. container_row i db = Some c \<and> canHoldLines (ctn_Status c))"

definition same_box :: "Container \<Rightarrow> Container \<Rightarrow> bool" where
  "same_box c c' \<longleftrightarrow> ctn_ID c' = ctn_ID c \<and> ctn_Code c' = ctn_Code c \<and> ctn_MaxCBM c' = ctn_MaxCBM c \<and> ctn_MaxPayloadKG c' = ctn_MaxPayloadKG c"

definition may_become :: "ContainerStatus \<Rightarrow> ContainerStatus \<Rightarrow> bool" where
  "may_become s t \<longleftrightarrow> (s, t) \<in> {(ContainerStatusOpen, ContainerStatusLoading), (ContainerStatusSealed, ContainerStatusLoading),
     (ContainerStatusSealed, ContainerStatusShipped), (ContainerStatusOpen, ContainerStatusCancelled), (ContainerStatusLoading, ContainerStatusCancelled)}"

inductive del_edit :: "rat \<Rightarrow> delivery_db \<Rightarrow> delivery_db \<Rightarrow> bool" for pct where
  dl_other: "containers db' = containers db \<Longrightarrow> container_lines db' = container_lines db \<Longrightarrow>
    container_overload_log db' = container_overload_log db \<Longrightarrow> del_edit pct db db'"
| dl_new: "containers db' = containers db @ [c] \<Longrightarrow> container_lines db' = container_lines db \<Longrightarrow>
    container_overload_log db' = container_overload_log db \<Longrightarrow> ctn_ID c \<notin> ctn_ID ` set (containers db) \<Longrightarrow>
    ctn_Code c \<notin> ctn_Code ` set (containers db) \<Longrightarrow> 0 < ctn_MaxCBM c \<Longrightarrow> 0 < ctn_MaxPayloadKG c \<Longrightarrow> ctn_Status c = ContainerStatusOpen \<Longrightarrow>
    del_edit pct db db'"
| dl_meta: "containers db' = update_where P f (containers db) \<Longrightarrow> container_lines db' = container_lines db \<Longrightarrow>
    container_overload_log db' = container_overload_log db \<Longrightarrow> (\<And>c. same_box c (f c) \<and> ctn_Status (f c) = ctn_Status c) \<Longrightarrow> del_edit pct db db'"
| dl_status: "containers db' = update_where (\<lambda>c. ctn_ID c = i) f (containers db) \<Longrightarrow> container_lines db' = container_lines db \<Longrightarrow>
    container_overload_log db' = container_overload_log db \<Longrightarrow> container_row i db = Some c \<Longrightarrow> (\<And>c. same_box c (f c)) \<Longrightarrow>
    may_become (ctn_Status c) (ctn_Status (f c)) \<Longrightarrow> del_edit pct db db'"
| dl_line: "containers db' = containers db \<Longrightarrow> container_lines db' = container_lines db @ [l] \<Longrightarrow>
    set (container_overload_log db) \<subseteq> set (container_overload_log db') \<Longrightarrow> container_row (ctl_ContainerID l) db = Some c \<Longrightarrow>
    canHoldLines (ctn_Status c) \<Longrightarrow> line_fine l \<Longrightarrow> ctl_ID l \<notin> ctl_ID ` set (container_lines db) \<Longrightarrow>
    overfull (ctn_ID c) db' \<or> used_cbm (ctn_ID c) db + ctl_CBMTotal l \<le> cbm_limit pct c \<and> used_weight (ctn_ID c) db + ctl_WeightKGTotal l \<le> weight_limit pct c \<Longrightarrow>
    del_edit pct db db'"
| dl_drop: "containers db' = containers db \<Longrightarrow> container_lines db' = delete_where P (container_lines db) \<Longrightarrow>
    container_overload_log db' = container_overload_log db \<Longrightarrow> (\<And>l. l \<in> set (container_lines db) \<Longrightarrow> P l \<Longrightarrow> holds (ctl_ContainerID l) db) \<Longrightarrow>
    del_edit pct db db'"
| dl_shrink: "containers db' = containers db \<Longrightarrow> container_lines db' = update_where (\<lambda>l. ctl_ID l = i) f (container_lines db) \<Longrightarrow>
    container_overload_log db' = container_overload_log db \<Longrightarrow> cline_row i db = Some l \<Longrightarrow> holds (ctl_ContainerID l) db \<Longrightarrow>
    (\<And>l. ctl_ID (f l) = ctl_ID l \<and> ctl_ContainerID (f l) = ctl_ContainerID l) \<Longrightarrow> line_fine (f l) \<Longrightarrow>
    ctl_CBMTotal (f l) \<le> ctl_CBMTotal l \<Longrightarrow> ctl_WeightKGTotal (f l) \<le> ctl_WeightKGTotal l \<Longrightarrow> del_edit pct db db'"

abbreviation del_edits :: "rat \<Rightarrow> delivery_db \<Rightarrow> delivery_db \<Rightarrow> bool" where
  "del_edits pct \<equiv> (del_edit pct)\<^sup>*\<^sup>*"

text \<open>Sealing container \<open>i\<close>.\<close>

definition seals :: "uuid \<Rightarrow> delivery_db \<Rightarrow> delivery_db \<Rightarrow> bool" where
  "seals i db db' \<longleftrightarrow> holds i db \<and> container_lines db' = container_lines db \<and> container_overload_log db' = container_overload_log db \<and>
     (\<exists>f. containers db' = update_where (\<lambda>c. ctn_ID c = i) f (containers db) \<and> (\<forall>c. same_box c (f c) \<and> ctn_Status (f c) = ContainerStatusSealed))"

section \<open>The invariant\<close>

definition fits :: "rat \<Rightarrow> Container \<Rightarrow> delivery_db \<Rightarrow> bool" where
  "fits pct c db \<longleftrightarrow> used_cbm (ctn_ID c) db \<le> cbm_limit pct c \<and> used_weight (ctn_ID c) db \<le> weight_limit pct c"

definition del_ok :: "rat \<Rightarrow> delivery_db \<Rightarrow> bool" where
  "del_ok pct db \<longleftrightarrow>
     keys_distinct ctn_ID (containers db) \<and> distinct (map ctn_Code (containers db)) \<and> keys_distinct ctl_ID (container_lines db) \<and>
     (\<forall>c \<in> set (containers db). 0 < ctn_MaxCBM c \<and> 0 < ctn_MaxPayloadKG c) \<and>
     (\<forall>l \<in> set (container_lines db). line_fine l \<and> ctl_ContainerID l \<in> ctn_ID ` set (containers db)) \<and>
     (\<forall>c \<in> set (containers db). fits pct c db \<or> overfull (ctn_ID c) db)"

lemma del_okD:
  assumes "del_ok pct db"
  shows "keys_distinct ctn_ID (containers db)" "distinct (map ctn_Code (containers db))" "keys_distinct ctl_ID (container_lines db)"
    "\<And>c. c \<in> set (containers db) \<Longrightarrow> 0 < ctn_MaxCBM c" "\<And>c. c \<in> set (containers db) \<Longrightarrow> 0 < ctn_MaxPayloadKG c"
    "\<And>l. l \<in> set (container_lines db) \<Longrightarrow> line_fine l" "\<And>l. l \<in> set (container_lines db) \<Longrightarrow> ctl_ContainerID l \<in> ctn_ID ` set (containers db)"
    "\<And>c. c \<in> set (containers db) \<Longrightarrow> fits pct c db \<or> overfull (ctn_ID c) db"
  using assms by (auto simp: del_ok_def)

lemma overhead_ge: "1 \<le> overhead pct"
  by (simp add: overhead_def Let_def)

lemma limits_nonneg: "0 < ctn_MaxCBM c \<Longrightarrow> 0 < ctn_MaxPayloadKG c \<Longrightarrow> 0 \<le> cbm_limit pct c \<and> 0 \<le> weight_limit pct c"
  using overhead_ge [of pct] by (auto simp: cbm_limit_def weight_limit_def intro!: add_nonneg_nonneg mult_nonneg_nonneg fl_nonneg)

lemma same_box_limits: "same_box c c' \<Longrightarrow> cbm_limit pct c' = cbm_limit pct c \<and> weight_limit pct c' = weight_limit pct c"
  by (simp add: same_box_def cbm_limit_def weight_limit_def)

text \<open>Containers changed without their lines.\<close>

lemma del_ok_boxes:
  assumes ok: "del_ok pct db" and "containers db' = map f (containers db)" and "container_lines db' = container_lines db"
    and "container_overload_log db' = container_overload_log db" and f: "\<And>c. same_box c (f c)"
  shows "del_ok pct db'"
proof -
  note o = del_okD [OF ok]
  have k: "ctn_ID (f c) = ctn_ID c" "ctn_Code (f c) = ctn_Code c" "ctn_MaxCBM (f c) = ctn_MaxCBM c" "ctn_MaxPayloadKG (f c) = ctn_MaxPayloadKG c" for c
    using f [of c] by (auto simp: same_box_def)
  then have "ctn_ID \<circ> f = ctn_ID" "ctn_Code \<circ> f = ctn_Code" by auto
  moreover have "fits pct (f c) db' \<or> overfull (ctn_ID (f c)) db'" if "c \<in> set (containers db)" for c
    using o(8) [OF that] k same_box_limits [OF f [of c]] assms(3,4)
    by (simp add: fits_def overfull_def used_cbm_def used_weight_def lines_in_def)
  ultimately show ?thesis using o k assms(2,3) by (auto simp: del_ok_def image_image)
qed

text \<open>Lines changed without their containers: no container gains.\<close>

lemma del_ok_lines:
  assumes ok: "del_ok pct db" and "containers db' = containers db" and "container_overload_log db' = container_overload_log db"
    and "keys_distinct ctl_ID (container_lines db')" and "\<And>l. l \<in> set (container_lines db') \<Longrightarrow> line_fine l \<and> ctl_ContainerID l \<in> ctn_ID ` set (containers db)"
    and "\<And>i. used_cbm i db' \<le> used_cbm i db" and "\<And>i. used_weight i db' \<le> used_weight i db"
  shows "del_ok pct db'"
proof -
  note o = del_okD [OF ok]
  have "fits pct c db' \<or> overfull (ctn_ID c) db'" if "c \<in> set (containers db)" for c
    using o(8) [OF that] assms(3) assms(6,7) [of "ctn_ID c"] by (auto simp: fits_def overfull_def)
  then show ?thesis using o assms by (simp add: del_ok_def)
qed

lemma sum_list_delete: "(\<And>l. l \<in> set t \<Longrightarrow> (0::rat) \<le> g l) \<Longrightarrow> sum_list (map g (filter Q (delete_where P t))) \<le> sum_list (map g (filter Q t))"
  by (induction t) (auto simp: delete_where_def intro: add_increasing)

lemma sum_list_update:
  "(\<And>l. l \<in> set t \<Longrightarrow> H l \<Longrightarrow> (g (f l) :: rat) \<le> g l \<and> Q (f l) = Q l) \<Longrightarrow>
   sum_list (map g (filter Q (update_where H f t))) \<le> sum_list (map g (filter Q t))"
  by (induction t) (auto intro: add_mono)

lemma filter_update_other:
  "(\<And>r. r \<in> set t \<Longrightarrow> H r \<Longrightarrow> \<not> Q r \<and> \<not> Q (f r)) \<Longrightarrow> filter Q (update_where H f t) = filter Q t"
  by (induction t) auto

lemma del_edit_ok:
  assumes "del_edit pct db db'" and ok: "del_ok pct db"
  shows "del_ok pct db'"
  using assms(1)
proof cases
  case dl_other
  then show ?thesis using ok by (simp add: del_ok_def fits_def overfull_def used_cbm_def used_weight_def lines_in_def)
next
  case (dl_new c)
  note o = del_okD [OF ok]
  have none: "lines_in (ctn_ID c) db' = []" using o(7) dl_new(4) unfolding lines_in_def dl_new(2) filter_empty_conv by metis
  have "fits pct c db'" using limits_nonneg [OF dl_new(6,7), of pct] by (simp add: fits_def used_cbm_def used_weight_def none)
  moreover have "fits pct b db' \<or> overfull (ctn_ID b) db'" if "b \<in> set (containers db)" for b
    using o(8) [OF that] dl_new(2,3) by (simp add: fits_def overfull_def used_cbm_def used_weight_def lines_in_def)
  ultimately show ?thesis using o dl_new by (auto simp: del_ok_def)
next
  case (dl_meta P f)
  then show ?thesis by (intro del_ok_boxes [OF ok, where f = "\<lambda>c. if P c then f c else c"]) (auto simp: update_where_def same_box_def)
next
  case (dl_status i f c)
  then show ?thesis by (intro del_ok_boxes [OF ok, where f = "\<lambda>c. if ctn_ID c = i then f c else c"]) (auto simp: update_where_def same_box_def)
next
  case (dl_line l c)
  note o = del_okD [OF ok]
  have c: "c \<in> set (containers db)" "ctn_ID c = ctl_ContainerID l" using row_by_SomeD [OF dl_line(4)] by auto
  have used: "used_cbm i db' = used_cbm i db + (if i = ctn_ID c then ctl_CBMTotal l else 0)"
    "used_weight i db' = used_weight i db + (if i = ctn_ID c then ctl_WeightKGTotal l else 0)" for i
    using c(2) dl_line(2) by (auto simp: used_cbm_def used_weight_def lines_in_def)
  have "fits pct b db' \<or> overfull (ctn_ID b) db'" if b: "b \<in> set (containers db)" for b
  proof (cases "ctn_ID b = ctn_ID c")
    case True
    then have "b = c" using b c(1) o(1) by (auto simp: distinct_map dest: inj_onD)
    then show ?thesis using dl_line(8) by (auto simp: fits_def used)
  next
    case False
    then show ?thesis using o(8) [OF b] dl_line(3) by (auto simp: fits_def used overfull_def)
  qed
  moreover have "ctl_ContainerID l \<in> ctn_ID ` set (containers db)" using c by (metis imageI)
  ultimately show ?thesis using o dl_line(1,2,6,7) by (simp add: del_ok_def)
next
  case (dl_drop P)
  note o = del_okD [OF ok]
  have "used_cbm i db' \<le> used_cbm i db" "used_weight i db' \<le> used_weight i db" for i
    using o(6) unfolding used_cbm_def used_weight_def lines_in_def dl_drop(2)
    by (auto intro!: sum_list_delete simp: line_fine_def dest: decimal_col_nonneg)
  then show ?thesis using o(3,6,7) dl_drop(1-3)
    by (intro del_ok_lines [OF ok]) (auto simp: delete_where_def intro: distinct_map_filter)
next
  case (dl_shrink i f l)
  note o = del_okD [OF ok]
  have only: "r = l" if "r \<in> set (container_lines db)" "ctl_ID r = i" for r
    using that row_by_SomeD [OF dl_shrink(4)] o(3) by (auto simp: distinct_map dest: inj_onD)
  have less: "ctl_CBMTotal (f r) \<le> ctl_CBMTotal r \<and> ctl_WeightKGTotal (f r) \<le> ctl_WeightKGTotal r"
    if "r \<in> set (container_lines db)" "ctl_ID r = i" for r
    using only [OF that] dl_shrink(8,9) by simp
  have "used_cbm j db' \<le> used_cbm j db" "used_weight j db' \<le> used_weight j db" for j
    unfolding used_cbm_def used_weight_def lines_in_def dl_shrink(2)
    by (rule sum_list_update; use less dl_shrink(6) in simp)+
  moreover have "line_fine r \<and> ctl_ContainerID r \<in> ctn_ID ` set (containers db)" if "r \<in> set (container_lines db')" for r
    using that unfolding dl_shrink(2) by (rule in_update_whereE) (use o(6,7) only dl_shrink(6,7) in auto)
  moreover have "keys_distinct ctl_ID (container_lines db')" unfolding dl_shrink(2) using o(3) dl_shrink(6) by (simp add: map_update_where)
  ultimately show ?thesis using dl_shrink(1,3) by (intro del_ok_lines [OF ok]) auto
qed

lemma seals_ok:
  assumes "seals i db db'" and "del_ok pct db"
  shows "del_ok pct db'"
proof -
  from assms(1) obtain f where "containers db' = update_where (\<lambda>c. ctn_ID c = i) f (containers db)" "container_lines db' = container_lines db"
    "container_overload_log db' = container_overload_log db" "\<And>c. same_box c (f c)" by (auto simp: seals_def)
  then show ?thesis by (intro del_ok_boxes [OF assms(2), where f = "\<lambda>c. if ctn_ID c = i then f c else c"]) (auto simp: update_where_def same_box_def)
qed

section \<open>The life of a container\<close>

fun container_future :: "ContainerStatus \<Rightarrow> ContainerStatus set" where
  "container_future ContainerStatusOpen = UNIV"
| "container_future ContainerStatusLoading = - {ContainerStatusOpen}"
| "container_future ContainerStatusSealed = - {ContainerStatusOpen}"
| "container_future ContainerStatusShipped = {ContainerStatusShipped}"
| "container_future ContainerStatusCancelled = {ContainerStatusCancelled}"

lemma container_future_trans: "t \<in> container_future s \<Longrightarrow> u \<in> container_future t \<Longrightarrow> u \<in> container_future s"
  by (cases s; cases t) auto

lemma container_future_refl [simp]: "s \<in> container_future s"
  by (cases s) auto

text \<open>A container stays, within its future, and one that cannot hold lines keeps those it has until it can.\<close>

definition lives :: "delivery_db \<Rightarrow> delivery_db \<Rightarrow> bool" where
  "lives db db' \<longleftrightarrow> (\<forall>i c. container_row i db = Some c \<longrightarrow>
     (\<exists>c'. container_row i db' = Some c' \<and> same_box c c' \<and> ctn_Status c' \<in> container_future (ctn_Status c)) \<and>
     (\<not> canHoldLines (ctn_Status c) \<longrightarrow> lines_in i db' = lines_in i db))"

lemma same_box_refl [simp]: "same_box c c"
  by (simp add: same_box_def)

lemma same_box_trans: "same_box a b \<Longrightarrow> same_box b c \<Longrightarrow> same_box a c"
  by (simp add: same_box_def)

lemma lives_refl [simp]: "lives db db"
  by (simp add: lives_def)

lemma row_by_boxes:
  assumes "containers db' = update_where H f (containers db)" and "\<And>c. same_box c (f c)"
  shows "container_row i db' = map_option (\<lambda>c. if H c then f c else c) (container_row i db)"
  unfolding assms(1) using assms(2) by (intro row_by_update_where) (simp add: same_box_def)

lemma holds_notI: "container_row i db = Some c \<Longrightarrow> \<not> canHoldLines (ctn_Status c) \<Longrightarrow> \<not> holds i db"
  by (simp add: holds_def)

lemma del_edit_lives:
  assumes "del_edit pct db db'" and ok: "del_ok pct db"
  shows "lives db db'"
  using assms(1)
proof cases
  case dl_other
  then show ?thesis by (simp add: lives_def lines_in_def)
next
  case (dl_new c)
  then show ?thesis by (auto simp: lives_def lines_in_def split: option.splits)
next
  case (dl_meta P f)
  then show ?thesis using row_by_boxes [OF dl_meta(1)] by (auto simp: lives_def lines_in_def)
next
  case (dl_status i f c)
  have "ctn_Status (if ctn_ID b = i then f b else b) \<in> container_future (ctn_Status b)" if "container_row j db = Some b" for j b
    using row_by_SomeD [OF that] that dl_status(4,6) by (auto simp: may_become_def)
  then show ?thesis using row_by_boxes [OF dl_status(1,5)] dl_status(2,5) by (auto simp: lives_def lines_in_def)
next
  case (dl_line l c)
  then show ?thesis by (auto simp: lives_def lines_in_def)
next
  case (dl_drop P)
  have "lines_in i db' = lines_in i db" if "\<not> holds i db" for i
    using dl_drop(4) that by (auto simp: lines_in_def dl_drop(2) delete_where_def intro!: filter_cong)
  then show ?thesis using dl_drop(1) by (auto simp: lives_def dest: holds_notI)
next
  case (dl_shrink i f l)
  have l: "r = l" if "r \<in> set (container_lines db)" "ctl_ID r = i" for r
    using that row_by_SomeD [OF dl_shrink(4)] del_okD(3) [OF ok] by (auto simp: distinct_map dest: inj_onD)
  have "lines_in j db' = lines_in j db" if "\<not> holds j db" for j
    unfolding lines_in_def dl_shrink(2) using l dl_shrink(5,6) that by (intro filter_update_other) auto
  then show ?thesis using dl_shrink(1) by (auto simp: lives_def dest: holds_notI)
qed

lemma seals_lives:
  assumes "seals i db db'"
  shows "lives db db'"
proof -
  from assms obtain f where f: "containers db' = update_where (\<lambda>c. ctn_ID c = i) f (containers db)" "container_lines db' = container_lines db"
    "\<And>c. same_box c (f c)" "\<And>c. ctn_Status (f c) = ContainerStatusSealed" and "holds i db" by (auto simp: seals_def)
  then obtain b where "container_row i db = Some b" "canHoldLines (ctn_Status b)" by (auto simp: holds_def)
  then have "ctn_Status (if ctn_ID c = i then f c else c) \<in> container_future (ctn_Status c)" if "container_row j db = Some c" for j c
    using row_by_SomeD [OF that] that f(4) [of c] by (auto simp: canHoldLines_def)
  then show ?thesis using row_by_boxes [OF f(1,3)] f(2,3) by (auto simp: lives_def lines_in_def)
qed

section \<open>What closed containers hold\<close>

definition gone :: "delivery_db \<Rightarrow> uuid \<Rightarrow> bool" where
  "gone db i \<longleftrightarrow> (case container_row i db of None \<Rightarrow> False | Some c \<Rightarrow> ctn_Status c \<in> {ContainerStatusSealed, ContainerStatusShipped})"

definition delivered :: "uuid \<Rightarrow> delivery_db \<Rightarrow> int" where
  "delivered s db = sum_where ctl_Qty (\<lambda>l. ctl_SalesOrderLineID l = s \<and> gone db (ctl_ContainerID l)) (container_lines db)"

lemma sum_where_mono:
  "(\<And>r. r \<in> set t \<Longrightarrow> 0 \<le> f r) \<Longrightarrow> (\<And>r. r \<in> set t \<Longrightarrow> P r \<Longrightarrow> Q r) \<Longrightarrow> sum_where f P t \<le> sum_where f Q t"
  by (induction t) (auto intro: add_increasing)

lemma gone_holds: "gone db i \<Longrightarrow> \<not> holds i db"
  by (auto simp: gone_def holds_def canHoldLines_def split: option.splits)

lemma delivered_same_lines:
  assumes "del_ok pct db" and "container_lines db' = container_lines db" and "\<And>i. gone db' i \<Longrightarrow> gone db i"
  shows "delivered s db' \<le> delivered s db"
  unfolding delivered_def assms(2) using del_okD(6) [OF assms(1)] assms(3) by (intro sum_where_mono) (auto simp: line_fine_def less_imp_le)

lemma del_edit_delivered:
  assumes "del_edit pct db db'" and ok: "del_ok pct db"
  shows "delivered s db' \<le> delivered s db"
  using assms(1)
proof cases
  case dl_other
  then show ?thesis by (intro delivered_same_lines [OF ok]) (auto simp: gone_def)
next
  case (dl_new c)
  then show ?thesis by (intro delivered_same_lines [OF ok]) (auto simp: gone_def split: option.splits if_splits)
next
  case (dl_meta P f)
  then show ?thesis using row_by_boxes [OF dl_meta(1)]
    by (intro delivered_same_lines [OF ok]) (auto simp: gone_def split: option.splits if_splits)
next
  case (dl_status i f c)
  have "gone db j" if "gone db' j" for j
  proof (cases "container_row j db")
    case None
    then show ?thesis using that row_by_boxes [OF dl_status(1,5), of j] by (simp add: gone_def)
  next
    case (Some b)
    then show ?thesis using row_by_SomeD [OF Some] that dl_status(4,6) row_by_boxes [OF dl_status(1,5), of j]
      by (cases "j = i") (auto simp: gone_def may_become_def)
  qed
  then show ?thesis by (intro delivered_same_lines [OF ok dl_status(2)])
next
  case (dl_line l c)
  then have "\<not> gone db (ctl_ContainerID l)" by (auto simp: gone_def canHoldLines_def)
  moreover have "gone db' = gone db" using dl_line(1) by (simp add: gone_def fun_eq_iff)
  ultimately show ?thesis using dl_line(2) by (simp add: delivered_def)
next
  case (dl_drop P)
  have g: "gone db' = gone db" using dl_drop(1) by (simp add: gone_def fun_eq_iff)
  have "delivered s db' = sum_where ctl_Qty (\<lambda>l. \<not> P l \<and> ctl_SalesOrderLineID l = s \<and> gone db (ctl_ContainerID l)) (container_lines db)"
    unfolding delivered_def g dl_drop(2) delete_where_def sum_where_def by simp
  also have "\<dots> \<le> delivered s db" unfolding delivered_def using del_okD(6) [OF ok] by (intro sum_where_mono) (auto simp: line_fine_def less_imp_le)
  finally show ?thesis .
next
  case (dl_shrink i f l)
  have g: "gone db' = gone db" using dl_shrink(1) by (simp add: gone_def fun_eq_iff)
  have "\<not> gone db (ctl_ContainerID l)" using dl_shrink(5) gone_holds by blast
  then show ?thesis unfolding delivered_def g dl_shrink(2)
    using sum_where_update_key [OF del_okD(3) [OF ok] dl_shrink(4), of f] dl_shrink(6) by simp
qed

lemma seals_delivered:
  assumes "seals i db db'"
  shows "delivered s db' = delivered s db + qty_for i s db"
proof -
  from assms obtain f where f: "containers db' = update_where (\<lambda>c. ctn_ID c = i) f (containers db)" "container_lines db' = container_lines db"
    "\<And>c. same_box c (f c)" "\<And>c. ctn_Status (f c) = ContainerStatusSealed" and h: "holds i db" by (auto simp: seals_def)
  have g: "gone db' j \<longleftrightarrow> gone db j \<or> j = i" for j
    using row_by_boxes [OF f(1,3), of j] f(4) h by (auto simp: gone_def holds_def split: option.splits dest: row_by_SomeD)
  have "\<not> gone db i" using h gone_holds by blast
  then have "sum_where ctl_Qty (\<lambda>l. ctl_SalesOrderLineID l = s \<and> (gone db (ctl_ContainerID l) \<or> ctl_ContainerID l = i)) t =
      sum_where ctl_Qty (\<lambda>l. ctl_SalesOrderLineID l = s \<and> gone db (ctl_ContainerID l)) t +
      sum_where ctl_Qty (\<lambda>l. ctl_ContainerID l = i \<and> ctl_SalesOrderLineID l = s) t" for t
    by (induction t) auto
  then show ?thesis by (simp add: delivered_def qty_for_def f(2) g)
qed

end
