(* ===== verification/Delivery_Steps.thy ===== *)
theory Delivery_Steps
  imports Delivery_Invariant
begin

text \<open>
  Every call of the delivery service is a sequence of edits, or the sealing of one container. The invariant, the life of a container and what
  closed containers hold follow for every run.
\<close>

section \<open>Statements\<close>

lemma insertLine_view:
  assumes "insertLine rf l db = Inr db'"
  obtains m w where "cbm_col (ctl_CBMTotal l) = Inr m" "weight_col (ctl_WeightKGTotal l) = Inr w"
    "db' = db\<lparr>container_lines := container_lines db @ [l\<lparr>ctl_CBMTotal := m, ctl_WeightKGTotal := w\<rparr>]\<rparr>"
    "line_fine (l\<lparr>ctl_CBMTotal := m, ctl_WeightKGTotal := w\<rparr>)" "ctl_ID l \<notin> ctl_ID ` set (container_lines db)"
proof -
  from assms obtain m w where mw: "cbm_col (ctl_CBMTotal l) = Inr m" "weight_col (ctl_WeightKGTotal l) = Inr w"
    "db' = db\<lparr>container_lines := container_lines db @ [l\<lparr>ctl_CBMTotal := m, ctl_WeightKGTotal := w\<rparr>]\<rparr>"
    "check_cline rf db (l\<lparr>ctl_CBMTotal := m, ctl_WeightKGTotal := w\<rparr>) = None" "ctl_ID l \<notin> ctl_ID ` set (container_lines db)"
    by (auto simp: insertLine_def split: sum.splits)
  then have "line_fine (l\<lparr>ctl_CBMTotal := m, ctl_WeightKGTotal := w\<rparr>)"
    by (auto simp: check_cline_def line_fine_def split: if_splits intro!: numeric_col_decimal)
  with mw that show thesis by blast
qed

lemma updateContainerStatus_view:
  assumes "updateContainerStatus rf k inp db = Inr (c, db')"
  shows "containers db' = update_where (\<lambda>c. ctn_ID c = us_ContainerID inp) (set_container_status inp) (containers db)"
    and "container_lines db' = container_lines db" and "container_overload_log db' = container_overload_log db"
    and "loading_plans db' = loading_plans db"
  using assms by (auto simp: updateContainerStatus_def Let_def split: if_splits sum.splits option.splits)

lemma set_container_status_box: "same_box c (set_container_status inp c) \<and> ctn_Status (set_container_status inp c) = us_ToStatus inp"
  by (cases "us_ToStatus inp") (simp_all add: set_container_status_def same_box_def)

lemma status_edit:
  assumes "updateContainerStatus rf k (status_change (scanContainer c) st actor nt t) db = Inr (c1, db')"
    and "container_row i db = Some c" and "may_become (ctn_Status c) st"
  shows "del_edit pct db db'"
proof (rule dl_status [OF _ updateContainerStatus_view(2,3) [OF assms(1)] assms(2)])
  show "containers db' = update_where (\<lambda>c. ctn_ID c = i) (set_container_status (status_change (scanContainer c) st actor nt t)) (containers db)"
    using updateContainerStatus_view(1) [OF assms(1)] row_by_SomeD [OF assms(2)] by (simp add: status_change_def scanContainer_def)
qed (use set_container_status_box assms(3) in \<open>auto simp: status_change_def\<close>)

lemma selectContainerByID_view: "selectContainerByID i db = Inr c \<Longrightarrow> \<exists>r. container_row i db = Some r \<and> c = scanContainer r"
  by (auto simp: selectContainerByID_def split: option.splits)

lemma scanContainer_simps [simp]:
  "ctn_ID (scanContainer c) = ctn_ID c" "ctn_Status (scanContainer c) = ctn_Status c" "ctn_CutoffDate (scanContainer c) = ctn_CutoffDate c"
  "ctn_LoaderID (scanContainer c) = ctn_LoaderID c" "ctn_DestinationCode (scanContainer c) = ctn_DestinationCode c"
  "ctn_MaxCBM (scanContainer c) = fl (ctn_MaxCBM c)" "ctn_MaxPayloadKG (scanContainer c) = fl (ctn_MaxPayloadKG c)"
  by (simp_all add: scanContainer_def)

lemma lockContainer_view: "lockContainerForUpdate i db = Inr c \<Longrightarrow> \<exists>r. container_row i db = Some r \<and> c = scanContainer r"
  unfolding lockContainerForUpdate_def by (rule selectContainerByID_view)

lemma lockLine_view: "lockLineForUpdate i db = Inr l \<Longrightarrow> \<exists>r. cline_row i db = Some r \<and> l = scan_line r"
  by (auto simp: lockLineForUpdate_def split: option.splits)

lemma scan_line_simps [simp]:
  "ctl_ID (scan_line l) = ctl_ID l" "ctl_ContainerID (scan_line l) = ctl_ContainerID l" "ctl_SKUID (scan_line l) = ctl_SKUID l"
  "ctl_SalesOrderLineID (scan_line l) = ctl_SalesOrderLineID l" "ctl_Qty (scan_line l) = ctl_Qty l"
  "ctl_CBMTotal (scan_line l) = fl (ctl_CBMTotal l)" "ctl_WeightKGTotal (scan_line l) = fl (ctl_WeightKGTotal l)"
  by (simp_all add: scan_line_def)

lemma deleteLine_view: "deleteLine rf i db = Inr db' \<Longrightarrow> db' = db\<lparr>container_lines := delete_where (\<lambda>l. ctl_ID l = i) (container_lines db)\<rparr> \<and> \<not> line_used rf db i"
  by (auto simp: deleteLine_def split: if_splits)

lemma flip_edit:
  assumes "flipToLoadingIfOpen rf k (scanContainer c) actor nt t db = Inr db'" and "container_row i db = Some c"
  shows "del_edits pct db db'"
proof (cases "ctn_Status c = ContainerStatusOpen")
  case True
  then obtain c1 where "updateContainerStatus rf k (status_change (scanContainer c) ContainerStatusLoading actor nt t) db = Inr (c1, db')"
    using assms(1) by (auto simp: flipToLoadingIfOpen_def)
  from status_edit [OF this assms(2)] show ?thesis using True by (auto simp: may_become_def)
qed (use assms(1) in \<open>simp add: flipToLoadingIfOpen_def\<close>)

lemma used_nonneg:
  assumes "del_ok pct db"
  shows "0 \<le> used_cbm i db" and "0 \<le> used_weight i db"
  using line_fineD [OF del_okD(6) [OF assms]] by (auto simp: used_cbm_def used_weight_def lines_in_def intro!: sum_list_nonneg)

text \<open>What the float comparison promises of the exact sums.\<close>

lemma capacity_kept:
  assumes ok: "del_ok pct db" and "checkCapacity pct (scanContainer c) (fst (projected i x y db)) (snd (projected i x y db)) = Inr u"
    and "0 \<le> x" and "0 \<le> y" and "cbm_col x = Inr m" and "weight_col y = Inr w"
  shows "used_cbm i db + m \<le> cbm_limit pct c \<and> used_weight i db + w \<le> weight_limit pct c"
proof -
  have "fl (fl (used_cbm i db) + x) \<le> fl (fl (ctn_MaxCBM c) * overhead pct)" "fl (fl (used_weight i db) + y) \<le> fl (fl (ctn_MaxPayloadKG c) * overhead pct)"
    using assms(2) by (auto simp: checkCapacity_def projected_def sumLinesAggregates_def split: if_splits)
  from projected_le [OF this(1) used_nonneg(1) [OF ok] assms(3,5)] projected_le [OF this(2) used_nonneg(2) [OF ok] assms(4,6)]
  show ?thesis by (simp add: cbm_limit_def weight_limit_def)
qed

section \<open>Adding, removing and moving lines\<close>

lemma log_overload_view:
  assumes "log_overload rf env inp c proj over db = Inr db'"
  shows "containers db' = containers db" "container_lines db' = container_lines db"
    "set (container_overload_log db) \<subseteq> set (container_overload_log db')" "over \<Longrightarrow> overfull (ctn_ID c) db'"
  using assms by (auto simp: log_overload_def insertOverloadLog_def overfull_def split: if_splits sum.splits)

lemma add_line_edits:
  assumes ok: "del_ok pct db" and run: "add_line_tx pct rf env inp db = Inr (near, db')" and nn: "0 \<le> ali_CBMTotal inp" "0 \<le> ali_WeightKGTotal inp"
  shows "del_edits pct db db'"
proof -
  let ?pr = "projected (ali_ContainerID inp) (ali_CBMTotal inp) (ali_WeightKGTotal inp) db"
  from run obtain c db1 db2 where row: "container_row (ali_ContainerID inp) db = Some c" and can: "canHoldLines (ctn_Status c)"
    and ins: "insertLine rf (new_line env inp) db = Inr db1"
    and log: "log_overload rf env inp (scanContainer c) ?pr (isl (checkCapacity pct (scanContainer c) (fst ?pr) (snd ?pr))) db1 = Inr db2"
    and fl: "flipToLoadingIfOpen rf (fresh env (if isl (checkCapacity pct (scanContainer c) (fst ?pr) (snd ?pr)) then 2 else 1))
        (scanContainer c) (ali_AddedBy inp) ''first line added'' (now env) db2 = Inr db'"
    by (auto simp: add_line_tx_def Let_def split: sum.splits if_splits prod.splits dest!: lockContainer_view)
  from ins obtain m w where mw: "cbm_col (ali_CBMTotal inp) = Inr m" "weight_col (ali_WeightKGTotal inp) = Inr w"
    and db1: "db1 = db\<lparr>container_lines := container_lines db @ [(new_line env inp)\<lparr>ctl_CBMTotal := m, ctl_WeightKGTotal := w\<rparr>]\<rparr>"
    and fine: "line_fine ((new_line env inp)\<lparr>ctl_CBMTotal := m, ctl_WeightKGTotal := w\<rparr>)" "ctl_ID (new_line env inp) \<notin> ctl_ID ` set (container_lines db)"
    by (rule insertLine_view) (auto simp: new_line_def)
  note lg = log_overload_view [OF log]
  have i: "ctn_ID c = ali_ContainerID inp" using row_by_SomeD [OF row] by simp
  have "overfull (ctn_ID c) db2 \<or> used_cbm (ctn_ID c) db + m \<le> cbm_limit pct c \<and> used_weight (ctn_ID c) db + w \<le> weight_limit pct c"
  proof (cases "checkCapacity pct (scanContainer c) (fst ?pr) (snd ?pr)")
    case (Inl e)
    then show ?thesis using lg(4) by simp
  next
    case (Inr u)
    from capacity_kept [OF ok Inr nn mw] show ?thesis by (simp add: i)
  qed
  then have "del_edit pct db db2"
    using lg(1-3) row can fine by (intro dl_line [where c = c and l = "(new_line env inp)\<lparr>ctl_CBMTotal := m, ctl_WeightKGTotal := w\<rparr>"]) (auto simp: db1 new_line_def)
  moreover have "del_edits pct db2 db'" using flip_edit [OF fl, of "ali_ContainerID inp"] row lg(1) db1 by simp
  ultimately show ?thesis by (rule converse_rtranclp_into_rtranclp)
qed

lemma AddLine_edits:
  assumes "del_ok (cbmOverheadPct deps) db" and "AddLine deps env inp (db, x) = (r, (db', x'))"
  shows "del_edits (cbmOverheadPct deps) db db'"
proof (cases "check_add deps inp x")
  case (Inr u)
  then have "0 \<le> ali_CBMTotal inp" "0 \<le> ali_WeightKGTotal inp" by (auto simp: check_add_def check_add_input_def split: if_splits sum.splits)
  with Inr assms show ?thesis
    by (cases "add_line_tx (cbmOverheadPct deps) (drefs deps x) env inp db") (auto simp: AddLine_def dest: add_line_edits)
qed (use assms(2) in \<open>simp add: AddLine_def\<close>)

lemma delete_line_edits:
  assumes ok: "del_ok pct db" and "delete_line_tx rf c i db = Inr db'"
  shows "del_edits pct db db'"
proof -
  from assms(2) obtain b l where b: "container_row c db = Some b" "canHoldLines (ctn_Status b)" and l: "cline_row i db = Some l" "ctl_ContainerID l = c"
    and db': "db' = db\<lparr>container_lines := delete_where (\<lambda>l. ctl_ID l = i) (container_lines db)\<rparr>"
    by (auto simp: delete_line_tx_def split: sum.splits if_splits dest!: lockContainer_view lockLine_view deleteLine_view)
  have "holds (ctl_ContainerID r) db" if "r \<in> set (container_lines db)" "ctl_ID r = i" for r
    using row_by_only [OF del_okD(3) [OF ok] l(1) that(1)] that(2) b l(2) by (simp add: holds_def)
  then have "del_edit pct db db'" by (intro dl_drop [where P = "\<lambda>l. ctl_ID l = i"]) (simp_all add: db')
  then show ?thesis by blast
qed

lemma DeleteLine_edits:
  assumes "del_ok pct db" and "DeleteLine deps c l (db, x) = (r, (db', x'))"
  shows "del_edits pct db db'"
  using assms(2) delete_line_edits [OF assms(1)] by (auto simp: DeleteLine_def split: sum.splits)

text \<open>A line put into a container after its capacity was checked, with the lines of the container as they were.\<close>

lemma put_line_edit:
  assumes ok: "del_ok pct db" and cap: "checkCapacityFromAggregate pct (scanContainer c) x y db = Inr u" and nn: "0 \<le> x" "0 \<le> y"
    and row: "container_row (ctn_ID c) db = Some c" and can: "canHoldLines (ctn_Status c)"
    and ins: "insertLine rf l db1 = Inr db2" and l: "ctl_ContainerID l = ctn_ID c" "ctl_CBMTotal l = x" "ctl_WeightKGTotal l = y"
    and db1: "containers db1 = containers db" "lines_in (ctn_ID c) db1 = lines_in (ctn_ID c) db"
  shows "del_edit pct db1 db2" and "containers db2 = containers db"
proof -
  from ins obtain m w where mw: "cbm_col x = Inr m" "weight_col y = Inr w"
    and db2: "db2 = db1\<lparr>container_lines := container_lines db1 @ [l\<lparr>ctl_CBMTotal := m, ctl_WeightKGTotal := w\<rparr>]\<rparr>"
    and fine: "line_fine (l\<lparr>ctl_CBMTotal := m, ctl_WeightKGTotal := w\<rparr>)" "ctl_ID l \<notin> ctl_ID ` set (container_lines db1)"
    using l(2,3) by (auto elim!: insertLine_view)
  have "checkCapacity pct (scanContainer c) (fst (projected (ctn_ID c) x y db)) (snd (projected (ctn_ID c) x y db)) = Inr u"
    using cap by (simp add: checkCapacityFromAggregate_def split: prod.splits)
  from capacity_kept [OF ok this nn mw] have "used_cbm (ctn_ID c) db1 + m \<le> cbm_limit pct c \<and> used_weight (ctn_ID c) db1 + w \<le> weight_limit pct c"
    using db1(2) by (simp add: used_cbm_def used_weight_def)
  then show "del_edit pct db1 db2"
    using row can fine db1(1) l(1) by (intro dl_line [where c = c and l = "l\<lparr>ctl_CBMTotal := m, ctl_WeightKGTotal := w\<rparr>"]) (auto simp: db2)
  show "containers db2 = containers db" by (simp add: db2 db1(1))
qed

lemma finish_edits:
  assumes "finish_transfer rf env inp (scanContainer c) au db = Inr db'" and "container_row (ctn_ID c) db = Some c"
  shows "del_edits pct db db'"
proof -
  from assms(1) obtain db1 where "flipToLoadingIfOpen rf (fresh env 1) (scanContainer c) (tl_ActorID inp) ''first line added via transfer'' (now env) db = Inr db1"
    and audit: "insertTransferAudit rf au db1 = Inr db'" by (auto simp: finish_transfer_def split: sum.splits)
  from flip_edit [OF this(1) assms(2)] have "del_edits pct db db1" .
  moreover have "del_edit pct db1 db'" using audit by (intro dl_other) (auto simp: insertTransferAudit_def split: sum.splits)
  ultimately show ?thesis by (rule rtranclp.rtrancl_into_rtrancl)
qed

lemma move_whole_edits:
  assumes ok: "del_ok pct db" and run: "move_whole pct rf env inp src (scanContainer c) cp (scan_line l) db = Inr (r, db')"
    and c: "container_row (ctn_ID c) db = Some c" "canHoldLines (ctn_Status c)" and l: "cline_row (ctl_ID l) db = Some l" "holds (ctl_ContainerID l) db"
  shows "del_edits pct db db'"
proof -
  let ?nl = "moved_line env inp (scanContainer c) (scan_line l) (ctl_Qty l) (fl (ctl_CBMTotal l)) (fl (ctl_WeightKGTotal l))"
  from run obtain u db1 db2 au where cap: "checkCapacityFromAggregate pct (scanContainer c) (fl (ctl_CBMTotal l)) (fl (ctl_WeightKGTotal l)) db = Inr u"
    and ins: "insertLine rf ?nl db = Inr db1" and del: "deleteLine rf (ctl_ID l) db1 = Inr db2"
    and fin: "finish_transfer rf env inp (scanContainer c) au db2 = Inr db'"
    by (auto simp: move_whole_def Let_def split: sum.splits)
  have nn: "0 \<le> fl (ctl_CBMTotal l)" "0 \<le> fl (ctl_WeightKGTotal l)"
    using line_fineD [OF del_okD(6) [OF ok]] row_by_SomeD [OF l(1)] by (auto intro: fl_nonneg)
  have one: "del_edit pct db db1" "containers db1 = containers db"
    by (rule put_line_edit [OF ok cap nn c ins]; simp add: moved_line_def)+
  note ok1 = del_edit_ok [OF one(1) ok]
  have two: "db2 = db1\<lparr>container_lines := delete_where (\<lambda>r. ctl_ID r = ctl_ID l) (container_lines db1)\<rparr>" using deleteLine_view [OF del] by blast
  have "cline_row (ctl_ID l) db1 = Some l" using ins l(1) by (auto elim!: insertLine_view)
  then have "holds (ctl_ContainerID x) db1" if "x \<in> set (container_lines db1)" "ctl_ID x = ctl_ID l" for x
    using row_by_only [OF del_okD(3) [OF ok1], of "ctl_ID l" l x] that l(2) one(2) by (auto simp: holds_def)
  then have "del_edit pct db1 db2" by (intro dl_drop [where P = "\<lambda>r. ctl_ID r = ctl_ID l"]) (auto simp: two)
  moreover have "del_edits pct db2 db'" using fin c(1) one(2) by (intro finish_edits) (auto simp: two)
  ultimately show ?thesis using one(1) by (meson converse_rtranclp_into_rtranclp)
qed

lemma move_part_edits:
  assumes ok: "del_ok pct db" and run: "move_part pct rf env inp src (scanContainer c) cp (scan_line l) db = Inr (r, db')"
    and c: "container_row (ctn_ID c) db = Some c" "canHoldLines (ctn_Status c)" and l: "cline_row (ctl_ID l) db = Some l" "holds (ctl_ContainerID l) db"
    and other: "ctl_ContainerID l \<noteq> ctn_ID c"
  shows "del_edits pct db db'"
proof -
  let ?x = "tl_CBMTotal inp" let ?y = "tl_WeightKGTotal inp"
  let ?nl = "moved_line env inp (scanContainer c) (scan_line l) (tl_Qty inp) ?x ?y"
  from run obtain u db1 db2 au where cap: "checkCapacityFromAggregate pct (scanContainer c) ?x ?y db = Inr u"
    and x: "0 < ?x" "?x \<le> fl (ctl_CBMTotal l)" "0 < ?y" "?y \<le> fl (ctl_WeightKGTotal l)"
    and upd: "updateLineQty (ctl_ID l) (ctl_Qty l - tl_Qty inp) (fl (fl (ctl_CBMTotal l) - ?x)) (fl (fl (ctl_WeightKGTotal l) - ?y)) db = Inr db1"
    and ins: "insertLine rf ?nl db1 = Inr db2" and fin: "finish_transfer rf env inp (scanContainer c) au db2 = Inr db'"
    by (auto simp: move_part_def Let_def not_less not_le split: sum.splits if_splits)
  from upd obtain m w where mw: "cbm_col (fl (fl (ctl_CBMTotal l) - ?x)) = Inr m" "weight_col (fl (fl (ctl_WeightKGTotal l) - ?y)) = Inr w"
    and q: "0 < ctl_Qty l - tl_Qty inp" "0 \<le> m" "0 \<le> w"
    and db1: "db1 = db\<lparr>container_lines := update_where (\<lambda>r. ctl_ID r = ctl_ID l) (\<lambda>r. r\<lparr>ctl_Qty := ctl_Qty l - tl_Qty inp, ctl_CBMTotal := m, ctl_WeightKGTotal := w\<rparr>) (container_lines db)\<rparr>"
    by (auto simp: updateLineQty_def split: sum.splits if_splits)
  have lf: "line_fine l" using del_okD(6) [OF ok] row_by_SomeD [OF l(1)] by blast
  have dec: "decimal_col 8 3 (ctl_CBMTotal l)" "decimal_col 10 2 (ctl_WeightKGTotal l)" using lf by (auto simp: line_fine_def)
  have "m \<le> ctl_CBMTotal l"
    by (rule numeric_col_shrink [OF mw(1) _ fl_rest dec(1)]) (use x decimal_col_nonneg [OF dec(1)] in \<open>auto intro: fl_nonneg\<close>)
  moreover have "w \<le> ctl_WeightKGTotal l"
    by (rule numeric_col_shrink [OF mw(2) _ fl_rest dec(2)]) (use x decimal_col_nonneg [OF dec(2)] in \<open>auto intro: fl_nonneg\<close>)
  moreover have "line_fine (l\<lparr>ctl_Qty := ctl_Qty l - tl_Qty inp, ctl_CBMTotal := m, ctl_WeightKGTotal := w\<rparr>)"
    using q numeric_col_decimal [OF mw(1)] numeric_col_decimal [OF mw(2)] by (simp add: line_fine_def)
  ultimately have one: "del_edit pct db db1"
    using l by (intro dl_shrink [where i = "ctl_ID l" and l = l and f = "\<lambda>r. r\<lparr>ctl_Qty := ctl_Qty l - tl_Qty inp, ctl_CBMTotal := m, ctl_WeightKGTotal := w\<rparr>"])
      (simp_all add: db1)
  have same: "lines_in (ctn_ID c) db1 = lines_in (ctn_ID c) db"
  proof -
    have "r = l" if "r \<in> set (container_lines db)" "ctl_ID r = ctl_ID l" for r
      using row_by_only [OF del_okD(3) [OF ok] l(1) that(1)] that(2) by simp
    then have "\<And>r. r \<in> set (container_lines db) \<Longrightarrow> ctl_ID r = ctl_ID l \<Longrightarrow> ctl_ContainerID r \<noteq> ctn_ID c" using other by blast
    then show ?thesis unfolding db1 lines_in_def by (auto intro: filter_update_other)
  qed
  have two: "del_edit pct db1 db2" "containers db2 = containers db"
    by (rule put_line_edit [OF ok cap _ _ c ins]; use x same in \<open>simp add: moved_line_def db1\<close>)+
  have "del_edits pct db2 db'" using fin c(1) two(2) by (intro finish_edits) auto
  then show ?thesis using one two(1) by (meson converse_rtranclp_into_rtranclp)
qed

lemma lock_pair_view:
  assumes "lock_pair i j db = Inr (a, b)" and "i \<noteq> j"
  obtains r s where "container_row i db = Some r" "a = scanContainer r" "container_row j db = Some s" "b = scanContainer s"
proof -
  have key: "ctn_ID r = k" if "container_row k db = Some r" for k r using row_by_SomeD [OF that] by simp
  from assms show thesis
    by (auto simp: lock_pair_def orderUUIDs_def split: sum.splits if_splits dest!: lockContainer_view intro: that dest: key)
qed

lemma transfer_edits:
  assumes ok: "del_ok pct db" and run: "transfer_tx pct rf env inp db = Inr (r, db')" and ne: "tl_ContainerID inp \<noteq> tl_TargetContainerID inp"
  shows "del_edits pct db db'"
proof -
  from run obtain src target where pair: "lock_pair (tl_ContainerID inp) (tl_TargetContainerID inp) db = Inr (src, target)"
    by (auto simp: transfer_tx_def split: sum.splits)
  from pair obtain a b where ab: "container_row (tl_ContainerID inp) db = Some a" "src = scanContainer a"
    "container_row (tl_TargetContainerID inp) db = Some b" "target = scanContainer b" by (rule lock_pair_view [OF _ ne])
  have ids: "ctn_ID a = tl_ContainerID inp" "ctn_ID b = tl_TargetContainerID inp" using row_by_SomeD [OF ab(1)] row_by_SomeD [OF ab(3)] by auto
  let ?cp = "hasApprovedLoadingPlan (ctn_ID a) db"
  from run pair obtain l where can: "canHoldLines (ctn_Status a)" "canHoldLines (ctn_Status b)"
    and l: "cline_row (tl_LineID inp) db = Some l" "ctl_ContainerID l = ctn_ID a"
    and move: "move_whole pct rf env inp src target ?cp (scan_line l) db = Inr (r, db') \<or> move_part pct rf env inp src target ?cp (scan_line l) db = Inr (r, db')"
    by (auto simp: transfer_tx_def ab(2,4) Let_def split: sum.splits if_splits dest!: lockLine_view)
  have row: "cline_row (ctl_ID l) db = Some l" using l(1) row_by_SomeD [OF l(1)] by simp
  have "holds (ctl_ContainerID l) db" using ab(1) can(1) l(2) ids(1) by (simp add: holds_def)
  then show ?thesis
    using move move_whole_edits [OF ok _ _ can(2) row] move_part_edits [OF ok _ _ can(2) row] ab(3) ids l(2) ne by (auto simp: ab(4))
qed

lemma TransferLine_edits:
  assumes "del_ok (cbmOverheadPct deps) db" and "TransferLine deps env inp (db, x) = (r, (db', x'))"
  shows "del_edits (cbmOverheadPct deps) db db'"
  using assms(2) transfer_edits [OF assms(1)] by (auto simp: TransferLine_def split: sum.splits if_splits)

section \<open>Transitions\<close>

lemma change_status_edits:
  assumes "change_status rf env from to i actor nt db = (r, db')" and "\<And>s. from s \<Longrightarrow> may_become s to"
  shows "del_edits pct db db'"
proof (cases "db' = db")
  case False
  with assms(1) obtain c c1 where "container_row i db = Some c" "from (ctn_Status c)"
    "updateContainerStatus rf (fresh env 0) (status_change (scanContainer c) to actor nt (now env)) db = Inr (c1, db')"
    by (auto simp: change_status_def split: sum.splits if_splits dest!: lockContainer_view)
  then show ?thesis using status_edit assms(2) by blast
qed simp

lemma transition_edits:
  "Reopen rf env i u nt db = (r, db') \<Longrightarrow> del_edits pct db db'"
  "Ship rf env i u nt db = (r, db') \<Longrightarrow> del_edits pct db db'"
  "CancelContainer rf env i u nt db = (r, db') \<Longrightarrow> del_edits pct db db'"
  by (auto simp: Reopen_def Ship_def CancelContainer_def may_become_def canHoldLines_def split: if_splits elim!: change_status_edits)

text \<open>A seal that succeeds, with the items it reported in the same transaction.\<close>

lemma seal_tx_view:
  assumes "seal_tx ship rfs env inp (db, x) = Inr (c, db', x')"
  obtains items where "listLinesForSeal (se_ContainerID inp) db = Inr items" "items \<noteq> []" "ship items x = Inr x'" "seals (se_ContainerID inp) db db'"
proof -
  let ?chg = "\<lambda>b. status_change (scanContainer b) ContainerStatusSealed (se_ActorID inp) (se_Note inp) (now env)"
  from assms obtain b items where b: "container_row (se_ContainerID inp) db = Some b" "canHoldLines (ctn_Status b)"
    and items: "listLinesForSeal (se_ContainerID inp) db = Inr items" "items \<noteq> []" "ship items x = Inr x'"
    and upd: "updateContainerStatus (rfs x') (fresh env 0) (?chg b) db = Inr (c, db')"
    by (auto simp: seal_tx_def split: sum.splits if_splits prod.splits dest!: lockContainer_view)
  have "containers db' = update_where (\<lambda>c. ctn_ID c = se_ContainerID inp) (set_container_status (?chg b)) (containers db)"
    using updateContainerStatus_view(1) [OF upd] row_by_SomeD [OF b(1)] by (simp add: status_change_def)
  moreover have "same_box c (set_container_status (?chg b) c) \<and> ctn_Status (set_container_status (?chg b) c) = ContainerStatusSealed" for c
    using set_container_status_box [of c "?chg b"] by (simp add: status_change_def)
  ultimately have "seals (se_ContainerID inp) db db'"
    using updateContainerStatus_view(2,3) [OF upd] b unfolding seals_def holds_def by blast
  with items that show thesis by blast
qed

lemma Seal_view:
  assumes "Seal deps env inp (db, x) = (r, (db', x'))"
  obtains (refused) "db' = db" "x' = x" "isl r"
  | (sealed) ship c x1 where "shipRecorder deps = Some ship" "seal_tx ship (drefs deps) env inp (db, x) = Inr (c, db', x1)" "r = Inr c"
      "x' = record_shortages deps inp db' (track deps (\<lambda>t x. snd (MarkLoaded t db' (se_ContainerID inp) x)) x1)"
  using assms by (auto simp: Seal_def split: option.splits sum.splits prod.splits)

section \<open>Containers, plans, loader, destination\<close>

lemma CreateContainer_edits:
  assumes "CreateContainer deps env day inp x db = (r, db')"
  shows "del_edits pct db db'"
proof -
  have same: "del_edit pct db db1" if "containers db1 = containers db" "container_lines db1 = container_lines db" "container_overload_log db1 = container_overload_log db" for db1
    using that by (rule dl_other)
  have code: "containers db1 = containers db \<and> container_lines db1 = container_lines db \<and> container_overload_log db1 = container_overload_log db"
    if "nextContainerCode day db = (q, db1)" for q db1
    using that by (auto simp: nextContainerCode_def Let_def split: if_splits)
  have ins: "db2 = db1 \<or> del_edit pct db1 db2" if "insertContainer rf c db1 = (q, db2)" "ctn_Status c = ContainerStatusOpen" for rf c db1 db2 q
  proof (cases "db2 = db1")
    case False
    with that(1) obtain m w where "db2 = db1\<lparr>containers := containers db1 @ [c\<lparr>ctn_MaxCBM := m, ctn_MaxPayloadKG := w\<rparr>]\<rparr>" "0 < m" "0 < w"
      "ctn_ID c \<notin> ctn_ID ` set (containers db1)" "ctn_Code c \<notin> ctn_Code ` set (containers db1)"
      by (auto simp: insertContainer_def split: sum.splits if_splits)
    with that(2) show ?thesis by (intro disjI2 dl_new [where c = "c\<lparr>ctn_MaxCBM := m, ctn_MaxPayloadKG := w\<rparr>"]) auto
  qed simp
  show ?thesis using assms
    by (auto simp: CreateContainer_def Let_def split: option.splits if_splits sum.splits prod.splits dest!: code ins same intro: converse_rtranclp_into_rtranclp)
qed

lemma save_plan_edits: "save_plan deps env inp ls (db, x) = (r, (db', x')) \<Longrightarrow> del_edits pct db db'"
  by (rule r_into_rtranclp, rule dl_other) (auto simp: save_plan_def insertLoadingPlanWithLines_def Let_def split: sum.splits prod.splits)

lemma UploadLoadingPlan_edits: "UploadLoadingPlan deps pf env inp (db, x) = (r, (db', x')) \<Longrightarrow> del_edits pct db db'"
  by (auto simp: UploadLoadingPlan_def split: if_splits option.splits sum.splits prod.splits dest: save_plan_edits)

lemma promote_tables: "promote rf p actor t db = Inr (q, db') \<Longrightarrow>
    containers db' = containers db \<and> container_lines db' = container_lines db \<and> container_overload_log db' = container_overload_log db"
  by (auto simp: promote_def Let_def split: if_splits option.splits)

lemma approve_tx_edits:
  assumes "approve_tx rf env must inp db = (r, db')" and "lplan_row (ap_PlanID inp) db = Some p" and "holds (lpn_ContainerID p) db"
  shows "del_edits pct db db'"
proof (cases "db' = db")
  case False
  show ?thesis
  proof (cases must)
    case True
    with False assms(1,2) obtain q hist where
      "promote rf p (ap_ActorID inp) (now env) (db\<lparr>container_lines_history := hist,
         container_lines := delete_where (\<lambda>l. ctl_ContainerID l = lpn_ContainerID p) (container_lines db)\<rparr>) = Inr (q, db')"
      by (auto simp: approve_tx_def supersedeLoadingPlanTx_def Let_def split: sum.splits prod.splits if_splits)
    from promote_tables [OF this] assms(3) have "del_edit pct db db'"
      by (intro dl_drop [where P = "\<lambda>l. ctl_ContainerID l = lpn_ContainerID p"]) auto
    then show ?thesis by blast
  next
    case False
    with \<open>db' \<noteq> db\<close> assms(1,2) obtain q where "promote rf p (ap_ActorID inp) (now env) db = Inr (q, db')"
      by (auto simp: approve_tx_def approveLoadingPlanTx_def split: sum.splits prod.splits if_splits)
    from promote_tables [OF this] have "del_edit pct db db'" by (intro dl_other) auto
    then show ?thesis by blast
  qed
qed simp

lemma ApproveLoadingPlan_edits:
  assumes "ApproveLoadingPlan deps env inp (db, x) = (r, (db', x'))"
  shows "del_edits pct db db'"
proof (cases "db' = db")
  case False
  with assms obtain p c must q where "lplan_row (ap_PlanID inp) db = Some p" "container_row (lpn_ContainerID p) db = Some c" "canHoldLines (ctn_Status c)"
    "approve_tx (drefs deps x) env must inp db = (q, db')"
    by (auto simp: ApproveLoadingPlan_def selectLoadingPlanByID_def Let_def split: if_splits sum.splits option.splits prod.splits dest!: selectContainerByID_view)
  then show ?thesis by (auto intro!: approve_tx_edits simp: holds_def)
qed simp

lemma AssignLoader_edits:
  assumes "AssignLoader rf env inp db = (r, db')"
  shows "del_edits pct db db'"
proof (cases "db' = db")
  case False
  with assms have "containers db' = update_where (\<lambda>c. ctn_ID c = lo_ContainerID inp) (\<lambda>c. c\<lparr>ctn_LoaderID := lo_LoaderID inp\<rparr>) (containers db)"
      "container_lines db' = container_lines db" "container_overload_log db' = container_overload_log db"
    by (auto simp: AssignLoader_def updateContainerLoader_def split: if_splits sum.splits prod.splits)
  then have "del_edit pct db db'" by (rule dl_meta) (auto simp: same_box_def)
  then show ?thesis by blast
qed simp

lemma ChangeDestination_edits:
  assumes "ChangeDestination rf env inp db = (r, db')"
  shows "del_edits pct db db'"
proof (cases "db' = db")
  case False
  with assms obtain cl where "containers db' = update_where (\<lambda>c. ctn_ID c = de_ContainerID inp) (set_destination (de_DestinationCode inp) (de_DestinationName inp) cl) (containers db)"
      "container_lines db' = container_lines db" "container_overload_log db' = container_overload_log db"
    by (auto simp: ChangeDestination_def changeDestinationTx_def Let_def split: if_splits sum.splits prod.splits)
  then have "del_edit pct db db'" by (rule dl_meta) (auto simp: same_box_def set_destination_def Let_def)
  then show ?thesis by blast
qed simp

section \<open>Every run\<close>

lemma del_call_cases:
  assumes "del_call deps (db, x) (db', x')" and ok: "del_ok (cbmOverheadPct deps) db"
  obtains (edits) "del_edits (cbmOverheadPct deps) db db'"
  | (seal) env inp r where "Seal deps env inp (db, x) = (r, (db', x'))"
  using assms(1)
proof cases
  case (step_booking P t v)
  have "del_edit (cbmOverheadPct deps) db db'" by (rule dl_meta [of _ P "\<lambda>c. c\<lparr>ctn_VesselID := v, ctn_CutoffDate := t\<rparr>"]) (simp_all add: step_booking same_box_def)
  then show ?thesis using edits by blast
next
  case step_service
  then show ?thesis
    by cases (auto dest: AddLine_edits [OF ok] DeleteLine_edits [OF ok] TransferLine_edits [OF ok]
      transition_edits [where pct = "cbmOverheadPct deps"] CreateContainer_edits [where pct = "cbmOverheadPct deps"]
      UploadLoadingPlan_edits [where pct = "cbmOverheadPct deps"] ApproveLoadingPlan_edits [where pct = "cbmOverheadPct deps"]
      AssignLoader_edits [where pct = "cbmOverheadPct deps"] ChangeDestination_edits [where pct = "cbmOverheadPct deps"] intro: edits seal)
qed

lemma del_call_edits:
  assumes "del_call deps (db, x) (db', x')" and "del_ok (cbmOverheadPct deps) db"
  shows "del_edits (cbmOverheadPct deps) db db' \<or> (\<exists>i. seals i db db')"
  using assms
proof (cases rule: del_call_cases)
  case (seal env inp r)
  then show ?thesis by (cases rule: Seal_view) (auto elim!: seal_tx_view)
qed blast

lemma del_step_edits:
  assumes "del_step deps (db, x) (db', x')" and "del_ok (cbmOverheadPct deps) db"
  shows "del_edits (cbmOverheadPct deps) db db' \<or> (\<exists>i. seals i db db')"
  using assms(1) by cases (auto dest: del_call_edits [OF _ assms(2)])

lemma del_edits_ok: "del_edits pct db db' \<Longrightarrow> del_ok pct db \<Longrightarrow> del_ok pct db'"
  by (induction rule: rtranclp_induct) (auto intro: del_edit_ok)

lemma lives_star:
  assumes "\<And>a b. R a b \<Longrightarrow> J a \<Longrightarrow> lives a b \<and> J b" and "R\<^sup>*\<^sup>* a b" and "J a" and "container_row i a = Some c"
  shows "\<exists>c'. container_row i b = Some c' \<and> same_box c c' \<and> ctn_Status c' \<in> container_future (ctn_Status c) \<and>
    (ctn_Status c \<in> {ContainerStatusShipped, ContainerStatusCancelled} \<longrightarrow> lines_in i b = lines_in i a)"
proof -
  have "J b \<and> (\<exists>c'. container_row i b = Some c' \<and> same_box c c' \<and> ctn_Status c' \<in> container_future (ctn_Status c) \<and>
    (ctn_Status c \<in> {ContainerStatusShipped, ContainerStatusCancelled} \<longrightarrow> lines_in i b = lines_in i a))"
    using assms(2)
  proof (induction rule: rtranclp_induct)
    case base
    then show ?case using assms(3,4) by simp
  next
    case (step y z)
    then obtain r where ok: "J y" and r: "container_row i y = Some r" "same_box c r" "ctn_Status r \<in> container_future (ctn_Status c)"
      "ctn_Status c \<in> {ContainerStatusShipped, ContainerStatusCancelled} \<longrightarrow> lines_in i y = lines_in i a" by blast
    from assms(1) [OF step.hyps(2) ok] have "lives y z" "J z" by auto
    with r(1) obtain t where t: "container_row i z = Some t" "same_box r t" "ctn_Status t \<in> container_future (ctn_Status r)"
      "\<not> canHoldLines (ctn_Status r) \<longrightarrow> lines_in i z = lines_in i y" unfolding lives_def by blast
    have "\<not> canHoldLines (ctn_Status r)" if "ctn_Status c \<in> {ContainerStatusShipped, ContainerStatusCancelled}"
      using that r(3) by (auto simp: canHoldLines_def)
    then show ?case using \<open>J z\<close> t r same_box_trans [OF r(2) t(2)] container_future_trans [OF r(3) t(3)] by auto
  qed
  then show ?thesis ..
qed

lemma edits_delivered: "del_edits pct db db' \<Longrightarrow> del_ok pct db \<Longrightarrow> delivered s db' \<le> delivered s db"
proof (induction rule: rtranclp_induct)
  case (step y z)
  have "del_ok pct y" using step.hyps(1) step.prems by (rule del_edits_ok)
  then show ?case using del_edit_delivered [OF step.hyps(2), of s] step.IH [OF step.prems] by linarith
qed simp

text \<open>The same life, over the edits a call is made of and over the calls of a run.\<close>

lemma step_life:
  assumes "del_step deps s s'" and "del_ok (cbmOverheadPct deps) (fst s)"
  shows "del_ok (cbmOverheadPct deps) (fst s')"
    and "(\<lambda>a b. (del_edit (cbmOverheadPct deps) a b \<or> (\<exists>i. seals i a b)))\<^sup>*\<^sup>* (fst s) (fst s')"
proof -
  obtain db x db' x' where s: "s = (db, x)" "s' = (db', x')" by force
  note e = del_step_edits [OF assms(1) [unfolded s]]
  show "del_ok (cbmOverheadPct deps) (fst s')" using e assms(2) by (auto simp: s dest: del_edits_ok seals_ok)
  show "(\<lambda>a b. (del_edit (cbmOverheadPct deps) a b \<or> (\<exists>i. seals i a b)))\<^sup>*\<^sup>* (fst s) (fst s')"
    using e assms(2) by (auto simp: s elim: mono_rtranclp [rule_format, rotated] intro: r_into_rtranclp)
qed

interpretation delivery: invariant "\<lambda>s. fst s = empty_delivery" "del_step deps" "\<lambda>s. del_ok (cbmOverheadPct deps) (fst s)"
proof
  show "del_ok (cbmOverheadPct deps) (fst s)" if "fst s = empty_delivery" for s :: "delivery_db \<times> 'a"
    using that by (simp add: empty_delivery_def del_ok_def)
qed (rule step_life(1))

lemma run_life:
  assumes "(del_step deps)\<^sup>*\<^sup>* s s'" and "del_ok (cbmOverheadPct deps) (fst s)"
  shows "(\<lambda>a b. (del_edit (cbmOverheadPct deps) a b \<or> (\<exists>i. seals i a b)))\<^sup>*\<^sup>* (fst s) (fst s')"
  using assms(1)
proof (induction rule: rtranclp_induct)
  case (step y z)
  have "del_ok (cbmOverheadPct deps) (fst y)" using delivery.star_inv [OF assms(2) step.hyps(1)] .
  from step_life(2) [OF step.hyps(2) this] step.IH show ?case by (rule rtranclp_trans [rotated])
qed simp

lemma container_life:
  assumes "(del_step deps)\<^sup>*\<^sup>* s s'" and "del_ok (cbmOverheadPct deps) (fst s)" and "container_row i (fst s) = Some c"
  shows "\<exists>c'. container_row i (fst s') = Some c' \<and> same_box c c' \<and> ctn_Status c' \<in> container_future (ctn_Status c) \<and>
    (ctn_Status c \<in> {ContainerStatusShipped, ContainerStatusCancelled} \<longrightarrow> lines_in i (fst s') = lines_in i (fst s))"
  by (rule lives_star [where J = "del_ok (cbmOverheadPct deps)", OF _ run_life [OF assms(1,2)] assms(2,3)])
    (auto intro: del_edit_lives seals_lives del_edit_ok seals_ok)

end
