(* ===== verification/Delivery_Wiring.thy ===== *)
theory Delivery_Wiring
  imports Delivery_Steps Packing_Invariant Sales_Invariant
begin

text \<open>
  Delivery wired to sales and packing as \<^verbatim>\<open>cmd/server/main.go\<close> does it: the adapters, the state the modules share, and
  the laws of the interfaces. \<open>w_rest\<close> is the state of the modules that are neither sales, packing nor delivery;
  \<open>base\<close> holds what they give to delivery, and \<open>pk\<close> the keys that packing reads of them.
\<close>

section \<open>Adapters\<close>

record 'z world =
  w_pool :: packing_db
  w_sales :: sales_db
  w_splits :: "(SplitToPlanInput \<times> SOStatus) list"
  w_rest :: 'z

definition on_pool :: "(packing_db, 'a) op \<Rightarrow> ('z world, 'a) op" where
  "on_pool f w = (let (r, p) = f (w_pool w) in (r, w\<lparr>w_pool := p\<rparr>))"

definition on_rest :: "('z, 'a) op \<Rightarrow> ('z world, 'a) op" where
  "on_rest f w = (let (r, z) = f (w_rest w) in (r, w\<lparr>w_rest := z\<rparr>))"

text \<open>The foreign keys between the tables of the three modules.\<close>

definition delivery_refs :: "('z \<Rightarrow> del_refs) \<Rightarrow> 'z world \<Rightarrow> del_refs" where
  "delivery_refs rf w = (rf (w_rest w))\<lparr>dref_so_lines := map sl_ID (so_lines (w_sales w)), dref_used_lines := List.map_filter fg_ContainerLineID (fg_pool (w_pool w))\<rparr>"

definition soonest_cutoff :: "delivery_db \<Rightarrow> uuid \<Rightarrow> time option" where
  "soonest_cutoff db sol =
     (let ts = List.map_filter (\<lambda>l. case container_row (ctl_ContainerID l) db of
                 None \<Rightarrow> None
               | Some c \<Rightarrow> if ctl_SalesOrderLineID l = sol \<and> ctn_Status c \<notin> {ContainerStatusSealed, ContainerStatusCancelled} then ctn_CutoffDate c else None)
               (container_lines db)
      in case ts of [] \<Rightarrow> None | t # ts \<Rightarrow> Some (foldr min ts t))"

definition packing_refs :: "('z \<Rightarrow> pack_refs) \<Rightarrow> delivery_db \<Rightarrow> 'z world \<Rightarrow> pack_refs" where
  "packing_refs pk db w = (pk (w_rest w))\<lparr>fgref_so_lines := map sl_ID (so_lines (w_sales w)),
     fgref_container_lines := map (\<lambda>l. (ctl_ID l, ctl_ContainerID l)) (container_lines db), fgref_cutoff := soonest_cutoff db\<rparr>"

definition deliverySOLineAdapter :: "uuid \<Rightarrow> 'z world \<Rightarrow> SOLineInfo result" where
  "deliverySOLineAdapter i w =
     (case GetSOLine i (w_sales w) of
        Inl e \<Rightarrow> Inl e
      | Inr (l, so) \<Rightarrow> Inr \<lparr>sli_ID = sl_ID l, sli_SOID = so_ID so, sli_SOStatus = so_status_text (so_Status so), sli_SKUID = sl_SKUID l,
                           sli_QtyPlanned = sl_QtyPlanned l, sli_QtyShipped = sl_QtyShipped l\<rparr>)"

definition deliveryShipmentAdapter :: "ShipmentItem list \<Rightarrow> 'z world \<Rightarrow> 'z world result" where
  "deliveryShipmentAdapter items w =
     map_sum id (\<lambda>s. w\<lparr>w_sales := s\<rparr>) (RecordShipmentTx (map (\<lambda>it. \<lparr>shi_SOLineID = si_SOLineID it, shi_Qty = si_Qty it\<rparr>) items) (w_sales w))"

definition deliveryCustomerSKUAdapter :: "uuid \<Rightarrow> string \<Rightarrow> 'z world \<Rightarrow> uuid result" where
  "deliveryCustomerSKUAdapter c code w = map_sum id csm_SKUID (GetCustomerSKUMapping c code (w_sales w))"

text \<open>\<open>held\<close> are the pieces that other transactions have locked, which the reservation skips.\<close>

definition deliveryFGTrackerAdapter :: "('z \<Rightarrow> pack_refs) \<Rightarrow> (uuid \<Rightarrow> bool) \<Rightarrow> 'z world FGTracker" where
  "deliveryFGTrackerAdapter pk held =
     \<lparr>ReserveOnAdd = (\<lambda>db req w. on_pool (ReserveOnContainerAdd (packing_refs pk db w) held
          \<lparr>ri_SKUID = frr_SKUID req, ri_SalesOrderLineID = frr_SalesOrderLineID req, ri_Qty = frr_Qty req, ri_ContainerLineID = frr_ContainerLineID req\<rparr>) w),
      ReleaseOnDelete = (\<lambda>db l w. on_pool (ReleaseOnContainerDelete (packing_refs pk db w) l) w),
      MarkLoaded = (\<lambda>db c w. on_pool (MarkLoadedOnSeal (packing_refs pk db w) c) w)\<rparr>"

text \<open>\<open>pbase\<close> gives the neighbours of packing that are outside: barcodes, work orders, events, component lists.\<close>

definition deliveryFGComponentCheckerAdapter ::
  "('z \<Rightarrow> pack_refs) \<Rightarrow> (delivery_db \<times> 'z world) pack_deps \<Rightarrow> uuid \<Rightarrow> delivery_db \<Rightarrow> 'z world \<Rightarrow> unit result" where
  "deliveryFGComponentCheckerAdapter pk pbase c db w = CheckComponentsForSeal (pbase\<lparr>prefs := (\<lambda>(db, w). packing_refs pk db w)\<rparr>) c (w_pool w, (db, w))"

definition wired_delivery :: "'z del_deps \<Rightarrow> ('z \<Rightarrow> pack_refs) \<Rightarrow> (uuid \<Rightarrow> bool) \<Rightarrow> (delivery_db \<times> 'z world) pack_deps \<Rightarrow> 'z world del_deps" where
  "wired_delivery base pk held pbase =
     \<lparr>drefs = delivery_refs (drefs base),
      dskuChecker = map_option (\<lambda>f i w. f i (w_rest w)) (dskuChecker base),
      soLineChecker = Some deliverySOLineAdapter,
      shipRecorder = Some deliveryShipmentAdapter,
      fgTracker = Some (deliveryFGTrackerAdapter pk held),
      skuResolver = Some deliveryCustomerSKUAdapter,
      lpAuditor = map_option (\<lambda>f i. on_rest (f i)) (lpAuditor base),
      planReloader = map_option (\<lambda>f i. on_rest (f i)) (planReloader base),
      pendingExc = map_option (\<lambda>f i w. f i (w_rest w)) (pendingExc base),
      shortShipped = map_option (\<lambda>f db i. on_rest (f db i)) (shortShipped base),
      fgCompChecker = Some (deliveryFGComponentCheckerAdapter pk pbase),
      cbmOverheadPct = cbmOverheadPct base\<rparr>"

section \<open>Packing's side\<close>

text \<open>Packing keeps its pool, and sees delivery and the rest beside it.\<close>

type_synonym 'z pack_view = "packing_db \<times> delivery_db \<times> 'z world"

definition removal_target :: "uuid \<Rightarrow> Container list \<Rightarrow> delivery_db \<Rightarrow> uuid option" where
  "removal_target i cs db =
     map_option ctn_ID (find (\<lambda>c. canHoldLines (ctn_Status c) \<and>
       (case GetContainer (ctn_ID c) db of Inl _ \<Rightarrow> False | Inr d \<Rightarrow> list_ex (\<lambda>l. ctl_ID l = i) (cd_Lines d))) cs)"

text \<open>
  \<^verbatim>\<open>ReportDefect\<close> calls this while its own transaction holds the lock on the piece's row. When the line is named by that very row,
  PostgreSQL checks the foreign key of the deletion by locking the row, from another connection, so the call waits until the request is
  cancelled. The model gives the answer of the foreign key, a refusal, which leaves the same tables.
\<close>

definition packingContainerLineRemoverAdapter :: "'z world del_deps \<Rightarrow> uuid \<Rightarrow> uuid \<Rightarrow> ('z pack_view, unit) op" where
  "packingContainerLineRemoverAdapter deps i actor st =
     (let (p, db, w) = st in
      case ListContainers \<lparr>Page = 1, Limit = 200, Search = [], SortBy = [], Order = []\<rparr>
             \<lparr>clf_Status = [], clf_ContainerType = [], clf_LoaderID = None, clf_VesselID = None\<rparr> db of
        Inl e \<Rightarrow> (Inl e, st)
      | Inr res \<Rightarrow>
          (case removal_target i (PItems res) db of
             None \<Rightarrow> (Inr (), st)
           | Some c \<Rightarrow> let (r, (db1, w1)) = DeleteLine deps c i (db, w\<lparr>w_pool := p\<rparr>) in (r, (w_pool w1, db1, w1))))"

definition suggest :: "uuid \<Rightarrow> Container \<Rightarrow> delivery_db \<Rightarrow> ContainerSuggestion option" where
  "suggest sol c db =
     (case GetContainer (ctn_ID c) db of
        Inl _ \<Rightarrow> None
      | Inr d \<Rightarrow>
          if list_ex (\<lambda>l. ctl_SalesOrderLineID l = sol) (cd_Lines d)
          then Some \<lparr>sg_ContainerID = ctn_ID (cd_Container d), sg_Code = ctn_Code (cd_Container d), sg_Status = container_status_text (ctn_Status (cd_Container d)),
                     sg_FillPctCBM = cd_FillPctCBM d, sg_FillPctMass = cd_FillPctMass d, sg_ContainerType = ctn_ContainerType (cd_Container d)\<rparr>
          else None)"

definition packingContainerSuggesterAdapter :: "uuid \<Rightarrow> delivery_db \<times> 'z world \<Rightarrow> ContainerSuggestion list result" where
  "packingContainerSuggesterAdapter sol st =
     (case ListContainers \<lparr>Page = 1, Limit = 50, Search = [], SortBy = [], Order = []\<rparr>
             \<lparr>clf_Status = ''LOADING'', clf_ContainerType = [], clf_LoaderID = None, clf_VesselID = None\<rparr> (fst st) of
        Inl e \<Rightarrow> Inl e
      | Inr res \<Rightarrow> Inr (List.map_filter (\<lambda>c. suggest sol c (fst st)) (PItems res)))"

definition packingSOLineCheckerAdapter :: "uuid \<Rightarrow> delivery_db \<times> 'z world \<Rightarrow> uuid result" where
  "packingSOLineCheckerAdapter sol st = map_sum id (\<lambda>(l, so). sl_SKUID l) (GetSOLine sol (w_sales (snd st)))"

definition wired_packing :: "'z world del_deps \<Rightarrow> ('z \<Rightarrow> pack_refs) \<Rightarrow> (delivery_db \<times> 'z world) pack_deps \<Rightarrow> (delivery_db \<times> 'z world) pack_deps" where
  "wired_packing deps pk pbase =
     pbase\<lparr>prefs := (\<lambda>(db, w). packing_refs pk db w), suggester := Some packingContainerSuggesterAdapter,
           lineRemover := Some (packingContainerLineRemoverAdapter deps), solChecker := Some packingSOLineCheckerAdapter\<rparr>"

section \<open>The laws of the interfaces\<close>

text \<open>The remover reaches the pool only through the release of delivery's tracker.\<close>

lemma on_pool_simps [simp]:
  "w_sales (snd (on_pool f w)) = w_sales w" "w_splits (snd (on_pool f w)) = w_splits w" "w_rest (snd (on_pool f w)) = w_rest w"
  "w_pool (snd (on_pool f w)) = snd (f (w_pool w))" "fst (on_pool f w) = fst (f (w_pool w))"
  by (simp_all add: on_pool_def split: prod.splits)

lemma on_rest_simps [simp]:
  "w_sales (snd (on_rest f w)) = w_sales w" "w_splits (snd (on_rest f w)) = w_splits w" "w_pool (snd (on_rest f w)) = w_pool w"
  by (simp_all add: on_rest_def split: prod.splits)

lemma DeleteLine_pool:
  assumes "DeleteLine (wired_delivery base pk held pbase) c i (db, w) = (r, (db', w'))"
  shows "released\<^sup>*\<^sup>* (w_pool w) (w_pool w')"
proof (cases "w' = w")
  case False
  with assms have "w_pool w' = snd (ReleaseOnContainerDelete (packing_refs pk db' w) i (w_pool w))"
    by (auto simp: DeleteLine_def wired_delivery_def track_def deliveryFGTrackerAdapter_def split: sum.splits)
  then show ?thesis unfolding released_def by (metis (mono_tags, lifting) prod.collapse r_into_rtranclp)
qed simp

lemma wired_remover_releases: "remover_releases (wired_packing (wired_delivery base pk held pbase) pk pbase)"
  unfolding remover_releases_def
  by (auto simp: wired_packing_def packingContainerLineRemoverAdapter_def split: sum.splits option.splits prod.splits dest!: DeleteLine_pool)

text \<open>The promise that sealing relies on: a recorder raises the shipped quantity of each sales order line by what was reported for it.\<close>

locale shipment_recorder =
  fixes record_items :: "ShipmentItem list \<Rightarrow> 'x \<Rightarrow> 'x result"
    and shipped_qty :: "uuid \<Rightarrow> 'x \<Rightarrow> int"
    and good :: "'x \<Rightarrow> bool"
  assumes recorded: "good x \<Longrightarrow> distinct (map si_SOLineID items) \<Longrightarrow> record_items items x = Inr x' \<Longrightarrow>
      good x' \<and> shipped_qty s x' = shipped_qty s x + sum_where si_Qty (\<lambda>it. si_SOLineID it = s) items"
begin

lemma seal_records:
  assumes "good x" and "seal_tx record_items rfs env inp (db, x) = Inr (c, db', x')"
  shows "good x' \<and> shipped_qty s x' = shipped_qty s x + qty_for (se_ContainerID inp) s db"
  using assms(2)
proof (rule seal_tx_view)
  fix items assume list: "listLinesForSeal (se_ContainerID inp) db = Inr items" and rec: "record_items items x = Inr x'"
  let ?c = "se_ContainerID inp" let ?sols = "remdups (map ctl_SalesOrderLineID (lines_in ?c db))"
  have items: "items = map (\<lambda>s. \<lparr>si_SOLineID = s, si_Qty = qty_for ?c s db\<rparr>) ?sols"
    using list by (auto simp: listLinesForSeal_def Let_def split: if_splits)
  have "sum_where si_Qty (\<lambda>it. si_SOLineID it = s) (map (\<lambda>s. \<lparr>si_SOLineID = s, si_Qty = qty_for ?c s db\<rparr>) ss) = (if s \<in> set ss then qty_for ?c s db else 0)"
    if "distinct ss" for ss using that by (induction ss) auto
  from this [of ?sols] have "sum_where si_Qty (\<lambda>it. si_SOLineID it = s) items = (if s \<in> ctl_SalesOrderLineID ` set (lines_in ?c db) then qty_for ?c s db else 0)"
    by (simp add: items)
  moreover have "qty_for ?c s db = 0" if "s \<notin> ctl_SalesOrderLineID ` set (lines_in ?c db)"
    unfolding qty_for_def using that by (intro sum_where_none) (auto simp: lines_in_def)
  moreover have "distinct (map si_SOLineID items)" by (simp add: items comp_def)
  ultimately show ?thesis using recorded [OF assms(1) _ rec, of s] by auto
qed

end

end
