(* ===== verification/Delivery_Flow.thy ===== *)
theory Delivery_Flow
  imports Delivery_Wiring
begin

text \<open>
  Delivery, sales and packing running together. Sealing reports to sales in its own transaction, so what has left in closed
  containers is always covered by the shipped quantities of the sales order lines.
\<close>

section \<open>The shared run\<close>

definition shipped_of :: "uuid \<Rightarrow> sales_db \<Rightarrow> int" where
  "shipped_of s db = (case line_row s db of None \<Rightarrow> 0 | Some l \<Rightarrow> sl_QtyShipped l)"

text \<open>A call of delivery, a step of sales, or any write of packing and of the modules outside.\<close>

inductive wired_step ::
  "'z del_deps \<Rightarrow> ('z \<Rightarrow> pack_refs) \<Rightarrow> (uuid \<Rightarrow> bool) \<Rightarrow> (delivery_db \<times> 'z world) pack_deps \<Rightarrow> 'y sales_deps \<Rightarrow>
   delivery_db \<times> 'z world \<Rightarrow> delivery_db \<times> 'z world \<Rightarrow> bool" for base pk held pbase sdeps where
  w_call: "del_call (wired_delivery base pk held pbase) s s' \<Longrightarrow> wired_step base pk held pbase sdeps s s'"
| w_sale: "sales_step sdeps (w_sales w, w_splits w) (sdb, P) \<Longrightarrow> wired_step base pk held pbase sdeps (db, w) (db, w\<lparr>w_sales := sdb, w_splits := P\<rparr>)"
| w_other: "wired_step base pk held pbase sdeps (db, w) (db, w\<lparr>w_pool := p, w_rest := z\<rparr>)"

definition fresh_start :: "delivery_db \<times> 'z world \<Rightarrow> bool" where
  "fresh_start s \<longleftrightarrow> fst s = empty_delivery \<and> w_sales (snd s) = empty_sales \<and> w_splits (snd s) = []"

definition covered :: "rat \<Rightarrow> delivery_db \<times> 'z world \<Rightarrow> bool" where
  "covered pct s \<longleftrightarrow> del_ok pct (fst s) \<and> sales_inv (w_sales (snd s), w_splits (snd s)) \<and>
     (\<forall>i. delivered i (fst s) \<le> shipped_of i (w_sales (snd s)))"

section \<open>Sales keeps its promise\<close>

lemma ship_items_shipped:
  "ship_items its db = Inr (ids, db') \<Longrightarrow> shipped_of s db' = shipped_of s db + sum_where shi_Qty (\<lambda>it. shi_SOLineID it = s) its"
proof (induction its arbitrary: db ids)
  case Nil
  then show ?case by simp
next
  case (Cons it its)
  from Cons.prems obtain i db1 ids2 where one: "ship_item it db = Inr (i, db1)" and rest: "ship_items its db1 = Inr (ids2, db')"
    by (auto split: sum.splits prod.splits)
  from one obtain l where l: "line_row (shi_SOLineID it) db = Some l" and db1: "db1 = add_shipped (shi_SOLineID it) (shi_Qty it) db"
    by (auto simp: ship_item_def split: if_splits option.splits)
  have key: "sl_ID r = k" if "line_row k db = Some r" for k r using row_by_SomeD [OF that] by simp
  have "line_row s db1 = map_option (\<lambda>r. if sl_ID r = shi_SOLineID it then r\<lparr>sl_QtyShipped := sl_QtyShipped r + shi_Qty it\<rparr> else r) (line_row s db)"
    by (simp add: db1 add_shipped_def row_by_update_where)
  then have "shipped_of s db1 = shipped_of s db + (if shi_SOLineID it = s then shi_Qty it else 0)"
    using l by (auto simp: shipped_of_def split: option.splits dest: key)
  then show ?case using Cons.IH [OF rest] by simp
qed

lemma RecordShipmentTx_shipped:
  assumes "RecordShipmentTx its db = Inr db'"
  shows "shipped_of s db' = shipped_of s db + sum_where shi_Qty (\<lambda>it. shi_SOLineID it = s) its"
proof -
  from assms obtain ids db1 where "ship_items its db = Inr (ids, db1)" "db' = fold recomputeSOStatusTx (remdups ids) db1"
    by (auto simp: RecordShipmentTx_def recordShipmentTx_def split: sum.splits)
  then show ?thesis using ship_items_shipped [of its db ids db1 s] by (simp add: fold_recompute shipped_of_def)
qed

lemma shipped_grows:
  assumes ok: "sales_ok db" and ok': "sales_ok db'" and "so_evolves db db'"
  shows "shipped_of s db \<le> shipped_of s db'"
proof (cases "line_row s db")
  case None
  have "0 \<le> shipped_of s db'" using sales_okD(5) [OF ok'] by (auto simp: shipped_of_def line_ok_def split: option.splits dest!: row_by_SomeD)
  then show ?thesis using None by (simp add: shipped_of_def)
next
  case (Some l)
  have l: "l \<in> set (so_lines db)" "sl_ID l = s" using row_by_SomeD [OF Some] by auto
  show ?thesis
  proof (cases "sl_QtyShipped l = 0")
    case True
    have "0 \<le> shipped_of s db'" using sales_okD(5) [OF ok'] by (auto simp: shipped_of_def line_ok_def split: option.splits dest!: row_by_SomeD)
    then show ?thesis using True Some by (simp add: shipped_of_def)
  next
    case False
    from sales_okD(6) [OF ok l(1)] obtain so where so: "so \<in> set (sos db)" "so_ID so = sl_SalesOrderID l" by auto
    have in_l: "l \<in> set (lines_of (so_ID so) db)" using l(1) so(2) by (simp add: lines_of_def)
    have "so_Status so \<noteq> SOStatusDraft"
      using sales_okD(7) [OF ok so(1)] in_l False sales_okD(5) [OF ok l(1)] by (auto simp: agree_def line_ok_def)
    with assms(3) so(1) have "list_all2 line_grows (lines_of (so_ID so) db) (lines_of (so_ID so) db')" unfolding so_evolves_def by blast
    from list_all2_D1 [OF this in_l] obtain l' where "l' \<in> set (so_lines db')" "line_grows l l'" by (auto simp: lines_of_def)
    then have "line_row s db' = Some l'" "sl_QtyShipped l \<le> sl_QtyShipped l'"
      using row_by_eq_SomeI [OF sales_okD(3) [OF ok'], of l'] l(2) by (auto simp: line_grows_def)
    then show ?thesis using Some by (simp add: shipped_of_def)
  qed
qed

interpretation recorder: shipment_recorder deliveryShipmentAdapter "\<lambda>s w. shipped_of s (w_sales w)" "\<lambda>w. sales_inv (w_sales w, w_splits w)"
proof
  fix x x' :: "'a world" and items s
  assume good: "sales_inv (w_sales x, w_splits x)" and run: "deliveryShipmentAdapter items x = Inr x'"
  let ?its = "map (\<lambda>it. \<lparr>shi_SOLineID = si_SOLineID it, shi_Qty = si_Qty it\<rparr>) items"
  from run obtain sdb where sdb: "RecordShipmentTx ?its (w_sales x) = Inr sdb" "x' = x\<lparr>w_sales := sdb\<rparr>"
    by (auto simp: deliveryShipmentAdapter_def)
  have "sales_inv (sdb, w_splits x)" using sales_step_inv [OF good sales_step.step_ship [OF sdb(1)]] by blast
  moreover have "sum_where shi_Qty (\<lambda>it. shi_SOLineID it = s) ?its = sum_where si_Qty (\<lambda>it. si_SOLineID it = s) items"
    by (simp add: sum_where_map comp_def)
  ultimately show "sales_inv (w_sales x', w_splits x') \<and>
      shipped_of s (w_sales x') = shipped_of s (w_sales x) + sum_where si_Qty (\<lambda>it. si_SOLineID it = s) items"
    using RecordShipmentTx_shipped [OF sdb(1), of s] by (simp add: sdb(2))
qed

section \<open>The hooks leave sales alone\<close>

definition same_sales :: "'z world \<Rightarrow> 'z world \<Rightarrow> bool" where
  "same_sales w w' \<longleftrightarrow> w_sales w' = w_sales w \<and> w_splits w' = w_splits w"

lemma same_sales_refl [simp]: "same_sales w w"
  by (simp add: same_sales_def)

lemma same_sales_trans: "same_sales a b \<Longrightarrow> same_sales b c \<Longrightarrow> same_sales a c"
  by (simp add: same_sales_def)

lemma fold_same_sales: "(\<And>y w. same_sales w (f y w)) \<Longrightarrow> same_sales w (fold f ys w)"
  by (induction ys arbitrary: w) (auto intro: same_sales_trans)

lemma hooks_same_sales:
  "same_sales w (track (wired_delivery base pk held pbase) (\<lambda>t w. snd (ReserveOnAdd t db req w)) w)"
  "same_sales w (track (wired_delivery base pk held pbase) (\<lambda>t w. snd (ReleaseOnDelete t db l w)) w)"
  "same_sales w (track (wired_delivery base pk held pbase) (\<lambda>t w. snd (MarkLoaded t db c w)) w)"
  "same_sales w (logLoadingPlanAudit (wired_delivery base pk held pbase) al w)"
  "same_sales w (notify_reload (wired_delivery base pk held pbase) p n u w)"
  by (auto simp: same_sales_def track_def logLoadingPlanAudit_def notify_reload_def wired_delivery_def deliveryFGTrackerAdapter_def split: option.splits)

lemma record_shortages_same: "same_sales w (record_shortages (wired_delivery base pk held pbase) inp db w)"
proof -
  have "same_sales w (snd (on_rest f w))" for f :: "('a, unit) op" and w by (simp add: same_sales_def)
  then show ?thesis by (auto simp: record_shortages_def wired_delivery_def split: option.splits sum.splits intro!: fold_same_sales)
qed

lemma service_same_sales:
  assumes "del_service (wired_delivery base pk held pbase) (db, w) (db', w')"
  shows "same_sales w w' \<or> (\<exists>env inp r. Seal (wired_delivery base pk held pbase) env inp (db, w) = (r, (db', w')))"
  using assms
proof cases
  case (step_upload pf env uin r5)
  then have "same_sales w w'"
    by (auto simp: UploadLoadingPlan_def save_plan_def Let_def hooks_same_sales split: if_splits option.splits sum.splits prod.splits)
  then show ?thesis ..
next
  case (step_approve env pin r6)
  then have "same_sales w w'"
    by (auto simp: ApproveLoadingPlan_def Let_def split: if_splits sum.splits prod.splits intro: same_sales_trans hooks_same_sales)
  then show ?thesis ..
qed (auto simp: AddLine_def DeleteLine_def TransferLine_def Let_def hooks_same_sales split: sum.splits prod.splits if_splits)

lemma call_same_sales:
  assumes "del_call (wired_delivery base pk held pbase) (db, w) (db', w')"
  shows "same_sales w w' \<or> (\<exists>env inp r. Seal (wired_delivery base pk held pbase) env inp (db, w) = (r, (db', w')))"
  using assms by cases (auto dest: service_same_sales)

lemma wired_Seal:
  assumes "Seal (wired_delivery base pk held pbase) env inp (db, w) = (r, (db', w'))" and "sales_inv (w_sales w, w_splits w)"
  obtains (refused) "db' = db" "w' = w" "isl r"
  | (sealed) c where "r = Inr c" "seals (se_ContainerID inp) db db'" "sales_inv (w_sales w', w_splits w')"
      "\<And>s. shipped_of s (w_sales w') = shipped_of s (w_sales w) + qty_for (se_ContainerID inp) s db"
  using assms(1)
proof (cases rule: Seal_view)
  case (sealed ship c w1)
  have "ship = deliveryShipmentAdapter" using sealed(1) by (simp add: wired_delivery_def)
  note rec = recorder.seal_records [OF assms(2) sealed(2) [unfolded this]]
  have "same_sales w1 w'" unfolding sealed(4) by (rule same_sales_trans [OF hooks_same_sales(3) record_shortages_same])
  moreover have "seals (se_ContainerID inp) db db'" using sealed(2) by (auto elim!: seal_tx_view)
  ultimately show ?thesis using rec sealed(3) that(2) by (simp add: same_sales_def)
qed (use that(1) in blast)

section \<open>The invariant of the three modules\<close>

lemma Seal_covered:
  assumes "covered pct (db, w)" and "Seal (wired_delivery base pk held pbase) env inp (db, w) = (r, (db', w'))"
  shows "covered pct (db', w')"
proof -
  have inv: "sales_inv (w_sales w, w_splits w)" and ok: "del_ok pct db" using assms(1) by (auto simp: covered_def)
  from assms(2) inv show ?thesis
  proof (cases rule: wired_Seal)
    case (sealed c)
    then show ?thesis using seals_ok [OF sealed(2) ok] seals_delivered [OF sealed(2)] assms(1) by (simp add: covered_def)
  qed (use assms(1) in simp)
qed

lemma wired_step_covered:
  assumes "covered (cbmOverheadPct base) s" and "wired_step base pk held pbase sdeps s s'"
  shows "covered (cbmOverheadPct base) s'"
  using assms(2)
proof cases
  case w_call
  obtain db w db' w' where s: "s = (db, w)" "s' = (db', w')" by force
  have pct: "cbmOverheadPct (wired_delivery base pk held pbase) = cbmOverheadPct base" by (simp add: wired_delivery_def)
  have ok: "del_ok (cbmOverheadPct base) db" using assms(1) by (simp add: covered_def s)
  note call = w_call [unfolded s]
  from call_same_sales [OF call] show ?thesis
  proof
    assume same: "same_sales w w'"
    from call ok [folded pct] show ?thesis
    proof (cases rule: del_call_cases)
      case edits
      then have "del_edits (cbmOverheadPct base) db db'" by (simp only: pct)
      from edits_delivered [OF this ok] del_edits_ok [OF this ok] show ?thesis
        using assms(1) same by (auto simp: covered_def s same_sales_def intro: order_trans)
    qed (use Seal_covered assms(1) s in blast)
  qed (use Seal_covered assms(1) s in blast)
next
  case (w_sale w sdb P db)
  note e = sales_step_inv [OF _ w_sale(3)]
  have "shipped_of i (w_sales w) \<le> shipped_of i sdb" for i
    using assms(1) e w_sale(1) by (intro shipped_grows) (auto simp: covered_def sales_inv_def)
  then show ?thesis using assms(1) e w_sale(1,2) by (auto simp: covered_def intro: order_trans)
next
  case (w_other db w p z)
  then show ?thesis using assms(1) by (simp add: covered_def)
qed

interpretation flow: invariant fresh_start "wired_step base pk held pbase sdeps" "covered (cbmOverheadPct base)"
proof
  show "covered (cbmOverheadPct base) s" if "fresh_start s" for s :: "delivery_db \<times> 'a world"
    using that sales.init_inv [of "(empty_sales, [])"]
    by (simp add: fresh_start_def covered_def del_ok_def empty_delivery_def delivered_def shipped_of_def empty_sales_def)
qed (rule wired_step_covered)

end
