(* ===== verification/Delivery_Props.thy ===== *)
theory Delivery_Props
  imports Delivery_Flow Sales_Props
begin

text \<open>
  What delivery guarantees, alone and wired to sales and packing. The first section loads, seals, reopens
  and seals again one container for the sales order of the running sales example.
\<close>

abbreviation del_reach :: "'x del_deps \<Rightarrow> delivery_db \<times> 'x \<Rightarrow> bool" where
  "del_reach deps \<equiv> reach (\<lambda>s. fst s = empty_delivery) (del_step deps)"

abbreviation wired_reach ::
  "'z del_deps \<Rightarrow> ('z \<Rightarrow> pack_refs) \<Rightarrow> (uuid \<Rightarrow> bool) \<Rightarrow> (delivery_db \<times> 'z world) pack_deps \<Rightarrow> 'y sales_deps \<Rightarrow> delivery_db \<times> 'z world \<Rightarrow> bool" where
  "wired_reach base pk held pbase sdeps \<equiv> reach fresh_start (wired_step base pk held pbase sdeps)"

section \<open>A concrete yard\<close>

text \<open>User 9, SKU 3, five percent of overhead; one finished piece waits for sales order line 21.\<close>

definition yard_base :: "unit del_deps" where
  "yard_base = \<lparr>drefs = (\<lambda>_. \<lparr>dref_users = [9], dref_skus = [3], dref_so_lines = [], dref_used_lines = []\<rparr>), dskuChecker = None, soLineChecker = None,
     shipRecorder = None, fgTracker = None, skuResolver = None, lpAuditor = None, planReloader = None, pendingExc = None, shortShipped = None,
     fgCompChecker = None, cbmOverheadPct = 5\<rparr>"

definition yard_pk :: "unit \<Rightarrow> pack_refs" where
  "yard_pk = (\<lambda>_. \<lparr>fgref_work_orders = [40], fgref_skus = [3], fgref_barcodes = [500], fgref_so_lines = [], fgref_users = [9],
     fgref_container_lines = [], fgref_cutoff = (\<lambda>_. None)\<rparr>)"

definition yard_pbase :: "(delivery_db \<times> unit world) pack_deps" where
  "yard_pbase = \<lparr>prefs = (\<lambda>_. yard_pk ()), barcodeIss = None, barcodeRes = None, wog = None, suggester = None, lineRemover = None, defectNotifier = None,
     solChecker = None, skuCompRes = None\<rparr>"

abbreviation yard :: "unit world del_deps" where
  "yard \<equiv> wired_delivery yard_base yard_pk (\<lambda>_. False) yard_pbase"

abbreviation yard_step :: "delivery_db \<times> unit world \<Rightarrow> delivery_db \<times> unit world \<Rightarrow> bool" where
  "yard_step \<equiv> wired_step yard_base yard_pk (\<lambda>_. False) yard_pbase desk"

definition yard_pool :: packing_db where
  "yard_pool = \<lparr>fg_pool = [\<lparr>fg_ID = 80, fg_WorkOrderID = 40, fg_SKUID = 3, fg_BarcodeID = 500, fg_SalesOrderLineID = Some 21,
       fg_Status = FGStatusAvailable, fg_ContainerLineID = None, fg_ComponentType = None, fg_UnitIndex = None, fg_QCPassedAt = 0, fg_QCPassedBy = 9,
       fg_CreatedAt = 0\<rparr>], fg_defects = [], fg_allocations = [], fg_reassignments = []\<rparr>"

definition yard_world :: "unit world" where
  "yard_world = \<lparr>w_pool = yard_pool, w_sales = desk_planned, w_splits = [(desk_split, SOStatusConfirmed)], w_rest = ()\<rparr>"

definition yard_open :: delivery_db where
  "yard_open = snd (CreateContainer yard (desk_env 5) (2026, 3, 2)
     \<lparr>cci_ContainerType = ''20GP'', cci_MaxCBM = 0, cci_MaxPayloadKG = 0, cci_Note = [], cci_CreatedBy = 9\<rparr> yard_world empty_delivery)"

definition yard_line :: AddLineInput where
  "yard_line = \<lparr>ali_ContainerID = 50, ali_SKUID = 3, ali_Qty = 4, ali_SalesOrderLineID = 21, ali_CBMTotal = 12, ali_WeightKGTotal = 900, ali_AddedBy = 9,
     ali_AllowOverload = False, ali_ActorRole = ''packer''\<rparr>"

definition yard_loaded :: "delivery_db \<times> unit world" where
  "yard_loaded = snd (AddLine yard (desk_env 6) yard_line (yard_open, yard_world))"

definition yard_seal :: SealInput where
  "yard_seal = \<lparr>se_ContainerID = 50, se_ActorID = 9, se_Note = []\<rparr>"

definition yard_sealed :: "delivery_db \<times> unit world" where
  "yard_sealed = snd (Seal yard (desk_env 7) yard_seal yard_loaded)"

definition yard_reopened :: delivery_db where
  "yard_reopened = snd (Reopen (drefs yard (snd yard_sealed)) (desk_env 8) 50 9 ''recount'' (fst yard_sealed))"

definition yard_resealed :: "delivery_db \<times> unit world" where
  "yard_resealed = snd (Seal yard (desk_env 9) yard_seal (yard_reopened, snd yard_sealed))"

lemma yard_open_code [code]:
  "yard_open = empty_delivery\<lparr>containers := [\<lparr>ctn_ID = 50, ctn_Code = ''CONT20260302-001'', ctn_ContainerType = ''20GP'', ctn_MaxCBM = 166 / 5,
     ctn_MaxPayloadKG = 28000, ctn_Status = ContainerStatusOpen, ctn_SealedAt = None, ctn_SealedBy = None, ctn_Note = [], ctn_VesselID = None,
     ctn_CutoffDate = None, ctn_DestinationCode = [], ctn_DestinationName = [], ctn_LoaderID = None, ctn_CreatedBy = 9, ctn_CreatedAt = 5\<rparr>],
     container_counters := [((2026, 3, 2), 1)]\<rparr>"
  by code_simp

lemma yard_loaded_code [code]:
  "yard_loaded =
     (yard_open\<lparr>containers := map (\<lambda>c. c\<lparr>ctn_Status := ContainerStatusLoading\<rparr>) (containers yard_open),
        container_lines := [\<lparr>ctl_ID = 60, ctl_ContainerID = 50, ctl_SKUID = 3, ctl_Qty = 4, ctl_SalesOrderLineID = 21, ctl_CBMTotal = 12,
          ctl_WeightKGTotal = 900, ctl_AddedBy = 9, ctl_AddedAt = 6\<rparr>],
        container_status_log := [\<lparr>sle_ID = 61, sle_ContainerID = 50, sle_FromStatus = ContainerStatusOpen, sle_ToStatus = ContainerStatusLoading,
          sle_ActorID = 9, sle_Note = ''first line added'', sle_CreatedAt = 6\<rparr>]\<rparr>,
      yard_world\<lparr>w_pool := yard_pool\<lparr>fg_pool := map (\<lambda>r. r\<lparr>fg_Status := FGStatusReserved, fg_ContainerLineID := Some 60\<rparr>) (fg_pool yard_pool)\<rparr>\<rparr>)"
  by code_simp

lemma yard_runs:
  "\<not> isl (fst (Seal yard (desk_env 7) yard_seal yard_loaded))"
  "\<not> isl (fst (Reopen (drefs yard (snd yard_sealed)) (desk_env 8) 50 9 ''recount'' (fst yard_sealed)))"
  "\<not> isl (fst (Seal yard (desk_env 9) yard_seal (yard_reopened, snd yard_sealed)))"
  "map sl_QtyShipped (so_lines (w_sales (snd yard_loaded))) = [0]"
  "map sl_QtyShipped (so_lines (w_sales (snd yard_sealed))) = [4]"
  by code_simp+

text \<open>The sales order of the example, one sales step at a time.\<close>

abbreviation yard_start :: "sales_db \<Rightarrow> (SplitToPlanInput \<times> SOStatus) list \<Rightarrow> delivery_db \<times> unit world" where
  "yard_start s P \<equiv> (empty_delivery, \<lparr>w_pool = yard_pool, w_sales = s, w_splits = P, w_rest = ()\<rparr>)"

lemma yard_sale: "sales_step desk (s, P) (s', P') \<Longrightarrow> yard_step (yard_start s P) (yard_start s' P')"
  using w_sale [of desk "\<lparr>w_pool = yard_pool, w_sales = s, w_splits = P, w_rest = ()\<rparr>" s' P'] by simp

lemma yard_reach:
  "wired_reach yard_base yard_pk (\<lambda>_. False) yard_pbase desk yard_loaded"
  "wired_reach yard_base yard_pk (\<lambda>_. False) yard_pbase desk yard_sealed"
proof -
  have "wired_reach yard_base yard_pk (\<lambda>_. False) yard_pbase desk (yard_start empty_sales [])" by (rule reach_init) (simp add: fresh_start_def)
  note reach_step [OF reach_step [OF reach_step [OF this yard_sale [OF desk_steps(1)]] yard_sale [OF desk_steps(2)]] yard_sale [OF desk_steps(3)]]
  note reach_step [OF reach_step [OF this yard_sale [OF desk_steps(4)]] yard_sale [OF desk_steps(5)]]
  then have "wired_reach yard_base yard_pk (\<lambda>_. False) yard_pbase desk (empty_delivery, yard_world)" by (simp add: yard_world_def)
  from reach_step [OF this w_call [OF step_service [OF step_container [OF run_pair [OF yard_open_def]]]]]
  have "wired_reach yard_base yard_pk (\<lambda>_. False) yard_pbase desk (yard_open, yard_world)" .
  from reach_step [OF this w_call [OF step_service [OF step_add [OF run_pair [OF yard_loaded_def]]]]]
  show *: "wired_reach yard_base yard_pk (\<lambda>_. False) yard_pbase desk yard_loaded" .
  from reach_step [OF this w_call [OF step_service [OF step_seal [OF run_pair [OF yard_sealed_def]]]]]
  show "wired_reach yard_base yard_pk (\<lambda>_. False) yard_pbase desk yard_sealed" .
qed

text \<open>What runs wired also runs with the other modules left open.\<close>

lemma wired_del_step: "wired_step base pk held pbase sdeps s s' \<Longrightarrow> del_step (wired_delivery base pk held pbase) s s'"
  by (induction rule: wired_step.induct) (auto intro: step_call del_step.step_outside)

lemma wired_del_reach: "wired_reach base pk held pbase sdeps s \<Longrightarrow> del_reach (wired_delivery base pk held pbase) s"
  by (induction rule: reach.induct) (auto simp: fresh_start_def intro: reach_init reach_step wired_del_step)

section \<open>Containers\<close>

text \<open>
  C8: a container is never filled beyond its capacity. In every reachable state of the delivery module, whatever the other modules do,
  a container with no entry in the overload log holds lines whose exact volume and weight stay within its limits
  widened by the configured overhead, up to half a unit of the last decimal stored and the error of one float
  comparison (one part in 2 to the 50th).
\<close>

theorem container_capacity:
  assumes "del_reach deps s" and "c \<in> set (containers (fst s))" and "ctn_ID c \<notin> set (map ol_ContainerID (container_overload_log (fst s)))"
  shows "used_cbm (ctn_ID c) (fst s) \<le> fl (fl (ctn_MaxCBM c) * overhead (cbmOverheadPct deps)) * (1 + 1 / 2 ^ 50) + 1 / 2000 \<and>
    used_weight (ctn_ID c) (fst s) \<le> fl (fl (ctn_MaxPayloadKG c) * overhead (cbmOverheadPct deps)) * (1 + 1 / 2 ^ 50) + 1 / 200"
proof -
  have "fits (cbmOverheadPct deps) c (fst s) \<or> overfull (ctn_ID c) (fst s)" using del_okD(8) [OF delivery.reach_inv [OF assms(1)] assms(2)] .
  moreover have "\<not> overfull (ctn_ID c) (fst s)" using assms(3) by (metis image_eqI list.set_map overfull_def)
  ultimately show ?thesis by (simp add: fits_def cbm_limit_def weight_limit_def)
qed

theorem container_capacity_witness:
  "\<exists>c :: Container. map ctn_ID (containers (fst yard_loaded)) = [50] \<and> ctn_ID c = 50 \<and> used_cbm 50 (fst yard_loaded) = 12 \<and>
     used_cbm 50 (fst yard_loaded) \<le> fl (fl (ctn_MaxCBM c) * overhead 5) * (1 + 1 / 2 ^ 50) + 1 / 2000"
proof -
  have v: "map ctn_ID (containers (fst yard_loaded)) = [50]" "container_overload_log (fst yard_loaded) = []" "used_cbm 50 (fst yard_loaded) = 12" by code_simp+
  then obtain c where c: "c \<in> set (containers (fst yard_loaded))" "ctn_ID c = 50" by auto
  have "cbmOverheadPct yard = 5" by (simp add: wired_delivery_def yard_base_def)
  then have "used_cbm 50 (fst yard_loaded) \<le> fl (fl (ctn_MaxCBM c) * overhead 5) * (1 + 1 / 2 ^ 50) + 1 / 2000"
    using container_capacity [OF wired_del_reach [OF yard_reach(1)] c(1)] v(2) c(2) by simp
  then show ?thesis by (intro exI [of _ c] conjI v c)
qed

text \<open>
  C15: the life of a container. In every run a container of a reachable state stays, with its code and its limits. It never returns to
  open once it left it, and a shipped or a cancelled container is final: its status and its lines never change
  again.
\<close>

theorem container_life_cycle:
  assumes "del_reach deps s" and "(del_step deps)\<^sup>*\<^sup>* s s'" and "container_row i (fst s) = Some c"
  shows "\<exists>c'. container_row i (fst s') = Some c' \<and> ctn_Code c' = ctn_Code c \<and> ctn_MaxCBM c' = ctn_MaxCBM c \<and> ctn_MaxPayloadKG c' = ctn_MaxPayloadKG c \<and>
    (ctn_Status c \<noteq> ContainerStatusOpen \<longrightarrow> ctn_Status c' \<noteq> ContainerStatusOpen) \<and>
    (ctn_Status c \<in> {ContainerStatusShipped, ContainerStatusCancelled} \<longrightarrow> ctn_Status c' = ctn_Status c \<and> lines_in i (fst s') = lines_in i (fst s))"
proof -
  from container_life [OF assms(2) delivery.reach_inv [OF assms(1)] assms(3)] obtain c' where
    c': "container_row i (fst s') = Some c'" "same_box c c'" "ctn_Status c' \<in> container_future (ctn_Status c)"
    "ctn_Status c \<in> {ContainerStatusShipped, ContainerStatusCancelled} \<longrightarrow> lines_in i (fst s') = lines_in i (fst s)" by blast
  have "ctn_Status c \<noteq> ContainerStatusOpen \<longrightarrow> ctn_Status c' \<noteq> ContainerStatusOpen"
    "ctn_Status c \<in> {ContainerStatusShipped, ContainerStatusCancelled} \<longrightarrow> ctn_Status c' = ctn_Status c"
    using c'(3) by (cases "ctn_Status c"; auto)+
  then show ?thesis using c' by (auto simp: same_box_def)
qed

theorem container_life_cycle_witness:
  "\<exists>c c'. container_row 50 (fst yard_loaded) = Some c \<and> ctn_Status c = ContainerStatusLoading \<and>
     container_row 50 (fst yard_sealed) = Some c' \<and> ctn_Code c' = ctn_Code c \<and> ctn_Status c' \<noteq> ContainerStatusOpen"
proof -
  have "map_option ctn_Status (container_row 50 (fst yard_loaded)) = Some ContainerStatusLoading" by code_simp
  then obtain c where c: "container_row 50 (fst yard_loaded) = Some c" "ctn_Status c = ContainerStatusLoading" by auto
  have "del_step yard yard_loaded yard_sealed" by (rule step_call [OF step_service [OF step_seal [OF run_pair [OF yard_sealed_def]]]])
  then have "(del_step yard)\<^sup>*\<^sup>* yard_loaded yard_sealed" by (rule r_into_rtranclp)
  from container_life_cycle [OF wired_del_reach [OF yard_reach(1)] this c(1)] c show ?thesis by auto
qed

section \<open>Delivery with sales\<close>

text \<open>
  C6: what has left is covered by what was shipped. In every reachable state of delivery wired_delivery to sales and packing, for every sales order
  line, the quantities in all sealed and shipped containers together are at most the shipped quantity of the line, which is at most the planned
  one and that at most the ordered one.
\<close>

theorem deliveries_covered:
  assumes "wired_reach base pk held pbase sdeps (db, w)" and "l \<in> set (so_lines (w_sales w))"
  shows "delivered (sl_ID l) db \<le> sl_QtyShipped l \<and> sl_QtyShipped l \<le> sl_QtyPlanned l \<and> sl_QtyPlanned l \<le> sl_QtyOrdered l"
proof -
  have cov: "covered (cbmOverheadPct base) (db, w)" using flow.reach_inv [OF assms(1)] .
  then have ok: "sales_ok (w_sales w)" by (simp add: covered_def sales_inv_def)
  have "line_row (sl_ID l) (w_sales w) = Some l" using row_by_eq_SomeI [OF sales_okD(3) [OF ok] assms(2)] .
  then have "delivered (sl_ID l) db \<le> sl_QtyShipped l" using cov by (simp add: covered_def shipped_of_def) (metis option.simps(5))
  then show ?thesis using sales_okD(5) [OF ok assms(2)] by (simp add: line_ok_def)
qed

theorem deliveries_covered_witness:
  "delivered 21 (fst yard_sealed) = 4 \<and> (\<exists>l :: SalesOrderLine. sl_ID l = 21 \<and> sl_QtyShipped l = 4 \<and> delivered 21 (fst yard_sealed) \<le> sl_QtyShipped l)"
proof -
  have v: "delivered 21 (fst yard_sealed) = 4" by code_simp
  have "map (\<lambda>l. (sl_ID l, sl_QtyShipped l)) (so_lines (w_sales (snd yard_sealed))) = [(21, 4)]" by code_simp
  then obtain l where "l \<in> set (so_lines (w_sales (snd yard_sealed)))" "sl_ID l = 21" "sl_QtyShipped l = 4" by auto
  moreover have "wired_reach yard_base yard_pk (\<lambda>_. False) yard_pbase desk (fst yard_sealed, snd yard_sealed)" using yard_reach(2) by simp
  ultimately show ?thesis using deliveries_covered [of yard_base yard_pk "\<lambda>_. False" yard_pbase desk "fst yard_sealed" "snd yard_sealed" l] v by auto
qed

lemma seal_tx_row:
  assumes "seal_tx ship rfs env inp (db, x) = Inr (c, db', x')"
  shows "\<exists>b. container_row (se_ContainerID inp) db = Some b \<and> canHoldLines (ctn_Status b) \<and> (case ctn_CutoffDate b of None \<Rightarrow> True | Some t \<Rightarrow> now env \<le> t) \<and>
    container_row (se_ContainerID inp) db' = Some (b\<lparr>ctn_Status := ContainerStatusSealed, ctn_SealedAt := Some (now env), ctn_SealedBy := Some (se_ActorID inp)\<rparr>)"
proof -
  from assms obtain b where b: "container_row (se_ContainerID inp) db = Some b" "canHoldLines (ctn_Status b)"
    "case ctn_CutoffDate b of None \<Rightarrow> True | Some t \<Rightarrow> now env \<le> t"
    and upd: "updateContainerStatus (rfs x') (fresh env 0) (status_change (scanContainer b) ContainerStatusSealed (se_ActorID inp) (se_Note inp) (now env)) db = Inr (c, db')"
    by (auto simp: seal_tx_def not_less split: sum.splits if_splits prod.splits option.splits dest!: lockContainer_view)
  have "ctn_ID b = se_ContainerID inp" using row_by_SomeD [OF b(1)] by simp
  then show ?thesis using b updateContainerStatus_view(1) [OF upd]
    by (auto simp: status_change_def row_by_update_where set_container_status_def split: ContainerStatus.splits)
qed

text \<open>
  C17: sealing a container. A seal that succeeds found the container open or loading, not empty and not past its cut-off. It leaves the lines as
  they are, marks the container sealed with the instant and the actor, and raises the shipped quantity of every sales order
  line by what the container holds for it, which had to fit in the planned quantity; other lines keep theirs.
\<close>

theorem Seal_effect:
  assumes "wired_reach base pk held pbase sdeps (db, w)" and "Seal (wired_delivery base pk held pbase) env inp (db, w) = (Inr c, (db', w'))"
  shows "(\<exists>b. container_row (se_ContainerID inp) db = Some b \<and> canHoldLines (ctn_Status b) \<and> (case ctn_CutoffDate b of None \<Rightarrow> True | Some t \<Rightarrow> now env \<le> t) \<and>
      container_row (se_ContainerID inp) db' = Some (b\<lparr>ctn_Status := ContainerStatusSealed, ctn_SealedAt := Some (now env), ctn_SealedBy := Some (se_ActorID inp)\<rparr>)) \<and>
    lines_in (se_ContainerID inp) db \<noteq> [] \<and> container_lines db' = container_lines db \<and>
    (\<forall>s. shipped_of s (w_sales w') = shipped_of s (w_sales w) + qty_for (se_ContainerID inp) s db) \<and>
    (\<forall>l \<in> set (so_lines (w_sales w')). shipped_of (sl_ID l) (w_sales w) + qty_for (se_ContainerID inp) (sl_ID l) db \<le> sl_QtyPlanned l)"
proof -
  have inv: "sales_inv (w_sales w, w_splits w)" using flow.reach_inv [OF assms(1)] by (simp add: covered_def)
  from assms(2) obtain ship w1 where tx: "seal_tx ship (drefs (wired_delivery base pk held pbase)) env inp (db, w) = Inr (c, db', w1)"
    by (cases rule: Seal_view) auto
  from tx have lines: "lines_in (se_ContainerID inp) db \<noteq> []" "container_lines db' = container_lines db"
    by (auto simp: seals_def listLinesForSeal_def lines_in_def Let_def split: if_splits elim!: seal_tx_view)
  from assms(2) inv have eff: "sales_inv (w_sales w', w_splits w') \<and>
      (\<forall>s. shipped_of s (w_sales w') = shipped_of s (w_sales w) + qty_for (se_ContainerID inp) s db)"
    by (cases rule: wired_Seal) auto
  then have ok: "sales_ok (w_sales w')" by (simp add: sales_inv_def)
  have "shipped_of (sl_ID l) (w_sales w') \<le> sl_QtyPlanned l" if "l \<in> set (so_lines (w_sales w'))" for l
    using row_by_eq_SomeI [OF sales_okD(3) [OF ok] that] sales_okD(5) [OF ok that] by (simp add: shipped_of_def line_ok_def)
  then show ?thesis using seal_tx_row [OF tx] lines eff by simp
qed

theorem Seal_effect_witness:
  "shipped_of 21 (w_sales (snd yard_loaded)) = 0 \<and> shipped_of 21 (w_sales (snd yard_sealed)) = 4 \<and> container_lines (fst yard_sealed) = container_lines (fst yard_loaded)"
proof -
  obtain c where run: "Seal yard (desk_env 7) yard_seal (fst yard_loaded, snd yard_loaded) = (Inr c, (fst yard_sealed, snd yard_sealed))"
    using yard_runs(1) by (cases "fst (Seal yard (desk_env 7) yard_seal yard_loaded)") (auto simp: yard_sealed_def prod_eq_iff)
  have v: "shipped_of 21 (w_sales (snd yard_loaded)) = 0" "qty_for (se_ContainerID yard_seal) 21 (fst yard_loaded) = 4" by code_simp+
  have "wired_reach yard_base yard_pk (\<lambda>_. False) yard_pbase desk (fst yard_loaded, snd yard_loaded)" using yard_reach(1) by simp
  from Seal_effect [OF this run] v show ?thesis by auto
qed

text \<open>
  C31: a container that is reopened counts twice. When a container is sealed, reopened at once and sealed again with no other change, every sales
  order line has shipped twice what the container holds for it, although the container delivers it once: reopening does not
  take the shipped quantity back.
\<close>

theorem reopened_container_counts_twice:
  assumes "wired_reach base pk held pbase sdeps (db, w)" and "Seal (wired_delivery base pk held pbase) env1 inp (db, w) = (Inr c1, (db1, w1))"
    and "Reopen (drefs (wired_delivery base pk held pbase) w1) env2 (se_ContainerID inp) u reason db1 = (Inr c2, db2)"
    and "Seal (wired_delivery base pk held pbase) env3 inp (db2, w1) = (Inr c3, (db3, w3))"
  shows "shipped_of s (w_sales w3) = shipped_of s (w_sales w) + 2 * qty_for (se_ContainerID inp) s db \<and>
    delivered s db3 = delivered s db + qty_for (se_ContainerID inp) s db"
proof -
  let ?i = "se_ContainerID inp"
  have inv: "sales_inv (w_sales w, w_splits w)" using flow.reach_inv [OF assms(1)] by (simp add: covered_def)
  from assms(2) inv have one: "seals ?i db db1" "sales_inv (w_sales w1, w_splits w1)" "shipped_of s (w_sales w1) = shipped_of s (w_sales w) + qty_for ?i s db"
    by (cases rule: wired_Seal; auto)+
  from assms(4) one(2) have two: "seals ?i db2 db3" "shipped_of s (w_sales w3) = shipped_of s (w_sales w1) + qty_for ?i s db2"
    by (cases rule: wired_Seal; auto)+
  from assms(3) obtain b where upd: "updateContainerStatus (drefs (wired_delivery base pk held pbase) w1) (fresh env2 0)
      (status_change (scanContainer b) ContainerStatusLoading u reason (now env2)) db1 = Inr (c2, db2)" and b: "container_row ?i db1 = Some b"
    by (auto simp: Reopen_def change_status_def split: if_splits sum.splits dest!: lockContainer_view)
  have lines: "container_lines db2 = container_lines db" using updateContainerStatus_view(2) [OF upd] one(1) by (simp add: seals_def)
  have gone: "gone db2 j \<longleftrightarrow> gone db j" for j
  proof (cases "j = ?i")
    case True
    then show ?thesis using gone_holds two(1) one(1) by (auto simp: seals_def)
  next
    case False
    have "container_row j db2 = container_row j db1" "container_row j db1 = container_row j db"
      using False updateContainerStatus_view(1) [OF upd] row_by_SomeD [OF b] one(1) set_container_status_box
      by (auto simp: seals_def status_change_def row_by_update_where same_box_def option.map_ident_strong dest!: row_by_SomeD intro!: option.map_ident_strong)
    then show ?thesis by (simp add: gone_def)
  qed
  have "delivered s db2 = delivered s db" "qty_for ?i s db2 = qty_for ?i s db" using lines gone by (simp_all add: delivered_def qty_for_def)
  then show ?thesis using one(3) two(2) seals_delivered [OF two(1), of s] by simp
qed

theorem reopened_container_counts_twice_witness:
  "qty_for 50 21 (fst yard_loaded) = 4 \<and> shipped_of 21 (w_sales (snd yard_resealed)) = 8"
proof -
  obtain c1 where run1: "Seal yard (desk_env 7) yard_seal (fst yard_loaded, snd yard_loaded) = (Inr c1, (fst yard_sealed, snd yard_sealed))"
    using yard_runs(1) by (cases "fst (Seal yard (desk_env 7) yard_seal yard_loaded)") (auto simp: yard_sealed_def prod_eq_iff)
  obtain c2 where run2: "Reopen (drefs yard (snd yard_sealed)) (desk_env 8) (se_ContainerID yard_seal) 9 ''recount'' (fst yard_sealed) = (Inr c2, yard_reopened)"
    using yard_runs(2) by (cases "fst (Reopen (drefs yard (snd yard_sealed)) (desk_env 8) 50 9 ''recount'' (fst yard_sealed))")
      (auto simp: yard_reopened_def yard_seal_def prod_eq_iff)
  obtain c3 where run3: "Seal yard (desk_env 9) yard_seal (yard_reopened, snd yard_sealed) = (Inr c3, (fst yard_resealed, snd yard_resealed))"
    using yard_runs(3) by (cases "fst (Seal yard (desk_env 9) yard_seal (yard_reopened, snd yard_sealed))") (auto simp: yard_resealed_def prod_eq_iff)
  have v: "shipped_of 21 (w_sales (snd yard_loaded)) = 0" "qty_for 50 21 (fst yard_loaded) = 4" "se_ContainerID yard_seal = 50" by code_simp+
  have "wired_reach yard_base yard_pk (\<lambda>_. False) yard_pbase desk (fst yard_loaded, snd yard_loaded)" using yard_reach(1) by simp
  from reopened_container_counts_twice [OF this run1 run2 run3, of 21] v show ?thesis by simp
qed

section \<open>Delivery with packing\<close>

lemma used_line:
  assumes "r \<in> set (fg_pool (w_pool w))" and "fg_ContainerLineID r = Some i"
  shows "line_used (drefs (wired_delivery base pk held pbase) w) db i"
  using assms by (force simp: line_used_def wired_delivery_def delivery_refs_def List.map_filter_def)

lemma used_line_stays: "line_used rf db i \<Longrightarrow> \<exists>e. deleteLine rf i db = Inl e"
  by (simp add: deleteLine_def)

lemma insertLine_used: "insertLine rf l db = Inr db1 \<Longrightarrow> line_used rf db1 = line_used rf db"
  by (auto simp: insertLine_def line_used_def fun_eq_iff split: sum.splits prod.splits)

lemma move_whole_used:
  assumes "line_used rf db (ctl_ID l)"
  shows "\<exists>e. move_whole pct rf env inp src target crossPlan l db = Inl e"
proof -
  have "\<exists>e. deleteLine rf (ctl_ID l) db1 = Inl e" if "insertLine rf nl db = Inr db1" for nl db1
    using used_line_stays insertLine_used [OF that] assms by simp
  then show ?thesis by (fastforce simp: move_whole_def Let_def split: sum.splits)
qed

text \<open>
  C36: a line that holds finished goods cannot leave its container. While a piece of the pool names a container line, deleting the line and moving it whole to
  another container (asked for with quantity 0 or with the quantity of the line) are refused whatever the status of the containers, and nothing changes.
\<close>

theorem reserved_line_cannot_leave:
  assumes "r \<in> set (fg_pool (w_pool w))" and "fg_ContainerLineID r = Some i"
  shows "(\<exists>e. DeleteLine (wired_delivery base pk held pbase) c i (db, w) = (Inl e, (db, w))) \<and>
    (tl_LineID inp = i \<and> (tl_Qty inp = 0 \<or> map_option ctl_Qty (cline_row i db) = Some (tl_Qty inp)) \<longrightarrow>
       (\<exists>e. TransferLine (wired_delivery base pk held pbase) env inp (db, w) = (Inl e, (db, w))))"
proof -
  let ?rf = "drefs (wired_delivery base pk held pbase) w"
  have used: "line_used ?rf db i" using assms by (rule used_line)
  have "\<exists>e. transfer_tx (cbmOverheadPct (wired_delivery base pk held pbase)) ?rf env inp db = Inl e"
    if "tl_LineID inp = i" "tl_Qty inp = 0 \<or> map_option ctl_Qty (cline_row i db) = Some (tl_Qty inp)"
  proof (cases "cline_row i db")
    case None
    with that(1) show ?thesis
      by (auto simp: transfer_tx_def Let_def lockLineForUpdate_def split: sum.splits prod.splits)
  next
    case (Some l)
    then have "ctl_ID l = i" using row_by_SomeD by fastforce
    with used have "\<exists>e. move_whole pct ?rf env inp src target cross (scan_line l) db = Inl e" for pct src target cross
      by (intro move_whole_used) (simp add: scan_line_def)
    moreover have "tl_Qty inp = 0 \<or> tl_Qty inp = ctl_Qty (scan_line l)" using that(2) Some by (auto simp: scan_line_def)
    ultimately show ?thesis using that(1) Some
      by (fastforce simp: transfer_tx_def Let_def lockLineForUpdate_def split: sum.splits prod.splits)
  qed
  then show ?thesis using used_line_stays [OF used]
    by (fastforce simp: DeleteLine_def delete_line_tx_def TransferLine_def split: sum.splits prod.splits)
qed

text \<open>A second container in the yard, and the line of four pieces on its way to it.\<close>

definition yard_second :: delivery_db where
  "yard_second = snd (CreateContainer yard (desk_env 8) (2026, 3, 2)
     \<lparr>cci_ContainerType = ''20GP'', cci_MaxCBM = 0, cci_MaxPayloadKG = 0, cci_Note = [], cci_CreatedBy = 9\<rparr> (snd yard_loaded) (fst yard_loaded))"

definition yard_move :: "int \<Rightarrow> TransferLineInput" where
  "yard_move q = \<lparr>tl_ContainerID = 50, tl_LineID = 60, tl_TargetContainerID = 80, tl_Qty = q, tl_CBMTotal = 0, tl_WeightKGTotal = 0,
     tl_Reason = ''wrong dock'', tl_ActorID = 9, tl_ActorRole = ''packer''\<rparr>"

lemma yard_second_code [code]:
  "yard_second = (fst yard_loaded)\<lparr>containers := containers (fst yard_loaded) @
     [\<lparr>ctn_ID = 80, ctn_Code = ''CONT20260302-002'', ctn_ContainerType = ''20GP'', ctn_MaxCBM = 166 / 5,
       ctn_MaxPayloadKG = 28000, ctn_Status = ContainerStatusOpen, ctn_SealedAt = None, ctn_SealedBy = None, ctn_Note = [], ctn_VesselID = None,
       ctn_CutoffDate = None, ctn_DestinationCode = [], ctn_DestinationName = [], ctn_LoaderID = None, ctn_CreatedBy = 9, ctn_CreatedAt = 8\<rparr>],
     container_counters := [((2026, 3, 2), 2)]\<rparr>"
  by code_simp

lemma yard_second_rows:
  "map ctn_ID (containers yard_second) = [50, 80]"
  "map_option ctl_Qty (cline_row 60 yard_second) = Some (tl_Qty (yard_move 4))"
  "\<not> isl (fst (TransferLine yard (desk_env 10) (yard_move 4) (yard_second, yard_world)))"
  by code_simp+

text \<open>With the reserved piece the move is refused; with the pool as it was before the reservation it succeeds.\<close>

theorem reserved_line_cannot_leave_witness:
  "(\<exists>e. DeleteLine yard 50 60 yard_loaded = (Inl e, yard_loaded)) \<and>
   (\<exists>e. TransferLine yard (desk_env 10) (yard_move 4) (yard_second, snd yard_loaded) = (Inl e, (yard_second, snd yard_loaded))) \<and>
   (\<exists>e. TransferLine yard (desk_env 10) (yard_move 0) (yard_second, snd yard_loaded) = (Inl e, (yard_second, snd yard_loaded))) \<and>
   \<not> isl (fst (TransferLine yard (desk_env 10) (yard_move 4) (yard_second, yard_world)))"
proof -
  obtain r where r: "r \<in> set (fg_pool (w_pool (snd yard_loaded)))" "fg_ContainerLineID r = Some 60"
    by (simp add: yard_loaded_code yard_pool_def)
  note stay = reserved_line_cannot_leave [OF r, of yard_base yard_pk "\<lambda>_. False" yard_pbase 50]
  have "\<exists>e. TransferLine yard (desk_env 10) (yard_move q) (yard_second, snd yard_loaded) = (Inl e, (yard_second, snd yard_loaded))" if "q = 0 \<or> q = 4" for q
    using stay [of yard_second "yard_move q" "desk_env 10"] yard_second_rows(2) that by (auto simp: yard_move_def)
  moreover have "\<exists>e. DeleteLine yard 50 60 yard_loaded = (Inl e, yard_loaded)" using stay [of "fst yard_loaded"] by simp
  ultimately show ?thesis using yard_second_rows(3) by blast
qed

end
