(* ===== verification/Exceptions.thy ===== *)
theory Exceptions
  imports Domain Paging
begin

text \<open>
  The loading exceptions: \<^verbatim>\<open>internal/module/loading_exception\<close> with migration 00057. An exception is pending
  until it is approved with a resolution or rejected without one; sealing a container asks for its pending ones.
  The reads that other modules answer are \<open>exc_refs\<close>: the keys a reference may point to, and which
  customers the lines of a container belong to. Of the rows an exception refers to, only the lines of a draft
  sales order are ever deleted, and no exception refers to those.
\<close>

section \<open>Rows and statements\<close>

abbreviation TypeShortShipped :: string where "TypeShortShipped \<equiv> ''SHORT_SHIPPED''"
abbreviation ResolutionBackorder :: string where "ResolutionBackorder \<equiv> ''BACKORDER''"
abbreviation ResolutionSubstituteAccepted :: string where "ResolutionSubstituteAccepted \<equiv> ''SUBSTITUTE_ACCEPTED''"

record LoadingException =
  le_ID :: uuid
  le_ContainerID :: uuid
  le_LoadingPlanID :: "uuid option"
  le_ExceptionType :: string
  le_SKUID :: "uuid option"
  le_Qty :: "int option"
  le_Reason :: string
  le_PhotoURLs :: "string list"
  le_ApprovedBy :: "uuid option"
  le_ApprovedAt :: "time option"
  le_Resolution :: "string option"
  le_ResolutionNotes :: string
  le_CarryOverSOLineID :: "uuid option"
  le_SubstituteSKUID :: "uuid option"
  le_CreatedBy :: uuid
  le_CreatedAt :: time

record exc_db =
  loading_exceptions :: "LoadingException list"

record exc_refs =
  eref_containers :: "uuid list"
  eref_plans :: "uuid list"
  eref_skus :: "uuid list"
  eref_users :: "uuid list"
  eref_so_lines :: "uuid list"
  eref_customer_of :: "uuid \<Rightarrow> uuid list"

abbreviation exc_row :: "uuid \<Rightarrow> exc_db \<Rightarrow> LoadingException option" where
  "exc_row i db \<equiv> row_by le_ID i (loading_exceptions db)"

definition validType :: "string \<Rightarrow> bool" where
  "validType t \<longleftrightarrow> t \<in> set [''SHORT_SHIPPED'', ''OVER_LOADED'', ''WRONG_SKU'', ''SUBSTITUTION'', ''DAMAGED_AT_LOADING'', ''UNPLANNED_UNIT'', ''CUSTOMER_CHANGE'']"

definition validExceptionResolution :: "string \<Rightarrow> bool" where
  "validExceptionResolution r \<longleftrightarrow> r \<in> set [''BACKORDER'', ''CANCEL_FROM_SO'', ''SUBSTITUTE_ACCEPTED'', ''WRITE_OFF'', ''DEFER_TO_NEXT'']"

text \<open>\<^verbatim>\<open>chk_le_approval_pair\<close>, \<^verbatim>\<open>chk_le_backorder_link\<close> and \<^verbatim>\<open>chk_le_substitute_link\<close>.\<close>

definition exception_links :: "LoadingException \<Rightarrow> bool" where
  "exception_links r \<longleftrightarrow>
     (le_ApprovedBy r = None \<longleftrightarrow> le_ApprovedAt r = None) \<and>
     (le_Resolution r = Some ResolutionBackorder \<longleftrightarrow> le_CarryOverSOLineID r \<noteq> None) \<and>
     (le_Resolution r = Some ResolutionSubstituteAccepted \<longleftrightarrow> le_SubstituteSKUID r \<noteq> None)"

definition check_exception :: "exc_refs \<Rightarrow> LoadingException \<Rightarrow> error option" where
  "check_exception rf r =
     (if \<not> validType (le_ExceptionType r) then Some (Pg InvalidTextRepresentation)
      else if (case le_Qty r of None \<Rightarrow> False | Some q \<Rightarrow> \<not> in_int4 q) then Some (Pg NumericOutOfRange)
      else if (case le_Qty r of None \<Rightarrow> False | Some q \<Rightarrow> q < 0) \<or> \<not> exception_links r then Some (Pg CheckViolation)
      else if le_ContainerID r \<notin> set (eref_containers rf) \<or> \<not> opt_ref (le_LoadingPlanID r) (eref_plans rf) \<or> \<not> opt_ref (le_SKUID r) (eref_skus rf) \<or>
              le_CreatedBy r \<notin> set (eref_users rf) then Some (Pg ForeignKeyViolation)
      else None)"

definition insertException :: "exc_refs \<Rightarrow> LoadingException \<Rightarrow> exc_db \<Rightarrow> exc_db result" where
  "insertException rf r db =
     (case insert_checked (check_exception rf) le_ID r (loading_exceptions db) of Inl e \<Rightarrow> Inl e | Inr t \<Rightarrow> Inr (db\<lparr>loading_exceptions := t\<rparr>))"

definition selectExceptionByID :: "uuid \<Rightarrow> exc_db \<Rightarrow> LoadingException result" where
  "selectExceptionByID i db = (case exc_row i db of None \<Rightarrow> Inl (Biz ErrNotFound) | Some r \<Rightarrow> Inr r)"

definition exception_cursor :: "LoadingException \<Rightarrow> Cursor" where
  "exception_cursor r = \<lparr>Ts = le_CreatedAt r, CID = le_ID r\<rparr>"

definition status_filter :: "string \<Rightarrow> LoadingException \<Rightarrow> bool" where
  "status_filter s r \<longleftrightarrow>
     (if s = ''pending'' then le_ApprovedBy r = None else if s = ''approved'' then le_ApprovedBy r \<noteq> None else True)"

definition selectByContainerKeyset :: "uuid \<Rightarrow> string \<Rightarrow> Cursor \<Rightarrow> int \<Rightarrow> exc_db \<Rightarrow> LoadingException list result" where
  "selectByContainerKeyset c s cur limit db =
     Inr (keyset_page exception_cursor (select_where (\<lambda>r. le_ContainerID r = c \<and> status_filter s r) (loading_exceptions db)) cur limit)"

record CrossContainerFilter =
  xf_Status :: string
  xf_ContainerID :: "uuid option"
  xf_CustomerID :: "uuid option"
  xf_ExceptionType :: string
  xf_From :: time
  xf_To :: time

definition cross_status :: "string \<Rightarrow> LoadingException \<Rightarrow> bool" where
  "cross_status s r \<longleftrightarrow>
     (if s = ''pending'' then le_ApprovedBy r = None
      else if s = ''approved'' then le_ApprovedBy r \<noteq> None \<and> le_Resolution r \<noteq> None
      else if s = ''rejected'' then le_ApprovedBy r \<noteq> None \<and> le_Resolution r = None
      else True)"

definition crossContainerWhere :: "exc_refs \<Rightarrow> CrossContainerFilter \<Rightarrow> LoadingException \<Rightarrow> bool" where
  "crossContainerWhere rf f r \<longleftrightarrow>
     cross_status (xf_Status f) r \<and>
     (case xf_ContainerID f of None \<Rightarrow> True | Some c \<Rightarrow> le_ContainerID r = c) \<and>
     (xf_ExceptionType f = [] \<or> le_ExceptionType r = xf_ExceptionType f) \<and>
     (xf_From f = 0 \<or> le_CreatedAt r \<ge> xf_From f) \<and>
     (xf_To f = 0 \<or> le_CreatedAt r < xf_To f) \<and>
     (case xf_CustomerID f of None \<Rightarrow> True | Some u \<Rightarrow> u \<in> set (eref_customer_of rf (le_ContainerID r)))"

text \<open>The type filter is compared with an enumeration: a text outside it is refused by the database.\<close>

definition bad_type_filter :: "CrossContainerFilter \<Rightarrow> bool" where
  "bad_type_filter f \<longleftrightarrow> xf_ExceptionType f \<noteq> [] \<and> \<not> validType (xf_ExceptionType f)"

definition selectCrossContainerKeyset :: "exc_refs \<Rightarrow> CrossContainerFilter \<Rightarrow> Cursor \<Rightarrow> int \<Rightarrow> exc_db \<Rightarrow> LoadingException list result" where
  "selectCrossContainerKeyset rf f cur limit db =
     (if bad_type_filter f then Inl (Pg InvalidTextRepresentation)
      else Inr (keyset_page exception_cursor (select_where (crossContainerWhere rf f) (loading_exceptions db)) cur limit))"

definition crossContainerSummary :: "exc_refs \<Rightarrow> CrossContainerFilter \<Rightarrow> exc_db \<Rightarrow> (nat \<times> nat) result" where
  "crossContainerSummary rf f db =
     (if bad_type_filter f then Inl (Pg InvalidTextRepresentation)
      else let hits = select_where (crossContainerWhere rf (f\<lparr>xf_Status := ''pending''\<rparr>)) (loading_exceptions db)
           in Inr (length hits, length (remdups (map le_ContainerID hits))))"

definition pending_in :: "uuid \<Rightarrow> exc_db \<Rightarrow> LoadingException list" where
  "pending_in c db = select_where (\<lambda>r. le_ContainerID r = c \<and> le_ApprovedBy r = None) (loading_exceptions db)"

definition pendingByContainer :: "uuid \<Rightarrow> exc_db \<Rightarrow> (int \<times> uuid list) result" where
  "pendingByContainer c db =
     (let ids = map le_ID (sort_key (\<lambda>r. le_CreatedAt r) (sort_key (\<lambda>r. le_ID r) (pending_in c db))) in Inr (int (length ids), ids))"

record approveRow =
  ar_ID :: uuid
  ar_ApprovedBy :: uuid
  ar_Resolution :: string
  ar_ResolutionNotes :: string
  ar_CarryOverSOLineID :: "uuid option"
  ar_SubstituteSKUID :: "uuid option"

text \<open>Both closing statements update the row only while it is pending; the checks are those of the updated row.\<close>

definition close_exception :: "(LoadingException \<Rightarrow> LoadingException) \<Rightarrow> bool \<Rightarrow> uuid \<Rightarrow> exc_db \<Rightarrow> exc_db result" where
  "close_exception f known i db =
     (let hit = (\<lambda>r. le_ID r = i \<and> le_ApprovedBy r = None) in
      if count_where hit (loading_exceptions db) = 0 then Inl (Biz ErrInvalidTransition)
      else if list_ex (\<lambda>r. hit r \<and> \<not> exception_links (f r)) (loading_exceptions db) then Inl (Pg CheckViolation)
      else if \<not> known then Inl (Pg ForeignKeyViolation)
      else Inr (db\<lparr>loading_exceptions := update_where hit f (loading_exceptions db)\<rparr>))"

definition approved_row :: "time \<Rightarrow> approveRow \<Rightarrow> LoadingException \<Rightarrow> LoadingException" where
  "approved_row t a r =
     r\<lparr>le_ApprovedBy := Some (ar_ApprovedBy a), le_ApprovedAt := Some t, le_Resolution := Some (ar_Resolution a), le_ResolutionNotes := ar_ResolutionNotes a,
       le_CarryOverSOLineID := ar_CarryOverSOLineID a, le_SubstituteSKUID := ar_SubstituteSKUID a\<rparr>"

definition approve :: "exc_refs \<Rightarrow> time \<Rightarrow> approveRow \<Rightarrow> exc_db \<Rightarrow> exc_db result" where
  "approve rf t a db =
     (if \<not> validExceptionResolution (ar_Resolution a) then Inl (Pg InvalidTextRepresentation)
      else close_exception (approved_row t a)
        (ar_ApprovedBy a \<in> set (eref_users rf) \<and> opt_ref (ar_CarryOverSOLineID a) (eref_so_lines rf) \<and> opt_ref (ar_SubstituteSKUID a) (eref_skus rf))
        (ar_ID a) db)"

definition rejected_row :: "time \<Rightarrow> uuid \<Rightarrow> string \<Rightarrow> LoadingException \<Rightarrow> LoadingException" where
  "rejected_row t u reason r =
     r\<lparr>le_ApprovedBy := Some u, le_ApprovedAt := Some t, le_Resolution := None, le_ResolutionNotes := reason\<rparr>"

definition reject :: "exc_refs \<Rightarrow> time \<Rightarrow> uuid \<Rightarrow> uuid \<Rightarrow> string \<Rightarrow> exc_db \<Rightarrow> exc_db result" where
  "reject rf t i u reason db = close_exception (rejected_row t u reason) (u \<in> set (eref_users rf)) i db"

section \<open>The service\<close>

datatype ExceptionAction = AuditActionCreated | AuditActionApproved | AuditActionRejected

record ExceptionAudit =
  xa_Action :: ExceptionAction
  xa_ExceptionID :: uuid
  xa_ContainerID :: uuid
  xa_ExceptionType :: string
  xa_Resolution :: string
  xa_ActorID :: uuid
  xa_Notes :: string

datatype ExceptionNotice =
    NotifyCreated uuid uuid string
  | NotifyApproved uuid uuid string
  | NotifyRejected uuid uuid

text \<open>The reason that accompanies a carry-over is passed on to sales, which ignores it.\<close>

record CarryOverInput =
  co_ParentSOLineID :: uuid
  co_Qty :: int
  co_CreatedBy :: uuid

text \<open>The checker of sales order lines is stored by the service and never called, so it is left out.\<close>

record 'x exc_deps =
  erefs :: "'x \<Rightarrow> exc_refs"
  eskuChecker :: "(uuid \<Rightarrow> 'x \<Rightarrow> unit result) option"
  carryOver :: "(CarryOverInput \<Rightarrow> ('x, uuid) op) option"
  eauditor :: "(ExceptionAudit \<Rightarrow> ('x, unit) op) option"
  enotifier :: "(ExceptionNotice \<Rightarrow> ('x, unit) op) option"

definition logAudit :: "'x exc_deps \<Rightarrow> ExceptionAudit \<Rightarrow> 'x \<Rightarrow> 'x" where
  "logAudit deps a x = (case eauditor deps of None \<Rightarrow> x | Some f \<Rightarrow> snd (f a x))"

definition send_notice :: "'x exc_deps \<Rightarrow> ExceptionNotice \<Rightarrow> 'x \<Rightarrow> 'x" where
  "send_notice deps n x = (case enotifier deps of None \<Rightarrow> x | Some f \<Rightarrow> snd (f n x))"

definition sku_known :: "'x exc_deps \<Rightarrow> uuid option \<Rightarrow> 'x \<Rightarrow> unit result" where
  "sku_known deps sku x = (case (sku, eskuChecker deps) of (Some i, Some f) \<Rightarrow> f i x | _ \<Rightarrow> Inr ())"

record CreateExceptionInput =
  cx_ContainerID :: uuid
  cx_LoadingPlanID :: "uuid option"
  cx_ExceptionType :: string
  cx_SKUID :: "uuid option"
  cx_Qty :: "int option"
  cx_Reason :: string
  cx_PhotoURLs :: "string list"
  cx_CreatedBy :: uuid

definition new_exception :: "env \<Rightarrow> CreateExceptionInput \<Rightarrow> LoadingException" where
  "new_exception env inp =
     \<lparr>le_ID = fresh env 0, le_ContainerID = cx_ContainerID inp, le_LoadingPlanID = cx_LoadingPlanID inp, le_ExceptionType = cx_ExceptionType inp,
      le_SKUID = cx_SKUID inp, le_Qty = cx_Qty inp, le_Reason = cx_Reason inp, le_PhotoURLs = cx_PhotoURLs inp, le_ApprovedBy = None,
      le_ApprovedAt = None, le_Resolution = None, le_ResolutionNotes = [], le_CarryOverSOLineID = None, le_SubstituteSKUID = None,
      le_CreatedBy = cx_CreatedBy inp, le_CreatedAt = now env\<rparr>"

definition CreateException :: "'x exc_deps \<Rightarrow> env \<Rightarrow> CreateExceptionInput \<Rightarrow> (exc_db \<times> 'x, LoadingException) op" where
  "CreateException deps env inp st =
     (let (db, x) = st in
      if \<not> validType (cx_ExceptionType inp) then (Inl (Biz ErrInvalidInput), st)
      else if cx_ContainerID inp = uuid_Nil then (Inl (Biz ErrInvalidInput), st)
      else if cx_Reason inp = [] then (Inl (Biz ErrInvalidInput), st)
      else if cx_CreatedBy inp = uuid_Nil then (Inl (Biz ErrInvalidInput), st)
      else (case sku_known deps (cx_SKUID inp) x of
              Inl e \<Rightarrow> (Inl e, st)
            | Inr _ \<Rightarrow>
                let row = new_exception env inp in
                (case insertException (erefs deps x) row db of
                   Inl e \<Rightarrow> (Inl e, st)
                 | Inr db1 \<Rightarrow>
                     (Inr row, (db1, send_notice deps (NotifyCreated (le_ID row) (le_ContainerID row) (le_ExceptionType row))
                        (logAudit deps \<lparr>xa_Action = AuditActionCreated, xa_ExceptionID = le_ID row, xa_ContainerID = le_ContainerID row,
                           xa_ExceptionType = le_ExceptionType row, xa_Resolution = [], xa_ActorID = le_CreatedBy row, xa_Notes = le_Reason row\<rparr> x))))))"

definition AutoCreate :: "'x exc_deps \<Rightarrow> env \<Rightarrow> CreateExceptionInput \<Rightarrow> (exc_db \<times> 'x, LoadingException) op" where
  "AutoCreate deps env inp st =
     CreateException deps env (if cx_Reason inp = [] then inp\<lparr>cx_Reason := ''auto: '' @ cx_ExceptionType inp\<rparr> else inp) st"

record ApproveInput =
  ax_ID :: uuid
  ax_Resolution :: string
  ax_ResolutionNotes :: string
  ax_SubstituteSKUID :: "uuid option"
  ax_ParentSOLineID :: "uuid option"
  ax_ApprovedBy :: uuid

text \<open>What a resolution asks of other modules: the carry-over line and the substitute that the row will name.\<close>

definition resolution_links :: "'x exc_deps \<Rightarrow> ApproveInput \<Rightarrow> LoadingException \<Rightarrow> ('x, uuid option \<times> uuid option) op" where
  "resolution_links deps inp cur x =
     (if ax_Resolution inp = ResolutionBackorder then
        (case ax_ParentSOLineID inp of
           None \<Rightarrow> (Inl (Biz ErrInvalidInput), x)
         | Some p \<Rightarrow>
             (case carryOver deps of
                None \<Rightarrow> (Inl (Biz ErrPreconditionFailed), x)
              | Some f \<Rightarrow>
                  let q = (case le_Qty cur of None \<Rightarrow> 0 | Some q \<Rightarrow> q) in
                  if q \<le> 0 then (Inl (Biz ErrInvalidInput), x)
                  else (case f \<lparr>co_ParentSOLineID = p, co_Qty = q, co_CreatedBy = ax_ApprovedBy inp\<rparr> x of
                          (Inl e, x1) \<Rightarrow> (Inl e, x1)
                        | (Inr i, x1) \<Rightarrow> (Inr (Some i, None), x1))))
      else if ax_Resolution inp = ResolutionSubstituteAccepted then
        (case ax_SubstituteSKUID inp of
           None \<Rightarrow> (Inl (Biz ErrInvalidInput), x)
         | Some s \<Rightarrow> (case sku_known deps (Some s) x of Inl e \<Rightarrow> (Inl e, x) | Inr _ \<Rightarrow> (Inr (None, Some s), x)))
      else (Inr (None, None), x))"

text \<open>The carry-over is written by sales in a transaction of its own, so it stays when the approval fails afterwards.\<close>

definition ApproveException :: "'x exc_deps \<Rightarrow> env \<Rightarrow> ApproveInput \<Rightarrow> (exc_db \<times> 'x, LoadingException) op" where
  "ApproveException deps env inp st =
     (let (db, x) = st in
      if \<not> validExceptionResolution (ax_Resolution inp) then (Inl (Biz ErrInvalidInput), st)
      else if ax_ApprovedBy inp = uuid_Nil then (Inl (Biz ErrInvalidInput), st)
      else (case selectExceptionByID (ax_ID inp) db of
              Inl e \<Rightarrow> (Inl e, st)
            | Inr cur \<Rightarrow>
                if le_ApprovedBy cur \<noteq> None then (Inl (Biz ErrInvalidTransition), st)
                else (case resolution_links deps inp cur x of
                        (Inl e, x1) \<Rightarrow> (Inl e, (db, x1))
                      | (Inr (co, sub), x1) \<Rightarrow>
                          (case approve (erefs deps x1) (now env)
                                  \<lparr>ar_ID = ax_ID inp, ar_ApprovedBy = ax_ApprovedBy inp, ar_Resolution = ax_Resolution inp,
                                   ar_ResolutionNotes = ax_ResolutionNotes inp, ar_CarryOverSOLineID = co, ar_SubstituteSKUID = sub\<rparr> db of
                             Inl e \<Rightarrow> (Inl e, (db, x1))
                           | Inr db1 \<Rightarrow>
                               (case selectExceptionByID (ax_ID inp) db1 of
                                  Inl e \<Rightarrow> (Inl e, (db, x1))
                                | Inr out \<Rightarrow>
                                    (Inr out, (db1, send_notice deps (NotifyApproved (le_ID out) (le_ContainerID out) (ax_Resolution inp))
                                       (logAudit deps \<lparr>xa_Action = AuditActionApproved, xa_ExceptionID = le_ID out, xa_ContainerID = le_ContainerID out,
                                          xa_ExceptionType = le_ExceptionType out, xa_Resolution = ax_Resolution inp, xa_ActorID = ax_ApprovedBy inp,
                                          xa_Notes = ax_ResolutionNotes inp\<rparr> x1))))))))"

record RejectInput =
  rx_ID :: uuid
  rx_Reason :: string
  rx_ApprovedBy :: uuid

definition RejectException :: "'x exc_deps \<Rightarrow> env \<Rightarrow> RejectInput \<Rightarrow> (exc_db \<times> 'x, LoadingException) op" where
  "RejectException deps env inp st =
     (let (db, x) = st in
      if rx_Reason inp = [] then (Inl (Biz ErrInvalidInput), st)
      else if rx_ApprovedBy inp = uuid_Nil then (Inl (Biz ErrInvalidInput), st)
      else (case selectExceptionByID (rx_ID inp) db of
              Inl e \<Rightarrow> (Inl e, st)
            | Inr cur \<Rightarrow>
                if le_ApprovedBy cur \<noteq> None then (Inl (Biz ErrInvalidTransition), st)
                else (case reject (erefs deps x) (now env) (rx_ID inp) (rx_ApprovedBy inp) (rx_Reason inp) db of
                        Inl e \<Rightarrow> (Inl e, st)
                      | Inr db1 \<Rightarrow>
                          (case selectExceptionByID (rx_ID inp) db1 of
                             Inl e \<Rightarrow> (Inl e, st)
                           | Inr out \<Rightarrow>
                               (Inr out, (db1, send_notice deps (NotifyRejected (le_ID out) (le_ContainerID out))
                                  (logAudit deps \<lparr>xa_Action = AuditActionRejected, xa_ExceptionID = le_ID out, xa_ContainerID = le_ContainerID out,
                                     xa_ExceptionType = le_ExceptionType out, xa_Resolution = [], xa_ActorID = rx_ApprovedBy inp,
                                     xa_Notes = rx_Reason inp\<rparr> x)))))))"

fun classifyBulkError :: "error \<Rightarrow> string" where
  "classifyBulkError (Biz ErrNotFound) = ''NOT_FOUND''"
| "classifyBulkError (Biz ErrInvalidTransition) = ''INVALID_TRANSITION''"
| "classifyBulkError (Biz ErrInvalidInput) = ''INVALID_INPUT''"
| "classifyBulkError (Biz ErrPreconditionFailed) = ''PRECONDITION_FAILED''"
| "classifyBulkError _ = ''INTERNAL''"

record BulkApproveInput =
  bx_IDs :: "uuid list"
  bx_Resolution :: string
  bx_ResolutionNotes :: string
  bx_ApprovedBy :: uuid

record BulkApproveResult =
  bres_Approved :: "uuid list"
  bres_Failed :: "(uuid \<times> string) list"

definition bulk_item :: "BulkApproveInput \<Rightarrow> uuid \<Rightarrow> ApproveInput" where
  "bulk_item inp i = \<lparr>ax_ID = i, ax_Resolution = bx_Resolution inp, ax_ResolutionNotes = bx_ResolutionNotes inp, ax_SubstituteSKUID = None,
     ax_ParentSOLineID = None, ax_ApprovedBy = bx_ApprovedBy inp\<rparr>"

fun bulk_approve :: "'x exc_deps \<Rightarrow> (nat \<Rightarrow> env) \<Rightarrow> nat \<Rightarrow> BulkApproveInput \<Rightarrow> uuid list \<Rightarrow> exc_db \<times> 'x \<Rightarrow> BulkApproveResult \<times> (exc_db \<times> 'x)" where
  "bulk_approve deps envs n inp [] st = (\<lparr>bres_Approved = [], bres_Failed = []\<rparr>, st)"
| "bulk_approve deps envs n inp (i # is) st =
     (let (r, st1) = ApproveException deps (envs n) (bulk_item inp i) st; (res, st2) = bulk_approve deps envs (Suc n) inp is st1
      in (case r of
            Inl e \<Rightarrow> res\<lparr>bres_Failed := (i, classifyBulkError e) # bres_Failed res\<rparr>
          | Inr out \<Rightarrow> res\<lparr>bres_Approved := le_ID out # bres_Approved res\<rparr>, st2))"

definition BulkApprove :: "'x exc_deps \<Rightarrow> (nat \<Rightarrow> env) \<Rightarrow> BulkApproveInput \<Rightarrow> (exc_db \<times> 'x, BulkApproveResult) op" where
  "BulkApprove deps envs inp st =
     (if bx_IDs inp = [] then (Inl (Biz ErrInvalidInput), st)
      else if length (bx_IDs inp) > 50 then (Inl (Biz ErrInvalidInput), st)
      else if bx_ApprovedBy inp = uuid_Nil then (Inl (Biz ErrInvalidInput), st)
      else if \<not> validExceptionResolution (bx_Resolution inp) then (Inl (Biz ErrInvalidInput), st)
      else if bx_Resolution inp \<in> {ResolutionBackorder, ResolutionSubstituteAccepted} then (Inl (Biz ErrInvalidInput), st)
      else let (res, st1) = bulk_approve deps envs 0 inp (bx_IDs inp) st in (Inr res, st1))"

definition GetException :: "uuid \<Rightarrow> exc_db \<Rightarrow> LoadingException result" where
  "GetException i db = selectExceptionByID i db"

definition ListExceptions :: "uuid \<Rightarrow> string \<Rightarrow> CursorParams \<Rightarrow> exc_db \<Rightarrow> LoadingException CursorResult result" where
  "ListExceptions c s p db =
     (case Decoded p of
        Inl e \<Rightarrow> Inl (Biz ErrInvalidInput)
      | Inr cur \<Rightarrow>
          (case selectByContainerKeyset c s cur (CLimit p + 1) db of
             Inl e \<Rightarrow> Inl e
           | Inr rows \<Rightarrow> Inr (NewCursorResult rows (CLimit p) exception_cursor)))"

definition ListCrossContainer :: "exc_refs \<Rightarrow> CrossContainerFilter \<Rightarrow> CursorParams \<Rightarrow> exc_db \<Rightarrow> LoadingException CursorResult result" where
  "ListCrossContainer rf f p db =
     (case Decoded p of
        Inl e \<Rightarrow> Inl (Biz ErrInvalidInput)
      | Inr cur \<Rightarrow>
          (case selectCrossContainerKeyset rf f cur (CLimit p + 1) db of
             Inl e \<Rightarrow> Inl e
           | Inr rows \<Rightarrow> Inr (NewCursorResult rows (CLimit p) exception_cursor)))"

definition CrossContainerSummary :: "exc_refs \<Rightarrow> CrossContainerFilter \<Rightarrow> exc_db \<Rightarrow> (nat \<times> nat) result" where
  "CrossContainerSummary rf f db = crossContainerSummary rf f db"

definition PendingForContainer :: "uuid \<Rightarrow> exc_db \<Rightarrow> (int \<times> uuid list) result" where
  "PendingForContainer c db = (if c = uuid_Nil then Inl (Biz ErrInvalidInput) else pendingByContainer c db)"

end
