(* ===== verification/Exceptions_Props.thy ===== *)
theory Exceptions_Props
  imports Exceptions Delivery_Props
begin

text \<open>
  The loading exceptions over every sequence of calls: what a row looks like, that a closed exception stays closed, and
  complete listings. Then their two meeting points with other modules: sealing, which waits for them and raises new ones,
  and the carry-over that a backorder asks of sales.
\<close>

section \<open>Steps\<close>

inductive exc_step :: "'x exc_deps \<Rightarrow> exc_db \<times> 'x \<Rightarrow> exc_db \<times> 'x \<Rightarrow> bool" for deps :: "'x exc_deps" where
  exc_create: "CreateException deps env inp s = (r, s') \<Longrightarrow> exc_step deps s s'"
| exc_auto: "AutoCreate deps env inp s = (r, s') \<Longrightarrow> exc_step deps s s'"
| exc_approve: "ApproveException deps env ain s = (r, s') \<Longrightarrow> exc_step deps s s'"
| exc_bulk: "BulkApprove deps envs bin s = (q, s') \<Longrightarrow> exc_step deps s s'"
| exc_reject: "RejectException deps env rin s = (r, s') \<Longrightarrow> exc_step deps s s'"
| exc_other: "exc_step deps (db, x) (db, x')"

definition empty_exceptions :: exc_db where
  "empty_exceptions = \<lparr>loading_exceptions = []\<rparr>"

text \<open>What the two writes do to the table: a pending row appears, or one pending row is closed.\<close>

definition same_case :: "LoadingException \<Rightarrow> LoadingException \<Rightarrow> bool" where
  "same_case r r' \<longleftrightarrow> le_ID r' = le_ID r \<and> le_ContainerID r' = le_ContainerID r \<and> le_LoadingPlanID r' = le_LoadingPlanID r \<and>
     le_ExceptionType r' = le_ExceptionType r \<and> le_SKUID r' = le_SKUID r \<and> le_Qty r' = le_Qty r \<and> le_Reason r' = le_Reason r \<and>
     le_PhotoURLs r' = le_PhotoURLs r \<and> le_CreatedBy r' = le_CreatedBy r \<and> le_CreatedAt r' = le_CreatedAt r"

inductive exc_edit :: "exc_db \<Rightarrow> exc_db \<Rightarrow> bool" where
  exc_insert: "check_exception rf r = None \<Longrightarrow> le_ID r \<notin> le_ID ` set (loading_exceptions db) \<Longrightarrow> le_ApprovedBy r = None \<Longrightarrow> le_Resolution r = None \<Longrightarrow>
    exc_edit db (db\<lparr>loading_exceptions := loading_exceptions db @ [r]\<rparr>)"
| exc_close: "(\<And>r. same_case r (f r) \<and> le_ApprovedBy (f r) \<noteq> None \<and> (\<forall>v. le_Resolution (f r) = Some v \<longrightarrow> validExceptionResolution v)) \<Longrightarrow>
    (\<And>r. r \<in> set (loading_exceptions db) \<Longrightarrow> hit r \<Longrightarrow> le_ApprovedBy r = None \<and> exception_links (f r)) \<Longrightarrow>
    exc_edit db (db\<lparr>loading_exceptions := update_where hit f (loading_exceptions db)\<rparr>)"

lemma close_exception_edit:
  assumes "close_exception f known i db = Inr db'"
    and "\<And>r. same_case r (f r) \<and> le_ApprovedBy (f r) \<noteq> None \<and> (\<forall>v. le_Resolution (f r) = Some v \<longrightarrow> validExceptionResolution v)"
  shows "exc_edit db db'"
proof -
  let ?hit = "\<lambda>r. le_ID r = i \<and> le_ApprovedBy r = None"
  from assms(1) have db': "db' = db\<lparr>loading_exceptions := update_where ?hit f (loading_exceptions db)\<rparr>"
    and links: "\<not> list_ex (\<lambda>r. ?hit r \<and> \<not> exception_links (f r)) (loading_exceptions db)"
    by (simp_all add: close_exception_def Let_def split: if_splits)
  show ?thesis unfolding db' using links by (intro exc_close [OF assms(2)]) (auto simp: list_ex_iff)
qed

lemma CreateException_edit: "CreateException deps env inp (db, x) = (r, (db', x')) \<Longrightarrow> db' = db \<or> exc_edit db db'"
  by (auto simp: CreateException_def Let_def insertException_def new_exception_def split: if_splits sum.splits intro!: exc_insert)

lemma ApproveException_edit:
  assumes "ApproveException deps env inp (db, x) = (r, (db', x'))"
  shows "db' = db \<or> exc_edit db db'"
  using assms
  by (auto simp: ApproveException_def Let_def approve_def split: if_splits sum.splits prod.splits
      intro!: close_exception_edit simp: approved_row_def same_case_def)

lemma RejectException_edit:
  assumes "RejectException deps env inp (db, x) = (r, (db', x'))"
  shows "db' = db \<or> exc_edit db db'"
  using assms
  by (auto simp: RejectException_def Let_def reject_def split: if_splits sum.splits prod.splits
      intro!: close_exception_edit simp: rejected_row_def same_case_def)

lemma bulk_approve_edits: "exc_edit\<^sup>*\<^sup>* (fst st) (fst (snd (bulk_approve deps envs n inp is st)))"
proof (induction "is" arbitrary: n st)
  case (Cons i "is")
  obtain r db1 x1 where step: "ApproveException deps (envs n) (bulk_item inp i) st = (r, (db1, x1))" by (metis surj_pair)
  then have "fst st = db1 \<or> exc_edit (fst st) db1" using ApproveException_edit [of deps "envs n" _ "fst st" "snd st"] by auto
  then show ?case using Cons.IH [of "(db1, x1)" "Suc n"] step
    by (auto simp: Let_def split: prod.splits intro: converse_rtranclp_into_rtranclp)
qed simp

lemma exc_step_edits:
  assumes "exc_step deps s s'"
  shows "exc_edit\<^sup>*\<^sup>* (fst s) (fst s')"
  using assms
proof cases
  case (exc_create env inp r)
  then show ?thesis using CreateException_edit [of deps env inp "fst s" "snd s" r "fst s'" "snd s'"] by auto
next
  case (exc_auto env inp r)
  then show ?thesis unfolding AutoCreate_def using CreateException_edit [of deps env _ "fst s" "snd s" r "fst s'" "snd s'"] by fastforce
next
  case (exc_approve env ain r)
  then show ?thesis using ApproveException_edit [of deps env ain "fst s" "snd s" r "fst s'" "snd s'"] by auto
next
  case (exc_reject env rin r)
  then show ?thesis using RejectException_edit [of deps env rin "fst s" "snd s" r "fst s'" "snd s'"] by auto
next
  case (exc_bulk envs bin q)
  then show ?thesis using bulk_approve_edits [of s deps envs 0 bin "bx_IDs bin"] by (auto simp: BulkApprove_def split: if_splits prod.splits)
qed simp

section \<open>The invariant\<close>

definition exc_fine :: "LoadingException \<Rightarrow> bool" where
  "exc_fine r \<longleftrightarrow> validType (le_ExceptionType r) \<and> exception_links r \<and> (\<forall>q. le_Qty r = Some q \<longrightarrow> 0 \<le> q \<and> in_int4 q) \<and>
     (le_ApprovedBy r = None \<longrightarrow> le_Resolution r = None) \<and> (\<forall>v. le_Resolution r = Some v \<longrightarrow> validExceptionResolution v)"

definition exc_ok :: "exc_db \<Rightarrow> bool" where
  "exc_ok db \<longleftrightarrow> keys_distinct le_ID (loading_exceptions db) \<and> list_all exc_fine (loading_exceptions db)"

text \<open>A closed exception stays as it is, a pending one stays the same case.\<close>

definition exc_lives :: "exc_db \<Rightarrow> exc_db \<Rightarrow> bool" where
  "exc_lives db db' \<longleftrightarrow> (\<forall>i r. exc_row i db = Some r \<longrightarrow>
     (\<exists>r'. exc_row i db' = Some r' \<and> same_case r r' \<and> (le_ApprovedBy r \<noteq> None \<longrightarrow> r' = r)))"

lemma same_case_refl [simp]: "same_case r r"
  by (simp add: same_case_def)

lemma same_case_trans: "same_case a b \<Longrightarrow> same_case b c \<Longrightarrow> same_case a c"
  by (simp add: same_case_def)

lemma exc_lives_trans: "exc_lives a b \<Longrightarrow> exc_lives b c \<Longrightarrow> exc_lives a c"
  unfolding exc_lives_def
proof (intro allI impI)
  fix i r
  assume ab: "\<forall>i r. exc_row i a = Some r \<longrightarrow> (\<exists>r'. exc_row i b = Some r' \<and> same_case r r' \<and> (le_ApprovedBy r \<noteq> None \<longrightarrow> r' = r))"
    and bc: "\<forall>i r. exc_row i b = Some r \<longrightarrow> (\<exists>r'. exc_row i c = Some r' \<and> same_case r r' \<and> (le_ApprovedBy r \<noteq> None \<longrightarrow> r' = r))"
    and "exc_row i a = Some r"
  then obtain r1 where r1: "exc_row i b = Some r1" "same_case r r1" "le_ApprovedBy r \<noteq> None \<longrightarrow> r1 = r" by blast
  with bc obtain r2 where "exc_row i c = Some r2" "same_case r1 r2" "le_ApprovedBy r1 \<noteq> None \<longrightarrow> r2 = r1" by blast
  with r1 show "\<exists>r'. exc_row i c = Some r' \<and> same_case r r' \<and> (le_ApprovedBy r \<noteq> None \<longrightarrow> r' = r)"
    using same_case_trans [OF r1(2)] by auto
qed

lemma check_exception_fine: "check_exception rf r = None \<Longrightarrow> le_ApprovedBy r = None \<Longrightarrow> le_Resolution r = None \<Longrightarrow> exc_fine r"
  by (cases "le_Qty r") (simp_all add: check_exception_def exc_fine_def not_less split: if_splits)

lemma exc_edit_ok:
  assumes "exc_edit db db'" and "exc_ok db"
  shows "exc_ok db' \<and> exc_lives db db'"
  using assms
proof cases
  case (exc_insert rf r)
  then show ?thesis using assms(2) check_exception_fine [OF exc_insert(2,4,5)] by (auto simp: exc_ok_def exc_lives_def)
next
  case (exc_close f hit)
  have key: "le_ID (f r) = le_ID r" for r using exc_close(2) [of r] by (simp add: same_case_def)
  have fine: "exc_fine (if hit r then f r else r)" if "r \<in> set (loading_exceptions db)" for r
    using that exc_close(2) [of r] exc_close(3) [OF that] assms(2)
    by (auto simp: exc_ok_def list_all_iff exc_fine_def same_case_def)
  have "\<exists>r'. map_option (\<lambda>r. if hit r then f r else r) (exc_row i db) = Some r' \<and> same_case r r' \<and> (le_ApprovedBy r \<noteq> None \<longrightarrow> r' = r)"
    if "exc_row i db = Some r" for i r
    using that exc_close(2) [of r] exc_close(3) [of r] row_by_SomeD [OF that] by auto
  moreover have "list_all exc_fine (update_where hit f (loading_exceptions db))"
    using fine by (force simp: list_all_iff set_update_where)
  ultimately show ?thesis using exc_close(1) key assms(2)
    by (simp add: exc_ok_def exc_lives_def map_update_where row_by_update_where)
qed

lemma exc_edits_ok: "exc_edit\<^sup>*\<^sup>* db db' \<Longrightarrow> exc_ok db \<Longrightarrow> exc_ok db' \<and> exc_lives db db'"
proof (induction rule: rtranclp_induct)
  case (step b c)
  then show ?case using exc_edit_ok [of b c] exc_lives_trans by blast
qed (simp add: exc_lives_def)

abbreviation exc_init :: "exc_db \<times> 'x \<Rightarrow> bool" where
  "exc_init s \<equiv> fst s = empty_exceptions"

interpretation exceptions: invariant exc_init "exc_step deps" "\<lambda>s. exc_ok (fst s)"
proof (unfold_locales, goal_cases)
  case (1 s)
  then show ?case by (simp add: exc_ok_def empty_exceptions_def)
next
  case (2 s s')
  then show ?case using exc_step_edits exc_edits_ok by blast
qed

lemma exc_run_lives:
  assumes "exc_ok (fst s)" and "(exc_step deps)\<^sup>*\<^sup>* s s'"
  shows "exc_lives (fst s) (fst s')"
  using assms(2,1)
proof (induction rule: rtranclp_induct)
  case (step b c)
  then have "exc_ok (fst b)" using exceptions.star_inv by blast
  then show ?case using step exc_edits_ok [OF exc_step_edits [OF step(2)]] exc_lives_trans by blast
qed (simp add: exc_lives_def)

section \<open>Listings\<close>

definition exc_listable :: "exc_db \<Rightarrow> bool" where
  "exc_listable db \<longleftrightarrow> keys_distinct le_ID (loading_exceptions db) \<and> (\<forall>r \<in> set (loading_exceptions db). le_ID r \<noteq> uuid_Nil)"

lemmas exc_listing_defs = exc_listable_def list_keyset_def select_where_def IsZero_def exception_cursor_def

interpretation container_exceptions: keyset_listing
  "\<lambda>db. select_where (\<lambda>r. le_ContainerID r = c \<and> status_filter st r) (loading_exceptions db)" exception_cursor
  "\<lambda>db p. ListExceptions c st p db" exc_listable
proof (unfold_locales, goal_cases)
  case (2 s)
  then show ?case by (intro distinct_keyed_filter [of le_ID]) (auto simp: exc_listable_def exception_cursor_def)
qed (auto simp: exc_listing_defs ListExceptions_def selectByContainerKeyset_def)

interpretation cross_exceptions: keyset_listing
  "\<lambda>db. select_where (crossContainerWhere rf f) (loading_exceptions db)" exception_cursor
  "\<lambda>db p. ListCrossContainer rf f p db" "\<lambda>db. exc_listable db \<and> \<not> bad_type_filter f"
proof (unfold_locales, goal_cases)
  case (2 s)
  then show ?case by (intro distinct_keyed_filter [of le_ID]) (auto simp: exc_listable_def exception_cursor_def)
qed (auto simp: exc_listing_defs ListCrossContainer_def selectCrossContainerKeyset_def)

section \<open>Wiring\<close>

text \<open>
  Delivery asks for the pending exceptions before it seals and raises one per shortage afterwards. The state behind delivery's
  other dependencies is the exceptions and the rest; \<open>xenv\<close> reads the clock and the identifiers of a call from it.
\<close>

definition deliveryPendingExceptionsAdapter :: "uuid \<Rightarrow> exc_db \<times> 'q \<Rightarrow> int result" where
  "deliveryPendingExceptionsAdapter c z = map_sum id fst (PendingForContainer c (fst z))"

definition exceptions_of :: "'q exc_deps \<Rightarrow> delivery_db \<Rightarrow> 'q exc_deps" where
  "exceptions_of xdeps db =
     xdeps\<lparr>erefs := (\<lambda>q. (erefs xdeps q)\<lparr>eref_containers := map ctn_ID (containers db), eref_plans := map lpn_ID (loading_plans db)\<rparr>)\<rparr>"

definition deliveryShortShippedAdapter ::
  "'q exc_deps \<Rightarrow> (exc_db \<times> 'q \<Rightarrow> env) \<Rightarrow> delivery_db \<Rightarrow> ShortShippedAutoInput \<Rightarrow> (exc_db \<times> 'q, unit) op" where
  "deliveryShortShippedAdapter xdeps xenv db inp z =
     (let (r, z1) = AutoCreate (exceptions_of xdeps db) (xenv z)
        \<lparr>cx_ContainerID = sas_ContainerID inp, cx_LoadingPlanID = sas_LoadingPlanID inp, cx_ExceptionType = TypeShortShipped,
         cx_SKUID = Some (sas_SKUID inp), cx_Qty = Some (sas_MissingQty inp), cx_Reason = ''auto: actual loaded qty is short of plan'',
         cx_PhotoURLs = [], cx_CreatedBy = sas_ActorID inp\<rparr> z
      in (map_sum id (\<lambda>_. ()) r, z1))"

definition with_exceptions :: "'q exc_deps \<Rightarrow> (exc_db \<times> 'q \<Rightarrow> env) \<Rightarrow> (exc_db \<times> 'q) del_deps \<Rightarrow> (exc_db \<times> 'q) del_deps" where
  "with_exceptions xdeps xenv base =
     base\<lparr>pendingExc := Some deliveryPendingExceptionsAdapter, shortShipped := Some (deliveryShortShippedAdapter xdeps xenv)\<rparr>"

definition short_case :: "SealInput \<Rightarrow> delivery_db \<Rightarrow> LoadingException \<Rightarrow> bool" where
  "short_case inp db r \<longleftrightarrow>
     le_ContainerID r = se_ContainerID inp \<and> le_ExceptionType r = TypeShortShipped \<and> le_ApprovedBy r = None \<and> le_CreatedBy r = se_ActorID inp \<and>
     (\<exists>p sku. le_LoadingPlanID r = Some p \<and> le_SKUID r = Some sku \<and> p \<in> set (map lpn_ID (active_lplans (se_ContainerID inp) db)) \<and>
        le_Qty r = Some (planned_qty p sku db - loaded_qty (se_ContainerID inp) sku db) \<and> 0 < planned_qty p sku db - loaded_qty (se_ContainerID inp) sku db)"

lemma shortages_view:
  assumes "selectShortagesForContainer c db = Inr (plan, items)" and "it \<in> set items"
  shows "\<exists>p. plan = Some p \<and> p \<in> set (map lpn_ID (active_lplans c db)) \<and> sh_MissingQty it = planned_qty p (sh_SKUID it) db - loaded_qty c (sh_SKUID it) db"
  using assms by (auto simp: selectShortagesForContainer_def Let_def split: list.splits if_splits)

lemma short_adapter_appends:
  assumes "deliveryShortShippedAdapter xdeps xenv db inp z = (r, z')"
  shows "\<exists>new. loading_exceptions (fst z') = loading_exceptions (fst z) @ new \<and>
    (\<forall>x \<in> set new. le_ContainerID x = sas_ContainerID inp \<and> le_LoadingPlanID x = sas_LoadingPlanID inp \<and> le_ExceptionType x = TypeShortShipped \<and>
       le_SKUID x = Some (sas_SKUID inp) \<and> le_Qty x = Some (sas_MissingQty inp) \<and> le_ApprovedBy x = None \<and> le_CreatedBy x = sas_ActorID inp)"
  using assms
  by (cases z) (auto simp: deliveryShortShippedAdapter_def AutoCreate_def CreateException_def insertException_def new_exception_def Let_def
      split: if_splits sum.splits prod.splits)

lemma record_shortages_appends:
  assumes "shortShipped deps = Some (deliveryShortShippedAdapter xdeps xenv)"
  shows "\<exists>new. loading_exceptions (fst (record_shortages deps inp db z)) = loading_exceptions (fst z) @ new \<and> (\<forall>r \<in> set new. short_case inp db r)"
proof (cases "selectShortagesForContainer (se_ContainerID inp) db")
  case (Inr res)
  obtain plan items where res: "res = (plan, items)" by (cases res)
  have "\<exists>new. loading_exceptions (fst (fold (\<lambda>it z. snd (deliveryShortShippedAdapter xdeps xenv db (short_input inp plan it) z)) its z)) =
      loading_exceptions (fst z) @ new \<and> (\<forall>r \<in> set new. short_case inp db r)" if "set its \<subseteq> {it \<in> set items. 0 < sh_MissingQty it}" for its z
    using that
  proof (induction its arbitrary: z)
    case (Cons it its)
    obtain r z1 where run: "deliveryShortShippedAdapter xdeps xenv db (short_input inp plan it) z = (r, z1)" by (metis surj_pair)
    have case_of: "short_case inp db x" if "le_ContainerID x = se_ContainerID inp" "le_LoadingPlanID x = plan" "le_ExceptionType x = TypeShortShipped"
      "le_SKUID x = Some (sh_SKUID it)" "le_Qty x = Some (sh_MissingQty it)" "le_ApprovedBy x = None" "le_CreatedBy x = se_ActorID inp" for x
    proof -
      have "it \<in> set items" "0 < sh_MissingQty it" using Cons.prems by auto
      moreover from this(1) obtain p where "plan = Some p" "p \<in> set (map lpn_ID (active_lplans (se_ContainerID inp) db))"
        "sh_MissingQty it = planned_qty p (sh_SKUID it) db - loaded_qty (se_ContainerID inp) (sh_SKUID it) db"
        using shortages_view [of "se_ContainerID inp" db plan items it] Inr res by blast
      ultimately show ?thesis using that by (simp add: short_case_def)
    qed
    from short_adapter_appends [OF run] obtain new where new: "loading_exceptions (fst z1) = loading_exceptions (fst z) @ new" "\<forall>x \<in> set new. short_case inp db x"
      using case_of by (auto simp: short_input_def)
    from Cons.IH [of z1] Cons.prems obtain new' where
      "loading_exceptions (fst (fold (\<lambda>it z. snd (deliveryShortShippedAdapter xdeps xenv db (short_input inp plan it) z)) its z1)) = loading_exceptions (fst z1) @ new'"
      "\<forall>r \<in> set new'. short_case inp db r" by auto
    with new run show ?case by (intro exI [of _ "new @ new'"]) auto
  qed simp
  from this [of "filter (\<lambda>it. sh_MissingQty it > 0) items" z] show ?thesis using assms Inr res by (auto simp: record_shortages_def)
qed (use assms in \<open>auto simp: record_shortages_def\<close>)

lemma fold_on_rest: "w_rest (fold (\<lambda>it w. snd (on_rest (f it) w)) its w) = fold (\<lambda>it z. snd (f it z)) its (w_rest w)"
proof (induction its arbitrary: w)
  case (Cons it its)
  then show ?case by (simp add: on_rest_def split: prod.splits)
qed simp

lemma wired_shortages: "w_rest (record_shortages (wired_delivery base pk held pbase) inp db w) = record_shortages base inp db (w_rest w)"
  by (cases "shortShipped base") (auto simp: record_shortages_def wired_delivery_def fold_on_rest split: sum.splits)

lemma seal_keeps_rest:
  assumes "seal_tx deliveryShipmentAdapter rfs env inp (db, w) = Inr (c, db', w')"
  shows "w_rest w' = w_rest w"
  using assms by (auto simp: seal_tx_def Let_def deliveryShipmentAdapter_def split: sum.splits if_splits prod.splits option.splits)

definition waiting_case :: "uuid \<Rightarrow> exc_db \<Rightarrow> bool" where
  "waiting_case c db \<longleftrightarrow> list_ex (\<lambda>r. le_ContainerID r = c \<and> le_ApprovedBy r = None) (loading_exceptions db)"

lemma waiting_pending: "waiting_case c db \<longleftrightarrow> pending_in c db \<noteq> []"
  by (auto simp: waiting_case_def pending_in_def list_ex_iff filter_empty_conv select_where_def)

lemma pending_check:
  assumes "c \<noteq> uuid_Nil"
  shows "deliveryPendingExceptionsAdapter c z = Inr (int (length (pending_in c (fst z))))"
  using assms by (simp add: deliveryPendingExceptionsAdapter_def PendingForContainer_def pendingByContainer_def Let_def)

text \<open>
  C14: sealing waits for the exceptions. While an exception of a container is pending, sealing it is refused and nothing changes. A
  seal that succeeds found none, keeps every exception and adds only pending shortages of that container: for a SKU of its active
  loading plan, with the quantity by which the container falls short of the plan.
\<close>

theorem seal_waits_for_exceptions:
  assumes "Seal (wired_delivery (with_exceptions xdeps xenv base) pk held pbase) env inp (db, w) = (r, (db', w'))"
  shows "(se_ContainerID inp \<noteq> uuid_Nil \<and> waiting_case (se_ContainerID inp) (fst (w_rest w)) \<longrightarrow>
      r = Inl (Biz ErrPreconditionFailed) \<and> db' = db \<and> w' = w) \<and>
    (\<forall>c. r = Inr c \<longrightarrow> \<not> waiting_case (se_ContainerID inp) (fst (w_rest w)) \<and>
      (\<exists>new. loading_exceptions (fst (w_rest w')) = loading_exceptions (fst (w_rest w)) @ new \<and> (\<forall>x \<in> set new. short_case inp db' x)))"
proof -
  let ?deps = "wired_delivery (with_exceptions xdeps xenv base) pk held pbase" let ?c = "se_ContainerID inp"
  have ship: "shipRecorder ?deps = Some deliveryShipmentAdapter" by (simp add: wired_delivery_def)
  have pend: "pendingExc ?deps = Some (\<lambda>i w. deliveryPendingExceptionsAdapter i (w_rest w))" by (simp add: wired_delivery_def with_exceptions_def)
  show ?thesis
  proof (cases "check_seal ?deps inp db w")
    case (Inl e)
    then have "r = Inl e" "db' = db" "w' = w" using assms ship by (auto simp: Seal_def)
    moreover have "e = Biz ErrPreconditionFailed" if "?c \<noteq> uuid_Nil" "pending_in ?c (fst (w_rest w)) \<noteq> []"
      using Inl that by (simp add: check_seal_def pend pending_check)
    ultimately show ?thesis by (simp add: waiting_pending)
  next
    case (Inr u)
    then have none: "?c \<noteq> uuid_Nil" "pending_in ?c (fst (w_rest w)) = []"
      by (auto simp: check_seal_def pend deliveryPendingExceptionsAdapter_def PendingForContainer_def pendingByContainer_def Let_def split: sum.splits if_splits)
    have "\<exists>new. loading_exceptions (fst (w_rest w')) = loading_exceptions (fst (w_rest w)) @ new \<and> (\<forall>x \<in> set new. short_case inp db' x)" if r: "r = Inr c" for c
      using assms
    proof (cases rule: Seal_view)
      case (sealed ship' c' w1)
      have "w_rest w1 = w_rest w" using sealed(1,2) ship seal_keeps_rest by auto
      moreover have "w_rest w' = record_shortages (with_exceptions xdeps xenv base) inp db' (w_rest w1)"
        unfolding sealed(4) wired_shortages by (simp add: track_def wired_delivery_def deliveryFGTrackerAdapter_def)
      ultimately show ?thesis
        using record_shortages_appends [of "with_exceptions xdeps xenv base" xdeps xenv inp db' "w_rest w"] by (simp add: with_exceptions_def)
    qed (use r in simp)
    then show ?thesis using none by (simp add: waiting_pending)
  qed
qed

text \<open>The yard of the delivery example with a loading plan of six pieces, of which four are loaded.\<close>

definition dock_deps :: "unit exc_deps" where
  "dock_deps = \<lparr>erefs = (\<lambda>_. \<lparr>eref_containers = [], eref_plans = [], eref_skus = [3], eref_users = [9], eref_so_lines = [], eref_customer_of = (\<lambda>_. [])\<rparr>),
     eskuChecker = None, carryOver = None, eauditor = None, enotifier = None\<rparr>"

definition dock_base :: "(exc_db \<times> unit) del_deps" where
  "dock_base = \<lparr>drefs = (\<lambda>_. \<lparr>dref_users = [9], dref_skus = [3], dref_so_lines = [], dref_used_lines = []\<rparr>), dskuChecker = None, soLineChecker = None,
     shipRecorder = None, fgTracker = None, skuResolver = None, lpAuditor = None, planReloader = None, pendingExc = None, shortShipped = None,
     fgCompChecker = None, cbmOverheadPct = 5\<rparr>"

definition dock_pbase :: "(delivery_db \<times> (exc_db \<times> unit) world) pack_deps" where
  "dock_pbase = \<lparr>prefs = (\<lambda>_. yard_pk ()), barcodeIss = None, barcodeRes = None, wog = None, suggester = None, lineRemover = None, defectNotifier = None,
     solChecker = None, skuCompRes = None\<rparr>"

definition dock_env :: "exc_db \<times> unit \<Rightarrow> env" where
  "dock_env z = desk_env (90 + length (loading_exceptions (fst z)))"

abbreviation dock :: "(exc_db \<times> unit) world del_deps" where
  "dock \<equiv> wired_delivery (with_exceptions dock_deps dock_env dock_base) (\<lambda>_. yard_pk ()) (\<lambda>_. False) dock_pbase"

definition dock_db :: delivery_db where
  "dock_db = (fst yard_loaded)\<lparr>
     loading_plans := [\<lparr>lpn_ID = 70, lpn_ContainerID = 50, lpn_ExcelFileURL = [], lpn_ExcelHash = ''h'', lpn_ParsedAt = 6, lpn_UploadedBy = 9,
       lpn_Status = LoadingPlanStatusApproved, lpn_Version = 1, lpn_Notes = [], lpn_ApprovedAt = Some 6, lpn_ApprovedBy = Some 9,
       lpn_SupersededAt = None, lpn_SupersededBy = None, lpn_CreatedAt = 6\<rparr>],
     loading_plan_lines := [\<lparr>lpl_ID = 71, lpl_LoadingPlanID = 70, lpl_SKUID = 3, lpl_QtyPlannedPieces = 6, lpl_UnitInExcel = ''pcs'', lpl_QtyInExcel = 6,
       lpl_CustomerSKUCode = ''A'', lpl_ExcelRowNum = 2, lpl_CreatedAt = 6\<rparr>]\<rparr>"

definition dock_world :: "exc_db \<Rightarrow> (exc_db \<times> unit) world" where
  "dock_world x = \<lparr>w_pool = w_pool (snd yard_loaded), w_sales = desk_planned, w_splits = [(desk_split, SOStatusConfirmed)], w_rest = (x, ())\<rparr>"

definition dock_sealed :: "(exc_db \<times> unit) world" where
  "dock_sealed = snd (snd (Seal dock (desk_env 7) yard_seal (dock_db, dock_world empty_exceptions)))"

lemma dock_runs:
  "\<not> isl (fst (Seal dock (desk_env 7) yard_seal (dock_db, dock_world empty_exceptions)))"
  "map le_Qty (loading_exceptions (fst (w_rest dock_sealed))) = [Some 2]"
  "length (loading_exceptions (fst (w_rest dock_sealed))) = 1"
  by code_simp+

theorem seal_waits_for_exceptions_witness:
  "\<not> waiting_case 50 (fst (w_rest (dock_world empty_exceptions))) \<and>
   list_all (short_case yard_seal (fst (snd (Seal dock (desk_env 7) yard_seal (dock_db, dock_world empty_exceptions))))) (loading_exceptions (fst (w_rest dock_sealed))) \<and>
   length (loading_exceptions (fst (w_rest dock_sealed))) = 1"
proof -
  let ?run = "Seal dock (desk_env 7) yard_seal (dock_db, dock_world empty_exceptions)"
  obtain c where c: "fst ?run = Inr c" using dock_runs(1) by (cases "fst ?run") auto
  have id: "se_ContainerID yard_seal = 50" "loading_exceptions (fst (w_rest (dock_world empty_exceptions))) = []" by code_simp+
  have "?run = (fst ?run, (fst (snd ?run), snd (snd ?run)))" by simp
  from seal_waits_for_exceptions [OF this] c id
  have "\<not> waiting_case 50 (fst (w_rest (dock_world empty_exceptions))) \<and>
    (\<forall>x \<in> set (loading_exceptions (fst (w_rest dock_sealed))). short_case yard_seal (fst (snd ?run)) x)"
    by (auto simp: dock_sealed_def)
  moreover have "length (loading_exceptions (fst (w_rest dock_sealed))) = 1" by (rule dock_runs(3))
  ultimately show ?thesis by (simp add: list_all_iff)
qed

section \<open>The life of an exception\<close>

text \<open>An exception on container 50 is raised, written off, and then rejected in vain.\<close>

definition bay_deps :: "unit exc_deps" where
  "bay_deps = \<lparr>erefs = (\<lambda>_. \<lparr>eref_containers = [50], eref_plans = [], eref_skus = [3], eref_users = [9], eref_so_lines = [], eref_customer_of = (\<lambda>_. [])\<rparr>),
     eskuChecker = None, carryOver = None, eauditor = None, enotifier = None\<rparr>"

definition bay_case :: CreateExceptionInput where
  "bay_case = \<lparr>cx_ContainerID = 50, cx_LoadingPlanID = None, cx_ExceptionType = ''OVER_LOADED'', cx_SKUID = Some 3, cx_Qty = Some 1, cx_Reason = ''one too many'',
     cx_PhotoURLs = [], cx_CreatedBy = 9\<rparr>"

definition bay_raised :: "exc_db \<times> unit" where
  "bay_raised = snd (CreateException bay_deps (desk_env 1) bay_case (empty_exceptions, ()))"

definition bay_closed :: "exc_db \<times> unit" where
  "bay_closed = snd (ApproveException bay_deps (desk_env 2) \<lparr>ax_ID = 10, ax_Resolution = ''WRITE_OFF'', ax_ResolutionNotes = [], ax_SubstituteSKUID = None,
     ax_ParentSOLineID = None, ax_ApprovedBy = 9\<rparr> bay_raised)"

definition bay_again :: "exc_db \<times> unit" where
  "bay_again = snd (RejectException bay_deps (desk_env 3) \<lparr>rx_ID = 10, rx_Reason = ''no'', rx_ApprovedBy = 9\<rparr> bay_closed)"

lemma bay_reach: "reach exc_init (exc_step bay_deps) bay_closed"
proof -
  have "reach exc_init (exc_step bay_deps) (empty_exceptions, ())" by (rule reach_init) simp
  from reach_step [OF this exc_create [OF run_pair [OF bay_raised_def]]] have "reach exc_init (exc_step bay_deps) bay_raised" .
  from reach_step [OF this exc_approve [OF run_pair [OF bay_closed_def]]] show ?thesis .
qed

lemma bay_rows:
  "length (loading_exceptions (fst bay_closed)) = 1"
  "map_option le_ApprovedBy (exc_row 10 (fst bay_closed)) = Some (Some 9)"
  by code_simp+

text \<open>
  C25: the rows of the exceptions are well-formed. In every state that the calls of the service can reach, whatever the other modules answer, an
  exception has one of the seven types, a quantity that is not negative, an approver exactly when it has an approval time, a resolution only when it is
  approved, and then one of the five; it names a carried-over line exactly when it was backordered and a substitute exactly when a substitute was accepted.
\<close>

theorem exception_rows_typed:
  assumes "reach exc_init (exc_step deps) s"
  shows "keys_distinct le_ID (loading_exceptions (fst s)) \<and> list_all exc_fine (loading_exceptions (fst s))"
  using exceptions.reach_inv [OF assms] by (simp add: exc_ok_def)

theorem exception_rows_typed_witness: "length (loading_exceptions (fst bay_closed)) = 1 \<and> list_all exc_fine (loading_exceptions (fst bay_closed))"
  using exception_rows_typed [OF bay_reach] bay_rows(1) by simp

lemma closed_refused:
  assumes "exc_row i db = Some r" and "le_ApprovedBy r \<noteq> None"
  shows "ax_ID ain = i \<Longrightarrow> \<exists>e. ApproveException deps env ain (db, x) = (Inl e, (db, x))"
    and "rx_ID rin = i \<Longrightarrow> \<exists>e. RejectException deps env rin (db, x) = (Inl e, (db, x))"
  using assms by (auto simp: ApproveException_def RejectException_def selectExceptionByID_def)

lemma ApproveException_id: "ApproveException deps env ain st = (Inr out, st') \<Longrightarrow> le_ID out = ax_ID ain"
  by (auto simp: ApproveException_def Let_def selectExceptionByID_def split: if_splits sum.splits prod.splits option.splits dest: row_by_SomeD)

text \<open>A batch reports every occurrence of a closed exception as failed.\<close>

lemma bulk_approve_closed:
  "bulk_approve deps envs n inp is st = (res, st') \<Longrightarrow> exc_ok (fst st) \<Longrightarrow> exc_row i (fst st) = Some r \<Longrightarrow> le_ApprovedBy r \<noteq> None \<Longrightarrow>
   i \<notin> set (bres_Approved res) \<and> count_list (map fst (bres_Failed res)) i = count_list is i \<and> exc_row i (fst st') = Some r"
proof (induction "is" arbitrary: n st res st')
  case (Cons j "is")
  obtain q db1 x1 where one: "ApproveException deps (envs n) (bulk_item inp j) st = (q, (db1, x1))" by (metis surj_pair)
  obtain res1 st2 where rest: "bulk_approve deps envs (Suc n) inp is (db1, x1) = (res1, st2)" by (metis surj_pair)
  obtain db x where st: "st = (db, x)" by (cases st)
  have "db1 = db \<or> exc_edit db db1" by (rule ApproveException_edit [OF one [unfolded st]])
  then have "exc_ok db1 \<and> exc_lives db db1" using exc_edits_ok [of db db1] Cons.prems(2) st by auto
  then have "exc_ok db1" "exc_row i db1 = Some r" using Cons.prems(3,4) st by (auto simp: exc_lives_def)
  note IH = Cons.IH [OF rest, unfolded fst_conv, OF this Cons.prems(4)]
  have out: "res = (case q of Inl e \<Rightarrow> res1\<lparr>bres_Failed := (j, classifyBulkError e) # bres_Failed res1\<rparr>
      | Inr out \<Rightarrow> res1\<lparr>bres_Approved := le_ID out # bres_Approved res1\<rparr>)" "st' = st2"
    using Cons.prems(1) one rest by (simp_all add: Let_def)
  show ?case
  proof (cases q)
    case (Inl e)
    then show ?thesis using IH out by simp
  next
    case (Inr out')
    have "le_ID out' = j" using ApproveException_id one Inr by (fastforce simp: bulk_item_def)
    moreover have "j \<noteq> i"
      using closed_refused(1) [of i db r "bulk_item inp j" deps "envs n" x] Cons.prems(3,4) one Inr st by (auto simp: bulk_item_def)
    ultimately show ?thesis using IH out Inr by simp
  qed
qed simp

text \<open>
  C33: a closed exception is final. Whatever calls follow, an exception of a reachable state never disappears and stays the
  same case: the same container, plan, type, SKU, quantity, reason and author. Once it is approved or rejected nothing of it changes; a later
  decision on it alone is refused and changes nothing, and a batch that names it and runs does not report it as approved, reports each
  mention of it as failed, and leaves it as it is.
\<close>

theorem closed_exception_final:
  assumes "reach exc_init (exc_step deps) s" and "(exc_step deps)\<^sup>*\<^sup>* s s'" and "exc_row i (fst s) = Some r"
  shows "\<exists>r'. exc_row i (fst s') = Some r' \<and> same_case r r' \<and>
    (le_ApprovedBy r \<noteq> None \<longrightarrow> r' = r \<and>
      (\<forall>env ain. ax_ID ain = i \<longrightarrow> (\<exists>e. ApproveException deps env ain s' = (Inl e, s'))) \<and>
      (\<forall>env rin. rx_ID rin = i \<longrightarrow> (\<exists>e. RejectException deps env rin s' = (Inl e, s'))) \<and>
      (\<forall>envs bin res s''. BulkApprove deps envs bin s' = (Inr res, s'') \<longrightarrow>
         i \<notin> set (bres_Approved res) \<and> count_list (map fst (bres_Failed res)) i = count_list (bx_IDs bin) i \<and>
         exc_row i (fst s'') = Some r))"
proof -
  note ok = exceptions.reach_inv [OF assms(1)]
  have "exc_lives (fst s) (fst s')" using exc_run_lives [OF ok assms(2)] .
  then obtain r' where r': "exc_row i (fst s') = Some r'" "same_case r r'" "le_ApprovedBy r \<noteq> None \<longrightarrow> r' = r"
    using assms(3) unfolding exc_lives_def by blast
  have ok': "exc_ok (fst s')" using exceptions.star_inv [OF ok assms(2)] .
  have "i \<notin> set (bres_Approved res) \<and> count_list (map fst (bres_Failed res)) i = count_list (bx_IDs bin) i \<and> exc_row i (fst s'') = Some r"
    if "le_ApprovedBy r \<noteq> None" "BulkApprove deps envs bin s' = (Inr res, s'')" for envs bin res s''
  proof -
    have "bulk_approve deps envs 0 bin (bx_IDs bin) s' = (res, s'')"
      using that(2) by (auto simp: BulkApprove_def Let_def split: if_splits prod.splits)
    from bulk_approve_closed [OF this ok'] r' that(1) show ?thesis by blast
  qed
  moreover have "\<exists>e. ApproveException deps env ain s' = (Inl e, s')" if "le_ApprovedBy r \<noteq> None" "ax_ID ain = i" for env ain
    using closed_refused(1) [of i "fst s'" r' ain deps env "snd s'"] r' that by simp
  moreover have "\<exists>e. RejectException deps env rin s' = (Inl e, s')" if "le_ApprovedBy r \<noteq> None" "rx_ID rin = i" for env rin
    using closed_refused(2) [of i "fst s'" r' rin deps env "snd s'"] r' that by simp
  ultimately show ?thesis using r' by blast
qed

definition bay_batch :: BulkApproveInput where
  "bay_batch = \<lparr>bx_IDs = [10, 77], bx_Resolution = ''WRITE_OFF'', bx_ResolutionNotes = [], bx_ApprovedBy = 9\<rparr>"

theorem closed_exception_final_witness:
  "exc_row 10 (fst bay_again) = exc_row 10 (fst bay_closed) \<and> exc_row 10 (fst bay_closed) \<noteq> None \<and>
   (\<exists>res. fst (BulkApprove bay_deps (\<lambda>_. desk_env 4) bay_batch bay_again) = Inr res \<and> 10 \<notin> set (bres_Approved res) \<and>
      count_list (map fst (bres_Failed res)) 10 = 1)"
proof -
  obtain r where r: "exc_row 10 (fst bay_closed) = Some r" "le_ApprovedBy r = Some 9" using bay_rows(2) by auto
  have "exc_step bay_deps bay_closed bay_again" by (rule exc_reject [OF run_pair [OF bay_again_def]])
  note final = closed_exception_final [OF bay_reach r_into_rtranclp [of "exc_step bay_deps", OF this] r(1)]
  have "\<not> isl (fst (BulkApprove bay_deps (\<lambda>_. desk_env 4) bay_batch bay_again))" by code_simp
  then obtain res s'' where run: "BulkApprove bay_deps (\<lambda>_. desk_env 4) bay_batch bay_again = (Inr res, s'')"
    by (metis prod.collapse sum.collapse(2))
  have "count_list (bx_IDs bay_batch) 10 = 1" by (simp add: bay_batch_def)
  with final r run show ?thesis by fastforce
qed

section \<open>Backorders\<close>

text \<open>
  A backorder asks sales for a carried-over line, which the table of the lines never accepts; so no exception is ever
  resolved that way, and neither the exceptions nor the sales change.
\<close>

definition loadingExceptionCarryOverAdapter :: "sales_refs \<Rightarrow> env \<Rightarrow> CarryOverInput \<Rightarrow> (sales_db, uuid) op" where
  "loadingExceptionCarryOverAdapter rf env inp s =
     CreateCarryOverSOLine rf env \<lparr>col_ParentSOLineID = co_ParentSOLineID inp, col_Qty = co_Qty inp, col_CreatedBy = co_CreatedBy inp\<rparr> s"

lemma backorder_refused:
  assumes "carryOver deps = Some (loadingExceptionCarryOverAdapter rf senv)" and "ax_Resolution inp = ResolutionBackorder"
  shows "\<exists>e. ApproveException deps env inp (db, s) = (Inl e, (db, s))"
proof -
  have "\<exists>e. resolution_links deps inp cur s = (Inl e, s)" for cur
    using carry_over_refused [of rf senv _ s] assms by (auto simp: resolution_links_def loadingExceptionCarryOverAdapter_def Let_def split: option.splits prod.splits sum.splits) (metis Inl_Inr_False prod.inject)+
  then show ?thesis by (auto simp: ApproveException_def Let_def split: sum.splits prod.splits) (metis Inl_Inr_False prod.inject)+
qed

end
