(* ===== verification/Barcodes.thy ===== *)
theory Barcodes
  imports Domain Paging
begin

text \<open>
  Barcodes and their scans: \<^verbatim>\<open>internal/module/barcode\<close> with migrations 00007, 00021, 00023 and 00074. A
  barcode of a work order passes checkpoints (\<^verbatim>\<open>scan_rules.go\<close>); a scan is inserted first, and then the order is
  advanced or its quality result written by other modules, with no transaction around them. Of the order, the gateway
  returns more than its status, but only the status is read. The readable code that the database
  gives a barcode is not read by the module. The images and label files are drawn by libraries and are left out.
\<close>

section \<open>Rows and statements\<close>

type_synonym ScanCheckpoint = string

abbreviation CheckpointCNCComplete :: ScanCheckpoint where "CheckpointCNCComplete \<equiv> ''CNC_COMPLETE''"
abbreviation CheckpointQCPassed :: ScanCheckpoint where "CheckpointQCPassed \<equiv> ''QC_PASSED''"
abbreviation CheckpointQCFailed :: ScanCheckpoint where "CheckpointQCFailed \<equiv> ''QC_FAILED''"
abbreviation CheckpointFinishedGoods :: ScanCheckpoint where "CheckpointFinishedGoods \<equiv> ''FINISHED_GOODS''"
abbreviation CheckpointShipped :: ScanCheckpoint where "CheckpointShipped \<equiv> ''SHIPPED''"

record Barcode =
  bc_ID :: uuid
  bc_WorkOrderID :: uuid
  bc_SKUID :: uuid
  bc_POID :: uuid
  bc_ProductionPlanID :: uuid
  bc_SKUCode :: string
  bc_SKUName :: string
  bc_Dimensions :: string
  bc_ProducedDate :: time
  bc_CreatedAt :: time

record ScanEvent =
  sv_ID :: uuid
  sv_BarcodeID :: uuid
  sv_Checkpoint :: ScanCheckpoint
  sv_ScannedBy :: uuid
  sv_Location :: string
  sv_Note :: string
  sv_DeviceID :: string
  sv_DeviceName :: string
  sv_Shift :: string
  sv_ScannedAt :: time

record QCEvent =
  qe_ID :: uuid
  qe_WorkOrderID :: uuid
  qe_BarcodeID :: uuid
  qe_ScanEventID :: uuid
  qe_Result :: ScanCheckpoint
  qe_ScannedBy :: uuid
  qe_Note :: string
  qe_CreatedAt :: time

record barcode_db =
  barcodes :: "Barcode list"
  scan_events :: "ScanEvent list"
  qc_events :: "QCEvent list"

definition insertBarcode :: "uuid list \<Rightarrow> Barcode \<Rightarrow> barcode_db \<Rightarrow> barcode_db result" where
  "insertBarcode orders b db =
     (case insert_checked (\<lambda>b. if bc_WorkOrderID b \<notin> set orders then Some (Pg ForeignKeyViolation) else None) bc_ID b (barcodes db) of
        Inl e \<Rightarrow> Inl e
      | Inr t \<Rightarrow> Inr (db\<lparr>barcodes := t\<rparr>))"

definition selectBarcodeByID :: "uuid \<Rightarrow> barcode_db \<Rightarrow> Barcode result" where
  "selectBarcodeByID i db = (case row_by bc_ID i (barcodes db) of None \<Rightarrow> Inl (Biz ErrNotFound) | Some b \<Rightarrow> Inr b)"

definition selectBarcodesByWorkOrder :: "uuid \<Rightarrow> barcode_db \<Rightarrow> Barcode list result" where
  "selectBarcodesByWorkOrder w db = Inr (sort_key bc_CreatedAt (select_where (\<lambda>b. bc_WorkOrderID b = w) (barcodes db)))"

definition selectBarcodesByIDsOrdered :: "uuid list \<Rightarrow> barcode_db \<Rightarrow> Barcode list result" where
  "selectBarcodesByIDsOrdered ids db =
     (let out = concat (map (\<lambda>i. select_where (\<lambda>b. bc_ID b = i) (barcodes db)) ids) in
      if ids = [] then Inr []
      else if length out \<noteq> length ids then Inl (Biz ErrNotFound)
      else Inr out)"

definition check_scan :: "barcode_db \<Rightarrow> ScanEvent \<Rightarrow> error option" where
  "check_scan db e =
     (if length (sv_DeviceID e) > 64 \<or> length (sv_DeviceName e) > 120 \<or> length (sv_Shift e) > 40 then Some (Pg CheckViolation)
      else if sv_BarcodeID e \<notin> bc_ID ` set (barcodes db) then Some (Pg ForeignKeyViolation)
      else None)"

definition insertScanEvent :: "ScanEvent \<Rightarrow> barcode_db \<Rightarrow> barcode_db result" where
  "insertScanEvent e db =
     (case insert_checked (check_scan db) sv_ID e (scan_events db) of Inl e \<Rightarrow> Inl e | Inr t \<Rightarrow> Inr (db\<lparr>scan_events := t\<rparr>))"

definition scan_cursor :: "ScanEvent \<Rightarrow> Cursor" where
  "scan_cursor e = \<lparr>Ts = sv_ScannedAt e, CID = sv_ID e\<rparr>"

text \<open>The one listing that runs forwards: rows after the cursor, oldest first.\<close>

definition selectScanEventsByBarcodeKeyset :: "uuid \<Rightarrow> Cursor \<Rightarrow> int \<Rightarrow> barcode_db \<Rightarrow> ScanEvent list result" where
  "selectScanEventsByBarcodeKeyset b cur limit db =
     Inr (take (nat limit) (sort_key (cursor_key scan_cursor)
       (select_where (\<lambda>e. sv_BarcodeID e = b \<and> (IsZero cur \<or> (Ts cur, CID cur) < cursor_key scan_cursor e)) (scan_events db))))"

definition check_qc :: "uuid list \<Rightarrow> barcode_db \<Rightarrow> QCEvent \<Rightarrow> error option" where
  "check_qc orders db e =
     (if qe_Result e \<notin> {CheckpointQCPassed, CheckpointQCFailed} then Some (Pg CheckViolation)
      else if qe_WorkOrderID e \<notin> set orders \<or> qe_BarcodeID e \<notin> bc_ID ` set (barcodes db) \<or> qe_ScanEventID e \<notin> sv_ID ` set (scan_events db)
      then Some (Pg ForeignKeyViolation)
      else None)"

definition insertQCEvent :: "uuid list \<Rightarrow> QCEvent \<Rightarrow> barcode_db \<Rightarrow> barcode_db result" where
  "insertQCEvent orders e db =
     (case insert_checked (check_qc orders db) qe_ID e (qc_events db) of Inl e \<Rightarrow> Inl e | Inr t \<Rightarrow> Inr (db\<lparr>qc_events := t\<rparr>))"

definition selectQCEventsByWorkOrder :: "uuid \<Rightarrow> barcode_db \<Rightarrow> QCEvent list result" where
  "selectQCEventsByWorkOrder w db = Inr (rev (sort_key qe_CreatedAt (select_where (\<lambda>e. qe_WorkOrderID e = w) (qc_events db))))"

text \<open>The newest scan by \<^verbatim>\<open>(scanned_at, id)\<close>.\<close>

definition selectLastScanEventByBarcode :: "uuid \<Rightarrow> barcode_db \<Rightarrow> ScanEvent result" where
  "selectLastScanEventByBarcode b db =
     (case order_desc scan_cursor (select_where (\<lambda>e. sv_BarcodeID e = b) (scan_events db)) of
        [] \<Rightarrow> Inl (Biz ErrNotFound)
      | e # _ \<Rightarrow> Inr e)"

section \<open>Scan rules\<close>

definition isCheckpointAllowed :: "ScanCheckpoint option \<Rightarrow> ScanCheckpoint \<Rightarrow> bool" where
  "isCheckpointAllowed prev nxt =
     (case prev of
        None \<Rightarrow> nxt = CheckpointCNCComplete
      | Some c \<Rightarrow>
          if c = CheckpointCNCComplete then nxt = CheckpointQCPassed \<or> nxt = CheckpointQCFailed
          else if c = CheckpointQCFailed then nxt = CheckpointQCPassed \<or> nxt = CheckpointQCFailed
          else if c = CheckpointQCPassed then nxt = CheckpointFinishedGoods
          else if c = CheckpointFinishedGoods then nxt = CheckpointShipped
          else False)"

text \<open>\<open>None\<close> is the empty status returned for any other checkpoint, which no order has.\<close>

definition expectedWOStatusForCheckpoint :: "ScanCheckpoint \<Rightarrow> WorkOrderStatus option" where
  "expectedWOStatusForCheckpoint c =
     (if c = CheckpointCNCComplete then Some WOInCutting
      else if c = CheckpointQCPassed \<or> c = CheckpointQCFailed then Some WOInProcessing
      else if c = CheckpointFinishedGoods then Some WOInProcessing
      else if c = CheckpointShipped then Some WOCompleted
      else None)"

definition validCheckpoint :: "ScanCheckpoint \<Rightarrow> bool" where
  "validCheckpoint c \<longleftrightarrow> c \<in> {CheckpointCNCComplete, CheckpointQCPassed, CheckpointQCFailed, CheckpointFinishedGoods, CheckpointShipped}"

definition nextCheckpoint :: "ScanCheckpoint \<Rightarrow> ScanCheckpoint option" where
  "nextCheckpoint c =
     (if c = CheckpointCNCComplete then Some CheckpointQCPassed
      else if c = CheckpointQCFailed then Some CheckpointQCPassed
      else if c = CheckpointQCPassed then Some CheckpointFinishedGoods
      else if c = CheckpointFinishedGoods then Some CheckpointShipped
      else None)"

section \<open>The service\<close>

record 'x ScanGateway =
  sg_status :: "uuid \<Rightarrow> 'x \<Rightarrow> WorkOrderStatus result"
  sg_advance :: "uuid \<Rightarrow> WorkOrderStatus \<Rightarrow> ('x, unit) op"
  sg_qc :: "uuid \<Rightarrow> string \<Rightarrow> ('x, unit) op"

record 'x bc_deps =
  bc_orders :: "'x \<Rightarrow> uuid list"
  bc_wo :: "'x ScanGateway option"
  bc_usr :: "(uuid \<Rightarrow> 'x \<Rightarrow> string result) option"
  bc_notifier :: "(uuid \<Rightarrow> ScanCheckpoint \<Rightarrow> ('x, unit) op) option"
  bc_packer :: "(uuid \<Rightarrow> ('x, unit) op) option"

record GenerateBarcodeInput =
  gb_WorkOrderID :: uuid
  gb_SKUID :: uuid
  gb_POID :: uuid
  gb_ProductionPlanID :: uuid
  gb_SKUCode :: string
  gb_SKUName :: string
  gb_Dimensions :: string
  gb_ProducedDate :: time

definition GenerateBarcode :: "uuid list \<Rightarrow> env \<Rightarrow> GenerateBarcodeInput \<Rightarrow> (barcode_db, Barcode) op" where
  "GenerateBarcode orders env inp db =
     (if gb_SKUCode inp = [] then (Inl (Biz ErrInvalidInput), db)
      else if gb_WorkOrderID inp = uuid_Nil then (Inl (Biz ErrInvalidInput), db)
      else let b = \<lparr>bc_ID = fresh env 0, bc_WorkOrderID = gb_WorkOrderID inp, bc_SKUID = gb_SKUID inp, bc_POID = gb_POID inp,
             bc_ProductionPlanID = gb_ProductionPlanID inp, bc_SKUCode = gb_SKUCode inp, bc_SKUName = gb_SKUName inp,
             bc_Dimensions = gb_Dimensions inp, bc_ProducedDate = gb_ProducedDate inp, bc_CreatedAt = now env\<rparr>
           in (case insertBarcode orders b db of Inl e \<Rightarrow> (Inl e, db) | Inr db1 \<Rightarrow> (Inr b, db1)))"

definition LookupBarcode :: "uuid \<Rightarrow> barcode_db \<Rightarrow> Barcode result" where
  "LookupBarcode i db = selectBarcodeByID i db"

definition ListBarcodesByWorkOrder :: "uuid \<Rightarrow> barcode_db \<Rightarrow> Barcode list result" where
  "ListBarcodesByWorkOrder w db = selectBarcodesByWorkOrder w db"

record RecordScanInput =
  rs_BarcodeID :: uuid
  rs_Checkpoint :: ScanCheckpoint
  rs_Location :: string
  rs_Note :: string
  rs_DeviceID :: string
  rs_DeviceName :: string
  rs_Shift :: string
  rs_ScannedBy :: uuid

definition normalizeScanMeta :: "RecordScanInput \<Rightarrow> RecordScanInput" where
  "normalizeScanMeta inp = inp\<lparr>rs_DeviceID := TrimSpace (rs_DeviceID inp), rs_DeviceName := TrimSpace (rs_DeviceName inp), rs_Shift := TrimSpace (rs_Shift inp)\<rparr>"

definition validateScanMeta :: "RecordScanInput \<Rightarrow> unit result" where
  "validateScanMeta inp =
     (if length (rs_DeviceID inp) > 64 then Inl (Biz ErrInvalidInput)
      else if length (rs_DeviceName inp) > 120 then Inl (Biz ErrInvalidInput)
      else if length (rs_Shift inp) > 40 then Inl (Biz ErrInvalidInput)
      else Inr ())"

definition resolveWorkOrderStatus :: "'x bc_deps \<Rightarrow> uuid \<Rightarrow> 'x \<Rightarrow> WorkOrderStatus option result" where
  "resolveWorkOrderStatus deps w x =
     (case bc_wo deps of None \<Rightarrow> Inr None | Some g \<Rightarrow> map_sum id Some (sg_status g w x))"

text \<open>The checks that precede the first write.\<close>

definition scan_checks :: "'x bc_deps \<Rightarrow> RecordScanInput \<Rightarrow> barcode_db \<times> 'x \<Rightarrow> (Barcode \<times> WorkOrderStatus option) result" where
  "scan_checks deps inp st =
     (let (db, x) = st in
      if rs_ScannedBy inp = uuid_Nil then Inl (Biz ErrInvalidInput)
      else if \<not> validCheckpoint (rs_Checkpoint inp) then Inl (Biz ErrInvalidInput)
      else (case validateScanMeta (normalizeScanMeta inp) of
              Inl e \<Rightarrow> Inl e
            | Inr _ \<Rightarrow>
                (case selectBarcodeByID (rs_BarcodeID inp) db of
                   Inl e \<Rightarrow> Inl e
                 | Inr bc \<Rightarrow>
                     (case resolveWorkOrderStatus deps (bc_WorkOrderID bc) x of
                        Inl e \<Rightarrow> Inl e
                      | Inr status \<Rightarrow>
                          if status \<noteq> None \<and> status \<noteq> expectedWOStatusForCheckpoint (rs_Checkpoint inp) then Inl (Biz ErrPreconditionFailed)
                          else let prev = (case selectLastScanEventByBarcode (rs_BarcodeID inp) db of Inl _ \<Rightarrow> None | Inr e \<Rightarrow> Some (sv_Checkpoint e)) in
                               if \<not> isCheckpointAllowed prev (rs_Checkpoint inp) then Inl (Biz ErrInvalidTransition)
                               else Inr (bc, status)))))"

record BarcodeScanResult =
  bsr_ScanID :: uuid
  bsr_BarcodeID :: uuid
  bsr_Checkpoint :: ScanCheckpoint
  bsr_ScannedBy :: uuid
  bsr_ScannedByName :: "string option"
  bsr_DeviceID :: string
  bsr_DeviceName :: string
  bsr_Shift :: string
  bsr_ScannedAt :: time
  bsr_NextCheckpoint :: "ScanCheckpoint option"
  bsr_WorkOrderID :: uuid
  bsr_NewStatus :: "WorkOrderStatus option"
  bsr_SKUCode :: string
  bsr_SKUName :: string

definition new_scan :: "env \<Rightarrow> RecordScanInput \<Rightarrow> ScanEvent" where
  "new_scan env inp =
     \<lparr>sv_ID = fresh env 0, sv_BarcodeID = rs_BarcodeID inp, sv_Checkpoint = rs_Checkpoint inp, sv_ScannedBy = rs_ScannedBy inp,
      sv_Location = rs_Location inp, sv_Note = rs_Note inp, sv_DeviceID = rs_DeviceID inp, sv_DeviceName = rs_DeviceName inp,
      sv_Shift = rs_Shift inp, sv_ScannedAt = now env\<rparr>"

definition new_qc :: "env \<Rightarrow> Barcode \<Rightarrow> ScanEvent \<Rightarrow> QCEvent" where
  "new_qc env bc e =
     \<lparr>qe_ID = fresh env 1, qe_WorkOrderID = bc_WorkOrderID bc, qe_BarcodeID = bc_ID bc, qe_ScanEventID = sv_ID e, qe_Result = sv_Checkpoint e,
      qe_ScannedBy = sv_ScannedBy e, qe_Note = sv_Note e, qe_CreatedAt = sv_ScannedAt e\<rparr>"

text \<open>The cutting checkpoint moves the order on; a quality checkpoint leaves an event and a result on the order.\<close>

definition scan_cnc :: "'x bc_deps \<Rightarrow> Barcode \<Rightarrow> ScanCheckpoint \<Rightarrow> WorkOrderStatus option \<Rightarrow> ('x, WorkOrderStatus option) op" where
  "scan_cnc deps bc c status x =
     (if c \<noteq> CheckpointCNCComplete then (Inr status, x)
      else (case bc_wo deps of
              None \<Rightarrow> (Inl (Biz ErrPreconditionFailed), x)
            | Some g \<Rightarrow>
                (case sg_advance g (bc_WorkOrderID bc) WOInProcessing x of (Inl e, x1) \<Rightarrow> (Inl e, x1) | (Inr _, x1) \<Rightarrow> (Inr (Some WOInProcessing), x1))))"

definition scan_qc :: "'x bc_deps \<Rightarrow> env \<Rightarrow> Barcode \<Rightarrow> ScanEvent \<Rightarrow> (barcode_db \<times> 'x, unit) op" where
  "scan_qc deps env bc e st =
     (let (db, x) = st; c = sv_Checkpoint e in
      if c \<noteq> CheckpointQCPassed \<and> c \<noteq> CheckpointQCFailed then (Inr (), st)
      else (case insertQCEvent (bc_orders deps x) (new_qc env bc e) db of
              Inl err \<Rightarrow> (Inl err, st)
            | Inr db1 \<Rightarrow>
                (case (case bc_wo deps of None \<Rightarrow> (Inr (), x) | Some g \<Rightarrow> sg_qc g (bc_WorkOrderID bc) c x) of
                   (Inl err, x1) \<Rightarrow> (Inl err, (db1, x1))
                 | (Inr _, x1) \<Rightarrow>
                     (Inr (), (db1, if c = CheckpointQCFailed then (case bc_packer deps of None \<Rightarrow> x1 | Some f \<Rightarrow> snd (f (bc_WorkOrderID bc) x1)) else x1)))))"

text \<open>The writes, in the order of the code. The name is the scanner's identifier (\<open>None\<close>) unless a user name is found.\<close>

definition scan_commit :: "'x bc_deps \<Rightarrow> env \<Rightarrow> RecordScanInput \<Rightarrow> Barcode \<times> WorkOrderStatus option \<Rightarrow> (barcode_db \<times> 'x, BarcodeScanResult) op" where
  "scan_commit deps env inp found st =
     (let (db, x) = st; (bc, status) = found; e = new_scan env (normalizeScanMeta inp) in
      case insertScanEvent e db of
        Inl err \<Rightarrow> (Inl err, st)
      | Inr db1 \<Rightarrow>
          (case scan_cnc deps bc (rs_Checkpoint inp) status x of
             (Inl err, x1) \<Rightarrow> (Inl err, (db1, x1))
           | (Inr newStatus, x1) \<Rightarrow>
               (case scan_qc deps env bc e (db1, x1) of
                  (Inl err, st2) \<Rightarrow> (Inl err, st2)
                | (Inr _, (db2, x2)) \<Rightarrow>
                    let name = (case bc_usr deps of
                                  None \<Rightarrow> None
                                | Some f \<Rightarrow> (case f (rs_ScannedBy inp) x2 of Inl _ \<Rightarrow> None | Inr n \<Rightarrow> if n = [] then None else Some n));
                        x3 = (case bc_notifier deps of None \<Rightarrow> x2 | Some f \<Rightarrow> snd (f (bc_WorkOrderID bc) (rs_Checkpoint inp) x2))
                    in (Inr \<lparr>bsr_ScanID = sv_ID e, bsr_BarcodeID = sv_BarcodeID e, bsr_Checkpoint = sv_Checkpoint e, bsr_ScannedBy = sv_ScannedBy e,
                          bsr_ScannedByName = name, bsr_DeviceID = sv_DeviceID e, bsr_DeviceName = sv_DeviceName e, bsr_Shift = sv_Shift e,
                          bsr_ScannedAt = sv_ScannedAt e, bsr_NextCheckpoint = nextCheckpoint (sv_Checkpoint e), bsr_WorkOrderID = bc_WorkOrderID bc,
                          bsr_NewStatus = newStatus, bsr_SKUCode = bc_SKUCode bc, bsr_SKUName = bc_SKUName bc\<rparr>, (db2, x3)))))"

definition RecordScan :: "'x bc_deps \<Rightarrow> env \<Rightarrow> RecordScanInput \<Rightarrow> (barcode_db \<times> 'x, BarcodeScanResult) op" where
  "RecordScan deps env inp st =
     (case scan_checks deps inp st of Inl e \<Rightarrow> (Inl e, st) | Inr found \<Rightarrow> scan_commit deps env inp found st)"

definition ListScans :: "uuid \<Rightarrow> CursorParams \<Rightarrow> barcode_db \<Rightarrow> ScanEvent CursorResult result" where
  "ListScans b p db =
     (case Decoded p of
        Inl e \<Rightarrow> Inl e
      | Inr cur \<Rightarrow>
          (case selectScanEventsByBarcodeKeyset b cur (CLimit p + 1) db of
             Inl e \<Rightarrow> Inl e
           | Inr rows \<Rightarrow> Inr (NewCursorResult rows (CLimit p) scan_cursor)))"

definition GetQCHistory :: "uuid \<Rightarrow> barcode_db \<Rightarrow> QCEvent list result" where
  "GetQCHistory w db = selectQCEventsByWorkOrder w db"

end
