(* ===== verification/Barcode_Props.thy ===== *)
theory Barcode_Props
  imports Barcodes Packing_Service Planning_Wiring Inventory_Service
begin

text \<open>
  Properties of barcodes and scans: the history of a barcode under any sequence of calls, the trail of quality
  results, and, with production behind the gateway as \<^verbatim>\<open>main.go\<close> wires it, which barcodes can be scanned at all.
\<close>

section \<open>Steps and invariant\<close>

text \<open>
  A step is a whole call, or anything that other modules do. The newest scan is found by its time, ties by identifier, so
  the properties of histories are about runs in which each scan of a barcode is later than the ones stored for it
  (\<open>scans_in_order\<close>). The code takes the wall clock and does not check it.
\<close>

inductive scan_step :: "'x bc_deps \<Rightarrow> barcode_db \<times> 'x \<Rightarrow> barcode_db \<times> 'x \<Rightarrow> bool" for deps :: "'x bc_deps" where
  scan_generate: "GenerateBarcode (bc_orders deps x) env gen db = (r, db') \<Longrightarrow> scan_step deps (db, x) (db', x)"
| scan_record: "RecordScan deps env scan (db, x) = (r', (db', x')) \<Longrightarrow> scan_step deps (db, x) (db', x')"
| scan_outside: "scan_step deps (db, x) (db, x')"

definition scans_in_order :: "barcode_db \<Rightarrow> barcode_db \<Rightarrow> bool" where
  "scans_in_order db db' \<longleftrightarrow> list_all (\<lambda>e. list_all (\<lambda>old. sv_BarcodeID old = sv_BarcodeID e \<longrightarrow> sv_ScannedAt old < sv_ScannedAt e)
     (scan_events db)) (drop (length (scan_events db)) (scan_events db'))"

definition empty_barcodes :: barcode_db where
  "empty_barcodes = \<lparr>barcodes = [], scan_events = [], qc_events = []\<rparr>"

definition scans_of :: "uuid \<Rightarrow> barcode_db \<Rightarrow> ScanEvent list" where
  "scans_of b db = filter (\<lambda>e. sv_BarcodeID e = b) (scan_events db)"

text \<open>
  What the checkpoints of a piece look like: cut, then any number of failed inspections, then at most one that passes, then the
  finished goods and the shipment.
\<close>

definition scan_history :: "ScanCheckpoint list \<Rightarrow> bool" where
  "scan_history cs \<longleftrightarrow> cs = [] \<or> (\<exists>n tail. cs = CheckpointCNCComplete # replicate n CheckpointQCFailed @ tail \<and>
     tail \<in> {[], [CheckpointQCPassed], [CheckpointQCPassed, CheckpointFinishedGoods], [CheckpointQCPassed, CheckpointFinishedGoods, CheckpointShipped]})"

text \<open>A quality event repeats the scan it belongs to.\<close>

definition qc_of :: "Barcode list \<Rightarrow> ScanEvent list \<Rightarrow> QCEvent \<Rightarrow> bool" where
  "qc_of bs es q \<longleftrightarrow> (\<exists>e \<in> set es. \<exists>b \<in> set bs. sv_ID e = qe_ScanEventID q \<and> sv_BarcodeID e = qe_BarcodeID q \<and> bc_ID b = qe_BarcodeID q \<and>
     bc_WorkOrderID b = qe_WorkOrderID q \<and> sv_Checkpoint e = qe_Result q \<and> sv_ScannedBy e = qe_ScannedBy q \<and> sv_ScannedAt e = qe_CreatedAt q \<and>
     qe_Result q \<in> {CheckpointQCPassed, CheckpointQCFailed})"

definition scans_ok :: "barcode_db \<Rightarrow> bool" where
  "scans_ok db \<longleftrightarrow> (\<forall>b. sorted_wrt (\<lambda>a b. sv_ScannedAt a < sv_ScannedAt b) (scans_of b db)) \<and>
     (\<forall>b. scan_history (map sv_Checkpoint (scans_of b db))) \<and> (\<forall>q \<in> set (qc_events db). qc_of (barcodes db) (scan_events db) q) \<and>
     (\<forall>e \<in> set (scan_events db). \<exists>b \<in> set (barcodes db). bc_ID b = sv_BarcodeID e) \<and> keys_distinct bc_ID (barcodes db)"

lemma allowed_after [simp]:
  "isCheckpointAllowed None c \<longleftrightarrow> c = CheckpointCNCComplete"
  "isCheckpointAllowed (Some CheckpointCNCComplete) c \<longleftrightarrow> c = CheckpointQCPassed \<or> c = CheckpointQCFailed"
  "isCheckpointAllowed (Some CheckpointQCFailed) c \<longleftrightarrow> c = CheckpointQCPassed \<or> c = CheckpointQCFailed"
  "isCheckpointAllowed (Some CheckpointQCPassed) c \<longleftrightarrow> c = CheckpointFinishedGoods"
  "isCheckpointAllowed (Some CheckpointFinishedGoods) c \<longleftrightarrow> c = CheckpointShipped"
  "\<not> isCheckpointAllowed (Some CheckpointShipped) c"
  by (simp_all add: isCheckpointAllowed_def)

lemma scan_history_snoc:
  assumes "scan_history cs" and "isCheckpointAllowed (if cs = [] then None else Some (last cs)) c"
  shows "scan_history (cs @ [c])"
proof (cases "cs = []")
  case True
  then show ?thesis using assms(2) by (auto simp: isCheckpointAllowed_def scan_history_def)
next
  case False
  with assms(1) obtain n tail where cs: "cs = CheckpointCNCComplete # replicate n CheckpointQCFailed @ tail" and
    tail: "tail \<in> {[], [CheckpointQCPassed], [CheckpointQCPassed, CheckpointFinishedGoods], [CheckpointQCPassed, CheckpointFinishedGoods, CheckpointShipped]}"
    by (auto simp: scan_history_def)
  have allowed: "isCheckpointAllowed (Some (last cs)) c" using assms(2) False by simp
  show ?thesis
  proof (cases "tail = []")
    case True
    have "last cs \<in> {CheckpointCNCComplete, CheckpointQCFailed}" using cs True by (cases n) auto
    then have c: "c = CheckpointQCPassed \<or> c = CheckpointQCFailed" using allowed by (elim insertE) simp_all
    show ?thesis
    proof (cases "c = CheckpointQCFailed")
      case failed: True
      then have "cs @ [c] = CheckpointCNCComplete # replicate (Suc n) CheckpointQCFailed @ []"
        using cs True by (simp add: replicate_append_same)
      then show ?thesis unfolding scan_history_def by blast
    next
      case False
      then have "cs @ [c] = CheckpointCNCComplete # replicate n CheckpointQCFailed @ [CheckpointQCPassed]" using c cs True by simp
      then show ?thesis unfolding scan_history_def by blast
    qed
  next
    case False
    then have last: "last cs = last tail" using cs by simp
    have "tail @ [c] \<in> {[CheckpointQCPassed, CheckpointFinishedGoods], [CheckpointQCPassed, CheckpointFinishedGoods, CheckpointShipped]}"
      using tail False allowed [unfolded last] by (elim insertE emptyE) simp_all
    moreover have "cs @ [c] = CheckpointCNCComplete # replicate n CheckpointQCFailed @ (tail @ [c])" using cs by simp
    ultimately show ?thesis unfolding scan_history_def by blast
  qed
qed

text \<open>While time moves on, the newest scan is the last one recorded.\<close>

lemma order_desc_recorded:
  assumes "sorted_wrt (\<lambda>a b. sv_ScannedAt a < sv_ScannedAt b) es"
  shows "order_desc scan_cursor es = rev es"
proof -
  have "sorted (map (cursor_key scan_cursor) es)"
    using assms by (simp add: sorted_map cursor_key_def scan_cursor_def) (auto elim: sorted_wrt_mono_rel [rotated] simp: less_eq_prod_def)
  then show ?thesis by (simp add: order_desc_def sorted_sort_id sort_key_id_if_sorted)
qed

lemma last_scan:
  assumes "scans_ok db"
  shows "selectLastScanEventByBarcode b db = (if scans_of b db = [] then Inl (Biz ErrNotFound) else Inr (last (scans_of b db)))"
proof -
  have "sorted_wrt (\<lambda>a b. sv_ScannedAt a < sv_ScannedAt b) (scans_of b db)"
    using assms by (simp add: scans_ok_def)
  note desc = order_desc_recorded [OF this]
  show ?thesis
  proof (cases "scans_of b db" rule: rev_cases)
    case Nil
    then show ?thesis using desc by (simp add: selectLastScanEventByBarcode_def select_where_def scans_of_def)
  next
    case (snoc es e)
    then show ?thesis using desc by (simp add: selectLastScanEventByBarcode_def select_where_def flip: scans_of_def)
  qed
qed


section \<open>What a call writes\<close>

lemma insertScanEvent_Inr: "insertScanEvent e db = Inr db' \<Longrightarrow> db' = db\<lparr>scan_events := scan_events db @ [e]\<rparr> \<and> sv_BarcodeID e \<in> bc_ID ` set (barcodes db)"
  by (auto simp: insertScanEvent_def check_scan_def split: sum.splits if_splits)

lemma insertQCEvent_Inr: "insertQCEvent os q db = Inr db' \<Longrightarrow> db' = db\<lparr>qc_events := qc_events db @ [q]\<rparr> \<and> qe_Result q \<in> {CheckpointQCPassed, CheckpointQCFailed}"
  by (auto simp: insertQCEvent_def check_qc_def split: sum.splits if_splits)

lemma scan_checks_Inr:
  assumes "scan_checks deps inp (db, x) = Inr (bc, status)"
  shows "row_by bc_ID (rs_BarcodeID inp) (barcodes db) = Some bc"
    and "isCheckpointAllowed (case selectLastScanEventByBarcode (rs_BarcodeID inp) db of Inl _ \<Rightarrow> None | Inr e \<Rightarrow> Some (sv_Checkpoint e)) (rs_Checkpoint inp)"
    and "validCheckpoint (rs_Checkpoint inp)"
    and "bc_wo deps = Some g \<Longrightarrow> map_sum id Some (sg_status g (bc_WorkOrderID bc) x) = Inr (expectedWOStatusForCheckpoint (rs_Checkpoint inp))"
  using assms
  by (auto simp: scan_checks_def selectBarcodeByID_def resolveWorkOrderStatus_def Let_def split: sum.splits if_splits option.splits)

lemma scan_qc_writes:
  assumes "scan_qc deps env bc e (db, x) = (r, (db', x'))"
  shows "barcodes db' = barcodes db \<and> scan_events db' = scan_events db \<and>
    (qc_events db' = qc_events db \<or> qc_events db' = qc_events db @ [new_qc env bc e] \<and> sv_Checkpoint e \<in> {CheckpointQCPassed, CheckpointQCFailed})"
  using assms
  by (auto simp: scan_qc_def Let_def new_qc_def dest: insertQCEvent_Inr split: sum.splits if_splits option.splits prod.splits)

lemma RecordScan_writes:
  assumes "RecordScan deps env inp (db, x) = (r, (db', x'))"
  obtains (none) e where "r = Inl e" and "db' = db" and "x' = x"
  | (scanned) bc status where "scan_checks deps inp (db, x) = Inr (bc, status)" and "barcodes db' = barcodes db"
    and "scan_events db' = scan_events db @ [new_scan env (normalizeScanMeta inp)]"
    and "qc_events db' = qc_events db \<or> qc_events db' = qc_events db @ [new_qc env bc (new_scan env (normalizeScanMeta inp))] \<and>
      rs_Checkpoint inp \<in> {CheckpointQCPassed, CheckpointQCFailed}"
proof (cases "scan_checks deps inp (db, x)")
  case (Inl e)
  then show ?thesis using assms by (intro none [of e]) (auto simp: RecordScan_def)
next
  case (Inr found)
  obtain bc status where f: "found = (bc, status)" by (cases found)
  let ?e = "new_scan env (normalizeScanMeta inp)"
  have c: "sv_Checkpoint ?e = rs_Checkpoint inp" by (simp add: new_scan_def normalizeScanMeta_def)
  have run: "scan_commit deps env inp (bc, status) (db, x) = (r, (db', x'))" using assms Inr f by (simp add: RecordScan_def)
  show ?thesis
  proof (cases "insertScanEvent ?e db")
    case (Inl e)
    then show ?thesis using run by (intro none [of e]) (auto simp: scan_commit_def)
  next
    case ins: (Inr db1)
    note db1 = insertScanEvent_Inr [OF ins]
    consider "db' = db1" | r2 x1 x2 where "scan_qc deps env bc ?e (db1, x1) = (r2, (db', x2))"
      using run ins by (auto simp: scan_commit_def Let_def split: sum.splits prod.splits)
    then show ?thesis
    proof cases
      case 1
      then show ?thesis using db1 Inr f by (intro scanned [of bc status]) auto
    next
      case 2
      from scan_qc_writes [OF 2] show ?thesis using db1 Inr f c by (intro scanned [of bc status]) auto
    qed
  qed
qed

lemma qc_of_mono: "qc_of bs es q \<Longrightarrow> set bs \<subseteq> set bs' \<Longrightarrow> set es \<subseteq> set es' \<Longrightarrow> qc_of bs' es' q"
  unfolding qc_of_def by blast

lemma RecordScan_ok:
  assumes "scans_ok db" and "RecordScan deps env inp (db, x) = (r, (db', x'))" and "scans_in_order db db'"
  shows "scans_ok db'"
  using assms(2)
proof (cases rule: RecordScan_writes)
  case none
  then show ?thesis using assms(1) by simp
next
  case (scanned bc status)
  let ?e = "new_scan env (normalizeScanMeta inp)"
  have e: "sv_BarcodeID ?e = rs_BarcodeID inp" "sv_Checkpoint ?e = rs_Checkpoint inp" "sv_ScannedAt ?e = now env"
    by (simp_all add: new_scan_def normalizeScanMeta_def)
  note found = scan_checks_Inr [OF scanned(1)]
  have bc: "bc \<in> set (barcodes db)" "bc_ID bc = rs_BarcodeID inp" using row_by_SomeD [OF found(1)] by auto
  note old = assms(1) [unfolded scans_ok_def]
  have "sorted_wrt (\<lambda>a b. sv_ScannedAt a < sv_ScannedAt b) (scans_of b db)" for b using old by blast
  then have sorted: "sorted_wrt (\<lambda>a b. sv_ScannedAt a < sv_ScannedAt b) (scans_of b db')" for b
    using assms(3) e by (auto simp: scanned(3) scans_of_def sorted_wrt_append scans_in_order_def list_all_iff)
  have hist: "scan_history (map sv_Checkpoint (scans_of b db'))" for b
  proof (cases "b = rs_BarcodeID inp")
    case True
    let ?cs = "map sv_Checkpoint (scans_of b db)"
    have "isCheckpointAllowed (if ?cs = [] then None else Some (last ?cs)) (rs_Checkpoint inp)"
      using found(2) last_scan [OF assms(1), of b] True by (auto simp: last_map)
    moreover have "scan_history ?cs" using old by blast
    moreover have "map sv_Checkpoint (scans_of b db') = ?cs @ [rs_Checkpoint inp]" using True e by (simp add: scans_of_def scanned(3))
    ultimately show ?thesis using scan_history_snoc by simp
  next
    case False
    then have "scans_of b db' = scans_of b db" using e by (simp add: scans_of_def scanned(3))
    then show ?thesis using old by simp
  qed
  have "qc_of (barcodes db') (scan_events db') q" if "q \<in> set (qc_events db')" for q
  proof (cases "q \<in> set (qc_events db)")
    case True
    then have "qc_of (barcodes db) (scan_events db) q" using old by blast
    then show ?thesis by (rule qc_of_mono) (auto simp: scanned)
  next
    case False
    then have "q = new_qc env bc ?e" and "rs_Checkpoint inp \<in> {CheckpointQCPassed, CheckpointQCFailed}" using scanned(4) that by auto
    then show ?thesis using bc e unfolding qc_of_def
      by (intro bexI [of _ ?e] bexI [of _ bc]) (auto simp: new_qc_def scanned(2,3))
  qed
  moreover have "\<exists>b \<in> set (barcodes db'). bc_ID b = sv_BarcodeID v" if "v \<in> set (scan_events db')" for v
    using that old bc e by (auto simp: scanned(2,3))
  ultimately show ?thesis using sorted hist old by (simp add: scans_ok_def scanned(2))
qed

lemma GenerateBarcode_writes:
  assumes "GenerateBarcode os env inp db = (r, db')"
  shows "scan_events db' = scan_events db \<and> qc_events db' = qc_events db \<and>
    (barcodes db' = barcodes db \<or> (\<exists>b. barcodes db' = barcodes db @ [b] \<and> bc_ID b \<notin> bc_ID ` set (barcodes db)))"
  using assms by (auto simp: GenerateBarcode_def insertBarcode_def Let_def split: if_splits sum.splits)

lemma GenerateBarcode_ok:
  assumes "scans_ok db" and "GenerateBarcode os env inp db = (r, db')"
  shows "scans_ok db'"
proof -
  note w = GenerateBarcode_writes [OF assms(2)]
  then have "set (barcodes db) \<subseteq> set (barcodes db')" "keys_distinct bc_ID (barcodes db')"
    using assms(1) by (auto simp: scans_ok_def)
  then show ?thesis using w assms(1) qc_of_mono [of "barcodes db" "scan_events db" _ "barcodes db'"] by (auto simp: scans_ok_def scans_of_def)
qed

interpretation scans: invariant "\<lambda>st. fst st = empty_barcodes"
  "\<lambda>st st'. scan_step deps st st' \<and> scans_in_order (fst st) (fst st')" "\<lambda>st. scans_ok (fst st)"
proof unfold_locales
  show "scans_ok (fst st)" if "fst st = empty_barcodes" for st :: "barcode_db \<times> 'b"
    using that by (simp add: scans_ok_def empty_barcodes_def scans_of_def scan_history_def)
  show "scans_ok (fst st')" if "scans_ok (fst st)" "scan_step deps st st' \<and> scans_in_order (fst st) (fst st')" for st st'
    using that(2) [THEN conjunct1] that(1) that(2) [THEN conjunct2] by cases (auto dest: GenerateBarcode_ok RecordScan_ok)
qed

section \<open>Production behind the gateway\<close>

definition barcodeWOGatewayAdapter :: "'x prod_deps \<Rightarrow> (prod_db \<times> 'x) ScanGateway" where
  "barcodeWOGatewayAdapter pdeps =
     \<lparr>sg_status = (\<lambda>i st. map_sum id wo_Status (selectWorkOrderByID i (fst st))),
      sg_advance = (\<lambda>i to. AdvanceStatus pdeps i \<lparr>as_To = to, as_SheetID = None, as_CallerID = None, as_CallerRole = [], as_BypassOverflow = False,
        as_BypassReason = []\<rparr>),
      sg_qc = (\<lambda>i s. local_op (UpdateQCStatus i s))\<rparr>"

text \<open>The server passes the gateway, the user lookup and the publisher, and no packing suggester.\<close>

definition wired_barcodes :: "'x prod_deps \<Rightarrow> (uuid \<Rightarrow> 'x \<Rightarrow> string result) \<Rightarrow> (uuid \<Rightarrow> ScanCheckpoint \<Rightarrow> ('x, unit) op) \<Rightarrow> (prod_db \<times> 'x) bc_deps" where
  "wired_barcodes pdeps usr ntf =
     \<lparr>bc_orders = (\<lambda>st. map wo_ID (work_orders (fst st))), bc_wo = Some (barcodeWOGatewayAdapter pdeps), bc_usr = Some (\<lambda>u st. usr u (snd st)),
      bc_notifier = Some (\<lambda>w c st. case ntf w c (snd st) of (r, x) \<Rightarrow> (r, (fst st, x))), bc_packer = None\<rparr>"

text \<open>
  The barcodes that a cut and the packing of finished goods ask for. A cut gets one for the piece and one for the remnant; an error of
  the second leaves the first. \<open>cenv\<close> gives the clock and identifier of each of the two calls, \<open>sku\<close> is the catalog's code and name.
\<close>

definition int_text :: "int \<Rightarrow> string" where
  "int_text i = (if i < 0 then ''-'' else []) @ decimal (nat \<bar>i\<bar>)"

definition dimension_text :: "Dimension \<Rightarrow> string" where
  "dimension_text d = int_text (LengthMM d) @ ''x'' @ int_text (WidthMM d) @ ''mm''"

definition cut_label :: "BarcodeForCutInput \<Rightarrow> WorkOrder \<Rightarrow> Plan \<Rightarrow> string \<Rightarrow> string \<Rightarrow> Dimension \<Rightarrow> GenerateBarcodeInput" where
  "cut_label inp w p code name d =
     \<lparr>gb_WorkOrderID = bi_WorkOrderID inp, gb_SKUID = wo_SKUID w, gb_POID = (case pn_POID p of None \<Rightarrow> uuid_Nil | Some i \<Rightarrow> i), gb_ProductionPlanID = wo_PlanID w,
      gb_SKUCode = code, gb_SKUName = name, gb_Dimensions = dimension_text d, gb_ProducedDate = bi_ProducedDate inp\<rparr>"

definition cutBarcodeAdapter ::
  "prod_db \<Rightarrow> plan_db \<Rightarrow> (uuid \<Rightarrow> (string \<times> string) result) \<Rightarrow> (nat \<Rightarrow> env) \<Rightarrow> BarcodeForCutInput \<Rightarrow> barcode_db \<Rightarrow> BarcodeForCutOutput \<times> barcode_db" where
  "cutBarcodeAdapter pdb plandb sku cenv inp db =
     (let none = \<lparr>bo_WIPBarcodeID = None, bo_RemnantBarcodeID = None\<rparr>; orders = map wo_ID (work_orders pdb) in
      case selectWorkOrderByID (bi_WorkOrderID inp) pdb of
        Inl _ \<Rightarrow> (none, db)
      | Inr w \<Rightarrow>
          (case sku (wo_SKUID w) of
             Inl _ \<Rightarrow> (none, db)
           | Inr (code, name) \<Rightarrow>
               (case GetPlan (wo_PlanID w) plandb of
                  Inl _ \<Rightarrow> (none, db)
                | Inr (p, _) \<Rightarrow>
                    (case GenerateBarcode orders (cenv 0) (cut_label inp w p code name (bi_UsedDimension inp)) db of
                       (Inl _, db1) \<Rightarrow> (none, db1)
                     | (Inr wip, db1) \<Rightarrow>
                         let out = none\<lparr>bo_WIPBarcodeID := Some (bc_ID wip)\<rparr> in
                         (case bi_RemnantDimension inp of
                            None \<Rightarrow> (out, db1)
                          | Some d \<Rightarrow>
                              (case GenerateBarcode orders (cenv 1) (cut_label inp w p code (name @ '' [REMNANT]'') d) db1 of
                                 (Inl _, db2) \<Rightarrow> (out, db2)
                               | (Inr rem, db2) \<Rightarrow> (out\<lparr>bo_RemnantBarcodeID := Some (bc_ID rem)\<rparr>, db2)))))))"

definition packingBarcodeIssuerAdapter :: "uuid list \<Rightarrow> env \<Rightarrow> BarcodeIssueInput \<Rightarrow> (barcode_db, uuid) op" where
  "packingBarcodeIssuerAdapter orders env inp db =
     (case GenerateBarcode orders env
             \<lparr>gb_WorkOrderID = bci_WorkOrderID inp, gb_SKUID = bci_SKUID inp, gb_POID = bci_POID inp, gb_ProductionPlanID = bci_ProductionPlanID inp,
              gb_SKUCode = bci_SKUCode inp, gb_SKUName = bci_SKUName inp, gb_Dimensions = bci_Dimensions inp, gb_ProducedDate = bci_ProducedDate inp\<rparr> db of
        (Inl e, db1) \<Rightarrow> (Inl e, db1)
      | (Inr b, db1) \<Rightarrow> (Inr (bc_ID b), db1))"

definition packingBarcodeResolverAdapter :: "uuid \<Rightarrow> barcode_db \<Rightarrow> uuid result" where
  "packingBarcodeResolverAdapter i db = map_sum id bc_ID (LookupBarcode i db)"

inductive scan_floor_step :: "prod_schema \<Rightarrow> 'x prod_deps \<Rightarrow> (prod_db \<times> 'x) bc_deps \<Rightarrow> barcode_db \<times> prod_db \<times> 'x \<Rightarrow> barcode_db \<times> prod_db \<times> 'x \<Rightarrow> bool"
  for sch :: prod_schema and pdeps :: "'x prod_deps" and deps :: "(prod_db \<times> 'x) bc_deps" where
  floor_generate: "GenerateBarcode (map wo_ID (work_orders pdb)) env gen db = (r, db') \<Longrightarrow> scan_floor_step sch pdeps deps (db, pdb, x) (db', pdb, x)"
| floor_record: "RecordScan deps env scan (db, (pdb, x)) = (r', (db', (pdb', x'))) \<Longrightarrow> scan_floor_step sch pdeps deps (db, pdb, x) (db', pdb', x')"
| floor_production: "prod_step sch pdeps pdb pdb' \<Longrightarrow> scan_floor_step sch pdeps deps (db, pdb, x) (db, pdb', x')"

lemma wired_scan_prod:
  assumes "RecordScan (wired_barcodes pdeps usr ntf) env inp (db, (pdb, x)) = (r, (db', (pdb', x')))"
  shows "(prod_step sch pdeps)\<^sup>*\<^sup>* pdb pdb'"
proof -
  let ?deps = "wired_barcodes pdeps usr ntf"
  have cnc: "(prod_step sch pdeps)\<^sup>*\<^sup>* pdb pdb1" if "scan_cnc ?deps bc c status (pdb, x) = (r1, (pdb1, x1))" for bc c status r1 pdb1 x1
    using that by (auto simp: scan_cnc_def wired_barcodes_def barcodeWOGatewayAdapter_def split: if_splits sum.splits prod.splits
        intro!: r_into_rtranclp prod_step.intros(2))
  have qc: "(prod_step sch pdeps)\<^sup>*\<^sup>* pdb1 pdb2" if "scan_qc ?deps env bc e (db1, (pdb1, x1)) = (r2, (db2, (pdb2, x2)))" for bc e db1 pdb1 x1 r2 db2 pdb2 x2
    using that by (auto simp: scan_qc_def Let_def wired_barcodes_def barcodeWOGatewayAdapter_def local_op_def
        split: if_splits sum.splits prod.splits intro!: r_into_rtranclp prod_step.intros(19))
  show ?thesis
  proof (cases "scan_checks ?deps inp (db, (pdb, x))")
    case (Inr found)
    obtain bc status where f: "found = (bc, status)" by (cases found)
    let ?e = "new_scan env (normalizeScanMeta inp)"
    have run: "scan_commit ?deps env inp (bc, status) (db, (pdb, x)) = (r, (db', (pdb', x')))" using assms Inr f by (simp add: RecordScan_def)
    obtain r1 pdb1 x1 where c: "scan_cnc ?deps bc (rs_Checkpoint inp) status (pdb, x) = (r1, (pdb1, x1))" by (metis surj_pair)
    consider "pdb' = pdb" | "pdb' = pdb1" | db1 r2 db2 x2 where "scan_qc ?deps env bc ?e (db1, (pdb1, x1)) = (r2, (db2, (pdb', x2)))"
      using run c by (auto simp: scan_commit_def Let_def wired_barcodes_def split: sum.splits prod.splits)
    then show ?thesis using cnc [OF c] qc by cases (auto intro: rtranclp_trans)
  qed (use assms in \<open>auto simp: RecordScan_def\<close>)
qed

text \<open>A barcode without scans whose order is past cutting, and how it stays so.\<close>

definition left_behind :: "uuid \<Rightarrow> barcode_db \<Rightarrow> prod_db \<Rightarrow> bool" where
  "left_behind b db pdb \<longleftrightarrow> scans_of b db = [] \<and> (\<exists>bc w. row_by bc_ID b (barcodes db) = Some bc \<and> wo_row (bc_WorkOrderID bc) pdb = Some w \<and>
     wo_Status w \<notin> {WOPlanned, WOInCutting})"

lemma left_behind_refused:
  assumes "left_behind (rs_BarcodeID inp) db pdb"
  shows "\<exists>e. RecordScan (wired_barcodes pdeps usr ntf) env inp (db, (pdb, x)) = (Inl e, (db, (pdb, x)))"
proof (cases "scan_checks (wired_barcodes pdeps usr ntf) inp (db, (pdb, x))")
  case (Inr found)
  obtain bc status where f: "scan_checks (wired_barcodes pdeps usr ntf) inp (db, (pdb, x)) = Inr (bc, status)" using Inr by (cases found) auto
  have "selectLastScanEventByBarcode (rs_BarcodeID inp) db = Inl (Biz ErrNotFound)"
    using assms by (auto simp: left_behind_def selectLastScanEventByBarcode_def select_where_def scans_of_def order_desc_def)
  with scan_checks_Inr(2) [OF f] have "rs_Checkpoint inp = CheckpointCNCComplete" by simp
  moreover obtain w where "wo_row (bc_WorkOrderID bc) pdb = Some w" "wo_Status w \<noteq> WOInCutting"
    using assms scan_checks_Inr(1) [OF f] by (auto simp: left_behind_def)
  ultimately show ?thesis
    using scan_checks_Inr(4) [OF f, of "barcodeWOGatewayAdapter pdeps"]
    by (simp add: wired_barcodes_def barcodeWOGatewayAdapter_def selectWorkOrderByID_def expectedWOStatusForCheckpoint_def)
qed (auto simp: RecordScan_def)

lemma left_behind_production:
  assumes "prod_ok pdb" and "(prod_step sch pdeps)\<^sup>*\<^sup>* pdb pdb'" and "left_behind b db pdb"
  shows "left_behind b db pdb'"
proof -
  from assms(3) obtain bc w where bc: "scans_of b db = []" "row_by bc_ID b (barcodes db) = Some bc" and
    w: "wo_row (bc_WorkOrderID bc) pdb = Some w" "wo_Status w \<notin> {WOPlanned, WOInCutting}" by (auto simp: left_behind_def)
  have "w \<in> set (work_orders pdb)" "wo_ID w = bc_WorkOrderID bc" using row_by_SomeD [OF w(1)] by auto
  with orders_evolve_star [OF assms(1,2)] obtain w' where w': "w' \<in> set (work_orders pdb')" "wo_ID w' = bc_WorkOrderID bc"
    "wo_Status w' \<in> wo_future (wo_Status w)" by (auto simp: orders_evolve_def same_order_def)
  have "prod_ok pdb'" by (rule production.star_inv [OF assms(1,2)])
  then have "wo_row (bc_WorkOrderID bc) pdb' = Some w'" using w' row_by_Some_iff [OF prod_okD(1)] by blast
  moreover have "wo_Status w' \<notin> {WOPlanned, WOInCutting}" using w'(3) w(2) by (cases "wo_Status w") auto
  ultimately show ?thesis using bc by (auto simp: left_behind_def)
qed

lemma left_behind_step:
  assumes "scan_floor_step sch pdeps (wired_barcodes pdeps usr ntf) (db, pdb, x) (db', pdb', x')" and "prod_ok pdb" and "left_behind b db pdb"
  shows "prod_ok pdb' \<and> left_behind b db' pdb'"
  using assms(1)
proof cases
  case (floor_generate env gen r)
  from GenerateBarcode_writes [OF floor_generate(3)] have "scans_of b db' = scans_of b db" and
    "row_by bc_ID b (barcodes db) = Some bc \<Longrightarrow> row_by bc_ID b (barcodes db') = Some bc" for bc
    by (auto simp: scans_of_def row_by_append)
  then show ?thesis using assms(2,3) floor_generate by (auto simp: left_behind_def)
next
  case (floor_record env scan r')
  note prod = wired_scan_prod [OF floor_record]
  have "prod_ok pdb'" by (rule production.star_inv [OF assms(2) prod])
  moreover have "left_behind b db' pdb"
    using floor_record
  proof (cases rule: RecordScan_writes)
    case (scanned bc status)
    have "rs_BarcodeID scan \<noteq> b"
      using left_behind_refused [of scan db pdb pdeps usr ntf env x] floor_record assms(3) scanned(3) by auto
    then have "scans_of b db' = scans_of b db" by (simp add: scans_of_def scanned(3) new_scan_def normalizeScanMeta_def)
    then show ?thesis using assms(3) by (simp add: left_behind_def scanned(2))
  qed (use assms(3) in simp)
  ultimately show ?thesis using left_behind_production [OF assms(2) prod] by blast
next
  case floor_production
  then have "(prod_step sch pdeps)\<^sup>*\<^sup>* pdb pdb'" by blast
  then show ?thesis using production.star_inv [OF assms(2)] left_behind_production [OF assms(2)] floor_production assms(3) by blast
qed

section \<open>A shop floor\<close>

text \<open>Order 10 of the plant is in cutting; two pieces of it get the barcodes 50 and 60. Barcode 50 is cut, fails and passes its inspection.\<close>

abbreviation gate :: "(prod_db \<times> WOCompletedEvent list) bc_deps" where
  "gate \<equiv> wired_barcodes plant (\<lambda>_ _. Inr ''kim'') (\<lambda>_ _ x. (Inr (), x))"

definition piece :: GenerateBarcodeInput where
  "piece = \<lparr>gb_WorkOrderID = 10, gb_SKUID = 2, gb_POID = 0, gb_ProductionPlanID = 1, gb_SKUCode = ''T-2'', gb_SKUName = ''Table'',
     gb_Dimensions = ''100x50mm'', gb_ProducedDate = 5\<rparr>"

definition scan_at :: "ScanCheckpoint \<Rightarrow> RecordScanInput" where
  "scan_at c = \<lparr>rs_BarcodeID = 50, rs_Checkpoint = c, rs_Location = [], rs_Note = [], rs_DeviceID = '' d1 '', rs_DeviceName = [], rs_Shift = [], rs_ScannedBy = 5\<rparr>"

definition gate_two :: barcode_db where
  "gate_two = snd (GenerateBarcode [10] (plant_env 6) piece (snd (GenerateBarcode [10] (plant_env 5) piece empty_barcodes)))"

definition gate_cut :: "barcode_db \<times> prod_db \<times> WOCompletedEvent list" where
  "gate_cut = snd (RecordScan gate (plant_env 7) (scan_at CheckpointCNCComplete) (gate_two, plant_cutting, []))"

definition gate_failed :: "barcode_db \<times> prod_db \<times> WOCompletedEvent list" where
  "gate_failed = snd (RecordScan gate (plant_env 8) (scan_at CheckpointQCFailed) gate_cut)"

definition gate_passed :: "barcode_db \<times> prod_db \<times> WOCompletedEvent list" where
  "gate_passed = snd (RecordScan gate (plant_env 9) (scan_at CheckpointQCPassed) gate_failed)"

lemma gate_rows:
  "map wo_ID (work_orders plant_cutting) = [10]"
  "scans_in_order gate_two (fst gate_cut)"
  "scans_in_order (fst gate_cut) (fst gate_failed)"
  "scans_in_order (fst gate_failed) (fst gate_passed)"
  "map sv_Checkpoint (scans_of 50 (fst gate_passed)) = [CheckpointCNCComplete, CheckpointQCFailed, CheckpointQCPassed]"
  "length (qc_events (fst gate_passed)) = 2"
  "map_option bc_WorkOrderID (row_by bc_ID 60 (barcodes (fst gate_cut))) = Some 10"
  "map_option wo_Status (wo_row 10 (fst (snd gate_cut))) = Some WOInProcessing"
  "scans_of 60 (fst gate_cut) = []"
  by code_simp+

lemma gate_step:
  assumes "st' = snd (RecordScan deps env inp st)"
  shows "scan_step deps st st'"
  using assms scan_record [of deps env inp "fst st" "snd st" "fst (RecordScan deps env inp st)" "fst st'" "snd st'"] by simp

lemma gate_reach:
  "reach (\<lambda>st. fst st = empty_barcodes) (\<lambda>st st'. scan_step gate st st' \<and> scans_in_order (fst st) (fst st')) gate_passed"
  (is "reach ?init ?step _")
proof -
  have gen: "?step (db, plant_cutting, []) (snd (GenerateBarcode [10] env inp db), plant_cutting, [])" for env inp db
  proof
    show "scan_step gate (db, plant_cutting, []) (snd (GenerateBarcode [10] env inp db), plant_cutting, [])"
      by (rule scan_generate [of _ _ env inp _ "fst (GenerateBarcode [10] env inp db)"]) (simp add: wired_barcodes_def gate_rows(1))
    have "scan_events (snd (GenerateBarcode [10] env inp db)) = scan_events db"
      using GenerateBarcode_writes [of "[10]" env inp db "fst (GenerateBarcode [10] env inp db)"] by simp
    then show "scans_in_order (fst (db, plant_cutting, [])) (fst (snd (GenerateBarcode [10] env inp db), plant_cutting, []))"
      by (simp add: scans_in_order_def)
  qed
  have "reach ?init ?step (empty_barcodes, plant_cutting, [])" by (rule reach_init) simp
  then have "reach ?init ?step (snd (GenerateBarcode [10] (plant_env 5) piece empty_barcodes), plant_cutting, [])"
    by (rule reach_step) (rule gen)
  then have "reach ?init ?step (gate_two, plant_cutting, [])"
    unfolding gate_two_def by (rule reach_step) (rule gen)
  moreover have "?step (gate_two, plant_cutting, []) gate_cut" using gate_step [OF gate_cut_def] by (simp add: gate_rows(2))
  moreover have "?step gate_cut gate_failed" using gate_step [OF gate_failed_def] by (simp add: gate_rows(3))
  moreover have "?step gate_failed gate_passed" using gate_step [OF gate_passed_def] by (simp add: gate_rows(4))
  ultimately show ?thesis by (blast intro: reach_step)
qed

section \<open>Histories\<close>

text \<open>
  C12: the history of a piece, as long as time moves on: scans run one after the other (a scan reads the last one and inserts its
  own outside any transaction) and the clock gives each a later time than the stored scans of the same barcode. In every state
  that calls reach in this way, the checkpoints of a barcode are the cut, then failed inspections, then at most one that passed,
  then finished goods and shipment, in this order and without gaps; and every entry of the quality trail repeats an inspection of
  that barcode: its order, its result, who scanned and when.
\<close>

theorem scan_histories:
  assumes "reach (\<lambda>st. fst st = empty_barcodes) (\<lambda>st st'. scan_step deps st st' \<and> scans_in_order (fst st) (fst st')) (db, x)"
  shows "scan_history (map sv_Checkpoint (scans_of b db)) \<and> list_all (qc_of (barcodes db) (scan_events db)) (qc_events db)"
  using scans.reach_inv [OF assms] by (simp add: scans_ok_def list_all_iff)

theorem scan_histories_witness:
  "scan_history [CheckpointCNCComplete, CheckpointQCFailed, CheckpointQCPassed] \<and>
   list_all (qc_of (barcodes (fst gate_passed)) (scan_events (fst gate_passed))) (qc_events (fst gate_passed)) \<and> length (qc_events (fst gate_passed)) = 2"
  using scan_histories [of gate "fst gate_passed" "snd gate_passed" 50] gate_reach gate_rows(5,6) by simp

text \<open>
  Without it the order breaks. Two scans within one tick of the clock are ordered by their random identifiers, so the second may not
  become the last one: here a piece passes inspection twice.
\<close>

definition gate_tied :: "barcode_db \<times> prod_db \<times> WOCompletedEvent list" where
  "gate_tied = snd (RecordScan gate \<lparr>now = 8, fresh = Suc\<rparr> (scan_at CheckpointQCPassed) gate_failed)"

lemma tied_scans_repeat:
  "map sv_Checkpoint (scans_of 50 (fst (snd (RecordScan gate (plant_env 9) (scan_at CheckpointQCPassed) gate_tied)))) =
     [CheckpointCNCComplete, CheckpointQCFailed, CheckpointQCPassed, CheckpointQCPassed]"
  by code_simp

section \<open>Barcodes that come too late\<close>

text \<open>
  C37: one barcode carries a work order through. Once an order is past cutting, for example because the first of its barcodes was
  scanned after the cut, a barcode of the order that has no scan yet is refused every scan, whatever barcodes and
  production do afterwards, so it never gets a first scan. The boxes of finished goods, whose barcodes are issued when the order
  is completed, are all of this kind.
\<close>

theorem late_barcode_never_scanned:
  assumes "(scan_floor_step sch pdeps (wired_barcodes pdeps usr ntf))\<^sup>*\<^sup>* (db, pdb, x) (db', pdb', x')" and "prod_ok pdb"
    and "row_by bc_ID b (barcodes db) = Some bc" and "wo_row (bc_WorkOrderID bc) pdb = Some w" and "wo_Status w \<notin> {WOPlanned, WOInCutting}"
    and "scans_of b db = []"
  shows "scans_of b db' = [] \<and>
    (rs_BarcodeID inp = b \<longrightarrow> (\<exists>e. RecordScan (wired_barcodes pdeps usr ntf) env inp (db', (pdb', x')) = (Inl e, (db', (pdb', x')))))"
proof -
  have "left_behind b db pdb" using assms(3-6) by (auto simp: left_behind_def)
  from assms(1) have "prod_ok pdb' \<and> left_behind b db' pdb'"
  proof (induction "(db', pdb', x')" arbitrary: db' pdb' x' rule: rtranclp_induct)
    case base
    show ?case using assms(2) \<open>left_behind b db pdb\<close> by simp
  next
    case (step st)
    obtain db1 pdb1 x1 where st: "st = (db1, pdb1, x1)" by (cases st)
    from step(3) [OF st] left_behind_step [OF step(2) [unfolded st]] show ?case by blast
  qed
  then show ?thesis using left_behind_refused [of inp db' pdb'] by (auto simp: left_behind_def)
qed

theorem late_barcode_never_scanned_witness:
  "\<exists>e. RecordScan gate (plant_env 9) ((scan_at CheckpointCNCComplete)\<lparr>rs_BarcodeID := 60\<rparr>) gate_cut = (Inl e, gate_cut)"
proof -
  obtain db pdb x where st: "gate_cut = (db, pdb, x)" by (cases gate_cut)
  obtain bc where bc: "row_by bc_ID 60 (barcodes db) = Some bc" "bc_WorkOrderID bc = 10" using gate_rows(7) by (auto simp: st)
  obtain w where w: "wo_row (bc_WorkOrderID bc) pdb = Some w" "wo_Status w \<notin> {WOPlanned, WOInCutting}" using gate_rows(8) bc by (auto simp: st)
  have "RecordScan gate (plant_env 7) (scan_at CheckpointCNCComplete) (gate_two, plant_cutting, []) =
      (fst (RecordScan gate (plant_env 7) (scan_at CheckpointCNCComplete) (gate_two, plant_cutting, [])), (db, (pdb, x)))"
    using st by (metis gate_cut_def prod.collapse)
  from wired_scan_prod [OF this, of migrated_prod_schema] have "(prod_step migrated_prod_schema plant)\<^sup>*\<^sup>* plant_cutting pdb" .
  moreover have "(prod_step migrated_prod_schema plant)\<^sup>*\<^sup>* plant_created plant_cutting" using plant_steps(2,3) by (meson converse_rtranclp_into_rtranclp r_into_rtranclp)
  ultimately have "prod_ok pdb" using production.star_inv [OF plant_created_ok] by (meson rtranclp_trans)
  from late_barcode_never_scanned [where sch = migrated_prod_schema and inp = "(scan_at CheckpointCNCComplete)\<lparr>rs_BarcodeID := 60\<rparr>" and env = "plant_env 9",
      OF rtranclp.rtrancl_refl this bc(1) w] gate_rows(9)
  show ?thesis by (simp add: st)
qed

end
