(* ===== verification/Shipping.thy ===== *)
theory Shipping
  imports Delivery_Transitions
begin

text \<open>
  Vessels and bookings: \<^verbatim>\<open>internal/module/shipping\<close> with migrations 00065 and 00079. A booking puts a container on a vessel and copies the vessel and
  its cut-off onto the row of the container, where sealing reads it; so the operations run on the tables of this
  module and those of delivery. A stored booking leaves the name and cut-off, which are read from the vessel, empty.
  The list of users is an argument. The zero time is 0.
\<close>

section \<open>Rows\<close>

record Vessel =
  vs_ID :: uuid
  vs_Name :: string
  vs_Carrier :: string
  vs_VoyageNumber :: string
  vs_ETD :: "time option"
  vs_ETA :: "time option"
  vs_CutoffDate :: time
  vs_PortOfLoading :: string
  vs_PortOfDischarge :: string
  vs_CreatedBy :: uuid
  vs_CreatedAt :: time

record ShippingBooking =
  bk_ID :: uuid
  bk_VesselID :: uuid
  bk_ContainerID :: uuid
  bk_BookingRef :: string
  bk_BookedBy :: uuid
  bk_BookedAt :: time
  bk_Note :: string
  bk_FreightCost :: "Money option"
  bk_VesselName :: string
  bk_CutoffDate :: time

record ship_db =
  vessels :: "Vessel list"
  shipping_bookings :: "ShippingBooking list"

type_synonym dock_state = "ship_db \<times> delivery_db"

abbreviation vessel_row :: "uuid \<Rightarrow> ship_db \<Rightarrow> Vessel option" where
  "vessel_row i db \<equiv> row_by vs_ID i (vessels db)"

section \<open>Vessels\<close>

definition insertVessel :: "uuid list \<Rightarrow> Vessel \<Rightarrow> ship_db \<Rightarrow> ship_db result" where
  "insertVessel users v db =
     (case insert_checked (\<lambda>v. if vs_CreatedBy v \<notin> set users then Some (Pg ForeignKeyViolation) else None) vs_ID v (vessels db) of
        Inl e \<Rightarrow> Inl e
      | Inr t \<Rightarrow> Inr (db\<lparr>vessels := t\<rparr>))"

definition getVessel :: "uuid \<Rightarrow> ship_db \<Rightarrow> Vessel result" where
  "getVessel i db = (case vessel_row i db of None \<Rightarrow> Inl (Biz ErrNotFound) | Some v \<Rightarrow> Inr v)"

record VesselListFilter =
  vf_Search :: string
  vf_CutoffFrom :: "time option"
  vf_CutoffTo :: "time option"
  vf_ETDFrom :: "time option"
  vf_ETDTo :: "time option"

text \<open>A vessel without a departure time fails both bounds on it, as \<^verbatim>\<open>NULL\<close> does.\<close>

definition from_time :: "time option \<Rightarrow> time option \<Rightarrow> bool" where
  "from_time bound v \<longleftrightarrow> (case bound of None \<Rightarrow> True | Some b \<Rightarrow> (case v of None \<Rightarrow> False | Some t \<Rightarrow> b \<le> t))"

definition before_time :: "time option \<Rightarrow> time option \<Rightarrow> bool" where
  "before_time bound v \<longleftrightarrow> (case bound of None \<Rightarrow> True | Some b \<Rightarrow> (case v of None \<Rightarrow> False | Some t \<Rightarrow> t < b))"

definition vessel_matches :: "VesselListFilter \<Rightarrow> Vessel \<Rightarrow> bool" where
  "vessel_matches f v \<longleftrightarrow>
     (vf_Search f = [] \<or> ilike (vs_Name v) (''%'' @ vf_Search f @ ''%'') \<or> ilike (vs_VoyageNumber v) (''%'' @ vf_Search f @ ''%'')) \<and>
     from_time (vf_CutoffFrom f) (Some (vs_CutoffDate v)) \<and> before_time (vf_CutoffTo f) (Some (vs_CutoffDate v)) \<and>
     from_time (vf_ETDFrom f) (vs_ETD v) \<and> before_time (vf_ETDTo f) (vs_ETD v)"

definition listVessels :: "PageParams \<Rightarrow> VesselListFilter \<Rightarrow> ship_db \<Rightarrow> Vessel PagedResult result" where
  "listVessels p f db =
     (let rows = select_where (vessel_matches f) (vessels db); ordered = sort_key vs_CutoffDate (sort_key vs_ID rows)
      in Inr (NewPagedResult (take (nat (Limit p)) (drop (nat (Offset p)) ordered)) (int (length rows)) p))"

record UpdateVesselInput =
  uv_ID :: uuid
  uv_Name :: string
  uv_Carrier :: string
  uv_VoyageNumber :: string
  uv_ETD :: "time option"
  uv_ETA :: "time option"
  uv_CutoffDate :: time
  uv_PortOfLoading :: string
  uv_PortOfDischarge :: string

definition vessel_update :: "UpdateVesselInput \<Rightarrow> Vessel \<Rightarrow> Vessel" where
  "vessel_update inp v =
     v\<lparr>vs_Name := uv_Name inp, vs_Carrier := uv_Carrier inp, vs_VoyageNumber := uv_VoyageNumber inp, vs_ETD := uv_ETD inp, vs_ETA := uv_ETA inp,
       vs_CutoffDate := uv_CutoffDate inp, vs_PortOfLoading := uv_PortOfLoading inp, vs_PortOfDischarge := uv_PortOfDischarge inp\<rparr>"

text \<open>
  Two statements: the vessel, and then the cut-off of every container that is on it. The code runs them outside a transaction; the
  model takes them together, like every call that is one step, so a sealing that falls between the two is not modelled.
\<close>

definition updateVessel :: "UpdateVesselInput \<Rightarrow> (dock_state, Vessel) op" where
  "updateVessel inp st =
     (let (db, ddb) = st in
      case vessel_row (uv_ID inp) db of
        None \<Rightarrow> (Inl (Biz ErrNotFound), st)
      | Some v \<Rightarrow>
          (Inr (vessel_update inp v),
           (db\<lparr>vessels := update_where (\<lambda>v. vs_ID v = uv_ID inp) (vessel_update inp) (vessels db)\<rparr>,
            ddb\<lparr>containers := update_where (\<lambda>c. ctn_VesselID c = Some (uv_ID inp)) (\<lambda>c. c\<lparr>ctn_CutoffDate := Some (uv_CutoffDate inp)\<rparr>) (containers ddb)\<rparr>)))"

text \<open>Bookings and containers refer to a vessel; the foreign keys refuse to delete one that is in use.\<close>

definition deleteVessel :: "uuid \<Rightarrow> (dock_state, unit) op" where
  "deleteVessel i st =
     (let (db, ddb) = st in
      if vessel_row i db = None then (Inl (Biz ErrNotFound), st)
      else if list_ex (\<lambda>b. bk_VesselID b = i) (shipping_bookings db) \<or> list_ex (\<lambda>c. ctn_VesselID c = Some i) (containers ddb)
      then (Inl (Pg ForeignKeyViolation), st)
      else (Inr (), (db\<lparr>vessels := delete_where (\<lambda>v. vs_ID v = i) (vessels db)\<rparr>, ddb)))"

section \<open>Bookings\<close>

definition berth :: "uuid \<Rightarrow> uuid option \<Rightarrow> time option \<Rightarrow> delivery_db \<Rightarrow> delivery_db" where
  "berth i v t ddb = ddb\<lparr>containers := update_where (\<lambda>c. ctn_ID c = i) (\<lambda>c. c\<lparr>ctn_VesselID := v, ctn_CutoffDate := t\<rparr>) (containers ddb)\<rparr>"

definition rebook :: "ShippingBooking \<Rightarrow> ShippingBooking \<Rightarrow> ShippingBooking" where
  "rebook b old =
     old\<lparr>bk_VesselID := bk_VesselID b, bk_BookingRef := bk_BookingRef b, bk_BookedBy := bk_BookedBy b, bk_BookedAt := bk_BookedAt b, bk_Note := bk_Note b,
         bk_FreightCost := bk_FreightCost b\<rparr>"

definition booking_refs :: "uuid list \<Rightarrow> dock_state \<Rightarrow> ShippingBooking \<Rightarrow> bool" where
  "booking_refs users st b \<longleftrightarrow>
     bk_VesselID b \<in> vs_ID ` set (vessels (fst st)) \<and> bk_ContainerID b \<in> ctn_ID ` set (containers (snd st)) \<and> bk_BookedBy b \<in> set users"

text \<open>One row per container: a second booking rewrites the first and keeps its identifier. The caller gets back the row it asked for.\<close>

definition upsertBooking :: "uuid list \<Rightarrow> ShippingBooking \<Rightarrow> time \<Rightarrow> (dock_state, ShippingBooking) op" where
  "upsertBooking users b cutoff st =
     (let (db, ddb) = st; row = b\<lparr>bk_VesselName := [], bk_CutoffDate := 0\<rparr>;
          taken = list_ex (\<lambda>o'. bk_ContainerID o' = bk_ContainerID b) (shipping_bookings db) in
      if \<not> taken \<and> bk_ID b \<in> bk_ID ` set (shipping_bookings db) then (Inl (Pg UniqueViolation), st)
      else if \<not> booking_refs users st b then (Inl (Pg ForeignKeyViolation), st)
      else (Inr b,
            (db\<lparr>shipping_bookings :=
                  (if taken then update_where (\<lambda>o'. bk_ContainerID o' = bk_ContainerID b) (rebook row) (shipping_bookings db)
                   else shipping_bookings db @ [row])\<rparr>,
             berth (bk_ContainerID b) (Some (bk_VesselID b)) (Some cutoff) ddb)))"

definition deleteBooking :: "uuid \<Rightarrow> (dock_state, unit) op" where
  "deleteBooking i st =
     (let (db, ddb) = st in
      if count_where (\<lambda>b. bk_ContainerID b = i) (shipping_bookings db) = 0 then (Inl (Biz ErrNotFound), st)
      else (Inr (), (db\<lparr>shipping_bookings := delete_where (\<lambda>b. bk_ContainerID b = i) (shipping_bookings db)\<rparr>, berth i None None ddb)))"

text \<open>The join with the vessel.\<close>

definition with_vessel :: "ship_db \<Rightarrow> ShippingBooking \<Rightarrow> ShippingBooking list" where
  "with_vessel db b =
     (case vessel_row (bk_VesselID b) db of None \<Rightarrow> [] | Some v \<Rightarrow> [b\<lparr>bk_VesselName := vs_Name v, bk_CutoffDate := vs_CutoffDate v\<rparr>])"

definition getBookingByContainer :: "uuid \<Rightarrow> ship_db \<Rightarrow> ShippingBooking result" where
  "getBookingByContainer i db =
     (case concat (map (with_vessel db) (select_where (\<lambda>b. bk_ContainerID b = i) (shipping_bookings db))) of
        [] \<Rightarrow> Inl (Biz ErrNotFound)
      | b # _ \<Rightarrow> Inr b)"

definition listBookingsByVessel :: "uuid \<Rightarrow> ship_db \<Rightarrow> ShippingBooking list result" where
  "listBookingsByVessel i db =
     Inr (concat (map (with_vessel db) (sort_key bk_BookedAt (select_where (\<lambda>b. bk_VesselID b = i) (shipping_bookings db)))))"

section \<open>The service\<close>

record CreateVesselInput =
  cv_Name :: string
  cv_Carrier :: string
  cv_VoyageNumber :: string
  cv_ETD :: "time option"
  cv_ETA :: "time option"
  cv_CutoffDate :: time
  cv_PortOfLoading :: string
  cv_PortOfDischarge :: string
  cv_CreatedBy :: uuid

definition CreateVessel :: "uuid list \<Rightarrow> env \<Rightarrow> CreateVesselInput \<Rightarrow> (dock_state, Vessel) op" where
  "CreateVessel users env inp st =
     (if cv_Name inp = [] then (Inl (Biz ErrInvalidInput), st)
      else if cv_CutoffDate inp = 0 then (Inl (Biz ErrInvalidInput), st)
      else if cv_CreatedBy inp = uuid_Nil then (Inl (Biz ErrInvalidInput), st)
      else let v = \<lparr>vs_ID = fresh env 0, vs_Name = cv_Name inp, vs_Carrier = cv_Carrier inp, vs_VoyageNumber = cv_VoyageNumber inp, vs_ETD = cv_ETD inp,
             vs_ETA = cv_ETA inp, vs_CutoffDate = cv_CutoffDate inp, vs_PortOfLoading = cv_PortOfLoading inp, vs_PortOfDischarge = cv_PortOfDischarge inp,
             vs_CreatedBy = cv_CreatedBy inp, vs_CreatedAt = now env\<rparr>
           in (case insertVessel users v (fst st) of Inl e \<Rightarrow> (Inl e, st) | Inr db1 \<Rightarrow> (Inr v, (db1, snd st))))"

definition GetVessel :: "uuid \<Rightarrow> ship_db \<Rightarrow> Vessel result" where
  "GetVessel i db = getVessel i db"

definition ListVessels :: "PageParams \<Rightarrow> VesselListFilter \<Rightarrow> ship_db \<Rightarrow> Vessel PagedResult result" where
  "ListVessels p f db = listVessels p f db"

definition UpdateVessel :: "UpdateVesselInput \<Rightarrow> (dock_state, Vessel) op" where
  "UpdateVessel inp st =
     (if uv_ID inp = uuid_Nil then (Inl (Biz ErrInvalidInput), st)
      else if uv_Name inp = [] then (Inl (Biz ErrInvalidInput), st)
      else if uv_CutoffDate inp = 0 then (Inl (Biz ErrInvalidInput), st)
      else updateVessel inp st)"

definition DeleteVessel :: "uuid \<Rightarrow> (dock_state, unit) op" where
  "DeleteVessel i st = deleteVessel i st"

record BookContainerInput =
  bo_VesselID :: uuid
  bo_ContainerID :: uuid
  bo_BookingRef :: string
  bo_Note :: string
  bo_FreightCost :: "Money option"
  bo_BookedBy :: uuid

text \<open>The vessel is read before the transaction that writes the booking.\<close>

definition booking_request :: "env \<Rightarrow> BookContainerInput \<Rightarrow> ship_db \<Rightarrow> ShippingBooking result" where
  "booking_request env inp db =
     (if bo_VesselID inp = uuid_Nil then Inl (Biz ErrInvalidInput)
      else if bo_ContainerID inp = uuid_Nil then Inl (Biz ErrInvalidInput)
      else if bo_BookedBy inp = uuid_Nil then Inl (Biz ErrInvalidInput)
      else if (case bo_FreightCost inp of None \<Rightarrow> False | Some m \<Rightarrow> Amount m < 0 \<or> length (Currency m) \<noteq> 3) then Inl (Biz ErrInvalidInput)
      else (case getVessel (bo_VesselID inp) db of
              Inl e \<Rightarrow> Inl e
            | Inr v \<Rightarrow>
                Inr \<lparr>bk_ID = fresh env 0, bk_VesselID = bo_VesselID inp, bk_ContainerID = bo_ContainerID inp, bk_BookingRef = bo_BookingRef inp,
                     bk_BookedBy = bo_BookedBy inp, bk_BookedAt = now env, bk_Note = bo_Note inp, bk_FreightCost = bo_FreightCost inp,
                     bk_VesselName = vs_Name v, bk_CutoffDate = vs_CutoffDate v\<rparr>))"

definition BookContainer :: "uuid list \<Rightarrow> env \<Rightarrow> BookContainerInput \<Rightarrow> (dock_state, ShippingBooking) op" where
  "BookContainer users env inp st =
     (case booking_request env inp (fst st) of Inl e \<Rightarrow> (Inl e, st) | Inr b \<Rightarrow> upsertBooking users b (bk_CutoffDate b) st)"

definition UnbookContainer :: "uuid \<Rightarrow> uuid \<Rightarrow> (dock_state, unit) op" where
  "UnbookContainer vesselID containerID st =
     (case getBookingByContainer containerID (fst st) of
        Inl e \<Rightarrow> (Inl e, st)
      | Inr b \<Rightarrow> if bk_VesselID b \<noteq> vesselID then (Inl (Biz ErrNotFound), st) else deleteBooking containerID st)"

definition GetContainerBooking :: "uuid \<Rightarrow> ship_db \<Rightarrow> ShippingBooking result" where
  "GetContainerBooking i db = getBookingByContainer i db"

definition ListContainerBookings :: "uuid \<Rightarrow> ship_db \<Rightarrow> ShippingBooking list result" where
  "ListContainerBookings i db = listBookingsByVessel i db"

end
