(* ===== verification/Shipping_Props.thy ===== *)
theory Shipping_Props
  imports Shipping Delivery_Props
begin

text \<open>
  Shipping and delivery as one system. The cut-off that sealing compares with the clock is a copy on the row of the container; the
  invariant says that it agrees with the vessel after every sequence of calls of both modules.
\<close>

section \<open>What delivery does to the copies\<close>

definition moored :: "delivery_db \<Rightarrow> (uuid \<times> uuid option \<times> time option) list" where
  "moored db = map (\<lambda>c. (ctn_ID c, ctn_VesselID c, ctn_CutoffDate c)) (containers db)"

lemma moored_same: "containers db' = containers db \<Longrightarrow> moored db' = moored db"
  by (simp add: moored_def)

lemma moored_update:
  assumes "containers db' = update_where P f (containers db)" and "\<And>c. ctn_ID (f c) = ctn_ID c \<and> ctn_VesselID (f c) = ctn_VesselID c \<and> ctn_CutoffDate (f c) = ctn_CutoffDate c"
  shows "moored db' = moored db"
  using assms by (auto simp: moored_def update_where_def)

lemma status_moored: "updateContainerStatus rf k inp db = Inr (c, db') \<Longrightarrow> moored db' = moored db"
  by (rule moored_update [of _ "\<lambda>c. ctn_ID c = us_ContainerID inp" "set_container_status inp"])
     (auto simp: updateContainerStatus_def set_container_status_def Let_def split: if_splits sum.splits option.splits ContainerStatus.splits)

lemma flip_moored: "flipToLoadingIfOpen rf k c a nt t db = Inr db' \<Longrightarrow> moored db' = moored db"
  by (auto simp: flipToLoadingIfOpen_def map_sum_def split: if_splits sum.splits dest: status_moored)

lemma line_statements_moored:
  "insertLine rf l db = Inr db1 \<Longrightarrow> moored db1 = moored db"
  "deleteLine rf i db = Inr db2 \<Longrightarrow> moored db2 = moored db"
  "updateLineQty i q cb w db = Inr db3 \<Longrightarrow> moored db3 = moored db"
  "insertTransferAudit rf au db = Inr db4 \<Longrightarrow> moored db4 = moored db"
  "insertOverloadLog rf ol db = Inr db5 \<Longrightarrow> moored db5 = moored db"
  by (auto simp: insertLine_def deleteLine_def updateLineQty_def insertTransferAudit_def insertOverloadLog_def Let_def moored_def
      split: if_splits sum.splits option.splits)

lemmas statements_moored = line_statements_moored status_moored flip_moored

lemma lines_moored:
  "AddLine deps env ain (db, x) = (r1, (db1, x1)) \<Longrightarrow> moored db1 = moored db"
  "DeleteLine deps ci li (db, x) = (r2, (db2, x2)) \<Longrightarrow> moored db2 = moored db"
  "TransferLine deps env tin (db, x) = (r3, (db3, x3)) \<Longrightarrow> moored db3 = moored db"
  by (auto simp: AddLine_def add_line_tx_def log_overload_def DeleteLine_def delete_line_tx_def TransferLine_def transfer_tx_def move_whole_def
      move_part_def finish_transfer_def Let_def split: if_splits sum.splits prod.splits dest!: statements_moored)

lemma transitions_moored:
  "change_status rf env fr to i u nt db = (r1, db1) \<Longrightarrow> moored db1 = moored db"
  "Seal deps env zin (db, x) = (r2, (db2, x2)) \<Longrightarrow> moored db2 = moored db"
  by (auto simp: change_status_def Seal_def seal_tx_def Let_def split: if_splits sum.splits prod.splits option.splits dest!: statements_moored)

lemma plans_moored:
  "UploadLoadingPlan deps pf env uin (db, x) = (r1, (db1, x1)) \<Longrightarrow> moored db1 = moored db"
  "ApproveLoadingPlan deps env pin (db, x) = (r2, (db2, x2)) \<Longrightarrow> moored db2 = moored db"
proof -
  show "UploadLoadingPlan deps pf env uin (db, x) = (r1, (db1, x1)) \<Longrightarrow> moored db1 = moored db"
    by (auto simp: UploadLoadingPlan_def save_plan_def insertLoadingPlanWithLines_def Let_def moored_def split: if_splits option.splits sum.splits prod.splits)
  have promote: "promote rf p actor t db = Inr (q, db') \<Longrightarrow> containers db' = containers db" for rf p actor t db q db'
    by (auto simp: promote_def Let_def split: if_splits option.splits)
  have "approve_tx rf env must inp db = (r, db') \<Longrightarrow> containers db' = containers db" for rf must inp r db'
    by (auto simp: approve_tx_def supersedeLoadingPlanTx_def approveLoadingPlanTx_def Let_def split: option.splits sum.splits prod.splits if_splits dest!: promote)
  from moored_same [OF this] show "ApproveLoadingPlan deps env pin (db, x) = (r2, (db2, x2)) \<Longrightarrow> moored db2 = moored db"
    by (auto simp: ApproveLoadingPlan_def Let_def split: if_splits sum.splits prod.splits)
qed

text \<open>Delivery keeps the copies, adds a container without one, or clears those of a container that changes its destination.\<close>

definition clears :: "delivery_db \<Rightarrow> delivery_db \<Rightarrow> bool" where
  "clears db db' \<longleftrightarrow> (\<forall>(i, v, t) \<in> set (moored db'). (i, v, t) \<in> set (moored db) \<or> v = None \<and> t = None)"

lemma clears_moored: "moored db' = moored db \<Longrightarrow> clears db db'"
  by (auto simp: clears_def)

lemma CreateContainer_clears: "CreateContainer deps env day cin x db = (r, db') \<Longrightarrow> clears db db'"
  by (auto simp: CreateContainer_def nextContainerCode_def insertContainer_def clears_def moored_def Let_def
      split: option.splits if_splits sum.splits prod.splits)

lemma ChangeDestination_clears:
  assumes "ChangeDestination rf env din db = (r, db')"
  shows "clears db db'"
proof (cases "db' = db")
  case False
  with assms obtain cl where "containers db' = update_where (\<lambda>c. ctn_ID c = de_ContainerID din) (set_destination (de_DestinationCode din) (de_DestinationName din) cl) (containers db)"
    by (auto simp: ChangeDestination_def changeDestinationTx_def Let_def split: if_splits sum.splits prod.splits)
  moreover have "ctn_ID (set_destination a b cl c) = ctn_ID c \<and> (ctn_VesselID (set_destination a b cl c) = ctn_VesselID c \<and> ctn_CutoffDate (set_destination a b cl c) = ctn_CutoffDate c \<or>
      ctn_VesselID (set_destination a b cl c) = None \<and> ctn_CutoffDate (set_destination a b cl c) = None)" for a b c
    by (simp add: set_destination_def Let_def)
  ultimately show ?thesis unfolding clears_def moored_def by (auto simp: set_update_where)
qed (simp add: clears_moored)

lemma AssignLoader_moored:
  assumes "AssignLoader rf env lin db = (r, db')"
  shows "moored db' = moored db"
proof (cases "db' = db")
  case False
  with assms have "containers db' = update_where (\<lambda>c. ctn_ID c = lo_ContainerID lin) (\<lambda>c. c\<lparr>ctn_LoaderID := lo_LoaderID lin\<rparr>) (containers db)"
    by (auto simp: AssignLoader_def updateContainerLoader_def split: if_splits sum.splits prod.splits)
  then show ?thesis by (rule moored_update) simp
qed simp

lemmas calls_clear = CreateContainer_clears ChangeDestination_clears lines_moored [THEN clears_moored] transitions_moored [THEN clears_moored]
  plans_moored [THEN clears_moored] AssignLoader_moored [THEN clears_moored]

lemma service_clears:
  assumes "del_service deps (db, x) (db', x')"
  shows "clears db db'"
  using assms by cases (auto simp: Reopen_def Ship_def CancelContainer_def dest: calls_clear intro: clears_moored split: if_splits)

section \<open>The two modules together\<close>

inductive sail_step :: "'x del_deps \<Rightarrow> dock_state \<times> 'x \<Rightarrow> dock_state \<times> 'x \<Rightarrow> bool" for deps :: "'x del_deps" where
  sail_create: "CreateVessel users env cre s = (r1, s') \<Longrightarrow> sail_step deps (s, x) (s', x)"
| sail_update: "UpdateVessel upd s = (r2, s') \<Longrightarrow> sail_step deps (s, x) (s', x)"
| sail_delete: "DeleteVessel i s = (r3, s') \<Longrightarrow> sail_step deps (s, x) (s', x)"
| sail_book: "BookContainer users env boo s = (r4, s') \<Longrightarrow> sail_step deps (s, x) (s', x)"
| sail_unbook: "UnbookContainer i c s = (r5, s') \<Longrightarrow> sail_step deps (s, x) (s', x)"
| sail_delivery: "del_service deps (ddb, x) (ddb', x') \<Longrightarrow> sail_step deps ((sdb, ddb), x) ((sdb, ddb'), x')"
| sail_outside: "sail_step deps (s, x) (s, x')"

definition no_ships :: ship_db where
  "no_ships = \<lparr>vessels = [], shipping_bookings = []\<rparr>"

text \<open>The copies on a container: none, or the cut-off of a vessel it is booked on.\<close>

definition berth_ok :: "ship_db \<Rightarrow> uuid \<times> uuid option \<times> time option \<Rightarrow> bool" where
  "berth_ok sdb m = (case m of (i, v, t) \<Rightarrow>
     (case v of
        None \<Rightarrow> t = None
      | Some j \<Rightarrow> (\<exists>vs \<in> set (vessels sdb). vs_ID vs = j \<and> t = Some (vs_CutoffDate vs)) \<and>
          (\<exists>b \<in> set (shipping_bookings sdb). bk_ContainerID b = i \<and> bk_VesselID b = j)))"

definition sail_ok :: "dock_state \<Rightarrow> bool" where
  "sail_ok st \<longleftrightarrow> keys_distinct vs_ID (vessels (fst st)) \<and> distinct (map bk_ContainerID (shipping_bookings (fst st))) \<and>
     (\<forall>m \<in> set (moored (snd st)). berth_ok (fst st) m)"

lemma sail_okD:
  assumes "sail_ok (sdb, ddb)"
  shows "keys_distinct vs_ID (vessels sdb)" "distinct (map bk_ContainerID (shipping_bookings sdb))"
    "\<And>m. m \<in> set (moored ddb) \<Longrightarrow> berth_ok sdb m"
  using assms by (auto simp: sail_ok_def)

lemma berth_ok_mono:
  assumes "berth_ok sdb m" and "set (vessels sdb) \<subseteq> set (vessels sdb')" and "shipping_bookings sdb' = shipping_bookings sdb"
  shows "berth_ok sdb' m"
proof (cases m)
  case (fields i v t)
  then show ?thesis using assms by (cases v) (simp_all add: berth_ok_def, blast)
qed

lemma CreateVessel_ok:
  assumes "CreateVessel users env inp (sdb, ddb) = (r, st')" and "sail_ok (sdb, ddb)"
  shows "sail_ok st'"
proof (cases "st' = (sdb, ddb)")
  case False
  with assms(1) obtain v db1 where "insertVessel users v sdb = Inr db1" and st1: "st' = (db1, ddb)"
    by (auto simp: CreateVessel_def Let_def split: if_splits sum.splits)
  then have st': "st' = (sdb\<lparr>vessels := vessels sdb @ [v]\<rparr>, ddb)" and v: "vs_ID v \<notin> vs_ID ` set (vessels sdb)"
    by (auto simp: insertVessel_def split: sum.splits)
  note ok = sail_okD [OF assms(2)]
  have "berth_ok (fst st') m" if "m \<in> set (moored ddb)" for m using berth_ok_mono [OF ok(3) [OF that], of "fst st'"] by (auto simp: st')
  then show ?thesis using ok(1,2) v by (simp add: sail_ok_def st')
qed (use assms(2) in simp)

lemma berth_moored: "moored (berth i v t ddb) = map (\<lambda>m. if fst m = i then (i, v, t) else m) (moored ddb)"
  by (auto simp: berth_def moored_def update_where_def)

lemma UpdateVessel_ok:
  assumes "UpdateVessel inp (sdb, ddb) = (r, st')" and "sail_ok (sdb, ddb)"
  shows "sail_ok st'"
proof (cases "st' = (sdb, ddb)")
  case False
  let ?sdb = "sdb\<lparr>vessels := update_where (\<lambda>v. vs_ID v = uv_ID inp) (vessel_update inp) (vessels sdb)\<rparr>"
  let ?ddb = "ddb\<lparr>containers := update_where (\<lambda>c. ctn_VesselID c = Some (uv_ID inp)) (\<lambda>c. c\<lparr>ctn_CutoffDate := Some (uv_CutoffDate inp)\<rparr>) (containers ddb)\<rparr>"
  from False assms(1) have st': "st' = (?sdb, ?ddb)" by (auto simp: UpdateVessel_def updateVessel_def split: if_splits option.splits)
  note ok = sail_okD [OF assms(2)]
  have ids: "map vs_ID (vessels ?sdb) = map vs_ID (vessels sdb)" by (auto simp: update_where_def vessel_update_def)
  have "berth_ok ?sdb m" if "m \<in> set (moored ?ddb)" for m
  proof -
    have "moored ?ddb = map (\<lambda>(i, v, t). (i, v, if v = Some (uv_ID inp) then Some (uv_CutoffDate inp) else t)) (moored ddb)"
      by (auto simp: moored_def update_where_def)
    with that obtain i v t where m: "(i, v, t) \<in> set (moored ddb)" "m = (i, v, if v = Some (uv_ID inp) then Some (uv_CutoffDate inp) else t)" by auto
    show ?thesis
    proof (cases v)
      case (Some j)
      with ok(3) [OF m(1)] obtain vs where vs: "vs \<in> set (vessels sdb)" "vs_ID vs = j" "t = Some (vs_CutoffDate vs)"
        and b: "\<exists>b \<in> set (shipping_bookings sdb). bk_ContainerID b = i \<and> bk_VesselID b = j" by (auto simp: berth_ok_def)
      let ?vs = "if vs_ID vs = uv_ID inp then vessel_update inp vs else vs"
      have "?vs \<in> set (vessels ?sdb)" using vs(1) by (auto simp: set_update_where)
      then show ?thesis using vs b Some by (auto simp: berth_ok_def m(2) vessel_update_def intro!: bexI [of _ ?vs])
    qed (use ok(3) [OF m(1)] in \<open>simp add: berth_ok_def m(2)\<close>)
  qed
  then show ?thesis using ok(1,2) ids by (simp add: sail_ok_def st')
qed (use assms(2) in simp)

lemma DeleteVessel_ok:
  assumes "DeleteVessel i (sdb, ddb) = (r, st')" and "sail_ok (sdb, ddb)"
  shows "sail_ok st'"
proof (cases "st' = (sdb, ddb)")
  case False
  let ?sdb = "sdb\<lparr>vessels := delete_where (\<lambda>v. vs_ID v = i) (vessels sdb)\<rparr>"
  from False assms(1) have st': "st' = (?sdb, ddb)" and free: "\<forall>c \<in> set (containers ddb). ctn_VesselID c \<noteq> Some i"
    by (auto simp: DeleteVessel_def deleteVessel_def list_ex_iff split: if_splits)
  note ok = sail_okD [OF assms(2)]
  have "berth_ok ?sdb m" if "m \<in> set (moored ddb)" for m
    using ok(3) [OF that] that free by (auto simp: berth_ok_def moored_def delete_where_def split: option.splits)
  then show ?thesis using ok(1,2) by (auto simp: sail_ok_def st' delete_where_def distinct_map_filter)
qed (use assms(2) in simp)

lemma BookContainer_ok:
  assumes "BookContainer users env inp (sdb, ddb) = (r, st')" and "sail_ok (sdb, ddb)"
  shows "sail_ok st'"
proof (cases "st' = (sdb, ddb)")
  case False
  with assms(1) obtain b where req: "booking_request env inp sdb = Inr b" and up: "upsertBooking users b (bk_CutoffDate b) (sdb, ddb) = (r, st')"
    by (auto simp: BookContainer_def split: sum.splits)
  from req obtain v where v: "v \<in> set (vessels sdb)" "vs_ID v = bk_VesselID b" "bk_CutoffDate b = vs_CutoffDate v"
    by (auto simp: booking_request_def getVessel_def split: if_splits option.splits dest!: row_by_SomeD)
  define bs where "bs = shipping_bookings (fst st')"
  have st': "st' = (sdb\<lparr>shipping_bookings := bs\<rparr>, berth (bk_ContainerID b) (Some (bk_VesselID b)) (Some (vs_CutoffDate v)) ddb)"
    and bs: "bs = (if list_ex (\<lambda>o'. bk_ContainerID o' = bk_ContainerID b) (shipping_bookings sdb)
      then update_where (\<lambda>o'. bk_ContainerID o' = bk_ContainerID b) (rebook (b\<lparr>bk_VesselName := [], bk_CutoffDate := 0\<rparr>)) (shipping_bookings sdb)
      else shipping_bookings sdb @ [b\<lparr>bk_VesselName := [], bk_CutoffDate := 0\<rparr>])"
    using up False v(3) by (auto simp: upsertBooking_def Let_def bs_def split: if_splits)
  note ok = sail_okD [OF assms(2)]
  have mine: "\<exists>o' \<in> set bs. bk_ContainerID o' = bk_ContainerID b \<and> bk_VesselID o' = bk_VesselID b"
  proof (cases "list_ex (\<lambda>o'. bk_ContainerID o' = bk_ContainerID b) (shipping_bookings sdb)")
    case True
    then obtain o' where o': "o' \<in> set (shipping_bookings sdb)" "bk_ContainerID o' = bk_ContainerID b" by (auto simp: list_ex_iff)
    let ?new = "rebook (b\<lparr>bk_VesselName := [], bk_CutoffDate := 0\<rparr>) o'"
    have "?new \<in> set bs" using o' True by (auto simp: bs set_update_where)
    then show ?thesis using o' by (intro bexI [of _ ?new]) (simp_all add: rebook_def)
  qed (simp add: bs)
  have others: "\<exists>o' \<in> set bs. bk_ContainerID o' = i \<and> bk_VesselID o' = j"
    if "\<exists>o' \<in> set (shipping_bookings sdb). bk_ContainerID o' = i \<and> bk_VesselID o' = j" "i \<noteq> bk_ContainerID b" for i j
    using that by (fastforce simp: bs set_update_where)
  have "berth_ok (sdb\<lparr>shipping_bookings := bs\<rparr>) m" if m: "m \<in> set (moored (snd st'))" for m
  proof (cases "fst m = bk_ContainerID b")
    case True
    then have "m = (bk_ContainerID b, Some (bk_VesselID b), Some (vs_CutoffDate v))" using m by (auto simp: st' berth_moored)
    then show ?thesis using v mine by (auto simp: berth_ok_def)
  next
    case False
    then have "m \<in> set (moored ddb)" using m by (auto simp: st' berth_moored split: if_splits)
    from ok(3) [OF this] show ?thesis using others False by (cases m) (auto simp: berth_ok_def split: option.splits)
  qed
  moreover have "distinct (map bk_ContainerID bs)"
  proof (cases "list_ex (\<lambda>o'. bk_ContainerID o' = bk_ContainerID b) (shipping_bookings sdb)")
    case True
    then have "map bk_ContainerID bs = map bk_ContainerID (shipping_bookings sdb)" by (auto simp: bs update_where_def rebook_def)
    then show ?thesis using ok(2) by simp
  qed (use ok(2) in \<open>auto simp: bs list_ex_iff\<close>)
  ultimately show ?thesis using ok(1) by (simp add: sail_ok_def st')
qed (use assms(2) in simp)

lemma UnbookContainer_ok:
  assumes "UnbookContainer v i (sdb, ddb) = (r, st')" and "sail_ok (sdb, ddb)"
  shows "sail_ok st'"
proof (cases "st' = (sdb, ddb)")
  case False
  with assms(1) have st': "st' = (sdb\<lparr>shipping_bookings := delete_where (\<lambda>b. bk_ContainerID b = i) (shipping_bookings sdb)\<rparr>, berth i None None ddb)"
    by (auto simp: UnbookContainer_def deleteBooking_def split: if_splits sum.splits)
  note ok = sail_okD [OF assms(2)]
  have "berth_ok (fst st') m" if "m \<in> set (moored (snd st'))" for m
  proof (cases "fst m = i")
    case True
    then show ?thesis using that by (auto simp: st' berth_moored berth_ok_def split: if_splits)
  next
    case False
    then have "m \<in> set (moored ddb)" using that by (auto simp: st' berth_moored split: if_splits)
    from ok(3) [OF this] show ?thesis using False by (cases m) (auto simp: berth_ok_def st' delete_where_def split: option.splits)
  qed
  then show ?thesis using ok(1,2) by (auto simp: sail_ok_def st' delete_where_def distinct_map_filter)
qed (use assms(2) in simp)

lemma delivery_sail_ok:
  assumes "clears ddb ddb'" and "sail_ok (sdb, ddb)"
  shows "sail_ok (sdb, ddb')"
proof -
  have "berth_ok sdb m" if "m \<in> set (moored ddb')" for m
  proof -
    from assms(1) that have "m \<in> set (moored ddb) \<or> fst (snd m) = None \<and> snd (snd m) = None" by (cases m) (auto simp: clears_def)
    then show ?thesis using sail_okD(3) [OF assms(2)] by (cases m) (auto simp: berth_ok_def)
  qed
  then show ?thesis using assms(2) by (simp add: sail_ok_def)
qed

interpretation sailing: invariant "\<lambda>s. fst s = (no_ships, empty_delivery)" "sail_step deps" "\<lambda>s. sail_ok (fst s)"
proof unfold_locales
  show "sail_ok (fst s)" if "fst s = (no_ships, empty_delivery)" for s :: "dock_state \<times> 'b"
    using that by (simp add: sail_ok_def no_ships_def empty_delivery_def moored_def)
  show "sail_ok (fst s')" if "sail_ok (fst s)" "sail_step deps s s'" for s s'
    using that(2,1)
  proof cases
    case (sail_create users env cre st r1 st' x)
    then show ?thesis using that(1) CreateVessel_ok [of users env cre "fst st" "snd st"] by simp
  next
    case (sail_update upd st r2 st' x)
    then show ?thesis using that(1) UpdateVessel_ok [of upd "fst st" "snd st"] by simp
  next
    case (sail_delete i st r3 st' x)
    then show ?thesis using that(1) DeleteVessel_ok [of i "fst st" "snd st"] by simp
  next
    case (sail_book users env boo st r4 st' x)
    then show ?thesis using that(1) BookContainer_ok [of users env boo "fst st" "snd st"] by simp
  next
    case (sail_unbook i c st r5 st' x)
    then show ?thesis using that(1) UnbookContainer_ok [of i c "fst st" "snd st"] by simp
  next
    case (sail_delivery ddb x ddb' x' sdb)
    then show ?thesis using that(1) delivery_sail_ok [OF service_clears] by auto
  qed simp
qed

section \<open>Sealing and the cut-off\<close>

lemma unique_filter: "distinct (map k t) \<Longrightarrow> r \<in> set t \<Longrightarrow> filter (\<lambda>r'. k r' = k r) t = [r]"
  by (induction t) (auto simp: filter_empty_conv image_iff)

lemma booking_found:
  assumes "distinct (map bk_ContainerID (shipping_bookings sdb))" and "b \<in> set (shipping_bookings sdb)" and "vessel_row (bk_VesselID b) sdb = Some v"
  shows "getBookingByContainer (bk_ContainerID b) sdb = Inr (b\<lparr>bk_VesselName := vs_Name v, bk_CutoffDate := vs_CutoffDate v\<rparr>)"
proof -
  have "filter (\<lambda>o'. bk_ContainerID o' = bk_ContainerID b) (shipping_bookings sdb) = [b]"
    by (rule unique_filter [OF assms(1,2)])
  then show ?thesis using assms(3) by (simp add: getBookingByContainer_def with_vessel_def select_where_def)
qed

text \<open>
  C5: no container is sealed after the cut-off of its vessel. In every state that calls of shipping and delivery reach, in any order, a container that is sealed
  and has a vessel is booked on that vessel, and the clock is not past the cut-off that the vessel has at that moment, however often
  the vessel was rescheduled and the container rebooked. A container without a vessel has no cut-off.
\<close>

theorem sealed_before_cutoff:
  assumes "reach (\<lambda>s. fst s = (no_ships, empty_delivery)) (sail_step deps) ((sdb, ddb), x)"
    and "Seal deps env inp (ddb, x) = (Inr c, (ddb', x'))"
  shows "\<exists>b. container_row (se_ContainerID inp) ddb = Some b \<and>
    (case ctn_VesselID b of
       None \<Rightarrow> ctn_CutoffDate b = None
     | Some i \<Rightarrow> (\<exists>v bk. vessel_row i sdb = Some v \<and> now env \<le> vs_CutoffDate v \<and> GetContainerBooking (se_ContainerID inp) sdb = Inr bk \<and> bk_VesselID bk = i \<and>
         bk_CutoffDate bk = vs_CutoffDate v))"
proof -
  have ok: "sail_ok (sdb, ddb)" using sailing.reach_inv [OF assms(1)] by simp
  from assms(2) obtain ship c1 x1 where "seal_tx ship (drefs deps) env inp (ddb, x) = Inr (c1, ddb', x1)"
    by (auto simp: Seal_def split: option.splits sum.splits prod.splits)
  from seal_tx_row [OF this] obtain b where b: "container_row (se_ContainerID inp) ddb = Some b"
    "case ctn_CutoffDate b of None \<Rightarrow> True | Some t \<Rightarrow> now env \<le> t" by blast
  have mem: "(se_ContainerID inp, ctn_VesselID b, ctn_CutoffDate b) \<in> set (moored ddb)"
    using row_by_SomeD [OF b(1)] by (auto simp: moored_def intro!: rev_image_eqI [of b])
  show ?thesis
  proof (cases "ctn_VesselID b")
    case None
    then show ?thesis using b sail_okD(3) [OF ok mem] by (auto simp: berth_ok_def)
  next
    case (Some i)
    with sail_okD(3) [OF ok mem] obtain v bk where v: "v \<in> set (vessels sdb)" "vs_ID v = i" "ctn_CutoffDate b = Some (vs_CutoffDate v)"
      and bk: "bk \<in> set (shipping_bookings sdb)" "bk_ContainerID bk = se_ContainerID inp" "bk_VesselID bk = i" by (auto simp: berth_ok_def)
    have row: "vessel_row i sdb = Some v" using v row_by_Some_iff [OF sail_okD(1) [OF ok]] by blast
    then show ?thesis using b v bk Some booking_found [OF sail_okD(2) [OF ok] bk(1), of v] by (auto simp: GetContainerBooking_def)
  qed
qed

text \<open>Vessel 40 with cut-off at 100 takes container 50 of the yard.\<close>

definition quay_ships :: ship_db where
  "quay_ships = fst (snd (CreateVessel [9] (desk_env 4)
     \<lparr>cv_Name = ''Star'', cv_Carrier = [], cv_VoyageNumber = ''V1'', cv_ETD = None, cv_ETA = None, cv_CutoffDate = 100, cv_PortOfLoading = [],
      cv_PortOfDischarge = [], cv_CreatedBy = 9\<rparr> (no_ships, empty_delivery)))"

definition quay_booked :: dock_state where
  "quay_booked = snd (BookContainer [9] (desk_env 6)
     \<lparr>bo_VesselID = 40, bo_ContainerID = 50, bo_BookingRef = [], bo_Note = [], bo_FreightCost = None, bo_BookedBy = 9\<rparr> (quay_ships, fst yard_loaded))"

definition quay_move :: "string \<Rightarrow> ChangeDestinationInput" where
  "quay_move code = \<lparr>de_ContainerID = 50, de_DestinationCode = code, de_DestinationName = [], de_Reason = ''customer'', de_ActorID = 9\<rparr>"

lemma quay_runs:
  "\<not> isl (fst (Seal yard (desk_env 7) yard_seal (snd quay_booked, snd yard_loaded)))"
  "map_option ctn_VesselID (container_row 50 (snd quay_booked)) = Some (Some 40)"
  by code_simp+

lemma quay_reach: "reach (\<lambda>s. fst s = (no_ships, empty_delivery)) (sail_step yard) (quay_booked, snd yard_loaded)"
proof -
  let ?R = "reach (\<lambda>s. fst s = (no_ships, empty_delivery)) (sail_step yard)"
  have "?R ((no_ships, empty_delivery), yard_world)" by (rule reach_init) simp
  moreover have "snd (snd (CreateVessel [9] (desk_env 4)
     \<lparr>cv_Name = ''Star'', cv_Carrier = [], cv_VoyageNumber = ''V1'', cv_ETD = None, cv_ETA = None, cv_CutoffDate = 100, cv_PortOfLoading = [],
      cv_PortOfDischarge = [], cv_CreatedBy = 9\<rparr> (no_ships, empty_delivery))) = empty_delivery" by code_simp
  then have "sail_step yard ((no_ships, empty_delivery), yard_world) ((quay_ships, empty_delivery), yard_world)"
    by (metis sail_create quay_ships_def prod.collapse)
  moreover have "sail_step yard ((quay_ships, empty_delivery), yard_world) ((quay_ships, yard_open), yard_world)"
    by (rule sail_delivery [OF step_container [OF run_pair [OF yard_open_def]]])
  moreover have "del_service yard (yard_open, yard_world) (fst yard_loaded, snd yard_loaded)" using step_add [OF run_pair [OF yard_loaded_def]] by simp
  then have "sail_step yard ((quay_ships, yard_open), yard_world) ((quay_ships, fst yard_loaded), snd yard_loaded)" by (rule sail_delivery)
  moreover have "sail_step yard ((quay_ships, fst yard_loaded), snd yard_loaded) (quay_booked, snd yard_loaded)"
    by (rule sail_book [OF run_pair [OF quay_booked_def]])
  ultimately show ?thesis by (blast intro: reach_step)
qed

theorem sealed_before_cutoff_witness: "\<exists>v. vessel_row 40 (fst quay_booked) = Some v \<and> now (desk_env 7) \<le> vs_CutoffDate v"
proof -
  let ?run = "Seal yard (desk_env 7) yard_seal (snd quay_booked, snd yard_loaded)"
  obtain c where "fst ?run = Inr c" using quay_runs(1) by (cases "fst ?run") auto
  then have "?run = (Inr c, (fst (snd ?run), snd (snd ?run)))" by (metis prod.collapse)
  from sealed_before_cutoff [OF _ this, of "fst quay_booked"] quay_reach quay_runs(2) show ?thesis by (auto simp: yard_seal_def split: option.splits)
qed

text \<open>
  The other direction fails: changing the destination clears the vessel of the container and leaves its booking, which still
  names the vessel and its cut-off, and the container is sealed long after it.
\<close>

definition quay_rerouted :: delivery_db where
  "quay_rerouted = snd (ChangeDestination (drefs yard (snd yard_loaded)) (desk_env 8) (quay_move ''B'')
     (snd (ChangeDestination (drefs yard (snd yard_loaded)) (desk_env 7) (quay_move ''A'') (snd quay_booked))))"

lemma rerouted_container_sealed_late:
  "map_sum id bk_CutoffDate (GetContainerBooking 50 (fst quay_booked)) = Inr 100"
  "map_option ctn_VesselID (container_row 50 quay_rerouted) = Some None"
  "\<not> isl (fst (Seal yard (desk_env 500) yard_seal (quay_rerouted, snd yard_loaded)))"
  by code_simp+

end
