(* ===== verification/Catalog.thy ===== *)
theory Catalog
  imports Packing_Service Production_Service Sales_Service Delivery_Store
begin

text \<open>
  The catalogue: \<^verbatim>\<open>internal/module/catalog\<close> with migrations 00001, 00016, 00040, 00041, 00060, 00062 and 00072, and the adapters
  of \<^verbatim>\<open>cmd/server/main.go\<close> through which the other modules read it. A row of a bill of materials has an identifier of its own and an owner,
  which is a SKU in one table and a variant in the other. \<open>coll\<close> ranks texts the way the collation of the database orders them. The listings
  \<^verbatim>\<open>selectMaterials\<close> and \<^verbatim>\<open>selectSKUs\<close> are not called and are left out, as is the export of a workbook.
\<close>

section \<open>Rows\<close>

definition MaterialTypePlywood :: string where "MaterialTypePlywood = ''PLYWOOD''"
definition MaterialTypeGlue :: string where "MaterialTypeGlue = ''GLUE''"
definition MaterialTypeMetal :: string where "MaterialTypeMetal = ''METAL''"
definition MaterialTypeOther :: string where "MaterialTypeOther = ''OTHER''"

record Material =
  mt_ID :: uuid
  mt_Type :: string
  mt_Name :: string
  mt_Unit :: string
  mt_IsActive :: bool
  mt_MinRemnantLengthMM :: int
  mt_MinRemnantWidthMM :: int
  mt_CreatedAt :: time

record SKU =
  sku_ID :: uuid
  sku_Code :: string
  sku_Name :: string
  sku_Dimensions :: Dimension
  sku_RequiresMetal :: bool
  sku_IsActive :: bool
  sku_HeightMM :: "int option"
  sku_WeightKg :: "rat option"
  sku_HSCode :: "string option"
  sku_CbmPerUnit :: "rat option"
  sku_CreatedAt :: time

record SKUComponent =
  skc_ID :: uuid
  skc_SKUID :: uuid
  skc_ComponentType :: string
  skc_CbmPerUnit :: rat
  skc_SortOrder :: int
  skc_CreatedAt :: time

record PackingUnit =
  pku_SKUID :: uuid
  pku_Unit :: string
  pku_PiecesPerUnit :: int
  pku_IsDefault :: bool

record BOMComponent =
  bcm_MaterialID :: uuid
  bcm_MaterialType :: string
  bcm_QuantityPerUnit :: rat
  bcm_Unit :: string

record BOM =
  bl_SKUID :: uuid
  bl_Components :: "BOMComponent list"

record BOMVariant =
  bv_ID :: uuid
  bv_SKUID :: uuid
  bv_VariantCode :: string
  bv_Name :: string
  bv_IsDefault :: bool
  bv_CreatedAt :: time

record bill_row =
  bro_ID :: uuid
  bro_Owner :: uuid
  bro_Component :: BOMComponent

record cat_db =
  cat_materials :: "Material list"
  cat_skus :: "SKU list"
  cat_packing_units :: "PackingUnit list"
  cat_components :: "SKUComponent list"
  bom_components :: "bill_row list"
  bom_variants :: "BOMVariant list"
  bom_variant_components :: "bill_row list"

abbreviation mat_row :: "uuid \<Rightarrow> cat_db \<Rightarrow> Material option" where
  "mat_row i db \<equiv> row_by mt_ID i (cat_materials db)"

abbreviation sku_row :: "uuid \<Rightarrow> cat_db \<Rightarrow> SKU option" where
  "sku_row i db \<equiv> row_by sku_ID i (cat_skus db)"

section \<open>Statements on materials and SKUs\<close>

definition policy_check :: "int \<Rightarrow> int \<Rightarrow> error option" where
  "policy_check l w =
     (if \<not> in_int4 l \<or> \<not> in_int4 w then Some (Pg NumericOutOfRange)
      else if l < 0 \<or> w < 0 then Some (Pg CheckViolation)
      else None)"

definition insertMaterial :: "Material \<Rightarrow> (cat_db, unit) op" where
  "insertMaterial m db =
     (case insert_checked (\<lambda>m. policy_check (mt_MinRemnantLengthMM m) (mt_MinRemnantWidthMM m)) mt_ID m (cat_materials db) of
        Inl e \<Rightarrow> (Inl e, db)
      | Inr t \<Rightarrow> (Inr (), db\<lparr>cat_materials := t\<rparr>))"

definition page_by :: "(string \<Rightarrow> int) \<Rightarrow> ('r \<Rightarrow> string) option \<Rightarrow> ('r \<Rightarrow> time) \<Rightarrow> PageParams \<Rightarrow> 'r list \<Rightarrow> 'r list" where
  "page_by coll col created p rows =
     (let key = (\<lambda>r. case col of Some f \<Rightarrow> coll (f r) | None \<Rightarrow> created r);
          sgn = (if Order p = ''desc'' then -1 else 1)
      in take (nat (Limit p)) (drop (nat (Offset p)) (sort_key (\<lambda>r. sgn * key r) rows)))"

definition selectMaterialsPaged :: "(string \<Rightarrow> int) \<Rightarrow> PageParams \<Rightarrow> cat_db \<Rightarrow> (Material list \<times> int) result" where
  "selectMaterialsPaged coll p db =
     (let col = (if SortBy p = ''name'' then Some mt_Name else if SortBy p = ''type'' then Some mt_Type
                 else if SortBy p = ''unit'' then Some mt_Unit else None);
          rows = select_where (\<lambda>m. mt_IsActive m \<and> ilike (mt_Name m) (''%'' @ Search p @ ''%'')) (cat_materials db)
      in Inr (page_by coll col mt_CreatedAt p rows, int (length rows)))"

definition selectMaterialByID :: "uuid \<Rightarrow> cat_db \<Rightarrow> Material result" where
  "selectMaterialByID i db = (case mat_row i db of None \<Rightarrow> Inl (Biz ErrNotFound) | Some m \<Rightarrow> Inr m)"

definition deactivateMaterial :: "uuid \<Rightarrow> (cat_db, unit) op" where
  "deactivateMaterial i db =
     (if mat_row i db = None then (Inl (Biz ErrNotFound), db)
      else (Inr (), db\<lparr>cat_materials := update_where (\<lambda>m. mt_ID m = i) (\<lambda>m. m\<lparr>mt_IsActive := False\<rparr>) (cat_materials db)\<rparr>))"

definition updateMinRemnantPolicy :: "uuid \<Rightarrow> int \<Rightarrow> int \<Rightarrow> (cat_db, Material) op" where
  "updateMinRemnantPolicy i l w db =
     (if \<not> in_int4 l \<or> \<not> in_int4 w then (Inl (Pg NumericOutOfRange), db)
      else (case mat_row i db of
              None \<Rightarrow> (Inl (Biz ErrNotFound), db)
            | Some m \<Rightarrow>
                if \<not> mt_IsActive m then (Inl (Biz ErrNotFound), db)
                else if l < 0 \<or> w < 0 then (Inl (Pg CheckViolation), db)
                else let set_policy = (\<lambda>m. m\<lparr>mt_MinRemnantLengthMM := l, mt_MinRemnantWidthMM := w\<rparr>)
                     in (Inr (set_policy m), db\<lparr>cat_materials := update_where (\<lambda>m. mt_ID m = i) set_policy (cat_materials db)\<rparr>)))"

definition insertSKU :: "SKU \<Rightarrow> (cat_db, unit) op" where
  "insertSKU s db =
     (case insert_checked (\<lambda>s. if \<not> dim_int4 (sku_Dimensions s) then Some (Pg NumericOutOfRange)
                               else if sku_Code s \<in> set (map sku_Code (cat_skus db)) then Some (Pg UniqueViolation) else None)
             sku_ID (s\<lparr>sku_HeightMM := None, sku_WeightKg := None, sku_HSCode := None, sku_CbmPerUnit := None\<rparr>) (cat_skus db) of
        Inl e \<Rightarrow> (Inl e, db)
      | Inr t \<Rightarrow> (Inr (), db\<lparr>cat_skus := t\<rparr>))"

text \<open>Decimals are read as the nearest floats.\<close>

definition scan_sku :: "SKU \<Rightarrow> SKU" where
  "scan_sku s = s\<lparr>sku_WeightKg := map_option fl (sku_WeightKg s), sku_CbmPerUnit := map_option fl (sku_CbmPerUnit s)\<rparr>"

definition selectSKUsPaged :: "(string \<Rightarrow> int) \<Rightarrow> PageParams \<Rightarrow> cat_db \<Rightarrow> (SKU list \<times> int) result" where
  "selectSKUsPaged coll p db =
     (let pat = ''%'' @ Search p @ ''%'';
          col = (if SortBy p = ''name'' then Some sku_Name else if SortBy p = ''code'' then Some sku_Code else None);
          rows = select_where (\<lambda>s. sku_IsActive s \<and> (ilike (sku_Name s) pat \<or> ilike (sku_Code s) pat)) (cat_skus db)
      in Inr (map scan_sku (page_by coll col sku_CreatedAt p rows), int (length rows)))"

definition selectSKUByID :: "uuid \<Rightarrow> cat_db \<Rightarrow> SKU result" where
  "selectSKUByID i db = (case sku_row i db of None \<Rightarrow> Inl (Biz ErrNotFound) | Some s \<Rightarrow> Inr (scan_sku s))"

record UpdateSKUInput =
  us_SKUID :: uuid
  us_HeightMM :: "int option"
  us_WeightKg :: "rat option"
  us_HSCode :: "string option"

text \<open>The generated column \<^verbatim>\<open>cbm_per_unit NUMERIC(8,4)\<close>: cubic metres from millimetres, where all three are positive.\<close>

definition generated_cbm :: "Dimension \<Rightarrow> int option \<Rightarrow> rat option result" where
  "generated_cbm d height =
     (case height of
        None \<Rightarrow> Inr None
      | Some h \<Rightarrow>
          if \<not> Valid d \<or> h \<le> 0 then Inr None
          else let c = round_half_away (of_int (LengthMM d * WidthMM d * h) / 1000000000 * 10 ^ 4)
               in if c < 10 ^ 8 then Inr (Some (of_int c / 10 ^ 4)) else Inl (Pg NumericOutOfRange))"

definition weight_column :: "rat option \<Rightarrow> rat option \<Rightarrow> rat option result" where
  "weight_column new_weight old = (case new_weight of None \<Rightarrow> Inr old | Some w \<Rightarrow> map_sum id Some (numeric_col 10 3 w))"

definition updateSKUExportFields :: "UpdateSKUInput \<Rightarrow> (cat_db, SKU) op" where
  "updateSKUExportFields inp db =
     (if \<not> (case us_HeightMM inp of None \<Rightarrow> True | Some h \<Rightarrow> in_int4 h) then (Inl (Pg NumericOutOfRange), db)
      else (case sku_row (us_SKUID inp) db of
              None \<Rightarrow> (Inl (Biz ErrNotFound), db)
            | Some s \<Rightarrow>
                if \<not> sku_IsActive s then (Inl (Biz ErrNotFound), db)
                else (case weight_column (us_WeightKg inp) (sku_WeightKg s) of
                        Inl e \<Rightarrow> (Inl e, db)
                      | Inr wt \<Rightarrow>
                          (case generated_cbm (sku_Dimensions s) (coalesce (us_HeightMM inp) (sku_HeightMM s)) of
                             Inl e \<Rightarrow> (Inl e, db)
                           | Inr cbm \<Rightarrow>
                               let s' = s\<lparr>sku_HeightMM := coalesce (us_HeightMM inp) (sku_HeightMM s), sku_WeightKg := wt,
                                          sku_HSCode := coalesce (us_HSCode inp) (sku_HSCode s), sku_CbmPerUnit := cbm\<rparr>
                               in (Inr (scan_sku s'), db\<lparr>cat_skus := update_where (\<lambda>r. sku_ID r = us_SKUID inp) (\<lambda>_. s') (cat_skus db)\<rparr>)))))"

definition deactivateSKU :: "uuid \<Rightarrow> (cat_db, unit) op" where
  "deactivateSKU i db =
     (if sku_row i db = None then (Inl (Biz ErrNotFound), db)
      else (Inr (), db\<lparr>cat_skus := update_where (\<lambda>s. sku_ID s = i) (\<lambda>s. s\<lparr>sku_IsActive := False\<rparr>) (cat_skus db)\<rparr>))"

section \<open>Statements on packing units and components\<close>

record UpsertPackingUnitInput =
  upu_SKUID :: uuid
  upu_Unit :: string
  upu_PiecesPerUnit :: int
  upu_IsDefault :: bool

definition is_unit :: "uuid \<Rightarrow> string \<Rightarrow> PackingUnit \<Rightarrow> bool" where
  "is_unit i u pu \<longleftrightarrow> pku_SKUID pu = i \<and> pku_Unit pu = u"

definition clear_default :: "uuid \<Rightarrow> PackingUnit list \<Rightarrow> PackingUnit list" where
  "clear_default i = update_where (\<lambda>pu. pku_SKUID pu = i \<and> pku_IsDefault pu) (\<lambda>pu. pu\<lparr>pku_IsDefault := False\<rparr>)"

definition upsertPackingUnit :: "UpsertPackingUnitInput \<Rightarrow> (cat_db, PackingUnit) op" where
  "upsertPackingUnit inp db =
     (let i = upu_SKUID inp;
          pu = \<lparr>pku_SKUID = i, pku_Unit = upu_Unit inp, pku_PiecesPerUnit = upu_PiecesPerUnit inp, pku_IsDefault = upu_IsDefault inp\<rparr>;
          cleared = (if upu_IsDefault inp then clear_default i (cat_packing_units db) else cat_packing_units db)
      in if \<not> in_int4 (pku_PiecesPerUnit pu) then (Inl (Pg NumericOutOfRange), db)
         else if pku_Unit pu \<notin> {''piece'', ''set'', ''carton''} \<or> pku_PiecesPerUnit pu < 1 then (Inl (Pg CheckViolation), db)
         else if list_ex (is_unit i (upu_Unit inp)) cleared
         then (Inr pu, db\<lparr>cat_packing_units := update_where (is_unit i (upu_Unit inp)) (\<lambda>_. pu) cleared\<rparr>)
         else if sku_row i db = None then (Inl (Pg ForeignKeyViolation), db)
         else (Inr pu, db\<lparr>cat_packing_units := cleared @ [pu]\<rparr>))"

text \<open>\<^verbatim>\<open>ORDER BY is_default DESC, unit ASC\<close>; the three unit names are lower case, so every collation orders them alike.\<close>

fun unit_rank :: "string \<Rightarrow> int" where
  "unit_rank u = (if u = ''carton'' then 0 else if u = ''piece'' then 1 else 2)"

definition selectPackingUnitsBySkuID :: "uuid \<Rightarrow> cat_db \<Rightarrow> PackingUnit list result" where
  "selectPackingUnitsBySkuID i db =
     Inr (sort_key (\<lambda>pu. (if pku_IsDefault pu then 0 else 1 :: int, unit_rank (pku_Unit pu))) (select_where (\<lambda>pu. pku_SKUID pu = i) (cat_packing_units db)))"

definition deletePackingUnit :: "uuid \<Rightarrow> string \<Rightarrow> (cat_db, unit) op" where
  "deletePackingUnit i u db =
     (if \<not> list_ex (is_unit i u) (cat_packing_units db) then (Inl (Biz ErrNotFound), db)
      else (Inr (), db\<lparr>cat_packing_units := delete_where (is_unit i u) (cat_packing_units db)\<rparr>))"

record UpsertSKUComponentInput =
  usc_SKUID :: uuid
  usc_ComponentType :: string
  usc_CbmPerUnit :: rat
  usc_SortOrder :: int

definition is_component :: "uuid \<Rightarrow> string \<Rightarrow> SKUComponent \<Rightarrow> bool" where
  "is_component i t c \<longleftrightarrow> skc_SKUID c = i \<and> skc_ComponentType c = t"

definition scan_component :: "SKUComponent \<Rightarrow> SKUComponent" where
  "scan_component c = c\<lparr>skc_CbmPerUnit := fl (skc_CbmPerUnit c)\<rparr>"

definition upsertSKUComponent :: "env \<Rightarrow> UpsertSKUComponentInput \<Rightarrow> (cat_db, SKUComponent) op" where
  "upsertSKUComponent env inp db =
     (let i = usc_SKUID inp; t = usc_ComponentType inp in
      if \<not> in_int4 (usc_SortOrder inp) then (Inl (Pg NumericOutOfRange), db)
      else (case numeric_col 8 4 (usc_CbmPerUnit inp) of
              Inl e \<Rightarrow> (Inl e, db)
            | Inr cbm \<Rightarrow>
                (case find (is_component i t) (cat_components db) of
                   Some old \<Rightarrow>
                     let put = (\<lambda>c. c\<lparr>skc_CbmPerUnit := cbm, skc_SortOrder := usc_SortOrder inp\<rparr>)
                     in (Inr (scan_component (put old)), db\<lparr>cat_components := update_where (is_component i t) put (cat_components db)\<rparr>)
                 | None \<Rightarrow>
                     let c = \<lparr>skc_ID = fresh env 0, skc_SKUID = i, skc_ComponentType = t, skc_CbmPerUnit = cbm, skc_SortOrder = usc_SortOrder inp,
                              skc_CreatedAt = now env\<rparr>
                     in (case insert_checked (\<lambda>c. if sku_row (skc_SKUID c) db = None then Some (Pg ForeignKeyViolation) else None) skc_ID c (cat_components db) of
                           Inl e \<Rightarrow> (Inl e, db)
                         | Inr cs \<Rightarrow> (Inr (scan_component c), db\<lparr>cat_components := cs\<rparr>)))))"

definition selectSKUComponentsBySkuID :: "uuid \<Rightarrow> cat_db \<Rightarrow> SKUComponent list result" where
  "selectSKUComponentsBySkuID i db =
     Inr (map scan_component (sort_key (\<lambda>c. (skc_SortOrder c, skc_CreatedAt c)) (select_where (\<lambda>c. skc_SKUID c = i) (cat_components db))))"

definition deleteSKUComponent :: "uuid \<Rightarrow> string \<Rightarrow> (cat_db, unit) op" where
  "deleteSKUComponent i t db =
     (if \<not> list_ex (is_component i t) (cat_components db) then (Inl (Biz ErrNotFound), db)
      else (Inr (), db\<lparr>cat_components := delete_where (is_component i t) (cat_components db)\<rparr>))"

section \<open>Statements on bills of materials\<close>

text \<open>
  The identifiers are the database's, from number \<open>n\<close> on. The quantity is a \<^verbatim>\<open>NUMERIC\<close> without bounds: what is stored is the
  shortest decimal that names the float.
\<close>

fun new_bom_rows :: "env \<Rightarrow> nat \<Rightarrow> uuid \<Rightarrow> BOMComponent list \<Rightarrow> bill_row list" where
  "new_bom_rows env n owner [] = []"
| "new_bom_rows env n owner (c # cs) =
     \<lparr>bro_ID = fresh env n, bro_Owner = owner, bro_Component = c\<lparr>bcm_QuantityPerUnit := shortest (bcm_QuantityPerUnit c)\<rparr>\<rparr> # new_bom_rows env (Suc n) owner cs"

definition check_bom_row :: "uuid list \<Rightarrow> cat_db \<Rightarrow> bill_row \<Rightarrow> error option" where
  "check_bom_row owners db r =
     (if bro_Owner r \<notin> set owners \<or> bcm_MaterialID (bro_Component r) \<notin> mt_ID ` set (cat_materials db) then Some (Pg ForeignKeyViolation) else None)"

definition scan_bom :: "bill_row list \<Rightarrow> BOMComponent list" where
  "scan_bom rows = map (\<lambda>r. (bro_Component r)\<lparr>bcm_QuantityPerUnit := fl (bcm_QuantityPerUnit (bro_Component r))\<rparr>) rows"

definition upsertBOM :: "env \<Rightarrow> uuid \<Rightarrow> BOMComponent list \<Rightarrow> (cat_db, unit) op" where
  "upsertBOM env i cs db =
     (case insert_batch (check_bom_row (map sku_ID (cat_skus db)) db) bro_ID (new_bom_rows env 0 i cs) (delete_where (\<lambda>r. bro_Owner r = i) (bom_components db)) of
        Inl e \<Rightarrow> (Inl e, db)
      | Inr t \<Rightarrow> (Inr (), db\<lparr>bom_components := t\<rparr>))"

definition selectBOMBySKU :: "uuid \<Rightarrow> cat_db \<Rightarrow> BOM result" where
  "selectBOMBySKU i db =
     (case sku_row i db of
        None \<Rightarrow> Inl (Biz ErrNotFound)
      | Some _ \<Rightarrow> Inr \<lparr>bl_SKUID = i, bl_Components = scan_bom (select_where (\<lambda>r. bro_Owner r = i) (bom_components db))\<rparr>)"

definition insertBOMVariant :: "env \<Rightarrow> BOMVariant \<Rightarrow> BOMComponent list \<Rightarrow> (cat_db, unit) op" where
  "insertBOMVariant env v cs db =
     (case insert_checked (\<lambda>v. if list_ex (\<lambda>r. bv_SKUID r = bv_SKUID v \<and> bv_VariantCode r = bv_VariantCode v) (bom_variants db) then Some (Pg UniqueViolation)
                               else if sku_row (bv_SKUID v) db = None then Some (Pg ForeignKeyViolation) else None) bv_ID v (bom_variants db) of
        Inl e \<Rightarrow> (Inl e, db)
      | Inr vs \<Rightarrow>
          (case insert_batch (check_bom_row (map bv_ID vs) db) bro_ID (new_bom_rows env 1 (bv_ID v) cs) (bom_variant_components db) of
             Inl e \<Rightarrow> (Inl e, db)
           | Inr t \<Rightarrow> (Inr (), db\<lparr>bom_variants := vs, bom_variant_components := t\<rparr>)))"

definition selectBOMVariantsBySkuID :: "uuid \<Rightarrow> cat_db \<Rightarrow> BOMVariant list result" where
  "selectBOMVariantsBySkuID i db =
     Inr (sort_key (\<lambda>v. (if bv_IsDefault v then 0 else 1 :: int, bv_CreatedAt v)) (select_where (\<lambda>v. bv_SKUID v = i) (bom_variants db)))"

definition selectBOMVariantByCode :: "uuid \<Rightarrow> string \<Rightarrow> cat_db \<Rightarrow> BOMVariant result" where
  "selectBOMVariantByCode i code db =
     (case find (\<lambda>v. bv_SKUID v = i \<and> bv_VariantCode v = code) (bom_variants db) of None \<Rightarrow> Inl (Biz ErrNotFound) | Some v \<Rightarrow> Inr v)"

definition selectBOMComponentsByVariantID :: "uuid \<Rightarrow> cat_db \<Rightarrow> BOMComponent list result" where
  "selectBOMComponentsByVariantID v db = Inr (scan_bom (select_where (\<lambda>r. bro_Owner r = v) (bom_variant_components db)))"

section \<open>The service: materials\<close>

definition validMaterialType :: "string \<Rightarrow> bool" where
  "validMaterialType t \<longleftrightarrow> t \<in> {MaterialTypePlywood, MaterialTypeGlue, MaterialTypeMetal, MaterialTypeOther}"

record CreateMaterialInput =
  cmt_Type :: string
  cmt_Name :: string
  cmt_Unit :: string

definition CreateMaterial :: "env \<Rightarrow> CreateMaterialInput \<Rightarrow> (cat_db, Material) op" where
  "CreateMaterial env inp db =
     (if cmt_Name inp = [] then (Inl (Biz ErrInvalidInput), db)
      else if \<not> validMaterialType (cmt_Type inp) then (Inl (Biz ErrInvalidInput), db)
      else if cmt_Unit inp = [] then (Inl (Biz ErrInvalidInput), db)
      else let m = \<lparr>mt_ID = fresh env 0, mt_Type = cmt_Type inp, mt_Name = cmt_Name inp, mt_Unit = cmt_Unit inp, mt_IsActive = True,
                    mt_MinRemnantLengthMM = 0, mt_MinRemnantWidthMM = 0, mt_CreatedAt = now env\<rparr>
           in (case insertMaterial m db of (Inl e, db1) \<Rightarrow> (Inl e, db1) | (Inr _, db1) \<Rightarrow> (Inr m, db1)))"

definition ListMaterials :: "(string \<Rightarrow> int) \<Rightarrow> PageParams \<Rightarrow> cat_db \<Rightarrow> Material PagedResult result" where
  "ListMaterials coll p db = (case selectMaterialsPaged coll p db of Inl e \<Rightarrow> Inl e | Inr (ms, n) \<Rightarrow> Inr (NewPagedResult ms n p))"

definition GetMaterial :: "uuid \<Rightarrow> cat_db \<Rightarrow> Material result" where
  "GetMaterial i db = selectMaterialByID i db"

definition DeactivateMaterial :: "uuid \<Rightarrow> (cat_db, unit) op" where
  "DeactivateMaterial i db = deactivateMaterial i db"

record UpdateMinRemnantPolicyInput =
  ump_MaterialID :: uuid
  ump_MinRemnantLengthMM :: int
  ump_MinRemnantWidthMM :: int
  ump_ActorID :: uuid

record MinRemnantPolicyChange =
  mpc_MaterialID :: uuid
  mpc_ActorID :: uuid
  mpc_PrevLengthMM :: int
  mpc_PrevWidthMM :: int
  mpc_NewLengthMM :: int
  mpc_NewWidthMM :: int

text \<open>A failure of the audit is only logged.\<close>

definition log_policy :: "(MinRemnantPolicyChange \<Rightarrow> ('x, unit) op) option \<Rightarrow> MinRemnantPolicyChange \<Rightarrow> 'x \<Rightarrow> 'x" where
  "log_policy logger ch x = (case logger of None \<Rightarrow> x | Some f \<Rightarrow> snd (f ch x))"

definition UpdateMinRemnantPolicy ::
  "(MinRemnantPolicyChange \<Rightarrow> ('x, unit) op) option \<Rightarrow> UpdateMinRemnantPolicyInput \<Rightarrow> (cat_db \<times> 'x, Material) op" where
  "UpdateMinRemnantPolicy logger inp st =
     (let (db, x) = st in
      if ump_MinRemnantLengthMM inp < 0 \<or> ump_MinRemnantWidthMM inp < 0 then (Inl (Biz ErrInvalidInput), st)
      else (case selectMaterialByID (ump_MaterialID inp) db of
              Inl e \<Rightarrow> (Inl e, st)
            | Inr prev \<Rightarrow>
                if \<not> mt_IsActive prev then (Inl (Biz ErrNotFound), st)
                else (case updateMinRemnantPolicy (ump_MaterialID inp) (ump_MinRemnantLengthMM inp) (ump_MinRemnantWidthMM inp) db of
                        (Inl e, db1) \<Rightarrow> (Inl e, (db1, x))
                      | (Inr m, db1) \<Rightarrow>
                          (Inr m, (db1, log_policy logger \<lparr>mpc_MaterialID = mt_ID m, mpc_ActorID = ump_ActorID inp,
                             mpc_PrevLengthMM = mt_MinRemnantLengthMM prev, mpc_PrevWidthMM = mt_MinRemnantWidthMM prev,
                             mpc_NewLengthMM = mt_MinRemnantLengthMM m, mpc_NewWidthMM = mt_MinRemnantWidthMM m\<rparr> x)))))"

section \<open>The service: SKUs\<close>

record CreateSKUInput =
  csi_Code :: string
  csi_Name :: string
  csi_Dimensions :: Dimension
  csi_RequiresMetal :: bool

definition CreateSKU :: "env \<Rightarrow> CreateSKUInput \<Rightarrow> (cat_db, SKU) op" where
  "CreateSKU env inp db =
     (if csi_Code inp = [] then (Inl (Biz ErrInvalidInput), db)
      else if \<not> Valid (csi_Dimensions inp) then (Inl (Biz ErrInvalidInput), db)
      else let s = \<lparr>sku_ID = fresh env 0, sku_Code = csi_Code inp, sku_Name = csi_Name inp, sku_Dimensions = csi_Dimensions inp,
                    sku_RequiresMetal = csi_RequiresMetal inp, sku_IsActive = True, sku_HeightMM = None, sku_WeightKg = None, sku_HSCode = None,
                    sku_CbmPerUnit = None, sku_CreatedAt = now env\<rparr>
           in (case insertSKU s db of (Inl e, db1) \<Rightarrow> (Inl e, db1) | (Inr _, db1) \<Rightarrow> (Inr s, db1)))"

definition ListSKUs :: "(string \<Rightarrow> int) \<Rightarrow> PageParams \<Rightarrow> cat_db \<Rightarrow> SKU PagedResult result" where
  "ListSKUs coll p db = (case selectSKUsPaged coll p db of Inl e \<Rightarrow> Inl e | Inr (ss, n) \<Rightarrow> Inr (NewPagedResult ss n p))"

definition GetSKU :: "uuid \<Rightarrow> cat_db \<Rightarrow> SKU result" where
  "GetSKU i db = selectSKUByID i db"

definition DeactivateSKU :: "uuid \<Rightarrow> (cat_db, unit) op" where
  "DeactivateSKU i db = deactivateSKU i db"

definition hsCodeRe :: "string \<Rightarrow> bool" where
  "hsCodeRe code \<longleftrightarrow> 6 \<le> length code \<and> length code \<le> 10 \<and> list_all (\<lambda>c. 48 \<le> (of_char c :: nat) \<and> (of_char c :: nat) \<le> 57) code"

definition UpdateSKU :: "UpdateSKUInput \<Rightarrow> (cat_db, SKU) op" where
  "UpdateSKU inp db =
     (if us_SKUID inp = uuid_Nil then (Inl (Biz ErrInvalidInput), db)
      else if (case us_HSCode inp of None \<Rightarrow> False | Some code \<Rightarrow> code \<noteq> [] \<and> \<not> hsCodeRe code) then (Inl (Biz ErrInvalidInput), db)
      else if (case us_HeightMM inp of None \<Rightarrow> False | Some h \<Rightarrow> h < 0) then (Inl (Biz ErrInvalidInput), db)
      else if (case us_WeightKg inp of None \<Rightarrow> False | Some w \<Rightarrow> w < 0) then (Inl (Biz ErrInvalidInput), db)
      else updateSKUExportFields inp db)"

definition UpsertPackingUnit :: "UpsertPackingUnitInput \<Rightarrow> (cat_db, PackingUnit) op" where
  "UpsertPackingUnit inp db =
     (if upu_SKUID inp = uuid_Nil then (Inl (Biz ErrInvalidInput), db)
      else if upu_Unit inp \<notin> {''piece'', ''set'', ''carton''} then (Inl (Biz ErrInvalidInput), db)
      else if upu_PiecesPerUnit inp < 1 then (Inl (Biz ErrInvalidInput), db)
      else (case selectSKUByID (upu_SKUID inp) db of Inl e \<Rightarrow> (Inl e, db) | Inr _ \<Rightarrow> upsertPackingUnit inp db))"

definition ListPackingUnits :: "uuid \<Rightarrow> cat_db \<Rightarrow> PackingUnit list result" where
  "ListPackingUnits i db = (case selectSKUByID i db of Inl e \<Rightarrow> Inl e | Inr _ \<Rightarrow> selectPackingUnitsBySkuID i db)"

definition DeletePackingUnit :: "uuid \<Rightarrow> string \<Rightarrow> (cat_db, unit) op" where
  "DeletePackingUnit i u db = deletePackingUnit i u db"

definition UpsertSKUComponent :: "env \<Rightarrow> UpsertSKUComponentInput \<Rightarrow> (cat_db, SKUComponent) op" where
  "UpsertSKUComponent env inp db =
     (if usc_SKUID inp = uuid_Nil then (Inl (Biz ErrInvalidInput), db)
      else if usc_ComponentType inp = [] then (Inl (Biz ErrInvalidInput), db)
      else if usc_CbmPerUnit inp < 0 then (Inl (Biz ErrInvalidInput), db)
      else (case selectSKUByID (usc_SKUID inp) db of Inl e \<Rightarrow> (Inl e, db) | Inr _ \<Rightarrow> upsertSKUComponent env inp db))"

definition ListSKUComponents :: "uuid \<Rightarrow> cat_db \<Rightarrow> SKUComponent list result" where
  "ListSKUComponents i db = (case selectSKUByID i db of Inl e \<Rightarrow> Inl e | Inr _ \<Rightarrow> selectSKUComponentsBySkuID i db)"

definition DeleteSKUComponent :: "uuid \<Rightarrow> string \<Rightarrow> (cat_db, unit) op" where
  "DeleteSKUComponent i t db = deleteSKUComponent i t db"

section \<open>The service: bills of materials\<close>

fun check_components :: "BOMComponent list \<Rightarrow> cat_db \<Rightarrow> unit result" where
  "check_components [] db = Inr ()"
| "check_components (c # cs) db =
     (if \<not> validMaterialType (bcm_MaterialType c) then Inl (Biz ErrInvalidInput)
      else if bcm_QuantityPerUnit c \<le> 0 then Inl (Biz ErrInvalidInput)
      else (case selectMaterialByID (bcm_MaterialID c) db of Inl e \<Rightarrow> Inl e | Inr _ \<Rightarrow> check_components cs db))"

definition SetBOM :: "env \<Rightarrow> BOM \<Rightarrow> (cat_db, BOM) op" where
  "SetBOM env inp db =
     (case selectSKUByID (bl_SKUID inp) db of
        Inl e \<Rightarrow> (Inl e, db)
      | Inr _ \<Rightarrow>
          (case check_components (bl_Components inp) db of
             Inl e \<Rightarrow> (Inl e, db)
           | Inr _ \<Rightarrow>
               (case upsertBOM env (bl_SKUID inp) (bl_Components inp) db of (Inl e, db1) \<Rightarrow> (Inl e, db1) | (Inr _, db1) \<Rightarrow> (Inr inp, db1))))"

definition GetBOM :: "uuid \<Rightarrow> cat_db \<Rightarrow> BOM result" where
  "GetBOM i db = selectBOMBySKU i db"

definition defaultVariantCode :: string where
  "defaultVariantCode = ''DEFAULT''"

record CreateBOMVariantInput =
  cbv_SKUID :: uuid
  cbv_VariantCode :: string
  cbv_Name :: string
  cbv_Components :: "BOMComponent list"

definition CreateBOMVariant :: "env \<Rightarrow> CreateBOMVariantInput \<Rightarrow> (cat_db, BOMVariant) op" where
  "CreateBOMVariant env inp db =
     (if cbv_VariantCode inp = [] then (Inl (Biz ErrInvalidInput), db)
      else if cbv_VariantCode inp = defaultVariantCode then (Inl (Biz ErrInvalidInput), db)
      else if cbv_Name inp = [] then (Inl (Biz ErrInvalidInput), db)
      else (case selectSKUByID (cbv_SKUID inp) db of
              Inl e \<Rightarrow> (Inl e, db)
            | Inr _ \<Rightarrow>
                (case check_components (cbv_Components inp) db of
                   Inl e \<Rightarrow> (Inl e, db)
                 | Inr _ \<Rightarrow>
                     let v = \<lparr>bv_ID = fresh env 0, bv_SKUID = cbv_SKUID inp, bv_VariantCode = cbv_VariantCode inp, bv_Name = cbv_Name inp,
                              bv_IsDefault = False, bv_CreatedAt = now env\<rparr>
                     in (case insertBOMVariant env v (cbv_Components inp) db of (Inl e, db1) \<Rightarrow> (Inl e, db1) | (Inr _, db1) \<Rightarrow> (Inr v, db1)))))"

definition ListBOMVariants :: "uuid \<Rightarrow> cat_db \<Rightarrow> BOMVariant list result" where
  "ListBOMVariants i db = (case selectSKUByID i db of Inl e \<Rightarrow> Inl e | Inr _ \<Rightarrow> selectBOMVariantsBySkuID i db)"

definition GetBOMForVariant :: "uuid \<Rightarrow> string \<Rightarrow> cat_db \<Rightarrow> BOM result" where
  "GetBOMForVariant i variantCode db =
     (case selectSKUByID i db of
        Inl e \<Rightarrow> Inl e
      | Inr _ \<Rightarrow>
          let code = (if variantCode = [] then defaultVariantCode else variantCode) in
          (case selectBOMVariantByCode i code db of
             Inl e \<Rightarrow> (if e = Biz ErrNotFound then (if variantCode = [] then selectBOMBySKU i db else Inl (Biz ErrNotFound)) else Inl e)
           | Inr v \<Rightarrow> map_sum id (\<lambda>cs. \<lparr>bl_SKUID = i, bl_Components = cs\<rparr>) (selectBOMComponentsByVariantID (bv_ID v) db)))"

section \<open>What the other modules read\<close>

definition skuAdapter :: "uuid \<Rightarrow> cat_db \<Rightarrow> SKUInfo result" where
  "skuAdapter i db =
     map_sum id (\<lambda>s. \<lparr>ki_ID = sku_ID s, ki_RequiresMetal = sku_RequiresMetal s, ki_Dimensions = sku_Dimensions s\<rparr>) (GetSKU i db)"

definition bomReaderAdapter :: "uuid \<Rightarrow> cat_db \<Rightarrow> uuid list result" where
  "bomReaderAdapter i db =
     map_sum id (\<lambda>b. map bcm_MaterialID (filter (\<lambda>c. bcm_MaterialType c = MaterialTypePlywood) (bl_Components b))) (GetBOMForVariant i [] db)"

definition salesSKUAdapter :: "uuid \<Rightarrow> cat_db \<Rightarrow> SalesSKUInfo result" where
  "salesSKUAdapter i db =
     map_sum id (\<lambda>s. \<lparr>ssi_HeightMM = sku_HeightMM s, ssi_WeightKg = sku_WeightKg s, ssi_HSCode = sku_HSCode s\<rparr>) (GetSKU i db)"

definition packingSKUComponentResolverAdapter :: "uuid \<Rightarrow> cat_db \<Rightarrow> SKUComponentInfo list result" where
  "packingSKUComponentResolverAdapter i db =
     map_sum id (map (\<lambda>c. \<lparr>sc_ComponentType = skc_ComponentType c, sc_CbmPerUnit = skc_CbmPerUnit c, sc_SortOrder = skc_SortOrder c\<rparr>))
       (ListSKUComponents i db)"

text \<open>The rows of the audit log that the catalogue writes, which no other module reads: an identifier, the change and its time.\<close>

record policy_audit =
  pa_ID :: uuid
  pa_Change :: MinRemnantPolicyChange
  pa_CreatedAt :: time

definition catalogPolicyAuditAdapter :: "env \<Rightarrow> MinRemnantPolicyChange \<Rightarrow> (policy_audit list, unit) op" where
  "catalogPolicyAuditAdapter env ch rows =
     (case insert_row pa_ID \<lparr>pa_ID = fresh env 0, pa_Change = ch, pa_CreatedAt = now env\<rparr> rows of Inl e \<Rightarrow> (Inl e, rows) | Inr t \<Rightarrow> (Inr (), t))"

end
