(* ===== verification/Catalog_Props.thy ===== *)
theory Catalog_Props
  imports Catalog
begin

text \<open>
  The catalogue keeps its rows unique and its references alive, and has at most one default packing unit per SKU. A bill of materials
  is read back as it was set, except through a variant that has the reserved code.
\<close>

section \<open>The invariant\<close>

definition one_default :: "PackingUnit list \<Rightarrow> bool" where
  "one_default t \<longleftrightarrow> (\<forall>p \<in> set t. \<forall>q \<in> set t. pku_IsDefault p \<and> pku_IsDefault q \<and> pku_SKUID p = pku_SKUID q \<longrightarrow> p = q)"

definition units_ok :: "uuid set \<Rightarrow> PackingUnit list \<Rightarrow> bool" where
  "units_ok skus t \<longleftrightarrow> distinct (map (\<lambda>p. (pku_SKUID p, pku_Unit p)) t) \<and> one_default t \<and>
     (\<forall>p \<in> set t. 1 \<le> pku_PiecesPerUnit p \<and> in_int4 (pku_PiecesPerUnit p) \<and> pku_SKUID p \<in> skus)"

definition bills_ok :: "uuid set \<Rightarrow> uuid set \<Rightarrow> bill_row list \<Rightarrow> bool" where
  "bills_ok owners mats t \<longleftrightarrow> keys_distinct bro_ID t \<and> (\<forall>r \<in> set t. bro_Owner r \<in> owners \<and> bcm_MaterialID (bro_Component r) \<in> mats)"

definition catalog_ok :: "cat_db \<Rightarrow> bool" where
  "catalog_ok db \<longleftrightarrow>
     (let mats = mt_ID ` set (cat_materials db); skus = sku_ID ` set (cat_skus db); vars = bv_ID ` set (bom_variants db) in
      keys_distinct mt_ID (cat_materials db) \<and> (\<forall>m \<in> set (cat_materials db). 0 \<le> mt_MinRemnantLengthMM m \<and> 0 \<le> mt_MinRemnantWidthMM m) \<and>
      keys_distinct sku_ID (cat_skus db) \<and> distinct (map sku_Code (cat_skus db)) \<and> (\<forall>s \<in> set (cat_skus db). Valid (sku_Dimensions s)) \<and>
      units_ok skus (cat_packing_units db) \<and>
      keys_distinct skc_ID (cat_components db) \<and> distinct (map (\<lambda>c. (skc_SKUID c, skc_ComponentType c)) (cat_components db)) \<and>
      (\<forall>c \<in> set (cat_components db). skc_SKUID c \<in> skus) \<and>
      bills_ok skus mats (bom_components db) \<and>
      keys_distinct bv_ID (bom_variants db) \<and> distinct (map (\<lambda>v. (bv_SKUID v, bv_VariantCode v)) (bom_variants db)) \<and>
      (\<forall>v \<in> set (bom_variants db). bv_SKUID v \<in> skus) \<and>
      bills_ok vars mats (bom_variant_components db))"

text \<open>The start: the tables as the migrations leave them when there was no bill of materials before them.\<close>

definition empty_catalog :: cat_db where
  "empty_catalog = \<lparr>cat_materials = [], cat_skus = [], cat_packing_units = [], cat_components = [], bom_components = [], bom_variants = [],
     bom_variant_components = []\<rparr>"

inductive cat_step :: "cat_db \<Rightarrow> cat_db \<Rightarrow> bool" where
  create_material: "CreateMaterial env mi db = (rm, db') \<Longrightarrow> cat_step db db'"
| deactivate_material: "DeactivateMaterial i db = (ru, db') \<Longrightarrow> cat_step db db'"
| policy: "UpdateMinRemnantPolicy (Some (catalogPolicyAuditAdapter env)) pin (db, x) = (rm, (db', x')) \<Longrightarrow> cat_step db db'"
| create_sku: "CreateSKU env ki db = (rs, db') \<Longrightarrow> cat_step db db'"
| deactivate_sku: "DeactivateSKU i db = (ru, db') \<Longrightarrow> cat_step db db'"
| update_sku: "UpdateSKU ui db = (rs, db') \<Longrightarrow> cat_step db db'"
| upsert_unit: "UpsertPackingUnit pui db = (rp, db') \<Longrightarrow> cat_step db db'"
| delete_unit: "DeletePackingUnit i u db = (ru, db') \<Longrightarrow> cat_step db db'"
| upsert_component: "UpsertSKUComponent env ci db = (rc, db') \<Longrightarrow> cat_step db db'"
| delete_component: "DeleteSKUComponent i u db = (ru, db') \<Longrightarrow> cat_step db db'"
| set_bom: "SetBOM env b db = (rb, db') \<Longrightarrow> cat_step db db'"
| create_variant: "CreateBOMVariant env vi db = (rv, db') \<Longrightarrow> cat_step db db'"

lemmas catalog_ok_defs = catalog_ok_def Let_def

lemma map_update_same: "(\<And>r. f (g r) = f r) \<Longrightarrow> map f (update_where P g t) = map f t"
  by (auto simp: update_where_def)

text \<open>An update that keeps the identifiers keeps every reference.\<close>

lemma catalog_ok_materials:
  assumes "catalog_ok db" and "map mt_ID t = map mt_ID (cat_materials db)" and "\<forall>m \<in> set t. 0 \<le> mt_MinRemnantLengthMM m \<and> 0 \<le> mt_MinRemnantWidthMM m"
  shows "catalog_ok (db\<lparr>cat_materials := t\<rparr>)"
proof -
  have "mt_ID ` set t = mt_ID ` set (cat_materials db)" using assms(2) by (metis list.set_map)
  then show ?thesis using assms by (simp add: catalog_ok_defs)
qed

lemma catalog_ok_skus:
  assumes "catalog_ok db" and "map sku_ID t = map sku_ID (cat_skus db)" and "map sku_Code t = map sku_Code (cat_skus db)"
    and "\<forall>s \<in> set t. Valid (sku_Dimensions s)"
  shows "catalog_ok (db\<lparr>cat_skus := t\<rparr>)"
proof -
  have "sku_ID ` set t = sku_ID ` set (cat_skus db)" using assms(2) by (metis list.set_map)
  then show ?thesis using assms by (simp add: catalog_ok_defs)
qed

lemma catalog_ok_rows:
  assumes "catalog_ok db"
  shows "\<forall>m \<in> set (cat_materials db). 0 \<le> mt_MinRemnantLengthMM m \<and> 0 \<le> mt_MinRemnantWidthMM m" "\<forall>s \<in> set (cat_skus db). Valid (sku_Dimensions s)"
    "keys_distinct sku_ID (cat_skus db)"
  using assms by (simp_all add: catalog_ok_defs)

section \<open>Each operation keeps it\<close>

lemma CreateMaterial_ok: "CreateMaterial env inp db = (r, db') \<Longrightarrow> catalog_ok db \<Longrightarrow> catalog_ok db'"
  by (auto simp: CreateMaterial_def insertMaterial_def catalog_ok_defs bills_ok_def split: if_splits sum.splits)

lemma DeactivateMaterial_ok: "DeactivateMaterial i db = (r, db') \<Longrightarrow> catalog_ok db \<Longrightarrow> catalog_ok db'"
  using catalog_ok_rows(1) [of db]
  by (auto simp: DeactivateMaterial_def deactivateMaterial_def map_update_same set_update_where split: if_splits intro!: catalog_ok_materials)

lemma updateMinRemnantPolicy_ok: "updateMinRemnantPolicy i l w db = (r, db') \<Longrightarrow> catalog_ok db \<Longrightarrow> catalog_ok db'"
  using catalog_ok_rows(1) [of db]
  by (auto simp: updateMinRemnantPolicy_def map_update_same set_update_where split: if_splits option.splits intro!: catalog_ok_materials)

lemma UpdateMinRemnantPolicy_ok: "UpdateMinRemnantPolicy logger inp (db, x) = (r, (db', x')) \<Longrightarrow> catalog_ok db \<Longrightarrow> catalog_ok db'"
  by (auto simp: UpdateMinRemnantPolicy_def split: if_splits sum.splits prod.splits dest: updateMinRemnantPolicy_ok)

lemma CreateSKU_ok: "CreateSKU env inp db = (r, db') \<Longrightarrow> catalog_ok db \<Longrightarrow> catalog_ok db'"
  by (auto simp: CreateSKU_def insertSKU_def catalog_ok_defs bills_ok_def units_ok_def split: if_splits sum.splits)

lemma DeactivateSKU_ok: "DeactivateSKU i db = (r, db') \<Longrightarrow> catalog_ok db \<Longrightarrow> catalog_ok db'"
  using catalog_ok_rows(2) [of db]
  by (auto simp: DeactivateSKU_def deactivateSKU_def map_update_same set_update_where split: if_splits intro!: catalog_ok_skus)

text \<open>The updated SKU keeps identifier, code and dimensions.\<close>

lemma updateSKUExportFields_view:
  assumes "updateSKUExportFields inp db = (r, db')" and "db' \<noteq> db"
  shows "\<exists>s h w c k. sku_row (us_SKUID inp) db = Some s \<and>
    db' = db\<lparr>cat_skus := update_where (\<lambda>r. sku_ID r = us_SKUID inp) (\<lambda>_. s\<lparr>sku_HeightMM := h, sku_WeightKg := w, sku_HSCode := c, sku_CbmPerUnit := k\<rparr>) (cat_skus db)\<rparr>"
proof (cases "sku_row (us_SKUID inp) db")
  case (Some s)
  obtain w where w: "weight_column (us_WeightKg inp) (sku_WeightKg s) = Inr w"
    using assms Some by (cases "weight_column (us_WeightKg inp) (sku_WeightKg s)") (auto simp: updateSKUExportFields_def split: if_splits)
  obtain k where k: "generated_cbm (sku_Dimensions s) (coalesce (us_HeightMM inp) (sku_HeightMM s)) = Inr k"
    using assms Some w by (cases "generated_cbm (sku_Dimensions s) (coalesce (us_HeightMM inp) (sku_HeightMM s))") (auto simp: updateSKUExportFields_def split: if_splits)
  have "db' = db\<lparr>cat_skus := update_where (\<lambda>r. sku_ID r = us_SKUID inp) (\<lambda>_. s\<lparr>sku_HeightMM := coalesce (us_HeightMM inp) (sku_HeightMM s), sku_WeightKg := w,
      sku_HSCode := coalesce (us_HSCode inp) (sku_HSCode s), sku_CbmPerUnit := k\<rparr>) (cat_skus db)\<rparr>"
    using assms by (simp add: updateSKUExportFields_def Some w k Let_def split: if_splits)
  then show ?thesis using Some by blast
qed (use assms in \<open>simp add: updateSKUExportFields_def split: if_splits\<close>)

lemma UpdateSKU_ok:
  assumes "UpdateSKU inp db = (r, db')" and ok: "catalog_ok db"
  shows "catalog_ok db'"
proof (cases "db' = db")
  case False
  let ?P = "\<lambda>r. sku_ID r = us_SKUID inp"
  have "updateSKUExportFields inp db = (r, db')" using assms(1) False by (simp add: UpdateSKU_def split: if_splits)
  from updateSKUExportFields_view [OF this False] obtain s h w c k where s: "sku_row (us_SKUID inp) db = Some s"
    and upd: "db' = db\<lparr>cat_skus := update_where ?P (\<lambda>_. s\<lparr>sku_HeightMM := h, sku_WeightKg := w, sku_HSCode := c, sku_CbmPerUnit := k\<rparr>) (cat_skus db)\<rparr>" by blast
  define s' where "s' = s\<lparr>sku_HeightMM := h, sku_WeightKg := w, sku_HSCode := c, sku_CbmPerUnit := k\<rparr>"
  have s': "sku_ID s' = sku_ID s" "sku_Code s' = sku_Code s" "sku_Dimensions s' = sku_Dimensions s" by (simp_all add: s'_def)
  note db' = upd [folded s'_def]
  have only: "?P x \<longleftrightarrow> x = s" if "x \<in> set (cat_skus db)" for x
    by (rule row_by_only [OF catalog_ok_rows(3) [OF ok] s that])
  have ids: "map sku_ID (update_where ?P (\<lambda>_. s') (cat_skus db)) = map sku_ID (cat_skus db)"
    and codes: "map sku_Code (update_where ?P (\<lambda>_. s') (cat_skus db)) = map sku_Code (cat_skus db)"
    using only s' by (auto simp: update_where_def)
  have "Valid (sku_Dimensions x)" if "x \<in> set (update_where ?P (\<lambda>_. s') (cat_skus db))" for x
    using that catalog_ok_rows(2) [OF ok] s' row_by_SomeD [OF s] by (auto simp: set_update_where split: if_splits)
  then show ?thesis unfolding db' by (intro catalog_ok_skus [OF ok ids codes]) blast
qed (use ok in simp)

text \<open>A new default comes after the old one of the SKU was cleared.\<close>

lemma clear_default_ok:
  assumes "units_ok skus t"
  shows "units_ok skus (clear_default i t)" and "\<forall>p \<in> set (clear_default i t). pku_SKUID p = i \<longrightarrow> \<not> pku_IsDefault p"
proof -
  have keys: "map (\<lambda>p. (pku_SKUID p, pku_Unit p)) (clear_default i t) = map (\<lambda>p. (pku_SKUID p, pku_Unit p)) t"
    unfolding clear_default_def by (rule map_update_same) simp
  have set: "p \<in> set (clear_default i t) \<Longrightarrow> \<exists>q \<in> set t. p = q \<and> (pku_SKUID q = i \<longrightarrow> \<not> pku_IsDefault q) \<or> p = q\<lparr>pku_IsDefault := False\<rparr>" for p
    by (auto simp: clear_default_def set_update_where split: if_splits)
  show "\<forall>p \<in> set (clear_default i t). pku_SKUID p = i \<longrightarrow> \<not> pku_IsDefault p" by (auto dest!: set)
  have "one_default (clear_default i t)" unfolding one_default_def
  proof (intro ballI impI)
    fix p q assume pq: "p \<in> set (clear_default i t)" "q \<in> set (clear_default i t)" "pku_IsDefault p \<and> pku_IsDefault q \<and> pku_SKUID p = pku_SKUID q"
    then have "p \<in> set t" "q \<in> set t" using set [of p] set [of q] by auto
    then show "p = q" using assms pq(3) by (simp add: units_ok_def one_default_def)
  qed
  moreover have "1 \<le> pku_PiecesPerUnit p \<and> in_int4 (pku_PiecesPerUnit p) \<and> pku_SKUID p \<in> skus" if "p \<in> set (clear_default i t)" for p
    using set [OF that] assms by (auto simp: units_ok_def)
  ultimately show "units_ok skus (clear_default i t)" using assms keys by (simp add: units_ok_def)
qed

lemma units_ok_put:
  assumes "units_ok skus t" and "dflt \<longrightarrow> (\<forall>p \<in> set t. pku_SKUID p = pku_SKUID pu \<longrightarrow> \<not> pku_IsDefault p)"
    and "pku_IsDefault pu = dflt" and "1 \<le> pku_PiecesPerUnit pu" "in_int4 (pku_PiecesPerUnit pu)" "pku_SKUID pu \<in> skus"
  shows "list_ex (is_unit (pku_SKUID pu) (pku_Unit pu)) t \<Longrightarrow> units_ok skus (update_where (is_unit (pku_SKUID pu) (pku_Unit pu)) (\<lambda>_. pu) t)"
    and "\<not> list_ex (is_unit (pku_SKUID pu) (pku_Unit pu)) t \<Longrightarrow> units_ok skus (t @ [pu])"
proof -
  let ?P = "is_unit (pku_SKUID pu) (pku_Unit pu)"
  have "map (\<lambda>p. (pku_SKUID p, pku_Unit p)) (update_where ?P (\<lambda>_. pu) t) = map (\<lambda>p. (pku_SKUID p, pku_Unit p)) t"
    by (auto simp: update_where_def is_unit_def)
  moreover have "one_default (update_where ?P (\<lambda>_. pu) t)"
    using assms(1-3) unfolding one_default_def units_ok_def set_update_where by (auto split: if_splits)
  ultimately show "units_ok skus (update_where ?P (\<lambda>_. pu) t)"
    using assms by (auto simp: units_ok_def set_update_where)
  show "units_ok skus (t @ [pu])" if new: "\<not> list_ex ?P t"
  proof -
    have "one_default (t @ [pu])" using assms(1-3) by (auto simp: one_default_def units_ok_def)
    then show ?thesis using assms new by (auto simp: units_ok_def list_ex_iff is_unit_def)
  qed
qed

lemma UpsertPackingUnit_ok:
  assumes "UpsertPackingUnit inp db = (r, db')" and ok: "catalog_ok db"
  shows "catalog_ok db'"
proof (cases "db' = db")
  case False
  let ?pu = "\<lparr>pku_SKUID = upu_SKUID inp, pku_Unit = upu_Unit inp, pku_PiecesPerUnit = upu_PiecesPerUnit inp, pku_IsDefault = upu_IsDefault inp\<rparr>"
  let ?t = "if upu_IsDefault inp then clear_default (upu_SKUID inp) (cat_packing_units db) else cat_packing_units db"
  let ?P = "is_unit (upu_SKUID inp) (upu_Unit inp)"
  let ?u = "if list_ex ?P ?t then update_where ?P (\<lambda>_. ?pu) ?t else ?t @ [?pu]"
  have call: "upsertPackingUnit inp db = (r, db')" and s: "sku_row (upu_SKUID inp) db \<noteq> None" and n: "1 \<le> upu_PiecesPerUnit inp"
    using assms(1) False by (auto simp: UpsertPackingUnit_def selectSKUByID_def split: if_splits option.splits)
  have db': "db' = db\<lparr>cat_packing_units := ?u\<rparr>" and i4: "in_int4 (upu_PiecesPerUnit inp)"
    using call False by (auto simp: upsertPackingUnit_def Let_def split: if_splits)
  have units: "units_ok (sku_ID ` set (cat_skus db)) (cat_packing_units db)" using ok by (simp add: catalog_ok_defs)
  have t: "units_ok (sku_ID ` set (cat_skus db)) ?t" "upu_IsDefault inp \<longrightarrow> (\<forall>p \<in> set ?t. pku_SKUID p = pku_SKUID ?pu \<longrightarrow> \<not> pku_IsDefault p)"
    using clear_default_ok [OF units, of "upu_SKUID inp"] units by auto
  have "upu_SKUID inp \<in> sku_ID ` set (cat_skus db)" using s row_by_None_iff by metis
  then have "units_ok (sku_ID ` set (cat_skus db)) ?u"
    using units_ok_put [OF t(1,2)] n i4 by simp
  then show ?thesis using ok by (simp add: catalog_ok_defs db')
qed (use ok in simp)

lemma DeletePackingUnit_ok: "DeletePackingUnit i u db = (r, db') \<Longrightarrow> catalog_ok db \<Longrightarrow> catalog_ok db'"
  by (auto simp: DeletePackingUnit_def deletePackingUnit_def catalog_ok_defs units_ok_def one_default_def delete_where_def distinct_map_filter split: if_splits)

lemma UpsertSKUComponent_ok:
  assumes "UpsertSKUComponent env inp db = (r, db')" and ok: "catalog_ok db"
  shows "catalog_ok db'"
proof (cases "db' = db")
  case False
  let ?P = "is_component (usc_SKUID inp) (usc_ComponentType inp)"
  have call: "upsertSKUComponent env inp db = (r, db')" and s: "sku_row (usc_SKUID inp) db \<noteq> None"
    using assms(1) False by (auto simp: UpsertSKUComponent_def selectSKUByID_def split: if_splits option.splits)
  from s have sku: "usc_SKUID inp \<in> sku_ID ` set (cat_skus db)" using row_by_None_iff by metis
  show ?thesis
  proof (cases "find ?P (cat_components db)")
    case None
    then have "(usc_SKUID inp, usc_ComponentType inp) \<notin> (\<lambda>c. (skc_SKUID c, skc_ComponentType c)) ` set (cat_components db)"
      by (auto simp: find_None_iff is_component_def)
    then show ?thesis using call None False ok sku by (auto simp: upsertSKUComponent_def Let_def catalog_ok_defs split: if_splits sum.splits)
  next
    case (Some old)
    then show ?thesis using call False ok
      by (auto simp: upsertSKUComponent_def Let_def catalog_ok_defs map_update_same set_update_where split: if_splits sum.splits)
  qed
qed (use ok in simp)

lemma DeleteSKUComponent_ok: "DeleteSKUComponent i t db = (r, db') \<Longrightarrow> catalog_ok db \<Longrightarrow> catalog_ok db'"
  by (auto simp: DeleteSKUComponent_def deleteSKUComponent_def catalog_ok_defs delete_where_def distinct_map_filter split: if_splits)

section \<open>Bills of materials\<close>

lemma new_bom_rows_owner: "r \<in> set (new_bom_rows env n i cs) \<Longrightarrow> bro_Owner r = i"
  by (induction cs arbitrary: n) auto

lemma scan_new_bom_rows:
  "\<forall>c \<in> set cs. fl (bcm_QuantityPerUnit c) = bcm_QuantityPerUnit c \<Longrightarrow> scan_bom (new_bom_rows env n i cs) = cs"
  by (induction cs arbitrary: n) (auto simp: scan_bom_def shortest_fl)

lemma insert_batch_bills:
  "insert_batch (check_bom_row owners db) bro_ID rows t = Inr t' \<Longrightarrow> bills_ok (set owners) (mt_ID ` set (cat_materials db)) t \<Longrightarrow>
   t' = t @ rows \<and> bills_ok (set owners) (mt_ID ` set (cat_materials db)) t'"
proof (induction rows arbitrary: t)
  case (Cons r rows)
  then have r: "check_bom_row owners db r = None" "bro_ID r \<notin> bro_ID ` set t" "insert_batch (check_bom_row owners db) bro_ID rows (t @ [r]) = Inr t'"
    by (auto split: sum.splits)
  then have "bills_ok (set owners) (mt_ID ` set (cat_materials db)) (t @ [r])"
    using Cons.prems(2) by (auto simp: bills_ok_def check_bom_row_def split: if_splits)
  then show ?case using Cons.IH [OF r(3)] by auto
qed simp

lemma bills_ok_mono: "bills_ok owners mats t \<Longrightarrow> owners \<subseteq> owners' \<Longrightarrow> bills_ok owners' mats t"
  by (auto simp: bills_ok_def)

lemma SetBOM_view:
  assumes "SetBOM env b db = (r, db')" and "catalog_ok db"
  shows "db' = db \<and> isl r \<or> r = Inr b \<and> bl_SKUID b \<in> sku_ID ` set (cat_skus db) \<and>
    db' = db\<lparr>bom_components := delete_where (\<lambda>x. bro_Owner x = bl_SKUID b) (bom_components db) @ new_bom_rows env 0 (bl_SKUID b) (bl_Components b)\<rparr> \<and>
    bills_ok (sku_ID ` set (cat_skus db)) (mt_ID ` set (cat_materials db)) (bom_components db')"
proof -
  let ?old = "delete_where (\<lambda>x. bro_Owner x = bl_SKUID b) (bom_components db)"
  have old: "bills_ok (set (map sku_ID (cat_skus db))) (mt_ID ` set (cat_materials db)) ?old"
    using assms(2) by (auto simp: catalog_ok_defs bills_ok_def delete_where_def distinct_map_filter)
  consider "db' = db" "isl r" | t where "r = Inr b" "sku_row (bl_SKUID b) db \<noteq> None" "db' = db\<lparr>bom_components := t\<rparr>"
    "insert_batch (check_bom_row (map sku_ID (cat_skus db)) db) bro_ID (new_bom_rows env 0 (bl_SKUID b) (bl_Components b)) ?old = Inr t"
    using assms(1) by (auto simp: SetBOM_def upsertBOM_def selectSKUByID_def split: option.splits sum.splits)
  then show ?thesis
  proof cases
    case 2
    then have "bl_SKUID b \<in> sku_ID ` set (cat_skus db)" using row_by_None_iff by metis
    then show ?thesis using 2 insert_batch_bills [OF 2(4) old] by auto
  qed simp
qed

lemma SetBOM_ok: "SetBOM env b db = (r, db') \<Longrightarrow> catalog_ok db \<Longrightarrow> catalog_ok db'"
  using SetBOM_view [of env b db r db'] by (auto simp: catalog_ok_defs)

lemma CreateBOMVariant_ok:
  assumes "CreateBOMVariant env inp db = (r, db')" and ok: "catalog_ok db"
  shows "catalog_ok db'"
proof (cases "db' = db")
  case False
  let ?v = "\<lparr>bv_ID = fresh env 0, bv_SKUID = cbv_SKUID inp, bv_VariantCode = cbv_VariantCode inp, bv_Name = cbv_Name inp, bv_IsDefault = False,
    bv_CreatedAt = now env\<rparr>"
  obtain u where "insertBOMVariant env ?v (cbv_Components inp) db = (u, db')"
    using assms(1) False by (auto simp: CreateBOMVariant_def Let_def split: if_splits sum.splits prod.splits)
  then obtain t where db': "db' = db\<lparr>bom_variants := bom_variants db @ [?v], bom_variant_components := t\<rparr>"
    and row: "\<not> list_ex (\<lambda>x. bv_SKUID x = cbv_SKUID inp \<and> bv_VariantCode x = cbv_VariantCode inp) (bom_variants db)" "sku_row (cbv_SKUID inp) db \<noteq> None"
      "fresh env 0 \<notin> bv_ID ` set (bom_variants db)"
    and t: "insert_batch (check_bom_row (map bv_ID (bom_variants db @ [?v])) db) bro_ID (new_bom_rows env 1 (fresh env 0) (cbv_Components inp))
      (bom_variant_components db) = Inr t"
    using False by (auto simp: insertBOMVariant_def split: sum.splits if_splits)
  have "bills_ok (set (map bv_ID (bom_variants db @ [?v]))) (mt_ID ` set (cat_materials db)) (bom_variant_components db)"
    using ok by (auto simp: catalog_ok_defs intro: bills_ok_mono)
  with insert_batch_bills [OF t] have bills: "bills_ok (bv_ID ` set (bom_variants db')) (mt_ID ` set (cat_materials db)) t" by (auto simp: db')
  have "cbv_SKUID inp \<in> sku_ID ` set (cat_skus db)" using row(2) row_by_None_iff by metis
  then show ?thesis using ok row(1,3) bills by (auto simp: catalog_ok_defs db' list_ex_iff)
qed (use ok in simp)

lemmas catalog_ops_ok = CreateMaterial_ok DeactivateMaterial_ok UpdateMinRemnantPolicy_ok CreateSKU_ok DeactivateSKU_ok UpdateSKU_ok
  UpsertPackingUnit_ok DeletePackingUnit_ok UpsertSKUComponent_ok DeleteSKUComponent_ok SetBOM_ok CreateBOMVariant_ok

interpretation catalog: invariant "\<lambda>db. db = empty_catalog" cat_step catalog_ok
proof unfold_locales
  show "catalog_ok db" if "db = empty_catalog" for db
    by (simp add: that empty_catalog_def catalog_ok_defs units_ok_def one_default_def bills_ok_def)
  show "catalog_ok db'" if "catalog_ok db" "cat_step db db'" for db db'
    using that(2,1) by cases (auto dest: catalog_ops_ok)
qed

section \<open>What is set is what is read\<close>

text \<open>
  A bill of materials is read back with the same components in the same order, through \<^verbatim>\<open>GetBOM\<close> always and through the reading that production uses
  when the SKU has no variant \<^verbatim>\<open>DEFAULT\<close>; the bills of the other SKUs stay.
\<close>

lemma SetBOM_read:
  assumes "catalog_ok db" and "SetBOM env b db = (Inr b', db')" and "\<forall>c \<in> set (bl_Components b). fl (bcm_QuantityPerUnit c) = bcm_QuantityPerUnit c"
  shows "GetBOM (bl_SKUID b) db' = Inr b" and "j \<noteq> bl_SKUID b \<Longrightarrow> GetBOM j db' = GetBOM j db"
    and "isl (selectBOMVariantByCode (bl_SKUID b) defaultVariantCode db) \<Longrightarrow> GetBOMForVariant (bl_SKUID b) [] db' = Inr b"
proof -
  let ?rows = "new_bom_rows env 0 (bl_SKUID b) (bl_Components b)"
  have v: "bl_SKUID b \<in> sku_ID ` set (cat_skus db)" and db': "db' = db\<lparr>bom_components := delete_where (\<lambda>x. bro_Owner x = bl_SKUID b) (bom_components db) @ ?rows\<rparr>"
    using SetBOM_view [OF assms(2,1)] by auto
  have mine: "select_where (\<lambda>r. bro_Owner r = bl_SKUID b) (bom_components db') = ?rows"
    by (simp add: db' select_where_def delete_where_def filter_empty_conv filter_id_conv new_bom_rows_owner)
  have other: "select_where (\<lambda>r. bro_Owner r = j) (bom_components db') = select_where (\<lambda>r. bro_Owner r = j) (bom_components db)" if "j \<noteq> bl_SKUID b" for j
  proof -
    have "filter (\<lambda>r. bro_Owner r = j) ?rows = []" using that new_bom_rows_owner [of _ env 0 "bl_SKUID b" "bl_Components b"] by (auto simp: filter_empty_conv)
    moreover have "filter (\<lambda>r. bro_Owner r = j \<and> bro_Owner r \<noteq> bl_SKUID b) (bom_components db) = filter (\<lambda>r. bro_Owner r = j) (bom_components db)"
      using that by (intro filter_cong) auto
    ultimately show ?thesis by (simp add: db' select_where_def delete_where_def conj_commute)
  qed
  obtain s where s: "sku_row (bl_SKUID b) db' = Some s" using v row_by_None_iff [of sku_ID "bl_SKUID b" "cat_skus db"] by (auto simp: db')
  show get: "GetBOM (bl_SKUID b) db' = Inr b" by (simp add: GetBOM_def selectBOMBySKU_def s mine scan_new_bom_rows [OF assms(3)])
  show "GetBOM j db' = GetBOM j db" if "j \<noteq> bl_SKUID b" using other [OF that] by (simp add: GetBOM_def selectBOMBySKU_def db' split: option.splits)
  show "GetBOMForVariant (bl_SKUID b) [] db' = Inr b" if "isl (selectBOMVariantByCode (bl_SKUID b) defaultVariantCode db)"
    using that get s by (auto simp: GetBOMForVariant_def selectSKUByID_def selectBOMVariantByCode_def GetBOM_def db' split: option.splits)
qed

text \<open>
  Migration 00041 gave a variant \<^verbatim>\<open>DEFAULT\<close> to every SKU that had a bill of materials. No operation writes such a variant again, since the code is
  reserved, and setting the bill of such a SKU changes nothing of what production reads.
\<close>

lemma SetBOM_not_read_by_production:
  assumes "SetBOM env b db = (r, db')" and "catalog_ok db" and "\<not> isl (selectBOMVariantByCode i defaultVariantCode db)"
  shows "bomReaderAdapter i db' = bomReaderAdapter i db"
  using SetBOM_view [OF assms(1,2)] assms(3)
  by (auto simp: bomReaderAdapter_def GetBOMForVariant_def Let_def selectSKUByID_def selectBOMVariantByCode_def selectBOMComponentsByVariantID_def
    split: option.splits sum.splits)

lemma CreateBOMVariant_never_default:
  assumes "CreateBOMVariant env inp db = (r, db')"
  shows "selectBOMVariantByCode i defaultVariantCode db' = selectBOMVariantByCode i defaultVariantCode db"
proof (cases "db' = db")
  case False
  then obtain v where "bom_variants db' = bom_variants db @ [v]" "bv_VariantCode v \<noteq> defaultVariantCode"
    using assms by (auto simp: CreateBOMVariant_def insertBOMVariant_def Let_def split: if_splits sum.splits)
  moreover have "find P (xs @ [v]) = (case find P xs of None \<Rightarrow> if P v then Some v else None | Some y \<Rightarrow> Some y)" for P xs
    by (induction xs) auto
  ultimately show ?thesis by (simp add: selectBOMVariantByCode_def split: option.splits)
qed simp

text \<open>A packing unit written without the mark, or removed, can leave a SKU with units but no default.\<close>

lemma no_default_left:
  assumes "UpsertPackingUnit inp db = (Inr pu, db')" and "\<not> upu_IsDefault inp" and "\<forall>p \<in> set (cat_packing_units db). pku_SKUID p = upu_SKUID inp \<longrightarrow> is_unit (upu_SKUID inp) (upu_Unit inp) p"
  shows "pu \<in> set (cat_packing_units db') \<and> (\<forall>p \<in> set (cat_packing_units db'). pku_SKUID p = upu_SKUID inp \<longrightarrow> \<not> pku_IsDefault p)"
  using assms by (auto simp: UpsertPackingUnit_def upsertPackingUnit_def Let_def set_update_where list_ex_iff split: if_splits sum.splits)

end
