(* ===== verification/Customer_Orders.thy ===== *)
theory Customer_Orders
  imports Inventory_Listings
begin

text \<open>
  Customer purchase orders: \<^verbatim>\<open>internal/module/order\<close> with migrations 00002 and 00016. An order and its items are written in one
  transaction and never change afterwards, except that an order can be deactivated. The offset listing \<^verbatim>\<open>selectPOsPaged\<close> is not called and is left
  out. The SKUs, which the items refer to, are an argument. An order is found again as it was placed, and the
  listing is an instance of the keyset listing.
\<close>

section \<open>Rows and statements\<close>

record LineItem =
  oli_ID :: uuid
  oli_POID :: uuid
  oli_SKUID :: uuid
  oli_Quantity :: int
  oli_SellingPrice :: Money

record CustomerPO =
  cpo_ID :: uuid
  cpo_Code :: string
  cpo_ExpectedDelivery :: int
  cpo_IsActive :: bool
  cpo_CreatedAt :: time

record order_db =
  customer_pos :: "CustomerPO list"
  po_line_items :: "LineItem list"

text \<open>What a reader gets: the order, its items or their counts.\<close>

record PODetail =
  pod_PO :: CustomerPO
  pod_LineItems :: "LineItem list"

record POSummary =
  pos_PO :: CustomerPO
  pos_ItemCount :: int
  pos_TotalQuantity :: int
  pos_TotalSKUs :: int

abbreviation cpo_row :: "uuid \<Rightarrow> order_db \<Rightarrow> CustomerPO option" where
  "cpo_row i db \<equiv> row_by cpo_ID i (customer_pos db)"

definition check_cpo_item :: "uuid list \<Rightarrow> CustomerPO list \<Rightarrow> LineItem \<Rightarrow> error option" where
  "check_cpo_item skus pos it =
     (if \<not> in_int4 (oli_Quantity it) then Some (Pg NumericOutOfRange)
      else if oli_POID it \<notin> cpo_ID ` set pos \<or> oli_SKUID it \<notin> set skus then Some (Pg ForeignKeyViolation)
      else None)"

definition insertPOWithItems :: "uuid list \<Rightarrow> CustomerPO \<Rightarrow> LineItem list \<Rightarrow> (order_db, unit) op" where
  "insertPOWithItems skus p items db =
     (case insert_checked (\<lambda>p. if cpo_Code p \<in> cpo_Code ` set (customer_pos db) then Some (Pg UniqueViolation) else None) cpo_ID p (customer_pos db) of
        Inl e \<Rightarrow> (Inl e, db)
      | Inr pos \<Rightarrow>
          (case insert_batch (check_cpo_item skus pos) oli_ID items (po_line_items db) of
             Inl e \<Rightarrow> (Inl e, db)
           | Inr its \<Rightarrow> (Inr (), db\<lparr>customer_pos := pos, po_line_items := its\<rparr>)))"

record CustomerPOListFilter =
  cpf_Search :: string
  cpf_From :: "time option"
  cpf_To :: "time option"

definition cpo_matches :: "CustomerPOListFilter \<Rightarrow> CustomerPO \<Rightarrow> bool" where
  "cpo_matches f p \<longleftrightarrow>
     cpo_IsActive p \<and> ilike (cpo_Code p) (''%'' @ cpf_Search f @ ''%'') \<and>
     (case cpf_From f of None \<Rightarrow> True | Some t \<Rightarrow> cpo_CreatedAt p \<ge> t) \<and>
     (case cpf_To f of None \<Rightarrow> True | Some t \<Rightarrow> cpo_CreatedAt p < t)"

definition items_of :: "uuid \<Rightarrow> order_db \<Rightarrow> LineItem list" where
  "items_of i db = select_where (\<lambda>it. oli_POID it = i) (po_line_items db)"

definition po_summary :: "order_db \<Rightarrow> CustomerPO \<Rightarrow> POSummary" where
  "po_summary db p =
     (let its = items_of (cpo_ID p) db
      in \<lparr>pos_PO = p, pos_ItemCount = int (length its), pos_TotalQuantity = sum_list (map oli_Quantity its),
          pos_TotalSKUs = int (length (remdups (map oli_SKUID its)))\<rparr>)"

definition po_cursor :: "POSummary \<Rightarrow> Cursor" where
  "po_cursor s = \<lparr>Ts = cpo_CreatedAt (pos_PO s), CID = cpo_ID (pos_PO s)\<rparr>"

definition selectPOsKeyset :: "CustomerPOListFilter \<Rightarrow> Cursor \<Rightarrow> int \<Rightarrow> order_db \<Rightarrow> POSummary list result" where
  "selectPOsKeyset f cur limit db =
     Inr (keyset_page po_cursor (map (po_summary db) (select_where (cpo_matches f) (customer_pos db))) cur limit)"

definition selectCustomerPOByID :: "uuid \<Rightarrow> order_db \<Rightarrow> CustomerPO result" where
  "selectCustomerPOByID i db = (case cpo_row i db of None \<Rightarrow> Inl (Biz ErrNotFound) | Some p \<Rightarrow> Inr p)"

definition deactivatePO :: "uuid \<Rightarrow> (order_db, unit) op" where
  "deactivatePO i db =
     (if cpo_row i db = None then (Inl (Biz ErrNotFound), db)
      else (Inr (), db\<lparr>customer_pos := update_where (\<lambda>p. cpo_ID p = i) (\<lambda>p. p\<lparr>cpo_IsActive := False\<rparr>) (customer_pos db)\<rparr>))"

definition selectLineItemsByPO :: "uuid \<Rightarrow> order_db \<Rightarrow> LineItem list result" where
  "selectLineItemsByPO i db = Inr (sort_key oli_ID (items_of i db))"

definition selectLineItemsBySKU :: "uuid \<Rightarrow> order_db \<Rightarrow> LineItem list result" where
  "selectLineItemsBySKU s db = Inr (sort_key oli_ID (select_where (\<lambda>it. oli_SKUID it = s) (po_line_items db)))"

section \<open>The service\<close>

record CreateLineItemInput =
  cli_SKUID :: uuid
  cli_Quantity :: int
  cli_SellingPrice :: Money

record CreateCustomerPOInput =
  cpi_Code :: string
  cpi_ExpectedDelivery :: time
  cpi_LineItems :: "CreateLineItemInput list"

text \<open>The first identifier is the order's, the following ones are the items'. The delivery date is the day of an instant.\<close>

fun new_items :: "env \<Rightarrow> nat \<Rightarrow> CreateLineItemInput list \<Rightarrow> LineItem list" where
  "new_items env n [] = []"
| "new_items env n (li # lis) =
     \<lparr>oli_ID = fresh env n, oli_POID = fresh env 0, oli_SKUID = cli_SKUID li, oli_Quantity = cli_Quantity li, oli_SellingPrice = cli_SellingPrice li\<rparr> #
     new_items env (Suc n) lis"

definition CreateCustomerPO :: "uuid list \<Rightarrow> env \<Rightarrow> CreateCustomerPOInput \<Rightarrow> (order_db, PODetail) op" where
  "CreateCustomerPO skus env inp db =
     (if cpi_Code inp = [] then (Inl (Biz ErrInvalidInput), db)
      else if cpi_LineItems inp = [] then (Inl (Biz ErrInvalidInput), db)
      else if list_ex (\<lambda>li. cli_Quantity li \<le> 0) (cpi_LineItems inp) then (Inl (Biz ErrInvalidInput), db)
      else let p = \<lparr>cpo_ID = fresh env 0, cpo_Code = cpi_Code inp, cpo_ExpectedDelivery = cpi_ExpectedDelivery inp div day_micros, cpo_IsActive = True,
                    cpo_CreatedAt = now env\<rparr>;
               items = new_items env 1 (cpi_LineItems inp)
           in (case insertPOWithItems skus p items db of (Inl e, db1) \<Rightarrow> (Inl e, db1) | (Inr _, db1) \<Rightarrow> (Inr \<lparr>pod_PO = p, pod_LineItems = items\<rparr>, db1)))"

definition GetCustomerPO :: "uuid \<Rightarrow> order_db \<Rightarrow> PODetail result" where
  "GetCustomerPO i db =
     (case selectCustomerPOByID i db of
        Inl e \<Rightarrow> Inl e
      | Inr p \<Rightarrow> map_sum id (\<lambda>its. \<lparr>pod_PO = p, pod_LineItems = its\<rparr>) (selectLineItemsByPO i db))"

definition ListCustomerPOs :: "CursorParams \<Rightarrow> CustomerPOListFilter \<Rightarrow> order_db \<Rightarrow> POSummary CursorResult result" where
  "ListCustomerPOs p f db =
     (if (case (cpf_From f, cpf_To f) of (Some a, Some b) \<Rightarrow> \<not> a < b | _ \<Rightarrow> False) then Inl (Biz ErrInvalidInput)
      else (case Decoded p of
              Inl e \<Rightarrow> Inl (Biz ErrInvalidInput)
            | Inr cur \<Rightarrow>
                (case selectPOsKeyset f cur (CLimit p + 1) db of
                   Inl e \<Rightarrow> Inl e
                 | Inr rows \<Rightarrow> Inr (NewCursorResult rows (CLimit p) po_cursor))))"

definition DeactivatePO :: "uuid \<Rightarrow> (order_db, unit) op" where
  "DeactivatePO i db = deactivatePO i db"

definition GetLineItemsByPO :: "uuid \<Rightarrow> order_db \<Rightarrow> LineItem list result" where
  "GetLineItemsByPO i db = selectLineItemsByPO i db"

definition GetLineItemsBySKU :: "uuid \<Rightarrow> order_db \<Rightarrow> LineItem list result" where
  "GetLineItemsBySKU s db = selectLineItemsBySKU s db"

section \<open>Orders are found as they were placed\<close>

inductive order_step :: "uuid list \<Rightarrow> order_db \<Rightarrow> order_db \<Rightarrow> bool" for skus where
  "CreateCustomerPO skus env inp db = (r, db') \<Longrightarrow> order_step skus db db'"
| "DeactivatePO i db = (r', db') \<Longrightarrow> order_step skus db db'"

definition orders_ok :: "order_db \<Rightarrow> bool" where
  "orders_ok db \<longleftrightarrow> keys_distinct cpo_ID (customer_pos db) \<and> distinct (map cpo_Code (customer_pos db)) \<and> keys_distinct oli_ID (po_line_items db) \<and>
     (\<forall>it \<in> set (po_line_items db). oli_POID it \<in> cpo_ID ` set (customer_pos db) \<and> 0 < oli_Quantity it)"

lemma new_items_fields: "it \<in> set (new_items env n lis) \<Longrightarrow> oli_POID it = fresh env 0 \<and> oli_Quantity it \<in> cli_Quantity ` set lis"
  by (induction lis arbitrary: n) auto

lemma insert_items_keys:
  assumes "insert_batch chk k rs t = Inr t'" and "keys_distinct k t"
  shows "t' = t @ rs \<and> keys_distinct k (t @ rs)"
  using insert_batch_Inr [OF assms(1)] assms(2) by blast

lemma CreateCustomerPO_view:
  assumes "CreateCustomerPO skus env inp db = (Inr d, db')" and "orders_ok db"
  shows "customer_pos db' = customer_pos db @ [pod_PO d]" "po_line_items db' = po_line_items db @ pod_LineItems d"
    "cpo_ID (pod_PO d) \<notin> cpo_ID ` set (customer_pos db)" "cpo_Code (pod_PO d) \<notin> cpo_Code ` set (customer_pos db)"
    "\<And>it. it \<in> set (pod_LineItems d) \<Longrightarrow> oli_POID it = cpo_ID (pod_PO d) \<and> 0 < oli_Quantity it" "keys_distinct oli_ID (po_line_items db')"
proof -
  let ?items = "new_items env 1 (cpi_LineItems inp)"
  have ins: "insertPOWithItems skus (pod_PO d) ?items db = (Inr (), db')" and d: "pod_LineItems d = ?items" "cpo_ID (pod_PO d) = fresh env 0"
    and pos: "\<not> list_ex (\<lambda>li. cli_Quantity li \<le> 0) (cpi_LineItems inp)"
    using assms(1) by (auto simp: CreateCustomerPO_def Let_def split: if_splits prod.splits sum.splits)
  then show "customer_pos db' = customer_pos db @ [pod_PO d]" "cpo_ID (pod_PO d) \<notin> cpo_ID ` set (customer_pos db)"
    "cpo_Code (pod_PO d) \<notin> cpo_Code ` set (customer_pos db)"
    by (auto simp: insertPOWithItems_def split: sum.splits if_splits)
  have "po_line_items db' = po_line_items db @ ?items \<and> keys_distinct oli_ID (po_line_items db')"
    using ins assms(2) by (auto simp: insertPOWithItems_def orders_ok_def split: sum.splits dest!: insert_items_keys)
  then show "po_line_items db' = po_line_items db @ pod_LineItems d" "keys_distinct oli_ID (po_line_items db')" unfolding d(1) by blast+
  show "oli_POID it = cpo_ID (pod_PO d) \<and> 0 < oli_Quantity it" if "it \<in> set (pod_LineItems d)" for it
  proof -
    have "oli_POID it = fresh env 0" "oli_Quantity it \<in> cli_Quantity ` set (cpi_LineItems inp)" using new_items_fields that unfolding d(1) by blast+
    then show ?thesis using d(2) pos by (auto simp: list_ex_iff not_le)
  qed
qed

lemma CreateCustomerPO_error: "CreateCustomerPO skus env inp db = (Inl e, db') \<Longrightarrow> db' = db"
  by (auto simp: CreateCustomerPO_def insertPOWithItems_def Let_def split: if_splits sum.splits prod.splits)

interpretation orders: invariant "\<lambda>db. customer_pos db = [] \<and> po_line_items db = []" "order_step skus" orders_ok
proof unfold_locales
  show "orders_ok db" if "customer_pos db = [] \<and> po_line_items db = []" for db using that by (simp add: orders_ok_def)
  show "orders_ok db'" if ok: "orders_ok db" and step: "order_step skus db db'" for db db'
    using step
  proof cases
    case (1 env inp r)
    show ?thesis
    proof (cases r)
      case (Inr d)
      note v = CreateCustomerPO_view [OF 1 [unfolded Inr] ok]
      show ?thesis using ok v(1,3,4,6) v(5) by (auto simp: orders_ok_def v(2))
    qed (use 1 ok CreateCustomerPO_error in blast)
  next
    case (2 i r')
    show ?thesis
    proof (cases "db' = db")
      case False
      let ?t = "update_where (\<lambda>p. cpo_ID p = i) (\<lambda>p. p\<lparr>cpo_IsActive := False\<rparr>) (customer_pos db)"
      have db': "db' = db\<lparr>customer_pos := ?t\<rparr>" using 2 False by (auto simp: DeactivatePO_def deactivatePO_def split: if_splits)
      have keys: "map cpo_ID ?t = map cpo_ID (customer_pos db)" "map cpo_Code ?t = map cpo_Code (customer_pos db)" by (auto simp: update_where_def)
      then have "cpo_ID ` set ?t = cpo_ID ` set (customer_pos db)" by (metis list.set_map)
      then show ?thesis using ok keys by (simp add: orders_ok_def db')
    qed (use ok in simp)
  qed
qed

lemma placed_order_found:
  assumes "orders_ok db" and "CreateCustomerPO skus env inp db = (Inr d, db')"
  shows "GetCustomerPO (cpo_ID (pod_PO d)) db' = Inr (d\<lparr>pod_LineItems := sort_key oli_ID (pod_LineItems d)\<rparr>)"
proof -
  note v = CreateCustomerPO_view [OF assms(2,1)]
  have "filter (\<lambda>it. oli_POID it = cpo_ID (pod_PO d)) (po_line_items db) = []"
    using assms(1) v(3) unfolding orders_ok_def filter_empty_conv by metis
  moreover have "filter (\<lambda>it. oli_POID it = cpo_ID (pod_PO d)) (pod_LineItems d) = pod_LineItems d"
    using v(5) by (simp add: filter_id_conv)
  ultimately have "items_of (cpo_ID (pod_PO d)) db' = pod_LineItems d" by (simp add: items_of_def select_where_def v(2))
  moreover have "cpo_row (cpo_ID (pod_PO d)) db' = Some (pod_PO d)"
  proof -
    have "cpo_row (cpo_ID (pod_PO d)) db = None" using v(3) row_by_None_iff by metis
    then show ?thesis by (simp add: v(1))
  qed
  ultimately show ?thesis by (simp add: GetCustomerPO_def selectCustomerPOByID_def selectLineItemsByPO_def)
qed

text \<open>The listing of the active orders, page by page, is complete.\<close>

interpretation customer_orders: keyset_listing
  "\<lambda>db. map (po_summary db) (select_where (cpo_matches f) (customer_pos db))" po_cursor "\<lambda>db p. ListCustomerPOs p f db"
  "\<lambda>db. keys_distinct cpo_ID (customer_pos db) \<and> uuid_Nil \<notin> cpo_ID ` set (customer_pos db) \<and>
     \<not> (case (cpf_From f, cpf_To f) of (Some a, Some b) \<Rightarrow> \<not> a < b | _ \<Rightarrow> False)"
proof unfold_locales
  fix db :: order_db
  assume ok: "keys_distinct cpo_ID (customer_pos db) \<and> uuid_Nil \<notin> cpo_ID ` set (customer_pos db) \<and>
     \<not> (case (cpf_From f, cpf_To f) of (Some a, Some b) \<Rightarrow> \<not> a < b | _ \<Rightarrow> False)"
  show "ListCustomerPOs p f db = list_keyset po_cursor (map (po_summary db) (select_where (cpo_matches f) (customer_pos db))) p"
    if "Decoded p = Inr cur" for p cur
    using that ok by (simp add: ListCustomerPOs_def list_keyset_def selectPOsKeyset_def)
  have "cursor_key po_cursor (po_summary db q) = (cpo_CreatedAt q, cpo_ID q)" for q by (simp add: cursor_key_def po_cursor_def po_summary_def Let_def)
  then show "distinct (map (cursor_key po_cursor) (map (po_summary db) (select_where (cpo_matches f) (customer_pos db))))"
    using distinct_keyed_filter [of cpo_ID "customer_pos db" "\<lambda>q. \<lparr>Ts = cpo_CreatedAt q, CID = cpo_ID q\<rparr>" "cpo_matches f"] ok
    by (simp add: comp_def cursor_key_def [abs_def])
  show "\<not> IsZero (po_cursor s)" if "s \<in> set (map (po_summary db) (select_where (cpo_matches f) (customer_pos db)))" for s
  proof -
    from that obtain q where q: "q \<in> set (customer_pos db)" "s = po_summary db q" by (auto simp: select_where_def)
    then have "cpo_ID q \<noteq> uuid_Nil" using ok by (metis image_eqI)
    then show ?thesis by (simp add: IsZero_def po_cursor_def po_summary_def Let_def q(2))
  qed
qed

end
