(* ===== verification/Fx_Rates.thy ===== *)
theory Fx_Rates
  imports Delivery_Store Costing
begin

text \<open>
  Exchange rates: \<^verbatim>\<open>internal/module/fxrates\<close> with the table of its migration. A rate is given as a float, kept as a decimal with six
  places and read back as a float; the day of a rate is the \<^verbatim>\<open>DATE\<close> of an instant in UTC, counted from the zero time. A
  rate is found by the newest day that is not after the day asked for.
\<close>

section \<open>Rows and statements\<close>

record FXRate =
  fx_ID :: uuid
  fx_Currency :: string
  fx_RateToVND :: rat
  fx_EffectiveDate :: int
  fx_CreatedAt :: time

record fx_db =
  fx_rates :: "FXRate list"

record UpsertFXRateInput =
  ux_Currency :: string
  ux_RateToVND :: rat
  ux_EffectiveDate :: time

definition day_of :: "time \<Rightarrow> int" where
  "day_of t = t div day_micros"

definition same_day :: "string \<Rightarrow> int \<Rightarrow> FXRate \<Rightarrow> bool" where
  "same_day c d r \<longleftrightarrow> fx_Currency r = c \<and> fx_EffectiveDate r = d"

definition scan_rate :: "FXRate \<Rightarrow> FXRate" where
  "scan_rate r = r\<lparr>fx_RateToVND := fl (fx_RateToVND r)\<rparr>"

definition upsertFXRate :: "env \<Rightarrow> UpsertFXRateInput \<Rightarrow> (fx_db, FXRate) op" where
  "upsertFXRate env inp db =
     (let c = ux_Currency inp; d = day_of (ux_EffectiveDate inp) in
      case numeric_col 16 6 (ux_RateToVND inp) of
        Inl e \<Rightarrow> (Inl e, db)
      | Inr rate \<Rightarrow>
          if rate \<le> 0 \<or> c \<notin> {''USD'', ''EUR''} then (Inl (Pg CheckViolation), db)
          else (case find (same_day c d) (fx_rates db) of
                  Some old \<Rightarrow>
                    (Inr (scan_rate (old\<lparr>fx_RateToVND := rate\<rparr>)),
                     db\<lparr>fx_rates := update_where (same_day c d) (\<lambda>r. r\<lparr>fx_RateToVND := rate\<rparr>) (fx_rates db)\<rparr>)
                | None \<Rightarrow>
                    let row = \<lparr>fx_ID = fresh env 0, fx_Currency = c, fx_RateToVND = rate, fx_EffectiveDate = d, fx_CreatedAt = now env\<rparr> in
                    (case insert_row fx_ID row (fx_rates db) of Inl e \<Rightarrow> (Inl e, db) | Inr t \<Rightarrow> (Inr (scan_rate row), db\<lparr>fx_rates := t\<rparr>))))"

definition selectRateOnDate :: "string \<Rightarrow> time \<Rightarrow> fx_db \<Rightarrow> FXRate result" where
  "selectRateOnDate c t db =
     (case rev (sort_key fx_EffectiveDate (select_where (\<lambda>r. fx_Currency r = c \<and> fx_EffectiveDate r \<le> day_of t) (fx_rates db))) of
        [] \<Rightarrow> Inl (Biz ErrNotFound)
      | r # _ \<Rightarrow> Inr (scan_rate r))"

text \<open>\<^verbatim>\<open>ORDER BY effective_date DESC, currency ASC\<close>, of the two currencies.\<close>

definition currency_rank :: "string \<Rightarrow> int" where
  "currency_rank c = (if c = ''EUR'' then 0 else 1)"

definition selectRatesPaged :: "PageParams \<Rightarrow> string \<Rightarrow> fx_db \<Rightarrow> (FXRate list \<times> int) result" where
  "selectRatesPaged p c db =
     (let rows = select_where (\<lambda>r. c = [] \<or> fx_Currency r = c) (fx_rates db);
          ordered = sort_key (\<lambda>r. (- fx_EffectiveDate r, currency_rank (fx_Currency r))) rows
      in Inr (map scan_rate (take (nat (Limit p)) (drop (nat (Offset p)) ordered)), int (length rows)))"

definition deleteFXRate :: "uuid \<Rightarrow> (fx_db, unit) op" where
  "deleteFXRate i db =
     (if count_where (\<lambda>r. fx_ID r = i) (fx_rates db) = 0 then (Inl (Biz ErrNotFound), db)
      else (Inr (), db\<lparr>fx_rates := delete_where (\<lambda>r. fx_ID r = i) (fx_rates db)\<rparr>))"

section \<open>The service\<close>

definition UpsertRate :: "env \<Rightarrow> UpsertFXRateInput \<Rightarrow> (fx_db, FXRate) op" where
  "UpsertRate env inp db =
     (if ux_Currency inp = [] then (Inl (Biz ErrInvalidInput), db)
      else if ux_RateToVND inp \<le> 0 then (Inl (Biz ErrInvalidInput), db)
      else if ux_EffectiveDate inp = 0 then (Inl (Biz ErrInvalidInput), db)
      else upsertFXRate env inp db)"

definition GetRateOnDate :: "string \<Rightarrow> time \<Rightarrow> fx_db \<Rightarrow> FXRate result" where
  "GetRateOnDate c t db = (if c = [] then Inl (Biz ErrInvalidInput) else selectRateOnDate c t db)"

definition ListRates :: "PageParams \<Rightarrow> string \<Rightarrow> fx_db \<Rightarrow> FXRate PagedResult result" where
  "ListRates p c db = (case selectRatesPaged p c db of Inl e \<Rightarrow> Inl e | Inr (rows, n) \<Rightarrow> Inr (NewPagedResult rows n p))"

definition DeleteRate :: "uuid \<Rightarrow> (fx_db, unit) op" where
  "DeleteRate i db = (if i = uuid_Nil then (Inl (Biz ErrInvalidInput), db) else deleteFXRate i db)"

text \<open>What costing reads of it.\<close>

definition costingFXRateAdapter :: "string \<Rightarrow> time \<Rightarrow> fx_db \<Rightarrow> rat result" where
  "costingFXRateAdapter c t db = map_sum id fx_RateToVND (GetRateOnDate c t db)"

section \<open>The rate of a day\<close>

inductive fx_step :: "fx_db \<Rightarrow> fx_db \<Rightarrow> bool" where
  "UpsertRate env inp db = (r, db') \<Longrightarrow> fx_step db db'"
| "DeleteRate i db = (r', db') \<Longrightarrow> fx_step db db'"

definition fx_ok :: "fx_db \<Rightarrow> bool" where
  "fx_ok db \<longleftrightarrow> keys_distinct fx_ID (fx_rates db) \<and> distinct (map (\<lambda>r. (fx_Currency r, fx_EffectiveDate r)) (fx_rates db)) \<and>
     (\<forall>r \<in> set (fx_rates db). 0 < fx_RateToVND r \<and> fx_Currency r \<in> {''USD'', ''EUR''})"

lemma update_rate_keys:
  "map (\<lambda>r. (fx_Currency r, fx_EffectiveDate r)) (update_where P (\<lambda>r. r\<lparr>fx_RateToVND := v\<rparr>) t) = map (\<lambda>r. (fx_Currency r, fx_EffectiveDate r)) t"
  "map fx_ID (update_where P (\<lambda>r. r\<lparr>fx_RateToVND := v\<rparr>) t) = map fx_ID t"
  by (auto simp: update_where_def)

text \<open>What a successful entry writes.\<close>

abbreviation day_rate :: "UpsertFXRateInput \<Rightarrow> FXRate \<Rightarrow> bool" where
  "day_rate inp \<equiv> same_day (ux_Currency inp) (day_of (ux_EffectiveDate inp))"

lemma upsertFXRate_view:
  assumes "upsertFXRate env inp db = (r, db')" and "db' \<noteq> db \<or> \<not> isl r"
  shows "\<exists>v. numeric_col 16 6 (ux_RateToVND inp) = Inr v \<and> 0 < v \<and> ux_Currency inp \<in> {''USD'', ''EUR''} \<and>
    (case find (day_rate inp) (fx_rates db) of
       Some old \<Rightarrow> fx_rates db' = update_where (day_rate inp) (\<lambda>r. r\<lparr>fx_RateToVND := v\<rparr>) (fx_rates db)
     | None \<Rightarrow> fresh env 0 \<notin> fx_ID ` set (fx_rates db) \<and>
         fx_rates db' = fx_rates db @ [\<lparr>fx_ID = fresh env 0, fx_Currency = ux_Currency inp, fx_RateToVND = v, fx_EffectiveDate = day_of (ux_EffectiveDate inp),
           fx_CreatedAt = now env\<rparr>])"
proof (cases "numeric_col 16 6 (ux_RateToVND inp)")
  case (Inr v)
  have pos: "0 < v" "ux_Currency inp \<in> {''USD'', ''EUR''}" using assms Inr by (auto simp: upsertFXRate_def Let_def split: if_splits)
  then show ?thesis using assms Inr by (auto simp: upsertFXRate_def Let_def not_le [symmetric] split: option.splits sum.splits if_splits)
qed (use assms in \<open>auto simp: upsertFXRate_def Let_def\<close>)

lemma upsertFXRate_ok:
  assumes "fx_ok db" and "upsertFXRate env inp db = (r, db')"
  shows "fx_ok db'"
proof (cases "db' = db")
  case False
  from upsertFXRate_view [OF assms(2)] False obtain v where v: "0 < v" "ux_Currency inp \<in> {''USD'', ''EUR''}" and
    rows: "case find (day_rate inp) (fx_rates db) of
       Some old \<Rightarrow> fx_rates db' = update_where (day_rate inp) (\<lambda>r. r\<lparr>fx_RateToVND := v\<rparr>) (fx_rates db)
     | None \<Rightarrow> fresh env 0 \<notin> fx_ID ` set (fx_rates db) \<and>
         fx_rates db' = fx_rates db @ [\<lparr>fx_ID = fresh env 0, fx_Currency = ux_Currency inp, fx_RateToVND = v, fx_EffectiveDate = day_of (ux_EffectiveDate inp),
           fx_CreatedAt = now env\<rparr>]" by blast
  show ?thesis
  proof (cases "find (day_rate inp) (fx_rates db)")
    case None
    with rows have new: "fresh env 0 \<notin> fx_ID ` set (fx_rates db)" "fx_rates db' = fx_rates db @ [\<lparr>fx_ID = fresh env 0, fx_Currency = ux_Currency inp,
      fx_RateToVND = v, fx_EffectiveDate = day_of (ux_EffectiveDate inp), fx_CreatedAt = now env\<rparr>]" by simp_all
    have "(ux_Currency inp, day_of (ux_EffectiveDate inp)) \<notin> (\<lambda>r. (fx_Currency r, fx_EffectiveDate r)) ` set (fx_rates db)"
      using None by (auto simp: find_None_iff same_day_def)
    then show ?thesis using assms(1) v new(1) by (simp add: fx_ok_def new(2))
  next
    case (Some old)
    then have "fx_rates db' = update_where (day_rate inp) (\<lambda>r. r\<lparr>fx_RateToVND := v\<rparr>) (fx_rates db)" using rows by simp
    then show ?thesis using assms(1) v(1) by (auto simp: fx_ok_def update_rate_keys set_update_where)
  qed
qed (use assms(1) in simp)

interpretation fx: invariant "\<lambda>db. fx_rates db = []" fx_step fx_ok
proof unfold_locales
  show "fx_ok db" if "fx_rates db = []" for db using that by (simp add: fx_ok_def)
  show "fx_ok db'" if "fx_ok db" "fx_step db db'" for db db'
    using that(2,1)
  proof cases
    case (2 i r')
    then show ?thesis using that(1)
      by (auto simp: DeleteRate_def deleteFXRate_def fx_ok_def delete_where_def distinct_map_filter split: if_splits)
  qed (auto simp: UpsertRate_def split: if_splits dest: upsertFXRate_ok)
qed

text \<open>
  The rate of a day is the one row of the currency with the newest day not after it, read as a float; there is none exactly
  when the currency has no row up to that day.
\<close>

lemma rate_on_date:
  assumes "fx_ok db" and "c \<noteq> []"
  shows "case GetRateOnDate c t db of
      Inl e \<Rightarrow> e = Biz ErrNotFound \<and> (\<forall>r \<in> set (fx_rates db). fx_Currency r = c \<longrightarrow> day_of t < fx_EffectiveDate r)
    | Inr q \<Rightarrow> (\<exists>r \<in> set (fx_rates db). q = scan_rate r \<and> fx_Currency r = c \<and> fx_EffectiveDate r \<le> day_of t \<and>
        (\<forall>r' \<in> set (fx_rates db). fx_Currency r' = c \<and> fx_EffectiveDate r' \<le> day_of t \<longrightarrow> r' = r \<or> fx_EffectiveDate r' < fx_EffectiveDate r))"
proof -
  let ?rows = "select_where (\<lambda>r. fx_Currency r = c \<and> fx_EffectiveDate r \<le> day_of t) (fx_rates db)"
  have inj: "r = r'" if "r \<in> set (fx_rates db)" "r' \<in> set (fx_rates db)" "fx_Currency r = fx_Currency r'" "fx_EffectiveDate r = fx_EffectiveDate r'" for r r'
    using assms(1) that by (auto simp: fx_ok_def distinct_map inj_on_def)
  show ?thesis
  proof (cases "sort_key fx_EffectiveDate ?rows" rule: rev_cases)
    case Nil
    then have "length (sort_key fx_EffectiveDate ?rows) = 0" by simp
    then have "?rows = []" by simp
    then show ?thesis using assms(2) Nil by (auto simp: GetRateOnDate_def selectRateOnDate_def select_where_def filter_empty_conv not_le)
  next
    case (snoc rs r)
    have all: "set (rs @ [r]) = set ?rows" using snoc by (metis set_sort)
    have "sorted (map fx_EffectiveDate (rs @ [r]))" using snoc by (metis sorted_sort_key)
    then have top: "fx_EffectiveDate r' \<le> fx_EffectiveDate r" if "r' \<in> set ?rows" for r' using that all by (auto simp: sorted_append)
    have r: "r \<in> set ?rows" using all by auto
    have "GetRateOnDate c t db = Inr (scan_rate r)" using assms(2) snoc by (simp add: GetRateOnDate_def selectRateOnDate_def)
    moreover have "r' = r \<or> fx_EffectiveDate r' < fx_EffectiveDate r"
      if "r' \<in> set (fx_rates db)" "fx_Currency r' = c" "fx_EffectiveDate r' \<le> day_of t" for r'
    proof -
      have "fx_EffectiveDate r' \<le> fx_EffectiveDate r" using that by (intro top) (simp add: select_where_def)
      moreover have "r' = r" if "fx_EffectiveDate r' = fx_EffectiveDate r" using inj [of r' r] r that \<open>r' \<in> _\<close> \<open>fx_Currency r' = c\<close> by (simp add: select_where_def)
      ultimately show ?thesis by linarith
    qed
    ultimately show ?thesis using r by (auto simp: select_where_def intro!: bexI [of _ r])
  qed
qed

text \<open>What was entered for a day is what that day reads.\<close>

lemma upsert_then_get:
  assumes "fx_ok db" and "UpsertRate env inp db = (Inr r, db')" and "day_of t = day_of (ux_EffectiveDate inp)"
  shows "\<exists>v. numeric_col 16 6 (ux_RateToVND inp) = Inr v \<and> 0 < v \<and> costingFXRateAdapter (ux_Currency inp) t db' = Inr (fl v)"
proof -
  let ?c = "ux_Currency inp" let ?d = "day_of (ux_EffectiveDate inp)"
  have up: "upsertFXRate env inp db = (Inr r, db')" and c: "?c \<noteq> []" using assms(2) by (auto simp: UpsertRate_def split: if_splits)
  have "db' \<noteq> db \<or> \<not> isl (Inr r :: FXRate result)" by simp
  from upsertFXRate_view [OF up this] obtain v where v: "numeric_col 16 6 (ux_RateToVND inp) = Inr v" "0 < v" and
    rows: "case find (same_day ?c ?d) (fx_rates db) of
       Some old \<Rightarrow> fx_rates db' = update_where (same_day ?c ?d) (\<lambda>r. r\<lparr>fx_RateToVND := v\<rparr>) (fx_rates db)
     | None \<Rightarrow> fresh env 0 \<notin> fx_ID ` set (fx_rates db) \<and>
         fx_rates db' = fx_rates db @ [\<lparr>fx_ID = fresh env 0, fx_Currency = ?c, fx_RateToVND = v, fx_EffectiveDate = ?d, fx_CreatedAt = now env\<rparr>]"
    by blast
  have row: "\<exists>q \<in> set (fx_rates db'). fx_Currency q = ?c \<and> fx_EffectiveDate q = ?d \<and> fx_RateToVND q = v"
  proof (cases "find (same_day ?c ?d) (fx_rates db)")
    case None
    then show ?thesis using rows by simp
  next
    case (Some old)
    then have old: "old \<in> set (fx_rates db)" "same_day ?c ?d old" by (auto simp: find_Some_iff)
    then have "old\<lparr>fx_RateToVND := v\<rparr> \<in> set (fx_rates db')" using rows Some by (auto intro!: in_update_whereI)
    then show ?thesis using old by (intro bexI [of _ "old\<lparr>fx_RateToVND := v\<rparr>"]) (auto simp: same_day_def)
  qed
  have "fx_ok db'" by (rule upsertFXRate_ok [OF assms(1) up])
  note found = rate_on_date [OF this c, of t]
  obtain q where q: "GetRateOnDate ?c t db' = Inr q" using found row assms(3) by (cases "GetRateOnDate ?c t db'") auto
  then obtain r1 where r1: "q = scan_rate r1" "fx_EffectiveDate r1 \<le> ?d"
    "\<And>r'. r' \<in> set (fx_rates db') \<Longrightarrow> fx_Currency r' = ?c \<Longrightarrow> fx_EffectiveDate r' \<le> ?d \<Longrightarrow> r' = r1 \<or> fx_EffectiveDate r' < fx_EffectiveDate r1"
    using found assms(3) by auto
  from row r1 have "fx_RateToVND r1 = v" by fastforce
  with q r1(1) have "\<exists>q. GetRateOnDate ?c t db' = Inr q \<and> fx_RateToVND q = fl v" by (simp add: scan_rate_def)
  then show ?thesis using v by (auto simp: costingFXRateAdapter_def)
qed

end
