(* ===== verification/Scrap.thy ===== *)
theory Scrap
  imports Fx_Rates
begin

text \<open>
  Scrap sales: \<^verbatim>\<open>internal/module/scrap\<close> with migration 00061. The amount of a sale exists twice: the service computes it in floating point and cuts the fraction off,
  the database computes it from the decimal columns and rounds. \<open>scrap_refs\<close> is what the foreign keys need.
\<close>

section \<open>Rows and statements\<close>

record ScrapSale =
  sk_ID :: uuid
  sk_SaleDate :: int
  sk_MaterialID :: uuid
  sk_QuantityKG :: rat
  sk_UnitPrice :: int
  sk_Currency :: string
  sk_TotalAmount :: int
  sk_BuyerName :: string
  sk_InvoiceNumber :: string
  sk_Notes :: string
  sk_CreatedBy :: uuid
  sk_CreatedAt :: time

record scrap_db =
  scrap_sales :: "ScrapSale list"

record scrap_refs =
  skref_materials :: "uuid list"
  skref_users :: "uuid list"

text \<open>The generated column \<^verbatim>\<open>CAST(quantity_kg * unit_price AS BIGINT)\<close>.\<close>

definition generated_total :: "rat \<Rightarrow> int \<Rightarrow> int" where
  "generated_total q price = round_half_away (q * of_int price)"

definition check_sale :: "scrap_refs \<Rightarrow> ScrapSale \<Rightarrow> error option" where
  "check_sale rf s =
     (if length (sk_Currency s) > 3 then Some (Pg StringTruncation)
      else if \<not> in_i64 (generated_total (sk_QuantityKG s) (sk_UnitPrice s)) then Some (Pg NumericOutOfRange)
      else if sk_QuantityKG s \<le> 0 \<or> sk_UnitPrice s < 0 then Some (Pg CheckViolation)
      else if sk_MaterialID s \<notin> set (skref_materials rf) \<or> sk_CreatedBy s \<notin> set (skref_users rf) then Some (Pg ForeignKeyViolation)
      else None)"

definition insertScrapSale :: "scrap_refs \<Rightarrow> ScrapSale \<Rightarrow> scrap_db \<Rightarrow> scrap_db result" where
  "insertScrapSale rf s db =
     (case numeric_col 12 3 (sk_QuantityKG s) of
        Inl e \<Rightarrow> Inl e
      | Inr q \<Rightarrow>
          (case insert_checked (check_sale rf) sk_ID (s\<lparr>sk_QuantityKG := q, sk_TotalAmount := generated_total q (sk_UnitPrice s)\<rparr>) (scrap_sales db) of
             Inl e \<Rightarrow> Inl e
           | Inr t \<Rightarrow> Inr (db\<lparr>scrap_sales := t\<rparr>)))"

record ListScrapSalesFilter =
  skf_From :: "time option"
  skf_To :: "time option"
  skf_MaterialID :: "uuid option"

definition sale_matches :: "ListScrapSalesFilter \<Rightarrow> ScrapSale \<Rightarrow> bool" where
  "sale_matches f s \<longleftrightarrow>
     (case skf_From f of None \<Rightarrow> True | Some t \<Rightarrow> sk_SaleDate s \<ge> day_of t) \<and>
     (case skf_To f of None \<Rightarrow> True | Some t \<Rightarrow> sk_SaleDate s < day_of t) \<and>
     (case skf_MaterialID f of None \<Rightarrow> True | Some m \<Rightarrow> sk_MaterialID s = m)"

definition after_sale :: "Cursor \<Rightarrow> ScrapSale \<Rightarrow> bool" where
  "after_sale cur s \<longleftrightarrow> IsZero cur \<or> sk_CreatedAt s < Ts cur \<or> sk_CreatedAt s = Ts cur \<and> sk_ID s > CID cur"

definition scan_sale :: "ScrapSale \<Rightarrow> ScrapSale" where
  "scan_sale s = s\<lparr>sk_QuantityKG := fl (sk_QuantityKG s)\<rparr>"

text \<open>Newest first, and by identifier upwards among equals.\<close>

definition selectScrapSalesKeyset :: "ListScrapSalesFilter \<Rightarrow> Cursor \<Rightarrow> int \<Rightarrow> scrap_db \<Rightarrow> ScrapSale list result" where
  "selectScrapSalesKeyset f cur limit db =
     Inr (map scan_sale (take (nat limit) (sort_key (\<lambda>s. (- sk_CreatedAt s, sk_ID s)) (select_where (\<lambda>s. sale_matches f s \<and> after_sale cur s) (scrap_sales db)))))"

section \<open>The service\<close>

record CreateScrapSaleInput =
  csk_SaleDate :: time
  csk_MaterialID :: uuid
  csk_QuantityKG :: rat
  csk_UnitPrice :: int
  csk_Currency :: string
  csk_BuyerName :: string
  csk_InvoiceNumber :: string
  csk_Notes :: string
  csk_CreatedBy :: uuid

definition float_total :: "rat \<Rightarrow> int \<Rightarrow> int" where
  "float_total q price = go_int (fl (q * fl (of_int price)))"

definition CreateScrapSale :: "scrap_refs \<Rightarrow> env \<Rightarrow> CreateScrapSaleInput \<Rightarrow> (scrap_db, ScrapSale) op" where
  "CreateScrapSale rf env inp db =
     (if csk_Currency inp = [] then (Inl (Biz ErrInvalidInput), db)
      else if csk_SaleDate inp = 0 then (Inl (Biz ErrInvalidInput), db)
      else if csk_SaleDate inp > now env then (Inl (Biz ErrInvalidInput), db)
      else if csk_MaterialID inp = uuid_Nil then (Inl (Biz ErrInvalidInput), db)
      else if csk_QuantityKG inp \<le> 0 then (Inl (Biz ErrInvalidInput), db)
      else if csk_UnitPrice inp < 0 then (Inl (Biz ErrInvalidInput), db)
      else let s = \<lparr>sk_ID = fresh env 0, sk_SaleDate = day_of (csk_SaleDate inp), sk_MaterialID = csk_MaterialID inp, sk_QuantityKG = csk_QuantityKG inp,
                    sk_UnitPrice = csk_UnitPrice inp, sk_Currency = csk_Currency inp, sk_TotalAmount = float_total (csk_QuantityKG inp) (csk_UnitPrice inp),
                    sk_BuyerName = csk_BuyerName inp, sk_InvoiceNumber = csk_InvoiceNumber inp, sk_Notes = csk_Notes inp,
                    sk_CreatedBy = csk_CreatedBy inp, sk_CreatedAt = now env\<rparr>
           in (case insertScrapSale rf s db of Inl e \<Rightarrow> (Inl e, db) | Inr db1 \<Rightarrow> (Inr s, db1)))"

definition sale_cursor :: "ScrapSale \<Rightarrow> Cursor" where
  "sale_cursor s = \<lparr>Ts = sk_CreatedAt s, CID = sk_ID s\<rparr>"

definition ListScrapSales :: "CursorParams \<Rightarrow> ListScrapSalesFilter \<Rightarrow> scrap_db \<Rightarrow> ScrapSale CursorResult result" where
  "ListScrapSales p f db =
     (if (case (skf_From f, skf_To f) of (Some a, Some b) \<Rightarrow> a > b | _ \<Rightarrow> False) then Inl (Biz ErrInvalidInput)
      else (case Decoded p of
              Inl e \<Rightarrow> Inl e
            | Inr cur \<Rightarrow>
                (case selectScrapSalesKeyset f cur (CLimit p + 1) db of
                   Inl e \<Rightarrow> Inl e
                 | Inr rows \<Rightarrow> Inr (NewCursorResult rows (CLimit p) sale_cursor))))"

section \<open>Sales are kept within what the columns hold\<close>

definition scrap_ok :: "scrap_db \<Rightarrow> bool" where
  "scrap_ok db \<longleftrightarrow> keys_distinct sk_ID (scrap_sales db) \<and>
     (\<forall>s \<in> set (scrap_sales db). 0 < sk_QuantityKG s \<and> 0 \<le> sk_UnitPrice s \<and> 0 \<le> sk_TotalAmount s \<and> in_i64 (sk_TotalAmount s) \<and>
        \<bar>of_int (sk_TotalAmount s) - sk_QuantityKG s * of_int (sk_UnitPrice s)\<bar> \<le> 1 / 2 \<and> length (sk_Currency s) \<le> 3)"

lemma CreateScrapSale_ok:
  assumes "scrap_ok db" and "CreateScrapSale rf env inp db = (r, db')"
  shows "scrap_ok db'"
proof (cases "db' = db")
  case False
  with assms(2) obtain s where "insertScrapSale rf s db = Inr db'" by (auto simp: CreateScrapSale_def Let_def split: if_splits sum.splits)
  then obtain q where db': "db' = db\<lparr>scrap_sales := scrap_sales db @ [s\<lparr>sk_QuantityKG := q, sk_TotalAmount := generated_total q (sk_UnitPrice s)\<rparr>]\<rparr>"
    and row: "check_sale rf (s\<lparr>sk_QuantityKG := q, sk_TotalAmount := generated_total q (sk_UnitPrice s)\<rparr>) = None" "sk_ID s \<notin> sk_ID ` set (scrap_sales db)"
    by (auto simp: insertScrapSale_def split: sum.splits)
  from row(1) have q: "0 < q" "0 \<le> sk_UnitPrice s" "in_i64 (generated_total q (sk_UnitPrice s))" "length (sk_Currency s) \<le> 3"
    by (auto simp: check_sale_def not_less not_le split: if_splits)
  have "\<bar>of_int (generated_total q (sk_UnitPrice s)) - q * of_int (sk_UnitPrice s)\<bar> \<le> 1 / 2" unfolding generated_total_def by (rule round_half_away_error)
  moreover have "0 \<le> generated_total q (sk_UnitPrice s)" using q by (simp add: generated_total_def round_half_away_def)
  ultimately show ?thesis using assms(1) row(2) q by (auto simp: scrap_ok_def db')
qed (use assms(1) in simp)

text \<open>Half a kilogram at a price of one: the caller is told 0, the table and every later listing say 1. No currency is refused.\<close>

lemma scrap_total_differs:
  "float_total (1 / 2) 1 = 0" "map_sum id (\<lambda>q. generated_total q 1) (numeric_col 12 3 (1 / 2)) = Inr 1"
  by code_simp+

end
