(* ===== verification/Tokens.thy ===== *)
theory Tokens
  imports Prelude
begin

text \<open>
  Roles and bearer tokens: \<^verbatim>\<open>internal/platform/auth/auth.go\<close>. A token is two texts in the URL alphabet of base 64, joined by a
  dot: a payload and the keyed hash of its encoding. The encoding is written out as \<^verbatim>\<open>base64.RawURLEncoding\<close> works; the keyed hash and the JSON form of a
  payload are fields of \<open>token_lib\<close>. What the middleware lets through, or the text of its refusal, is its result.
\<close>

section \<open>Roles\<close>

definition AuthRoleAdmin :: string where "AuthRoleAdmin = ''admin''"
definition AuthRoleAccountant :: string where "AuthRoleAccountant = ''accountant''"
definition AuthRolePlanner :: string where "AuthRolePlanner = ''planner''"
definition AuthRoleWarehouse :: string where "AuthRoleWarehouse = ''warehouse''"
definition AuthRoleCNC :: string where "AuthRoleCNC = ''cnc''"
definition AuthRoleCNCManager :: string where "AuthRoleCNCManager = ''cnc_manager''"
definition AuthRoleForeman :: string where "AuthRoleForeman = ''foreman''"

definition validRoles :: "string list" where
  "validRoles = [AuthRoleAdmin, AuthRoleAccountant, AuthRolePlanner, AuthRoleWarehouse, AuthRoleCNC, AuthRoleCNCManager, AuthRoleForeman]"

record Identity =
  id_UserID :: string
  id_Role :: string

text \<open>The guard of a route: whether the request may go on.\<close>

definition RequireRole :: "string list \<Rightarrow> Identity option \<Rightarrow> bool" where
  "RequireRole roles who = (case who of None \<Rightarrow> False | Some i \<Rightarrow> id_Role i \<in> set roles)"

definition workerTier :: "string list" where "workerTier = [AuthRoleWarehouse, AuthRoleCNC, AuthRoleCNCManager, AuthRoleForeman]"
definition plannerTier :: "string list" where "plannerTier = [AuthRolePlanner, AuthRoleAccountant]"
definition adminTier :: "string list" where "adminTier = [AuthRoleAdmin]"

definition RequireWorkerUp :: "Identity option \<Rightarrow> bool" where
  "RequireWorkerUp = RequireRole (concat [workerTier, plannerTier, adminTier])"

definition RequirePlannerUp :: "Identity option \<Rightarrow> bool" where
  "RequirePlannerUp = RequireRole (concat [plannerTier, adminTier])"

definition RequireAdminOnly :: "Identity option \<Rightarrow> bool" where
  "RequireAdminOnly = RequireRole adminTier"

definition PersonaOf :: "string \<Rightarrow> string" where
  "PersonaOf r =
     (if r = AuthRoleAdmin then ''ADMIN''
      else if r = AuthRolePlanner \<or> r = AuthRoleAccountant then ''PLANNER''
      else if r \<in> {AuthRoleWarehouse, AuthRoleCNC, AuthRoleCNCManager, AuthRoleForeman} then ''WORKER''
      else [])"

lemmas role_defs = AuthRoleAdmin_def AuthRoleAccountant_def AuthRolePlanner_def AuthRoleWarehouse_def AuthRoleCNC_def AuthRoleCNCManager_def AuthRoleForeman_def

text \<open>The persona of a role is the lowest guard that lets it through, and every recognised role has one.\<close>

lemma persona_tiers:
  "RequireWorkerUp (Some i) \<longleftrightarrow> id_Role i \<in> set validRoles"
  "RequireWorkerUp (Some i) \<longleftrightarrow> PersonaOf (id_Role i) \<noteq> []"
  "RequirePlannerUp (Some i) \<longleftrightarrow> PersonaOf (id_Role i) \<in> {''PLANNER'', ''ADMIN''}"
  "RequireAdminOnly (Some i) \<longleftrightarrow> PersonaOf (id_Role i) = ''ADMIN''"
  by (auto simp: RequireWorkerUp_def RequirePlannerUp_def RequireAdminOnly_def RequireRole_def workerTier_def plannerTier_def adminTier_def
    PersonaOf_def validRoles_def)

section \<open>Base 64 in the URL alphabet, without padding\<close>

definition b64_char :: "nat \<Rightarrow> char" where
  "b64_char i =
     (if i < 26 then char_of (65 + i) else if i < 52 then char_of (71 + i) else if i < 62 then char_of (i - 4)
      else if i = 62 then CHR ''-'' else CHR ''_'')"

definition b64_value :: "char \<Rightarrow> nat option" where
  "b64_value c =
     (let n = of_char c :: nat in
      if 65 \<le> n \<and> n \<le> 90 then Some (n - 65) else if 97 \<le> n \<and> n \<le> 122 then Some (n - 71) else if 48 \<le> n \<and> n \<le> 57 then Some (n + 4)
      else if c = CHR ''-'' then Some 62 else if c = CHR ''_'' then Some 63 else None)"

fun sextets :: "nat list \<Rightarrow> nat list" where
  "sextets [] = []"
| "sextets [a] = [a div 4, a mod 4 * 16]"
| "sextets [a, b] = [a div 4, a mod 4 * 16 + b div 16, b mod 16 * 4]"
| "sextets (a # b # c # r) = a div 4 # (a mod 4 * 16 + b div 16) # (b mod 16 * 4 + c div 64) # c mod 64 # sextets r"

text \<open>The decoder ignores the unused bits of the last character.\<close>

fun octets :: "nat list \<Rightarrow> nat list option" where
  "octets [] = Some []"
| "octets [p] = None"
| "octets [p, q] = Some [p * 4 + q div 16]"
| "octets [p, q, r] = Some [p * 4 + q div 16, q mod 16 * 16 + r div 4]"
| "octets (p # q # r # s # t) =
     map_option (\<lambda>bs. (p * 4 + q div 16) # (q mod 16 * 16 + r div 4) # (r mod 4 * 64 + s) # bs) (octets t)"

definition EncodeToString :: "string \<Rightarrow> string" where
  "EncodeToString s = map b64_char (sextets (map of_char s))"

fun b64_values :: "string \<Rightarrow> nat list option" where
  "b64_values [] = Some []"
| "b64_values (c # cs) = (case b64_value c of None \<Rightarrow> None | Some v \<Rightarrow> map_option ((#) v) (b64_values cs))"

text \<open>Line breaks are skipped.\<close>

definition is_break :: "char \<Rightarrow> bool" where
  "is_break c \<longleftrightarrow> of_char c \<in> {10, 13 :: nat}"

definition DecodeString :: "string \<Rightarrow> string option" where
  "DecodeString s =
     (case b64_values (filter (\<lambda>c. \<not> is_break c) s) of None \<Rightarrow> None | Some vs \<Rightarrow> map_option (map char_of) (octets vs))"

lemma sextets_bound: "\<forall>b \<in> set bs. b < 256 \<Longrightarrow> v \<in> set (sextets bs) \<Longrightarrow> v < 64"
  by (induction bs rule: sextets.induct) auto

lemma octets_sextets: "\<forall>b \<in> set bs. b < 256 \<Longrightarrow> octets (sextets bs) = Some bs"
proof (induction bs rule: sextets.induct)
  case (4 a b c r)
  then have "a < 256" "b < 256" "c < 256" "octets (sextets r) = Some r" by auto
  then show ?case by simp
qed (auto; presburger)+

lemma b64_value_None: "is_break c \<Longrightarrow> b64_value c = None" "b64_value CHR ''.'' = None"
proof -
  show "b64_value CHR ''.'' = None" by code_simp
  assume "is_break c"
  then have "of_char c = (10 :: nat) \<or> of_char c = (13 :: nat)" by (simp add: is_break_def)
  moreover from this have "c \<noteq> CHR ''-''" "c \<noteq> CHR ''_''" by auto
  ultimately show "b64_value c = None" by (auto simp: b64_value_def Let_def)
qed

lemma b64_value_char: "i < 64 \<Longrightarrow> b64_value (b64_char i) = Some i"
  by (cases "i = 62"; cases "i = 63"; simp add: b64_char_def b64_value_def Let_def; presburger?)

lemma b64_char_plain: "i < 64 \<Longrightarrow> \<not> is_break (b64_char i) \<and> b64_char i \<noteq> CHR ''.''"
  using b64_value_char [of i] b64_value_None by (metis option.distinct(1))

lemma b64_values_map: "\<forall>v \<in> set vs. v < 64 \<Longrightarrow> b64_values (map b64_char vs) = Some vs"
  by (induction vs) (simp_all add: b64_value_char)

lemma EncodeToString_chars: "c \<in> set (EncodeToString s) \<Longrightarrow> \<not> is_break c \<and> c \<noteq> CHR ''.''"
proof -
  have byte: "\<forall>b \<in> set (map of_char s :: nat list). b < 256" by auto
  assume "c \<in> set (EncodeToString s)"
  then obtain v where "v \<in> set (sextets (map of_char s))" "c = b64_char v" by (auto simp: EncodeToString_def)
  then show ?thesis using sextets_bound [OF byte, of v] b64_char_plain [of v] by simp
qed

lemma Decode_Encode: "DecodeString (EncodeToString s) = Some s"
proof -
  have byte: "\<forall>b \<in> set (map of_char s :: nat list). b < 256" by auto
  have "filter (\<lambda>c. \<not> is_break c) (EncodeToString s) = EncodeToString s" by (auto simp: filter_id_conv dest: EncodeToString_chars)
  moreover have "b64_values (EncodeToString s) = Some (sextets (map of_char s))"
    unfolding EncodeToString_def using sextets_bound [OF byte] by (intro b64_values_map) blast
  ultimately show ?thesis using octets_sextets [OF byte] by (simp add: DecodeString_def comp_def)
qed

section \<open>Tokens\<close>

record tokenPayload =
  tp_UserID :: string
  tp_Role :: string
  tp_Exp :: int

record token_lib =
  jsonMarshal :: "tokenPayload \<Rightarrow> string"
  jsonUnmarshal :: "string \<Rightarrow> tokenPayload option"
  hmacSHA256 :: "string \<Rightarrow> string \<Rightarrow> string"

definition computeHMAC :: "'z token_lib_scheme \<Rightarrow> string \<Rightarrow> string \<Rightarrow> string" where
  "computeHMAC lib message secret = hmacSHA256 lib secret message"

text \<open>Seconds since 1970, of an instant in microseconds since Go's zero time.\<close>

definition unix :: "time \<Rightarrow> int" where
  "unix t = t div 1000000 - 62135596800"

definition SignToken :: "'z token_lib_scheme \<Rightarrow> string \<Rightarrow> string \<Rightarrow> string \<Rightarrow> time \<Rightarrow> string" where
  "SignToken lib secret userID role exp =
     (let payloadB64 = EncodeToString (jsonMarshal lib \<lparr>tp_UserID = userID, tp_Role = role, tp_Exp = unix exp\<rparr>)
      in payloadB64 @ ''.'' @ EncodeToString (computeHMAC lib payloadB64 secret))"

definition CutPrefix :: "string \<Rightarrow> string \<Rightarrow> string option" where
  "CutPrefix s pre = (if take (length pre) s = pre then Some (drop (length pre) s) else None)"

text \<open>\<^verbatim>\<open>strings.SplitN(token, ".", 2)\<close>, where it gives two parts.\<close>

definition split_dot :: "string \<Rightarrow> (string \<times> string) option" where
  "split_dot s = (case dropWhile (\<lambda>c. c \<noteq> CHR ''.'') s of [] \<Rightarrow> None | _ # r \<Rightarrow> Some (takeWhile (\<lambda>c. c \<noteq> CHR ''.'') s, r))"

definition Middleware :: "'z token_lib_scheme \<Rightarrow> string \<Rightarrow> time \<Rightarrow> string \<Rightarrow> string + Identity" where
  "Middleware lib secret clock header =
     (if header = [] then Inl ''missing authorization header''
      else (case CutPrefix header ''Bearer '' of
              None \<Rightarrow> Inl ''invalid authorization format''
            | Some token \<Rightarrow>
                if token = [] then Inl ''invalid authorization format''
                else (case split_dot token of
                        None \<Rightarrow> Inl ''malformed token''
                      | Some (payloadB64, sigB64) \<Rightarrow>
                          if DecodeString sigB64 \<noteq> Some (computeHMAC lib payloadB64 secret) then Inl ''invalid token signature''
                          else (case DecodeString payloadB64 of
                                  None \<Rightarrow> Inl ''malformed token payload''
                                | Some payloadJSON \<Rightarrow>
                                    (case jsonUnmarshal lib payloadJSON of
                                       None \<Rightarrow> Inl ''malformed token payload''
                                     | Some tp \<Rightarrow>
                                         if unix clock > tp_Exp tp then Inl ''token expired''
                                         else if tp_Role tp \<notin> set validRoles then Inl ''invalid role in token''
                                         else Inr \<lparr>id_UserID = tp_UserID tp, id_Role = tp_Role tp\<rparr>)))))"

text \<open>Whoever passes the middleware has a role that every worker guard accepts.\<close>

lemma Middleware_role: "Middleware lib secret clock header = Inr i \<Longrightarrow> RequireWorkerUp (Some i)"
  unfolding persona_tiers by (auto simp: Middleware_def split: if_splits option.splits)

lemma split_dot_join: "CHR ''.'' \<notin> set p \<Longrightarrow> split_dot (p @ ''.'' @ q) = Some (p, q)"
proof -
  assume "CHR ''.'' \<notin> set p"
  then have "\<forall>c \<in> set p. c \<noteq> CHR ''.''" by metis
  then show ?thesis by (simp add: split_dot_def dropWhile_append2 takeWhile_append2)
qed

text \<open>A signed token is what the middleware of the same key accepts, until it expires; another key refuses it unless the hashes collide.\<close>

lemma SignToken_accepted:
  assumes json: "jsonUnmarshal lib (jsonMarshal lib \<lparr>tp_UserID = u, tp_Role = r, tp_Exp = unix exp\<rparr>) = Some \<lparr>tp_UserID = u, tp_Role = r, tp_Exp = unix exp\<rparr>"
    and "r \<in> set validRoles" and b: "b = EncodeToString (jsonMarshal lib \<lparr>tp_UserID = u, tp_Role = r, tp_Exp = unix exp\<rparr>)"
  shows "Middleware lib key clock (''Bearer '' @ SignToken lib secret u r exp) =
    (if computeHMAC lib b key \<noteq> computeHMAC lib b secret then Inl ''invalid token signature''
     else if unix clock \<le> unix exp then Inr \<lparr>id_UserID = u, id_Role = r\<rparr> else Inl ''token expired'')"
proof -
  have "SignToken lib secret u r exp = b @ ''.'' @ EncodeToString (computeHMAC lib b secret)" by (simp add: SignToken_def b Let_def)
  moreover have "split_dot (b @ ''.'' @ EncodeToString (computeHMAC lib b secret)) = Some (b, EncodeToString (computeHMAC lib b secret))"
    by (rule split_dot_join) (auto simp: b dest: EncodeToString_chars)
  moreover have "DecodeString b = Some (jsonMarshal lib \<lparr>tp_UserID = u, tp_Role = r, tp_Exp = unix exp\<rparr>)" by (simp add: b Decode_Encode)
  ultimately show ?thesis using assms(2) json by (auto simp: Middleware_def CutPrefix_def Decode_Encode)
qed

end
