(* ===== verification/Users.thy ===== *)
theory Users
  imports Tokens Production_Service Inventory_Listings
begin

text \<open>
  Users and log-in: \<^verbatim>\<open>internal/module/authn\<close> with the table of its migrations, and the adapter through which production reads it. Password hashing
  (\<^verbatim>\<open>golang.org/x/crypto/bcrypt\<close>) and the text of an identifier are fields of \<open>auth_lib\<close>. An e-mail address can be missing only in a row that a migration wrote:
  the service always writes a text, the empty one when none is given, and the column is unique.
\<close>

section \<open>Rows and statements\<close>

record user_row =
  uu_ID :: uuid
  uu_Username :: string
  uu_PasswordHash :: string
  uu_Role :: string
  uu_FullName :: string
  uu_Email :: "string option"
  uu_IsActive :: bool
  uu_CreatedAt :: time
  uu_UpdatedAt :: "time option"
  uu_CreatedBy :: "uuid option"

record users_db =
  users_tbl :: "user_row list"

record auth_lib = token_lib +
  bcryptGenerate :: "env \<Rightarrow> string \<Rightarrow> string result"
  bcryptCompare :: "string \<Rightarrow> string \<Rightarrow> bool"
  uuidString :: "uuid \<Rightarrow> string"

definition selectUserByUsername :: "string \<Rightarrow> users_db \<Rightarrow> user_row result" where
  "selectUserByUsername n db = (case find (\<lambda>u. uu_Username u = n) (users_tbl db) of None \<Rightarrow> Inl (Biz ErrNotFound) | Some u \<Rightarrow> Inr u)"

definition selectUserByID :: "uuid \<Rightarrow> users_db \<Rightarrow> user_row result" where
  "selectUserByID i db = (case row_by uu_ID i (users_tbl db) of None \<Rightarrow> Inl (Biz ErrNotFound) | Some u \<Rightarrow> Inr u)"

record ListUsersParams =
  lup_Page :: PageParams
  lup_Roles :: "string list"
  lup_IsActive :: "bool option"

definition user_matches :: "ListUsersParams \<Rightarrow> user_row \<Rightarrow> bool" where
  "user_matches p u \<longleftrightarrow>
     (Search (lup_Page p) = [] \<or> ilike (uu_Username u) (''%'' @ Search (lup_Page p) @ ''%'')) \<and>
     (case lup_IsActive p of None \<Rightarrow> True | Some b \<Rightarrow> uu_IsActive u = b) \<and>
     (lup_Roles p = [] \<or> uu_Role u \<in> set (lup_Roles p))"

text \<open>
  The total is read off the rows of the page (\<^verbatim>\<open>count(*) OVER()\<close>), so an empty page has none. \<open>coll\<close> ranks texts as the collation of the database does.
\<close>

definition selectUsers :: "(string \<Rightarrow> int) \<Rightarrow> ListUsersParams \<Rightarrow> users_db \<Rightarrow> (user_row list \<times> int) result" where
  "selectUsers coll p db =
     (let pg = lup_Page p;
          rows = select_where (user_matches p) (users_tbl db);
          key = (\<lambda>u. if SortBy pg = ''username'' then coll (uu_Username u) else if SortBy pg = ''role'' then coll (uu_Role u) else uu_CreatedAt u);
          sgn = (if Order pg = ''asc'' then 1 else -1);
          page = take (nat (Limit pg)) (drop (nat (Offset pg)) (sort_key (\<lambda>u. sgn * key u) rows))
      in Inr (page, if page = [] then 0 else int (length rows)))"

definition insertUser :: "env \<Rightarrow> user_row \<Rightarrow> (users_db, user_row) op" where
  "insertUser env u db =
     (let row = u\<lparr>uu_ID := fresh env 0, uu_CreatedAt := now env, uu_IsActive := True, uu_UpdatedAt := None\<rparr> in
      if list_ex (\<lambda>v. uu_ID v = uu_ID row \<or> uu_Username v = uu_Username row \<or> uu_Email v = uu_Email row \<and> uu_Email row \<noteq> None) (users_tbl db)
      then (Inl (Biz ErrConflict), db)
      else if (case uu_CreatedBy row of None \<Rightarrow> False | Some c \<Rightarrow> c \<notin> uu_ID ` set (users_tbl db)) then (Inl (Pg ForeignKeyViolation), db)
      else (Inr row, db\<lparr>users_tbl := users_tbl db @ [row]\<rparr>))"

definition user_update :: "env \<Rightarrow> user_row \<Rightarrow> user_row \<Rightarrow> user_row" where
  "user_update env u r = r\<lparr>uu_Role := uu_Role u, uu_FullName := uu_FullName u, uu_Email := uu_Email u, uu_UpdatedAt := Some (now env)\<rparr>"

definition updateUser :: "env \<Rightarrow> user_row \<Rightarrow> (users_db, user_row) op" where
  "updateUser env u db =
     (case row_by uu_ID (uu_ID u) (users_tbl db) of
        None \<Rightarrow> (Inl (Biz ErrNotFound), db)
      | Some r \<Rightarrow>
          if list_ex (\<lambda>v. uu_ID v \<noteq> uu_ID u \<and> uu_Email v = uu_Email u \<and> uu_Email u \<noteq> None) (users_tbl db) then (Inl (Biz ErrConflict), db)
          else (Inr (user_update env u r), db\<lparr>users_tbl := update_where (\<lambda>v. uu_ID v = uu_ID u) (user_update env u) (users_tbl db)\<rparr>))"

definition updatePassword :: "env \<Rightarrow> uuid \<Rightarrow> string \<Rightarrow> (users_db, unit) op" where
  "updatePassword env i hash db =
     (if row_by uu_ID i (users_tbl db) = None then (Inl (Biz ErrNotFound), db)
      else (Inr (), db\<lparr>users_tbl := update_where (\<lambda>u. uu_ID u = i) (\<lambda>u. u\<lparr>uu_PasswordHash := hash, uu_UpdatedAt := Some (now env)\<rparr>) (users_tbl db)\<rparr>))"

definition deactivateUser :: "env \<Rightarrow> uuid \<Rightarrow> (users_db, unit) op" where
  "deactivateUser env i db =
     (if row_by uu_ID i (users_tbl db) = None then (Inl (Biz ErrNotFound), db)
      else (Inr (), db\<lparr>users_tbl := update_where (\<lambda>u. uu_ID u = i) (\<lambda>u. u\<lparr>uu_IsActive := False, uu_UpdatedAt := Some (now env)\<rparr>) (users_tbl db)\<rparr>))"

section \<open>The service\<close>

definition tokenTTL :: time where
  "tokenTTL = 24 * 3600 * 1000000"

record LoginInput =
  li_Username :: string
  li_Password :: string

record LoginResult =
  lr_Token :: string
  lr_Role :: string
  lr_ExpiresAt :: time

definition Login :: "auth_lib \<Rightarrow> string \<Rightarrow> env \<Rightarrow> LoginInput \<Rightarrow> users_db \<Rightarrow> LoginResult result" where
  "Login lib secret env inp db =
     (if li_Username inp = [] then Inl (Biz ErrInvalidInput)
      else if li_Password inp = [] then Inl (Biz ErrInvalidInput)
      else (case selectUserByUsername (li_Username inp) db of
              Inl e \<Rightarrow> Inl (Biz ErrInvalidInput)
            | Inr u \<Rightarrow>
                if \<not> bcryptCompare lib (uu_PasswordHash u) (li_Password inp) then Inl (Biz ErrInvalidInput)
                else if \<not> uu_IsActive u then Inl (Biz ErrPreconditionFailed)
                else let exp = now env + tokenTTL
                     in Inr \<lparr>lr_Token = ''Bearer '' @ SignToken lib secret (uuidString lib (uu_ID u)) (uu_Role u) exp, lr_Role = uu_Role u, lr_ExpiresAt = exp\<rparr>))"

record AuthUserInfo =
  aui_ID :: uuid
  aui_Username :: string
  aui_Role :: string
  aui_IsActive :: bool

definition GetUser :: "uuid \<Rightarrow> users_db \<Rightarrow> AuthUserInfo result" where
  "GetUser i db =
     map_sum id (\<lambda>u. \<lparr>aui_ID = uu_ID u, aui_Username = uu_Username u, aui_Role = uu_Role u, aui_IsActive = uu_IsActive u\<rparr>) (selectUserByID i db)"

record UserDetail =
  ud_ID :: uuid
  ud_Username :: string
  ud_Role :: string
  ud_FullName :: string
  ud_Email :: string
  ud_IsActive :: bool
  ud_CreatedAt :: time
  ud_UpdatedAt :: "time option"

definition mapUserToDetail :: "user_row \<Rightarrow> UserDetail" where
  "mapUserToDetail u =
     \<lparr>ud_ID = uu_ID u, ud_Username = uu_Username u, ud_Role = uu_Role u, ud_FullName = uu_FullName u, ud_Email = case_option [] id (uu_Email u),
      ud_IsActive = uu_IsActive u, ud_CreatedAt = uu_CreatedAt u, ud_UpdatedAt = uu_UpdatedAt u\<rparr>"

definition ListUsers :: "(string \<Rightarrow> int) \<Rightarrow> ListUsersParams \<Rightarrow> users_db \<Rightarrow> UserDetail PagedResult result" where
  "ListUsers coll p db =
     (case selectUsers coll p db of Inl e \<Rightarrow> Inl e | Inr (us, n) \<Rightarrow> Inr (NewPagedResult (map mapUserToDetail us) n (lup_Page p)))"

definition validateRole :: "string \<Rightarrow> unit result" where
  "validateRole r =
     (if r = AuthRoleAdmin \<or> r = AuthRoleAccountant \<or> r = AuthRolePlanner \<or> r = AuthRoleWarehouse \<or> r = AuthRoleCNC \<or> r = AuthRoleCNCManager \<or> r = AuthRoleForeman then Inr ()
      else Inl (Biz ErrInvalidInput))"

record CreateUserInput =
  cu_in_Username :: string
  cu_in_Password :: string
  cu_in_Role :: string
  cu_in_FullName :: string
  cu_in_Email :: string

definition CreateUser :: "auth_lib \<Rightarrow> env \<Rightarrow> uuid \<Rightarrow> CreateUserInput \<Rightarrow> (users_db, UserDetail) op" where
  "CreateUser lib env creatorID inp db =
     (case validateRole (cu_in_Role inp) of
        Inl e \<Rightarrow> (Inl e, db)
      | Inr _ \<Rightarrow>
          (case bcryptGenerate lib env (cu_in_Password inp) of
             Inl e \<Rightarrow> (Inl e, db)
           | Inr hash \<Rightarrow>
               let u = \<lparr>uu_ID = uuid_Nil, uu_Username = cu_in_Username inp, uu_PasswordHash = hash, uu_Role = cu_in_Role inp,
                        uu_FullName = cu_in_FullName inp, uu_Email = Some (cu_in_Email inp), uu_IsActive = False, uu_CreatedAt = 0, uu_UpdatedAt = None,
                        uu_CreatedBy = Some creatorID\<rparr>
               in (case insertUser env u db of (Inl e, db1) \<Rightarrow> (Inl e, db1) | (Inr saved, db1) \<Rightarrow> (Inr (mapUserToDetail saved), db1))))"

definition GetUserDetail :: "uuid \<Rightarrow> users_db \<Rightarrow> UserDetail result" where
  "GetUserDetail i db = map_sum id mapUserToDetail (selectUserByID i db)"

record UpdateUserInput =
  uui_Role :: string
  uui_FullName :: string
  uui_Email :: string

text \<open>The fields that the statement does not write are those of an empty \<^verbatim>\<open>user\<close>.\<close>

definition UpdateUser :: "env \<Rightarrow> uuid \<Rightarrow> UpdateUserInput \<Rightarrow> (users_db, UserDetail) op" where
  "UpdateUser env i inp db =
     (case validateRole (uui_Role inp) of
        Inl e \<Rightarrow> (Inl e, db)
      | Inr _ \<Rightarrow>
          let u = \<lparr>uu_ID = i, uu_Username = [], uu_PasswordHash = [], uu_Role = uui_Role inp, uu_FullName = uui_FullName inp,
                   uu_Email = Some (uui_Email inp), uu_IsActive = False, uu_CreatedAt = 0, uu_UpdatedAt = None, uu_CreatedBy = None\<rparr>
          in (case updateUser env u db of (Inl e, db1) \<Rightarrow> (Inl e, db1) | (Inr upd, db1) \<Rightarrow> (Inr (mapUserToDetail upd), db1)))"

definition UpdatePassword :: "auth_lib \<Rightarrow> env \<Rightarrow> uuid \<Rightarrow> string \<Rightarrow> (users_db, unit) op" where
  "UpdatePassword lib env i newPassword db =
     (case bcryptGenerate lib env newPassword of Inl e \<Rightarrow> (Inl e, db) | Inr hash \<Rightarrow> updatePassword env i hash db)"

definition DeactivateUser :: "env \<Rightarrow> uuid \<Rightarrow> uuid \<Rightarrow> (users_db, unit) op" where
  "DeactivateUser env targetID actorID db = (if targetID = actorID then (Inl (Biz ErrInvalidInput), db) else deactivateUser env targetID db)"

record WorkerSummary =
  ws_ID :: uuid
  ws_Username :: string
  ws_FullName :: string
  ws_Role :: string
  ws_IsActive :: bool

definition ListWorkers :: "(string \<Rightarrow> int) \<Rightarrow> ListUsersParams \<Rightarrow> users_db \<Rightarrow> WorkerSummary list result" where
  "ListWorkers coll p db =
     (case selectUsers coll p db of
        Inl e \<Rightarrow> Inl e
      | Inr (us, n) \<Rightarrow> Inr (map (\<lambda>u. \<lparr>ws_ID = uu_ID u, ws_Username = uu_Username u, ws_FullName = uu_FullName u, ws_Role = uu_Role u, ws_IsActive = uu_IsActive u\<rparr>) us))"

text \<open>What production reads.\<close>

definition userAdapter :: "uuid \<Rightarrow> users_db \<Rightarrow> UserInfo result" where
  "userAdapter i db = map_sum id (\<lambda>u. \<lparr>us_ID = aui_ID u, us_Role = aui_Role u, us_IsActive = aui_IsActive u\<rparr>) (GetUser i db)"

end
