(* ===== verification/User_Props.thy ===== *)
theory User_Props
  imports Users
begin

text \<open>
  The accounts keep their names and their roles are recognised, an account that was disabled stays disabled, and the token of a
  log-in is accepted for a day. Only one account can be without an e-mail address.
\<close>

section \<open>The invariant\<close>

text \<open>The accounts that the migrations create: names, roles and addresses.\<close>

definition seed_accounts :: "(string \<times> string \<times> string option) list" where
  "seed_accounts =
     [(''admin'', ''admin'', Some ''admin@vmarble.com''), (''worker'', ''cnc'', None), (''worker2'', ''cnc'', None), (''planner'', ''planner'', None),
      (''warehouse'', ''warehouse'', None), (''accountant'', ''accountant'', None), (''foreman'', ''foreman'', None)]"

definition seeded :: "users_db \<Rightarrow> bool" where
  "seeded db \<longleftrightarrow> map (\<lambda>u. (uu_Username u, uu_Role u, uu_Email u)) (users_tbl db) = seed_accounts \<and> keys_distinct uu_ID (users_tbl db) \<and>
     list_all (\<lambda>u. uu_IsActive u \<and> uu_CreatedBy u = None) (users_tbl db)"

definition emails_distinct :: "user_row list \<Rightarrow> bool" where
  "emails_distinct t \<longleftrightarrow> (\<forall>u \<in> set t. \<forall>v \<in> set t. uu_Email u \<noteq> None \<and> uu_Email u = uu_Email v \<longrightarrow> uu_ID u = uu_ID v)"

definition users_ok :: "users_db \<Rightarrow> bool" where
  "users_ok db \<longleftrightarrow> keys_distinct uu_ID (users_tbl db) \<and> distinct (map uu_Username (users_tbl db)) \<and> emails_distinct (users_tbl db) \<and>
     (\<forall>u \<in> set (users_tbl db). uu_Role u \<in> set validRoles \<and> (\<forall>c. uu_CreatedBy u = Some c \<longrightarrow> c \<in> uu_ID ` set (users_tbl db)))"

inductive user_step :: "auth_lib \<Rightarrow> users_db \<Rightarrow> users_db \<Rightarrow> bool" for lib where
  create: "CreateUser lib env c inp db = (r, db') \<Longrightarrow> user_step lib db db'"
| update: "UpdateUser env i uin db = (r, db') \<Longrightarrow> user_step lib db db'"
| password: "UpdatePassword lib env i pw db = (ru, db') \<Longrightarrow> user_step lib db db'"
| deactivate: "DeactivateUser env i actor db = (ru, db') \<Longrightarrow> user_step lib db db'"

lemma validateRole_iff: "validateRole r = Inr () \<longleftrightarrow> r \<in> set validRoles"
  by (auto simp: validateRole_def validRoles_def)

text \<open>What a call can do to the table: append a new account, or rewrite one that keeps its name, its creator and, when disabled, that too.\<close>

definition account_kept :: "user_row \<Rightarrow> user_row \<Rightarrow> bool" where
  "account_kept u v \<longleftrightarrow> uu_ID v = uu_ID u \<and> uu_Username v = uu_Username u \<and> uu_CreatedBy v = uu_CreatedBy u \<and> (uu_IsActive v \<longrightarrow> uu_IsActive u)"

lemma user_step_view:
  assumes "user_step lib db db'"
  shows "db' = db \<or>
    (\<exists>u c. users_tbl db' = users_tbl db @ [u] \<and> uu_ID u \<notin> uu_ID ` set (users_tbl db) \<and> uu_Username u \<notin> uu_Username ` set (users_tbl db) \<and>
       uu_Email u \<notin> uu_Email ` set (users_tbl db) \<and> uu_Role u \<in> set validRoles \<and> uu_CreatedBy u = Some c \<and> c \<in> uu_ID ` set (users_tbl db)) \<or>
    (\<exists>i f. users_tbl db' = update_where (\<lambda>u. uu_ID u = i) f (users_tbl db) \<and>
       (\<forall>u. account_kept u (f u) \<and> (uu_Role (f u) = uu_Role u \<or> uu_Role (f u) \<in> set validRoles)) \<and>
       ((\<forall>u. uu_Email (f u) = uu_Email u) \<or>
        (\<exists>e. (\<forall>u. uu_Email (f u) = Some e) \<and> (\<forall>v \<in> set (users_tbl db). uu_Email v = Some e \<longrightarrow> uu_ID v = i))))"
  using assms
proof cases
  case (create env c inp r)
  show ?thesis
  proof (cases "db' = db")
    case False
    then obtain hash ri where role: "cu_in_Role inp \<in> set validRoles" and ins: "insertUser env \<lparr>uu_ID = uuid_Nil, uu_Username = cu_in_Username inp, uu_PasswordHash = hash,
        uu_Role = cu_in_Role inp, uu_FullName = cu_in_FullName inp, uu_Email = Some (cu_in_Email inp), uu_IsActive = False, uu_CreatedAt = 0, uu_UpdatedAt = None,
        uu_CreatedBy = Some c\<rparr> db = (ri, db')"
      using create by (auto simp: CreateUser_def Let_def validateRole_iff split: sum.splits prod.splits)
    obtain u where u: "users_tbl db' = users_tbl db @ [u]" "uu_Role u = cu_in_Role inp" "uu_CreatedBy u = Some c" "c \<in> uu_ID ` set (users_tbl db)"
      "\<forall>v \<in> set (users_tbl db). uu_ID v \<noteq> uu_ID u \<and> uu_Username v \<noteq> uu_Username u \<and> uu_Email v \<noteq> uu_Email u"
      using ins False by (auto simp: insertUser_def Let_def list_ex_iff split: if_splits)
    then have "uu_ID u \<notin> uu_ID ` set (users_tbl db) \<and> uu_Username u \<notin> uu_Username ` set (users_tbl db) \<and> uu_Email u \<notin> uu_Email ` set (users_tbl db)"
      by (metis imageE)
    then show ?thesis using u(1-4) role by auto
  qed simp
next
  case (update env i uin r)
  let ?u = "\<lparr>uu_ID = i, uu_Username = [], uu_PasswordHash = [], uu_Role = uui_Role uin, uu_FullName = uui_FullName uin,
    uu_Email = Some (uui_Email uin), uu_IsActive = False, uu_CreatedAt = 0, uu_UpdatedAt = None, uu_CreatedBy = None\<rparr>"
  show ?thesis
  proof (cases "db' = db")
    case False
    then have "uui_Role uin \<in> set validRoles" "users_tbl db' = update_where (\<lambda>v. uu_ID v = i) (user_update env ?u) (users_tbl db)"
      "\<forall>v \<in> set (users_tbl db). uu_Email v = Some (uui_Email uin) \<longrightarrow> uu_ID v = i"
      using update by (auto simp: UpdateUser_def updateUser_def Let_def list_ex_iff validateRole_iff split: sum.splits if_splits option.splits)
    then show ?thesis by (intro disjI2 exI [of _ i] exI [of _ "user_update env ?u"]) (auto simp: user_update_def account_kept_def)
  qed simp
next
  case (password env i pw ru)
  then show ?thesis
    by (auto simp: UpdatePassword_def updatePassword_def account_kept_def split: sum.splits if_splits
      intro!: exI [of _ i] exI [of _ "\<lambda>u. u\<lparr>uu_PasswordHash := _, uu_UpdatedAt := Some (now env)\<rparr>"])
next
  case (deactivate env i actor ru)
  then show ?thesis
    by (auto simp: DeactivateUser_def deactivateUser_def account_kept_def split: if_splits
      intro!: exI [of _ i] exI [of _ "\<lambda>u. u\<lparr>uu_IsActive := False, uu_UpdatedAt := Some (now env)\<rparr>"])
qed

lemma user_step_cases:
  assumes "user_step lib db db'"
  obtains (same) "db' = db"
  | (new) u c where "users_tbl db' = users_tbl db @ [u]" "uu_ID u \<notin> uu_ID ` set (users_tbl db)" "uu_Username u \<notin> uu_Username ` set (users_tbl db)"
      "uu_Email u \<notin> uu_Email ` set (users_tbl db)" "uu_Role u \<in> set validRoles" "uu_CreatedBy u = Some c" "c \<in> uu_ID ` set (users_tbl db)"
  | (edit) i f where "users_tbl db' = update_where (\<lambda>u. uu_ID u = i) f (users_tbl db)"
      "\<forall>u. account_kept u (f u) \<and> (uu_Role (f u) = uu_Role u \<or> uu_Role (f u) \<in> set validRoles)"
      "(\<forall>u. uu_Email (f u) = uu_Email u) \<or>
       (\<exists>e. (\<forall>u. uu_Email (f u) = Some e) \<and> (\<forall>v \<in> set (users_tbl db). uu_Email v = Some e \<longrightarrow> uu_ID v = i))"
  using user_step_view [OF assms]
  by (elim disjE) (erule same, (elim exE conjE, rule new; assumption), (elim exE, erule conjE, erule conjE, rule edit; assumption))

lemma seeded_ok: "seeded db \<Longrightarrow> users_ok db"
proof -
  assume s: "seeded db"
  let ?t = "users_tbl db"
  have key: "map (\<lambda>u. (uu_Username u, uu_Role u, uu_Email u)) ?t = seed_accounts" using s by (simp add: seeded_def)
  have "map uu_Username ?t = map fst (map (\<lambda>u. (uu_Username u, uu_Role u, uu_Email u)) ?t)" by simp
  then have names: "distinct (map uu_Username ?t)" by (simp add: key seed_accounts_def)
  have row: "(uu_Username u, uu_Role u, uu_Email u) \<in> set seed_accounts" if "u \<in> set ?t" for u using that key by (metis (mono_tags, lifting) image_eqI list.set_map)
  have role: "uu_Role u \<in> set validRoles" if "u \<in> set ?t" for u using row [OF that] by (auto simp: seed_accounts_def validRoles_def role_defs)
  have "uu_Username u = uu_Username v" if "u \<in> set ?t" "v \<in> set ?t" "uu_Email u \<noteq> None" "uu_Email u = uu_Email v" for u v
    using row [OF that(1)] row [OF that(2)] that(3,4) by (auto simp: seed_accounts_def)
  moreover have "u = v" if "u \<in> set ?t" "v \<in> set ?t" "uu_Username u = uu_Username v" for u v using that names by (simp add: distinct_map inj_on_def)
  ultimately have "emails_distinct ?t" unfolding emails_distinct_def by (metis (no_types, lifting))
  then show ?thesis using s names role by (simp add: users_ok_def seeded_def list_all_iff)
qed

lemma user_step_ok:
  assumes "user_step lib db db'" and ok: "users_ok db"
  shows "users_ok db'"
  using assms(1)
proof (cases rule: user_step_cases)
  case (new u c)
  have "emails_distinct (users_tbl db')" using ok new(4) unfolding users_ok_def emails_distinct_def new(1) by (auto simp: image_iff)
  then show "users_ok db'" using ok new by (auto simp: users_ok_def)
next
  case (edit i f)
  note upd = edit(1,2) and mail = edit(3)
  have kept: "uu_ID (f u) = uu_ID u" "uu_Username (f u) = uu_Username u" "uu_CreatedBy (f u) = uu_CreatedBy u"
    "uu_Role u \<in> set validRoles \<Longrightarrow> uu_Role (f u) \<in> set validRoles" for u
    using upd(2) [rule_format, of u] by (auto simp: account_kept_def)
  have maps: "map uu_ID (users_tbl db') = map uu_ID (users_tbl db)" "map uu_Username (users_tbl db') = map uu_Username (users_tbl db)"
    unfolding upd(1) by (auto simp: update_where_def kept)
  then have ids: "uu_ID ` set (users_tbl db') = uu_ID ` set (users_tbl db)" by (metis list.set_map)
  have rows: "\<exists>u \<in> set (users_tbl db). v = u \<and> uu_ID u \<noteq> i \<or> v = f u \<and> uu_ID u = i" if "v \<in> set (users_tbl db')" for v
    using that unfolding upd(1) set_update_where by auto
  have "emails_distinct (users_tbl db')" unfolding emails_distinct_def
  proof (intro ballI impI)
    fix v w assume v: "v \<in> set (users_tbl db')" and w: "w \<in> set (users_tbl db')" and m: "uu_Email v \<noteq> None \<and> uu_Email v = uu_Email w"
    from rows [OF v] rows [OF w] obtain a b where a: "a \<in> set (users_tbl db)" "v = a \<and> uu_ID a \<noteq> i \<or> v = f a \<and> uu_ID a = i"
      and b: "b \<in> set (users_tbl db)" "w = b \<and> uu_ID b \<noteq> i \<or> w = f b \<and> uu_ID b = i" by blast
    have "emails_distinct (users_tbl db)" using ok by (simp add: users_ok_def)
    then have old: "uu_Email a \<noteq> None \<Longrightarrow> uu_Email a = uu_Email b \<Longrightarrow> uu_ID a = uu_ID b" unfolding emails_distinct_def using a(1) b(1) by blast
    have ids: "uu_ID v = uu_ID a" "uu_ID w = uu_ID b" using a(2) b(2) kept(1) by auto
    from mail show "uu_ID v = uu_ID w"
    proof
      assume "\<forall>u. uu_Email (f u) = uu_Email u"
      then have "uu_Email v = uu_Email a" "uu_Email w = uu_Email b" using a(2) b(2) by metis+
      then show ?thesis using old m ids by metis
    next
      assume "\<exists>e. (\<forall>u. uu_Email (f u) = Some e) \<and> (\<forall>v \<in> set (users_tbl db). uu_Email v = Some e \<longrightarrow> uu_ID v = i)"
      then obtain e where e: "\<forall>u. uu_Email (f u) = Some e" "\<forall>v \<in> set (users_tbl db). uu_Email v = Some e \<longrightarrow> uu_ID v = i" by blast
      show ?thesis
      proof (cases "uu_ID a = i \<or> uu_ID b = i")
        case True
        have "uu_ID a = i \<Longrightarrow> uu_Email v = Some e" "uu_ID a \<noteq> i \<Longrightarrow> v = a" "uu_ID b = i \<Longrightarrow> uu_Email w = Some e" "uu_ID b \<noteq> i \<Longrightarrow> w = b"
          using a(2) b(2) e(1) by metis+
        then have "uu_ID a = i \<and> uu_ID b = i" using True m e(2) a(1) b(1) by metis
        then show ?thesis using ids by simp
      next
        case False
        then have "v = a" "w = b" using a(2) b(2) by metis+
        then show ?thesis using old m by metis
      qed
    qed
  qed
  moreover have "uu_Role v \<in> set validRoles \<and> (\<forall>c. uu_CreatedBy v = Some c \<longrightarrow> c \<in> uu_ID ` set (users_tbl db'))" if "v \<in> set (users_tbl db')" for v
    using rows [OF that] ok kept unfolding users_ok_def ids by auto
  ultimately show "users_ok db'" using ok maps by (simp add: users_ok_def)
qed (use ok in simp)

interpretation users: invariant seeded "user_step lib" users_ok
  by unfold_locales (auto intro: seeded_ok user_step_ok)

section \<open>Accounts over time\<close>

text \<open>An account never disappears or changes its name, and one that is disabled stays disabled: it can never log in again.\<close>

lemma user_step_kept:
  assumes "user_step lib db db'" and "u \<in> set (users_tbl db)"
  shows "\<exists>v \<in> set (users_tbl db'). account_kept u v"
  using assms(1)
proof (cases rule: user_step_cases)
  case (edit i f)
  have "(if uu_ID u = i then f u else u) \<in> set (users_tbl db')" using assms(2) unfolding edit(1) set_update_where by (rule imageI)
  moreover have "account_kept u (if uu_ID u = i then f u else u)" using edit(2) by (simp add: account_kept_def)
  ultimately show ?thesis by blast
qed (use assms(2) in \<open>auto simp: account_kept_def\<close>)

lemma account_kept_run:
  assumes "(user_step lib)\<^sup>*\<^sup>* db db'" and "u \<in> set (users_tbl db)"
  shows "\<exists>v \<in> set (users_tbl db'). account_kept u v"
  using assms
proof (induction rule: rtranclp_induct)
  case (step db1 db2)
  then obtain v where v: "v \<in> set (users_tbl db1)" "account_kept u v" by blast
  with user_step_kept [OF step.hyps(2) v(1)] show ?case by (auto simp: account_kept_def)
qed (auto simp: account_kept_def)

lemma Login_view:
  assumes "Login lib secret env inp db = Inr res"
  shows "\<exists>u \<in> set (users_tbl db). uu_Username u = li_Username inp \<and> uu_IsActive u \<and> bcryptCompare lib (uu_PasswordHash u) (li_Password inp) \<and>
    res = \<lparr>lr_Token = ''Bearer '' @ SignToken lib secret (uuidString lib (uu_ID u)) (uu_Role u) (now env + tokenTTL), lr_Role = uu_Role u,
           lr_ExpiresAt = now env + tokenTTL\<rparr>"
  using assms by (auto simp: Login_def selectUserByUsername_def Let_def find_Some_iff split: if_splits option.splits sum.splits)

lemma disabled_never_logs_in:
  assumes "users_ok db" and "u \<in> set (users_tbl db)" and "\<not> uu_IsActive u" and "(user_step lib)\<^sup>*\<^sup>* db db'" and "li_Username inp = uu_Username u"
  shows "isl (Login lib secret env inp db')"
proof (rule ccontr)
  assume "\<not> isl (Login lib secret env inp db')"
  then obtain res where "Login lib secret env inp db' = Inr res" by (metis sum.collapse(2))
  from Login_view [OF this] obtain w where w: "w \<in> set (users_tbl db')" "uu_Username w = uu_Username u" "uu_IsActive w" using assms(5) by auto
  obtain v where v: "v \<in> set (users_tbl db')" "account_kept u v" using account_kept_run [OF assms(4,2)] by blast
  have "users_ok db'" by (rule users.star_inv [OF assms(1,4)])
  then have "v = w" using v w by (auto simp: users_ok_def account_kept_def distinct_map inj_on_def)
  then show False using v(2) w(3) assms(3) by (simp add: account_kept_def)
qed

text \<open>
  The column of addresses is unique and the service writes the empty text when no address is given. So when one account has it, every further
  account without an address is refused as a conflict, whatever its name.
\<close>

lemma second_account_without_email:
  assumes "u \<in> set (users_tbl db)" and "uu_Email u = Some []" and "cu_in_Email inp = []" and "bcryptGenerate lib env (cu_in_Password inp) = Inr h"
    and "cu_in_Role inp \<in> set validRoles"
  shows "CreateUser lib env c inp db = (Inl (Biz ErrConflict), db)"
proof -
  have "validateRole (cu_in_Role inp) = Inr ()" using assms(5) by (simp add: validateRole_iff)
  then show ?thesis using assms(1-4) by (auto simp: CreateUser_def insertUser_def Let_def list_ex_iff)
qed

section \<open>The token of a log-in\<close>

text \<open>
  C19: a log-in gives access for a day. In every state the calls can reach, a log-in that succeeds is that of an active account with
  the given name and a matching password. As long as the JSON form of a payload is read back as it was written, the middleware with
  the same key answers the token with the identity and the role of that account until the expiry, one day later to the second, and with a refusal afterwards, and
  the account's role passes the guard of every worker route. A middleware with another key refuses the token unless both keys hash its payload alike.
\<close>

theorem issued_token_authenticates:
  assumes "reach seeded (user_step lib) db" and "Login lib secret env inp db = Inr res"
    and "\<forall>p. tp_UserID p \<in> range (uuidString lib) \<and> tp_Role p \<in> set validRoles \<longrightarrow> jsonUnmarshal lib (jsonMarshal lib p) = Some p"
  shows "\<exists>u \<in> set (users_tbl db). uu_Username u = li_Username inp \<and> uu_IsActive u \<and> bcryptCompare lib (uu_PasswordHash u) (li_Password inp) \<and>
    (let exp = now env + 86400000000;
         who = \<lparr>id_UserID = uuidString lib (uu_ID u), id_Role = uu_Role u\<rparr>;
         payload = EncodeToString (jsonMarshal lib \<lparr>tp_UserID = id_UserID who, tp_Role = id_Role who, tp_Exp = unix exp\<rparr>)
     in lr_ExpiresAt res = exp \<and> lr_Role res = uu_Role u \<and> RequireWorkerUp (Some who) \<and>
        (\<forall>clock. Middleware lib secret clock (lr_Token res) = (if unix clock \<le> unix exp then Inr who else Inl ''token expired'')) \<and>
        (\<forall>key clock. computeHMAC lib payload key \<noteq> computeHMAC lib payload secret \<longrightarrow>
           Middleware lib key clock (lr_Token res) = Inl ''invalid token signature''))"
proof -
  have ttl: "tokenTTL = 86400000000" by (simp add: tokenTTL_def)
  from Login_view [OF assms(2)] obtain u where u: "u \<in> set (users_tbl db)" "uu_Username u = li_Username inp" "uu_IsActive u"
    "bcryptCompare lib (uu_PasswordHash u) (li_Password inp)"
    and res: "res = \<lparr>lr_Token = ''Bearer '' @ SignToken lib secret (uuidString lib (uu_ID u)) (uu_Role u) (now env + 86400000000), lr_Role = uu_Role u,
      lr_ExpiresAt = now env + 86400000000\<rparr>" unfolding ttl by blast
  have role: "uu_Role u \<in> set validRoles" using users.reach_inv [OF assms(1)] u(1) by (simp add: users_ok_def)
  have json: "jsonUnmarshal lib (jsonMarshal lib \<lparr>tp_UserID = uuidString lib (uu_ID u), tp_Role = uu_Role u, tp_Exp = e\<rparr>) =
    Some \<lparr>tp_UserID = uuidString lib (uu_ID u), tp_Role = uu_Role u, tp_Exp = e\<rparr>" for e using assms(3) role by simp
  note token = SignToken_accepted [OF json role refl, where secret = secret and exp = "now env + 86400000000"]
  show ?thesis by (rule bexI [OF _ u(1)]) (use u role token in \<open>simp add: res Let_def persona_tiers(1)\<close>)
qed

text \<open>A small server: the seven accounts, passwords stored with a mark, and payloads written with their lengths in front.\<close>

definition with_length :: "string \<Rightarrow> string" where
  "with_length s = replicate (length s) CHR ''1'' @ CHR ''0'' # s"

definition read_length :: "string \<Rightarrow> string \<times> string" where
  "read_length t = (let n = length (takeWhile (\<lambda>c. c = CHR ''1'') t); r = drop (Suc n) t in (take n r, drop n r))"

definition desk_marshal :: "tokenPayload \<Rightarrow> string" where
  "desk_marshal p = with_length (tp_UserID p) @ with_length (tp_Role p) @ (if tp_Exp p < 0 then CHR ''-'' else CHR ''+'') # replicate (nat \<bar>tp_Exp p\<bar>) CHR ''1''"

definition desk_unmarshal :: "string \<Rightarrow> tokenPayload option" where
  "desk_unmarshal t =
     (let (u, t1) = read_length t; (r, t2) = read_length t1 in
      case t2 of [] \<Rightarrow> None | c # d \<Rightarrow> Some \<lparr>tp_UserID = u, tp_Role = r, tp_Exp = (if c = CHR ''-'' then - int (length d) else int (length d))\<rparr>)"

definition desk_lib :: "auth_lib" where
  "desk_lib = \<lparr>jsonMarshal = desk_marshal, jsonUnmarshal = desk_unmarshal, hmacSHA256 = (\<lambda>key m. key @ rev m), bcryptGenerate = (\<lambda>_ pw. Inr (''#'' @ pw)),
     bcryptCompare = (\<lambda>h pw. h = ''#'' @ pw), uuidString = (\<lambda>i. replicate i CHR ''1'')\<rparr>"

definition desk_user :: "uuid \<Rightarrow> string \<times> string \<times> string option \<Rightarrow> user_row" where
  "desk_user i a = \<lparr>uu_ID = i, uu_Username = fst a, uu_PasswordHash = ''#secret'', uu_Role = fst (snd a), uu_FullName = [], uu_Email = snd (snd a),
     uu_IsActive = True, uu_CreatedAt = 0, uu_UpdatedAt = None, uu_CreatedBy = None\<rparr>"

definition desk_db :: users_db where
  "desk_db = \<lparr>users_tbl = map2 desk_user [1, 2, 3, 4, 5, 6, 7] seed_accounts\<rparr>"

lemma read_with_length: "read_length (with_length s @ t) = (s, t)"
proof -
  have "takeWhile (\<lambda>c. c = CHR ''1'') (replicate n CHR ''1'' @ CHR ''0'' # r) = replicate n CHR ''1''" for n r by (induction n) auto
  then have "takeWhile (\<lambda>c. c = CHR ''1'') (with_length s @ t) = replicate (length s) CHR ''1''" by (simp add: with_length_def)
  then show ?thesis by (simp add: read_length_def with_length_def)
qed

lemma desk_json: "desk_unmarshal (desk_marshal p) = Some p"
  by (cases p) (simp add: desk_unmarshal_def desk_marshal_def read_with_length)

theorem issued_token_authenticates_witness:
  "\<exists>res. Login desk_lib ''key'' \<lparr>now = 1000, fresh = \<lambda>n. n\<rparr> \<lparr>li_Username = ''planner'', li_Password = ''secret''\<rparr> desk_db = Inr res \<and>
     Middleware desk_lib ''key'' 86400001000 (lr_Token res) = Inr \<lparr>id_UserID = ''1111'', id_Role = ''planner''\<rparr> \<and>
     Middleware desk_lib ''key'' 86401001000 (lr_Token res) = Inl ''token expired''"
proof -
  let ?env = "\<lparr>now = 1000, fresh = \<lambda>n. n\<rparr>" let ?inp = "\<lparr>li_Username = ''planner'', li_Password = ''secret''\<rparr>"
  have rows: "users_tbl desk_db = map2 desk_user [1, 2, 3, 4, 5, 6, 7] seed_accounts" by (simp add: desk_db_def)
  have "seeded desk_db" by (simp add: seeded_def rows seed_accounts_def desk_user_def)
  then have reach: "reach seeded (user_step desk_lib) desk_db" by (rule reach_init)
  obtain res where login: "Login desk_lib ''key'' ?env ?inp desk_db = Inr res"
    by (simp add: Login_def selectUserByUsername_def rows seed_accounts_def desk_user_def desk_lib_def Let_def)
  have json: "\<forall>p. tp_UserID p \<in> range (uuidString desk_lib) \<and> tp_Role p \<in> set validRoles \<longrightarrow> jsonUnmarshal desk_lib (jsonMarshal desk_lib p) = Some p"
    by (simp add: desk_lib_def desk_json)
  from issued_token_authenticates [OF reach login json] obtain u where u: "u \<in> set (users_tbl desk_db)" "uu_Username u = ''planner''" and
    token: "\<forall>clock. Middleware desk_lib ''key'' clock (lr_Token res) = (if unix clock \<le> unix 86400001000
      then Inr \<lparr>id_UserID = uuidString desk_lib (uu_ID u), id_Role = uu_Role u\<rparr> else Inl ''token expired'')" by (auto simp: Let_def)
  have "u = desk_user 4 (''planner'', ''planner'', None)" using u by (auto simp: rows seed_accounts_def desk_user_def)
  then have "uuidString desk_lib (uu_ID u) = ''1111''" "uu_Role u = ''planner''" by (simp_all add: desk_lib_def desk_user_def numeral_eq_Suc)
  moreover have "unix 86400001000 \<le> unix 86400001000" "\<not> unix 86401001000 \<le> unix 86400001000" by (simp_all add: unix_def)
  ultimately show ?thesis using login token by simp
qed

end
