(* ===== verification/Spec2Isabelle.thy ===== *)
theory Spec2Isabelle
  imports Inventory_Stock_Props Production_Schedule_Props Planning_Props Costing_Props Purchasing_Props
    Sales_Flow_Props Sales_Mapping_Props Sales_Refinement Sales_Wiring Packing_Props Delivery_Props Exceptions_Props
    Barcode_Props Shipping_Props Catalog_Props Customer_Orders Scrap User_Props
begin

text \<open>
  \<^bold>\<open>A verification of the Vmarble warehouse management service.\<close>

  The service is a Go monolith over PostgreSQL. Each module under \<^verbatim>\<open>internal/module\<close> has an interface
  (\<^verbatim>\<open>iface.go\<close>), a service that checks requests (\<^verbatim>\<open>service.go\<close>), a store that runs SQL
  (\<^verbatim>\<open>pgstore.go\<close>) and the interfaces of the modules it calls (\<^verbatim>\<open>deps.go\<close>), which
  \<^verbatim>\<open>cmd/server/main.go\<close> connects by adapters. The development follows that structure.

  \<^bold>\<open>How a module is modelled.\<close> A table is a list of records in insertion order, a module's
  tables are one record, and a call is a function from the tables to a result and new tables
  (the type \<open>op\<close> of \<open>Prelude\<close>; \<open>Inl\<close> is the error). A store function keeps the name it has in
  \<^verbatim>\<open>pgstore.go\<close> and is the SQL statement written as list operations, with the constraints of the
  migrations as errors (unique and foreign keys, checks, the range of a column). A function
  that opens a transaction returns the old tables with an error; one that does not returns what the
  statements before the error left. The clock and the generator of identifiers are the record
  \<open>env\<close>. Modules called through an interface are a record of functions over an abstract
  outside state \<open>'x\<close>, so what is proved holds whatever they do, and the wiring of
  \<^verbatim>\<open>main.go\<close> instantiates it with the other modules. Where the migrations built a table that the
  code does not expect, the difference is a field of a schema record, with the migrated value
  as a constant (\<open>migrated_schema\<close>, \<open>migrated_prod_schema\<close>, \<open>migrated_pur_schema\<close>).
  Go's \<^verbatim>\<open>int\<close> is an integer reduced by \<open>i64\<close> where the code computes; \<^verbatim>\<open>float64\<close> is rounding to 53 bits
  (\<open>Float64\<close>), \<^verbatim>\<open>NUMERIC\<close> is exact. No model needs fuel: every loop of the modelled code runs over a
  list; the one unbounded activity, a client that follows cursors, is given as many requests as
  the table has rows, which the listing theorem shows to be enough.

  \<^bold>\<open>Theories.\<close>
  \<^item> \<open>Prelude\<close>: result and operation types, table operations with their laws (select, update,
    delete and insert with constraints), 64-bit arithmetic, the locale \<open>invariant\<close> of a
    transition system with an inductive invariant, and reachability.
  \<^item> \<open>Domain\<close> (\<^verbatim>\<open>internal/domain\<close>): dimensions, money, the status types and the transition table.
  \<^item> \<open>Paging\<close> (\<^verbatim>\<open>internal/platform/httpkit\<close>): page parameters, cursors, error statuses, and the
    locale of keyset listings that shows them complete.
  \<^item> \<open>Inventory_Store\<close>, \<open>Inventory_Service\<close> (\<^verbatim>\<open>internal/module/inventory\<close>): lots, sheets, cuts, remnants,
    allocation, transfers, cycle counts, quality control, claims. \<open>Inventory_Invariant\<close>: the
    transactions as a step relation and the invariant that carries conservation of area;
    \<open>Inventory_Lifecycle\<close>, \<open>Inventory_Listings\<close>: life cycles and keyset listings;
    \<open>Inventory_Props\<close>, \<open>Inventory_Stock_Props\<close>: the properties.
  \<^item> \<open>Production_Store\<close>, \<open>Production_Service\<close> (\<^verbatim>\<open>internal/module/production\<close>): work orders, labour, slots,
    assignment, partial completion, preemption. \<open>Production_Invariant\<close> and the properties in
    \<open>Production_Props\<close> (orders) and \<open>Production_Schedule_Props\<close> (slots, assignment, creation).
  \<^item> \<open>Planning\<close>, \<open>Planning_Wiring\<close> (\<^verbatim>\<open>internal/module/planning\<close>, adapters of \<^verbatim>\<open>main.go\<close>), \<open>Planning_Invariant\<close> (both modules
    as one system), \<open>Planning_Props\<close>.
  \<^item> \<open>Costing\<close> (\<^verbatim>\<open>internal/module/costing\<close>), \<open>Costing_Invariant\<close> (costing and production as one
    system, the gate that closes the books), \<open>Costing_Props\<close>.
  \<^item> \<open>Purchasing\<close> (\<^verbatim>\<open>internal/module/purchasing\<close>), \<open>Purchasing_Props\<close>.
  \<^item> \<open>Sales_Store\<close>, \<open>Sales_Service\<close> (\<^verbatim>\<open>internal/module/sales\<close>): customers, sales orders and their lines, splitting,
    shipments, customer SKU mappings. \<open>Sales_Invariant\<close>: the service as a step relation, the
    quantities of a line and the statuses of an order; \<open>Sales_Props\<close>, \<open>Sales_Flow_Props\<close>, \<open>Sales_Mapping_Props\<close>:
    the properties; \<open>Sales_Refinement\<close>: the contract of an order's book and the proof that the
    service implements it; \<open>Sales_Wiring\<close>: the splitter adapter of \<^verbatim>\<open>main.go\<close>.
  \<^item> \<open>Packing_Store\<close>, \<open>Packing_Service\<close> (\<^verbatim>\<open>internal/module/packing\<close>): the pool of finished goods, defects, allocations,
    reservation on container lines; \<open>Durations\<close>: days between instants. \<open>Packing_Invariant\<close>, \<open>Packing_Props\<close>.
  \<^item> \<open>Delivery_Store\<close>, \<open>Delivery_Plans\<close>, \<open>Delivery_Service\<close>, \<open>Delivery_Transitions\<close> (\<^verbatim>\<open>internal/module/delivery\<close>): containers and
    their lines, loading plans with the checks of the spreadsheet import, capacity, transfers, sealing, reopening,
    shipping, loaders and destinations. \<open>Delivery_Decimals\<close>: what a numeric column does to a float;
    \<open>Delivery_Invariant\<close>, \<open>Delivery_Steps\<close>: the service as a step relation and its invariant; \<open>Delivery_Wiring\<close>: the adapters
    of \<^verbatim>\<open>main.go\<close> to sales and packing; \<open>Delivery_Flow\<close>: the three modules as one system; \<open>Delivery_Props\<close>.
  \<^item> \<open>Exceptions\<close> (\<^verbatim>\<open>internal/module/loading_exception\<close>, its adapters to delivery and sales), \<open>Exceptions_Props\<close>.
  \<^item> \<open>Barcodes\<close> (\<^verbatim>\<open>internal/module/barcode\<close>, its adapters to production, inventory and packing), \<open>Barcode_Props\<close>.
  \<^item> \<open>Shipping\<close> (\<^verbatim>\<open>internal/module/shipping\<close>, on its own tables and on the containers of delivery), \<open>Shipping_Props\<close>.
  \<^item> \<open>Catalog\<close> (\<^verbatim>\<open>internal/module/catalog\<close>: materials, SKUs, packing units, components, bills of materials and
    their variants, with what the other modules read), \<open>Catalog_Props\<close>.
  \<^item> \<open>Customer_Orders\<close> (\<^verbatim>\<open>internal/module/order\<close>), \<open>Fx_Rates\<close> (\<^verbatim>\<open>internal/module/fxrates\<close>), \<open>Scrap\<close> (\<^verbatim>\<open>internal/module/scrap\<close>): each with its
    invariant and its reading lemmas.
  \<^item> \<open>Tokens\<close> (\<^verbatim>\<open>internal/platform/auth\<close>: roles, guards, bearer tokens), \<open>Users\<close> (\<^verbatim>\<open>internal/module/authn\<close>: accounts and log-in), \<open>User_Props\<close>.

  \<^bold>\<open>What is shown.\<close> Of the inventory, as long as no posted cycle count revives used material or declares unused
  material used (\<open>spares_used\<close>): the area cut from a board never exceeds it, every source is cut once, a
  sheet is charged once, concurrent cuts of a source exclude each other. With any cycle counts: statuses follow their life
  cycle but for what a count names, every listing is complete, and the effect of each operation. Of production: the life of a work
  order under every sequence of calls, conservation of quantities when an order is closed short,
  capacity of slots, the effect of each operation. Of planning and production together: orders
  follow their plans, codes are unique, a canceled plan takes its orders with it. Of costing: the amounts
  computed, finality of a finalized cost across both modules, effective totals. Of
  purchasing: the life of an order and what receiving it adds to the stock. Of sales: shipped never exceeds
  planned nor planned ordered, the life of an order, the effect of a split, that a confirmed order can be
  shipped in full when the splitter takes its requests on, that the service refines the book of ordered, planned and shipped quantities,
  and that an import stores one mapping for each row and finds it again. Of packing: a piece is on a line exactly when it is reserved or loaded, the life
  of a piece, and what completing a work order adds to the pool. Of delivery: what a container holds stays within its
  limits, the life of a container, the effect of sealing; and with sales and packing, that what sealed and shipped containers hold for a sales order
  line is covered by its shipped quantity. Of the loading exceptions: sealing waits for the pending ones, their rows are well-formed, a closed
  one stays closed. Of the barcodes: the order of a piece's checkpoints, as long as the clock moves on between its scans. Of shipping with delivery: no container is sealed
  after the cut-off of its vessel. Of the catalogue: unique rows, live references, at most one default packing unit, and a bill of materials that is read
  as it was set. Of exchange rates and customer orders: what was entered is what is read. Of the accounts: a log-in gives
  a token that the middleware accepts for a day, and a disabled account never logs in again. Where the code does not
  keep what it means to keep, the theorem states what happens instead (a second pre-assignment, a
  count that revives a used board, a race between completing and closing short, an estimate
  past a slot's capacity, a carry-over into a canceled plan, a cancelled sales order that ships, a split
  that the server's wiring never lets succeed, a reopened container that is counted twice, a line that its
  reserved pieces pin to its container, a reworked piece that can never fail again, a barcode that comes too late to be scanned, a
  bill of materials that production does not read, a second account without an e-mail address that is refused, an amount of a scrap sale that is answered and stored differently, statements the database refuses).

  \<^bold>\<open>Interfaces.\<close> \<open>invariant\<close> is interpreted on the inventory, production, planning with
  production, costing, purchasing, sales, packing, delivery, delivery with sales and packing, delivery with shipping, the loading exceptions, the
  barcodes, the catalogue, the exchange rates, the customer orders and the accounts; \<open>refinement\<close> (a simulation between transition systems) on the sales orders;
  the keyset listing on the listings of the inventory, of the exceptions and of the customer orders; the canceller
  that planning needs of production on \<open>planningWOCancellerAdapter\<close>; the gate that production
  needs of costing on \<open>costingCheckerAdapter\<close>; the recorder that sealing needs of sales on \<open>deliveryShipmentAdapter\<close>.

  \<^bold>\<open>Interleaving.\<close> A step of a transition system is one service call or one transaction; a call of two or more statements outside a
  transaction (a scan, a change of a vessel) is one step too. In the inventory the posting of a cycle count is a transaction
  like the others; a rule in the step relation (\<open>any_count\<close>, \<open>spares_used\<close>, \<open>no_count\<close>) says which postings a run admits, and
  each theorem names the rule it needs. Where the
  code reads before it opens a transaction, the checks and the commit are also modelled apart
  (\<open>cut_plan\<close> and \<open>recordCutAtomically\<close>, \<open>advance_checks\<close> and \<open>advance_commit\<close>, \<open>split_check\<close> and \<open>split_commit\<close>), and the theorems on
  concurrent cuts and on racing completions let other calls run in between.

  \<^bold>\<open>Not modelled.\<close> Request decoding and rendering, spreadsheet and PDF output, the generated API
  documentation, object storage, notifications and the read-only dashboards and reports
  are input and output around the modelled services. The text of error messages and their detail
  maps carries no decision. Failures of the connection and crashes between statements are not
  modelled. Password hashing, keyed hashes and JSON are parameters. Label images and QR codes are drawn by libraries from one row.
\<close>

section \<open>Statements the database refuses\<close>

text \<open>
  Where a statement of the code does not fit the tables the migrations build, the schema records say so and the operations
  answer with the error of the database. PostgreSQL refuses to lock the nullable side of an outer join, so no order is
  ever reassigned or claimed; the sales order lines have no column \<^verbatim>\<open>code\<close>, so the feasibility check and the list of
  preemption candidates fail; the purchase orders lack the column \<^verbatim>\<open>source_rejection_id\<close>, so no order is drafted, given
  items, ordered, received, cancelled or listed; and the board sheets have no material column, so no remnant is suggested.
\<close>

lemma statements_refused:
  "(\<exists>e. ReassignWorkOrder migrated_prod_schema deps env rea (db, x) = (Inl e, (db, x))) \<and>
   (\<exists>e. ClaimWorkOrder migrated_prod_schema deps env i u (db, x) = (Inl e, (db, x))) \<and>
   (\<exists>e. CheckFeasibility migrated_prod_schema deps env i (db, x) = Inl e) \<and>
   (\<exists>e. ListWOPreemptCandidates migrated_prod_schema deps env i (db, x) = Inl e) \<and>
   (\<exists>e. CreatePO migrated_pur_schema pdeps env cin (pdb, y) = (Inl e, (pdb, y))) \<and>
   (\<exists>e. AddItem migrated_pur_schema env ain pdb = (Inl e, pdb)) \<and>
   (\<exists>e. OrderPO migrated_pur_schema env i pdb = (Inl e, pdb)) \<and>
   (\<exists>e. ReceivePO migrated_pur_schema pdeps env i (pdb, y) = (Inl e, (pdb, y))) \<and>
   (\<exists>e. CancelPO migrated_pur_schema i pdb = (Inl e, pdb)) \<and>
   (\<exists>e. ListPOs migrated_pur_schema pg f pdb = Inl e) \<and>
   (\<exists>e. SuggestRemnants migrated_schema env sug idb = Inl e)"
  using production_refused [of deps env rea db x i u] purchasing_refused [of pdeps env cin pdb y ain i _ _ _ pg f]
    suggestions_refused [of env sug idb]
  by blast

text \<open>
  C32: operations that the constraints of the tables never let succeed, in any state and on any input. The preemption adapter
  of planning passes no material, so the log entry of a preemption names the material \<^verbatim>\<open>uuid.Nil\<close>, which the catalog does not
  have, and violates its foreign key: the transaction rolls back and both orders keep their slots. A carried-over
  sales line repeats the order and the SKU of its parent, which must be unique together, so sales never creates one.
  And so no loading exception is ever resolved as a backorder, which asks sales for such a line. None of the three calls changes a
  table.
\<close>

theorem refused_by_database:
  assumes "uuid_Nil \<notin> set (ref_materials (refs deps x))"
    and "carryOver xdeps = Some (loadingExceptionCarryOverAdapter rf senv)" and "ax_Resolution app = ResolutionBackorder"
  shows "(\<exists>e. PreemptWorkOrder (Some (planningWOAdvisorAdapter sch deps env)) pre (db, x) = (Inl e, (db, x))) \<and>
   (\<exists>e. CreateCarryOverSOLine rf env coi sdb = (Inl e, sdb)) \<and>
   (\<exists>e. ApproveException xdeps env app (edb, sdb) = (Inl e, (edb, sdb)))"
  using PreemptWorkOrder_refused [OF assms(1), of sch env pre db] carry_over_refused [of rf env coi sdb]
    backorder_refused [OF assms(2,3), of env edb sdb]
  by blast

text \<open>A case on container 50 that the planner wants delivered later, with sales behind the adapter.\<close>

definition later_deps :: "sales_db exc_deps" where
  "later_deps = \<lparr>erefs = (\<lambda>_. \<lparr>eref_containers = [50], eref_plans = [], eref_skus = [3], eref_users = [9], eref_so_lines = [21],
       eref_customer_of = (\<lambda>_. [])\<rparr>),
     eskuChecker = None, carryOver = Some (loadingExceptionCarryOverAdapter (srefs desk ()) (desk_env 5)), eauditor = None, enotifier = None\<rparr>"

definition later_approval :: ApproveInput where
  "later_approval = \<lparr>ax_ID = 10, ax_Resolution = ResolutionBackorder, ax_ResolutionNotes = [], ax_SubstituteSKUID = None, ax_ParentSOLineID = Some 21,
     ax_ApprovedBy = 9\<rparr>"

theorem refused_by_database_witness:
  "(\<exists>e. PreemptWorkOrder (Some (planningWOAdvisorAdapter migrated_prod_schema plant (plant_env 8)))
     \<lparr>pt_ToWOID = 60, pt_FromWOID = 40, pt_Reason = ''urgent'', pt_ActorID = 9\<rparr> (floor_cutting, []) = (Inl e, (floor_cutting, []))) \<and>
   (\<exists>e. ApproveException later_deps (plant_env 8) later_approval (fst bay_raised, desk_planned) = (Inl e, (fst bay_raised, desk_planned)))"
proof -
  have "uuid_Nil \<notin> set (ref_materials (refs plant []))" by (simp add: plant_def plant_refs_def uuid_Nil_def)
  moreover have "carryOver later_deps = Some (loadingExceptionCarryOverAdapter (srefs desk ()) (desk_env 5))"
    by (simp add: later_deps_def)
  moreover have "ax_Resolution later_approval = ResolutionBackorder" by (simp add: later_approval_def)
  ultimately show ?thesis by (blast dest: refused_by_database)
qed

section \<open>Sales orders never reach production\<close>

text \<open>
  C35: splitting a sales order never succeeds as the server is wired. The splitter creates the plan as a draft and
  immediately asks production for work orders, which production grants under an approved plan only. So every
  \<^verbatim>\<open>SplitToPlan\<close>, for any order and any state of the tables, ends in an error; no planned quantity grows and no
  work order appears, and a draft plan may be left behind.
\<close>

theorem SplitToPlan_never:
  "\<exists>e pdb'. SplitToPlan (sdeps\<lparr>splitter := Some (salesProductionSplitterAdapter rf year deps envs)\<rparr>) inp (db, (pdb, st)) = (Inl e, (db, (pdb', st))) \<and>
     set (plans pdb') \<subseteq> set (plans pdb) \<union> {p. pn_Status p = PlanDraft}"
proof (cases "sp_Allocations inp = [] \<or> list_ex (\<lambda>a. al_Quantity a \<le> 0) (sp_Allocations inp) \<or> isl (split_check inp db)")
  case True
  then show ?thesis by (auto simp: SplitToPlan_def isl_def)
next
  case False
  then obtain so ls where chk: "split_check inp db = Inr (so, ls)" by (cases "split_check inp db") auto
  have rd: "lockAndReadSOLines (map al_SOLineID (sp_Allocations inp)) db = Inr ls"
    using chk by (auto simp: split_check_def split: sum.splits if_splits)
  have "length ls = length (sp_Allocations inp)" using list_all2_lengthD [OF lockAndReadSOLines_rows [OF rd]] by simp
  then have "pwr_Items (split_request inp so ls) \<noteq> []" using False by (cases "sp_Allocations inp"; cases ls) (auto simp: split_request_def)
  from splitter_refuses [OF this, of rf year deps envs pdb st] obtain e pdb'
    where "salesProductionSplitterAdapter rf year deps envs (split_request inp so ls) (pdb, st) = (Inl e, (pdb', st))"
      "\<forall>p \<in> set (plans pdb'). p \<in> set (plans pdb) \<or> pn_Status p = PlanDraft" by blast
  then show ?thesis using False chk by (auto simp: SplitToPlan_def)
qed

end
